(* ===== verification/Prelude.thy ===== *)
theory Prelude
  imports Main "HOL-Library.Word"
begin

text \<open>
  Shared vocabulary of the development: bytes and byte strings as the Go code has them
  (\<open>[]byte\<close>), the big-endian writers of \<open>encoding/binary\<close> that the canonical encoders call,
  signed comparison of \<open>int64\<close> values, and two interface locales used by several components:
  \<open>prefix_code\<close> (an encoder whose output can be split off the front of a byte string in one
  way only) and \<open>distinct_loop\<close> (a loop that rejects repeated keys and a failed check of an
  entry, the shape of every signature-counting loop of the repository).
\<close>

unbundle bit_operations_syntax

type_synonym byte = "8 word"
type_synonym bytes = "8 word list"
type_synonym u16 = "16 word"
type_synonym u32 = "32 word"
type_synonym u64 = "64 word"
type_synonym i64 = "64 word" \<comment> \<open>two's complement, read with \<open>sint\<close>\<close>

named_theorems wire_lengths "lengths of encoded fields"

text \<open>Go's \<open><\<close> and \<open>>\<close> on \<open>int64\<close> compare the two's complement values.\<close>

abbreviation i64_less :: "i64 \<Rightarrow> i64 \<Rightarrow> bool" where
  "i64_less a b \<equiv> sint a < sint b"

text \<open>The signed value of a 64-bit word.\<close>

lemma sint_64: "sint (w :: 64 word) = int (unat w) - (if unat w < 2 ^ 63 then 0 else 2 ^ 64)"
proof -
  have u: "uint w < 2 ^ 64" "0 \<le> uint w" using uint_lt2p [of w] by simp_all
  have "sint w = take_bit 64 (uint w) - 2 ^ 64 * of_bool (bit (uint w) 63)"
    by (simp add: sint_uint signed_take_bit_eq_take_bit_minus)
  moreover have "take_bit 64 (uint w) = uint w" using u by (simp add: take_bit_eq_mod)
  moreover have "bit (uint w) 63 \<longleftrightarrow> 2 ^ 63 \<le> uint w"
  proof (cases "uint w < 2 ^ 63")
    case True
    then have "uint w div 2 ^ 63 = 0" using u by simp
    then show ?thesis using True by (simp add: bit_iff_odd)
  next
    case False
    then have "uint w div 2 ^ 63 = 1" using u by (simp add: int_div_pos_eq)
    then show ?thesis using False by (simp add: bit_iff_odd)
  qed
  ultimately have eq: "sint w = uint w - 2 ^ 64 * of_bool (2 ^ 63 \<le> uint w)" by (simp only:)
  define n where "n = unat w"
  have n: "uint w = int n" by (simp add: n_def)
  show ?thesis
  proof (cases "n < 2 ^ 63")
    case True
    then have "\<not> (2 ^ 63 \<le> int n)" by simp
    then show ?thesis using True unfolding eq n_def [symmetric] n by simp
  next
    case False
    then have "2 ^ 63 \<le> int n" by simp
    then show ?thesis using False unfolding eq n_def [symmetric] n by simp
  qed
qed

lemma sint_64_of_int: "- (2 ^ 63) \<le> i \<Longrightarrow> i < 2 ^ 63 \<Longrightarrow> sint (word_of_int i :: i64) = i"
  unfolding sint_sbintrunc' by (rule signed_take_bit_int_eq_self) simp_all

lemma sint_gap:
  fixes d :: u64
  assumes "0 \<le> lag" and "lag < 2 ^ 63"
  shows "sint d \<le> lag \<longleftrightarrow> int (unat d) \<le> lag \<or> 2 ^ 63 \<le> unat d"
proof -
  define n where "n = unat d"
  have b: "n < 2 ^ 64" unfolding n_def using unsigned_less [of d] by simp
  have s: "sint d = int n - (if n < 2 ^ 63 then 0 else 2 ^ 64)" unfolding n_def by (rule sint_64)
  show ?thesis unfolding s n_def [symmetric] using assms b by (cases "n < 2 ^ 63") simp_all
qed

subsection \<open>Errors as values\<close>

text \<open>\<open>guard b e k\<close> is the early return \<open>if b { return e }; k\<close>.\<close>

definition guard :: "bool \<Rightarrow> 'e \<Rightarrow> 'e + 'a \<Rightarrow> 'e + 'a" where
  "guard b e k = (if b then Inl e else k)"

lemma guard_simps [simp]:
  "guard True e k = Inl e" "guard False e k = k"
  by (simp_all add: guard_def)

lemma guard_Inr [simp]: "guard b e k = Inr x \<longleftrightarrow> \<not> b \<and> k = Inr x"
  by (simp add: guard_def)

lemma guard_cong [cong]:
  "b = b' \<Longrightarrow> e = e' \<Longrightarrow> (\<not> b' \<Longrightarrow> k = k') \<Longrightarrow> guard b e k = guard b' e' k'"
  by (simp add: guard_def)

text \<open>\<open>bind_r r f\<close> is \<open>x, err := r; if err != nil { return err }; f(x)\<close>.\<close>

definition bind_r :: "'e + 'a \<Rightarrow> ('a \<Rightarrow> 'e + 'b) \<Rightarrow> 'e + 'b" where
  "bind_r r f = (case r of Inl e \<Rightarrow> Inl e | Inr x \<Rightarrow> f x)"

lemma bind_r_simps [simp]:
  "bind_r (Inl e) f = Inl e" "bind_r (Inr x) f = f x"
  by (simp_all add: bind_r_def)

lemma bind_r_Inr_iff [simp]: "bind_r r f = Inr y \<longleftrightarrow> (\<exists>x. r = Inr x \<and> f x = Inr y)"
  by (cases r) auto

text \<open>\<open>wrap_err g r\<close> is \<open>if err != nil { return fmt.Errorf("...: %w", err) }\<close>.\<close>

definition wrap_err :: "('d \<Rightarrow> 'e) \<Rightarrow> 'd + 'a \<Rightarrow> 'e + 'a" where
  "wrap_err g r = (case r of Inl d \<Rightarrow> Inl (g d) | Inr x \<Rightarrow> Inr x)"

lemma wrap_err_simps [simp]:
  "wrap_err g (Inl d) = Inl (g d)" "wrap_err g (Inr x) = Inr x"
  by (simp_all add: wrap_err_def)

lemma wrap_err_Inr_iff [simp]: "wrap_err g r = Inr x \<longleftrightarrow> r = Inr x"
  by (cases r) auto

subsection \<open>Big-endian integers\<close>

text \<open>\<open>be_bytes n v\<close> is the \<open>n\<close>-byte big-endian rendering of \<open>v\<close>.\<close>

fun be_bytes :: "nat \<Rightarrow> 'a::len word \<Rightarrow> bytes" where
  "be_bytes 0 v = []"
| "be_bytes (Suc n) v = be_bytes n (drop_bit 8 v) @ [ucast v]"

definition putUint16 :: "u16 \<Rightarrow> bytes" where "putUint16 v = be_bytes 2 v"
definition putUint32 :: "u32 \<Rightarrow> bytes" where "putUint32 v = be_bytes 4 v"
definition putUint64 :: "u64 \<Rightarrow> bytes" where "putUint64 v = be_bytes 8 v"

lemma length_be_bytes [simp, wire_lengths]: "length (be_bytes n v) = n"
  by (induction n arbitrary: v) auto

lemma length_putUint [simp, wire_lengths]:
  "length (putUint16 a) = 2" "length (putUint32 b) = 4" "length (putUint64 c) = 8"
  by (simp_all add: putUint16_def putUint32_def putUint64_def)

lemma be_bytes_bit:
  "be_bytes n v = be_bytes n w \<Longrightarrow> i < 8 * n \<Longrightarrow> bit v i = bit w i"
proof (induction n arbitrary: v w i)
  case 0
  then show ?case by simp
next
  case (Suc n)
  from Suc.prems(1) have hd: "be_bytes n (drop_bit 8 v) = be_bytes n (drop_bit 8 w)"
    and lo: "(ucast v :: 8 word) = ucast w" by auto
  show ?case
  proof (cases "i < 8")
    case True
    from lo have "bit (ucast v :: 8 word) i = bit (ucast w :: 8 word) i" by simp
    with True show ?thesis by (simp add: bit_ucast_iff)
  next
    case False
    with Suc.prems(2) have "i - 8 < 8 * n" by simp
    from Suc.IH [OF hd this] False show ?thesis by (simp add: bit_drop_bit_eq)
  qed
qed

lemma be_bytes_inj:
  fixes v w :: "'a::len word"
  assumes "be_bytes n v = be_bytes n w" and "LENGTH('a) \<le> 8 * n"
  shows "v = w"
proof (rule bit_word_eqI)
  fix i assume "i < LENGTH('a)"
  with assms(2) have "i < 8 * n" by simp
  with assms(1) show "bit v i = bit w i" by (rule be_bytes_bit)
qed

lemma putUint_inject [simp]:
  "putUint16 a = putUint16 a' \<longleftrightarrow> a = a'"
  "putUint32 b = putUint32 b' \<longleftrightarrow> b = b'"
  "putUint64 c = putUint64 c' \<longleftrightarrow> c = c'"
  by (auto simp: putUint16_def putUint32_def putUint64_def dest: be_bytes_inj)

subsection \<open>Prefix codes\<close>

text \<open>
  An encoder with this law can be followed by anything: the encoded value and the rest are
  determined by the whole byte string. \<open>ok\<close> is the set of values the law covers (a length
  field that wraps is not covered).
\<close>

locale prefix_code =
  fixes enc :: "'a \<Rightarrow> bytes" and ok :: "'a \<Rightarrow> bool"
  assumes split: "ok x \<Longrightarrow> ok y \<Longrightarrow> enc x @ r = enc y @ s \<Longrightarrow> x = y \<and> r = s"
begin

lemma append_iff: "ok x \<Longrightarrow> ok y \<Longrightarrow> enc x @ r = enc y @ s \<longleftrightarrow> x = y \<and> r = s"
  using split by blast

lemma inj: "ok x \<Longrightarrow> ok y \<Longrightarrow> enc x = enc y \<longleftrightarrow> x = y"
  using append_iff [of x y "[]" "[]"] by simp

lemma concat_split:
  "length xs = length ys \<Longrightarrow> list_all ok xs \<Longrightarrow> list_all ok ys \<Longrightarrow>
   concat (map enc xs) @ r = concat (map enc ys) @ s \<longleftrightarrow> xs = ys \<and> r = s"
  by (induction xs ys rule: list_induct2) (auto simp: append_iff)

end

interpretation u16_code: prefix_code putUint16 "\<lambda>_. True"
  by unfold_locales auto

interpretation u32_code: prefix_code putUint32 "\<lambda>_. True"
  by unfold_locales auto

interpretation u64_code: prefix_code putUint64 "\<lambda>_. True"
  by unfold_locales auto

text \<open>Lengths as Go writes them: \<open>uint32(len(b))\<close> and \<open>uint16(len(b))\<close>, then the bytes.\<close>

definition len32 :: "bytes \<Rightarrow> bytes" where
  "len32 b = putUint32 (of_nat (length b)) @ b"

definition len16 :: "bytes \<Rightarrow> bytes" where
  "len16 b = putUint16 (of_nat (length b)) @ b"

lemma length_len [simp, wire_lengths]:
  "length (len32 b) = 4 + length b" "length (len16 b) = 2 + length b"
  by (simp_all add: len32_def len16_def)

interpretation len32_code: prefix_code len32 "\<lambda>b. length b < 2 ^ 32"
proof unfold_locales
  fix x y r s :: bytes
  assume ok: "length x < 2 ^ 32" "length y < 2 ^ 32" and eq: "len32 x @ r = len32 y @ s"
  from eq have n: "(of_nat (length x) :: u32) = of_nat (length y)" and t: "x @ r = y @ s"
    by (simp_all add: len32_def u32_code.append_iff)
  have "unat (of_nat (length x) :: u32) = unat (of_nat (length y) :: u32)" using n by simp
  with ok have "length x = length y" by (simp add: unat_of_nat take_bit_eq_mod)
  with t show "x = y \<and> r = s" by simp
qed

interpretation len16_code: prefix_code len16 "\<lambda>b. length b < 2 ^ 16"
proof unfold_locales
  fix x y r s :: bytes
  assume ok: "length x < 2 ^ 16" "length y < 2 ^ 16" and eq: "len16 x @ r = len16 y @ s"
  from eq have n: "(of_nat (length x) :: u16) = of_nat (length y)" and t: "x @ r = y @ s"
    by (simp_all add: len16_def u16_code.append_iff)
  have "unat (of_nat (length x) :: u16) = unat (of_nat (length y) :: u16)" using n by simp
  with ok have "length x = length y" by (simp add: unat_of_nat take_bit_eq_mod)
  with t show "x = y \<and> r = s" by simp
qed

text \<open>A pair of prefix codes, one after the other, is a prefix code.\<close>

definition pair_enc :: "('a \<Rightarrow> bytes) \<Rightarrow> ('b \<Rightarrow> bytes) \<Rightarrow> 'a \<times> 'b \<Rightarrow> bytes" where
  "pair_enc f g p = f (fst p) @ g (snd p)"

locale prefix_pair = a: prefix_code f P + b: prefix_code g Q
  for f :: "'a \<Rightarrow> bytes" and P and g :: "'b \<Rightarrow> bytes" and Q
begin

lemma pair_split: "P (fst x) \<Longrightarrow> Q (snd x) \<Longrightarrow> P (fst y) \<Longrightarrow> Q (snd y) \<Longrightarrow>
  pair_enc f g x @ r = pair_enc f g y @ s \<Longrightarrow> x = y \<and> r = s"
  by (auto simp: pair_enc_def a.append_iff b.append_iff prod_eq_iff)

end

sublocale prefix_pair \<subseteq> prefix_code "pair_enc f g" "\<lambda>x. P (fst x) \<and> Q (snd x)"
  by unfold_locales (auto dest: pair_split)

subsection \<open>Loops that count distinct keys\<close>

text \<open>
  The repository counts signers in one shape everywhere: a loop over a list with a \<open>seen\<close> map,
  returning an error on a repeated key or on an entry that fails a check. Only acceptance
  matters to the clients; which error is returned is stated where it is needed.
\<close>

locale distinct_loop =
  fixes loop :: "'k set \<Rightarrow> 'x list \<Rightarrow> 'e + unit"
    and key :: "'x \<Rightarrow> 'k" and good :: "'x \<Rightarrow> bool"
  assumes nil: "loop seen [] = Inr ()"
    and cons: "loop seen (x # xs) = Inr () \<longleftrightarrow>
      key x \<notin> seen \<and> good x \<and> loop (insert (key x) seen) xs = Inr ()"
begin

lemma accepts: "loop seen xs = Inr () \<longleftrightarrow>
  distinct (map key xs) \<and> set (map key xs) \<inter> seen = {} \<and> list_all good xs"
  by (induction xs arbitrary: seen) (auto simp: nil cons)

lemma accepts_empty: "loop {} xs = Inr () \<longleftrightarrow> distinct (map key xs) \<and> list_all good xs"
  by (simp add: accepts)

text \<open>An accepted list carries at least \<open>k\<close> different keys, each checked.\<close>

lemma quorum: "loop {} xs = Inr () \<Longrightarrow> k \<le> length xs \<Longrightarrow>
  k \<le> card (key ` set xs) \<and> (\<forall>q \<in> key ` set xs. \<exists>x \<in> set xs. key x = q \<and> good x)"
  using distinct_card [of "map key xs"] by (auto simp: accepts_empty list_all_iff)

end

text \<open>Loops over \<open>for i, x := range xs\<close> run on the list with its positions.\<close>

lemma list_all_snd_enumerate: "list_all (\<lambda>p. P (snd p)) (enumerate n xs) = list_all P xs"
  by (induction xs arbitrary: n) simp_all

lemma map_snd_of_enumerate: "map (\<lambda>p. f (snd p)) (enumerate n xs) = map f xs"
  by (induction xs arbitrary: n) simp_all

text \<open>Byte-slice membership: \<open>anyEqual\<close> of \<open>roster_chain.go\<close> and \<open>phoenix.go\<close>.\<close>

fun anyEqual :: "bytes list \<Rightarrow> bytes \<Rightarrow> bool" where
  "anyEqual [] x = False"
| "anyEqual (s # ss) x = (if s = x then True else anyEqual ss x)"

lemma anyEqual_iff [simp]: "anyEqual ss x \<longleftrightarrow> x \<in> set ss"
  by (induction ss) auto

text \<open>Go string literals as bytes.\<close>

definition str :: "string \<Rightarrow> bytes" where
  "str s = map (\<lambda>c. of_nat (of_char c)) s"

lemma length_str [simp, wire_lengths]: "length (str s) = length s"
  by (simp add: str_def)

lemma of_nat_byte_inject:
  "i < 256 \<Longrightarrow> j < 256 \<Longrightarrow> (of_nat i :: byte) = of_nat j \<longleftrightarrow> i = j"
  by (auto simp: word_of_nat_eq_iff take_bit_eq_mod)

lemma of_nat_byte_eq_0: "i < 256 \<Longrightarrow> (of_nat i :: byte) = 0 \<longleftrightarrow> i = 0"
  using of_nat_byte_inject [of i 0] by simp

end
