(* ===== verification/GF256.thy ===== *)
theory GF256
  imports Prelude
begin

text \<open>
  The arithmetic of \<open>internal/qee/shamir.go\<close>: the log and exp tables that the package's
  \<open>init\<close> fills in a loop over the generator 3, and \<open>gfAdd\<close>, \<open>gfMul\<close>, \<open>gfInv\<close> that read
  them. The theory shows that the tables describe the field GF(2^8): the powers of the
  generator run through all non-zero bytes, multiplication by table agrees with repeated
  multiplication by the generator, and the three operations satisfy the field laws. The laws
  are then used through the class \<open>field\<close> on a copy of the byte type.
\<close>

subsection \<open>The tables\<close>

text \<open>One iteration of the loop in \<open>init\<close>, on the state (gfLog, gfExp, x).\<close>

definition gf_init_step :: "nat \<Rightarrow> bytes \<times> bytes \<times> byte \<Rightarrow> bytes \<times> bytes \<times> byte" where
  "gf_init_step i st = (case st of (lg, ex, x) \<Rightarrow>
     let ex' = ex[i := x];
         lg' = lg[unat x := of_nat i];
         hi = x AND 0x80;
         x1 = push_bit 1 x;
         x2 = (if hi \<noteq> 0 then x1 XOR 0x1B else x1);
         x3 = x2 XOR ex' ! i
     in (lg', ex', x3))"

definition gf_init :: "bytes \<times> bytes" where
  "gf_init = (case fold gf_init_step [0..<255] (replicate 256 0, replicate 256 0, 1) of
     (lg, ex, x) \<Rightarrow> (lg, ex[255 := 1]))"

definition gfLog :: "byte \<Rightarrow> byte" where
  "gfLog a = fst gf_init ! unat a"

definition gfExp :: "nat \<Rightarrow> byte" where
  "gfExp i = snd gf_init ! i"

definition gfAdd :: "byte \<Rightarrow> byte \<Rightarrow> byte" where
  "gfAdd a b = a XOR b"

definition gfMul :: "byte \<Rightarrow> byte \<Rightarrow> byte" where
  "gfMul a b = (if a = 0 \<or> b = 0 then 0
     else gfExp ((unat (gfLog a) + unat (gfLog b)) mod 255))"

definition gfInv :: "byte \<Rightarrow> byte" where
  "gfInv a = (if a = 0 then 0 else gfExp ((255 - unat (gfLog a)) mod 255))"

subsection \<open>The generator\<close>

text \<open>What one iteration does to \<open>x\<close>: multiplication by 3 modulo the AES polynomial.\<close>

definition gen :: "byte \<Rightarrow> byte" where
  "gen x = (if x AND 0x80 \<noteq> 0 then push_bit 1 x XOR 0x1B else push_bit 1 x) XOR x"

definition pow3 :: "nat \<Rightarrow> byte" where
  "pow3 n = (gen ^^ n) 1"

text \<open>The 255 powers of the generator, each with its successor.\<close>

definition gen_pairs :: "(byte \<times> byte) list" where
  "gen_pairs = [
    (1, 3), (3, 5), (5, 15), (15, 17), (17, 51), (51, 85), (85, 255), (255, 26),
    (26, 46), (46, 114), (114, 150), (150, 161), (161, 248), (248, 19), (19, 53), (53, 95),
    (95, 225), (225, 56), (56, 72), (72, 216), (216, 115), (115, 149), (149, 164), (164, 247),
    (247, 2), (2, 6), (6, 10), (10, 30), (30, 34), (34, 102), (102, 170), (170, 229),
    (229, 52), (52, 92), (92, 228), (228, 55), (55, 89), (89, 235), (235, 38), (38, 106),
    (106, 190), (190, 217), (217, 112), (112, 144), (144, 171), (171, 230), (230, 49), (49, 83),
    (83, 245), (245, 4), (4, 12), (12, 20), (20, 60), (60, 68), (68, 204), (204, 79),
    (79, 209), (209, 104), (104, 184), (184, 211), (211, 110), (110, 178), (178, 205), (205, 76),
    (76, 212), (212, 103), (103, 169), (169, 224), (224, 59), (59, 77), (77, 215), (215, 98),
    (98, 166), (166, 241), (241, 8), (8, 24), (24, 40), (40, 120), (120, 136), (136, 131),
    (131, 158), (158, 185), (185, 208), (208, 107), (107, 189), (189, 220), (220, 127), (127, 129),
    (129, 152), (152, 179), (179, 206), (206, 73), (73, 219), (219, 118), (118, 154), (154, 181),
    (181, 196), (196, 87), (87, 249), (249, 16), (16, 48), (48, 80), (80, 240), (240, 11),
    (11, 29), (29, 39), (39, 105), (105, 187), (187, 214), (214, 97), (97, 163), (163, 254),
    (254, 25), (25, 43), (43, 125), (125, 135), (135, 146), (146, 173), (173, 236), (236, 47),
    (47, 113), (113, 147), (147, 174), (174, 233), (233, 32), (32, 96), (96, 160), (160, 251),
    (251, 22), (22, 58), (58, 78), (78, 210), (210, 109), (109, 183), (183, 194), (194, 93),
    (93, 231), (231, 50), (50, 86), (86, 250), (250, 21), (21, 63), (63, 65), (65, 195),
    (195, 94), (94, 226), (226, 61), (61, 71), (71, 201), (201, 64), (64, 192), (192, 91),
    (91, 237), (237, 44), (44, 116), (116, 156), (156, 191), (191, 218), (218, 117), (117, 159),
    (159, 186), (186, 213), (213, 100), (100, 172), (172, 239), (239, 42), (42, 126), (126, 130),
    (130, 157), (157, 188), (188, 223), (223, 122), (122, 142), (142, 137), (137, 128), (128, 155),
    (155, 182), (182, 193), (193, 88), (88, 232), (232, 35), (35, 101), (101, 175), (175, 234),
    (234, 37), (37, 111), (111, 177), (177, 200), (200, 67), (67, 197), (197, 84), (84, 252),
    (252, 31), (31, 33), (33, 99), (99, 165), (165, 244), (244, 7), (7, 9), (9, 27),
    (27, 45), (45, 119), (119, 153), (153, 176), (176, 203), (203, 70), (70, 202), (202, 69),
    (69, 207), (207, 74), (74, 222), (222, 121), (121, 139), (139, 134), (134, 145), (145, 168),
    (168, 227), (227, 62), (62, 66), (66, 198), (198, 81), (81, 243), (243, 14), (14, 18),
    (18, 54), (54, 90), (90, 238), (238, 41), (41, 123), (123, 141), (141, 140), (140, 143),
    (143, 138), (138, 133), (133, 148), (148, 167), (167, 242), (242, 13), (13, 23), (23, 57),
    (57, 75), (75, 221), (221, 124), (124, 132), (132, 151), (151, 162), (162, 253), (253, 28),
    (28, 36), (36, 108), (108, 180), (180, 199), (199, 82), (82, 246), (246, 1)]"

lemma gen_pairs_step: "list_all (\<lambda>(x, y). gen x = y) gen_pairs"
  unfolding gen_pairs_def by (simp add: gen_def)

lemma gen_pairs_chain: "map snd gen_pairs = tl (map fst gen_pairs) @ [1]"
  unfolding gen_pairs_def by (simp only: list.map fst_conv snd_conv list.sel append.simps)

lemma gen_pairs_length [simp]: "length gen_pairs = 255"
  unfolding gen_pairs_def by simp

lemma gen_pairs_first: "fst (gen_pairs ! 0) = 1"
  unfolding gen_pairs_def by simp

lemma gen_pairs_zero: "0 \<notin> fst ` set gen_pairs"
  unfolding gen_pairs_def by simp

lemma pow3_Suc: "pow3 (Suc n) = gen (pow3 n)"
  by (simp add: pow3_def)

lemma pow3_0 [simp]: "pow3 0 = 1"
  by (simp add: pow3_def)

lemma gen_pairs_nth: "i < 255 \<Longrightarrow> gen (fst (gen_pairs ! i)) = snd (gen_pairs ! i)"
  using gen_pairs_step by (auto simp: list_all_length split: prod.splits)

lemma pow3_table: "i < 255 \<Longrightarrow> fst (gen_pairs ! i) = pow3 i"
proof (induction i)
  case 0
  show ?case by (simp add: gen_pairs_first)
next
  case (Suc i)
  have "snd (gen_pairs ! i) = (tl (map fst gen_pairs) @ [1]) ! i"
    using Suc.prems by (simp flip: gen_pairs_chain)
  also have "\<dots> = fst (gen_pairs ! Suc i)"
    using Suc.prems by (simp add: nth_append nth_tl)
  finally show ?case using Suc gen_pairs_nth [of i] by (simp add: pow3_Suc)
qed

lemma pow3_255: "pow3 255 = 1"
proof -
  have "snd (gen_pairs ! 254) = (tl (map fst gen_pairs) @ [1]) ! 254"
    by (simp flip: gen_pairs_chain)
  then have "snd (gen_pairs ! 254) = 1" by (simp add: nth_append)
  then have "gen (pow3 254) = 1"
    using gen_pairs_nth [of 254] pow3_table [of 254] by simp
  then show ?thesis using pow3_Suc [of 254] by simp
qed

lemma pow3_add: "pow3 (m + n) = (gen ^^ m) (pow3 n)"
  by (simp add: pow3_def funpow_add)

lemma pow3_period: "pow3 (n + 255 * k) = pow3 n"
proof (induction k)
  case (Suc k)
  have "pow3 (n + 255 * Suc k) = pow3 ((n + 255 * k) + 255)" by (simp add: algebra_simps)
  also have "\<dots> = (gen ^^ (n + 255 * k)) 1" by (simp only: pow3_add pow3_255)
  also have "\<dots> = pow3 (n + 255 * k)" by (simp add: pow3_def)
  finally show ?case using Suc by simp
qed simp

lemma pow3_mod: "pow3 (n mod 255) = pow3 n"
  using pow3_period [of "n mod 255" "n div 255"] by simp

text \<open>
  The generator has order 255: a smaller period would divide 15, 51 or 85, and these powers
  are not 1.
\<close>

lemma pow3_mult: "pow3 d = 1 \<Longrightarrow> pow3 (n + d * k) = pow3 n"
proof (induction k)
  case (Suc k)
  have "pow3 (n + d * Suc k) = pow3 ((n + d * k) + d)" by (simp add: algebra_simps)
  also have "\<dots> = (gen ^^ (n + d * k)) 1" by (simp only: pow3_add Suc.prems)
  also have "\<dots> = pow3 (n + d * k)" by (simp add: pow3_def)
  finally show ?case using Suc by simp
qed simp

lemma pow3_gcd: "pow3 a = 1 \<Longrightarrow> pow3 b = 1 \<Longrightarrow> pow3 (gcd a b) = 1"
proof (induction a b rule: gcd_nat_induct)
  case (base m)
  then show ?case by simp
next
  case (step a b)
  have "pow3 (a mod b) = pow3 (a mod b + b * (a div b))"
    by (rule pow3_mult [OF step.prems(2), symmetric])
  also have "a mod b + b * (a div b) = a" by simp
  finally have "pow3 (a mod b) = pow3 a" .
  with step.prems(1) have "pow3 (a mod b) = 1" by simp
  with step have "pow3 (gcd b (a mod b)) = 1" by blast
  then show ?case by (simp add: gcd_red_nat [symmetric])
qed

lemma pow3_15_51_85: "pow3 15 \<noteq> 1" "pow3 51 \<noteq> 1" "pow3 85 \<noteq> 1"
proof -
  have "fst (gen_pairs ! 15) \<noteq> 1" "fst (gen_pairs ! 51) \<noteq> 1" "fst (gen_pairs ! 85) \<noteq> 1"
    unfolding gen_pairs_def by simp_all
  then show "pow3 15 \<noteq> 1" "pow3 51 \<noteq> 1" "pow3 85 \<noteq> 1"
    by (simp_all add: pow3_table)
qed

lemma divisors_upto_85:
  "\<forall>g \<in> set [0..<86]. g dvd 255 \<longrightarrow> g dvd 15 \<or> g dvd 51 \<or> g dvd (85::nat)"
  by code_simp

lemma divisor_255:
  fixes g :: nat
  assumes "g dvd 255" and "g \<noteq> 255"
  shows "g dvd 15 \<or> g dvd 51 \<or> g dvd 85"
proof -
  from assms(1) obtain k where k: "255 = g * k" ..
  have "k \<noteq> 0" using k by (cases k) auto
  moreover have "k \<noteq> 1" using k assms(2) by auto
  moreover have "k \<noteq> 2"
  proof
    assume "k = 2"
    with k have "255 = 2 * g" by simp
    then show False by presburger
  qed
  ultimately have "3 \<le> k" by arith
  then have "g * 3 \<le> 255" using k by (metis mult_le_mono2)
  then have "g \<in> set [0..<86]" by simp
  with assms(1) divisors_upto_85 show ?thesis by blast
qed

lemma pow3_order:
  assumes "pow3 d = 1" and "0 < d"
  shows "255 \<le> d"
proof (rule ccontr)
  assume "\<not> 255 \<le> d"
  have g: "pow3 (gcd d 255) = 1" by (rule pow3_gcd [OF assms(1) pow3_255])
  have "gcd d 255 \<le> d" using assms(2) by (intro dvd_imp_le) auto
  with \<open>\<not> 255 \<le> d\<close> have "gcd d 255 \<noteq> 255" by arith
  then have "gcd d 255 dvd 15 \<or> gcd d 255 dvd 51 \<or> gcd d 255 dvd 85"
    by (intro divisor_255) auto
  moreover have "pow3 (gcd d 255 * k) = 1" for k
    using pow3_mult [OF g, of 0 k] by simp
  ultimately show False using pow3_15_51_85 by (metis dvdE)
qed

lemma pow3_inj_less:
  assumes "i < j" and "j < 255"
  shows "pow3 i \<noteq> pow3 j"
proof
  assume eq: "pow3 i = pow3 j"
  have "1 = pow3 (255 - i + i)" using assms by (simp add: pow3_255)
  also have "\<dots> = pow3 (255 - i + j)" by (simp only: pow3_add eq)
  also have "255 - i + j = (j - i) + 255 * 1" using assms by simp
  also have "pow3 \<dots> = pow3 (j - i)" by (rule pow3_period)
  finally have "pow3 (j - i) = 1" by simp
  from pow3_order [OF this] assms show False by simp
qed

lemma pow3_inj: "i < 255 \<Longrightarrow> j < 255 \<Longrightarrow> pow3 i = pow3 j \<longleftrightarrow> i = j"
  using pow3_inj_less by (metis linorder_neqE_nat)

lemma pow3_nonzero: "pow3 n \<noteq> 0"
proof -
  have "pow3 (n mod 255) = fst (gen_pairs ! (n mod 255))" by (simp add: pow3_table)
  moreover have "fst (gen_pairs ! (n mod 255)) \<in> fst ` set gen_pairs" by simp
  ultimately show ?thesis using gen_pairs_zero by (metis pow3_mod)
qed

lemma pow3_surj: assumes "a \<noteq> 0" obtains i where "i < 255" and "a = pow3 i"
proof -
  let ?P = "pow3 ` {..<255}"
  have "inj_on pow3 {..<255}" by (auto simp: inj_on_def pow3_inj)
  then have "card ?P = 255" by (simp add: card_image)
  moreover have "card (UNIV - {0 :: byte}) = 255"
    by (simp add: card_Diff_singleton card_word)
  moreover have "?P \<subseteq> UNIV - {0}" using pow3_nonzero by auto
  ultimately have "?P = UNIV - {0}" by (intro card_subset_eq) auto
  with assms that show thesis by auto
qed

subsection \<open>What the tables hold\<close>

lemma gf_step_gen: "i < length ex \<Longrightarrow> gf_init_step i (lg, ex, x) =
  (lg[unat x := of_nat i], ex[i := x], gen x)"
  by (simp add: gf_init_step_def gen_def)

text \<open>The loop invariant: after \<open>n\<close> iterations the first \<open>n\<close> powers are in place.\<close>

lemma gf_init_loop:
  assumes "n \<le> 255"
  shows "\<exists>lg ex. fold gf_init_step [0..<n] (replicate 256 0, replicate 256 0, 1) = (lg, ex, pow3 n)
    \<and> length lg = 256 \<and> length ex = 256
    \<and> (\<forall>i<n. ex ! i = pow3 i \<and> lg ! unat (pow3 i) = of_nat i)"
  using assms
proof (induction n)
  case 0
  show ?case by simp
next
  case (Suc n)
  then obtain lg ex where IH: "fold gf_init_step [0..<n] (replicate 256 0, replicate 256 0, 1)
      = (lg, ex, pow3 n)" "length lg = 256" "length ex = 256"
      "\<forall>i<n. ex ! i = pow3 i \<and> lg ! unat (pow3 i) = of_nat i" by auto
  let ?lg = "lg[unat (pow3 n) := of_nat n]" and ?ex = "ex[n := pow3 n]"
  have b: "unat (pow3 i) < 256" for i using unsigned_less [of "pow3 i"] by simp
  have "fold gf_init_step [0..<Suc n] (replicate 256 0, replicate 256 0, 1) = (?lg, ?ex, pow3 (Suc n))"
    using IH Suc.prems by (simp add: gf_step_gen pow3_Suc)
  moreover have "\<forall>i<Suc n. ?ex ! i = pow3 i \<and> ?lg ! unat (pow3 i) = of_nat i"
  proof (intro allI impI)
    fix i assume "i < Suc n"
    show "?ex ! i = pow3 i \<and> ?lg ! unat (pow3 i) = of_nat i"
    proof (cases "i = n")
      case True
      with IH Suc.prems b show ?thesis by simp
    next
      case False
      with \<open>i < Suc n\<close> have "i < n" by simp
      with Suc.prems have "pow3 i \<noteq> pow3 n" by (simp add: pow3_inj)
      then have "unat (pow3 n) \<noteq> unat (pow3 i)" by (metis unsigned_word_eqI)
      with \<open>i < n\<close> IH show ?thesis by simp
    qed
  qed
  ultimately show ?case using IH(2,3) by auto
qed

lemma gf_tables:
  "i < 255 \<Longrightarrow> gfExp i = pow3 i" "i < 255 \<Longrightarrow> gfLog (pow3 i) = of_nat i"
proof -
  obtain lg ex where F: "fold gf_init_step [0..<255] (replicate 256 0, replicate 256 0, 1)
      = (lg, ex, pow3 255)" "length ex = 256"
      "\<forall>i<255. ex ! i = pow3 i \<and> lg ! unat (pow3 i) = of_nat i"
    using gf_init_loop [of 255] by auto
  then have "fst gf_init = lg" "snd gf_init = ex[255 := 1]" by (simp_all add: gf_init_def)
  then show "i < 255 \<Longrightarrow> gfExp i = pow3 i" "i < 255 \<Longrightarrow> gfLog (pow3 i) = of_nat i"
    using F(2,3) by (simp_all add: gfExp_def gfLog_def)
qed

lemma unat_log: "i < 255 \<Longrightarrow> unat (gfLog (pow3 i)) = i"
  by (simp add: gf_tables unat_of_nat take_bit_eq_mod)

lemma gfExp_mod: "gfExp (n mod 255) = pow3 n"
  by (simp add: gf_tables pow3_mod)

lemma gfMul_pow3: "i < 255 \<Longrightarrow> j < 255 \<Longrightarrow> gfMul (pow3 i) (pow3 j) = pow3 (i + j)"
  by (simp add: gfMul_def pow3_nonzero unat_log gfExp_mod)

lemma gfInv_pow3: "i < 255 \<Longrightarrow> gfInv (pow3 i) = pow3 (255 - i)"
  by (simp add: gfInv_def pow3_nonzero unat_log gfExp_mod)

text \<open>Multiplication by a power of 3 iterates the generator, which is linear.\<close>

text \<open>The test of the top bit, and the conditional reduction, bit by bit.\<close>

lemma top_bit: "(x :: byte) AND 0x80 \<noteq> 0 \<longleftrightarrow> bit x 7"
proof -
  have "x AND 2 ^ 7 \<noteq> 0 \<longleftrightarrow> bit x 7" by (simp only: and_exp_eq_0_iff_not_bit) simp
  then show ?thesis by simp
qed

lemma gen_xor: "gen (x XOR y) = gen x XOR gen y"
  unfolding gen_def top_bit
  by (rule bit_word_eqI) (auto simp: bit_simps)

lemma gen_zero [simp]: "gen 0 = 0"
  by (simp add: gen_def)

lemma gen_pow_xor: "(gen ^^ n) (x XOR y) = (gen ^^ n) x XOR (gen ^^ n) y"
  by (induction n) (simp_all add: gen_xor)

lemma gen_pow_zero [simp]: "(gen ^^ n) 0 = 0"
  by (induction n) simp_all

lemma gfMul_gen: "i < 255 \<Longrightarrow> gfMul (pow3 i) b = (gen ^^ i) b"
proof (cases "b = 0")
  case False
  assume "i < 255"
  from False obtain j where "j < 255" "b = pow3 j" by (rule pow3_surj)
  with \<open>i < 255\<close> show ?thesis by (simp add: gfMul_pow3 pow3_add)
qed (simp add: gfMul_def)

subsection \<open>The field laws\<close>

lemma gfMul_zero [simp]: "gfMul 0 b = 0" "gfMul a 0 = 0"
  by (simp_all add: gfMul_def)

lemma gfMul_comm: "gfMul a b = gfMul b a"
  by (simp add: gfMul_def add.commute disj_commute)

lemma gfMul_one [simp]: "gfMul 1 b = b" "gfMul b 1 = b"
  using gfMul_gen [of 0 b] gfMul_comm [of b 1] by simp_all

lemma gfMul_pow3_all: "gfMul (pow3 i) (pow3 j) = pow3 (i + j)"
proof -
  have "gfMul (pow3 (i mod 255)) (pow3 (j mod 255)) = pow3 (i mod 255 + j mod 255)"
    by (rule gfMul_pow3) simp_all
  also have "\<dots> = pow3 ((i mod 255 + j mod 255) mod 255)" by (rule pow3_mod [symmetric])
  also have "\<dots> = pow3 (i + j)" by (simp only: mod_add_eq pow3_mod)
  finally show ?thesis by (simp only: pow3_mod)
qed

lemma gfMul_assoc: "gfMul (gfMul a b) c = gfMul a (gfMul b c)"
proof (cases "a = 0 \<or> b = 0 \<or> c = 0")
  case False
  then obtain i j k where "a = pow3 i" "b = pow3 j" "c = pow3 k" by (metis pow3_surj)
  then show ?thesis by (simp add: gfMul_pow3_all add.assoc)
qed auto

lemma gfMul_add: "gfMul a (gfAdd b c) = gfAdd (gfMul a b) (gfMul a c)"
proof (cases "a = 0")
  case False
  then obtain i where "i < 255" "a = pow3 i" by (rule pow3_surj)
  then show ?thesis by (simp add: gfMul_gen gfAdd_def gen_pow_xor)
qed (simp add: gfAdd_def)

lemma gfMul_inv: "a \<noteq> 0 \<Longrightarrow> gfMul (gfInv a) a = 1"
proof -
  assume "a \<noteq> 0"
  then obtain i where "i < 255" "a = pow3 i" by (rule pow3_surj)
  then show ?thesis by (simp add: gfInv_pow3 gfMul_pow3_all pow3_255)
qed

lemma gfMul_nonzero: "gfMul a b = 0 \<longleftrightarrow> a = 0 \<or> b = 0"
  by (simp add: gfMul_def gfExp_mod pow3_nonzero)

lemma gfAdd_laws:
  "gfAdd a b = gfAdd b a" "gfAdd (gfAdd a b) c = gfAdd a (gfAdd b c)"
  "gfAdd 0 a = a" "gfAdd a a = 0"
  by (simp_all add: gfAdd_def ac_simps)

text \<open>
  A copy of the byte type carries the class, so that the sums and products of the library
  apply; \<open>gf\<close> and \<open>byte_of\<close> go back and forth.
\<close>

typedef gf256 = "UNIV :: byte set"
  morphisms byte_of gf
  by simp

setup_lifting type_definition_gf256

instantiation gf256 :: field
begin

lift_definition zero_gf256 :: gf256 is "0 :: byte" .
lift_definition one_gf256 :: gf256 is "1 :: byte" .
lift_definition plus_gf256 :: "gf256 \<Rightarrow> gf256 \<Rightarrow> gf256" is gfAdd .
lift_definition minus_gf256 :: "gf256 \<Rightarrow> gf256 \<Rightarrow> gf256" is gfAdd .
lift_definition uminus_gf256 :: "gf256 \<Rightarrow> gf256" is "\<lambda>a. a" .
lift_definition times_gf256 :: "gf256 \<Rightarrow> gf256 \<Rightarrow> gf256" is gfMul .
lift_definition inverse_gf256 :: "gf256 \<Rightarrow> gf256" is gfInv .
lift_definition divide_gf256 :: "gf256 \<Rightarrow> gf256 \<Rightarrow> gf256" is "\<lambda>a b. gfMul a (gfInv b)" .

instance
proof
  fix a b c :: gf256
  show "a * b * c = a * (b * c)" by transfer (rule gfMul_assoc)
  show "a * b = b * a" by transfer (rule gfMul_comm)
  show "1 * a = a" by transfer simp
  show "a + b + c = a + (b + c)" by transfer (rule gfAdd_laws)
  show "a + b = b + a" by transfer (rule gfAdd_laws)
  show "0 + a = a" by transfer (rule gfAdd_laws)
  show "- a + a = 0" by transfer (rule gfAdd_laws)
  show "a - b = a + - b" by transfer simp
  show "(a + b) * c = a * c + b * c" by transfer (metis gfMul_add gfMul_comm)
  show "(0::gf256) \<noteq> 1" by transfer simp
  show "a \<noteq> 0 \<Longrightarrow> inverse a * a = 1" by transfer (rule gfMul_inv)
  show "a div b = a * inverse b" by transfer simp
  show "inverse (0::gf256) = 0" by transfer (simp add: gfInv_def)
qed

end

lemma gf_hom:
  "gf (gfAdd a b) = gf a + gf b" "gf (gfMul a b) = gf a * gf b" "gf (gfInv a) = inverse (gf a)"
  "gf 0 = 0" "gf 1 = 1"
  by (simp_all add: plus_gf256.abs_eq times_gf256.abs_eq inverse_gf256.abs_eq
      zero_gf256_def one_gf256_def)

lemma gf_inject [simp]: "gf a = gf b \<longleftrightarrow> a = b"
  by (simp add: gf_inject)

lemma gf_eq_0 [simp]: "gf a = 0 \<longleftrightarrow> a = 0"
  by (metis gf_hom(4) gf_inject)

text \<open>Characteristic 2.\<close>

lemma gf_char2 [simp]: "(a :: gf256) + a = 0" "- (a :: gf256) = a" "(a :: gf256) - b = a + b"
  by (transfer, simp add: gfAdd_def)+

end
