(* ===== verification/Lagrange.thy ===== *)
theory Lagrange
  imports Main
begin

text \<open>
  Interpolation over any field, with polynomials as lists of coefficients (the constant term
  first) evaluated by Horner's rule: division by a linear factor, exactness of the Lagrange
  formula for polynomials of a degree below the number of points, and existence and uniqueness
  of the interpolating coefficient list. Used for the secret sharing of \<open>internal/qee\<close>.
\<close>

definition horner :: "'a::field list \<Rightarrow> 'a \<Rightarrow> 'a" where
  "horner cs x = foldr (\<lambda>c a. a * x + c) cs 0"

lemma horner_simps [simp]:
  "horner [] x = 0" "horner (c # cs) x = horner cs x * x + c"
  by (simp_all add: horner_def)

lemma horner_0: "cs \<noteq> [] \<Longrightarrow> horner cs 0 = hd cs"
  by (cases cs) auto

text \<open>Synthetic division: \<open>cs = cs(r) + (X - r) * quot r cs\<close>.\<close>

fun quot :: "'a::field \<Rightarrow> 'a list \<Rightarrow> 'a list" where
  "quot r [] = []"
| "quot r [c] = []"
| "quot r (c # d # cs) = horner (d # cs) r # quot r (d # cs)"

lemma length_quot [simp]: "length (quot r cs) = length cs - 1"
  by (induction r cs rule: quot.induct) auto

lemma horner_quot: "horner cs x = horner cs r + (x - r) * horner (quot r cs) x"
proof (induction r cs rule: quot.induct)
  case (3 r c d cs)
  let ?h = "horner (d # cs)" and ?q = "horner (quot r (d # cs)) x"
  have "horner (c # d # cs) x = (?h r + (x - r) * ?q) * x + c"
    using "3.IH" by (simp only: horner_simps)
  also have "\<dots> = (?h r * r + c) + (x - r) * (?q * x + ?h r)"
    by (simp add: algebra_simps)
  finally show ?case by (simp only: horner_simps quot.simps)
qed auto

text \<open>The value at \<open>z\<close> of the basis polynomial of the point \<open>i\<close> among the points \<open>S\<close>.\<close>

definition lbasis :: "('i \<Rightarrow> 'a::field) \<Rightarrow> 'i set \<Rightarrow> 'i \<Rightarrow> 'a \<Rightarrow> 'a" where
  "lbasis X S i z = (\<Prod>j\<in>S - {i}. (z - X j) / (X i - X j))"

lemma lbasis_remove:
  assumes "finite S" and "n \<in> S" and "i \<noteq> n"
  shows "lbasis X S i z = lbasis X (S - {n}) i z * ((z - X n) / (X i - X n))"
proof -
  have "S - {i} - {n} = S - {n} - {i}" by auto
  then show ?thesis
    using assms unfolding lbasis_def
    by (subst prod.remove [of "S - {i}" n]) (auto simp: mult.commute)
qed

lemma lbasis_neville:
  assumes fin: "finite S" and m: "m \<in> S" and n: "n \<in> S" and mn: "m \<noteq> n"
    and inj: "inj_on X S" and i: "i \<in> S"
  shows "lbasis X S i z * (X m - X n) =
    (if i = n then 0 else (z - X n) * lbasis X (S - {n}) i z) -
    (if i = m then 0 else (z - X m) * lbasis X (S - {m}) i z)"
proof -
  have ne: "X a \<noteq> X b" if "a \<in> S" "b \<in> S" "a \<noteq> b" for a b
    using inj that by (auto dest: inj_onD)
  consider "i = m" | "i = n" | "i \<noteq> m" "i \<noteq> n" by blast
  then show ?thesis
  proof cases
    case 1
    with lbasis_remove [OF fin n, of i X z] mn ne [OF m n mn] show ?thesis by simp
  next
    case 2
    have "X n - X m \<noteq> 0" using ne [OF n m] mn by simp
    moreover have "lbasis X S n z = lbasis X (S - {m}) n z * ((z - X m) / (X n - X m))"
      using lbasis_remove [OF fin m, of n X z] mn by simp
    ultimately have "lbasis X S n z * (X n - X m) = lbasis X (S - {m}) n z * (z - X m)"
      by simp
    then have "lbasis X S n z * (X m - X n) = - (lbasis X (S - {m}) n z * (z - X m))"
      by (simp add: algebra_simps)
    with 2 mn show ?thesis by (simp add: mult.commute)
  next
    case 3
    let ?P = "lbasis X (S - {m} - {n}) i z"
    have d: "X i - X m \<noteq> 0" "X i - X n \<noteq> 0" using ne [OF i m] ne [OF i n] 3 by simp_all
    have com: "S - {n} - {m} = S - {m} - {n}" by auto
    have Pn: "lbasis X (S - {n}) i z = ?P * ((z - X m) / (X i - X m))"
      using lbasis_remove [of "S - {n}" m i X z] fin m mn 3 by (simp add: com)
    have Pm: "lbasis X (S - {m}) i z = ?P * ((z - X n) / (X i - X n))"
      using lbasis_remove [of "S - {m}" n i X z] fin n mn 3 by simp
    have P: "lbasis X S i z = ?P * ((z - X n) / (X i - X n)) * ((z - X m) / (X i - X m))"
      using lbasis_remove [OF fin m, of i X z] 3 by (simp add: Pm)
    have "(z - X n) * (?P * ((z - X m) / (X i - X m))) - (z - X m) * (?P * ((z - X n) / (X i - X n)))
        = ?P * (z - X n) * (z - X m) * ((X i - X n) - (X i - X m)) / ((X i - X m) * (X i - X n))"
      using d by (simp add: divide_simps) (simp add: algebra_simps)
    also have "\<dots> = lbasis X S i z * (X m - X n)"
      unfolding P using d by (simp add: divide_simps)
    finally show ?thesis using 3 by (simp add: Pn Pm)
  qed
qed

lemma lbasis_sum:
  assumes "finite S" and "S \<noteq> {}" and "inj_on X S"
  shows "(\<Sum>i\<in>S. lbasis X S i z) = 1"
  using assms
proof (induction "card S" arbitrary: S rule: less_induct)
  case less
  show ?case
  proof (cases "\<exists>m n. m \<in> S \<and> n \<in> S \<and> m \<noteq> n")
    case False
    with less.prems(2) obtain n where "S = {n}" by blast
    then show ?thesis by (simp add: lbasis_def)
  next
    case True
    then obtain m n where mn: "m \<in> S" "n \<in> S" "m \<noteq> n" by blast
    have sub: "(\<Sum>i\<in>S - {q}. lbasis X (S - {q}) i z) = 1" if "q \<in> S" "S - {q} \<noteq> {}" for q
      using less.prems that
      by (intro less.hyps) (auto simp: card_gt_0_iff intro: inj_on_subset)
    have drop: "(\<Sum>i\<in>S. if i = q then 0 else (z - X q) * lbasis X (S - {q}) i z) = z - X q"
      if "q \<in> S" "S - {q} \<noteq> {}" for q
    proof -
      have "(\<Sum>i\<in>S. if i = q then 0 else (z - X q) * lbasis X (S - {q}) i z)
          = (\<Sum>i\<in>S - {q}. (z - X q) * lbasis X (S - {q}) i z)"
        using less.prems(1) that by (subst sum.remove [of S q]) (auto intro: sum.cong)
      with sub [OF that] show ?thesis by (simp flip: sum_distrib_left)
    qed
    have "(\<Sum>i\<in>S. lbasis X S i z) * (X m - X n) = (\<Sum>i\<in>S. lbasis X S i z * (X m - X n))"
      by (simp add: sum_distrib_right)
    also have "\<dots> = (\<Sum>i\<in>S. (if i = n then 0 else (z - X n) * lbasis X (S - {n}) i z) -
        (if i = m then 0 else (z - X m) * lbasis X (S - {m}) i z))"
      using mn less.prems by (intro sum.cong refl lbasis_neville) auto
    also have "\<dots> = (z - X n) - (z - X m)"
    proof -
      have "S - {n} \<noteq> {}" "S - {m} \<noteq> {}" using mn by auto
      note drop [OF mn(2) this(1)] drop [OF mn(1) this(2)]
      then show ?thesis by (simp only: sum_subtractf)
    qed
    also have "\<dots> = X m - X n" by simp
    finally have "(\<Sum>i\<in>S. lbasis X S i z) * (X m - X n) = 1 * (X m - X n)" by simp
    moreover have "X m - X n \<noteq> 0" using mn less.prems(3) by (auto dest: inj_onD)
    ultimately show ?thesis by simp
  qed
qed

text \<open>The Lagrange formula is exact for polynomials with at most \<open>card S\<close> coefficients.\<close>

theorem lagrange_exact:
  assumes "finite S" and "S \<noteq> {}" and "inj_on X S" and "length cs \<le> card S"
  shows "(\<Sum>i\<in>S. horner cs (X i) * lbasis X S i z) = horner cs z"
  using assms
proof (induction "card S" arbitrary: S cs rule: less_induct)
  case less
  from less.prems(2) obtain n where n: "n \<in> S" by blast
  let ?g = "horner (quot (X n) cs)" and ?T = "S - {n}"
  have "(\<Sum>i\<in>S. horner cs (X i) * lbasis X S i z)
      = (\<Sum>i\<in>S. horner cs (X n) * lbasis X S i z + (X i - X n) * ?g (X i) * lbasis X S i z)"
  proof (intro sum.cong refl)
    fix i
    have "horner cs (X i) = horner cs (X n) + (X i - X n) * ?g (X i)" by (rule horner_quot)
    then show "horner cs (X i) * lbasis X S i z
        = horner cs (X n) * lbasis X S i z + (X i - X n) * ?g (X i) * lbasis X S i z"
      by (simp only: distrib_right)
  qed
  also have "\<dots> = horner cs (X n) + (\<Sum>i\<in>S. (X i - X n) * ?g (X i) * lbasis X S i z)"
    using lbasis_sum [OF less.prems(1-3), of z]
    by (simp add: sum.distrib flip: sum_distrib_left)
  also have "(\<Sum>i\<in>S. (X i - X n) * ?g (X i) * lbasis X S i z)
      = (\<Sum>i\<in>?T. (X i - X n) * ?g (X i) * lbasis X S i z)"
    using less.prems(1) n by (subst sum.remove [of S n]) auto
  also have "\<dots> = (\<Sum>i\<in>?T. (z - X n) * (?g (X i) * lbasis X ?T i z))"
  proof (intro sum.cong refl)
    fix i assume "i \<in> ?T"
    with n less.prems(3) have "X i - X n \<noteq> 0" "i \<noteq> n" by (auto dest: inj_onD)
    with lbasis_remove [OF less.prems(1) n, of i X z]
    show "(X i - X n) * ?g (X i) * lbasis X S i z = (z - X n) * (?g (X i) * lbasis X ?T i z)"
      by simp
  qed
  also have "\<dots> = (z - X n) * (\<Sum>i\<in>?T. ?g (X i) * lbasis X ?T i z)"
    by (simp add: sum_distrib_left)
  also have "\<dots> = (z - X n) * ?g z"
  proof (cases "?T = {}")
    case True
    with n have "S = {n}" by auto
    then have "card S = 1" by simp
    with less.prems(4) have "length (quot (X n) cs) = 0" by (simp only: length_quot)
    then have "quot (X n) cs = []" by (simp only: length_0_conv)
    with True show ?thesis by simp
  next
    case False
    have "card ?T < card S" using less.prems(1) n by (intro card_Diff1_less)
    moreover have "length (quot (X n) cs) \<le> card ?T"
      using less.prems(1,4) n by (simp add: card_Diff_singleton)
    ultimately have "(\<Sum>i\<in>?T. ?g (X i) * lbasis X ?T i z) = ?g z"
      using less.prems False by (intro less.hyps) (auto intro: inj_on_subset)
    then show ?thesis by simp
  qed
  finally show ?case by (simp only: horner_quot [of cs z "X n", symmetric])
qed

subsection \<open>The interpolating coefficients\<close>

text \<open>\<open>y + (X - x) * g\<close>, coefficient by coefficient.\<close>

fun shift_mult :: "'a::field \<Rightarrow> 'a \<Rightarrow> 'a list \<Rightarrow> 'a list" where
  "shift_mult x y [] = [y]"
| "shift_mult x y (g # gs) = (y - x * g) # shift_mult x g gs"

lemma length_shift_mult [simp]: "length (shift_mult x y gs) = Suc (length gs)"
  by (induction gs arbitrary: y) auto

lemma horner_shift_mult: "horner (shift_mult x y gs) z = y + (z - x) * horner gs z"
proof (induction gs arbitrary: y)
  case (Cons g gs)
  have "horner (shift_mult x y (g # gs)) z = (g + (z - x) * horner gs z) * z + (y - x * g)"
    by (simp only: shift_mult.simps horner_simps Cons.IH)
  also have "\<dots> = y + (z - x) * (horner gs z * z + g)" by (simp add: algebra_simps)
  finally show ?case by (simp only: horner_simps)
qed simp

fun interpolate :: "('a::field \<times> 'a) list \<Rightarrow> 'a list" where
  "interpolate [] = []"
| "interpolate ((x, y) # pts) =
     shift_mult x y (interpolate (map (\<lambda>(a, b). (a, (b - y) / (a - x))) pts))"

lemma length_interpolate [simp]: "length (interpolate pts) = length pts"
  by (induction pts rule: interpolate.induct) auto

theorem interpolate_through:
  "distinct (map fst pts) \<Longrightarrow> (a, b) \<in> set pts \<Longrightarrow> horner (interpolate pts) a = b"
proof (induction pts arbitrary: a b rule: interpolate.induct)
  case (2 x y pts a b)
  let ?pts = "map (\<lambda>(a, b). (a, (b - y) / (a - x))) pts"
  have fst: "map fst ?pts = map fst pts" by (simp add: case_prod_beta)
  show ?case
  proof (cases "a = x")
    case True
    have "(x, b) \<notin> set pts" using "2.prems"(1) by (auto simp: image_iff)
    with True "2.prems"(2) have "b = y" by simp
    with True show ?thesis by (simp add: horner_shift_mult)
  next
    case False
    with "2.prems" have "(a, b) \<in> set pts" by auto
    then have "(a, (b - y) / (a - x)) \<in> set ?pts" by force
    moreover have "distinct (map fst ?pts)" using "2.prems"(1) by (simp only: fst) simp
    ultimately have "horner (interpolate ?pts) a = (b - y) / (a - x)" by (rule "2.IH" [rotated])
    with False show ?thesis by (simp add: horner_shift_mult)
  qed
qed simp

text \<open>Two coefficient lists that agree at as many points as they are long are equal.\<close>

theorem horner_unique:
  assumes "distinct xs" and "length cs = length xs" and "length ds = length xs"
    and "\<And>x. x \<in> set xs \<Longrightarrow> horner cs x = horner ds x"
  shows "cs = ds"
  using assms
proof (induction xs arbitrary: cs ds)
  case (Cons x xs)
  have eq: "horner cs x = horner ds x" using Cons.prems by simp
  have "horner (quot x cs) a = horner (quot x ds) a" if "a \<in> set xs" for a
  proof -
    have "horner cs a = horner ds a" using Cons.prems that by simp
    then have "(a - x) * horner (quot x cs) a = (a - x) * horner (quot x ds) a"
      using horner_quot [of cs a x] horner_quot [of ds a x] eq by simp
    moreover have "a - x \<noteq> 0" using that Cons.prems(1) by auto
    ultimately show ?thesis by simp
  qed
  then have q: "quot x cs = quot x ds" using Cons.prems by (intro Cons.IH) auto
  have recover: "fs = shift_mult x (horner fs x) (quot x fs)" if "fs \<noteq> []" for fs
    using that by (induction x fs rule: quot.induct) (auto simp: algebra_simps)
  have "cs \<noteq> []" "ds \<noteq> []" using Cons.prems by auto
  then show ?case using recover [of cs] recover [of ds] q eq by simp
qed auto

end
