(* ===== verification/Crypto.thy ===== *)
theory Crypto
  imports Prelude
begin

text \<open>
  The cryptographic packages the program calls (\<open>crypto/ed25519\<close>, \<open>x/crypto/sha3\<close>,
  \<open>x/crypto/hkdf\<close>, \<open>x/crypto/chacha20poly1305\<close>, \<open>x/crypto/nacl/box\<close>) are not in the
  repository. They are parameters of the model: records of functions, passed to every
  definition that uses them, with what the packages document as named predicates. The
  instances at the end are concrete functions that satisfy the predicates; the witnesses use
  them, no property does.
\<close>

subsection \<open>Entropy\<close>

text \<open>
  The \<open>i\<close>-th read of \<open>crypto/rand\<close> either fails or fills its buffer from a stream of bytes.
\<close>

type_synonym rng = "nat \<Rightarrow> (nat \<Rightarrow> byte) option"

definition fill :: "nat \<Rightarrow> (nat \<Rightarrow> byte) \<Rightarrow> bytes" where
  "fill n f = map f [0..<n]"

lemma length_fill [simp, wire_lengths]: "length (fill n f) = n"
  by (simp add: fill_def)

subsection \<open>Ed25519\<close>

record ed25519 =
  ed_new_key :: "bytes \<Rightarrow> bytes" \<comment> \<open>\<open>NewKeyFromSeed\<close>\<close>
  ed_public :: "bytes \<Rightarrow> bytes" \<comment> \<open>\<open>priv.Public()\<close>\<close>
  ed_sign :: "bytes \<Rightarrow> bytes \<Rightarrow> bytes"
  ed_verify :: "bytes \<Rightarrow> bytes \<Rightarrow> bytes \<Rightarrow> bool"

text \<open>A private key whose signatures its public half accepts, with the documented sizes.\<close>

definition ed_key :: "ed25519 \<Rightarrow> bytes \<Rightarrow> bool" where
  "ed_key E priv \<longleftrightarrow> length priv = 64 \<and> length (ed_public E priv) = 32 \<and>
     (\<forall>msg. length (ed_sign E priv msg) = 64 \<and> ed_verify E (ed_public E priv) msg (ed_sign E priv msg))"

lemma ed_keyD:
  assumes "ed_key E priv"
  shows "length priv = 64" "length (ed_public E priv) = 32"
    "length (ed_sign E priv msg) = 64" "ed_verify E (ed_public E priv) msg (ed_sign E priv msg)"
  using assms by (auto simp: ed_key_def)

subsection \<open>Authenticated encryption\<close>

record aead =
  aead_seal :: "bytes \<Rightarrow> bytes \<Rightarrow> bytes \<Rightarrow> bytes \<Rightarrow> bytes" \<comment> \<open>key, nonce, plaintext, header\<close>
  aead_open :: "bytes \<Rightarrow> bytes \<Rightarrow> bytes \<Rightarrow> bytes \<Rightarrow> bytes option" \<comment> \<open>key, nonce, ciphertext, header\<close>

definition aead_ok :: "aead \<Rightarrow> bool" where
  "aead_ok A \<longleftrightarrow> (\<forall>k n p ad. aead_open A k n (aead_seal A k n p ad) ad = Some p)"

text \<open>The tag covers the header: a sealed text does not open under another header.\<close>

definition aead_binds :: "aead \<Rightarrow> bool" where
  "aead_binds A \<longleftrightarrow> (\<forall>k n p ad ad'. ad \<noteq> ad' \<longrightarrow> aead_open A k n (aead_seal A k n p ad) ad' = None)"

subsection \<open>NaCl box\<close>

record nacl_box =
  box_public :: "bytes \<Rightarrow> bytes" \<comment> \<open>X25519 public half of a private key\<close>
  box_seal :: "bytes \<Rightarrow> bytes \<Rightarrow> bytes \<Rightarrow> bytes \<Rightarrow> bytes" \<comment> \<open>message, nonce, peer public, private\<close>
  box_open :: "bytes \<Rightarrow> bytes \<Rightarrow> bytes \<Rightarrow> bytes \<Rightarrow> bytes option" \<comment> \<open>box, nonce, peer public, private\<close>

definition box_ok :: "nacl_box \<Rightarrow> bool" where
  "box_ok B \<longleftrightarrow> (\<forall>m n r e.
     box_open B (box_seal B m n (box_public B r) e) n (box_public B e) r = Some m)"

subsection \<open>Hashing and key derivation\<close>

type_synonym hash = "bytes \<Rightarrow> bytes"

definition hash32 :: "hash \<Rightarrow> bool" where
  "hash32 H \<longleftrightarrow> (\<forall>m. length (H m) = 32)"

text \<open>\<open>hkdf.New(sha3.New256, secret, salt, info)\<close> read for so many bytes.\<close>

type_synonym kdf = "bytes \<Rightarrow> bytes \<Rightarrow> bytes \<Rightarrow> nat \<Rightarrow> bytes"

subsection \<open>Concrete instances for the witnesses\<close>

definition pad32 :: "bytes \<Rightarrow> bytes" where
  "pad32 m = take 32 (m @ replicate 32 0)"

lemma length_pad32 [simp]: "length (pad32 m) = 32"
  by (simp add: pad32_def)

definition demo_hash :: hash where
  "demo_hash m = pad32 [foldl (XOR) 0 m, of_nat (length m)]"

lemma hash32_demo: "hash32 demo_hash"
  by (simp add: hash32_def demo_hash_def)

definition demo_ed :: ed25519 where
  "demo_ed = \<lparr>ed_new_key = (\<lambda>seed. pad32 seed @ pad32 seed), ed_public = (\<lambda>priv. pad32 (drop 32 priv)),
     ed_sign = (\<lambda>priv msg. pad32 (drop 32 priv) @ demo_hash msg),
     ed_verify = (\<lambda>pub msg sig. sig = pub @ demo_hash msg)\<rparr>"

lemma demo_ed_simps [simp]:
  "ed_new_key demo_ed seed = pad32 seed @ pad32 seed"
  "ed_public demo_ed priv = pad32 (drop 32 priv)"
  "ed_sign demo_ed priv msg = pad32 (drop 32 priv) @ demo_hash msg"
  "ed_verify demo_ed pub msg sig \<longleftrightarrow> sig = pub @ demo_hash msg"
  by (simp_all add: demo_ed_def)

lemma length_demo_hash [simp]: "length (demo_hash m) = 32"
  by (simp add: demo_hash_def)

lemma demo_ed_key: "length priv = 64 \<Longrightarrow> ed_key demo_ed priv"
  by (simp add: ed_key_def)

definition demo_header :: "bytes \<Rightarrow> bytes" where
  "demo_header ad = concat (map (\<lambda>b. [1, b]) ad) @ [0]"

definition demo_aead :: aead where
  "demo_aead = \<lparr>aead_seal = (\<lambda>k n p ad. demo_header ad @ p),
     aead_open = (\<lambda>k n c ad. let h = demo_header ad in
        if take (length h) c = h then Some (drop (length h) c) else None)\<rparr>"

lemma demo_header_prefix_free:
  "demo_header ad @ p = demo_header ad' @ q \<Longrightarrow> ad = ad'"
proof (induction ad arbitrary: ad')
  case Nil
  then show ?case by (cases ad') (auto simp: demo_header_def)
next
  case (Cons b ad)
  then show ?case by (cases ad') (auto simp: demo_header_def)
qed

lemma demo_aead_ok: "aead_ok demo_aead"
  by (simp add: aead_ok_def demo_aead_def Let_def)

lemma demo_aead_binds: "aead_binds demo_aead"
proof -
  have "take (length (demo_header ad')) (demo_header ad @ p) \<noteq> demo_header ad'"
    if "ad \<noteq> ad'" for ad ad' p
  proof
    assume "take (length (demo_header ad')) (demo_header ad @ p) = demo_header ad'"
    then have "demo_header ad @ p = demo_header ad' @ drop (length (demo_header ad')) (demo_header ad @ p)"
      by (metis append_take_drop_id)
    then have "ad = ad'" by (rule demo_header_prefix_free)
    with that show False by simp
  qed
  then show ?thesis by (simp add: aead_binds_def demo_aead_def Let_def)
qed

definition demo_box :: nacl_box where
  "demo_box = \<lparr>box_public = (\<lambda>r. pad32 r), box_seal = (\<lambda>m n pk e. m), box_open = (\<lambda>c n pk r. Some c)\<rparr>"

lemma demo_box_ok: "box_ok demo_box"
  by (simp add: box_ok_def demo_box_def)

definition demo_rng :: rng where
  "demo_rng = (\<lambda>i. Some (\<lambda>j. of_nat (i + 3 * j)))"

definition demo_kdf :: kdf where
  "demo_kdf secret salt info n = take n (pad32 (secret @ info) @ replicate n 0)"

end
