(* ===== verification/Shamir.thy ===== *)
theory Shamir
  imports GF256 Lagrange Crypto
begin

text \<open>
  \<open>internal/qee/shamir.go\<close>: \<open>Split\<close> and \<open>Combine\<close>, with the loops of the code and every
  error return. Go's \<open>int\<close> is \<open>int\<close>. The entropy source is the parameter \<open>rng\<close> of
  theory \<open>Crypto\<close>.
\<close>

record share =
  sh_index :: byte
  sh_bytes :: bytes

datatype shamir_error =
    Threshold_below_1
  | N_below_threshold
  | N_above_255
  | Empty_secret
  | Rand_error
  | Too_few_shares
  | Share_length nat
  | Index_zero
  | Duplicate_index byte
  | Zero_denominator
  | Panic_out_of_range \<comment> \<open>run-time panic of \<open>shares[:threshold]\<close> or \<open>shares[0]\<close>\<close>

definition evalPoly :: "bytes \<Rightarrow> byte \<Rightarrow> byte" where
  "evalPoly poly x = foldr (\<lambda>c out. gfAdd (gfMul out x) c) poly 0"

subsection \<open>Split\<close>

text \<open>One polynomial per byte of the secret; \<open>i\<close> numbers the calls of the entropy source.\<close>

fun mk_polys :: "rng \<Rightarrow> nat \<Rightarrow> int \<Rightarrow> bytes \<Rightarrow> shamir_error + bytes list" where
  "mk_polys rng i threshold [] = Inr []"
| "mk_polys rng i threshold (s # ss) =
     (if threshold > 1 then
        (case rng i of
           None \<Rightarrow> Inl Rand_error
         | Some extra \<Rightarrow> bind_r (mk_polys rng (Suc i) threshold ss)
             (\<lambda>ps. Inr ((s # fill (nat (threshold - 1)) extra) # ps)))
      else bind_r (mk_polys rng i threshold ss) (\<lambda>ps. Inr ([s] # ps)))"

definition split_secret :: "rng \<Rightarrow> bytes \<Rightarrow> int \<Rightarrow> int \<Rightarrow> shamir_error + share list" where
  "split_secret rng secret n threshold =
     guard (threshold < 1) Threshold_below_1 (
     guard (n < threshold) N_below_threshold (
     guard (n > 255) N_above_255 (
     guard (length secret = 0) Empty_secret (
     bind_r (mk_polys rng 0 threshold secret) (\<lambda>polys.
       Inr (map (\<lambda>sIdx. let x = of_nat (sIdx + 1) in
              \<lparr>sh_index = x, sh_bytes = map (\<lambda>p. evalPoly p x) polys\<rparr>) [0..<nat n]))))))"

subsection \<open>Combine\<close>

fun check_lengths :: "nat \<Rightarrow> nat \<Rightarrow> share list \<Rightarrow> shamir_error + unit" where
  "check_lengths len i [] = Inr ()"
| "check_lengths len i (s # ss) =
     (if length (sh_bytes s) \<noteq> len then Inl (Share_length i) else check_lengths len (Suc i) ss)"

fun check_indices :: "byte set \<Rightarrow> share list \<Rightarrow> shamir_error + unit" where
  "check_indices seen [] = Inr ()"
| "check_indices seen (s # ss) =
     (if sh_index s = 0 then Inl Index_zero
      else if sh_index s \<in> seen then Inl (Duplicate_index (sh_index s))
      else check_indices (insert (sh_index s) seen) ss)"

text \<open>Numerator and denominator of the \<open>i\<close>-th Lagrange basis at 0: the inner loop over \<open>j\<close>.\<close>

definition basis_loop :: "share list \<Rightarrow> nat \<Rightarrow> byte \<times> byte" where
  "basis_loop shares i =
     foldl (\<lambda>(num, den) j.
       if i = j then (num, den)
       else (gfMul num (sh_index (shares ! j)),
             gfMul den (gfAdd (sh_index (shares ! i)) (sh_index (shares ! j)))))
     (1, 1) [0..<length shares]"

fun total_loop :: "share list \<Rightarrow> nat \<Rightarrow> byte \<Rightarrow> nat list \<Rightarrow> shamir_error + byte" where
  "total_loop shares b tot [] = Inr tot"
| "total_loop shares b tot (i # is) =
     (case basis_loop shares i of (num, den) \<Rightarrow>
        if den = 0 then Inl Zero_denominator
        else let basis = gfMul num (gfInv den) in
          total_loop shares b (gfAdd tot (gfMul (sh_bytes (shares ! i) ! b) basis)) is)"

fun secret_loop :: "share list \<Rightarrow> nat list \<Rightarrow> shamir_error + bytes" where
  "secret_loop shares [] = Inr []"
| "secret_loop shares (b # bs) =
     bind_r (total_loop shares b 0 [0..<length shares]) (\<lambda>t.
     bind_r (secret_loop shares bs) (\<lambda>ts. Inr (t # ts)))"

definition combine_shares :: "share list \<Rightarrow> int \<Rightarrow> shamir_error + bytes" where
  "combine_shares all_shares threshold =
     guard (int (length all_shares) < threshold) Too_few_shares (
     guard (threshold < 1) Panic_out_of_range (
     let shares = take (nat threshold) all_shares;
         secretLen = length (sh_bytes (hd shares)) in
     bind_r (check_lengths secretLen 0 shares) (\<lambda>_.
     bind_r (check_indices {} shares) (\<lambda>_.
     secret_loop shares [0..<secretLen]))))"

subsection \<open>Horner evaluation over the field\<close>

lemma evalPoly_horner: "gf (evalPoly poly x) = horner (map gf poly) (gf x)"
  by (induction poly) (simp_all add: evalPoly_def gf_hom)

lemma evalPoly_zero: "evalPoly (c # cs) 0 = c"
  by (simp add: evalPoly_def gfAdd_laws)

lemma mk_polys_Inr:
  assumes "mk_polys rng i t secret = Inr polys" and "1 \<le> t"
  shows "length polys = length secret
    \<and> (\<forall>b < length secret. length (polys ! b) = nat t \<and> hd (polys ! b) = secret ! b)"
  using assms
proof (induction rng i t secret arbitrary: polys rule: mk_polys.induct)
  case (2 rng i t s ss)
  show ?case
  proof (cases "t > 1")
    case True
    with "2.prems" obtain extra ps where e: "rng i = Some extra"
      and ps: "mk_polys rng (Suc i) t ss = Inr ps"
      and p: "polys = (s # fill (nat (t - 1)) extra) # ps"
      by (auto split: option.splits)
    from "2.IH"(1) [OF True e ps] "2.prems" True show ?thesis
      by (auto simp: p nth_Cons less_Suc_eq_0_disj split: nat.splits)
  next
    case False
    with "2.prems" obtain ps where ps: "mk_polys rng i t ss = Inr ps" and p: "polys = [s] # ps"
      by auto
    from "2.IH"(2) [OF False ps] "2.prems" False show ?thesis
      by (auto simp: p nth_Cons less_Suc_eq_0_disj split: nat.splits)
  qed
qed simp

subsection \<open>The loops of Combine\<close>

lemma check_lengths_iff:
  "check_lengths len i ss = Inr () \<longleftrightarrow> (\<forall>s \<in> set ss. length (sh_bytes s) = len)"
  by (induction len i ss rule: check_lengths.induct) auto

interpretation index_loop: distinct_loop check_indices sh_index "\<lambda>s. sh_index s \<noteq> 0"
  by unfold_locales auto

text \<open>The two products the inner loop accumulates.\<close>

lemma basis_loop_prefix:
  fixes shares :: "share list" and i n :: nat
  defines "X \<equiv> \<lambda>j. gf (sh_index (shares ! j))"
  shows "foldl (\<lambda>(num, den) j.
       if i = j then (num, den)
       else (gfMul num (sh_index (shares ! j)),
             gfMul den (gfAdd (sh_index (shares ! i)) (sh_index (shares ! j)))))
     (1, 1) [0..<n] = (num, den) \<Longrightarrow>
   gf num = (\<Prod>j\<in>{..<n} - {i}. X j) \<and> gf den = (\<Prod>j\<in>{..<n} - {i}. X i + X j)"
proof (induction n arbitrary: num den)
  case 0
  then show ?case by (simp add: gf_hom)
next
  case (Suc n)
  have S: "{..<Suc n} - {i} = (if i = n then {..<n} - {i} else insert n ({..<n} - {i}))"
    by auto
  have T: "{..<Suc n} - {n} = {..<n}" by auto
  obtain num' den' where st: "foldl (\<lambda>(num, den) j.
       if i = j then (num, den)
       else (gfMul num (sh_index (shares ! j)),
             gfMul den (gfAdd (sh_index (shares ! i)) (sh_index (shares ! j)))))
     (1, 1) [0..<n] = (num', den')" by fastforce
  from Suc.IH [OF st] Suc.prems st show ?case
    by (cases "i = n") (auto simp: S T gf_hom X_def mult.commute)
qed

lemma basis_loop_eq:
  assumes "basis_loop shares i = (num, den)" and "i < length shares"
    and "distinct (map sh_index shares)"
  shows "den \<noteq> 0 \<and> gf (gfMul num (gfInv den)) =
    lbasis (\<lambda>j. gf (sh_index (shares ! j))) {..<length shares} i 0"
proof -
  let ?X = "\<lambda>j. gf (sh_index (shares ! j))" and ?S = "{..<length shares} - {i}"
  have P: "gf num = (\<Prod>j\<in>?S. ?X j)" "gf den = (\<Prod>j\<in>?S. ?X i + ?X j)"
    using basis_loop_prefix [of i shares "length shares" num den] assms(1)
    by (simp_all add: basis_loop_def)
  have "?X i + ?X j \<noteq> 0" if "j \<in> ?S" for j
  proof -
    have "sh_index (shares ! i) \<noteq> sh_index (shares ! j)"
      using assms(2,3) that nth_eq_iff_index_eq [of "map sh_index shares" i j] by auto
    then have "?X i - ?X j \<noteq> 0" by (simp del: gf_char2)
    then show ?thesis by simp
  qed
  then have "gf den \<noteq> 0" by (simp add: P)
  then have "den \<noteq> 0" by simp
  moreover have "gf (gfMul num (gfInv den)) = (\<Prod>j\<in>?S. ?X j / (?X i + ?X j))"
  proof -
    have "gf (gfMul num (gfInv den)) = gf num / gf den" by (simp add: gf_hom divide_inverse)
    then show ?thesis by (simp only: P prod_dividef)
  qed
  ultimately show ?thesis by (simp add: lbasis_def)
qed

lemma total_loop_eq:
  assumes "distinct (map sh_index shares)" and "set is \<subseteq> {..<length shares}" and "distinct is"
  shows "\<exists>out. total_loop shares b tot is = Inr out \<and>
    gf out = gf tot + (\<Sum>i\<in>set is. gf (sh_bytes (shares ! i) ! b) *
      lbasis (\<lambda>j. gf (sh_index (shares ! j))) {..<length shares} i 0)"
  using assms(2,3)
proof (induction "is" arbitrary: tot)
  case (Cons i "is")
  obtain num den where nd: "basis_loop shares i = (num, den)" by fastforce
  with basis_loop_eq [OF nd _ assms(1)] Cons.prems
  have den: "den \<noteq> 0" and lb: "gf (gfMul num (gfInv den)) =
      lbasis (\<lambda>j. gf (sh_index (shares ! j))) {..<length shares} i 0" by auto
  have "set is \<subseteq> {..<length shares}" "distinct is" using Cons.prems by auto
  let ?y = "sh_bytes (shares ! i) ! b" and ?c = "gfMul num (gfInv den)"
  from Cons.IH [OF \<open>set is \<subseteq> _\<close> \<open>distinct is\<close>, of "gfAdd tot (gfMul ?y ?c)"]
  obtain out where out: "total_loop shares b (gfAdd tot (gfMul ?y ?c)) is = Inr out"
    and sum: "gf out = gf (gfAdd tot (gfMul ?y ?c)) + (\<Sum>i\<in>set is. gf (sh_bytes (shares ! i) ! b) *
      lbasis (\<lambda>j. gf (sh_index (shares ! j))) {..<length shares} i 0)" by blast
  have "gf (gfAdd tot (gfMul ?y ?c)) = gf tot + gf ?y *
      lbasis (\<lambda>j. gf (sh_index (shares ! j))) {..<length shares} i 0"
    by (simp only: gf_hom(1) gf_hom(2) [of ?y] lb)
  with sum Cons.prems show ?case by (simp add: nd den Let_def out add.assoc)
qed simp

lemma secret_loop_eq:
  assumes "\<And>b. b \<in> set bs \<Longrightarrow> total_loop shares b 0 [0..<length shares] = Inr (f b)"
  shows "secret_loop shares bs = Inr (map f bs)"
  using assms by (induction bs) auto

text \<open>
  Shares that lie on polynomials with \<open>threshold\<close> coefficients combine to the constant terms.
\<close>

lemma combine_on_polys:
  assumes t: "1 \<le> t" "t \<le> int (length sub)"
    and ss: "ss = take (nat t) sub"
    and idx: "distinct (map sh_index ss)" "\<forall>s \<in> set ss. sh_index s \<noteq> 0"
    and pts: "\<forall>s \<in> set ss. sh_bytes s = map (\<lambda>p. evalPoly p (sh_index s)) polys"
    and deg: "\<forall>p \<in> set polys. length p = nat t"
  shows "combine_shares sub t = Inr (map hd polys)"
proof -
  have k: "length ss = nat t" "ss \<noteq> []" using t ss by auto
  have len: "\<forall>s \<in> set ss. length (sh_bytes s) = length polys" using pts by simp
  have hd: "length (sh_bytes (hd ss)) = length polys" using len k by simp
  have tot: "total_loop ss b 0 [0..<length ss] = Inr (hd (polys ! b))" if b: "b < length polys" for b
  proof -
    let ?X = "\<lambda>j. gf (sh_index (ss ! j))" and ?cs = "map gf (polys ! b)"
    have p: "polys ! b \<in> set polys" using b by simp
    with deg k have lcs: "length ?cs = length ss" and ne: "polys ! b \<noteq> []" by auto
    have inj: "inj_on ?X {..<length ss}"
      using idx(1) nth_eq_iff_index_eq [of "map sh_index ss"] by (auto simp: inj_on_def)
    obtain out where out: "total_loop ss b 0 [0..<length ss] = Inr out"
      and "gf out = gf 0 + (\<Sum>i\<in>{..<length ss}. gf (sh_bytes (ss ! i) ! b) *
          lbasis ?X {..<length ss} i 0)"
      using total_loop_eq [OF idx(1), of "[0..<length ss]" b 0]
      by (auto simp: lessThan_atLeast0)
    then have "gf out = (\<Sum>i\<in>{..<length ss}. horner ?cs (?X i) * lbasis ?X {..<length ss} i 0)"
      using pts b by (simp add: gf_hom evalPoly_horner)
    also have "\<dots> = horner ?cs 0"
      using k t(1) lcs inj by (intro lagrange_exact) (auto simp: lessThan_empty_iff)
    also have "\<dots> = gf (hd (polys ! b))" using ne by (simp add: horner_0 hd_map)
    finally show ?thesis using out by simp
  qed
  have "check_lengths (length polys) 0 ss = Inr ()" using len by (simp add: check_lengths_iff)
  moreover have "check_indices {} ss = Inr ()"
    using idx by (simp add: index_loop.accepts_empty list_all_iff)
  moreover have "secret_loop ss [0..<length polys] = Inr (map (\<lambda>b. hd (polys ! b)) [0..<length polys])"
    by (rule secret_loop_eq) (simp add: tot)
  moreover have "map (\<lambda>b. hd (polys ! b)) [0..<length polys] = map hd polys"
    by (rule nth_equalityI) auto
  ultimately show ?thesis using t by (simp add: combine_shares_def Let_def flip: ss) (simp add: hd)
qed

subsection \<open>Splitting and recombining\<close>

lemma split_secret_Inr:
  assumes "split_secret rng secret n t = Inr shares"
  obtains polys where "1 \<le> t" "t \<le> n" "n \<le> 255" "secret \<noteq> []"
    "mk_polys rng 0 t secret = Inr polys"
    "shares = map (\<lambda>i. \<lparr>sh_index = of_nat (i + 1),
       sh_bytes = map (\<lambda>p. evalPoly p (of_nat (i + 1))) polys\<rparr>) [0..<nat n]"
  using assms that by (auto simp: split_secret_def Let_def)

text \<open>
  Any \<open>threshold\<close> of the shares (or more) give the secret back, in any order.
\<close>

lemma split_combine:
  assumes split: "split_secret rng secret n t = Inr shares"
    and sub: "set sub \<subseteq> set shares" "distinct sub" "t \<le> int (length sub)"
  shows "combine_shares sub t = Inr secret"
proof -
  from split obtain polys where t: "1 \<le> t" "t \<le> n" "n \<le> 255"
    and mk: "mk_polys rng 0 t secret = Inr polys"
    and shs: "shares = map (\<lambda>i. \<lparr>sh_index = of_nat (i + 1),
       sh_bytes = map (\<lambda>p. evalPoly p (of_nat (i + 1))) polys\<rparr>) [0..<nat n]"
    by (rule split_secret_Inr)
  have polys: "length polys = length secret"
    "\<forall>b < length secret. length (polys ! b) = nat t \<and> hd (polys ! b) = secret ! b"
    using mk_polys_Inr [OF mk t(1)] by auto
  let ?ss = "take (nat t) sub"
  have in_sub: "\<exists>i < nat n. s = \<lparr>sh_index = of_nat (i + 1),
       sh_bytes = map (\<lambda>p. evalPoly p (of_nat (i + 1))) polys\<rparr>" if "s \<in> set ?ss" for s
  proof -
    from that sub(1) have "s \<in> set shares" by (auto dest: in_set_takeD)
    then show ?thesis by (auto simp: shs)
  qed
  have small: "i < nat n \<Longrightarrow> i + 1 < 256" for i using t by simp
  have pts: "sh_bytes s = map (\<lambda>p. evalPoly p (sh_index s)) polys" "sh_index s \<noteq> 0"
    if s: "s \<in> set ?ss" for s
    using in_sub [OF s] small by (auto simp: of_nat_byte_eq_0 simp del: of_nat_Suc)
  have "inj_on sh_index (set ?ss)"
    using pts(1) by (intro inj_onI) (metis old.unit.exhaust share.surjective)
  then have "distinct (map sh_index ?ss)"
    using sub(2) by (simp add: distinct_map)
  moreover have "\<forall>p \<in> set polys. length p = nat t"
    using polys by (auto simp: in_set_conv_nth)
  ultimately have "combine_shares sub t = Inr (map hd polys)"
    using t sub(3) pts by (intro combine_on_polys [where ss = ?ss]) auto
  moreover have "map hd polys = secret"
    using polys by (intro nth_equalityI) auto
  ultimately show ?thesis by simp
qed

text \<open>Which calls of \<open>Split\<close> succeed, and what shape the shares have.\<close>

lemma mk_polys_total:
  "\<forall>j. rng j \<noteq> None \<Longrightarrow> \<exists>polys. mk_polys rng i t secret = Inr polys"
proof (induction rng i t secret rule: mk_polys.induct)
  case (2 rng i t s ss)
  show ?case
  proof (cases "t > 1")
    case True
    from "2.prems" obtain extra where e: "rng i = Some extra" by blast
    from "2.IH"(1) [OF True e "2.prems"] True e show ?thesis by auto
  next
    case False
    from "2.IH"(2) [OF False "2.prems"] False show ?thesis by auto
  qed
qed simp

lemma split_secret_total:
  assumes "1 \<le> t" "t \<le> n" "n \<le> 255" "secret \<noteq> []" and "\<forall>j. rng j \<noteq> None"
  shows "\<exists>shares. split_secret rng secret n t = Inr shares"
  using assms mk_polys_total [of rng 0 t secret] by (auto simp: split_secret_def)

lemma split_secret_shape:
  assumes "split_secret rng secret n t = Inr shares"
  shows "length shares = nat n"
    and "\<And>i. i < nat n \<Longrightarrow> sh_index (shares ! i) = of_nat (i + 1)"
    and "\<And>i. i < nat n \<Longrightarrow> length (sh_bytes (shares ! i)) = length secret"
    and "distinct shares"
proof -
  obtain polys where t: "1 \<le> t" "n \<le> 255" and mk: "mk_polys rng 0 t secret = Inr polys"
    and shs: "shares = map (\<lambda>i. \<lparr>sh_index = of_nat (i + 1),
       sh_bytes = map (\<lambda>p. evalPoly p (of_nat (i + 1))) polys\<rparr>) [0..<nat n]"
    using split_secret_Inr [OF assms] by blast
  show "length shares = nat n"
    and ix: "\<And>i. i < nat n \<Longrightarrow> sh_index (shares ! i) = of_nat (i + 1)"
    and "\<And>i. i < nat n \<Longrightarrow> length (sh_bytes (shares ! i)) = length secret"
    using mk_polys_Inr [OF mk t(1)] by (simp_all add: shs)
  show "distinct shares"
    unfolding distinct_conv_nth
  proof (intro allI impI)
    fix i j assume ij: "i < length shares" "j < length shares" "i \<noteq> j"
    then have "i + 1 < 256" "j + 1 < 256" "i < nat n" "j < nat n" using t by (auto simp: shs)
    then have "sh_index (shares ! i) \<noteq> sh_index (shares ! j)"
      using ij(3) by (simp only: ix of_nat_byte_inject not_False_eq_True add_right_cancel)
    then show "shares ! i \<noteq> shares ! j" by auto
  qed
qed

subsection \<open>Below the threshold\<close>

lemma horner_append_zeros: "horner (cs @ replicate n 0) x = horner cs x"
proof (induction cs)
  case Nil
  show ?case by (induction n) auto
qed auto

text \<open>A byte polynomial through prescribed values, with a prescribed constant term.\<close>

lemma byte_poly_exists:
  assumes "distinct xs" and "0 \<notin> set xs" and "length xs < k"
  shows "\<exists>p. length p = k \<and> hd p = s \<and> (\<forall>x \<in> set xs. evalPoly p x = f x)"
proof -
  define pts where "pts = (0, gf s) # map (\<lambda>x. (gf x, gf (f x))) xs"
  define cs where "cs = interpolate pts @ replicate (k - length pts) 0"
  define p where "p = map byte_of cs"
  have gfp: "map gf p = cs" by (simp add: p_def byte_of_inverse comp_def)
  have d: "distinct (map fst pts)"
    using assms(1,2) by (auto simp: pts_def distinct_map inj_on_def comp_def)
  have ev: "gf (evalPoly p x) = horner (interpolate pts) (gf x)" for x
    by (simp only: evalPoly_horner gfp cs_def horner_append_zeros)
  have len: "length p = k" using assms(3) by (simp add: p_def cs_def pts_def)
  have "horner (interpolate pts) 0 = gf s"
    by (rule interpolate_through [OF d]) (simp add: pts_def)
  then have "gf (evalPoly p 0) = gf s" by (simp only: ev gf_hom(4))
  then have "evalPoly p 0 = s" by (simp only: gf_inject)
  moreover have "p = hd p # tl p" using len assms(3) by (cases p) auto
  then have "evalPoly p 0 = hd p" by (metis evalPoly_zero)
  ultimately have "hd p = s" by simp
  moreover have "evalPoly p x = f x" if "x \<in> set xs" for x
  proof -
    have "horner (interpolate pts) (gf x) = gf (f x)"
      using that by (intro interpolate_through [OF d]) (auto simp: pts_def)
    then have "gf (evalPoly p x) = gf (f x)" by (simp only: ev)
    then show ?thesis by (simp only: gf_inject)
  qed
  ultimately show ?thesis using len by blast
qed

text \<open>Every family of polynomials with the right constant terms is drawn by some source.\<close>

lemma mk_polys_any:
  assumes "length polys = length secret"
    and "\<forall>b < length secret. length (polys ! b) = nat t \<and> hd (polys ! b) = secret ! b"
    and "1 \<le> t" and "t > 1 \<Longrightarrow> \<forall>b < length secret. rng (i + b) = Some (\<lambda>j. polys ! b ! Suc j)"
  shows "mk_polys rng i t secret = Inr polys"
  using assms(1,2,4)
proof (induction secret arbitrary: i polys)
  case (Cons s ss)
  then obtain p ps where p: "polys = p # ps" by (cases polys) auto
  have hd: "length p = nat t" "hd p = s" using Cons.prems(2) by (auto simp: p)
  have rest: "\<forall>b < length ss. length (ps ! b) = nat t \<and> hd (ps ! b) = ss ! b"
    using Cons.prems(2) by (auto simp: p)
  have len: "length ps = length ss" using Cons.prems(1) by (simp add: p)
  show ?case
  proof (cases "t > 1")
    case True
    have r: "rng (i + b) = Some (\<lambda>j. polys ! b ! Suc j)" if "b < length (s # ss)" for b
      using Cons.prems(3) True that by blast
    have r0: "rng i = Some (\<lambda>j. p ! Suc j)" using r [of 0] by (simp add: p)
    have "\<forall>b < length ss. rng (Suc i + b) = Some (\<lambda>j. ps ! b ! Suc j)"
      using r [of "Suc _"] by (simp add: p)
    with Cons.IH [OF len rest] have "mk_polys rng (Suc i) t ss = Inr ps" by simp
    moreover have "s # fill (nat (t - 1)) (\<lambda>j. p ! Suc j) = p"
      unfolding fill_def using hd True
      by (intro nth_equalityI) (cases p; auto simp: nth_Cons split: nat.splits)+
    ultimately show ?thesis using True r0 by (simp add: p)
  next
    case False
    with assms(3) have "t = 1" by simp
    with hd have "p = [s]" by (cases p) auto
    moreover have "mk_polys rng i t ss = Inr ps" using Cons.IH [OF len rest] False by simp
    ultimately show ?thesis using False by (simp add: p)
  qed
qed simp

lemma split_secrecy:
  assumes split: "split_secret rng secret n t = Inr shares"
    and len: "length secret' = length secret"
    and few: "distinct is" "\<forall>i \<in> set is. i < nat n" "int (length is) < t"
  shows "\<exists>rng' shares'. split_secret rng' secret' n t = Inr shares' \<and>
    (\<forall>i \<in> set is. shares' ! i = shares ! i)"
proof -
  from split obtain polys where t: "1 \<le> t" "t \<le> n" "n \<le> 255" "secret \<noteq> []"
    and mk: "mk_polys rng 0 t secret = Inr polys"
    and shs: "shares = map (\<lambda>i. \<lparr>sh_index = of_nat (i + 1),
       sh_bytes = map (\<lambda>p. evalPoly p (of_nat (i + 1))) polys\<rparr>) [0..<nat n]"
    by (rule split_secret_Inr)
  let ?xs = "map (\<lambda>i. of_nat (i + 1) :: byte) is"
  have small: "i + 1 < 256" if "i \<in> set is" for i
  proof -
    have "i < nat n" using few(2) that by blast
    then show ?thesis using t(3) by simp
  qed
  have xs: "distinct ?xs" "0 \<notin> set ?xs" "length ?xs < nat t"
    using few small
    by (auto simp: distinct_map inj_on_def of_nat_byte_inject of_nat_byte_eq_0 simp del: of_nat_Suc)
  let ?ok = "\<lambda>b p. length p = nat t \<and> hd p = secret' ! b \<and>
    (\<forall>x \<in> set ?xs. evalPoly p x = evalPoly (polys ! b) x)"
  have "\<forall>b. \<exists>p. ?ok b p" using byte_poly_exists [OF xs] by blast
  then obtain g where g: "\<And>b. ?ok b (g b)" by metis
  let ?polys = "map g [0..<length secret']"
  let ?rng = "\<lambda>b. Some (\<lambda>j. ?polys ! b ! Suc j)"
  have mk': "mk_polys ?rng 0 t secret' = Inr ?polys"
    using g t(1) by (intro mk_polys_any) auto
  have "split_secret ?rng secret' n t = Inr (map (\<lambda>i. \<lparr>sh_index = of_nat (i + 1),
       sh_bytes = map (\<lambda>p. evalPoly p (of_nat (i + 1))) ?polys\<rparr>) [0..<nat n])" (is "_ = Inr ?shares")
    using t len mk' by (auto simp: split_secret_def Let_def)
  moreover have "?shares ! i = shares ! i" if i: "i \<in> set is" for i
  proof -
    have "length polys = length secret" using mk_polys_Inr [OF mk t(1)] by simp
    moreover have "evalPoly (g b) (of_nat (i + 1)) = evalPoly (polys ! b) (of_nat (i + 1))" for b
      using g i by auto
    ultimately have "map (\<lambda>p. evalPoly p (of_nat (i + 1))) ?polys
        = map (\<lambda>p. evalPoly p (of_nat (i + 1))) polys"
      using len by (intro nth_equalityI) auto
    then show ?thesis using few(2) i by (simp add: shs)
  qed
  ultimately show ?thesis by blast
qed

text \<open>
  The source that does so is determined: with exactly \<open>threshold - 1\<close> known shares, each
  candidate secret is explained by one family of polynomials and no other.
\<close>

lemma polys_unique:
  assumes "length p = k" "length q = k" "hd p = hd q" "0 < k"
    and "distinct xs" "0 \<notin> set xs" "length xs = k - 1"
    and "\<forall>x \<in> set xs. evalPoly p x = evalPoly q x"
  shows "p = q"
proof -
  have "map gf p = map gf q"
  proof (rule horner_unique [where xs = "gf 0 # map gf xs"])
    show "distinct (gf 0 # map gf xs)" using assms(5,6) by (auto simp: distinct_map inj_on_def gf_hom)
    fix x assume "x \<in> set (gf 0 # map gf xs)"
    then obtain y where y: "x = gf y" "y = 0 \<or> y \<in> set xs" by auto
    have "evalPoly p 0 = evalPoly q 0" using assms(1-4) evalPoly_zero by (cases p; cases q) auto
    with y assms(8) have "evalPoly p y = evalPoly q y" by auto
    then show "horner (map gf p) x = horner (map gf q) x"
      by (simp add: y flip: evalPoly_horner)
  qed (use assms in auto)
  then show ?thesis by (rule map_injective) (simp add: inj_def)
qed

text \<open>The interface a client of the sharing relies on.\<close>

locale threshold_sharing =
  fixes split :: "rng \<Rightarrow> bytes \<Rightarrow> int \<Rightarrow> int \<Rightarrow> 'e + share list"
    and combine :: "share list \<Rightarrow> int \<Rightarrow> 'e + bytes"
  assumes reconstruct: "split rng secret n t = Inr shares \<Longrightarrow> set sub \<subseteq> set shares \<Longrightarrow>
      distinct sub \<Longrightarrow> t \<le> int (length sub) \<Longrightarrow> combine sub t = Inr secret"
    and shares_distinct: "split rng secret n t = Inr shares \<Longrightarrow> distinct shares"
    and shares_count: "split rng secret n t = Inr shares \<Longrightarrow> length shares = nat n"
begin

text \<open>Shares picked by different positions reconstruct the secret.\<close>

lemma reconstruct_positions:
  assumes "split rng secret n t = Inr shares" and "distinct is"
    and "\<forall>i \<in> set is. i < nat n" and "t \<le> int (length is)"
  shows "combine (map ((!) shares) is) t = Inr secret"
proof (rule reconstruct [OF assms(1)])
  show "set (map ((!) shares) is) \<subseteq> set shares"
    using assms(3) shares_count [OF assms(1)] by auto
  show "distinct (map ((!) shares) is)"
    using assms(2,3) shares_count [OF assms(1)] shares_distinct [OF assms(1)]
    by (auto simp: distinct_map inj_on_def nth_eq_iff_index_eq)
qed (use assms(4) in simp)

end

interpretation sharing: threshold_sharing split_secret combine_shares
  by unfold_locales (auto intro: split_combine split_secret_shape)

subsection \<open>Properties\<close>

text \<open>
  C1: Any \<open>threshold\<close> of the shares \<open>Split\<close> makes, taken at different positions and in any
  order, are combined by \<open>Combine\<close> to the secret.
\<close>

theorem combine_after_split:
  assumes "split_secret rng secret n threshold = Inr shares" and "distinct is"
    and "\<forall>i \<in> set is. i < nat n" and "threshold \<le> int (length is)"
  shows "combine_shares (map ((!) shares) is) threshold = Inr secret"
  by (rule sharing.reconstruct_positions [OF assms])

theorem combine_after_split_witness:
  "\<exists>shares. split_secret demo_rng [1, 2, 3] 5 3 = Inr shares \<and>
    combine_shares (map ((!) shares) [4, 0, 2]) 3 = Inr [1, 2, 3]"
proof -
  obtain shares where s: "split_secret demo_rng [1, 2, 3] 5 3 = Inr shares"
    using split_secret_total [of 3 5 "[1, 2, 3]" demo_rng] by (auto simp: demo_rng_def)
  have "combine_shares (map ((!) shares) [4, 0, 2]) 3 = Inr [1, 2, 3]"
    by (rule combine_after_split [OF s]) auto
  with s show ?thesis by blast
qed

text \<open>
  C10: Fewer than \<open>threshold\<close> shares say nothing about the secret: for every other secret of the
  same length there are random coefficients with which \<open>Split\<close> gives these very shares.
\<close>

theorem split_hides_secret:
  assumes "split_secret rng secret n threshold = Inr shares"
    and "length secret' = length secret" and "distinct is"
    and "\<forall>i \<in> set is. i < nat n" and "int (length is) < threshold"
  shows "\<exists>rng' shares'. split_secret rng' secret' n threshold = Inr shares' \<and>
    map ((!) shares') is = map ((!) shares) is"
  using split_secrecy [OF assms] by auto

theorem split_hides_secret_witness:
  "\<exists>shares rng' shares'. split_secret demo_rng [1, 2] 4 3 = Inr shares \<and>
    split_secret rng' [77, 88] 4 3 = Inr shares' \<and>
    map ((!) shares') [3, 1] = map ((!) shares) [3, 1]"
proof -
  obtain shares where s: "split_secret demo_rng [1, 2] 4 3 = Inr shares"
    using split_secret_total [of 3 4 "[1, 2]" demo_rng] by (auto simp: demo_rng_def)
  have "\<exists>rng' shares'. split_secret rng' [77, 88] 4 3 = Inr shares' \<and>
    map ((!) shares') [3, 1] = map ((!) shares) [3, 1]"
    by (rule split_hides_secret [OF s]) auto
  with s show ?thesis by blast
qed

text \<open>The errors of the two checks, and the interpolation of shares that passed them.\<close>

lemma check_lengths_error: "check_lengths n i xs = Inl e \<Longrightarrow> \<exists>j. e = Share_length j"
  by (induction n i xs rule: check_lengths.induct) (auto split: if_splits)

lemma check_indices_error: "check_indices seen xs = Inl e \<Longrightarrow> e = Index_zero \<or> (\<exists>j. e = Duplicate_index j)"
  by (induction seen xs rule: check_indices.induct) (auto split: if_splits)

lemma secret_loop_runs:
  assumes d: "distinct (map sh_index ss)"
  shows "\<exists>out. secret_loop ss bs = Inr out"
proof (induction bs)
  case (Cons b bs)
  obtain t where "total_loop ss b 0 [0..<length ss] = Inr t"
    using total_loop_eq [OF d, of "[0..<length ss]" b 0] by (auto simp: lessThan_atLeast0)
  with Cons show ?case by auto
qed simp

text \<open>
  C19: When \<open>Combine\<close> succeeds: exactly on a threshold of at least 1 with that many shares,
  the first of which agree in length and have different non-zero indices. The test for a zero
  denominator never fires; a threshold below 1 is not checked and panics.
\<close>

theorem combine_success_iff:
  "((\<exists>secret. combine_shares shares threshold = Inr secret) \<longleftrightarrow>
     1 \<le> threshold \<and> threshold \<le> int (length shares) \<and>
     list_all (\<lambda>s. length (sh_bytes s) = length (sh_bytes (hd shares)) \<and> sh_index s \<noteq> 0)
       (take (nat threshold) shares) \<and>
     distinct (map sh_index (take (nat threshold) shares)))
   \<and> combine_shares shares threshold \<noteq> Inl Zero_denominator
   \<and> (combine_shares shares threshold = Inl Panic_out_of_range \<longleftrightarrow> threshold < 1)"
proof -
  let ?ss = "take (nat threshold) shares" and ?r = "combine_shares shares threshold"
  let ?len = "length (sh_bytes (hd ?ss))"
  consider (few) "int (length shares) < threshold" | (panic) "threshold < 1"
    | (go) "1 \<le> threshold" "threshold \<le> int (length shares)" by linarith
  then show ?thesis
  proof cases
    case few
    then show ?thesis by (auto simp: combine_shares_def)
  next
    case panic
    then show ?thesis by (auto simp: combine_shares_def)
  next
    case go
    then have hd: "hd ?ss = hd shares" by (cases shares) (auto simp: take_Cons split: nat.splits)
    show ?thesis
    proof (cases "check_lengths ?len 0 ?ss")
      case (Inl e)
      with check_lengths_error [OF Inl] go check_lengths_iff [of ?len 0 ?ss] show ?thesis
        by (auto simp: combine_shares_def Let_def hd list_all_iff)
    next
      case len: (Inr u)
      show ?thesis
      proof (cases "check_indices {} ?ss")
        case (Inl e)
        have "\<not> (distinct (map sh_index ?ss) \<and> list_all (\<lambda>s. sh_index s \<noteq> 0) ?ss)"
          using Inl index_loop.accepts_empty [of ?ss] by auto
        with check_indices_error [OF Inl] Inl len go show ?thesis
          by (auto simp: combine_shares_def Let_def hd list_all_iff)
      next
        case (Inr v)
        then have d: "distinct (map sh_index ?ss)" "\<forall>s \<in> set ?ss. sh_index s \<noteq> 0"
          using index_loop.accepts_empty [of ?ss] by (auto simp: list_all_iff)
        obtain out where out: "secret_loop ?ss [0..<?len] = Inr out" using secret_loop_runs [OF d(1)] by blast
        have "?r = Inr out" using go len Inr out by (simp add: combine_shares_def Let_def)
        moreover have "\<forall>s \<in> set ?ss. length (sh_bytes s) = length (sh_bytes (hd shares))"
          using len check_lengths_iff [of ?len 0 ?ss] hd by auto
        ultimately show ?thesis using d go by (auto simp: list_all_iff)
      qed
    qed
  qed
qed

end
