(* ===== verification/Envelope.thy ===== *)
theory Envelope
  imports Shamir Crypto
begin

text \<open>
  \<open>internal/qee/envelope.go\<close>: a data key sealed twice, to the host (\<open>SiliconWrap\<close>) and in
  Shamir shares to the witnesses. \<open>[32]byte\<close> and \<open>[24]byte\<close> arrays are byte lists, a nil
  pointer is \<open>None\<close>, the AEAD and the box are parameters. Calls of the entropy source are
  numbered in the order the code makes them.
\<close>

record witness_pubkey =
  wp_index :: int
  wp_pubkey :: bytes

record box_result =
  br_ephemeral :: bytes
  br_nonce :: bytes
  br_ciphertext :: bytes

record silicon_wrap =
  sw_ephemeral :: bytes
  sw_nonce :: bytes
  sw_ciphertext :: bytes

record witness_share =
  ws_index :: int
  ws_ephemeral :: bytes
  ws_nonce :: bytes
  ws_ciphertext :: bytes

record sealed_envelope =
  se_nonce :: bytes
  se_data :: bytes
  se_silicon :: "silicon_wrap option"
  se_shares :: "witness_share list"
  se_threshold :: int
  se_roster :: int

datatype envelope_error =
    Env_threshold
  | Env_rand
  | Env_aead_init
  | Env_silicon_wrap
  | Env_split shamir_error
  | Env_witness_box nat
  | Env_nil
  | Env_unwrap
  | Env_aead_open
  | Env_few_shares
  | Env_combine shamir_error
  | Env_dek_size
  | Env_unbox
  | Env_short_share
  | Env_panic_nonce \<comment> \<open>\<open>aead.Open\<close> panics on a nonce that is not 12 bytes\<close>

definition envelopeAD :: "int \<Rightarrow> int \<Rightarrow> bytes" where
  "envelopeAD rosterSize threshold = putUint64 (of_int rosterSize) @ putUint64 (of_int threshold)"

subsection \<open>Boxes\<close>

text \<open>Two calls of the entropy source, from the \<open>c\<close>-th on: the key pair and the nonce.\<close>

definition boxSealGeneric :: "nacl_box \<Rightarrow> rng \<Rightarrow> nat \<Rightarrow> bytes \<Rightarrow> bytes \<Rightarrow> box_result option" where
  "boxSealGeneric B rng c payload recipientPub =
     (case rng c of
        None \<Rightarrow> None
      | Some k \<Rightarrow>
          (case rng (c + 1) of
             None \<Rightarrow> None
           | Some m \<Rightarrow>
               let ephPriv = fill 32 k; nonce = fill 24 m in
               Some \<lparr>br_ephemeral = box_public B ephPriv, br_nonce = nonce,
                 br_ciphertext = box_seal B payload nonce recipientPub ephPriv\<rparr>))"

definition boxOpenGeneric :: "nacl_box \<Rightarrow> bytes \<Rightarrow> bytes \<Rightarrow> bytes \<Rightarrow> bytes \<Rightarrow> bytes option" where
  "boxOpenGeneric B ephPub nonce ct recipientPriv = box_open B ct nonce ephPub recipientPriv"

definition boxSealDek :: "nacl_box \<Rightarrow> rng \<Rightarrow> nat \<Rightarrow> bytes \<Rightarrow> bytes \<Rightarrow> silicon_wrap option" where
  "boxSealDek B rng c dek recipientPub =
     map_option (\<lambda>r. \<lparr>sw_ephemeral = br_ephemeral r, sw_nonce = br_nonce r,
       sw_ciphertext = br_ciphertext r\<rparr>) (boxSealGeneric B rng c dek recipientPub)"

definition boxOpenDek :: "nacl_box \<Rightarrow> silicon_wrap \<Rightarrow> bytes \<Rightarrow> bytes option" where
  "boxOpenDek B w recipientPriv =
     boxOpenGeneric B (sw_ephemeral w) (sw_nonce w) (sw_ciphertext w) recipientPriv"

text \<open>The loop over the witnesses: share \<open>i\<close> goes to witness \<open>i\<close>, its box to position \<open>i\<close>.\<close>

fun seal_shares :: "nacl_box \<Rightarrow> rng \<Rightarrow> nat \<Rightarrow> nat \<Rightarrow> share list \<Rightarrow> witness_pubkey list
    \<Rightarrow> envelope_error + witness_share list" where
  "seal_shares B rng c i shares [] = Inr []"
| "seal_shares B rng c i shares (w # ws) =
     (let body = sh_index (shares ! i) # sh_bytes (shares ! i) in
      case boxSealGeneric B rng c body (wp_pubkey w) of
        None \<Rightarrow> Inl (Env_witness_box i)
      | Some r \<Rightarrow> bind_r (seal_shares B rng (c + 2) (i + 1) shares ws)
          (\<lambda>rest. Inr (\<lparr>ws_index = wp_index w, ws_ephemeral = br_ephemeral r,
             ws_nonce = br_nonce r, ws_ciphertext = br_ciphertext r\<rparr> # rest)))"

text \<open>How many reads \<open>Split\<close> makes: one per byte of the secret, none at threshold 1.\<close>

definition split_reads :: "bytes \<Rightarrow> int \<Rightarrow> nat" where
  "split_reads secret threshold = (if threshold > 1 then length secret else 0)"

text \<open>The part \<open>Seal\<close> and \<open>ReSeal\<close> share in shape: wrap a data key from the \<open>c\<close>-th read on.\<close>

definition wrap_key :: "nacl_box \<Rightarrow> rng \<Rightarrow> nat \<Rightarrow> bytes \<Rightarrow> bytes \<Rightarrow> witness_pubkey list \<Rightarrow> int
    \<Rightarrow> envelope_error + silicon_wrap \<times> witness_share list" where
  "wrap_key B rng c dek siliconPub witnesses threshold =
     (case boxSealDek B rng c dek siliconPub of
        None \<Rightarrow> Inl Env_silicon_wrap
      | Some siliconWrap \<Rightarrow>
          bind_r (wrap_err Env_split
              (split_secret (\<lambda>i. rng (c + 2 + i)) dek (int (length witnesses)) threshold)) (\<lambda>shares.
          bind_r (seal_shares B rng (c + 2 + split_reads dek threshold) 0 shares witnesses)
            (\<lambda>wShares. Inr (siliconWrap, wShares))))"

definition Seal :: "aead \<Rightarrow> nacl_box \<Rightarrow> rng \<Rightarrow> bytes \<Rightarrow> bytes \<Rightarrow> witness_pubkey list \<Rightarrow> int
    \<Rightarrow> envelope_error + sealed_envelope" where
  "Seal A B rng plaintext siliconPub witnesses threshold =
     guard (threshold < 1 \<or> threshold > int (length witnesses)) Env_threshold (
     case rng 0 of
       None \<Rightarrow> Inl Env_rand
     | Some d \<Rightarrow>
         let dek = fill 32 d in
         (case rng 1 of
            None \<Rightarrow> Inl Env_rand
          | Some m \<Rightarrow>
              let nonce = fill 12 m;
                  dataCT = aead_seal A dek nonce plaintext (envelopeAD (int (length witnesses)) threshold)
              in bind_r (wrap_key B rng 2 dek siliconPub witnesses threshold)
                (\<lambda>(siliconWrap, wShares).
                  Inr \<lparr>se_nonce = nonce, se_data = dataCT, se_silicon = Some siliconWrap,
                    se_shares = wShares, se_threshold = threshold,
                    se_roster = int (length witnesses)\<rparr>)))"

definition OpenSilicon :: "aead \<Rightarrow> nacl_box \<Rightarrow> sealed_envelope option \<Rightarrow> bytes
    \<Rightarrow> envelope_error + bytes" where
  "OpenSilicon A B env siliconPriv =
     (case env of
        None \<Rightarrow> Inl Env_nil
      | Some e \<Rightarrow>
          (case se_silicon e of
             None \<Rightarrow> Inl Env_nil
           | Some w \<Rightarrow>
               (case boxOpenDek B w siliconPriv of
                  None \<Rightarrow> Inl Env_unwrap
                | Some dek \<Rightarrow>
                    guard (length dek \<noteq> 32) Env_aead_init (
                    guard (length (se_nonce e) \<noteq> 12) Env_panic_nonce (
                    case aead_open A dek (se_nonce e) (se_data e)
                           (envelopeAD (se_roster e) (se_threshold e)) of
                      None \<Rightarrow> Inl Env_aead_open
                    | Some pt \<Rightarrow> Inr pt)))))"

definition RecoverDEK :: "sealed_envelope option \<Rightarrow> share list \<Rightarrow> envelope_error + bytes" where
  "RecoverDEK env decryptedShares =
     (case env of
        None \<Rightarrow> Inl Env_nil
      | Some e \<Rightarrow>
          guard (int (length decryptedShares) < se_threshold e) Env_few_shares (
          bind_r (wrap_err Env_combine (combine_shares decryptedShares (se_threshold e))) (\<lambda>dek.
          guard (length dek \<noteq> 32) Env_dek_size (Inr dek))))"

definition ReSeal :: "nacl_box \<Rightarrow> rng \<Rightarrow> sealed_envelope \<Rightarrow> bytes \<Rightarrow> bytes \<Rightarrow> witness_pubkey list
    \<Rightarrow> int \<Rightarrow> envelope_error + sealed_envelope" where
  "ReSeal B rng old recoveredDEK newSiliconPub newWitnesses newThreshold =
     guard (length recoveredDEK \<noteq> 32) Env_dek_size (
     guard (newThreshold < 1 \<or> newThreshold > int (length newWitnesses)) Env_threshold (
     bind_r (wrap_key B rng 0 recoveredDEK newSiliconPub newWitnesses newThreshold)
       (\<lambda>(siliconWrap, wShares).
         Inr \<lparr>se_nonce = se_nonce old, se_data = se_data old, se_silicon = Some siliconWrap,
           se_shares = wShares, se_threshold = newThreshold,
           se_roster = int (length newWitnesses)\<rparr>)))"

definition WitnessUnboxShare :: "nacl_box \<Rightarrow> witness_share \<Rightarrow> bytes \<Rightarrow> envelope_error + share" where
  "WitnessUnboxShare B ws witnessPriv =
     (case boxOpenGeneric B (ws_ephemeral ws) (ws_nonce ws) (ws_ciphertext ws) witnessPriv of
        None \<Rightarrow> Inl Env_unbox
      | Some inner \<Rightarrow>
          guard (length inner < 2) Env_short_share
            (Inr \<lparr>sh_index = hd inner, sh_bytes = tl inner\<rparr>))"

subsection \<open>Boxes open what they seal\<close>

lemma boxSealGeneric_open:
  assumes "box_ok B" and "boxSealGeneric B rng c payload (box_public B priv) = Some r"
  shows "boxOpenGeneric B (br_ephemeral r) (br_nonce r) (br_ciphertext r) priv = Some payload"
  using assms
  by (auto simp: boxSealGeneric_def boxOpenGeneric_def box_ok_def Let_def split: option.splits)

lemma boxSealDek_open:
  assumes "box_ok B" and "boxSealDek B rng c dek (box_public B priv) = Some w"
  shows "boxOpenDek B w priv = Some dek"
  using assms boxSealGeneric_open [OF assms(1)]
  by (auto simp: boxSealDek_def boxOpenDek_def)

lemma seal_shares_length: "seal_shares B rng c i shares ws = Inr wsh \<Longrightarrow> length wsh = length ws"
  by (induction B rng c i shares ws arbitrary: wsh rule: seal_shares.induct)
    (auto simp: Let_def split: option.splits)

lemma seal_shares_unbox:
  assumes B: "box_ok B" and "seal_shares B rng c i shares ws = Inr wsh"
    and "j < length ws" and "wp_pubkey (ws ! j) = box_public B priv"
    and "sh_bytes (shares ! (i + j)) \<noteq> []"
  shows "WitnessUnboxShare B (wsh ! j) priv = Inr (shares ! (i + j))"
  using assms(2-)
proof (induction ws arbitrary: c i wsh j)
  case (Cons w ws)
  let ?body = "sh_index (shares ! i) # sh_bytes (shares ! i)"
  from Cons.prems(1) obtain r rest where r: "boxSealGeneric B rng c ?body (wp_pubkey w) = Some r"
    and rest: "seal_shares B rng (c + 2) (i + 1) shares ws = Inr rest"
    and wsh: "wsh = \<lparr>ws_index = wp_index w, ws_ephemeral = br_ephemeral r,
       ws_nonce = br_nonce r, ws_ciphertext = br_ciphertext r\<rparr> # rest"
    by (auto simp: Let_def split: option.splits)
  show ?case
  proof (cases j)
    case 0
    with Cons.prems(3) r have "boxSealGeneric B rng c ?body (box_public B priv) = Some r" by simp
    from boxSealGeneric_open [OF B this] 0 Cons.prems(4) show ?thesis
      by (cases "sh_bytes (shares ! i)") (simp_all add: WitnessUnboxShare_def wsh)
  next
    case (Suc k)
    with Cons.prems Cons.IH [OF rest, of k] show ?thesis by (simp add: wsh)
  qed
qed simp

lemma wrap_key_open:
  assumes B: "box_ok B" and w: "wrap_key B rng c dek (box_public B priv) ws t = Inr (w, wsh)"
  shows "boxOpenDek B w priv = Some dek"
  using w boxSealDek_open [OF B, of rng c dek priv]
  by (auto simp: wrap_key_def split: option.splits)

text \<open>What the witnesses' boxes hold: the shares of the data key, in roster order.\<close>

lemma wrap_key_shares:
  assumes B: "box_ok B" and w: "wrap_key B rng c dek pub ws t = Inr (w, wsh)"
  obtains rng' shares where "split_secret rng' dek (int (length ws)) t = Inr shares"
    and "\<And>j priv. j < length ws \<Longrightarrow> wp_pubkey (ws ! j) = box_public B priv \<Longrightarrow>
      WitnessUnboxShare B (wsh ! j) priv = Inr (shares ! j)"
proof -
  let ?rng = "\<lambda>i. rng (c + 2 + i)"
  from w obtain shares where sp: "split_secret ?rng dek (int (length ws)) t = Inr shares"
    and se: "seal_shares B rng (c + 2 + split_reads dek t) 0 shares ws = Inr wsh"
    by (auto simp: wrap_key_def split: option.splits)
  have ne: "dek \<noteq> []" using sp by (auto simp: split_secret_def)
  have "WitnessUnboxShare B (wsh ! j) priv = Inr (shares ! j)"
    if "j < length ws" "wp_pubkey (ws ! j) = box_public B priv" for j priv
  proof -
    have "length (sh_bytes (shares ! j)) = length dek"
      using split_secret_shape(3) [OF sp, of j] that(1) by simp
    with ne have "sh_bytes (shares ! j) \<noteq> []" by auto
    with seal_shares_unbox [OF B se that(1,2)] show ?thesis by simp
  qed
  with sp that show thesis by blast
qed

lemma Seal_Inr:
  assumes "Seal A B rng plaintext pub ws t = Inr env"
  obtains dek w wsh where "length dek = 32" "length (se_nonce env) = 12"
    "se_data env = aead_seal A dek (se_nonce env) plaintext (envelopeAD (int (length ws)) t)"
    "wrap_key B rng 2 dek pub ws t = Inr (w, wsh)"
    "se_silicon env = Some w" "se_shares env = wsh" "se_threshold env = t"
    "se_roster env = int (length ws)"
proof -
  from assms obtain d m w wsh where "wrap_key B rng 2 (fill 32 d) pub ws t = Inr (w, wsh)"
    "env = \<lparr>se_nonce = fill 12 m, se_data = aead_seal A (fill 32 d) (fill 12 m) plaintext
        (envelopeAD (int (length ws)) t), se_silicon = Some w, se_shares = wsh,
      se_threshold = t, se_roster = int (length ws)\<rparr>"
    by (auto simp: Seal_def Let_def split: option.splits)
  then show thesis by (intro that [of "fill 32 d" w wsh]) simp_all
qed

lemma ReSeal_Inr:
  assumes "ReSeal B rng old dek pub ws t = Inr env"
  obtains w wsh where "length dek = 32" "1 \<le> t" "t \<le> int (length ws)"
    "wrap_key B rng 0 dek pub ws t = Inr (w, wsh)"
    "se_nonce env = se_nonce old" "se_data env = se_data old"
    "se_silicon env = Some w" "se_shares env = wsh" "se_threshold env = t"
    "se_roster env = int (length ws)"
  using assms that by (auto simp: ReSeal_def)

text \<open>The recovery path as the new host runs it: unbox at chosen witnesses, then combine.\<close>

definition unboxed :: "nacl_box \<Rightarrow> sealed_envelope \<Rightarrow> (nat \<Rightarrow> bytes) \<Rightarrow> nat list \<Rightarrow> share list" where
  "unboxed B env privs is = map (\<lambda>i. projr (WitnessUnboxShare B (se_shares env ! i) (privs i))) is"

lemma recover_wrapped:
  assumes B: "box_ok B" and w: "wrap_key B rng c dek pub ws t = Inr (w, se_shares env)"
    and env: "se_threshold env = t" and dek: "length dek = 32"
    and keys: "\<forall>i \<in> set is. i < length ws \<and> wp_pubkey (ws ! i) = box_public B (privs i)"
    and "is": "distinct is" "t \<le> int (length is)"
  shows "RecoverDEK (Some env) (unboxed B env privs is) = Inr dek"
proof -
  obtain rng' shares where sp: "split_secret rng' dek (int (length ws)) t = Inr shares"
    and ub: "\<And>j priv. j < length ws \<Longrightarrow> wp_pubkey (ws ! j) = box_public B priv \<Longrightarrow>
      WitnessUnboxShare B (se_shares env ! j) priv = Inr (shares ! j)"
    using wrap_key_shares [OF B w] by blast
  have "unboxed B env privs is = map ((!) shares) is"
    using keys ub by (auto simp: unboxed_def)
  moreover have "combine_shares (map ((!) shares) is) t = Inr dek"
    using sharing.reconstruct_positions [OF sp] keys "is" by auto
  ultimately show ?thesis using "is"(2) env dek by (simp add: RecoverDEK_def)
qed

lemma envelopeAD_inject:
  assumes "0 \<le> n" "n < 2 ^ 63" "0 \<le> t" "t < 2 ^ 63" "0 \<le> n'" "n' < 2 ^ 63" "0 \<le> t'" "t' < 2 ^ 63"
  shows "envelopeAD n t = envelopeAD n' t' \<longleftrightarrow> n = n' \<and> t = t'"
proof
  assume "envelopeAD n t = envelopeAD n' t'"
  then have w: "(of_int n :: u64) = of_int n'" "(of_int t :: u64) = of_int t'"
    by (simp_all add: envelopeAD_def u64_code.append_iff)
  have "uint (of_int m :: u64) = m" if "0 \<le> m" "m < 2 ^ 63" for m
    using that by (simp add: uint_word_of_int_eq take_bit_eq_mod)
  then show "n = n' \<and> t = t'" using w assms by metis
qed simp

subsection \<open>Success\<close>

lemma boxSealGeneric_total: "\<forall>j. rng j \<noteq> None \<Longrightarrow> \<exists>r. boxSealGeneric B rng c payload pub = Some r"
proof -
  assume a: "\<forall>j. rng j \<noteq> None"
  then obtain k m where "rng c = Some k" "rng (c + 1) = Some m" by blast
  then show ?thesis by (simp add: boxSealGeneric_def Let_def)
qed

lemma seal_shares_total:
  "\<forall>j. rng j \<noteq> None \<Longrightarrow> \<exists>wsh. seal_shares B rng c i shares ws = Inr wsh"
proof (induction ws arbitrary: c i)
  case (Cons w ws)
  from Cons.IH [OF Cons.prems, of "c + 2" "i + 1"]
    boxSealGeneric_total [OF Cons.prems, of B c "sh_index (shares ! i) # sh_bytes (shares ! i)" "wp_pubkey w"]
  show ?case by (auto simp: Let_def)
qed simp

lemma wrap_key_total:
  assumes "\<forall>j. rng j \<noteq> None" and "1 \<le> t" "t \<le> int (length ws)" "length ws \<le> 255" "dek \<noteq> []"
  shows "\<exists>x. wrap_key B rng c dek pub ws t = Inr x"
proof -
  obtain r where r: "boxSealDek B rng c dek pub = Some r"
    using boxSealGeneric_total [OF assms(1), of B c dek pub] by (auto simp: boxSealDek_def)
  obtain shares where s: "split_secret (\<lambda>i. rng (c + 2 + i)) dek (int (length ws)) t = Inr shares"
    using split_secret_total [of t "int (length ws)" dek "\<lambda>i. rng (c + 2 + i)"] assms by auto
  obtain wsh where "seal_shares B rng (c + 2 + split_reads dek t) 0 shares ws = Inr wsh"
    using seal_shares_total [OF assms(1)] by blast
  with r s show ?thesis by (simp add: wrap_key_def)
qed

lemma fill_nonempty: "0 < n \<Longrightarrow> fill n f \<noteq> []"
  by (simp add: fill_def)

lemma Seal_total:
  assumes "\<forall>j. rng j \<noteq> None" and "1 \<le> t" "t \<le> int (length ws)" "length ws \<le> 255"
  shows "\<exists>env. Seal A B rng plaintext pub ws t = Inr env"
proof -
  obtain d m where dm: "rng 0 = Some d" "rng 1 = Some m" using assms(1) by fastforce
  have "fill 32 d \<noteq> []" by (rule fill_nonempty) simp
  from wrap_key_total [OF assms this, of B 2 pub] obtain w wsh
    where "wrap_key B rng 2 (fill 32 d) pub ws t = Inr (w, wsh)" by auto
  with dm assms(2,3) show ?thesis by (simp add: Seal_def Let_def)
qed

lemma ReSeal_total:
  assumes "\<forall>j. rng j \<noteq> None" and "1 \<le> t" "t \<le> int (length ws)" "length ws \<le> 255" "length dek = 32"
  shows "\<exists>env. ReSeal B rng old dek pub ws t = Inr env"
proof -
  have "dek \<noteq> []" using assms(5) by auto
  from wrap_key_total [OF assms(1-4) this, of B 0 pub] obtain w wsh
    where "wrap_key B rng 0 dek pub ws t = Inr (w, wsh)" by auto
  with assms show ?thesis by (simp add: ReSeal_def)
qed

lemma RecoverDEK_length: "RecoverDEK (Some env) shares = Inr dek \<Longrightarrow> length dek = 32"
  by (auto simp: RecoverDEK_def)

text \<open>Three witnesses, keyed by their position, for the concrete cases below.\<close>

definition demo_witnesses :: "nat \<Rightarrow> witness_pubkey list" where
  "demo_witnesses n = map (\<lambda>i. \<lparr>wp_index = int i, wp_pubkey = box_public demo_box [of_nat i]\<rparr>) [0..<n]"

lemma demo_rng_total: "\<forall>j. demo_rng j \<noteq> None"
  by (simp add: demo_rng_def)

lemma demo_witnesses_nth [simp]:
  "length (demo_witnesses n) = n" "demo_witnesses n = [] \<longleftrightarrow> n = 0"
  "i < n \<Longrightarrow> wp_pubkey (demo_witnesses n ! i) = box_public demo_box [of_nat i]"
  by (simp_all add: demo_witnesses_def)

lemma demo_sealed:
  obtains env where "Seal demo_aead demo_box demo_rng [10, 20] (box_public demo_box [9]) (demo_witnesses 3) 2 = Inr env"
proof -
  have "\<exists>env. Seal demo_aead demo_box demo_rng [10, 20] (box_public demo_box [9]) (demo_witnesses 3) 2 = Inr env"
    by (rule Seal_total [OF demo_rng_total]) simp_all
  with that show thesis by blast
qed

subsection \<open>Properties\<close>

text \<open>Sealing and opening on the fast path: the host whose key the envelope was sealed to
  reads the plaintext back.\<close>

theorem seal_open_silicon:
  assumes "aead_ok A" and "box_ok B"
    and "Seal A B rng plaintext (box_public B priv) witnesses threshold = Inr env"
  shows "OpenSilicon A B (Some env) priv = Inr plaintext"
proof -
  from assms(3) obtain dek w wsh where e: "length dek = 32" "length (se_nonce env) = 12"
    "se_data env = aead_seal A dek (se_nonce env) plaintext (envelopeAD (int (length witnesses)) threshold)"
    "wrap_key B rng 2 dek (box_public B priv) witnesses threshold = Inr (w, wsh)"
    "se_silicon env = Some w" "se_shares env = wsh" "se_threshold env = threshold"
    "se_roster env = int (length witnesses)" by (rule Seal_Inr)
  with assms(1) wrap_key_open [OF assms(2) e(4)] show ?thesis
    by (simp add: OpenSilicon_def aead_ok_def)
qed

theorem seal_open_silicon_witness:
  "\<exists>env. Seal demo_aead demo_box demo_rng [10, 20] (box_public demo_box [9]) (demo_witnesses 3) 2 = Inr env
    \<and> OpenSilicon demo_aead demo_box (Some env) [9] = Inr [10, 20]"
proof -
  obtain env where "Seal demo_aead demo_box demo_rng [10, 20] (box_public demo_box [9]) (demo_witnesses 3) 2 = Inr env"
    by (rule demo_sealed)
  with seal_open_silicon [OF demo_aead_ok demo_box_ok this] show ?thesis by blast
qed

text \<open>C22: Recovery: witnesses at any positions, as many as the threshold, unbox their shares;
  \<open>RecoverDEK\<close> combines them to the data key that opens the sealed data.\<close>

theorem seal_recover_dek:
  assumes "aead_ok A" and "box_ok B"
    and "Seal A B rng plaintext pub witnesses threshold = Inr env"
    and "\<forall>i \<in> set is. i < length witnesses \<and> wp_pubkey (witnesses ! i) = box_public B (privs i)"
    and "distinct is" and "threshold \<le> int (length is)"
  shows "\<exists>dek. RecoverDEK (Some env) (unboxed B env privs is) = Inr dek \<and>
    aead_open A dek (se_nonce env) (se_data env) (envelopeAD (se_roster env) (se_threshold env))
      = Some plaintext"
proof -
  from assms(3) obtain dek w wsh where e: "length dek = 32"
    "se_data env = aead_seal A dek (se_nonce env) plaintext (envelopeAD (int (length witnesses)) threshold)"
    "wrap_key B rng 2 dek pub witnesses threshold = Inr (w, wsh)"
    "se_shares env = wsh" "se_threshold env = threshold"
    "se_roster env = int (length witnesses)" by (rule Seal_Inr) blast
  have "RecoverDEK (Some env) (unboxed B env privs is) = Inr dek"
    using e assms(4-6) by (intro recover_wrapped [OF assms(2)]) auto
  with e assms(1) show ?thesis by (simp add: aead_ok_def)
qed

theorem seal_recover_dek_witness:
  "\<exists>env dek. Seal demo_aead demo_box demo_rng [10, 20] (box_public demo_box [9]) (demo_witnesses 3) 2 = Inr env
    \<and> RecoverDEK (Some env) (unboxed demo_box env (\<lambda>i. [of_nat i]) [2, 0]) = Inr dek
    \<and> aead_open demo_aead dek (se_nonce env) (se_data env)
        (envelopeAD (se_roster env) (se_threshold env)) = Some [10, 20]"
proof -
  obtain env where e: "Seal demo_aead demo_box demo_rng [10, 20] (box_public demo_box [9]) (demo_witnesses 3) 2 = Inr env"
    by (rule demo_sealed)
  have "\<exists>dek. RecoverDEK (Some env) (unboxed demo_box env (\<lambda>i. [of_nat i]) [2, 0]) = Inr dek
    \<and> aead_open demo_aead dek (se_nonce env) (se_data env)
        (envelopeAD (se_roster env) (se_threshold env)) = Some [10, 20]"
    by (rule seal_recover_dek [OF demo_aead_ok demo_box_ok e]) auto
  with e show ?thesis by blast
qed

text \<open>
  C26: Resealing after a recovery. The new host opens the resealed envelope when the new roster
  has the size and the threshold of the old one. Otherwise it cannot: \<open>ReSeal\<close> keeps the data
  sealed under the old header while \<open>OpenSilicon\<close> authenticates the new one.
\<close>

theorem reseal_opens_iff_same_quorum:
  assumes "aead_ok A" and "aead_binds A" and "box_ok B"
    and "Seal A B rng plaintext pub witnesses threshold = Inr env"
    and "\<forall>i \<in> set is. i < length witnesses \<and> wp_pubkey (witnesses ! i) = box_public B (privs i)"
    and "distinct is" and "threshold \<le> int (length is)"
    and "RecoverDEK (Some env) (unboxed B env privs is) = Inr dek"
    and "ReSeal B rng' env dek (box_public B priv') witnesses' threshold' = Inr env'"
  shows "OpenSilicon A B (Some env') priv' =
    (if length witnesses' = length witnesses \<and> threshold' = threshold
     then Inr plaintext else Inl Env_aead_open)"
proof -
  from assms(4) obtain dek0 w wsh where e: "length dek0 = 32" "length (se_nonce env) = 12"
    "se_data env = aead_seal A dek0 (se_nonce env) plaintext (envelopeAD (int (length witnesses)) threshold)"
    "wrap_key B rng 2 dek0 pub witnesses threshold = Inr (w, wsh)"
    "se_silicon env = Some w" "se_shares env = wsh" "se_threshold env = threshold"
    "se_roster env = int (length witnesses)" by (rule Seal_Inr)
  have "RecoverDEK (Some env) (unboxed B env privs is) = Inr dek0"
    using e assms(5-7) by (intro recover_wrapped [OF assms(3)]) auto
  with assms(8) have dek: "dek = dek0" by simp
  from assms(9) obtain w' wsh' where r:
    "wrap_key B rng' 0 dek (box_public B priv') witnesses' threshold' = Inr (w', wsh')"
    "se_nonce env' = se_nonce env" "se_data env' = se_data env"
    "se_silicon env' = Some w'" "se_threshold env' = threshold'"
    "se_roster env' = int (length witnesses')" by (rule ReSeal_Inr) blast
  have bnd: "1 \<le> u \<and> u \<le> int (length vs) \<and> int (length vs) \<le> 255"
    if "wrap_key B r0 c k q vs u = Inr x" for r0 c k q vs u x
    using that by (auto simp: wrap_key_def split_secret_def split: option.splits)
  have ad: "envelopeAD (int (length witnesses)) threshold = envelopeAD (int (length witnesses')) threshold'
      \<longleftrightarrow> length witnesses' = length witnesses \<and> threshold' = threshold"
    using bnd [OF e(4)] bnd [OF r(1)] by (subst envelopeAD_inject) auto
  have "OpenSilicon A B (Some env') priv' =
      (case aead_open A dek0 (se_nonce env) (se_data env) (envelopeAD (int (length witnesses')) threshold') of
         None \<Rightarrow> Inl Env_aead_open | Some pt \<Rightarrow> Inr pt)"
    using wrap_key_open [OF assms(3) r(1)] r e dek by (simp add: OpenSilicon_def)
  then show ?thesis
    using assms(1,2) ad by (simp add: e(3) aead_ok_def aead_binds_def)
qed

theorem reseal_opens_iff_same_quorum_witness:
  "\<exists>env dek env'. Seal demo_aead demo_box demo_rng [10, 20] (box_public demo_box [9]) (demo_witnesses 3) 2 = Inr env
    \<and> RecoverDEK (Some env) (unboxed demo_box env (\<lambda>i. [of_nat i]) [2, 0]) = Inr dek
    \<and> ReSeal demo_box demo_rng env dek (box_public demo_box [8]) (demo_witnesses 4) 2 = Inr env'
    \<and> OpenSilicon demo_aead demo_box (Some env') [8] = Inl Env_aead_open"
proof -
  obtain env where e: "Seal demo_aead demo_box demo_rng [10, 20] (box_public demo_box [9]) (demo_witnesses 3) 2 = Inr env"
    by (rule demo_sealed)
  from e obtain dek0 w where "length dek0 = 32" "wrap_key demo_box demo_rng 2 dek0 (box_public demo_box [9]) (demo_witnesses 3) 2 = Inr (w, se_shares env)"
    "se_threshold env = 2" by (rule Seal_Inr) blast
  then have rec: "RecoverDEK (Some env) (unboxed demo_box env (\<lambda>i. [of_nat i]) [2, 0]) = Inr dek0"
    by (intro recover_wrapped [OF demo_box_ok]) auto
  obtain env' where rs: "ReSeal demo_box demo_rng env dek0 (box_public demo_box [8]) (demo_witnesses 4) 2 = Inr env'"
    using ReSeal_total [OF demo_rng_total _ _ _ RecoverDEK_length [OF rec],
        of 2 "demo_witnesses 4" demo_box env "box_public demo_box [8]"] by auto
  have "OpenSilicon demo_aead demo_box (Some env') [8] =
    (if length (demo_witnesses 4) = length (demo_witnesses 3) \<and> (2::int) = 2 then Inr [10, 20] else Inl Env_aead_open)"
    by (rule reseal_opens_iff_same_quorum
        [OF demo_aead_ok demo_aead_binds demo_box_ok e _ _ _ rec rs]) auto
  then have "OpenSilicon demo_aead demo_box (Some env') [8] = Inl Env_aead_open" by simp
  with e rec rs show ?thesis by blast
qed

end
