(* ===== verification/Hamming.thy ===== *)
theory Hamming
  imports Prelude
begin

text \<open>
  \<open>internal/puf/hamming.go\<close>, the bit packing of \<open>quantize.go\<close> (\<open>bitBuilder\<close>) and
  \<open>quantize_v2.go\<close> (\<open>bitOf\<close>), and \<open>HammingDistance\<close> of \<open>compare.go\<close>. Bits are packed
  little-endian into bytes. The theory relates the packed code to lists of bits and shows that
  the block code corrects one flipped bit in every block of seven.
\<close>

subsection \<open>Packed bits\<close>

text \<open>Positions are the non-negative ones: no caller in the codec passes another.\<close>

definition bitOf :: "bytes \<Rightarrow> nat \<Rightarrow> byte" where
  "bitOf buf b = (if drop_bit 3 b \<ge> length buf then 0
     else drop_bit (b AND 7) (buf ! drop_bit 3 b) AND 1)"

record bitBuilder =
  bb_bytes :: bytes
  bb_length :: nat

definition empty_builder :: bitBuilder where
  "empty_builder = \<lparr>bb_bytes = [], bb_length = 0\<rparr>"

definition appendBit :: "bitBuilder \<Rightarrow> bool \<Rightarrow> bitBuilder" where
  "appendBit b v =
     (let byteIdx = drop_bit 3 (bb_length b);
          bitIdx = bb_length b AND 7;
          grown = bb_bytes b @ replicate (byteIdx + 1 - length (bb_bytes b)) 0
      in \<lparr>bb_bytes = (if v then grown[byteIdx := grown ! byteIdx OR push_bit bitIdx 1] else grown),
          bb_length = bb_length b + 1\<rparr>)"

subsection \<open>One block\<close>

definition HammingEncode4to7 :: "byte \<Rightarrow> byte" where
  "HammingEncode4to7 data =
     (let d1 = data AND 1;
          d2 = drop_bit 1 data AND 1;
          d3 = drop_bit 2 data AND 1;
          d4 = drop_bit 3 data AND 1;
          p1 = d1 XOR d2 XOR d4;
          p2 = d1 XOR d3 XOR d4;
          p4 = d2 XOR d3 XOR d4
      in p1 OR push_bit 1 p2 OR push_bit 2 d1 OR push_bit 3 p4 OR push_bit 4 d2
           OR push_bit 5 d3 OR push_bit 6 d4)"

definition HammingDecode7to4 :: "byte \<Rightarrow> byte" where
  "HammingDecode7to4 code =
     (let c = code AND 0x7F;
          b1 = c AND 1;
          b2 = drop_bit 1 c AND 1;
          b3 = drop_bit 2 c AND 1;
          b4 = drop_bit 3 c AND 1;
          b5 = drop_bit 4 c AND 1;
          b6 = drop_bit 5 c AND 1;
          b7 = drop_bit 6 c AND 1;
          s1 = b1 XOR b3 XOR b5 XOR b7;
          s2 = b2 XOR b3 XOR b6 XOR b7;
          s4 = b4 XOR b5 XOR b6 XOR b7;
          syn = s1 OR push_bit 1 s2 OR push_bit 2 s4
      in if syn \<noteq> 0 then
           let c' = c XOR push_bit (unat (syn - 1)) 1 in
           (drop_bit 2 c' AND 1) OR push_bit 1 (drop_bit 4 c' AND 1)
             OR push_bit 2 (drop_bit 5 c' AND 1) OR push_bit 3 (drop_bit 6 c' AND 1)
         else b3 OR push_bit 1 b5 OR push_bit 2 b6 OR push_bit 3 b7)"

subsection \<open>The packed codec\<close>

text \<open>\<open>n\<close> bits from position \<open>start\<close>, collected into a byte.\<close>

definition gather :: "bytes \<Rightarrow> nat \<Rightarrow> nat \<Rightarrow> byte" where
  "gather buf start n =
     foldl (\<lambda>w i. if bitOf buf (start + i) \<noteq> 0 then w OR push_bit i 1 else w) 0 [0..<n]"

text \<open>The low \<open>n\<close> bits of a byte, appended one by one.\<close>

definition emit :: "nat \<Rightarrow> bitBuilder \<Rightarrow> byte \<Rightarrow> bitBuilder" where
  "emit n b w = foldl (\<lambda>b i. appendBit b (w AND push_bit i 1 \<noteq> 0)) b [0..<n]"

definition EncodeHamming74 :: "bytes \<Rightarrow> int \<Rightarrow> bytes \<times> int" where
  "EncodeHamming74 data dataBits =
     (if dataBits mod 4 \<noteq> 0 then ([], 0)
      else let blocks = dataBits div 4; codeBits = blocks * 7 in
        (bb_bytes (foldl (\<lambda>b blk. emit 7 b (HammingEncode4to7 (gather data (blk * 4) 4)))
           empty_builder [0..<nat blocks]), codeBits))"

definition DecodeHamming74 :: "bytes \<Rightarrow> int \<Rightarrow> bytes \<times> int" where
  "DecodeHamming74 code codeBits =
     (if codeBits mod 7 \<noteq> 0 then ([], 0)
      else let blocks = codeBits div 7; dataBits = blocks * 4 in
        (bb_bytes (foldl (\<lambda>b blk. emit 4 b (HammingDecode7to4 (gather code (blk * 7) 7)))
           empty_builder [0..<nat blocks]), dataBits))"

subsection \<open>Packed bits as lists of bits\<close>

definition bitAt :: "bytes \<Rightarrow> nat \<Rightarrow> bool" where
  "bitAt buf i \<longleftrightarrow> i div 8 < length buf \<and> bit (buf ! (i div 8)) (i mod 8)"

lemma and_7: "(n::nat) AND 7 = n mod 8"
proof -
  have "n AND mask 3 = take_bit 3 n" by (simp only: take_bit_eq_mask)
  then show ?thesis by (simp add: take_bit_eq_mod mask_eq_exp_minus_1)
qed

lemma drop_3: "drop_bit 3 (n::nat) = n div 8"
  by (simp add: drop_bit_eq_div)

lemma bitOf_iff: "bitOf buf i \<noteq> 0 \<longleftrightarrow> bitAt buf i"
proof -
  have "(drop_bit k w AND 1) \<noteq> 0 \<longleftrightarrow> bit w k" for k and w :: byte
    by (simp add: and_one_eq bit_iff_odd_drop_bit odd_iff_mod_2_eq_one)
  then show ?thesis by (simp add: bitOf_def bitAt_def and_7 drop_3 not_le)
qed

definition bits :: "bytes \<Rightarrow> nat \<Rightarrow> bool list" where
  "bits buf n = map (bitAt buf) [0..<n]"

lemma length_bits [simp]: "length (bits buf n) = n"
  by (simp add: bits_def)

lemma nth_bits [simp]: "i < n \<Longrightarrow> bits buf n ! i = bitAt buf i"
  by (simp add: bits_def)

lemma byte_bit_test: "(w :: byte) AND 2 ^ i \<noteq> 0 \<longleftrightarrow> bit w i"
  by (simp add: and_exp_eq_0_iff_not_bit)

lemma byte_power_bit: "bit (2 ^ m :: byte) i \<longleftrightarrow> i = m \<and> i < 8"
  by (auto simp: bit_exp_iff possible_bit_word)

text \<open>What a builder has appended so far; the bits past the end of the last byte are clear.\<close>

definition builds :: "bitBuilder \<Rightarrow> bool list \<Rightarrow> bool" where
  "builds b vs \<longleftrightarrow> bb_length b = length vs \<and> length (bb_bytes b) = (length vs + 7) div 8 \<and>
     (\<forall>i. bitAt (bb_bytes b) i \<longleftrightarrow> i < length vs \<and> vs ! i)"

lemma builds_empty: "builds empty_builder []"
  by (simp add: builds_def empty_builder_def bitAt_def)

lemma builds_appendBit:
  assumes "builds b vs"
  shows "builds (appendBit b v) (vs @ [v])"
proof -
  let ?n = "length vs" and ?bs = "bb_bytes b"
  let ?grown = "?bs @ replicate (?n div 8 + 1 - length ?bs) 0"
  have b: "bb_length b = ?n" "length ?bs = (?n + 7) div 8"
    and at: "\<And>i. bitAt ?bs i \<longleftrightarrow> i < ?n \<and> vs ! i"
    using assms by (auto simp: builds_def)
  have len: "length ?grown = ?n div 8 + 1" using b(2) by auto
  have grown: "bitAt ?grown i \<longleftrightarrow> bitAt ?bs i" for i
    by (auto simp: bitAt_def nth_append)
  let ?new = "if v then ?grown[?n div 8 := ?grown ! (?n div 8) OR push_bit (?n mod 8) 1] else ?grown"
  have new: "bitAt ?new i \<longleftrightarrow> (if i = ?n then v \<or> bitAt ?grown i else bitAt ?grown i)" for i
  proof (cases "v \<and> i div 8 = ?n div 8")
    case True
    then have "i = ?n \<longleftrightarrow> i mod 8 = ?n mod 8" by (metis div_mult_mod_eq)
    with True len show ?thesis
      by (auto simp: bitAt_def bit_or_iff byte_power_bit)
  next
    case False
    then show ?thesis using len by (auto simp: bitAt_def)
  qed
  have "appendBit b v = \<lparr>bb_bytes = ?new, bb_length = ?n + 1\<rparr>"
    by (simp add: appendBit_def Let_def b and_7 drop_3)
  moreover have "length ?new = (length (vs @ [v]) + 7) div 8" using len by simp
  moreover have "bitAt ?new i \<longleftrightarrow> i < length (vs @ [v]) \<and> (vs @ [v]) ! i" for i
    unfolding new grown at by (auto simp: nth_append less_Suc_eq)
  ultimately show ?thesis by (simp add: builds_def)
qed

definition unpack :: "nat \<Rightarrow> byte \<Rightarrow> bool list" where
  "unpack n w = map (bit w) [0..<n]"

lemma length_unpack [simp]: "length (unpack n w) = n"
  by (simp add: unpack_def)

lemma nth_unpack: "i < n \<Longrightarrow> unpack n w ! i = bit w i"
  by (simp add: unpack_def)

lemma builds_emit:
  assumes "builds b vs" and "n \<le> 8"
  shows "builds (emit n b w) (vs @ unpack n w)"
  using assms(2)
proof (induction n)
  case 0
  with assms(1) show ?case by (simp add: emit_def unpack_def)
next
  case (Suc n)
  then have IH: "builds (emit n b w) (vs @ unpack n w)" by simp
  have "emit (Suc n) b w = appendBit (emit n b w) (bit w n)"
    using Suc.prems by (simp add: emit_def byte_bit_test)
  then show ?case using builds_appendBit [OF IH, of "bit w n"] by (simp add: unpack_def)
qed

text \<open>A whole run of blocks.\<close>

lemma builds_blocks:
  assumes "n \<le> 8"
  shows "builds (foldl (\<lambda>b blk. emit n b (f blk)) empty_builder [0..<k])
    (concat (map (\<lambda>blk. unpack n (f blk)) [0..<k]))"
proof (induction k)
  case 0
  then show ?case by (simp add: builds_empty)
next
  case (Suc k)
  from builds_emit [OF Suc assms] show ?case by simp
qed

lemma builds_bits: "builds b vs \<Longrightarrow> bits (bb_bytes b) (length vs) = vs"
  by (rule nth_equalityI) (auto simp: builds_def)

text \<open>A byte collected from bits.\<close>

definition pack :: "nat \<Rightarrow> (nat \<Rightarrow> bool) \<Rightarrow> byte" where
  "pack n f = foldl (\<lambda>w i. if f i then w OR push_bit i 1 else w) 0 [0..<n]"

lemma bit_pack: "bit (pack n f) i \<longleftrightarrow> i < n \<and> i < 8 \<and> f i"
proof (induction n)
  case (Suc n)
  have "pack (Suc n) f = (if f n then pack n f OR push_bit n 1 else pack n f)"
    by (simp add: pack_def)
  with Suc show ?case
    by (auto simp: bit_or_iff byte_power_bit less_Suc_eq)
qed (simp add: pack_def)

lemma gather_pack: "gather buf start n = pack n (\<lambda>i. bitAt buf (start + i))"
  by (simp add: gather_def pack_def bitOf_iff)

subsection \<open>Codes on blocks of bits\<close>

text \<open>Number of positions where two bit lists differ.\<close>

definition flips :: "bool list \<Rightarrow> bool list \<Rightarrow> nat" where
  "flips xs ys = card {i. i < length xs \<and> xs ! i \<noteq> ys ! i}"

text \<open>The \<open>b\<close>-th block of length \<open>n\<close>.\<close>

definition block :: "nat \<Rightarrow> 'a list \<Rightarrow> nat \<Rightarrow> 'a list" where
  "block n xs b = take n (drop (b * n) xs)"

lemma length_block: "(b + 1) * n \<le> length xs \<Longrightarrow> length (block n xs b) = n"
  by (simp add: block_def)

lemma concat_blocks: "length xs = k * n \<Longrightarrow> concat (map (block n xs) [0..<k]) = xs"
proof (induction k arbitrary: xs)
  case (Suc k)
  have "block n xs b = block n (take (k * n) xs) b" if "b < k" for b
  proof -
    have "b * n + n \<le> k * n" using that by (metis Suc_eq_plus1 Suc_leI add_mult_distrib mult_le_mono1 nat_mult_1)
    then show ?thesis by (simp add: block_def take_drop min_def)
  qed
  then have eq: "map (block n xs) [0..<k] = map (block n (take (k * n) xs)) [0..<k]"
    by (intro map_cong) auto
  have "concat (map (block n xs) [0..<k]) = take (k * n) xs"
    unfolding eq by (rule Suc.IH) (use Suc.prems in simp)
  moreover have "block n xs k = drop (k * n) xs" using Suc.prems by (simp add: block_def)
  ultimately show ?case by simp
qed simp

lemma block_concat:
  assumes "\<And>b. b < k \<Longrightarrow> length (f b) = n" and "b < k"
  shows "block n (concat (map f [0..<k])) b = f b"
proof -
  have len: "length (concat (map f [0..<j])) = j * n" if "j \<le> k" for j
    using that assms(1) by (induction j) auto
  have "[0..<k] = [0..<b] @ b # [Suc b..<k]" using assms(2) by (metis less_imp_le_nat upt_add_eq_append upt_conv_Cons zero_le le_add_diff_inverse)
  then show ?thesis using len [of b] assms by (simp add: block_def)
qed

locale block_code =
  fixes dn cn :: nat and benc bdec :: "bool list \<Rightarrow> bool list"
  assumes enc_len: "length ds = dn \<Longrightarrow> length (benc ds) = cn"
    and correct: "length ds = dn \<Longrightarrow> length cs = cn \<Longrightarrow> flips cs (benc ds) \<le> 1 \<Longrightarrow> bdec cs = ds"
begin

text \<open>A received word with at most one flip in every block decodes to what was sent.\<close>

lemma decode_blocks:
  assumes "length ds = k * dn" and "length cs = k * cn"
    and "\<forall>b < k. flips (block cn cs b) (benc (block dn ds b)) \<le> 1"
  shows "concat (map (\<lambda>b. bdec (block cn cs b)) [0..<k]) = ds"
proof -
  have "bdec (block cn cs b) = block dn ds b" if "b < k" for b
  proof (rule correct)
    have "Suc b * dn \<le> k * dn" "Suc b * cn \<le> k * cn" using that by (simp_all only: mult_le_mono1 Suc_leI)
    then show "length (block dn ds b) = dn" "length (block cn cs b) = cn"
      using assms(1,2) by (auto intro!: length_block)
  qed (use assms(3) that in blast)
  then have "map (\<lambda>b. bdec (block cn cs b)) [0..<k] = map (block dn ds) [0..<k]"
    by (intro map_cong) auto
  then show ?thesis by (simp only: concat_blocks [OF assms(1)])
qed

end

text \<open>The block functions of the code, on lists of bits.\<close>

definition henc :: "bool list \<Rightarrow> bool list" where
  "henc ds = unpack 7 (HammingEncode4to7 (pack 4 (\<lambda>i. ds ! i)))"

definition hdec :: "bool list \<Rightarrow> bool list" where
  "hdec cs = unpack 4 (HammingDecode7to4 (pack 7 (\<lambda>i. cs ! i)))"

lemma low_bit: "(drop_bit k w :: byte) AND 1 = of_bool (bit w k)"
  by (simp add: and_one_eq mod_2_eq_odd bit_iff_odd_drop_bit)

lemma low_bit_0: "(w :: byte) AND 1 = of_bool (bit w 0)"
  using low_bit [of 0 w] by simp

lemma of_bool_xor: "(of_bool a :: byte) XOR of_bool b = of_bool (a \<noteq> b)"
  by (cases a; cases b) simp_all

lemma bit_of_bool: "bit (of_bool a :: byte) i \<longleftrightarrow> a \<and> i = 0"
  by (cases a) (simp_all add: bit_1_iff)

lemma seven: "[0..<7] = [0, 1, 2, 3, 4, 5, 6]" and four: "[0..<4] = [0, 1, 2, 3::nat]"
  by code_simp+

lemma bit_dropped: "bit (drop_bit k (w :: byte)) 0 = bit w k"
  by (simp add: bit_drop_bit_eq)

lemmas bit_forms = low_bit_0 bit_dropped of_bool_xor

lemma bits_of_or: "bit (w OR v :: byte) i \<longleftrightarrow> bit w i \<or> bit v i"
  by (rule bit_or_iff)

lemma bit_push_of_bool: "bit (push_bit k (of_bool a) :: byte) i \<longleftrightarrow> a \<and> i = k \<and> k < 8"
  by (auto simp: bit_push_bit_iff bit_of_bool possible_bit_word)

lemma HammingEncode4to7_bits:
  "unpack 7 (HammingEncode4to7 w) =
     (let a = bit w 0; b = bit w 1; c = bit w 2; d = bit w 3 in
      [a \<noteq> (b \<noteq> d), a \<noteq> (c \<noteq> d), a, b \<noteq> (c \<noteq> d), b, c, d])"
  unfolding unpack_def seven HammingEncode4to7_def Let_def bit_forms list.map
  by (simp only: bits_of_or bit_push_of_bool bit_of_bool) simp

text \<open>The syndrome as a position, 1 to 7, or 0 when the parities agree.\<close>

definition syndrome :: "bool \<Rightarrow> bool \<Rightarrow> bool \<Rightarrow> nat" where
  "syndrome s1 s2 s4 = of_bool s1 + 2 * of_bool s2 + 4 * of_bool s4"

lemma syndrome_byte:
  fixes s1 s2 s4 :: bool
  defines "syn \<equiv> (of_bool s1 :: byte) OR push_bit 1 (of_bool s2) OR push_bit 2 (of_bool s4)"
  shows "syn \<noteq> 0 \<longleftrightarrow> syndrome s1 s2 s4 \<noteq> 0"
    and "syndrome s1 s2 s4 \<noteq> 0 \<Longrightarrow> unat (syn - 1) = syndrome s1 s2 s4 - 1"
  unfolding syn_def by (cases s1; cases s2; cases s4; simp add: syndrome_def)+

definition corrected :: "bool list \<Rightarrow> nat \<Rightarrow> nat \<Rightarrow> bool" where
  "corrected xs n i \<longleftrightarrow> (xs ! i \<noteq> (n = i + 1))"

definition decode7 :: "bool list \<Rightarrow> bool list" where
  "decode7 xs = (let n = syndrome (xs ! 0 \<noteq> (xs ! 2 \<noteq> (xs ! 4 \<noteq> xs ! 6)))
       (xs ! 1 \<noteq> (xs ! 2 \<noteq> (xs ! 5 \<noteq> xs ! 6))) (xs ! 3 \<noteq> (xs ! 4 \<noteq> (xs ! 5 \<noteq> xs ! 6)))
     in [corrected xs n 2, corrected xs n 4, corrected xs n 5, corrected xs n 6])"

lemma pick_bits:
  "unpack 4 (of_bool a OR push_bit 1 (of_bool b) OR push_bit 2 (of_bool c) OR push_bit 3 (of_bool d))
   = [a, b, c, d]"
  unfolding unpack_def four list.map
  by (simp only: bits_of_or bit_push_of_bool bit_of_bool) simp

lemma bit_masked: "i < 7 \<Longrightarrow> bit ((w :: byte) AND 0x7F) i \<longleftrightarrow> bit w i"
proof -
  assume i: "i < 7"
  have "(0x7F :: byte) = mask 7" by (simp add: mask_eq_exp_minus_1)
  then have "bit (0x7F :: byte) i" using i by (simp only: bit_mask_iff) (simp add: possible_bit_word)
  then show ?thesis by (simp add: bit_and_iff)
qed

lemma bit_flip: "i < 8 \<Longrightarrow> bit ((c :: byte) XOR push_bit k 1) i \<longleftrightarrow> (bit c i \<noteq> (k = i))"
  by (auto simp: bit_xor_iff byte_power_bit)

lemma HammingDecode7to4_bits: "unpack 4 (HammingDecode7to4 w) = decode7 (unpack 7 w)"
proof -
  let ?c = "w AND 0x7F" and ?x = "bit w"
  let ?n = "syndrome (?x 0 \<noteq> (?x 2 \<noteq> (?x 4 \<noteq> ?x 6))) (?x 1 \<noteq> (?x 2 \<noteq> (?x 5 \<noteq> ?x 6)))
    (?x 3 \<noteq> (?x 4 \<noteq> (?x 5 \<noteq> ?x 6)))"
  have m: "bit ?c 0 = ?x 0" "bit ?c 1 = ?x 1" "bit ?c 2 = ?x 2" "bit ?c 3 = ?x 3"
    "bit ?c 4 = ?x 4" "bit ?c 5 = ?x 5" "bit ?c 6 = ?x 6"
    by (simp_all only: bit_masked)
  have "unpack 4 (HammingDecode7to4 w) =
    (if ?n \<noteq> 0 then [?x 2 \<noteq> (?n - 1 = 2), ?x 4 \<noteq> (?n - 1 = 4), ?x 5 \<noteq> (?n - 1 = 5), ?x 6 \<noteq> (?n - 1 = 6)]
     else [?x 2, ?x 4, ?x 5, ?x 6])"
    unfolding HammingDecode7to4_def Let_def bit_forms m syndrome_byte(1)
    by (cases "?n \<noteq> 0") (simp_all only: if_True if_False not_not not_False_eq_True simp_thms syndrome_byte(2) pick_bits bit_flip m)
  also have "\<dots> = decode7 (unpack 7 w)"
    by (simp only: unpack_def seven list.map) (auto simp: decode7_def corrected_def Let_def numeral_eq_Suc)
  finally show ?thesis .
qed

lemma less_num_simps: "0 < (4::nat) \<and> 0 < (8::nat)" "1 < (4::nat) \<and> 1 < (8::nat)"
  "2 < (4::nat) \<and> 2 < (8::nat)" "3 < (4::nat) \<and> 3 < (8::nat)"
  by simp_all

lemma henc_hdec_bits:
  "henc ds = (let a = ds ! 0; b = ds ! 1; c = ds ! 2; d = ds ! 3 in
      [a \<noteq> (b \<noteq> d), a \<noteq> (c \<noteq> d), a, b \<noteq> (c \<noteq> d), b, c, d])"
  "length cs = 7 \<Longrightarrow> hdec cs = decode7 cs"
proof -
  show "henc ds = (let a = ds ! 0; b = ds ! 1; c = ds ! 2; d = ds ! 3 in
      [a \<noteq> (b \<noteq> d), a \<noteq> (c \<noteq> d), a, b \<noteq> (c \<noteq> d), b, c, d])"
    unfolding henc_def HammingEncode4to7_bits Let_def bit_pack
    by (simp only: less_num_simps simp_thms)
  assume "length cs = 7"
  then have "unpack 7 (pack 7 (\<lambda>i. cs ! i)) = cs"
    by (intro nth_equalityI) (auto simp only: nth_unpack length_unpack bit_pack)
  then show "hdec cs = decode7 cs" by (simp only: hdec_def HammingDecode7to4_bits)
qed

lemma one_flip:
  assumes "flips xs ys \<le> 1" and "length xs = m"
  obtains n where "n \<le> m" and "\<And>i. i < m \<Longrightarrow> xs ! i \<longleftrightarrow> (ys ! i \<noteq> (n = i + 1))"
proof -
  define D where "D = {i. i < length xs \<and> xs ! i \<noteq> ys ! i}"
  have "finite D" by (simp add: D_def)
  have "card D \<le> 1" using assms(1) by (simp add: flips_def D_def)
  then have "D = {} \<or> (\<exists>j. D = {j})"
    using \<open>finite D\<close> by (metis card_0_eq card_1_singletonE le_less less_one)
  then obtain n where n: "\<And>i. i \<in> D \<longleftrightarrow> n = i + 1" and b: "n \<le> m"
  proof
    assume "D = {}"
    then show ?thesis by (intro that [of 0]) simp_all
  next
    assume "\<exists>j. D = {j}"
    then obtain j where "D = {j}" by blast
    moreover from this have "j < m" using assms(2) D_def by blast
    ultimately show ?thesis by (intro that [of "j + 1"]) auto
  qed
  have "xs ! i \<longleftrightarrow> (ys ! i \<noteq> (n = i + 1))" if "i < m" for i
    using n [of i] that assms(2) by (simp only: D_def mem_Collect_eq) blast
  with b show ?thesis by (rule that)
qed

lemma decode7_corrects:
  assumes "n \<le> 7"
    and "\<And>i. i < 7 \<Longrightarrow> cs ! i \<longleftrightarrow> ([a \<noteq> (b \<noteq> d), a \<noteq> (c \<noteq> d), a, b \<noteq> (c \<noteq> d), b, c, d] ! i \<noteq> (n = i + 1))"
  shows "decode7 cs = [a, b, c, d]"
proof -
  have cs: "cs ! 0 = ((a \<noteq> (b \<noteq> d)) \<noteq> (n = 1))" "cs ! 1 = ((a \<noteq> (c \<noteq> d)) \<noteq> (n = 2))"
    "cs ! 2 = (a \<noteq> (n = 3))" "cs ! 3 = ((b \<noteq> (c \<noteq> d)) \<noteq> (n = 4))" "cs ! 4 = (b \<noteq> (n = 5))"
    "cs ! 5 = (c \<noteq> (n = 6))" "cs ! 6 = (d \<noteq> (n = 7))"
    using assms(2) [of 0] assms(2) [of 1] assms(2) [of 2] assms(2) [of 3] assms(2) [of 4]
      assms(2) [of 5] assms(2) [of 6] by (simp_all add: numeral_eq_Suc)
  from assms(1) have n: "n = 0 \<or> n = 1 \<or> n = 2 \<or> n = 3 \<or> n = 4 \<or> n = 5 \<or> n = 6 \<or> n = 7" by linarith
  show ?thesis
    unfolding decode7_def corrected_def Let_def cs
    using n by (elim disjE; cases a; cases b; cases c; cases d; simp add: syndrome_def)
qed

interpretation hamming: block_code 4 7 henc hdec
proof unfold_locales
  fix ds cs :: "bool list"
  show "length (henc ds) = 7" by (simp add: henc_def)
  assume len: "length ds = 4" "length cs = 7" and f: "flips cs (henc ds) \<le> 1"
  obtain n where n: "n \<le> 7" "\<And>i. i < 7 \<Longrightarrow> cs ! i \<longleftrightarrow> (henc ds ! i \<noteq> (n = i + 1))"
    using one_flip [OF f len(2)] by blast
  have "decode7 cs = [ds ! 0, ds ! 1, ds ! 2, ds ! 3]"
    by (rule decode7_corrects [OF n(1)]) (use n(2) in \<open>simp only: henc_hdec_bits(1) Let_def\<close>)
  also have "\<dots> = ds" using len(1) by (auto simp: numeral_eq_Suc length_Suc_conv)
  finally show "hdec cs = ds" by (simp add: henc_hdec_bits(2) len(2))
qed

subsection \<open>The packed codec on lists of bits\<close>

lemma block_bits:
  assumes "(b + 1) * n \<le> m"
  shows "block n (bits buf m) b = map (\<lambda>i. bitAt buf (b * n + i)) [0..<n]"
  using assms by (intro nth_equalityI) (auto simp: block_def bits_def)

lemma gather_block:
  "(b + 1) * n \<le> m \<Longrightarrow> gather buf (b * n) n = pack n (\<lambda>i. block n (bits buf m) b ! i)"
  by (rule bit_word_eqI) (auto simp: gather_pack bit_pack block_bits)

lemma gather_run:
  assumes "m = k * n"
  shows "map (\<lambda>b. f (gather buf (b * n) n)) [0..<k] =
    map (\<lambda>b. f (pack n (\<lambda>i. block n (bits buf m) b ! i))) [0..<k]"
proof (rule map_cong [OF refl])
  fix b assume "b \<in> set [0..<k]"
  then have "(b + 1) * n \<le> m" using assms by (simp only: set_upt atLeastLessThan_iff) (metis Suc_eq_plus1 Suc_leI mult_le_mono1)
  then show "f (gather buf (b * n) n) = f (pack n (\<lambda>i. block n (bits buf m) b ! i))"
    by (simp only: gather_block)
qed

lemma EncodeHamming74_bits:
  "bits (fst (EncodeHamming74 data (int (k * 4)))) (k * 7) =
     concat (map (\<lambda>b. henc (block 4 (bits data (k * 4)) b)) [0..<k])"
  "snd (EncodeHamming74 data (int (k * 4))) = int (k * 7)"
proof -
  let ?f = "\<lambda>b. HammingEncode4to7 (gather data (b * 4) 4)"
  let ?vs = "concat (map (\<lambda>b. unpack 7 (?f b)) [0..<k])"
  have len: "length ?vs = k * 7" by (induction k) auto
  have "bits (fst (EncodeHamming74 data (int (k * 4)))) (k * 7) = ?vs"
    using builds_bits [OF builds_blocks [of 7 ?f k]] len
    by (simp add: EncodeHamming74_def Let_def)
  also have "\<dots> = concat (map (\<lambda>b. henc (block 4 (bits data (k * 4)) b)) [0..<k])"
    unfolding henc_def by (subst gather_run [OF refl]) (rule refl)
  finally show "bits (fst (EncodeHamming74 data (int (k * 4)))) (k * 7) =
     concat (map (\<lambda>b. henc (block 4 (bits data (k * 4)) b)) [0..<k])" .
qed (simp add: EncodeHamming74_def Let_def)

lemma DecodeHamming74_bits:
  "bits (fst (DecodeHamming74 code (int (k * 7)))) (k * 4) =
     concat (map (\<lambda>b. hdec (block 7 (bits code (k * 7)) b)) [0..<k])"
  "snd (DecodeHamming74 code (int (k * 7))) = int (k * 4)"
proof -
  let ?f = "\<lambda>b. HammingDecode7to4 (gather code (b * 7) 7)"
  let ?vs = "concat (map (\<lambda>b. unpack 4 (?f b)) [0..<k])"
  have len: "length ?vs = k * 4" by (induction k) auto
  have "bits (fst (DecodeHamming74 code (int (k * 7)))) (k * 4) = ?vs"
    using builds_bits [OF builds_blocks [of 4 ?f k]] len
    by (simp add: DecodeHamming74_def Let_def)
  also have "\<dots> = concat (map (\<lambda>b. hdec (block 7 (bits code (k * 7)) b)) [0..<k])"
    unfolding hdec_def by (subst gather_run [OF refl]) (rule refl)
  finally show "bits (fst (DecodeHamming74 code (int (k * 7)))) (k * 4) =
     concat (map (\<lambda>b. hdec (block 7 (bits code (k * 7)) b)) [0..<k])" .
qed (simp add: DecodeHamming74_def Let_def)

subsection \<open>Hamming distance of packed fingerprints\<close>

text \<open>\<open>compare.go\<close>: the table is built by the bit-slicing of \<open>init\<close>, on Go ints below 256.\<close>

definition popcount_init :: "nat \<Rightarrow> byte" where
  "popcount_init i =
     (let x = i;
          x = (x AND 0x55) + (drop_bit 1 x AND 0x55);
          x = (x AND 0x33) + (drop_bit 2 x AND 0x33);
          x = (x AND 0x0f) + (drop_bit 4 x AND 0x0f)
      in of_nat x)"

definition popcountTable :: bytes where
  "popcountTable = map popcount_init [0..<256]"

definition popcount :: "byte \<Rightarrow> nat" where
  "popcount b = unat (popcountTable ! unat b)"

datatype distance_error = Negative_length | Input_too_short

definition HammingDistance :: "bytes \<Rightarrow> bytes \<Rightarrow> int \<Rightarrow> distance_error + nat" where
  "HammingDistance a b n =
     guard (n < 0) Negative_length (
     if n = 0 then Inr 0 else
     let needed = drop_bit 3 (nat n + 7) in
     guard (length a < needed \<or> length b < needed) Input_too_short (
     let full = drop_bit 3 (nat n);
         dist = foldl (\<lambda>d i. d + popcount (a ! i XOR b ! i)) 0 [0..<full];
         rem = nat n AND 7
     in Inr (if rem > 0
             then dist + popcount ((a ! full XOR b ! full) AND (push_bit rem 1 - 1))
             else dist)))"

text \<open>The bit-slicing counts: over the eight bits of the argument, kernel-checked case by case.\<close>

fun of_bits :: "bool list \<Rightarrow> nat" where
  "of_bits [] = 0"
| "of_bits (b # bs) = of_bool b + 2 * of_bits bs"

lemma popcount_init_bits:
  "unat (popcount_init (of_bits [a, b, c, d, e, f, g, h])) = length (filter id [a, b, c, d, e, f, g, h])"
  by (cases a; cases b; cases c; cases d; cases e; cases f; cases g; cases h;
      simp add: popcount_init_def Let_def drop_bit_eq_div flip: numeral_2_eq_2 del: One_nat_def)

lemma of_bits_bits: "n < 2 ^ k \<Longrightarrow> n = of_bits (map (bit n) [0..<k])"
proof (induction k arbitrary: n)
  case (Suc k)
  have "map (bit n) [0..<Suc k] = odd n # map (bit (n div 2)) [0..<k]"
    by (simp only: upt_conv_Cons map_Suc_upt[symmetric] list.map map_map o_def)
      (simp add: bit_Suc bit_0 flip: map_Suc_upt)
  then show ?case using Suc.IH [of "n div 2"] Suc.prems by simp
qed simp

lemma bit_byte_unat: "bit (w :: byte) k = bit (unat w) k"
  by (auto simp: bit_unsigned_iff dest: bit_imp_le_length)

lemma popcount_bits: "popcount w = length (filter (bit w) [0..<8])"
proof -
  have lt: "unat w < 2 ^ 8" using unsigned_less [of w] by simp
  have eight: "[0..<8] = [0, 1, 2, 3, 4, 5, 6, 7::nat]" by code_simp
  have "unat (popcount_init (unat w)) = length (filter id (map (bit (unat w)) [0..<8]))"
    by (subst of_bits_bits [OF lt]) (simp only: eight list.map popcount_init_bits)
  also have "filter id (map (bit (unat w)) [0..<8]) = map (bit w) (filter (bit w) [0..<8])"
    by (simp add: filter_map o_def bit_byte_unat [abs_def])
  finally show ?thesis using lt by (simp add: popcount_def popcountTable_def)
qed

definition diffs :: "bytes \<Rightarrow> bytes \<Rightarrow> nat \<Rightarrow> nat list" where
  "diffs a b n = filter (\<lambda>i. bitAt a i \<noteq> bitAt b i) [0..<n]"

lemma diffs_add:
  assumes "m < length a" and "m < length b" and "r \<le> 8"
  shows "length (diffs a b (8 * m + r)) =
    length (diffs a b (8 * m)) + length (filter (bit (a ! m XOR b ! m)) [0..<r])"
proof -
  have split: "[0..<8 * m + r] = [0..<8 * m] @ map (\<lambda>k. k + 8 * m) [0..<r]"
    using upt_add_eq_append [of 0 "8 * m" r] by (simp add: map_add_upt add.commute [of r])
  have pos: "(k + 8 * m) div 8 = m" "(k + 8 * m) mod 8 = k" if "k < r" for k
    using that assms(3) by auto
  have "filter ((\<lambda>i. bitAt a i \<noteq> bitAt b i) \<circ> (\<lambda>k. k + 8 * m)) [0..<r] =
    filter (bit (a ! m XOR b ! m)) [0..<r]"
    by (rule filter_cong [OF refl]) (simp only: set_upt atLeastLessThan_iff o_def bitAt_def pos assms(1,2) bit_xor_iff simp_thms)
  then show ?thesis unfolding diffs_def split by (simp only: filter_append length_append filter_map length_map)
qed

lemma full_bytes:
  "m \<le> length a \<Longrightarrow> m \<le> length b \<Longrightarrow>
   foldl (\<lambda>d i. d + popcount (a ! i XOR b ! i)) 0 [0..<m] = length (diffs a b (8 * m))"
proof (induction m)
  case (Suc m)
  then show ?case using diffs_add [of m a b 8] by (simp add: popcount_bits add.commute)
qed (simp add: diffs_def)

lemma masked_bits: "r < 8 \<Longrightarrow> filter (bit (w AND (push_bit r 1 - 1) :: byte)) [0..<8] = filter (bit w) [0..<r]"
proof -
  assume r: "r < 8"
  have m: "(push_bit r 1 - 1 :: byte) = mask r" by (simp add: mask_eq_exp_minus_1)
  have "[0..<8] = [0..<r] @ [r..<8]" using r upt_add_eq_append [of 0 r "8 - r"] by simp
  then show ?thesis
    unfolding m using r by (auto simp: bit_and_iff bit_mask_iff possible_bit_word intro!: filter_cong)
qed

lemma round_up: "r < 8 \<Longrightarrow> (8 * m + r + 7) div 8 = (if r = 0 then m else m + (1::nat))"
proof (cases "r = 0")
  case False
  then have "8 * m + r + 7 = (r - 1) + 8 * (m + 1)" by simp
  moreover assume "r < 8"
  ultimately show ?thesis using False by (simp only: div_mult_self2) simp
qed simp

lemma HammingDistance_steps:
  "HammingDistance a b n =
    (if n < 0 then Inl Negative_length else if n = 0 then Inr 0
     else if length a < (nat n + 7) div 8 \<or> length b < (nat n + 7) div 8 then Inl Input_too_short
     else let m = nat n div 8; r = nat n mod 8;
              d = foldl (\<lambda>d i. d + popcount (a ! i XOR b ! i)) 0 [0..<m]
       in Inr (if r > 0 then d + popcount ((a ! m XOR b ! m) AND (push_bit r 1 - 1)) else d))"
  unfolding HammingDistance_def guard_def Let_def drop_3 and_7 by (rule refl)

lemma HammingDistance_full:
  assumes "m \<le> length a" and "m \<le> length b" and "r < 8" and "r > 0 \<longrightarrow> m < length a \<and> m < length b"
  shows "(let d = foldl (\<lambda>d i. d + popcount (a ! i XOR b ! i)) 0 [0..<m]
      in if r > 0 then d + popcount ((a ! m XOR b ! m) AND (push_bit r 1 - 1)) else d) =
    length (diffs a b (8 * m + r))"
proof (cases "r = 0")
  case True
  then show ?thesis by (simp add: full_bytes assms(1,2))
next
  case False
  then have "m < length a" "m < length b" "r \<le> 8" using assms(3,4) by simp_all
  note add = diffs_add [OF this]
  show ?thesis
    unfolding full_bytes [OF assms(1,2)] Let_def
    unfolding popcount_bits masked_bits [OF assms(3)] add
    using False by simp
qed

lemma HammingDistance_iff:
  "HammingDistance a b n = Inr d \<longleftrightarrow> 0 \<le> n \<and> (nat n + 7) div 8 \<le> length a \<and> (nat n + 7) div 8 \<le> length b \<and>
     d = length (diffs a b (nat n))"
proof -
  define q m r where "q = (nat n + 7) div 8" and "m = nat n div 8" and "r = nat n mod 8"
  have n: "nat n = 8 * m + r" and r: "r < 8" by (simp_all add: m_def r_def)
  have q: "q = (if r = 0 then m else m + 1)" unfolding q_def n using r by (rule round_up)
  note steps = HammingDistance_steps [of a b n, folded q_def, folded m_def, folded r_def]
  consider "n < 0" | "n = 0" | "0 < n" "length a < q \<or> length b < q" | "0 < n" "q \<le> length a" "q \<le> length b"
    by linarith
  then show ?thesis
  proof cases
    case 2
    then show ?thesis by (auto simp: HammingDistance_steps diffs_def)
  next
    case 4
    then have "m \<le> length a" "m \<le> length b" "r > 0 \<longrightarrow> m < length a \<and> m < length b"
      by (auto simp: q split: if_splits)
    from HammingDistance_full [OF this(1,2) r this(3), folded n] 4 show ?thesis
      by (auto simp: steps Let_def simp flip: q_def)
  qed (auto simp: steps diffs_def simp flip: q_def)
qed

end
