(* ===== verification/Fuzzy.thy ===== *)
theory Fuzzy
  imports Hamming Crypto
begin

text \<open>
  \<open>internal/puf/fuzzy.go\<close> and the proof of possession of \<open>keylife.go\<close>: a random secret masked
  by the reliable bits of a measurement, recovered from a later measurement through the
  Hamming code. Times are parameters; HKDF-SHA3 and Ed25519 are the parameters of \<open>Crypto\<close>.
  Measuring and quantising (\<open>Measure\<close>, \<open>QuantizeV3\<close>) are floating-point code outside this
  theory: the operations take the fingerprint they produce.
\<close>

record fingerprint =
  fp_Bits :: bytes
  fp_Length :: int
  fp_Cores :: int
  fp_Loops :: int
  fp_Trials :: int
  fp_Digest :: string
  fp_MeasuredAt :: int

record helper_data =
  hd_Version :: byte
  hd_Indices :: "int list"
  hd_Mask :: bytes
  hd_MaskBits :: int
  hd_SecretBits :: int
  hd_Commitment :: bytes
  hd_CreatedAt :: int

datatype fuzzy_error =
    Fz_few_bits
  | Fz_empty_fingerprint
  | Fz_randomness
  | Fz_encoded_length
  | Fz_nil_helper
  | Fz_version
  | Fz_sizes
  | Fz_indices
  | Fz_decoded_length
  | Fz_commitment
  | Fz_empty_key
  | Fz_panic_index \<comment> \<open>\<open>buf[b>>3]\<close> panics on a negative bit position\<close>

definition FuzzyKeyVersion :: byte where "FuzzyKeyVersion = 1"
definition SecretBits :: int where "SecretBits = 128"
definition HelperBits :: int where "HelperBits = SecretBits div 4 * 7"

definition kdf_salt :: bytes where "kdf_salt = str ''963causal/puf/v1/fuzzy''"

definition commitTo :: "kdf \<Rightarrow> bytes \<Rightarrow> bytes" where
  "commitTo F K = F K kdf_salt (str ''commit'') 32"

definition DeriveSubKey :: "kdf \<Rightarrow> bytes \<Rightarrow> bytes \<Rightarrow> fuzzy_error + bytes" where
  "DeriveSubKey F K domain = guard (K = []) Fz_empty_key (Inr (F K kdf_salt domain 32))"

definition DeriveEd25519 :: "kdf \<Rightarrow> ed25519 \<Rightarrow> bytes \<Rightarrow> fuzzy_error + (bytes \<times> bytes)" where
  "DeriveEd25519 F E K = guard (K = []) Fz_empty_key (
     let seed = F K kdf_salt (str ''ed25519-seed'') 32;
         priv = ed_new_key E seed
     in Inr (priv, ed_public E priv))"

text \<open>The loop of \<open>extractBitsAt\<close>, at position \<open>i\<close> of the output.\<close>

fun extract_loop :: "bytes \<Rightarrow> nat \<Rightarrow> int list \<Rightarrow> bytes \<Rightarrow> fuzzy_error + bytes" where
  "extract_loop buf i [] out = Inr out"
| "extract_loop buf i (idx # rest) out =
     (if idx < 0 then Inl Fz_panic_index
      else extract_loop buf (i + 1) rest
        (if bitOf buf (nat idx) \<noteq> 0
         then out[drop_bit 3 i := out ! drop_bit 3 i OR push_bit (i AND 7) 1] else out))"

definition extractBitsAt :: "bytes \<Rightarrow> int list \<Rightarrow> fuzzy_error + bytes" where
  "extractBitsAt buf indices =
     extract_loop buf 0 indices (replicate ((length indices + 7) div 8) 0)"

definition xorBytes :: "bytes \<Rightarrow> bytes \<Rightarrow> bytes" where
  "xorBytes a b = (if length a \<noteq> length b then [] else map2 (XOR) a b)"

definition Enroll ::
  "kdf \<Rightarrow> rng \<Rightarrow> int \<Rightarrow> fingerprint \<Rightarrow> int list \<Rightarrow> fuzzy_error + (bytes \<times> helper_data)" where
  "Enroll F rng now fp indices =
     guard (int (length indices) < HelperBits) Fz_few_bits (
     guard (fp_Length fp = 0) Fz_empty_fingerprint (
     case rng 0 of
       None \<Rightarrow> Inl Fz_randomness
     | Some f \<Rightarrow>
         let K = fill (nat (SecretBits div 8)) f;
             (codeword, encBits) = EncodeHamming74 K SecretBits
         in guard (encBits \<noteq> HelperBits) Fz_encoded_length (
            bind_r (extractBitsAt (fp_Bits fp) (take (nat HelperBits) indices)) (\<lambda>pufBits.
            Inr (K, \<lparr>hd_Version = FuzzyKeyVersion, hd_Indices = take (nat HelperBits) indices,
              hd_Mask = xorBytes codeword pufBits, hd_MaskBits = HelperBits,
              hd_SecretBits = SecretBits, hd_Commitment = commitTo F K, hd_CreatedAt = now\<rparr>)))))"

definition Reproduce :: "kdf \<Rightarrow> fingerprint \<Rightarrow> helper_data option \<Rightarrow> fuzzy_error + bytes" where
  "Reproduce F fp helper =
     (case helper of
        None \<Rightarrow> Inl Fz_nil_helper
      | Some h \<Rightarrow>
          guard (hd_Version h \<noteq> FuzzyKeyVersion) Fz_version (
          guard (hd_MaskBits h \<noteq> HelperBits \<or> hd_SecretBits h \<noteq> SecretBits) Fz_sizes (
          guard (int (length (hd_Indices h)) \<noteq> HelperBits) Fz_indices (
          guard (fp_Length fp = 0) Fz_empty_fingerprint (
          bind_r (extractBitsAt (fp_Bits fp) (hd_Indices h)) (\<lambda>pufBits.
            let codewordNoisy = xorBytes (hd_Mask h) pufBits;
                (K, decBits) = DecodeHamming74 codewordNoisy HelperBits
            in guard (decBits \<noteq> SecretBits) Fz_decoded_length (
               guard (commitTo F K \<noteq> hd_Commitment h) Fz_commitment (Inr K))))))))"

text \<open>The timestamp loop, from the last byte to the first, shifting a signed 64-bit value.\<close>

fun ts_loop :: "nat \<Rightarrow> i64 \<Rightarrow> bytes \<Rightarrow> bytes" where
  "ts_loop 0 ms acc = acc"
| "ts_loop (Suc n) ms acc = ts_loop n (signed_drop_bit 8 ms) (ucast ms # acc)"

definition ProofMessage :: "bytes \<Rightarrow> bytes \<Rightarrow> i64 \<Rightarrow> bytes" where
  "ProofMessage hostID nonce generatedAtMs = hostID @ nonce @ ts_loop 8 generatedAtMs []"

record puf_key_proof =
  pk_HostId :: bytes
  pk_Nonce :: bytes
  pk_GeneratedAtMs :: i64
  pk_Signature :: bytes

datatype prove_error =
    Prove_nil_state
  | Prove_measure
  | Prove_reproduce fuzzy_error
  | Prove_derive fuzzy_error
  | Prove_diverged
  | Prove_nonce

text \<open>
  \<open>ProveKey\<close>: the stored state is the helper and the enrolled public key; \<open>fp\<close> is the fresh
  measurement, quantised against the stored baseline (\<open>None\<close> when measuring failed).
\<close>

definition ProveKey ::
  "kdf \<Rightarrow> ed25519 \<Rightarrow> rng \<Rightarrow> i64 \<Rightarrow> bytes \<Rightarrow> (helper_data \<times> bytes) option \<Rightarrow> fingerprint option
     \<Rightarrow> prove_error + puf_key_proof" where
  "ProveKey F E rng now hostID state fp =
     (case state of
        None \<Rightarrow> Inl Prove_nil_state
      | Some (helper, derivedPub) \<Rightarrow>
     (case fp of
        None \<Rightarrow> Inl Prove_measure
      | Some fp \<Rightarrow>
          bind_r (wrap_err Prove_reproduce (Reproduce F fp (Some helper))) (\<lambda>K.
          bind_r (wrap_err Prove_derive (DeriveEd25519 F E K)) (\<lambda>(priv, pub).
          guard (pub \<noteq> derivedPub) Prove_diverged (
          case rng 0 of
            None \<Rightarrow> Inl Prove_nonce
          | Some f \<Rightarrow>
              let nonce = fill 16 f in
              Inr \<lparr>pk_HostId = hostID, pk_Nonce = nonce, pk_GeneratedAtMs = now,
                pk_Signature = ed_sign E priv (ProofMessage hostID nonce now)\<rparr>)))))"

subsection \<open>The extracted bits\<close>

lemma length_extract_loop: "extract_loop buf i idxs out = Inr r \<Longrightarrow> length r = length out"
  by (induction buf i idxs out rule: extract_loop.induct) (auto split: if_splits)

lemma bitAt_set:
  assumes "i div 8 < length out"
  shows "bitAt (out[drop_bit 3 i := out ! drop_bit 3 i OR push_bit (i AND 7) 1]) j \<longleftrightarrow> j = i \<or> bitAt out j"
proof (cases "j div 8 = i div 8")
  case True
  then have "j = i \<longleftrightarrow> j mod 8 = i mod 8" by (metis div_mult_mod_eq)
  with True assms show ?thesis
    by (auto simp: bitAt_def drop_3 and_7 bit_or_iff byte_power_bit)
next
  case False
  then show ?thesis using assms by (auto simp: bitAt_def drop_3)
qed

lemmas bitAt_set_pow = bitAt_set [unfolded push_bit_of_1]

lemma ceil8: "(n::nat) \<le> 8 * ((n + 7) div 8)"
  by presburger

lemma extract_loop_bits:
  assumes "list_all (\<lambda>x. 0 \<le> x) idxs" and "i + length idxs \<le> 8 * length out"
    and "\<forall>j \<ge> i. \<not> bitAt out j"
  shows "\<exists>r. extract_loop buf i idxs out = Inr r \<and>
    (\<forall>j. bitAt r j \<longleftrightarrow> (if j < i then bitAt out j
      else j < i + length idxs \<and> bitAt buf (nat (idxs ! (j - i)))))"
  using assms
proof (induction idxs arbitrary: i out)
  case Nil
  then show ?case by (auto simp: not_less)
next
  case (Cons x idxs)
  define out' where "out' = (if bitOf buf (nat x) \<noteq> 0
    then out[drop_bit 3 i := out ! drop_bit 3 i OR push_bit (i AND 7) 1] else out)"
  have "i div 8 < length out" using Cons.prems(2) by simp
  then have out': "bitAt out' j \<longleftrightarrow> (if j = i then bitAt buf (nat x) else bitAt out j)" for j
    using Cons.prems(3) by (auto simp: out'_def bitAt_set_pow bitOf_iff)
  have len: "length out' = length out" by (simp add: out'_def)
  have "\<exists>r. extract_loop buf (i + 1) idxs out' = Inr r \<and>
    (\<forall>j. bitAt r j \<longleftrightarrow> (if j < i + 1 then bitAt out' j
      else j < i + 1 + length idxs \<and> bitAt buf (nat (idxs ! (j - (i + 1))))))"
    by (rule Cons.IH) (use Cons.prems out' len in auto)
  then obtain r where r: "extract_loop buf (i + 1) idxs out' = Inr r"
    and at: "\<And>j. bitAt r j \<longleftrightarrow> (if j < i + 1 then bitAt out' j
      else j < i + 1 + length idxs \<and> bitAt buf (nat (idxs ! (j - (i + 1)))))" by blast
  have "bitAt r j \<longleftrightarrow> (if j < i then bitAt out j
      else j < i + length (x # idxs) \<and> bitAt buf (nat ((x # idxs) ! (j - i))))" for j
    using at [of j] out' [of j] by (cases "j < i"; cases "j = i") (auto simp: nth_Cons')
  moreover have "extract_loop buf i (x # idxs) out = Inr r"
    using r Cons.prems(1) by (simp add: out'_def)
  ultimately show ?case by blast
qed

lemma extractBitsAt_ok:
  assumes "list_all (\<lambda>x. 0 \<le> x) idxs"
  obtains r where "extractBitsAt buf idxs = Inr r" and "length r = (length idxs + 7) div 8"
    and "\<And>j. bitAt r j \<longleftrightarrow> j < length idxs \<and> bitAt buf (nat (idxs ! j))"
proof -
  let ?out = "replicate ((length idxs + 7) div 8) (0 :: byte)"
  have "\<not> bitAt ?out j" for j by (simp add: bitAt_def)
  then obtain r where r: "extractBitsAt buf idxs = Inr r"
    "\<forall>j. bitAt r j \<longleftrightarrow> j < length idxs \<and> bitAt buf (nat (idxs ! j))"
    using extract_loop_bits [OF assms, of 0 ?out buf] ceil8 [of "length idxs"] by (auto simp: extractBitsAt_def)
  moreover from r(1) have "length r = (length idxs + 7) div 8"
    by (auto simp: extractBitsAt_def dest: length_extract_loop)
  ultimately show ?thesis by (intro that) auto
qed

lemma extract_loop_panic: "\<not> list_all (\<lambda>x. 0 \<le> x) idxs \<Longrightarrow> extract_loop buf i idxs out = Inl Fz_panic_index"
  by (induction buf i idxs out rule: extract_loop.induct) auto

lemma extractBitsAt_panics: "\<not> list_all (\<lambda>x. 0 \<le> x) idxs \<Longrightarrow> extractBitsAt buf idxs = Inl Fz_panic_index"
  by (simp add: extractBitsAt_def extract_loop_panic)

lemma length_xorBytes: "length a = length b \<Longrightarrow> length (xorBytes a b) = length a"
  by (simp add: xorBytes_def)

lemma bitAt_xorBytes: "length a = length b \<Longrightarrow> bitAt (xorBytes a b) i \<longleftrightarrow> (bitAt a i \<noteq> bitAt b i)"
  by (auto simp: bitAt_def xorBytes_def bit_xor_iff)

lemma bits_eq_bytes:
  assumes "length a = m" and "length b = m" and "\<And>i. i < 8 * m \<Longrightarrow> bitAt a i = bitAt b i"
  shows "a = b"
proof (rule nth_equalityI)
  fix j assume j: "j < length a"
  show "a ! j = b ! j"
  proof (rule bit_word_eqI)
    fix k assume "k < LENGTH(8)"
    then have "k < 8" by simp
    with j assms show "bit (a ! j) k = bit (b ! j) k"
      using assms(3) [of "8 * j + k"] by (simp add: bitAt_def)
  qed
qed (simp add: assms)

subsection \<open>Enrolling and reproducing\<close>

lemma sizes: "SecretBits = int (32 * 4)" "HelperBits = int (32 * 7)"
  by (simp_all add: SecretBits_def HelperBits_def)

lemma length_DecodeHamming74: "length (fst (DecodeHamming74 code (int (k * 7)))) = (k * 4 + 7) div 8"
proof -
  let ?f = "\<lambda>b. HammingDecode7to4 (gather code (b * 7) 7)"
  have "length (concat (map (\<lambda>b. unpack 4 (?f b)) [0..<k])) = k * 4" by (induction k) auto
  then show ?thesis
    using builds_blocks [of 4 ?f k] by (simp add: DecodeHamming74_def Let_def builds_def)
qed

lemma length_EncodeHamming74: "length (fst (EncodeHamming74 data (int (k * 4)))) = (k * 7 + 7) div 8"
proof -
  let ?f = "\<lambda>b. HammingEncode4to7 (gather data (b * 4) 4)"
  have "length (concat (map (\<lambda>b. unpack 7 (?f b)) [0..<k])) = k * 7" by (induction k) auto
  then show ?thesis
    using builds_blocks [of 7 ?f k] by (simp add: EncodeHamming74_def Let_def builds_def)
qed

text \<open>How many of the seven selected bits of block \<open>b\<close> differ between two measurements.\<close>

definition block_flips :: "bytes \<Rightarrow> bytes \<Rightarrow> int list \<Rightarrow> nat \<Rightarrow> nat" where
  "block_flips buf buf' idxs b = length (filter (\<lambda>i.
     bitAt buf (nat (idxs ! (b * 7 + i))) \<noteq> bitAt buf' (nat (idxs ! (b * 7 + i)))) [0..<7])"

lemma flips_filter: "flips xs ys = length (filter (\<lambda>i. xs ! i \<noteq> ys ! i) [0..<length xs])"
proof -
  have "{i. i < length xs \<and> xs ! i \<noteq> ys ! i} = set (filter (\<lambda>i. xs ! i \<noteq> ys ! i) [0..<length xs])"
    by auto
  then show ?thesis unfolding flips_def by (simp only: distinct_card distinct_filter distinct_upt)
qed

text \<open>The code word comes back through the mask with exactly the flipped measurement bits.\<close>

lemma masked_block:
  assumes "length c = 28" "length p = 28" "length p' = 28" and "b < 32"
    and "\<And>j. bitAt p j \<longleftrightarrow> j < 224 \<and> bitAt buf (nat (idxs ! j))"
    and "\<And>j. bitAt p' j \<longleftrightarrow> j < 224 \<and> bitAt buf' (nat (idxs ! j))"
  shows "flips (block 7 (bits (xorBytes (xorBytes c p) p') 224) b) (block 7 (bits c 224) b) =
    block_flips buf buf' idxs b"
proof -
  have b: "(b + 1) * 7 \<le> 224" using assms(4) by simp
  have bit: "bitAt (xorBytes (xorBytes c p) p') j \<noteq> bitAt c j \<longleftrightarrow> (bitAt p j \<noteq> bitAt p' j)" for j
    using assms(1-3) by (auto simp: bitAt_xorBytes length_xorBytes)
  have lt: "b * 7 + i < 224" if "i < 7" for i using that assms(4) by simp
  let ?n = "xorBytes (xorBytes c p) p'"
  have "filter (\<lambda>i. map (\<lambda>i. bitAt ?n (b * 7 + i)) [0..<7] ! i \<noteq> map (\<lambda>i. bitAt c (b * 7 + i)) [0..<7] ! i) [0..<7]
    = filter (\<lambda>i. bitAt buf (nat (idxs ! (b * 7 + i))) \<noteq> bitAt buf' (nat (idxs ! (b * 7 + i)))) [0..<7]"
  proof (rule filter_cong [OF refl])
    fix i assume "i \<in> set [0..<7]"
    then have i: "i < 7" by simp
    then have "map (\<lambda>i. bitAt ?n (b * 7 + i)) [0..<7] ! i = bitAt ?n (b * 7 + i)"
      "map (\<lambda>i. bitAt c (b * 7 + i)) [0..<7] ! i = bitAt c (b * 7 + i)"
      by (simp_all del: upt_rec_numeral)
    then show "(map (\<lambda>i. bitAt ?n (b * 7 + i)) [0..<7] ! i \<noteq> map (\<lambda>i. bitAt c (b * 7 + i)) [0..<7] ! i) =
      (bitAt buf (nat (idxs ! (b * 7 + i))) \<noteq> bitAt buf' (nat (idxs ! (b * 7 + i))))"
      using lt [OF i] bit [of "b * 7 + i"] assms(5,6) [of "b * 7 + i"] by argo
  qed
  then show ?thesis
    unfolding flips_filter block_bits [OF b] block_flips_def length_map length_upt diff_zero by (rule arg_cong)
qed

lemma decode_masked:
  assumes K: "length K = 16" and c: "c = fst (EncodeHamming74 K SecretBits)"
    and len: "length n = 28"
    and rad: "\<And>b. b < 32 \<Longrightarrow> flips (block 7 (bits n 224) b) (block 7 (bits c 224) b) \<le> 1"
  shows "DecodeHamming74 n HelperBits = (K, SecretBits)"
proof -
  let ?ds = "bits K 128"
  have c_bits: "bits c 224 = concat (map (\<lambda>b. henc (block 4 ?ds b)) [0..<32])"
    using EncodeHamming74_bits(1) [of K 32] by (simp add: c SecretBits_def)
  have "block 7 (bits c 224) b = henc (block 4 ?ds b)" if "b < 32" for b
    unfolding c_bits using that by (intro block_concat) (simp_all add: henc_def)
  then have "\<forall>b<32. flips (block 7 (bits n 224) b) (henc (block 4 ?ds b)) \<le> 1"
    using rad by simp
  then have "concat (map (\<lambda>b. hdec (block 7 (bits n 224) b)) [0..<32]) = ?ds"
    by (intro hamming.decode_blocks) simp_all
  then have eq: "bits (fst (DecodeHamming74 n HelperBits)) 128 = ?ds"
    using DecodeHamming74_bits(1) [of n 32] by (simp add: HelperBits_def SecretBits_def)
  have "fst (DecodeHamming74 n HelperBits) = K"
  proof (rule bits_eq_bytes [OF _ K])
    show "length (fst (DecodeHamming74 n HelperBits)) = 16"
      using length_DecodeHamming74 [of n 32] by (simp add: HelperBits_def SecretBits_def)
    show "bitAt (fst (DecodeHamming74 n HelperBits)) i = bitAt K i" if "i < 8 * 16" for i
      using arg_cong [OF eq, of "\<lambda>bs. bs ! i"] that by simp
  qed
  moreover have "snd (DecodeHamming74 n HelperBits) = SecretBits"
    using DecodeHamming74_bits(2) [of n 32] by (simp add: HelperBits_def SecretBits_def)
  ultimately show ?thesis by (simp add: prod_eq_iff)
qed

text \<open>The \<open>Enroll\<close> and \<open>Reproduce\<close> guards, as the shape of a successful result.\<close>

lemma Enroll_Inr:
  assumes "Enroll F rng now fp idxs = Inr (K, h)"
  obtains f p where "rng 0 = Some f" and "K = fill 16 f" and "224 \<le> length idxs"
    and "extractBitsAt (fp_Bits fp) (take 224 idxs) = Inr p"
    and "h = \<lparr>hd_Version = FuzzyKeyVersion, hd_Indices = take 224 idxs,
      hd_Mask = xorBytes (fst (EncodeHamming74 K SecretBits)) p, hd_MaskBits = HelperBits,
      hd_SecretBits = SecretBits, hd_Commitment = commitTo F K, hd_CreatedAt = now\<rparr>"
proof -
  have n: "nat HelperBits = 224" "nat (SecretBits div 8) = 16" by (simp_all add: HelperBits_def SecretBits_def)
  show ?thesis
    using assms that unfolding Enroll_def n
    by (auto split: option.splits simp: HelperBits_def SecretBits_def Let_def split_beta)
qed

lemma Reproduce_Some:
  "Reproduce F fp (Some h) = Inr K \<longleftrightarrow>
     hd_Version h = FuzzyKeyVersion \<and> hd_MaskBits h = HelperBits \<and> hd_SecretBits h = SecretBits \<and>
     int (length (hd_Indices h)) = HelperBits \<and> fp_Length fp \<noteq> 0 \<and>
     (\<exists>p. extractBitsAt (fp_Bits fp) (hd_Indices h) = Inr p \<and>
        fst (DecodeHamming74 (xorBytes (hd_Mask h) p) HelperBits) = K) \<and>
     commitTo F K = hd_Commitment h"
proof -
  have "snd (DecodeHamming74 n HelperBits) = SecretBits" for n
    using DecodeHamming74_bits(2) [of n 32] by (simp add: HelperBits_def SecretBits_def)
  then show ?thesis
    unfolding Reproduce_def by (auto simp: Let_def split_beta)
qed

lemma reproduce_enrolled:
  assumes enr: "Enroll F rng now fp idxs = Inr (K, h)"
    and fp': "fp_Length fp' \<noteq> 0"
    and rad: "list_all (\<lambda>b. block_flips (fp_Bits fp) (fp_Bits fp') idxs b \<le> 1) [0..<32]"
  shows "Reproduce F fp' (Some h) = Inr K"
proof -
  obtain f p where K: "K = fill 16 f" and n: "224 \<le> length idxs"
    and p: "extractBitsAt (fp_Bits fp) (take 224 idxs) = Inr p"
    and h: "h = \<lparr>hd_Version = FuzzyKeyVersion, hd_Indices = take 224 idxs,
      hd_Mask = xorBytes (fst (EncodeHamming74 K SecretBits)) p, hd_MaskBits = HelperBits,
      hd_SecretBits = SecretBits, hd_Commitment = commitTo F K, hd_CreatedAt = now\<rparr>"
    using enr by (rule Enroll_Inr)
  let ?i = "take 224 idxs" and ?c = "fst (EncodeHamming74 K SecretBits)"
  have pos: "list_all (\<lambda>x. 0 \<le> x) ?i"
    using p extractBitsAt_panics [of ?i "fp_Bits fp"] by fastforce
  have lK: "length K = 16" by (simp add: K)
  have li: "length ?i = 224" using n by simp
  note ok = extractBitsAt_ok [OF pos, unfolded li]
  obtain p' where p': "extractBitsAt (fp_Bits fp') ?i = Inr p'" and lp': "length p' = 28"
    and bp': "\<And>j. bitAt p' j \<longleftrightarrow> j < 224 \<and> bitAt (fp_Bits fp') (nat (?i ! j))"
    by (rule ok [of "fp_Bits fp'"]) simp
  obtain q where q: "extractBitsAt (fp_Bits fp) ?i = Inr q" and lq: "length q = 28"
    and bq: "\<And>j. bitAt q j \<longleftrightarrow> j < 224 \<and> bitAt (fp_Bits fp) (nat (?i ! j))"
    by (rule ok [of "fp_Bits fp"]) simp
  with p have "q = p" by simp
  note lp = lq [unfolded this] and bp = bq [unfolded this]
  have lc: "length ?c = 28" using length_EncodeHamming74 [of K 32] by (simp add: SecretBits_def)
  have "block_flips (fp_Bits fp) (fp_Bits fp') ?i b = block_flips (fp_Bits fp) (fp_Bits fp') idxs b"
    if "b < 32" for b
    unfolding block_flips_def using that by (intro arg_cong [where f = length] filter_cong) auto
  then have "flips (block 7 (bits (xorBytes (xorBytes ?c p) p') 224) b) (block 7 (bits ?c 224) b) \<le> 1"
    if "b < 32" for b
    using masked_block [OF lc lp lp' that bp bp'] rad that by (simp add: list_all_iff)
  then have "DecodeHamming74 (xorBytes (xorBytes ?c p) p') HelperBits = (K, SecretBits)"
    by (intro decode_masked [OF lK refl]) (simp_all only: length_xorBytes lc lp lp')
  then show ?thesis
    unfolding Reproduce_Some using fp' n p' by (simp add: h HelperBits_def SecretBits_def)
qed

lemma Enroll_succeeds:
  assumes "224 \<le> length idxs" and "list_all (\<lambda>x. 0 \<le> x) (take 224 idxs)" and "fp_Length fp \<noteq> 0"
    and "rng 0 = Some f"
  obtains h where "Enroll F rng now fp idxs = Inr (fill 16 f, h)"
proof -
  have n: "nat HelperBits = 224" "nat (SecretBits div 8) = 16" by (simp_all add: HelperBits_def SecretBits_def)
  have e: "snd (EncodeHamming74 K SecretBits) = HelperBits" for K
    using EncodeHamming74_bits(2) [of K 32] by (simp add: HelperBits_def SecretBits_def)
  obtain p where p: "extractBitsAt (fp_Bits fp) (take 224 idxs) = Inr p"
    using extractBitsAt_ok [OF assms(2)] by metis
  show ?thesis
    by (rule that) (use assms p in \<open>simp add: Enroll_def n Let_def split_beta e, simp add: HelperBits_def SecretBits_def\<close>)
qed

text \<open>A mask of the wrong size makes \<open>xorBytes\<close> return nil, which decodes to zeroes.\<close>

lemma decode_nil: "fst (DecodeHamming74 [] HelperBits) = replicate 16 0"
proof -
  let ?x = "fst (DecodeHamming74 [] HelperBits)"
  have len: "length ?x = 16" using length_DecodeHamming74 [of "[]" 32] by (simp add: HelperBits_def SecretBits_def)
  have h0: "hdec (replicate 7 False) = replicate 4 False"
    by (simp add: henc_hdec_bits(2) decode7_def syndrome_def corrected_def numeral_eq_Suc)
  have "block 7 (bits [] 224) b = replicate 7 False" if "b < 32" for b
    using that by (intro nth_equalityI) (auto simp: length_block block_def bits_def bitAt_def)
  then have "concat (map (\<lambda>b. hdec (block 7 (bits [] 224) b)) [0..<32]) = concat (map (\<lambda>b. replicate 4 False) [0..<32])"
    by (intro arg_cong [where f = concat] map_cong) (auto simp only: h0 set_upt atLeastLessThan_iff)
  then have z: "bits ?x 128 = concat (map (\<lambda>b. replicate 4 False) [0..<32])"
    using DecodeHamming74_bits(1) [of "[]" 32] by (simp add: HelperBits_def SecretBits_def)
  have "set (bits ?x 128) \<subseteq> {False}" unfolding z by auto
  then have "\<not> bitAt ?x i" if "i < 128" for i using that by (auto simp: bits_def image_subset_iff)
  then show ?thesis by (intro bits_eq_bytes [OF len]) (auto simp: bitAt_def)
qed

lemma reproduce_wrong_mask:
  assumes "Reproduce F fp (Some h) = Inr K" and "length (hd_Mask h) \<noteq> 28"
  shows "K = replicate 16 0"
proof -
  obtain p where p: "extractBitsAt (fp_Bits fp) (hd_Indices h) = Inr p"
    and K: "fst (DecodeHamming74 (xorBytes (hd_Mask h) p) HelperBits) = K"
    and n: "int (length (hd_Indices h)) = HelperBits"
    using assms(1) by (auto simp: Reproduce_Some)
  from p have "length p = (length (hd_Indices h) + 7) div 8"
    by (auto simp: extractBitsAt_def dest: length_extract_loop)
  also have "\<dots> = 28" using n by (simp add: HelperBits_def SecretBits_def)
  finally have "xorBytes (hd_Mask h) p = []" using assms(2) by (simp add: xorBytes_def)
  with K show ?thesis by (simp add: decode_nil)
qed

text \<open>The timestamp bytes are the big-endian ones.\<close>

lemma ts_loop_be:
  "n \<le> 8 \<Longrightarrow> (\<And>i. i < 8 * n \<Longrightarrow> bit a i = bit b i) \<Longrightarrow> ts_loop n a acc = be_bytes n b @ acc"
proof (induction n arbitrary: a b acc)
  case (Suc n)
  have "(ucast a :: byte) = ucast b"
    by (rule bit_word_eqI) (use Suc.prems(2) in \<open>simp add: bit_ucast_iff\<close>)
  moreover have "ts_loop n (signed_drop_bit 8 a) (ucast a # acc) = be_bytes n (drop_bit 8 b) @ ucast a # acc"
  proof (rule Suc.IH)
    show "n \<le> 8" using Suc.prems(1) by simp
    fix i assume "i < 8 * n"
    with Suc.prems show "bit (signed_drop_bit 8 a) i = bit (drop_bit 8 b) i"
      by (simp add: bit_signed_drop_bit_iff bit_drop_bit_eq)
  qed
  ultimately show ?case by simp
qed simp

lemma ProofMessage_layout: "ProofMessage h n t = h @ n @ putUint64 t"
  by (simp add: ProofMessage_def putUint64_def ts_loop_be)

lemma ProofMessage_inject:
  assumes "length n = length n'"
  shows "ProofMessage h n t = ProofMessage h' n' t' \<longleftrightarrow> h = h' \<and> n = n' \<and> t = t'"
proof
  assume eq: "ProofMessage h n t = ProofMessage h' n' t'"
  then have "length h = length h'" using assms by (auto simp: ProofMessage_layout dest: arg_cong [where f = length])
  with eq assms show "h = h' \<and> n = n' \<and> t = t'" by (simp add: ProofMessage_layout)
qed simp

text \<open>One enrolment, then a proof from a later measurement.\<close>

lemma prove_enrolled:
  assumes enr: "Enroll F rng now fp idxs = Inr (K, h)"
    and der: "DeriveEd25519 F E K = Inr (priv, pub)"
    and key: "ed_key E priv"
    and fp': "fp_Length fp' \<noteq> 0"
    and rad: "list_all (\<lambda>b. block_flips (fp_Bits fp) (fp_Bits fp') idxs b \<le> 1) [0..<32]"
    and rng': "rng' 0 = Some f"
  shows "\<exists>pr. ProveKey F E rng' t hostID (Some (h, pub)) (Some fp') = Inr pr \<and>
    pk_Nonce pr = fill 16 f \<and>
    ed_verify E pub (ProofMessage hostID (pk_Nonce pr) t) (pk_Signature pr)"
proof -
  have "pub = ed_public E priv" using der by (auto simp: DeriveEd25519_def Let_def)
  then show ?thesis
    using reproduce_enrolled [OF enr fp' rad] der rng' ed_keyD(4) [OF key]
    by (simp add: ProveKey_def Let_def)
qed

lemma prove_rejects:
  assumes "ProveKey F E rng t hostID (Some (h, pub)) (Some fp) = Inr pr"
  shows "\<exists>K priv. Reproduce F fp (Some h) = Inr K \<and> DeriveEd25519 F E K = Inr (priv, pub)"
  using assms by (fastforce simp: ProveKey_def split: option.splits)

subsection \<open>Properties\<close>

definition demo_fp :: "bytes \<Rightarrow> fingerprint" where
  "demo_fp bs = \<lparr>fp_Bits = bs, fp_Length = 224, fp_Cores = 4, fp_Loops = 8, fp_Trials = 1,
     fp_Digest = [], fp_MeasuredAt = 0\<rparr>"

definition demo_idxs :: "int list" where
  "demo_idxs = map int [0..<224]"

lemma demo_idxs: "224 \<le> length demo_idxs" "list_all (\<lambda>x. 0 \<le> x) (take 224 demo_idxs)"
  "i < 224 \<Longrightarrow> nat (demo_idxs ! i) = i"
  by (simp_all add: demo_idxs_def list_all_iff del: upt_rec_numeral)

text \<open>The later measurement has one bit flipped.\<close>

lemma demo_flips:
  "list_all (\<lambda>b. block_flips (fp_Bits (demo_fp (replicate 28 0)))
     (fp_Bits (demo_fp ((replicate 28 0)[0 := 1]))) demo_idxs b \<le> 1) [0..<32]"
proof -
  have one: "bitAt ((replicate 28 0)[0 := 1]) j \<longleftrightarrow> j = 0" and zero: "\<not> bitAt (replicate 28 0) j" for j
    by (auto simp: bitAt_def nth_list_update bit_1_iff)
  have "block_flips (replicate 28 0) ((replicate 28 0)[0 := 1]) demo_idxs b \<le> 1" if "b < 32" for b
  proof -
    have "filter (\<lambda>i. bitAt (replicate 28 0) (nat (demo_idxs ! (b * 7 + i))) \<noteq>
        bitAt ((replicate 28 0)[0 := 1]) (nat (demo_idxs ! (b * 7 + i)))) [0..<7] =
      filter (\<lambda>i. b * 7 + i = 0) [0..<7]"
      by (rule filter_cong [OF refl]) (use that in \<open>simp add: one zero demo_idxs(3) del: upt_rec_numeral\<close>)
    then have "block_flips (replicate 28 0) ((replicate 28 0)[0 := 1]) demo_idxs b =
      length (filter (\<lambda>i. b * 7 + i = 0) [0, 1, 2, 3, 4, 5, 6])"
      unfolding block_flips_def seven by (rule arg_cong)
    then show ?thesis by (cases b) simp_all
  qed
  then show ?thesis by (simp add: demo_fp_def list_all_iff del: upt_rec_numeral)
qed

definition demo_K :: bytes where
  "demo_K = fill 16 (\<lambda>j. of_nat (3 * j))"

lemma demo_enroll: "\<exists>h. Enroll demo_kdf demo_rng 0 (demo_fp bs) demo_idxs = Inr (demo_K, h)"
proof -
  have "demo_rng 0 = Some (\<lambda>j. of_nat (3 * j))" by (simp add: demo_rng_def)
  from Enroll_succeeds [where rng = demo_rng and fp = "demo_fp bs", OF demo_idxs(1,2) _ this]
  show ?thesis unfolding demo_K_def by (metis demo_fp_def fingerprint.select_convs(2) zero_neq_numeral)
qed

text \<open>C20: A secret enrolled on one measurement is reproduced from any later measurement that flips
  at most one of the seven selected bits of every block.\<close>
theorem reproduce_after_enroll:
  assumes "Enroll F rng now fp idxs = Inr (K, h)"
    and "fp_Length fp' \<noteq> 0"
    and "list_all (\<lambda>b. block_flips (fp_Bits fp) (fp_Bits fp') idxs b \<le> 1) [0..<32]"
  shows "Reproduce F fp' (Some h) = Inr K"
  using assms by (rule reproduce_enrolled)

theorem reproduce_after_enroll_witness:
  "\<exists>h. Reproduce demo_kdf (demo_fp ((replicate 28 0)[0 := 1])) (Some h) = Inr demo_K"
proof -
  obtain h where "Enroll demo_kdf demo_rng 0 (demo_fp (replicate 28 0)) demo_idxs = Inr (demo_K, h)"
    using demo_enroll by blast
  from reproduce_after_enroll [OF this _ demo_flips] show ?thesis by (auto simp: demo_fp_def)
qed

text \<open>A proof of possession made from a later measurement verifies under the public key derived
  at enrolment, over the host, the fresh nonce and the time.\<close>
theorem prove_key_after_enroll:
  assumes "Enroll F rng now fp idxs = Inr (K, h)"
    and "DeriveEd25519 F E K = Inr (priv, pub)"
    and "ed_key E priv"
    and "fp_Length fp' \<noteq> 0"
    and "list_all (\<lambda>b. block_flips (fp_Bits fp) (fp_Bits fp') idxs b \<le> 1) [0..<32]"
    and "rng' 0 = Some f"
  shows "\<exists>pr. ProveKey F E rng' t hostID (Some (h, pub)) (Some fp') = Inr pr \<and>
    pk_Nonce pr = fill 16 f \<and>
    ed_verify E pub (ProofMessage hostID (pk_Nonce pr) t) (pk_Signature pr)"
  using assms by (rule prove_enrolled)

theorem prove_key_after_enroll_witness:
  "\<exists>h pub pr. ProveKey demo_kdf demo_ed demo_rng 7 (str ''host'') (Some (h, pub))
      (Some (demo_fp ((replicate 28 0)[0 := 1]))) = Inr pr \<and>
    ed_verify demo_ed pub (ProofMessage (str ''host'') (pk_Nonce pr) 7) (pk_Signature pr)"
proof -
  have r: "demo_rng 0 = Some (\<lambda>j. of_nat (3 * j))" by (simp add: demo_rng_def)
  have l: "fp_Length (demo_fp ((replicate 28 0)[0 := 1])) \<noteq> 0" by (simp add: demo_fp_def)
  obtain h where h: "Enroll demo_kdf demo_rng 0 (demo_fp (replicate 28 0)) demo_idxs = Inr (demo_K, h)"
    using demo_enroll by blast
  have "demo_K \<noteq> []" by (simp add: fill_def demo_K_def)
  then obtain priv pub where d: "DeriveEd25519 demo_kdf demo_ed demo_K = Inr (priv, pub)"
    and "length priv = 64" by (auto simp: DeriveEd25519_def Let_def)
  then have k: "ed_key demo_ed priv" by (intro demo_ed_key)
  from prove_key_after_enroll [where rng' = demo_rng and f = "\<lambda>j. of_nat (3 * j)", OF h d k l demo_flips r, of 7 "str ''host''"] show ?thesis by blast
qed

text \<open>Helper data whose mask is not 28 bytes is not refused: \<open>xorBytes\<close> returns nil, and the
  secret reproduced, if the commitment matches, is sixteen zero bytes whatever was measured.\<close>
theorem reproduce_bad_mask_zero:
  assumes "Reproduce F fp (Some h) = Inr K" and "length (hd_Mask h) \<noteq> 28"
  shows "K = replicate 16 0"
  using assms by (rule reproduce_wrong_mask)

theorem reproduce_bad_mask_zero_witness:
  "\<exists>h. Reproduce demo_kdf (demo_fp (replicate 28 0)) (Some h) = Inr (replicate 16 0) \<and> hd_Mask h = []"
proof -
  define h where "h = \<lparr>hd_Version = FuzzyKeyVersion, hd_Indices = demo_idxs, hd_Mask = [],
    hd_MaskBits = HelperBits, hd_SecretBits = SecretBits,
    hd_Commitment = commitTo demo_kdf (replicate 16 0), hd_CreatedAt = 0\<rparr>"
  have n: "length demo_idxs = 224" by (simp add: demo_idxs_def)
  have pos: "list_all (\<lambda>x. 0 \<le> x) demo_idxs" using demo_idxs(2) by (simp add: n)
  obtain p where p: "extractBitsAt (replicate 28 0) demo_idxs = Inr p" "length p = 28"
    by (rule extractBitsAt_ok [OF pos, of "replicate 28 0"]) (simp add: n)
  then have "Reproduce demo_kdf (demo_fp (replicate 28 0)) (Some h) = Inr (replicate 16 0)"
    using decode_nil by (auto simp: Reproduce_Some h_def n demo_fp_def xorBytes_def HelperBits_def SecretBits_def)
  moreover from reproduce_bad_mask_zero [OF this] have "hd_Mask h = [] \<Longrightarrow> replicate 16 (0 :: byte) = replicate 16 0"
    by simp
  ultimately show ?thesis by (auto simp: h_def)
qed

end
