(* ===== verification/Puf_Ring.thy ===== *)
theory Puf_Ring
  imports Prelude "HOL-Library.Multiset"
begin

text \<open>
  \<open>internal/puf/ring.go\<close>: the micro-benchmarks whose run time is the fingerprint of a core. Their
  results only feed the global \<open>sink\<close>, which is an explicit argument and result here; the floating-point
  loop and the clock are parameters of \<open>measureOnce\<close>. The pointer chase runs over \<open>memBuf\<close>, which
  \<open>init\<close> shuffles; an index out of its range would panic and is \<open>None\<close>.
\<close>

section \<open>The shuffled buffer\<close>

definition xorshift :: "u64 \<Rightarrow> u64" where
  "xorshift x =
     (let x = x XOR push_bit 13 x;
          x = x XOR drop_bit 7 x
      in x XOR push_bit 17 x)"

text \<open>The loop of \<open>init\<close> from index \<open>i\<close> down to 1.\<close>

fun shuffle_loop :: "nat \<Rightarrow> u64 \<Rightarrow> u32 list \<Rightarrow> u32 list" where
  "shuffle_loop 0 x buf = buf"
| "shuffle_loop (Suc i) x buf =
     (let x = xorshift x;
          j = unat (x mod of_nat (Suc i + 1))
      in shuffle_loop i x (buf[Suc i := buf ! j, j := buf ! Suc i]))"

definition memBufWords :: nat where "memBufWords = 1024"

definition memBuf :: "u32 list" where
  "memBuf = shuffle_loop (memBufWords - 1) 0x9E3779B97F4A7C15 (map of_nat [0..<memBufWords])"

section \<open>The loops\<close>

definition int_mix_step :: "u64 \<Rightarrow> u64" where
  "int_mix_step acc =
     (let acc = acc * 0x9E3779B97F4A7C15 + 0xCAFEBABEDEADBEEF;
          acc = acc XOR drop_bit 13 acc
      in acc XOR push_bit 7 acc)"

definition runIntMix :: "u64 \<Rightarrow> u64 \<Rightarrow> u64 \<Rightarrow> u64 \<times> u64" where
  "runIntMix seed n sink = (let acc = (int_mix_step ^^ unat n) seed in (acc, sink XOR acc))"

definition mem_load :: "u32 \<Rightarrow> u32 option" where
  "mem_load idx = (if unat idx < length memBuf then Some (memBuf ! unat idx) else None)"

fun stride_loop :: "nat \<Rightarrow> u32 \<Rightarrow> u32 option" where
  "stride_loop 0 idx = Some idx"
| "stride_loop (Suc n) idx = Option.bind (mem_load idx) (stride_loop n)"

definition runMemStride :: "u32 \<Rightarrow> u64 \<Rightarrow> u64 \<Rightarrow> (u32 \<times> u64) option" where
  "runMemStride seed n sink =
     map_option (\<lambda>idx. (idx, sink XOR ucast idx)) (stride_loop (unat n) (seed mod of_nat memBufWords))"

definition rotl :: "nat \<Rightarrow> u64 \<Rightarrow> u64" where
  "rotl k v = push_bit k v OR drop_bit (64 - k) v"

definition hash_round_step :: "u64 \<times> u64 \<times> u64 \<times> u64 \<Rightarrow> u64 \<times> u64 \<times> u64 \<times> u64" where
  "hash_round_step s = (case s of (v0, v1, v2, v3) \<Rightarrow>
     let v0 = v0 + v1; v1 = rotl 13 v1; v1 = v1 XOR v0; v0 = rotl 32 v0;
         v2 = v2 + v3; v3 = rotl 16 v3; v3 = v3 XOR v2;
         v0 = v0 + v3; v3 = rotl 21 v3; v3 = v3 XOR v0;
         v2 = v2 + v1; v1 = rotl 17 v1; v1 = v1 XOR v2; v2 = rotl 32 v2
     in (v0, v1, v2, v3))"

definition runHashRound :: "u64 \<Rightarrow> u64 \<Rightarrow> u64 \<Rightarrow> u64 \<times> u64" where
  "runHashRound seed n sink =
     (case (hash_round_step ^^ unat n) (0x736f6d6570736575 XOR seed, 0x646f72616e646f6d,
        0x6c7967656e657261 XOR seed, 0x7465646279746573) of (v0, v1, v2, v3) \<Rightarrow>
      let r = v0 XOR v1 XOR v2 XOR v3 in (r, sink XOR r))"

text \<open>\<open>total\<close> is an \<open>int64\<close>; adding and subtracting wrap.\<close>

definition branch_step :: "u64 \<times> i64 \<Rightarrow> u64 \<times> i64" where
  "branch_step s = (case s of (acc, tot) \<Rightarrow>
     let acc = xorshift acc
     in (acc, if acc AND 1 = 1 then tot + drop_bit 32 acc else tot - drop_bit 32 acc))"

definition runBranch :: "u64 \<Rightarrow> u64 \<Rightarrow> u64 \<Rightarrow> u64 \<times> u64" where
  "runBranch seed n sink = (case (branch_step ^^ unat n) (seed OR 1, 0) of (acc, tot) \<Rightarrow> (acc, sink XOR tot))"

section \<open>One measurement\<close>

datatype loop_kind = LoopIntMix | LoopMemStride | LoopBranch | LoopFloatMul | LoopHashRound

fun kind_code :: "loop_kind \<Rightarrow> u64" where
  "kind_code LoopIntMix = 0"
| "kind_code LoopMemStride = 1"
| "kind_code LoopBranch = 2"
| "kind_code LoopFloatMul = 3"
| "kind_code LoopHashRound = 4"

fun iterCountFor :: "loop_kind \<Rightarrow> i64 \<Rightarrow> u64" where
  "iterCountFor LoopIntMix targetMs = 500000 * targetMs"
| "iterCountFor LoopMemStride targetMs = 250000 * targetMs"
| "iterCountFor LoopBranch targetMs = 300000 * targetMs"
| "iterCountFor LoopFloatMul targetMs = 125000 * targetMs"
| "iterCountFor LoopHashRound targetMs = 100000 * targetMs"

definition loop_seed :: "i64 \<Rightarrow> loop_kind \<Rightarrow> i64 \<Rightarrow> u64" where
  "loop_seed core kind trial = push_bit 32 trial OR push_bit 16 core OR kind_code kind"

record puf_sample =
  ps_Core :: i64
  ps_Loop :: loop_kind
  ps_Trial :: i64
  ps_Iterations :: u64
  ps_ElapsedNs :: u64

text \<open>
  \<open>measureOnce\<close> with the readings of the clock before and after the loop and the effect of the
  floating-point loop on the sink; the sink is the second result.
\<close>

definition measureOnce :: "(u64 \<Rightarrow> u64 \<Rightarrow> u64 \<Rightarrow> u64) \<Rightarrow> i64 \<times> i64 \<Rightarrow> i64 \<Rightarrow> loop_kind \<Rightarrow> i64 \<Rightarrow> u64 \<Rightarrow> u64
    \<Rightarrow> (puf_sample \<times> u64) option" where
  "measureOnce floatMul clock core kind trial iters sink =
     (let seed = loop_seed core kind trial
      in map_option (\<lambda>sink'.
        (\<lparr>ps_Core = core, ps_Loop = kind, ps_Trial = trial, ps_Iterations = iters,
          ps_ElapsedNs = snd clock - fst clock\<rparr>, sink'))
        (case kind of
           LoopIntMix \<Rightarrow> Some (snd (runIntMix (seed OR 1) iters sink))
         | LoopMemStride \<Rightarrow> map_option snd (runMemStride (ucast seed OR 1) iters sink)
         | LoopBranch \<Rightarrow> Some (snd (runBranch (seed OR 1) iters sink))
         | LoopFloatMul \<Rightarrow> Some (floatMul (seed OR 1) iters sink)
         | LoopHashRound \<Rightarrow> Some (snd (runHashRound (seed OR 1) iters sink))))"

section \<open>The buffer is a permutation\<close>

lemma unat_of_nat_small: "k < 2 ^ LENGTH('a) \<Longrightarrow> unat (of_nat k :: 'a::len word) = k"
  by (simp add: unat_of_nat take_bit_eq_mod)

lemma mod_index: "i < 2 ^ 32 \<Longrightarrow> unat (x mod of_nat (i + 1) :: u64) \<le> i"
proof -
  assume "i < 2 ^ 32"
  then have "unat (of_nat (i + 1) :: u64) = i + 1" by (intro unat_of_nat_small) simp
  then show ?thesis using mod_less_divisor [of "i + 1" "unat x"] by (simp add: unat_mod_distrib)
qed

lemma shuffle_loop_mset:
  "i < length buf \<Longrightarrow> length buf \<le> 2 ^ 32 \<Longrightarrow>
   mset (shuffle_loop i x buf) = mset buf \<and> length (shuffle_loop i x buf) = length buf"
proof (induction i arbitrary: x buf)
  case (Suc i)
  define j where "j = unat (xorshift x mod of_nat (Suc i + 1))"
  have j: "j < length buf"
    using mod_index [of "Suc i" "xorshift x"] Suc.prems unfolding j_def by linarith
  have "mset (buf[Suc i := buf ! j, j := buf ! Suc i]) = mset buf"
    using Suc.prems(1) j by (intro mset_swap)
  then show ?case using Suc.IH [of "buf[Suc i := buf ! j, j := buf ! Suc i]" "xorshift x"] Suc.prems
    by (simp add: j_def Let_def)
qed simp

lemma memBuf_mset: "mset memBuf = mset (map of_nat [0..<1024])" and length_memBuf [simp]: "length memBuf = 1024"
  using shuffle_loop_mset [of 1023 "map of_nat [0..<1024]" "0x9E3779B97F4A7C15"]
  by (simp_all add: memBuf_def memBufWords_def)

lemma of_nat_u32_inject: "a < 2 ^ 32 \<Longrightarrow> b < 2 ^ 32 \<Longrightarrow> (of_nat a :: u32) = of_nat b \<longleftrightarrow> a = b"
  by (auto simp: word_of_nat_eq_iff take_bit_eq_mod)

lemma distinct_memBuf: "distinct memBuf"
proof -
  have "distinct (map of_nat [0..<1024] :: u32 list)"
    by (auto simp: distinct_map of_nat_u32_inject intro!: inj_onI)
  then show ?thesis using mset_eq_imp_distinct_iff [OF memBuf_mset] by simp
qed

lemma memBuf_range: "i < 1024 \<Longrightarrow> unat (memBuf ! i) < 1024"
proof -
  assume "i < 1024"
  then have "memBuf ! i \<in> set_mset (mset memBuf)" by simp
  then obtain k where "memBuf ! i = of_nat k" "k < 1024" unfolding memBuf_mset by auto
  moreover from this have "unat (of_nat k :: u32) = k" by (intro unat_of_nat_small) simp
  ultimately show ?thesis by simp
qed

lemma stride_in_range: "unat idx < 1024 \<Longrightarrow> \<exists>idx'. stride_loop n idx = Some idx' \<and> unat idx' < 1024"
proof (induction n arbitrary: idx)
  case (Suc n)
  from Suc.IH [OF memBuf_range [OF Suc.prems]] Suc.prems show ?case by (simp add: mem_load_def)
qed simp

lemma start_in_range: "unat (seed mod of_nat memBufWords :: u32) < 1024"
  by (simp add: memBufWords_def unat_mod_distrib)

section \<open>Where a value ends up\<close>

definition swapped :: "nat \<Rightarrow> nat \<Rightarrow> nat \<Rightarrow> nat" where
  "swapped i j p = (if p = i then j else if p = j then i else p)"

text \<open>The final position of what is at position \<open>p\<close> before round \<open>i\<close>.\<close>

fun track :: "nat \<Rightarrow> u64 \<Rightarrow> nat \<Rightarrow> nat" where
  "track 0 x p = p"
| "track (Suc i) x p =
     (let x = xorshift x in track i x (swapped (Suc i) (unat (x mod of_nat (Suc i + 1))) p))"

lemma shuffle_track:
  "i < length buf \<Longrightarrow> length buf \<le> 2 ^ 32 \<Longrightarrow> p < length buf \<Longrightarrow>
   track i x p < length buf \<and> shuffle_loop i x buf ! track i x p = buf ! p"
proof (induction i arbitrary: x buf p)
  case (Suc i)
  define j where "j = unat (xorshift x mod of_nat (Suc i + 1))"
  have j: "j < length buf"
    using mod_index [of "Suc i" "xorshift x"] Suc.prems unfolding j_def by linarith
  let ?buf = "buf[Suc i := buf ! j, j := buf ! Suc i]"
  have "?buf ! swapped (Suc i) j p = buf ! p" "swapped (Suc i) j p < length buf"
    using Suc.prems j by (auto simp: swapped_def nth_list_update)
  then show ?case using Suc.IH [of ?buf "swapped (Suc i) j p" "xorshift x"] Suc.prems
    by (simp add: j_def Let_def)
qed simp

text \<open>A position above the round is final.\<close>

lemma track_settled: "i < p \<Longrightarrow> i < 2 ^ 32 \<Longrightarrow> track i x p = p"
proof (induction i arbitrary: x)
  case (Suc i)
  then have "unat (xorshift x mod of_nat (Suc i + 1)) \<noteq> p"
    using mod_index [of "Suc i" "xorshift x"] by linarith
  with Suc show ?case by (simp add: Let_def swapped_def)
qed simp

lemma memBuf_track: "p < 1024 \<Longrightarrow> memBuf ! track 1023 0x9E3779B97F4A7C15 p = of_nat p"
  using shuffle_track [of 1023 "map of_nat [0..<1024]" p "0x9E3779B97F4A7C15"]
  by (simp add: memBuf_def memBufWords_def)

section \<open>Evaluating the shuffle\<close>

text \<open>
  The rounds on integers, in a form that rewriting evaluates digit by digit: \<open>rem\<close> is the remainder
  from the leading digit on, \<open>half\<close> drops a digit, and two positions are followed at once.
\<close>

definition reduce :: "int \<Rightarrow> int \<Rightarrow> int" where
  "reduce m a = (if a < m then a else a - m)"

definition double :: "int \<Rightarrow> int \<Rightarrow> int" where "double m a = reduce m (a + a)"
definition double1 :: "int \<Rightarrow> int \<Rightarrow> int" where "double1 m a = reduce m (a + a + 1)"

primrec rem_num :: "int \<Rightarrow> num \<Rightarrow> int" where
  "rem_num m num.One = reduce m 1"
| "rem_num m (num.Bit0 n) = double m (rem_num m n)"
| "rem_num m (num.Bit1 n) = double1 m (rem_num m n)"

definition rem :: "int \<Rightarrow> int \<Rightarrow> int" where "rem x m = x mod m"
definition half :: "int \<Rightarrow> int" where "half x = x div 2"

lemma reduce_mod:
  assumes "0 < m" and "0 \<le> a" and "a < 2 * m"
  shows "reduce m a = a mod m"
proof (cases "a < m")
  case True
  then show ?thesis using assms by (simp add: reduce_def)
next
  case False
  then have "a mod m = (a - m) mod m" using assms(1) by (intro mod_pos_geq) simp_all
  also have "\<dots> = a - m" using False assms by (intro mod_pos_pos_trivial) simp_all
  finally show ?thesis using False by (simp add: reduce_def)
qed

lemma rem_num: "0 < m \<Longrightarrow> rem_num m n = numeral n mod m"
proof (induction n)
  case One
  then show ?case by (simp add: reduce_mod)
next
  case (Bit0 n)
  then have "rem_num m n < m" "0 \<le> rem_num m n" by simp_all
  then have "rem_num m (num.Bit0 n) = (rem_num m n + rem_num m n) mod m"
    using Bit0.prems unfolding rem_num.simps double_def by (intro reduce_mod) simp_all
  also have "\<dots> = (numeral n + numeral n) mod m" unfolding Bit0.IH [OF Bit0.prems] by (rule mod_add_eq)
  finally show ?case by (simp only: numeral_Bit0)
next
  case (Bit1 n)
  then have "rem_num m n < m" "0 \<le> rem_num m n" by simp_all
  then have "rem_num m (num.Bit1 n) = (rem_num m n + rem_num m n + 1) mod m"
    using Bit1.prems unfolding rem_num.simps double1_def by (intro reduce_mod) simp_all
  also have "\<dots> = ((numeral n + numeral n) mod m + 1) mod m"
    unfolding Bit1.IH [OF Bit1.prems] by (metis mod_add_eq mod_add_left_eq)
  also have "\<dots> = (numeral n + numeral n + 1) mod m" by (rule mod_add_left_eq)
  finally show ?case by (simp only: numeral_Bit1)
qed

lemma rem_numeral: "rem (numeral n) (numeral m) = rem_num (numeral m) n"
  by (simp add: rem_def rem_num)

lemma half_numeral: "half (numeral (num.Bit0 n)) = numeral n" "half (numeral (num.Bit1 n)) = numeral n"
  by (simp_all add: half_def)

definition shift_up1 :: "int \<Rightarrow> int" where "shift_up1 x = x XOR (x * 8192 AND 0xFFFFFFFFFFFFFFFF)"
definition shift_down :: "int \<Rightarrow> int" where "shift_down x = x XOR half (half (half (half (half (half (half x))))))"
definition shift_up2 :: "int \<Rightarrow> int" where "shift_up2 x = x XOR (x * 131072 AND 0xFFFFFFFFFFFFFFFF)"
definition swapped_int :: "int \<Rightarrow> int \<Rightarrow> int \<Rightarrow> int" where
  "swapped_int i j p = (if p = i then j else if p = j then i else p)"

definition swap_both :: "(int \<Rightarrow> int \<Rightarrow> int \<Rightarrow> 'a) \<Rightarrow> int \<Rightarrow> int \<Rightarrow> int \<Rightarrow> int \<Rightarrow> int \<Rightarrow> 'a" where
  "swap_both k i x j p q = k x (swapped_int i j p) (swapped_int i j q)"
definition round_both :: "(int \<Rightarrow> int \<Rightarrow> int \<Rightarrow> 'a) \<Rightarrow> int \<Rightarrow> int \<Rightarrow> int \<Rightarrow> int \<Rightarrow> 'a" where
  "round_both k i x p q = swap_both k i x (rem x (i + 1)) p q"

primrec rounds :: "nat \<Rightarrow> int \<Rightarrow> int \<Rightarrow> int \<Rightarrow> int \<Rightarrow> int \<times> int" where
  "rounds 0 i x p q = (p, q)"
| "rounds (Suc n) i x p q = round_both (rounds n (i - 1)) i (shift_up2 (shift_down (shift_up1 x))) p q"

lemma rounds_numeral: "rounds (numeral v) i x p q =
    round_both (rounds (pred_numeral v) (i - 1)) i (shift_up2 (shift_down (shift_up1 x))) p q"
  by (simp add: numeral_eq_Suc)

lemmas rounds_eval = rounds_numeral rounds.simps round_both_def swap_both_def swapped_int_def
  shift_up1_def shift_down_def shift_up2_def rem_numeral rem_num.simps double_def double1_def reduce_def half_numeral
  add_0_left add_0_right arith_special one_plus_numeral numeral_plus_one diff_0_right arith_simps rel_simps
  if_True if_False numeral_xor_num xor_num.simps numeral_and_num and_num.simps option.case option.map
  pred_numeral_simps refl simp_thms

text \<open>The integers follow the words.\<close>

lemma half_drop_bit: "half x = drop_bit 1 x"
  by (simp add: half_def drop_bit_eq_div)

lemma half_seven: "half (half (half (half (half (half (half x)))))) = drop_bit 7 x"
  by (simp add: half_drop_bit eval_nat_numeral)

lemma mask_64: "x AND 0xFFFFFFFFFFFFFFFF = take_bit 64 (x :: int)"
  by (simp add: take_bit_eq_mask mask_eq_exp_minus_1)

lemma uint_shifts:
  "uint (push_bit n x :: u64) = take_bit 64 (uint x * 2 ^ n)" "uint (drop_bit n x :: u64) = drop_bit n (uint x)"
  "uint (x XOR y :: u64) = uint x XOR uint y"
proof -
  have u: "take_bit 64 (uint x) = uint x" using uint_lt2p [of x] by (intro take_bit_int_eq_self) simp_all
  show "uint (push_bit n x) = take_bit 64 (uint x * 2 ^ n)"
    unfolding unsigned_push_bit_eq by (simp only: push_bit_eq_mult) simp
  show "uint (drop_bit n x) = drop_bit n (uint x)" unfolding unsigned_drop_bit_eq using u by simp
  show "uint (x XOR y) = uint x XOR uint y" by (rule unsigned_xor_eq)
qed

lemma shift_word:
  "shift_up1 (uint x) = uint (x XOR push_bit 13 x :: u64)"
  "shift_down (uint x) = uint (x XOR drop_bit 7 x :: u64)"
  "shift_up2 (uint x) = uint (x XOR push_bit 17 x :: u64)"
  by (simp_all only: shift_up1_def shift_down_def shift_up2_def uint_shifts mask_64 half_seven) simp_all

lemma xorshift_int: "shift_up2 (shift_down (shift_up1 (uint x))) = uint (xorshift x)"
  by (simp only: shift_word xorshift_def Let_def)

lemma rem_int: "i < 2 ^ 32 \<Longrightarrow> rem (uint (x :: u64)) (int i + 1) = int (unat (x mod of_nat (i + 1)))"
proof -
  assume "i < 2 ^ 32"
  then have "unat (of_nat (i + 1) :: u64) = i + 1" by (intro unat_of_nat_small) simp
  then have "unat (x mod of_nat (i + 1)) = unat x mod (i + 1)" by (simp only: unat_mod_distrib)
  then have "int (unat (x mod of_nat (i + 1))) = int (unat x) mod int (i + 1)" by (simp only: zmod_int)
  then show ?thesis by (simp add: rem_def add.commute)
qed

lemma rounds_track:
  "n \<le> i \<Longrightarrow> i < 2 ^ 32 \<Longrightarrow> \<exists>x' p' q'. rounds n (int i) (uint x) (int p) (int q) = (int p', int q') \<and>
     track i x p = track (i - n) x' p' \<and> track i x q = track (i - n) x' q'"
proof (induction n arbitrary: i x p q)
  case 0
  then show ?case by auto
next
  case (Suc n)
  then obtain k where i: "i = Suc k" by (cases i) auto
  then have pred: "int i - 1 = int k" by simp
  define j where "j = unat (xorshift x mod of_nat (i + 1))"
  have sw: "swapped_int (int i) (int j) (int r) = int (swapped i j r)" for r
    by (auto simp: swapped_int_def swapped_def)
  have "rounds (Suc n) (int i) (uint x) (int p) (int q) =
      rounds n (int k) (uint (xorshift x)) (int (swapped i j p)) (int (swapped i j q))"
    using Suc.prems(2) pred
    by (simp only: rounds.simps xorshift_int round_both_def swap_both_def rem_int j_def [symmetric] sw)
  moreover have "track i x r = track k (xorshift x) (swapped i j r)" for r
    by (simp add: i j_def Let_def)
  ultimately show ?case
    using Suc.IH [of k "xorshift x" "swapped i j p" "swapped i j q"] Suc.prems by (simp add: i)
qed

text \<open>567 rounds, down to index 457, settle the values 457 and 614.\<close>

lemma rounds_567: "rounds 567 1023 0x9E3779B97F4A7C15 457 614 = (614, 457)"
  by (simp only: rounds_eval)

lemma memBuf_pair: "memBuf ! 614 = 457" "memBuf ! 457 = 614"
proof -
  have "\<exists>x' p' q'. rounds 567 (int 1023) (uint (0x9E3779B97F4A7C15 :: u64)) (int 457) (int 614) = (int p', int q') \<and>
     track 1023 0x9E3779B97F4A7C15 457 = track (1023 - 567) x' p' \<and>
     track 1023 0x9E3779B97F4A7C15 614 = track (1023 - 567) x' q'"
    by (rule rounds_track) simp_all
  then obtain x' p' q' where r: "(614, 457) = (int p', int q')"
      "track 1023 0x9E3779B97F4A7C15 457 = track 456 x' p'" "track 1023 0x9E3779B97F4A7C15 614 = track 456 x' q'"
    by (auto simp: rounds_567)
  then have "p' = 614" "q' = 457" by simp_all
  with r(2,3) have "track 1023 0x9E3779B97F4A7C15 457 = 614" "track 1023 0x9E3779B97F4A7C15 614 = 457"
    by (simp_all add: track_settled)
  then show "memBuf ! 614 = 457" "memBuf ! 457 = 614"
    using memBuf_track [of 457] memBuf_track [of 614] by simp_all
qed

section \<open>Properties\<close>

text \<open>The chase from outside the pair never enters it.\<close>

lemma stride_avoids_pair:
  "unat idx < 1024 \<Longrightarrow> idx \<notin> {457, 614} \<Longrightarrow> stride_loop n idx = Some idx' \<Longrightarrow> idx' \<notin> {457, 614}"
proof (induction n arbitrary: idx)
  case (Suc n)
  have "memBuf ! unat idx \<noteq> memBuf ! 614" "memBuf ! unat idx \<noteq> memBuf ! 457"
    using Suc.prems(1,2) nth_eq_iff_index_eq [OF distinct_memBuf]
    by (auto simp: word_unat_eq_iff)
  then have "memBuf ! unat idx \<notin> {457, 614}" by (simp add: memBuf_pair)
  then show ?case
    using Suc.IH [OF memBuf_range [OF Suc.prems(1)]] Suc.prems(1,3) by (simp add: mem_load_def)
qed simp

text \<open>Whatever core and trial, the chase of a measurement starts at slot 1.\<close>

lemma mem_seed_start: "(ucast (loop_seed core LoopMemStride trial) OR 1 :: u32) mod of_nat memBufWords = 1"
proof -
  have "(ucast (loop_seed core LoopMemStride trial) OR 1 :: u32) mod 2 ^ 10 =
      take_bit 10 (ucast (loop_seed core LoopMemStride trial) OR 1)"
    by (simp only: take_bit_eq_mod)
  also have "\<dots> = 1"
    by (rule bit_word_eqI)
      (auto simp: bit_take_bit_iff bit_or_iff bit_ucast_iff loop_seed_def bit_push_bit_iff bit_1_iff)
  finally show ?thesis by (simp add: memBufWords_def)
qed

text \<open>
  The shuffle leaves a permutation of the slots, so the pointer chase reads inside the buffer
  from every seed and for every number of iterations, and returns a slot.
\<close>

theorem chase_stays_in_buffer:
  "mset memBuf = mset (map of_nat [0..<1024]) \<and>
   (\<exists>idx. runMemStride seed n sink = Some (idx, sink XOR ucast idx) \<and> unat idx < 1024)"
  using memBuf_mset stride_in_range [OF start_in_range, of "unat n" seed] by (auto simp: runMemStride_def)

text \<open>
  C37: The chase does not reach every slot, as the comment on the shuffle has it: the permutation is
  not a single cycle, slots 457 and 614 lead to each other. Every measured chase starts at slot 1,
  whatever the core and the trial, and never comes to either of them.
\<close>

theorem measured_chase_misses_slots:
  "memBuf ! 614 = 457 \<and> memBuf ! 457 = 614 \<and>
   (\<exists>idx. runMemStride (ucast (loop_seed core LoopMemStride trial) OR 1) n sink = Some (idx, sink XOR ucast idx) \<and>
      stride_loop (unat n) 1 = Some idx \<and> idx \<notin> {457, 614})"
proof -
  obtain idx where "stride_loop (unat n) 1 = Some idx" using stride_in_range [of 1 "unat n"] by auto
  moreover from stride_avoids_pair [OF _ _ this] have "idx \<notin> {457, 614}" by simp
  ultimately show ?thesis
    by (simp add: memBuf_pair runMemStride_def mem_seed_start)
qed

end
