(* ===== verification/Roster_Chain.thy ===== *)
theory Roster_Chain
  imports Crypto
begin

text \<open>
  \<open>internal/daq/roster_chain.go\<close>: the hash chain of witness rosters. An epoch is encoded
  canonically, hashed, and signed by the ceremony signers (genesis) or by witnesses of the
  previous epoch. \<open>VerifyChain\<close> caches each hash in the chain it is given, so the model
  returns the updated chain with the result. \<open>sort.Slice\<close> is the stable \<open>sort_key\<close>; with
  distinct witness indices, which the struct documents, every sort gives the same list.
\<close>

record epoch_witness =
  ew_Index :: int
  ew_Label :: bytes
  ew_URL :: bytes
  ew_Pubkey :: bytes

record ceremony_sig =
  cs_SignerPubkey :: bytes
  cs_SignerLabel :: bytes
  cs_Signature :: bytes

record emergency_params =
  em_Declaration :: bytes
  em_DeclaredAtMs :: i64
  em_WaitingPeriodMs :: i64
  em_AnnouncementPubkey :: bytes
  em_AnnouncementSig :: bytes

record epoch =
  ep_EpochNum :: u64
  ep_PrevHash :: bytes
  ep_Witnesses :: "epoch_witness list"
  ep_Threshold :: int
  ep_ActivatedAtMs :: i64
  ep_TransitionSig :: bytes
  ep_TransitionSigners :: "int list"
  ep_GenesisCeremony :: "ceremony_sig list"
  ep_Emergency :: "emergency_params option"
  ep_Hash :: bytes

datatype emergency_error =
    Em_nil
  | Em_waiting_period
  | Em_too_early
  | Em_key_size
  | Em_signature

datatype roster_error =
    Rc_empty_chain
  | Rc_epoch_num nat
  | Rc_genesis_prev_hash
  | Rc_ceremony_count
  | Rc_ceremony_size nat
  | Rc_ceremony_duplicate nat
  | Rc_ceremony_unpinned nat
  | Rc_ceremony_signature nat
  | Rc_prev_hash nat
  | Rc_emergency nat emergency_error
  | Rc_signer_count nat
  | Rc_sig_blob nat
  | Rc_signer_range nat
  | Rc_signer_duplicate int
  | Rc_signer_signature int
  | Rc_panic_pubkey_size \<comment> \<open>\<open>ed25519.Verify\<close> panics on a key that is not 32 bytes\<close>

datatype seal_error =
    Sl_nil_current
  | Sl_not_hashed
  | Sl_empty_witnesses
  | Sl_threshold
  | Sl_key_count
  | Sl_ceremony_count
  | Sl_signer_count
  | Sl_signer_range nat
  | Sl_signer_duplicate int
  | Sl_key_mismatch nat
  | Sl_declaration
  | Sl_waiting_period
  | Sl_announcement_key
  | Sl_panic_privkey_size \<comment> \<open>\<open>Public\<close> and \<open>Sign\<close> panic on a short private key\<close>

subsection \<open>Encoding\<close>

definition enc_witness :: "epoch_witness \<Rightarrow> bytes" where
  "enc_witness w = putUint32 (of_int (ew_Index w)) @ len32 (ew_Label w) @ len32 (ew_URL w)
     @ len32 (ew_Pubkey w)"

definition enc_emergency :: "emergency_params option \<Rightarrow> bytes" where
  "enc_emergency em = (case em of
      Some m \<Rightarrow> [0x01] @ len32 (em_Declaration m) @ putUint64 (em_DeclaredAtMs m)
        @ putUint64 (em_WaitingPeriodMs m) @ len32 (em_AnnouncementPubkey m)
    | None \<Rightarrow> [0x00])"

definition Canonical :: "epoch \<Rightarrow> bytes" where
  "Canonical e =
     (let ws = sort_key ew_Index (ep_Witnesses e) in
      str ''963causal-ROSTER-EPOCH-V1'' @ [0] @ putUint64 (ep_EpochNum e) @ len32 (ep_PrevHash e)
      @ putUint32 (of_nat (length (ep_Witnesses e))) @ concat (map enc_witness ws)
      @ putUint32 (of_int (ep_Threshold e)) @ putUint64 (ep_ActivatedAtMs e)
      @ enc_emergency (ep_Emergency e))"

definition epoch_hash :: "hash \<Rightarrow> epoch \<Rightarrow> bytes" where
  "epoch_hash H e = H (Canonical e)"

definition emergencyAnnouncementMessage :: "hash \<Rightarrow> epoch \<Rightarrow> bytes" where
  "emergencyAnnouncementMessage H e = H (str ''963causal-ROSTER-EMERGENCY-V1'' @ [0] @ Canonical e)"

definition genesisCeremonyMessage :: "hash \<Rightarrow> epoch \<Rightarrow> bytes" where
  "genesisCeremonyMessage H e = str ''963causal-ROSTER-GENESIS-V1'' @ [0] @ epoch_hash H e"

definition transitionMessage :: "hash \<Rightarrow> epoch \<Rightarrow> bytes" where
  "transitionMessage H e = str ''963causal-ROSTER-TRANSITION-V1'' @ [0] @ epoch_hash H e"

subsection \<open>Verification\<close>

definition day_ms :: i64 where "day_ms = 24 * 60 * 60 * 1000"

definition verifyEmergencyParams :: "ed25519 \<Rightarrow> hash \<Rightarrow> epoch \<Rightarrow> emergency_error + unit" where
  "verifyEmergencyParams E H e =
     (case ep_Emergency e of
        None \<Rightarrow> Inl Em_nil
      | Some em \<Rightarrow>
          guard (i64_less (em_WaitingPeriodMs em) day_ms) Em_waiting_period (
          guard (i64_less (ep_ActivatedAtMs e) (em_DeclaredAtMs em + em_WaitingPeriodMs em)) Em_too_early (
          guard (length (em_AnnouncementPubkey em) \<noteq> 32 \<or> length (em_AnnouncementSig em) \<noteq> 64) Em_key_size (
          guard (\<not> ed_verify E (em_AnnouncementPubkey em) (emergencyAnnouncementMessage H e)
                   (em_AnnouncementSig em)) Em_signature (Inr ())))))"

fun ceremony_loop :: "ed25519 \<Rightarrow> bytes list option \<Rightarrow> bytes \<Rightarrow> bytes set \<Rightarrow> (nat \<times> ceremony_sig) list
    \<Rightarrow> roster_error + unit" where
  "ceremony_loop E pins msg seen [] = Inr ()"
| "ceremony_loop E pins msg seen ((j, cs) # rest) =
     guard (length (cs_SignerPubkey cs) \<noteq> 32 \<or> length (cs_Signature cs) \<noteq> 64) (Rc_ceremony_size j) (
     guard (cs_SignerPubkey cs \<in> seen) (Rc_ceremony_duplicate j) (
     guard (pins \<noteq> None \<and> \<not> anyEqual (the pins) (cs_SignerPubkey cs)) (Rc_ceremony_unpinned j) (
     guard (\<not> ed_verify E (cs_SignerPubkey cs) msg (cs_Signature cs)) (Rc_ceremony_signature j) (
     ceremony_loop E pins msg (insert (cs_SignerPubkey cs) seen) rest))))"

fun signer_loop :: "ed25519 \<Rightarrow> nat \<Rightarrow> epoch_witness list \<Rightarrow> bytes \<Rightarrow> bytes \<Rightarrow> int set
    \<Rightarrow> (nat \<times> int) list \<Rightarrow> roster_error + unit" where
  "signer_loop E i ws msg blob seen [] = Inr ()"
| "signer_loop E i ws msg blob seen ((j, idx) # rest) =
     guard (idx < 0 \<or> idx \<ge> int (length ws)) (Rc_signer_range i) (
     guard (idx \<in> seen) (Rc_signer_duplicate idx) (
     let pub = ew_Pubkey (ws ! nat idx); sig = take 64 (drop (j * 64) blob) in
     guard (length pub \<noteq> 32) Rc_panic_pubkey_size (
     guard (\<not> ed_verify E pub msg sig) (Rc_signer_signature idx) (
     signer_loop E i ws msg blob (insert idx seen) rest))))"

text \<open>\<open>emergencySuperMajorityNumerator\<close> is 4, the denominator 5.\<close>

definition super_majority :: "nat \<Rightarrow> int" where
  "super_majority n = (int n * 4 + 5 - 1) div 5"

definition verify_genesis :: "ed25519 \<Rightarrow> hash \<Rightarrow> bytes list option \<Rightarrow> epoch \<Rightarrow> roster_error + unit" where
  "verify_genesis E H pins e =
     guard (ep_PrevHash e \<noteq> []) Rc_genesis_prev_hash (
     guard (length (ep_GenesisCeremony e) < 2) Rc_ceremony_count (
     ceremony_loop E pins (genesisCeremonyMessage H e) {} (enumerate 0 (ep_GenesisCeremony e))))"

definition verify_transition :: "ed25519 \<Rightarrow> hash \<Rightarrow> nat \<Rightarrow> epoch \<Rightarrow> epoch \<Rightarrow> roster_error + unit" where
  "verify_transition E H i prev e =
     guard (ep_PrevHash e \<noteq> ep_Hash prev) (Rc_prev_hash i) (
     bind_r (case ep_Emergency e of
         None \<Rightarrow> Inr (ep_Threshold prev)
       | Some _ \<Rightarrow> bind_r (wrap_err (Rc_emergency i) (verifyEmergencyParams E H e))
           (\<lambda>_. Inr (super_majority (length (ep_Witnesses prev))))) (\<lambda>requiredSigners.
     guard (int (length (ep_TransitionSigners e)) < requiredSigners) (Rc_signer_count i) (
     guard (length (ep_TransitionSig e) \<noteq> length (ep_TransitionSigners e) * 64) (Rc_sig_blob i) (
     signer_loop E i (ep_Witnesses prev) (transitionMessage H e) (ep_TransitionSig e) {}
       (enumerate 0 (ep_TransitionSigners e))))))"

text \<open>The loop of \<open>VerifyChain\<close> from epoch \<open>i\<close>, \<open>prev\<close> the epoch before it with its cached hash.\<close>

fun verify_loop :: "ed25519 \<Rightarrow> hash \<Rightarrow> bytes list option \<Rightarrow> nat \<Rightarrow> epoch option \<Rightarrow> epoch list
    \<Rightarrow> epoch list \<times> (roster_error + unit)" where
  "verify_loop E H pins i prev [] = ([], Inr ())"
| "verify_loop E H pins i prev (e # es) =
     (let e = e\<lparr>ep_Hash := epoch_hash H e\<rparr>;
          r = guard (ep_EpochNum e \<noteq> of_nat i) (Rc_epoch_num i)
                (case prev of None \<Rightarrow> verify_genesis E H pins e
                            | Some p \<Rightarrow> verify_transition E H i p e)
      in case r of
           Inl err \<Rightarrow> (e # es, Inl err)
         | Inr _ \<Rightarrow> (case verify_loop E H pins (i + 1) (Some e) es of (es', r') \<Rightarrow> (e # es', r')))"

text \<open>The chain after the call, and what is returned; a nil chain is \<open>None\<close>.\<close>

definition VerifyChain :: "ed25519 \<Rightarrow> hash \<Rightarrow> epoch list option \<Rightarrow> bytes list option
    \<Rightarrow> epoch list option \<times> (roster_error + epoch)" where
  "VerifyChain E H chain pins =
     (case chain of
        None \<Rightarrow> (None, Inl Rc_empty_chain)
      | Some [] \<Rightarrow> (Some [], Inl Rc_empty_chain)
      | Some es \<Rightarrow> (case verify_loop E H pins 0 None es of
            (es', Inl err) \<Rightarrow> (Some es', Inl err)
          | (es', Inr _) \<Rightarrow> (Some es', Inr (last es'))))"

definition Latest :: "epoch list option \<Rightarrow> roster_error + epoch" where
  "Latest chain = (case chain of None \<Rightarrow> Inl Rc_empty_chain
     | Some es \<Rightarrow> guard (es = []) Rc_empty_chain (Inr (last es)))"

subsection \<open>Sealing\<close>

text \<open>The loop both transition seals run over the signer indices and their keys.\<close>

fun seal_loop :: "ed25519 \<Rightarrow> epoch_witness list \<Rightarrow> int set \<Rightarrow> (nat \<times> int \<times> bytes) list \<Rightarrow> seal_error + unit" where
  "seal_loop E ws seen [] = Inr ()"
| "seal_loop E ws seen ((i, idx, priv) # rest) =
     guard (idx < 0 \<or> idx \<ge> int (length ws)) (Sl_signer_range i) (
     guard (idx \<in> seen) (Sl_signer_duplicate idx) (
     guard (length priv < 32) Sl_panic_privkey_size (
     guard (ed_public E priv \<noteq> ew_Pubkey (ws ! nat idx)) (Sl_key_mismatch i) (
     seal_loop E ws (insert idx seen) rest))))"

text \<open>The signing loop; \<open>ed25519.Sign\<close> panics on a key that is not 64 bytes.\<close>

fun sign_all :: "ed25519 \<Rightarrow> bytes \<Rightarrow> bytes list \<Rightarrow> seal_error + bytes list" where
  "sign_all E msg [] = Inr []"
| "sign_all E msg (priv # rest) =
     guard (length priv \<noteq> 64) Sl_panic_privkey_size (
     bind_r (sign_all E msg rest) (\<lambda>sigs. Inr (ed_sign E priv msg # sigs)))"

fun ceremony_keys :: "ed25519 \<Rightarrow> (nat \<times> ceremony_sig \<times> bytes) list \<Rightarrow> seal_error + unit" where
  "ceremony_keys E [] = Inr ()"
| "ceremony_keys E ((i, cs, priv) # rest) =
     guard (length priv < 32) Sl_panic_privkey_size (
     guard (ed_public E priv \<noteq> cs_SignerPubkey cs) (Sl_key_mismatch i) (
     ceremony_keys E rest))"

definition SealGenesis :: "ed25519 \<Rightarrow> hash \<Rightarrow> epoch_witness list \<Rightarrow> int \<Rightarrow> i64 \<Rightarrow> ceremony_sig list
    \<Rightarrow> bytes list \<Rightarrow> seal_error + epoch" where
  "SealGenesis E H witnesses threshold activatedAtMs cerSigners cerSignerPrivs =
     guard (witnesses = []) Sl_empty_witnesses (
     guard (threshold < 1 \<or> threshold > int (length witnesses)) Sl_threshold (
     guard (length cerSigners \<noteq> length cerSignerPrivs) Sl_key_count (
     guard (length cerSigners < 2) Sl_ceremony_count (
     bind_r (ceremony_keys E (enumerate 0 (zip cerSigners cerSignerPrivs))) (\<lambda>_.
     let e = \<lparr>ep_EpochNum = 0, ep_PrevHash = [], ep_Witnesses = witnesses, ep_Threshold = threshold,
           ep_ActivatedAtMs = activatedAtMs, ep_TransitionSig = [], ep_TransitionSigners = [],
           ep_GenesisCeremony = [], ep_Emergency = None, ep_Hash = []\<rparr>
     in bind_r (sign_all E (genesisCeremonyMessage H e) cerSignerPrivs) (\<lambda>sigs.
          Inr (e\<lparr>ep_GenesisCeremony := map2 (\<lambda>s sig. s\<lparr>cs_Signature := sig\<rparr>) cerSigners sigs,
                 ep_Hash := epoch_hash H e\<rparr>)))))))"

text \<open>The new epoch of both transition seals, before it is signed.\<close>

definition next_epoch :: "epoch \<Rightarrow> epoch_witness list \<Rightarrow> int \<Rightarrow> i64 \<Rightarrow> int list \<Rightarrow> emergency_params option \<Rightarrow> epoch" where
  "next_epoch current newWitnesses newThreshold activatedAtMs signerIndexes em =
     \<lparr>ep_EpochNum = ep_EpochNum current + 1, ep_PrevHash = ep_Hash current,
      ep_Witnesses = newWitnesses, ep_Threshold = newThreshold, ep_ActivatedAtMs = activatedAtMs,
      ep_TransitionSig = [], ep_TransitionSigners = signerIndexes, ep_GenesisCeremony = [],
      ep_Emergency = em, ep_Hash = []\<rparr>"

definition SealTransition :: "ed25519 \<Rightarrow> hash \<Rightarrow> epoch option \<Rightarrow> epoch_witness list \<Rightarrow> int \<Rightarrow> i64
    \<Rightarrow> int list \<Rightarrow> bytes list \<Rightarrow> seal_error + epoch" where
  "SealTransition E H current newWitnesses newThreshold activatedAtMs signerIndexes signerPrivs =
     (case current of
        None \<Rightarrow> Inl Sl_nil_current
      | Some cur \<Rightarrow>
          guard (ep_Hash cur = []) Sl_not_hashed (
          guard (newThreshold < 1 \<or> newThreshold > int (length newWitnesses)) Sl_threshold (
          guard (int (length signerIndexes) < ep_Threshold cur) Sl_signer_count (
          guard (length signerIndexes \<noteq> length signerPrivs) Sl_key_count (
          bind_r (seal_loop E (ep_Witnesses cur) {} (enumerate 0 (zip signerIndexes signerPrivs))) (\<lambda>_.
          let e = next_epoch cur newWitnesses newThreshold activatedAtMs signerIndexes None
          in bind_r (sign_all E (transitionMessage H e) signerPrivs) (\<lambda>sigs.
               Inr (e\<lparr>ep_TransitionSig := concat sigs, ep_Hash := epoch_hash H e\<rparr>))))))))"

definition SealEmergencyTransition :: "ed25519 \<Rightarrow> hash \<Rightarrow> epoch option \<Rightarrow> epoch_witness list \<Rightarrow> int \<Rightarrow> i64
    \<Rightarrow> int list \<Rightarrow> bytes list \<Rightarrow> emergency_params \<Rightarrow> bytes \<Rightarrow> seal_error + epoch" where
  "SealEmergencyTransition E H current newWitnesses newThreshold activatedAtMs signerIndexes signerPrivs
       emergency announcementPriv =
     (case current of
        None \<Rightarrow> Inl Sl_nil_current
      | Some cur \<Rightarrow>
          guard (ep_Hash cur = []) Sl_not_hashed (
          guard (newThreshold < 1 \<or> newThreshold > int (length newWitnesses)) Sl_threshold (
          guard (int (length signerIndexes) < super_majority (length (ep_Witnesses cur))) Sl_signer_count (
          guard (length signerIndexes \<noteq> length signerPrivs) Sl_key_count (
          guard (em_Declaration emergency = []) Sl_declaration (
          guard (i64_less (em_WaitingPeriodMs emergency) day_ms) Sl_waiting_period (
          guard (length announcementPriv < 32) Sl_panic_privkey_size (
          let derivedAnnouncement = ed_public E announcementPriv in
          guard (em_AnnouncementPubkey emergency \<noteq> [] \<and> em_AnnouncementPubkey emergency \<noteq> derivedAnnouncement)
            Sl_announcement_key (
          bind_r (seal_loop E (ep_Witnesses cur) {} (enumerate 0 (zip signerIndexes signerPrivs))) (\<lambda>_.
          let em = emergency\<lparr>em_AnnouncementPubkey := derivedAnnouncement, em_AnnouncementSig := []\<rparr>;
              e = next_epoch cur newWitnesses newThreshold activatedAtMs signerIndexes (Some em)
          in bind_r (sign_all E (transitionMessage H e) signerPrivs) (\<lambda>sigs.
             guard (length announcementPriv \<noteq> 64) Sl_panic_privkey_size (
             Inr (e\<lparr>ep_TransitionSig := concat sigs,
               ep_Emergency := Some (em\<lparr>em_AnnouncementSig :=
                  ed_sign E announcementPriv (emergencyAnnouncementMessage H e)\<rparr>),
               ep_Hash := epoch_hash H e\<rparr>)))))))))))))"

subsection \<open>What the loops accept\<close>

definition ceremony_good :: "ed25519 \<Rightarrow> bytes list option \<Rightarrow> bytes \<Rightarrow> ceremony_sig \<Rightarrow> bool" where
  "ceremony_good E pins msg cs \<longleftrightarrow> length (cs_SignerPubkey cs) = 32 \<and> length (cs_Signature cs) = 64 \<and>
     (pins = None \<or> cs_SignerPubkey cs \<in> set (the pins)) \<and>
     ed_verify E (cs_SignerPubkey cs) msg (cs_Signature cs)"

interpretation ceremony: distinct_loop "ceremony_loop E pins msg" "\<lambda>p. cs_SignerPubkey (snd p)"
    "\<lambda>p. ceremony_good E pins msg (snd p)"
  by unfold_locales (auto simp: ceremony_good_def)

text \<open>The \<open>j\<close>-th signer's 64 bytes of the signature blob.\<close>

definition sig_at :: "bytes \<Rightarrow> nat \<Rightarrow> bytes" where
  "sig_at blob j = take 64 (drop (j * 64) blob)"

definition signer_good :: "ed25519 \<Rightarrow> epoch_witness list \<Rightarrow> bytes \<Rightarrow> bytes \<Rightarrow> nat \<times> int \<Rightarrow> bool" where
  "signer_good E ws msg blob p \<longleftrightarrow> 0 \<le> snd p \<and> snd p < int (length ws) \<and>
     length (ew_Pubkey (ws ! nat (snd p))) = 32 \<and>
     ed_verify E (ew_Pubkey (ws ! nat (snd p))) msg (sig_at blob (fst p))"

interpretation signers: distinct_loop "signer_loop E i ws msg blob" snd "signer_good E ws msg blob"
  by unfold_locales (auto simp: signer_good_def sig_at_def Let_def not_le)

definition seal_good :: "ed25519 \<Rightarrow> epoch_witness list \<Rightarrow> nat \<times> int \<times> bytes \<Rightarrow> bool" where
  "seal_good E ws p \<longleftrightarrow> 0 \<le> fst (snd p) \<and> fst (snd p) < int (length ws) \<and> 32 \<le> length (snd (snd p)) \<and>
     ed_public E (snd (snd p)) = ew_Pubkey (ws ! nat (fst (snd p)))"

interpretation sealing: distinct_loop "seal_loop E ws" "\<lambda>p. fst (snd p)" "seal_good E ws"
  by unfold_locales (auto simp: seal_good_def not_le not_less)

subsection \<open>The chain as a whole\<close>

text \<open>An epoch with its hash cached, and the fields \<open>VerifyChain\<close> reads from one.\<close>

definition hashed :: "hash \<Rightarrow> epoch \<Rightarrow> epoch" where
  "hashed H e = e\<lparr>ep_Hash := epoch_hash H e\<rparr>"

lemma Canonical_update [simp]:
  "Canonical (e\<lparr>ep_Hash := h\<rparr>) = Canonical e" "Canonical (e\<lparr>ep_TransitionSig := t\<rparr>) = Canonical e"
  "Canonical (e\<lparr>ep_GenesisCeremony := g\<rparr>) = Canonical e"
  by (simp_all add: Canonical_def Let_def)

lemma messages_update [simp]:
  "epoch_hash H (e\<lparr>ep_Hash := h\<rparr>) = epoch_hash H e"
  "transitionMessage H (e\<lparr>ep_Hash := h\<rparr>) = transitionMessage H e"
  "genesisCeremonyMessage H (e\<lparr>ep_Hash := h\<rparr>) = genesisCeremonyMessage H e"
  "emergencyAnnouncementMessage H (e\<lparr>ep_Hash := h\<rparr>) = emergencyAnnouncementMessage H e"
  by (simp_all add: epoch_hash_def transitionMessage_def genesisCeremonyMessage_def
      emergencyAnnouncementMessage_def)

lemma hashed_simps [simp]:
  "ep_Hash (hashed H e) = epoch_hash H e" "ep_EpochNum (hashed H e) = ep_EpochNum e"
  "ep_PrevHash (hashed H e) = ep_PrevHash e" "ep_Witnesses (hashed H e) = ep_Witnesses e"
  "ep_Threshold (hashed H e) = ep_Threshold e" "ep_Emergency (hashed H e) = ep_Emergency e"
  "ep_TransitionSigners (hashed H e) = ep_TransitionSigners e"
  "ep_TransitionSig (hashed H e) = ep_TransitionSig e"
  "ep_GenesisCeremony (hashed H e) = ep_GenesisCeremony e"
  "ep_ActivatedAtMs (hashed H e) = ep_ActivatedAtMs e"
  "epoch_hash H (hashed H e) = epoch_hash H e" "transitionMessage H (hashed H e) = transitionMessage H e"
  "genesisCeremonyMessage H (hashed H e) = genesisCeremonyMessage H e"
  "verifyEmergencyParams E H (hashed H e) = verifyEmergencyParams E H e"
  by (simp_all add: hashed_def verifyEmergencyParams_def cong: option.case_cong)

definition genesis_ok :: "ed25519 \<Rightarrow> hash \<Rightarrow> bytes list option \<Rightarrow> epoch \<Rightarrow> bool" where
  "genesis_ok E H pins e \<longleftrightarrow> ep_PrevHash e = [] \<and> 2 \<le> length (ep_GenesisCeremony e) \<and>
     distinct (map cs_SignerPubkey (ep_GenesisCeremony e)) \<and>
     list_all (ceremony_good E pins (genesisCeremonyMessage H e)) (ep_GenesisCeremony e)"

definition required_signers :: "epoch \<Rightarrow> epoch \<Rightarrow> int" where
  "required_signers prev e = (if ep_Emergency e = None then ep_Threshold prev
     else super_majority (length (ep_Witnesses prev)))"

definition link_ok :: "ed25519 \<Rightarrow> hash \<Rightarrow> epoch \<Rightarrow> epoch \<Rightarrow> bool" where
  "link_ok E H prev e \<longleftrightarrow> ep_PrevHash e = epoch_hash H prev \<and>
     (ep_Emergency e \<noteq> None \<longrightarrow> verifyEmergencyParams E H e = Inr ()) \<and>
     required_signers prev e \<le> int (length (ep_TransitionSigners e)) \<and>
     length (ep_TransitionSig e) = length (ep_TransitionSigners e) * 64 \<and>
     distinct (ep_TransitionSigners e) \<and>
     list_all (signer_good E (ep_Witnesses prev) (transitionMessage H e) (ep_TransitionSig e))
       (enumerate 0 (ep_TransitionSigners e))"

text \<open>The rest of a chain from epoch \<open>i\<close>, after \<open>prev\<close>.\<close>

fun chain_ok :: "ed25519 \<Rightarrow> hash \<Rightarrow> bytes list option \<Rightarrow> nat \<Rightarrow> epoch option \<Rightarrow> epoch list \<Rightarrow> bool" where
  "chain_ok E H pins i prev [] = True"
| "chain_ok E H pins i prev (e # es) = (ep_EpochNum e = of_nat i \<and>
     (case prev of None \<Rightarrow> genesis_ok E H pins e | Some p \<Rightarrow> link_ok E H p e) \<and>
     chain_ok E H pins (i + 1) (Some e) es)"

lemma verify_genesis_iff: "verify_genesis E H pins e = Inr () \<longleftrightarrow> genesis_ok E H pins e"
  by (auto simp: verify_genesis_def genesis_ok_def ceremony.accepts_empty list_all_snd_enumerate
      map_snd_of_enumerate not_less)

lemma verify_transition_iff:
  "ep_Hash prev = epoch_hash H prev \<Longrightarrow> verify_transition E H i prev e = Inr () \<longleftrightarrow> link_ok E H prev e"
  by (cases "ep_Emergency e")
    (auto simp: verify_transition_def link_ok_def required_signers_def signers.accepts_empty
      wrap_err_def not_less split: sum.splits)

lemma chain_ok_hashed: "chain_ok E H pins i (Some (hashed H p)) es = chain_ok E H pins i (Some p) es"
  by (cases es) (simp_all add: link_ok_def required_signers_def)

lemma verify_loop_iff:
  "(case prev of None \<Rightarrow> True | Some p \<Rightarrow> ep_Hash p = epoch_hash H p) \<Longrightarrow>
   snd (verify_loop E H pins i prev es) = Inr () \<longleftrightarrow> chain_ok E H pins i prev es"
proof (induction es arbitrary: i prev)
  case (Cons e es)
  let ?e = "hashed H e"
  let ?r = "guard (ep_EpochNum e \<noteq> of_nat i) (Rc_epoch_num i)
    (case prev of None \<Rightarrow> verify_genesis E H pins ?e | Some p \<Rightarrow> verify_transition E H i p ?e)"
  have step: "verify_loop E H pins i prev (e # es) = (case ?r of Inl err \<Rightarrow> (?e # es, Inl err)
     | Inr _ \<Rightarrow> (case verify_loop E H pins (i + 1) (Some ?e) es of (es', r') \<Rightarrow> (?e # es', r')))"
    unfolding verify_loop.simps Let_def hashed_def [symmetric] hashed_simps(2) by (rule refl)
  have r: "?r = Inr () \<longleftrightarrow> ep_EpochNum e = of_nat i \<and>
      (case prev of None \<Rightarrow> genesis_ok E H pins e | Some p \<Rightarrow> link_ok E H p e)"
    using Cons.prems by (auto simp: verify_genesis_iff verify_transition_iff genesis_ok_def link_ok_def
        required_signers_def split: option.splits)
  have "snd (verify_loop E H pins (i + 1) (Some ?e) es) = Inr () \<longleftrightarrow> chain_ok E H pins (i + 1) (Some e) es"
    by (subst Cons.IH) (simp_all add: chain_ok_hashed)
  then show ?case
    using r unfolding step chain_ok.simps
    by (auto split: sum.splits prod.splits)
qed simp

lemma verify_loop_hashes:
  "snd (verify_loop E H pins i prev es) = Inr () \<Longrightarrow> fst (verify_loop E H pins i prev es) = map (hashed H) es"
proof (induction es arbitrary: i prev)
  case (Cons e es)
  from Cons.prems Cons.IH show ?case
    by (auto simp: Let_def simp flip: hashed_def split: sum.splits prod.splits) (metis fst_conv snd_conv)
qed simp

lemma VerifyChain_iff:
  "snd (VerifyChain E H (Some es) pins) = Inr e \<longleftrightarrow>
     es \<noteq> [] \<and> chain_ok E H pins 0 None es \<and> e = hashed H (last es)"
proof (cases "es = []")
  case False
  let ?v = "verify_loop E H pins 0 None es"
  obtain es' r where v: "?v = (es', r)" by force
  have ok: "r = Inr () \<longleftrightarrow> chain_ok E H pins 0 None es"
    using verify_loop_iff [where prev = None and i = 0, of H E pins es] v by simp
  have h: "r = Inr () \<Longrightarrow> es' = map (hashed H) es"
    using verify_loop_hashes [of E H pins 0 None es] v by simp
  have "VerifyChain E H (Some es) pins = (case ?v of (es', Inl err) \<Rightarrow> (Some es', Inl err)
      | (es', Inr _) \<Rightarrow> (Some es', Inr (last es')))"
    using False by (cases es) (simp_all add: VerifyChain_def)
  with v ok h False show ?thesis by (cases r) (auto simp: last_map)
qed (simp add: VerifyChain_def)

text \<open>A link is at its place in the chain.\<close>

lemma chain_ok_nth:
  "chain_ok E H pins i prev es \<Longrightarrow> Suc k < length es \<Longrightarrow> link_ok E H (es ! k) (es ! Suc k)"
proof (induction es arbitrary: i prev k)
  case (Cons e es)
  then show ?case
  proof (cases k)
    case 0
    with Cons.prems show ?thesis by (cases es) auto
  next
    case (Suc k')
    with Cons show ?thesis by auto
  qed
qed simp

lemma chain_ok_append:
  "chain_ok E H pins i prev (es @ [p, e]) \<longleftrightarrow> chain_ok E H pins i prev (es @ [p]) \<and>
     ep_EpochNum e = of_nat (i + length es + 1) \<and> link_ok E H p e"
  by (induction es arbitrary: i prev) (auto simp: algebra_simps)

lemma chain_ok_num: "chain_ok E H pins i prev (es @ [p]) \<Longrightarrow> ep_EpochNum p = of_nat (i + length es)"
  by (induction es arbitrary: i prev) (auto simp: algebra_simps)

subsection \<open>Every transition was endorsed by a quorum of the previous roster\<close>

text \<open>Roster slots whose key accepts some signature on the transition message of \<open>e\<close>.\<close>

definition endorsers :: "ed25519 \<Rightarrow> hash \<Rightarrow> epoch \<Rightarrow> epoch \<Rightarrow> nat set" where
  "endorsers E H prev e = {k. k < length (ep_Witnesses prev) \<and>
     (\<exists>sig. ed_verify E (ew_Pubkey (ep_Witnesses prev ! k)) (transitionMessage H e) sig)}"

lemma in_enumerate: "x \<in> set xs \<Longrightarrow> \<exists>j. (j, x) \<in> set (enumerate n xs)"
proof -
  assume "x \<in> set xs"
  then have "x \<in> snd ` set (enumerate n xs)" unfolding set_map [symmetric] by simp
  then show ?thesis by force
qed

lemma link_quorum:
  assumes "link_ok E H prev e"
  shows "required_signers prev e \<le> int (card (endorsers E H prev e))"
proof -
  let ?ts = "ep_TransitionSigners e"
  have d: "distinct ?ts" and n: "required_signers prev e \<le> int (length ?ts)"
    and g: "list_all (signer_good E (ep_Witnesses prev) (transitionMessage H e) (ep_TransitionSig e)) (enumerate 0 ?ts)"
    using assms by (auto simp: link_ok_def)
  have good: "0 \<le> x \<and> nat x \<in> endorsers E H prev e" if "x \<in> set ?ts" for x
  proof -
    from in_enumerate [OF that] obtain j where "(j, x) \<in> set (enumerate 0 ?ts)" ..
    with g have "signer_good E (ep_Witnesses prev) (transitionMessage H e) (ep_TransitionSig e) (j, x)"
      by (simp add: list_all_iff)
    then show ?thesis unfolding signer_good_def endorsers_def fst_conv snd_conv by auto
  qed
  have "inj_on nat (set ?ts)" by (intro inj_onI) (metis good eq_nat_nat_iff)
  then have "card (nat ` set ?ts) = length ?ts" using d by (simp add: card_image distinct_card)
  moreover have "nat ` set ?ts \<subseteq> endorsers E H prev e" using good by auto
  moreover have "finite (endorsers E H prev e)" by (simp add: endorsers_def)
  ultimately have "length ?ts \<le> card (endorsers E H prev e)" by (metis card_mono)
  with n show ?thesis by linarith
qed

subsection \<open>The encoding determines the epoch\<close>

text \<open>Values that the fixed-width fields hold without truncation.\<close>

definition witness_fits :: "epoch_witness \<Rightarrow> bool" where
  "witness_fits w \<longleftrightarrow> 0 \<le> ew_Index w \<and> ew_Index w < 2 ^ 32 \<and> length (ew_Label w) < 2 ^ 32 \<and>
     length (ew_URL w) < 2 ^ 32 \<and> length (ew_Pubkey w) < 2 ^ 32"

definition emergency_fits :: "emergency_params option \<Rightarrow> bool" where
  "emergency_fits em = (case em of None \<Rightarrow> True | Some m \<Rightarrow>
     length (em_Declaration m) < 2 ^ 32 \<and> length (em_AnnouncementPubkey m) < 2 ^ 32)"

definition epoch_fits :: "epoch \<Rightarrow> bool" where
  "epoch_fits e \<longleftrightarrow> length (ep_PrevHash e) < 2 ^ 32 \<and> length (ep_Witnesses e) < 2 ^ 32 \<and>
     list_all witness_fits (ep_Witnesses e) \<and> 0 \<le> ep_Threshold e \<and> ep_Threshold e < 2 ^ 32 \<and>
     emergency_fits (ep_Emergency e)"

text \<open>The signed content: the announcement signature and the witness order are not in it.\<close>

definition signed_content :: "epoch \<Rightarrow> u64 \<times> bytes \<times> epoch_witness list \<times> int \<times> i64 \<times>
    (bytes \<times> i64 \<times> i64 \<times> bytes) option" where
  "signed_content e = (ep_EpochNum e, ep_PrevHash e, sort_key ew_Index (ep_Witnesses e), ep_Threshold e,
     ep_ActivatedAtMs e, map_option (\<lambda>m. (em_Declaration m, em_DeclaredAtMs m, em_WaitingPeriodMs m,
       em_AnnouncementPubkey m)) (ep_Emergency e))"

lemma u32_of_int_inject:
  "0 \<le> x \<Longrightarrow> x < 2 ^ 32 \<Longrightarrow> 0 \<le> y \<Longrightarrow> y < 2 ^ 32 \<Longrightarrow> (of_int x :: u32) = of_int y \<longleftrightarrow> x = y"
  by (auto simp: word_of_int_eq_iff take_bit_eq_mod)

interpretation witness_code: prefix_code enc_witness witness_fits
  by unfold_locales
    (auto simp: enc_witness_def witness_fits_def u32_code.append_iff len32_code.append_iff
      u32_of_int_inject intro: epoch_witness.equality)

lemma enc_emergency_inject:
  "emergency_fits em \<Longrightarrow> emergency_fits em' \<Longrightarrow> enc_emergency em = enc_emergency em' \<Longrightarrow>
   map_option (\<lambda>m. (em_Declaration m, em_DeclaredAtMs m, em_WaitingPeriodMs m, em_AnnouncementPubkey m)) em =
   map_option (\<lambda>m. (em_Declaration m, em_DeclaredAtMs m, em_WaitingPeriodMs m, em_AnnouncementPubkey m)) em'"
  by (cases em; cases em')
    (auto simp: enc_emergency_def emergency_fits_def len32_code.append_iff u64_code.append_iff len32_code.inj)

lemma Canonical_inject:
  assumes fit: "epoch_fits e" "epoch_fits e'" and eq: "Canonical e = Canonical e'"
  shows "signed_content e = signed_content e'"
proof -
  have len: "length (ep_Witnesses e) = length (ep_Witnesses e')"
  proof -
    have "(of_nat (length (ep_Witnesses e)) :: u32) = of_nat (length (ep_Witnesses e'))"
      using fit eq by (simp add: Canonical_def Let_def epoch_fits_def u64_code.append_iff
          len32_code.append_iff u32_code.append_iff)
    then show ?thesis using fit by (auto simp: epoch_fits_def word_of_nat_eq_iff take_bit_eq_mod)
  qed
  have ok: "list_all witness_fits (sort_key ew_Index (ep_Witnesses e))"
    "list_all witness_fits (sort_key ew_Index (ep_Witnesses e'))"
    using fit by (auto simp: epoch_fits_def list_all_iff)
  show ?thesis
    using fit eq len witness_code.concat_split [OF _ ok]
    by (auto simp: Canonical_def Let_def epoch_fits_def u64_code.append_iff len32_code.append_iff
        u32_code.append_iff u32_of_int_inject signed_content_def dest: enc_emergency_inject)
qed

text \<open>Two chains that end in the same hash have the same signed content, as long as no two of
  their epochs are a collision of the hash function.\<close>

lemma u64_of_nat_inject:
  "m < 2 ^ 64 \<Longrightarrow> n < 2 ^ 64 \<Longrightarrow> (of_nat m :: u64) = of_nat n \<Longrightarrow> m = n"
  by (simp add: word_of_nat_eq_iff take_bit_eq_mod)

lemma no_collision:
  assumes "epoch_hash H e = epoch_hash H e'" and "inj_on H (Canonical ` (set (es @ [e]) \<union> set (es' @ [e'])))"
    and "list_all epoch_fits (es @ [e])" and "list_all epoch_fits (es' @ [e'])"
  shows "signed_content e = signed_content e'"
proof -
  have "Canonical e = Canonical e'"
    by (rule inj_onD [OF assms(2)]) (use assms(1) in \<open>simp_all add: epoch_hash_def\<close>)
  with assms(3,4) show ?thesis by (auto intro: Canonical_inject)
qed

lemma same_hash_same_chain:
  assumes "chain_ok E H pins 0 None (es @ [e])" and "chain_ok E' H pins' 0 None (es' @ [e'])"
    and "epoch_hash H e = epoch_hash H e'"
    and "length es < 2 ^ 64" and "length es' < 2 ^ 64"
    and "list_all epoch_fits (es @ [e])" and "list_all epoch_fits (es' @ [e'])"
    and "inj_on H (Canonical ` (set (es @ [e]) \<union> set (es' @ [e'])))"
  shows "map signed_content (es @ [e]) = map signed_content (es' @ [e'])"
  using assms
proof (induction es arbitrary: e es' e' rule: rev_induct)
  case Nil
  from Nil(3,8,6,7) have sc: "signed_content e = signed_content e'" by (rule no_collision)
  have "ep_EpochNum e = of_nat 0" using chain_ok_num [OF Nil(1)] by simp
  moreover have "ep_EpochNum e' = of_nat (length es')" using chain_ok_num [OF Nil(2)] by simp
  ultimately have "(of_nat (length es') :: u64) = of_nat 0" using sc by (simp add: signed_content_def)
  then have "length es' = 0" using Nil(5) by (intro u64_of_nat_inject) simp_all
  then show ?case using sc by simp
next
  case (snoc p es)
  from snoc.prems(3,8,6,7) have sc: "signed_content e = signed_content e'" by (rule no_collision)
  have "ep_EpochNum e = of_nat (length (es @ [p]))" using chain_ok_num [OF snoc.prems(1)] by simp
  moreover have "ep_EpochNum e' = of_nat (length es')" using chain_ok_num [OF snoc.prems(2)] by simp
  ultimately have "(of_nat (length es') :: u64) = of_nat (length (es @ [p]))"
    using sc by (simp only: signed_content_def prod.inject)
  then have "length es' = length (es @ [p])" using snoc.prems(4,5) by (intro u64_of_nat_inject)
  then obtain es2 p' where es': "es' = es2 @ [p']" by (cases es' rule: rev_cases) simp_all
  have l: "link_ok E H p e" "chain_ok E H pins 0 None (es @ [p])"
    using snoc.prems(1) by (simp_all add: chain_ok_append)
  have l': "link_ok E' H p' e'" "chain_ok E' H pins' 0 None (es2 @ [p'])"
    using snoc.prems(2) by (simp_all add: es' chain_ok_append)
  have "epoch_hash H p = epoch_hash H p'"
    using l(1) l'(1) sc by (simp add: link_ok_def signed_content_def)
  moreover have "inj_on H (Canonical ` (set (es @ [p]) \<union> set (es2 @ [p'])))"
    by (rule inj_on_subset [OF snoc.prems(8)]) (auto simp: es')
  ultimately have "map signed_content (es @ [p]) = map signed_content (es2 @ [p'])"
    using snoc.prems(4-7) by (intro snoc.IH [OF l(2) l'(2)]) (simp_all add: es')
  with sc show ?case by (simp add: es')
qed

subsection \<open>What is sealed verifies\<close>

lemma sign_all_Inr: "sign_all E msg privs = Inr sigs \<longleftrightarrow>
    sigs = map (\<lambda>k. ed_sign E k msg) privs \<and> list_all (\<lambda>k. length k = 64) privs"
  by (induction privs arbitrary: sigs) auto

lemma sig_at_concat:
  "list_all (\<lambda>s. length s = 64) sigs \<Longrightarrow> j < length sigs \<Longrightarrow> sig_at (concat sigs) j = sigs ! j"
proof (induction sigs arbitrary: j)
  case (Cons s sigs)
  show ?case
  proof (cases j)
    case (Suc k)
    then have "sig_at (concat (s # sigs)) j = sig_at (concat sigs) k" using Cons.prems by (simp add: sig_at_def)
    with Suc Cons show ?thesis by simp
  qed (use Cons.prems in \<open>simp add: sig_at_def\<close>)
qed simp

lemma length_concat_64: "list_all (\<lambda>s. length s = 64) sigs \<Longrightarrow> length (concat sigs) = length sigs * 64"
  by (induction sigs) simp_all

lemma fst_snd_enumerate_zip: "length xs = length ys \<Longrightarrow> map (\<lambda>p. fst (snd p)) (enumerate n (zip xs ys)) = xs"
proof -
  assume "length xs = length ys"
  then have "map fst (map snd (enumerate n (zip xs ys))) = xs" by simp
  then show ?thesis by (simp only: map_map o_def)
qed

text \<open>Signatures made by the keys of the right slots pass the signer loop.\<close>

lemma signed_by_slots:
  assumes "seal_loop E ws {} (enumerate 0 (zip idxs privs)) = Inr ()" and "length idxs = length privs"
    and "list_all (ed_key E) privs"
  shows "distinct idxs"
    and "list_all (signer_good E ws msg (concat (map (\<lambda>k. ed_sign E k msg) privs))) (enumerate 0 idxs)"
    and "length (concat (map (\<lambda>k. ed_sign E k msg) privs)) = length idxs * 64"
proof -
  let ?sigs = "map (\<lambda>k. ed_sign E k msg) privs"
  have len: "list_all (\<lambda>s. length s = 64) ?sigs" using assms(3) by (auto simp: list_all_iff ed_key_def)
  have good: "list_all (seal_good E ws) (enumerate 0 (zip idxs privs))"
    and d: "distinct (map (\<lambda>p. fst (snd p)) (enumerate 0 (zip idxs privs)))"
    using assms(1) by (simp_all add: sealing.accepts_empty)
  show "distinct idxs" using d by (simp add: fst_snd_enumerate_zip assms(2))
  show "length (concat ?sigs) = length idxs * 64" using length_concat_64 [OF len] assms(2) by simp
  have "signer_good E ws msg (concat ?sigs) (j, idxs ! j)" if j: "j < length idxs" for j
  proof -
    have "(j, idxs ! j, privs ! j) \<in> set (enumerate 0 (zip idxs privs))"
      using j assms(2) by (auto simp: in_set_enumerate_eq)
    with good have g: "seal_good E ws (j, idxs ! j, privs ! j)" by (auto simp: list_all_iff)
    have k: "ed_key E (privs ! j)" using assms(2,3) j by (simp add: list_all_length)
    have "sig_at (concat ?sigs) j = ed_sign E (privs ! j) msg"
      using sig_at_concat [OF len, of j] j assms(2) by simp
    with g ed_keyD [OF k] show ?thesis by (auto simp: seal_good_def signer_good_def)
  qed
  then show "list_all (signer_good E ws msg (concat ?sigs)) (enumerate 0 idxs)"
    by (auto simp: list_all_iff in_set_enumerate_eq)
qed

lemma transition_messages_update [simp]:
  "transitionMessage H (e\<lparr>ep_TransitionSig := t\<rparr>) = transitionMessage H e"
  "epoch_hash H (e\<lparr>ep_TransitionSig := t\<rparr>) = epoch_hash H e"
  by (simp_all add: transitionMessage_def epoch_hash_def)

lemma seal_transition_links:
  assumes "SealTransition E H (Some cur) ws t act idxs privs = Inr e"
    and "list_all (ed_key E) privs" and "ep_Hash cur = epoch_hash H cur"
  shows "link_ok E H cur e \<and> ep_EpochNum e = ep_EpochNum cur + 1 \<and> hashed H e = e"
proof -
  let ?n = "next_epoch cur ws t act idxs None"
  from assms(1) have l: "length idxs = length privs" and n: "ep_Threshold cur \<le> int (length idxs)"
    and s: "seal_loop E (ep_Witnesses cur) {} (enumerate 0 (zip idxs privs)) = Inr ()"
    and e: "e = ?n\<lparr>ep_TransitionSig := concat (map (\<lambda>k. ed_sign E k (transitionMessage H ?n)) privs),
        ep_Hash := epoch_hash H ?n\<rparr>"
    by (auto simp: SealTransition_def Let_def sign_all_Inr not_less)
  note by_slots = signed_by_slots(1) [OF s l assms(2)]
    signed_by_slots(2,3) [OF s l assms(2), of "transitionMessage H ?n"]
  have c: "transitionMessage H e = transitionMessage H ?n" "epoch_hash H e = epoch_hash H ?n"
    unfolding e by (simp_all only: transition_messages_update messages_update)
  have f: "ep_PrevHash e = ep_Hash cur" "ep_TransitionSigners e = idxs" "ep_EpochNum e = ep_EpochNum cur + 1"
    "ep_TransitionSig e = concat (map (\<lambda>k. ed_sign E k (transitionMessage H ?n)) privs)" "ep_Emergency e = None"
    by (simp_all add: e next_epoch_def)
  have "hashed H e = e" unfolding hashed_def c by (simp add: e)
  with by_slots n assms(3) show ?thesis
    unfolding link_ok_def required_signers_def c f by simp
qed

text \<open>\<open>SealEmergencyTransition\<close> does not look at the time gate: its epoch is accepted exactly
  when the activation time is not before the end of the waiting period, computed modulo 2^64.\<close>

lemma seal_emergency_links:
  assumes "SealEmergencyTransition E H (Some cur) ws t act idxs privs em annPriv = Inr e"
    and "list_all (ed_key E) privs" and "ed_key E annPriv" and "ep_Hash cur = epoch_hash H cur"
  shows "(link_ok E H cur e \<longleftrightarrow> \<not> i64_less act (em_DeclaredAtMs em + em_WaitingPeriodMs em)) \<and>
    ep_EpochNum e = ep_EpochNum cur + 1 \<and> hashed H e = e"
proof -
  let ?em = "em\<lparr>em_AnnouncementPubkey := ed_public E annPriv, em_AnnouncementSig := []\<rparr>"
  let ?n = "next_epoch cur ws t act idxs (Some ?em)"
  let ?sig = "ed_sign E annPriv (emergencyAnnouncementMessage H ?n)"
  from assms(1) have l: "length idxs = length privs"
    and n: "super_majority (length (ep_Witnesses cur)) \<le> int (length idxs)"
    and w: "\<not> i64_less (em_WaitingPeriodMs em) day_ms"
    and s: "seal_loop E (ep_Witnesses cur) {} (enumerate 0 (zip idxs privs)) = Inr ()"
    and e: "e = ?n\<lparr>ep_TransitionSig := concat (map (\<lambda>k. ed_sign E k (transitionMessage H ?n)) privs),
        ep_Emergency := Some (?em\<lparr>em_AnnouncementSig := ?sig\<rparr>), ep_Hash := epoch_hash H ?n\<rparr>"
    by (auto simp: SealEmergencyTransition_def Let_def sign_all_Inr not_less)
  have "Canonical e = Canonical ?n" by (simp add: e Canonical_def next_epoch_def enc_emergency_def Let_def)
  then have c: "transitionMessage H e = transitionMessage H ?n" "epoch_hash H e = epoch_hash H ?n"
      "emergencyAnnouncementMessage H e = emergencyAnnouncementMessage H ?n"
    by (simp_all add: transitionMessage_def epoch_hash_def emergencyAnnouncementMessage_def)
  have em: "ep_Emergency e = Some (?em\<lparr>em_AnnouncementSig := ?sig\<rparr>)" "ep_ActivatedAtMs e = act"
    by (simp_all add: e next_epoch_def)
  have gate: "verifyEmergencyParams E H e = Inr () \<longleftrightarrow>
      \<not> i64_less act (em_DeclaredAtMs em + em_WaitingPeriodMs em)"
    using w ed_keyD [OF assms(3)] by (simp add: verifyEmergencyParams_def em c)
  note by_slots = signed_by_slots(1) [OF s l assms(2)]
    signed_by_slots(2,3) [OF s l assms(2), of "transitionMessage H ?n"]
  have f: "ep_PrevHash e = ep_Hash cur" "ep_TransitionSigners e = idxs" "ep_EpochNum e = ep_EpochNum cur + 1"
    "ep_TransitionSig e = concat (map (\<lambda>k. ed_sign E k (transitionMessage H ?n)) privs)"
    by (simp_all add: e next_epoch_def)
  have "hashed H e = e" unfolding hashed_def c by (simp add: e)
  with by_slots n assms(4) show ?thesis
    unfolding link_ok_def required_signers_def gate c f by (simp add: em)
qed

lemma link_ok_hashed [simp]: "link_ok E H (hashed H p) e = link_ok E H p e"
  unfolding link_ok_def required_signers_def by (simp only: hashed_simps)

lemma extend_chain:
  assumes "snd (VerifyChain E H (Some (es @ [p])) pins) = Inr cur"
    and "link_ok E H cur e" and "ep_EpochNum e = ep_EpochNum cur + 1" and "hashed H e = e"
  shows "snd (VerifyChain E H (Some (es @ [p, e])) pins) = Inr e"
proof -
  have ok: "chain_ok E H pins 0 None (es @ [p])" and cur: "cur = hashed H p"
    using assms(1) by (simp_all add: VerifyChain_iff)
  have "link_ok E H p e" using assms(2) by (simp add: cur)
  moreover have "ep_EpochNum e = of_nat (0 + length es + 1)"
    using chain_ok_num [OF ok] assms(3) by (simp add: cur)
  ultimately show ?thesis using ok assms(4) by (simp add: VerifyChain_iff chain_ok_append)
qed

lemma cur_hash: "snd (VerifyChain E H (Some (es @ [p])) pins) = Inr cur \<Longrightarrow> ep_Hash cur = epoch_hash H cur"
  by (auto simp: VerifyChain_iff)

lemma ceremony_keys_Inr:
  "ceremony_keys E (enumerate n (zip cs ks)) = Inr () \<Longrightarrow> length cs = length ks \<Longrightarrow>
   map (ed_public E) ks = map cs_SignerPubkey cs"
  by (induction cs ks arbitrary: n rule: list_induct2') auto

lemma seal_genesis_ok:
  assumes "SealGenesis E H ws t act signers privs = Inr e" and "list_all (ed_key E) privs"
    and "distinct (map cs_SignerPubkey signers)"
    and "pins = None \<or> set (map cs_SignerPubkey signers) \<subseteq> set (the pins)"
  shows "snd (VerifyChain E H (Some [e]) pins) = Inr e"
proof -
  let ?e = "\<lparr>ep_EpochNum = 0, ep_PrevHash = [], ep_Witnesses = ws, ep_Threshold = t,
     ep_ActivatedAtMs = act, ep_TransitionSig = [], ep_TransitionSigners = [],
     ep_GenesisCeremony = [], ep_Emergency = None, ep_Hash = []\<rparr>"
  let ?msg = "genesisCeremonyMessage H ?e"
  let ?cs = "map2 (\<lambda>s sig. s\<lparr>cs_Signature := sig\<rparr>) signers (map (\<lambda>k. ed_sign E k ?msg) privs)"
  from assms(1) have l: "length signers = length privs" "2 \<le> length signers"
    and k: "ceremony_keys E (enumerate 0 (zip signers privs)) = Inr ()"
    and e: "e = ?e\<lparr>ep_GenesisCeremony := ?cs, ep_Hash := epoch_hash H ?e\<rparr>"
    by (auto simp: SealGenesis_def Let_def sign_all_Inr not_less)
  have pubs: "map (ed_public E) privs = map cs_SignerPubkey signers" by (rule ceremony_keys_Inr [OF k l(1)])
  have msg: "genesisCeremonyMessage H e = ?msg" "epoch_hash H e = epoch_hash H ?e"
    unfolding e by (simp_all only: genesisCeremonyMessage_def epoch_hash_def Canonical_update)
  have names: "map cs_SignerPubkey ?cs = map cs_SignerPubkey signers"
    using l(1) by (intro nth_equalityI) simp_all
  have "ceremony_good E pins ?msg (?cs ! j)" if "j < length privs" for j
  proof -
    have pub: "cs_SignerPubkey (signers ! j) = ed_public E (privs ! j)"
      using arg_cong [OF pubs, of "\<lambda>xs. xs ! j"] that l(1) by simp
    have k: "ed_key E (privs ! j)" using assms(2) that by (simp add: list_all_length)
    have "cs_SignerPubkey (signers ! j) \<in> set (map cs_SignerPubkey signers)" using that l(1) by simp
    then have "pins = None \<or> ed_public E (privs ! j) \<in> set (the pins)" using assms(4) unfolding pub by blast
    moreover have "cs_SignerPubkey (?cs ! j) = ed_public E (privs ! j)"
      "cs_Signature (?cs ! j) = ed_sign E (privs ! j) ?msg"
      using that l(1) by (simp_all add: pub)
    ultimately show ?thesis unfolding ceremony_good_def by (simp only: ed_keyD [OF k] simp_thms)
  qed
  then have "list_all (ceremony_good E pins ?msg) ?cs" using l(1) by (simp add: list_all_length)
  moreover have "ep_GenesisCeremony e = ?cs" "ep_EpochNum e = 0" "ep_PrevHash e = []" by (simp_all add: e)
  moreover have "hashed H e = e" unfolding hashed_def msg by (simp add: e)
  ultimately show ?thesis
    using assms(3) l names by (simp add: VerifyChain_iff genesis_ok_def msg)
qed

subsection \<open>A threshold below one\<close>

text \<open>\<open>VerifyChain\<close> does not check the range of \<open>Threshold\<close>.\<close>

lemma unsigned_link:
  assumes "ep_Threshold p \<le> 0" and "ep_PrevHash e = epoch_hash H p" and "ep_Emergency e = None"
    and "ep_TransitionSigners e = []" and "ep_TransitionSig e = []"
  shows "link_ok E H p e"
  using assms by (simp add: link_ok_def required_signers_def)

subsection \<open>A concrete chain for the witnesses\<close>

definition demo_priv :: "nat \<Rightarrow> bytes" where
  "demo_priv n = replicate 64 (of_nat n)"

lemma demo_priv_key: "ed_key demo_ed (demo_priv n)"
  by (rule demo_ed_key) (simp add: demo_priv_def)

lemma demo_priv_simps:
  "length (demo_priv n) = 64" "pad32 (drop 32 (demo_priv n)) = replicate 32 (of_nat n)"
  by (simp_all add: demo_priv_def pad32_def)

definition demo_slot :: "nat \<Rightarrow> epoch_witness" where
  "demo_slot n = \<lparr>ew_Index = int n, ew_Label = [], ew_URL = [], ew_Pubkey = replicate 32 (of_nat n)\<rparr>"

definition demo_signer :: "nat \<Rightarrow> ceremony_sig" where
  "demo_signer n = \<lparr>cs_SignerPubkey = replicate 32 (of_nat n), cs_SignerLabel = [], cs_Signature = []\<rparr>"

definition demo_signers :: "ceremony_sig list" where
  "demo_signers = [demo_signer 8, demo_signer 9]"

lemma demo_signers: "distinct (map cs_SignerPubkey demo_signers)"
  by (simp add: demo_signers_def demo_signer_def)

lemma demo_genesis_seals:
  "\<exists>e. SealGenesis demo_ed demo_hash [demo_slot 0, demo_slot 1] 1 0 demo_signers [demo_priv 8, demo_priv 9] = Inr e"
  by (simp add: SealGenesis_def demo_signers_def demo_signer_def demo_priv_simps sign_all_Inr Let_def)

definition demo_genesis :: epoch where
  "demo_genesis = projr (SealGenesis demo_ed demo_hash [demo_slot 0, demo_slot 1] 1 0 demo_signers
     [demo_priv 8, demo_priv 9])"

lemma demo_genesis:
  "SealGenesis demo_ed demo_hash [demo_slot 0, demo_slot 1] 1 0 demo_signers [demo_priv 8, demo_priv 9] = Inr demo_genesis"
  using demo_genesis_seals by (auto simp: demo_genesis_def)

lemma demo_keys: "list_all (ed_key demo_ed) [demo_priv a, demo_priv b]"
  by (simp add: demo_priv_key)

lemma demo_chain: "snd (VerifyChain demo_ed demo_hash (Some [demo_genesis]) None) = Inr demo_genesis"
  by (rule seal_genesis_ok [OF demo_genesis demo_keys demo_signers]) simp

lemma SealGenesis_fields:
  "SealGenesis E H ws t act signers privs = Inr e \<Longrightarrow>
   ep_Threshold e = t \<and> ep_Witnesses e = ws \<and> ep_Emergency e = None \<and> ep_ActivatedAtMs e = act \<and>
   ep_EpochNum e = 0 \<and> ep_PrevHash e = []"
  by (auto simp: SealGenesis_def Let_def)

lemma demo_genesis_fields:
  "ep_Threshold demo_genesis = 1" "ep_Witnesses demo_genesis = [demo_slot 0, demo_slot 1]"
  "ep_Hash demo_genesis = epoch_hash demo_hash demo_genesis" "ep_PrevHash demo_genesis = []"
  "ep_Emergency demo_genesis = None" "ep_EpochNum demo_genesis = 0"
proof -
  show "ep_Threshold demo_genesis = 1" "ep_Witnesses demo_genesis = [demo_slot 0, demo_slot 1]"
    "ep_Emergency demo_genesis = None"
    using SealGenesis_fields [OF demo_genesis] by simp_all
  from demo_chain have "demo_genesis = hashed demo_hash demo_genesis" "genesis_ok demo_ed demo_hash None demo_genesis"
    "ep_EpochNum demo_genesis = 0"
    by (simp_all add: VerifyChain_iff)
  then show "ep_Hash demo_genesis = epoch_hash demo_hash demo_genesis" "ep_PrevHash demo_genesis = []"
    "ep_EpochNum demo_genesis = 0"
    by (metis hashed_simps(1), simp_all add: genesis_ok_def)
qed

lemma demo_hash_nonempty: "epoch_hash demo_hash e \<noteq> []"
  by (metis epoch_hash_def length_demo_hash list.size(3) zero_neq_numeral)

lemma demo_transition_seals:
  "\<exists>e. SealTransition demo_ed demo_hash (Some demo_genesis) [demo_slot 2] 1 5 [1, 0] [demo_priv 1, demo_priv 0] = Inr e"
  by (simp add: SealTransition_def demo_genesis_fields demo_hash_nonempty demo_priv_simps demo_slot_def
      sign_all_Inr Let_def)

definition demo_emergency :: emergency_params where
  "demo_emergency = \<lparr>em_Declaration = [1], em_DeclaredAtMs = 0, em_WaitingPeriodMs = day_ms,
     em_AnnouncementPubkey = [], em_AnnouncementSig = []\<rparr>"

lemma demo_emergency_seals:
  "\<exists>e. SealEmergencyTransition demo_ed demo_hash (Some demo_genesis) [demo_slot 2] 1 day_ms [1, 0]
     [demo_priv 1, demo_priv 0] demo_emergency (demo_priv 3) = Inr e"
  by (simp add: SealEmergencyTransition_def demo_genesis_fields demo_hash_nonempty demo_priv_simps demo_slot_def
      sign_all_Inr demo_emergency_def super_majority_def Let_def)

subsection \<open>Properties\<close>

text \<open>C15: \<open>VerifyChain\<close> accepts exactly the non-empty chains that number their epochs from zero,
  start with a ceremony-signed genesis, and link every later epoch to the one before it; it
  returns the last epoch with its hash.\<close>
theorem verify_chain_iff:
  "snd (VerifyChain E H (Some es) pins) = Inr e \<longleftrightarrow>
     es \<noteq> [] \<and> chain_ok E H pins 0 None es \<and> e = hashed H (last es)"
  by (rule VerifyChain_iff)

text \<open>C16: In an accepted chain every epoch after genesis was endorsed, over its own content, by
  keys in at least as many distinct slots of the previous roster as the threshold of that roster
  asks for, or four fifths of the roster for an emergency.\<close>
theorem transition_quorum:
  assumes "snd (VerifyChain E H (Some es) pins) = Inr e" and "Suc k < length es"
  shows "required_signers (es ! k) (es ! Suc k) \<le> int (card (endorsers E H (es ! k) (es ! Suc k)))"
  using assms chain_ok_nth link_quorum by (metis VerifyChain_iff)

theorem transition_quorum_witness:
  "\<exists>es. length es = 2 \<and>
     required_signers (es ! 0) (es ! Suc 0) \<le> int (card (endorsers demo_ed demo_hash (es ! 0) (es ! Suc 0)))"
proof -
  obtain e where e: "SealTransition demo_ed demo_hash (Some demo_genesis) [demo_slot 2] 1 5 [1, 0]
      [demo_priv 1, demo_priv 0] = Inr e" using demo_transition_seals by blast
  have l: "link_ok demo_ed demo_hash demo_genesis e \<and> ep_EpochNum e = ep_EpochNum demo_genesis + 1 \<and> hashed demo_hash e = e"
    by (rule seal_transition_links [OF e demo_keys demo_genesis_fields(3)])
  have "snd (VerifyChain demo_ed demo_hash (Some ([] @ [demo_genesis, e])) None) = Inr e"
    by (rule extend_chain) (use demo_chain l in auto)
  from transition_quorum [OF this, of 0] show ?thesis by (intro exI [of _ "[demo_genesis, e]"]) simp
qed

text \<open>The hash of the last epoch fixes the whole chain: two accepted chains with the same last
  hash carry the same signed content, epoch by epoch, unless two of their epochs collide.\<close>
theorem last_hash_fixes_chain:
  assumes "snd (VerifyChain E H (Some (es @ [p])) pins) = Inr e"
    and "snd (VerifyChain E' H (Some (es' @ [p'])) pins') = Inr e'"
    and "ep_Hash e = ep_Hash e'"
    and "length es < 2 ^ 64" and "length es' < 2 ^ 64"
    and "list_all epoch_fits (es @ [p])" and "list_all epoch_fits (es' @ [p'])"
    and "inj_on H (Canonical ` (set (es @ [p]) \<union> set (es' @ [p'])))"
  shows "map signed_content (es @ [p]) = map signed_content (es' @ [p'])"
proof (rule same_hash_same_chain [OF _ _ _ assms(4-8)])
  show "chain_ok E H pins 0 None (es @ [p])" "chain_ok E' H pins' 0 None (es' @ [p'])"
    using assms(1,2) by (simp_all add: VerifyChain_iff)
  show "epoch_hash H p = epoch_hash H p'" using assms(1-3) by (auto simp: VerifyChain_iff)
qed

text \<open>The witness: the same genesis signed by the ceremony in another order.\<close>
theorem last_hash_fixes_chain_witness:
  "\<exists>e. SealGenesis demo_ed demo_hash [demo_slot 0, demo_slot 1] 1 0 (rev demo_signers) [demo_priv 9, demo_priv 8] = Inr e
     \<and> map signed_content ([] @ [demo_genesis]) = map signed_content ([] @ [e])"
proof -
  have "\<exists>e. SealGenesis demo_ed demo_hash [demo_slot 0, demo_slot 1] 1 0 (rev demo_signers) [demo_priv 9, demo_priv 8] = Inr e"
    by (simp add: SealGenesis_def demo_signers_def demo_signer_def demo_priv_simps sign_all_Inr Let_def)
  then obtain e where e: "SealGenesis demo_ed demo_hash [demo_slot 0, demo_slot 1] 1 0 (rev demo_signers)
      [demo_priv 9, demo_priv 8] = Inr e" ..
  have d: "distinct (map cs_SignerPubkey (rev demo_signers))" using demo_signers by (simp flip: rev_map)
  have c: "snd (VerifyChain demo_ed demo_hash (Some ([] @ [e])) None) = Inr e"
    using seal_genesis_ok [OF e demo_keys d, of None] by simp
  have c0: "snd (VerifyChain demo_ed demo_hash (Some ([] @ [demo_genesis])) None) = Inr demo_genesis"
    using demo_chain by simp
  have "Canonical e = Canonical demo_genesis"
    using SealGenesis_fields [OF e] SealGenesis_fields [OF demo_genesis] by (simp add: Canonical_def)
  moreover have "ep_Hash e = epoch_hash demo_hash e" by (rule cur_hash [OF c])
  ultimately have h: "ep_Hash demo_genesis = ep_Hash e" "Canonical ` (set ([] @ [demo_genesis]) \<union> set ([] @ [e])) = {Canonical e}"
    using demo_genesis_fields(3) by (simp_all add: epoch_hash_def)
  have f: "list_all epoch_fits ([] @ [demo_genesis])" "list_all epoch_fits ([] @ [e])"
    using c SealGenesis_fields [OF e]
    by (simp_all add: epoch_fits_def demo_genesis_fields emergency_fits_def witness_fits_def demo_slot_def
        VerifyChain_iff genesis_ok_def)
  have i: "inj_on demo_hash (Canonical ` (set ([] @ [demo_genesis]) \<union> set ([] @ [e])))" unfolding h(2) by simp
  from last_hash_fixes_chain [OF c0 c h(1) _ _ f i] e show ?thesis by auto
qed

text \<open>A transition sealed on the last epoch of an accepted chain extends it to an accepted chain.\<close>
theorem sealed_transition_extends:
  assumes "snd (VerifyChain E H (Some (es @ [p])) pins) = Inr cur"
    and "SealTransition E H (Some cur) ws t act idxs privs = Inr e"
    and "list_all (ed_key E) privs"
  shows "snd (VerifyChain E H (Some (es @ [p, e])) pins) = Inr e"
  using extend_chain [OF assms(1)] seal_transition_links [OF assms(2,3) cur_hash [OF assms(1)]] by blast

theorem sealed_transition_extends_witness:
  "\<exists>e. snd (VerifyChain demo_ed demo_hash (Some ([] @ [demo_genesis, e])) None) = Inr e"
proof -
  have c: "snd (VerifyChain demo_ed demo_hash (Some ([] @ [demo_genesis])) None) = Inr demo_genesis"
    using demo_chain by simp
  from demo_transition_seals sealed_transition_extends [OF c _ demo_keys] show ?thesis by blast
qed

text \<open>A sealed emergency epoch extends the chain exactly when its activation is not before
  declaration plus waiting period in 64-bit arithmetic; the key that signed the announcement is
  whatever key the sealer chose.\<close>
theorem sealed_emergency_extends_iff:
  assumes "snd (VerifyChain E H (Some (es @ [p])) pins) = Inr cur"
    and "SealEmergencyTransition E H (Some cur) ws t act idxs privs em annPriv = Inr e"
    and "list_all (ed_key E) privs" and "ed_key E annPriv"
  shows "snd (VerifyChain E H (Some (es @ [p, e])) pins) = Inr e \<longleftrightarrow>
    \<not> i64_less act (em_DeclaredAtMs em + em_WaitingPeriodMs em)"
proof -
  note l = seal_emergency_links [OF assms(2-4) cur_hash [OF assms(1)]]
  have "link_ok E H cur e \<longleftrightarrow> link_ok E H p e" using assms(1) by (auto simp: VerifyChain_iff)
  then show ?thesis using l extend_chain [OF assms(1), of e] by (auto simp: VerifyChain_iff chain_ok_append)
qed

theorem sealed_emergency_extends_iff_witness:
  "\<exists>e. snd (VerifyChain demo_ed demo_hash (Some ([] @ [demo_genesis, e])) None) = Inr e"
proof -
  have c: "snd (VerifyChain demo_ed demo_hash (Some ([] @ [demo_genesis])) None) = Inr demo_genesis"
    using demo_chain by simp
  obtain e where e: "SealEmergencyTransition demo_ed demo_hash (Some demo_genesis) [demo_slot 2] 1 day_ms [1, 0]
     [demo_priv 1, demo_priv 0] demo_emergency (demo_priv 3) = Inr e" using demo_emergency_seals by blast
  from sealed_emergency_extends_iff [OF c e demo_keys demo_priv_key] show ?thesis
    by (auto simp: demo_emergency_def)
qed

text \<open>A sealed genesis whose ceremony keys are distinct, and pinned where a pin set is given,
  is an accepted chain.\<close>
theorem sealed_genesis_verifies:
  assumes "SealGenesis E H ws t act signers privs = Inr e" and "list_all (ed_key E) privs"
    and "distinct (map cs_SignerPubkey signers)"
    and "pins = None \<or> set (map cs_SignerPubkey signers) \<subseteq> set (the pins)"
  shows "snd (VerifyChain E H (Some [e]) pins) = Inr e"
  using assms by (rule seal_genesis_ok)

theorem sealed_genesis_verifies_witness:
  "snd (VerifyChain demo_ed demo_hash (Some [demo_genesis]) (Some (map cs_SignerPubkey demo_signers))) = Inr demo_genesis"
  by (rule sealed_genesis_verifies [OF demo_genesis demo_keys demo_signers]) simp

text \<open>After an accepted epoch whose threshold is zero or negative, an epoch without any
  signature is accepted: \<open>VerifyChain\<close> does not check the range of the threshold.\<close>
theorem threshold_zero_unsigned:
  assumes "snd (VerifyChain E H (Some (es @ [p])) pins) = Inr cur"
    and "ep_Threshold p \<le> 0" and "ep_PrevHash e = ep_Hash cur" and "ep_EpochNum e = ep_EpochNum cur + 1"
    and "ep_Emergency e = None" and "ep_TransitionSigners e = []" and "ep_TransitionSig e = []"
  shows "snd (VerifyChain E H (Some (es @ [p, e])) pins) = Inr (hashed H e)"
proof -
  have ok: "chain_ok E H pins 0 None (es @ [p])" and cur: "cur = hashed H p"
    using assms(1) by (simp_all add: VerifyChain_iff)
  have "link_ok E H p e" using assms(2-7) by (intro unsigned_link) (simp_all add: cur)
  with ok chain_ok_num [OF ok] assms(4) show ?thesis
    by (simp add: VerifyChain_iff chain_ok_append cur)
qed

theorem threshold_zero_unsigned_witness:
  "\<exists>p e. snd (VerifyChain demo_ed demo_hash (Some [p, e]) None) = Inr (hashed demo_hash e) \<and>
     ep_TransitionSigners e = []"
proof -
  define p0 where "p0 = demo_genesis\<lparr>ep_Threshold := 0, ep_GenesisCeremony := []\<rparr>"
  define m where "m = demo_hash (genesisCeremonyMessage demo_hash p0)"
  define p where "p = p0\<lparr>ep_GenesisCeremony := map (\<lambda>n. (demo_signer n)\<lparr>cs_Signature := replicate 32 (of_nat n) @ m\<rparr>) [8, 9]\<rparr>"
  have "genesisCeremonyMessage demo_hash p = genesisCeremonyMessage demo_hash p0"
    by (simp add: p_def genesisCeremonyMessage_def epoch_hash_def)
  then have "genesis_ok demo_ed demo_hash None p"
    by (simp add: genesis_ok_def p_def p0_def demo_genesis_fields ceremony_good_def demo_signer_def m_def)
  then have c: "snd (VerifyChain demo_ed demo_hash (Some ([] @ [p])) None) = Inr (hashed demo_hash p)"
    by (simp add: VerifyChain_iff p_def p0_def demo_genesis_fields)
  define e where "e = next_epoch (hashed demo_hash p) [demo_slot 5] 1 0 [] None"
  have "snd (VerifyChain demo_ed demo_hash (Some ([] @ [p, e])) None) = Inr (hashed demo_hash e)"
    by (rule threshold_zero_unsigned [OF c]) (simp_all add: e_def next_epoch_def p_def p0_def)
  then show ?thesis by (intro exI [of _ p] exI [of _ e]) (simp add: e_def next_epoch_def)
qed

text \<open>The waiting period is added to the declaration time in wrapping 64-bit arithmetic: an
  emergency declared at the end of the range passes the time gate long before its declaration.\<close>
theorem emergency_gate_wraps:
  "\<exists>e em. ep_Emergency e = Some em \<and> verifyEmergencyParams demo_ed demo_hash e = Inr () \<and>
     i64_less (ep_ActivatedAtMs e) (em_DeclaredAtMs em)"
proof -
  define em where "em = \<lparr>em_Declaration = [1], em_DeclaredAtMs = 2 ^ 63 - 1, em_WaitingPeriodMs = day_ms,
     em_AnnouncementPubkey = replicate 32 3, em_AnnouncementSig = []\<rparr>"
  define e0 where "e0 = demo_genesis\<lparr>ep_ActivatedAtMs := 0, ep_Emergency := Some em\<rparr>"
  define sig where "sig = replicate 32 3 @ demo_hash (emergencyAnnouncementMessage demo_hash e0)"
  define e where "e = e0\<lparr>ep_Emergency := Some (em\<lparr>em_AnnouncementSig := sig\<rparr>)\<rparr>"
  have "Canonical e = Canonical e0"
    by (simp add: e_def e0_def Canonical_def enc_emergency_def Let_def)
  then have "emergencyAnnouncementMessage demo_hash e = emergencyAnnouncementMessage demo_hash e0"
    by (simp add: emergencyAnnouncementMessage_def)
  then have "verifyEmergencyParams demo_ed demo_hash e = Inr ()"
    by (simp add: verifyEmergencyParams_def e_def e0_def em_def sig_def day_ms_def)
  then show ?thesis by (intro exI [of _ e]) (simp add: e_def e0_def em_def)
qed

end
