(* ===== verification/Protocol.thy ===== *)
theory Protocol
  imports Crypto
begin

text \<open>
  \<open>internal/daq/protocol.go\<close>: the request of the agent, the ticket, and the two canonical byte
  strings of the protocol: what the agent signs and what a witness hashes and signs. Go
  strings are byte lists. The theory shows that both encodings determine what they encode.
\<close>

definition Domain_daq :: bytes where "Domain_daq = str ''963causal-DAQ-V1''"

text \<open>\<open>Mode\<close> is a byte; only two values are named.\<close>

type_synonym mode = byte

definition ModeParallel :: mode where "ModeParallel = 0"
definition ModeSequential :: mode where "ModeSequential = 1"

definition Mode_String :: "mode \<Rightarrow> bytes option" where
  "Mode_String m = (if m = ModeParallel then Some (str ''parallel'')
     else if m = ModeSequential then Some (str ''sequential'') else None)"

record request =
  rq_OpID :: bytes
  rq_OpHash :: bytes
  rq_AgentPubkey :: bytes
  rq_AgentSignature :: bytes
  rq_DrandChain :: bytes
  rq_DrandRound :: u64
  rq_DrandSignature :: bytes
  rq_RequestedAtMs :: i64

record witness_signature =
  wsig_WitnessIndex :: int
  wsig_Pubkey :: bytes
  wsig_Signature :: bytes

record ticket =
  tk_Request :: request
  tk_Mode :: mode
  tk_Threshold :: int
  tk_RosterSize :: int
  tk_Witnesses :: "witness_signature list"
  tk_AggSignature :: bytes
  tk_AggMask :: bytes
  tk_CreatedAtMs :: i64

datatype protocol_error =
    Pr_nil_request
  | Pr_op_hash
  | Pr_drand_sig
  | Pr_op_id
  | Pr_drand_chain
  | Pr_agent_pubkey
  | Pr_seq_index
  | Pr_prev_sig
  | Pr_agent_sig_size
  | Pr_agent_sig

definition CanonicalRequestBytes :: "request option \<Rightarrow> protocol_error + bytes" where
  "CanonicalRequestBytes rq =
     (case rq of
        None \<Rightarrow> Inl Pr_nil_request
      | Some r \<Rightarrow>
          guard (length (rq_OpHash r) \<noteq> 32) Pr_op_hash (
          guard (length (rq_DrandSignature r) \<noteq> 48) Pr_drand_sig (
          guard (length (rq_OpID r) > 0xFFFF) Pr_op_id (
          guard (length (rq_DrandChain r) > 0xFFFF) Pr_drand_chain (
          Inr (Domain_daq @ str ''|agent-req|'' @ len16 (rq_OpID r) @ rq_OpHash r @ len16 (rq_DrandChain r)
            @ putUint64 (rq_DrandRound r) @ rq_DrandSignature r @ putUint64 (rq_RequestedAtMs r)))))))"

text \<open>The bytes \<open>WitnessInput\<close> writes into the hash.\<close>

definition witness_preimage :: "request \<Rightarrow> mode \<Rightarrow> int \<Rightarrow> bytes \<Rightarrow> bytes" where
  "witness_preimage r m seqIndex prevSig =
     Domain_daq @ str ''|witness|'' @ [m] @ len16 (rq_OpID r) @ rq_OpHash r @ len16 (rq_DrandChain r)
     @ putUint64 (rq_DrandRound r) @ rq_DrandSignature r @ rq_AgentPubkey r
     @ (if m = ModeSequential
        then putUint16 (of_int seqIndex) @ (if seqIndex > 0 then prevSig else [])
        else [])"

definition WitnessInput :: "hash \<Rightarrow> request option \<Rightarrow> mode \<Rightarrow> int \<Rightarrow> bytes \<Rightarrow> protocol_error + bytes" where
  "WitnessInput H rq m seqIndex prevSig =
     (case rq of
        None \<Rightarrow> Inl Pr_nil_request
      | Some r \<Rightarrow>
          guard (length (rq_OpHash r) \<noteq> 32) Pr_op_hash (
          guard (length (rq_DrandSignature r) \<noteq> 48) Pr_drand_sig (
          guard (length (rq_AgentPubkey r) \<noteq> 32) Pr_agent_pubkey (
          guard (m = ModeSequential \<and> (seqIndex < 0 \<or> seqIndex > 0xFFFF)) Pr_seq_index (
          guard (m = ModeSequential \<and> seqIndex > 0 \<and> length prevSig \<noteq> 48) Pr_prev_sig (
          Inr (H (witness_preimage r m seqIndex prevSig))))))))"

definition VerifyAgentSignature :: "ed25519 \<Rightarrow> request \<Rightarrow> protocol_error + unit" where
  "VerifyAgentSignature E r =
     guard (length (rq_AgentPubkey r) \<noteq> 32) Pr_agent_pubkey (
     guard (length (rq_AgentSignature r) \<noteq> 64) Pr_agent_sig_size (
     bind_r (CanonicalRequestBytes (Some r)) (\<lambda>msg.
     guard (\<not> ed_verify E (rq_AgentPubkey r) msg (rq_AgentSignature r)) Pr_agent_sig (Inr ()))))"

definition HashOperationPayload :: "hash \<Rightarrow> bytes \<Rightarrow> bytes" where
  "HashOperationPayload H payload = H payload"

subsection \<open>The encodings determine the fields\<close>

text \<open>What the agent signs, and what a witness signs, of a request.\<close>

definition agent_fields :: "request \<Rightarrow> bytes \<times> bytes \<times> bytes \<times> u64 \<times> bytes \<times> i64" where
  "agent_fields r = (rq_OpID r, rq_OpHash r, rq_DrandChain r, rq_DrandRound r, rq_DrandSignature r,
     rq_RequestedAtMs r)"

definition witness_fields :: "request \<Rightarrow> bytes \<times> bytes \<times> bytes \<times> u64 \<times> bytes \<times> bytes" where
  "witness_fields r = (rq_OpID r, rq_OpHash r, rq_DrandChain r, rq_DrandRound r, rq_DrandSignature r,
     rq_AgentPubkey r)"

lemma CanonicalRequestBytes_inject:
  assumes "CanonicalRequestBytes (Some r) = Inr b" and "CanonicalRequestBytes (Some r') = Inr b"
  shows "agent_fields r = agent_fields r'"
  using assms
  by (auto simp: CanonicalRequestBytes_def agent_fields_def len16_code.append_iff len16_code.inj
      u64_code.append_iff append_eq_append_conv)

text \<open>Requests a witness has checked: the fixed sizes, and names the length fields hold.\<close>

definition request_fits :: "request \<Rightarrow> bool" where
  "request_fits r \<longleftrightarrow> length (rq_OpID r) < 2 ^ 16 \<and> length (rq_DrandChain r) < 2 ^ 16 \<and>
     length (rq_OpHash r) = 32 \<and> length (rq_DrandSignature r) = 48 \<and> length (rq_AgentPubkey r) = 32"

lemma VerifyAgentSignature_fits: "VerifyAgentSignature E r = Inr () \<Longrightarrow> request_fits r"
  by (auto simp: VerifyAgentSignature_def CanonicalRequestBytes_def request_fits_def)

definition seq_ok :: "mode \<Rightarrow> int \<Rightarrow> bytes \<Rightarrow> bool" where
  "seq_ok m i p \<longleftrightarrow> m = ModeSequential \<longrightarrow> 0 \<le> i \<and> i \<le> 0xFFFF \<and> (i > 0 \<longrightarrow> length p = 48)"

lemma WitnessInput_Inr:
  "request_fits r \<Longrightarrow> WitnessInput H (Some r) m i p = Inr x \<longleftrightarrow>
     seq_ok m i p \<and> x = H (witness_preimage r m i p)"
  by (auto simp: WitnessInput_def request_fits_def seq_ok_def)

lemma u16_of_int_inject:
  "0 \<le> i \<Longrightarrow> i \<le> 0xFFFF \<Longrightarrow> 0 \<le> j \<Longrightarrow> j \<le> 0xFFFF \<Longrightarrow> (of_int i :: u16) = of_int j \<longleftrightarrow> i = j"
  by (auto simp: word_of_int_eq_iff take_bit_eq_mod)

text \<open>The part of the input that depends on the position in a sequential chain.\<close>

definition seq_fields :: "mode \<Rightarrow> int \<Rightarrow> bytes \<Rightarrow> (int \<times> bytes) option" where
  "seq_fields m i p = (if m = ModeSequential then Some (i, if i > 0 then p else []) else None)"

lemma witness_preimage_inject:
  assumes "request_fits r" and "request_fits r'" and "seq_ok m i p" and "seq_ok m' i' p'"
    and "witness_preimage r m i p = witness_preimage r' m' i' p'"
  shows "m = m' \<and> witness_fields r = witness_fields r' \<and> seq_fields m i p = seq_fields m' i' p'"
  using assms
  by (auto simp: witness_preimage_def witness_fields_def seq_fields_def request_fits_def seq_ok_def
      len16_code.append_iff u64_code.append_iff u16_code.append_iff append_eq_append_conv
      u16_of_int_inject split: if_splits)

end
