(* ===== verification/Bls.thy ===== *)
theory Bls
  imports Crypto
begin

text \<open>
  \<open>internal/daq/bls.go\<close>: the program's wrapper around \<open>drand/kyber\<close> (BDN signatures on
  BLS12-381, participation masks). Scalars, points and masks of the package are type
  parameters; its operations are the fields of \<open>kyber\<close>, and what its documentation promises
  is \<open>kyber_ok\<close>. A nil \<open>*PublicKey\<close> is \<open>None\<close>.
\<close>

record ('s, 'p, 'm) kyber =
  ky_new_key_pair :: "(nat \<Rightarrow> byte) \<Rightarrow> 's \<times> 'p"
  ky_base_mul :: "'s \<Rightarrow> 'p" \<comment> \<open>\<open>G2().Point().Mul(s, nil)\<close>\<close>
  ky_scalar_marshal :: "'s \<Rightarrow> bytes option"
  ky_scalar_unmarshal :: "bytes \<Rightarrow> 's option"
  ky_point_marshal :: "'p \<Rightarrow> bytes option"
  ky_point_unmarshal :: "bytes \<Rightarrow> 'p option"
  ky_point_eq :: "'p \<Rightarrow> 'p \<Rightarrow> bool"
  ky_sign :: "'s \<Rightarrow> bytes \<Rightarrow> bytes option"
  ky_verify :: "'p \<Rightarrow> bytes \<Rightarrow> bytes \<Rightarrow> bool"
  ky_new_mask :: "'p list \<Rightarrow> 'm option"
  ky_set_bit :: "'m \<Rightarrow> nat \<Rightarrow> 'm option" \<comment> \<open>\<open>SetBit(i, true)\<close>\<close>
  ky_set_mask :: "'m \<Rightarrow> bytes \<Rightarrow> 'm option"
  ky_mask_bytes :: "'m \<Rightarrow> bytes"
  ky_count_enabled :: "'m \<Rightarrow> nat"
  ky_count_total :: "'m \<Rightarrow> nat"
  ky_aggregate_signatures :: "bytes list \<Rightarrow> 'm \<Rightarrow> 'p option"
  ky_aggregate_public_keys :: "'m \<Rightarrow> 'p option"

definition PubkeySize :: nat where "PubkeySize = 96"
definition SignatureSize :: nat where "SignatureSize = 48"

datatype bls_error =
    Bls_nil_key
  | Bls_scheme
  | Bls_pubkey_size
  | Bls_unmarshal
  | Bls_empty_roster
  | Bls_count_mismatch
  | Bls_nil_pubkey nat
  | Bls_new_mask
  | Bls_participant int
  | Bls_set_bit
  | Bls_aggregate
  | Bls_marshal
  | Bls_signature_size
  | Bls_set_mask
  | Bls_few_participants nat
  | Bls_invalid
  | Bls_panic_index \<comment> \<open>\<open>mask.Mask()[i/8]\<close> or \<open>pk.p\<close> on a nil key panics\<close>

text \<open>A \<open>PrivateKey\<close> carries its scalar and the cached public point.\<close>

type_synonym ('s, 'p) private_key = "('s \<times> 'p) option"

definition GenerateKeyPair :: "('s, 'p, 'm) kyber \<Rightarrow> (nat \<Rightarrow> byte) \<Rightarrow> ('s, 'p) private_key \<times> 'p option" where
  "GenerateKeyPair K stream = (case ky_new_key_pair K stream of (s, p) \<Rightarrow> (Some (s, p), Some p))"

definition Public :: "('s, 'p) private_key \<Rightarrow> 'p option" where
  "Public k = map_option snd k"

definition marshal_private :: "('s, 'p, 'm) kyber \<Rightarrow> ('s, 'p) private_key \<Rightarrow> bls_error + bytes" where
  "marshal_private K k = (case k of None \<Rightarrow> Inl Bls_nil_key
     | Some (s, p) \<Rightarrow> (case ky_scalar_marshal K s of None \<Rightarrow> Inl Bls_marshal | Some b \<Rightarrow> Inr b))"

definition UnmarshalPrivateKey :: "('s, 'p, 'm) kyber \<Rightarrow> bytes \<Rightarrow> bls_error + ('s, 'p) private_key" where
  "UnmarshalPrivateKey K b = (case ky_scalar_unmarshal K b of None \<Rightarrow> Inl Bls_unmarshal
     | Some s \<Rightarrow> Inr (Some (s, ky_base_mul K s)))"

definition marshal_public :: "('s, 'p, 'm) kyber \<Rightarrow> 'p option \<Rightarrow> bls_error + bytes" where
  "marshal_public K p = (case p of None \<Rightarrow> Inl Bls_nil_key
     | Some q \<Rightarrow> (case ky_point_marshal K q of None \<Rightarrow> Inl Bls_marshal | Some b \<Rightarrow> Inr b))"

definition UnmarshalPublicKey :: "('s, 'p, 'm) kyber \<Rightarrow> bytes \<Rightarrow> bls_error + 'p option" where
  "UnmarshalPublicKey K b = guard (length b \<noteq> PubkeySize) Bls_pubkey_size
     (case ky_point_unmarshal K b of None \<Rightarrow> Inl Bls_unmarshal | Some p \<Rightarrow> Inr (Some p))"

definition Equal :: "('s, 'p, 'm) kyber \<Rightarrow> 'p option \<Rightarrow> 'p option \<Rightarrow> bool" where
  "Equal K p other = (case (p, other) of (Some a, Some b) \<Rightarrow> ky_point_eq K a b | _ \<Rightarrow> False)"

definition Sign :: "('s, 'p, 'm) kyber \<Rightarrow> ('s, 'p) private_key \<Rightarrow> bytes \<Rightarrow> bls_error + bytes" where
  "Sign K priv msg = (case priv of None \<Rightarrow> Inl Bls_nil_key
     | Some (s, p) \<Rightarrow> (case ky_sign K s msg of None \<Rightarrow> Inl Bls_scheme | Some sig \<Rightarrow> Inr sig))"

definition VerifyIndividual :: "('s, 'p, 'm) kyber \<Rightarrow> 'p option \<Rightarrow> bytes \<Rightarrow> bytes \<Rightarrow> bls_error + unit" where
  "VerifyIndividual K pub msg sig = (case pub of None \<Rightarrow> Inl Bls_nil_key
     | Some p \<Rightarrow> guard (\<not> ky_verify K p msg sig) Bls_invalid (Inr ()))"

subsection \<open>Aggregates\<close>

text \<open>The loop that unwraps the roster's points.\<close>

fun roster_points :: "nat \<Rightarrow> 'p option list \<Rightarrow> bls_error + 'p list" where
  "roster_points i [] = Inr []"
| "roster_points i (pk # rest) = (case pk of
     None \<Rightarrow> Inl (Bls_nil_pubkey i)
   | Some p \<Rightarrow> bind_r (roster_points (i + 1) rest) (\<lambda>ps. Inr (p # ps)))"

fun set_bits :: "('s, 'p, 'm) kyber \<Rightarrow> nat \<Rightarrow> 'm \<Rightarrow> int list \<Rightarrow> bls_error + 'm" where
  "set_bits K n mk [] = Inr mk"
| "set_bits K n mk (idx # rest) =
     guard (idx < 0 \<or> idx \<ge> int n) (Bls_participant idx)
       (case ky_set_bit K mk (nat idx) of
          None \<Rightarrow> Inl Bls_set_bit
        | Some mk' \<Rightarrow> set_bits K n mk' rest)"

record aggregate_result =
  ar_Signature :: bytes
  ar_Mask :: bytes
  ar_Count :: nat

definition AggregateSigs :: "('s, 'p, 'm) kyber \<Rightarrow> 'p option list \<Rightarrow> int list \<Rightarrow> bytes list
    \<Rightarrow> bls_error + aggregate_result" where
  "AggregateSigs K roster participantIndexes sigs =
     guard (roster = []) Bls_empty_roster (
     guard (length participantIndexes \<noteq> length sigs) Bls_count_mismatch (
     bind_r (roster_points 0 roster) (\<lambda>pubs.
     case ky_new_mask K pubs of
       None \<Rightarrow> Inl Bls_new_mask
     | Some mk0 \<Rightarrow>
         bind_r (set_bits K (length roster) mk0 participantIndexes) (\<lambda>mk.
         case ky_aggregate_signatures K sigs mk of
           None \<Rightarrow> Inl Bls_aggregate
         | Some aggPoint \<Rightarrow>
             (case ky_point_marshal K aggPoint of
                None \<Rightarrow> Inl Bls_marshal
              | Some aggBytes \<Rightarrow> Inr \<lparr>ar_Signature = aggBytes, ar_Mask = ky_mask_bytes K mk,
                  ar_Count = ky_count_enabled K mk\<rparr>)))))"

definition VerifyAggregate :: "('s, 'p, 'm) kyber \<Rightarrow> 'p option list \<Rightarrow> bytes \<Rightarrow> bytes \<Rightarrow> bytes \<Rightarrow> int
    \<Rightarrow> bls_error + unit" where
  "VerifyAggregate K roster maskBytes sig msg minParticipants =
     guard (roster = []) Bls_empty_roster (
     guard (length sig \<noteq> SignatureSize) Bls_signature_size (
     bind_r (roster_points 0 roster) (\<lambda>pubs.
     case ky_new_mask K pubs of
       None \<Rightarrow> Inl Bls_new_mask
     | Some mk0 \<Rightarrow>
         (case ky_set_mask K mk0 maskBytes of
            None \<Rightarrow> Inl Bls_set_mask
          | Some mk \<Rightarrow>
              guard (int (ky_count_enabled K mk) < minParticipants)
                (Bls_few_participants (ky_count_enabled K mk))
                (case ky_aggregate_public_keys K mk of
                   None \<Rightarrow> Inl Bls_aggregate
                 | Some aggPub \<Rightarrow> guard (\<not> ky_verify K aggPub msg sig) Bls_invalid (Inr ()))))))"

definition Participants :: "('s, 'p, 'm) kyber \<Rightarrow> 'p option list \<Rightarrow> bytes \<Rightarrow> bls_error + nat list" where
  "Participants K roster maskBytes =
     guard (roster = []) Bls_empty_roster (
     guard (None \<in> set roster) Bls_panic_index (
     case ky_new_mask K (map the roster) of
       None \<Rightarrow> Inl Bls_new_mask
     | Some mk0 \<Rightarrow>
         (case ky_set_mask K mk0 maskBytes of
            None \<Rightarrow> Inl Bls_set_mask
          | Some mk \<Rightarrow>
              guard (\<exists>i \<in> set [0..<ky_count_total K mk]. length (ky_mask_bytes K mk) \<le> i div 8) Bls_panic_index
                (Inr (filter (\<lambda>i. (ky_mask_bytes K mk ! (i div 8)) AND push_bit (i mod 8) 1 \<noteq> 0)
                   [0..<ky_count_total K mk])))))"

subsection \<open>What the package documents\<close>

text \<open>
  A mask stands for a list of keys and the set of enabled positions. Setting bits on a fresh
  mask and setting the whole mask from its bytes give the same mask; the aggregate of
  signatures of one message by the enabled keys, in the order of their positions, verifies
  under the aggregate of those keys.
\<close>

definition sign_ok :: "('s, 'p, 'm) kyber \<Rightarrow> bool" where
  "sign_ok K \<longleftrightarrow> (\<forall>s msg. \<exists>sig. ky_sign K s msg = Some sig \<and> length sig = 48 \<and>
     ky_verify K (ky_base_mul K s) msg sig) \<and> (\<forall>f. snd (ky_new_key_pair K f) = ky_base_mul K (fst (ky_new_key_pair K f)))"

text \<open>The mask over \<open>ps\<close> with the positions of \<open>idxs\<close> enabled, as \<open>set_bits\<close> computes it.\<close>

definition mask_of :: "('s, 'p, 'm) kyber \<Rightarrow> 'p list \<Rightarrow> int list \<Rightarrow> 'm \<Rightarrow> bool" where
  "mask_of K ps idxs m \<longleftrightarrow> (\<exists>m0. ky_new_mask K ps = Some m0 \<and> set_bits K (length ps) m0 idxs = Inr m)"

definition mask_ok :: "('s, 'p, 'm) kyber \<Rightarrow> bool" where
  "mask_ok K \<longleftrightarrow> (\<forall>ps idxs. ps \<noteq> [] \<longrightarrow> list_all (\<lambda>i. 0 \<le> i \<and> i < int (length ps)) idxs \<longrightarrow>
     (\<exists>m0 m. ky_new_mask K ps = Some m0 \<and> set_bits K (length ps) m0 idxs = Inr m \<and>
        ky_set_mask K m0 (ky_mask_bytes K m) = Some m \<and> ky_mask_bytes K m \<noteq> [] \<and>
        ky_count_enabled K m = card (set idxs)))"

definition aggregate_ok :: "('s, 'p, 'm) kyber \<Rightarrow> bool" where
  "aggregate_ok K \<longleftrightarrow> (\<forall>ps idxs m sigs msg. mask_of K ps idxs m \<longrightarrow> sorted_wrt (<) idxs \<longrightarrow> idxs \<noteq> [] \<longrightarrow>
     list_all2 (\<lambda>i sig. ky_verify K (ps ! nat i) msg sig) idxs sigs \<longrightarrow>
     (\<exists>P b Q. ky_aggregate_signatures K sigs m = Some P \<and> ky_point_marshal K P = Some b \<and> length b = 48 \<and>
        ky_aggregate_public_keys K m = Some Q \<and> ky_verify K Q msg b))"

definition kyber_ok :: "('s, 'p, 'm) kyber \<Rightarrow> bool" where
  "kyber_ok K \<longleftrightarrow> sign_ok K \<and> mask_ok K \<and> aggregate_ok K"

text \<open>A signature is good for one message only, on messages of at most 32 bytes.\<close>

definition bls_binds :: "('s, 'p, 'm) kyber \<Rightarrow> bool" where
  "bls_binds K \<longleftrightarrow> (\<forall>p msg msg' sig. length msg \<le> 32 \<longrightarrow> length msg' \<le> 32 \<longrightarrow>
     ky_verify K p msg sig \<longrightarrow> ky_verify K p msg' sig \<longrightarrow> msg = msg')"

lemma roster_points_Some: "roster_points i (map Some ps) = Inr ps"
  by (induction ps arbitrary: i) simp_all

lemma roster_points_Inr: "roster_points i roster = Inr ps \<longleftrightarrow> roster = map Some ps"
  by (induction roster arbitrary: i ps) (auto split: option.splits)

lemma aggregate_verifies:
  assumes "kyber_ok K" and "ps \<noteq> []" and "list_all (\<lambda>i. 0 \<le> i \<and> i < int (length ps)) idxs"
    and "sorted_wrt (<) idxs" and "idxs \<noteq> []"
    and "list_all2 (\<lambda>i sig. ky_verify K (ps ! nat i) msg sig) idxs sigs"
    and "minp \<le> int (length idxs)"
  obtains r where "AggregateSigs K (map Some ps) idxs sigs = Inr r" and "ar_Mask r \<noteq> []" and "ar_Signature r \<noteq> []"
    and "VerifyAggregate K (map Some ps) (ar_Mask r) (ar_Signature r) msg minp = Inr ()"
proof -
  obtain m0 m where m: "ky_new_mask K ps = Some m0" "set_bits K (length ps) m0 idxs = Inr m"
    "ky_set_mask K m0 (ky_mask_bytes K m) = Some m" "ky_mask_bytes K m \<noteq> []"
    "ky_count_enabled K m = card (set idxs)"
    using assms(1-3) unfolding kyber_ok_def mask_ok_def by blast
  have "mask_of K ps idxs m" using m by (auto simp: mask_of_def)
  then obtain P b Q where a: "ky_aggregate_signatures K sigs m = Some P" "ky_point_marshal K P = Some b"
    "length b = 48" "ky_aggregate_public_keys K m = Some Q" "ky_verify K Q msg b"
    using assms(1,4-6) unfolding kyber_ok_def aggregate_ok_def by blast
  have "distinct idxs" using assms(4) by (simp add: strict_sorted_iff)
  then have c: "card (set idxs) = length idxs" by (rule distinct_card)
  have l: "length idxs = length sigs" using assms(6) by (rule list_all2_lengthD)
  have b: "b \<noteq> []" using a(3) by auto
  show ?thesis
    by (rule that [of "\<lparr>ar_Signature = b, ar_Mask = ky_mask_bytes K m, ar_Count = ky_count_enabled K m\<rparr>"])
      (use assms(2,7) m a l c b in \<open>simp_all add: AggregateSigs_def VerifyAggregate_def roster_points_Some SignatureSize_def\<close>)
qed

end
