(* ===== verification/Hex.thy ===== *)
theory Hex
  imports Prelude
begin

text \<open>
  \<open>encoding/hex\<close> as the program uses it on its JSON wire formats: lower-case encoding,
  decoding of both cases, an error on odd length or a foreign character. Strings are byte
  lists.
\<close>

definition hex_digit :: "byte \<Rightarrow> byte" where
  "hex_digit n = (if unat n < 10 then n + 48 else n + 87)"

definition hex_value :: "byte \<Rightarrow> byte option" where
  "hex_value c =
     (let x = unat c in
      if 48 \<le> x \<and> x \<le> 57 then Some (c - 48)
      else if 97 \<le> x \<and> x \<le> 102 then Some (c - 87)
      else if 65 \<le> x \<and> x \<le> 70 then Some (c - 55) else None)"

definition hex_encode :: "bytes \<Rightarrow> bytes" where
  "hex_encode bs = concat (map (\<lambda>b. [hex_digit (drop_bit 4 b), hex_digit (b AND 15)]) bs)"

fun hex_decode :: "bytes \<Rightarrow> bytes option" where
  "hex_decode [] = Some []"
| "hex_decode [c] = None"
| "hex_decode (c # d # cs) =
     (case (hex_value c, hex_value d, hex_decode cs) of
        (Some h, Some l, Some bs) \<Rightarrow> Some ((push_bit 4 h OR l) # bs)
      | _ \<Rightarrow> None)"

lemma hex_value_digit:
  assumes "unat n < 16"
  shows "hex_value (hex_digit n) = Some n"
proof -
  define k where "k = unat n"
  then have k: "n = of_nat k" "k < 16" using assms by simp_all
  have "list_all (\<lambda>k. hex_value (hex_digit (of_nat k)) = Some (of_nat k))
      [0, 1, 2, 3, 4, 5, 6, 7, 8, 9, 10, 11, 12, 13, 14, 15]"
    unfolding list.pred_inject by (simp add: hex_digit_def hex_value_def)
  moreover have "k \<in> set [0, 1, 2, 3, 4, 5, 6, 7, 8, 9, 10, 11, 12, 13, 14, 15]"
  proof -
    have "[0..<16] = [0, 1, 2, 3, 4, 5, 6, 7, 8, 9, 10, 11, 12, 13, 14, 15::nat]" by code_simp
    moreover have "k \<in> set [0..<16]" using k(2) by (simp only: set_upt atLeastLessThan_iff zero_le simp_thms)
    ultimately show ?thesis by simp
  qed
  ultimately show ?thesis unfolding k(1) list_all_iff by (rule bspec)
qed

lemma nibbles: "unat (drop_bit 4 (b :: byte)) < 16" "unat (b AND 15) < 16"
  "push_bit 4 (drop_bit 4 b) OR (b AND 15) = b"
proof -
  have m: "(15 :: byte) = mask 4" by (simp add: mask_eq_exp_minus_1)
  show "unat (drop_bit 4 b) < 16"
  proof -
    have "unat b < 256" using unsigned_less [of b] by simp
    then have "unat b div 16 < 16" by (simp add: less_mult_imp_div_less)
    then show ?thesis by (simp add: drop_bit_eq_div unat_div_distrib)
  qed
  show "unat (b AND 15) < 16"
    unfolding m by (simp add: unsigned_take_bit_eq take_bit_eq_mod unat_mod_distrib flip: take_bit_eq_mask)
  show "push_bit 4 (drop_bit 4 b) OR (b AND 15) = b"
    unfolding m by (rule bit_word_eqI) (auto simp: bit_or_iff bit_push_bit_iff bit_drop_bit_eq bit_and_iff bit_mask_iff possible_bit_word)
qed

lemma hex_round_trip [simp]: "hex_decode (hex_encode bs) = Some bs"
  by (induction bs) (simp_all add: hex_encode_def hex_value_digit nibbles)

lemma length_hex_encode [simp]: "length (hex_encode bs) = 2 * length bs"
  by (induction bs) (simp_all add: hex_encode_def)

end
