(* ===== verification/Drand.thy ===== *)
theory Drand
  imports Bls Hex
begin

text \<open>
  \<open>internal/daq/drand.go\<close> and \<open>drand_verify.go\<close>: the beacon client, its cached chain
  information, the freshness window and the check of a beacon signature. The HTTP requests
  are a parameter: what each endpoint answers, already decoded from JSON. \<open>time.Time\<close> is its
  Unix second.
\<close>

record chain_info =
  ci_Chain :: bytes
  ci_Period :: int
  ci_GenesisTime :: i64
  ci_PublicKey :: bytes

record round_rec =
  rd_Chain :: bytes
  rd_Round :: u64
  rd_Randomness :: bytes
  rd_Signature :: bytes
  rd_RoundTimeUnix :: i64
  rd_Period :: int

text \<open>\<open>getJSON\<close> and \<open>json.Unmarshal\<close> fail, or the decoded reply.\<close>

datatype info_reply = Info_failed | Info_reply int i64 bytes
datatype round_reply = Round_failed | Round_reply u64 bytes bytes

record drand_client =
  dc_endpoints :: "bytes list"
  dc_chain :: bytes
  dc_info :: "chain_info option"

record network =
  net_info :: "bytes \<Rightarrow> bytes \<Rightarrow> info_reply" \<comment> \<open>endpoint, chain\<close>
  net_round :: "bytes \<Rightarrow> bytes \<Rightarrow> bytes \<Rightarrow> round_reply" \<comment> \<open>endpoint, chain, path\<close>

datatype drand_error =
    Dr_no_endpoint
  | Dr_nil_info
  | Dr_stale
  | Dr_sig_size
  | Dr_pubkey_size
  | Dr_round_zero
  | Dr_unmarshal
  | Dr_invalid
  | Dr_scheme

definition DefaultDrandChain :: bytes where
  "DefaultDrandChain = str ''52db9ba70e0cc0f6eaf7803dd07447a1f5477735fd3f661792ba94600c84e971''"

definition DefaultDrandEndpoints :: "bytes list" where
  "DefaultDrandEndpoints = [str ''https://api.drand.sh'', str ''https://api2.drand.sh'',
     str ''https://api3.drand.sh'', str ''https://drand.cloudflare.com'']"

definition NewDrandClient :: "bytes \<Rightarrow> bytes list \<Rightarrow> drand_client" where
  "NewDrandClient chain endpoints =
     \<lparr>dc_endpoints = (if endpoints = [] then DefaultDrandEndpoints else endpoints),
      dc_chain = (if chain = [] then DefaultDrandChain else chain), dc_info = None\<rparr>"

text \<open>The decoding error of the public key is dropped: a partial decode gives some bytes, here
  the empty list.\<close>

fun info_loop :: "network \<Rightarrow> bytes \<Rightarrow> bytes list \<Rightarrow> chain_info option" where
  "info_loop N chain [] = None"
| "info_loop N chain (ep # eps) =
     (case net_info N ep chain of
        Info_failed \<Rightarrow> info_loop N chain eps
      | Info_reply period genesis pk \<Rightarrow>
          if period \<le> 0 then info_loop N chain eps
          else Some \<lparr>ci_Chain = chain, ci_Period = period, ci_GenesisTime = genesis,
                 ci_PublicKey = (case hex_decode pk of Some b \<Rightarrow> b | None \<Rightarrow> [])\<rparr>)"

definition Info :: "network \<Rightarrow> drand_client \<Rightarrow> drand_client \<times> (drand_error + chain_info)" where
  "Info N c =
     (case dc_info c of
        Some i \<Rightarrow> (c, Inr i)
      | None \<Rightarrow> (case info_loop N (dc_chain c) (dc_endpoints c) of
            None \<Rightarrow> (c, Inl Dr_no_endpoint)
          | Some i \<Rightarrow> (c\<lparr>dc_info := Some i\<rparr>, Inr i)))"

fun fetch_loop :: "network \<Rightarrow> chain_info \<Rightarrow> bytes \<Rightarrow> bytes \<Rightarrow> bytes list \<Rightarrow> drand_error + round_rec" where
  "fetch_loop N info chain path [] = Inl Dr_no_endpoint"
| "fetch_loop N info chain path (ep # eps) =
     (case net_round N ep chain path of
        Round_failed \<Rightarrow> fetch_loop N info chain path eps
      | Round_reply r randomness signature \<Rightarrow>
          if r = 0 \<or> signature = [] then fetch_loop N info chain path eps
          else (case (hex_decode randomness, hex_decode signature) of
              (Some randBytes, Some sigBytes) \<Rightarrow>
                if length sigBytes \<noteq> 48 then fetch_loop N info chain path eps
                else Inr \<lparr>rd_Chain = chain, rd_Round = r, rd_Randomness = randBytes, rd_Signature = sigBytes,
                       rd_RoundTimeUnix = ci_GenesisTime info + (r - 1) * of_int (ci_Period info),
                       rd_Period = ci_Period info\<rparr>
            | _ \<Rightarrow> fetch_loop N info chain path eps))"

definition fetch :: "network \<Rightarrow> drand_client \<Rightarrow> bytes \<Rightarrow> drand_client \<times> (drand_error + round_rec)" where
  "fetch N c path =
     (case Info N c of
        (c', Inl e) \<Rightarrow> (c', Inl e)
      | (c', Inr info) \<Rightarrow> (c', fetch_loop N info (dc_chain c') path (dc_endpoints c')))"

definition FetchLatest :: "network \<Rightarrow> drand_client \<Rightarrow> drand_client \<times> (drand_error + round_rec)" where
  "FetchLatest N c = fetch N c (str ''latest'')"

text \<open>\<open>FetchRound\<close> prints the number in decimal; the printer is a parameter here.\<close>

definition FetchRound :: "(u64 \<Rightarrow> bytes) \<Rightarrow> network \<Rightarrow> drand_client \<Rightarrow> u64 \<Rightarrow> drand_client \<times> (drand_error + round_rec)" where
  "FetchRound decimal N c r = fetch N c (decimal r)"

subsection \<open>Freshness\<close>

definition ExpectedRound :: "chain_info option \<Rightarrow> i64 \<Rightarrow> u64" where
  "ExpectedRound info now =
     (case info of
        None \<Rightarrow> 0
      | Some i \<Rightarrow>
          if ci_Period i \<le> 0 then 0
          else let dt = now - ci_GenesisTime i in
            if i64_less dt 0 then 1 else of_int (sint dt div ci_Period i) + 1)"

definition CheckFreshness :: "chain_info option \<Rightarrow> u64 \<Rightarrow> i64 \<Rightarrow> int \<Rightarrow> drand_error + unit" where
  "CheckFreshness info r now maxLag =
     (case info of
        None \<Rightarrow> Inl Dr_nil_info
      | Some i \<Rightarrow>
          let expected = ExpectedRound info now;
              gap = (if r > expected then r - expected else expected - r)
          in guard (sint gap > maxLag) Dr_stale (Inr ()))"

subsection \<open>Beacon signatures\<close>

definition drandMsgBLSUnchained :: "hash \<Rightarrow> u64 \<Rightarrow> bytes" where
  "drandMsgBLSUnchained sha256 r = sha256 (putUint64 r)"

definition VerifyDrandBeacon :: "('s, 'p, 'm) kyber \<Rightarrow> hash \<Rightarrow> u64 \<Rightarrow> bytes \<Rightarrow> bytes \<Rightarrow> drand_error + unit" where
  "VerifyDrandBeacon K sha256 r sig chainPub =
     guard (length sig \<noteq> 48) Dr_sig_size (
     guard (length chainPub \<noteq> 96) Dr_pubkey_size (
     guard (r = 0) Dr_round_zero (
     case ky_point_unmarshal K chainPub of
       None \<Rightarrow> Inl Dr_unmarshal
     | Some pubPoint \<Rightarrow>
         guard (\<not> ky_verify K pubPoint (drandMsgBLSUnchained sha256 r) sig) Dr_invalid (Inr ()))))"

definition WellKnownFastnetChainPubkey :: bytes where
  "WellKnownFastnetChainPubkey = str
     (''83cf0f2896adee7eb8b5f01fcad3912212c437e0073e911fb90022d3e760183c'' @
      ''8c4b450b6a0a6c3ac6a5776a2d1064510d1fec758c921cc22b0e17e63aaf4bcb'' @
      ''5ed66304de9cf809bd274ca73bab4af5a6e9c76a4bc09e76eae8991ef5ece45a'')"

text \<open>\<open>None\<close> is the panic on a malformed constant.\<close>

definition ExpectedChainPubkey :: "bytes option" where
  "ExpectedChainPubkey = (case hex_decode WellKnownFastnetChainPubkey of
     None \<Rightarrow> None | Some b \<Rightarrow> if length b \<noteq> 96 then None else Some b)"

definition ValidateChainScheme :: "bytes \<Rightarrow> drand_error + unit" where
  "ValidateChainScheme schemeID =
     (if schemeID = str ''bls-unchained-g1-rfc9380'' \<or> schemeID = str ''bls-unchained-g1'' \<or> schemeID = []
      then Inr () else Inl Dr_scheme)"

subsection \<open>Lemmas\<close>

lemma hex_decode_length: "hex_decode cs = Some bs \<Longrightarrow> length cs = 2 * length bs"
  by (induction cs arbitrary: bs rule: hex_decode.induct) (auto split: option.splits)

definition hex_char :: "byte \<Rightarrow> bool" where
  "hex_char c \<longleftrightarrow> hex_value c \<noteq> None"

lemma hex_decode_total: "list_all hex_char cs \<Longrightarrow> even (length cs) \<Longrightarrow> \<exists>bs. hex_decode cs = Some bs"
  by (induction cs rule: hex_decode.induct) (auto simp: hex_char_def)

text \<open>The pinned key decodes: the panic of \<open>ExpectedChainPubkey\<close> is never taken.\<close>

lemma well_known_chars: "list_all hex_char WellKnownFastnetChainPubkey"
  by (simp add: WellKnownFastnetChainPubkey_def str_def hex_char_def hex_value_def of_char_def)

lemma pinned_key_decodes: "\<exists>b. ExpectedChainPubkey = Some b \<and> length b = 96"
proof -
  have l: "length WellKnownFastnetChainPubkey = 192" by (simp add: WellKnownFastnetChainPubkey_def)
  obtain b where b: "hex_decode WellKnownFastnetChainPubkey = Some b"
    using hex_decode_total [OF well_known_chars] l by auto
  from hex_decode_length [OF b] l have "length b = 96" by simp
  with b show ?thesis by (simp add: ExpectedChainPubkey_def)
qed

lemma freshness_iff:
  assumes "0 \<le> lag" and "lag < 2 ^ 63"
  shows "CheckFreshness (Some i) r now lag = Inr () \<longleftrightarrow>
    (let d = \<bar>int (unat r) - int (unat (ExpectedRound (Some i) now))\<bar> in d \<le> lag \<or> 2 ^ 63 \<le> d)"
proof -
  define e where "e = ExpectedRound (Some i) now"
  define g where "g = (if r > e then r - e else e - r)"
  have G: "int (unat g) = \<bar>int (unat r) - int (unat e)\<bar>"
  proof (cases "r > e")
    case True
    then have "unat e < unat r" by (simp add: word_less_nat_alt)
    moreover from True have "unat g = unat r - unat e" by (simp add: g_def unat_sub less_imp_le)
    ultimately show ?thesis by linarith
  next
    case False
    then have "unat r \<le> unat e" by (simp add: word_le_nat_alt not_less)
    moreover from False have "unat g = unat e - unat r" by (simp add: g_def unat_sub not_less)
    ultimately show ?thesis by linarith
  qed
  have "(2 ^ 63 \<le> n) = (2 ^ 63 \<le> int n)" for n by simp
  then have K: "(2 ^ 63 \<le> unat g) = (2 ^ 63 \<le> int (unat g))" .
  have C: "(CheckFreshness (Some i) r now lag = Inr ()) = (sint g \<le> lag)"
    by (simp add: CheckFreshness_def Let_def not_less flip: e_def g_def)
  show ?thesis unfolding C sint_gap [OF assms] K G Let_def e_def [symmetric] by (rule refl)
qed

text \<open>What a successful fetch returns.\<close>

lemma fetch_loop_Inr:
  "fetch_loop N info chain path eps = Inr rd \<Longrightarrow>
   rd_Chain rd = chain \<and> rd_Round rd \<noteq> 0 \<and> length (rd_Signature rd) = 48"
  by (induction N info chain path eps rule: fetch_loop.induct)
    (auto split: round_reply.splits option.splits if_splits)

lemma FetchLatest_Inr:
  "snd (FetchLatest N c) = Inr rd \<Longrightarrow> rd_Chain rd = dc_chain c \<and> rd_Round rd \<noteq> 0 \<and> length (rd_Signature rd) = 48"
  by (auto simp: FetchLatest_def fetch_def Info_def dest!: fetch_loop_Inr split: option.splits prod.splits)

end
