(* ===== verification/Witness.thy ===== *)
theory Witness
  imports Protocol Drand
begin

text \<open>
  \<open>internal/daq/witness.go\<close>: a witness answering \<open>POST /daq/sign\<close>. The HTTP request is its
  method, \<open>Authorization\<close> header and decoded JSON body; the reply is a status or the JSON
  answer. The handler may fill the cache of its drand client, which is returned. Reading key
  files (\<open>SaveWitnessKey\<close>, \<open>LoadOrCreateWitnessKey\<close>) is not modelled.
\<close>

record witness_request_json =
  wj_OpID :: bytes
  wj_OpHashHex :: bytes
  wj_AgentPubkeyHex :: bytes
  wj_AgentSigHex :: bytes
  wj_DrandChain :: bytes
  wj_DrandRound :: u64
  wj_DrandSigHex :: bytes
  wj_RequestedAtMs :: i64
  wj_Mode :: bytes
  wj_SeqIndex :: int
  wj_PrevSigHex :: bytes

record witness_response_json =
  rj_WitnessIndex :: int
  rj_Label :: bytes
  rj_PubkeyHex :: bytes
  rj_SignatureHex :: bytes
  rj_SignedAtMs :: i64

record ('s, 'p) witness_config =
  wc_Index :: int
  wc_Label :: bytes
  wc_Priv :: "('s, 'p) private_key"
  wc_Drand :: drand_client
  wc_MaxRoundLag :: int
  wc_VerifyDrand :: bool
  wc_DrandChainPubkey :: bytes
  wc_AuthTokenHash :: bytes

record parsed_request =
  pr_Request :: request
  pr_Mode :: mode
  pr_SeqIndex :: int
  pr_PrevSig :: bytes

datatype parse_error =
    Ps_op_id
  | Ps_op_hash
  | Ps_agent_pubkey
  | Ps_agent_sig
  | Ps_drand_sig
  | Ps_mode
  | Ps_prev_sig

text \<open>The status the handler answers with, and why.\<close>

datatype http_error =
    MethodNotAllowed
  | Unauthorized_missing
  | Unauthorized_token
  | BadRequest_decode
  | BadRequest_parse parse_error
  | Unauthorized_agent protocol_error
  | BadRequest_drand drand_error
  | BadGateway_info
  | BadRequest_stale drand_error
  | BadRequest_input protocol_error
  | Internal_sign bls_error
  | Panic_chain_pubkey

definition HashAuthToken :: "hash \<Rightarrow> bytes \<Rightarrow> bytes" where
  "HashAuthToken sha256 token = sha256 token"

text \<open>A hex field of a fixed size.\<close>

definition hex_field :: "nat \<Rightarrow> bytes \<Rightarrow> bytes option" where
  "hex_field n h = (case hex_decode h of Some b \<Rightarrow> if length b \<noteq> n then None else Some b | None \<Rightarrow> None)"

definition parseWitnessRequest :: "witness_request_json \<Rightarrow> parse_error + parsed_request" where
  "parseWitnessRequest r =
     guard (wj_OpID r = []) Ps_op_id (
     case hex_field 32 (wj_OpHashHex r) of None \<Rightarrow> Inl Ps_op_hash | Some opHash \<Rightarrow>
     (case hex_field 32 (wj_AgentPubkeyHex r) of None \<Rightarrow> Inl Ps_agent_pubkey | Some agentPub \<Rightarrow>
     (case hex_field 64 (wj_AgentSigHex r) of None \<Rightarrow> Inl Ps_agent_sig | Some agentSig \<Rightarrow>
     (case hex_field 48 (wj_DrandSigHex r) of None \<Rightarrow> Inl Ps_drand_sig | Some drandSig \<Rightarrow>
     bind_r (if wj_Mode r = [] \<or> wj_Mode r = str ''parallel'' then Inr ModeParallel
             else if wj_Mode r = str ''sequential'' then Inr ModeSequential
             else Inl Ps_mode) (\<lambda>m.
     bind_r (if m = ModeSequential \<and> wj_SeqIndex r > 0
             then (case hex_field 48 (wj_PrevSigHex r) of None \<Rightarrow> Inl Ps_prev_sig | Some p \<Rightarrow> Inr p)
             else Inr []) (\<lambda>prevSig.
     Inr \<lparr>pr_Request = \<lparr>rq_OpID = wj_OpID r, rq_OpHash = opHash, rq_AgentPubkey = agentPub,
            rq_AgentSignature = agentSig, rq_DrandChain = wj_DrandChain r,
            rq_DrandRound = wj_DrandRound r, rq_DrandSignature = drandSig,
            rq_RequestedAtMs = wj_RequestedAtMs r\<rparr>,
          pr_Mode = m, pr_SeqIndex = wj_SeqIndex r, pr_PrevSig = prevSig\<rparr>))))))"

definition has_prefix :: "bytes \<Rightarrow> bytes \<Rightarrow> bool" where
  "has_prefix s p \<longleftrightarrow> take (length p) s = p"

text \<open>What the handler gets from outside: primitives, the network, the clock in seconds and
  milliseconds.\<close>

record ('s, 'p, 'm) world =
  w_ed :: ed25519
  w_sha3 :: hash
  w_sha256 :: hash
  w_kyber :: "('s, 'p, 'm) kyber"
  w_net :: network
  w_now :: i64
  w_now_ms :: i64

definition authorised :: "('s, 'p, 'm) world \<Rightarrow> ('s, 'p) witness_config \<Rightarrow> bytes \<Rightarrow> http_error + unit" where
  "authorised W cfg authz =
     (if length (wc_AuthTokenHash cfg) > 0 then
        guard (\<not> has_prefix authz (str ''Bearer '')) Unauthorized_missing (
        guard (HashAuthToken (w_sha256 W) (drop 7 authz) \<noteq> wc_AuthTokenHash cfg) Unauthorized_token (Inr ()))
      else Inr ())"

text \<open>The drand checks: the beacon against the pinned key, then the freshness window.\<close>

definition check_drand :: "('s, 'p, 'm) world \<Rightarrow> ('s, 'p) witness_config \<Rightarrow> request
    \<Rightarrow> drand_client \<times> (http_error + unit)" where
  "check_drand W cfg rq =
     (if \<not> wc_VerifyDrand cfg then (wc_Drand cfg, Inr ()) else
      case (if wc_DrandChainPubkey cfg = [] then ExpectedChainPubkey else Some (wc_DrandChainPubkey cfg)) of
        None \<Rightarrow> (wc_Drand cfg, Inl Panic_chain_pubkey)
      | Some chainPub \<Rightarrow>
          (case VerifyDrandBeacon (w_kyber W) (w_sha256 W) (rq_DrandRound rq) (rq_DrandSignature rq) chainPub of
             Inl e \<Rightarrow> (wc_Drand cfg, Inl (BadRequest_drand e))
           | Inr _ \<Rightarrow>
               (case Info (w_net W) (wc_Drand cfg) of
                  (c, Inl e) \<Rightarrow> (c, Inl BadGateway_info)
                | (c, Inr info) \<Rightarrow>
                    let maxLag = (if wc_MaxRoundLag cfg = 0 then 2 else wc_MaxRoundLag cfg) in
                    (c, wrap_err BadRequest_stale (CheckFreshness (Some info) (rq_DrandRound rq) (w_now W) maxLag)))))"

text \<open>After the body is read and decoded (\<open>None\<close> when that fails).\<close>

definition sign_request :: "('s, 'p, 'm) world \<Rightarrow> ('s, 'p) witness_config \<Rightarrow> witness_request_json option
    \<Rightarrow> drand_client \<times> (http_error + witness_response_json)" where
  "sign_request W cfg body =
     (case body of
        None \<Rightarrow> (wc_Drand cfg, Inl BadRequest_decode)
      | Some js \<Rightarrow>
     (case parseWitnessRequest js of
        Inl e \<Rightarrow> (wc_Drand cfg, Inl (BadRequest_parse e))
      | Inr parsed \<Rightarrow>
     (case VerifyAgentSignature (w_ed W) (pr_Request parsed) of
        Inl e \<Rightarrow> (wc_Drand cfg, Inl (Unauthorized_agent e))
      | Inr _ \<Rightarrow>
     (case check_drand W cfg (pr_Request parsed) of
        (c, Inl e) \<Rightarrow> (c, Inl e)
      | (c, Inr _) \<Rightarrow>
          (c, bind_r (wrap_err BadRequest_input
                (WitnessInput (w_sha3 W) (Some (pr_Request parsed)) (pr_Mode parsed) (pr_SeqIndex parsed)
                  (pr_PrevSig parsed))) (\<lambda>input.
              bind_r (wrap_err Internal_sign (Sign (w_kyber W) (wc_Priv cfg) input)) (\<lambda>sig.
              Inr \<lparr>rj_WitnessIndex = wc_Index cfg, rj_Label = wc_Label cfg,
                rj_PubkeyHex = (case marshal_public (w_kyber W) (Public (wc_Priv cfg)) of
                    Inr b \<Rightarrow> hex_encode b | Inl _ \<Rightarrow> []),
                rj_SignatureHex = hex_encode sig, rj_SignedAtMs = w_now_ms W\<rparr>)))))))"

definition WitnessHandler :: "('s, 'p, 'm) world \<Rightarrow> ('s, 'p) witness_config \<Rightarrow> bytes \<Rightarrow> bytes
    \<Rightarrow> witness_request_json option \<Rightarrow> drand_client \<times> (http_error + witness_response_json)" where
  "WitnessHandler W cfg meth authz body =
     (if meth \<noteq> str ''POST'' then (wc_Drand cfg, Inl MethodNotAllowed)
      else case authorised W cfg authz of
          Inl e \<Rightarrow> (wc_Drand cfg, Inl e)
        | Inr _ \<Rightarrow> sign_request W cfg body)"

subsection \<open>What a witness signs\<close>

lemma hex_field_Some: "hex_field n h = Some b \<longleftrightarrow> hex_decode h = Some b \<and> length b = n"
  by (auto simp: hex_field_def split: option.splits)

lemma parse_Inr:
  assumes "parseWitnessRequest r = Inr p"
  shows "length (rq_OpHash (pr_Request p)) = 32" "length (rq_DrandSignature (pr_Request p)) = 48"
    "length (rq_AgentPubkey (pr_Request p)) = 32" "rq_OpID (pr_Request p) \<noteq> []"
    "pr_Mode p = ModeParallel \<or> pr_Mode p = ModeSequential" "pr_SeqIndex p = wj_SeqIndex r"
  using assms
  by (auto simp: parseWitnessRequest_def hex_field_Some split: option.splits if_splits)

text \<open>
  The chain information the handler has: what the client of its configuration has cached, or else the
  first answer with a positive period among its endpoints.
\<close>

definition fetched_info :: "network \<Rightarrow> drand_client \<Rightarrow> chain_info \<Rightarrow> bool" where
  "fetched_info N c info \<longleftrightarrow> (case dc_info c of
     Some i \<Rightarrow> info = i
   | None \<Rightarrow> \<exists>before ep after pk. dc_endpoints c = before @ ep # after \<and>
       (\<forall>e \<in> set before. \<forall>period genesis k. net_info N e (dc_chain c) = Info_reply period genesis k \<longrightarrow> period \<le> 0) \<and>
       net_info N ep (dc_chain c) = Info_reply (ci_Period info) (ci_GenesisTime info) pk \<and> 0 < ci_Period info)"

lemma info_loop_Some:
  "info_loop N chain eps = Some info \<Longrightarrow> \<exists>before ep after pk. eps = before @ ep # after \<and>
     (\<forall>e \<in> set before. \<forall>period genesis k. net_info N e chain = Info_reply period genesis k \<longrightarrow> period \<le> 0) \<and>
     net_info N ep chain = Info_reply (ci_Period info) (ci_GenesisTime info) pk \<and> 0 < ci_Period info"
proof (induction eps)
  case (Cons ep eps)
  show ?case
  proof (cases "\<exists>period genesis pk. net_info N ep chain = Info_reply period genesis pk \<and> 0 < period")
    case True
    then obtain period genesis pk where "net_info N ep chain = Info_reply period genesis pk" "0 < period" by blast
    with Cons.prems show ?thesis
      by (intro exI [of _ "[] :: bytes list"], intro exI [of _ ep], intro exI [of _ eps], intro exI [of _ pk]) auto
  next
    case False
    then have "info_loop N chain eps = Some info"
      using Cons.prems by (auto split: info_reply.splits if_splits)
    from Cons.IH [OF this] obtain before e after pk where "eps = before @ e # after"
      "\<forall>e \<in> set before. \<forall>period genesis k. net_info N e chain = Info_reply period genesis k \<longrightarrow> period \<le> 0"
      "net_info N e chain = Info_reply (ci_Period info) (ci_GenesisTime info) pk" "0 < ci_Period info" by blast
    with False show ?thesis
      by (intro exI [of _ "ep # before"], intro exI [of _ e], intro exI [of _ after], intro exI [of _ pk]) (auto simp: not_less)
  qed
qed simp

lemma Info_fetched: "snd (Info N c) = Inr info \<Longrightarrow> fetched_info N c info"
  using info_loop_Some [of N "dc_chain c" "dc_endpoints c" info]
  by (cases "dc_info c"; cases "info_loop N (dc_chain c) (dc_endpoints c)")
    (simp_all only: Info_def fetched_info_def option.case snd_conv sum.simps simp_thms)

text \<open>The round due at the time \<open>now\<close>, and a round close to it, on integers.\<close>

definition due_round :: "chain_info \<Rightarrow> i64 \<Rightarrow> int" where
  "due_round info now = (if ci_Period info \<le> 0 then 0
     else if sint (now - ci_GenesisTime info) < 0 then 1
     else sint (now - ci_GenesisTime info) div ci_Period info + 1)"

definition fresh_round :: "chain_info \<Rightarrow> i64 \<Rightarrow> int \<Rightarrow> u64 \<Rightarrow> bool" where
  "fresh_round info now lag r \<longleftrightarrow> (let d = \<bar>int (unat r) - due_round info now\<bar> in d \<le> lag \<or> 2 ^ 63 \<le> d)"

lemma ExpectedRound_due: "int (unat (ExpectedRound (Some i) now)) = due_round i now"
proof (cases "ci_Period i \<le> 0 \<or> sint (now - ci_GenesisTime i) < 0")
  case True
  then show ?thesis by (auto simp: ExpectedRound_def due_round_def Let_def)
next
  case False
  let ?q = "sint (now - ci_GenesisTime i) div ci_Period i"
  have q: "0 \<le> ?q" "?q < 2 ^ 63"
  proof -
    show "0 \<le> ?q" using False by (simp add: pos_imp_zdiv_nonneg_iff)
    have "?q \<le> sint (now - ci_GenesisTime i)" using False zdiv_mono2 [of "sint (now - ci_GenesisTime i)" 1 "ci_Period i"] by simp
    then show "?q < 2 ^ 63" using sint_lt [of "now - ci_GenesisTime i"] by simp
  qed
  have "ExpectedRound (Some i) now = word_of_int (?q + 1)"
    using False by (simp add: ExpectedRound_def Let_def)
  moreover have "uint (word_of_int (?q + 1) :: u64) = ?q + 1"
    unfolding uint_word_of_int take_bit_eq_mod using q by simp
  ultimately have "int (unat (ExpectedRound (Some i) now)) = ?q + 1" by (simp only: uint_nat [symmetric])
  then show ?thesis using False by (simp only: due_round_def) simp
qed

lemma CheckFreshness_fresh:
  assumes "CheckFreshness (Some info) r now lag = Inr ()" and "0 \<le> lag" and "lag < 2 ^ 63"
  shows "fresh_round info now lag r"
  using assms(1) unfolding freshness_iff [OF assms(2,3)] fresh_round_def ExpectedRound_due .

definition beacon_valid :: "('s, 'p, 'm) kyber \<Rightarrow> hash \<Rightarrow> u64 \<Rightarrow> bytes \<Rightarrow> bytes \<Rightarrow> bool" where
  "beacon_valid K sha256 r sig chainPub \<longleftrightarrow> r \<noteq> 0 \<and> length sig = 48 \<and> length chainPub = 96 \<and>
     (\<exists>point. ky_point_unmarshal K chainPub = Some point \<and> ky_verify K point (sha256 (putUint64 r)) sig)"

lemma VerifyDrandBeacon_valid: "VerifyDrandBeacon K sha256 r sig pub = Inr () \<Longrightarrow> beacon_valid K sha256 r sig pub"
  by (auto simp: VerifyDrandBeacon_def beacon_valid_def drandMsgBLSUnchained_def split: option.splits)

text \<open>
  The beacon of a request is valid under the key of the configuration, or the well-known one, and
  its round as close to the one due as the configured lag (2 when that is 0), by the chain
  information the handler has.
\<close>

definition beacon_checked :: "('s, 'p, 'm) world \<Rightarrow> ('s, 'p) witness_config \<Rightarrow> request \<Rightarrow> bool" where
  "beacon_checked W cfg rq \<longleftrightarrow>
     (\<exists>pub info. (wc_DrandChainPubkey cfg = [] \<longrightarrow> ExpectedChainPubkey = Some pub) \<and>
        (wc_DrandChainPubkey cfg \<noteq> [] \<longrightarrow> pub = wc_DrandChainPubkey cfg) \<and>
        beacon_valid (w_kyber W) (w_sha256 W) (rq_DrandRound rq) (rq_DrandSignature rq) pub \<and>
        fetched_info (w_net W) (wc_Drand cfg) info \<and>
        (0 \<le> wc_MaxRoundLag cfg \<and> wc_MaxRoundLag cfg < 2 ^ 63 \<longrightarrow>
          fresh_round info (w_now W) (if wc_MaxRoundLag cfg = 0 then 2 else wc_MaxRoundLag cfg) (rq_DrandRound rq)))"

text \<open>
  A reply means: the caller had the token; the agent's key signs the canonical bytes of the request;
  when the witness checks beacons, the request's beacon passes; and the answer is the signature of the witness key over the canonical input of the request and its position.
\<close>

definition signed_for :: "('s, 'p, 'm) world \<Rightarrow> ('s, 'p) witness_config \<Rightarrow> bytes \<Rightarrow> witness_request_json
    \<Rightarrow> witness_response_json \<Rightarrow> bool" where
  "signed_for W cfg authz js resp \<longleftrightarrow>
     (wc_AuthTokenHash cfg \<noteq> [] \<longrightarrow> (\<exists>t. authz = str ''Bearer '' @ t \<and> w_sha256 W t = wc_AuthTokenHash cfg)) \<and>
     (\<exists>p msg s pk sig. parseWitnessRequest js = Inr p \<and>
        CanonicalRequestBytes (Some (pr_Request p)) = Inr msg \<and>
        ed_verify (w_ed W) (rq_AgentPubkey (pr_Request p)) msg (rq_AgentSignature (pr_Request p)) \<and>
        (wc_VerifyDrand cfg \<longrightarrow> beacon_checked W cfg (pr_Request p)) \<and>
        seq_ok (pr_Mode p) (pr_SeqIndex p) (pr_PrevSig p) \<and>
        wc_Priv cfg = Some (s, pk) \<and>
        ky_sign (w_kyber W) s (w_sha3 W (witness_preimage (pr_Request p) (pr_Mode p)
          (pr_SeqIndex p) (pr_PrevSig p))) = Some sig \<and>
        rj_SignatureHex resp = hex_encode sig)"

lemma authorised_Inr:
  "authorised W cfg authz = Inr () \<Longrightarrow>
   wc_AuthTokenHash cfg \<noteq> [] \<longrightarrow> (\<exists>t. authz = str ''Bearer '' @ t \<and> w_sha256 W t = wc_AuthTokenHash cfg)"
proof
  assume a: "authorised W cfg authz = Inr ()" and n: "wc_AuthTokenHash cfg \<noteq> []"
  have "length (str ''Bearer '') = 7" by simp
  with a n have "take 7 authz = str ''Bearer ''" "w_sha256 W (drop 7 authz) = wc_AuthTokenHash cfg"
    by (simp_all only: authorised_def has_prefix_def HashAuthToken_def length_greater_0_conv if_True guard_Inr not_not simp_thms)
  then show "\<exists>t. authz = str ''Bearer '' @ t \<and> w_sha256 W t = wc_AuthTokenHash cfg"
    by (metis append_take_drop_id)
qed

lemma check_drand_Inr:
  assumes "snd (check_drand W cfg rq) = Inr ()" and "wc_VerifyDrand cfg"
  shows "beacon_checked W cfg rq"
proof -
  from assms obtain pub where pub:
    "(if wc_DrandChainPubkey cfg = [] then ExpectedChainPubkey else Some (wc_DrandChainPubkey cfg)) = Some pub"
    "VerifyDrandBeacon (w_kyber W) (w_sha256 W) (rq_DrandRound rq) (rq_DrandSignature rq) pub = Inr ()"
    by (auto simp: check_drand_def split: option.splits sum.splits)
  moreover from assms obtain info where info: "snd (Info (w_net W) (wc_Drand cfg)) = Inr info"
    "CheckFreshness (Some info) (rq_DrandRound rq) (w_now W) (if wc_MaxRoundLag cfg = 0 then 2 else wc_MaxRoundLag cfg) = Inr ()"
    by (auto simp: check_drand_def Let_def split: option.splits sum.splits prod.splits)
  ultimately show ?thesis
    using VerifyDrandBeacon_valid [OF pub(2)] Info_fetched [OF info(1)] CheckFreshness_fresh [OF info(2)]
    unfolding beacon_checked_def by (intro exI [of _ pub] exI [of _ info]) (auto split: if_splits)
qed

lemma VerifyAgentSignature_msg:
  "VerifyAgentSignature E r = Inr () \<Longrightarrow>
   \<exists>msg. CanonicalRequestBytes (Some r) = Inr msg \<and> ed_verify E (rq_AgentPubkey r) msg (rq_AgentSignature r)"
  by (auto simp: VerifyAgentSignature_def)

lemma WitnessHandler_signs:
  assumes "snd (WitnessHandler W cfg meth authz body) = Inr resp"
  obtains js where "body = Some js" and "signed_for W cfg authz js resp" and "meth = str ''POST''"
proof -
  from assms have m: "meth = str ''POST''" and a: "authorised W cfg authz = Inr ()"
    and s: "snd (sign_request W cfg body) = Inr resp"
    by (auto simp: WitnessHandler_def split: if_splits sum.splits)
  from s obtain js p where js: "body = Some js" and p: "parseWitnessRequest js = Inr p"
    and v: "VerifyAgentSignature (w_ed W) (pr_Request p) = Inr ()"
    and d: "snd (check_drand W cfg (pr_Request p)) = Inr ()"
    and i: "\<exists>input sig. WitnessInput (w_sha3 W) (Some (pr_Request p)) (pr_Mode p) (pr_SeqIndex p) (pr_PrevSig p) = Inr input \<and>
      Sign (w_kyber W) (wc_Priv cfg) input = Inr sig \<and> rj_SignatureHex resp = hex_encode sig"
    by (auto simp: sign_request_def split: option.splits sum.splits prod.splits)
  let ?input = "w_sha3 W (witness_preimage (pr_Request p) (pr_Mode p) (pr_SeqIndex p) (pr_PrevSig p))"
  from i obtain input sig where
    "WitnessInput (w_sha3 W) (Some (pr_Request p)) (pr_Mode p) (pr_SeqIndex p) (pr_PrevSig p) = Inr input"
    "Sign (w_kyber W) (wc_Priv cfg) input = Inr sig" and enc: "rj_SignatureHex resp = hex_encode sig"
    by (elim exE conjE)
  then have seq: "seq_ok (pr_Mode p) (pr_SeqIndex p) (pr_PrevSig p)"
    and sig: "Sign (w_kyber W) (wc_Priv cfg) ?input = Inr sig"
    unfolding WitnessInput_Inr [OF VerifyAgentSignature_fits [OF v]] by simp_all
  from sig obtain s pk where key: "wc_Priv cfg = Some (s, pk)" "ky_sign (w_kyber W) s ?input = Some sig"
    by (auto simp: Sign_def split: option.splits)
  from VerifyAgentSignature_msg [OF v] obtain msg where msg: "CanonicalRequestBytes (Some (pr_Request p)) = Inr msg"
    "ed_verify (w_ed W) (rq_AgentPubkey (pr_Request p)) msg (rq_AgentSignature (pr_Request p))" by blast
  have "signed_for W cfg authz js resp"
    unfolding signed_for_def
    by (rule conjI [OF authorised_Inr [OF a]], rule exI [of _ p], rule exI [of _ msg], rule exI [of _ s],
      rule exI [of _ pk], rule exI [of _ sig]) (use p msg seq key enc check_drand_Inr [OF d] in simp)
  with js m show ?thesis by (intro that)
qed

end
