(* ===== verification/Client.thy ===== *)
theory Client
  imports Witness
begin

text \<open>
  \<open>internal/daq/client.go\<close>: collecting a quorum of witness signatures into a ticket, in both
  modes, and checking a ticket. The HTTP exchange with a witness is the parameter \<open>http\<close>
  (URL, token, body to the signature field of a 2xx JSON reply). The order in which the
  concurrent workers of the parallel mode answer, and which of them the cancellation cuts off,
  are arguments of \<open>requestParallel\<close>.
\<close>

record 'p roster_entry =
  re_Index :: int
  re_Label :: bytes
  re_URL :: bytes
  re_Pubkey :: "'p option"
  re_AuthToken :: bytes

record 'p client_config =
  cc_Roster :: "'p roster_entry list"
  cc_Threshold :: int
  cc_Mode :: mode

datatype client_error =
    Cl_empty_roster
  | Cl_threshold
  | Cl_mode
  | Cl_index_range int
  | Cl_index_duplicate int
  | Cl_nil_pubkey int
  | Cl_key_size
  | Cl_drand drand_error
  | Cl_canonical protocol_error
  | Cl_nil_request
  | Cl_few_signed nat
  | Cl_aggregate bls_error
  | Cl_stalled nat

datatype ticket_error =
    Tk_nil
  | Tk_agent protocol_error
  | Tk_threshold
  | Tk_missing_aggregate
  | Tk_input protocol_error
  | Tk_aggregate bls_error
  | Tk_chain_length
  | Tk_index_range int
  | Tk_index_duplicate int
  | Tk_pubkey int
  | Tk_signature nat
  | Tk_mode

subsection \<open>Configuration and request\<close>

fun roster_loop :: "nat \<Rightarrow> int set \<Rightarrow> 'p roster_entry list \<Rightarrow> client_error + unit" where
  "roster_loop n seen [] = Inr ()"
| "roster_loop n seen (e # es) =
     guard (re_Index e < 0 \<or> re_Index e \<ge> int n) (Cl_index_range (re_Index e)) (
     guard (re_Index e \<in> seen) (Cl_index_duplicate (re_Index e)) (
     guard (re_Pubkey e = None) (Cl_nil_pubkey (re_Index e)) (
     roster_loop n (insert (re_Index e) seen) es)))"

definition withDefaults :: "'p client_config \<Rightarrow> client_error + 'p client_config" where
  "withDefaults c =
     guard (cc_Roster c = []) Cl_empty_roster (
     guard (cc_Threshold c < 1) Cl_threshold (
     guard (cc_Threshold c > int (length (cc_Roster c))) Cl_threshold (
     guard (cc_Mode c \<noteq> ModeParallel \<and> cc_Mode c \<noteq> ModeSequential) Cl_mode (
     bind_r (roster_loop (length (cc_Roster c)) {} (cc_Roster c)) (\<lambda>_. Inr c)))))"

definition BuildRequest :: "ed25519 \<Rightarrow> hash \<Rightarrow> network \<Rightarrow> drand_client \<Rightarrow> bytes \<Rightarrow> bytes \<Rightarrow> bytes \<Rightarrow> bytes \<Rightarrow> i64
    \<Rightarrow> drand_client \<times> (client_error + request)" where
  "BuildRequest E H N drand agentPub agentPriv opID payload now =
     (if length agentPub \<noteq> 32 \<or> length agentPriv \<noteq> 64 then (drand, Inl Cl_key_size)
      else case FetchLatest N drand of
          (c, Inl e) \<Rightarrow> (c, Inl (Cl_drand e))
        | (c, Inr rd) \<Rightarrow>
            let req = \<lparr>rq_OpID = opID, rq_OpHash = HashOperationPayload H payload, rq_AgentPubkey = agentPub,
                  rq_AgentSignature = [], rq_DrandChain = rd_Chain rd, rq_DrandRound = rd_Round rd,
                  rq_DrandSignature = rd_Signature rd, rq_RequestedAtMs = now\<rparr>
            in (c, bind_r (wrap_err Cl_canonical (CanonicalRequestBytes (Some req))) (\<lambda>msg.
                   Inr (req\<lparr>rq_AgentSignature := ed_sign E agentPriv msg\<rparr>))))"

subsection \<open>Talking to a witness\<close>

type_synonym http = "bytes \<Rightarrow> bytes \<Rightarrow> witness_request_json \<Rightarrow> bytes option"

definition postSignURL :: "http \<Rightarrow> bytes \<Rightarrow> bytes \<Rightarrow> witness_request_json \<Rightarrow> bytes option" where
  "postSignURL http url authToken body =
     (case http (url @ str ''/daq/sign'') authToken body of
        None \<Rightarrow> None
      | Some signatureHex \<Rightarrow> (case hex_decode signatureHex of
            None \<Rightarrow> None
          | Some sig \<Rightarrow> if length sig \<noteq> SignatureSize then None else Some sig))"

definition request_json :: "request \<Rightarrow> mode \<Rightarrow> int \<Rightarrow> bytes \<Rightarrow> witness_request_json" where
  "request_json req m seqIdx prevSig =
     \<lparr>wj_OpID = rq_OpID req, wj_OpHashHex = hex_encode (rq_OpHash req),
      wj_AgentPubkeyHex = hex_encode (rq_AgentPubkey req), wj_AgentSigHex = hex_encode (rq_AgentSignature req),
      wj_DrandChain = rq_DrandChain req, wj_DrandRound = rq_DrandRound req,
      wj_DrandSigHex = hex_encode (rq_DrandSignature req), wj_RequestedAtMs = rq_RequestedAtMs req,
      wj_Mode = (case Mode_String m of Some s \<Rightarrow> s | None \<Rightarrow> str ''mode''), wj_SeqIndex = seqIdx,
      wj_PrevSigHex = (if m = ModeSequential \<and> seqIdx > 0 then hex_encode prevSig else [])\<rparr>"

definition postWitness :: "http \<Rightarrow> 'p roster_entry \<Rightarrow> request \<Rightarrow> mode \<Rightarrow> int \<Rightarrow> bytes \<Rightarrow> bytes option" where
  "postWitness http e req m seqIdx prevSig =
     postSignURL http (re_URL e) (re_AuthToken e) (request_json req m seqIdx prevSig)"

definition sortedRoster :: "'p roster_entry list \<Rightarrow> 'p roster_entry list" where
  "sortedRoster es = sort_key re_Index es"

text \<open>\<open>pub, _ := Pubkey.MarshalBinary()\<close>: nil when it fails.\<close>

definition marshal_or_nil :: "('s, 'p, 'm) kyber \<Rightarrow> 'p option \<Rightarrow> bytes" where
  "marshal_or_nil K p = (case marshal_public K p of Inr b \<Rightarrow> b | Inl _ \<Rightarrow> [])"

definition signed_by :: "('s, 'p, 'm) kyber \<Rightarrow> 'p roster_entry \<Rightarrow> bytes \<Rightarrow> witness_signature" where
  "signed_by K e sig = \<lparr>wsig_WitnessIndex = re_Index e, wsig_Pubkey = marshal_or_nil K (re_Pubkey e),
     wsig_Signature = sig\<rparr>"

subsection \<open>Parallel mode\<close>

text \<open>One worker: \<open>None\<close> stands for every error it may send on the channel.\<close>

definition worker :: "('s, 'p, 'm) kyber \<Rightarrow> hash \<Rightarrow> http \<Rightarrow> request \<Rightarrow> 'p roster_entry \<Rightarrow> bytes option" where
  "worker K H http req e =
     (case WitnessInput H (Some req) ModeParallel 0 [] of
        Inl _ \<Rightarrow> None
      | Inr input \<Rightarrow>
          (case postWitness http e req ModeParallel 0 [] of
             None \<Rightarrow> None
           | Some sig \<Rightarrow> (case VerifyIndividual K (re_Pubkey e) input sig of
                 Inl _ \<Rightarrow> None | Inr _ \<Rightarrow> Some sig)))"

text \<open>\<open>good\<close>, in the order of arrival.\<close>

definition collect :: "('p roster_entry \<Rightarrow> bytes option) \<Rightarrow> 'p roster_entry list \<Rightarrow> ('p roster_entry \<times> bytes) list" where
  "collect result arrivals = List.map_filter (\<lambda>e. map_option (Pair e) (result e)) arrivals"

definition rosterPubs :: "'p roster_entry list \<Rightarrow> 'p option list" where
  "rosterPubs roster = foldl (\<lambda>ps e. ps[nat (re_Index e) := re_Pubkey e]) (replicate (length roster) None) roster"

definition requestParallel :: "('s, 'p, 'm) kyber \<Rightarrow> hash \<Rightarrow> http \<Rightarrow> i64 \<Rightarrow> 'p roster_entry list
    \<Rightarrow> ('p roster_entry \<Rightarrow> bool) \<Rightarrow> 'p client_config \<Rightarrow> request \<Rightarrow> client_error + ticket" where
  "requestParallel K H http now arrivals cancelled cfg req =
     (let roster = sortedRoster (cc_Roster cfg);
          good = collect (\<lambda>e. if cancelled e then None else worker K H http req e) arrivals;
          k = nat (cc_Threshold cfg)
      in guard (int (length good) < cc_Threshold cfg) (Cl_few_signed (length good)) (
         let chosen = take k (sort_key (\<lambda>g. re_Index (fst g)) good) in
         bind_r (wrap_err Cl_aggregate (AggregateSigs K (rosterPubs roster) (map (\<lambda>g. re_Index (fst g)) chosen)
             (map snd chosen))) (\<lambda>agg.
         Inr \<lparr>tk_Request = req, tk_Mode = ModeParallel, tk_Threshold = cc_Threshold cfg,
           tk_RosterSize = int (length roster), tk_Witnesses = map (\<lambda>g. signed_by K (fst g) (snd g)) chosen,
           tk_AggSignature = ar_Signature agg, tk_AggMask = ar_Mask agg, tk_CreatedAtMs = now\<rparr>)))"

subsection \<open>Sequential mode\<close>

text \<open>The loop over the sorted roster; the error of \<open>WitnessInput\<close> is dropped, its input nil.\<close>

fun seq_loop :: "('s, 'p, 'm) kyber \<Rightarrow> hash \<Rightarrow> http \<Rightarrow> request \<Rightarrow> int \<Rightarrow> nat \<Rightarrow> bytes \<Rightarrow> witness_signature list
    \<Rightarrow> 'p roster_entry list \<Rightarrow> witness_signature list" where
  "seq_loop K H http req k seqIdx prevSig chain [] = chain"
| "seq_loop K H http req k seqIdx prevSig chain (e # es) =
     (case postWitness http e req ModeSequential (int seqIdx) prevSig of
        None \<Rightarrow> if int (length chain) \<ge> k then chain
                else seq_loop K H http req k (seqIdx + 1) prevSig chain es
      | Some sig \<Rightarrow>
          let input = (case WitnessInput H (Some req) ModeSequential (int seqIdx) prevSig of
                         Inr x \<Rightarrow> x | Inl _ \<Rightarrow> [])
          in (case VerifyIndividual K (re_Pubkey e) input sig of
                Inl _ \<Rightarrow> seq_loop K H http req k (seqIdx + 1) prevSig chain es
              | Inr _ \<Rightarrow>
                  let chain = chain @ [signed_by K e sig] in
                  if int (length chain) \<ge> k then chain
                  else seq_loop K H http req k (seqIdx + 1) sig chain es))"

definition requestSequential :: "('s, 'p, 'm) kyber \<Rightarrow> hash \<Rightarrow> http \<Rightarrow> i64 \<Rightarrow> 'p client_config \<Rightarrow> request
    \<Rightarrow> client_error + ticket" where
  "requestSequential K H http now cfg req =
     (let roster = sortedRoster (cc_Roster cfg);
          chain = seq_loop K H http req (cc_Threshold cfg) 0 [] [] roster
      in guard (int (length chain) < cc_Threshold cfg) (Cl_stalled (length chain)) (
         Inr \<lparr>tk_Request = req, tk_Mode = ModeSequential, tk_Threshold = cc_Threshold cfg,
           tk_RosterSize = int (length roster), tk_Witnesses = chain, tk_AggSignature = [], tk_AggMask = [],
           tk_CreatedAtMs = now\<rparr>))"

definition RequestQuorum :: "('s, 'p, 'm) kyber \<Rightarrow> hash \<Rightarrow> http \<Rightarrow> i64 \<Rightarrow> 'p roster_entry list
    \<Rightarrow> ('p roster_entry \<Rightarrow> bool) \<Rightarrow> 'p client_config \<Rightarrow> request option \<Rightarrow> client_error + ticket" where
  "RequestQuorum K H http now arrivals cancelled raw rq =
     bind_r (withDefaults raw) (\<lambda>cfg.
     case rq of
       None \<Rightarrow> Inl Cl_nil_request
     | Some req \<Rightarrow>
         if cc_Mode cfg = ModeParallel then requestParallel K H http now arrivals cancelled cfg req
         else if cc_Mode cfg = ModeSequential then requestSequential K H http now cfg req
         else Inl Cl_mode)"

subsection \<open>Checking a ticket\<close>

fun ticket_loop :: "('s, 'p, 'm) kyber \<Rightarrow> hash \<Rightarrow> request \<Rightarrow> 'p option list \<Rightarrow> nat \<Rightarrow> bytes \<Rightarrow> int set
    \<Rightarrow> witness_signature list \<Rightarrow> ticket_error + unit" where
  "ticket_loop K H req roster seqIdx prevSig seen [] = Inr ()"
| "ticket_loop K H req roster seqIdx prevSig seen (ws # rest) =
     (let idx = wsig_WitnessIndex ws in
      guard (idx < 0 \<or> idx \<ge> int (length roster)) (Tk_index_range idx) (
      guard (idx \<in> seen) (Tk_index_duplicate idx) (
      let pub = roster ! nat idx in
      guard (wsig_Pubkey ws \<noteq> marshal_or_nil K pub) (Tk_pubkey idx) (
      bind_r (wrap_err Tk_input (WitnessInput H (Some req) ModeSequential (int seqIdx) prevSig)) (\<lambda>input.
      bind_r (wrap_err (\<lambda>_. Tk_signature seqIdx) (VerifyIndividual K pub input (wsig_Signature ws))) (\<lambda>_.
      ticket_loop K H req roster (seqIdx + 1) (wsig_Signature ws) (insert idx seen) rest))))))"

definition VerifyTicket :: "('s, 'p, 'm) kyber \<Rightarrow> ed25519 \<Rightarrow> hash \<Rightarrow> ticket option \<Rightarrow> 'p option list
    \<Rightarrow> ticket_error + unit" where
  "VerifyTicket K E H tk roster =
     (case tk of
        None \<Rightarrow> Inl Tk_nil
      | Some t \<Rightarrow>
          bind_r (wrap_err Tk_agent (VerifyAgentSignature E (tk_Request t))) (\<lambda>_.
          guard (tk_Threshold t < 1 \<or> tk_Threshold t > int (length roster)) Tk_threshold (
          if tk_Mode t = ModeParallel then
            guard (tk_AggSignature t = [] \<or> tk_AggMask t = []) Tk_missing_aggregate (
            bind_r (wrap_err Tk_input (WitnessInput H (Some (tk_Request t)) ModeParallel 0 [])) (\<lambda>input.
            wrap_err Tk_aggregate (VerifyAggregate K roster (tk_AggMask t) (tk_AggSignature t) input (tk_Threshold t))))
          else if tk_Mode t = ModeSequential then
            guard (int (length (tk_Witnesses t)) < tk_Threshold t) Tk_chain_length (
            ticket_loop K H (tk_Request t) roster 0 [] {} (tk_Witnesses t))
          else Inl Tk_mode)))"

subsection \<open>The sorted roster\<close>

interpretation roster_checks: distinct_loop "roster_loop n" re_Index
    "\<lambda>e. 0 \<le> re_Index e \<and> re_Index e < int n \<and> re_Pubkey e \<noteq> None"
  by unfold_locales (auto simp: not_le not_less)

definition roster_ok :: "'p roster_entry list \<Rightarrow> bool" where
  "roster_ok es \<longleftrightarrow> es \<noteq> [] \<and> distinct (map re_Index es) \<and>
     list_all (\<lambda>e. 0 \<le> re_Index e \<and> re_Index e < int (length es) \<and> re_Pubkey e \<noteq> None) es"

lemma withDefaults_Inr:
  "withDefaults c = Inr c' \<longleftrightarrow> c' = c \<and> roster_ok (cc_Roster c) \<and> 1 \<le> cc_Threshold c \<and>
     cc_Threshold c \<le> int (length (cc_Roster c)) \<and> (cc_Mode c = ModeParallel \<or> cc_Mode c = ModeSequential)"
  by (auto simp: withDefaults_def roster_ok_def roster_checks.accepts_empty not_less)

lemma sortedRoster_simps [simp]:
  "length (sortedRoster es) = length es" "set (sortedRoster es) = set es"
  by (simp_all add: sortedRoster_def)

text \<open>Position \<open>i\<close> of the sorted roster is the witness with index \<open>i\<close>.\<close>

lemma sortedRoster_indices:
  assumes "roster_ok es"
  shows "map re_Index (sortedRoster es) = map int [0..<length es]"
proof (rule sorted_distinct_set_unique)
  have d: "distinct (map re_Index es)" and r: "re_Index ` set es \<subseteq> int ` {0..<length es}"
    using assms by (auto simp: roster_ok_def list_all_iff intro!: image_eqI [of _ int "nat _"])
  have "card (re_Index ` set es) = length es" using distinct_card [OF d] by simp
  then have "re_Index ` set es = int ` {0..<length es}"
    using r by (intro card_subset_eq) (simp_all add: card_image)
  then show "set (map re_Index (sortedRoster es)) = set (map int [0..<length es])" by simp
  show "sorted (map re_Index (sortedRoster es))" by (simp add: sortedRoster_def)
  show "distinct (map re_Index (sortedRoster es))"
    using d by (simp add: sortedRoster_def distinct_map)
  show "sorted (map int [0..<length es])" by (simp add: sorted_map)
  show "distinct (map int [0..<length es])" by (simp add: distinct_map)
qed

lemma sortedRoster_nth: "roster_ok es \<Longrightarrow> i < length es \<Longrightarrow> re_Index (sortedRoster es ! i) = int i"
  using sortedRoster_indices [of es] by (metis (no_types, lifting) add_0 diff_zero length_upt nth_map nth_upt sortedRoster_simps(1))

lemma rosterPubs_foldl:
  "(\<And>j. j < length es \<Longrightarrow> re_Index (es ! j) = int (i + j)) \<Longrightarrow> length ps = i + length es \<Longrightarrow>
   foldl (\<lambda>ps e. ps[nat (re_Index e) := re_Pubkey e]) ps es = take i ps @ map re_Pubkey es"
proof (induction es arbitrary: i ps)
  case (Cons e es)
  have "re_Index e = int i" using Cons.prems(1) [of 0] by simp
  moreover have "foldl (\<lambda>ps e. ps[nat (re_Index e) := re_Pubkey e]) (ps[i := re_Pubkey e]) es =
      take (i + 1) (ps[i := re_Pubkey e]) @ map re_Pubkey es"
  proof (rule Cons.IH)
    show "re_Index (es ! j) = int (i + 1 + j)" if "j < length es" for j
      using Cons.prems(1) [of "Suc j"] that by simp
  qed (use Cons.prems(2) in simp)
  ultimately show ?case using Cons.prems(2) by (simp add: take_Suc_conv_app_nth)
qed simp

lemma rosterPubs_sorted:
  assumes "roster_ok es"
  shows "rosterPubs (sortedRoster es) = map re_Pubkey (sortedRoster es)"
  unfolding rosterPubs_def
  using rosterPubs_foldl [of "sortedRoster es" 0 "replicate (length (sortedRoster es)) None"]
  by (simp add: sortedRoster_nth [OF assms])

lemma rosterPubs_nth:
  assumes "roster_ok es" and "e \<in> set es"
  shows "rosterPubs (sortedRoster es) ! nat (re_Index e) = re_Pubkey e"
proof -
  obtain j where j: "j < length es" "sortedRoster es ! j = e"
    using assms(2) by (metis in_set_conv_nth sortedRoster_simps)
  then have "re_Index e = int j" using sortedRoster_nth [OF assms(1) j(1)] by simp
  with j show ?thesis by (simp add: rosterPubs_sorted [OF assms(1)])
qed

lemma length_rosterPubs [simp]: "length (rosterPubs es) = length es"
proof -
  have "length (foldl (\<lambda>ps e. ps[nat (re_Index e) := re_Pubkey e]) ps xs) = length ps" for ps and xs :: "'a roster_entry list"
    by (induction xs arbitrary: ps) simp_all
  then show ?thesis by (simp add: rosterPubs_def)
qed

lemma rosterPubs_points:
  assumes "roster_ok es"
  shows "rosterPubs (sortedRoster es) = map Some (map (the \<circ> re_Pubkey) (sortedRoster es))"
  unfolding rosterPubs_sorted [OF assms] using assms
  by (auto simp: roster_ok_def list_all_iff)

subsection \<open>Parallel tickets verify\<close>

lemma worker_Some:
  assumes "worker K H http req e = Some sig" and "request_fits req"
  shows "\<exists>p. re_Pubkey e = Some p \<and> ky_verify K p (H (witness_preimage req ModeParallel 0 [])) sig"
  using assms
  by (auto simp: worker_def WitnessInput_Inr VerifyIndividual_def guard_def split: option.splits sum.splits if_splits)

lemma collect_set: "set (collect f es) \<subseteq> {(e, s). e \<in> set es \<and> f e = Some s}"
  by (auto simp: collect_def map_filter_def)

lemma collect_entries: "map fst (collect f es) = filter (\<lambda>e. f e \<noteq> None) es"
  by (induction es) (auto simp: collect_def map_filter_def)

lemma requestParallel_verifies:
  assumes K: "kyber_ok K" and r: "roster_ok (cc_Roster cfg)" and k: "1 \<le> cc_Threshold cfg"
    and arr: "distinct (map re_Index arrivals)" "set arrivals \<subseteq> set (cc_Roster cfg)"
    and agent: "VerifyAgentSignature E req = Inr ()"
    and t: "requestParallel K H http now arrivals cancelled cfg req = Inr t"
  shows "VerifyTicket K E H (Some t) (rosterPubs (sortedRoster (cc_Roster cfg))) = Inr ()"
proof -
  define roster where "roster = sortedRoster (cc_Roster cfg)"
  define f where "f = (\<lambda>e. if cancelled e then None else worker K H http req e)"
  define good where "good = collect f arrivals"
  define n where "n = nat (cc_Threshold cfg)"
  define chosen where "chosen = take n (sort_key (\<lambda>g. re_Index (fst g)) good)"
  define idxs where "idxs = map (\<lambda>g. re_Index (fst g)) chosen"
  define ps where "ps = map (the \<circ> re_Pubkey) roster"
  define x where "x = H (witness_preimage req ModeParallel 0 [])"
  have fits: "request_fits req" using agent by (rule VerifyAgentSignature_fits)
  from t obtain agg where few: "cc_Threshold cfg \<le> int (length good)"
    and agg: "AggregateSigs K (rosterPubs roster) idxs (map snd chosen) = Inr agg"
    and tk: "t = \<lparr>tk_Request = req, tk_Mode = ModeParallel, tk_Threshold = cc_Threshold cfg,
           tk_RosterSize = int (length roster), tk_Witnesses = map (\<lambda>g. signed_by K (fst g) (snd g)) chosen,
           tk_AggSignature = ar_Signature agg, tk_AggMask = ar_Mask agg, tk_CreatedAtMs = now\<rparr>"
    unfolding requestParallel_def Let_def f_def [symmetric] good_def [symmetric] n_def [symmetric]
      roster_def [symmetric] chosen_def [symmetric] idxs_def [symmetric]
    by (auto simp: not_less)
  have cset: "set chosen \<subseteq> set good" by (metis chosen_def set_sort set_take_subset)
  have each: "e \<in> set (cc_Roster cfg) \<and> (\<exists>p. re_Pubkey e = Some p \<and> ky_verify K p x s)" if "(e, s) \<in> set chosen" for e s
    using that cset collect_set [of f arrivals] arr(2) worker_Some [OF _ fits]
    by (fastforce simp: good_def f_def x_def split: if_splits)
  have d: "distinct (map (\<lambda>g. re_Index (fst g)) good)"
  proof -
    have "map (\<lambda>g. re_Index (fst g)) good = map re_Index (filter (\<lambda>e. f e \<noteq> None) arrivals)"
      unfolding good_def collect_entries [symmetric] by simp
    then show ?thesis using arr(1) by (simp add: distinct_map_filter)
  qed
  have len: "length idxs = n" "n \<noteq> 0" using few k by (auto simp: idxs_def chosen_def n_def)
  have "sorted (map (\<lambda>g. re_Index (fst g)) (sort_key (\<lambda>g. re_Index (fst g)) good))" by simp
  then have "sorted_wrt (<) (map (\<lambda>g. re_Index (fst g)) (sort_key (\<lambda>g. re_Index (fst g)) good))"
    using d by (simp add: strict_sorted_iff distinct_map)
  then have srt: "sorted_wrt (<) idxs" unfolding idxs_def chosen_def by (metis sorted_wrt_take take_map)
  have sz: "length ps = length (cc_Roster cfg)" by (simp add: ps_def roster_def)
  have rng: "list_all (\<lambda>i. 0 \<le> i \<and> i < int (length ps)) idxs"
    using each r by (fastforce simp: idxs_def list_all_iff roster_ok_def sz)
  have pubs: "rosterPubs roster = map Some ps" unfolding ps_def roster_def by (rule rosterPubs_points [OF r])
  have sigs: "list_all2 (\<lambda>i sig. ky_verify K (ps ! nat i) x sig) idxs (map snd chosen)"
  proof -
    have "ky_verify K (ps ! nat (re_Index e)) x s" if "(e, s) \<in> set chosen" for e s
    proof -
      from each [OF that] obtain p where e: "e \<in> set (cc_Roster cfg)" "re_Pubkey e = Some p" "ky_verify K p x s" by blast
      have "nat (re_Index e) < length ps" using e(1) r by (auto simp: sz roster_ok_def list_all_iff)
      then have "Some (ps ! nat (re_Index e)) = rosterPubs roster ! nat (re_Index e)" by (simp add: pubs)
      also have "\<dots> = Some p" unfolding roster_def rosterPubs_nth [OF r e(1)] by (rule e(2))
      finally show ?thesis using e(3) by simp
    qed
    then show ?thesis by (auto simp: idxs_def list_all2_map1 list_all2_map2 list_all2_same)
  qed
  have "ps \<noteq> []" using r sz by (auto simp: roster_ok_def)
  moreover have "idxs \<noteq> []" using len by auto
  ultimately obtain r' where r': "AggregateSigs K (map Some ps) idxs (map snd chosen) = Inr r'"
    "ar_Mask r' \<noteq> []" "ar_Signature r' \<noteq> []"
    "VerifyAggregate K (map Some ps) (ar_Mask r') (ar_Signature r') x (cc_Threshold cfg) = Inr ()"
    using aggregate_verifies [OF K _ rng srt _ sigs, of "cc_Threshold cfg"] len k by (auto simp: n_def)
  have "cc_Threshold cfg \<le> int (length ps)"
  proof -
    have "n \<le> length (cc_Roster cfg)"
    proof -
      have "set idxs \<subseteq> int ` {0..<length ps}" using rng by (auto simp: list_all_iff intro!: image_eqI [of _ int "nat _"])
      moreover have "distinct idxs" using srt by (simp add: strict_sorted_iff)
      ultimately have "length idxs \<le> card (int ` {0..<length ps})" by (metis card_mono distinct_card finite_atLeastLessThan finite_imageI)
      then show ?thesis using len sz by (simp add: card_image)
    qed
    then show ?thesis using sz by (simp add: n_def)
  qed
  moreover have "WitnessInput H (Some req) ModeParallel 0 [] = Inr x"
    by (simp add: WitnessInput_Inr [OF fits] seq_ok_def x_def ModeParallel_def ModeSequential_def)
  ultimately show ?thesis
    using agent k r' agg unfolding roster_def [symmetric] pubs tk VerifyTicket_def by (simp add: ModeParallel_def)
qed

subsection \<open>Sequential tickets\<close>

text \<open>
  What the loop collects: entry \<open>j\<close> of the chain comes from position \<open>pos ! j\<close> of the roster,
  and its signature is over the input the client computed there.
\<close>

definition seq_input :: "hash \<Rightarrow> request \<Rightarrow> nat \<Rightarrow> bytes \<Rightarrow> bytes" where
  "seq_input H req i prev = (case WitnessInput H (Some req) ModeSequential (int i) prev of Inr x \<Rightarrow> x | Inl _ \<Rightarrow> [])"

definition prev_sig :: "witness_signature list \<Rightarrow> nat \<Rightarrow> bytes" where
  "prev_sig chain j = (if j = 0 then [] else wsig_Signature (chain ! (j - 1)))"

definition entry_ok :: "('s, 'p, 'm) kyber \<Rightarrow> hash \<Rightarrow> request \<Rightarrow> 'p roster_entry list \<Rightarrow> witness_signature list
    \<Rightarrow> nat list \<Rightarrow> nat \<Rightarrow> bool" where
  "entry_ok K H req roster chain pos j \<longleftrightarrow>
     (let e = roster ! (pos ! j); ws = chain ! j in
      wsig_WitnessIndex ws = re_Index e \<and> wsig_Pubkey ws = marshal_or_nil K (re_Pubkey e) \<and>
      length (wsig_Signature ws) = 48 \<and>
      VerifyIndividual K (re_Pubkey e) (seq_input H req (pos ! j) (prev_sig chain j)) (wsig_Signature ws) = Inr ())"

definition chain_inv :: "('s, 'p, 'm) kyber \<Rightarrow> hash \<Rightarrow> request \<Rightarrow> 'p roster_entry list \<Rightarrow> witness_signature list
    \<Rightarrow> nat list \<Rightarrow> nat \<Rightarrow> bool" where
  "chain_inv K H req roster chain pos i \<longleftrightarrow> length pos = length chain \<and> sorted_wrt (<) pos \<and>
     (\<forall>p \<in> set pos. p < i) \<and> i \<le> length roster \<and> (\<forall>j < length chain. entry_ok K H req roster chain pos j)"

lemma postWitness_length: "postWitness http e req m i p = Some sig \<Longrightarrow> length sig = 48"
  by (auto simp: postWitness_def postSignURL_def SignatureSize_def split: option.splits if_splits)

lemma entry_ok_append:
  "j < length chain \<Longrightarrow> length pos = length chain \<Longrightarrow>
   entry_ok K H req roster (chain @ [ws]) (pos @ [i]) j = entry_ok K H req roster chain pos j"
  by (auto simp: entry_ok_def nth_append prev_sig_def Let_def)

lemma chain_inv_extend:
  assumes "chain_inv K H req roster chain pos i" and "i < length roster" and "roster ! i = e"
    and "length sig = 48"
    and "VerifyIndividual K (re_Pubkey e) (seq_input H req i (if chain = [] then [] else wsig_Signature (last chain))) sig = Inr ()"
  shows "chain_inv K H req roster (chain @ [signed_by K e sig]) (pos @ [i]) (i + 1)"
proof -
  have "prev_sig (chain @ [signed_by K e sig]) (length chain) = (if chain = [] then [] else wsig_Signature (last chain))"
    by (auto simp: prev_sig_def nth_append last_conv_nth)
  then have "entry_ok K H req roster (chain @ [signed_by K e sig]) (pos @ [i]) (length chain)"
    using assms by (auto simp: entry_ok_def chain_inv_def nth_append signed_by_def Let_def)
  then have "entry_ok K H req roster (chain @ [signed_by K e sig]) (pos @ [i]) j" if "j < Suc (length chain)" for j
    using that assms(1) entry_ok_append by (fastforce simp: chain_inv_def less_Suc_eq)
  then show ?thesis
    using assms(1,2) by (auto simp: chain_inv_def sorted_wrt_append)
qed

lemma drop_cons_nth: "drop j xs = w # ws \<Longrightarrow> j < length xs \<and> xs ! j = w \<and> drop (j + 1) xs = ws"
  by (metis Suc_eq_plus1 drop_Suc drop_eq_Nil hd_drop_conv_nth list.distinct(1) list.sel(1,3) not_less tl_drop)

lemma seq_loop_inv:
  assumes "chain_inv K H req roster chain pos i" and "drop i roster = es"
    and "prevSig = (if chain = [] then [] else wsig_Signature (last chain))"
  shows "\<exists>pos' i'. chain_inv K H req roster (seq_loop K H http req k i prevSig chain es) pos' i'"
  using assms
proof (induction es arbitrary: chain pos i prevSig)
  case Nil
  then show ?case by auto
next
  case (Cons e es)
  from drop_cons_nth [OF Cons.prems(2)] have i: "i < length roster" "roster ! i = e" "drop (i + 1) roster = es"
    by simp_all
  have skip: "chain_inv K H req roster chain pos (i + 1)"
    using Cons.prems(1) i(1) by (auto simp: chain_inv_def)
  show ?case
  proof (cases "postWitness http e req ModeSequential (int i) prevSig")
    case None
    then show ?thesis using Cons.IH [OF skip i(3) Cons.prems(3)] Cons.prems(1) by auto
  next
    case (Some sig)
    let ?v = "VerifyIndividual K (re_Pubkey e) (seq_input H req i prevSig) sig"
    show ?thesis
    proof (cases ?v)
      case (Inl err)
      with Some show ?thesis using Cons.IH [OF skip i(3) Cons.prems(3)] by (simp add: Let_def flip: seq_input_def)
    next
      case (Inr u)
      then have v: "VerifyIndividual K (re_Pubkey e)
          (seq_input H req i (if chain = [] then [] else wsig_Signature (last chain))) sig = Inr ()"
        using Cons.prems(3) by simp
      note ext = chain_inv_extend [OF Cons.prems(1) i(1,2) postWitness_length [OF Some] v]
      have "sig = (if chain @ [signed_by K e sig] = [] then [] else wsig_Signature (last (chain @ [signed_by K e sig])))"
        by (simp add: signed_by_def)
      from Cons.IH [OF ext i(3) this] ext Some Inr show ?thesis by (auto simp: Let_def simp flip: seq_input_def)
    qed
  qed
qed

lemma requestSequential_inv:
  assumes "requestSequential K H http now cfg req = Inr t"
  obtains pos where "chain_inv K H req (sortedRoster (cc_Roster cfg)) (tk_Witnesses t) pos (length (cc_Roster cfg))"
    and "tk_Request t = req" and "tk_Mode t = ModeSequential" and "tk_Threshold t = cc_Threshold cfg"
    and "cc_Threshold cfg \<le> int (length (tk_Witnesses t))"
proof -
  let ?r = "sortedRoster (cc_Roster cfg)"
  have "chain_inv K H req ?r [] [] 0" by (simp add: chain_inv_def)
  from seq_loop_inv [OF this, of ?r "[]" http "cc_Threshold cfg"] obtain pos i where
    inv: "chain_inv K H req ?r (seq_loop K H http req (cc_Threshold cfg) 0 [] [] ?r) pos i" by auto
  then have "chain_inv K H req ?r (seq_loop K H http req (cc_Threshold cfg) 0 [] [] ?r) pos (length (cc_Roster cfg))"
    by (auto simp: chain_inv_def intro: less_le_trans)
  with that assms show ?thesis by (auto simp: requestSequential_def Let_def not_less)
qed

text \<open>What the checking loop asks of entry \<open>j\<close>: its input is the one of position \<open>j\<close> in the ticket.\<close>

definition ticket_entry_ok :: "('s, 'p, 'm) kyber \<Rightarrow> hash \<Rightarrow> request \<Rightarrow> 'p option list \<Rightarrow> witness_signature list
    \<Rightarrow> nat \<Rightarrow> bool" where
  "ticket_entry_ok K H req roster chain j \<longleftrightarrow>
     (let ws = chain ! j; idx = wsig_WitnessIndex ws in
      0 \<le> idx \<and> idx < int (length roster) \<and> wsig_Pubkey ws = marshal_or_nil K (roster ! nat idx) \<and>
      (\<exists>x. WitnessInput H (Some req) ModeSequential (int j) (prev_sig chain j) = Inr x \<and>
         VerifyIndividual K (roster ! nat idx) x (wsig_Signature ws) = Inr ()))"

lemma checks_in_order:
  fixes V :: "'a \<Rightarrow> unit \<Rightarrow> bool"
  shows "((A \<and> B) \<and> S \<and> P \<and> (\<exists>x. W x \<and> (\<exists>u. V x u \<and> T))) = (S \<and> (A \<and> B \<and> P \<and> (\<exists>x. W x \<and> V x ())) \<and> T)"
proof -
  have "(\<exists>u. Q u) = Q ()" for Q :: "unit \<Rightarrow> bool" by (metis (full_types) old.unit.exhaust)
  then show ?thesis by blast
qed

lemma ticket_loop_step:
  assumes "chain ! j = w" and "prev_sig chain j = prev"
  shows "ticket_loop K H req roster j prev seen (w # ws) = Inr () \<longleftrightarrow>
      wsig_WitnessIndex w \<notin> seen \<and> ticket_entry_ok K H req roster chain j \<and>
      ticket_loop K H req roster (j + 1) (wsig_Signature w) (insert (wsig_WitnessIndex w) seen) ws = Inr ()"
proof -
  have "ticket_entry_ok K H req roster chain j \<longleftrightarrow>
      0 \<le> wsig_WitnessIndex w \<and> wsig_WitnessIndex w < int (length roster) \<and>
      wsig_Pubkey w = marshal_or_nil K (roster ! nat (wsig_WitnessIndex w)) \<and>
      (\<exists>x. WitnessInput H (Some req) ModeSequential (int j) prev = Inr x \<and>
         VerifyIndividual K (roster ! nat (wsig_WitnessIndex w)) x (wsig_Signature w) = Inr ())"
    unfolding ticket_entry_ok_def Let_def assms by (rule refl)
  then show ?thesis
    unfolding ticket_loop.simps Let_def guard_Inr bind_r_Inr_iff wrap_err_Inr_iff de_Morgan_disj not_less not_le not_not
    by (simp only: checks_in_order)
qed

lemma forall_from:
  "j < n \<Longrightarrow> (\<forall>i. j \<le> i \<longrightarrow> i < n \<longrightarrow> P i) \<longleftrightarrow> P j \<and> (\<forall>i. j + 1 \<le> i \<longrightarrow> i < n \<longrightarrow> P i)" for j n :: nat
  using le_neq_implies_less [of j] by (fastforce simp: Suc_le_eq)

lemma distinct_fresh:
  "distinct (x # xs) \<and> set (x # xs) \<inter> S = {} \<longleftrightarrow> x \<notin> S \<and> distinct xs \<and> set xs \<inter> insert x S = {}"
  by auto

lemma conj_regroup: "(n \<and> e \<and> es \<and> d \<and> s) = ((e \<and> es) \<and> n \<and> d \<and> s)"
  by blast

lemma ticket_loop_iff:
  "drop j chain = ws \<Longrightarrow>
   ticket_loop K H req roster j (prev_sig chain j) seen ws = Inr () \<longleftrightarrow>
     (\<forall>i. j \<le> i \<longrightarrow> i < length chain \<longrightarrow> ticket_entry_ok K H req roster chain i) \<and>
     distinct (map wsig_WitnessIndex ws) \<and> set (map wsig_WitnessIndex ws) \<inter> seen = {}"
proof (induction ws arbitrary: j seen)
  case (Cons w ws)
  from drop_cons_nth [OF Cons.prems] have j: "j < length chain" "chain ! j = w" "drop (j + 1) chain = ws" by simp_all
  have p: "prev_sig chain (j + 1) = wsig_Signature w" using j by (simp add: prev_sig_def)
  note step = ticket_loop_step [OF j(2) refl, of K H req roster seen ws]
  note ih = Cons.IH [OF j(3), of "insert (wsig_WitnessIndex w) seen", unfolded p]
  show ?case
    unfolding step ih forall_from [OF j(1)] distinct_fresh list.map
    by (rule conj_regroup)
qed simp

lemma ticket_loop_whole:
  "ticket_loop K H req roster 0 [] {} chain = Inr () \<longleftrightarrow>
     (\<forall>i < length chain. ticket_entry_ok K H req roster chain i) \<and> distinct (map wsig_WitnessIndex chain)"
  using ticket_loop_iff [of 0 chain chain K H req roster "{}"] by (simp add: prev_sig_def)

text \<open>Two entries of a collision-free set of inputs.\<close>

definition inputs_distinct :: "hash \<Rightarrow> request \<Rightarrow> nat \<Rightarrow> witness_signature list \<Rightarrow> bool" where
  "inputs_distinct H req n chain \<longleftrightarrow> hash32 H \<and>
     inj_on H ((\<lambda>(i, p). witness_preimage req ModeSequential (int i) p) `
       ({0..<n} \<times> wsig_Signature ` set chain))"

lemma seq_ok_prev:
  assumes "chain_inv K H req roster chain pos i" and "j < length chain" and "int m \<le> 0xFFFF" and "j > 0"
  shows "seq_ok ModeSequential (int m) (prev_sig chain j)"
proof -
  have "entry_ok K H req roster chain pos (j - 1)" using assms by (auto simp: chain_inv_def)
  then show ?thesis using assms(3,4) by (simp add: seq_ok_def prev_sig_def entry_ok_def Let_def)
qed

lemma positions_increase: "sorted_wrt (<) (pos :: nat list) \<Longrightarrow> j < length pos \<Longrightarrow> j \<le> pos ! j"
proof (induction j)
  case (Suc j)
  then have "j \<le> pos ! j" "pos ! j < pos ! Suc j" by (simp_all add: sorted_wrt_iff_nth_less)
  then show ?case by simp
qed simp

lemma sequential_accepts:
  assumes r: "roster_ok es" and n: "length es \<le> 2 ^ 16" and fits: "request_fits req"
    and inv: "chain_inv K H req (sortedRoster es) chain pos (length es)"
    and d: "bls_binds K" "inputs_distinct H req (length es) chain"
  shows "ticket_loop K H req (rosterPubs (sortedRoster es)) 0 [] {} chain = Inr () \<longleftrightarrow>
    map wsig_WitnessIndex chain = map int [0..<length chain]"
proof -
  let ?r = "sortedRoster es"
  have pos: "length pos = length chain" "sorted_wrt (<) pos" "\<And>p. p \<in> set pos \<Longrightarrow> p < length es"
    and ent: "\<And>j. j < length chain \<Longrightarrow> entry_ok K H req ?r chain pos j"
    using inv by (auto simp: chain_inv_def)
  have lt: "pos ! j < length es" if "j < length chain" for j using pos that by simp
  have idx: "wsig_WitnessIndex (chain ! j) = int (pos ! j)" if "j < length chain" for j
    using ent [OF that] sortedRoster_nth [OF r lt [OF that]] by (simp add: entry_ok_def Let_def)
  have at: "ticket_entry_ok K H req (rosterPubs ?r) chain j \<longleftrightarrow>
      (\<exists>x. WitnessInput H (Some req) ModeSequential (int j) (prev_sig chain j) = Inr x \<and>
         VerifyIndividual K (re_Pubkey (?r ! (pos ! j))) x (wsig_Signature (chain ! j)) = Inr ())" if "j < length chain" for j
    using ent [OF that] lt [OF that] sortedRoster_nth [OF r lt [OF that]]
    by (simp add: ticket_entry_ok_def Let_def idx [OF that] entry_ok_def rosterPubs_sorted [OF r])
  have small: "int j \<le> 0xFFFF" if "j < length chain" for j
    using positions_increase [OF pos(2), of j] lt [OF that] that n pos(1) by simp
  have own: "WitnessInput H (Some req) ModeSequential (int j) (prev_sig chain j) =
      Inr (H (witness_preimage req ModeSequential (int j) (prev_sig chain j)))" if "j < length chain" for j
    using seq_ok_prev [OF inv that small [OF that]] WitnessInput_Inr [OF fits]
    by (cases "j = 0") (auto simp: seq_ok_def)
  show ?thesis
  proof
    assume idxs: "map wsig_WitnessIndex chain = map int [0..<length chain]"
    have "pos ! j = j" if "j < length chain" for j
      using arg_cong [OF idxs, of "\<lambda>xs. xs ! j"] that by (simp add: idx)
    then have "ticket_entry_ok K H req (rosterPubs ?r) chain j" if "j < length chain" for j
      using ent [OF that] own [OF that] at [OF that] that by (simp add: entry_ok_def seq_input_def Let_def)
    moreover have "distinct (map wsig_WitnessIndex chain)" unfolding idxs by (simp add: distinct_map)
    ultimately show "ticket_loop K H req (rosterPubs ?r) 0 [] {} chain = Inr ()" by (simp add: ticket_loop_whole)
  next
    assume "ticket_loop K H req (rosterPubs ?r) 0 [] {} chain = Inr ()"
    then have ok: "ticket_entry_ok K H req (rosterPubs ?r) chain j" if "j < length chain" for j
      using that by (simp add: ticket_loop_whole)
    have "pos ! j = j" if j: "j < length chain" for j
    proof (rule ccontr)
      let ?p = "pos ! j" and ?w = "prev_sig chain j"
      assume ne: "?p \<noteq> j"
      then have gt: "j < ?p" using positions_increase [OF pos(2), of j] j pos(1) by simp
      let ?x = "H (witness_preimage req ModeSequential (int j) ?w)" and ?y = "seq_input H req ?p ?w"
      have h: "length (H m) = 32" for m using d(2) by (simp add: inputs_distinct_def hash32_def)
      have vx: "VerifyIndividual K (re_Pubkey (?r ! ?p)) ?x (wsig_Signature (chain ! j)) = Inr ()"
        using ok [OF j] own [OF j] at [OF j] by simp
      have vy: "VerifyIndividual K (re_Pubkey (?r ! ?p)) ?y (wsig_Signature (chain ! j)) = Inr ()"
        using ent [OF j] by (simp add: entry_ok_def Let_def)
      have ly: "length ?y \<le> 32"
        using WitnessInput_Inr [OF fits, of H ModeSequential "int ?p" ?w] h
        by (auto simp: seq_input_def split: sum.splits)
      have eq: "?x = ?y"
        using d(1) vx vy h ly unfolding bls_binds_def VerifyIndividual_def
        by (auto split: option.splits simp: guard_def split: if_splits)
      show False
      proof (cases "j = 0")
        case True
        then have "\<not> seq_ok ModeSequential (int ?p) ?w" using gt by (simp add: seq_ok_def prev_sig_def)
        then have "?y = []"
          using WitnessInput_Inr [OF fits, of H ModeSequential "int ?p" ?w] by (auto simp: seq_input_def split: sum.splits)
        with eq h show False by (metis list.size(3) zero_neq_numeral)
      next
        case False
        have sp: "int ?p \<le> 0xFFFF" using lt [OF j] n by simp
        have so: "seq_ok ModeSequential (int ?p) ?w" "seq_ok ModeSequential (int j) ?w"
          using seq_ok_prev [OF inv j sp] seq_ok_prev [OF inv j small [OF j]] False by simp_all
        then have y: "?y = H (witness_preimage req ModeSequential (int ?p) ?w)"
          using WitnessInput_Inr [OF fits, of H ModeSequential "int ?p" ?w "H (witness_preimage req ModeSequential (int ?p) ?w)"]
          by (simp add: seq_input_def)
        have "?w \<in> wsig_Signature ` set chain" using j False by (auto simp: prev_sig_def)
        moreover have "?p \<in> {0..<length es}" "j \<in> {0..<length es}" using lt [OF j] gt by auto
        ultimately have "witness_preimage req ModeSequential (int j) ?w = witness_preimage req ModeSequential (int ?p) ?w"
          using d(2) eq unfolding y inputs_distinct_def
          by (elim conjE inj_onD) (auto intro: image_eqI [of _ _ "(j, ?w)"] image_eqI [of _ _ "(?p, ?w)"])
        from witness_preimage_inject [OF fits fits so(2,1) this] gt show False
          by (auto simp: seq_fields_def)
      qed
    qed
    then show "map wsig_WitnessIndex chain = map int [0..<length chain]"
      by (intro nth_equalityI) (simp_all add: idx)
  qed
qed

end
