(* ===== verification/Daq.thy ===== *)
theory Daq
  imports Client
begin

text \<open>
  The properties of the quorum protocol of \<open>internal/daq\<close> over its components (protocol.go, bls.go,
  drand.go, witness.go, client.go), with an instance of the BLS package and small requests,
  rosters and networks on which their hypotheses are checked.
\<close>

section \<open>An instance of the BLS package\<close>

text \<open>
  A signature names its message and is the same for all keys; masks are lists of bits, encoded as
  one byte each; the aggregate of signatures is the first of them.
\<close>

definition demo_tag :: "bytes \<Rightarrow> bytes" where
  "demo_tag msg = of_nat (length msg) # take 47 (msg @ replicate 47 0)"

definition demo_kyber :: "(byte, bytes, bool list) kyber" where
  "demo_kyber = \<lparr>ky_new_key_pair = (\<lambda>f. (f 0, [f 0])), ky_base_mul = (\<lambda>s. [s]),
     ky_scalar_marshal = (\<lambda>s. Some [s]), ky_scalar_unmarshal = (\<lambda>b. if b = [] then None else Some (hd b)),
     ky_point_marshal = Some, ky_point_unmarshal = Some, ky_point_eq = (=),
     ky_sign = (\<lambda>s msg. Some (demo_tag msg)), ky_verify = (\<lambda>p msg sig. sig = demo_tag msg),
     ky_new_mask = (\<lambda>ps. Some (replicate (length ps) False)),
     ky_set_bit = (\<lambda>m i. if i < length m then Some (m[i := True]) else None),
     ky_set_mask = (\<lambda>m bs. Some (map (\<lambda>b. b \<noteq> 0) bs)), ky_mask_bytes = map of_bool,
     ky_count_enabled = (\<lambda>m. length (filter id m)), ky_count_total = length,
     ky_aggregate_signatures = (\<lambda>sigs m. if sigs = [] then None else Some (hd sigs)),
     ky_aggregate_public_keys = (\<lambda>m. Some [])\<rparr>"

lemma length_demo_tag [simp]: "length (demo_tag msg) = 48"
  by (simp add: demo_tag_def)

lemma demo_tag_inject:
  assumes "length m \<le> 32" and "length m' \<le> 32" and "demo_tag m = demo_tag m'"
  shows "m = m'"
proof -
  have "(of_nat (length m) :: byte) = of_nat (length m')" using assms(3) by (simp add: demo_tag_def)
  then have l: "length m = length m'"
    using assms(1,2) by (simp add: word_of_nat_eq_iff take_bit_eq_mod)
  have "take 47 (m @ replicate 47 0) = take 47 (m' @ replicate 47 0)" using assms(3) by (simp add: demo_tag_def)
  then have "take (length m) (take 47 (m @ replicate 47 0)) = take (length m') (take 47 (m' @ replicate 47 0))"
    using l by simp
  then show ?thesis using assms(1,2) by (simp add: min_def)
qed

lemma demo_set_bits:
  "list_all (\<lambda>i. 0 \<le> i \<and> i < int (length m)) idxs \<Longrightarrow>
   set_bits demo_kyber (length m) m idxs = Inr (map (\<lambda>i. m ! i \<or> int i \<in> set idxs) [0..<length m])"
proof (induction idxs arbitrary: m)
  case Nil
  then show ?case by (simp add: map_nth)
next
  case (Cons x xs)
  then have x: "nat x < length m" "0 \<le> x" "x < int (length m)" by auto
  have "set_bits demo_kyber (length m) m (x # xs) = set_bits demo_kyber (length (m[nat x := True])) (m[nat x := True]) xs"
    using x by (simp add: demo_kyber_def guard_def)
  also have "\<dots> = Inr (map (\<lambda>i. m[nat x := True] ! i \<or> int i \<in> set xs) [0..<length m])"
    using Cons.IH [of "m[nat x := True]"] Cons.prems by simp
  also have "\<dots> = Inr (map (\<lambda>i. m ! i \<or> int i \<in> set (x # xs)) [0..<length m])"
    using x by (auto simp: nth_list_update)
  finally show ?case .
qed

lemma demo_mask_ok: "mask_ok demo_kyber"
  unfolding mask_ok_def
proof (intro allI impI)
  fix ps :: "bytes list" and idxs :: "int list"
  assume ne: "ps \<noteq> []" and r: "list_all (\<lambda>i. 0 \<le> i \<and> i < int (length ps)) idxs"
  let ?m0 = "replicate (length ps) False"
  define m where "m = map (\<lambda>i. int i \<in> set idxs) [0..<length ps]"
  have "map (\<lambda>i. ?m0 ! i \<or> int i \<in> set idxs) [0..<length ps] = m" by (simp add: m_def)
  then have s: "set_bits demo_kyber (length ps) ?m0 idxs = Inr m"
    using demo_set_bits [of ?m0 idxs] r by simp
  have "length (filter id m) = card {i. i < length ps \<and> int i \<in> set idxs}"
    by (auto simp: m_def length_filter_conv_card intro!: arg_cong [of _ _ card])
  also have "\<dots> = card (int ` {i. i < length ps \<and> int i \<in> set idxs})" by (simp add: card_image)
  also have "int ` {i. i < length ps \<and> int i \<in> set idxs} = set idxs"
    using r by (auto simp: list_all_iff intro!: image_eqI [of _ int "nat _"])
  finally have c: "length (filter id m) = card (set idxs)" .
  have "map (\<lambda>b. b \<noteq> 0) (map of_bool m :: bytes) = m" by (simp add: comp_def)
  then show "\<exists>m0 m. ky_new_mask demo_kyber ps = Some m0 \<and> set_bits demo_kyber (length ps) m0 idxs = Inr m \<and>
      ky_set_mask demo_kyber m0 (ky_mask_bytes demo_kyber m) = Some m \<and> ky_mask_bytes demo_kyber m \<noteq> [] \<and>
      ky_count_enabled demo_kyber m = card (set idxs)"
    using s c ne by (intro exI [of _ ?m0] exI [of _ m]) (simp add: demo_kyber_def m_def)
qed

lemma demo_aggregate_ok: "aggregate_ok demo_kyber"
  unfolding aggregate_ok_def
proof (intro allI impI)
  fix ps :: "bytes list" and idxs m sigs msg
  assume "idxs \<noteq> []" and "list_all2 (\<lambda>i sig. ky_verify demo_kyber (ps ! nat i) msg sig) idxs sigs"
  then obtain sig rest where "sigs = sig # rest" "sig = demo_tag msg"
    by (cases idxs; cases sigs) (auto simp: demo_kyber_def)
  then show "\<exists>P b Q. ky_aggregate_signatures demo_kyber sigs m = Some P \<and> ky_point_marshal demo_kyber P = Some b \<and>
      length b = 48 \<and> ky_aggregate_public_keys demo_kyber m = Some Q \<and> ky_verify demo_kyber Q msg b"
    by (simp add: demo_kyber_def)
qed

lemma demo_kyber_ok: "kyber_ok demo_kyber"
  using demo_mask_ok demo_aggregate_ok by (simp add: kyber_ok_def sign_ok_def demo_kyber_def)

lemma demo_bls_binds: "bls_binds demo_kyber"
  using demo_tag_inject by (simp add: bls_binds_def demo_kyber_def)

section \<open>A request, a roster and a network\<close>

definition demo_body :: request where
  "demo_body = \<lparr>rq_OpID = [1], rq_OpHash = replicate 32 0, rq_AgentPubkey = pad32 [9], rq_AgentSignature = [],
     rq_DrandChain = [], rq_DrandRound = 1, rq_DrandSignature = demo_tag (demo_hash (putUint64 1)), rq_RequestedAtMs = 0\<rparr>"

definition demo_message :: bytes where
  "demo_message = (case CanonicalRequestBytes (Some demo_body) of Inr m \<Rightarrow> m | Inl _ \<Rightarrow> [])"

definition demo_request :: request where
  "demo_request = demo_body\<lparr>rq_AgentSignature := pad32 [9] @ demo_hash demo_message\<rparr>"

lemma demo_canonical: "CanonicalRequestBytes (Some demo_request) = Inr demo_message"
  by (simp add: demo_message_def demo_request_def CanonicalRequestBytes_def demo_body_def)

lemma demo_request_signed: "VerifyAgentSignature demo_ed demo_request = Inr ()"
  using demo_canonical by (simp add: VerifyAgentSignature_def) (simp add: demo_request_def demo_body_def)

lemma demo_request_fits: "request_fits demo_request"
  by (rule VerifyAgentSignature_fits [OF demo_request_signed])

definition demo_entry :: "bytes roster_entry" where
  "demo_entry = \<lparr>re_Index = 0, re_Label = [], re_URL = [], re_Pubkey = Some [7], re_AuthToken = []\<rparr>"

lemma demo_entry_simps [simp]: "re_Index demo_entry = 0" "re_Pubkey demo_entry = Some [7]"
  by (simp_all add: demo_entry_def)

definition demo_roster :: "bytes roster_entry list" where
  "demo_roster = [demo_entry]"

lemma demo_roster_ok: "roster_ok demo_roster"
  by (simp add: roster_ok_def demo_roster_def)

lemma demo_sorted: "sortedRoster demo_roster = demo_roster"
  by (simp add: sortedRoster_def demo_roster_def)

lemma demo_pubs: "rosterPubs demo_roster = [Some [7]]"
  by (simp add: rosterPubs_def demo_roster_def)

text \<open>A witness that answers every request with the signature of the input of one mode.\<close>

definition demo_input :: "mode \<Rightarrow> bytes" where
  "demo_input m = demo_hash (witness_preimage demo_request m 0 [])"

definition demo_http :: "mode \<Rightarrow> http" where
  "demo_http m url token body = Some (hex_encode (demo_tag (demo_input m)))"

lemma demo_post: "postWitness (demo_http m) e req m' i prev = Some (demo_tag (demo_input m))"
  by (simp add: postWitness_def postSignURL_def demo_http_def SignatureSize_def)

lemma demo_witness_input: "WitnessInput demo_hash (Some demo_request) m 0 [] = Inr (demo_input m)"
  by (simp add: WitnessInput_Inr [OF demo_request_fits] seq_ok_def demo_input_def)

lemma demo_verify: "VerifyIndividual demo_kyber (Some p) x (demo_tag y) = Inr () \<longleftrightarrow> demo_tag y = demo_tag x"
  by (simp add: VerifyIndividual_def demo_kyber_def)

definition demo_config :: "mode \<Rightarrow> bytes client_config" where
  "demo_config m = \<lparr>cc_Roster = demo_roster, cc_Threshold = 1, cc_Mode = m\<rparr>"

lemma demo_verified: "VerifyIndividual demo_kyber (Some p) x (demo_tag x) = Inr ()"
  by (simp add: demo_verify)

lemma demo_worker: "worker demo_kyber demo_hash (demo_http ModeParallel) demo_request demo_entry =
    Some (demo_tag (demo_input ModeParallel))"
  by (simp add: worker_def demo_witness_input demo_post demo_verified)

lemma demo_aggregate: "\<exists>r. AggregateSigs demo_kyber [Some [7]] [0] [demo_tag x] = Inr r"
  by (simp add: AggregateSigs_def demo_kyber_def)

lemma demo_parallel_ticket:
  "\<exists>t. requestParallel demo_kyber demo_hash (demo_http ModeParallel) 0 demo_roster (\<lambda>_. False)
     (demo_config ModeParallel) demo_request = Inr t"
proof -
  have good: "collect (\<lambda>e. if False then None else worker demo_kyber demo_hash (demo_http ModeParallel) demo_request e)
      demo_roster = [(demo_entry, demo_tag (demo_input ModeParallel))]"
    by (simp add: collect_def demo_roster_def demo_worker map_filter_simps)
  obtain r where "AggregateSigs demo_kyber [Some [7]] [0] [demo_tag (demo_input ModeParallel)] = Inr r"
    using demo_aggregate by blast
  then show ?thesis
    by (simp add: requestParallel_def demo_config_def demo_sorted demo_pubs good [simplified] Let_def)
qed

lemma demo_sequential_ticket:
  "\<exists>t. requestSequential demo_kyber demo_hash (demo_http ModeSequential) 0 (demo_config ModeSequential) demo_request = Inr t \<and>
     tk_Witnesses t = [signed_by demo_kyber demo_entry (demo_tag (demo_input ModeSequential))]"
proof -
  have "seq_loop demo_kyber demo_hash (demo_http ModeSequential) demo_request 1 0 [] [] demo_roster =
      [signed_by demo_kyber demo_entry (demo_tag (demo_input ModeSequential))]"
    by (simp add: demo_roster_def demo_post demo_witness_input demo_verified)
  then show ?thesis by (simp add: requestSequential_def demo_config_def demo_sorted Let_def)
qed

lemma ticket_entry_take:
  assumes "j < m"
  shows "ticket_entry_ok K H req roster (take m chain) j = ticket_entry_ok K H req roster chain j"
proof -
  have "prev_sig (take m chain) j = prev_sig chain j" using assms by (simp add: prev_sig_def)
  then show ?thesis using assms by (simp add: ticket_entry_ok_def)
qed

section \<open>Properties\<close>

text \<open>
  C27: Whatever the order in which the witnesses answer and whichever answers are cut off, a ticket
  the client builds in parallel mode from a request the agent signed passes \<open>VerifyTicket\<close> on the
  roster's keys.
\<close>

theorem parallel_ticket_verifies:
  assumes "kyber_ok K" and "roster_ok (cc_Roster cfg)" and "1 \<le> cc_Threshold cfg"
    and "distinct (map re_Index arrivals)" and "set arrivals \<subseteq> set (cc_Roster cfg)"
    and "VerifyAgentSignature E req = Inr ()"
    and "requestParallel K H http now arrivals cancelled cfg req = Inr t"
  shows "VerifyTicket K E H (Some t) (rosterPubs (sortedRoster (cc_Roster cfg))) = Inr ()"
  using assms by (rule requestParallel_verifies)

theorem parallel_ticket_verifies_witness:
  "\<exists>t. requestParallel demo_kyber demo_hash (demo_http ModeParallel) 0 demo_roster (\<lambda>_. False)
       (demo_config ModeParallel) demo_request = Inr t \<and>
     VerifyTicket demo_kyber demo_ed demo_hash (Some t) (rosterPubs demo_roster) = Inr ()"
proof -
  obtain t where t: "requestParallel demo_kyber demo_hash (demo_http ModeParallel) 0 demo_roster (\<lambda>_. False)
       (demo_config ModeParallel) demo_request = Inr t" using demo_parallel_ticket by blast
  have "VerifyTicket demo_kyber demo_ed demo_hash (Some t)
      (rosterPubs (sortedRoster (cc_Roster (demo_config ModeParallel)))) = Inr ()"
    by (rule parallel_ticket_verifies [OF demo_kyber_ok _ _ _ _ demo_request_signed t])
      (simp_all add: demo_config_def demo_roster_ok, simp add: demo_roster_def)
  with t show ?thesis by (auto simp: demo_config_def demo_sorted)
qed

text \<open>
  C30: A ticket the client builds in sequential mode passes \<open>VerifyTicket\<close> exactly when no witness
  before the last signer was skipped: the client signs over the witness's position in the sorted
  roster, the check over its position in the chain, and the two agree only without a gap.
\<close>

theorem sequential_ticket_verifies_iff:
  assumes t: "requestSequential K H http now cfg req = Inr t"
    and r: "roster_ok (cc_Roster cfg)" "length (cc_Roster cfg) \<le> 2 ^ 16"
    and k: "1 \<le> cc_Threshold cfg" "cc_Threshold cfg \<le> int (length (cc_Roster cfg))"
    and agent: "VerifyAgentSignature E req = Inr ()"
    and binds: "bls_binds K" "inputs_distinct H req (length (cc_Roster cfg)) (tk_Witnesses t)"
  shows "VerifyTicket K E H (Some t) (rosterPubs (sortedRoster (cc_Roster cfg))) = Inr () \<longleftrightarrow>
    map wsig_WitnessIndex (tk_Witnesses t) = map int [0..<length (tk_Witnesses t)]"
proof -
  obtain pos where inv: "chain_inv K H req (sortedRoster (cc_Roster cfg)) (tk_Witnesses t) pos (length (cc_Roster cfg))"
    and f: "tk_Request t = req" "tk_Mode t = ModeSequential" "tk_Threshold t = cc_Threshold cfg"
      "cc_Threshold cfg \<le> int (length (tk_Witnesses t))"
    using requestSequential_inv [OF t] by blast
  have "ModeSequential \<noteq> ModeParallel" by (simp add: ModeSequential_def ModeParallel_def)
  then have "VerifyTicket K E H (Some t) (rosterPubs (sortedRoster (cc_Roster cfg))) = Inr () \<longleftrightarrow>
      ticket_loop K H req (rosterPubs (sortedRoster (cc_Roster cfg))) 0 [] {} (tk_Witnesses t) = Inr ()"
    using agent k f by (simp add: VerifyTicket_def)
  then show ?thesis using sequential_accepts [OF r VerifyAgentSignature_fits [OF agent] inv binds] by simp
qed

theorem sequential_ticket_verifies_iff_witness:
  "\<exists>t. requestSequential demo_kyber demo_hash (demo_http ModeSequential) 0 (demo_config ModeSequential) demo_request = Inr t \<and>
     VerifyTicket demo_kyber demo_ed demo_hash (Some t) (rosterPubs demo_roster) = Inr ()"
proof -
  obtain t where t: "requestSequential demo_kyber demo_hash (demo_http ModeSequential) 0 (demo_config ModeSequential) demo_request = Inr t"
    and w: "tk_Witnesses t = [signed_by demo_kyber demo_entry (demo_tag (demo_input ModeSequential))]"
    using demo_sequential_ticket by blast
  have d: "inputs_distinct demo_hash demo_request 1 (tk_Witnesses t)"
    by (simp add: inputs_distinct_def hash32_demo w)
  have c: "cc_Roster (demo_config ModeSequential) = demo_roster" "cc_Threshold (demo_config ModeSequential) = 1"
    "length demo_roster = 1" by (simp_all add: demo_config_def demo_roster_def)
  have "VerifyTicket demo_kyber demo_ed demo_hash (Some t)
      (rosterPubs (sortedRoster (cc_Roster (demo_config ModeSequential)))) = Inr () \<longleftrightarrow>
      map wsig_WitnessIndex (tk_Witnesses t) = map int [0..<length (tk_Witnesses t)]"
    by (rule sequential_ticket_verifies_iff [OF t _ _ _ _ demo_request_signed demo_bls_binds])
      (simp_all add: c demo_roster_ok d [unfolded One_nat_def])
  moreover have "map wsig_WitnessIndex (tk_Witnesses t) = map int [0..<length (tk_Witnesses t)]"
    by (simp add: w signed_by_def)
  ultimately show ?thesis using t by (simp add: c demo_sorted)
qed

text \<open>
  The threshold a ticket is checked against is the one the ticket claims: from an accepted
  sequential ticket anybody makes an accepted one with any lower threshold by cutting the chain.
\<close>

theorem lower_threshold_accepted:
  assumes v: "VerifyTicket K E H (Some t) roster = Inr ()" and m: "tk_Mode t = ModeSequential"
    and k: "1 \<le> k" "int k \<le> tk_Threshold t"
  shows "VerifyTicket K E H (Some (t\<lparr>tk_Threshold := int k, tk_Witnesses := take k (tk_Witnesses t)\<rparr>)) roster = Inr ()"
proof -
  have ne: "ModeSequential \<noteq> ModeParallel" by (simp add: ModeSequential_def ModeParallel_def)
  have f: "VerifyAgentSignature E (tk_Request t) = Inr ()" "tk_Threshold t \<le> int (length roster)"
    "tk_Threshold t \<le> int (length (tk_Witnesses t))"
    and l: "ticket_loop K H (tk_Request t) roster 0 [] {} (tk_Witnesses t) = Inr ()"
    using v m ne by (auto simp: VerifyTicket_def not_less)
  have "distinct (map wsig_WitnessIndex (tk_Witnesses t))" using l by (simp add: ticket_loop_whole)
  then have "distinct (map wsig_WitnessIndex (take k (tk_Witnesses t)))"
    by (metis distinct_take take_map)
  moreover have "ticket_entry_ok K H (tk_Request t) roster (take k (tk_Witnesses t)) i"
    if "i < length (take k (tk_Witnesses t))" for i
  proof -
    have "ticket_entry_ok K H (tk_Request t) roster (tk_Witnesses t) i" using l that by (simp add: ticket_loop_whole)
    moreover have "i < k" using that by simp
    ultimately show ?thesis using ticket_entry_take [OF \<open>i < k\<close>] by blast
  qed
  ultimately have "ticket_loop K H (tk_Request t) roster 0 [] {} (take k (tk_Witnesses t)) = Inr ()"
    by (simp add: ticket_loop_whole)
  then show ?thesis using f k m ne by (simp add: VerifyTicket_def)
qed

theorem lower_threshold_accepted_witness:
  "\<exists>t. VerifyTicket demo_kyber demo_ed demo_hash (Some (t\<lparr>tk_Threshold := int 1, tk_Witnesses := take 1 (tk_Witnesses t)\<rparr>))
     (rosterPubs demo_roster) = Inr () \<and> length (tk_Witnesses t) = 1"
proof -
  define t where "t = \<lparr>tk_Request = demo_request, tk_Mode = ModeSequential, tk_Threshold = 1, tk_RosterSize = 1,
    tk_Witnesses = [signed_by demo_kyber demo_entry (demo_tag (demo_input ModeSequential))],
    tk_AggSignature = [], tk_AggMask = [], tk_CreatedAtMs = 0\<rparr>"
  have "VerifyTicket demo_kyber demo_ed demo_hash (Some t) (rosterPubs demo_roster) = Inr ()"
    using demo_request_signed
    by (simp add: VerifyTicket_def t_def demo_pubs signed_by_def demo_witness_input demo_verified
        ModeSequential_def ModeParallel_def)
  then have "VerifyTicket demo_kyber demo_ed demo_hash (Some (t\<lparr>tk_Threshold := int 1, tk_Witnesses := take 1 (tk_Witnesses t)\<rparr>))
      (rosterPubs demo_roster) = Inr ()"
    by (rule lower_threshold_accepted) (simp_all add: t_def)
  then show ?thesis by (intro exI [of _ t]) (simp add: t_def)
qed

text \<open>
  C28: A witness answers with a signature only to a POST with its token (when it has one), for a
  request whose canonical bytes the agent's key signs. When it checks beacons, the request's
  beacon is a signature of its round under the configured key (the well-known one when there is
  none), and that round differs from the one due at the witness's clock, by the chain
  information in the handler's client or else by the first usable answer of its endpoints, by no
  more than the configured lag (2 rounds by default) or by at least \<open>2 ^ 63\<close>. The signature is the
  witness key's over the canonical input of exactly that request and position.
\<close>

theorem witness_signs_only:
  assumes "snd (WitnessHandler W cfg meth authz body) = Inr resp"
  shows "\<exists>js. body = Some js \<and> meth = str ''POST'' \<and> signed_for W cfg authz js resp"
  using WitnessHandler_signs [OF assms] by metis

text \<open>The drand chain of the witness has a round every 30 s since time 0; it is asked at time 70.\<close>

definition demo_world :: "(byte, bytes, bool list) world" where
  "demo_world = \<lparr>w_ed = demo_ed, w_sha3 = demo_hash, w_sha256 = demo_hash, w_kyber = demo_kyber,
     w_net = \<lparr>net_info = (\<lambda>_ _. Info_reply 30 0 []), net_round = (\<lambda>_ _ _. Round_failed)\<rparr>, w_now = 70, w_now_ms = 0\<rparr>"

definition demo_witness :: "(byte, bytes) witness_config" where
  "demo_witness = \<lparr>wc_Index = 0, wc_Label = [], wc_Priv = Some (7, [7]), wc_Drand = NewDrandClient [] [[1]],
     wc_MaxRoundLag = 0, wc_VerifyDrand = True, wc_DrandChainPubkey = replicate 96 1, wc_AuthTokenHash = demo_hash [5]\<rparr>"

lemma demo_parsed: "parseWitnessRequest (request_json demo_request ModeParallel 0 []) =
    Inr \<lparr>pr_Request = demo_request, pr_Mode = ModeParallel, pr_SeqIndex = 0, pr_PrevSig = []\<rparr>"
  by (simp add: parseWitnessRequest_def request_json_def hex_field_def Mode_String_def demo_request_def demo_body_def
      ModeParallel_def ModeSequential_def)

lemma demo_beacon: "snd (check_drand demo_world demo_witness demo_request) = Inr ()"
proof -
  have "VerifyDrandBeacon demo_kyber demo_hash 1 (demo_tag (demo_hash (putUint64 1))) (replicate 96 1) = Inr ()"
    by (simp add: VerifyDrandBeacon_def, simp add: demo_kyber_def drandMsgBLSUnchained_def)
  then show ?thesis
    by (simp add: check_drand_def demo_world_def demo_witness_def demo_request_def demo_body_def Info_def
        NewDrandClient_def CheckFreshness_def ExpectedRound_def Let_def)
qed

theorem witness_signs_only_witness:
  "\<exists>resp. snd (WitnessHandler demo_world demo_witness (str ''POST'') (str ''Bearer '' @ [5])
       (Some (request_json demo_request ModeParallel 0 []))) = Inr resp \<and>
     signed_for demo_world demo_witness (str ''Bearer '' @ [5]) (request_json demo_request ModeParallel 0 []) resp"
proof -
  have a: "authorised demo_world demo_witness (str ''Bearer '' @ [5]) = Inr ()"
    by (simp add: authorised_def has_prefix_def HashAuthToken_def demo_world_def demo_witness_def str_def)
  obtain c where d: "check_drand demo_world demo_witness demo_request = (c, Inr ())"
    using demo_beacon by (cases "check_drand demo_world demo_witness demo_request") simp
  have w: "w_ed demo_world = demo_ed" "w_sha3 demo_world = demo_hash" "w_kyber demo_world = demo_kyber"
    "wc_Priv demo_witness = Some (7, [7])"
    by (simp_all add: demo_world_def demo_witness_def)
  have "\<exists>resp. snd (sign_request demo_world demo_witness (Some (request_json demo_request ModeParallel 0 []))) = Inr resp"
    using demo_request_signed
    by (simp add: sign_request_def demo_parsed d w demo_witness_input Sign_def, simp add: demo_kyber_def)
  then obtain resp where "snd (WitnessHandler demo_world demo_witness (str ''POST'') (str ''Bearer '' @ [5])
       (Some (request_json demo_request ModeParallel 0 []))) = Inr resp"
    using a by (auto simp: WitnessHandler_def)
  with witness_signs_only [OF this] show ?thesis by auto
qed

text \<open>
  The freshness window works on 64-bit rounds: a round passes when it is within the allowed lag
  of the expected one, and also when it is at least \<open>2 ^ 63\<close> away, where the signed reading of the
  gap is negative.
\<close>

theorem freshness_window:
  assumes "0 \<le> lag" and "lag < 2 ^ 63"
  shows "CheckFreshness (Some i) r now lag = Inr () \<longleftrightarrow>
    (let d = \<bar>int (unat r) - int (unat (ExpectedRound (Some i) now))\<bar> in d \<le> lag \<or> 2 ^ 63 \<le> d)"
  using assms by (rule freshness_iff)

theorem freshness_window_witness:
  "CheckFreshness (Some \<lparr>ci_Chain = [], ci_Period = 3, ci_GenesisTime = 0, ci_PublicKey = []\<rparr>) 5 6 2 = Inr ()"
  using freshness_window [of 2 "\<lparr>ci_Chain = [], ci_Period = 3, ci_GenesisTime = 0, ci_PublicKey = []\<rparr>" 5 6]
  by (simp add: ExpectedRound_def)

text \<open>
  C40: On requests with the checked sizes both canonical encodings determine what they encode: the
  agent signs exactly its six fields, and two witness inputs agree only for the same mode, the
  same request fields and, in sequential mode, the same position and predecessor.
\<close>

theorem canonical_inputs_determine:
  assumes "request_fits r" and "request_fits r'" and "seq_ok m i p" and "seq_ok m' i' p'"
  shows "(witness_preimage r m i p = witness_preimage r' m' i' p' \<longleftrightarrow>
      m = m' \<and> witness_fields r = witness_fields r' \<and> seq_fields m i p = seq_fields m' i' p') \<and>
    (CanonicalRequestBytes (Some r) = CanonicalRequestBytes (Some r') \<longleftrightarrow> agent_fields r = agent_fields r')"
proof
  show "witness_preimage r m i p = witness_preimage r' m' i' p' \<longleftrightarrow>
      m = m' \<and> witness_fields r = witness_fields r' \<and> seq_fields m i p = seq_fields m' i' p'"
    using witness_preimage_inject [OF assms]
    by (auto simp: witness_preimage_def witness_fields_def seq_fields_def split: if_splits)
  obtain b where b: "CanonicalRequestBytes (Some r) = Inr b"
    using assms(1) by (simp add: CanonicalRequestBytes_def request_fits_def)
  show "CanonicalRequestBytes (Some r) = CanonicalRequestBytes (Some r') \<longleftrightarrow> agent_fields r = agent_fields r'"
  proof
    assume "CanonicalRequestBytes (Some r) = CanonicalRequestBytes (Some r')"
    with b show "agent_fields r = agent_fields r'" by (metis CanonicalRequestBytes_inject)
  qed (simp add: CanonicalRequestBytes_def agent_fields_def)
qed

theorem canonical_inputs_determine_witness:
  "witness_preimage demo_request ModeParallel 0 [] \<noteq> witness_preimage demo_request ModeSequential 0 []"
  using canonical_inputs_determine [OF demo_request_fits demo_request_fits, of ModeParallel 0 "[]" ModeSequential 0 "[]"]
  by (simp add: seq_ok_def ModeParallel_def ModeSequential_def)

end
