(* ===== verification/Silicon_Cert.thy ===== *)
theory Silicon_Cert
  imports Client
begin

text \<open>
  \<open>internal/siliconcert/v1.go\<close>: the certificate that carries a DAQ ticket with fields for the human
  reader. \<open>encoding/json\<close> is a parameter, a pair of functions on certificates; the clock is an
  argument. Verification looks at the schema tag and the embedded ticket only, so a certificate
  stands and falls with its ticket, and what it displays is not checked against it.
\<close>

record cert_workload =
  wl_OpID :: bytes
  wl_WorkloadHash :: bytes
  wl_WorkloadLabel :: bytes

record cert_timing =
  tm_DrandRound :: u64
  tm_DrandChain :: bytes
  tm_DrandSigHex :: bytes
  tm_CreatedAtMs :: i64
  tm_WitnessUnixMs :: "i64 list"

record cert_hardware =
  hw_AgentPubkeyHex :: bytes
  hw_Note :: bytes

record silicon_cert =
  sc_SchemaVersion :: bytes
  sc_Kind :: bytes
  sc_IssuedAtUnixMs :: i64
  sc_ScopeNote :: bytes
  sc_Workload :: cert_workload
  sc_Timing :: cert_timing
  sc_HardwareIdentity :: cert_hardware
  sc_Ticket :: ticket

datatype cert_error =
    Sc_nil_ticket
  | Sc_op_hash
  | Sc_nil_cert
  | Sc_schema
  | Sc_json
  | Sc_ticket ticket_error

definition SchemaV1 :: bytes where
  "SchemaV1 = str ''963causal.silicon-cert/v1''"

definition ScopeADR007 :: bytes where
  "ScopeADR007 = str ''Continuity-of-trust per ADR-007: binds workload + silicon pubkey + drand round + witness quorum; does not attest firmware genesis.''"

text \<open>The note ends in a section sign, two bytes in UTF-8, before the number.\<close>

definition cert_note :: bytes where
  "cert_note = str ''W5b silicon-derived Ed25519 identity when enrolled; see BSL '' @ [0xC2, 0xA7] @ str ''11.''"

definition FromTicket :: "i64 \<Rightarrow> ticket option \<Rightarrow> bytes \<Rightarrow> cert_error + silicon_cert" where
  "FromTicket now t workloadLabel =
     (case t of None \<Rightarrow> Inl Sc_nil_ticket
      | Some t \<Rightarrow>
          guard (length (rq_OpHash (tk_Request t)) \<noteq> 32) Sc_op_hash (
          Inr \<lparr>sc_SchemaVersion = SchemaV1, sc_Kind = str ''silicon-certificate'', sc_IssuedAtUnixMs = now,
            sc_ScopeNote = ScopeADR007,
            sc_Workload = \<lparr>wl_OpID = rq_OpID (tk_Request t), wl_WorkloadHash = hex_encode (rq_OpHash (tk_Request t)),
              wl_WorkloadLabel = workloadLabel\<rparr>,
            sc_Timing = \<lparr>tm_DrandRound = rq_DrandRound (tk_Request t), tm_DrandChain = rq_DrandChain (tk_Request t),
              tm_DrandSigHex = hex_encode (rq_DrandSignature (tk_Request t)), tm_CreatedAtMs = tk_CreatedAtMs t,
              tm_WitnessUnixMs = []\<rparr>,
            sc_HardwareIdentity = \<lparr>hw_AgentPubkeyHex = hex_encode (rq_AgentPubkey (tk_Request t)), hw_Note = cert_note\<rparr>,
            sc_Ticket = t\<rparr>))"

definition Verify_cert :: "('s, 'p, 'm) kyber \<Rightarrow> ed25519 \<Rightarrow> hash \<Rightarrow> silicon_cert option \<Rightarrow> 'p option list
    \<Rightarrow> cert_error + unit" where
  "Verify_cert K E H v roster =
     (case v of None \<Rightarrow> Inl Sc_nil_cert
      | Some v \<Rightarrow>
          guard (sc_SchemaVersion v \<noteq> SchemaV1) Sc_schema (
          wrap_err Sc_ticket (VerifyTicket K E H (Some (sc_Ticket v)) roster)))"

text \<open>\<open>json.Unmarshal\<close> into a certificate, \<open>None\<close> for its error.\<close>

definition ParseV1 :: "(bytes \<Rightarrow> silicon_cert option) \<Rightarrow> bytes \<Rightarrow> cert_error + silicon_cert" where
  "ParseV1 unmarshal data =
     (case unmarshal data of None \<Rightarrow> Inl Sc_json
      | Some v \<Rightarrow> guard (sc_SchemaVersion v \<noteq> SchemaV1) Sc_schema (Inr v))"

lemma FromTicket_Inr:
  "FromTicket now (Some t) label = Inr c \<Longrightarrow> sc_SchemaVersion c = SchemaV1 \<and> sc_Ticket c = t"
  by (auto simp: FromTicket_def)

text \<open>A certificate that was stored and parsed again verifies exactly when its ticket does.\<close>

lemma parsed_certificate_verifies_iff:
  assumes "FromTicket now (Some t) label = Inr c" and "unmarshal data = Some c"
  shows "ParseV1 unmarshal data = Inr c \<and>
    (Verify_cert K E H (Some c) roster = Inr () \<longleftrightarrow> VerifyTicket K E H (Some t) roster = Inr ())"
  using FromTicket_Inr [OF assms(1)] assms(2) by (auto simp: ParseV1_def Verify_cert_def)

text \<open>The displayed hash names the workload as long as nobody changes it, and it may be changed.\<close>

lemma displayed_hash:
  assumes "FromTicket now (Some t) label = Inr c"
  shows "hex_decode (wl_WorkloadHash (sc_Workload c)) = Some (rq_OpHash (tk_Request t))"
  using assms by (auto simp: FromTicket_def)

lemma displayed_fields_unchecked:
  "Verify_cert K E H (Some (c\<lparr>sc_Workload := w, sc_Timing := m, sc_HardwareIdentity := h, sc_IssuedAtUnixMs := i,
     sc_Kind := n, sc_ScopeNote := s\<rparr>)) roster = Verify_cert K E H (Some c) roster"
  by (simp add: Verify_cert_def)

end
