(* ===== verification/Utf8.thy ===== *)
theory Utf8
  imports Prelude
begin

text \<open>
  Valid UTF-8, as unicode/utf8 of Go's library has it: no overlong encodings, no surrogates, nothing
  beyond U+10FFFF. The JSON and CBOR packages write and read back a Go string only when it is
  valid, so the round trips of the documents are stated for such texts.
\<close>

text \<open>The bytes that follow a first byte, with the range of the next one; \<open>None\<close>: not a first byte.\<close>

definition utf8_head :: "byte \<Rightarrow> (nat \<times> byte \<times> byte) option" where
  "utf8_head b =
     (if b < 0x80 then Some (0, 0, 0)
      else if b < 0xC2 then None
      else if b < 0xE0 then Some (1, 0x80, 0xBF)
      else if b < 0xF0 then Some (2, if b = 0xE0 then 0xA0 else 0x80, if b = 0xED then 0x9F else 0xBF)
      else if b < 0xF5 then Some (3, if b = 0xF0 then 0x90 else 0x80, if b = 0xF4 then 0x8F else 0xBF)
      else None)"

definition continuation :: "byte \<Rightarrow> bool" where
  "continuation b \<longleftrightarrow> 0x80 \<le> b \<and> b \<le> 0xBF"

definition utf8_tail :: "nat \<Rightarrow> byte \<Rightarrow> byte \<Rightarrow> bytes \<Rightarrow> bool" where
  "utf8_tail n lo hi bs \<longleftrightarrow> n \<le> length bs \<and> list_all continuation (take n bs) \<and>
     (0 < n \<longrightarrow> lo \<le> hd bs \<and> hd bs \<le> hi)"

function utf8 :: "bytes \<Rightarrow> bool" where
  "utf8 [] = True"
| "utf8 (b # bs) = (case utf8_head b of None \<Rightarrow> False
     | Some (n, lo, hi) \<Rightarrow> utf8_tail n lo hi bs \<and> utf8 (drop n bs))"
  by pat_completeness auto
termination by (relation "measure length") auto

lemma utf8_ascii: "list_all (\<lambda>b. b < 0x80) bs \<Longrightarrow> utf8 bs"
  by (induction bs) (simp_all add: utf8_head_def utf8_tail_def)

lemma utf8_ascii_append: "list_all (\<lambda>b. b < 0x80) as \<Longrightarrow> utf8 (as @ bs) = utf8 bs"
  by (induction as) (simp_all add: utf8_head_def utf8_tail_def)

end
