(* ===== verification/Ear.thy ===== *)
theory Ear
  imports Silicon_Cert Utf8
begin

text \<open>
  \<open>internal/earpack\<close>: a silicon certificate exported as a signed document. \<open>payload.go\<close> packs the
  certificate's JSON into a CBOR map, \<open>cose.go\<close> signs that as COSE_Sign1, \<open>ear.go\<close> composes both with
  the certificate package. go-cose, cbor and encoding/json are the fields of \<open>codecs\<close>, and
  \<open>codecs_ok\<close> says that they read back what they write, of values whose texts are valid UTF-8: for
  others encoding/json replaces the invalid bytes and cbor refuses to decode.
\<close>

record ear_payload =
  ep_V :: bytes
  ep_Scope :: bytes
  ep_IssMs :: i64
  ep_ScVer :: bytes
  ep_ScJSON :: bytes
  ep_ScSHA3 :: bytes

text \<open>\<open>cose_sign\<close> takes key, key id, external data and payload; \<open>None\<close> is an error of the package.\<close>

record codecs =
  cose_sign :: "bytes \<Rightarrow> bytes \<Rightarrow> bytes \<Rightarrow> bytes \<Rightarrow> bytes option"
  cose_unmarshal :: "bytes \<Rightarrow> bytes option"
  cose_verify :: "bytes \<Rightarrow> bytes \<Rightarrow> bytes \<Rightarrow> bool"
  cbor_marshal :: "ear_payload \<Rightarrow> bytes option"
  cbor_unmarshal :: "bytes \<Rightarrow> ear_payload option"
  json_marshal :: "silicon_cert \<Rightarrow> bytes option"
  json_unmarshal :: "bytes \<Rightarrow> silicon_cert option"

text \<open>The fields of type \<open>string\<close> of a certificate, with those of its ticket, and of a payload.\<close>

definition cert_texts :: "silicon_cert \<Rightarrow> bytes list" where
  "cert_texts c =
     [sc_SchemaVersion c, sc_Kind c, sc_ScopeNote c, wl_OpID (sc_Workload c), wl_WorkloadHash (sc_Workload c),
      wl_WorkloadLabel (sc_Workload c), tm_DrandChain (sc_Timing c), tm_DrandSigHex (sc_Timing c),
      hw_AgentPubkeyHex (sc_HardwareIdentity c), hw_Note (sc_HardwareIdentity c),
      rq_OpID (tk_Request (sc_Ticket c)), rq_DrandChain (tk_Request (sc_Ticket c))]"

definition payload_texts :: "ear_payload \<Rightarrow> bytes list" where
  "payload_texts p = [ep_V p, ep_Scope p, ep_ScVer p]"

text \<open>
  A message that was signed with a key unmarshals to its payload and verifies under the public
  half and the same external data; the other encoders have their decoders as left inverses on
  values with valid texts, and a JSON text is not empty.
\<close>

definition codecs_ok :: "ed25519 \<Rightarrow> codecs \<Rightarrow> bool" where
  "codecs_ok E C \<longleftrightarrow>
     (\<forall>priv kid aad pl b. ed_key E priv \<longrightarrow> cose_sign C priv kid aad pl = Some b \<longrightarrow>
        cose_unmarshal C b = Some pl \<and> cose_verify C (ed_public E priv) aad b) \<and>
     (\<forall>p b. list_all utf8 (payload_texts p) \<longrightarrow> cbor_marshal C p = Some b \<longrightarrow> cbor_unmarshal C b = Some p) \<and>
     (\<forall>c b. json_marshal C c = Some b \<longrightarrow> b \<noteq> [] \<and> (list_all utf8 (cert_texts c) \<longrightarrow> json_unmarshal C b = Some c))"

datatype ear_error =
    Ea_nil_cert
  | Ea_json
  | Ea_cbor
  | Ea_empty_payload
  | Ea_priv_size
  | Ea_panic_privkey_size \<comment> \<open>\<open>Public\<close> panics on a private key below 32 bytes\<close>
  | Ea_cose
  | Ea_pub_size
  | Ea_verify
  | Ea_empty_after_verify
  | Ea_invalid_payload
  | Ea_cert cert_error

section \<open>Payload\<close>

definition EARVersion :: bytes where "EARVersion = str ''0.1.0''"

definition ScopeADR023Default :: bytes where
  "ScopeADR023Default = str ''ADR-007 continuity + ADR-023 EAR export; not a warranty of overall security''"

definition MarshalPayloadCBOR :: "codecs \<Rightarrow> hash \<Rightarrow> silicon_cert option \<Rightarrow> bytes \<Rightarrow> i64 \<Rightarrow> ear_error + bytes" where
  "MarshalPayloadCBOR C sha3 cert scope issuedMs =
     (case cert of None \<Rightarrow> Inl Ea_nil_cert
      | Some c \<Rightarrow>
          (case json_marshal C c of None \<Rightarrow> Inl Ea_json
           | Some raw \<Rightarrow>
               let scope = (if scope = [] then ScopeADR023Default else scope);
                   p = \<lparr>ep_V = EARVersion, ep_Scope = scope, ep_IssMs = issuedMs, ep_ScVer = sc_SchemaVersion c,
                        ep_ScJSON = raw, ep_ScSHA3 = sha3 raw\<rparr>
               in (case cbor_marshal C p of None \<Rightarrow> Inl Ea_cbor | Some b \<Rightarrow> Inr b)))"

definition UnmarshalPayloadCBOR :: "codecs \<Rightarrow> bytes \<Rightarrow> ear_error + ear_payload" where
  "UnmarshalPayloadCBOR C b =
     (case cbor_unmarshal C b of None \<Rightarrow> Inl Ea_cbor
      | Some p \<Rightarrow> guard (ep_V p = [] \<or> ep_ScJSON p = []) Ea_invalid_payload (Inr p))"

section \<open>COSE\<close>

definition SignCOSE1Sign1 :: "codecs \<Rightarrow> bytes \<Rightarrow> bytes \<Rightarrow> bytes \<Rightarrow> bytes \<Rightarrow> ear_error + bytes" where
  "SignCOSE1Sign1 C payload priv kid externalAAD =
     guard (payload = []) Ea_empty_payload (
     guard (length priv \<noteq> 64) Ea_priv_size (
     case cose_sign C priv kid externalAAD payload of None \<Rightarrow> Inl Ea_cose | Some b \<Rightarrow> Inr b))"

definition VerifyCOSE1Sign1 :: "codecs \<Rightarrow> bytes \<Rightarrow> bytes \<Rightarrow> bytes \<Rightarrow> ear_error + bytes" where
  "VerifyCOSE1Sign1 C coseBytes pub externalAAD =
     guard (length pub \<noteq> 32) Ea_pub_size (
     case cose_unmarshal C coseBytes of None \<Rightarrow> Inl Ea_cose
     | Some payload \<Rightarrow>
         guard (\<not> cose_verify C pub externalAAD coseBytes) Ea_verify (
         guard (payload = []) Ea_empty_after_verify (Inr payload)))"

definition ExportKID :: "hash \<Rightarrow> bytes \<Rightarrow> bytes" where
  "ExportKID sha256 pub = (if length pub \<noteq> 32 then [] else take 8 (sha256 pub))"

text \<open>\<open>ReadEd25519PrivateFile\<close> on the bytes of the file.\<close>

definition ReadEd25519PrivateFile :: "ed25519 \<Rightarrow> bytes option \<Rightarrow> bytes option" where
  "ReadEd25519PrivateFile E contents =
     (case contents of None \<Rightarrow> None
      | Some b \<Rightarrow> if length b = 32 then Some (ed_new_key E b) else if length b = 32 + 32 then Some b else None)"

section \<open>Documents\<close>

definition SignDocument :: "ed25519 \<Rightarrow> codecs \<Rightarrow> hash \<Rightarrow> hash \<Rightarrow> i64 \<Rightarrow> silicon_cert option \<Rightarrow> bytes \<Rightarrow> bytes
    \<Rightarrow> ear_error + bytes" where
  "SignDocument E C sha3 sha256 now cert exportPriv scope =
     (let scope = (if scope = [] then ScopeADR023Default else scope) in
      bind_r (MarshalPayloadCBOR C sha3 cert scope now) (\<lambda>pl.
      guard (length exportPriv < 32) Ea_panic_privkey_size (
      let kid = ExportKID sha256 (ed_public E exportPriv)
      in SignCOSE1Sign1 C pl exportPriv kid [])))"

text \<open>With a certificate that does not parse the payload is returned beside the error.\<close>

definition VerifyDocument :: "codecs \<Rightarrow> bytes \<Rightarrow> bytes \<Rightarrow> ear_payload option \<times> (ear_error + silicon_cert)" where
  "VerifyDocument C coseBytes exportPub =
     (case VerifyCOSE1Sign1 C coseBytes exportPub [] of
        Inl e \<Rightarrow> (None, Inl e)
      | Inr raw \<Rightarrow>
          (case UnmarshalPayloadCBOR C raw of
             Inl e \<Rightarrow> (None, Inl e)
           | Inr p \<Rightarrow> (Some p, wrap_err Ea_cert (ParseV1 (json_unmarshal C) (ep_ScJSON p)))))"

section \<open>A signed document\<close>

lemma SignDocument_parts:
  assumes "SignDocument E C sha3 sha256 now cert priv scope = Inr doc"
  obtains c raw p b where "cert = Some c" "json_marshal C c = Some raw"
    "p = \<lparr>ep_V = EARVersion, ep_Scope = (if scope = [] then ScopeADR023Default else scope), ep_IssMs = now,
       ep_ScVer = sc_SchemaVersion c, ep_ScJSON = raw, ep_ScSHA3 = sha3 raw\<rparr>"
    "cbor_marshal C p = Some b" "b \<noteq> []" "length priv = 64"
    "cose_sign C priv (ExportKID sha256 (ed_public E priv)) [] b = Some doc"
proof -
  obtain c where c: "cert = Some c"
    using assms by (cases cert) (auto simp: SignDocument_def MarshalPayloadCBOR_def Let_def)
  obtain raw where raw: "json_marshal C c = Some raw"
    using assms by (cases "json_marshal C c") (auto simp: SignDocument_def MarshalPayloadCBOR_def c Let_def)
  let ?scope = "if scope = [] then ScopeADR023Default else scope"
  have scope: "(if ?scope = [] then ScopeADR023Default else ?scope) = ?scope" by simp
  let ?p = "\<lparr>ep_V = EARVersion, ep_Scope = ?scope, ep_IssMs = now,
    ep_ScVer = sc_SchemaVersion c, ep_ScJSON = raw, ep_ScSHA3 = sha3 raw\<rparr>"
  have m: "MarshalPayloadCBOR C sha3 cert ?scope now =
      (case cbor_marshal C ?p of None \<Rightarrow> Inl Ea_cbor | Some b \<Rightarrow> Inr b)"
    by (simp only: MarshalPayloadCBOR_def c raw option.case Let_def scope)
  obtain b where b: "cbor_marshal C ?p = Some b"
    using assms unfolding SignDocument_def Let_def m by (cases "cbor_marshal C ?p") auto
  show thesis
  proof (rule that [OF c raw refl b])
    show "b \<noteq> []" "length priv = 64" "cose_sign C priv (ExportKID sha256 (ed_public E priv)) [] b = Some doc"
      using assms unfolding SignDocument_def Let_def m
      by (auto simp: b SignCOSE1Sign1_def split: option.splits)
  qed
qed

section \<open>The texts of an exported certificate\<close>

lemma hex_value_ascii: "hex_value b = Some n \<Longrightarrow> b < 0x80"
  by (simp add: hex_value_def word_less_nat_alt Let_def split: if_splits)

lemma utf8_hex: "utf8 (hex_encode bs)"
proof (rule utf8_ascii)
  show "list_all (\<lambda>b. b < 0x80) (hex_encode bs)"
    using hex_value_ascii [OF hex_value_digit] nibbles by (induction bs) (simp_all add: hex_encode_def)
qed

lemma fixed_texts:
  "utf8 SchemaV1" "utf8 (str ''silicon-certificate'')" "utf8 ScopeADR007" "utf8 cert_note"
  "utf8 EARVersion" "utf8 ScopeADR023Default"
proof -
  have rest: "utf8 ([0xC2, 0xA7] @ str ''11.'')"
    by (simp add: str_def utf8_head_def utf8_tail_def continuation_def of_char_def)
  show "utf8 cert_note" unfolding cert_note_def
    by (subst utf8_ascii_append) (simp add: str_def of_char_def, rule rest)
qed (rule utf8_ascii, simp add: SchemaV1_def ScopeADR007_def EARVersion_def ScopeADR023Default_def str_def of_char_def)+

lemma certificate_texts:
  assumes "FromTicket issued (Some t) label = Inr c" and "utf8 label"
    and "utf8 (rq_OpID (tk_Request t))" and "utf8 (rq_DrandChain (tk_Request t))"
  shows "list_all utf8 (cert_texts c)"
  using assms fixed_texts utf8_hex by (auto simp: FromTicket_def cert_texts_def)

section \<open>An instance for the witness\<close>

definition demo_cert :: "ticket \<Rightarrow> silicon_cert" where
  "demo_cert t = projr (FromTicket 0 (Some t) [])"

definition demo_ticket :: ticket where
  "demo_ticket = \<lparr>tk_Request = \<lparr>rq_OpID = [1], rq_OpHash = replicate 32 2, rq_AgentPubkey = [], rq_AgentSignature = [],
     rq_DrandChain = [], rq_DrandRound = 3, rq_DrandSignature = [], rq_RequestedAtMs = 4\<rparr>, tk_Mode = ModeParallel,
     tk_Threshold = 1, tk_RosterSize = 1, tk_Witnesses = [], tk_AggSignature = [], tk_AggMask = [], tk_CreatedAtMs = 5\<rparr>"

text \<open>Codecs that can write one certificate and its payload only.\<close>

definition demo_payload :: ear_payload where
  "demo_payload = \<lparr>ep_V = EARVersion, ep_Scope = ScopeADR023Default, ep_IssMs = 9, ep_ScVer = SchemaV1,
     ep_ScJSON = [7], ep_ScSHA3 = demo_hash [7]\<rparr>"

definition demo_codecs :: codecs where
  "demo_codecs = \<lparr>cose_sign = (\<lambda>priv kid aad pl. Some (pad32 (drop 32 priv) @ pl)),
     cose_unmarshal = (\<lambda>b. if length b < 32 then None else Some (drop 32 b)),
     cose_verify = (\<lambda>pub aad b. take 32 b = pub),
     cbor_marshal = (\<lambda>p. if p = demo_payload then Some [8] else None),
     cbor_unmarshal = (\<lambda>b. if b = [8] then Some demo_payload else None),
     json_marshal = (\<lambda>c. if c = demo_cert demo_ticket then Some [7] else None),
     json_unmarshal = (\<lambda>b. if b = [7] then Some (demo_cert demo_ticket) else None)\<rparr>"

lemma demo_codecs_ok: "codecs_ok demo_ed demo_codecs"
  by (simp add: codecs_ok_def demo_codecs_def)

lemma demo_cert_made: "FromTicket 0 (Some demo_ticket) [] = Inr (demo_cert demo_ticket)"
  by (simp add: demo_cert_def FromTicket_def demo_ticket_def)

section \<open>Property\<close>

text \<open>
  C35: A certificate made from a ticket and exported as a document comes back unchanged, when its
  label, its operation id, its chain name and the scope are valid UTF-8, with a payload that names its schema and hashes its JSON, under the public half of the export key, and
  verifies against a roster exactly when the ticket does.
\<close>

theorem document_returns_certificate:
  assumes "codecs_ok E C" and "ed_key E priv" and "FromTicket issued (Some t) label = Inr c"
    and "SignDocument E C sha3 sha256 now (Some c) priv scope = Inr doc"
    and "utf8 label" and "utf8 (rq_OpID (tk_Request t))" and "utf8 (rq_DrandChain (tk_Request t))" and "utf8 scope"
  shows "\<exists>p. VerifyDocument C doc (ed_public E priv) = (Some p, Inr c) \<and> ep_ScVer p = SchemaV1 \<and>
    ep_ScSHA3 p = sha3 (ep_ScJSON p) \<and>
    (Verify_cert K E H (Some c) roster = Inr () \<longleftrightarrow> VerifyTicket K E H (Some t) roster = Inr ())"
  using assms(4)
proof (rule SignDocument_parts)
  fix c' raw p b
  assume h: "Some c = Some c'" "json_marshal C c' = Some raw"
    and p: "p = \<lparr>ep_V = EARVersion, ep_Scope = (if scope = [] then ScopeADR023Default else scope), ep_IssMs = now,
       ep_ScVer = sc_SchemaVersion c', ep_ScJSON = raw, ep_ScSHA3 = sha3 raw\<rparr>"
    and b: "cbor_marshal C p = Some b" "b \<noteq> []" "cose_sign C priv (ExportKID sha256 (ed_public E priv)) [] b = Some doc"
  have "list_all utf8 (cert_texts c)" by (rule certificate_texts [OF assms(3,5-7)])
  then have j: "json_unmarshal C raw = Some c" "raw \<noteq> []" using assms(1) h by (auto simp: codecs_ok_def)
  have cose: "VerifyCOSE1Sign1 C doc (ed_public E priv) [] = Inr b"
    using assms(1,2) b(2,3) unfolding codecs_ok_def VerifyCOSE1Sign1_def by (auto dest: ed_keyD(2))
  have "list_all utf8 (payload_texts p)"
    using fixed_texts assms(8) FromTicket_Inr [OF assms(3)] h(1) by (simp add: payload_texts_def p)
  then have cbor: "UnmarshalPayloadCBOR C b = Inr p"
    using assms(1) b(1) j(2) unfolding codecs_ok_def by (auto simp: UnmarshalPayloadCBOR_def p EARVersion_def str_def)
  have raw: "ep_ScJSON p = raw" by (simp add: p)
  note parsed = parsed_certificate_verifies_iff [where unmarshal = "json_unmarshal C", OF assms(3) j(1), of K E H roster]
  have "VerifyDocument C doc (ed_public E priv) = (Some p, Inr c)"
    using parsed raw by (simp only: VerifyDocument_def cose cbor sum.case wrap_err_simps)
  then show ?thesis using parsed FromTicket_Inr [OF assms(3)] h(1) by (intro exI [of _ p]) (simp add: p)
qed

theorem document_returns_certificate_witness:
  "\<exists>doc p. SignDocument demo_ed demo_codecs demo_hash demo_hash 9 (Some (demo_cert demo_ticket)) (replicate 64 1) [] = Inr doc \<and>
     VerifyDocument demo_codecs doc (replicate 32 1) = (Some p, Inr (demo_cert demo_ticket))"
proof -
  have "sc_SchemaVersion (demo_cert demo_ticket) = SchemaV1" using FromTicket_Inr [OF demo_cert_made] by simp
  then have "SignDocument demo_ed demo_codecs demo_hash demo_hash 9 (Some (demo_cert demo_ticket)) (replicate 64 1) [] =
      Inr (replicate 32 1 @ [8])"
    by (simp add: SignDocument_def MarshalPayloadCBOR_def SignCOSE1Sign1_def demo_codecs_def demo_payload_def Let_def
        ScopeADR023Default_def str_def pad32_def)
  note doc = this
  have "ed_public demo_ed (replicate 64 1) = replicate 32 1" by (simp add: pad32_def)
  then have "\<exists>p. VerifyDocument demo_codecs (replicate 32 1 @ [8]) (replicate 32 1) = (Some p, Inr (demo_cert demo_ticket))"
    using document_returns_certificate [OF demo_codecs_ok demo_ed_key demo_cert_made doc, of undefined undefined "[]"]
    by (auto simp: demo_ticket_def utf8_head_def utf8_tail_def)
  with doc show ?thesis by blast
qed

end
