(* ===== verification/Rebirth.thy ===== *)
theory Rebirth
  imports Crypto
begin

text \<open>
  \<open>internal/rebirth/phoenix.go\<close>: moving a service to a new host. Operators sign a request, witnesses
  attest it (\<open>Attest\<close>), the control plane turns attestations into a lineage record once the
  cool-down has elapsed (\<open>Execute\<close>), and \<open>VerifyLineage\<close> replays the records of a service. Times
  are Go's \<open>int64\<close> milliseconds and wrap; the clock of \<open>SealRequestMultiOp\<close> is an argument.
\<close>

record operator_sig =
  os_Pubkey :: bytes
  os_Signature :: bytes

record rebirth_request =
  rb_ServiceID :: bytes
  rb_NewHostPubkey :: bytes
  rb_OldHostPubkey :: bytes
  rb_OperatorSignatures :: "operator_sig list"
  rb_RequestedAtMs :: i64
  rb_CoolDownMs :: i64
  rb_OperatorPubkey :: bytes
  rb_OperatorSignature :: bytes

record attestation =
  at_WitnessIndex :: int
  at_WitnessPub :: bytes
  at_ObservedAtMs :: i64
  at_Signature :: bytes

record lineage_record =
  ln_Request :: rebirth_request
  ln_Attestations :: "attestation list"
  ln_ExecutedAtMs :: i64

datatype rebirth_error =
    Rb_empty_service
  | Rb_new_host_size
  | Rb_no_operator_key
  | Rb_operator_priv_size nat
  | Rb_nil_request
  | Rb_op_threshold
  | Rb_operator_count
  | Rb_operator_pub_size nat
  | Rb_operator_sig_size nat
  | Rb_operator_duplicate nat
  | Rb_operator_unpinned nat
  | Rb_operator_signature nat
  | Rb_cool_down_floor
  | Rb_from_future
  | Rb_stale
  | Rb_panic_privkey_size \<comment> \<open>\<open>Public\<close> and \<open>Sign\<close> panic on a short private key\<close>
  | Rb_threshold
  | Rb_attestation_count
  | Rb_cool_down
  | Rb_attestation_duplicate nat
  | Rb_attestation_size nat
  | Rb_attestation_early nat
  | Rb_attestation_signature nat
  | Rb_empty_lineage
  | Rb_graveyard
  | Rb_broken_link nat
  | Rb_record_operator nat rebirth_error
  | Rb_record_execute nat rebirth_error

section \<open>Requests\<close>

definition request_bytes :: "rebirth_request \<Rightarrow> bytes" where
  "request_bytes r = str ''963causal-REBIRTH-REQUEST-V2'' @ [0] @ len32 (rb_ServiceID r) @
     len32 (rb_NewHostPubkey r) @ len32 (rb_OldHostPubkey r) @ putUint64 (rb_RequestedAtMs r) @
     putUint64 (rb_CoolDownMs r)"

text \<open>\<open>Duration.Milliseconds\<close>: nanoseconds divided by a million, towards zero.\<close>

definition milliseconds :: "i64 \<Rightarrow> i64" where
  "milliseconds d = (if 0 \<le> sint d then word_of_int (sint d div 1000000)
     else - word_of_int (- sint d div 1000000))"

fun priv_sizes :: "nat \<Rightarrow> bytes list \<Rightarrow> rebirth_error + unit" where
  "priv_sizes i [] = Inr ()"
| "priv_sizes i (p # ps) = guard (length p \<noteq> 64) (Rb_operator_priv_size i) (priv_sizes (i + 1) ps)"

definition SealRequestMultiOp :: "ed25519 \<Rightarrow> i64 \<Rightarrow> bytes \<Rightarrow> bytes \<Rightarrow> bytes \<Rightarrow> bytes list \<Rightarrow> i64
    \<Rightarrow> rebirth_error + rebirth_request" where
  "SealRequestMultiOp E now serviceID newHostPub oldHostPub operatorPrivs coolDown =
     guard (serviceID = []) Rb_empty_service (
     guard (length newHostPub \<noteq> 32) Rb_new_host_size (
     guard (operatorPrivs = []) Rb_no_operator_key (
     bind_r (priv_sizes 0 operatorPrivs) (\<lambda>_.
     let req = \<lparr>rb_ServiceID = serviceID, rb_NewHostPubkey = newHostPub, rb_OldHostPubkey = oldHostPub,
           rb_OperatorSignatures = [], rb_RequestedAtMs = now, rb_CoolDownMs = milliseconds coolDown,
           rb_OperatorPubkey = [], rb_OperatorSignature = []\<rparr>;
         canon = request_bytes req;
         sigs = map (\<lambda>priv. \<lparr>os_Pubkey = ed_public E priv, os_Signature = ed_sign E priv canon\<rparr>) operatorPrivs;
         req = req\<lparr>rb_OperatorSignatures := sigs\<rparr>
     in Inr (if length operatorPrivs = 1
             then req\<lparr>rb_OperatorPubkey := os_Pubkey (sigs ! 0), rb_OperatorSignature := os_Signature (sigs ! 0)\<rparr>
             else req)))))"

definition SealRequest :: "ed25519 \<Rightarrow> i64 \<Rightarrow> bytes \<Rightarrow> bytes \<Rightarrow> bytes \<Rightarrow> bytes \<Rightarrow> i64
    \<Rightarrow> rebirth_error + rebirth_request" where
  "SealRequest E now serviceID newHostPub oldHostPub operatorPriv coolDown =
     SealRequestMultiOp E now serviceID newHostPub oldHostPub [operatorPriv] coolDown"

section \<open>Operators\<close>

text \<open>The signatures a verifier looks at: the new field, or the legacy pair when that is empty.\<close>

definition operator_sigs :: "rebirth_request \<Rightarrow> operator_sig list" where
  "operator_sigs req =
     (if rb_OperatorSignatures req = []
      then if length (rb_OperatorPubkey req) = 32 \<and> length (rb_OperatorSignature req) = 64
           then [\<lparr>os_Pubkey = rb_OperatorPubkey req, os_Signature = rb_OperatorSignature req\<rparr>]
           else []
      else rb_OperatorSignatures req)"

fun operator_loop :: "ed25519 \<Rightarrow> bytes list \<Rightarrow> bytes \<Rightarrow> bytes set \<Rightarrow> (nat \<times> operator_sig) list
    \<Rightarrow> rebirth_error + unit" where
  "operator_loop E pins canon seen [] = Inr ()"
| "operator_loop E pins canon seen ((i, s) # rest) =
     guard (length (os_Pubkey s) \<noteq> 32) (Rb_operator_pub_size i) (
     guard (length (os_Signature s) \<noteq> 64) (Rb_operator_sig_size i) (
     guard (os_Pubkey s \<in> seen) (Rb_operator_duplicate i) (
     guard (\<not> anyEqual pins (os_Pubkey s)) (Rb_operator_unpinned i) (
     guard (\<not> ed_verify E (os_Pubkey s) canon (os_Signature s)) (Rb_operator_signature i) (
     operator_loop E pins canon (insert (os_Pubkey s) seen) rest)))))"

text \<open>Every signature of the loop is valid when it ends, so the count that follows it is their number.\<close>

definition VerifyOperator :: "ed25519 \<Rightarrow> rebirth_request option \<Rightarrow> bytes list \<Rightarrow> int \<Rightarrow> rebirth_error + unit" where
  "VerifyOperator E req pinnedOperators opThreshold =
     (case req of None \<Rightarrow> Inl Rb_nil_request
      | Some req \<Rightarrow>
          guard (opThreshold < 1) Rb_op_threshold (
          let canon = request_bytes req; sigs = operator_sigs req in
          guard (int (length sigs) < opThreshold) Rb_operator_count (
          bind_r (operator_loop E pinnedOperators canon {} (enumerate 0 sigs)) (\<lambda>_.
          let validCount = int (length sigs) in
          guard (validCount < opThreshold) Rb_operator_count (Inr ())))))"

section \<open>Witnesses\<close>

definition attestationMessage :: "hash \<Rightarrow> rebirth_request \<Rightarrow> i64 \<Rightarrow> bytes" where
  "attestationMessage H req observedAtMs =
     H (str ''963causal-REBIRTH-ATTEST-V1'' @ [0] @ request_bytes req @ putUint64 observedAtMs)"

definition Attest :: "ed25519 \<Rightarrow> hash \<Rightarrow> rebirth_request option \<Rightarrow> bytes list \<Rightarrow> int \<Rightarrow> int \<Rightarrow> bytes \<Rightarrow> i64 \<Rightarrow> i64
    \<Rightarrow> rebirth_error + attestation" where
  "Attest E H req pinnedOperators opThreshold witnessIndex witnessPriv nowMs minCoolDown =
     bind_r (VerifyOperator E req pinnedOperators opThreshold) (\<lambda>_.
     let req = the req in
     guard (i64_less (rb_CoolDownMs req) (milliseconds minCoolDown)) Rb_cool_down_floor (
     guard (i64_less nowMs (rb_RequestedAtMs req)) Rb_from_future (
     guard (i64_less (rb_RequestedAtMs req + 5 * rb_CoolDownMs req) nowMs) Rb_stale (
     guard (length witnessPriv \<noteq> 64) Rb_panic_privkey_size (
     Inr \<lparr>at_WitnessIndex = witnessIndex, at_WitnessPub = ed_public E witnessPriv, at_ObservedAtMs = nowMs,
       at_Signature = ed_sign E witnessPriv (attestationMessage H req nowMs)\<rparr>)))))"

section \<open>Execution and lineage\<close>

fun attestation_loop :: "ed25519 \<Rightarrow> hash \<Rightarrow> rebirth_request \<Rightarrow> i64 \<Rightarrow> int set \<Rightarrow> (nat \<times> attestation) list
    \<Rightarrow> rebirth_error + unit" where
  "attestation_loop E H req earliest seen [] = Inr ()"
| "attestation_loop E H req earliest seen ((i, a) # rest) =
     guard (at_WitnessIndex a \<in> seen) (Rb_attestation_duplicate i) (
     guard (length (at_WitnessPub a) \<noteq> 32 \<or> length (at_Signature a) \<noteq> 64) (Rb_attestation_size i) (
     guard (i64_less (at_ObservedAtMs a) earliest) (Rb_attestation_early i) (
     guard (\<not> ed_verify E (at_WitnessPub a) (attestationMessage H req (at_ObservedAtMs a)) (at_Signature a))
       (Rb_attestation_signature i) (
     attestation_loop E H req earliest (insert (at_WitnessIndex a) seen) rest))))"

definition Execute :: "ed25519 \<Rightarrow> hash \<Rightarrow> rebirth_request option \<Rightarrow> attestation list \<Rightarrow> int \<Rightarrow> i64
    \<Rightarrow> rebirth_error + lineage_record" where
  "Execute E H req attestations threshold nowMs =
     (case req of None \<Rightarrow> Inl Rb_nil_request
      | Some req \<Rightarrow>
          guard (threshold < 1) Rb_threshold (
          guard (int (length attestations) < threshold) Rb_attestation_count (
          let earliestExecute = rb_RequestedAtMs req + rb_CoolDownMs req in
          guard (i64_less nowMs earliestExecute) Rb_cool_down (
          bind_r (attestation_loop E H req earliestExecute {} (enumerate 0 attestations)) (\<lambda>_.
          Inr \<lparr>ln_Request = req, ln_Attestations = attestations, ln_ExecutedAtMs = nowMs\<rparr>)))))"

fun lineage_loop :: "ed25519 \<Rightarrow> hash \<Rightarrow> bytes list \<Rightarrow> int \<Rightarrow> int \<Rightarrow> nat \<Rightarrow> bytes \<Rightarrow> lineage_record list
    \<Rightarrow> rebirth_error + unit" where
  "lineage_loop E H pins opThreshold witnessThreshold i expectedOld [] = Inr ()"
| "lineage_loop E H pins opThreshold witnessThreshold i expectedOld (r # rs) =
     bind_r (if i = 0 then guard (length (rb_OldHostPubkey (ln_Request r)) \<noteq> 0) Rb_graveyard (Inr ())
             else guard (expectedOld \<noteq> rb_OldHostPubkey (ln_Request r)) (Rb_broken_link i) (Inr ())) (\<lambda>_.
     bind_r (wrap_err (Rb_record_operator i) (VerifyOperator E (Some (ln_Request r)) pins opThreshold)) (\<lambda>_.
     bind_r (wrap_err (Rb_record_execute i)
       (Execute E H (Some (ln_Request r)) (ln_Attestations r) witnessThreshold (ln_ExecutedAtMs r))) (\<lambda>_.
     lineage_loop E H pins opThreshold witnessThreshold (i + 1) (rb_NewHostPubkey (ln_Request r)) rs)))"

definition VerifyLineage :: "ed25519 \<Rightarrow> hash \<Rightarrow> lineage_record list \<Rightarrow> bytes list \<Rightarrow> int \<Rightarrow> int
    \<Rightarrow> rebirth_error + unit" where
  "VerifyLineage E H records pinnedOperators opThreshold witnessThreshold =
     guard (records = []) Rb_empty_lineage (
     lineage_loop E H pinnedOperators opThreshold witnessThreshold 0 [] records)"

section \<open>What is accepted\<close>

definition operator_good :: "ed25519 \<Rightarrow> bytes list \<Rightarrow> bytes \<Rightarrow> operator_sig \<Rightarrow> bool" where
  "operator_good E pins canon s \<longleftrightarrow> length (os_Pubkey s) = 32 \<and> length (os_Signature s) = 64 \<and>
     os_Pubkey s \<in> set pins \<and> ed_verify E (os_Pubkey s) canon (os_Signature s)"

interpretation operators: distinct_loop "operator_loop E pins canon" "\<lambda>p. os_Pubkey (snd p)"
    "\<lambda>p. operator_good E pins canon (snd p)"
  by unfold_locales (auto simp: operator_good_def)

definition attestation_good :: "ed25519 \<Rightarrow> hash \<Rightarrow> rebirth_request \<Rightarrow> i64 \<Rightarrow> attestation \<Rightarrow> bool" where
  "attestation_good E H req earliest a \<longleftrightarrow> length (at_WitnessPub a) = 32 \<and> length (at_Signature a) = 64 \<and>
     sint earliest \<le> sint (at_ObservedAtMs a) \<and>
     ed_verify E (at_WitnessPub a) (attestationMessage H req (at_ObservedAtMs a)) (at_Signature a)"

interpretation attestations: distinct_loop "attestation_loop E H req earliest" "\<lambda>p. at_WitnessIndex (snd p)"
    "\<lambda>p. attestation_good E H req earliest (snd p)"
  by unfold_locales (auto simp: attestation_good_def)

lemma VerifyOperator_iff:
  "VerifyOperator E (Some req) pins t = Inr () \<longleftrightarrow>
     1 \<le> t \<and> t \<le> int (length (operator_sigs req)) \<and> distinct (map os_Pubkey (operator_sigs req)) \<and>
     list_all (operator_good E pins (request_bytes req)) (operator_sigs req)"
  by (auto simp: VerifyOperator_def Let_def operators.accepts_empty map_snd_of_enumerate list_all_snd_enumerate)

definition earliest_of :: "rebirth_request \<Rightarrow> i64" where
  "earliest_of req = rb_RequestedAtMs req + rb_CoolDownMs req"

lemma Execute_iff:
  "Execute E H (Some req) as k now = Inr r \<longleftrightarrow>
     1 \<le> k \<and> k \<le> int (length as) \<and> sint (earliest_of req) \<le> sint now \<and>
     distinct (map at_WitnessIndex as) \<and> list_all (attestation_good E H req (earliest_of req)) as \<and>
     r = \<lparr>ln_Request = req, ln_Attestations = as, ln_ExecutedAtMs = now\<rparr>"
  by (auto simp: Execute_def Let_def attestations.accepts_empty map_snd_of_enumerate list_all_snd_enumerate
      earliest_of_def)

lemma Attest_iff:
  "Attest E H (Some req) pins t w priv now minCoolDown = Inr a \<longleftrightarrow>
     VerifyOperator E (Some req) pins t = Inr () \<and> sint (milliseconds minCoolDown) \<le> sint (rb_CoolDownMs req) \<and>
     sint (rb_RequestedAtMs req) \<le> sint now \<and> sint now \<le> sint (rb_RequestedAtMs req + 5 * rb_CoolDownMs req) \<and>
     length priv = 64 \<and>
     a = \<lparr>at_WitnessIndex = w, at_WitnessPub = ed_public E priv, at_ObservedAtMs = now,
       at_Signature = ed_sign E priv (attestationMessage H req now)\<rparr>"
  by (auto simp: Attest_def Let_def)

lemma earliest_in_range:
  assumes "- (2 ^ 63) \<le> sint (rb_RequestedAtMs req) + sint (rb_CoolDownMs req)"
    and "sint (rb_RequestedAtMs req) + sint (rb_CoolDownMs req) < 2 ^ 63"
  shows "sint (earliest_of req) = sint (rb_RequestedAtMs req) + sint (rb_CoolDownMs req)"
proof -
  have "earliest_of req = word_of_int (sint (rb_RequestedAtMs req) + sint (rb_CoolDownMs req))"
    by (simp add: earliest_of_def)
  then show ?thesis using assms by (simp only: sint_64_of_int)
qed

text \<open>Records in the order of the log, linked by the host keys, each authorised and attested.\<close>

definition record_ok :: "ed25519 \<Rightarrow> hash \<Rightarrow> bytes list \<Rightarrow> int \<Rightarrow> int \<Rightarrow> lineage_record \<Rightarrow> bool" where
  "record_ok E H pins t k r \<longleftrightarrow>
     VerifyOperator E (Some (ln_Request r)) pins t = Inr () \<and>
     1 \<le> k \<and> k \<le> int (length (ln_Attestations r)) \<and> distinct (map at_WitnessIndex (ln_Attestations r)) \<and>
     list_all (attestation_good E H (ln_Request r) (earliest_of (ln_Request r))) (ln_Attestations r) \<and>
     sint (earliest_of (ln_Request r)) \<le> sint (ln_ExecutedAtMs r)"

definition old_host :: "lineage_record \<Rightarrow> bytes" where "old_host r = rb_OldHostPubkey (ln_Request r)"
definition new_host :: "lineage_record \<Rightarrow> bytes" where "new_host r = rb_NewHostPubkey (ln_Request r)"

definition lineage_ok :: "ed25519 \<Rightarrow> hash \<Rightarrow> bytes list \<Rightarrow> int \<Rightarrow> int \<Rightarrow> lineage_record list \<Rightarrow> bool" where
  "lineage_ok E H pins t k rs \<longleftrightarrow> rs \<noteq> [] \<and> map old_host rs = [] # map new_host (butlast rs) \<and>
     list_all (record_ok E H pins t k) rs"

lemma Execute_replay:
  "(\<exists>x. Execute E H (Some (ln_Request r)) (ln_Attestations r) k (ln_ExecutedAtMs r) = Inr x) \<and>
     VerifyOperator E (Some (ln_Request r)) pins t = Inr () \<longleftrightarrow> record_ok E H pins t k r"
  by (auto simp: Execute_iff record_ok_def)

lemma lineage_loop_iff:
  "0 < i \<or> expected = [] \<Longrightarrow> lineage_loop E H pins t k i expected rs = Inr () \<longleftrightarrow>
     map old_host rs = take (length rs) (expected # map new_host (butlast rs)) \<and> list_all (record_ok E H pins t k) rs"
proof (induction rs arbitrary: i expected)
  case (Cons r rs)
  have "lineage_loop E H pins t k i expected (r # rs) = Inr () \<longleftrightarrow>
      old_host r = expected \<and> record_ok E H pins t k r \<and> lineage_loop E H pins t k (i + 1) (new_host r) rs = Inr ()"
    using Cons.prems by (auto simp: Execute_replay [symmetric] old_host_def new_host_def)
  also have "\<dots> \<longleftrightarrow> map old_host (r # rs) = take (length (r # rs)) (expected # map new_host (butlast (r # rs))) \<and>
      list_all (record_ok E H pins t k) (r # rs)"
    using Cons.IH [of "i + 1" "new_host r"] by (cases rs) auto
  finally show ?case .
qed simp

section \<open>Encoding\<close>

definition rebirth_fits :: "rebirth_request \<Rightarrow> bool" where
  "rebirth_fits r \<longleftrightarrow> length (rb_ServiceID r) < 2 ^ 32 \<and> length (rb_NewHostPubkey r) < 2 ^ 32 \<and>
     length (rb_OldHostPubkey r) < 2 ^ 32"

lemma request_bytes_determine:
  assumes "rebirth_fits r" and "rebirth_fits r'" and "request_bytes r = request_bytes r'"
  shows "rb_ServiceID r = rb_ServiceID r' \<and> rb_NewHostPubkey r = rb_NewHostPubkey r' \<and>
    rb_OldHostPubkey r = rb_OldHostPubkey r' \<and> rb_RequestedAtMs r = rb_RequestedAtMs r' \<and>
    rb_CoolDownMs r = rb_CoolDownMs r'"
  using assms by (simp add: request_bytes_def rebirth_fits_def len32_code.append_iff len32_code.inj u64_code.append_iff)

lemma request_bytes_update [simp]:
  "request_bytes (r\<lparr>rb_OperatorSignatures := s\<rparr>) = request_bytes r"
  "request_bytes (r\<lparr>rb_OperatorPubkey := b\<rparr>) = request_bytes r"
  "request_bytes (r\<lparr>rb_OperatorSignature := b\<rparr>) = request_bytes r"
  by (simp_all add: request_bytes_def)

section \<open>A round of the protocol\<close>

lemma priv_sizes_ok: "list_all (\<lambda>p. length p = 64) ps \<Longrightarrow> priv_sizes i ps = Inr ()"
  by (induction ps arbitrary: i) auto

text \<open>A sealed request passes every verifier that pins its operators.\<close>

definition operators_of :: "ed25519 \<Rightarrow> bytes list \<Rightarrow> bytes list \<Rightarrow> int \<Rightarrow> bool" where
  "operators_of E ops pins t \<longleftrightarrow> 1 \<le> t \<and> t \<le> int (length ops) \<and> list_all (ed_key E) ops \<and>
     distinct (map (ed_public E) ops) \<and> set (map (ed_public E) ops) \<subseteq> set pins"

lemma sealed_request:
  assumes "operators_of E ops pins t" and "sid \<noteq> []" and "length new = 32"
  obtains req where "SealRequestMultiOp E now sid new old ops cd = Inr req"
    "rb_RequestedAtMs req = now" "rb_CoolDownMs req = milliseconds cd" "rb_NewHostPubkey req = new"
    "rb_OldHostPubkey req = old" "VerifyOperator E (Some req) pins t = Inr ()"
proof -
  have ops: "ops \<noteq> []" "list_all (\<lambda>p. length p = 64) ops"
    using assms(1) by (auto simp: operators_of_def list_all_iff ed_keyD)
  define base where "base = \<lparr>rb_ServiceID = sid, rb_NewHostPubkey = new, rb_OldHostPubkey = old,
    rb_OperatorSignatures = [], rb_RequestedAtMs = now, rb_CoolDownMs = milliseconds cd,
    rb_OperatorPubkey = [], rb_OperatorSignature = []\<rparr>"
  define sigs where "sigs = map (\<lambda>priv. \<lparr>os_Pubkey = ed_public E priv, os_Signature = ed_sign E priv (request_bytes base)\<rparr>) ops"
  define req where "req = (if length ops = 1
    then base\<lparr>rb_OperatorSignatures := sigs, rb_OperatorPubkey := os_Pubkey (sigs ! 0), rb_OperatorSignature := os_Signature (sigs ! 0)\<rparr>
    else base\<lparr>rb_OperatorSignatures := sigs\<rparr>)"
  have seal: "SealRequestMultiOp E now sid new old ops cd = Inr req"
    using ops assms(2,3) by (simp add: SealRequestMultiOp_def priv_sizes_ok req_def base_def sigs_def Let_def)
  have fields: "rb_OperatorSignatures req = sigs" "request_bytes req = request_bytes base"
    "rb_RequestedAtMs req = now" "rb_CoolDownMs req = milliseconds cd" "rb_NewHostPubkey req = new" "rb_OldHostPubkey req = old"
    by (simp_all add: req_def) (simp_all add: base_def)
  have "operator_sigs req = sigs" using ops(1) by (simp add: operator_sigs_def fields(1) sigs_def)
  moreover have "map os_Pubkey sigs = map (ed_public E) ops" "length sigs = length ops"
    by (simp_all add: sigs_def comp_def)
  moreover have "list_all (operator_good E pins (request_bytes base)) sigs"
    using assms(1) by (auto simp: sigs_def operators_of_def list_all_iff operator_good_def ed_keyD)
  ultimately have "VerifyOperator E (Some req) pins t = Inr ()"
    using assms(1) by (simp add: VerifyOperator_iff fields(2) operators_of_def)
  then show thesis by (rule that [OF seal fields(3-6)])
qed

text \<open>Witnesses: index, private key and the time at which each looks at the request.\<close>

definition attestation_of :: "ed25519 \<Rightarrow> hash \<Rightarrow> rebirth_request \<Rightarrow> int \<times> bytes \<times> i64 \<Rightarrow> attestation" where
  "attestation_of E H req x = (case x of (w, priv, time) \<Rightarrow>
     \<lparr>at_WitnessIndex = w, at_WitnessPub = ed_public E priv, at_ObservedAtMs = time,
       at_Signature = ed_sign E priv (attestationMessage H req time)\<rparr>)"

definition in_time :: "ed25519 \<Rightarrow> rebirth_request \<Rightarrow> int \<times> bytes \<times> i64 \<Rightarrow> bool" where
  "in_time E req x \<longleftrightarrow> (case x of (w, priv, time) \<Rightarrow> ed_key E priv \<and> sint (rb_RequestedAtMs req) \<le> sint time \<and>
     sint (earliest_of req) \<le> sint time \<and> sint time \<le> sint (rb_RequestedAtMs req + 5 * rb_CoolDownMs req))"

lemma attest_in_time:
  assumes "VerifyOperator E (Some req) pins t = Inr ()" and "in_time E req x"
    and "sint (milliseconds floor) \<le> sint (rb_CoolDownMs req)"
  shows "(case x of (w, priv, time) \<Rightarrow> Attest E H (Some req) pins t w priv time floor) = Inr (attestation_of E H req x)"
  using assms by (cases x) (auto simp: Attest_iff in_time_def attestation_of_def dest: ed_keyD(1))

lemma execute_attested:
  assumes "list_all (\<lambda>(w, priv, time). ed_key E priv \<and> sint (earliest_of req) \<le> sint time) ws"
    and "distinct (map fst ws)" and "1 \<le> k" and "k \<le> int (length ws)" and "sint (earliest_of req) \<le> sint now"
  shows "Execute E H (Some req) (map (attestation_of E H req) ws) k now =
    Inr \<lparr>ln_Request = req, ln_Attestations = map (attestation_of E H req) ws, ln_ExecutedAtMs = now\<rparr>"
proof -
  have "at_WitnessIndex \<circ> attestation_of E H req = fst"
    by (simp add: attestation_of_def case_prod_unfold comp_def)
  moreover have "list_all (attestation_good E H req (earliest_of req)) (map (attestation_of E H req) ws)"
    using assms(1) by (auto simp: list_all_iff attestation_good_def attestation_of_def ed_keyD)
  ultimately show ?thesis using assms(2-5) unfolding Execute_iff length_map by simp
qed

lemma verify_first_record:
  assumes "Execute E H (Some req) as k now = Inr r" and "VerifyOperator E (Some req) pins t = Inr ()"
    and "rb_OldHostPubkey req = []"
  shows "VerifyLineage E H [r] pins t k = Inr ()"
  using assms by (auto simp: Execute_iff VerifyLineage_def)

section \<open>Cool-downs near the end of the range\<close>

text \<open>
  A cool-down that ends \<open>2 ^ 63\<close> ms after the request: the sum wraps to the smallest time, while
  the fivefold cool-down of the staleness check wraps to a time far ahead.
\<close>

lemma wrapped_times:
  assumes "rb_RequestedAtMs req + rb_CoolDownMs req = 2 ^ 63" and "0 < sint (rb_RequestedAtMs req)"
    and "sint (rb_RequestedAtMs req) < 2 ^ 60"
  shows "sint (earliest_of req) = - (2 ^ 63)"
    "sint (rb_RequestedAtMs req) \<le> sint (rb_RequestedAtMs req + 5 * rb_CoolDownMs req)"
    "sint (rb_CoolDownMs req) = 2 ^ 63 - sint (rb_RequestedAtMs req)"
proof -
  define n where "n = sint (rb_RequestedAtMs req)"
  have r: "rb_RequestedAtMs req = word_of_int n" by (simp add: n_def)
  have two: "(2 ^ 63 :: i64) = word_of_int (- (2 ^ 63))" "(2 ^ 63 :: i64) = word_of_int (2 ^ 63)" by simp_all
  have c: "rb_CoolDownMs req = word_of_int (2 ^ 63 - n)"
  proof -
    have "rb_CoolDownMs req = 2 ^ 63 - rb_RequestedAtMs req" using assms(1) by (simp add: algebra_simps)
    then show ?thesis unfolding r two(2) by (simp only: wi_hom_sub)
  qed
  have bounds: "0 < n" "n < 2 ^ 60" using assms(2,3) by (simp_all add: n_def)
  show "sint (rb_CoolDownMs req) = 2 ^ 63 - sint (rb_RequestedAtMs req)"
    unfolding n_def [symmetric] c using bounds by (intro sint_64_of_int) simp_all
  show "sint (earliest_of req) = - (2 ^ 63)"
    unfolding earliest_of_def assms(1) two(1) by (rule sint_64_of_int) simp_all
  have "rb_RequestedAtMs req + 5 * rb_CoolDownMs req = word_of_int (n + 5 * (2 ^ 63 - n))"
    unfolding r c by simp
  also have "\<dots> = word_of_int (2 ^ 63 - 4 * n)"
  proof -
    have "n + 5 * (2 ^ 63 - n) = (2 ^ 63 - 4 * n) + 2 * 2 ^ 64" by simp
    then have "(word_of_int (n + 5 * (2 ^ 63 - n)) :: i64) = word_of_int (2 ^ 63 - 4 * n) + word_of_int (2 * 2 ^ 64)"
      by (simp only: wi_hom_add)
    also have "(word_of_int (2 * 2 ^ 64) :: i64) = 0" by simp
    finally show ?thesis by simp
  qed
  finally have five: "rb_RequestedAtMs req + 5 * rb_CoolDownMs req = word_of_int (2 ^ 63 - 4 * n)" .
  have "sint (rb_RequestedAtMs req + 5 * rb_CoolDownMs req) = 2 ^ 63 - 4 * n"
    unfolding five using bounds by (intro sint_64_of_int) simp_all
  then show "sint (rb_RequestedAtMs req) \<le> sint (rb_RequestedAtMs req + 5 * rb_CoolDownMs req)"
    using bounds unfolding n_def [symmetric] by simp
qed

section \<open>Instances for the witnesses\<close>

definition key_of :: "byte \<Rightarrow> bytes" where "key_of b = replicate 64 b"
definition pub_of :: "byte \<Rightarrow> bytes" where "pub_of b = replicate 32 b"

lemma demo_operator_keys: "ed_key demo_ed (key_of b)" "pad32 (drop 32 (key_of b)) = pub_of b"
  by (simp_all add: demo_ed_key key_of_def pub_of_def pad32_def)

lemma pub_of_inject [simp]: "pub_of a = pub_of b \<longleftrightarrow> a = b"
  by (auto simp: pub_of_def replicate_eq_replicate)

text \<open>Two of three pinned operators ask at time 1000 for a cool-down of one second.\<close>

definition demo_pins :: "bytes list" where "demo_pins = [pub_of 1, pub_of 2, pub_of 3]"

definition demo_rebirth :: rebirth_request where
  "demo_rebirth = projr (SealRequestMultiOp demo_ed 1000 (str ''svc'') (pub_of 9) [] [key_of 1, key_of 2] 1000000000)"

lemma demo_operators: "operators_of demo_ed [key_of 1, key_of 2] demo_pins 2"
  by (simp add: operators_of_def demo_operator_keys demo_pins_def)

lemma demo_second: "milliseconds 1000000000 = 1000"
  by (simp add: milliseconds_def)

lemma demo_rebirth_facts:
  "rb_RequestedAtMs demo_rebirth = 1000" "rb_CoolDownMs demo_rebirth = 1000" "rb_OldHostPubkey demo_rebirth = []"
  "VerifyOperator demo_ed (Some demo_rebirth) demo_pins 2 = Inr ()"
proof -
  obtain req where "SealRequestMultiOp demo_ed 1000 (str ''svc'') (pub_of 9) [] [key_of 1, key_of 2] 1000000000 = Inr req"
    "rb_RequestedAtMs req = 1000" "rb_CoolDownMs req = milliseconds 1000000000" "rb_OldHostPubkey req = []"
    "VerifyOperator demo_ed (Some req) demo_pins 2 = Inr ()"
    by (rule sealed_request [OF demo_operators]) (auto simp: pub_of_def str_def)
  then show "rb_RequestedAtMs demo_rebirth = 1000" "rb_CoolDownMs demo_rebirth = 1000" "rb_OldHostPubkey demo_rebirth = []"
    "VerifyOperator demo_ed (Some demo_rebirth) demo_pins 2 = Inr ()"
    by (simp_all add: demo_rebirth_def demo_second)
qed

section \<open>Properties\<close>

text \<open>
  C17: \<open>VerifyLineage\<close> accepts exactly the non-empty logs whose old hosts are the new hosts of the
  records before, starting from none, and whose records each carry the operators' signatures
  and, from the end of the cool-down on, attestations of the given number of witness indices.
\<close>

theorem lineage_accepted_iff:
  "VerifyLineage E H rs pins t k = Inr () \<longleftrightarrow> lineage_ok E H pins t k rs"
  using lineage_loop_iff [of 0 "[]" E H pins t k rs]
  by (cases rs rule: rev_cases) (auto simp: VerifyLineage_def lineage_ok_def)

text \<open>
  C18: In an accepted log every record carries its own authority. The operator signatures stored in
  its request (the list, or the legacy pair when that is empty) are at least \<open>t\<close>, by different
  keys, all pinned, and each verifies over the canonical bytes of the request. Its attestations are
  at least \<open>k\<close>, with different witness indices, and each verifies under its key over the message
  of the request and its time. When request time plus cool-down is in the range of 64 bits, none of
  these times and not the time of execution is before it. (Outside that range the program's
  sum wraps; \<open>cool_down_wraps\<close> is what follows.)
\<close>

theorem lineage_authorised:
  assumes "VerifyLineage E H rs pins t k = Inr ()" and "r \<in> set rs"
  shows "let req = ln_Request r; as = ln_Attestations r;
        due = sint (rb_RequestedAtMs req) + sint (rb_CoolDownMs req);
        sigs = (if rb_OperatorSignatures req = []
          then [\<lparr>os_Pubkey = rb_OperatorPubkey req, os_Signature = rb_OperatorSignature req\<rparr>]
          else rb_OperatorSignatures req)
      in 1 \<le> t \<and> t \<le> int (length sigs) \<and> distinct (map os_Pubkey sigs) \<and>
        (\<forall>s \<in> set sigs. os_Pubkey s \<in> set pins \<and> ed_verify E (os_Pubkey s) (request_bytes req) (os_Signature s)) \<and>
        1 \<le> k \<and> k \<le> int (length as) \<and> distinct (map at_WitnessIndex as) \<and>
        (\<forall>a \<in> set as. ed_verify E (at_WitnessPub a) (attestationMessage H req (at_ObservedAtMs a)) (at_Signature a)) \<and>
        (- (2 ^ 63) \<le> due \<and> due < 2 ^ 63 \<longrightarrow>
          (\<forall>a \<in> set as. due \<le> sint (at_ObservedAtMs a)) \<and> due \<le> sint (ln_ExecutedAtMs r))"
proof -
  let ?req = "ln_Request r"
  from assms have ok: "record_ok E H pins t k r"
    using lineage_loop_iff [of 0 "[]" E H pins t k rs] by (auto simp: VerifyLineage_def list_all_iff)
  have v: "1 \<le> t" "t \<le> int (length (operator_sigs ?req))" "distinct (map os_Pubkey (operator_sigs ?req))"
    "list_all (operator_good E pins (request_bytes ?req)) (operator_sigs ?req)"
    using ok by (simp_all add: record_ok_def VerifyOperator_iff)
  have sigs: "operator_sigs ?req = (if rb_OperatorSignatures ?req = []
      then [\<lparr>os_Pubkey = rb_OperatorPubkey ?req, os_Signature = rb_OperatorSignature ?req\<rparr>]
      else rb_OperatorSignatures ?req)"
    using v(1,2) by (simp add: operator_sigs_def split: if_splits)
  have "sint (earliest_of ?req) = sint (rb_RequestedAtMs ?req) + sint (rb_CoolDownMs ?req)"
    if "- (2 ^ 63) \<le> sint (rb_RequestedAtMs ?req) + sint (rb_CoolDownMs ?req)"
      "sint (rb_RequestedAtMs ?req) + sint (rb_CoolDownMs ?req) < 2 ^ 63"
    using earliest_in_range [OF that] .
  with ok v(1) v(2-4) [unfolded sigs] show ?thesis
    unfolding Let_def by (auto simp: record_ok_def list_all_iff attestation_good_def operator_good_def)
qed

text \<open>
  C23: A round completes. A request sealed by enough pinned operators is attested by every witness
  that looks at it between the end of the cool-down and five cool-downs after the request,
  provided the witness floor is no longer than the cool-down; enough of these attestations
  execute once the cool-down is over, and for a service's first host the record is a valid log.
\<close>

theorem rebirth_completes:
  assumes "operators_of E ops pins t" and "sid \<noteq> []" and "length new = 32"
    and "sint (milliseconds floor) \<le> sint (milliseconds cd)"
    and "list_all (\<lambda>(w, priv, time). ed_key E priv \<and> sint start \<le> sint time \<and>
      sint (start + milliseconds cd) \<le> sint time \<and> sint time \<le> sint (start + 5 * milliseconds cd)) ws"
    and "distinct (map fst ws)" and "1 \<le> k" and "k \<le> int (length ws)"
    and "sint (start + milliseconds cd) \<le> sint now"
  shows "\<exists>req as r. SealRequestMultiOp E start sid new old ops cd = Inr req \<and>
    map (\<lambda>(w, priv, time). Attest E H (Some req) pins t w priv time floor) ws = map Inr as \<and>
    Execute E H (Some req) as k now = Inr r \<and> (old = [] \<longrightarrow> VerifyLineage E H [r] pins t k = Inr ())"
proof -
  obtain req where req: "SealRequestMultiOp E start sid new old ops cd = Inr req"
    "rb_RequestedAtMs req = start" "rb_CoolDownMs req = milliseconds cd" "rb_OldHostPubkey req = old"
    "VerifyOperator E (Some req) pins t = Inr ()"
    by (rule sealed_request [OF assms(1-3)]) blast
  let ?as = "map (attestation_of E H req) ws"
  have e: "earliest_of req = start + milliseconds cd" by (simp add: earliest_of_def req)
  have "list_all (in_time E req) ws"
    using assms(5) by (auto simp: list_all_iff in_time_def req e)
  then have "map (\<lambda>(w, priv, time). Attest E H (Some req) pins t w priv time floor) ws = map Inr ?as"
    using attest_in_time [OF req(5)] assms(4) by (simp add: list_all_iff req(3))
  moreover have "Execute E H (Some req) ?as k now =
      Inr \<lparr>ln_Request = req, ln_Attestations = ?as, ln_ExecutedAtMs = now\<rparr>"
    using assms(5-9) by (intro execute_attested) (auto simp: e list_all_iff)
  ultimately show ?thesis using req verify_first_record by blast
qed

theorem rebirth_completes_witness:
  "\<exists>req as r. SealRequestMultiOp demo_ed 1000 (str ''svc'') (pub_of 9) [] [key_of 1, key_of 2] 1000000000 = Inr req \<and>
    map (\<lambda>(w, priv, time). Attest demo_ed demo_hash (Some req) demo_pins 2 w priv time 1000000000)
      [(0, key_of 4, 2000), (1, key_of 5, 2500)] = map Inr as \<and>
    Execute demo_ed demo_hash (Some req) as 2 2600 = Inr r \<and>
    VerifyLineage demo_ed demo_hash [r] demo_pins 2 2 = Inr ()"
proof -
  let ?sealed = "\<lambda>req. SealRequestMultiOp demo_ed 1000 (str ''svc'') (pub_of 9) [] [key_of 1, key_of 2] 1000000000 = Inr req"
  let ?round = "\<lambda>req as r. map (\<lambda>(w, priv, time). Attest demo_ed demo_hash (Some req) demo_pins 2 w priv time 1000000000)
      [(0, key_of 4, 2000), (1, key_of 5, 2500)] = map Inr as \<and> Execute demo_ed demo_hash (Some req) as 2 2600 = Inr r"
  have "\<exists>req as r. ?sealed req \<and> ?round req as r \<and>
      (([] :: bytes) = [] \<longrightarrow> VerifyLineage demo_ed demo_hash [r] demo_pins 2 2 = Inr ())"
    unfolding conj_assoc by (rule rebirth_completes [OF demo_operators])
      (simp_all add: str_def pub_of_def demo_operator_keys(1) demo_second)
  then show ?thesis by (simp only: simp_thms conj_assoc)
qed

text \<open>The log of that round.\<close>

definition demo_record :: lineage_record where
  "demo_record = \<lparr>ln_Request = demo_rebirth,
     ln_Attestations = map (attestation_of demo_ed demo_hash demo_rebirth) [(0, key_of 4, 2000), (1, key_of 5, 2500)],
     ln_ExecutedAtMs = 2600\<rparr>"

lemma demo_execute:
  "Execute demo_ed demo_hash (Some demo_rebirth)
     (map (attestation_of demo_ed demo_hash demo_rebirth) [(0, key_of 4, 2000), (1, key_of 5, 2500)]) 2 2600 = Inr demo_record"
  unfolding demo_record_def
  by (rule execute_attested) (simp_all add: demo_operator_keys(1) earliest_of_def demo_rebirth_facts)

lemma demo_lineage: "VerifyLineage demo_ed demo_hash [demo_record] demo_pins 2 2 = Inr ()"
  by (rule verify_first_record [OF demo_execute demo_rebirth_facts(4,3)])

theorem lineage_authorised_witness:
  "distinct (map at_WitnessIndex (ln_Attestations demo_record)) \<and> 2000 \<le> sint (ln_ExecutedAtMs demo_record)"
proof -
  have "rb_RequestedAtMs (ln_Request demo_record) = 1000" "rb_CoolDownMs (ln_Request demo_record) = 1000"
    by (simp_all add: demo_record_def demo_rebirth_facts)
  then show ?thesis using lineage_authorised [OF demo_lineage, of demo_record] by (simp add: Let_def)
qed

text \<open>
  \<open>Execute\<close> asks nobody but the attestations, and takes their keys from them: for any request,
  signed by an operator or not, whoever has one key pair of their own can write attestations under
  as many indices as the threshold asks for, and the request executes as soon as its cool-down,
  counted on the attacker's time stamps, is over.
\<close>

theorem execute_self_attested:
  assumes "ed_key E own" and "1 \<le> k" and "sint (earliest_of req) \<le> sint now"
  shows "\<exists>as r. (\<forall>a \<in> set as. at_WitnessPub a = ed_public E own) \<and> Execute E H (Some req) as k now = Inr r"
proof -
  let ?ws = "map (\<lambda>w. (int w, own, now)) [0..<nat k]"
  have "distinct (map fst ?ws)" by (simp add: comp_def distinct_map inj_on_def)
  then have "Execute E H (Some req) (map (attestation_of E H req) ?ws) k now = Inr
      \<lparr>ln_Request = req, ln_Attestations = map (attestation_of E H req) ?ws, ln_ExecutedAtMs = now\<rparr>"
    by (rule execute_attested [rotated]) (use assms in \<open>auto simp: list_all_iff\<close>)
  moreover have "\<forall>a \<in> set (map (attestation_of E H req) ?ws). at_WitnessPub a = ed_public E own"
    by (simp add: attestation_of_def)
  ultimately show ?thesis by blast
qed

theorem execute_self_attested_witness:
  "\<exists>as r. Execute demo_ed demo_hash (Some (demo_rebirth\<lparr>rb_OperatorSignatures := []\<rparr>)) as 5 3000 = Inr r"
  using execute_self_attested [OF demo_operator_keys(1) [of 7], of 5 "demo_rebirth\<lparr>rb_OperatorSignatures := []\<rparr>" 3000 demo_hash]
  by (auto simp: earliest_of_def demo_rebirth_facts(1,2))

text \<open>
  The cool-down can be signed away. When an operator quorum signs a request at time \<open>s\<close> with the
  cool-down \<open>2 ^ 63 - s\<close>, it passes the floor and the staleness check of every witness, and the
  attestations made at \<open>s\<close> itself execute at \<open>s\<close>: request time plus cool-down wraps to the past.
\<close>

theorem cool_down_wraps:
  assumes "VerifyOperator E (Some req) pins t = Inr ()"
    and "rb_RequestedAtMs req + rb_CoolDownMs req = 2 ^ 63"
    and "0 < sint (rb_RequestedAtMs req)" and "sint (rb_RequestedAtMs req) < 2 ^ 60"
    and "sint (milliseconds floor) < 2 ^ 62"
    and "list_all (\<lambda>(w, priv). ed_key E priv) ws" and "distinct (map fst ws)"
    and "1 \<le> k" and "k \<le> int (length ws)"
  shows "\<exists>as r. map (\<lambda>(w, priv). Attest E H (Some req) pins t w priv (rb_RequestedAtMs req) floor) ws = map Inr as \<and>
    Execute E H (Some req) as k (rb_RequestedAtMs req) = Inr r"
proof -
  let ?now = "rb_RequestedAtMs req"
  let ?ws = "map (\<lambda>(w, priv). (w, priv, ?now)) ws"
  let ?as = "map (attestation_of E H req) ?ws"
  note wrap = wrapped_times [OF assms(2-4)]
  have early: "sint (earliest_of req) \<le> sint ?now" using wrap(1) assms(3) by simp
  have "sint (milliseconds floor) \<le> sint (rb_CoolDownMs req)" using wrap(3) assms(4,5) by simp
  then have "(case x of (w, priv) \<Rightarrow> Attest E H (Some req) pins t w priv ?now floor) =
      Inr (attestation_of E H req (case x of (w, priv) \<Rightarrow> (w, priv, ?now)))" if "x \<in> set ws" for x
    using attest_in_time [OF assms(1), of "(fst x, snd x, ?now)" floor H] that assms(6) wrap(2) early
    by (auto simp: in_time_def list_all_iff split: prod.split)
  then have "map (\<lambda>(w, priv). Attest E H (Some req) pins t w priv ?now floor) ws = map Inr ?as" by simp
  moreover have "Execute E H (Some req) ?as k ?now =
      Inr \<lparr>ln_Request = req, ln_Attestations = ?as, ln_ExecutedAtMs = ?now\<rparr>"
    by (rule execute_attested) (use assms(6-9) early in \<open>auto simp: list_all_iff comp_def case_prod_unfold\<close>)
  ultimately show ?thesis by blast
qed

definition hasty_request :: rebirth_request where
  "hasty_request = (let base = demo_rebirth\<lparr>rb_CoolDownMs := 2 ^ 63 - 1000\<rparr> in
     base\<lparr>rb_OperatorSignatures := map (\<lambda>b. \<lparr>os_Pubkey = pub_of b,
       os_Signature = ed_sign demo_ed (key_of b) (request_bytes base)\<rparr>) [1, 2]\<rparr>)"

theorem cool_down_wraps_witness:
  "\<exists>as r. map (\<lambda>(w, priv). Attest demo_ed demo_hash (Some hasty_request) demo_pins 2 w priv 1000 86400000000000)
      [(0, key_of 4), (1, key_of 5)] = map Inr as \<and>
    Execute demo_ed demo_hash (Some hasty_request) as 2 1000 = Inr r"
proof -
  have at: "rb_RequestedAtMs hasty_request = 1000" "rb_RequestedAtMs hasty_request + rb_CoolDownMs hasty_request = 2 ^ 63"
    by (simp_all add: hasty_request_def demo_rebirth_facts Let_def)
  have "VerifyOperator demo_ed (Some hasty_request) demo_pins 2 = Inr ()"
    by (simp add: VerifyOperator_iff hasty_request_def operator_sigs_def operator_good_def demo_operator_keys(2)
        demo_pins_def Let_def) (simp add: pub_of_def)
  from cool_down_wraps [OF this at(2), of 86400000000000 "[(0, key_of 4), (1, key_of 5)]" 2 demo_hash]
  show ?thesis by (simp add: at demo_operator_keys(1) milliseconds_def)
qed

end
