(* ===== verification/Teb.thy ===== *)
theory Teb
  imports Crypto
begin

text \<open>
  \<open>internal/teb\<close>: blobs that open only while the environment can be sampled again. \<open>signal.go\<close>
  samples a window of a signal and quantises it, \<open>sealer.go\<close> derives a key from the result and
  seals. A source of samples is a function of zone and time (\<open>EnvSource\<close>), nil is \<open>None\<close>. The
  value of a sample is of any type, and the bucket that \<open>QuantiseSamples\<close> rounds it to (a
  floating-point expression) is the parameter \<open>bucket\<close>; \<open>DeterministicSignal\<close>, a sum of sines for
  tests and demos, is one such source and not modelled. The sampling loop need not end, so
  results are options with \<open>None\<close> for a call that does not return. The largest capacity with which
  \<open>make\<close> can allocate a slice of samples depends on the machine and is the parameter \<open>room\<close>; beyond it,
  and for a negative one, \<open>make\<close> panics, which is the outcome \<open>Tb_panic_make\<close>.
\<close>

record 'v sample =
  sm_TimestampMs :: i64
  sm_Value :: 'v

type_synonym 'v env_source = "u16 \<Rightarrow> i64 \<Rightarrow> 'v sample"

record sealed_blob =
  sb_ZoneID :: u16
  sb_WindowStartMs :: i64
  sb_WindowDurationMs :: i64
  sb_CadenceMs :: i64
  sb_Salt :: bytes
  sb_Ciphertext :: bytes

datatype teb_error =
    Tb_nil_source
  | Tb_duration
  | Tb_cadence
  | Tb_sample_window teb_error
  | Tb_salt
  | Tb_nonce
  | Tb_binding_secret
  | Tb_no_samples
  | Tb_empty_salt
  | Tb_nil_blob
  | ErrWrongZone
  | ErrOutOfWindow
  | Tb_resample teb_error
  | ErrOpen
  | Tb_panic_make

section \<open>Sampling\<close>

text \<open>\<open>for t := startMs; t <= startMs+durationMs; t += cadenceMs\<close>, with the sums of \<open>int64\<close>.\<close>

partial_function (option) sample_loop :: "(i64 \<Rightarrow> 'a) \<Rightarrow> i64 \<Rightarrow> i64 \<Rightarrow> i64 \<Rightarrow> 'a list option" where
  "sample_loop f endMs cadence t =
     (if sint t \<le> sint endMs
      then Option.bind (sample_loop f endMs cadence (t + cadence)) (\<lambda>out. Some (f t # out))
      else Some [])"

text \<open>The capacity \<open>int(durationMs/cadenceMs) + 1\<close>, computed on 64 bits.\<close>

definition sample_capacity :: "i64 \<Rightarrow> i64 \<Rightarrow> i64" where
  "sample_capacity durationMs cadenceMs = word_of_int (sint durationMs div sint cadenceMs) + 1"

definition SampleWindow :: "int \<Rightarrow> 'v env_source option \<Rightarrow> u16 \<Rightarrow> i64 \<Rightarrow> i64 \<Rightarrow> i64
    \<Rightarrow> (teb_error + 'v sample list) option" where
  "SampleWindow room src zone startMs durationMs cadenceMs =
     (case src of None \<Rightarrow> Some (Inl Tb_nil_source)
      | Some S \<Rightarrow>
          if sint durationMs \<le> 0 then Some (Inl Tb_duration)
          else if sint cadenceMs \<le> 0 \<or> i64_less durationMs cadenceMs then Some (Inl Tb_cadence)
          else let n = sample_capacity durationMs cadenceMs in
            if sint n < 0 \<or> room < sint n then Some (Inl Tb_panic_make)
            else map_option Inr (sample_loop (S zone) (startMs + durationMs) cadenceMs startMs))"

definition QuantiseSamples :: "('v \<Rightarrow> i64) \<Rightarrow> 'v sample list \<Rightarrow> bytes" where
  "QuantiseSamples bucket samples =
     concat (map (\<lambda>s. putUint64 (sm_TimestampMs s) @ putUint64 (bucket (sm_Value s))) samples)"

section \<open>Sealing and opening\<close>

text \<open>Errors of the sampling are wrapped by the callers, a panic goes through.\<close>

definition wrap_teb :: "(teb_error \<Rightarrow> teb_error) \<Rightarrow> teb_error + 'a \<Rightarrow> teb_error + 'a" where
  "wrap_teb c r = (if r = Inl Tb_panic_make then r else wrap_err c r)"

lemma wrap_teb_Inr [simp]: "wrap_teb c (Inr x) = Inr x"
  by (simp add: wrap_teb_def)

lemma wrap_teb_Inl [simp]: "wrap_teb c (Inl e) = Inl (if e = Tb_panic_make then Tb_panic_make else c e)"
  by (simp add: wrap_teb_def)

definition DeriveKey :: "kdf \<Rightarrow> ('v \<Rightarrow> i64) \<Rightarrow> bytes \<Rightarrow> u16 \<Rightarrow> 'v sample list \<Rightarrow> bytes \<Rightarrow> teb_error + bytes" where
  "DeriveKey K bucket bindingSecret zone samples salt =
     guard (bindingSecret = []) Tb_binding_secret (
     guard (samples = []) Tb_no_samples (
     guard (salt = []) Tb_empty_salt (
     let info = str ''963causal-TEB-V1|'' @ putUint16 zone @ str ''|'' @ QuantiseSamples bucket samples
     in Inr (K bindingSecret salt info 32))))"

definition aeadHeader :: "u16 \<Rightarrow> i64 \<Rightarrow> i64 \<Rightarrow> i64 \<Rightarrow> bytes \<Rightarrow> bytes" where
  "aeadHeader zone startMs durationMs cadenceMs salt =
     putUint16 zone @ concat (map putUint64 [startMs, durationMs, cadenceMs]) @ salt"

definition Seal_teb :: "int \<Rightarrow> kdf \<Rightarrow> aead \<Rightarrow> rng \<Rightarrow> ('v \<Rightarrow> i64) \<Rightarrow> 'v env_source option \<Rightarrow> bytes \<Rightarrow> u16 \<Rightarrow> i64 \<Rightarrow> i64 \<Rightarrow> i64
    \<Rightarrow> bytes \<Rightarrow> (teb_error + sealed_blob) option" where
  "Seal_teb room K A R bucket src bindingSecret zone windowStartMs windowDurationMs cadenceMs plaintext =
     (case src of None \<Rightarrow> Some (Inl Tb_nil_source)
      | Some _ \<Rightarrow>
     map_option (\<lambda>r. bind_r (wrap_teb Tb_sample_window r) (\<lambda>samples.
       case R 0 of None \<Rightarrow> Inl Tb_salt
       | Some f \<Rightarrow>
           let salt = fill 16 f in
           bind_r (DeriveKey K bucket bindingSecret zone samples salt) (\<lambda>key.
           case R 1 of None \<Rightarrow> Inl Tb_nonce
           | Some g \<Rightarrow>
               let nonce = fill 12 g;
                   ad = aeadHeader zone windowStartMs windowDurationMs cadenceMs salt;
                   sealed = nonce @ aead_seal A key nonce plaintext ad
               in Inr \<lparr>sb_ZoneID = zone, sb_WindowStartMs = windowStartMs,
                    sb_WindowDurationMs = windowDurationMs, sb_CadenceMs = cadenceMs, sb_Salt = salt,
                    sb_Ciphertext = sealed\<rparr>)))
       (SampleWindow room src zone windowStartMs windowDurationMs cadenceMs))"

definition Open_teb :: "int \<Rightarrow> kdf \<Rightarrow> aead \<Rightarrow> ('v \<Rightarrow> i64) \<Rightarrow> 'v env_source option \<Rightarrow> bytes \<Rightarrow> sealed_blob option \<Rightarrow> u16 \<Rightarrow> i64
    \<Rightarrow> (teb_error + bytes) option" where
  "Open_teb room K A bucket src bindingSecret blob openerZone nowMs =
     (case blob of None \<Rightarrow> Some (Inl Tb_nil_blob)
      | Some b \<Rightarrow>
          if openerZone \<noteq> sb_ZoneID b then Some (Inl ErrWrongZone)
          else if i64_less nowMs (sb_WindowStartMs b) \<or> i64_less (sb_WindowStartMs b + sb_WindowDurationMs b) nowMs
          then Some (Inl ErrOutOfWindow)
          else map_option (\<lambda>r. bind_r (wrap_teb Tb_resample r) (\<lambda>samples.
            bind_r (DeriveKey K bucket bindingSecret (sb_ZoneID b) samples (sb_Salt b)) (\<lambda>key.
            guard (length (sb_Ciphertext b) < 12 + 16) ErrOpen (
            let nonce = take 12 (sb_Ciphertext b); body = drop 12 (sb_Ciphertext b);
                ad = aeadHeader (sb_ZoneID b) (sb_WindowStartMs b) (sb_WindowDurationMs b) (sb_CadenceMs b) (sb_Salt b)
            in case aead_open A key nonce body ad of None \<Rightarrow> Inl ErrOpen | Some plaintext \<Rightarrow> Inr plaintext))))
            (SampleWindow room src (sb_ZoneID b) (sb_WindowStartMs b) (sb_WindowDurationMs b) (sb_CadenceMs b)))"

section \<open>The sampling loop\<close>

text \<open>The loop at one point of time, and the result of \<open>n\<close> rounds.\<close>

lemma sample_loop_stop [simp]: "sint endMs < sint t \<Longrightarrow> sample_loop f endMs c t = Some []"
  by (subst sample_loop.simps) simp

lemma sample_loop_step:
  "sint t \<le> sint endMs \<Longrightarrow> sample_loop f endMs c t = map_option (Cons (f t)) (sample_loop f endMs c (t + c))"
  by (subst sample_loop.simps) (cases "sample_loop f endMs c (t + c)"; simp)

lemma sample_loop_rounds:
  assumes "\<And>i. i < n \<Longrightarrow> sint (t + of_nat i * c) \<le> sint endMs" and "sint endMs < sint (t + of_nat n * c)"
  shows "sample_loop f endMs c t = Some (map (\<lambda>i. f (t + of_nat i * c)) [0..<n])"
  using assms
proof (induction n arbitrary: t)
  case (Suc n)
  have shift: "t + c + of_nat i * c = t + of_nat (Suc i) * c" for i by (simp add: algebra_simps)
  have "sample_loop f endMs c (t + c) = Some (map (\<lambda>i. f (t + c + of_nat i * c)) [0..<n])"
    using Suc.prems by (intro Suc.IH) (simp_all only: shift Suc_less_eq)
  moreover have "map (\<lambda>i. f (t + of_nat i * c)) [0..<Suc n] = f t # map (\<lambda>i. f (t + c + of_nat i * c)) [0..<n]"
    unfolding shift by (simp only: upt_conv_Cons zero_less_Suc map_Suc_upt [symmetric] list.map comp_def list.map_comp) simp
  ultimately show ?case using Suc.prems(1) [of 0] by (simp add: sample_loop_step)
qed simp

text \<open>A loop that returns has passed the end of the window.\<close>

lemma sample_loop_passes: "sample_loop f endMs c t = Some ys \<Longrightarrow> \<exists>u. sint endMs < sint (u :: i64)"
proof (induction f endMs c t ys rule: sample_loop.raw_induct [rotated, consumes 1, case_names step])
  case (step loop f endMs c t ys)
  then show ?case by (cases "sint t \<le> sint endMs") (auto split: bind_splits simp: not_le)
qed

text \<open>The times do not depend on what is sampled at them.\<close>

lemma sample_loop_times:
  "sample_loop f endMs c t = Some ys \<Longrightarrow> \<exists>us. ys = map f us \<and> sample_loop g endMs c t = Some (map g us)"
proof (induction f endMs c t ys rule: sample_loop.raw_induct [rotated, consumes 1, case_names step])
  case (step loop f endMs c t ys)
  show ?case
  proof (cases "sint t \<le> sint endMs")
    case True
    with step(2) obtain out where out: "loop f endMs c (t + c) = Some out" "ys = f t # out"
      by (auto split: bind_splits)
    from step(1) [OF out(1)] obtain us where "out = map f us" "sample_loop g endMs c (t + c) = Some (map g us)" by blast
    then have "ys = map f (t # us) \<and> sample_loop g endMs c t = Some (map g (t # us))"
      using True out(2) by (simp add: sample_loop_step)
    then show ?thesis by blast
  next
    case False
    with step(2) show ?thesis by simp
  qed
qed

lemma times_wrap:
  fixes t c :: i64
  assumes "- (2 ^ 63) \<le> sint t + int i * sint c" and "sint t + int i * sint c < 2 ^ 63"
  shows "sint (t + of_nat i * c) = sint t + int i * sint c"
proof -
  have "t + of_nat i * c = word_of_int (sint t + int i * sint c)"
    by (simp add: wi_hom_add [symmetric] wi_hom_mult [symmetric])
  then show ?thesis using assms by (simp only: sint_64_of_int)
qed

text \<open>How often the cadence fits into the window.\<close>

lemma rounds_bounds:
  fixes a c :: int
  assumes "0 < c" and "0 \<le> a"
  shows "int (nat (a div c)) * c \<le> a" "a < int (nat (a div c) + 1) * c"
proof -
  have "0 \<le> a div c" using assms by (simp add: pos_imp_zdiv_nonneg_iff)
  then have n: "int (nat (a div c)) * c = a - a mod c" by (simp add: minus_mod_eq_div_mult)
  have m: "0 \<le> a mod c" "a mod c < c" using assms(1) by simp_all
  show "int (nat (a div c)) * c \<le> a" using n m by linarith
  have "int (nat (a div c) + 1) * c = int (nat (a div c)) * c + c" by (simp add: distrib_right)
  then show "a < int (nat (a div c) + 1) * c" using n m by linarith
qed

lemma sample_loop_window:
  assumes "0 < sint c" and "sint c \<le> sint d" and "sint s + sint d + sint c < 2 ^ 63"
  shows "sample_loop f (s + d) c s = Some (map (\<lambda>i. f (s + of_nat i * c)) [0..<nat (sint d div sint c) + 1])"
proof (rule sample_loop_rounds)
  define n where "n = nat (sint d div sint c)"
  have n: "int n * sint c \<le> sint d" "sint d < int (n + 1) * sint c"
    using rounds_bounds [of "sint c" "sint d"] assms(1,2) by (simp_all add: n_def)
  have low: "- (2 ^ 63) \<le> sint s" using sint_ge [of s] by simp
  have sd: "sint (s + d) = sint s + sint d"
    using times_wrap [of s 1 d] assms low by simp
  have at: "sint (s + of_nat i * c) = sint s + int i * sint c" if "i \<le> n + 1" for i
  proof (rule times_wrap)
    have "0 \<le> int i * sint c" using assms(1) by simp
    then show "- (2 ^ 63) \<le> sint s + int i * sint c" using low by linarith
    have "int i * sint c \<le> int (n + 1) * sint c" using that assms(1) by (intro mult_right_mono) simp_all
    also have "\<dots> = int n * sint c + sint c" by (simp add: distrib_right)
    finally show "sint s + int i * sint c < 2 ^ 63" using n(1) assms(3) by linarith
  qed
  show "sint (s + d) < sint (s + of_nat (nat (sint d div sint c) + 1) * c)"
    using at [of "n + 1"] n(2) sd unfolding n_def [symmetric] by simp
  fix i assume "i < nat (sint d div sint c) + 1"
  then have i: "i \<le> n" by (simp add: n_def)
  then have "int i * sint c \<le> int n * sint c" using assms(1) by (intro mult_right_mono) simp_all
  then show "sint (s + of_nat i * c) \<le> sint (s + d)" using at [of i] i n(1) sd by simp
qed

text \<open>At the end of the range the loop has nowhere to stop; past it, nothing to do.\<close>

lemma sample_loop_hangs:
  assumes "sint endMs = 2 ^ 63 - 1"
  shows "sample_loop f endMs c t = None"
proof (rule ccontr)
  assume "sample_loop f endMs c t \<noteq> None"
  then obtain ys where "sample_loop f endMs c t = Some ys" by auto
  from sample_loop_passes [OF this] obtain u :: i64 where "sint endMs < sint u" ..
  then show False using sint_lt [of u] assms by simp
qed

lemma sum_wraps:
  fixes s d :: i64
  assumes "0 < sint d" and "2 ^ 63 \<le> sint s + sint d"
  shows "sint (s + d) < sint s"
proof -
  have "s + d = word_of_int (sint s + sint d - 2 ^ 64)"
  proof -
    have "(word_of_int (sint s + sint d - 2 ^ 64) :: i64) = word_of_int (sint s) + word_of_int (sint d) - word_of_int (2 ^ 64)"
      by (simp only: wi_hom_add wi_hom_sub)
    also have "(word_of_int (2 ^ 64) :: i64) = 0" by simp
    finally show ?thesis by simp
  qed
  moreover have lt: "sint s < 2 ^ 63" "sint d < 2 ^ 63" using sint_lt [of s] sint_lt [of d] by simp_all
  moreover have "sint (word_of_int (sint s + sint d - 2 ^ 64) :: i64) = sint s + sint d - 2 ^ 64"
    by (rule sint_64_of_int) (use lt assms in simp_all)
  ultimately have "sint (s + d) = sint s + sint d - 2 ^ 64" by (simp only:)
  then show ?thesis using \<open>sint d < 2 ^ 63\<close> by simp
qed

lemma sample_capacity_fits:
  assumes "0 < sint c" and "sint c \<le> sint d"
  shows "\<not> (sint (sample_capacity d c) < 0 \<or> room < sint (sample_capacity d c)) \<longleftrightarrow>
    sint d div sint c + 1 \<le> room \<and> sint d div sint c + 1 < 2 ^ 63"
proof -
  let ?q = "sint d div sint c"
  have q: "0 \<le> ?q" "?q < 2 ^ 63"
  proof -
    show "0 \<le> ?q" using assms by (simp add: pos_imp_zdiv_nonneg_iff)
    have "?q \<le> sint d" using assms zdiv_mono2 [of "sint d" 1 "sint c"] by simp
    then show "?q < 2 ^ 63" using sint_lt [of d] by simp
  qed
  have n: "sample_capacity d c = word_of_int (?q + 1)" by (simp add: sample_capacity_def)
  show ?thesis
  proof (cases "?q + 1 < 2 ^ 63")
    case True
    then have "sint (sample_capacity d c) = ?q + 1" unfolding n using q by (intro sint_64_of_int) simp_all
    with q True show ?thesis by auto
  next
    case False
    with q have "?q + 1 = 2 ^ 63" by simp
    then have "sample_capacity d c = word_of_int (- (2 ^ 63))" unfolding n by simp
    then have "sint (sample_capacity d c) = - (2 ^ 63)" by (simp only:, intro sint_64_of_int) simp_all
    with False show ?thesis by simp
  qed
qed

section \<open>Opening a sealed blob\<close>

text \<open>Two sources that agree on the buckets of a zone give the same key.\<close>

definition same_buckets :: "('v \<Rightarrow> i64) \<Rightarrow> u16 \<Rightarrow> 'v env_source \<Rightarrow> 'v env_source \<Rightarrow> bool" where
  "same_buckets bucket zone S S' \<longleftrightarrow> (\<forall>t. sm_TimestampMs (S zone t) = sm_TimestampMs (S' zone t) \<and>
     bucket (sm_Value (S zone t)) = bucket (sm_Value (S' zone t)))"

lemma quantised_alike:
  assumes "same_buckets bucket zone S S'" and "sample_loop (S zone) endMs c t = Some ys"
  shows "\<exists>zs. sample_loop (S' zone) endMs c t = Some zs \<and> QuantiseSamples bucket zs = QuantiseSamples bucket ys \<and>
    (zs = [] \<longleftrightarrow> ys = [])"
proof -
  from sample_loop_times [OF assms(2), of "S' zone"] obtain us where
    us: "ys = map (S zone) us" "sample_loop (S' zone) endMs c t = Some (map (S' zone) us)" by blast
  then show ?thesis using assms(1) by (simp add: QuantiseSamples_def same_buckets_def comp_def)
qed

definition aead_overhead :: "aead \<Rightarrow> bool" where
  "aead_overhead A \<longleftrightarrow> (\<forall>k n p ad. length (aead_seal A k n p ad) = length p + 16)"

text \<open>The parts of a successful seal.\<close>

lemma Seal_teb_parts:
  assumes "Seal_teb room K A R bucket src secret zone start dur cad plaintext = Some (Inr b)"
  obtains S samples f g where "src = Some S" "SampleWindow room src zone start dur cad = Some (Inr samples)"
    "R 0 = Some f" "R 1 = Some g" "secret \<noteq> []" "samples \<noteq> []"
    "b = \<lparr>sb_ZoneID = zone, sb_WindowStartMs = start, sb_WindowDurationMs = dur, sb_CadenceMs = cad,
       sb_Salt = fill 16 f, sb_Ciphertext = fill 12 g @ aead_seal A
         (K secret (fill 16 f) (str ''963causal-TEB-V1|'' @ putUint16 zone @ str ''|'' @ QuantiseSamples bucket samples) 32)
         (fill 12 g) plaintext (aeadHeader zone start dur cad (fill 16 f))\<rparr>"
proof -
  obtain S where S: "src = Some S" using assms by (cases src) (simp_all add: Seal_teb_def)
  obtain r where r: "SampleWindow room src zone start dur cad = Some r" using assms by (auto simp: Seal_teb_def S)
  obtain samples where samples: "r = Inr samples" using assms by (cases r) (auto simp: Seal_teb_def S r [unfolded S])
  obtain f where f: "R 0 = Some f" using assms by (cases "R 0") (auto simp: Seal_teb_def S r [unfolded S] samples)
  have key: "secret \<noteq> []" "samples \<noteq> []"
    using assms by (auto simp: Seal_teb_def S r [unfolded S] samples f DeriveKey_def Let_def guard_def split: if_splits)
  obtain g where g: "R 1 = Some g"
    using assms by (cases "R 1") (auto simp: Seal_teb_def S r [unfolded S] samples f DeriveKey_def Let_def guard_def split: if_splits)
  have "fill 16 f \<noteq> []" using length_fill [of 16 f] by (metis list.size(3) zero_neq_numeral)
  then show thesis
    using assms key r samples
    by (intro that [OF S _ f g, of samples]) (auto simp: Seal_teb_def S f g [unfolded One_nat_def] DeriveKey_def Let_def)
qed

lemma Open_teb_sealed:
  assumes "aead_ok A" and "aead_overhead A" and "same_buckets bucket zone S S'"
    and "Seal_teb room K A R bucket (Some S) secret zone start dur cad plaintext = Some (Inr b)"
    and "sint start \<le> sint now" and "sint now \<le> sint (start + dur)" and "room \<le> room'"
  shows "Open_teb room' K A bucket (Some S') secret (Some b) zone now = Some (Inr plaintext)"
  using assms(4)
proof (rule Seal_teb_parts)
  fix T samples f g
  assume "Some S = Some T" and w: "SampleWindow room (Some S) zone start dur cad = Some (Inr samples)"
    and key: "secret \<noteq> []" "samples \<noteq> []"
    and b: "b = \<lparr>sb_ZoneID = zone, sb_WindowStartMs = start, sb_WindowDurationMs = dur, sb_CadenceMs = cad,
       sb_Salt = fill 16 f, sb_Ciphertext = fill 12 g @ aead_seal A
         (K secret (fill 16 f) (str ''963causal-TEB-V1|'' @ putUint16 zone @ str ''|'' @ QuantiseSamples bucket samples) 32)
         (fill 12 g) plaintext (aeadHeader zone start dur cad (fill 16 f))\<rparr>"
  have w': "sample_loop (S zone) (start + dur) cad start = Some samples" "0 < sint dur" "0 < sint cad" "sint cad \<le> sint dur"
    "0 \<le> sint (sample_capacity dur cad)" "sint (sample_capacity dur cad) \<le> room"
    using w by (auto simp: SampleWindow_def Let_def split: if_splits)
  obtain zs where zs: "sample_loop (S' zone) (start + dur) cad start = Some zs"
      "QuantiseSamples bucket zs = QuantiseSamples bucket samples" "zs \<noteq> []"
    using quantised_alike [OF assms(3) w'(1)] key(2) by blast
  have "SampleWindow room' (Some S') zone start dur cad = Some (Inr zs)"
    using zs(1) w'(2-6) assms(7) by (simp add: SampleWindow_def)
  moreover have "fill 16 f \<noteq> []" using length_fill [of 16 f] by (metis list.size(3) zero_neq_numeral)
  moreover have "aead_open A k n (aead_seal A k n p ad) ad = Some p" "length (aead_seal A k n p ad) = length p + 16"
    for k n p ad using assms(1,2) by (simp_all add: aead_ok_def aead_overhead_def)
  ultimately show ?thesis
    using key zs(2,3) assms(5,6) by (simp add: Open_teb_def b DeriveKey_def Let_def)
qed

section \<open>Instances for the witnesses\<close>

text \<open>Ciphertexts carry the key as their tag; a signal of three levels with a noisy copy.\<close>

definition tag_aead :: aead where
  "tag_aead = \<lparr>aead_seal = (\<lambda>k n p ad. take 16 (k @ replicate 16 0) @ p),
     aead_open = (\<lambda>k n c ad. if take 16 c = take 16 (k @ replicate 16 0) then Some (drop 16 c) else None)\<rparr>"

lemma tag_aead_ok: "aead_ok tag_aead" "aead_overhead tag_aead"
  by (auto simp: aead_ok_def aead_overhead_def tag_aead_def min_def)

definition demo_signal :: "nat \<Rightarrow> nat env_source" where
  "demo_signal noise zone t = \<lparr>sm_TimestampMs = t, sm_Value = 10 * (unat t mod 3) + noise\<rparr>"

definition demo_bucket :: "nat \<Rightarrow> i64" where "demo_bucket v = of_nat (v div 10)"

lemma demo_same_buckets: "same_buckets demo_bucket zone (demo_signal 0) (demo_signal 4)"
  by (simp add: same_buckets_def demo_signal_def demo_bucket_def)

section \<open>Properties\<close>

text \<open>
  C25: Sampling a window with a cadence no longer than it, when the window, lengthened by one
  cadence, stays within the range of the clock: the call returns one sample at the start and one
  more for each cadence that fits into the window, provided their number is a capacity that \<open>make\<close>
  accepts, at most \<open>room\<close> and less than \<open>2 ^ 63\<close>; otherwise it panics.
\<close>

theorem sample_window_complete:
  assumes "0 < sint cad" and "sint cad \<le> sint dur" and "sint start + sint dur + sint cad < 2 ^ 63"
  shows "SampleWindow room (Some S) zone start dur cad = Some
    (if sint dur div sint cad + 1 \<le> room \<and> sint dur div sint cad + 1 < 2 ^ 63
     then Inr (map (\<lambda>i. S zone (start + of_nat i * cad)) [0..<nat (sint dur div sint cad) + 1])
     else Inl Tb_panic_make)"
  using sample_loop_window [OF assms, of "S zone"] sample_capacity_fits [OF assms(1,2), of room] assms(1,2)
  by (simp add: SampleWindow_def Let_def)

theorem sample_window_complete_witness:
  "SampleWindow 1000 (Some (demo_signal 0)) 7 100 25 10 =
     Some (Inr [demo_signal 0 7 100, demo_signal 0 7 110, demo_signal 0 7 120]) \<and>
   SampleWindow 1000 (Some (demo_signal 0)) 7 (- 10) (2 ^ 63 - 1) 1 = Some (Inl Tb_panic_make)"
  using sample_window_complete [of 10 25 100 1000 "demo_signal 0" 7]
    sample_window_complete [of 1 "2 ^ 63 - 1" "- 10" 1000 "demo_signal 0" 7]
  by (simp add: upt_rec [of _ 3] upt_rec [of _ 2] upt_rec)

text \<open>
  At the end of the range it does not: a window that ends at the last representable
  millisecond is sampled for ever, and one that ends beyond it yields no sample at all, and no
  error, although a successful call is documented never to return an empty slice.
\<close>

theorem sample_window_at_range_end:
  assumes "0 < sint cad" and "sint cad \<le> sint dur"
    and "sint dur div sint cad + 1 \<le> room" and "sint dur div sint cad + 1 < 2 ^ 63"
  shows "(sint (start + dur) = 2 ^ 63 - 1 \<longrightarrow> SampleWindow room (Some S) zone start dur cad = None) \<and>
    (2 ^ 63 \<le> sint start + sint dur \<longrightarrow> SampleWindow room (Some S) zone start dur cad = Some (Inr []))"
  using assms sum_wraps [of dur start] sample_capacity_fits [OF assms(1,2), of room]
  by (simp add: SampleWindow_def sample_loop_hangs Let_def)

theorem sample_window_at_range_end_witness:
  "SampleWindow 1000 (Some (demo_signal 0)) 7 (2 ^ 63 - 11) 10 5 = None \<and>
   SampleWindow 1000 (Some (demo_signal 0)) 7 (2 ^ 63 - 5) 10 5 = Some (Inr [])"
  using sample_window_at_range_end [of 5 10 1000 "2 ^ 63 - 11" "demo_signal 0" 7]
    sample_window_at_range_end [of 5 10 1000 "2 ^ 63 - 5" "demo_signal 0" 7]
  by simp

text \<open>
  C24: A sealed blob opens for whoever has the binding secret, an environment with the same
  buckets and a machine that can allocate as many samples, exactly in its zone and while the clock is in the window: elsewhere the errors are
  those of the zone and of the window, in this order.
\<close>

theorem sealed_blob_opens:
  assumes "aead_ok A" and "aead_overhead A" and "same_buckets bucket zone S S'"
    and "Seal_teb room K A R bucket (Some S) secret zone start dur cad plaintext = Some (Inr b)" and "room \<le> room'"
  shows "Open_teb room' K A bucket (Some S') secret (Some b) zone' now =
    Some (if zone' \<noteq> zone then Inl ErrWrongZone
      else if sint now < sint start \<or> sint (start + dur) < sint now then Inl ErrOutOfWindow
      else Inr plaintext)"
proof (cases "zone' = zone \<and> sint start \<le> sint now \<and> sint now \<le> sint (start + dur)")
  case True
  then show ?thesis using Open_teb_sealed [OF assms(1-4) _ _ assms(5)] by auto
next
  case False
  have "sb_ZoneID b = zone \<and> sb_WindowStartMs b = start \<and> sb_WindowDurationMs b = dur"
    using assms(4) by (rule Seal_teb_parts) simp
  with False show ?thesis by (auto simp: Open_teb_def)
qed

theorem sealed_blob_opens_witness:
  "\<exists>b. Seal_teb 1000 demo_kdf tag_aead demo_rng demo_bucket (Some (demo_signal 0)) [1] 7 100 25 10 [42] = Some (Inr b) \<and>
     Open_teb 1000 demo_kdf tag_aead demo_bucket (Some (demo_signal 4)) [1] (Some b) 7 125 = Some (Inr [42]) \<and>
     Open_teb 1000 demo_kdf tag_aead demo_bucket (Some (demo_signal 4)) [1] (Some b) 7 126 = Some (Inl ErrOutOfWindow) \<and>
     Open_teb 1000 demo_kdf tag_aead demo_bucket (Some (demo_signal 4)) [1] (Some b) 8 125 = Some (Inl ErrWrongZone)"
proof -
  have w: "SampleWindow 1000 (Some (demo_signal 0)) 7 100 25 10 =
      Some (Inr (map (\<lambda>i. demo_signal 0 7 (100 + of_nat i * 10)) [0..<nat (25 div 10) + 1]))"
    using sample_loop_window [of 10 25 100 "demo_signal 0 7"] by (simp add: SampleWindow_def sample_capacity_def)
  have "fill 16 (h :: nat \<Rightarrow> byte) \<noteq> []" for h using length_fill [of 16 h] by (metis list.size(3) zero_neq_numeral)
  then have "\<exists>b. Seal_teb 1000 demo_kdf tag_aead demo_rng demo_bucket (Some (demo_signal 0)) [1] 7 100 25 10 [42] = Some (Inr b)"
    unfolding Seal_teb_def w by (simp add: DeriveKey_def demo_rng_def Let_def)
  then obtain b where b: "Seal_teb 1000 demo_kdf tag_aead demo_rng demo_bucket (Some (demo_signal 0)) [1] 7 100 25 10 [42] = Some (Inr b)" ..
  show ?thesis
    using b sealed_blob_opens [OF tag_aead_ok demo_same_buckets b order_refl] by (intro exI [of _ b]) simp
qed

end
