(* ===== verification/License.thy ===== *)
theory License
  imports Crypto
begin

text \<open>
  The retries of \<open>internal/license/handshake.go\<close>: \<open>retryPost\<close> and \<open>RetryEnroll\<close> are one loop around a
  request. The outside world is a record: what the context says before attempt \<open>i\<close>, what the
  request returns, and whether the context ends the wait after it. Both functions return the
  number of requests made with their result. \<open>SignHeartbeat\<close> is the signature of a heartbeat.
\<close>

record ('e, 'a) retry_env =
  rt_ctx_err :: "nat \<Rightarrow> 'e option"
  rt_request :: "nat \<Rightarrow> 'e + 'a"
  rt_wait :: "nat \<Rightarrow> 'e option"

datatype 'e retry_error =
    Rt_context 'e
  | Rt_exhausted "'e option"

text \<open>\<open>n\<close> attempts are left, \<open>i\<close> are made.\<close>

fun retry_loop :: "('e, 'a) retry_env \<Rightarrow> nat \<Rightarrow> nat \<Rightarrow> 'e option \<Rightarrow> nat \<times> ('e retry_error + 'a)" where
  "retry_loop W 0 i lastErr = (i, Inl (Rt_exhausted lastErr))"
| "retry_loop W (Suc n) i lastErr =
     (case rt_ctx_err W i of
        Some e \<Rightarrow> (i, Inl (Rt_context e))
      | None \<Rightarrow>
          (case rt_request W i of
             Inr b \<Rightarrow> (i + 1, Inr b)
           | Inl e \<Rightarrow>
               if n = 0 then (i + 1, Inl (Rt_exhausted (Some e)))
               else (case rt_wait W i of
                       Some e' \<Rightarrow> (i + 1, Inl (Rt_context e'))
                     | None \<Rightarrow> retry_loop W n (i + 1) (Some e))))"

definition retryPost :: "('e, 'a) retry_env \<Rightarrow> int \<Rightarrow> nat \<times> ('e retry_error + 'a)" where
  "retryPost W maxAttempts = retry_loop W (nat maxAttempts) 0 None"

text \<open>\<open>backoffDuration\<close> in nanoseconds, with the draw of \<open>rand.Int63n\<close> as an argument.\<close>

definition backoffDuration :: "int \<Rightarrow> int \<Rightarrow> int" where
  "backoffDuration attempt draw =
     (let second = 1000000000;
          shift = (if attempt < 0 \<or> attempt > 5 then 5 else nat attempt);
          d = push_bit shift (2 * second);
          d = (if d > 60 * second then 60 * second else d);
          d = d + (draw - 500000000)
      in if d < 500000000 then 500000000 else d)"

definition SignHeartbeat :: "ed25519 \<Rightarrow> bytes \<Rightarrow> bytes \<Rightarrow> u64 \<Rightarrow> i64 \<Rightarrow> bytes" where
  "SignHeartbeat E priv hostID sequence tsUnix = ed_sign E priv (hostID @ putUint64 sequence @ putUint64 tsUnix)"

text \<open>The host id has no length prefix; the two integers at the end still delimit it.\<close>

lemma heartbeat_bytes_determine:
  assumes "hostID @ putUint64 s @ putUint64 t = hostID' @ putUint64 s' @ putUint64 t'"
  shows "hostID = hostID' \<and> s = s' \<and> t = t'"
proof -
  have "length (putUint64 s @ putUint64 t) = length (putUint64 s' @ putUint64 t')" by simp
  with assms have "hostID = hostID' \<and> putUint64 s @ putUint64 t = putUint64 s' @ putUint64 t'"
    using append_eq_append_conv [of "putUint64 s @ putUint64 t" "putUint64 s' @ putUint64 t'" hostID hostID'] by simp
  then show ?thesis by (simp add: u64_code.append_iff)
qed

lemma backoff_bounds:
  assumes "0 \<le> draw" and "draw < 1000000000"
  shows "1500000000 \<le> backoffDuration attempt draw \<and> backoffDuration attempt draw < 60500000000"
proof -
  define shift where "shift = (if attempt < 0 \<or> attempt > 5 then 5 else nat attempt)"
  have s: "shift \<le> 5" by (auto simp: shift_def)
  have "(2 :: int) ^ 0 \<le> 2 ^ shift" by (rule power_increasing) simp_all
  then have "2000000000 \<le> push_bit shift (2 * 1000000000 :: int)" by (simp add: push_bit_eq_mult)
  then show ?thesis
    using assms unfolding backoffDuration_def Let_def shift_def [symmetric] by (simp split: if_splits)
qed

text \<open>The attempts before the one at \<open>j\<close> failed and the context stayed alive.\<close>

definition passed :: "('e, 'a) retry_env \<Rightarrow> nat \<Rightarrow> bool" where
  "passed W m \<longleftrightarrow> rt_ctx_err W m = None \<and> (\<exists>e. rt_request W m = Inl e) \<and> rt_wait W m = None"

definition succeeds_at :: "('e, 'a) retry_env \<Rightarrow> 'a \<Rightarrow> nat \<Rightarrow> nat \<Rightarrow> bool" where
  "succeeds_at W b i j \<longleftrightarrow> (\<forall>m \<in> {i..<j}. passed W m) \<and> rt_ctx_err W j = None \<and> rt_request W j = Inr b"

lemma succeeds_at_step: "i < j \<Longrightarrow> succeeds_at W b i j \<longleftrightarrow> passed W i \<and> succeeds_at W b (Suc i) j"
proof -
  assume "i < j"
  then have "{i..<j} = insert i {Suc i..<j}" by auto
  then show ?thesis by (simp add: succeeds_at_def)
qed

lemma succeeds_within:
  "(\<exists>j \<in> {i..<i + Suc n}. succeeds_at W b i j) \<longleftrightarrow>
     rt_ctx_err W i = None \<and> rt_request W i = Inr b \<or> passed W i \<and> (\<exists>j \<in> {Suc i..<Suc i + n}. succeeds_at W b (Suc i) j)"
proof -
  have "{i..<i + Suc n} = insert i {Suc i..<Suc i + n}" by auto
  then have "(\<exists>j \<in> {i..<i + Suc n}. succeeds_at W b i j) \<longleftrightarrow>
      succeeds_at W b i i \<or> (\<exists>j \<in> {Suc i..<Suc i + n}. succeeds_at W b i j)" by simp
  also have "(\<exists>j \<in> {Suc i..<Suc i + n}. succeeds_at W b i j) \<longleftrightarrow>
      (\<exists>j \<in> {Suc i..<Suc i + n}. passed W i \<and> succeeds_at W b (Suc i) j)"
    by (rule bex_cong [OF refl]) (simp add: succeeds_at_step)
  finally show ?thesis by (simp add: succeeds_at_def)
qed

lemma retry_loop_count: "fst (retry_loop W n i l) \<le> i + n"
  by (induction W n i l rule: retry_loop.induct) (auto split: option.splits sum.splits)

lemma retry_loop_success:
  "(\<exists>m. retry_loop W n i l = (m, Inr b)) \<longleftrightarrow> (\<exists>j \<in> {i..<i + n}. succeeds_at W b i j)"
proof (induction n arbitrary: i l)
  case (Suc n)
  show ?case
  proof (cases "n \<noteq> 0 \<and> passed W i")
    case True
    then obtain e where e: "rt_request W i = Inl e" and "rt_ctx_err W i = None" "rt_wait W i = None"
      by (auto simp: passed_def)
    then have "retry_loop W (Suc n) i l = retry_loop W n (Suc i) (Some e)" using True by simp
    then show ?thesis unfolding succeeds_within using True e Suc.IH [of "Suc i" "Some e"] by (simp add: passed_def)
  next
    case False
    then show ?thesis
      unfolding succeeds_within
      by (cases "rt_ctx_err W i"; cases "rt_request W i"; cases "rt_wait W i") (auto simp: passed_def)
  qed
qed simp

text \<open>
  A retried request makes no more requests than it is allowed and returns the first success:
  it succeeds exactly when one of the allowed attempts does, all before it failed, and the context
  neither ended before it nor in a wait between.
\<close>

theorem retry_returns_first_success:
  "fst (retryPost W maxAttempts) \<le> nat maxAttempts \<and>
   ((\<exists>m. retryPost W maxAttempts = (m, Inr b)) =
    (\<exists>j. int j < maxAttempts \<and> succeeds_at W b 0 j))"
  using retry_loop_count [of W "nat maxAttempts" 0 None] retry_loop_success [of W "nat maxAttempts" 0 None b]
  by (auto simp: retryPost_def zless_nat_eq_int_zless Bex_def)

end
