(* ===== verification/Lbs.thy ===== *)
theory Lbs
  imports Crypto
begin

text \<open>
  \<open>internal/lbs/scheme.go\<close>: a signing key that exists only as Shamir shares at the witnesses. The
  threshold scheme of kyber is a parameter, the record \<open>tbls\<close> over its types of streams, scalars,
  sharing polynomials, commitments, shares and points; \<open>tbls_ok\<close> is what the package promises. A nil
  \<open>*PublicIdentity\<close> and a nil \<open>PriShare\<close> are \<open>None\<close>.
\<close>

record ('st, 's, 'q, 'c, 'h, 'p) tbls =
  tb_xof :: "bytes \<Rightarrow> 'st"
  tb_pick :: "'st \<Rightarrow> 's \<times> 'st"
  tb_new_poly :: "int \<Rightarrow> 's \<Rightarrow> 'st \<Rightarrow> 'q"
  tb_commit :: "'q \<Rightarrow> 'c"
  tb_shares :: "'q \<Rightarrow> int \<Rightarrow> 'h list"
  tb_public :: "'c \<Rightarrow> 'p" \<comment> \<open>\<open>PubPoly.Commit()\<close>\<close>
  tb_sign :: "'h \<Rightarrow> bytes \<Rightarrow> bytes option"
  tb_verify_partial :: "'c \<Rightarrow> bytes \<Rightarrow> bytes \<Rightarrow> bool"
  tb_recover :: "'c \<Rightarrow> bytes \<Rightarrow> bytes list \<Rightarrow> int \<Rightarrow> int \<Rightarrow> bytes option"
  tb_bls_verify :: "'p \<Rightarrow> bytes \<Rightarrow> bytes \<Rightarrow> bool"
  tb_marshal :: "'p \<Rightarrow> bytes option"

datatype lbs_error =
    Lb_threshold int int
  | Lb_total int
  | Lb_nil_share
  | Lb_nil_identity
  | Lb_few_partials int nat
  | Lb_scheme

record 'c public_identity =
  pi_Threshold :: int
  pi_Total :: int
  pi_PubPoly :: 'c

definition Pubkey :: "('st, 's, 'q, 'c, 'h, 'p) tbls \<Rightarrow> 'c public_identity \<Rightarrow> 'p" where
  "Pubkey T p = tb_public T (pi_PubPoly p)"

text \<open>\<open>random\<close> is what \<open>suite.RandomStream()\<close> returns.\<close>

definition Enroll_lbs :: "('st, 's, 'q, 'c, 'h, 'p) tbls \<Rightarrow> 'st \<Rightarrow> int \<Rightarrow> int \<Rightarrow> bytes \<Rightarrow>
    lbs_error + 'c public_identity \<times> 'h option list" where
  "Enroll_lbs T random threshold tot secretSeed =
     guard (threshold < 1 \<or> threshold > tot) (Lb_threshold threshold tot)
       (guard (tot > 256) (Lb_total tot)
         (let stream = (if 0 < length secretSeed then tb_xof T secretSeed else random);
              (secret, stream) = tb_pick T stream;
              poly = tb_new_poly T threshold secret stream;
              pubPoly = tb_commit T poly;
              wrapped = map Some (tb_shares T poly tot)
          in Inr (\<lparr>pi_Threshold = threshold, pi_Total = tot, pi_PubPoly = pubPoly\<rparr>, wrapped)))"

definition PartialSign :: "('st, 's, 'q, 'c, 'h, 'p) tbls \<Rightarrow> 'h option \<Rightarrow> bytes \<Rightarrow> lbs_error + bytes" where
  "PartialSign T s msg = (case s of
       None \<Rightarrow> Inl Lb_nil_share
     | Some h \<Rightarrow> (case tb_sign T h msg of None \<Rightarrow> Inl Lb_scheme | Some sig \<Rightarrow> Inr sig))"

definition VerifyPartial :: "('st, 's, 'q, 'c, 'h, 'p) tbls \<Rightarrow> 'c public_identity option \<Rightarrow> bytes \<Rightarrow> bytes \<Rightarrow> lbs_error + unit" where
  "VerifyPartial T ident msg partial = (case ident of
       None \<Rightarrow> Inl Lb_nil_identity
     | Some i \<Rightarrow> guard (\<not> tb_verify_partial T (pi_PubPoly i) msg partial) Lb_scheme (Inr ()))"

definition Recover_lbs :: "('st, 's, 'q, 'c, 'h, 'p) tbls \<Rightarrow> 'c public_identity option \<Rightarrow> bytes \<Rightarrow> bytes list \<Rightarrow> lbs_error + bytes" where
  "Recover_lbs T ident msg partials = (case ident of
       None \<Rightarrow> Inl Lb_nil_identity
     | Some i \<Rightarrow> guard (int (length partials) < pi_Threshold i) (Lb_few_partials (pi_Threshold i) (length partials))
         (case tb_recover T (pi_PubPoly i) msg partials (pi_Threshold i) (pi_Total i) of
            None \<Rightarrow> Inl Lb_scheme | Some sig \<Rightarrow> Inr sig))"

definition Verify_lbs :: "('st, 's, 'q, 'c, 'h, 'p) tbls \<Rightarrow> 'c public_identity option \<Rightarrow> bytes \<Rightarrow> bytes \<Rightarrow> lbs_error + unit" where
  "Verify_lbs T ident msg sig = (case ident of
       None \<Rightarrow> Inl Lb_nil_identity
     | Some i \<Rightarrow> guard (\<not> tb_bls_verify T (Pubkey T i) msg sig) Lb_scheme (Inr ()))"

definition PubkeyBytes :: "('st, 's, 'q, 'c, 'h, 'p) tbls \<Rightarrow> 'c public_identity \<Rightarrow> lbs_error + bytes" where
  "PubkeyBytes T p = (case tb_marshal T (Pubkey T p) of None \<Rightarrow> Inl Lb_scheme | Some b \<Rightarrow> Inr b)"

text \<open>
  What the threshold scheme documents: a polynomial gives as many shares as asked for, all different, every
  share signs and its partial signature verifies; partial signatures of at least \<open>t\<close> different
  shares recover a signature that verifies under the committed secret, whatever their order.
\<close>

definition tbls_ok :: "('st, 's, 'q, 'c, 'h, 'p) tbls \<Rightarrow> bool" where
  "tbls_ok T \<longleftrightarrow> (\<forall>t n s st msg. 1 \<le> t \<longrightarrow> t \<le> n \<longrightarrow>
     (let q = tb_new_poly T t s st; hs = tb_shares T q n in
        length hs = nat n \<and> distinct hs \<and>
        (\<forall>h \<in> set hs. \<exists>p. tb_sign T h msg = Some p \<and> tb_verify_partial T (tb_commit T q) msg p) \<and>
        (\<forall>gs. distinct gs \<longrightarrow> set gs \<subseteq> set hs \<longrightarrow> t \<le> int (length gs) \<longrightarrow>
           (\<exists>sig. tb_recover T (tb_commit T q) msg (map (\<lambda>h. the (tb_sign T h msg)) gs) t n = Some sig \<and>
              tb_bls_verify T (tb_public T (tb_commit T q)) msg sig))))"

lemma enroll_result:
  assumes "Enroll_lbs T random k n seed = Inr (i, shares)"
  obtains s st where "1 \<le> k" "k \<le> n" "n \<le> 256"
    "i = \<lparr>pi_Threshold = k, pi_Total = n, pi_PubPoly = tb_commit T (tb_new_poly T k s st)\<rparr>"
    "shares = map Some (tb_shares T (tb_new_poly T k s st) n)"
  using assms by (auto simp: Enroll_lbs_def Let_def split: prod.splits)

lemma enroll_shares_length:
  assumes "tbls_ok T" and e: "Enroll_lbs T random k n seed = Inr (i, shares)"
  shows "length shares = nat n"
proof -
  obtain s st where "1 \<le> k" "k \<le> n" and sh: "shares = map Some (tb_shares T (tb_new_poly T k s st) n)"
    by (rule enroll_result [OF e])
  then have "length (tb_shares T (tb_new_poly T k s st) n) = nat n"
    using assms(1) unfolding tbls_ok_def Let_def by blast
  then show ?thesis by (simp add: sh)
qed

theorem enroll_success_iff:
  "(\<exists>r. Enroll_lbs T random k n seed = Inr r) \<longleftrightarrow> 1 \<le> k \<and> k \<le> n \<and> n \<le> 256"
  by (auto simp: Enroll_lbs_def Let_def split: prod.splits)

text \<open>
  Any \<open>k\<close> witnesses of an enrolment sign together: each produces a partial signature the
  coordinator accepts, and \<open>Recover\<close> makes one signature of them that verifies.
\<close>

theorem enrolled_quorum_signs:
  assumes ok: "tbls_ok T" and e: "Enroll_lbs T random k n seed = Inr (i, shares)"
    and w: "distinct ws" "set ws \<subseteq> {..<length shares}" "k \<le> int (length ws)"
  shows "length shares = nat n \<and> (\<exists>ps sig. map (\<lambda>j. PartialSign T (shares ! j) msg) ws = map Inr ps \<and>
    list_all (\<lambda>p. VerifyPartial T (Some i) msg p = Inr ()) ps \<and>
    Recover_lbs T (Some i) msg ps = Inr sig \<and> Verify_lbs T (Some i) msg sig = Inr ())"
proof -
  obtain s st where k: "1 \<le> k" "k \<le> n"
    and i: "i = \<lparr>pi_Threshold = k, pi_Total = n, pi_PubPoly = tb_commit T (tb_new_poly T k s st)\<rparr>"
    and sh: "shares = map Some (tb_shares T (tb_new_poly T k s st) n)"
    by (rule enroll_result [OF e])
  define q where "q = tb_new_poly T k s st"
  define hs where "hs = tb_shares T q n"
  define gs where "gs = map ((!) hs) ws"
  define ps where "ps = map (\<lambda>h. the (tb_sign T h msg)) gs"
  note laws = ok [unfolded tbls_ok_def Let_def, rule_format, OF k, of s st, folded q_def, folded hs_def]
  have sh': "shares = map Some hs" by (simp add: sh hs_def q_def)
  have sub: "set gs \<subseteq> set hs" using w(2) by (auto simp: gs_def sh')
  have hs: "length hs = nat n" "distinct hs" using laws [of msg] by blast+
  have d: "distinct gs" unfolding gs_def distinct_map
    using w(1,2) hs(2) by (intro conjI inj_on_nth) (auto simp: sh')
  have one: "\<exists>p. tb_sign T h msg = Some p \<and> tb_verify_partial T (tb_commit T q) msg p" if "h \<in> set hs" for h
    using laws that by blast
  obtain sig where sig: "tb_recover T (tb_commit T q) msg ps k n = Some sig"
      "tb_bls_verify T (tb_public T (tb_commit T q)) msg sig"
    using laws d sub w(3) unfolding ps_def by (metis gs_def length_map)
  have each: "PartialSign T (shares ! j) msg = Inr (the (tb_sign T (hs ! j) msg)) \<and>
      VerifyPartial T (Some i) msg (the (tb_sign T (hs ! j) msg)) = Inr ()" if "j \<in> set ws" for j
  proof -
    have j: "j < length hs" using that w(2) by (auto simp: sh')
    then obtain p where "tb_sign T (hs ! j) msg = Some p" "tb_verify_partial T (tb_commit T q) msg p"
      using one [of "hs ! j"] by auto
    with j show ?thesis by (simp add: PartialSign_def VerifyPartial_def sh' i q_def)
  qed
  have "map (\<lambda>j. PartialSign T (shares ! j) msg) ws = map Inr ps"
    using each by (simp add: ps_def gs_def)
  moreover have "list_all (\<lambda>p. VerifyPartial T (Some i) msg p = Inr ()) ps"
    using each by (auto simp: ps_def gs_def list_all_iff)
  moreover have "Recover_lbs T (Some i) msg ps = Inr sig"
    using sig w(3) by (simp add: Recover_lbs_def i q_def ps_def gs_def)
  moreover have "Verify_lbs T (Some i) msg sig = Inr ()"
    using sig by (simp add: Verify_lbs_def Pubkey_def i q_def)
  ultimately show ?thesis using hs(1) sh' by auto
qed

text \<open>
  An enrolment from a seed can be repeated: the stream of the sharing polynomial, too, comes from the
  seed, so whoever holds it (an agent derives it from its own hardware) computes the same
  shares at any time.
\<close>

theorem seeded_enrolment_repeats:
  "0 < length seed \<Longrightarrow> Enroll_lbs T random k n seed = Enroll_lbs T random' k n seed"
  by (simp add: Enroll_lbs_def)

text \<open>
  So an agent that keeps, or can derive again, its seed signs alone: it repeats the enrolment and uses
  \<open>k\<close> of the recomputed shares under the identity it has published.
\<close>

theorem seed_holder_signs:
  assumes "tbls_ok T" and "0 < length seed" and e: "Enroll_lbs T random k n seed = Inr (i, shares)"
  shows "\<exists>shares' ps sig. Enroll_lbs T random' k n seed = Inr (i, shares') \<and>
    map (\<lambda>j. PartialSign T (shares' ! j) msg) [0..<nat k] = map Inr ps \<and>
    Recover_lbs T (Some i) msg ps = Inr sig \<and> Verify_lbs T (Some i) msg sig = Inr ()"
proof -
  have e': "Enroll_lbs T random' k n seed = Inr (i, shares)"
    using e seeded_enrolment_repeats [OF assms(2), of T random' k n random] by simp
  have k: "1 \<le> k" "k \<le> n" by (rule enroll_result [OF e], simp)+
  have "length shares = nat n" by (rule enroll_shares_length [OF assms(1) e])
  then have "set [0..<nat k] \<subseteq> {..<length shares}" using k by auto
  from enrolled_quorum_signs [OF assms(1) e distinct_upt this, of msg] e' k show ?thesis by auto
qed

text \<open>Fewer partial signatures than the threshold are refused before the scheme sees them.\<close>

lemma recover_below_threshold:
  "int (length ps) < pi_Threshold i \<Longrightarrow> Recover_lbs T (Some i) msg ps = Inl (Lb_few_partials (pi_Threshold i) (length ps))"
  by (simp add: Recover_lbs_def)

subsection \<open>An instance\<close>

text \<open>Shares are numbers, and a partial signature is the message after the number of its share in unary.\<close>

definition demo_tbls :: "(bytes, bytes, bytes, bytes, nat, bytes) tbls" where
  "demo_tbls = \<lparr>tb_xof = (\<lambda>seed. seed), tb_pick = (\<lambda>st. (pad32 st, st)), tb_new_poly = (\<lambda>t s st. s),
     tb_commit = (\<lambda>q. q), tb_shares = (\<lambda>q n. [0..<nat n]), tb_public = (\<lambda>c. c),
     tb_sign = (\<lambda>h msg. Some (replicate h 0 @ 1 # msg)),
     tb_verify_partial = (\<lambda>c msg p. dropWhile (\<lambda>b. b = 0) p = 1 # msg),
     tb_recover = (\<lambda>c msg ps t n. if t \<le> int (card (set ps)) then Some (c @ msg) else None),
     tb_bls_verify = (\<lambda>p msg sig. sig = p @ msg), tb_marshal = Some\<rparr>"

lemma unary_inject: "replicate h (0 :: byte) @ 1 # msg = replicate h' 0 @ 1 # msg \<Longrightarrow> h = h'"
  using arg_cong [of _ _ "length"] by fastforce

lemma demo_tbls_ok: "tbls_ok demo_tbls"
proof -
  have "card (set (map (\<lambda>h. replicate h (0 :: byte) @ 1 # msg) gs)) = length gs" if "distinct gs" for gs and msg :: bytes
    using that by (simp add: distinct_card [symmetric] card_image inj_on_def unary_inject)
  moreover have "dropWhile (\<lambda>b. b = 0) (replicate h 0 @ 1 # msg) = 1 # msg" for h and msg :: bytes
    by (induction h) simp_all
  ultimately show ?thesis by (simp add: tbls_ok_def demo_tbls_def Let_def del: set_map)
qed

theorem enrolled_quorum_signs_demo:
  "\<exists>i shares ps sig. Enroll_lbs demo_tbls [] 2 3 [7] = Inr (i, shares) \<and>
     map (\<lambda>j. PartialSign demo_tbls (shares ! j) [9]) [2, 0] = map Inr ps \<and>
     Recover_lbs demo_tbls (Some i) [9] ps = Inr sig \<and> Verify_lbs demo_tbls (Some i) [9] sig = Inr ()"
proof -
  obtain i shares where e: "Enroll_lbs demo_tbls [] 2 3 [7] = Inr (i, shares)"
    using enroll_success_iff [of demo_tbls "[]" 2 3 "[7]"] by auto
  have len: "length shares = nat 3" by (rule enroll_shares_length [OF demo_tbls_ok e])
  have "length shares = nat 3 \<and> (\<exists>ps sig. map (\<lambda>j. PartialSign demo_tbls (shares ! j) [9]) [2, 0] = map Inr ps \<and>
      list_all (\<lambda>p. VerifyPartial demo_tbls (Some i) [9] p = Inr ()) ps \<and>
      Recover_lbs demo_tbls (Some i) [9] ps = Inr sig \<and> Verify_lbs demo_tbls (Some i) [9] sig = Inr ())"
    by (rule enrolled_quorum_signs [OF demo_tbls_ok e]) (simp_all add: len)
  with e show ?thesis by blast
qed

end
