(* ===== verification/Session.thy ===== *)
theory Session
  imports Crypto Hex
begin

text \<open>
  \<open>internal/payload/session.go\<close>: the session key of an enrolled agent and the decryption of the
  probe configuration. HKDF and ChaCha20-Poly1305 are parameters (\<open>kdf\<close>, \<open>aead\<close>); 32 bytes are
  within what HKDF gives and the cipher accepts every key of its size, so neither fails here.
\<close>

definition SessionKeySalt :: bytes where
  "SessionKeySalt = str ''963causal/session/v1''"

definition SessionKeyLen :: nat where
  "SessionKeyLen = 32"

datatype session_error =
    Se_key_length nat
  | Se_nonce_length nat
  | Se_rejected

definition session_info :: "bytes \<Rightarrow> bytes \<Rightarrow> bytes" where
  "session_info hostID licenseKey = (hostID @ [0x1f]) @ licenseKey"

definition DeriveSessionKey :: "kdf \<Rightarrow> bytes \<Rightarrow> bytes \<Rightarrow> bytes \<Rightarrow> bytes" where
  "DeriveSessionKey D shared hostID licenseKey =
     D shared SessionKeySalt (session_info hostID licenseKey) SessionKeyLen"

definition Decrypt :: "aead \<Rightarrow> bytes \<Rightarrow> bytes \<Rightarrow> bytes \<Rightarrow> session_error + bytes" where
  "Decrypt A sessionKey nonce ciphertext =
     guard (length sessionKey \<noteq> 32) (Se_key_length (length sessionKey))
       (guard (length nonce \<noteq> 12) (Se_nonce_length (length nonce))
         (case aead_open A sessionKey nonce ciphertext [] of None \<Rightarrow> Inl Se_rejected | Some pt \<Rightarrow> Inr pt))"

definition SessionKeyHash :: "hash \<Rightarrow> bytes \<Rightarrow> bytes" where
  "SessionKeyHash H key = hex_encode (H key)"

definition Zero :: "bytes \<Rightarrow> bytes" where
  "Zero b = map (\<lambda>_. 0) b"

text \<open>HKDF fills the buffer it is read into.\<close>

definition kdf_fills :: "kdf \<Rightarrow> bool" where
  "kdf_fills D \<longleftrightarrow> (\<forall>secret salt info n. n \<le> 255 * 32 \<longrightarrow> length (D secret salt info n) = n)"

lemma length_session_key: "kdf_fills D \<Longrightarrow> length (DeriveSessionKey D shared hostID licenseKey) = 32"
  by (simp add: kdf_fills_def DeriveSessionKey_def SessionKeyLen_def)

text \<open>
  The separator delimits the two parts of the context as long as no host id contains it: the license
  key may.
\<close>

lemma separator_splits: "c \<notin> set h \<Longrightarrow> c \<notin> set h' \<Longrightarrow> h @ c # l = h' @ c # l' \<Longrightarrow> h = h' \<and> l = l'"
  by (induction h arbitrary: h') (auto simp: Cons_eq_append_conv append_eq_Cons_conv)

lemma session_info_determines:
  "0x1f \<notin> set h \<Longrightarrow> 0x1f \<notin> set h' \<Longrightarrow> session_info h l = session_info h' l' \<Longrightarrow> h = h' \<and> l = l'"
  unfolding session_info_def append_assoc append_Cons append_Nil by (rule separator_splits)

text \<open>
  A configuration sealed under the key the server derives opens for the agent, which derives the
  same key from the shared secret; a sealed configuration bound to nothing but the key opens for
  every host with the same context bytes.
\<close>

theorem session_payload_opens:
  assumes "aead_ok A" and "kdf_fills D" and "length nonce = 12"
    and "session_info hostID licenseKey = session_info hostID' licenseKey'"
  shows "Decrypt A (DeriveSessionKey D shared hostID' licenseKey') nonce
    (aead_seal A (DeriveSessionKey D shared hostID licenseKey) nonce config []) = Inr config"
  using assms length_session_key [OF assms(2)] by (simp add: Decrypt_def DeriveSessionKey_def aead_ok_def)

text \<open>Two different pairs of host id and license key with one session key: the separator moves.\<close>

theorem session_contexts_collide:
  "DeriveSessionKey D shared (h @ [0x1f] @ a) b = DeriveSessionKey D shared h (a @ [0x1f] @ b)"
  by (simp add: DeriveSessionKey_def session_info_def)

text \<open>Decryption succeeds exactly for well-sized arguments under which the cipher opens.\<close>

theorem decrypt_success_iff:
  "Decrypt A key nonce c = Inr p \<longleftrightarrow> length key = 32 \<and> length nonce = 12 \<and> aead_open A key nonce c [] = Some p"
  by (auto simp: Decrypt_def split: option.splits)

lemma zero_wipes: "length (Zero b) = length b \<and> set (Zero b) \<subseteq> {0}"
  by (auto simp: Zero_def)

end
