(* ===== verification/Probe_Witness.thy ===== *)
theory Probe_Witness
  imports Drand
begin

text \<open>
  \<open>internal/probe/witness.go\<close>: the beacon a frame carries. The relays are tried in order until one
  gives a usable round. The requests are the \<open>network\<close> of \<open>Drand\<close> (a request that times out
  fails, and of the chain information only period and genesis time are read); the clock is an
  argument.
\<close>

record probe_config =
  wc_ChainHash :: bytes
  wc_Endpoints :: "bytes list"
  wc_Timeout :: i64

record external_witness =
  ew_ChainHash :: bytes
  ew_Round :: u64
  ew_Randomness :: bytes
  ew_Signature :: bytes
  ew_CapturedAtMs :: i64
  ew_RoundTimeUnix :: i64

datatype fetch_error = Fe_http | Fe_empty | Fe_randomness_hex | Fe_signature_hex

definition defaultWitness :: probe_config where
  "defaultWitness = \<lparr>wc_ChainHash = DefaultDrandChain, wc_Endpoints = DefaultDrandEndpoints, wc_Timeout = 3000000000\<rparr>"

text \<open>The chain information is optional: without it the round time is 0.\<close>

definition round_time :: "info_reply \<Rightarrow> u64 \<Rightarrow> i64" where
  "round_time info r = (case info of
       Info_failed \<Rightarrow> 0
     | Info_reply period genesis pk \<Rightarrow> if 0 < period then genesis + (r - 1) * of_int period else 0)"

definition fetchLatest :: "network \<Rightarrow> i64 \<Rightarrow> bytes \<Rightarrow> bytes \<Rightarrow> fetch_error + external_witness" where
  "fetchLatest N now endpoint chainHash =
     (case net_round N endpoint chainHash (str ''latest'') of
        Round_failed \<Rightarrow> Inl Fe_http
      | Round_reply r randomness signature \<Rightarrow>
          guard (r = 0 \<or> randomness = [] \<or> signature = []) Fe_empty
            (case hex_decode randomness of
               None \<Rightarrow> Inl Fe_randomness_hex
             | Some randBytes \<Rightarrow>
                 (case hex_decode signature of
                    None \<Rightarrow> Inl Fe_signature_hex
                  | Some sigBytes \<Rightarrow>
                      Inr \<lparr>ew_ChainHash = chainHash, ew_Round = r, ew_Randomness = randBytes, ew_Signature = sigBytes,
                        ew_CapturedAtMs = now, ew_RoundTimeUnix = round_time (net_info N endpoint chainHash) r\<rparr>)))"

fun relay_loop :: "network \<Rightarrow> i64 \<Rightarrow> bytes \<Rightarrow> bytes list \<Rightarrow> external_witness option" where
  "relay_loop N now chain [] = None"
| "relay_loop N now chain (ep # eps) =
     (case fetchLatest N now ep chain of Inl e \<Rightarrow> relay_loop N now chain eps | Inr w \<Rightarrow> Some w)"

definition merge_config :: "probe_config list \<Rightarrow> probe_config" where
  "merge_config cfgOpt = (case cfgOpt of
       [] \<Rightarrow> defaultWitness
     | c # rest \<Rightarrow>
         \<lparr>wc_ChainHash = (if wc_ChainHash c \<noteq> [] then wc_ChainHash c else wc_ChainHash defaultWitness),
          wc_Endpoints = (if wc_Endpoints c \<noteq> [] then wc_Endpoints c else wc_Endpoints defaultWitness),
          wc_Timeout = (if i64_less 0 (wc_Timeout c) then wc_Timeout c else wc_Timeout defaultWitness)\<rparr>)"

definition SampleExternalWitness :: "network \<Rightarrow> i64 \<Rightarrow> probe_config list \<Rightarrow> external_witness option" where
  "SampleExternalWitness N now cfgOpt =
     (let cfg = merge_config cfgOpt in relay_loop N now (wc_ChainHash cfg) (wc_Endpoints cfg))"

text \<open>The first relay with a usable answer decides; those after it are not asked.\<close>

lemma relay_loop_first:
  "relay_loop N now chain eps = Some w \<longleftrightarrow>
     (\<exists>bad ep rest. eps = bad @ ep # rest \<and> list_all (\<lambda>b. \<exists>e. fetchLatest N now b chain = Inl e) bad \<and>
        fetchLatest N now ep chain = Inr w)" (is "?l eps \<longleftrightarrow> (\<exists>bad ep rest. ?r eps bad ep rest)")
proof (induction eps)
  case (Cons e eps)
  show ?case
  proof (cases "fetchLatest N now e chain")
    case (Inl x)
    have "(\<exists>bad ep rest. ?r (e # eps) bad ep rest) \<longleftrightarrow> (\<exists>bad ep rest. ?r eps bad ep rest)"
    proof
      assume "\<exists>bad ep rest. ?r (e # eps) bad ep rest"
      then obtain bad ep rest where "?r (e # eps) bad ep rest" by blast
      with Inl show "\<exists>bad ep rest. ?r eps bad ep rest" by (cases bad) auto
    next
      assume "\<exists>bad ep rest. ?r eps bad ep rest"
      then obtain bad ep rest where "?r eps bad ep rest" by blast
      with Inl have "?r (e # eps) (e # bad) ep rest" by simp
      then show "\<exists>bad ep rest. ?r (e # eps) bad ep rest" by blast
    qed
    with Inl Cons.IH show ?thesis by simp
  next
    case (Inr v)
    have "?r (e # eps) bad ep rest \<longleftrightarrow> bad = [] \<and> ep = e \<and> rest = eps \<and> v = w" for bad ep rest
      using Inr by (cases bad) auto
    with Inr show ?thesis by simp
  qed
qed simp

lemma relay_loop_none:
  "relay_loop N now chain eps = None \<longleftrightarrow> list_all (\<lambda>ep. \<exists>e. fetchLatest N now ep chain = Inl e) eps"
  by (induction eps) (auto split: sum.splits)

text \<open>
  The probe never gives an error: it reports no witness exactly when every relay fails, and a witness
  is the answer of the first relay that does not.
\<close>

theorem witness_from_first_relay:
  "(SampleExternalWitness N now cfg = None \<longleftrightarrow>
      list_all (\<lambda>ep. \<exists>e. fetchLatest N now ep (wc_ChainHash (merge_config cfg)) = Inl e) (wc_Endpoints (merge_config cfg))) \<and>
   (SampleExternalWitness N now cfg = Some w \<longleftrightarrow>
      (\<exists>bad ep rest. wc_Endpoints (merge_config cfg) = bad @ ep # rest \<and>
         list_all (\<lambda>b. \<exists>e. fetchLatest N now b (wc_ChainHash (merge_config cfg)) = Inl e) bad \<and>
         fetchLatest N now ep (wc_ChainHash (merge_config cfg)) = Inr w))"
  unfolding SampleExternalWitness_def Let_def by (intro conjI relay_loop_none relay_loop_first)

text \<open>
  The time the probe gives a round and the round the beacon client expects at a time agree, within
  the range of the clock: at the time stamped on round \<open>r\<close>, and for the rest of its period, round
  \<open>r\<close> is the one expected.
\<close>

theorem round_time_expected:
  assumes "0 < period" and "1 \<le> r" and "0 \<le> d" and "d < period"
    and "int r * period < 2 ^ 63" and "0 \<le> sint genesis" and "sint genesis + int r * period < 2 ^ 63"
    and "ci_Period i = period" and "ci_GenesisTime i = genesis"
  shows "ExpectedRound (Some i) (round_time (Info_reply period genesis pk) (of_nat r) + of_int d) = of_nat r"
proof -
  let ?k = "(int r - 1) * period + d"
  have "?k < int r * period" using assms(4) by (simp add: algebra_simps)
  moreover have k0: "0 \<le> ?k" using assms(1-3) by simp
  ultimately have s: "sint (of_int ?k :: i64) = ?k" using assms(5) by (intro sint_64_of_int) simp_all
  have "round_time (Info_reply period genesis pk) (of_nat r) + of_int d - genesis = (of_nat r - 1) * of_int period + of_int d"
    using assms(1) by (simp add: round_time_def)
  also have "\<dots> = (of_int ?k :: i64)" by simp
  finally have dt: "round_time (Info_reply period genesis pk) (of_nat r) + of_int d - genesis = (of_int ?k :: i64)" .
  have "?k div period = int r - 1" using assms(1,3,4) by simp
  moreover have "(of_int (int r - 1) :: u64) + 1 = of_nat r" by simp
  ultimately show ?thesis
    using assms(1,8,9) k0 by (simp only: ExpectedRound_def dt s option.case Let_def) (simp add: not_less)
qed

text \<open>A relay that serves rounds but no chain information leaves the round without a time.\<close>

theorem round_time_missing:
  assumes "fetchLatest N now ep chain = Inr w" and "net_info N ep chain = Info_failed"
  shows "ew_RoundTimeUnix w = 0"
  using assms by (auto simp: fetchLatest_def round_time_def split: round_reply.splits option.splits)

end
