(* ===== verification/C_Layout.thy ===== *)
theory C_Layout
  imports Main
begin

text \<open>
  The types of the C files under src/internal/sentinel/bpf and their layout in memory as the
  compiler of the kernel program (clang, target bpf: LP64, little-endian) lays them out. A C
  type is a value of \<open>ctype\<close>; \<open>info\<close> computes its size and alignment in bytes, and
  \<open>spans\<close> the first and the last bit (exclusive) of every member. The lemmas at the end
  hold for every type: alignments are powers of two, a size is a multiple of its alignment,
  the members of a struct follow each other without overlap inside it, and each one starts at a
  multiple of its own alignment.
\<close>

section \<open>Types\<close>

datatype scalar = Tbool | Tchar | Tschar | Tuchar | Tshort | Tushort | Tint | Tuint
  | Tlong | Tulong | Tllong | Tullong | Tint128 | Tuint128

text \<open>
  A member is a named member, an anonymous struct or union, a named bit-field or an unnamed
  bit-field (the padding the header writes out). A pointer carries the spelling of what it
  points to, a pointer to a function its result and its parameters: they have no effect on the
  layout. A flexible array is an array of length 0. The qualifiers const and volatile of a
  member are dropped.
\<close>

datatype attr = Packed | Aligned nat

datatype ctype =
    Scalar scalar
  | Ptr string
  | FunPtr string "string list"
  | Enum "(string \<times> int) list"
  | Array ctype nat
  | Struct "attr list" "member list"
  | Union "attr list" "member list"
and member =
    Mem string ctype
  | Anon ctype
  | Bits string ctype nat
  | Pad ctype nat

section \<open>Layout\<close>

fun scalar_bytes :: "scalar \<Rightarrow> nat" where
  "scalar_bytes Tbool = 1"
| "scalar_bytes Tchar = 1"
| "scalar_bytes Tschar = 1"
| "scalar_bytes Tuchar = 1"
| "scalar_bytes Tshort = 2"
| "scalar_bytes Tushort = 2"
| "scalar_bytes Tint = 4"
| "scalar_bytes Tuint = 4"
| "scalar_bytes Tlong = 8"
| "scalar_bytes Tulong = 8"
| "scalar_bytes Tllong = 8"
| "scalar_bytes Tullong = 8"
| "scalar_bytes Tint128 = 16"
| "scalar_bytes Tuint128 = 16"

text \<open>An enum whose values fit neither int nor unsigned int takes eight bytes.\<close>

definition enum_bytes :: "int list \<Rightarrow> nat" where
  "enum_bytes vs = (if list_all (\<lambda>v. 0 \<le> v \<and> v < 2 ^ 32) vs \<or> list_all (\<lambda>v. - (2 ^ 31) \<le> v \<and> v < 2 ^ 31) vs
     then 4 else 8)"

definition align_up :: "nat \<Rightarrow> nat \<Rightarrow> nat" where
  "align_up n a = (n + a - 1) div a * a"

text \<open>
  What placing a member needs of it: its size and alignment in bytes, or for a bit-field
  whether it is named, the size and alignment of its declared type, and its width.
\<close>

datatype shape = Whole nat nat | Bitf bool nat nat nat

text \<open>
  The first and the last bit of a member, when the members before it end at bit \<open>pos\<close>. A
  bit-field does not cross a unit of its declared type; one of width 0 closes the unit.
\<close>

fun span :: "bool \<Rightarrow> nat \<Rightarrow> shape \<Rightarrow> nat \<times> nat" where
  "span packed pos (Whole s a) =
     (let b = (if packed then align_up pos 8 else align_up pos (8 * a)) in (b, b + 8 * s))"
| "span packed pos (Bitf named s a w) =
     (let b = (if w = 0 \<or> (\<not> packed \<and> 8 * s < pos mod (8 * a) + w) then align_up pos (8 * a) else pos)
      in (b, b + w))"

text \<open>An unnamed bit-field does not raise the alignment of the struct.\<close>

fun member_align :: "bool \<Rightarrow> shape \<Rightarrow> nat" where
  "member_align packed (Whole s a) = (if packed then 1 else a)"
| "member_align packed (Bitf named s a w) = (if packed \<or> \<not> named then 1 else a)"

definition is_packed :: "attr list \<Rightarrow> bool" where
  "is_packed as = (Packed \<in> set as)"

fun attr_align :: "attr list \<Rightarrow> nat" where
  "attr_align [] = 1"
| "attr_align (Packed # as) = attr_align as"
| "attr_align (Aligned n # as) = max n (attr_align as)"

text \<open>Size and alignment from the last bit used and the alignment collected.\<close>

definition finish :: "nat \<times> nat \<Rightarrow> nat \<times> nat" where
  "finish st = (align_up ((fst st + 7) div 8) (snd st), snd st)"

fun info :: "ctype \<Rightarrow> nat \<times> nat"
  and struct_lay :: "bool \<Rightarrow> nat \<times> nat \<Rightarrow> member list \<Rightarrow> nat \<times> nat"
  and union_lay :: "bool \<Rightarrow> nat \<times> nat \<Rightarrow> member list \<Rightarrow> nat \<times> nat"
  and shape_of :: "member \<Rightarrow> shape"
where
  "info (Scalar s) = (scalar_bytes s, scalar_bytes s)"
| "info (Ptr p) = (8, 8)"
| "info (FunPtr r ps) = (8, 8)"
| "info (Enum vs) = (enum_bytes (map snd vs), enum_bytes (map snd vs))"
| "info (Array t n) = (n * fst (info t), snd (info t))"
| "info (Struct as ms) = finish (struct_lay (is_packed as) (0, attr_align as) ms)"
| "info (Union as ms) = finish (union_lay (is_packed as) (0, attr_align as) ms)"
| "struct_lay pk st [] = st"
| "struct_lay pk st (m # ms) =
     struct_lay pk (snd (span pk (fst st) (shape_of m)), max (member_align pk (shape_of m)) (snd st)) ms"
| "union_lay pk st [] = st"
| "union_lay pk st (m # ms) =
     union_lay pk (max (snd (span pk 0 (shape_of m))) (fst st), max (member_align pk (shape_of m)) (snd st)) ms"
| "shape_of (Mem x t) = Whole (fst (info t)) (snd (info t))"
| "shape_of (Anon t) = Whole (fst (info t)) (snd (info t))"
| "shape_of (Bits x t w) = Bitf True (fst (info t)) (snd (info t)) w"
| "shape_of (Pad t w) = Bitf False (fst (info t)) (snd (info t)) w"

definition csize :: "ctype \<Rightarrow> nat" where
  "csize t = fst (info t)"

definition calign :: "ctype \<Rightarrow> nat" where
  "calign t = snd (info t)"

text \<open>The spans of the members of a struct, and the byte at which a named member starts.\<close>

fun spans :: "bool \<Rightarrow> nat \<Rightarrow> member list \<Rightarrow> (nat \<times> nat) list" where
  "spans pk pos [] = []"
| "spans pk pos (m # ms) = (let b = span pk pos (shape_of m) in b # spans pk (snd b) ms)"

fun members :: "ctype \<Rightarrow> member list" where
  "members (Struct as ms) = ms"
| "members (Union as ms) = ms"
| "members t = []"

fun member_name :: "member \<Rightarrow> string option" where
  "member_name (Mem x t) = Some x"
| "member_name (Bits x t w) = Some x"
| "member_name m = None"

fun offset_from :: "bool \<Rightarrow> nat \<Rightarrow> member list \<Rightarrow> string \<Rightarrow> nat option" where
  "offset_from pk pos [] x = None"
| "offset_from pk pos (m # ms) x =
     (if member_name m = Some x then Some (fst (span pk pos (shape_of m)) div 8)
      else offset_from pk (snd (span pk pos (shape_of m))) ms x)"

fun offset_of :: "ctype \<Rightarrow> string \<Rightarrow> nat option" where
  "offset_of (Struct as ms) x = offset_from (is_packed as) 0 ms x"
| "offset_of (Union as ms) x = (if Some x \<in> member_name ` set ms then Some 0 else None)"
| "offset_of t x = None"

text \<open>The type of a named member.\<close>

fun type_among :: "member list \<Rightarrow> string \<Rightarrow> ctype option" where
  "type_among [] x = None"
| "type_among (Mem y t # ms) x = (if y = x then Some t else type_among ms x)"
| "type_among (m # ms) x = type_among ms x"

definition member_type :: "ctype \<Rightarrow> string \<Rightarrow> ctype option" where
  "member_type t x = type_among (members t) x"

text \<open>
  A type without implicit padding: every member starts where the one before it ended, and the last
  one ends with the struct.
\<close>

fun tight :: "bool \<Rightarrow> nat \<Rightarrow> nat \<Rightarrow> member list \<Rightarrow> bool" where
  "tight pk pos e [] = (pos = e)"
| "tight pk pos e (m # ms) =
     (fst (span pk pos (shape_of m)) = pos \<and> tight pk (snd (span pk pos (shape_of m))) e ms)"

fun hole_free :: "ctype \<Rightarrow> bool" where
  "hole_free (Struct as ms) = tight (is_packed as) 0 (8 * csize (Struct as ms)) ms"
| "hole_free t = True"

text \<open>The constants of an enumeration.\<close>

fun constants :: "ctype \<Rightarrow> (string \<times> int) list" where
  "constants (Enum vs) = vs"
| "constants t = []"

fun const_value :: "(string \<times> int) list \<Rightarrow> string \<Rightarrow> int option" where
  "const_value [] x = None"
| "const_value (c # cs) x = (if fst c = x then Some (snd c) else const_value cs x)"

fun params :: "ctype \<Rightarrow> string list" where
  "params (FunPtr r ps) = ps"
| "params t = []"

section \<open>Evaluation\<close>

text \<open>
  \<open>c_info\<close> collects the size and alignment of the types already evaluated. The
  congruence rules keep the simplifier away from the members it has not reached, so that a
  struct is laid out in one pass.
\<close>

named_theorems c_info "size and alignment of a type"

lemma struct_lay_cong: "pk = pk' \<Longrightarrow> st = st' \<Longrightarrow> struct_lay pk st ms = struct_lay pk' st' ms"
  by simp

lemma union_lay_cong: "pk = pk' \<Longrightarrow> st = st' \<Longrightarrow> union_lay pk st ms = union_lay pk' st' ms"
  by simp

lemma align_up_multiple: "0 < a \<Longrightarrow> a dvd p \<Longrightarrow> align_up p a = p"
proof -
  assume a: "0 < a" and d: "a dvd p"
  from d obtain k where p: "p = a * k" by (rule dvdE)
  have "a * k + a - 1 = a * k + (a - 1)" using a by arith
  also have "\<dots> div a = k + (a - 1) div a" using a by (simp only: div_mult_self4)
  also have "(a - 1) div a = 0" using a by (intro div_less) simp
  finally show "align_up p a = p" by (simp add: align_up_def p)
qed

lemma align_up_dvd [simp]: "a dvd align_up n a"
  by (simp add: align_up_def)

lemma finish_step: "finish (e, a) = ((let k = (e + 7) div 8 in (k + a - 1) div a * a), a)"
  by (simp add: finish_def align_up_def)

lemma struct_lay_append: "struct_lay pk st (ms @ ns) = struct_lay pk (struct_lay pk st ms) ns"
  by (induction ms arbitrary: st) simp_all

text \<open>A run of unnamed bit-fields as wide as their type: the first one opens a unit, the others fill the next ones.\<close>

lemma struct_lay_pads:
  assumes t: "info t = (s, s)" "0 < s" and a: "0 < a" and n: "0 < n"
  shows "struct_lay False (pos, a) (replicate n (Pad t (8 * s))) = (align_up pos (8 * s) + n * (8 * s), a)"
proof -
  have one: "span False p (Bitf False s s (8 * s)) = (align_up p (8 * s), align_up p (8 * s) + 8 * s)" for p
    using t by (auto simp: align_up_multiple Let_def)
  have "struct_lay False (p, a) (replicate k (Pad t (8 * s))) = (p + k * (8 * s), a)" if "8 * s dvd p" for k p
    using that
  proof (induction k arbitrary: p)
    case (Suc k)
    then have "struct_lay False (p + 8 * s, a) (replicate k (Pad t (8 * s))) = (p + 8 * s + k * (8 * s), a)" by simp
    with Suc.prems t a one [of p] align_up_multiple [of "8 * s" p] show ?case by (simp del: span.simps)
  qed simp
  moreover obtain k where "n = Suc k" using n gr0_implies_Suc by blast
  ultimately show ?thesis using t a one [of pos] by (simp del: span.simps)
qed

lemmas struct_lay_long_pads = struct_lay_pads [where s = 8 and t = "Scalar Tlong", simplified]

lemma enum_info:
  "info (Enum vs) = (case list_all (\<lambda>v. 0 \<le> snd v \<and> snd v < 2 ^ 32) vs of True \<Rightarrow> (4, 4) |
     False \<Rightarrow> (if list_all (\<lambda>v. - (2 ^ 31) \<le> snd v \<and> snd v < 2 ^ 31) vs then (4, 4) else (8, 8)))"
  by (simp add: enum_bytes_def list_all_iff comp_def split: bool.splits)

section \<open>Laws of the layout\<close>

lemma align_up_ge:
  assumes "0 < a"
  shows "n \<le> align_up n a"
proof -
  define q where "q = n + a - 1"
  have "q div a * a = q - q mod a" by (simp add: minus_mod_eq_div_mult)
  moreover have "q mod a \<le> a - 1" using mod_less_divisor [OF assms, of q] by arith
  ultimately show ?thesis unfolding align_up_def q_def [symmetric] using assms by (simp add: q_def)
qed

lemma align_up_less: "0 < a \<Longrightarrow> align_up n a < n + a"
  unfolding align_up_def by (rule order_le_less_trans [OF div_times_less_eq_dividend]) simp

lemma attr_align_pos [simp]: "0 < attr_align as"
  by (induction as rule: attr_align.induct) auto

text \<open>Alignments are positive, and powers of two when the attributes name powers of two.\<close>

lemma scalar_bytes_pow2: "\<exists>k. scalar_bytes s = 2 ^ k"
  by (cases s) (auto intro: exI [of _ 0] exI [of _ 1] exI [of _ 2] exI [of _ 3] exI [of _ 4])

lemma enum_bytes_cases: "enum_bytes vs = 4 \<or> enum_bytes vs = 8"
  by (simp add: enum_bytes_def)

fun shape_align :: "shape \<Rightarrow> nat" where
  "shape_align (Whole s a) = a"
| "shape_align (Bitf named s a w) = a"

lemma layout_align_pos:
  "0 < snd (info t)"
  "0 < snd st \<Longrightarrow> 0 < snd (struct_lay pk st ms)"
  "0 < snd st' \<Longrightarrow> 0 < snd (union_lay pk' st' ms')"
  "0 < shape_align (shape_of m)"
proof (induction t and pk st ms and pk' st' ms' and m rule: info_struct_lay_union_lay_shape_of.induct)
  case (1 s) then show ?case by (cases s) auto
next
  case (4 vs) then show ?case using enum_bytes_cases [of "map snd vs"] by auto
qed (auto simp: finish_def less_max_iff_disj)

lemma calign_pos: "0 < calign t"
  by (simp add: calign_def layout_align_pos)

lemma calign_dvd_csize: "calign t dvd csize t"
  unfolding calign_def csize_def
proof (induction t)
  case (Enum vs)
  then show ?case using enum_bytes_cases [of "map snd vs"] by auto
qed (simp_all add: finish_def)

lemma span_mono: "0 < shape_align q \<Longrightarrow> pos \<le> fst (span pk pos q) \<and> fst (span pk pos q) \<le> snd (span pk pos q)"
  by (cases q) (auto simp: Let_def intro: align_up_ge)

text \<open>The members of a struct follow each other, from the first bit to the end of the last.\<close>

lemma struct_lay_end: "fst st \<le> fst (struct_lay pk st ms)"
proof (induction ms arbitrary: st)
  case (Cons m ms)
  let ?s = "(snd (span pk (fst st) (shape_of m)), max (member_align pk (shape_of m)) (snd st))"
  have "fst st \<le> fst ?s" using span_mono [OF layout_align_pos(4) [of m], of "fst st" pk] by simp
  also have "\<dots> \<le> fst (struct_lay pk ?s ms)" by (rule Cons.IH)
  finally show ?case by simp
qed simp

lemma spans_bounds:
  "b \<in> set (spans pk (fst st) ms) \<Longrightarrow>
     fst st \<le> fst b \<and> fst b \<le> snd b \<and> snd b \<le> fst (struct_lay pk st ms)"
proof (induction ms arbitrary: st)
  case (Cons m ms)
  let ?s = "(snd (span pk (fst st) (shape_of m)), max (member_align pk (shape_of m)) (snd st))"
  note m = span_mono [OF layout_align_pos(4) [of m], of "fst st" pk]
  from Cons.prems consider "b = span pk (fst st) (shape_of m)" | "b \<in> set (spans pk (fst ?s) ms)"
    by (auto simp: Let_def)
  then show ?case
  proof cases
    case 1
    with m struct_lay_end [of ?s pk ms] show ?thesis by simp
  next
    case 2
    from Cons.IH [OF this] m show ?thesis by simp
  qed
qed simp

lemma spans_ordered: "sorted_wrt (\<lambda>a b. snd a \<le> fst b) (spans pk pos ms)"
proof (induction ms arbitrary: pos)
  case (Cons m ms)
  have "snd (span pk pos (shape_of m)) \<le> fst b" if "b \<in> set (spans pk (snd (span pk pos (shape_of m))) ms)" for b
    using spans_bounds [of b pk "(snd (span pk pos (shape_of m)), 1)" ms] that by simp
  with Cons.IH show ?case by (simp add: Let_def)
qed simp

lemma length_spans [simp]: "length (spans pk pos ms) = length ms"
  by (induction ms arbitrary: pos) (simp_all add: Let_def)

lemma finish_covers: "0 < snd st \<Longrightarrow> fst st \<le> 8 * fst (finish st)"
  using align_up_ge [of "snd st" "(fst st + 7) div 8"] by (simp add: finish_def)

lemma struct_size_covers: "fst (struct_lay (is_packed as) (0, attr_align as) ms) \<le> 8 * csize (Struct as ms)"
  using finish_covers [OF layout_align_pos(2) [of "(0, attr_align as)" "is_packed as" ms]]
  by (simp add: csize_def)

lemma struct_members_inside:
  "b \<in> set (spans (is_packed as) 0 ms) \<Longrightarrow> fst b \<le> snd b \<and> snd b \<le> 8 * csize (Struct as ms)"
  using spans_bounds [of b "is_packed as" "(0, attr_align as)" ms] struct_size_covers [of as ms] by simp

text \<open>A member that is no bit-field starts at a multiple of its alignment, in a struct that is not packed.\<close>

lemma whole_aligned: "shape_of m = Whole s a \<Longrightarrow> a dvd fst (span False pos (shape_of m)) div 8"
proof -
  assume "shape_of m = Whole s a"
  then have "8 * a dvd fst (span False pos (shape_of m))" by (simp add: Let_def)
  then obtain k where "fst (span False pos (shape_of m)) = 8 * (a * k)" by (auto simp: dvd_def mult.assoc)
  then show ?thesis by simp
qed

lemma tight_cong: "pos = pos' \<Longrightarrow> tight pk pos e ms = tight pk pos' e ms"
  by simp

lemma offset_from_cong: "pos = pos' \<Longrightarrow> offset_from pk pos ms x = offset_from pk pos' ms x"
  by simp

lemma const_value_cong: "x = x' \<Longrightarrow> const_value cs x = const_value cs x'"
  by simp

lemma type_among_cong: "x = x' \<Longrightarrow> type_among ms x = type_among ms x'"
  by simp

lemma member_type_simps [simp]:
  "member_type (Struct as ms) x = type_among ms x" "member_type (Union as ms) x = type_among ms x"
  by (simp_all add: member_type_def)

lemma hole_free_struct:
  "t = Struct as ms \<Longrightarrow> info t = (s, a) \<Longrightarrow> hole_free t = tight (is_packed as) 0 (8 * s) ms"
  by (simp add: csize_def)

lemma struct_lay_pos: "fst (struct_lay pk (pos, a) ms) = fst (struct_lay pk (pos, b) ms)"
  by (induction ms arbitrary: pos a b) simp_all

lemma offset_from_append:
  "offset_from pk pos (ms @ ns) x =
     (case offset_from pk pos ms x of Some b \<Rightarrow> Some b
      | None \<Rightarrow> offset_from pk (fst (struct_lay pk (pos, 1) ms)) ns x)"
proof (induction ms arbitrary: pos)
  case (Cons m ms)
  show ?case using Cons.IH struct_lay_pos [of pk _ "max (member_align pk (shape_of m)) 1" ms 1]
    by (simp split: option.split)
qed simp

lemma offset_from_pads: "offset_from pk pos (replicate n (Pad t w)) x = None"
  by (induction n arbitrary: pos) simp_all

text \<open>What the evaluation of a type's layout uses.\<close>

declare align_up_def [c_info] enum_info [c_info] finish_step [c_info] struct_lay_append [c_info] struct_lay_long_pads [c_info]
  is_packed_def [c_info] Let_def [c_info] numeral_2_eq_2 [symmetric, c_info]

declare type_among_cong [cong] struct_lay_cong [cong] union_lay_cong [cong] tight_cong [cong] offset_from_cong [cong] const_value_cong [cong] info.simps(4) [simp del]

end
