(* ===== verification/Vmlinux_Base.thy ===== *)
theory Vmlinux_Base
  imports Vmlinux_Enums
begin

text \<open>
  Types of src/internal/sentinel/bpf/vmlinux.h. The scalar typedefs of the header and the kernel types (lists, locks, counters, timers, work
  queues) that the BPF types contain by value.
\<close>

definition typedef___u8 :: ctype where
  "typedef___u8 = Scalar Tuchar"

lemma info_typedef___u8 [c_info]: "info typedef___u8 = (1, 1)"
  by (simp add: typedef___u8_def c_info)

definition typedef___s16 :: ctype where
  "typedef___s16 = Scalar Tshort"

lemma info_typedef___s16 [c_info]: "info typedef___s16 = (2, 2)"
  by (simp add: typedef___s16_def c_info)

definition typedef___u16 :: ctype where
  "typedef___u16 = Scalar Tushort"

lemma info_typedef___u16 [c_info]: "info typedef___u16 = (2, 2)"
  by (simp add: typedef___u16_def c_info)

definition typedef___s32 :: ctype where
  "typedef___s32 = Scalar Tint"

lemma info_typedef___s32 [c_info]: "info typedef___s32 = (4, 4)"
  by (simp add: typedef___s32_def c_info)

definition typedef___u32 :: ctype where
  "typedef___u32 = Scalar Tuint"

lemma info_typedef___u32 [c_info]: "info typedef___u32 = (4, 4)"
  by (simp add: typedef___u32_def c_info)

definition typedef___s64 :: ctype where
  "typedef___s64 = Scalar Tllong"

lemma info_typedef___s64 [c_info]: "info typedef___s64 = (8, 8)"
  by (simp add: typedef___s64_def c_info)

definition typedef___u64 :: ctype where
  "typedef___u64 = Scalar Tullong"

lemma info_typedef___u64 [c_info]: "info typedef___u64 = (8, 8)"
  by (simp add: typedef___u64_def c_info)

definition typedef_u8 :: ctype where
  "typedef_u8 = typedef___u8"

lemma info_typedef_u8 [c_info]: "info typedef_u8 = (1, 1)"
  by (simp add: typedef_u8_def c_info)

definition typedef_u16 :: ctype where
  "typedef_u16 = typedef___u16"

lemma info_typedef_u16 [c_info]: "info typedef_u16 = (2, 2)"
  by (simp add: typedef_u16_def c_info)

definition typedef_s32 :: ctype where
  "typedef_s32 = typedef___s32"

lemma info_typedef_s32 [c_info]: "info typedef_s32 = (4, 4)"
  by (simp add: typedef_s32_def c_info)

definition typedef_u32 :: ctype where
  "typedef_u32 = typedef___u32"

lemma info_typedef_u32 [c_info]: "info typedef_u32 = (4, 4)"
  by (simp add: typedef_u32_def c_info)

definition typedef_s64 :: ctype where
  "typedef_s64 = typedef___s64"

lemma info_typedef_s64 [c_info]: "info typedef_s64 = (8, 8)"
  by (simp add: typedef_s64_def c_info)

definition typedef_u64 :: ctype where
  "typedef_u64 = typedef___u64"

lemma info_typedef_u64 [c_info]: "info typedef_u64 = (8, 8)"
  by (simp add: typedef_u64_def c_info)

definition typedef___kernel_ulong_t :: ctype where
  "typedef___kernel_ulong_t = Scalar Tulong"

lemma info_typedef___kernel_ulong_t [c_info]: "info typedef___kernel_ulong_t = (8, 8)"
  by (simp add: typedef___kernel_ulong_t_def c_info)

definition typedef___kernel_uid32_t :: ctype where
  "typedef___kernel_uid32_t = Scalar Tuint"

lemma info_typedef___kernel_uid32_t [c_info]: "info typedef___kernel_uid32_t = (4, 4)"
  by (simp add: typedef___kernel_uid32_t_def c_info)

definition typedef___kernel_size_t :: ctype where
  "typedef___kernel_size_t = typedef___kernel_ulong_t"

lemma info_typedef___kernel_size_t [c_info]: "info typedef___kernel_size_t = (8, 8)"
  by (simp add: typedef___kernel_size_t_def c_info)

definition typedef___kernel_loff_t :: ctype where
  "typedef___kernel_loff_t = Scalar Tllong"

lemma info_typedef___kernel_loff_t [c_info]: "info typedef___kernel_loff_t = (8, 8)"
  by (simp add: typedef___kernel_loff_t_def c_info)

definition typedef___be16 :: ctype where
  "typedef___be16 = typedef___u16"

lemma info_typedef___be16 [c_info]: "info typedef___be16 = (2, 2)"
  by (simp add: typedef___be16_def c_info)

definition typedef___be32 :: ctype where
  "typedef___be32 = typedef___u32"

lemma info_typedef___be32 [c_info]: "info typedef___be32 = (4, 4)"
  by (simp add: typedef___be32_def c_info)

definition typedef_umode_t :: ctype where
  "typedef_umode_t = Scalar Tushort"

lemma info_typedef_umode_t [c_info]: "info typedef_umode_t = (2, 2)"
  by (simp add: typedef_umode_t_def c_info)

definition typedef_bool :: ctype where
  "typedef_bool = Scalar Tbool"

lemma info_typedef_bool [c_info]: "info typedef_bool = (1, 1)"
  by (simp add: typedef_bool_def c_info)

definition typedef_uid_t :: ctype where
  "typedef_uid_t = typedef___kernel_uid32_t"

lemma info_typedef_uid_t [c_info]: "info typedef_uid_t = (4, 4)"
  by (simp add: typedef_uid_t_def c_info)

definition typedef_loff_t :: ctype where
  "typedef_loff_t = typedef___kernel_loff_t"

lemma info_typedef_loff_t [c_info]: "info typedef_loff_t = (8, 8)"
  by (simp add: typedef_loff_t_def c_info)

definition typedef_size_t :: ctype where
  "typedef_size_t = typedef___kernel_size_t"

lemma info_typedef_size_t [c_info]: "info typedef_size_t = (8, 8)"
  by (simp add: typedef_size_t_def c_info)

definition typedef_gfp_t :: ctype where
  "typedef_gfp_t = Scalar Tuint"

lemma info_typedef_gfp_t [c_info]: "info typedef_gfp_t = (4, 4)"
  by (simp add: typedef_gfp_t_def c_info)

definition typedef_atomic_t :: ctype where
  "typedef_atomic_t = Struct [] [
    Mem ''counter'' (Scalar Tint)]"

lemma info_typedef_atomic_t [c_info]: "info typedef_atomic_t = (4, 4)"
  by (simp add: typedef_atomic_t_def c_info)

definition typedef_atomic64_t :: ctype where
  "typedef_atomic64_t = Struct [] [
    Mem ''counter'' typedef_s64]"

lemma info_typedef_atomic64_t [c_info]: "info typedef_atomic64_t = (8, 8)"
  by (simp add: typedef_atomic64_t_def c_info)

definition struct_list_head :: ctype where
  "struct_list_head = Struct [] [
    Mem ''next'' (Ptr ''struct list_head''), Mem ''prev'' (Ptr ''struct list_head'')]"

lemma info_struct_list_head [c_info]: "info struct_list_head = (16, 8)"
  by (simp add: struct_list_head_def c_info)

definition struct_hlist_head :: ctype where
  "struct_hlist_head = Struct [] [
    Mem ''first'' (Ptr ''struct hlist_node'')]"

lemma info_struct_hlist_head [c_info]: "info struct_hlist_head = (8, 8)"
  by (simp add: struct_hlist_head_def c_info)

definition struct_hlist_node :: ctype where
  "struct_hlist_node = Struct [] [
    Mem ''next'' (Ptr ''struct hlist_node''), Mem ''pprev'' (Ptr ''struct hlist_node *'')]"

lemma info_struct_hlist_node [c_info]: "info struct_hlist_node = (16, 8)"
  by (simp add: struct_hlist_node_def c_info)

definition struct_callback_head :: ctype where
  "struct_callback_head = Struct [] [
    Mem ''next'' (Ptr ''struct callback_head''), Mem ''func'' (FunPtr ''void'' [''struct callback_head *''])]"

lemma info_struct_callback_head [c_info]: "info struct_callback_head = (16, 8)"
  by (simp add: struct_callback_head_def c_info)

definition struct_lock_class_key :: ctype where
  "struct_lock_class_key = Struct [] []"

lemma info_struct_lock_class_key [c_info]: "info struct_lock_class_key = (0, 1)"
  by (simp add: struct_lock_class_key_def c_info)

definition typedef_atomic_long_t :: ctype where
  "typedef_atomic_long_t = typedef_atomic64_t"

lemma info_typedef_atomic_long_t [c_info]: "info typedef_atomic_long_t = (8, 8)"
  by (simp add: typedef_atomic_long_t_def c_info)

definition struct_qspinlock :: ctype where
  "struct_qspinlock = Struct [] [
    Anon (Union [] [
      Mem ''val'' typedef_atomic_t,
      Anon (Struct [] [
        Mem ''locked'' typedef_u8, Mem ''pending'' typedef_u8]),
      Anon (Struct [] [
        Mem ''locked_pending'' typedef_u16, Mem ''tail'' typedef_u16])])]"

lemma info_struct_qspinlock [c_info]: "info struct_qspinlock = (4, 4)"
  by (simp add: struct_qspinlock_def c_info)

definition typedef_arch_spinlock_t :: ctype where
  "typedef_arch_spinlock_t = struct_qspinlock"

lemma info_typedef_arch_spinlock_t [c_info]: "info typedef_arch_spinlock_t = (4, 4)"
  by (simp add: typedef_arch_spinlock_t_def c_info)

definition struct_qrwlock :: ctype where
  "struct_qrwlock = Struct [] [
    Anon (Union [] [
      Mem ''cnts'' typedef_atomic_t,
      Anon (Struct [] [
        Mem ''wlocked'' typedef_u8, Mem ''__lstate'' (Array typedef_u8 3)])]),
    Mem ''wait_lock'' typedef_arch_spinlock_t]"

lemma info_struct_qrwlock [c_info]: "info struct_qrwlock = (8, 4)"
  by (simp add: struct_qrwlock_def c_info)

definition typedef_arch_rwlock_t :: ctype where
  "typedef_arch_rwlock_t = struct_qrwlock"

lemma info_typedef_arch_rwlock_t [c_info]: "info typedef_arch_rwlock_t = (8, 4)"
  by (simp add: typedef_arch_rwlock_t_def c_info)

definition struct_raw_spinlock :: ctype where
  "struct_raw_spinlock = Struct [] [
    Mem ''raw_lock'' typedef_arch_spinlock_t]"

lemma info_struct_raw_spinlock [c_info]: "info struct_raw_spinlock = (4, 4)"
  by (simp add: struct_raw_spinlock_def c_info)

definition typedef_raw_spinlock_t :: ctype where
  "typedef_raw_spinlock_t = struct_raw_spinlock"

lemma info_typedef_raw_spinlock_t [c_info]: "info typedef_raw_spinlock_t = (4, 4)"
  by (simp add: typedef_raw_spinlock_t_def c_info)

definition struct_spinlock :: ctype where
  "struct_spinlock = Struct [] [
    Anon (Union [] [
      Mem ''rlock'' struct_raw_spinlock])]"

lemma info_struct_spinlock [c_info]: "info struct_spinlock = (4, 4)"
  by (simp add: struct_spinlock_def c_info)

definition typedef_spinlock_t :: ctype where
  "typedef_spinlock_t = struct_spinlock"

lemma info_typedef_spinlock_t [c_info]: "info typedef_spinlock_t = (4, 4)"
  by (simp add: typedef_spinlock_t_def c_info)

definition typedef_rwlock_t :: ctype where
  "typedef_rwlock_t = Struct [] [
    Mem ''raw_lock'' typedef_arch_rwlock_t]"

lemma info_typedef_rwlock_t [c_info]: "info typedef_rwlock_t = (8, 4)"
  by (simp add: typedef_rwlock_t_def c_info)

definition struct_llist_node :: ctype where
  "struct_llist_node = Struct [] [
    Mem ''next'' (Ptr ''struct llist_node'')]"

lemma info_struct_llist_node [c_info]: "info struct_llist_node = (8, 8)"
  by (simp add: struct_llist_node_def c_info)

definition struct___call_single_node :: ctype where
  "struct___call_single_node = Struct [] [
    Mem ''llist'' struct_llist_node,
    Anon (Union [] [
      Mem ''u_flags'' (Scalar Tuint), Mem ''a_flags'' typedef_atomic_t]),
    Mem ''src'' typedef_u16, Mem ''dst'' typedef_u16]"

lemma info_struct___call_single_node [c_info]: "info struct___call_single_node = (16, 8)"
  by (simp add: struct___call_single_node_def c_info)

definition struct_refcount_struct :: ctype where
  "struct_refcount_struct = Struct [] [
    Mem ''refs'' typedef_atomic_t]"

lemma info_struct_refcount_struct [c_info]: "info struct_refcount_struct = (4, 4)"
  by (simp add: struct_refcount_struct_def c_info)

definition typedef_refcount_t :: ctype where
  "typedef_refcount_t = struct_refcount_struct"

lemma info_typedef_refcount_t [c_info]: "info typedef_refcount_t = (4, 4)"
  by (simp add: typedef_refcount_t_def c_info)

definition struct_rb_node :: ctype where
  "struct_rb_node = Struct [] [
    Mem ''__rb_parent_color'' (Scalar Tulong), Mem ''rb_right'' (Ptr ''struct rb_node''),
    Mem ''rb_left'' (Ptr ''struct rb_node'')]"

lemma info_struct_rb_node [c_info]: "info struct_rb_node = (24, 8)"
  by (simp add: struct_rb_node_def c_info)

definition typedef_ktime_t :: ctype where
  "typedef_ktime_t = typedef_s64"

lemma info_typedef_ktime_t [c_info]: "info typedef_ktime_t = (8, 8)"
  by (simp add: typedef_ktime_t_def c_info)

definition struct_timerqueue_node :: ctype where
  "struct_timerqueue_node = Struct [] [
    Mem ''node'' struct_rb_node, Mem ''expires'' typedef_ktime_t]"

lemma info_struct_timerqueue_node [c_info]: "info struct_timerqueue_node = (32, 8)"
  by (simp add: struct_timerqueue_node_def c_info)

definition struct_hrtimer :: ctype where
  "struct_hrtimer = Struct [] [
    Mem ''node'' struct_timerqueue_node, Mem ''_softexpires'' typedef_ktime_t,
    Mem ''function'' (FunPtr ''enum hrtimer_restart'' [''struct hrtimer *'']),
    Mem ''base'' (Ptr ''struct hrtimer_clock_base''), Mem ''state'' typedef_u8, Mem ''is_rel'' typedef_u8,
    Mem ''is_soft'' typedef_u8, Mem ''is_hard'' typedef_u8]"

lemma info_struct_hrtimer [c_info]: "info struct_hrtimer = (64, 8)"
  by (simp add: struct_hrtimer_def c_info)

definition struct_rb_root :: ctype where
  "struct_rb_root = Struct [] [
    Mem ''rb_node'' (Ptr ''struct rb_node'')]"

lemma info_struct_rb_root [c_info]: "info struct_rb_root = (8, 8)"
  by (simp add: struct_rb_root_def c_info)

definition typedef_kuid_t :: ctype where
  "typedef_kuid_t = Struct [] [
    Mem ''val'' typedef_uid_t]"

lemma info_typedef_kuid_t [c_info]: "info typedef_kuid_t = (4, 4)"
  by (simp add: typedef_kuid_t_def c_info)

definition struct_optimistic_spin_queue :: ctype where
  "struct_optimistic_spin_queue = Struct [] [
    Mem ''tail'' typedef_atomic_t]"

lemma info_struct_optimistic_spin_queue [c_info]: "info struct_optimistic_spin_queue = (4, 4)"
  by (simp add: struct_optimistic_spin_queue_def c_info)

definition struct_mutex :: ctype where
  "struct_mutex = Struct [] [
    Mem ''owner'' typedef_atomic_long_t, Mem ''wait_lock'' typedef_raw_spinlock_t,
    Mem ''osq'' struct_optimistic_spin_queue, Mem ''wait_list'' struct_list_head]"

lemma info_struct_mutex [c_info]: "info struct_mutex = (32, 8)"
  by (simp add: struct_mutex_def c_info)

definition struct_page_frag :: ctype where
  "struct_page_frag = Struct [] [
    Mem ''page'' (Ptr ''struct page''), Mem ''offset'' typedef___u32, Mem ''size'' typedef___u32]"

lemma info_struct_page_frag [c_info]: "info struct_page_frag = (16, 8)"
  by (simp add: struct_page_frag_def c_info)

definition struct_timer_list :: ctype where
  "struct_timer_list = Struct [] [
    Mem ''entry'' struct_hlist_node, Mem ''expires'' (Scalar Tulong),
    Mem ''function'' (FunPtr ''void'' [''struct timer_list *'']), Mem ''flags'' typedef_u32]"

lemma info_struct_timer_list [c_info]: "info struct_timer_list = (40, 8)"
  by (simp add: struct_timer_list_def c_info)

definition typedef_local_t :: ctype where
  "typedef_local_t = Struct [] [
    Mem ''a'' typedef_atomic_long_t]"

lemma info_typedef_local_t [c_info]: "info typedef_local_t = (8, 8)"
  by (simp add: typedef_local_t_def c_info)

definition typedef_local64_t :: ctype where
  "typedef_local64_t = Struct [] [
    Mem ''a'' typedef_local_t]"

lemma info_typedef_local64_t [c_info]: "info typedef_local64_t = (8, 8)"
  by (simp add: typedef_local64_t_def c_info)

definition struct_wait_queue_head :: ctype where
  "struct_wait_queue_head = Struct [] [
    Mem ''lock'' typedef_spinlock_t, Mem ''head'' struct_list_head]"

lemma info_struct_wait_queue_head [c_info]: "info struct_wait_queue_head = (24, 8)"
  by (simp add: struct_wait_queue_head_def c_info)

definition typedef_wait_queue_head_t :: ctype where
  "typedef_wait_queue_head_t = struct_wait_queue_head"

lemma info_typedef_wait_queue_head_t [c_info]: "info typedef_wait_queue_head_t = (24, 8)"
  by (simp add: typedef_wait_queue_head_t_def c_info)

definition struct_irq_work :: ctype where
  "struct_irq_work = Struct [] [
    Mem ''node'' struct___call_single_node, Mem ''func'' (FunPtr ''void'' [''struct irq_work *''])]"

lemma info_struct_irq_work [c_info]: "info struct_irq_work = (24, 8)"
  by (simp add: struct_irq_work_def c_info)

definition typedef_work_func_t :: ctype where
  "typedef_work_func_t = FunPtr ''void'' [''struct work_struct *'']"

lemma info_typedef_work_func_t [c_info]: "info typedef_work_func_t = (8, 8)"
  by (simp add: typedef_work_func_t_def c_info)

definition struct_work_struct :: ctype where
  "struct_work_struct = Struct [] [
    Mem ''data'' typedef_atomic_long_t, Mem ''entry'' struct_list_head, Mem ''func'' typedef_work_func_t]"

lemma info_struct_work_struct [c_info]: "info struct_work_struct = (32, 8)"
  by (simp add: struct_work_struct_def c_info)

definition struct_rhash_head :: ctype where
  "struct_rhash_head = Struct [] [
    Mem ''next'' (Ptr ''struct rhash_head'')]"

lemma info_struct_rhash_head [c_info]: "info struct_rhash_head = (8, 8)"
  by (simp add: struct_rhash_head_def c_info)

definition struct_swait_queue_head :: ctype where
  "struct_swait_queue_head = Struct [] [
    Mem ''lock'' typedef_raw_spinlock_t, Mem ''task_list'' struct_list_head]"

lemma info_struct_swait_queue_head [c_info]: "info struct_swait_queue_head = (24, 8)"
  by (simp add: struct_swait_queue_head_def c_info)

definition struct_completion :: ctype where
  "struct_completion = Struct [] [
    Mem ''done'' (Scalar Tuint), Mem ''wait'' struct_swait_queue_head]"

lemma info_struct_completion [c_info]: "info struct_completion = (32, 8)"
  by (simp add: struct_completion_def c_info)

definition struct_percpu_ref :: ctype where
  "struct_percpu_ref = Struct [] [
    Mem ''percpu_count_ptr'' (Scalar Tulong), Mem ''data'' (Ptr ''struct percpu_ref_data'')]"

lemma info_struct_percpu_ref [c_info]: "info struct_percpu_ref = (16, 8)"
  by (simp add: struct_percpu_ref_def c_info)

definition struct_path :: ctype where
  "struct_path = Struct [] [
    Mem ''mnt'' (Ptr ''struct vfsmount''), Mem ''dentry'' (Ptr ''struct dentry'')]"

lemma info_struct_path [c_info]: "info struct_path = (16, 8)"
  by (simp add: struct_path_def c_info)

definition struct_latch_tree_node :: ctype where
  "struct_latch_tree_node = Struct [] [
    Mem ''node'' (Array struct_rb_node 2)]"

lemma info_struct_latch_tree_node [c_info]: "info struct_latch_tree_node = (48, 8)"
  by (simp add: struct_latch_tree_node_def c_info)

definition union_perf_mem_data_src :: ctype where
  "union_perf_mem_data_src = Union [] [
    Mem ''val'' typedef___u64,
    Anon (Struct [] [
      Bits ''mem_op'' typedef___u64 5, Bits ''mem_lvl'' typedef___u64 14, Bits ''mem_snoop'' typedef___u64 5,
      Bits ''mem_lock'' typedef___u64 2, Bits ''mem_dtlb'' typedef___u64 7, Bits ''mem_lvl_num'' typedef___u64 4,
      Bits ''mem_remote'' typedef___u64 1, Bits ''mem_snoopx'' typedef___u64 2, Bits ''mem_blk'' typedef___u64 3,
      Bits ''mem_rsvd'' typedef___u64 21])]"

lemma info_union_perf_mem_data_src [c_info]: "info union_perf_mem_data_src = (8, 8)"
  by (simp add: union_perf_mem_data_src_def c_info)

definition union_perf_sample_weight :: ctype where
  "union_perf_sample_weight = Union [] [
    Mem ''full'' typedef___u64,
    Anon (Struct [] [
      Mem ''var1_dw'' typedef___u32, Mem ''var2_w'' typedef___u16, Mem ''var3_w'' typedef___u16])]"

lemma info_union_perf_sample_weight [c_info]: "info union_perf_sample_weight = (8, 8)"
  by (simp add: union_perf_sample_weight_def c_info)

definition struct_perf_regs :: ctype where
  "struct_perf_regs = Struct [] [
    Mem ''abi'' typedef___u64, Mem ''regs'' (Ptr ''struct pt_regs'')]"

lemma info_struct_perf_regs [c_info]: "info struct_perf_regs = (16, 8)"
  by (simp add: struct_perf_regs_def c_info)

definition struct_btf_func_model :: ctype where
  "struct_btf_func_model = Struct [] [
    Mem ''ret_size'' typedef_u8, Mem ''nr_args'' typedef_u8, Mem ''arg_size'' (Array typedef_u8 12)]"

lemma info_struct_btf_func_model [c_info]: "info struct_btf_func_model = (14, 1)"
  by (simp add: struct_btf_func_model_def c_info)

definition struct_btf_mod_pair :: ctype where
  "struct_btf_mod_pair = Struct [] [
    Mem ''btf'' (Ptr ''struct btf''), Mem ''module'' (Ptr ''struct module'')]"

lemma info_struct_btf_mod_pair [c_info]: "info struct_btf_mod_pair = (16, 8)"
  by (simp add: struct_btf_mod_pair_def c_info)

definition struct_perf_sample_data :: ctype where
  "struct_perf_sample_data = Struct [] [
    Mem ''addr'' typedef_u64, Mem ''raw'' (Ptr ''struct perf_raw_record''),
    Mem ''br_stack'' (Ptr ''struct perf_branch_stack''), Mem ''period'' typedef_u64,
    Mem ''weight'' union_perf_sample_weight, Mem ''txn'' typedef_u64, Mem ''data_src'' union_perf_mem_data_src,
    Mem ''type'' typedef_u64, Mem ''ip'' typedef_u64,
    Mem ''tid_entry'' (Struct [] [
      Mem ''pid'' typedef_u32, Mem ''tid'' typedef_u32]),
    Mem ''time'' typedef_u64, Mem ''id'' typedef_u64, Mem ''stream_id'' typedef_u64,
    Mem ''cpu_entry'' (Struct [] [
      Mem ''cpu'' typedef_u32, Mem ''reserved'' typedef_u32]),
    Mem ''callchain'' (Ptr ''struct perf_callchain_entry''), Mem ''aux_size'' typedef_u64,
    Mem ''regs_user'' struct_perf_regs, Mem ''regs_intr'' struct_perf_regs, Mem ''stack_user_size'' typedef_u64,
    Mem ''phys_addr'' typedef_u64, Mem ''cgroup'' typedef_u64, Mem ''data_page_size'' typedef_u64,
    Mem ''code_page_size'' typedef_u64, Pad (Scalar Tlong) 64, Pad (Scalar Tlong) 64, Pad (Scalar Tlong) 64,
    Pad (Scalar Tlong) 64, Pad (Scalar Tlong) 64, Pad (Scalar Tlong) 64, Pad (Scalar Tlong) 64]"

lemma info_struct_perf_sample_data [c_info]: "info struct_perf_sample_data = (256, 8)"
  by (simp add: struct_perf_sample_data_def c_info)

definition struct_trace_entry :: ctype where
  "struct_trace_entry = Struct [] [
    Mem ''type'' (Scalar Tushort), Mem ''flags'' (Scalar Tuchar), Mem ''preempt_count'' (Scalar Tuchar),
    Mem ''pid'' (Scalar Tint)]"

lemma info_struct_trace_entry [c_info]: "info struct_trace_entry = (8, 4)"
  by (simp add: struct_trace_entry_def c_info)

definition struct_umd_info :: ctype where
  "struct_umd_info = Struct [] [
    Mem ''driver_name'' (Ptr ''const char''), Mem ''pipe_to_umh'' (Ptr ''struct file''),
    Mem ''pipe_from_umh'' (Ptr ''struct file''), Mem ''wd'' struct_path, Mem ''tgid'' (Ptr ''struct pid'')]"

lemma info_struct_umd_info [c_info]: "info struct_umd_info = (48, 8)"
  by (simp add: struct_umd_info_def c_info)

definition struct_tnum :: ctype where
  "struct_tnum = Struct [] [
    Mem ''value'' typedef_u64, Mem ''mask'' typedef_u64]"

lemma info_struct_tnum [c_info]: "info struct_tnum = (16, 8)"
  by (simp add: struct_tnum_def c_info)

definition struct_sk_reuseport_kern :: ctype where
  "struct_sk_reuseport_kern = Struct [] [
    Mem ''skb'' (Ptr ''struct sk_buff''), Mem ''sk'' (Ptr ''struct sock''), Mem ''selected_sk'' (Ptr ''struct sock''),
    Mem ''migrating_sk'' (Ptr ''struct sock''), Mem ''data_end'' (Ptr ''void''), Mem ''hash'' typedef_u32,
    Mem ''reuseport_id'' typedef_u32, Mem ''bind_inany'' typedef_bool]"

lemma info_struct_sk_reuseport_kern [c_info]: "info struct_sk_reuseport_kern = (56, 8)"
  by (simp add: struct_sk_reuseport_kern_def c_info)

definition struct_perf_event_header :: ctype where
  "struct_perf_event_header = Struct [] [
    Mem ''type'' typedef___u32, Mem ''misc'' typedef___u16, Mem ''size'' typedef___u16]"

lemma info_struct_perf_event_header [c_info]: "info struct_perf_event_header = (8, 4)"
  by (simp add: struct_perf_event_header_def c_info)

end
