(* ===== verification/Vmlinux_Uapi.thy ===== *)
theory Vmlinux_Uapi
  imports Vmlinux_Base
begin

text \<open>
  Types of src/internal/sentinel/bpf/vmlinux.h. The types shared with user space and with BPF programs: contexts, program and map attributes,
  information records, instructions.
\<close>

definition struct_user_pt_regs :: ctype where
  "struct_user_pt_regs = Struct [] [
    Mem ''regs'' (Array typedef___u64 31), Mem ''sp'' typedef___u64, Mem ''pc'' typedef___u64,
    Mem ''pstate'' typedef___u64]"

lemma info_struct_user_pt_regs [c_info]: "info struct_user_pt_regs = (272, 8)"
  by (simp add: struct_user_pt_regs_def c_info)

definition struct_pt_regs :: ctype where
  "struct_pt_regs = Struct [] [
    Anon (Union [] [
      Mem ''user_regs'' struct_user_pt_regs,
      Anon (Struct [] [
        Mem ''regs'' (Array typedef_u64 31), Mem ''sp'' typedef_u64, Mem ''pc'' typedef_u64,
        Mem ''pstate'' typedef_u64])]),
    Mem ''orig_x0'' typedef_u64, Mem ''syscallno'' typedef_s32, Mem ''unused2'' typedef_u32,
    Mem ''sdei_ttbr1'' typedef_u64, Mem ''pmr_save'' typedef_u64, Mem ''stackframe'' (Array typedef_u64 2),
    Mem ''lockdep_hardirqs'' typedef_u64, Mem ''exit_rcu'' typedef_u64]"

lemma info_struct_pt_regs [c_info]: "info struct_pt_regs = (336, 8)"
  by (simp add: struct_pt_regs_def c_info)

definition struct_bpf_insn :: ctype where
  "struct_bpf_insn = Struct [] [
    Mem ''code'' typedef___u8, Bits ''dst_reg'' typedef___u8 4, Bits ''src_reg'' typedef___u8 4,
    Mem ''off'' typedef___s16, Mem ''imm'' typedef___s32]"

lemma info_struct_bpf_insn [c_info]: "info struct_bpf_insn = (8, 4)"
  by (simp add: struct_bpf_insn_def c_info)

definition struct_bpf_cgroup_storage_key :: ctype where
  "struct_bpf_cgroup_storage_key = Struct [] [
    Mem ''cgroup_inode_id'' typedef___u64, Mem ''attach_type'' typedef___u32]"

lemma info_struct_bpf_cgroup_storage_key [c_info]: "info struct_bpf_cgroup_storage_key = (16, 8)"
  by (simp add: struct_bpf_cgroup_storage_key_def c_info)

definition union_bpf_attr :: ctype where
  "union_bpf_attr = Union [] [
    Anon (Struct [] [
      Mem ''map_type'' typedef___u32, Mem ''key_size'' typedef___u32, Mem ''value_size'' typedef___u32,
      Mem ''max_entries'' typedef___u32, Mem ''map_flags'' typedef___u32, Mem ''inner_map_fd'' typedef___u32,
      Mem ''numa_node'' typedef___u32, Mem ''map_name'' (Array (Scalar Tchar) 16), Mem ''map_ifindex'' typedef___u32,
      Mem ''btf_fd'' typedef___u32, Mem ''btf_key_type_id'' typedef___u32, Mem ''btf_value_type_id'' typedef___u32,
      Mem ''btf_vmlinux_value_type_id'' typedef___u32]),
    Anon (Struct [] [
      Mem ''map_fd'' typedef___u32, Mem ''key'' typedef___u64,
      Anon (Union [] [
        Mem ''value'' typedef___u64, Mem ''next_key'' typedef___u64]),
      Mem ''flags'' typedef___u64]),
    Mem ''batch'' (Struct [] [
      Mem ''in_batch'' typedef___u64, Mem ''out_batch'' typedef___u64, Mem ''keys'' typedef___u64,
      Mem ''values'' typedef___u64, Mem ''count'' typedef___u32, Mem ''map_fd'' typedef___u32,
      Mem ''elem_flags'' typedef___u64, Mem ''flags'' typedef___u64]),
    Anon (Struct [] [
      Mem ''prog_type'' typedef___u32, Mem ''insn_cnt'' typedef___u32, Mem ''insns'' typedef___u64,
      Mem ''license'' typedef___u64, Mem ''log_level'' typedef___u32, Mem ''log_size'' typedef___u32,
      Mem ''log_buf'' typedef___u64, Mem ''kern_version'' typedef___u32, Mem ''prog_flags'' typedef___u32,
      Mem ''prog_name'' (Array (Scalar Tchar) 16), Mem ''prog_ifindex'' typedef___u32,
      Mem ''expected_attach_type'' typedef___u32, Mem ''prog_btf_fd'' typedef___u32,
      Mem ''func_info_rec_size'' typedef___u32, Mem ''func_info'' typedef___u64, Mem ''func_info_cnt'' typedef___u32,
      Mem ''line_info_rec_size'' typedef___u32, Mem ''line_info'' typedef___u64, Mem ''line_info_cnt'' typedef___u32,
      Mem ''attach_btf_id'' typedef___u32,
      Anon (Union [] [
        Mem ''attach_prog_fd'' typedef___u32, Mem ''attach_btf_obj_fd'' typedef___u32]),
      Mem ''fd_array'' typedef___u64]),
    Anon (Struct [] [
      Mem ''pathname'' typedef___u64, Mem ''bpf_fd'' typedef___u32, Mem ''file_flags'' typedef___u32]),
    Anon (Struct [] [
      Mem ''target_fd'' typedef___u32, Mem ''attach_bpf_fd'' typedef___u32, Mem ''attach_type'' typedef___u32,
      Mem ''attach_flags'' typedef___u32, Mem ''replace_bpf_fd'' typedef___u32]),
    Mem ''test'' (Struct [] [
      Mem ''prog_fd'' typedef___u32, Mem ''retval'' typedef___u32, Mem ''data_size_in'' typedef___u32,
      Mem ''data_size_out'' typedef___u32, Mem ''data_in'' typedef___u64, Mem ''data_out'' typedef___u64,
      Mem ''repeat'' typedef___u32, Mem ''duration'' typedef___u32, Mem ''ctx_size_in'' typedef___u32,
      Mem ''ctx_size_out'' typedef___u32, Mem ''ctx_in'' typedef___u64, Mem ''ctx_out'' typedef___u64,
      Mem ''flags'' typedef___u32, Mem ''cpu'' typedef___u32]),
    Anon (Struct [] [
      Anon (Union [] [
        Mem ''start_id'' typedef___u32, Mem ''prog_id'' typedef___u32, Mem ''map_id'' typedef___u32,
        Mem ''btf_id'' typedef___u32, Mem ''link_id'' typedef___u32]),
      Mem ''next_id'' typedef___u32, Mem ''open_flags'' typedef___u32]),
    Mem ''info'' (Struct [] [
      Mem ''bpf_fd'' typedef___u32, Mem ''info_len'' typedef___u32, Mem ''info'' typedef___u64]),
    Mem ''query'' (Struct [] [
      Mem ''target_fd'' typedef___u32, Mem ''attach_type'' typedef___u32, Mem ''query_flags'' typedef___u32,
      Mem ''attach_flags'' typedef___u32, Mem ''prog_ids'' typedef___u64, Mem ''prog_cnt'' typedef___u32]),
    Mem ''raw_tracepoint'' (Struct [] [
      Mem ''name'' typedef___u64, Mem ''prog_fd'' typedef___u32]),
    Anon (Struct [] [
      Mem ''btf'' typedef___u64, Mem ''btf_log_buf'' typedef___u64, Mem ''btf_size'' typedef___u32,
      Mem ''btf_log_size'' typedef___u32, Mem ''btf_log_level'' typedef___u32]),
    Mem ''task_fd_query'' (Struct [] [
      Mem ''pid'' typedef___u32, Mem ''fd'' typedef___u32, Mem ''flags'' typedef___u32, Mem ''buf_len'' typedef___u32,
      Mem ''buf'' typedef___u64, Mem ''prog_id'' typedef___u32, Mem ''fd_type'' typedef___u32,
      Mem ''probe_offset'' typedef___u64, Mem ''probe_addr'' typedef___u64]),
    Mem ''link_create'' (Struct [] [
      Mem ''prog_fd'' typedef___u32,
      Anon (Union [] [
        Mem ''target_fd'' typedef___u32, Mem ''target_ifindex'' typedef___u32]),
      Mem ''attach_type'' typedef___u32, Mem ''flags'' typedef___u32,
      Anon (Union [] [
        Mem ''target_btf_id'' typedef___u32,
        Anon (Struct [] [
          Mem ''iter_info'' typedef___u64, Mem ''iter_info_len'' typedef___u32]),
        Mem ''perf_event'' (Struct [] [
          Mem ''bpf_cookie'' typedef___u64])])]),
    Mem ''link_update'' (Struct [] [
      Mem ''link_fd'' typedef___u32, Mem ''new_prog_fd'' typedef___u32, Mem ''flags'' typedef___u32,
      Mem ''old_prog_fd'' typedef___u32]),
    Mem ''link_detach'' (Struct [] [
      Mem ''link_fd'' typedef___u32]),
    Mem ''enable_stats'' (Struct [] [
      Mem ''type'' typedef___u32]),
    Mem ''iter_create'' (Struct [] [
      Mem ''link_fd'' typedef___u32, Mem ''flags'' typedef___u32]),
    Mem ''prog_bind_map'' (Struct [] [
      Mem ''prog_fd'' typedef___u32, Mem ''map_fd'' typedef___u32, Mem ''flags'' typedef___u32])]"

lemma info_union_bpf_attr [c_info]: "info union_bpf_attr = (128, 8)"
  by (simp add: union_bpf_attr_def c_info)

definition struct_bpf_func_info :: ctype where
  "struct_bpf_func_info = Struct [] [
    Mem ''insn_off'' typedef___u32, Mem ''type_id'' typedef___u32]"

lemma info_struct_bpf_func_info [c_info]: "info struct_bpf_func_info = (8, 4)"
  by (simp add: struct_bpf_func_info_def c_info)

definition struct_bpf_line_info :: ctype where
  "struct_bpf_line_info = Struct [] [
    Mem ''insn_off'' typedef___u32, Mem ''file_name_off'' typedef___u32, Mem ''line_off'' typedef___u32,
    Mem ''line_col'' typedef___u32]"

lemma info_struct_bpf_line_info [c_info]: "info struct_bpf_line_info = (16, 4)"
  by (simp add: struct_bpf_line_info_def c_info)

definition struct_sock_filter :: ctype where
  "struct_sock_filter = Struct [] [
    Mem ''code'' typedef___u16, Mem ''jt'' typedef___u8, Mem ''jf'' typedef___u8, Mem ''k'' typedef___u32]"

lemma info_struct_sock_filter [c_info]: "info struct_sock_filter = (8, 4)"
  by (simp add: struct_sock_filter_def c_info)

definition struct_bpf_link_info :: ctype where
  "struct_bpf_link_info = Struct [] [
    Mem ''type'' typedef___u32, Mem ''id'' typedef___u32, Mem ''prog_id'' typedef___u32,
    Anon (Union [] [
      Mem ''raw_tracepoint'' (Struct [] [
        Mem ''tp_name'' typedef___u64, Mem ''tp_name_len'' typedef___u32]),
      Mem ''tracing'' (Struct [] [
        Mem ''attach_type'' typedef___u32, Mem ''target_obj_id'' typedef___u32, Mem ''target_btf_id'' typedef___u32]),
      Mem ''cgroup'' (Struct [] [
        Mem ''cgroup_id'' typedef___u64, Mem ''attach_type'' typedef___u32]),
      Mem ''iter'' (Struct [] [
        Mem ''target_name'' typedef___u64, Mem ''target_name_len'' typedef___u32,
        Anon (Union [] [
          Mem ''map'' (Struct [] [
            Mem ''map_id'' typedef___u32])])]),
      Mem ''netns'' (Struct [] [
        Mem ''netns_ino'' typedef___u32, Mem ''attach_type'' typedef___u32]),
      Mem ''xdp'' (Struct [] [
        Mem ''ifindex'' typedef___u32])])]"

lemma info_struct_bpf_link_info [c_info]: "info struct_bpf_link_info = (32, 8)"
  by (simp add: struct_bpf_link_info_def c_info)

definition struct_bpf_perf_event_value :: ctype where
  "struct_bpf_perf_event_value = Struct [] [
    Mem ''counter'' typedef___u64, Mem ''enabled'' typedef___u64, Mem ''running'' typedef___u64]"

lemma info_struct_bpf_perf_event_value [c_info]: "info struct_bpf_perf_event_value = (24, 8)"
  by (simp add: struct_bpf_perf_event_value_def c_info)

definition struct_bpf_raw_tracepoint_args :: ctype where
  "struct_bpf_raw_tracepoint_args = Struct [] [
    Mem ''args'' (Array typedef___u64 0)]"

lemma info_struct_bpf_raw_tracepoint_args [c_info]: "info struct_bpf_raw_tracepoint_args = (0, 8)"
  by (simp add: struct_bpf_raw_tracepoint_args_def c_info)

definition typedef_bpf_user_pt_regs_t :: ctype where
  "typedef_bpf_user_pt_regs_t = struct_user_pt_regs"

lemma info_typedef_bpf_user_pt_regs_t [c_info]: "info typedef_bpf_user_pt_regs_t = (272, 8)"
  by (simp add: typedef_bpf_user_pt_regs_t_def c_info)

definition struct_bpf_perf_event_data :: ctype where
  "struct_bpf_perf_event_data = Struct [] [
    Mem ''regs'' typedef_bpf_user_pt_regs_t, Mem ''sample_period'' typedef___u64, Mem ''addr'' typedef___u64]"

lemma info_struct_bpf_perf_event_data [c_info]: "info struct_bpf_perf_event_data = (288, 8)"
  by (simp add: struct_bpf_perf_event_data_def c_info)

definition struct_perf_event_query_bpf :: ctype where
  "struct_perf_event_query_bpf = Struct [] [
    Mem ''ids_len'' typedef___u32, Mem ''prog_cnt'' typedef___u32, Mem ''ids'' (Array typedef___u32 0)]"

lemma info_struct_perf_event_query_bpf [c_info]: "info struct_perf_event_query_bpf = (8, 4)"
  by (simp add: struct_perf_event_query_bpf_def c_info)

definition struct_bpf_prog_info :: ctype where
  "struct_bpf_prog_info = Struct [] [
    Mem ''type'' typedef___u32, Mem ''id'' typedef___u32, Mem ''tag'' (Array typedef___u8 8),
    Mem ''jited_prog_len'' typedef___u32, Mem ''xlated_prog_len'' typedef___u32,
    Mem ''jited_prog_insns'' typedef___u64, Mem ''xlated_prog_insns'' typedef___u64, Mem ''load_time'' typedef___u64,
    Mem ''created_by_uid'' typedef___u32, Mem ''nr_map_ids'' typedef___u32, Mem ''map_ids'' typedef___u64,
    Mem ''name'' (Array (Scalar Tchar) 16), Mem ''ifindex'' typedef___u32, Bits ''gpl_compatible'' typedef___u32 1,
    Mem ''netns_dev'' typedef___u64, Mem ''netns_ino'' typedef___u64, Mem ''nr_jited_ksyms'' typedef___u32,
    Mem ''nr_jited_func_lens'' typedef___u32, Mem ''jited_ksyms'' typedef___u64,
    Mem ''jited_func_lens'' typedef___u64, Mem ''btf_id'' typedef___u32, Mem ''func_info_rec_size'' typedef___u32,
    Mem ''func_info'' typedef___u64, Mem ''nr_func_info'' typedef___u32, Mem ''nr_line_info'' typedef___u32,
    Mem ''line_info'' typedef___u64, Mem ''jited_line_info'' typedef___u64, Mem ''nr_jited_line_info'' typedef___u32,
    Mem ''line_info_rec_size'' typedef___u32, Mem ''jited_line_info_rec_size'' typedef___u32,
    Mem ''nr_prog_tags'' typedef___u32, Mem ''prog_tags'' typedef___u64, Mem ''run_time_ns'' typedef___u64,
    Mem ''run_cnt'' typedef___u64, Mem ''recursion_misses'' typedef___u64]"

lemma info_struct_bpf_prog_info [c_info]: "info struct_bpf_prog_info = (216, 8)"
  by (simp add: struct_bpf_prog_info_def c_info)

definition struct_bpf_map_info :: ctype where
  "struct_bpf_map_info = Struct [] [
    Mem ''type'' typedef___u32, Mem ''id'' typedef___u32, Mem ''key_size'' typedef___u32,
    Mem ''value_size'' typedef___u32, Mem ''max_entries'' typedef___u32, Mem ''map_flags'' typedef___u32,
    Mem ''name'' (Array (Scalar Tchar) 16), Mem ''ifindex'' typedef___u32,
    Mem ''btf_vmlinux_value_type_id'' typedef___u32, Mem ''netns_dev'' typedef___u64, Mem ''netns_ino'' typedef___u64,
    Mem ''btf_id'' typedef___u32, Mem ''btf_key_type_id'' typedef___u32, Mem ''btf_value_type_id'' typedef___u32]"

lemma info_struct_bpf_map_info [c_info]: "info struct_bpf_map_info = (80, 8)"
  by (simp add: struct_bpf_map_info_def c_info)

definition struct_bpf_btf_info :: ctype where
  "struct_bpf_btf_info = Struct [] [
    Mem ''btf'' typedef___u64, Mem ''btf_size'' typedef___u32, Mem ''id'' typedef___u32, Mem ''name'' typedef___u64,
    Mem ''name_len'' typedef___u32, Mem ''kernel_btf'' typedef___u32]"

lemma info_struct_bpf_btf_info [c_info]: "info struct_bpf_btf_info = (32, 8)"
  by (simp add: struct_bpf_btf_info_def c_info)

definition struct_bpf_spin_lock :: ctype where
  "struct_bpf_spin_lock = Struct [] [
    Mem ''val'' typedef___u32]"

lemma info_struct_bpf_spin_lock [c_info]: "info struct_bpf_spin_lock = (4, 4)"
  by (simp add: struct_bpf_spin_lock_def c_info)

definition struct_bpf_pidns_info :: ctype where
  "struct_bpf_pidns_info = Struct [] [
    Mem ''pid'' typedef___u32, Mem ''tgid'' typedef___u32]"

lemma info_struct_bpf_pidns_info [c_info]: "info struct_bpf_pidns_info = (8, 4)"
  by (simp add: struct_bpf_pidns_info_def c_info)

definition union_bpf_iter_link_info :: ctype where
  "union_bpf_iter_link_info = Union [] [
    Mem ''map'' (Struct [] [
      Mem ''map_fd'' typedef___u32])]"

lemma info_union_bpf_iter_link_info [c_info]: "info union_bpf_iter_link_info = (4, 4)"
  by (simp add: union_bpf_iter_link_info_def c_info)

definition struct_bpf_lpm_trie_key :: ctype where
  "struct_bpf_lpm_trie_key = Struct [] [
    Mem ''prefixlen'' typedef___u32, Mem ''data'' (Array typedef___u8 0)]"

lemma info_struct_bpf_lpm_trie_key [c_info]: "info struct_bpf_lpm_trie_key = (4, 4)"
  by (simp add: struct_bpf_lpm_trie_key_def c_info)

definition struct_bpf_flow_keys :: ctype where
  "struct_bpf_flow_keys = Struct [] [
    Mem ''nhoff'' typedef___u16, Mem ''thoff'' typedef___u16, Mem ''addr_proto'' typedef___u16,
    Mem ''is_frag'' typedef___u8, Mem ''is_first_frag'' typedef___u8, Mem ''is_encap'' typedef___u8,
    Mem ''ip_proto'' typedef___u8, Mem ''n_proto'' typedef___be16, Mem ''sport'' typedef___be16,
    Mem ''dport'' typedef___be16,
    Anon (Union [] [
      Anon (Struct [] [
        Mem ''ipv4_src'' typedef___be32, Mem ''ipv4_dst'' typedef___be32]),
      Anon (Struct [] [
        Mem ''ipv6_src'' (Array typedef___u32 4), Mem ''ipv6_dst'' (Array typedef___u32 4)])]),
    Mem ''flags'' typedef___u32, Mem ''flow_label'' typedef___be32]"

lemma info_struct_bpf_flow_keys [c_info]: "info struct_bpf_flow_keys = (56, 4)"
  by (simp add: struct_bpf_flow_keys_def c_info)

definition struct_bpf_sock :: ctype where
  "struct_bpf_sock = Struct [] [
    Mem ''bound_dev_if'' typedef___u32, Mem ''family'' typedef___u32, Mem ''type'' typedef___u32,
    Mem ''protocol'' typedef___u32, Mem ''mark'' typedef___u32, Mem ''priority'' typedef___u32,
    Mem ''src_ip4'' typedef___u32, Mem ''src_ip6'' (Array typedef___u32 4), Mem ''src_port'' typedef___u32,
    Mem ''dst_port'' typedef___be16, Mem ''dst_ip4'' typedef___u32, Mem ''dst_ip6'' (Array typedef___u32 4),
    Mem ''state'' typedef___u32, Mem ''rx_queue_mapping'' typedef___s32]"

lemma info_struct_bpf_sock [c_info]: "info struct_bpf_sock = (80, 4)"
  by (simp add: struct_bpf_sock_def c_info)

definition struct___sk_buff :: ctype where
  "struct___sk_buff = Struct [] [
    Mem ''len'' typedef___u32, Mem ''pkt_type'' typedef___u32, Mem ''mark'' typedef___u32,
    Mem ''queue_mapping'' typedef___u32, Mem ''protocol'' typedef___u32, Mem ''vlan_present'' typedef___u32,
    Mem ''vlan_tci'' typedef___u32, Mem ''vlan_proto'' typedef___u32, Mem ''priority'' typedef___u32,
    Mem ''ingress_ifindex'' typedef___u32, Mem ''ifindex'' typedef___u32, Mem ''tc_index'' typedef___u32,
    Mem ''cb'' (Array typedef___u32 5), Mem ''hash'' typedef___u32, Mem ''tc_classid'' typedef___u32,
    Mem ''data'' typedef___u32, Mem ''data_end'' typedef___u32, Mem ''napi_id'' typedef___u32,
    Mem ''family'' typedef___u32, Mem ''remote_ip4'' typedef___u32, Mem ''local_ip4'' typedef___u32,
    Mem ''remote_ip6'' (Array typedef___u32 4), Mem ''local_ip6'' (Array typedef___u32 4),
    Mem ''remote_port'' typedef___u32, Mem ''local_port'' typedef___u32, Mem ''data_meta'' typedef___u32,
    Anon (Union [] [
      Mem ''flow_keys'' (Ptr ''struct bpf_flow_keys'')]),
    Mem ''tstamp'' typedef___u64, Mem ''wire_len'' typedef___u32, Mem ''gso_segs'' typedef___u32,
    Anon (Union [] [
      Mem ''sk'' (Ptr ''struct bpf_sock'')]),
    Mem ''gso_size'' typedef___u32]"

lemma info_struct___sk_buff [c_info]: "info struct___sk_buff = (184, 8)"
  by (simp add: struct___sk_buff_def c_info)

definition struct_xdp_md :: ctype where
  "struct_xdp_md = Struct [] [
    Mem ''data'' typedef___u32, Mem ''data_end'' typedef___u32, Mem ''data_meta'' typedef___u32,
    Mem ''ingress_ifindex'' typedef___u32, Mem ''rx_queue_index'' typedef___u32, Mem ''egress_ifindex'' typedef___u32]"

lemma info_struct_xdp_md [c_info]: "info struct_xdp_md = (24, 4)"
  by (simp add: struct_xdp_md_def c_info)

definition struct_sk_msg_md :: ctype where
  "struct_sk_msg_md = Struct [] [
    Anon (Union [] [
      Mem ''data'' (Ptr ''void'')]),
    Anon (Union [] [
      Mem ''data_end'' (Ptr ''void'')]),
    Mem ''family'' typedef___u32, Mem ''remote_ip4'' typedef___u32, Mem ''local_ip4'' typedef___u32,
    Mem ''remote_ip6'' (Array typedef___u32 4), Mem ''local_ip6'' (Array typedef___u32 4),
    Mem ''remote_port'' typedef___u32, Mem ''local_port'' typedef___u32, Mem ''size'' typedef___u32,
    Anon (Union [] [
      Mem ''sk'' (Ptr ''struct bpf_sock'')])]"

lemma info_struct_sk_msg_md [c_info]: "info struct_sk_msg_md = (80, 8)"
  by (simp add: struct_sk_msg_md_def c_info)

definition struct_sk_reuseport_md :: ctype where
  "struct_sk_reuseport_md = Struct [] [
    Anon (Union [] [
      Mem ''data'' (Ptr ''void'')]),
    Anon (Union [] [
      Mem ''data_end'' (Ptr ''void'')]),
    Mem ''len'' typedef___u32, Mem ''eth_protocol'' typedef___u32, Mem ''ip_protocol'' typedef___u32,
    Mem ''bind_inany'' typedef___u32, Mem ''hash'' typedef___u32,
    Anon (Union [] [
      Mem ''sk'' (Ptr ''struct bpf_sock'')]),
    Anon (Union [] [
      Mem ''migrating_sk'' (Ptr ''struct bpf_sock'')])]"

lemma info_struct_sk_reuseport_md [c_info]: "info struct_sk_reuseport_md = (56, 8)"
  by (simp add: struct_sk_reuseport_md_def c_info)

definition struct_bpf_sock_addr :: ctype where
  "struct_bpf_sock_addr = Struct [] [
    Mem ''user_family'' typedef___u32, Mem ''user_ip4'' typedef___u32, Mem ''user_ip6'' (Array typedef___u32 4),
    Mem ''user_port'' typedef___u32, Mem ''family'' typedef___u32, Mem ''type'' typedef___u32,
    Mem ''protocol'' typedef___u32, Mem ''msg_src_ip4'' typedef___u32, Mem ''msg_src_ip6'' (Array typedef___u32 4),
    Anon (Union [] [
      Mem ''sk'' (Ptr ''struct bpf_sock'')])]"

lemma info_struct_bpf_sock_addr [c_info]: "info struct_bpf_sock_addr = (72, 8)"
  by (simp add: struct_bpf_sock_addr_def c_info)

definition struct_bpf_sock_ops :: ctype where
  "struct_bpf_sock_ops = Struct [] [
    Mem ''op'' typedef___u32,
    Anon (Union [] [
      Mem ''args'' (Array typedef___u32 4), Mem ''reply'' typedef___u32, Mem ''replylong'' (Array typedef___u32 4)]),
    Mem ''family'' typedef___u32, Mem ''remote_ip4'' typedef___u32, Mem ''local_ip4'' typedef___u32,
    Mem ''remote_ip6'' (Array typedef___u32 4), Mem ''local_ip6'' (Array typedef___u32 4),
    Mem ''remote_port'' typedef___u32, Mem ''local_port'' typedef___u32, Mem ''is_fullsock'' typedef___u32,
    Mem ''snd_cwnd'' typedef___u32, Mem ''srtt_us'' typedef___u32, Mem ''bpf_sock_ops_cb_flags'' typedef___u32,
    Mem ''state'' typedef___u32, Mem ''rtt_min'' typedef___u32, Mem ''snd_ssthresh'' typedef___u32,
    Mem ''rcv_nxt'' typedef___u32, Mem ''snd_nxt'' typedef___u32, Mem ''snd_una'' typedef___u32,
    Mem ''mss_cache'' typedef___u32, Mem ''ecn_flags'' typedef___u32, Mem ''rate_delivered'' typedef___u32,
    Mem ''rate_interval_us'' typedef___u32, Mem ''packets_out'' typedef___u32, Mem ''retrans_out'' typedef___u32,
    Mem ''total_retrans'' typedef___u32, Mem ''segs_in'' typedef___u32, Mem ''data_segs_in'' typedef___u32,
    Mem ''segs_out'' typedef___u32, Mem ''data_segs_out'' typedef___u32, Mem ''lost_out'' typedef___u32,
    Mem ''sacked_out'' typedef___u32, Mem ''sk_txhash'' typedef___u32, Mem ''bytes_received'' typedef___u64,
    Mem ''bytes_acked'' typedef___u64,
    Anon (Union [] [
      Mem ''sk'' (Ptr ''struct bpf_sock'')]),
    Anon (Union [] [
      Mem ''skb_data'' (Ptr ''void'')]),
    Anon (Union [] [
      Mem ''skb_data_end'' (Ptr ''void'')]),
    Mem ''skb_len'' typedef___u32, Mem ''skb_tcp_flags'' typedef___u32]"

lemma info_struct_bpf_sock_ops [c_info]: "info struct_bpf_sock_ops = (216, 8)"
  by (simp add: struct_bpf_sock_ops_def c_info)

definition struct_bpf_cgroup_dev_ctx :: ctype where
  "struct_bpf_cgroup_dev_ctx = Struct [] [
    Mem ''access_type'' typedef___u32, Mem ''major'' typedef___u32, Mem ''minor'' typedef___u32]"

lemma info_struct_bpf_cgroup_dev_ctx [c_info]: "info struct_bpf_cgroup_dev_ctx = (12, 4)"
  by (simp add: struct_bpf_cgroup_dev_ctx_def c_info)

definition struct_bpf_sysctl :: ctype where
  "struct_bpf_sysctl = Struct [] [
    Mem ''write'' typedef___u32, Mem ''file_pos'' typedef___u32]"

lemma info_struct_bpf_sysctl [c_info]: "info struct_bpf_sysctl = (8, 4)"
  by (simp add: struct_bpf_sysctl_def c_info)

definition struct_bpf_sockopt :: ctype where
  "struct_bpf_sockopt = Struct [] [
    Anon (Union [] [
      Mem ''sk'' (Ptr ''struct bpf_sock'')]),
    Anon (Union [] [
      Mem ''optval'' (Ptr ''void'')]),
    Anon (Union [] [
      Mem ''optval_end'' (Ptr ''void'')]),
    Mem ''level'' typedef___s32, Mem ''optname'' typedef___s32, Mem ''optlen'' typedef___s32,
    Mem ''retval'' typedef___s32]"

lemma info_struct_bpf_sockopt [c_info]: "info struct_bpf_sockopt = (40, 8)"
  by (simp add: struct_bpf_sockopt_def c_info)

definition struct_bpf_sk_lookup :: ctype where
  "struct_bpf_sk_lookup = Struct [] [
    Anon (Union [] [
      Anon (Union [] [
        Mem ''sk'' (Ptr ''struct bpf_sock'')]),
      Mem ''cookie'' typedef___u64]),
    Mem ''family'' typedef___u32, Mem ''protocol'' typedef___u32, Mem ''remote_ip4'' typedef___u32,
    Mem ''remote_ip6'' (Array typedef___u32 4), Mem ''remote_port'' typedef___be16, Mem ''local_ip4'' typedef___u32,
    Mem ''local_ip6'' (Array typedef___u32 4), Mem ''local_port'' typedef___u32]"

lemma info_struct_bpf_sk_lookup [c_info]: "info struct_bpf_sk_lookup = (64, 8)"
  by (simp add: struct_bpf_sk_lookup_def c_info)

definition struct_bpf_devmap_val :: ctype where
  "struct_bpf_devmap_val = Struct [] [
    Mem ''ifindex'' typedef___u32,
    Mem ''bpf_prog'' (Union [] [
      Mem ''fd'' (Scalar Tint), Mem ''id'' typedef___u32])]"

lemma info_struct_bpf_devmap_val [c_info]: "info struct_bpf_devmap_val = (8, 4)"
  by (simp add: struct_bpf_devmap_val_def c_info)

definition struct_bpf_cpumap_val :: ctype where
  "struct_bpf_cpumap_val = Struct [] [
    Mem ''qsize'' typedef___u32,
    Mem ''bpf_prog'' (Union [] [
      Mem ''fd'' (Scalar Tint), Mem ''id'' typedef___u32])]"

lemma info_struct_bpf_cpumap_val [c_info]: "info struct_bpf_cpumap_val = (8, 4)"
  by (simp add: struct_bpf_cpumap_val_def c_info)

definition struct_bpf_stack_build_id :: ctype where
  "struct_bpf_stack_build_id = Struct [] [
    Mem ''status'' typedef___s32, Mem ''build_id'' (Array (Scalar Tuchar) 20),
    Anon (Union [] [
      Mem ''offset'' typedef___u64, Mem ''ip'' typedef___u64])]"

lemma info_struct_bpf_stack_build_id [c_info]: "info struct_bpf_stack_build_id = (32, 8)"
  by (simp add: struct_bpf_stack_build_id_def c_info)

definition struct_bpf_tunnel_key :: ctype where
  "struct_bpf_tunnel_key = Struct [] [
    Mem ''tunnel_id'' typedef___u32,
    Anon (Union [] [
      Mem ''remote_ipv4'' typedef___u32, Mem ''remote_ipv6'' (Array typedef___u32 4)]),
    Mem ''tunnel_tos'' typedef___u8, Mem ''tunnel_ttl'' typedef___u8, Mem ''tunnel_ext'' typedef___u16,
    Mem ''tunnel_label'' typedef___u32]"

lemma info_struct_bpf_tunnel_key [c_info]: "info struct_bpf_tunnel_key = (28, 4)"
  by (simp add: struct_bpf_tunnel_key_def c_info)

definition struct_bpf_xfrm_state :: ctype where
  "struct_bpf_xfrm_state = Struct [] [
    Mem ''reqid'' typedef___u32, Mem ''spi'' typedef___u32, Mem ''family'' typedef___u16, Mem ''ext'' typedef___u16,
    Anon (Union [] [
      Mem ''remote_ipv4'' typedef___u32, Mem ''remote_ipv6'' (Array typedef___u32 4)])]"

lemma info_struct_bpf_xfrm_state [c_info]: "info struct_bpf_xfrm_state = (28, 4)"
  by (simp add: struct_bpf_xfrm_state_def c_info)

definition struct_bpf_tcp_sock :: ctype where
  "struct_bpf_tcp_sock = Struct [] [
    Mem ''snd_cwnd'' typedef___u32, Mem ''srtt_us'' typedef___u32, Mem ''rtt_min'' typedef___u32,
    Mem ''snd_ssthresh'' typedef___u32, Mem ''rcv_nxt'' typedef___u32, Mem ''snd_nxt'' typedef___u32,
    Mem ''snd_una'' typedef___u32, Mem ''mss_cache'' typedef___u32, Mem ''ecn_flags'' typedef___u32,
    Mem ''rate_delivered'' typedef___u32, Mem ''rate_interval_us'' typedef___u32, Mem ''packets_out'' typedef___u32,
    Mem ''retrans_out'' typedef___u32, Mem ''total_retrans'' typedef___u32, Mem ''segs_in'' typedef___u32,
    Mem ''data_segs_in'' typedef___u32, Mem ''segs_out'' typedef___u32, Mem ''data_segs_out'' typedef___u32,
    Mem ''lost_out'' typedef___u32, Mem ''sacked_out'' typedef___u32, Mem ''bytes_received'' typedef___u64,
    Mem ''bytes_acked'' typedef___u64, Mem ''dsack_dups'' typedef___u32, Mem ''delivered'' typedef___u32,
    Mem ''delivered_ce'' typedef___u32, Mem ''icsk_retransmits'' typedef___u32]"

lemma info_struct_bpf_tcp_sock [c_info]: "info struct_bpf_tcp_sock = (112, 8)"
  by (simp add: struct_bpf_tcp_sock_def c_info)

definition struct_bpf_sock_tuple :: ctype where
  "struct_bpf_sock_tuple = Struct [] [
    Anon (Union [] [
      Mem ''ipv4'' (Struct [] [
        Mem ''saddr'' typedef___be32, Mem ''daddr'' typedef___be32, Mem ''sport'' typedef___be16,
        Mem ''dport'' typedef___be16]),
      Mem ''ipv6'' (Struct [] [
        Mem ''saddr'' (Array typedef___be32 4), Mem ''daddr'' (Array typedef___be32 4), Mem ''sport'' typedef___be16,
        Mem ''dport'' typedef___be16])])]"

lemma info_struct_bpf_sock_tuple [c_info]: "info struct_bpf_sock_tuple = (36, 4)"
  by (simp add: struct_bpf_sock_tuple_def c_info)

definition struct_bpf_xdp_sock :: ctype where
  "struct_bpf_xdp_sock = Struct [] [
    Mem ''queue_id'' typedef___u32]"

lemma info_struct_bpf_xdp_sock [c_info]: "info struct_bpf_xdp_sock = (4, 4)"
  by (simp add: struct_bpf_xdp_sock_def c_info)

definition struct_bpf_fib_lookup :: ctype where
  "struct_bpf_fib_lookup = Struct [] [
    Mem ''family'' typedef___u8, Mem ''l4_protocol'' typedef___u8, Mem ''sport'' typedef___be16,
    Mem ''dport'' typedef___be16,
    Anon (Union [] [
      Mem ''tot_len'' typedef___u16, Mem ''mtu_result'' typedef___u16]),
    Mem ''ifindex'' typedef___u32,
    Anon (Union [] [
      Mem ''tos'' typedef___u8, Mem ''flowinfo'' typedef___be32, Mem ''rt_metric'' typedef___u32]),
    Anon (Union [] [
      Mem ''ipv4_src'' typedef___be32, Mem ''ipv6_src'' (Array typedef___u32 4)]),
    Anon (Union [] [
      Mem ''ipv4_dst'' typedef___be32, Mem ''ipv6_dst'' (Array typedef___u32 4)]),
    Anon (Union [] [
      Anon (Struct [] [
        Mem ''h_vlan_proto'' typedef___be16, Mem ''h_vlan_TCI'' typedef___be16]),
      Mem ''tbid'' typedef___u32]),
    Mem ''smac'' (Array typedef___u8 6), Mem ''dmac'' (Array typedef___u8 6)]"

lemma info_struct_bpf_fib_lookup [c_info]: "info struct_bpf_fib_lookup = (64, 4)"
  by (simp add: struct_bpf_fib_lookup_def c_info)

definition struct_bpf_redir_neigh :: ctype where
  "struct_bpf_redir_neigh = Struct [] [
    Mem ''nh_family'' typedef___u32,
    Anon (Union [] [
      Mem ''ipv4_nh'' typedef___be32, Mem ''ipv6_nh'' (Array typedef___u32 4)])]"

lemma info_struct_bpf_redir_neigh [c_info]: "info struct_bpf_redir_neigh = (20, 4)"
  by (simp add: struct_bpf_redir_neigh_def c_info)

end
