(* ===== verification/Vmlinux_Net.thy ===== *)
theory Vmlinux_Net
  imports Vmlinux_Uapi
begin

text \<open>
  Types of src/internal/sentinel/bpf/vmlinux.h. The networking types the BPF types contain by value.
\<close>

definition typedef___wsum :: ctype where
  "typedef___wsum = typedef___u32"

lemma info_typedef___wsum [c_info]: "info typedef___wsum = (4, 4)"
  by (simp add: typedef___wsum_def c_info)

definition typedef_dma_addr_t :: ctype where
  "typedef_dma_addr_t = typedef_u64"

lemma info_typedef_dma_addr_t [c_info]: "info typedef_dma_addr_t = (8, 8)"
  by (simp add: typedef_dma_addr_t_def c_info)

definition struct_sk_buff_head :: ctype where
  "struct_sk_buff_head = Struct [] [
    Mem ''next'' (Ptr ''struct sk_buff''), Mem ''prev'' (Ptr ''struct sk_buff''), Mem ''qlen'' typedef___u32,
    Mem ''lock'' typedef_spinlock_t]"

lemma info_struct_sk_buff_head [c_info]: "info struct_sk_buff_head = (24, 8)"
  by (simp add: struct_sk_buff_head_def c_info)

definition struct_u64_stats_sync :: ctype where
  "struct_u64_stats_sync = Struct [] []"

lemma info_struct_u64_stats_sync [c_info]: "info struct_u64_stats_sync = (0, 1)"
  by (simp add: struct_u64_stats_sync_def c_info)

definition typedef_sk_buff_data_t :: ctype where
  "typedef_sk_buff_data_t = Scalar Tuint"

lemma info_typedef_sk_buff_data_t [c_info]: "info typedef_sk_buff_data_t = (4, 4)"
  by (simp add: typedef_sk_buff_data_t_def c_info)

definition struct_sk_buff :: ctype where
  "struct_sk_buff = Struct [] [
    Anon (Union [] [
      Anon (Struct [] [
        Mem ''next'' (Ptr ''struct sk_buff''), Mem ''prev'' (Ptr ''struct sk_buff''),
        Anon (Union [] [
          Mem ''dev'' (Ptr ''struct net_device''), Mem ''dev_scratch'' (Scalar Tulong)])]),
      Mem ''rbnode'' struct_rb_node, Mem ''list'' struct_list_head]),
    Mem ''sk'' (Ptr ''struct sock''),
    Anon (Union [] [
      Mem ''tstamp'' typedef_ktime_t, Mem ''skb_mstamp_ns'' typedef_u64]),
    Mem ''cb'' (Array (Scalar Tchar) 48),
    Anon (Union [] [
      Anon (Struct [] [
        Mem ''_skb_refdst'' (Scalar Tulong), Mem ''destructor'' (FunPtr ''void'' [''struct sk_buff *''])]),
      Mem ''tcp_tsorted_anchor'' struct_list_head, Mem ''_sk_redir'' (Scalar Tulong)]),
    Mem ''_nfct'' (Scalar Tulong), Mem ''len'' (Scalar Tuint), Mem ''data_len'' (Scalar Tuint),
    Mem ''mac_len'' typedef___u16, Mem ''hdr_len'' typedef___u16, Mem ''queue_mapping'' typedef___u16,
    Mem ''__cloned_offset'' (Array typedef___u8 0), Bits ''cloned'' typedef___u8 1, Bits ''nohdr'' typedef___u8 1,
    Bits ''fclone'' typedef___u8 2, Bits ''peeked'' typedef___u8 1, Bits ''head_frag'' typedef___u8 1,
    Bits ''pfmemalloc'' typedef___u8 1, Bits ''pp_recycle'' typedef___u8 1, Mem ''active_extensions'' typedef___u8,
    Mem ''headers_start'' (Array typedef___u32 0), Mem ''__pkt_type_offset'' (Array typedef___u8 0),
    Bits ''pkt_type'' typedef___u8 3, Bits ''ignore_df'' typedef___u8 1, Bits ''nf_trace'' typedef___u8 1,
    Bits ''ip_summed'' typedef___u8 2, Bits ''ooo_okay'' typedef___u8 1, Bits ''l4_hash'' typedef___u8 1,
    Bits ''sw_hash'' typedef___u8 1, Bits ''wifi_acked_valid'' typedef___u8 1, Bits ''wifi_acked'' typedef___u8 1,
    Bits ''no_fcs'' typedef___u8 1, Bits ''encapsulation'' typedef___u8 1, Bits ''encap_hdr_csum'' typedef___u8 1,
    Bits ''csum_valid'' typedef___u8 1, Mem ''__pkt_vlan_present_offset'' (Array typedef___u8 0),
    Bits ''vlan_present'' typedef___u8 1, Bits ''csum_complete_sw'' typedef___u8 1,
    Bits ''csum_level'' typedef___u8 2, Bits ''csum_not_inet'' typedef___u8 1,
    Bits ''dst_pending_confirm'' typedef___u8 1, Bits ''ndisc_nodetype'' typedef___u8 2,
    Bits ''ipvs_property'' typedef___u8 1, Bits ''inner_protocol_type'' typedef___u8 1,
    Bits ''remcsum_offload'' typedef___u8 1, Bits ''offload_fwd_mark'' typedef___u8 1,
    Bits ''offload_l3_fwd_mark'' typedef___u8 1, Bits ''tc_skip_classify'' typedef___u8 1,
    Bits ''tc_at_ingress'' typedef___u8 1, Bits ''redirected'' typedef___u8 1, Bits ''from_ingress'' typedef___u8 1,
    Bits ''decrypted'' typedef___u8 1, Bits ''slow_gro'' typedef___u8 1, Bits ''scm_io_uring'' typedef___u8 1,
    Mem ''tc_index'' typedef___u16,
    Anon (Union [] [
      Mem ''csum'' typedef___wsum,
      Anon (Struct [] [
        Mem ''csum_start'' typedef___u16, Mem ''csum_offset'' typedef___u16])]),
    Mem ''priority'' typedef___u32, Mem ''skb_iif'' (Scalar Tint), Mem ''hash'' typedef___u32,
    Mem ''vlan_proto'' typedef___be16, Mem ''vlan_tci'' typedef___u16,
    Anon (Union [] [
      Mem ''napi_id'' (Scalar Tuint), Mem ''sender_cpu'' (Scalar Tuint)]),
    Mem ''secmark'' typedef___u32,
    Anon (Union [] [
      Mem ''mark'' typedef___u32, Mem ''reserved_tailroom'' typedef___u32]),
    Anon (Union [] [
      Mem ''inner_protocol'' typedef___be16, Mem ''inner_ipproto'' typedef___u8]),
    Mem ''inner_transport_header'' typedef___u16, Mem ''inner_network_header'' typedef___u16,
    Mem ''inner_mac_header'' typedef___u16, Mem ''protocol'' typedef___be16, Mem ''transport_header'' typedef___u16,
    Mem ''network_header'' typedef___u16, Mem ''mac_header'' typedef___u16,
    Mem ''headers_end'' (Array typedef___u32 0), Mem ''tail'' typedef_sk_buff_data_t,
    Mem ''end'' typedef_sk_buff_data_t, Mem ''head'' (Ptr ''unsigned char''), Mem ''data'' (Ptr ''unsigned char''),
    Mem ''truesize'' (Scalar Tuint), Mem ''users'' typedef_refcount_t, Mem ''extensions'' (Ptr ''struct skb_ext'')]"

lemma info_struct_sk_buff [c_info]: "info struct_sk_buff = (224, 8)"
  by (simp add: struct_sk_buff_def c_info)

definition struct_in6_addr :: ctype where
  "struct_in6_addr = Struct [] [
    Mem ''in6_u'' (Union [] [
      Mem ''u6_addr8'' (Array typedef___u8 16), Mem ''u6_addr16'' (Array typedef___be16 8),
      Mem ''u6_addr32'' (Array typedef___be32 4)])]"

lemma info_struct_in6_addr [c_info]: "info struct_in6_addr = (16, 4)"
  by (simp add: struct_in6_addr_def c_info)

definition struct_tcp_congestion_ops :: ctype where
  "struct_tcp_congestion_ops = Struct [] [
    Mem ''ssthresh'' (FunPtr ''u32'' [''struct sock *'']),
    Mem ''cong_avoid'' (FunPtr ''void'' [''struct sock *'', ''u32'', ''u32'']),
    Mem ''set_state'' (FunPtr ''void'' [''struct sock *'', ''u8'']),
    Mem ''cwnd_event'' (FunPtr ''void'' [''struct sock *'', ''enum tcp_ca_event'']),
    Mem ''in_ack_event'' (FunPtr ''void'' [''struct sock *'', ''u32'']),
    Mem ''pkts_acked'' (FunPtr ''void'' [''struct sock *'', ''const struct ack_sample *'']),
    Mem ''min_tso_segs'' (FunPtr ''u32'' [''struct sock *'']),
    Mem ''cong_control'' (FunPtr ''void'' [''struct sock *'', ''const struct rate_sample *'']),
    Mem ''undo_cwnd'' (FunPtr ''u32'' [''struct sock *'']),
    Mem ''sndbuf_expand'' (FunPtr ''u32'' [''struct sock *'']),
    Mem ''get_info'' (FunPtr ''size_t'' [''struct sock *'', ''u32'', ''int *'', ''union tcp_cc_info *'']),
    Mem ''name'' (Array (Scalar Tchar) 16), Mem ''owner'' (Ptr ''struct module''), Mem ''list'' struct_list_head,
    Mem ''key'' typedef_u32, Mem ''flags'' typedef_u32, Mem ''init'' (FunPtr ''void'' [''struct sock *'']),
    Mem ''release'' (FunPtr ''void'' [''struct sock *'']), Pad (Scalar Tlong) 64, Pad (Scalar Tlong) 64,
    Pad (Scalar Tlong) 64, Pad (Scalar Tlong) 64, Pad (Scalar Tlong) 64]"

lemma info_struct_tcp_congestion_ops [c_info]: "info struct_tcp_congestion_ops = (192, 8)"
  by (simp add: struct_tcp_congestion_ops_def c_info)

definition struct_hlist_nulls_node :: ctype where
  "struct_hlist_nulls_node = Struct [] [
    Mem ''next'' (Ptr ''struct hlist_nulls_node''), Mem ''pprev'' (Ptr ''struct hlist_nulls_node *'')]"

lemma info_struct_hlist_nulls_node [c_info]: "info struct_hlist_nulls_node = (16, 8)"
  by (simp add: struct_hlist_nulls_node_def c_info)

definition typedef___addrpair :: ctype where
  "typedef___addrpair = typedef___u64"

lemma info_typedef___addrpair [c_info]: "info typedef___addrpair = (8, 8)"
  by (simp add: typedef___addrpair_def c_info)

definition typedef___portpair :: ctype where
  "typedef___portpair = typedef___u32"

lemma info_typedef___portpair [c_info]: "info typedef___portpair = (4, 4)"
  by (simp add: typedef___portpair_def c_info)

definition typedef_possible_net_t :: ctype where
  "typedef_possible_net_t = Struct [] [
    Mem ''net'' (Ptr ''struct net'')]"

lemma info_typedef_possible_net_t [c_info]: "info typedef_possible_net_t = (8, 8)"
  by (simp add: typedef_possible_net_t_def c_info)

definition struct_sock_common :: ctype where
  "struct_sock_common = Struct [] [
    Anon (Union [] [
      Mem ''skc_addrpair'' typedef___addrpair,
      Anon (Struct [] [
        Mem ''skc_daddr'' typedef___be32, Mem ''skc_rcv_saddr'' typedef___be32])]),
    Anon (Union [] [
      Mem ''skc_hash'' (Scalar Tuint), Mem ''skc_u16hashes'' (Array typedef___u16 2)]),
    Anon (Union [] [
      Mem ''skc_portpair'' typedef___portpair,
      Anon (Struct [] [
        Mem ''skc_dport'' typedef___be16, Mem ''skc_num'' typedef___u16])]),
    Mem ''skc_family'' (Scalar Tushort), Mem ''skc_state'' (Scalar Tuchar), Bits ''skc_reuse'' (Scalar Tuchar) 4,
    Bits ''skc_reuseport'' (Scalar Tuchar) 1, Bits ''skc_ipv6only'' (Scalar Tuchar) 1,
    Bits ''skc_net_refcnt'' (Scalar Tuchar) 1, Mem ''skc_bound_dev_if'' (Scalar Tint),
    Anon (Union [] [
      Mem ''skc_bind_node'' struct_hlist_node, Mem ''skc_portaddr_node'' struct_hlist_node]),
    Mem ''skc_prot'' (Ptr ''struct proto''), Mem ''skc_net'' typedef_possible_net_t,
    Mem ''skc_v6_daddr'' struct_in6_addr, Mem ''skc_v6_rcv_saddr'' struct_in6_addr,
    Mem ''skc_cookie'' typedef_atomic64_t,
    Anon (Union [] [
      Mem ''skc_flags'' (Scalar Tulong), Mem ''skc_listener'' (Ptr ''struct sock''),
      Mem ''skc_tw_dr'' (Ptr ''struct inet_timewait_death_row'')]),
    Mem ''skc_dontcopy_begin'' (Array (Scalar Tint) 0),
    Anon (Union [] [
      Mem ''skc_node'' struct_hlist_node, Mem ''skc_nulls_node'' struct_hlist_nulls_node]),
    Mem ''skc_tx_queue_mapping'' (Scalar Tushort), Mem ''skc_rx_queue_mapping'' (Scalar Tushort),
    Anon (Union [] [
      Mem ''skc_incoming_cpu'' (Scalar Tint), Mem ''skc_rcv_wnd'' typedef_u32, Mem ''skc_tw_rcv_nxt'' typedef_u32]),
    Mem ''skc_refcnt'' typedef_refcount_t, Mem ''skc_dontcopy_end'' (Array (Scalar Tint) 0),
    Anon (Union [] [
      Mem ''skc_rxhash'' typedef_u32, Mem ''skc_window_clamp'' typedef_u32, Mem ''skc_tw_snd_nxt'' typedef_u32])]"

lemma info_struct_sock_common [c_info]: "info struct_sock_common = (136, 8)"
  by (simp add: struct_sock_common_def c_info)

definition typedef_socket_lock_t :: ctype where
  "typedef_socket_lock_t = Struct [] [
    Mem ''slock'' typedef_spinlock_t, Mem ''owned'' (Scalar Tint), Mem ''wq'' typedef_wait_queue_head_t]"

lemma info_typedef_socket_lock_t [c_info]: "info typedef_socket_lock_t = (32, 8)"
  by (simp add: typedef_socket_lock_t_def c_info)

definition typedef_netdev_features_t :: ctype where
  "typedef_netdev_features_t = typedef_u64"

lemma info_typedef_netdev_features_t [c_info]: "info typedef_netdev_features_t = (8, 8)"
  by (simp add: typedef_netdev_features_t_def c_info)

definition struct_sock_cgroup_data :: ctype where
  "struct_sock_cgroup_data = Struct [] [
    Mem ''cgroup'' (Ptr ''struct cgroup''), Mem ''classid'' typedef_u32, Mem ''prioidx'' typedef_u16]"

lemma info_struct_sock_cgroup_data [c_info]: "info struct_sock_cgroup_data = (16, 8)"
  by (simp add: struct_sock_cgroup_data_def c_info)

definition struct_sock :: ctype where
  "struct_sock = Struct [] [
    Mem ''__sk_common'' struct_sock_common, Mem ''sk_lock'' typedef_socket_lock_t, Mem ''sk_drops'' typedef_atomic_t,
    Mem ''sk_rcvlowat'' (Scalar Tint), Mem ''sk_error_queue'' struct_sk_buff_head,
    Mem ''sk_rx_skb_cache'' (Ptr ''struct sk_buff''), Mem ''sk_receive_queue'' struct_sk_buff_head,
    Mem ''sk_backlog'' (Struct [] [
      Mem ''rmem_alloc'' typedef_atomic_t, Mem ''len'' (Scalar Tint), Mem ''head'' (Ptr ''struct sk_buff''),
      Mem ''tail'' (Ptr ''struct sk_buff'')]),
    Mem ''sk_forward_alloc'' (Scalar Tint), Mem ''sk_ll_usec'' (Scalar Tuint), Mem ''sk_napi_id'' (Scalar Tuint),
    Mem ''sk_rcvbuf'' (Scalar Tint), Mem ''sk_wait_pending'' (Scalar Tint),
    Mem ''sk_filter'' (Ptr ''struct sk_filter''),
    Anon (Union [] [
      Mem ''sk_wq'' (Ptr ''struct socket_wq''), Mem ''sk_wq_raw'' (Ptr ''struct socket_wq'')]),
    Mem ''sk_policy'' (Array (Ptr ''struct xfrm_policy'') 2), Mem ''sk_rx_dst'' (Ptr ''struct dst_entry''),
    Mem ''sk_rx_dst_ifindex'' (Scalar Tint), Mem ''sk_rx_dst_cookie'' typedef_u32,
    Mem ''sk_dst_cache'' (Ptr ''struct dst_entry''), Mem ''sk_omem_alloc'' typedef_atomic_t,
    Mem ''sk_sndbuf'' (Scalar Tint), Mem ''sk_wmem_queued'' (Scalar Tint), Mem ''sk_wmem_alloc'' typedef_refcount_t,
    Mem ''sk_tsq_flags'' (Scalar Tulong),
    Anon (Union [] [
      Mem ''sk_send_head'' (Ptr ''struct sk_buff''), Mem ''tcp_rtx_queue'' struct_rb_root]),
    Mem ''sk_tx_skb_cache'' (Ptr ''struct sk_buff''), Mem ''sk_write_queue'' struct_sk_buff_head,
    Mem ''sk_peek_off'' typedef___s32, Mem ''sk_write_pending'' (Scalar Tint),
    Mem ''sk_dst_pending_confirm'' typedef___u32, Mem ''sk_pacing_status'' typedef_u32,
    Mem ''sk_sndtimeo'' (Scalar Tlong), Mem ''sk_timer'' struct_timer_list, Mem ''sk_priority'' typedef___u32,
    Mem ''sk_mark'' typedef___u32, Mem ''sk_pacing_rate'' (Scalar Tulong), Mem ''sk_max_pacing_rate'' (Scalar Tulong),
    Mem ''sk_frag'' struct_page_frag, Mem ''sk_route_caps'' typedef_netdev_features_t,
    Mem ''sk_route_nocaps'' typedef_netdev_features_t, Mem ''sk_route_forced_caps'' typedef_netdev_features_t,
    Mem ''sk_gso_type'' (Scalar Tint), Mem ''sk_gso_max_size'' (Scalar Tuint), Mem ''sk_allocation'' typedef_gfp_t,
    Mem ''sk_txhash'' typedef___u32, Bits ''sk_padding'' typedef_u8 1, Bits ''sk_kern_sock'' typedef_u8 1,
    Bits ''sk_no_check_tx'' typedef_u8 1, Bits ''sk_no_check_rx'' typedef_u8 1, Bits ''sk_userlocks'' typedef_u8 4,
    Mem ''sk_pacing_shift'' typedef_u8, Mem ''sk_type'' typedef_u16, Mem ''sk_protocol'' typedef_u16,
    Mem ''sk_gso_max_segs'' typedef_u16, Mem ''sk_lingertime'' (Scalar Tulong),
    Mem ''sk_prot_creator'' (Ptr ''struct proto''), Mem ''sk_callback_lock'' typedef_rwlock_t,
    Mem ''sk_err'' (Scalar Tint), Mem ''sk_err_soft'' (Scalar Tint), Mem ''sk_ack_backlog'' typedef_u32,
    Mem ''sk_max_ack_backlog'' typedef_u32, Mem ''sk_uid'' typedef_kuid_t, Mem ''sk_prefer_busy_poll'' typedef_u8,
    Mem ''sk_busy_poll_budget'' typedef_u16, Mem ''sk_peer_lock'' typedef_spinlock_t,
    Mem ''sk_peer_pid'' (Ptr ''struct pid''), Mem ''sk_peer_cred'' (Ptr ''const struct cred''),
    Mem ''sk_rcvtimeo'' (Scalar Tlong), Mem ''sk_stamp'' typedef_ktime_t, Mem ''sk_tsflags'' typedef_u16,
    Mem ''sk_bind_phc'' (Scalar Tint), Mem ''sk_shutdown'' typedef_u8, Mem ''sk_tskey'' typedef_atomic_t,
    Mem ''sk_zckey'' typedef_atomic_t, Mem ''sk_clockid'' typedef_u8, Bits ''sk_txtime_deadline_mode'' typedef_u8 1,
    Bits ''sk_txtime_report_errors'' typedef_u8 1, Bits ''sk_txtime_unused'' typedef_u8 6,
    Mem ''sk_socket'' (Ptr ''struct socket''), Mem ''sk_user_data'' (Ptr ''void''),
    Mem ''sk_security'' (Ptr ''void''), Mem ''sk_cgrp_data'' struct_sock_cgroup_data,
    Mem ''sk_memcg'' (Ptr ''struct mem_cgroup''), Mem ''sk_state_change'' (FunPtr ''void'' [''struct sock *'']),
    Mem ''sk_data_ready'' (FunPtr ''void'' [''struct sock *'']),
    Mem ''sk_write_space'' (FunPtr ''void'' [''struct sock *'']),
    Mem ''sk_error_report'' (FunPtr ''void'' [''struct sock *'']),
    Mem ''sk_backlog_rcv'' (FunPtr ''int'' [''struct sock *'', ''struct sk_buff *'']),
    Mem ''sk_validate_xmit_skb'' (FunPtr ''struct sk_buff *'' [''struct sock *'', ''struct net_device *'', ''struct sk_buff *'']),
    Mem ''sk_destruct'' (FunPtr ''void'' [''struct sock *'']),
    Mem ''sk_reuseport_cb'' (Ptr ''struct sock_reuseport''),
    Mem ''sk_bpf_storage'' (Ptr ''struct bpf_local_storage''), Mem ''sk_rcu'' struct_callback_head]"

lemma info_struct_sock [c_info]: "info struct_sock = (800, 8)"
  by (simp add: struct_sock_def c_info)

definition typedef_u64_stats_t :: ctype where
  "typedef_u64_stats_t = Struct [] [
    Mem ''v'' typedef_local64_t]"

lemma info_typedef_u64_stats_t [c_info]: "info typedef_u64_stats_t = (8, 8)"
  by (simp add: typedef_u64_stats_t_def c_info)

definition typedef_sockptr_t :: ctype where
  "typedef_sockptr_t = Struct [] [
    Anon (Union [] [
      Mem ''kernel'' (Ptr ''void''), Mem ''user'' (Ptr ''void'')]),
    Bits ''is_kernel'' typedef_bool 1]"

lemma info_typedef_sockptr_t [c_info]: "info typedef_sockptr_t = (16, 8)"
  by (simp add: typedef_sockptr_t_def c_info)

definition struct_scatterlist :: ctype where
  "struct_scatterlist = Struct [] [
    Mem ''page_link'' (Scalar Tulong), Mem ''offset'' (Scalar Tuint), Mem ''length'' (Scalar Tuint),
    Mem ''dma_address'' typedef_dma_addr_t, Mem ''dma_length'' (Scalar Tuint)]"

lemma info_struct_scatterlist [c_info]: "info struct_scatterlist = (32, 8)"
  by (simp add: struct_scatterlist_def c_info)

definition struct_xdp_buff :: ctype where
  "struct_xdp_buff = Struct [] [
    Mem ''data'' (Ptr ''void''), Mem ''data_end'' (Ptr ''void''), Mem ''data_meta'' (Ptr ''void''),
    Mem ''data_hard_start'' (Ptr ''void''), Mem ''rxq'' (Ptr ''struct xdp_rxq_info''),
    Mem ''txq'' (Ptr ''struct xdp_txq_info''), Mem ''frame_sz'' typedef_u32]"

lemma info_struct_xdp_buff [c_info]: "info struct_xdp_buff = (56, 8)"
  by (simp add: struct_xdp_buff_def c_info)

definition struct_sk_psock_progs :: ctype where
  "struct_sk_psock_progs = Struct [] [
    Mem ''msg_parser'' (Ptr ''struct bpf_prog''), Mem ''stream_parser'' (Ptr ''struct bpf_prog''),
    Mem ''stream_verdict'' (Ptr ''struct bpf_prog''), Mem ''skb_verdict'' (Ptr ''struct bpf_prog'')]"

lemma info_struct_sk_psock_progs [c_info]: "info struct_sk_psock_progs = (32, 8)"
  by (simp add: struct_sk_psock_progs_def c_info)

definition struct_sk_msg_sg :: ctype where
  "struct_sk_msg_sg = Struct [] [
    Mem ''start'' typedef_u32, Mem ''curr'' typedef_u32, Mem ''end'' typedef_u32, Mem ''size'' typedef_u32,
    Mem ''copybreak'' typedef_u32, Mem ''copy'' (Scalar Tulong), Mem ''data'' (Array struct_scatterlist 19)]"

lemma info_struct_sk_msg_sg [c_info]: "info struct_sk_msg_sg = (640, 8)"
  by (simp add: struct_sk_msg_sg_def c_info)

definition struct_sk_msg :: ctype where
  "struct_sk_msg = Struct [] [
    Mem ''sg'' struct_sk_msg_sg, Mem ''data'' (Ptr ''void''), Mem ''data_end'' (Ptr ''void''),
    Mem ''apply_bytes'' typedef_u32, Mem ''cork_bytes'' typedef_u32, Mem ''flags'' typedef_u32,
    Mem ''skb'' (Ptr ''struct sk_buff''), Mem ''sk_redir'' (Ptr ''struct sock''), Mem ''sk'' (Ptr ''struct sock''),
    Mem ''list'' struct_list_head]"

lemma info_struct_sk_msg [c_info]: "info struct_sk_msg = (712, 8)"
  by (simp add: struct_sk_msg_def c_info)

definition struct_qdisc_skb_cb :: ctype where
  "struct_qdisc_skb_cb = Struct [] [
    Anon (Struct [] [
      Mem ''pkt_len'' (Scalar Tuint), Mem ''slave_dev_queue_mapping'' typedef_u16, Mem ''tc_classid'' typedef_u16]),
    Mem ''data'' (Array (Scalar Tuchar) 20)]"

lemma info_struct_qdisc_skb_cb [c_info]: "info struct_qdisc_skb_cb = (28, 4)"
  by (simp add: struct_qdisc_skb_cb_def c_info)

definition struct_seq_net_private :: ctype where
  "struct_seq_net_private = Struct [] [
    Mem ''net'' (Ptr ''struct net'')]"

lemma info_struct_seq_net_private [c_info]: "info struct_seq_net_private = (8, 8)"
  by (simp add: struct_seq_net_private_def c_info)

definition struct_tcp_iter_state :: ctype where
  "struct_tcp_iter_state = Struct [] [
    Mem ''p'' struct_seq_net_private, Mem ''state'' enum_tcp_seq_states, Mem ''syn_wait_sk'' (Ptr ''struct sock''),
    Mem ''bucket'' (Scalar Tint), Mem ''offset'' (Scalar Tint), Mem ''sbucket'' (Scalar Tint),
    Mem ''num'' (Scalar Tint), Mem ''last_pos'' typedef_loff_t]"

lemma info_struct_tcp_iter_state [c_info]: "info struct_tcp_iter_state = (48, 8)"
  by (simp add: struct_tcp_iter_state_def c_info)

end
