(* ===== verification/Vmlinux_Prog.thy ===== *)
theory Vmlinux_Prog
  imports Vmlinux_Net
begin

text \<open>
  Types of src/internal/sentinel/bpf/vmlinux.h. Programs, the verifier and its state, trampolines and links.
\<close>

definition struct_bpf_run_ctx :: ctype where
  "struct_bpf_run_ctx = Struct [] []"

lemma info_struct_bpf_run_ctx [c_info]: "info struct_bpf_run_ctx = (0, 1)"
  by (simp add: struct_bpf_run_ctx_def c_info)

definition struct_bpf_ksym :: ctype where
  "struct_bpf_ksym = Struct [] [
    Mem ''start'' (Scalar Tulong), Mem ''end'' (Scalar Tulong), Mem ''name'' (Array (Scalar Tchar) 128),
    Mem ''lnode'' struct_list_head, Mem ''tnode'' struct_latch_tree_node, Mem ''prog'' typedef_bool]"

lemma info_struct_bpf_ksym [c_info]: "info struct_bpf_ksym = (216, 8)"
  by (simp add: struct_bpf_ksym_def c_info)

definition struct_bpf_prog_aux :: ctype where
  "struct_bpf_prog_aux = Struct [] [
    Mem ''refcnt'' typedef_atomic64_t, Mem ''used_map_cnt'' typedef_u32, Mem ''used_btf_cnt'' typedef_u32,
    Mem ''max_ctx_offset'' typedef_u32, Mem ''max_pkt_offset'' typedef_u32, Mem ''max_tp_access'' typedef_u32,
    Mem ''stack_depth'' typedef_u32, Mem ''id'' typedef_u32, Mem ''func_cnt'' typedef_u32,
    Mem ''func_idx'' typedef_u32, Mem ''attach_btf_id'' typedef_u32, Mem ''ctx_arg_info_size'' typedef_u32,
    Mem ''max_rdonly_access'' typedef_u32, Mem ''max_rdwr_access'' typedef_u32,
    Mem ''attach_btf'' (Ptr ''struct btf''), Mem ''ctx_arg_info'' (Ptr ''const struct bpf_ctx_arg_aux''),
    Mem ''dst_mutex'' struct_mutex, Mem ''dst_prog'' (Ptr ''struct bpf_prog''),
    Mem ''dst_trampoline'' (Ptr ''struct bpf_trampoline''), Mem ''saved_dst_prog_type'' enum_bpf_prog_type,
    Mem ''saved_dst_attach_type'' enum_bpf_attach_type, Mem ''verifier_zext'' typedef_bool,
    Mem ''offload_requested'' typedef_bool, Mem ''attach_btf_trace'' typedef_bool,
    Mem ''func_proto_unreliable'' typedef_bool, Mem ''sleepable'' typedef_bool,
    Mem ''tail_call_reachable'' typedef_bool, Mem ''tramp_hlist'' struct_hlist_node,
    Mem ''attach_func_proto'' (Ptr ''const struct btf_type''), Mem ''attach_func_name'' (Ptr ''const char''),
    Mem ''func'' (Ptr ''struct bpf_prog *''), Mem ''jit_data'' (Ptr ''void''),
    Mem ''poke_tab'' (Ptr ''struct bpf_jit_poke_descriptor''), Mem ''kfunc_tab'' (Ptr ''struct bpf_kfunc_desc_tab''),
    Mem ''size_poke_tab'' typedef_u32, Mem ''ksym'' struct_bpf_ksym, Mem ''ops'' (Ptr ''const struct bpf_prog_ops''),
    Mem ''used_maps'' (Ptr ''struct bpf_map *''), Mem ''used_maps_mutex'' struct_mutex,
    Mem ''used_btfs'' (Ptr ''struct btf_mod_pair''), Mem ''prog'' (Ptr ''struct bpf_prog''),
    Mem ''user'' (Ptr ''struct user_struct''), Mem ''load_time'' typedef_u64,
    Mem ''cgroup_storage'' (Array (Ptr ''struct bpf_map'') 2), Mem ''name'' (Array (Scalar Tchar) 16),
    Mem ''security'' (Ptr ''void''), Mem ''offload'' (Ptr ''struct bpf_prog_offload''),
    Mem ''btf'' (Ptr ''struct btf''), Mem ''func_info'' (Ptr ''struct bpf_func_info''),
    Mem ''func_info_aux'' (Ptr ''struct bpf_func_info_aux''), Mem ''linfo'' (Ptr ''struct bpf_line_info''),
    Mem ''jited_linfo'' (Ptr ''void *''), Mem ''func_info_cnt'' typedef_u32, Mem ''nr_linfo'' typedef_u32,
    Mem ''linfo_idx'' typedef_u32, Mem ''num_exentries'' typedef_u32,
    Mem ''extable'' (Ptr ''struct exception_table_entry''),
    Anon (Union [] [
      Mem ''work'' struct_work_struct, Mem ''rcu'' struct_callback_head])]"

lemma info_struct_bpf_prog_aux [c_info]: "info struct_bpf_prog_aux = (656, 8)"
  by (simp add: struct_bpf_prog_aux_def c_info)

definition struct_bpf_prog :: ctype where
  "struct_bpf_prog = Struct [] [
    Mem ''pages'' typedef_u16, Bits ''jited'' typedef_u16 1, Bits ''jit_requested'' typedef_u16 1,
    Bits ''gpl_compatible'' typedef_u16 1, Bits ''cb_access'' typedef_u16 1, Bits ''dst_needed'' typedef_u16 1,
    Bits ''blinded'' typedef_u16 1, Bits ''is_func'' typedef_u16 1, Bits ''kprobe_override'' typedef_u16 1,
    Bits ''has_callchain_buf'' typedef_u16 1, Bits ''enforce_expected_attach_type'' typedef_u16 1,
    Bits ''call_get_stack'' typedef_u16 1, Bits ''call_get_func_ip'' typedef_u16 1, Mem ''type'' enum_bpf_prog_type,
    Mem ''expected_attach_type'' enum_bpf_attach_type, Mem ''len'' typedef_u32, Mem ''jited_len'' typedef_u32,
    Mem ''tag'' (Array typedef_u8 8), Mem ''stats'' (Ptr ''struct bpf_prog_stats''), Mem ''active'' (Ptr ''int''),
    Mem ''bpf_func'' (FunPtr ''unsigned int'' [''const void *'', ''const struct bpf_insn *'']),
    Mem ''aux'' (Ptr ''struct bpf_prog_aux''), Mem ''orig_prog'' (Ptr ''struct sock_fprog_kern''),
    Mem ''insns'' (Array struct_sock_filter 0), Mem ''insnsi'' (Array struct_bpf_insn 0)]"

lemma info_struct_bpf_prog [c_info]: "info struct_bpf_prog = (72, 8)"
  by (simp add: struct_bpf_prog_def c_info)

definition struct_bpf_func_proto :: ctype where
  "struct_bpf_func_proto = Struct [] [
    Mem ''func'' (FunPtr ''u64'' [''u64'', ''u64'', ''u64'', ''u64'', ''u64'']), Mem ''gpl_only'' typedef_bool,
    Mem ''pkt_access'' typedef_bool, Mem ''ret_type'' enum_bpf_return_type,
    Anon (Union [] [
      Anon (Struct [] [
        Mem ''arg1_type'' enum_bpf_arg_type, Mem ''arg2_type'' enum_bpf_arg_type, Mem ''arg3_type'' enum_bpf_arg_type,
        Mem ''arg4_type'' enum_bpf_arg_type, Mem ''arg5_type'' enum_bpf_arg_type]),
      Mem ''arg_type'' (Array enum_bpf_arg_type 5)]),
    Anon (Union [] [
      Anon (Struct [] [
        Mem ''arg1_btf_id'' (Ptr ''u32''), Mem ''arg2_btf_id'' (Ptr ''u32''), Mem ''arg3_btf_id'' (Ptr ''u32''),
        Mem ''arg4_btf_id'' (Ptr ''u32''), Mem ''arg5_btf_id'' (Ptr ''u32'')]),
      Mem ''arg_btf_id'' (Array (Ptr ''u32'') 5)]),
    Mem ''ret_btf_id'' (Ptr ''int''), Mem ''allowed'' (FunPtr ''bool'' [''const struct bpf_prog *''])]"

lemma info_struct_bpf_func_proto [c_info]: "info struct_bpf_func_proto = (96, 8)"
  by (simp add: struct_bpf_func_proto_def c_info)

definition struct_bpf_insn_access_aux :: ctype where
  "struct_bpf_insn_access_aux = Struct [] [
    Mem ''reg_type'' enum_bpf_reg_type,
    Anon (Union [] [
      Mem ''ctx_field_size'' (Scalar Tint),
      Anon (Struct [] [
        Mem ''btf'' (Ptr ''struct btf''), Mem ''btf_id'' typedef_u32])]),
    Mem ''log'' (Ptr ''struct bpf_verifier_log'')]"

lemma info_struct_bpf_insn_access_aux [c_info]: "info struct_bpf_insn_access_aux = (32, 8)"
  by (simp add: struct_bpf_insn_access_aux_def c_info)

definition struct_bpf_prog_ops :: ctype where
  "struct_bpf_prog_ops = Struct [] [
    Mem ''test_run'' (FunPtr ''int'' [''struct bpf_prog *'', ''const union bpf_attr *'', ''union bpf_attr *''])]"

lemma info_struct_bpf_prog_ops [c_info]: "info struct_bpf_prog_ops = (8, 8)"
  by (simp add: struct_bpf_prog_ops_def c_info)

definition struct_bpf_verifier_ops :: ctype where
  "struct_bpf_verifier_ops = Struct [] [
    Mem ''get_func_proto'' (FunPtr ''const struct bpf_func_proto *'' [''enum bpf_func_id'', ''const struct bpf_prog *'']),
    Mem ''is_valid_access'' (FunPtr ''bool'' [''int'', ''int'', ''enum bpf_access_type'', ''const struct bpf_prog *'', ''struct bpf_insn_access_aux *'']),
    Mem ''gen_prologue'' (FunPtr ''int'' [''struct bpf_insn *'', ''bool'', ''const struct bpf_prog *'']),
    Mem ''gen_ld_abs'' (FunPtr ''int'' [''const struct bpf_insn *'', ''struct bpf_insn *'']),
    Mem ''convert_ctx_access'' (FunPtr ''u32'' [''enum bpf_access_type'', ''const struct bpf_insn *'', ''struct bpf_insn *'', ''struct bpf_prog *'', ''u32 *'']),
    Mem ''btf_struct_access'' (FunPtr ''int'' [''struct bpf_verifier_log *'', ''const struct btf *'', ''const struct btf_type *'', ''int'', ''int'', ''enum bpf_access_type'', ''u32 *'']),
    Mem ''check_kfunc_call'' (FunPtr ''bool'' [''u32''])]"

lemma info_struct_bpf_verifier_ops [c_info]: "info struct_bpf_verifier_ops = (56, 8)"
  by (simp add: struct_bpf_verifier_ops_def c_info)

definition struct_bpf_prog_offload :: ctype where
  "struct_bpf_prog_offload = Struct [] [
    Mem ''prog'' (Ptr ''struct bpf_prog''), Mem ''netdev'' (Ptr ''struct net_device''),
    Mem ''offdev'' (Ptr ''struct bpf_offload_dev''), Mem ''dev_priv'' (Ptr ''void''),
    Mem ''offloads'' struct_list_head, Mem ''dev_state'' typedef_bool, Mem ''opt_failed'' typedef_bool,
    Mem ''jited_image'' (Ptr ''void''), Mem ''jited_len'' typedef_u32]"

lemma info_struct_bpf_prog_offload [c_info]: "info struct_bpf_prog_offload = (72, 8)"
  by (simp add: struct_bpf_prog_offload_def c_info)

definition struct_bpf_tramp_image :: ctype where
  "struct_bpf_tramp_image = Struct [] [
    Mem ''image'' (Ptr ''void''), Mem ''ksym'' struct_bpf_ksym, Mem ''pcref'' struct_percpu_ref,
    Mem ''ip_after_call'' (Ptr ''void''), Mem ''ip_epilogue'' (Ptr ''void''),
    Anon (Union [] [
      Mem ''rcu'' struct_callback_head, Mem ''work'' struct_work_struct])]"

lemma info_struct_bpf_tramp_image [c_info]: "info struct_bpf_tramp_image = (288, 8)"
  by (simp add: struct_bpf_tramp_image_def c_info)

definition struct_bpf_trampoline :: ctype where
  "struct_bpf_trampoline = Struct [] [
    Mem ''hlist'' struct_hlist_node, Mem ''mutex'' struct_mutex, Mem ''refcnt'' typedef_refcount_t,
    Mem ''key'' typedef_u64,
    Mem ''func'' (Struct [] [
      Mem ''model'' struct_btf_func_model, Mem ''addr'' (Ptr ''void''), Mem ''ftrace_managed'' typedef_bool]),
    Mem ''extension_prog'' (Ptr ''struct bpf_prog''), Mem ''progs_hlist'' (Array struct_hlist_head 3),
    Mem ''progs_cnt'' (Array (Scalar Tint) 3), Mem ''cur_image'' (Ptr ''struct bpf_tramp_image''),
    Mem ''selector'' typedef_u64, Mem ''mod'' (Ptr ''struct module'')]"

lemma info_struct_bpf_trampoline [c_info]: "info struct_bpf_trampoline = (168, 8)"
  by (simp add: struct_bpf_trampoline_def c_info)

definition struct_bpf_func_info_aux :: ctype where
  "struct_bpf_func_info_aux = Struct [] [
    Mem ''linkage'' typedef_u16, Mem ''unreliable'' typedef_bool]"

lemma info_struct_bpf_func_info_aux [c_info]: "info struct_bpf_func_info_aux = (4, 2)"
  by (simp add: struct_bpf_func_info_aux_def c_info)

definition struct_bpf_jit_poke_descriptor :: ctype where
  "struct_bpf_jit_poke_descriptor = Struct [] [
    Mem ''tailcall_target'' (Ptr ''void''), Mem ''tailcall_bypass'' (Ptr ''void''),
    Mem ''bypass_addr'' (Ptr ''void''), Mem ''aux'' (Ptr ''void''),
    Anon (Union [] [
      Mem ''tail_call'' (Struct [] [
        Mem ''map'' (Ptr ''struct bpf_map''), Mem ''key'' typedef_u32])]),
    Mem ''tailcall_target_stable'' typedef_bool, Mem ''adj_off'' typedef_u8, Mem ''reason'' typedef_u16,
    Mem ''insn_idx'' typedef_u32]"

lemma info_struct_bpf_jit_poke_descriptor [c_info]: "info struct_bpf_jit_poke_descriptor = (56, 8)"
  by (simp add: struct_bpf_jit_poke_descriptor_def c_info)

definition struct_bpf_ctx_arg_aux :: ctype where
  "struct_bpf_ctx_arg_aux = Struct [] [
    Mem ''offset'' typedef_u32, Mem ''reg_type'' enum_bpf_reg_type, Mem ''btf_id'' typedef_u32]"

lemma info_struct_bpf_ctx_arg_aux [c_info]: "info struct_bpf_ctx_arg_aux = (12, 4)"
  by (simp add: struct_bpf_ctx_arg_aux_def c_info)

definition struct_bpf_prog_array_item :: ctype where
  "struct_bpf_prog_array_item = Struct [] [
    Mem ''prog'' (Ptr ''struct bpf_prog''),
    Anon (Union [] [
      Mem ''cgroup_storage'' (Array (Ptr ''struct bpf_cgroup_storage'') 2), Mem ''bpf_cookie'' typedef_u64])]"

lemma info_struct_bpf_prog_array_item [c_info]: "info struct_bpf_prog_array_item = (24, 8)"
  by (simp add: struct_bpf_prog_array_item_def c_info)

definition struct_bpf_prog_array :: ctype where
  "struct_bpf_prog_array = Struct [] [
    Mem ''rcu'' struct_callback_head, Mem ''items'' (Array struct_bpf_prog_array_item 0)]"

lemma info_struct_bpf_prog_array [c_info]: "info struct_bpf_prog_array = (16, 8)"
  by (simp add: struct_bpf_prog_array_def c_info)

definition struct_bpf_dispatcher_prog :: ctype where
  "struct_bpf_dispatcher_prog = Struct [] [
    Mem ''prog'' (Ptr ''struct bpf_prog''), Mem ''users'' typedef_refcount_t]"

lemma info_struct_bpf_dispatcher_prog [c_info]: "info struct_bpf_dispatcher_prog = (16, 8)"
  by (simp add: struct_bpf_dispatcher_prog_def c_info)

definition struct_bpf_dispatcher :: ctype where
  "struct_bpf_dispatcher = Struct [] [
    Mem ''mutex'' struct_mutex, Mem ''func'' (Ptr ''void''), Mem ''progs'' (Array struct_bpf_dispatcher_prog 48),
    Mem ''num_progs'' (Scalar Tint), Mem ''image'' (Ptr ''void''), Mem ''image_off'' typedef_u32,
    Mem ''ksym'' struct_bpf_ksym]"

lemma info_struct_bpf_dispatcher [c_info]: "info struct_bpf_dispatcher = (1048, 8)"
  by (simp add: struct_bpf_dispatcher_def c_info)

definition struct_bpf_prog_stats :: ctype where
  "struct_bpf_prog_stats = Struct [] [
    Mem ''cnt'' typedef_u64_stats_t, Mem ''nsecs'' typedef_u64_stats_t, Mem ''misses'' typedef_u64_stats_t,
    Mem ''syncp'' struct_u64_stats_sync, Pad (Scalar Tlong) 64]"

lemma info_struct_bpf_prog_stats [c_info]: "info struct_bpf_prog_stats = (32, 8)"
  by (simp add: struct_bpf_prog_stats_def c_info)

definition struct_bpf_binary_header :: ctype where
  "struct_bpf_binary_header = Struct [] [
    Mem ''pages'' typedef_u32, Pad (Scalar Tlong) 0, Mem ''image'' (Array typedef_u8 0)]"

lemma info_struct_bpf_binary_header [c_info]: "info struct_bpf_binary_header = (8, 4)"
  by (simp add: struct_bpf_binary_header_def c_info)

definition struct_bpf_link :: ctype where
  "struct_bpf_link = Struct [] [
    Mem ''refcnt'' typedef_atomic64_t, Mem ''id'' typedef_u32, Mem ''type'' enum_bpf_link_type,
    Mem ''ops'' (Ptr ''const struct bpf_link_ops''), Mem ''prog'' (Ptr ''struct bpf_prog''),
    Mem ''work'' struct_work_struct]"

lemma info_struct_bpf_link [c_info]: "info struct_bpf_link = (64, 8)"
  by (simp add: struct_bpf_link_def c_info)

definition struct_bpf_link_ops :: ctype where
  "struct_bpf_link_ops = Struct [] [
    Mem ''release'' (FunPtr ''void'' [''struct bpf_link *'']),
    Mem ''dealloc'' (FunPtr ''void'' [''struct bpf_link *'']),
    Mem ''detach'' (FunPtr ''int'' [''struct bpf_link *'']),
    Mem ''update_prog'' (FunPtr ''int'' [''struct bpf_link *'', ''struct bpf_prog *'', ''struct bpf_prog *'']),
    Mem ''show_fdinfo'' (FunPtr ''void'' [''const struct bpf_link *'', ''struct seq_file *'']),
    Mem ''fill_link_info'' (FunPtr ''int'' [''const struct bpf_link *'', ''struct bpf_link_info *''])]"

lemma info_struct_bpf_link_ops [c_info]: "info struct_bpf_link_ops = (48, 8)"
  by (simp add: struct_bpf_link_ops_def c_info)

definition typedef_bpf_dispatcher_fn :: ctype where
  "typedef_bpf_dispatcher_fn = FunPtr ''unsigned int'' [''const void *'', ''const struct bpf_insn *'', ''unsigned int ( * ) ( const void * , const struct bpf_insn * )'']"

lemma info_typedef_bpf_dispatcher_fn [c_info]: "info typedef_bpf_dispatcher_fn = (8, 8)"
  by (simp add: typedef_bpf_dispatcher_fn_def c_info)

definition typedef_bpf_ctx_copy_t :: ctype where
  "typedef_bpf_ctx_copy_t = FunPtr ''long unsigned int'' [''void *'', ''const void *'', ''long unsigned int'', ''long unsigned int'']"

lemma info_typedef_bpf_ctx_copy_t [c_info]: "info typedef_bpf_ctx_copy_t = (8, 8)"
  by (simp add: typedef_bpf_ctx_copy_t_def c_info)

definition typedef_bpf_prog_run_fn :: ctype where
  "typedef_bpf_prog_run_fn = FunPtr ''u32'' [''const struct bpf_prog *'', ''const void *'']"

lemma info_typedef_bpf_prog_run_fn [c_info]: "info typedef_bpf_prog_run_fn = (8, 8)"
  by (simp add: typedef_bpf_prog_run_fn_def c_info)

definition struct_bpf_bprintf_data :: ctype where
  "struct_bpf_bprintf_data = Struct [] [
    Mem ''bin_args'' (Ptr ''u32''), Mem ''buf'' (Ptr ''char''), Mem ''get_bin_args'' typedef_bool,
    Mem ''get_buf'' typedef_bool]"

lemma info_struct_bpf_bprintf_data [c_info]: "info struct_bpf_bprintf_data = (24, 8)"
  by (simp add: struct_bpf_bprintf_data_def c_info)

definition typedef_bpf_jit_fill_hole_t :: ctype where
  "typedef_bpf_jit_fill_hole_t = FunPtr ''void'' [''void *'', ''unsigned int'']"

lemma info_typedef_bpf_jit_fill_hole_t [c_info]: "info typedef_bpf_jit_fill_hole_t = (8, 8)"
  by (simp add: typedef_bpf_jit_fill_hole_t_def c_info)

definition typedef_bpfptr_t :: ctype where
  "typedef_bpfptr_t = typedef_sockptr_t"

lemma info_typedef_bpfptr_t [c_info]: "info typedef_bpfptr_t = (16, 8)"
  by (simp add: typedef_bpfptr_t_def c_info)

definition struct_bpf_verifier_log :: ctype where
  "struct_bpf_verifier_log = Struct [] [
    Mem ''level'' typedef_u32, Mem ''kbuf'' (Array (Scalar Tchar) 1024), Mem ''ubuf'' (Ptr ''char''),
    Mem ''len_used'' typedef_u32, Mem ''len_total'' typedef_u32]"

lemma info_struct_bpf_verifier_log [c_info]: "info struct_bpf_verifier_log = (1048, 8)"
  by (simp add: struct_bpf_verifier_log_def c_info)

definition struct_bpf_subprog_info :: ctype where
  "struct_bpf_subprog_info = Struct [] [
    Mem ''start'' typedef_u32, Mem ''linfo_idx'' typedef_u32, Mem ''stack_depth'' typedef_u16,
    Mem ''has_tail_call'' typedef_bool, Mem ''tail_call_reachable'' typedef_bool, Mem ''has_ld_abs'' typedef_bool,
    Mem ''is_async_cb'' typedef_bool]"

lemma info_struct_bpf_subprog_info [c_info]: "info struct_bpf_subprog_info = (16, 4)"
  by (simp add: struct_bpf_subprog_info_def c_info)

definition struct_bpf_id_pair :: ctype where
  "struct_bpf_id_pair = Struct [] [
    Mem ''old'' typedef_u32, Mem ''cur'' typedef_u32]"

lemma info_struct_bpf_id_pair [c_info]: "info struct_bpf_id_pair = (8, 4)"
  by (simp add: struct_bpf_id_pair_def c_info)

definition struct_bpf_verifier_env :: ctype where
  "struct_bpf_verifier_env = Struct [] [
    Mem ''insn_idx'' typedef_u32, Mem ''prev_insn_idx'' typedef_u32, Mem ''prog'' (Ptr ''struct bpf_prog''),
    Mem ''ops'' (Ptr ''const struct bpf_verifier_ops''), Mem ''head'' (Ptr ''struct bpf_verifier_stack_elem''),
    Mem ''stack_size'' (Scalar Tint), Mem ''strict_alignment'' typedef_bool, Mem ''test_state_freq'' typedef_bool,
    Mem ''cur_state'' (Ptr ''struct bpf_verifier_state''),
    Mem ''explored_states'' (Ptr ''struct bpf_verifier_state_list *''),
    Mem ''free_list'' (Ptr ''struct bpf_verifier_state_list''), Mem ''used_maps'' (Array (Ptr ''struct bpf_map'') 64),
    Mem ''used_btfs'' (Array struct_btf_mod_pair 64), Mem ''used_map_cnt'' typedef_u32,
    Mem ''used_btf_cnt'' typedef_u32, Mem ''id_gen'' typedef_u32, Mem ''explore_alu_limits'' typedef_bool,
    Mem ''allow_ptr_leaks'' typedef_bool, Mem ''allow_uninit_stack'' typedef_bool,
    Mem ''allow_ptr_to_map_access'' typedef_bool, Mem ''bpf_capable'' typedef_bool,
    Mem ''bypass_spec_v1'' typedef_bool, Mem ''bypass_spec_v4'' typedef_bool, Mem ''seen_direct_write'' typedef_bool,
    Mem ''insn_aux_data'' (Ptr ''struct bpf_insn_aux_data''), Mem ''prev_linfo'' (Ptr ''const struct bpf_line_info''),
    Mem ''log'' struct_bpf_verifier_log, Mem ''subprog_info'' (Array struct_bpf_subprog_info 257),
    Mem ''idmap_scratch'' (Array struct_bpf_id_pair 75),
    Mem ''cfg'' (Struct [] [
      Mem ''insn_state'' (Ptr ''int''), Mem ''insn_stack'' (Ptr ''int''), Mem ''cur_stack'' (Scalar Tint)]),
    Mem ''pass_cnt'' typedef_u32, Mem ''subprog_cnt'' typedef_u32, Mem ''prev_insn_processed'' typedef_u32,
    Mem ''insn_processed'' typedef_u32, Mem ''prev_jmps_processed'' typedef_u32, Mem ''jmps_processed'' typedef_u32,
    Mem ''verification_time'' typedef_u64, Mem ''max_states_per_insn'' typedef_u32, Mem ''total_states'' typedef_u32,
    Mem ''peak_states'' typedef_u32, Mem ''longest_mark_read_walk'' typedef_u32, Mem ''fd_array'' typedef_bpfptr_t,
    Mem ''type_str_buf'' (Array (Scalar Tchar) 64)]"

lemma info_struct_bpf_verifier_env [c_info]: "info struct_bpf_verifier_env = (7552, 8)"
  by (simp add: struct_bpf_verifier_env_def c_info)

definition struct_bpf_reg_state :: ctype where
  "struct_bpf_reg_state = Struct [] [
    Mem ''type'' enum_bpf_reg_type, Mem ''off'' typedef_s32,
    Anon (Union [] [
      Mem ''range'' (Scalar Tint),
      Anon (Struct [] [
        Mem ''map_ptr'' (Ptr ''struct bpf_map''), Mem ''map_uid'' typedef_u32]),
      Anon (Struct [] [
        Mem ''btf'' (Ptr ''struct btf''), Mem ''btf_id'' typedef_u32]),
      Mem ''mem_size'' typedef_u32,
      Mem ''raw'' (Struct [] [
        Mem ''raw1'' (Scalar Tulong), Mem ''raw2'' (Scalar Tulong)]),
      Mem ''subprogno'' typedef_u32]),
    Mem ''id'' typedef_u32, Mem ''ref_obj_id'' typedef_u32, Mem ''var_off'' struct_tnum,
    Mem ''smin_value'' typedef_s64, Mem ''smax_value'' typedef_s64, Mem ''umin_value'' typedef_u64,
    Mem ''umax_value'' typedef_u64, Mem ''s32_min_value'' typedef_s32, Mem ''s32_max_value'' typedef_s32,
    Mem ''u32_min_value'' typedef_u32, Mem ''u32_max_value'' typedef_u32,
    Mem ''parent'' (Ptr ''struct bpf_reg_state''), Mem ''frameno'' typedef_u32, Mem ''subreg_def'' typedef_s32,
    Mem ''live'' enum_bpf_reg_liveness, Mem ''precise'' typedef_bool]"

lemma info_struct_bpf_reg_state [c_info]: "info struct_bpf_reg_state = (120, 8)"
  by (simp add: struct_bpf_reg_state_def c_info)

definition struct_bpf_func_state :: ctype where
  "struct_bpf_func_state = Struct [] [
    Mem ''regs'' (Array struct_bpf_reg_state 11), Mem ''callsite'' (Scalar Tint), Mem ''frameno'' typedef_u32,
    Mem ''subprogno'' typedef_u32, Mem ''async_entry_cnt'' typedef_u32, Mem ''in_callback_fn'' typedef_bool,
    Mem ''in_async_callback_fn'' typedef_bool, Mem ''acquired_refs'' (Scalar Tint),
    Mem ''refs'' (Ptr ''struct bpf_reference_state''), Mem ''allocated_stack'' (Scalar Tint),
    Mem ''stack'' (Ptr ''struct bpf_stack_state'')]"

lemma info_struct_bpf_func_state [c_info]: "info struct_bpf_func_state = (1368, 8)"
  by (simp add: struct_bpf_func_state_def c_info)

definition struct_bpf_attach_target_info :: ctype where
  "struct_bpf_attach_target_info = Struct [] [
    Mem ''fmodel'' struct_btf_func_model, Mem ''tgt_addr'' (Scalar Tlong), Mem ''tgt_name'' (Ptr ''const char''),
    Mem ''tgt_type'' (Ptr ''const struct btf_type'')]"

lemma info_struct_bpf_attach_target_info [c_info]: "info struct_bpf_attach_target_info = (40, 8)"
  by (simp add: struct_bpf_attach_target_info_def c_info)

definition struct_bpf_link_primer :: ctype where
  "struct_bpf_link_primer = Struct [] [
    Mem ''link'' (Ptr ''struct bpf_link''), Mem ''file'' (Ptr ''struct file''), Mem ''fd'' (Scalar Tint),
    Mem ''id'' typedef_u32]"

lemma info_struct_bpf_link_primer [c_info]: "info struct_bpf_link_primer = (24, 8)"
  by (simp add: struct_bpf_link_primer_def c_info)

definition struct_bpf_stack_state :: ctype where
  "struct_bpf_stack_state = Struct [] [
    Mem ''spilled_ptr'' struct_bpf_reg_state, Mem ''slot_type'' (Array typedef_u8 8)]"

lemma info_struct_bpf_stack_state [c_info]: "info struct_bpf_stack_state = (128, 8)"
  by (simp add: struct_bpf_stack_state_def c_info)

definition struct_bpf_reference_state :: ctype where
  "struct_bpf_reference_state = Struct [] [
    Mem ''id'' (Scalar Tint), Mem ''insn_idx'' (Scalar Tint), Mem ''callback_ref'' (Scalar Tint)]"

lemma info_struct_bpf_reference_state [c_info]: "info struct_bpf_reference_state = (12, 4)"
  by (simp add: struct_bpf_reference_state_def c_info)

definition struct_bpf_idx_pair :: ctype where
  "struct_bpf_idx_pair = Struct [] [
    Mem ''prev_idx'' typedef_u32, Mem ''idx'' typedef_u32]"

lemma info_struct_bpf_idx_pair [c_info]: "info struct_bpf_idx_pair = (8, 4)"
  by (simp add: struct_bpf_idx_pair_def c_info)

definition struct_bpf_verifier_state :: ctype where
  "struct_bpf_verifier_state = Struct [] [
    Mem ''frame'' (Array (Ptr ''struct bpf_func_state'') 8), Mem ''parent'' (Ptr ''struct bpf_verifier_state''),
    Mem ''branches'' typedef_u32, Mem ''insn_idx'' typedef_u32, Mem ''curframe'' typedef_u32,
    Mem ''active_spin_lock'' typedef_u32, Mem ''speculative'' typedef_bool, Mem ''first_insn_idx'' typedef_u32,
    Mem ''last_insn_idx'' typedef_u32, Mem ''jmp_history'' (Ptr ''struct bpf_idx_pair''),
    Mem ''jmp_history_cnt'' typedef_u32]"

lemma info_struct_bpf_verifier_state [c_info]: "info struct_bpf_verifier_state = (120, 8)"
  by (simp add: struct_bpf_verifier_state_def c_info)

definition struct_bpf_verifier_state_list :: ctype where
  "struct_bpf_verifier_state_list = Struct [] [
    Mem ''state'' struct_bpf_verifier_state, Mem ''next'' (Ptr ''struct bpf_verifier_state_list''),
    Mem ''miss_cnt'' (Scalar Tint), Mem ''hit_cnt'' (Scalar Tint)]"

lemma info_struct_bpf_verifier_state_list [c_info]: "info struct_bpf_verifier_state_list = (136, 8)"
  by (simp add: struct_bpf_verifier_state_list_def c_info)

definition struct_bpf_insn_aux_data :: ctype where
  "struct_bpf_insn_aux_data = Struct [] [
    Anon (Union [] [
      Mem ''ptr_type'' enum_bpf_reg_type, Mem ''map_ptr_state'' (Scalar Tulong), Mem ''call_imm'' typedef_s32,
      Mem ''alu_limit'' typedef_u32,
      Anon (Struct [] [
        Mem ''map_index'' typedef_u32, Mem ''map_off'' typedef_u32]),
      Mem ''btf_var'' (Struct [] [
        Mem ''reg_type'' enum_bpf_reg_type,
        Anon (Union [] [
          Anon (Struct [] [
            Mem ''btf'' (Ptr ''struct btf''), Mem ''btf_id'' typedef_u32]),
          Mem ''mem_size'' typedef_u32])])]),
    Mem ''map_key_state'' typedef_u64, Mem ''ctx_field_size'' (Scalar Tint), Mem ''seen'' typedef_u32,
    Mem ''sanitize_stack_spill'' typedef_bool, Mem ''zext_dst'' typedef_bool, Mem ''alu_state'' typedef_u8,
    Mem ''orig_idx'' (Scalar Tuint), Mem ''prune_point'' typedef_bool]"

lemma info_struct_bpf_insn_aux_data [c_info]: "info struct_bpf_insn_aux_data = (56, 8)"
  by (simp add: struct_bpf_insn_aux_data_def c_info)

definition struct_bpf_prog_kstats :: ctype where
  "struct_bpf_prog_kstats = Struct [] [
    Mem ''nsecs'' typedef_u64, Mem ''cnt'' typedef_u64, Mem ''misses'' typedef_u64]"

lemma info_struct_bpf_prog_kstats [c_info]: "info struct_bpf_prog_kstats = (24, 8)"
  by (simp add: struct_bpf_prog_kstats_def c_info)

definition struct_bpf_tracing_link :: ctype where
  "struct_bpf_tracing_link = Struct [] [
    Mem ''link'' struct_bpf_link, Mem ''attach_type'' enum_bpf_attach_type,
    Mem ''trampoline'' (Ptr ''struct bpf_trampoline''), Mem ''tgt_prog'' (Ptr ''struct bpf_prog'')]"

lemma info_struct_bpf_tracing_link [c_info]: "info struct_bpf_tracing_link = (88, 8)"
  by (simp add: struct_bpf_tracing_link_def c_info)

definition struct_bpf_kfunc_desc :: ctype where
  "struct_bpf_kfunc_desc = Struct [] [
    Mem ''func_model'' struct_btf_func_model, Mem ''func_id'' typedef_u32, Mem ''imm'' typedef_s32]"

lemma info_struct_bpf_kfunc_desc [c_info]: "info struct_bpf_kfunc_desc = (24, 4)"
  by (simp add: struct_bpf_kfunc_desc_def c_info)

definition struct_bpf_kfunc_desc_tab :: ctype where
  "struct_bpf_kfunc_desc_tab = Struct [] [
    Mem ''descs'' (Array struct_bpf_kfunc_desc 256), Mem ''nr_descs'' typedef_u32]"

lemma info_struct_bpf_kfunc_desc_tab [c_info]: "info struct_bpf_kfunc_desc_tab = (6148, 4)"
  by (simp add: struct_bpf_kfunc_desc_tab_def c_info)

definition struct_bpf_verifier_stack_elem :: ctype where
  "struct_bpf_verifier_stack_elem = Struct [] [
    Mem ''st'' struct_bpf_verifier_state, Mem ''insn_idx'' (Scalar Tint), Mem ''prev_insn_idx'' (Scalar Tint),
    Mem ''next'' (Ptr ''struct bpf_verifier_stack_elem''), Mem ''log_pos'' typedef_u32]"

lemma info_struct_bpf_verifier_stack_elem [c_info]: "info struct_bpf_verifier_stack_elem = (144, 8)"
  by (simp add: struct_bpf_verifier_stack_elem_def c_info)

definition typedef_bpf_insn_print_t :: ctype where
  "typedef_bpf_insn_print_t = FunPtr ''void'' [''void *'', ''const char *'', ''...'']"

lemma info_typedef_bpf_insn_print_t [c_info]: "info typedef_bpf_insn_print_t = (8, 8)"
  by (simp add: typedef_bpf_insn_print_t_def c_info)

definition typedef_bpf_insn_revmap_call_t :: ctype where
  "typedef_bpf_insn_revmap_call_t = FunPtr ''const char *'' [''void *'', ''const struct bpf_insn *'']"

lemma info_typedef_bpf_insn_revmap_call_t [c_info]: "info typedef_bpf_insn_revmap_call_t = (8, 8)"
  by (simp add: typedef_bpf_insn_revmap_call_t_def c_info)

definition typedef_bpf_insn_print_imm_t :: ctype where
  "typedef_bpf_insn_print_imm_t = FunPtr ''const char *'' [''void *'', ''const struct bpf_insn *'', ''__u64'']"

lemma info_typedef_bpf_insn_print_imm_t [c_info]: "info typedef_bpf_insn_print_imm_t = (8, 8)"
  by (simp add: typedef_bpf_insn_print_imm_t_def c_info)

definition struct_bpf_insn_cbs :: ctype where
  "struct_bpf_insn_cbs = Struct [] [
    Mem ''cb_print'' typedef_bpf_insn_print_t, Mem ''cb_call'' typedef_bpf_insn_revmap_call_t,
    Mem ''cb_imm'' typedef_bpf_insn_print_imm_t, Mem ''private_data'' (Ptr ''void'')]"

lemma info_struct_bpf_insn_cbs [c_info]: "info struct_bpf_insn_cbs = (32, 8)"
  by (simp add: struct_bpf_insn_cbs_def c_info)

definition struct_bpf_call_arg_meta :: ctype where
  "struct_bpf_call_arg_meta = Struct [] [
    Mem ''map_ptr'' (Ptr ''struct bpf_map''), Mem ''raw_mode'' typedef_bool, Mem ''pkt_access'' typedef_bool,
    Mem ''regno'' (Scalar Tint), Mem ''access_size'' (Scalar Tint), Mem ''mem_size'' (Scalar Tint),
    Mem ''msize_max_value'' typedef_u64, Mem ''ref_obj_id'' (Scalar Tint), Mem ''map_uid'' (Scalar Tint),
    Mem ''func_id'' (Scalar Tint), Mem ''btf'' (Ptr ''struct btf''), Mem ''btf_id'' typedef_u32,
    Mem ''ret_btf'' (Ptr ''struct btf''), Mem ''ret_btf_id'' typedef_u32, Mem ''subprogno'' typedef_u32]"

lemma info_struct_bpf_call_arg_meta [c_info]: "info struct_bpf_call_arg_meta = (80, 8)"
  by (simp add: struct_bpf_call_arg_meta_def c_info)

definition struct_bpf_reg_types :: ctype where
  "struct_bpf_reg_types = Struct [] [
    Mem ''types'' (Array enum_bpf_reg_type 10), Mem ''btf_id'' (Ptr ''u32'')]"

lemma info_struct_bpf_reg_types [c_info]: "info struct_bpf_reg_types = (48, 8)"
  by (simp add: struct_bpf_reg_types_def c_info)

definition struct_bpf_sanitize_info :: ctype where
  "struct_bpf_sanitize_info = Struct [] [
    Mem ''aux'' struct_bpf_insn_aux_data, Mem ''mask_to_left'' typedef_bool]"

lemma info_struct_bpf_sanitize_info [c_info]: "info struct_bpf_sanitize_info = (64, 8)"
  by (simp add: struct_bpf_sanitize_info_def c_info)

definition struct_bpf_preload_info :: ctype where
  "struct_bpf_preload_info = Struct [] [
    Mem ''link_name'' (Array (Scalar Tchar) 16), Mem ''link_id'' (Scalar Tint)]"

lemma info_struct_bpf_preload_info [c_info]: "info struct_bpf_preload_info = (20, 4)"
  by (simp add: struct_bpf_preload_info_def c_info)

definition struct_bpf_preload_ops :: ctype where
  "struct_bpf_preload_ops = Struct [] [
    Mem ''info'' struct_umd_info, Mem ''preload'' (FunPtr ''int'' [''struct bpf_preload_info *'']),
    Mem ''finish'' (FunPtr ''int'' [''void'']), Mem ''owner'' (Ptr ''struct module'')]"

lemma info_struct_bpf_preload_ops [c_info]: "info struct_bpf_preload_ops = (72, 8)"
  by (simp add: struct_bpf_preload_ops_def c_info)

definition struct_bpf_mount_opts :: ctype where
  "struct_bpf_mount_opts = Struct [] [
    Mem ''mode'' typedef_umode_t]"

lemma info_struct_bpf_mount_opts [c_info]: "info struct_bpf_mount_opts = (2, 2)"
  by (simp add: struct_bpf_mount_opts_def c_info)

definition struct_bpf_cg_run_ctx :: ctype where
  "struct_bpf_cg_run_ctx = Struct [] [
    Mem ''run_ctx'' struct_bpf_run_ctx, Mem ''prog_item'' (Ptr ''const struct bpf_prog_array_item'')]"

lemma info_struct_bpf_cg_run_ctx [c_info]: "info struct_bpf_cg_run_ctx = (8, 8)"
  by (simp add: struct_bpf_cg_run_ctx_def c_info)

definition struct_bpf_bprintf_buffers :: ctype where
  "struct_bpf_bprintf_buffers = Struct [] [
    Mem ''bin_args'' (Array (Scalar Tchar) 512), Mem ''buf'' (Array (Scalar Tchar) 1024)]"

lemma info_struct_bpf_bprintf_buffers [c_info]: "info struct_bpf_bprintf_buffers = (1536, 1)"
  by (simp add: struct_bpf_bprintf_buffers_def c_info)

definition struct_bpf_tramp_progs :: ctype where
  "struct_bpf_tramp_progs = Struct [] [
    Mem ''progs'' (Array (Ptr ''struct bpf_prog'') 38), Mem ''nr_progs'' (Scalar Tint)]"

lemma info_struct_bpf_tramp_progs [c_info]: "info struct_bpf_tramp_progs = (312, 8)"
  by (simp add: struct_bpf_tramp_progs_def c_info)

definition struct_bpf_flow_dissector :: ctype where
  "struct_bpf_flow_dissector = Struct [] [
    Mem ''flow_keys'' (Ptr ''struct bpf_flow_keys''), Mem ''skb'' (Ptr ''const struct sk_buff''),
    Mem ''data'' (Ptr ''const void''), Mem ''data_end'' (Ptr ''const void'')]"

lemma info_struct_bpf_flow_dissector [c_info]: "info struct_bpf_flow_dissector = (32, 8)"
  by (simp add: struct_bpf_flow_dissector_def c_info)

definition struct_bpf_sysctl_kern :: ctype where
  "struct_bpf_sysctl_kern = Struct [] [
    Mem ''head'' (Ptr ''struct ctl_table_header''), Mem ''table'' (Ptr ''struct ctl_table''),
    Mem ''cur_val'' (Ptr ''void''), Mem ''cur_len'' typedef_size_t, Mem ''new_val'' (Ptr ''void''),
    Mem ''new_len'' typedef_size_t, Mem ''new_updated'' (Scalar Tint), Mem ''write'' (Scalar Tint),
    Mem ''ppos'' (Ptr ''loff_t''), Mem ''tmp_reg'' typedef_u64]"

lemma info_struct_bpf_sysctl_kern [c_info]: "info struct_bpf_sysctl_kern = (72, 8)"
  by (simp add: struct_bpf_sysctl_kern_def c_info)

definition struct_bpf_prog_offload_ops :: ctype where
  "struct_bpf_prog_offload_ops = Struct [] [
    Mem ''insn_hook'' (FunPtr ''int'' [''struct bpf_verifier_env *'', ''int'', ''int'']),
    Mem ''finalize'' (FunPtr ''int'' [''struct bpf_verifier_env *'']),
    Mem ''replace_insn'' (FunPtr ''int'' [''struct bpf_verifier_env *'', ''u32'', ''struct bpf_insn *'']),
    Mem ''remove_insns'' (FunPtr ''int'' [''struct bpf_verifier_env *'', ''u32'', ''u32'']),
    Mem ''prepare'' (FunPtr ''int'' [''struct bpf_prog *'']),
    Mem ''translate'' (FunPtr ''int'' [''struct bpf_prog *'']),
    Mem ''destroy'' (FunPtr ''void'' [''struct bpf_prog *''])]"

lemma info_struct_bpf_prog_offload_ops [c_info]: "info struct_bpf_prog_offload_ops = (56, 8)"
  by (simp add: struct_bpf_prog_offload_ops_def c_info)

definition typedef_bpf_aux_classic_check_t :: ctype where
  "typedef_bpf_aux_classic_check_t = FunPtr ''int'' [''struct sock_filter *'', ''unsigned int'']"

lemma info_typedef_bpf_aux_classic_check_t [c_info]: "info typedef_bpf_aux_classic_check_t = (8, 8)"
  by (simp add: typedef_bpf_aux_classic_check_t_def c_info)

definition struct_bpf_scratchpad :: ctype where
  "struct_bpf_scratchpad = Struct [] [
    Anon (Union [] [
      Mem ''diff'' (Array typedef___be32 128), Mem ''buff'' (Array typedef_u8 512)])]"

lemma info_struct_bpf_scratchpad [c_info]: "info struct_bpf_scratchpad = (512, 4)"
  by (simp add: struct_bpf_scratchpad_def c_info)

end
