(* ===== verification/Vmlinux_Map.thy ===== *)
theory Vmlinux_Map
  imports Vmlinux_Prog
begin

text \<open>
  Types of src/internal/sentinel/bpf/vmlinux.h. Maps: the common header, the map kinds, ring buffer and timer among them, local storage and
  the iterators over maps.
\<close>

definition typedef_bpf_iter_init_seq_priv_t :: ctype where
  "typedef_bpf_iter_init_seq_priv_t = FunPtr ''int'' [''void *'', ''struct bpf_iter_aux_info *'']"

lemma info_typedef_bpf_iter_init_seq_priv_t [c_info]: "info typedef_bpf_iter_init_seq_priv_t = (8, 8)"
  by (simp add: typedef_bpf_iter_init_seq_priv_t_def c_info)

definition struct_bpf_iter_aux_info :: ctype where
  "struct_bpf_iter_aux_info = Struct [] [
    Mem ''map'' (Ptr ''struct bpf_map'')]"

lemma info_struct_bpf_iter_aux_info [c_info]: "info struct_bpf_iter_aux_info = (8, 8)"
  by (simp add: struct_bpf_iter_aux_info_def c_info)

definition typedef_bpf_iter_fini_seq_priv_t :: ctype where
  "typedef_bpf_iter_fini_seq_priv_t = FunPtr ''void'' [''void *'']"

lemma info_typedef_bpf_iter_fini_seq_priv_t [c_info]: "info typedef_bpf_iter_fini_seq_priv_t = (8, 8)"
  by (simp add: typedef_bpf_iter_fini_seq_priv_t_def c_info)

definition struct_bpf_iter_seq_info :: ctype where
  "struct_bpf_iter_seq_info = Struct [] [
    Mem ''seq_ops'' (Ptr ''const struct seq_operations''), Mem ''init_seq_private'' typedef_bpf_iter_init_seq_priv_t,
    Mem ''fini_seq_private'' typedef_bpf_iter_fini_seq_priv_t, Mem ''seq_priv_size'' typedef_u32]"

lemma info_struct_bpf_iter_seq_info [c_info]: "info struct_bpf_iter_seq_info = (32, 8)"
  by (simp add: struct_bpf_iter_seq_info_def c_info)

definition struct_bpf_map_ops :: ctype where
  "struct_bpf_map_ops = Struct [] [
    Mem ''map_alloc_check'' (FunPtr ''int'' [''union bpf_attr *'']),
    Mem ''map_alloc'' (FunPtr ''struct bpf_map *'' [''union bpf_attr *'']),
    Mem ''map_release'' (FunPtr ''void'' [''struct bpf_map *'', ''struct file *'']),
    Mem ''map_free'' (FunPtr ''void'' [''struct bpf_map *'']),
    Mem ''map_get_next_key'' (FunPtr ''int'' [''struct bpf_map *'', ''void *'', ''void *'']),
    Mem ''map_release_uref'' (FunPtr ''void'' [''struct bpf_map *'']),
    Mem ''map_lookup_elem_sys_only'' (FunPtr ''void *'' [''struct bpf_map *'', ''void *'']),
    Mem ''map_lookup_batch'' (FunPtr ''int'' [''struct bpf_map *'', ''const union bpf_attr *'', ''union bpf_attr *'']),
    Mem ''map_lookup_and_delete_elem'' (FunPtr ''int'' [''struct bpf_map *'', ''void *'', ''void *'', ''u64'']),
    Mem ''map_lookup_and_delete_batch'' (FunPtr ''int'' [''struct bpf_map *'', ''const union bpf_attr *'', ''union bpf_attr *'']),
    Mem ''map_update_batch'' (FunPtr ''int'' [''struct bpf_map *'', ''const union bpf_attr *'', ''union bpf_attr *'']),
    Mem ''map_delete_batch'' (FunPtr ''int'' [''struct bpf_map *'', ''const union bpf_attr *'', ''union bpf_attr *'']),
    Mem ''map_lookup_elem'' (FunPtr ''void *'' [''struct bpf_map *'', ''void *'']),
    Mem ''map_update_elem'' (FunPtr ''int'' [''struct bpf_map *'', ''void *'', ''void *'', ''u64'']),
    Mem ''map_delete_elem'' (FunPtr ''int'' [''struct bpf_map *'', ''void *'']),
    Mem ''map_push_elem'' (FunPtr ''int'' [''struct bpf_map *'', ''void *'', ''u64'']),
    Mem ''map_pop_elem'' (FunPtr ''int'' [''struct bpf_map *'', ''void *'']),
    Mem ''map_peek_elem'' (FunPtr ''int'' [''struct bpf_map *'', ''void *'']),
    Mem ''map_fd_get_ptr'' (FunPtr ''void *'' [''struct bpf_map *'', ''struct file *'', ''int'']),
    Mem ''map_fd_put_ptr'' (FunPtr ''void'' [''struct bpf_map *'', ''void *'', ''bool'']),
    Mem ''map_gen_lookup'' (FunPtr ''int'' [''struct bpf_map *'', ''struct bpf_insn *'']),
    Mem ''map_fd_sys_lookup_elem'' (FunPtr ''u32'' [''void *'']),
    Mem ''map_seq_show_elem'' (FunPtr ''void'' [''struct bpf_map *'', ''void *'', ''struct seq_file *'']),
    Mem ''map_check_btf'' (FunPtr ''int'' [''const struct bpf_map *'', ''const struct btf *'', ''const struct btf_type *'', ''const struct btf_type *'']),
    Mem ''map_poke_track'' (FunPtr ''int'' [''struct bpf_map *'', ''struct bpf_prog_aux *'']),
    Mem ''map_poke_untrack'' (FunPtr ''void'' [''struct bpf_map *'', ''struct bpf_prog_aux *'']),
    Mem ''map_poke_run'' (FunPtr ''void'' [''struct bpf_map *'', ''u32'', ''struct bpf_prog *'', ''struct bpf_prog *'']),
    Mem ''map_direct_value_addr'' (FunPtr ''int'' [''const struct bpf_map *'', ''u64 *'', ''u32'']),
    Mem ''map_direct_value_meta'' (FunPtr ''int'' [''const struct bpf_map *'', ''u64'', ''u32 *'']),
    Mem ''map_mmap'' (FunPtr ''int'' [''struct bpf_map *'', ''struct vm_area_struct *'']),
    Mem ''map_poll'' (FunPtr ''__poll_t'' [''struct bpf_map *'', ''struct file *'', ''struct poll_table_struct *'']),
    Mem ''map_local_storage_charge'' (FunPtr ''int'' [''struct bpf_local_storage_map *'', ''void *'', ''u32'']),
    Mem ''map_local_storage_uncharge'' (FunPtr ''void'' [''struct bpf_local_storage_map *'', ''void *'', ''u32'']),
    Mem ''map_owner_storage_ptr'' (FunPtr ''struct bpf_local_storage * *'' [''void *'']),
    Mem ''map_redirect'' (FunPtr ''int'' [''struct bpf_map *'', ''u32'', ''u64'']),
    Mem ''map_meta_equal'' (FunPtr ''bool'' [''const struct bpf_map *'', ''const struct bpf_map *'']),
    Mem ''map_set_for_each_callback_args'' (FunPtr ''int'' [''struct bpf_verifier_env *'', ''struct bpf_func_state *'', ''struct bpf_func_state *'']),
    Mem ''map_for_each_callback'' (FunPtr ''int'' [''struct bpf_map *'', ''void *'', ''void *'', ''u64'']),
    Mem ''map_btf_name'' (Ptr ''const char''), Mem ''map_btf_id'' (Ptr ''int''),
    Mem ''iter_seq_info'' (Ptr ''const struct bpf_iter_seq_info'')]"

lemma info_struct_bpf_map_ops [c_info]: "info struct_bpf_map_ops = (328, 8)"
  by (simp add: struct_bpf_map_ops_def c_info)

definition struct_bpf_map :: ctype where
  "struct_bpf_map = Struct [] [
    Mem ''ops'' (Ptr ''const struct bpf_map_ops''), Mem ''inner_map_meta'' (Ptr ''struct bpf_map''),
    Mem ''security'' (Ptr ''void''), Mem ''map_type'' enum_bpf_map_type, Mem ''key_size'' typedef_u32,
    Mem ''value_size'' typedef_u32, Mem ''max_entries'' typedef_u32, Mem ''map_flags'' typedef_u32,
    Mem ''spin_lock_off'' (Scalar Tint), Mem ''timer_off'' (Scalar Tint), Mem ''id'' typedef_u32,
    Mem ''numa_node'' (Scalar Tint), Mem ''btf_key_type_id'' typedef_u32, Mem ''btf_value_type_id'' typedef_u32,
    Mem ''btf'' (Ptr ''struct btf''), Mem ''memcg'' (Ptr ''struct mem_cgroup''),
    Mem ''name'' (Array (Scalar Tchar) 16), Mem ''btf_vmlinux_value_type_id'' typedef_u32,
    Mem ''bypass_spec_v1'' typedef_bool, Mem ''frozen'' typedef_bool, Pad (Scalar Tlong) 64, Pad (Scalar Tlong) 64,
    Mem ''refcnt'' typedef_atomic64_t, Mem ''usercnt'' typedef_atomic64_t,
    Anon (Union [] [
      Mem ''work'' struct_work_struct, Mem ''rcu'' struct_callback_head]),
    Mem ''freeze_mutex'' struct_mutex, Mem ''writecnt'' typedef_atomic64_t,
    Mem ''free_after_mult_rcu_gp'' typedef_bool, Pad (Scalar Tlong) 64, Pad (Scalar Tlong) 64, Pad (Scalar Tlong) 64,
    Pad (Scalar Tlong) 64]"

lemma info_struct_bpf_map [c_info]: "info struct_bpf_map = (256, 8)"
  by (simp add: struct_bpf_map_def c_info)

definition struct_bpf_cgroup_storage :: ctype where
  "struct_bpf_cgroup_storage = Struct [] [
    Anon (Union [] [
      Mem ''buf'' (Ptr ''struct bpf_storage_buffer''), Mem ''percpu_buf'' (Ptr ''void'')]),
    Mem ''map'' (Ptr ''struct bpf_cgroup_storage_map''), Mem ''key'' struct_bpf_cgroup_storage_key,
    Mem ''list_map'' struct_list_head, Mem ''list_cg'' struct_list_head, Mem ''node'' struct_rb_node,
    Mem ''rcu'' struct_callback_head]"

lemma info_struct_bpf_cgroup_storage [c_info]: "info struct_bpf_cgroup_storage = (104, 8)"
  by (simp add: struct_bpf_cgroup_storage_def c_info)

definition struct_bpf_storage_buffer :: ctype where
  "struct_bpf_storage_buffer = Struct [] [
    Mem ''rcu'' struct_callback_head, Mem ''data'' (Array (Scalar Tchar) 0)]"

lemma info_struct_bpf_storage_buffer [c_info]: "info struct_bpf_storage_buffer = (16, 8)"
  by (simp add: struct_bpf_storage_buffer_def c_info)

definition struct_bpf_map_dev_ops :: ctype where
  "struct_bpf_map_dev_ops = Struct [] [
    Mem ''map_get_next_key'' (FunPtr ''int'' [''struct bpf_offloaded_map *'', ''void *'', ''void *'']),
    Mem ''map_lookup_elem'' (FunPtr ''int'' [''struct bpf_offloaded_map *'', ''void *'', ''void *'']),
    Mem ''map_update_elem'' (FunPtr ''int'' [''struct bpf_offloaded_map *'', ''void *'', ''void *'', ''u64'']),
    Mem ''map_delete_elem'' (FunPtr ''int'' [''struct bpf_offloaded_map *'', ''void *''])]"

lemma info_struct_bpf_map_dev_ops [c_info]: "info struct_bpf_map_dev_ops = (32, 8)"
  by (simp add: struct_bpf_map_dev_ops_def c_info)

definition struct_bpf_offloaded_map :: ctype where
  "struct_bpf_offloaded_map = Struct [] [
    Mem ''map'' struct_bpf_map, Mem ''netdev'' (Ptr ''struct net_device''),
    Mem ''dev_ops'' (Ptr ''const struct bpf_map_dev_ops''), Mem ''dev_priv'' (Ptr ''void''),
    Mem ''offloads'' struct_list_head, Pad (Scalar Tlong) 64, Pad (Scalar Tlong) 64, Pad (Scalar Tlong) 64]"

lemma info_struct_bpf_offloaded_map [c_info]: "info struct_bpf_offloaded_map = (320, 8)"
  by (simp add: struct_bpf_offloaded_map_def c_info)

definition struct_bpf_local_storage :: ctype where
  "struct_bpf_local_storage = Struct [] [
    Mem ''cache'' (Array (Ptr ''struct bpf_local_storage_data'') 16), Mem ''list'' struct_hlist_head,
    Mem ''owner'' (Ptr ''void''), Mem ''rcu'' struct_callback_head, Mem ''lock'' typedef_raw_spinlock_t]"

lemma info_struct_bpf_local_storage [c_info]: "info struct_bpf_local_storage = (168, 8)"
  by (simp add: struct_bpf_local_storage_def c_info)

definition struct_bpf_local_storage_map :: ctype where
  "struct_bpf_local_storage_map = Struct [] [
    Mem ''map'' struct_bpf_map, Mem ''buckets'' (Ptr ''struct bpf_local_storage_map_bucket''),
    Mem ''bucket_log'' typedef_u32, Mem ''elem_size'' typedef_u16, Mem ''cache_idx'' typedef_u16,
    Pad (Scalar Tlong) 64, Pad (Scalar Tlong) 64, Pad (Scalar Tlong) 64, Pad (Scalar Tlong) 64, Pad (Scalar Tlong) 64,
    Pad (Scalar Tlong) 64]"

lemma info_struct_bpf_local_storage_map [c_info]: "info struct_bpf_local_storage_map = (320, 8)"
  by (simp add: struct_bpf_local_storage_map_def c_info)

definition struct_bpf_array_aux :: ctype where
  "struct_bpf_array_aux = Struct [] [
    Mem ''owner'' (Struct [] [
      Mem ''lock'' typedef_spinlock_t, Mem ''type'' enum_bpf_prog_type, Mem ''jited'' typedef_bool]),
    Mem ''poke_progs'' struct_list_head, Mem ''map'' (Ptr ''struct bpf_map''), Mem ''poke_mutex'' struct_mutex,
    Mem ''work'' struct_work_struct]"

lemma info_struct_bpf_array_aux [c_info]: "info struct_bpf_array_aux = (104, 8)"
  by (simp add: struct_bpf_array_aux_def c_info)

definition struct_bpf_array :: ctype where
  "struct_bpf_array = Struct [] [
    Mem ''map'' struct_bpf_map, Mem ''elem_size'' typedef_u32, Mem ''index_mask'' typedef_u32,
    Mem ''aux'' (Ptr ''struct bpf_array_aux''),
    Anon (Union [] [
      Mem ''value'' (Array (Scalar Tchar) 0), Mem ''ptrs'' (Array (Ptr ''void'') 0),
      Mem ''pptrs'' (Array (Ptr ''void'') 0)]),
    Pad (Scalar Tlong) 64, Pad (Scalar Tlong) 64, Pad (Scalar Tlong) 64, Pad (Scalar Tlong) 64, Pad (Scalar Tlong) 64,
    Pad (Scalar Tlong) 64]"

lemma info_struct_bpf_array [c_info]: "info struct_bpf_array = (320, 8)"
  by (simp add: struct_bpf_array_def c_info)

definition struct_bpf_event_entry :: ctype where
  "struct_bpf_event_entry = Struct [] [
    Mem ''event'' (Ptr ''struct perf_event''), Mem ''perf_file'' (Ptr ''struct file''),
    Mem ''map_file'' (Ptr ''struct file''), Mem ''rcu'' struct_callback_head]"

lemma info_struct_bpf_event_entry [c_info]: "info struct_bpf_event_entry = (40, 8)"
  by (simp add: struct_bpf_event_entry_def c_info)

definition struct_bpf_local_storage_map_bucket :: ctype where
  "struct_bpf_local_storage_map_bucket = Struct [] [
    Mem ''list'' struct_hlist_head, Mem ''lock'' typedef_raw_spinlock_t]"

lemma info_struct_bpf_local_storage_map_bucket [c_info]: "info struct_bpf_local_storage_map_bucket = (16, 8)"
  by (simp add: struct_bpf_local_storage_map_bucket_def c_info)

definition struct_bpf_local_storage_data :: ctype where
  "struct_bpf_local_storage_data = Struct [] [
    Mem ''smap'' (Ptr ''struct bpf_local_storage_map''), Mem ''data'' (Array typedef_u8 0)]"

lemma info_struct_bpf_local_storage_data [c_info]: "info struct_bpf_local_storage_data = (8, 8)"
  by (simp add: struct_bpf_local_storage_data_def c_info)

definition struct__bpf_dtab_netdev :: ctype where
  "struct__bpf_dtab_netdev = Struct [] [
    Mem ''dev'' (Ptr ''struct net_device'')]"

lemma info_struct__bpf_dtab_netdev [c_info]: "info struct__bpf_dtab_netdev = (8, 8)"
  by (simp add: struct__bpf_dtab_netdev_def c_info)

definition struct_bpf_struct_ops :: ctype where
  "struct_bpf_struct_ops = Struct [] [
    Mem ''verifier_ops'' (Ptr ''const struct bpf_verifier_ops''), Mem ''init'' (FunPtr ''int'' [''struct btf *'']),
    Mem ''check_member'' (FunPtr ''int'' [''const struct btf_type *'', ''const struct btf_member *'']),
    Mem ''init_member'' (FunPtr ''int'' [''const struct btf_type *'', ''const struct btf_member *'', ''void *'', ''const void *'']),
    Mem ''reg'' (FunPtr ''int'' [''void *'']), Mem ''unreg'' (FunPtr ''void'' [''void *'']),
    Mem ''type'' (Ptr ''const struct btf_type''), Mem ''value_type'' (Ptr ''const struct btf_type''),
    Mem ''name'' (Ptr ''const char''), Mem ''func_models'' (Array struct_btf_func_model 64),
    Mem ''type_id'' typedef_u32, Mem ''value_id'' typedef_u32]"

lemma info_struct_bpf_struct_ops [c_info]: "info struct_bpf_struct_ops = (976, 8)"
  by (simp add: struct_bpf_struct_ops_def c_info)

definition struct_bpf_hrtimer :: ctype where
  "struct_bpf_hrtimer = Struct [] [
    Mem ''timer'' struct_hrtimer, Mem ''map'' (Ptr ''struct bpf_map''), Mem ''prog'' (Ptr ''struct bpf_prog''),
    Mem ''callback_fn'' (Ptr ''void''), Mem ''value'' (Ptr ''void''), Mem ''rcu'' struct_callback_head]"

lemma info_struct_bpf_hrtimer [c_info]: "info struct_bpf_hrtimer = (112, 8)"
  by (simp add: struct_bpf_hrtimer_def c_info)

definition struct_bpf_timer_kern :: ctype where
  "struct_bpf_timer_kern = Struct [] [
    Mem ''timer'' (Ptr ''struct bpf_hrtimer''), Mem ''lock'' struct_bpf_spin_lock]"

lemma info_struct_bpf_timer_kern [c_info]: "info struct_bpf_timer_kern = (16, 8)"
  by (simp add: struct_bpf_timer_kern_def c_info)

definition typedef_bpf_iter_attach_target_t :: ctype where
  "typedef_bpf_iter_attach_target_t = FunPtr ''int'' [''struct bpf_prog *'', ''union bpf_iter_link_info *'', ''struct bpf_iter_aux_info *'']"

lemma info_typedef_bpf_iter_attach_target_t [c_info]: "info typedef_bpf_iter_attach_target_t = (8, 8)"
  by (simp add: typedef_bpf_iter_attach_target_t_def c_info)

definition typedef_bpf_iter_detach_target_t :: ctype where
  "typedef_bpf_iter_detach_target_t = FunPtr ''void'' [''struct bpf_iter_aux_info *'']"

lemma info_typedef_bpf_iter_detach_target_t [c_info]: "info typedef_bpf_iter_detach_target_t = (8, 8)"
  by (simp add: typedef_bpf_iter_detach_target_t_def c_info)

definition typedef_bpf_iter_show_fdinfo_t :: ctype where
  "typedef_bpf_iter_show_fdinfo_t = FunPtr ''void'' [''const struct bpf_iter_aux_info *'', ''struct seq_file *'']"

lemma info_typedef_bpf_iter_show_fdinfo_t [c_info]: "info typedef_bpf_iter_show_fdinfo_t = (8, 8)"
  by (simp add: typedef_bpf_iter_show_fdinfo_t_def c_info)

definition typedef_bpf_iter_fill_link_info_t :: ctype where
  "typedef_bpf_iter_fill_link_info_t = FunPtr ''int'' [''const struct bpf_iter_aux_info *'', ''struct bpf_link_info *'']"

lemma info_typedef_bpf_iter_fill_link_info_t [c_info]: "info typedef_bpf_iter_fill_link_info_t = (8, 8)"
  by (simp add: typedef_bpf_iter_fill_link_info_t_def c_info)

definition typedef_bpf_iter_get_func_proto_t :: ctype where
  "typedef_bpf_iter_get_func_proto_t = FunPtr ''const struct bpf_func_proto *'' [''enum bpf_func_id'', ''const struct bpf_prog *'']"

lemma info_typedef_bpf_iter_get_func_proto_t [c_info]: "info typedef_bpf_iter_get_func_proto_t = (8, 8)"
  by (simp add: typedef_bpf_iter_get_func_proto_t_def c_info)

definition struct_bpf_iter_reg :: ctype where
  "struct_bpf_iter_reg = Struct [] [
    Mem ''target'' (Ptr ''const char''), Mem ''attach_target'' typedef_bpf_iter_attach_target_t,
    Mem ''detach_target'' typedef_bpf_iter_detach_target_t, Mem ''show_fdinfo'' typedef_bpf_iter_show_fdinfo_t,
    Mem ''fill_link_info'' typedef_bpf_iter_fill_link_info_t,
    Mem ''get_func_proto'' typedef_bpf_iter_get_func_proto_t, Mem ''ctx_arg_info_size'' typedef_u32,
    Mem ''feature'' typedef_u32, Mem ''ctx_arg_info'' (Array struct_bpf_ctx_arg_aux 2),
    Mem ''seq_info'' (Ptr ''const struct bpf_iter_seq_info'')]"

lemma info_struct_bpf_iter_reg [c_info]: "info struct_bpf_iter_reg = (88, 8)"
  by (simp add: struct_bpf_iter_reg_def c_info)

definition struct_bpf_iter_meta :: ctype where
  "struct_bpf_iter_meta = Struct [] [
    Anon (Union [] [
      Mem ''seq'' (Ptr ''struct seq_file'')]),
    Mem ''session_id'' typedef_u64, Mem ''seq_num'' typedef_u64]"

lemma info_struct_bpf_iter_meta [c_info]: "info struct_bpf_iter_meta = (24, 8)"
  by (simp add: struct_bpf_iter_meta_def c_info)

definition struct_bpf_iter_target_info :: ctype where
  "struct_bpf_iter_target_info = Struct [] [
    Mem ''list'' struct_list_head, Mem ''reg_info'' (Ptr ''const struct bpf_iter_reg''), Mem ''btf_id'' typedef_u32]"

lemma info_struct_bpf_iter_target_info [c_info]: "info struct_bpf_iter_target_info = (32, 8)"
  by (simp add: struct_bpf_iter_target_info_def c_info)

definition struct_bpf_iter_link :: ctype where
  "struct_bpf_iter_link = Struct [] [
    Mem ''link'' struct_bpf_link, Mem ''aux'' struct_bpf_iter_aux_info,
    Mem ''tinfo'' (Ptr ''struct bpf_iter_target_info'')]"

lemma info_struct_bpf_iter_link [c_info]: "info struct_bpf_iter_link = (80, 8)"
  by (simp add: struct_bpf_iter_link_def c_info)

definition struct_bpf_iter_priv_data :: ctype where
  "struct_bpf_iter_priv_data = Struct [] [
    Mem ''tinfo'' (Ptr ''struct bpf_iter_target_info''), Mem ''seq_info'' (Ptr ''const struct bpf_iter_seq_info''),
    Mem ''prog'' (Ptr ''struct bpf_prog''), Mem ''session_id'' typedef_u64, Mem ''seq_num'' typedef_u64,
    Mem ''done_stop'' typedef_bool, Pad (Scalar Tlong) 0, Mem ''target_private'' (Array typedef_u8 0)]"

lemma info_struct_bpf_iter_priv_data [c_info]: "info struct_bpf_iter_priv_data = (48, 8)"
  by (simp add: struct_bpf_iter_priv_data_def c_info)

definition struct_bpf_iter_seq_map_info :: ctype where
  "struct_bpf_iter_seq_map_info = Struct [] [
    Mem ''map_id'' typedef_u32]"

lemma info_struct_bpf_iter_seq_map_info [c_info]: "info struct_bpf_iter_seq_map_info = (4, 4)"
  by (simp add: struct_bpf_iter_seq_map_info_def c_info)

definition struct_bpf_iter__bpf_map :: ctype where
  "struct_bpf_iter__bpf_map = Struct [] [
    Anon (Union [] [
      Mem ''meta'' (Ptr ''struct bpf_iter_meta'')]),
    Anon (Union [] [
      Mem ''map'' (Ptr ''struct bpf_map'')])]"

lemma info_struct_bpf_iter__bpf_map [c_info]: "info struct_bpf_iter__bpf_map = (16, 8)"
  by (simp add: struct_bpf_iter__bpf_map_def c_info)

definition struct_bpf_iter_seq_task_common :: ctype where
  "struct_bpf_iter_seq_task_common = Struct [] [
    Mem ''ns'' (Ptr ''struct pid_namespace'')]"

lemma info_struct_bpf_iter_seq_task_common [c_info]: "info struct_bpf_iter_seq_task_common = (8, 8)"
  by (simp add: struct_bpf_iter_seq_task_common_def c_info)

definition struct_bpf_iter_seq_task_info :: ctype where
  "struct_bpf_iter_seq_task_info = Struct [] [
    Mem ''common'' struct_bpf_iter_seq_task_common, Mem ''tid'' typedef_u32]"

lemma info_struct_bpf_iter_seq_task_info [c_info]: "info struct_bpf_iter_seq_task_info = (16, 8)"
  by (simp add: struct_bpf_iter_seq_task_info_def c_info)

definition struct_bpf_iter__task :: ctype where
  "struct_bpf_iter__task = Struct [] [
    Anon (Union [] [
      Mem ''meta'' (Ptr ''struct bpf_iter_meta'')]),
    Anon (Union [] [
      Mem ''task'' (Ptr ''struct task_struct'')])]"

lemma info_struct_bpf_iter__task [c_info]: "info struct_bpf_iter__task = (16, 8)"
  by (simp add: struct_bpf_iter__task_def c_info)

definition struct_bpf_iter_seq_task_file_info :: ctype where
  "struct_bpf_iter_seq_task_file_info = Struct [] [
    Mem ''common'' struct_bpf_iter_seq_task_common, Mem ''task'' (Ptr ''struct task_struct''),
    Mem ''tid'' typedef_u32, Mem ''fd'' typedef_u32]"

lemma info_struct_bpf_iter_seq_task_file_info [c_info]: "info struct_bpf_iter_seq_task_file_info = (24, 8)"
  by (simp add: struct_bpf_iter_seq_task_file_info_def c_info)

definition struct_bpf_iter__task_file :: ctype where
  "struct_bpf_iter__task_file = Struct [] [
    Anon (Union [] [
      Mem ''meta'' (Ptr ''struct bpf_iter_meta'')]),
    Anon (Union [] [
      Mem ''task'' (Ptr ''struct task_struct'')]),
    Mem ''fd'' typedef_u32,
    Anon (Union [] [
      Mem ''file'' (Ptr ''struct file'')])]"

lemma info_struct_bpf_iter__task_file [c_info]: "info struct_bpf_iter__task_file = (32, 8)"
  by (simp add: struct_bpf_iter__task_file_def c_info)

definition struct_bpf_iter_seq_task_vma_info :: ctype where
  "struct_bpf_iter_seq_task_vma_info = Struct [] [
    Mem ''common'' struct_bpf_iter_seq_task_common, Mem ''task'' (Ptr ''struct task_struct''),
    Mem ''vma'' (Ptr ''struct vm_area_struct''), Mem ''tid'' typedef_u32, Mem ''prev_vm_start'' (Scalar Tulong),
    Mem ''prev_vm_end'' (Scalar Tulong)]"

lemma info_struct_bpf_iter_seq_task_vma_info [c_info]: "info struct_bpf_iter_seq_task_vma_info = (48, 8)"
  by (simp add: struct_bpf_iter_seq_task_vma_info_def c_info)

definition struct_bpf_iter__task_vma :: ctype where
  "struct_bpf_iter__task_vma = Struct [] [
    Anon (Union [] [
      Mem ''meta'' (Ptr ''struct bpf_iter_meta'')]),
    Anon (Union [] [
      Mem ''task'' (Ptr ''struct task_struct'')]),
    Anon (Union [] [
      Mem ''vma'' (Ptr ''struct vm_area_struct'')])]"

lemma info_struct_bpf_iter__task_vma [c_info]: "info struct_bpf_iter__task_vma = (24, 8)"
  by (simp add: struct_bpf_iter__task_vma_def c_info)

definition struct_bpf_iter_seq_prog_info :: ctype where
  "struct_bpf_iter_seq_prog_info = Struct [] [
    Mem ''prog_id'' typedef_u32]"

lemma info_struct_bpf_iter_seq_prog_info [c_info]: "info struct_bpf_iter_seq_prog_info = (4, 4)"
  by (simp add: struct_bpf_iter_seq_prog_info_def c_info)

definition struct_bpf_iter__bpf_prog :: ctype where
  "struct_bpf_iter__bpf_prog = Struct [] [
    Anon (Union [] [
      Mem ''meta'' (Ptr ''struct bpf_iter_meta'')]),
    Anon (Union [] [
      Mem ''prog'' (Ptr ''struct bpf_prog'')])]"

lemma info_struct_bpf_iter__bpf_prog [c_info]: "info struct_bpf_iter__bpf_prog = (16, 8)"
  by (simp add: struct_bpf_iter__bpf_prog_def c_info)

definition struct_bpf_iter__bpf_map_elem :: ctype where
  "struct_bpf_iter__bpf_map_elem = Struct [] [
    Anon (Union [] [
      Mem ''meta'' (Ptr ''struct bpf_iter_meta'')]),
    Anon (Union [] [
      Mem ''map'' (Ptr ''struct bpf_map'')]),
    Anon (Union [] [
      Mem ''key'' (Ptr ''void'')]),
    Anon (Union [] [
      Mem ''value'' (Ptr ''void'')])]"

lemma info_struct_bpf_iter__bpf_map_elem [c_info]: "info struct_bpf_iter__bpf_map_elem = (32, 8)"
  by (simp add: struct_bpf_iter__bpf_map_elem_def c_info)

definition struct_pcpu_freelist_head :: ctype where
  "struct_pcpu_freelist_head = Struct [] [
    Mem ''first'' (Ptr ''struct pcpu_freelist_node''), Mem ''lock'' typedef_raw_spinlock_t]"

lemma info_struct_pcpu_freelist_head [c_info]: "info struct_pcpu_freelist_head = (16, 8)"
  by (simp add: struct_pcpu_freelist_head_def c_info)

definition struct_pcpu_freelist :: ctype where
  "struct_pcpu_freelist = Struct [] [
    Mem ''freelist'' (Ptr ''struct pcpu_freelist_head''), Mem ''extralist'' struct_pcpu_freelist_head]"

lemma info_struct_pcpu_freelist [c_info]: "info struct_pcpu_freelist = (24, 8)"
  by (simp add: struct_pcpu_freelist_def c_info)

definition struct_bpf_lru_node :: ctype where
  "struct_bpf_lru_node = Struct [] [
    Mem ''list'' struct_list_head, Mem ''cpu'' typedef_u16, Mem ''type'' typedef_u8, Mem ''ref'' typedef_u8]"

lemma info_struct_bpf_lru_node [c_info]: "info struct_bpf_lru_node = (24, 8)"
  by (simp add: struct_bpf_lru_node_def c_info)

definition struct_bpf_lru_list :: ctype where
  "struct_bpf_lru_list = Struct [] [
    Mem ''lists'' (Array struct_list_head 3), Mem ''counts'' (Array (Scalar Tuint) 2),
    Mem ''next_inactive_rotation'' (Ptr ''struct list_head''), Mem ''lock'' typedef_raw_spinlock_t,
    Pad (Scalar Tlong) 64, Pad (Scalar Tlong) 64, Pad (Scalar Tlong) 64, Pad (Scalar Tlong) 64, Pad (Scalar Tlong) 64,
    Pad (Scalar Tlong) 64, Pad (Scalar Tlong) 64]"

lemma info_struct_bpf_lru_list [c_info]: "info struct_bpf_lru_list = (128, 8)"
  by (simp add: struct_bpf_lru_list_def c_info)

definition struct_bpf_lru_locallist :: ctype where
  "struct_bpf_lru_locallist = Struct [] [
    Mem ''lists'' (Array struct_list_head 2), Mem ''next_steal'' typedef_u16, Mem ''lock'' typedef_raw_spinlock_t]"

lemma info_struct_bpf_lru_locallist [c_info]: "info struct_bpf_lru_locallist = (40, 8)"
  by (simp add: struct_bpf_lru_locallist_def c_info)

definition struct_bpf_common_lru :: ctype where
  "struct_bpf_common_lru = Struct [] [
    Mem ''lru_list'' struct_bpf_lru_list, Mem ''local_list'' (Ptr ''struct bpf_lru_locallist''),
    Pad (Scalar Tlong) 64, Pad (Scalar Tlong) 64, Pad (Scalar Tlong) 64, Pad (Scalar Tlong) 64, Pad (Scalar Tlong) 64,
    Pad (Scalar Tlong) 64, Pad (Scalar Tlong) 64]"

lemma info_struct_bpf_common_lru [c_info]: "info struct_bpf_common_lru = (192, 8)"
  by (simp add: struct_bpf_common_lru_def c_info)

definition typedef_del_from_htab_func :: ctype where
  "typedef_del_from_htab_func = FunPtr ''bool'' [''void *'', ''struct bpf_lru_node *'']"

lemma info_typedef_del_from_htab_func [c_info]: "info typedef_del_from_htab_func = (8, 8)"
  by (simp add: typedef_del_from_htab_func_def c_info)

definition struct_bpf_lru :: ctype where
  "struct_bpf_lru = Struct [] [
    Anon (Union [] [
      Mem ''common_lru'' struct_bpf_common_lru, Mem ''percpu_lru'' (Ptr ''struct bpf_lru_list'')]),
    Mem ''del_from_htab'' typedef_del_from_htab_func, Mem ''del_arg'' (Ptr ''void''),
    Mem ''hash_offset'' (Scalar Tuint), Mem ''nr_scans'' (Scalar Tuint), Mem ''percpu'' typedef_bool,
    Pad (Scalar Tlong) 64, Pad (Scalar Tlong) 64, Pad (Scalar Tlong) 64, Pad (Scalar Tlong) 64]"

lemma info_struct_bpf_lru [c_info]: "info struct_bpf_lru = (256, 8)"
  by (simp add: struct_bpf_lru_def c_info)

definition struct_bpf_htab :: ctype where
  "struct_bpf_htab = Struct [] [
    Mem ''map'' struct_bpf_map, Mem ''buckets'' (Ptr ''struct bucket''), Mem ''elems'' (Ptr ''void''),
    Pad (Scalar Tlong) 64, Pad (Scalar Tlong) 64, Pad (Scalar Tlong) 64, Pad (Scalar Tlong) 64, Pad (Scalar Tlong) 64,
    Pad (Scalar Tlong) 64,
    Anon (Union [] [
      Mem ''freelist'' struct_pcpu_freelist, Mem ''lru'' struct_bpf_lru]),
    Mem ''extra_elems'' (Ptr ''struct htab_elem *''), Mem ''count'' typedef_atomic_t, Mem ''n_buckets'' typedef_u32,
    Mem ''elem_size'' typedef_u32, Mem ''hashrnd'' typedef_u32, Mem ''lockdep_key'' struct_lock_class_key,
    Mem ''map_locked'' (Array (Ptr ''int'') 8), Pad (Scalar Tlong) 64, Pad (Scalar Tlong) 64, Pad (Scalar Tlong) 64,
    Pad (Scalar Tlong) 64, Pad (Scalar Tlong) 64]"

lemma info_struct_bpf_htab [c_info]: "info struct_bpf_htab = (704, 8)"
  by (simp add: struct_bpf_htab_def c_info)

definition struct_bpf_iter_seq_hash_map_info :: ctype where
  "struct_bpf_iter_seq_hash_map_info = Struct [] [
    Mem ''map'' (Ptr ''struct bpf_map''), Mem ''htab'' (Ptr ''struct bpf_htab''),
    Mem ''percpu_value_buf'' (Ptr ''void''), Mem ''bucket_id'' typedef_u32, Mem ''skip_elems'' typedef_u32]"

lemma info_struct_bpf_iter_seq_hash_map_info [c_info]: "info struct_bpf_iter_seq_hash_map_info = (32, 8)"
  by (simp add: struct_bpf_iter_seq_hash_map_info_def c_info)

definition struct_bpf_iter_seq_array_map_info :: ctype where
  "struct_bpf_iter_seq_array_map_info = Struct [] [
    Mem ''map'' (Ptr ''struct bpf_map''), Mem ''percpu_value_buf'' (Ptr ''void''), Mem ''index'' typedef_u32]"

lemma info_struct_bpf_iter_seq_array_map_info [c_info]: "info struct_bpf_iter_seq_array_map_info = (24, 8)"
  by (simp add: struct_bpf_iter_seq_array_map_info_def c_info)

definition struct_bpf_cgroup_storage_map :: ctype where
  "struct_bpf_cgroup_storage_map = Struct [] [
    Mem ''map'' struct_bpf_map, Mem ''lock'' typedef_spinlock_t, Mem ''root'' struct_rb_root,
    Mem ''list'' struct_list_head, Pad (Scalar Tlong) 64, Pad (Scalar Tlong) 64, Pad (Scalar Tlong) 64,
    Pad (Scalar Tlong) 64]"

lemma info_struct_bpf_cgroup_storage_map [c_info]: "info struct_bpf_cgroup_storage_map = (320, 8)"
  by (simp add: struct_bpf_cgroup_storage_map_def c_info)

definition struct_bpf_queue_stack :: ctype where
  "struct_bpf_queue_stack = Struct [] [
    Mem ''map'' struct_bpf_map, Mem ''lock'' typedef_raw_spinlock_t, Mem ''head'' typedef_u32,
    Mem ''tail'' typedef_u32, Mem ''size'' typedef_u32, Mem ''elements'' (Array (Scalar Tchar) 0),
    Pad (Scalar Tlong) 64, Pad (Scalar Tlong) 64, Pad (Scalar Tlong) 64, Pad (Scalar Tlong) 64, Pad (Scalar Tlong) 64,
    Pad (Scalar Tlong) 64]"

lemma info_struct_bpf_queue_stack [c_info]: "info struct_bpf_queue_stack = (320, 8)"
  by (simp add: struct_bpf_queue_stack_def c_info)

definition struct_bpf_ringbuf :: ctype where
  "struct_bpf_ringbuf = Struct [] (
    [
     Mem ''waitq'' typedef_wait_queue_head_t, Mem ''work'' struct_irq_work, Mem ''mask'' typedef_u64,
     Mem ''pages'' (Ptr ''struct page *''), Mem ''nr_pages'' (Scalar Tint), Pad (Scalar Tlong) 64,
     Pad (Scalar Tlong) 64, Pad (Scalar Tlong) 64, Pad (Scalar Tlong) 64, Pad (Scalar Tlong) 64,
     Pad (Scalar Tlong) 64, Pad (Scalar Tlong) 64, Mem ''spinlock'' typedef_spinlock_t] @
    replicate 495 (Pad (Scalar Tlong) 64) @
    [
     Mem ''consumer_pos'' (Scalar Tulong)] @
    replicate 511 (Pad (Scalar Tlong) 64) @
    [
     Mem ''producer_pos'' (Scalar Tulong), Mem ''pending_pos'' (Scalar Tulong)] @
    replicate 510 (Pad (Scalar Tlong) 64) @
    [
     Mem ''data'' (Array (Scalar Tchar) 0)])"

lemma info_struct_bpf_ringbuf [c_info]: "info struct_bpf_ringbuf = (12288, 8)"
  by (simp add: struct_bpf_ringbuf_def c_info)

definition struct_bpf_ringbuf_map :: ctype where
  "struct_bpf_ringbuf_map = Struct [] [
    Mem ''map'' struct_bpf_map, Mem ''rb'' (Ptr ''struct bpf_ringbuf''), Pad (Scalar Tlong) 64, Pad (Scalar Tlong) 64,
    Pad (Scalar Tlong) 64, Pad (Scalar Tlong) 64, Pad (Scalar Tlong) 64, Pad (Scalar Tlong) 64, Pad (Scalar Tlong) 64]"

lemma info_struct_bpf_ringbuf_map [c_info]: "info struct_bpf_ringbuf_map = (320, 8)"
  by (simp add: struct_bpf_ringbuf_map_def c_info)

definition struct_bpf_ringbuf_hdr :: ctype where
  "struct_bpf_ringbuf_hdr = Struct [] [
    Mem ''len'' typedef_u32, Mem ''pg_off'' typedef_u32]"

lemma info_struct_bpf_ringbuf_hdr [c_info]: "info struct_bpf_ringbuf_hdr = (8, 4)"
  by (simp add: struct_bpf_ringbuf_hdr_def c_info)

definition struct_bpf_local_storage_elem :: ctype where
  "struct_bpf_local_storage_elem = Struct [] [
    Mem ''map_node'' struct_hlist_node, Mem ''snode'' struct_hlist_node,
    Mem ''local_storage'' (Ptr ''struct bpf_local_storage''), Mem ''rcu'' struct_callback_head, Pad (Scalar Tlong) 64,
    Mem ''sdata'' struct_bpf_local_storage_data, Pad (Scalar Tlong) 64, Pad (Scalar Tlong) 64, Pad (Scalar Tlong) 64,
    Pad (Scalar Tlong) 64, Pad (Scalar Tlong) 64, Pad (Scalar Tlong) 64, Pad (Scalar Tlong) 64]"

lemma info_struct_bpf_local_storage_elem [c_info]: "info struct_bpf_local_storage_elem = (128, 8)"
  by (simp add: struct_bpf_local_storage_elem_def c_info)

definition struct_bpf_local_storage_cache :: ctype where
  "struct_bpf_local_storage_cache = Struct [] [
    Mem ''idx_lock'' typedef_spinlock_t, Mem ''idx_usage_counts'' (Array typedef_u64 16)]"

lemma info_struct_bpf_local_storage_cache [c_info]: "info struct_bpf_local_storage_cache = (136, 8)"
  by (simp add: struct_bpf_local_storage_cache_def c_info)

definition struct_bpf_storage_blob :: ctype where
  "struct_bpf_storage_blob = Struct [] [
    Mem ''storage'' (Ptr ''struct bpf_local_storage'')]"

lemma info_struct_bpf_storage_blob [c_info]: "info struct_bpf_storage_blob = (8, 8)"
  by (simp add: struct_bpf_storage_blob_def c_info)

definition struct_bpf_dtab_netdev :: ctype where
  "struct_bpf_dtab_netdev = Struct [] [
    Mem ''dev'' (Ptr ''struct net_device''), Mem ''index_hlist'' struct_hlist_node,
    Mem ''dtab'' (Ptr ''struct bpf_dtab''), Mem ''xdp_prog'' (Ptr ''struct bpf_prog''),
    Mem ''rcu'' struct_callback_head, Mem ''idx'' (Scalar Tuint), Mem ''val'' struct_bpf_devmap_val]"

lemma info_struct_bpf_dtab_netdev [c_info]: "info struct_bpf_dtab_netdev = (72, 8)"
  by (simp add: struct_bpf_dtab_netdev_def c_info)

definition struct_bpf_dtab :: ctype where
  "struct_bpf_dtab = Struct [] [
    Mem ''map'' struct_bpf_map, Mem ''netdev_map'' (Ptr ''struct bpf_dtab_netdev *''), Mem ''list'' struct_list_head,
    Mem ''dev_index_head'' (Ptr ''struct hlist_head''), Mem ''index_lock'' typedef_spinlock_t,
    Mem ''items'' (Scalar Tuint), Mem ''n_buckets'' typedef_u32, Pad (Scalar Tlong) 64, Pad (Scalar Tlong) 64]"

lemma info_struct_bpf_dtab [c_info]: "info struct_bpf_dtab = (320, 8)"
  by (simp add: struct_bpf_dtab_def c_info)

definition struct_bpf_cpu_map_entry :: ctype where
  "struct_bpf_cpu_map_entry = Struct [] [
    Mem ''cpu'' typedef_u32, Mem ''map_id'' (Scalar Tint), Mem ''bulkq'' (Ptr ''struct xdp_bulk_queue''),
    Mem ''cmap'' (Ptr ''struct bpf_cpu_map''), Mem ''queue'' (Ptr ''struct ptr_ring''),
    Mem ''kthread'' (Ptr ''struct task_struct''), Mem ''value'' struct_bpf_cpumap_val,
    Mem ''prog'' (Ptr ''struct bpf_prog''), Mem ''refcnt'' typedef_atomic_t, Mem ''rcu'' struct_callback_head,
    Mem ''kthread_stop_wq'' struct_work_struct, Mem ''kthread_running'' struct_completion]"

lemma info_struct_bpf_cpu_map_entry [c_info]: "info struct_bpf_cpu_map_entry = (144, 8)"
  by (simp add: struct_bpf_cpu_map_entry_def c_info)

definition struct_bpf_cpu_map :: ctype where
  "struct_bpf_cpu_map = Struct [] [
    Mem ''map'' struct_bpf_map, Mem ''cpu_map'' (Ptr ''struct bpf_cpu_map_entry *''), Pad (Scalar Tlong) 64,
    Pad (Scalar Tlong) 64, Pad (Scalar Tlong) 64, Pad (Scalar Tlong) 64, Pad (Scalar Tlong) 64, Pad (Scalar Tlong) 64,
    Pad (Scalar Tlong) 64]"

lemma info_struct_bpf_cpu_map [c_info]: "info struct_bpf_cpu_map = (320, 8)"
  by (simp add: struct_bpf_cpu_map_def c_info)

definition struct_bpf_stack_map :: ctype where
  "struct_bpf_stack_map = Struct [] [
    Mem ''map'' struct_bpf_map, Mem ''elems'' (Ptr ''void''), Mem ''freelist'' struct_pcpu_freelist,
    Mem ''n_buckets'' typedef_u32, Mem ''buckets'' (Array (Ptr ''struct stack_map_bucket'') 0), Pad (Scalar Tlong) 64,
    Pad (Scalar Tlong) 64, Pad (Scalar Tlong) 64]"

lemma info_struct_bpf_stack_map [c_info]: "info struct_bpf_stack_map = (320, 8)"
  by (simp add: struct_bpf_stack_map_def c_info)

definition struct_bpf_struct_ops_value :: ctype where
  "struct_bpf_struct_ops_value = Struct [] [
    Mem ''refcnt'' typedef_refcount_t, Mem ''state'' enum_bpf_struct_ops_state, Pad (Scalar Tlong) 64,
    Pad (Scalar Tlong) 64, Pad (Scalar Tlong) 64, Pad (Scalar Tlong) 64, Pad (Scalar Tlong) 64, Pad (Scalar Tlong) 64,
    Pad (Scalar Tlong) 64, Mem ''data'' (Array (Scalar Tchar) 0)]"

lemma info_struct_bpf_struct_ops_value [c_info]: "info struct_bpf_struct_ops_value = (64, 4)"
  by (simp add: struct_bpf_struct_ops_value_def c_info)

definition struct_bpf_struct_ops_map :: ctype where
  "struct_bpf_struct_ops_map = Struct [] [
    Mem ''map'' struct_bpf_map, Mem ''rcu'' struct_callback_head,
    Mem ''st_ops'' (Ptr ''const struct bpf_struct_ops''), Mem ''lock'' struct_mutex,
    Mem ''progs'' (Ptr ''struct bpf_prog *''), Mem ''image'' (Ptr ''void''),
    Mem ''uvalue'' (Ptr ''struct bpf_struct_ops_value''), Pad (Scalar Tlong) 64, Pad (Scalar Tlong) 64,
    Pad (Scalar Tlong) 64, Pad (Scalar Tlong) 64, Pad (Scalar Tlong) 64, Pad (Scalar Tlong) 64,
    Mem ''kvalue'' struct_bpf_struct_ops_value]"

lemma info_struct_bpf_struct_ops_map [c_info]: "info struct_bpf_struct_ops_map = (448, 8)"
  by (simp add: struct_bpf_struct_ops_map_def c_info)

definition struct_bpf_struct_ops_tcp_congestion_ops :: ctype where
  "struct_bpf_struct_ops_tcp_congestion_ops = Struct [] [
    Mem ''refcnt'' typedef_refcount_t, Mem ''state'' enum_bpf_struct_ops_state, Pad (Scalar Tlong) 64,
    Pad (Scalar Tlong) 64, Pad (Scalar Tlong) 64, Pad (Scalar Tlong) 64, Pad (Scalar Tlong) 64, Pad (Scalar Tlong) 64,
    Pad (Scalar Tlong) 64, Mem ''data'' struct_tcp_congestion_ops]"

lemma info_struct_bpf_struct_ops_tcp_congestion_ops [c_info]: "info struct_bpf_struct_ops_tcp_congestion_ops = (256, 8)"
  by (simp add: struct_bpf_struct_ops_tcp_congestion_ops_def c_info)

definition typedef_bpf_op_t :: ctype where
  "typedef_bpf_op_t = FunPtr ''int'' [''struct net_device *'', ''struct netdev_bpf *'']"

lemma info_typedef_bpf_op_t [c_info]: "info typedef_bpf_op_t = (8, 8)"
  by (simp add: typedef_bpf_op_t_def c_info)

definition struct_bpf_stab :: ctype where
  "struct_bpf_stab = Struct [] [
    Mem ''map'' struct_bpf_map, Mem ''sks'' (Ptr ''struct sock *''), Mem ''progs'' struct_sk_psock_progs,
    Mem ''lock'' typedef_raw_spinlock_t, Pad (Scalar Tlong) 64, Pad (Scalar Tlong) 64]"

lemma info_struct_bpf_stab [c_info]: "info struct_bpf_stab = (320, 8)"
  by (simp add: struct_bpf_stab_def c_info)

definition struct_bpf_iter__sockmap :: ctype where
  "struct_bpf_iter__sockmap = Struct [] [
    Anon (Union [] [
      Mem ''meta'' (Ptr ''struct bpf_iter_meta'')]),
    Anon (Union [] [
      Mem ''map'' (Ptr ''struct bpf_map'')]),
    Anon (Union [] [
      Mem ''key'' (Ptr ''void'')]),
    Anon (Union [] [
      Mem ''sk'' (Ptr ''struct sock'')])]"

lemma info_struct_bpf_iter__sockmap [c_info]: "info struct_bpf_iter__sockmap = (32, 8)"
  by (simp add: struct_bpf_iter__sockmap_def c_info)

definition struct_bpf_shtab_elem :: ctype where
  "struct_bpf_shtab_elem = Struct [] [
    Mem ''rcu'' struct_callback_head, Mem ''hash'' typedef_u32, Mem ''sk'' (Ptr ''struct sock''),
    Mem ''node'' struct_hlist_node, Mem ''key'' (Array typedef_u8 0)]"

lemma info_struct_bpf_shtab_elem [c_info]: "info struct_bpf_shtab_elem = (48, 8)"
  by (simp add: struct_bpf_shtab_elem_def c_info)

definition struct_bpf_shtab_bucket :: ctype where
  "struct_bpf_shtab_bucket = Struct [] [
    Mem ''head'' struct_hlist_head, Mem ''lock'' typedef_raw_spinlock_t]"

lemma info_struct_bpf_shtab_bucket [c_info]: "info struct_bpf_shtab_bucket = (16, 8)"
  by (simp add: struct_bpf_shtab_bucket_def c_info)

definition struct_bpf_shtab :: ctype where
  "struct_bpf_shtab = Struct [] [
    Mem ''map'' struct_bpf_map, Mem ''buckets'' (Ptr ''struct bpf_shtab_bucket''), Mem ''buckets_num'' typedef_u32,
    Mem ''elem_size'' typedef_u32, Mem ''progs'' struct_sk_psock_progs, Mem ''count'' typedef_atomic_t,
    Pad (Scalar Tlong) 64]"

lemma info_struct_bpf_shtab [c_info]: "info struct_bpf_shtab = (320, 8)"
  by (simp add: struct_bpf_shtab_def c_info)

definition struct_bpf_iter_seq_sk_storage_map_info :: ctype where
  "struct_bpf_iter_seq_sk_storage_map_info = Struct [] [
    Mem ''map'' (Ptr ''struct bpf_map''), Mem ''bucket_id'' (Scalar Tuint), Mem ''skip_elems'' (Scalar Tuint)]"

lemma info_struct_bpf_iter_seq_sk_storage_map_info [c_info]: "info struct_bpf_iter_seq_sk_storage_map_info = (16, 8)"
  by (simp add: struct_bpf_iter_seq_sk_storage_map_info_def c_info)

definition struct_bpf_iter__bpf_sk_storage_map :: ctype where
  "struct_bpf_iter__bpf_sk_storage_map = Struct [] [
    Anon (Union [] [
      Mem ''meta'' (Ptr ''struct bpf_iter_meta'')]),
    Anon (Union [] [
      Mem ''map'' (Ptr ''struct bpf_map'')]),
    Anon (Union [] [
      Mem ''sk'' (Ptr ''struct sock'')]),
    Anon (Union [] [
      Mem ''value'' (Ptr ''void'')])]"

lemma info_struct_bpf_iter__bpf_sk_storage_map [c_info]: "info struct_bpf_iter__bpf_sk_storage_map = (32, 8)"
  by (simp add: struct_bpf_iter__bpf_sk_storage_map_def c_info)

definition struct_bpf_iter__netlink :: ctype where
  "struct_bpf_iter__netlink = Struct [] [
    Anon (Union [] [
      Mem ''meta'' (Ptr ''struct bpf_iter_meta'')]),
    Anon (Union [] [
      Mem ''sk'' (Ptr ''struct netlink_sock'')])]"

lemma info_struct_bpf_iter__netlink [c_info]: "info struct_bpf_iter__netlink = (16, 8)"
  by (simp add: struct_bpf_iter__netlink_def c_info)

definition struct_bpf_iter__tcp :: ctype where
  "struct_bpf_iter__tcp = Struct [] [
    Anon (Union [] [
      Mem ''meta'' (Ptr ''struct bpf_iter_meta'')]),
    Anon (Union [] [
      Mem ''sk_common'' (Ptr ''struct sock_common'')]),
    Mem ''uid'' typedef_uid_t]"

lemma info_struct_bpf_iter__tcp [c_info]: "info struct_bpf_iter__tcp = (24, 8)"
  by (simp add: struct_bpf_iter__tcp_def c_info)

definition struct_bpf_iter__udp :: ctype where
  "struct_bpf_iter__udp = Struct [] [
    Anon (Union [] [
      Mem ''meta'' (Ptr ''struct bpf_iter_meta'')]),
    Anon (Union [] [
      Mem ''udp_sk'' (Ptr ''struct udp_sock'')]),
    Mem ''uid'' typedef_uid_t, Pad (Scalar Tlong) 0, Mem ''bucket'' (Scalar Tint)]"

lemma info_struct_bpf_iter__udp [c_info]: "info struct_bpf_iter__udp = (32, 8)"
  by (simp add: struct_bpf_iter__udp_def c_info)

definition struct_bpf_iter__unix :: ctype where
  "struct_bpf_iter__unix = Struct [] [
    Anon (Union [] [
      Mem ''meta'' (Ptr ''struct bpf_iter_meta'')]),
    Anon (Union [] [
      Mem ''unix_sk'' (Ptr ''struct unix_sock'')]),
    Mem ''uid'' typedef_uid_t]"

lemma info_struct_bpf_iter__unix [c_info]: "info struct_bpf_iter__unix = (24, 8)"
  by (simp add: struct_bpf_iter__unix_def c_info)

definition struct_bpf_iter__ipv6_route :: ctype where
  "struct_bpf_iter__ipv6_route = Struct [] [
    Anon (Union [] [
      Mem ''meta'' (Ptr ''struct bpf_iter_meta'')]),
    Anon (Union [] [
      Mem ''rt'' (Ptr ''struct fib6_info'')])]"

lemma info_struct_bpf_iter__ipv6_route [c_info]: "info struct_bpf_iter__ipv6_route = (16, 8)"
  by (simp add: struct_bpf_iter__ipv6_route_def c_info)

end
