(* ===== verification/Vmlinux_Ctx.thy ===== *)
theory Vmlinux_Ctx
  imports Vmlinux_Map
begin

text \<open>
  Types of src/internal/sentinel/bpf/vmlinux.h. Kernel-side contexts, tracing, networking hooks and the remaining BPF types.
\<close>

definition struct_cgroup_bpf :: ctype where
  "struct_cgroup_bpf = Struct [] [
    Mem ''effective'' (Array (Ptr ''struct bpf_prog_array'') 23), Mem ''progs'' (Array struct_list_head 23),
    Mem ''flags'' (Array typedef_u32 23), Mem ''storages'' struct_list_head,
    Mem ''inactive'' (Ptr ''struct bpf_prog_array''), Mem ''refcnt'' struct_percpu_ref,
    Mem ''release_work'' struct_work_struct]"

lemma info_struct_cgroup_bpf [c_info]: "info struct_cgroup_bpf = (720, 8)"
  by (simp add: struct_cgroup_bpf_def c_info)

definition struct_bpf_raw_event_map :: ctype where
  "struct_bpf_raw_event_map = Struct [] [
    Mem ''tp'' (Ptr ''struct tracepoint''), Mem ''bpf_func'' (Ptr ''void''), Mem ''num_args'' typedef_u32,
    Mem ''writable_size'' typedef_u32, Pad (Scalar Tlong) 64]"

lemma info_struct_bpf_raw_event_map [c_info]: "info struct_bpf_raw_event_map = (32, 8)"
  by (simp add: struct_bpf_raw_event_map_def c_info)

definition struct_netns_bpf :: ctype where
  "struct_netns_bpf = Struct [] [
    Mem ''run_array'' (Array (Ptr ''struct bpf_prog_array'') 2), Mem ''progs'' (Array (Ptr ''struct bpf_prog'') 2),
    Mem ''links'' (Array struct_list_head 2)]"

lemma info_struct_netns_bpf [c_info]: "info struct_netns_bpf = (64, 8)"
  by (simp add: struct_netns_bpf_def c_info)

definition struct_bpf_xdp_entity :: ctype where
  "struct_bpf_xdp_entity = Struct [] [
    Mem ''prog'' (Ptr ''struct bpf_prog''), Mem ''link'' (Ptr ''struct bpf_xdp_link'')]"

lemma info_struct_bpf_xdp_entity [c_info]: "info struct_bpf_xdp_entity = (16, 8)"
  by (simp add: struct_bpf_xdp_entity_def c_info)

definition struct_netdev_bpf :: ctype where
  "struct_netdev_bpf = Struct [] [
    Mem ''command'' enum_bpf_netdev_command,
    Anon (Union [] [
      Anon (Struct [] [
        Mem ''flags'' typedef_u32, Mem ''prog'' (Ptr ''struct bpf_prog''),
        Mem ''extack'' (Ptr ''struct netlink_ext_ack'')]),
      Anon (Struct [] [
        Mem ''offmap'' (Ptr ''struct bpf_offloaded_map'')]),
      Mem ''xsk'' (Struct [] [
        Mem ''pool'' (Ptr ''struct xsk_buff_pool''), Mem ''queue_id'' typedef_u16])])]"

lemma info_struct_netdev_bpf [c_info]: "info struct_netdev_bpf = (32, 8)"
  by (simp add: struct_netdev_bpf_def c_info)

definition struct_bpf_nh_params :: ctype where
  "struct_bpf_nh_params = Struct [] [
    Mem ''nh_family'' typedef_u32,
    Anon (Union [] [
      Mem ''ipv4_nh'' typedef_u32, Mem ''ipv6_nh'' struct_in6_addr])]"

lemma info_struct_bpf_nh_params [c_info]: "info struct_bpf_nh_params = (20, 4)"
  by (simp add: struct_bpf_nh_params_def c_info)

definition struct_bpf_redirect_info :: ctype where
  "struct_bpf_redirect_info = Struct [] [
    Mem ''flags'' typedef_u32, Mem ''tgt_index'' typedef_u32, Mem ''tgt_value'' (Ptr ''void''),
    Mem ''map'' (Ptr ''struct bpf_map''), Mem ''map_id'' typedef_u32, Mem ''map_type'' enum_bpf_map_type,
    Mem ''kern_flags'' typedef_u32, Mem ''nh'' struct_bpf_nh_params]"

lemma info_struct_bpf_redirect_info [c_info]: "info struct_bpf_redirect_info = (56, 8)"
  by (simp add: struct_bpf_redirect_info_def c_info)

definition struct_ipv6_bpf_stub :: ctype where
  "struct_ipv6_bpf_stub = Struct [] [
    Mem ''inet6_bind'' (FunPtr ''int'' [''struct sock *'', ''struct sockaddr *'', ''int'', ''u32'']),
    Mem ''udp6_lib_lookup'' (FunPtr ''struct sock *'' [''struct net *'', ''const struct in6_addr *'', ''__be16'', ''const struct in6_addr *'', ''__be16'', ''int'', ''int'', ''struct udp_table *'', ''struct sk_buff *'']),
    Mem ''ipv6_dev_get_saddr'' (FunPtr ''int'' [''struct net *'', ''const struct net_device *'', ''const struct in6_addr *'', ''unsigned int'', ''struct in6_addr *''])]"

lemma info_struct_ipv6_bpf_stub [c_info]: "info struct_ipv6_bpf_stub = (24, 8)"
  by (simp add: struct_ipv6_bpf_stub_def c_info)

definition struct_bpf_cgroup_link :: ctype where
  "struct_bpf_cgroup_link = Struct [] [
    Mem ''link'' struct_bpf_link, Mem ''cgroup'' (Ptr ''struct cgroup''), Mem ''type'' enum_bpf_attach_type]"

lemma info_struct_bpf_cgroup_link [c_info]: "info struct_bpf_cgroup_link = (80, 8)"
  by (simp add: struct_bpf_cgroup_link_def c_info)

definition struct_bpf_trace_run_ctx :: ctype where
  "struct_bpf_trace_run_ctx = Struct [] [
    Mem ''run_ctx'' struct_bpf_run_ctx, Mem ''bpf_cookie'' typedef_u64]"

lemma info_struct_bpf_trace_run_ctx [c_info]: "info struct_bpf_trace_run_ctx = (8, 8)"
  by (simp add: struct_bpf_trace_run_ctx_def c_info)

definition struct_bpf_perf_event_data_kern :: ctype where
  "struct_bpf_perf_event_data_kern = Struct [] [
    Mem ''regs'' (Ptr ''bpf_user_pt_regs_t''), Mem ''data'' (Ptr ''struct perf_sample_data''),
    Mem ''event'' (Ptr ''struct perf_event'')]"

lemma info_struct_bpf_perf_event_data_kern [c_info]: "info struct_bpf_perf_event_data_kern = (24, 8)"
  by (simp add: struct_bpf_perf_event_data_kern_def c_info)

definition struct_trace_event_raw_bpf_trace_printk :: ctype where
  "struct_trace_event_raw_bpf_trace_printk = Struct [] [
    Mem ''ent'' struct_trace_entry, Mem ''__data_loc_bpf_string'' typedef_u32, Mem ''__data'' (Array (Scalar Tchar) 0)]"

lemma info_struct_trace_event_raw_bpf_trace_printk [c_info]: "info struct_trace_event_raw_bpf_trace_printk = (12, 4)"
  by (simp add: struct_trace_event_raw_bpf_trace_printk_def c_info)

definition struct_trace_event_data_offsets_bpf_trace_printk :: ctype where
  "struct_trace_event_data_offsets_bpf_trace_printk = Struct [] [
    Mem ''bpf_string'' typedef_u32]"

lemma info_struct_trace_event_data_offsets_bpf_trace_printk [c_info]: "info struct_trace_event_data_offsets_bpf_trace_printk = (4, 4)"
  by (simp add: struct_trace_event_data_offsets_bpf_trace_printk_def c_info)

definition struct_bpf_trace_module :: ctype where
  "struct_bpf_trace_module = Struct [] [
    Mem ''module'' (Ptr ''struct module''), Mem ''list'' struct_list_head]"

lemma info_struct_bpf_trace_module [c_info]: "info struct_bpf_trace_module = (24, 8)"
  by (simp add: struct_bpf_trace_module_def c_info)

definition struct_bpf_trace_sample_data :: ctype where
  "struct_bpf_trace_sample_data = Struct [] [
    Mem ''sds'' (Array struct_perf_sample_data 3)]"

lemma info_struct_bpf_trace_sample_data [c_info]: "info struct_bpf_trace_sample_data = (768, 8)"
  by (simp add: struct_bpf_trace_sample_data_def c_info)

definition struct_bpf_nested_pt_regs :: ctype where
  "struct_bpf_nested_pt_regs = Struct [] [
    Mem ''regs'' (Array struct_pt_regs 3)]"

lemma info_struct_bpf_nested_pt_regs [c_info]: "info struct_bpf_nested_pt_regs = (1008, 8)"
  by (simp add: struct_bpf_nested_pt_regs_def c_info)

definition struct_bpf_raw_tp_regs :: ctype where
  "struct_bpf_raw_tp_regs = Struct [] [
    Mem ''regs'' (Array struct_pt_regs 3)]"

lemma info_struct_bpf_raw_tp_regs [c_info]: "info struct_bpf_raw_tp_regs = (1008, 8)"
  by (simp add: struct_bpf_raw_tp_regs_def c_info)

definition struct_bpf_prog_dummy :: ctype where
  "struct_bpf_prog_dummy = Struct [] [
    Mem ''prog'' struct_bpf_prog]"

lemma info_struct_bpf_prog_dummy [c_info]: "info struct_bpf_prog_dummy = (72, 8)"
  by (simp add: struct_bpf_prog_dummy_def c_info)

definition struct_bpf_raw_tp_link :: ctype where
  "struct_bpf_raw_tp_link = Struct [] [
    Mem ''link'' struct_bpf_link, Mem ''btp'' (Ptr ''struct bpf_raw_event_map'')]"

lemma info_struct_bpf_raw_tp_link [c_info]: "info struct_bpf_raw_tp_link = (72, 8)"
  by (simp add: struct_bpf_raw_tp_link_def c_info)

definition struct_bpf_perf_link :: ctype where
  "struct_bpf_perf_link = Struct [] [
    Mem ''link'' struct_bpf_link, Mem ''perf_file'' (Ptr ''struct file'')]"

lemma info_struct_bpf_perf_link [c_info]: "info struct_bpf_perf_link = (72, 8)"
  by (simp add: struct_bpf_perf_link_def c_info)

definition typedef_bpf_convert_ctx_access_t :: ctype where
  "typedef_bpf_convert_ctx_access_t = FunPtr ''u32'' [''enum bpf_access_type'', ''const struct bpf_insn *'', ''struct bpf_insn *'', ''struct bpf_prog *'', ''u32 *'']"

lemma info_typedef_bpf_convert_ctx_access_t [c_info]: "info typedef_bpf_convert_ctx_access_t = (8, 8)"
  by (simp add: typedef_bpf_convert_ctx_access_t_def c_info)

definition struct_bpf_sock_addr_kern :: ctype where
  "struct_bpf_sock_addr_kern = Struct [] [
    Mem ''sk'' (Ptr ''struct sock''), Mem ''uaddr'' (Ptr ''struct sockaddr''), Mem ''tmp_reg'' typedef_u64,
    Mem ''t_ctx'' (Ptr ''void'')]"

lemma info_struct_bpf_sock_addr_kern [c_info]: "info struct_bpf_sock_addr_kern = (32, 8)"
  by (simp add: struct_bpf_sock_addr_kern_def c_info)

definition struct_bpf_sock_ops_kern :: ctype where
  "struct_bpf_sock_ops_kern = Struct [] [
    Mem ''sk'' (Ptr ''struct sock''),
    Anon (Union [] [
      Mem ''args'' (Array typedef_u32 4), Mem ''reply'' typedef_u32, Mem ''replylong'' (Array typedef_u32 4)]),
    Mem ''syn_skb'' (Ptr ''struct sk_buff''), Mem ''skb'' (Ptr ''struct sk_buff''),
    Mem ''skb_data_end'' (Ptr ''void''), Mem ''op'' typedef_u8, Mem ''is_fullsock'' typedef_u8,
    Mem ''remaining_opt_len'' typedef_u8, Mem ''temp'' typedef_u64]"

lemma info_struct_bpf_sock_ops_kern [c_info]: "info struct_bpf_sock_ops_kern = (64, 8)"
  by (simp add: struct_bpf_sock_ops_kern_def c_info)

definition struct_bpf_sockopt_kern :: ctype where
  "struct_bpf_sockopt_kern = Struct [] [
    Mem ''sk'' (Ptr ''struct sock''), Mem ''optval'' (Ptr ''u8''), Mem ''optval_end'' (Ptr ''u8''),
    Mem ''level'' typedef_s32, Mem ''optname'' typedef_s32, Mem ''optlen'' typedef_s32, Mem ''retval'' typedef_s32]"

lemma info_struct_bpf_sockopt_kern [c_info]: "info struct_bpf_sockopt_kern = (40, 8)"
  by (simp add: struct_bpf_sockopt_kern_def c_info)

definition struct_bpf_sk_lookup_kern :: ctype where
  "struct_bpf_sk_lookup_kern = Struct [] [
    Mem ''family'' typedef_u16, Mem ''protocol'' typedef_u16, Mem ''sport'' typedef___be16, Mem ''dport'' typedef_u16,
    Mem ''v4'' (Struct [] [
      Mem ''saddr'' typedef___be32, Mem ''daddr'' typedef___be32]),
    Mem ''v6'' (Struct [] [
      Mem ''saddr'' (Ptr ''const struct in6_addr''), Mem ''daddr'' (Ptr ''const struct in6_addr'')]),
    Mem ''selected_sk'' (Ptr ''struct sock''), Mem ''no_reuseport'' typedef_bool]"

lemma info_struct_bpf_sk_lookup_kern [c_info]: "info struct_bpf_sk_lookup_kern = (48, 8)"
  by (simp add: struct_bpf_sk_lookup_kern_def c_info)

definition struct_bpf_ctx_convert :: ctype where
  "struct_bpf_ctx_convert = Struct [] [
    Mem ''BPF_PROG_TYPE_SOCKET_FILTER_prog'' struct___sk_buff,
    Mem ''BPF_PROG_TYPE_SOCKET_FILTER_kern'' struct_sk_buff, Mem ''BPF_PROG_TYPE_SCHED_CLS_prog'' struct___sk_buff,
    Mem ''BPF_PROG_TYPE_SCHED_CLS_kern'' struct_sk_buff, Mem ''BPF_PROG_TYPE_SCHED_ACT_prog'' struct___sk_buff,
    Mem ''BPF_PROG_TYPE_SCHED_ACT_kern'' struct_sk_buff, Mem ''BPF_PROG_TYPE_XDP_prog'' struct_xdp_md,
    Mem ''BPF_PROG_TYPE_XDP_kern'' struct_xdp_buff, Mem ''BPF_PROG_TYPE_CGROUP_SKB_prog'' struct___sk_buff,
    Mem ''BPF_PROG_TYPE_CGROUP_SKB_kern'' struct_sk_buff, Mem ''BPF_PROG_TYPE_CGROUP_SOCK_prog'' struct_bpf_sock,
    Mem ''BPF_PROG_TYPE_CGROUP_SOCK_kern'' struct_sock,
    Mem ''BPF_PROG_TYPE_CGROUP_SOCK_ADDR_prog'' struct_bpf_sock_addr,
    Mem ''BPF_PROG_TYPE_CGROUP_SOCK_ADDR_kern'' struct_bpf_sock_addr_kern,
    Mem ''BPF_PROG_TYPE_LWT_IN_prog'' struct___sk_buff, Mem ''BPF_PROG_TYPE_LWT_IN_kern'' struct_sk_buff,
    Mem ''BPF_PROG_TYPE_LWT_OUT_prog'' struct___sk_buff, Mem ''BPF_PROG_TYPE_LWT_OUT_kern'' struct_sk_buff,
    Mem ''BPF_PROG_TYPE_LWT_XMIT_prog'' struct___sk_buff, Mem ''BPF_PROG_TYPE_LWT_XMIT_kern'' struct_sk_buff,
    Mem ''BPF_PROG_TYPE_LWT_SEG6LOCAL_prog'' struct___sk_buff,
    Mem ''BPF_PROG_TYPE_LWT_SEG6LOCAL_kern'' struct_sk_buff, Mem ''BPF_PROG_TYPE_SOCK_OPS_prog'' struct_bpf_sock_ops,
    Mem ''BPF_PROG_TYPE_SOCK_OPS_kern'' struct_bpf_sock_ops_kern, Mem ''BPF_PROG_TYPE_SK_SKB_prog'' struct___sk_buff,
    Mem ''BPF_PROG_TYPE_SK_SKB_kern'' struct_sk_buff, Mem ''BPF_PROG_TYPE_SK_MSG_prog'' struct_sk_msg_md,
    Mem ''BPF_PROG_TYPE_SK_MSG_kern'' struct_sk_msg, Mem ''BPF_PROG_TYPE_FLOW_DISSECTOR_prog'' struct___sk_buff,
    Mem ''BPF_PROG_TYPE_FLOW_DISSECTOR_kern'' struct_bpf_flow_dissector,
    Mem ''BPF_PROG_TYPE_KPROBE_prog'' typedef_bpf_user_pt_regs_t, Mem ''BPF_PROG_TYPE_KPROBE_kern'' struct_pt_regs,
    Mem ''BPF_PROG_TYPE_TRACEPOINT_prog'' typedef___u64, Mem ''BPF_PROG_TYPE_TRACEPOINT_kern'' typedef_u64,
    Mem ''BPF_PROG_TYPE_PERF_EVENT_prog'' struct_bpf_perf_event_data,
    Mem ''BPF_PROG_TYPE_PERF_EVENT_kern'' struct_bpf_perf_event_data_kern,
    Mem ''BPF_PROG_TYPE_RAW_TRACEPOINT_prog'' struct_bpf_raw_tracepoint_args,
    Mem ''BPF_PROG_TYPE_RAW_TRACEPOINT_kern'' typedef_u64,
    Mem ''BPF_PROG_TYPE_RAW_TRACEPOINT_WRITABLE_prog'' struct_bpf_raw_tracepoint_args,
    Mem ''BPF_PROG_TYPE_RAW_TRACEPOINT_WRITABLE_kern'' typedef_u64, Mem ''BPF_PROG_TYPE_TRACING_prog'' (Ptr ''void''),
    Mem ''BPF_PROG_TYPE_TRACING_kern'' (Ptr ''void''),
    Mem ''BPF_PROG_TYPE_CGROUP_DEVICE_prog'' struct_bpf_cgroup_dev_ctx,
    Mem ''BPF_PROG_TYPE_CGROUP_DEVICE_kern'' struct_bpf_cgroup_dev_ctx,
    Mem ''BPF_PROG_TYPE_CGROUP_SYSCTL_prog'' struct_bpf_sysctl,
    Mem ''BPF_PROG_TYPE_CGROUP_SYSCTL_kern'' struct_bpf_sysctl_kern,
    Mem ''BPF_PROG_TYPE_CGROUP_SOCKOPT_prog'' struct_bpf_sockopt,
    Mem ''BPF_PROG_TYPE_CGROUP_SOCKOPT_kern'' struct_bpf_sockopt_kern,
    Mem ''BPF_PROG_TYPE_SK_REUSEPORT_prog'' struct_sk_reuseport_md,
    Mem ''BPF_PROG_TYPE_SK_REUSEPORT_kern'' struct_sk_reuseport_kern,
    Mem ''BPF_PROG_TYPE_SK_LOOKUP_prog'' struct_bpf_sk_lookup,
    Mem ''BPF_PROG_TYPE_SK_LOOKUP_kern'' struct_bpf_sk_lookup_kern,
    Mem ''BPF_PROG_TYPE_STRUCT_OPS_prog'' (Ptr ''void''), Mem ''BPF_PROG_TYPE_STRUCT_OPS_kern'' (Ptr ''void''),
    Mem ''BPF_PROG_TYPE_EXT_prog'' (Ptr ''void''), Mem ''BPF_PROG_TYPE_EXT_kern'' (Ptr ''void''),
    Mem ''BPF_PROG_TYPE_LSM_prog'' (Ptr ''void''), Mem ''BPF_PROG_TYPE_LSM_kern'' (Ptr ''void''),
    Mem ''BPF_PROG_TYPE_SYSCALL_prog'' (Ptr ''void''), Mem ''BPF_PROG_TYPE_SYSCALL_kern'' (Ptr ''void'')]"

lemma info_struct_bpf_ctx_convert [c_info]: "info struct_bpf_ctx_convert = (7464, 8)"
  by (simp add: struct_bpf_ctx_convert_def c_info)

definition struct_bpf_offload_dev :: ctype where
  "struct_bpf_offload_dev = Struct [] [
    Mem ''ops'' (Ptr ''const struct bpf_prog_offload_ops''), Mem ''netdevs'' struct_list_head,
    Mem ''priv'' (Ptr ''void'')]"

lemma info_struct_bpf_offload_dev [c_info]: "info struct_bpf_offload_dev = (32, 8)"
  by (simp add: struct_bpf_offload_dev_def c_info)

definition struct_bpf_offload_netdev :: ctype where
  "struct_bpf_offload_netdev = Struct [] [
    Mem ''l'' struct_rhash_head, Mem ''netdev'' (Ptr ''struct net_device''),
    Mem ''offdev'' (Ptr ''struct bpf_offload_dev''), Mem ''progs'' struct_list_head, Mem ''maps'' struct_list_head,
    Mem ''offdev_netdevs'' struct_list_head]"

lemma info_struct_bpf_offload_netdev [c_info]: "info struct_bpf_offload_netdev = (72, 8)"
  by (simp add: struct_bpf_offload_netdev_def c_info)

definition struct_ns_get_path_bpf_prog_args :: ctype where
  "struct_ns_get_path_bpf_prog_args = Struct [] [
    Mem ''prog'' (Ptr ''struct bpf_prog''), Mem ''info'' (Ptr ''struct bpf_prog_info'')]"

lemma info_struct_ns_get_path_bpf_prog_args [c_info]: "info struct_ns_get_path_bpf_prog_args = (16, 8)"
  by (simp add: struct_ns_get_path_bpf_prog_args_def c_info)

definition struct_ns_get_path_bpf_map_args :: ctype where
  "struct_ns_get_path_bpf_map_args = Struct [] [
    Mem ''offmap'' (Ptr ''struct bpf_offloaded_map''), Mem ''info'' (Ptr ''struct bpf_map_info'')]"

lemma info_struct_ns_get_path_bpf_map_args [c_info]: "info struct_ns_get_path_bpf_map_args = (16, 8)"
  by (simp add: struct_ns_get_path_bpf_map_args_def c_info)

definition struct_bpf_netns_link :: ctype where
  "struct_bpf_netns_link = Struct [] [
    Mem ''link'' struct_bpf_link, Mem ''type'' enum_bpf_attach_type, Mem ''netns_type'' enum_netns_bpf_attach_type,
    Mem ''net'' (Ptr ''struct net''), Mem ''node'' struct_list_head]"

lemma info_struct_bpf_netns_link [c_info]: "info struct_bpf_netns_link = (96, 8)"
  by (simp add: struct_bpf_netns_link_def c_info)

definition struct_bpf_prog_list :: ctype where
  "struct_bpf_prog_list = Struct [] [
    Mem ''node'' struct_list_head, Mem ''prog'' (Ptr ''struct bpf_prog''),
    Mem ''link'' (Ptr ''struct bpf_cgroup_link''), Mem ''storage'' (Array (Ptr ''struct bpf_cgroup_storage'') 2)]"

lemma info_struct_bpf_prog_list [c_info]: "info struct_bpf_prog_list = (48, 8)"
  by (simp add: struct_bpf_prog_list_def c_info)

definition struct_bpf_skb_data_end :: ctype where
  "struct_bpf_skb_data_end = Struct [] [
    Mem ''qdisc_cb'' struct_qdisc_skb_cb, Mem ''data_meta'' (Ptr ''void''), Mem ''data_end'' (Ptr ''void'')]"

lemma info_struct_bpf_skb_data_end [c_info]: "info struct_bpf_skb_data_end = (48, 8)"
  by (simp add: struct_bpf_skb_data_end_def c_info)

definition struct_bpf_sockopt_buf :: ctype where
  "struct_bpf_sockopt_buf = Struct [] [
    Mem ''data'' (Array typedef_u8 32)]"

lemma info_struct_bpf_sockopt_buf [c_info]: "info struct_bpf_sockopt_buf = (32, 1)"
  by (simp add: struct_bpf_sockopt_buf_def c_info)

definition struct_perf_bpf_event :: ctype where
  "struct_perf_bpf_event = Struct [] [
    Mem ''prog'' (Ptr ''struct bpf_prog''),
    Mem ''event_id'' (Struct [] [
      Mem ''header'' struct_perf_event_header, Mem ''type'' typedef_u16, Mem ''flags'' typedef_u16,
      Mem ''id'' typedef_u32, Mem ''tag'' (Array typedef_u8 8)])]"

lemma info_struct_perf_bpf_event [c_info]: "info struct_perf_bpf_event = (32, 8)"
  by (simp add: struct_perf_bpf_event_def c_info)

definition struct_bpf_security_struct :: ctype where
  "struct_bpf_security_struct = Struct [] [
    Mem ''sid'' typedef_u32]"

lemma info_struct_bpf_security_struct [c_info]: "info struct_bpf_security_struct = (4, 4)"
  by (simp add: struct_bpf_security_struct_def c_info)

definition struct_bpf_xdp_link :: ctype where
  "struct_bpf_xdp_link = Struct [] [
    Mem ''link'' struct_bpf_link, Mem ''dev'' (Ptr ''struct net_device''), Mem ''flags'' (Scalar Tint)]"

lemma info_struct_bpf_xdp_link [c_info]: "info struct_bpf_xdp_link = (80, 8)"
  by (simp add: struct_bpf_xdp_link_def c_info)

definition struct_seg6_bpf_srh_state :: ctype where
  "struct_seg6_bpf_srh_state = Struct [] [
    Mem ''srh'' (Ptr ''struct ipv6_sr_hdr''), Mem ''hdrlen'' typedef_u16, Mem ''valid'' typedef_bool]"

lemma info_struct_seg6_bpf_srh_state [c_info]: "info struct_seg6_bpf_srh_state = (16, 8)"
  by (simp add: struct_seg6_bpf_srh_state_def c_info)

definition struct_bpf_lwt_prog :: ctype where
  "struct_bpf_lwt_prog = Struct [] [
    Mem ''prog'' (Ptr ''struct bpf_prog''), Mem ''name'' (Ptr ''char'')]"

lemma info_struct_bpf_lwt_prog [c_info]: "info struct_bpf_lwt_prog = (16, 8)"
  by (simp add: struct_bpf_lwt_prog_def c_info)

definition struct_bpf_lwt :: ctype where
  "struct_bpf_lwt = Struct [] [
    Mem ''in'' struct_bpf_lwt_prog, Mem ''out'' struct_bpf_lwt_prog, Mem ''xmit'' struct_bpf_lwt_prog,
    Mem ''family'' (Scalar Tint)]"

lemma info_struct_bpf_lwt [c_info]: "info struct_bpf_lwt = (56, 8)"
  by (simp add: struct_bpf_lwt_def c_info)

definition struct_bpf_sk_storage_diag :: ctype where
  "struct_bpf_sk_storage_diag = Struct [] [
    Mem ''nr_maps'' typedef_u32, Mem ''maps'' (Array (Ptr ''struct bpf_map'') 0)]"

lemma info_struct_bpf_sk_storage_diag [c_info]: "info struct_bpf_sk_storage_diag = (8, 8)"
  by (simp add: struct_bpf_sk_storage_diag_def c_info)

definition struct_trace_event_raw_bpf_test_finish :: ctype where
  "struct_trace_event_raw_bpf_test_finish = Struct [] [
    Mem ''ent'' struct_trace_entry, Mem ''err'' (Scalar Tint), Mem ''__data'' (Array (Scalar Tchar) 0)]"

lemma info_struct_trace_event_raw_bpf_test_finish [c_info]: "info struct_trace_event_raw_bpf_test_finish = (12, 4)"
  by (simp add: struct_trace_event_raw_bpf_test_finish_def c_info)

definition struct_trace_event_data_offsets_bpf_test_finish :: ctype where
  "struct_trace_event_data_offsets_bpf_test_finish = Struct [] []"

lemma info_struct_trace_event_data_offsets_bpf_test_finish [c_info]: "info struct_trace_event_data_offsets_bpf_test_finish = (0, 1)"
  by (simp add: struct_trace_event_data_offsets_bpf_test_finish_def c_info)

definition struct_bpf_test_timer :: ctype where
  "struct_bpf_test_timer = Struct [] [
    Mem ''mode'' (Enum [
      (''NO_PREEMPT'', 0), (''NO_MIGRATE'', 1)]),
    Mem ''i'' typedef_u32, Mem ''time_start'' typedef_u64, Mem ''time_spent'' typedef_u64]"

lemma info_struct_bpf_test_timer [c_info]: "info struct_bpf_test_timer = (24, 8)"
  by (simp add: struct_bpf_test_timer_def c_info)

definition struct_bpf_fentry_test_t :: ctype where
  "struct_bpf_fentry_test_t = Struct [] [
    Mem ''a'' (Ptr ''struct bpf_fentry_test_t'')]"

lemma info_struct_bpf_fentry_test_t [c_info]: "info struct_bpf_fentry_test_t = (8, 8)"
  by (simp add: struct_bpf_fentry_test_t_def c_info)

definition struct_bpf_raw_tp_test_run_info :: ctype where
  "struct_bpf_raw_tp_test_run_info = Struct [] [
    Mem ''prog'' (Ptr ''struct bpf_prog''), Mem ''ctx'' (Ptr ''void''), Mem ''retval'' typedef_u32]"

lemma info_struct_bpf_raw_tp_test_run_info [c_info]: "info struct_bpf_raw_tp_test_run_info = (24, 8)"
  by (simp add: struct_bpf_raw_tp_test_run_info_def c_info)

definition struct_bpfilter_umh_ops :: ctype where
  "struct_bpfilter_umh_ops = Struct [] [
    Mem ''info'' struct_umd_info, Mem ''lock'' struct_mutex,
    Mem ''sockopt'' (FunPtr ''int'' [''struct sock *'', ''int'', ''sockptr_t'', ''unsigned int'', ''bool'']),
    Mem ''start'' (FunPtr ''int'' [''void''])]"

lemma info_struct_bpfilter_umh_ops [c_info]: "info struct_bpfilter_umh_ops = (96, 8)"
  by (simp add: struct_bpfilter_umh_ops_def c_info)

definition struct_bpf_tcp_iter_state :: ctype where
  "struct_bpf_tcp_iter_state = Struct [] [
    Mem ''state'' struct_tcp_iter_state, Mem ''cur_sk'' (Scalar Tuint), Mem ''end_sk'' (Scalar Tuint),
    Mem ''max_sk'' (Scalar Tuint), Mem ''batch'' (Ptr ''struct sock *''), Mem ''st_bucket_done'' typedef_bool]"

lemma info_struct_bpf_tcp_iter_state [c_info]: "info struct_bpf_tcp_iter_state = (80, 8)"
  by (simp add: struct_bpf_tcp_iter_state_def c_info)

end
