(* ===== verification/Vmlinux_Helpers.thy ===== *)
theory Vmlinux_Helpers
  imports C_Layout
begin

text \<open>
  Types of src/internal/sentinel/bpf/vmlinux.h. The function types the header derives from the BPF helpers of the kernel: result and parameters of
  the helper behind each \<open>btf_bpf_\<close> name.
\<close>

definition typedef_btf_trace_bpf_trace_printk :: ctype where
  "typedef_btf_trace_bpf_trace_printk = FunPtr ''void'' [''void *'', ''const char *'']"

lemma info_typedef_btf_trace_bpf_trace_printk [c_info]: "info typedef_btf_trace_bpf_trace_printk = (8, 8)"
  by (simp add: typedef_btf_trace_bpf_trace_printk_def c_info)

definition typedef_btf_bpf_override_return :: ctype where
  "typedef_btf_bpf_override_return = FunPtr ''u64'' [''struct pt_regs *'', ''long unsigned int'']"

lemma info_typedef_btf_bpf_override_return [c_info]: "info typedef_btf_bpf_override_return = (8, 8)"
  by (simp add: typedef_btf_bpf_override_return_def c_info)

definition typedef_btf_bpf_probe_read_user :: ctype where
  "typedef_btf_bpf_probe_read_user = FunPtr ''u64'' [''void *'', ''u32'', ''const void *'']"

lemma info_typedef_btf_bpf_probe_read_user [c_info]: "info typedef_btf_bpf_probe_read_user = (8, 8)"
  by (simp add: typedef_btf_bpf_probe_read_user_def c_info)

definition typedef_btf_bpf_probe_read_user_str :: ctype where
  "typedef_btf_bpf_probe_read_user_str = FunPtr ''u64'' [''void *'', ''u32'', ''const void *'']"

lemma info_typedef_btf_bpf_probe_read_user_str [c_info]: "info typedef_btf_bpf_probe_read_user_str = (8, 8)"
  by (simp add: typedef_btf_bpf_probe_read_user_str_def c_info)

definition typedef_btf_bpf_probe_read_kernel :: ctype where
  "typedef_btf_bpf_probe_read_kernel = FunPtr ''u64'' [''void *'', ''u32'', ''const void *'']"

lemma info_typedef_btf_bpf_probe_read_kernel [c_info]: "info typedef_btf_bpf_probe_read_kernel = (8, 8)"
  by (simp add: typedef_btf_bpf_probe_read_kernel_def c_info)

definition typedef_btf_bpf_probe_read_kernel_str :: ctype where
  "typedef_btf_bpf_probe_read_kernel_str = FunPtr ''u64'' [''void *'', ''u32'', ''const void *'']"

lemma info_typedef_btf_bpf_probe_read_kernel_str [c_info]: "info typedef_btf_bpf_probe_read_kernel_str = (8, 8)"
  by (simp add: typedef_btf_bpf_probe_read_kernel_str_def c_info)

definition typedef_btf_bpf_probe_read_compat :: ctype where
  "typedef_btf_bpf_probe_read_compat = FunPtr ''u64'' [''void *'', ''u32'', ''const void *'']"

lemma info_typedef_btf_bpf_probe_read_compat [c_info]: "info typedef_btf_bpf_probe_read_compat = (8, 8)"
  by (simp add: typedef_btf_bpf_probe_read_compat_def c_info)

definition typedef_btf_bpf_probe_read_compat_str :: ctype where
  "typedef_btf_bpf_probe_read_compat_str = FunPtr ''u64'' [''void *'', ''u32'', ''const void *'']"

lemma info_typedef_btf_bpf_probe_read_compat_str [c_info]: "info typedef_btf_bpf_probe_read_compat_str = (8, 8)"
  by (simp add: typedef_btf_bpf_probe_read_compat_str_def c_info)

definition typedef_btf_bpf_probe_write_user :: ctype where
  "typedef_btf_bpf_probe_write_user = FunPtr ''u64'' [''void *'', ''const void *'', ''u32'']"

lemma info_typedef_btf_bpf_probe_write_user [c_info]: "info typedef_btf_bpf_probe_write_user = (8, 8)"
  by (simp add: typedef_btf_bpf_probe_write_user_def c_info)

definition typedef_btf_bpf_trace_printk :: ctype where
  "typedef_btf_bpf_trace_printk = FunPtr ''u64'' [''char *'', ''u32'', ''u64'', ''u64'', ''u64'']"

lemma info_typedef_btf_bpf_trace_printk [c_info]: "info typedef_btf_bpf_trace_printk = (8, 8)"
  by (simp add: typedef_btf_bpf_trace_printk_def c_info)

definition typedef_btf_bpf_seq_printf :: ctype where
  "typedef_btf_bpf_seq_printf = FunPtr ''u64'' [''struct seq_file *'', ''char *'', ''u32'', ''const void *'', ''u32'']"

lemma info_typedef_btf_bpf_seq_printf [c_info]: "info typedef_btf_bpf_seq_printf = (8, 8)"
  by (simp add: typedef_btf_bpf_seq_printf_def c_info)

definition typedef_btf_bpf_seq_write :: ctype where
  "typedef_btf_bpf_seq_write = FunPtr ''u64'' [''struct seq_file *'', ''const void *'', ''u32'']"

lemma info_typedef_btf_bpf_seq_write [c_info]: "info typedef_btf_bpf_seq_write = (8, 8)"
  by (simp add: typedef_btf_bpf_seq_write_def c_info)

definition typedef_btf_bpf_seq_printf_btf :: ctype where
  "typedef_btf_bpf_seq_printf_btf = FunPtr ''u64'' [''struct seq_file *'', ''struct btf_ptr *'', ''u32'', ''u64'']"

lemma info_typedef_btf_bpf_seq_printf_btf [c_info]: "info typedef_btf_bpf_seq_printf_btf = (8, 8)"
  by (simp add: typedef_btf_bpf_seq_printf_btf_def c_info)

definition typedef_btf_bpf_perf_event_read :: ctype where
  "typedef_btf_bpf_perf_event_read = FunPtr ''u64'' [''struct bpf_map *'', ''u64'']"

lemma info_typedef_btf_bpf_perf_event_read [c_info]: "info typedef_btf_bpf_perf_event_read = (8, 8)"
  by (simp add: typedef_btf_bpf_perf_event_read_def c_info)

definition typedef_btf_bpf_perf_event_read_value :: ctype where
  "typedef_btf_bpf_perf_event_read_value = FunPtr ''u64'' [''struct bpf_map *'', ''u64'', ''struct bpf_perf_event_value *'', ''u32'']"

lemma info_typedef_btf_bpf_perf_event_read_value [c_info]: "info typedef_btf_bpf_perf_event_read_value = (8, 8)"
  by (simp add: typedef_btf_bpf_perf_event_read_value_def c_info)

definition typedef_btf_bpf_perf_event_output :: ctype where
  "typedef_btf_bpf_perf_event_output = FunPtr ''u64'' [''struct pt_regs *'', ''struct bpf_map *'', ''u64'', ''void *'', ''u64'']"

lemma info_typedef_btf_bpf_perf_event_output [c_info]: "info typedef_btf_bpf_perf_event_output = (8, 8)"
  by (simp add: typedef_btf_bpf_perf_event_output_def c_info)

definition typedef_btf_bpf_get_current_task :: ctype where
  "typedef_btf_bpf_get_current_task = FunPtr ''u64'' [''void'']"

lemma info_typedef_btf_bpf_get_current_task [c_info]: "info typedef_btf_bpf_get_current_task = (8, 8)"
  by (simp add: typedef_btf_bpf_get_current_task_def c_info)

definition typedef_btf_bpf_get_current_task_btf :: ctype where
  "typedef_btf_bpf_get_current_task_btf = FunPtr ''u64'' [''void'']"

lemma info_typedef_btf_bpf_get_current_task_btf [c_info]: "info typedef_btf_bpf_get_current_task_btf = (8, 8)"
  by (simp add: typedef_btf_bpf_get_current_task_btf_def c_info)

definition typedef_btf_bpf_task_pt_regs :: ctype where
  "typedef_btf_bpf_task_pt_regs = FunPtr ''u64'' [''struct task_struct *'']"

lemma info_typedef_btf_bpf_task_pt_regs [c_info]: "info typedef_btf_bpf_task_pt_regs = (8, 8)"
  by (simp add: typedef_btf_bpf_task_pt_regs_def c_info)

definition typedef_btf_bpf_current_task_under_cgroup :: ctype where
  "typedef_btf_bpf_current_task_under_cgroup = FunPtr ''u64'' [''struct bpf_map *'', ''u32'']"

lemma info_typedef_btf_bpf_current_task_under_cgroup [c_info]: "info typedef_btf_bpf_current_task_under_cgroup = (8, 8)"
  by (simp add: typedef_btf_bpf_current_task_under_cgroup_def c_info)

definition typedef_btf_bpf_send_signal :: ctype where
  "typedef_btf_bpf_send_signal = FunPtr ''u64'' [''u32'']"

lemma info_typedef_btf_bpf_send_signal [c_info]: "info typedef_btf_bpf_send_signal = (8, 8)"
  by (simp add: typedef_btf_bpf_send_signal_def c_info)

definition typedef_btf_bpf_send_signal_thread :: ctype where
  "typedef_btf_bpf_send_signal_thread = FunPtr ''u64'' [''u32'']"

lemma info_typedef_btf_bpf_send_signal_thread [c_info]: "info typedef_btf_bpf_send_signal_thread = (8, 8)"
  by (simp add: typedef_btf_bpf_send_signal_thread_def c_info)

definition typedef_btf_bpf_d_path :: ctype where
  "typedef_btf_bpf_d_path = FunPtr ''u64'' [''struct path *'', ''char *'', ''u32'']"

lemma info_typedef_btf_bpf_d_path [c_info]: "info typedef_btf_bpf_d_path = (8, 8)"
  by (simp add: typedef_btf_bpf_d_path_def c_info)

definition typedef_btf_bpf_snprintf_btf :: ctype where
  "typedef_btf_bpf_snprintf_btf = FunPtr ''u64'' [''char *'', ''u32'', ''struct btf_ptr *'', ''u32'', ''u64'']"

lemma info_typedef_btf_bpf_snprintf_btf [c_info]: "info typedef_btf_bpf_snprintf_btf = (8, 8)"
  by (simp add: typedef_btf_bpf_snprintf_btf_def c_info)

definition typedef_btf_bpf_get_func_ip_tracing :: ctype where
  "typedef_btf_bpf_get_func_ip_tracing = FunPtr ''u64'' [''void *'']"

lemma info_typedef_btf_bpf_get_func_ip_tracing [c_info]: "info typedef_btf_bpf_get_func_ip_tracing = (8, 8)"
  by (simp add: typedef_btf_bpf_get_func_ip_tracing_def c_info)

definition typedef_btf_bpf_get_func_ip_kprobe :: ctype where
  "typedef_btf_bpf_get_func_ip_kprobe = FunPtr ''u64'' [''struct pt_regs *'']"

lemma info_typedef_btf_bpf_get_func_ip_kprobe [c_info]: "info typedef_btf_bpf_get_func_ip_kprobe = (8, 8)"
  by (simp add: typedef_btf_bpf_get_func_ip_kprobe_def c_info)

definition typedef_btf_bpf_get_attach_cookie_trace :: ctype where
  "typedef_btf_bpf_get_attach_cookie_trace = FunPtr ''u64'' [''void *'']"

lemma info_typedef_btf_bpf_get_attach_cookie_trace [c_info]: "info typedef_btf_bpf_get_attach_cookie_trace = (8, 8)"
  by (simp add: typedef_btf_bpf_get_attach_cookie_trace_def c_info)

definition typedef_btf_bpf_get_attach_cookie_pe :: ctype where
  "typedef_btf_bpf_get_attach_cookie_pe = FunPtr ''u64'' [''struct bpf_perf_event_data_kern *'']"

lemma info_typedef_btf_bpf_get_attach_cookie_pe [c_info]: "info typedef_btf_bpf_get_attach_cookie_pe = (8, 8)"
  by (simp add: typedef_btf_bpf_get_attach_cookie_pe_def c_info)

definition typedef_btf_bpf_perf_event_output_tp :: ctype where
  "typedef_btf_bpf_perf_event_output_tp = FunPtr ''u64'' [''void *'', ''struct bpf_map *'', ''u64'', ''void *'', ''u64'']"

lemma info_typedef_btf_bpf_perf_event_output_tp [c_info]: "info typedef_btf_bpf_perf_event_output_tp = (8, 8)"
  by (simp add: typedef_btf_bpf_perf_event_output_tp_def c_info)

definition typedef_btf_bpf_get_stackid_tp :: ctype where
  "typedef_btf_bpf_get_stackid_tp = FunPtr ''u64'' [''void *'', ''struct bpf_map *'', ''u64'']"

lemma info_typedef_btf_bpf_get_stackid_tp [c_info]: "info typedef_btf_bpf_get_stackid_tp = (8, 8)"
  by (simp add: typedef_btf_bpf_get_stackid_tp_def c_info)

definition typedef_btf_bpf_get_stack_tp :: ctype where
  "typedef_btf_bpf_get_stack_tp = FunPtr ''u64'' [''void *'', ''void *'', ''u32'', ''u64'']"

lemma info_typedef_btf_bpf_get_stack_tp [c_info]: "info typedef_btf_bpf_get_stack_tp = (8, 8)"
  by (simp add: typedef_btf_bpf_get_stack_tp_def c_info)

definition typedef_btf_bpf_perf_prog_read_value :: ctype where
  "typedef_btf_bpf_perf_prog_read_value = FunPtr ''u64'' [''struct bpf_perf_event_data_kern *'', ''struct bpf_perf_event_value *'', ''u32'']"

lemma info_typedef_btf_bpf_perf_prog_read_value [c_info]: "info typedef_btf_bpf_perf_prog_read_value = (8, 8)"
  by (simp add: typedef_btf_bpf_perf_prog_read_value_def c_info)

definition typedef_btf_bpf_read_branch_records :: ctype where
  "typedef_btf_bpf_read_branch_records = FunPtr ''u64'' [''struct bpf_perf_event_data_kern *'', ''void *'', ''u32'', ''u64'']"

lemma info_typedef_btf_bpf_read_branch_records [c_info]: "info typedef_btf_bpf_read_branch_records = (8, 8)"
  by (simp add: typedef_btf_bpf_read_branch_records_def c_info)

definition typedef_btf_bpf_perf_event_output_raw_tp :: ctype where
  "typedef_btf_bpf_perf_event_output_raw_tp = FunPtr ''u64'' [''struct bpf_raw_tracepoint_args *'', ''struct bpf_map *'', ''u64'', ''void *'', ''u64'']"

lemma info_typedef_btf_bpf_perf_event_output_raw_tp [c_info]: "info typedef_btf_bpf_perf_event_output_raw_tp = (8, 8)"
  by (simp add: typedef_btf_bpf_perf_event_output_raw_tp_def c_info)

definition typedef_btf_bpf_get_stackid_raw_tp :: ctype where
  "typedef_btf_bpf_get_stackid_raw_tp = FunPtr ''u64'' [''struct bpf_raw_tracepoint_args *'', ''struct bpf_map *'', ''u64'']"

lemma info_typedef_btf_bpf_get_stackid_raw_tp [c_info]: "info typedef_btf_bpf_get_stackid_raw_tp = (8, 8)"
  by (simp add: typedef_btf_bpf_get_stackid_raw_tp_def c_info)

definition typedef_btf_bpf_get_stack_raw_tp :: ctype where
  "typedef_btf_bpf_get_stack_raw_tp = FunPtr ''u64'' [''struct bpf_raw_tracepoint_args *'', ''void *'', ''u32'', ''u64'']"

lemma info_typedef_btf_bpf_get_stack_raw_tp [c_info]: "info typedef_btf_bpf_get_stack_raw_tp = (8, 8)"
  by (simp add: typedef_btf_bpf_get_stack_raw_tp_def c_info)

definition typedef_btf_bpf_user_rnd_u32 :: ctype where
  "typedef_btf_bpf_user_rnd_u32 = FunPtr ''u64'' [''void'']"

lemma info_typedef_btf_bpf_user_rnd_u32 [c_info]: "info typedef_btf_bpf_user_rnd_u32 = (8, 8)"
  by (simp add: typedef_btf_bpf_user_rnd_u32_def c_info)

definition typedef_btf_bpf_get_raw_cpu_id :: ctype where
  "typedef_btf_bpf_get_raw_cpu_id = FunPtr ''u64'' [''void'']"

lemma info_typedef_btf_bpf_get_raw_cpu_id [c_info]: "info typedef_btf_bpf_get_raw_cpu_id = (8, 8)"
  by (simp add: typedef_btf_bpf_get_raw_cpu_id_def c_info)

definition typedef_btf_bpf_sys_bpf :: ctype where
  "typedef_btf_bpf_sys_bpf = FunPtr ''u64'' [''int'', ''void *'', ''u32'']"

lemma info_typedef_btf_bpf_sys_bpf [c_info]: "info typedef_btf_bpf_sys_bpf = (8, 8)"
  by (simp add: typedef_btf_bpf_sys_bpf_def c_info)

definition typedef_btf_bpf_sys_close :: ctype where
  "typedef_btf_bpf_sys_close = FunPtr ''u64'' [''u32'']"

lemma info_typedef_btf_bpf_sys_close [c_info]: "info typedef_btf_bpf_sys_close = (8, 8)"
  by (simp add: typedef_btf_bpf_sys_close_def c_info)

definition typedef_btf_bpf_map_lookup_elem :: ctype where
  "typedef_btf_bpf_map_lookup_elem = FunPtr ''u64'' [''struct bpf_map *'', ''void *'']"

lemma info_typedef_btf_bpf_map_lookup_elem [c_info]: "info typedef_btf_bpf_map_lookup_elem = (8, 8)"
  by (simp add: typedef_btf_bpf_map_lookup_elem_def c_info)

definition typedef_btf_bpf_map_update_elem :: ctype where
  "typedef_btf_bpf_map_update_elem = FunPtr ''u64'' [''struct bpf_map *'', ''void *'', ''void *'', ''u64'']"

lemma info_typedef_btf_bpf_map_update_elem [c_info]: "info typedef_btf_bpf_map_update_elem = (8, 8)"
  by (simp add: typedef_btf_bpf_map_update_elem_def c_info)

definition typedef_btf_bpf_map_delete_elem :: ctype where
  "typedef_btf_bpf_map_delete_elem = FunPtr ''u64'' [''struct bpf_map *'', ''void *'']"

lemma info_typedef_btf_bpf_map_delete_elem [c_info]: "info typedef_btf_bpf_map_delete_elem = (8, 8)"
  by (simp add: typedef_btf_bpf_map_delete_elem_def c_info)

definition typedef_btf_bpf_map_push_elem :: ctype where
  "typedef_btf_bpf_map_push_elem = FunPtr ''u64'' [''struct bpf_map *'', ''void *'', ''u64'']"

lemma info_typedef_btf_bpf_map_push_elem [c_info]: "info typedef_btf_bpf_map_push_elem = (8, 8)"
  by (simp add: typedef_btf_bpf_map_push_elem_def c_info)

definition typedef_btf_bpf_map_pop_elem :: ctype where
  "typedef_btf_bpf_map_pop_elem = FunPtr ''u64'' [''struct bpf_map *'', ''void *'']"

lemma info_typedef_btf_bpf_map_pop_elem [c_info]: "info typedef_btf_bpf_map_pop_elem = (8, 8)"
  by (simp add: typedef_btf_bpf_map_pop_elem_def c_info)

definition typedef_btf_bpf_map_peek_elem :: ctype where
  "typedef_btf_bpf_map_peek_elem = FunPtr ''u64'' [''struct bpf_map *'', ''void *'']"

lemma info_typedef_btf_bpf_map_peek_elem [c_info]: "info typedef_btf_bpf_map_peek_elem = (8, 8)"
  by (simp add: typedef_btf_bpf_map_peek_elem_def c_info)

definition typedef_btf_bpf_get_smp_processor_id :: ctype where
  "typedef_btf_bpf_get_smp_processor_id = FunPtr ''u64'' [''void'']"

lemma info_typedef_btf_bpf_get_smp_processor_id [c_info]: "info typedef_btf_bpf_get_smp_processor_id = (8, 8)"
  by (simp add: typedef_btf_bpf_get_smp_processor_id_def c_info)

definition typedef_btf_bpf_get_numa_node_id :: ctype where
  "typedef_btf_bpf_get_numa_node_id = FunPtr ''u64'' [''void'']"

lemma info_typedef_btf_bpf_get_numa_node_id [c_info]: "info typedef_btf_bpf_get_numa_node_id = (8, 8)"
  by (simp add: typedef_btf_bpf_get_numa_node_id_def c_info)

definition typedef_btf_bpf_ktime_get_ns :: ctype where
  "typedef_btf_bpf_ktime_get_ns = FunPtr ''u64'' [''void'']"

lemma info_typedef_btf_bpf_ktime_get_ns [c_info]: "info typedef_btf_bpf_ktime_get_ns = (8, 8)"
  by (simp add: typedef_btf_bpf_ktime_get_ns_def c_info)

definition typedef_btf_bpf_ktime_get_boot_ns :: ctype where
  "typedef_btf_bpf_ktime_get_boot_ns = FunPtr ''u64'' [''void'']"

lemma info_typedef_btf_bpf_ktime_get_boot_ns [c_info]: "info typedef_btf_bpf_ktime_get_boot_ns = (8, 8)"
  by (simp add: typedef_btf_bpf_ktime_get_boot_ns_def c_info)

definition typedef_btf_bpf_ktime_get_coarse_ns :: ctype where
  "typedef_btf_bpf_ktime_get_coarse_ns = FunPtr ''u64'' [''void'']"

lemma info_typedef_btf_bpf_ktime_get_coarse_ns [c_info]: "info typedef_btf_bpf_ktime_get_coarse_ns = (8, 8)"
  by (simp add: typedef_btf_bpf_ktime_get_coarse_ns_def c_info)

definition typedef_btf_bpf_get_current_pid_tgid :: ctype where
  "typedef_btf_bpf_get_current_pid_tgid = FunPtr ''u64'' [''void'']"

lemma info_typedef_btf_bpf_get_current_pid_tgid [c_info]: "info typedef_btf_bpf_get_current_pid_tgid = (8, 8)"
  by (simp add: typedef_btf_bpf_get_current_pid_tgid_def c_info)

definition typedef_btf_bpf_get_current_uid_gid :: ctype where
  "typedef_btf_bpf_get_current_uid_gid = FunPtr ''u64'' [''void'']"

lemma info_typedef_btf_bpf_get_current_uid_gid [c_info]: "info typedef_btf_bpf_get_current_uid_gid = (8, 8)"
  by (simp add: typedef_btf_bpf_get_current_uid_gid_def c_info)

definition typedef_btf_bpf_get_current_comm :: ctype where
  "typedef_btf_bpf_get_current_comm = FunPtr ''u64'' [''char *'', ''u32'']"

lemma info_typedef_btf_bpf_get_current_comm [c_info]: "info typedef_btf_bpf_get_current_comm = (8, 8)"
  by (simp add: typedef_btf_bpf_get_current_comm_def c_info)

definition typedef_btf_bpf_spin_lock :: ctype where
  "typedef_btf_bpf_spin_lock = FunPtr ''u64'' [''struct bpf_spin_lock *'']"

lemma info_typedef_btf_bpf_spin_lock [c_info]: "info typedef_btf_bpf_spin_lock = (8, 8)"
  by (simp add: typedef_btf_bpf_spin_lock_def c_info)

definition typedef_btf_bpf_spin_unlock :: ctype where
  "typedef_btf_bpf_spin_unlock = FunPtr ''u64'' [''struct bpf_spin_lock *'']"

lemma info_typedef_btf_bpf_spin_unlock [c_info]: "info typedef_btf_bpf_spin_unlock = (8, 8)"
  by (simp add: typedef_btf_bpf_spin_unlock_def c_info)

definition typedef_btf_bpf_jiffies64 :: ctype where
  "typedef_btf_bpf_jiffies64 = FunPtr ''u64'' [''void'']"

lemma info_typedef_btf_bpf_jiffies64 [c_info]: "info typedef_btf_bpf_jiffies64 = (8, 8)"
  by (simp add: typedef_btf_bpf_jiffies64_def c_info)

definition typedef_btf_bpf_get_current_cgroup_id :: ctype where
  "typedef_btf_bpf_get_current_cgroup_id = FunPtr ''u64'' [''void'']"

lemma info_typedef_btf_bpf_get_current_cgroup_id [c_info]: "info typedef_btf_bpf_get_current_cgroup_id = (8, 8)"
  by (simp add: typedef_btf_bpf_get_current_cgroup_id_def c_info)

definition typedef_btf_bpf_get_current_ancestor_cgroup_id :: ctype where
  "typedef_btf_bpf_get_current_ancestor_cgroup_id = FunPtr ''u64'' [''int'']"

lemma info_typedef_btf_bpf_get_current_ancestor_cgroup_id [c_info]: "info typedef_btf_bpf_get_current_ancestor_cgroup_id = (8, 8)"
  by (simp add: typedef_btf_bpf_get_current_ancestor_cgroup_id_def c_info)

definition typedef_btf_bpf_get_local_storage :: ctype where
  "typedef_btf_bpf_get_local_storage = FunPtr ''u64'' [''struct bpf_map *'', ''u64'']"

lemma info_typedef_btf_bpf_get_local_storage [c_info]: "info typedef_btf_bpf_get_local_storage = (8, 8)"
  by (simp add: typedef_btf_bpf_get_local_storage_def c_info)

definition typedef_btf_bpf_strtol :: ctype where
  "typedef_btf_bpf_strtol = FunPtr ''u64'' [''const char *'', ''size_t'', ''u64'', ''s64 *'']"

lemma info_typedef_btf_bpf_strtol [c_info]: "info typedef_btf_bpf_strtol = (8, 8)"
  by (simp add: typedef_btf_bpf_strtol_def c_info)

definition typedef_btf_bpf_strtoul :: ctype where
  "typedef_btf_bpf_strtoul = FunPtr ''u64'' [''const char *'', ''size_t'', ''u64'', ''u64 *'']"

lemma info_typedef_btf_bpf_strtoul [c_info]: "info typedef_btf_bpf_strtoul = (8, 8)"
  by (simp add: typedef_btf_bpf_strtoul_def c_info)

definition typedef_btf_bpf_get_ns_current_pid_tgid :: ctype where
  "typedef_btf_bpf_get_ns_current_pid_tgid = FunPtr ''u64'' [''u64'', ''u64'', ''struct bpf_pidns_info *'', ''u32'']"

lemma info_typedef_btf_bpf_get_ns_current_pid_tgid [c_info]: "info typedef_btf_bpf_get_ns_current_pid_tgid = (8, 8)"
  by (simp add: typedef_btf_bpf_get_ns_current_pid_tgid_def c_info)

definition typedef_btf_bpf_event_output_data :: ctype where
  "typedef_btf_bpf_event_output_data = FunPtr ''u64'' [''void *'', ''struct bpf_map *'', ''u64'', ''void *'', ''u64'']"

lemma info_typedef_btf_bpf_event_output_data [c_info]: "info typedef_btf_bpf_event_output_data = (8, 8)"
  by (simp add: typedef_btf_bpf_event_output_data_def c_info)

definition typedef_btf_bpf_copy_from_user :: ctype where
  "typedef_btf_bpf_copy_from_user = FunPtr ''u64'' [''void *'', ''u32'', ''const void *'']"

lemma info_typedef_btf_bpf_copy_from_user [c_info]: "info typedef_btf_bpf_copy_from_user = (8, 8)"
  by (simp add: typedef_btf_bpf_copy_from_user_def c_info)

definition typedef_btf_bpf_per_cpu_ptr :: ctype where
  "typedef_btf_bpf_per_cpu_ptr = FunPtr ''u64'' [''const void *'', ''u32'']"

lemma info_typedef_btf_bpf_per_cpu_ptr [c_info]: "info typedef_btf_bpf_per_cpu_ptr = (8, 8)"
  by (simp add: typedef_btf_bpf_per_cpu_ptr_def c_info)

definition typedef_btf_bpf_this_cpu_ptr :: ctype where
  "typedef_btf_bpf_this_cpu_ptr = FunPtr ''u64'' [''const void *'']"

lemma info_typedef_btf_bpf_this_cpu_ptr [c_info]: "info typedef_btf_bpf_this_cpu_ptr = (8, 8)"
  by (simp add: typedef_btf_bpf_this_cpu_ptr_def c_info)

definition typedef_btf_bpf_snprintf :: ctype where
  "typedef_btf_bpf_snprintf = FunPtr ''u64'' [''char *'', ''u32'', ''char *'', ''const void *'', ''u32'']"

lemma info_typedef_btf_bpf_snprintf [c_info]: "info typedef_btf_bpf_snprintf = (8, 8)"
  by (simp add: typedef_btf_bpf_snprintf_def c_info)

definition typedef_btf_bpf_timer_init :: ctype where
  "typedef_btf_bpf_timer_init = FunPtr ''u64'' [''struct bpf_timer_kern *'', ''struct bpf_map *'', ''u64'']"

lemma info_typedef_btf_bpf_timer_init [c_info]: "info typedef_btf_bpf_timer_init = (8, 8)"
  by (simp add: typedef_btf_bpf_timer_init_def c_info)

definition typedef_btf_bpf_timer_set_callback :: ctype where
  "typedef_btf_bpf_timer_set_callback = FunPtr ''u64'' [''struct bpf_timer_kern *'', ''void *'', ''struct bpf_prog_aux *'']"

lemma info_typedef_btf_bpf_timer_set_callback [c_info]: "info typedef_btf_bpf_timer_set_callback = (8, 8)"
  by (simp add: typedef_btf_bpf_timer_set_callback_def c_info)

definition typedef_btf_bpf_timer_start :: ctype where
  "typedef_btf_bpf_timer_start = FunPtr ''u64'' [''struct bpf_timer_kern *'', ''u64'', ''u64'']"

lemma info_typedef_btf_bpf_timer_start [c_info]: "info typedef_btf_bpf_timer_start = (8, 8)"
  by (simp add: typedef_btf_bpf_timer_start_def c_info)

definition typedef_btf_bpf_timer_cancel :: ctype where
  "typedef_btf_bpf_timer_cancel = FunPtr ''u64'' [''struct bpf_timer_kern *'']"

lemma info_typedef_btf_bpf_timer_cancel [c_info]: "info typedef_btf_bpf_timer_cancel = (8, 8)"
  by (simp add: typedef_btf_bpf_timer_cancel_def c_info)

definition typedef_btf_bpf_for_each_map_elem :: ctype where
  "typedef_btf_bpf_for_each_map_elem = FunPtr ''u64'' [''struct bpf_map *'', ''void *'', ''void *'', ''u64'']"

lemma info_typedef_btf_bpf_for_each_map_elem [c_info]: "info typedef_btf_bpf_for_each_map_elem = (8, 8)"
  by (simp add: typedef_btf_bpf_for_each_map_elem_def c_info)

definition typedef_btf_bpf_ringbuf_reserve :: ctype where
  "typedef_btf_bpf_ringbuf_reserve = FunPtr ''u64'' [''struct bpf_map *'', ''u64'', ''u64'']"

lemma info_typedef_btf_bpf_ringbuf_reserve [c_info]: "info typedef_btf_bpf_ringbuf_reserve = (8, 8)"
  by (simp add: typedef_btf_bpf_ringbuf_reserve_def c_info)

definition typedef_btf_bpf_ringbuf_submit :: ctype where
  "typedef_btf_bpf_ringbuf_submit = FunPtr ''u64'' [''void *'', ''u64'']"

lemma info_typedef_btf_bpf_ringbuf_submit [c_info]: "info typedef_btf_bpf_ringbuf_submit = (8, 8)"
  by (simp add: typedef_btf_bpf_ringbuf_submit_def c_info)

definition typedef_btf_bpf_ringbuf_discard :: ctype where
  "typedef_btf_bpf_ringbuf_discard = FunPtr ''u64'' [''void *'', ''u64'']"

lemma info_typedef_btf_bpf_ringbuf_discard [c_info]: "info typedef_btf_bpf_ringbuf_discard = (8, 8)"
  by (simp add: typedef_btf_bpf_ringbuf_discard_def c_info)

definition typedef_btf_bpf_ringbuf_output :: ctype where
  "typedef_btf_bpf_ringbuf_output = FunPtr ''u64'' [''struct bpf_map *'', ''void *'', ''u64'', ''u64'']"

lemma info_typedef_btf_bpf_ringbuf_output [c_info]: "info typedef_btf_bpf_ringbuf_output = (8, 8)"
  by (simp add: typedef_btf_bpf_ringbuf_output_def c_info)

definition typedef_btf_bpf_ringbuf_query :: ctype where
  "typedef_btf_bpf_ringbuf_query = FunPtr ''u64'' [''struct bpf_map *'', ''u64'']"

lemma info_typedef_btf_bpf_ringbuf_query [c_info]: "info typedef_btf_bpf_ringbuf_query = (8, 8)"
  by (simp add: typedef_btf_bpf_ringbuf_query_def c_info)

definition typedef_btf_bpf_task_storage_get :: ctype where
  "typedef_btf_bpf_task_storage_get = FunPtr ''u64'' [''struct bpf_map *'', ''struct task_struct *'', ''void *'', ''u64'']"

lemma info_typedef_btf_bpf_task_storage_get [c_info]: "info typedef_btf_bpf_task_storage_get = (8, 8)"
  by (simp add: typedef_btf_bpf_task_storage_get_def c_info)

definition typedef_btf_bpf_task_storage_delete :: ctype where
  "typedef_btf_bpf_task_storage_delete = FunPtr ''u64'' [''struct bpf_map *'', ''struct task_struct *'']"

lemma info_typedef_btf_bpf_task_storage_delete [c_info]: "info typedef_btf_bpf_task_storage_delete = (8, 8)"
  by (simp add: typedef_btf_bpf_task_storage_delete_def c_info)

definition typedef_btf_bpf_inode_storage_get :: ctype where
  "typedef_btf_bpf_inode_storage_get = FunPtr ''u64'' [''struct bpf_map *'', ''struct inode *'', ''void *'', ''u64'']"

lemma info_typedef_btf_bpf_inode_storage_get [c_info]: "info typedef_btf_bpf_inode_storage_get = (8, 8)"
  by (simp add: typedef_btf_bpf_inode_storage_get_def c_info)

definition typedef_btf_bpf_inode_storage_delete :: ctype where
  "typedef_btf_bpf_inode_storage_delete = FunPtr ''u64'' [''struct bpf_map *'', ''struct inode *'']"

lemma info_typedef_btf_bpf_inode_storage_delete [c_info]: "info typedef_btf_bpf_inode_storage_delete = (8, 8)"
  by (simp add: typedef_btf_bpf_inode_storage_delete_def c_info)

definition typedef_btf_bpf_btf_find_by_name_kind :: ctype where
  "typedef_btf_bpf_btf_find_by_name_kind = FunPtr ''u64'' [''char *'', ''int'', ''u32'', ''int'']"

lemma info_typedef_btf_bpf_btf_find_by_name_kind [c_info]: "info typedef_btf_bpf_btf_find_by_name_kind = (8, 8)"
  by (simp add: typedef_btf_bpf_btf_find_by_name_kind_def c_info)

definition typedef_btf_bpf_get_stackid :: ctype where
  "typedef_btf_bpf_get_stackid = FunPtr ''u64'' [''struct pt_regs *'', ''struct bpf_map *'', ''u64'']"

lemma info_typedef_btf_bpf_get_stackid [c_info]: "info typedef_btf_bpf_get_stackid = (8, 8)"
  by (simp add: typedef_btf_bpf_get_stackid_def c_info)

definition typedef_btf_bpf_get_stackid_pe :: ctype where
  "typedef_btf_bpf_get_stackid_pe = FunPtr ''u64'' [''struct bpf_perf_event_data_kern *'', ''struct bpf_map *'', ''u64'']"

lemma info_typedef_btf_bpf_get_stackid_pe [c_info]: "info typedef_btf_bpf_get_stackid_pe = (8, 8)"
  by (simp add: typedef_btf_bpf_get_stackid_pe_def c_info)

definition typedef_btf_bpf_get_stack :: ctype where
  "typedef_btf_bpf_get_stack = FunPtr ''u64'' [''struct pt_regs *'', ''void *'', ''u32'', ''u64'']"

lemma info_typedef_btf_bpf_get_stack [c_info]: "info typedef_btf_bpf_get_stack = (8, 8)"
  by (simp add: typedef_btf_bpf_get_stack_def c_info)

definition typedef_btf_bpf_get_task_stack :: ctype where
  "typedef_btf_bpf_get_task_stack = FunPtr ''u64'' [''struct task_struct *'', ''void *'', ''u32'', ''u64'']"

lemma info_typedef_btf_bpf_get_task_stack [c_info]: "info typedef_btf_bpf_get_task_stack = (8, 8)"
  by (simp add: typedef_btf_bpf_get_task_stack_def c_info)

definition typedef_btf_bpf_get_stack_pe :: ctype where
  "typedef_btf_bpf_get_stack_pe = FunPtr ''u64'' [''struct bpf_perf_event_data_kern *'', ''void *'', ''u32'', ''u64'']"

lemma info_typedef_btf_bpf_get_stack_pe [c_info]: "info typedef_btf_bpf_get_stack_pe = (8, 8)"
  by (simp add: typedef_btf_bpf_get_stack_pe_def c_info)

definition typedef_btf_bpf_sysctl_get_name :: ctype where
  "typedef_btf_bpf_sysctl_get_name = FunPtr ''u64'' [''struct bpf_sysctl_kern *'', ''char *'', ''size_t'', ''u64'']"

lemma info_typedef_btf_bpf_sysctl_get_name [c_info]: "info typedef_btf_bpf_sysctl_get_name = (8, 8)"
  by (simp add: typedef_btf_bpf_sysctl_get_name_def c_info)

definition typedef_btf_bpf_sysctl_get_current_value :: ctype where
  "typedef_btf_bpf_sysctl_get_current_value = FunPtr ''u64'' [''struct bpf_sysctl_kern *'', ''char *'', ''size_t'']"

lemma info_typedef_btf_bpf_sysctl_get_current_value [c_info]: "info typedef_btf_bpf_sysctl_get_current_value = (8, 8)"
  by (simp add: typedef_btf_bpf_sysctl_get_current_value_def c_info)

definition typedef_btf_bpf_sysctl_get_new_value :: ctype where
  "typedef_btf_bpf_sysctl_get_new_value = FunPtr ''u64'' [''struct bpf_sysctl_kern *'', ''char *'', ''size_t'']"

lemma info_typedef_btf_bpf_sysctl_get_new_value [c_info]: "info typedef_btf_bpf_sysctl_get_new_value = (8, 8)"
  by (simp add: typedef_btf_bpf_sysctl_get_new_value_def c_info)

definition typedef_btf_bpf_sysctl_set_new_value :: ctype where
  "typedef_btf_bpf_sysctl_set_new_value = FunPtr ''u64'' [''struct bpf_sysctl_kern *'', ''const char *'', ''size_t'']"

lemma info_typedef_btf_bpf_sysctl_set_new_value [c_info]: "info typedef_btf_bpf_sysctl_set_new_value = (8, 8)"
  by (simp add: typedef_btf_bpf_sysctl_set_new_value_def c_info)

definition typedef_btf_bpf_get_netns_cookie_sockopt :: ctype where
  "typedef_btf_bpf_get_netns_cookie_sockopt = FunPtr ''u64'' [''struct bpf_sockopt_kern *'']"

lemma info_typedef_btf_bpf_get_netns_cookie_sockopt [c_info]: "info typedef_btf_bpf_get_netns_cookie_sockopt = (8, 8)"
  by (simp add: typedef_btf_bpf_get_netns_cookie_sockopt_def c_info)

definition typedef_btf_bpf_bprm_opts_set :: ctype where
  "typedef_btf_bpf_bprm_opts_set = FunPtr ''u64'' [''struct linux_binprm *'', ''u64'']"

lemma info_typedef_btf_bpf_bprm_opts_set [c_info]: "info typedef_btf_bpf_bprm_opts_set = (8, 8)"
  by (simp add: typedef_btf_bpf_bprm_opts_set_def c_info)

definition typedef_btf_bpf_ima_inode_hash :: ctype where
  "typedef_btf_bpf_ima_inode_hash = FunPtr ''u64'' [''struct inode *'', ''void *'', ''u32'']"

lemma info_typedef_btf_bpf_ima_inode_hash [c_info]: "info typedef_btf_bpf_ima_inode_hash = (8, 8)"
  by (simp add: typedef_btf_bpf_ima_inode_hash_def c_info)

definition typedef_btf_bpf_skb_get_pay_offset :: ctype where
  "typedef_btf_bpf_skb_get_pay_offset = FunPtr ''u64'' [''struct sk_buff *'']"

lemma info_typedef_btf_bpf_skb_get_pay_offset [c_info]: "info typedef_btf_bpf_skb_get_pay_offset = (8, 8)"
  by (simp add: typedef_btf_bpf_skb_get_pay_offset_def c_info)

definition typedef_btf_bpf_skb_get_nlattr :: ctype where
  "typedef_btf_bpf_skb_get_nlattr = FunPtr ''u64'' [''struct sk_buff *'', ''u32'', ''u32'']"

lemma info_typedef_btf_bpf_skb_get_nlattr [c_info]: "info typedef_btf_bpf_skb_get_nlattr = (8, 8)"
  by (simp add: typedef_btf_bpf_skb_get_nlattr_def c_info)

definition typedef_btf_bpf_skb_get_nlattr_nest :: ctype where
  "typedef_btf_bpf_skb_get_nlattr_nest = FunPtr ''u64'' [''struct sk_buff *'', ''u32'', ''u32'']"

lemma info_typedef_btf_bpf_skb_get_nlattr_nest [c_info]: "info typedef_btf_bpf_skb_get_nlattr_nest = (8, 8)"
  by (simp add: typedef_btf_bpf_skb_get_nlattr_nest_def c_info)

definition typedef_btf_bpf_skb_load_helper_8 :: ctype where
  "typedef_btf_bpf_skb_load_helper_8 = FunPtr ''u64'' [''const struct sk_buff *'', ''const void *'', ''int'', ''int'']"

lemma info_typedef_btf_bpf_skb_load_helper_8 [c_info]: "info typedef_btf_bpf_skb_load_helper_8 = (8, 8)"
  by (simp add: typedef_btf_bpf_skb_load_helper_8_def c_info)

definition typedef_btf_bpf_skb_load_helper_8_no_cache :: ctype where
  "typedef_btf_bpf_skb_load_helper_8_no_cache = FunPtr ''u64'' [''const struct sk_buff *'', ''int'']"

lemma info_typedef_btf_bpf_skb_load_helper_8_no_cache [c_info]: "info typedef_btf_bpf_skb_load_helper_8_no_cache = (8, 8)"
  by (simp add: typedef_btf_bpf_skb_load_helper_8_no_cache_def c_info)

definition typedef_btf_bpf_skb_load_helper_16 :: ctype where
  "typedef_btf_bpf_skb_load_helper_16 = FunPtr ''u64'' [''const struct sk_buff *'', ''const void *'', ''int'', ''int'']"

lemma info_typedef_btf_bpf_skb_load_helper_16 [c_info]: "info typedef_btf_bpf_skb_load_helper_16 = (8, 8)"
  by (simp add: typedef_btf_bpf_skb_load_helper_16_def c_info)

definition typedef_btf_bpf_skb_load_helper_16_no_cache :: ctype where
  "typedef_btf_bpf_skb_load_helper_16_no_cache = FunPtr ''u64'' [''const struct sk_buff *'', ''int'']"

lemma info_typedef_btf_bpf_skb_load_helper_16_no_cache [c_info]: "info typedef_btf_bpf_skb_load_helper_16_no_cache = (8, 8)"
  by (simp add: typedef_btf_bpf_skb_load_helper_16_no_cache_def c_info)

definition typedef_btf_bpf_skb_load_helper_32 :: ctype where
  "typedef_btf_bpf_skb_load_helper_32 = FunPtr ''u64'' [''const struct sk_buff *'', ''const void *'', ''int'', ''int'']"

lemma info_typedef_btf_bpf_skb_load_helper_32 [c_info]: "info typedef_btf_bpf_skb_load_helper_32 = (8, 8)"
  by (simp add: typedef_btf_bpf_skb_load_helper_32_def c_info)

definition typedef_btf_bpf_skb_load_helper_32_no_cache :: ctype where
  "typedef_btf_bpf_skb_load_helper_32_no_cache = FunPtr ''u64'' [''const struct sk_buff *'', ''int'']"

lemma info_typedef_btf_bpf_skb_load_helper_32_no_cache [c_info]: "info typedef_btf_bpf_skb_load_helper_32_no_cache = (8, 8)"
  by (simp add: typedef_btf_bpf_skb_load_helper_32_no_cache_def c_info)

definition typedef_btf_bpf_skb_store_bytes :: ctype where
  "typedef_btf_bpf_skb_store_bytes = FunPtr ''u64'' [''struct sk_buff *'', ''u32'', ''const void *'', ''u32'', ''u64'']"

lemma info_typedef_btf_bpf_skb_store_bytes [c_info]: "info typedef_btf_bpf_skb_store_bytes = (8, 8)"
  by (simp add: typedef_btf_bpf_skb_store_bytes_def c_info)

definition typedef_btf_bpf_skb_load_bytes :: ctype where
  "typedef_btf_bpf_skb_load_bytes = FunPtr ''u64'' [''const struct sk_buff *'', ''u32'', ''void *'', ''u32'']"

lemma info_typedef_btf_bpf_skb_load_bytes [c_info]: "info typedef_btf_bpf_skb_load_bytes = (8, 8)"
  by (simp add: typedef_btf_bpf_skb_load_bytes_def c_info)

definition typedef_btf_bpf_flow_dissector_load_bytes :: ctype where
  "typedef_btf_bpf_flow_dissector_load_bytes = FunPtr ''u64'' [''const struct bpf_flow_dissector *'', ''u32'', ''void *'', ''u32'']"

lemma info_typedef_btf_bpf_flow_dissector_load_bytes [c_info]: "info typedef_btf_bpf_flow_dissector_load_bytes = (8, 8)"
  by (simp add: typedef_btf_bpf_flow_dissector_load_bytes_def c_info)

definition typedef_btf_bpf_skb_load_bytes_relative :: ctype where
  "typedef_btf_bpf_skb_load_bytes_relative = FunPtr ''u64'' [''const struct sk_buff *'', ''u32'', ''void *'', ''u32'', ''u32'']"

lemma info_typedef_btf_bpf_skb_load_bytes_relative [c_info]: "info typedef_btf_bpf_skb_load_bytes_relative = (8, 8)"
  by (simp add: typedef_btf_bpf_skb_load_bytes_relative_def c_info)

definition typedef_btf_bpf_skb_pull_data :: ctype where
  "typedef_btf_bpf_skb_pull_data = FunPtr ''u64'' [''struct sk_buff *'', ''u32'']"

lemma info_typedef_btf_bpf_skb_pull_data [c_info]: "info typedef_btf_bpf_skb_pull_data = (8, 8)"
  by (simp add: typedef_btf_bpf_skb_pull_data_def c_info)

definition typedef_btf_bpf_sk_fullsock :: ctype where
  "typedef_btf_bpf_sk_fullsock = FunPtr ''u64'' [''struct sock *'']"

lemma info_typedef_btf_bpf_sk_fullsock [c_info]: "info typedef_btf_bpf_sk_fullsock = (8, 8)"
  by (simp add: typedef_btf_bpf_sk_fullsock_def c_info)

definition typedef_btf_bpf_l3_csum_replace :: ctype where
  "typedef_btf_bpf_l3_csum_replace = FunPtr ''u64'' [''struct sk_buff *'', ''u32'', ''u64'', ''u64'', ''u64'']"

lemma info_typedef_btf_bpf_l3_csum_replace [c_info]: "info typedef_btf_bpf_l3_csum_replace = (8, 8)"
  by (simp add: typedef_btf_bpf_l3_csum_replace_def c_info)

definition typedef_btf_bpf_l4_csum_replace :: ctype where
  "typedef_btf_bpf_l4_csum_replace = FunPtr ''u64'' [''struct sk_buff *'', ''u32'', ''u64'', ''u64'', ''u64'']"

lemma info_typedef_btf_bpf_l4_csum_replace [c_info]: "info typedef_btf_bpf_l4_csum_replace = (8, 8)"
  by (simp add: typedef_btf_bpf_l4_csum_replace_def c_info)

definition typedef_btf_bpf_csum_diff :: ctype where
  "typedef_btf_bpf_csum_diff = FunPtr ''u64'' [''__be32 *'', ''u32'', ''__be32 *'', ''u32'', ''__wsum'']"

lemma info_typedef_btf_bpf_csum_diff [c_info]: "info typedef_btf_bpf_csum_diff = (8, 8)"
  by (simp add: typedef_btf_bpf_csum_diff_def c_info)

definition typedef_btf_bpf_csum_update :: ctype where
  "typedef_btf_bpf_csum_update = FunPtr ''u64'' [''struct sk_buff *'', ''__wsum'']"

lemma info_typedef_btf_bpf_csum_update [c_info]: "info typedef_btf_bpf_csum_update = (8, 8)"
  by (simp add: typedef_btf_bpf_csum_update_def c_info)

definition typedef_btf_bpf_csum_level :: ctype where
  "typedef_btf_bpf_csum_level = FunPtr ''u64'' [''struct sk_buff *'', ''u64'']"

lemma info_typedef_btf_bpf_csum_level [c_info]: "info typedef_btf_bpf_csum_level = (8, 8)"
  by (simp add: typedef_btf_bpf_csum_level_def c_info)

definition typedef_btf_bpf_clone_redirect :: ctype where
  "typedef_btf_bpf_clone_redirect = FunPtr ''u64'' [''struct sk_buff *'', ''u32'', ''u64'']"

lemma info_typedef_btf_bpf_clone_redirect [c_info]: "info typedef_btf_bpf_clone_redirect = (8, 8)"
  by (simp add: typedef_btf_bpf_clone_redirect_def c_info)

definition typedef_btf_bpf_redirect :: ctype where
  "typedef_btf_bpf_redirect = FunPtr ''u64'' [''u32'', ''u64'']"

lemma info_typedef_btf_bpf_redirect [c_info]: "info typedef_btf_bpf_redirect = (8, 8)"
  by (simp add: typedef_btf_bpf_redirect_def c_info)

definition typedef_btf_bpf_redirect_peer :: ctype where
  "typedef_btf_bpf_redirect_peer = FunPtr ''u64'' [''u32'', ''u64'']"

lemma info_typedef_btf_bpf_redirect_peer [c_info]: "info typedef_btf_bpf_redirect_peer = (8, 8)"
  by (simp add: typedef_btf_bpf_redirect_peer_def c_info)

definition typedef_btf_bpf_redirect_neigh :: ctype where
  "typedef_btf_bpf_redirect_neigh = FunPtr ''u64'' [''u32'', ''struct bpf_redir_neigh *'', ''int'', ''u64'']"

lemma info_typedef_btf_bpf_redirect_neigh [c_info]: "info typedef_btf_bpf_redirect_neigh = (8, 8)"
  by (simp add: typedef_btf_bpf_redirect_neigh_def c_info)

definition typedef_btf_bpf_msg_apply_bytes :: ctype where
  "typedef_btf_bpf_msg_apply_bytes = FunPtr ''u64'' [''struct sk_msg *'', ''u32'']"

lemma info_typedef_btf_bpf_msg_apply_bytes [c_info]: "info typedef_btf_bpf_msg_apply_bytes = (8, 8)"
  by (simp add: typedef_btf_bpf_msg_apply_bytes_def c_info)

definition typedef_btf_bpf_msg_cork_bytes :: ctype where
  "typedef_btf_bpf_msg_cork_bytes = FunPtr ''u64'' [''struct sk_msg *'', ''u32'']"

lemma info_typedef_btf_bpf_msg_cork_bytes [c_info]: "info typedef_btf_bpf_msg_cork_bytes = (8, 8)"
  by (simp add: typedef_btf_bpf_msg_cork_bytes_def c_info)

definition typedef_btf_bpf_msg_pull_data :: ctype where
  "typedef_btf_bpf_msg_pull_data = FunPtr ''u64'' [''struct sk_msg *'', ''u32'', ''u32'', ''u64'']"

lemma info_typedef_btf_bpf_msg_pull_data [c_info]: "info typedef_btf_bpf_msg_pull_data = (8, 8)"
  by (simp add: typedef_btf_bpf_msg_pull_data_def c_info)

definition typedef_btf_bpf_msg_push_data :: ctype where
  "typedef_btf_bpf_msg_push_data = FunPtr ''u64'' [''struct sk_msg *'', ''u32'', ''u32'', ''u64'']"

lemma info_typedef_btf_bpf_msg_push_data [c_info]: "info typedef_btf_bpf_msg_push_data = (8, 8)"
  by (simp add: typedef_btf_bpf_msg_push_data_def c_info)

definition typedef_btf_bpf_msg_pop_data :: ctype where
  "typedef_btf_bpf_msg_pop_data = FunPtr ''u64'' [''struct sk_msg *'', ''u32'', ''u32'', ''u64'']"

lemma info_typedef_btf_bpf_msg_pop_data [c_info]: "info typedef_btf_bpf_msg_pop_data = (8, 8)"
  by (simp add: typedef_btf_bpf_msg_pop_data_def c_info)

definition typedef_btf_bpf_get_cgroup_classid_curr :: ctype where
  "typedef_btf_bpf_get_cgroup_classid_curr = FunPtr ''u64'' [''void'']"

lemma info_typedef_btf_bpf_get_cgroup_classid_curr [c_info]: "info typedef_btf_bpf_get_cgroup_classid_curr = (8, 8)"
  by (simp add: typedef_btf_bpf_get_cgroup_classid_curr_def c_info)

definition typedef_btf_bpf_skb_cgroup_classid :: ctype where
  "typedef_btf_bpf_skb_cgroup_classid = FunPtr ''u64'' [''const struct sk_buff *'']"

lemma info_typedef_btf_bpf_skb_cgroup_classid [c_info]: "info typedef_btf_bpf_skb_cgroup_classid = (8, 8)"
  by (simp add: typedef_btf_bpf_skb_cgroup_classid_def c_info)

definition typedef_btf_bpf_get_cgroup_classid :: ctype where
  "typedef_btf_bpf_get_cgroup_classid = FunPtr ''u64'' [''const struct sk_buff *'']"

lemma info_typedef_btf_bpf_get_cgroup_classid [c_info]: "info typedef_btf_bpf_get_cgroup_classid = (8, 8)"
  by (simp add: typedef_btf_bpf_get_cgroup_classid_def c_info)

definition typedef_btf_bpf_get_route_realm :: ctype where
  "typedef_btf_bpf_get_route_realm = FunPtr ''u64'' [''const struct sk_buff *'']"

lemma info_typedef_btf_bpf_get_route_realm [c_info]: "info typedef_btf_bpf_get_route_realm = (8, 8)"
  by (simp add: typedef_btf_bpf_get_route_realm_def c_info)

definition typedef_btf_bpf_get_hash_recalc :: ctype where
  "typedef_btf_bpf_get_hash_recalc = FunPtr ''u64'' [''struct sk_buff *'']"

lemma info_typedef_btf_bpf_get_hash_recalc [c_info]: "info typedef_btf_bpf_get_hash_recalc = (8, 8)"
  by (simp add: typedef_btf_bpf_get_hash_recalc_def c_info)

definition typedef_btf_bpf_set_hash_invalid :: ctype where
  "typedef_btf_bpf_set_hash_invalid = FunPtr ''u64'' [''struct sk_buff *'']"

lemma info_typedef_btf_bpf_set_hash_invalid [c_info]: "info typedef_btf_bpf_set_hash_invalid = (8, 8)"
  by (simp add: typedef_btf_bpf_set_hash_invalid_def c_info)

definition typedef_btf_bpf_set_hash :: ctype where
  "typedef_btf_bpf_set_hash = FunPtr ''u64'' [''struct sk_buff *'', ''u32'']"

lemma info_typedef_btf_bpf_set_hash [c_info]: "info typedef_btf_bpf_set_hash = (8, 8)"
  by (simp add: typedef_btf_bpf_set_hash_def c_info)

definition typedef_btf_bpf_skb_vlan_push :: ctype where
  "typedef_btf_bpf_skb_vlan_push = FunPtr ''u64'' [''struct sk_buff *'', ''__be16'', ''u16'']"

lemma info_typedef_btf_bpf_skb_vlan_push [c_info]: "info typedef_btf_bpf_skb_vlan_push = (8, 8)"
  by (simp add: typedef_btf_bpf_skb_vlan_push_def c_info)

definition typedef_btf_bpf_skb_vlan_pop :: ctype where
  "typedef_btf_bpf_skb_vlan_pop = FunPtr ''u64'' [''struct sk_buff *'']"

lemma info_typedef_btf_bpf_skb_vlan_pop [c_info]: "info typedef_btf_bpf_skb_vlan_pop = (8, 8)"
  by (simp add: typedef_btf_bpf_skb_vlan_pop_def c_info)

definition typedef_btf_bpf_skb_change_proto :: ctype where
  "typedef_btf_bpf_skb_change_proto = FunPtr ''u64'' [''struct sk_buff *'', ''__be16'', ''u64'']"

lemma info_typedef_btf_bpf_skb_change_proto [c_info]: "info typedef_btf_bpf_skb_change_proto = (8, 8)"
  by (simp add: typedef_btf_bpf_skb_change_proto_def c_info)

definition typedef_btf_bpf_skb_change_type :: ctype where
  "typedef_btf_bpf_skb_change_type = FunPtr ''u64'' [''struct sk_buff *'', ''u32'']"

lemma info_typedef_btf_bpf_skb_change_type [c_info]: "info typedef_btf_bpf_skb_change_type = (8, 8)"
  by (simp add: typedef_btf_bpf_skb_change_type_def c_info)

definition typedef_btf_bpf_skb_adjust_room :: ctype where
  "typedef_btf_bpf_skb_adjust_room = FunPtr ''u64'' [''struct sk_buff *'', ''s32'', ''u32'', ''u64'']"

lemma info_typedef_btf_bpf_skb_adjust_room [c_info]: "info typedef_btf_bpf_skb_adjust_room = (8, 8)"
  by (simp add: typedef_btf_bpf_skb_adjust_room_def c_info)

definition typedef_btf_bpf_skb_change_tail :: ctype where
  "typedef_btf_bpf_skb_change_tail = FunPtr ''u64'' [''struct sk_buff *'', ''u32'', ''u64'']"

lemma info_typedef_btf_bpf_skb_change_tail [c_info]: "info typedef_btf_bpf_skb_change_tail = (8, 8)"
  by (simp add: typedef_btf_bpf_skb_change_tail_def c_info)

definition typedef_btf_bpf_skb_change_head :: ctype where
  "typedef_btf_bpf_skb_change_head = FunPtr ''u64'' [''struct sk_buff *'', ''u32'', ''u64'']"

lemma info_typedef_btf_bpf_skb_change_head [c_info]: "info typedef_btf_bpf_skb_change_head = (8, 8)"
  by (simp add: typedef_btf_bpf_skb_change_head_def c_info)

definition typedef_btf_bpf_xdp_adjust_head :: ctype where
  "typedef_btf_bpf_xdp_adjust_head = FunPtr ''u64'' [''struct xdp_buff *'', ''int'']"

lemma info_typedef_btf_bpf_xdp_adjust_head [c_info]: "info typedef_btf_bpf_xdp_adjust_head = (8, 8)"
  by (simp add: typedef_btf_bpf_xdp_adjust_head_def c_info)

definition typedef_btf_bpf_xdp_adjust_tail :: ctype where
  "typedef_btf_bpf_xdp_adjust_tail = FunPtr ''u64'' [''struct xdp_buff *'', ''int'']"

lemma info_typedef_btf_bpf_xdp_adjust_tail [c_info]: "info typedef_btf_bpf_xdp_adjust_tail = (8, 8)"
  by (simp add: typedef_btf_bpf_xdp_adjust_tail_def c_info)

definition typedef_btf_bpf_xdp_adjust_meta :: ctype where
  "typedef_btf_bpf_xdp_adjust_meta = FunPtr ''u64'' [''struct xdp_buff *'', ''int'']"

lemma info_typedef_btf_bpf_xdp_adjust_meta [c_info]: "info typedef_btf_bpf_xdp_adjust_meta = (8, 8)"
  by (simp add: typedef_btf_bpf_xdp_adjust_meta_def c_info)

definition typedef_btf_bpf_xdp_redirect :: ctype where
  "typedef_btf_bpf_xdp_redirect = FunPtr ''u64'' [''u32'', ''u64'']"

lemma info_typedef_btf_bpf_xdp_redirect [c_info]: "info typedef_btf_bpf_xdp_redirect = (8, 8)"
  by (simp add: typedef_btf_bpf_xdp_redirect_def c_info)

definition typedef_btf_bpf_xdp_redirect_map :: ctype where
  "typedef_btf_bpf_xdp_redirect_map = FunPtr ''u64'' [''struct bpf_map *'', ''u32'', ''u64'']"

lemma info_typedef_btf_bpf_xdp_redirect_map [c_info]: "info typedef_btf_bpf_xdp_redirect_map = (8, 8)"
  by (simp add: typedef_btf_bpf_xdp_redirect_map_def c_info)

definition typedef_btf_bpf_skb_event_output :: ctype where
  "typedef_btf_bpf_skb_event_output = FunPtr ''u64'' [''struct sk_buff *'', ''struct bpf_map *'', ''u64'', ''void *'', ''u64'']"

lemma info_typedef_btf_bpf_skb_event_output [c_info]: "info typedef_btf_bpf_skb_event_output = (8, 8)"
  by (simp add: typedef_btf_bpf_skb_event_output_def c_info)

definition typedef_btf_bpf_skb_get_tunnel_key :: ctype where
  "typedef_btf_bpf_skb_get_tunnel_key = FunPtr ''u64'' [''struct sk_buff *'', ''struct bpf_tunnel_key *'', ''u32'', ''u64'']"

lemma info_typedef_btf_bpf_skb_get_tunnel_key [c_info]: "info typedef_btf_bpf_skb_get_tunnel_key = (8, 8)"
  by (simp add: typedef_btf_bpf_skb_get_tunnel_key_def c_info)

definition typedef_btf_bpf_skb_get_tunnel_opt :: ctype where
  "typedef_btf_bpf_skb_get_tunnel_opt = FunPtr ''u64'' [''struct sk_buff *'', ''u8 *'', ''u32'']"

lemma info_typedef_btf_bpf_skb_get_tunnel_opt [c_info]: "info typedef_btf_bpf_skb_get_tunnel_opt = (8, 8)"
  by (simp add: typedef_btf_bpf_skb_get_tunnel_opt_def c_info)

definition typedef_btf_bpf_skb_set_tunnel_key :: ctype where
  "typedef_btf_bpf_skb_set_tunnel_key = FunPtr ''u64'' [''struct sk_buff *'', ''const struct bpf_tunnel_key *'', ''u32'', ''u64'']"

lemma info_typedef_btf_bpf_skb_set_tunnel_key [c_info]: "info typedef_btf_bpf_skb_set_tunnel_key = (8, 8)"
  by (simp add: typedef_btf_bpf_skb_set_tunnel_key_def c_info)

definition typedef_btf_bpf_skb_set_tunnel_opt :: ctype where
  "typedef_btf_bpf_skb_set_tunnel_opt = FunPtr ''u64'' [''struct sk_buff *'', ''const u8 *'', ''u32'']"

lemma info_typedef_btf_bpf_skb_set_tunnel_opt [c_info]: "info typedef_btf_bpf_skb_set_tunnel_opt = (8, 8)"
  by (simp add: typedef_btf_bpf_skb_set_tunnel_opt_def c_info)

definition typedef_btf_bpf_skb_under_cgroup :: ctype where
  "typedef_btf_bpf_skb_under_cgroup = FunPtr ''u64'' [''struct sk_buff *'', ''struct bpf_map *'', ''u32'']"

lemma info_typedef_btf_bpf_skb_under_cgroup [c_info]: "info typedef_btf_bpf_skb_under_cgroup = (8, 8)"
  by (simp add: typedef_btf_bpf_skb_under_cgroup_def c_info)

definition typedef_btf_bpf_skb_cgroup_id :: ctype where
  "typedef_btf_bpf_skb_cgroup_id = FunPtr ''u64'' [''const struct sk_buff *'']"

lemma info_typedef_btf_bpf_skb_cgroup_id [c_info]: "info typedef_btf_bpf_skb_cgroup_id = (8, 8)"
  by (simp add: typedef_btf_bpf_skb_cgroup_id_def c_info)

definition typedef_btf_bpf_skb_ancestor_cgroup_id :: ctype where
  "typedef_btf_bpf_skb_ancestor_cgroup_id = FunPtr ''u64'' [''const struct sk_buff *'', ''int'']"

lemma info_typedef_btf_bpf_skb_ancestor_cgroup_id [c_info]: "info typedef_btf_bpf_skb_ancestor_cgroup_id = (8, 8)"
  by (simp add: typedef_btf_bpf_skb_ancestor_cgroup_id_def c_info)

definition typedef_btf_bpf_sk_cgroup_id :: ctype where
  "typedef_btf_bpf_sk_cgroup_id = FunPtr ''u64'' [''struct sock *'']"

lemma info_typedef_btf_bpf_sk_cgroup_id [c_info]: "info typedef_btf_bpf_sk_cgroup_id = (8, 8)"
  by (simp add: typedef_btf_bpf_sk_cgroup_id_def c_info)

definition typedef_btf_bpf_sk_ancestor_cgroup_id :: ctype where
  "typedef_btf_bpf_sk_ancestor_cgroup_id = FunPtr ''u64'' [''struct sock *'', ''int'']"

lemma info_typedef_btf_bpf_sk_ancestor_cgroup_id [c_info]: "info typedef_btf_bpf_sk_ancestor_cgroup_id = (8, 8)"
  by (simp add: typedef_btf_bpf_sk_ancestor_cgroup_id_def c_info)

definition typedef_btf_bpf_xdp_event_output :: ctype where
  "typedef_btf_bpf_xdp_event_output = FunPtr ''u64'' [''struct xdp_buff *'', ''struct bpf_map *'', ''u64'', ''void *'', ''u64'']"

lemma info_typedef_btf_bpf_xdp_event_output [c_info]: "info typedef_btf_bpf_xdp_event_output = (8, 8)"
  by (simp add: typedef_btf_bpf_xdp_event_output_def c_info)

definition typedef_btf_bpf_get_socket_cookie :: ctype where
  "typedef_btf_bpf_get_socket_cookie = FunPtr ''u64'' [''struct sk_buff *'']"

lemma info_typedef_btf_bpf_get_socket_cookie [c_info]: "info typedef_btf_bpf_get_socket_cookie = (8, 8)"
  by (simp add: typedef_btf_bpf_get_socket_cookie_def c_info)

definition typedef_btf_bpf_get_socket_cookie_sock_addr :: ctype where
  "typedef_btf_bpf_get_socket_cookie_sock_addr = FunPtr ''u64'' [''struct bpf_sock_addr_kern *'']"

lemma info_typedef_btf_bpf_get_socket_cookie_sock_addr [c_info]: "info typedef_btf_bpf_get_socket_cookie_sock_addr = (8, 8)"
  by (simp add: typedef_btf_bpf_get_socket_cookie_sock_addr_def c_info)

definition typedef_btf_bpf_get_socket_cookie_sock :: ctype where
  "typedef_btf_bpf_get_socket_cookie_sock = FunPtr ''u64'' [''struct sock *'']"

lemma info_typedef_btf_bpf_get_socket_cookie_sock [c_info]: "info typedef_btf_bpf_get_socket_cookie_sock = (8, 8)"
  by (simp add: typedef_btf_bpf_get_socket_cookie_sock_def c_info)

definition typedef_btf_bpf_get_socket_ptr_cookie :: ctype where
  "typedef_btf_bpf_get_socket_ptr_cookie = FunPtr ''u64'' [''struct sock *'']"

lemma info_typedef_btf_bpf_get_socket_ptr_cookie [c_info]: "info typedef_btf_bpf_get_socket_ptr_cookie = (8, 8)"
  by (simp add: typedef_btf_bpf_get_socket_ptr_cookie_def c_info)

definition typedef_btf_bpf_get_socket_cookie_sock_ops :: ctype where
  "typedef_btf_bpf_get_socket_cookie_sock_ops = FunPtr ''u64'' [''struct bpf_sock_ops_kern *'']"

lemma info_typedef_btf_bpf_get_socket_cookie_sock_ops [c_info]: "info typedef_btf_bpf_get_socket_cookie_sock_ops = (8, 8)"
  by (simp add: typedef_btf_bpf_get_socket_cookie_sock_ops_def c_info)

definition typedef_btf_bpf_get_netns_cookie_sock :: ctype where
  "typedef_btf_bpf_get_netns_cookie_sock = FunPtr ''u64'' [''struct sock *'']"

lemma info_typedef_btf_bpf_get_netns_cookie_sock [c_info]: "info typedef_btf_bpf_get_netns_cookie_sock = (8, 8)"
  by (simp add: typedef_btf_bpf_get_netns_cookie_sock_def c_info)

definition typedef_btf_bpf_get_netns_cookie_sock_addr :: ctype where
  "typedef_btf_bpf_get_netns_cookie_sock_addr = FunPtr ''u64'' [''struct bpf_sock_addr_kern *'']"

lemma info_typedef_btf_bpf_get_netns_cookie_sock_addr [c_info]: "info typedef_btf_bpf_get_netns_cookie_sock_addr = (8, 8)"
  by (simp add: typedef_btf_bpf_get_netns_cookie_sock_addr_def c_info)

definition typedef_btf_bpf_get_netns_cookie_sock_ops :: ctype where
  "typedef_btf_bpf_get_netns_cookie_sock_ops = FunPtr ''u64'' [''struct bpf_sock_ops_kern *'']"

lemma info_typedef_btf_bpf_get_netns_cookie_sock_ops [c_info]: "info typedef_btf_bpf_get_netns_cookie_sock_ops = (8, 8)"
  by (simp add: typedef_btf_bpf_get_netns_cookie_sock_ops_def c_info)

definition typedef_btf_bpf_get_netns_cookie_sk_msg :: ctype where
  "typedef_btf_bpf_get_netns_cookie_sk_msg = FunPtr ''u64'' [''struct sk_msg *'']"

lemma info_typedef_btf_bpf_get_netns_cookie_sk_msg [c_info]: "info typedef_btf_bpf_get_netns_cookie_sk_msg = (8, 8)"
  by (simp add: typedef_btf_bpf_get_netns_cookie_sk_msg_def c_info)

definition typedef_btf_bpf_get_socket_uid :: ctype where
  "typedef_btf_bpf_get_socket_uid = FunPtr ''u64'' [''struct sk_buff *'']"

lemma info_typedef_btf_bpf_get_socket_uid [c_info]: "info typedef_btf_bpf_get_socket_uid = (8, 8)"
  by (simp add: typedef_btf_bpf_get_socket_uid_def c_info)

definition typedef_btf_bpf_sk_setsockopt :: ctype where
  "typedef_btf_bpf_sk_setsockopt = FunPtr ''u64'' [''struct sock *'', ''int'', ''int'', ''char *'', ''int'']"

lemma info_typedef_btf_bpf_sk_setsockopt [c_info]: "info typedef_btf_bpf_sk_setsockopt = (8, 8)"
  by (simp add: typedef_btf_bpf_sk_setsockopt_def c_info)

definition typedef_btf_bpf_sk_getsockopt :: ctype where
  "typedef_btf_bpf_sk_getsockopt = FunPtr ''u64'' [''struct sock *'', ''int'', ''int'', ''char *'', ''int'']"

lemma info_typedef_btf_bpf_sk_getsockopt [c_info]: "info typedef_btf_bpf_sk_getsockopt = (8, 8)"
  by (simp add: typedef_btf_bpf_sk_getsockopt_def c_info)

definition typedef_btf_bpf_sock_addr_setsockopt :: ctype where
  "typedef_btf_bpf_sock_addr_setsockopt = FunPtr ''u64'' [''struct bpf_sock_addr_kern *'', ''int'', ''int'', ''char *'', ''int'']"

lemma info_typedef_btf_bpf_sock_addr_setsockopt [c_info]: "info typedef_btf_bpf_sock_addr_setsockopt = (8, 8)"
  by (simp add: typedef_btf_bpf_sock_addr_setsockopt_def c_info)

definition typedef_btf_bpf_sock_addr_getsockopt :: ctype where
  "typedef_btf_bpf_sock_addr_getsockopt = FunPtr ''u64'' [''struct bpf_sock_addr_kern *'', ''int'', ''int'', ''char *'', ''int'']"

lemma info_typedef_btf_bpf_sock_addr_getsockopt [c_info]: "info typedef_btf_bpf_sock_addr_getsockopt = (8, 8)"
  by (simp add: typedef_btf_bpf_sock_addr_getsockopt_def c_info)

definition typedef_btf_bpf_sock_ops_setsockopt :: ctype where
  "typedef_btf_bpf_sock_ops_setsockopt = FunPtr ''u64'' [''struct bpf_sock_ops_kern *'', ''int'', ''int'', ''char *'', ''int'']"

lemma info_typedef_btf_bpf_sock_ops_setsockopt [c_info]: "info typedef_btf_bpf_sock_ops_setsockopt = (8, 8)"
  by (simp add: typedef_btf_bpf_sock_ops_setsockopt_def c_info)

definition typedef_btf_bpf_sock_ops_getsockopt :: ctype where
  "typedef_btf_bpf_sock_ops_getsockopt = FunPtr ''u64'' [''struct bpf_sock_ops_kern *'', ''int'', ''int'', ''char *'', ''int'']"

lemma info_typedef_btf_bpf_sock_ops_getsockopt [c_info]: "info typedef_btf_bpf_sock_ops_getsockopt = (8, 8)"
  by (simp add: typedef_btf_bpf_sock_ops_getsockopt_def c_info)

definition typedef_btf_bpf_sock_ops_cb_flags_set :: ctype where
  "typedef_btf_bpf_sock_ops_cb_flags_set = FunPtr ''u64'' [''struct bpf_sock_ops_kern *'', ''int'']"

lemma info_typedef_btf_bpf_sock_ops_cb_flags_set [c_info]: "info typedef_btf_bpf_sock_ops_cb_flags_set = (8, 8)"
  by (simp add: typedef_btf_bpf_sock_ops_cb_flags_set_def c_info)

definition typedef_btf_bpf_bind :: ctype where
  "typedef_btf_bpf_bind = FunPtr ''u64'' [''struct bpf_sock_addr_kern *'', ''struct sockaddr *'', ''int'']"

lemma info_typedef_btf_bpf_bind [c_info]: "info typedef_btf_bpf_bind = (8, 8)"
  by (simp add: typedef_btf_bpf_bind_def c_info)

definition typedef_btf_bpf_skb_get_xfrm_state :: ctype where
  "typedef_btf_bpf_skb_get_xfrm_state = FunPtr ''u64'' [''struct sk_buff *'', ''u32'', ''struct bpf_xfrm_state *'', ''u32'', ''u64'']"

lemma info_typedef_btf_bpf_skb_get_xfrm_state [c_info]: "info typedef_btf_bpf_skb_get_xfrm_state = (8, 8)"
  by (simp add: typedef_btf_bpf_skb_get_xfrm_state_def c_info)

definition typedef_btf_bpf_xdp_fib_lookup :: ctype where
  "typedef_btf_bpf_xdp_fib_lookup = FunPtr ''u64'' [''struct xdp_buff *'', ''struct bpf_fib_lookup *'', ''int'', ''u32'']"

lemma info_typedef_btf_bpf_xdp_fib_lookup [c_info]: "info typedef_btf_bpf_xdp_fib_lookup = (8, 8)"
  by (simp add: typedef_btf_bpf_xdp_fib_lookup_def c_info)

definition typedef_btf_bpf_skb_fib_lookup :: ctype where
  "typedef_btf_bpf_skb_fib_lookup = FunPtr ''u64'' [''struct sk_buff *'', ''struct bpf_fib_lookup *'', ''int'', ''u32'']"

lemma info_typedef_btf_bpf_skb_fib_lookup [c_info]: "info typedef_btf_bpf_skb_fib_lookup = (8, 8)"
  by (simp add: typedef_btf_bpf_skb_fib_lookup_def c_info)

definition typedef_btf_bpf_skb_check_mtu :: ctype where
  "typedef_btf_bpf_skb_check_mtu = FunPtr ''u64'' [''struct sk_buff *'', ''u32'', ''u32 *'', ''s32'', ''u64'']"

lemma info_typedef_btf_bpf_skb_check_mtu [c_info]: "info typedef_btf_bpf_skb_check_mtu = (8, 8)"
  by (simp add: typedef_btf_bpf_skb_check_mtu_def c_info)

definition typedef_btf_bpf_xdp_check_mtu :: ctype where
  "typedef_btf_bpf_xdp_check_mtu = FunPtr ''u64'' [''struct xdp_buff *'', ''u32'', ''u32 *'', ''s32'', ''u64'']"

lemma info_typedef_btf_bpf_xdp_check_mtu [c_info]: "info typedef_btf_bpf_xdp_check_mtu = (8, 8)"
  by (simp add: typedef_btf_bpf_xdp_check_mtu_def c_info)

definition typedef_btf_bpf_lwt_in_push_encap :: ctype where
  "typedef_btf_bpf_lwt_in_push_encap = FunPtr ''u64'' [''struct sk_buff *'', ''u32'', ''void *'', ''u32'']"

lemma info_typedef_btf_bpf_lwt_in_push_encap [c_info]: "info typedef_btf_bpf_lwt_in_push_encap = (8, 8)"
  by (simp add: typedef_btf_bpf_lwt_in_push_encap_def c_info)

definition typedef_btf_bpf_lwt_xmit_push_encap :: ctype where
  "typedef_btf_bpf_lwt_xmit_push_encap = FunPtr ''u64'' [''struct sk_buff *'', ''u32'', ''void *'', ''u32'']"

lemma info_typedef_btf_bpf_lwt_xmit_push_encap [c_info]: "info typedef_btf_bpf_lwt_xmit_push_encap = (8, 8)"
  by (simp add: typedef_btf_bpf_lwt_xmit_push_encap_def c_info)

definition typedef_btf_bpf_lwt_seg6_store_bytes :: ctype where
  "typedef_btf_bpf_lwt_seg6_store_bytes = FunPtr ''u64'' [''struct sk_buff *'', ''u32'', ''const void *'', ''u32'']"

lemma info_typedef_btf_bpf_lwt_seg6_store_bytes [c_info]: "info typedef_btf_bpf_lwt_seg6_store_bytes = (8, 8)"
  by (simp add: typedef_btf_bpf_lwt_seg6_store_bytes_def c_info)

definition typedef_btf_bpf_lwt_seg6_action :: ctype where
  "typedef_btf_bpf_lwt_seg6_action = FunPtr ''u64'' [''struct sk_buff *'', ''u32'', ''void *'', ''u32'']"

lemma info_typedef_btf_bpf_lwt_seg6_action [c_info]: "info typedef_btf_bpf_lwt_seg6_action = (8, 8)"
  by (simp add: typedef_btf_bpf_lwt_seg6_action_def c_info)

definition typedef_btf_bpf_lwt_seg6_adjust_srh :: ctype where
  "typedef_btf_bpf_lwt_seg6_adjust_srh = FunPtr ''u64'' [''struct sk_buff *'', ''u32'', ''s32'']"

lemma info_typedef_btf_bpf_lwt_seg6_adjust_srh [c_info]: "info typedef_btf_bpf_lwt_seg6_adjust_srh = (8, 8)"
  by (simp add: typedef_btf_bpf_lwt_seg6_adjust_srh_def c_info)

definition typedef_btf_bpf_skc_lookup_tcp :: ctype where
  "typedef_btf_bpf_skc_lookup_tcp = FunPtr ''u64'' [''struct sk_buff *'', ''struct bpf_sock_tuple *'', ''u32'', ''u64'', ''u64'']"

lemma info_typedef_btf_bpf_skc_lookup_tcp [c_info]: "info typedef_btf_bpf_skc_lookup_tcp = (8, 8)"
  by (simp add: typedef_btf_bpf_skc_lookup_tcp_def c_info)

definition typedef_btf_bpf_sk_lookup_tcp :: ctype where
  "typedef_btf_bpf_sk_lookup_tcp = FunPtr ''u64'' [''struct sk_buff *'', ''struct bpf_sock_tuple *'', ''u32'', ''u64'', ''u64'']"

lemma info_typedef_btf_bpf_sk_lookup_tcp [c_info]: "info typedef_btf_bpf_sk_lookup_tcp = (8, 8)"
  by (simp add: typedef_btf_bpf_sk_lookup_tcp_def c_info)

definition typedef_btf_bpf_sk_lookup_udp :: ctype where
  "typedef_btf_bpf_sk_lookup_udp = FunPtr ''u64'' [''struct sk_buff *'', ''struct bpf_sock_tuple *'', ''u32'', ''u64'', ''u64'']"

lemma info_typedef_btf_bpf_sk_lookup_udp [c_info]: "info typedef_btf_bpf_sk_lookup_udp = (8, 8)"
  by (simp add: typedef_btf_bpf_sk_lookup_udp_def c_info)

definition typedef_btf_bpf_tc_skc_lookup_tcp :: ctype where
  "typedef_btf_bpf_tc_skc_lookup_tcp = FunPtr ''u64'' [''struct sk_buff *'', ''struct bpf_sock_tuple *'', ''u32'', ''u64'', ''u64'']"

lemma info_typedef_btf_bpf_tc_skc_lookup_tcp [c_info]: "info typedef_btf_bpf_tc_skc_lookup_tcp = (8, 8)"
  by (simp add: typedef_btf_bpf_tc_skc_lookup_tcp_def c_info)

definition typedef_btf_bpf_tc_sk_lookup_tcp :: ctype where
  "typedef_btf_bpf_tc_sk_lookup_tcp = FunPtr ''u64'' [''struct sk_buff *'', ''struct bpf_sock_tuple *'', ''u32'', ''u64'', ''u64'']"

lemma info_typedef_btf_bpf_tc_sk_lookup_tcp [c_info]: "info typedef_btf_bpf_tc_sk_lookup_tcp = (8, 8)"
  by (simp add: typedef_btf_bpf_tc_sk_lookup_tcp_def c_info)

definition typedef_btf_bpf_tc_sk_lookup_udp :: ctype where
  "typedef_btf_bpf_tc_sk_lookup_udp = FunPtr ''u64'' [''struct sk_buff *'', ''struct bpf_sock_tuple *'', ''u32'', ''u64'', ''u64'']"

lemma info_typedef_btf_bpf_tc_sk_lookup_udp [c_info]: "info typedef_btf_bpf_tc_sk_lookup_udp = (8, 8)"
  by (simp add: typedef_btf_bpf_tc_sk_lookup_udp_def c_info)

definition typedef_btf_bpf_sk_release :: ctype where
  "typedef_btf_bpf_sk_release = FunPtr ''u64'' [''struct sock *'']"

lemma info_typedef_btf_bpf_sk_release [c_info]: "info typedef_btf_bpf_sk_release = (8, 8)"
  by (simp add: typedef_btf_bpf_sk_release_def c_info)

definition typedef_btf_bpf_xdp_sk_lookup_udp :: ctype where
  "typedef_btf_bpf_xdp_sk_lookup_udp = FunPtr ''u64'' [''struct xdp_buff *'', ''struct bpf_sock_tuple *'', ''u32'', ''u32'', ''u64'']"

lemma info_typedef_btf_bpf_xdp_sk_lookup_udp [c_info]: "info typedef_btf_bpf_xdp_sk_lookup_udp = (8, 8)"
  by (simp add: typedef_btf_bpf_xdp_sk_lookup_udp_def c_info)

definition typedef_btf_bpf_xdp_skc_lookup_tcp :: ctype where
  "typedef_btf_bpf_xdp_skc_lookup_tcp = FunPtr ''u64'' [''struct xdp_buff *'', ''struct bpf_sock_tuple *'', ''u32'', ''u32'', ''u64'']"

lemma info_typedef_btf_bpf_xdp_skc_lookup_tcp [c_info]: "info typedef_btf_bpf_xdp_skc_lookup_tcp = (8, 8)"
  by (simp add: typedef_btf_bpf_xdp_skc_lookup_tcp_def c_info)

definition typedef_btf_bpf_xdp_sk_lookup_tcp :: ctype where
  "typedef_btf_bpf_xdp_sk_lookup_tcp = FunPtr ''u64'' [''struct xdp_buff *'', ''struct bpf_sock_tuple *'', ''u32'', ''u32'', ''u64'']"

lemma info_typedef_btf_bpf_xdp_sk_lookup_tcp [c_info]: "info typedef_btf_bpf_xdp_sk_lookup_tcp = (8, 8)"
  by (simp add: typedef_btf_bpf_xdp_sk_lookup_tcp_def c_info)

definition typedef_btf_bpf_sock_addr_skc_lookup_tcp :: ctype where
  "typedef_btf_bpf_sock_addr_skc_lookup_tcp = FunPtr ''u64'' [''struct bpf_sock_addr_kern *'', ''struct bpf_sock_tuple *'', ''u32'', ''u64'', ''u64'']"

lemma info_typedef_btf_bpf_sock_addr_skc_lookup_tcp [c_info]: "info typedef_btf_bpf_sock_addr_skc_lookup_tcp = (8, 8)"
  by (simp add: typedef_btf_bpf_sock_addr_skc_lookup_tcp_def c_info)

definition typedef_btf_bpf_sock_addr_sk_lookup_tcp :: ctype where
  "typedef_btf_bpf_sock_addr_sk_lookup_tcp = FunPtr ''u64'' [''struct bpf_sock_addr_kern *'', ''struct bpf_sock_tuple *'', ''u32'', ''u64'', ''u64'']"

lemma info_typedef_btf_bpf_sock_addr_sk_lookup_tcp [c_info]: "info typedef_btf_bpf_sock_addr_sk_lookup_tcp = (8, 8)"
  by (simp add: typedef_btf_bpf_sock_addr_sk_lookup_tcp_def c_info)

definition typedef_btf_bpf_sock_addr_sk_lookup_udp :: ctype where
  "typedef_btf_bpf_sock_addr_sk_lookup_udp = FunPtr ''u64'' [''struct bpf_sock_addr_kern *'', ''struct bpf_sock_tuple *'', ''u32'', ''u64'', ''u64'']"

lemma info_typedef_btf_bpf_sock_addr_sk_lookup_udp [c_info]: "info typedef_btf_bpf_sock_addr_sk_lookup_udp = (8, 8)"
  by (simp add: typedef_btf_bpf_sock_addr_sk_lookup_udp_def c_info)

definition typedef_btf_bpf_tcp_sock :: ctype where
  "typedef_btf_bpf_tcp_sock = FunPtr ''u64'' [''struct sock *'']"

lemma info_typedef_btf_bpf_tcp_sock [c_info]: "info typedef_btf_bpf_tcp_sock = (8, 8)"
  by (simp add: typedef_btf_bpf_tcp_sock_def c_info)

definition typedef_btf_bpf_get_listener_sock :: ctype where
  "typedef_btf_bpf_get_listener_sock = FunPtr ''u64'' [''struct sock *'']"

lemma info_typedef_btf_bpf_get_listener_sock [c_info]: "info typedef_btf_bpf_get_listener_sock = (8, 8)"
  by (simp add: typedef_btf_bpf_get_listener_sock_def c_info)

definition typedef_btf_bpf_skb_ecn_set_ce :: ctype where
  "typedef_btf_bpf_skb_ecn_set_ce = FunPtr ''u64'' [''struct sk_buff *'']"

lemma info_typedef_btf_bpf_skb_ecn_set_ce [c_info]: "info typedef_btf_bpf_skb_ecn_set_ce = (8, 8)"
  by (simp add: typedef_btf_bpf_skb_ecn_set_ce_def c_info)

definition typedef_btf_bpf_tcp_check_syncookie :: ctype where
  "typedef_btf_bpf_tcp_check_syncookie = FunPtr ''u64'' [''struct sock *'', ''void *'', ''u32'', ''struct tcphdr *'', ''u32'']"

lemma info_typedef_btf_bpf_tcp_check_syncookie [c_info]: "info typedef_btf_bpf_tcp_check_syncookie = (8, 8)"
  by (simp add: typedef_btf_bpf_tcp_check_syncookie_def c_info)

definition typedef_btf_bpf_tcp_gen_syncookie :: ctype where
  "typedef_btf_bpf_tcp_gen_syncookie = FunPtr ''u64'' [''struct sock *'', ''void *'', ''u32'', ''struct tcphdr *'', ''u32'']"

lemma info_typedef_btf_bpf_tcp_gen_syncookie [c_info]: "info typedef_btf_bpf_tcp_gen_syncookie = (8, 8)"
  by (simp add: typedef_btf_bpf_tcp_gen_syncookie_def c_info)

definition typedef_btf_bpf_sk_assign :: ctype where
  "typedef_btf_bpf_sk_assign = FunPtr ''u64'' [''struct sk_buff *'', ''struct sock *'', ''u64'']"

lemma info_typedef_btf_bpf_sk_assign [c_info]: "info typedef_btf_bpf_sk_assign = (8, 8)"
  by (simp add: typedef_btf_bpf_sk_assign_def c_info)

definition typedef_btf_bpf_sock_ops_load_hdr_opt :: ctype where
  "typedef_btf_bpf_sock_ops_load_hdr_opt = FunPtr ''u64'' [''struct bpf_sock_ops_kern *'', ''void *'', ''u32'', ''u64'']"

lemma info_typedef_btf_bpf_sock_ops_load_hdr_opt [c_info]: "info typedef_btf_bpf_sock_ops_load_hdr_opt = (8, 8)"
  by (simp add: typedef_btf_bpf_sock_ops_load_hdr_opt_def c_info)

definition typedef_btf_bpf_sock_ops_store_hdr_opt :: ctype where
  "typedef_btf_bpf_sock_ops_store_hdr_opt = FunPtr ''u64'' [''struct bpf_sock_ops_kern *'', ''const void *'', ''u32'', ''u64'']"

lemma info_typedef_btf_bpf_sock_ops_store_hdr_opt [c_info]: "info typedef_btf_bpf_sock_ops_store_hdr_opt = (8, 8)"
  by (simp add: typedef_btf_bpf_sock_ops_store_hdr_opt_def c_info)

definition typedef_btf_bpf_sock_ops_reserve_hdr_opt :: ctype where
  "typedef_btf_bpf_sock_ops_reserve_hdr_opt = FunPtr ''u64'' [''struct bpf_sock_ops_kern *'', ''u32'', ''u64'']"

lemma info_typedef_btf_bpf_sock_ops_reserve_hdr_opt [c_info]: "info typedef_btf_bpf_sock_ops_reserve_hdr_opt = (8, 8)"
  by (simp add: typedef_btf_bpf_sock_ops_reserve_hdr_opt_def c_info)

definition typedef_btf_bpf_sk_lookup_assign :: ctype where
  "typedef_btf_bpf_sk_lookup_assign = FunPtr ''u64'' [''struct bpf_sk_lookup_kern *'', ''struct sock *'', ''u64'']"

lemma info_typedef_btf_bpf_sk_lookup_assign [c_info]: "info typedef_btf_bpf_sk_lookup_assign = (8, 8)"
  by (simp add: typedef_btf_bpf_sk_lookup_assign_def c_info)

definition typedef_btf_bpf_skc_to_tcp6_sock :: ctype where
  "typedef_btf_bpf_skc_to_tcp6_sock = FunPtr ''u64'' [''struct sock *'']"

lemma info_typedef_btf_bpf_skc_to_tcp6_sock [c_info]: "info typedef_btf_bpf_skc_to_tcp6_sock = (8, 8)"
  by (simp add: typedef_btf_bpf_skc_to_tcp6_sock_def c_info)

definition typedef_btf_bpf_skc_to_tcp_sock :: ctype where
  "typedef_btf_bpf_skc_to_tcp_sock = FunPtr ''u64'' [''struct sock *'']"

lemma info_typedef_btf_bpf_skc_to_tcp_sock [c_info]: "info typedef_btf_bpf_skc_to_tcp_sock = (8, 8)"
  by (simp add: typedef_btf_bpf_skc_to_tcp_sock_def c_info)

definition typedef_btf_bpf_skc_to_tcp_timewait_sock :: ctype where
  "typedef_btf_bpf_skc_to_tcp_timewait_sock = FunPtr ''u64'' [''struct sock *'']"

lemma info_typedef_btf_bpf_skc_to_tcp_timewait_sock [c_info]: "info typedef_btf_bpf_skc_to_tcp_timewait_sock = (8, 8)"
  by (simp add: typedef_btf_bpf_skc_to_tcp_timewait_sock_def c_info)

definition typedef_btf_bpf_skc_to_tcp_request_sock :: ctype where
  "typedef_btf_bpf_skc_to_tcp_request_sock = FunPtr ''u64'' [''struct sock *'']"

lemma info_typedef_btf_bpf_skc_to_tcp_request_sock [c_info]: "info typedef_btf_bpf_skc_to_tcp_request_sock = (8, 8)"
  by (simp add: typedef_btf_bpf_skc_to_tcp_request_sock_def c_info)

definition typedef_btf_bpf_skc_to_udp6_sock :: ctype where
  "typedef_btf_bpf_skc_to_udp6_sock = FunPtr ''u64'' [''struct sock *'']"

lemma info_typedef_btf_bpf_skc_to_udp6_sock [c_info]: "info typedef_btf_bpf_skc_to_udp6_sock = (8, 8)"
  by (simp add: typedef_btf_bpf_skc_to_udp6_sock_def c_info)

definition typedef_btf_bpf_sock_from_file :: ctype where
  "typedef_btf_bpf_sock_from_file = FunPtr ''u64'' [''struct file *'']"

lemma info_typedef_btf_bpf_sock_from_file [c_info]: "info typedef_btf_bpf_sock_from_file = (8, 8)"
  by (simp add: typedef_btf_bpf_sock_from_file_def c_info)

definition typedef_btf_bpf_sock_map_update :: ctype where
  "typedef_btf_bpf_sock_map_update = FunPtr ''u64'' [''struct bpf_sock_ops_kern *'', ''struct bpf_map *'', ''void *'', ''u64'']"

lemma info_typedef_btf_bpf_sock_map_update [c_info]: "info typedef_btf_bpf_sock_map_update = (8, 8)"
  by (simp add: typedef_btf_bpf_sock_map_update_def c_info)

definition typedef_btf_bpf_sk_redirect_map :: ctype where
  "typedef_btf_bpf_sk_redirect_map = FunPtr ''u64'' [''struct sk_buff *'', ''struct bpf_map *'', ''u32'', ''u64'']"

lemma info_typedef_btf_bpf_sk_redirect_map [c_info]: "info typedef_btf_bpf_sk_redirect_map = (8, 8)"
  by (simp add: typedef_btf_bpf_sk_redirect_map_def c_info)

definition typedef_btf_bpf_msg_redirect_map :: ctype where
  "typedef_btf_bpf_msg_redirect_map = FunPtr ''u64'' [''struct sk_msg *'', ''struct bpf_map *'', ''u32'', ''u64'']"

lemma info_typedef_btf_bpf_msg_redirect_map [c_info]: "info typedef_btf_bpf_msg_redirect_map = (8, 8)"
  by (simp add: typedef_btf_bpf_msg_redirect_map_def c_info)

definition typedef_btf_bpf_sock_hash_update :: ctype where
  "typedef_btf_bpf_sock_hash_update = FunPtr ''u64'' [''struct bpf_sock_ops_kern *'', ''struct bpf_map *'', ''void *'', ''u64'']"

lemma info_typedef_btf_bpf_sock_hash_update [c_info]: "info typedef_btf_bpf_sock_hash_update = (8, 8)"
  by (simp add: typedef_btf_bpf_sock_hash_update_def c_info)

definition typedef_btf_bpf_sk_redirect_hash :: ctype where
  "typedef_btf_bpf_sk_redirect_hash = FunPtr ''u64'' [''struct sk_buff *'', ''struct bpf_map *'', ''void *'', ''u64'']"

lemma info_typedef_btf_bpf_sk_redirect_hash [c_info]: "info typedef_btf_bpf_sk_redirect_hash = (8, 8)"
  by (simp add: typedef_btf_bpf_sk_redirect_hash_def c_info)

definition typedef_btf_bpf_msg_redirect_hash :: ctype where
  "typedef_btf_bpf_msg_redirect_hash = FunPtr ''u64'' [''struct sk_msg *'', ''struct bpf_map *'', ''void *'', ''u64'']"

lemma info_typedef_btf_bpf_msg_redirect_hash [c_info]: "info typedef_btf_bpf_msg_redirect_hash = (8, 8)"
  by (simp add: typedef_btf_bpf_msg_redirect_hash_def c_info)

definition typedef_btf_bpf_sk_storage_get :: ctype where
  "typedef_btf_bpf_sk_storage_get = FunPtr ''u64'' [''struct bpf_map *'', ''struct sock *'', ''void *'', ''u64'']"

lemma info_typedef_btf_bpf_sk_storage_get [c_info]: "info typedef_btf_bpf_sk_storage_get = (8, 8)"
  by (simp add: typedef_btf_bpf_sk_storage_get_def c_info)

definition typedef_btf_bpf_sk_storage_delete :: ctype where
  "typedef_btf_bpf_sk_storage_delete = FunPtr ''u64'' [''struct bpf_map *'', ''struct sock *'']"

lemma info_typedef_btf_bpf_sk_storage_delete [c_info]: "info typedef_btf_bpf_sk_storage_delete = (8, 8)"
  by (simp add: typedef_btf_bpf_sk_storage_delete_def c_info)

definition typedef_btf_bpf_sk_storage_get_tracing :: ctype where
  "typedef_btf_bpf_sk_storage_get_tracing = FunPtr ''u64'' [''struct bpf_map *'', ''struct sock *'', ''void *'', ''u64'']"

lemma info_typedef_btf_bpf_sk_storage_get_tracing [c_info]: "info typedef_btf_bpf_sk_storage_get_tracing = (8, 8)"
  by (simp add: typedef_btf_bpf_sk_storage_get_tracing_def c_info)

definition typedef_btf_bpf_sk_storage_delete_tracing :: ctype where
  "typedef_btf_bpf_sk_storage_delete_tracing = FunPtr ''u64'' [''struct bpf_map *'', ''struct sock *'']"

lemma info_typedef_btf_bpf_sk_storage_delete_tracing [c_info]: "info typedef_btf_bpf_sk_storage_delete_tracing = (8, 8)"
  by (simp add: typedef_btf_bpf_sk_storage_delete_tracing_def c_info)

definition typedef_btf_trace_bpf_test_finish :: ctype where
  "typedef_btf_trace_bpf_test_finish = FunPtr ''void'' [''void *'', ''int *'']"

lemma info_typedef_btf_trace_bpf_test_finish [c_info]: "info typedef_btf_trace_bpf_test_finish = (8, 8)"
  by (simp add: typedef_btf_trace_bpf_test_finish_def c_info)

definition typedef_btf_bpf_tcp_send_ack :: ctype where
  "typedef_btf_bpf_tcp_send_ack = FunPtr ''u64'' [''struct tcp_sock *'', ''u32'']"

lemma info_typedef_btf_bpf_tcp_send_ack [c_info]: "info typedef_btf_bpf_tcp_send_ack = (8, 8)"
  by (simp add: typedef_btf_bpf_tcp_send_ack_def c_info)

end
