(* ===== verification/Sentinel.thy ===== *)
theory Sentinel
  imports Prelude Vmlinux_Ctx Vmlinux_Helpers
begin

text \<open>
  The kernel sentinel, src/internal/sentinel/bpf/sentinel.c: the types and maps it declares,
  \<open>emit_absence\<close>, the timer callback \<open>check_pulse_cb\<close> and the program \<open>start_timer\<close>. The BPF
  helpers are code of the kernel: they are the fields of \<open>helpers\<close>, functions on a kernel state
  of an arbitrary type, and \<open>bpf_ok\<close> states what their documentation promises of the objects the
  program declares, read through the observations of \<open>view\<close>. The sentinel as a whole is the
  step relation \<open>sentinel_step\<close>: the timer fires, the agent pulses, drains the buffer or starts
  the timer again, time passes; the agent may stop stepping at any moment.
\<close>

section \<open>Types and constants\<close>

definition struct_bpf_timer :: ctype where
  "struct_bpf_timer = Struct [Aligned 8] [Mem ''_opaque'' (Array typedef___u64 2)]"

lemma info_struct_bpf_timer [c_info]: "info struct_bpf_timer = (16, 8)"
  by (simp add: struct_bpf_timer_def c_info)

definition CLOCK_MONOTONIC :: int where "CLOCK_MONOTONIC = 1"
definition EBUSY :: i64 where "EBUSY = 16"
definition NSEC_PER_SEC :: u64 where "NSEC_PER_SEC = 1000000000"
definition TIMER_PERIOD_NS :: u64 where "TIMER_PERIOD_NS = 30 * NSEC_PER_SEC"
definition PULSE_TIMEOUT_NS :: u64 where "PULSE_TIMEOUT_NS = 120 * NSEC_PER_SEC"

definition struct_pulse_key :: ctype where
  "struct_pulse_key = Struct [] [Mem ''host_id'' typedef___u32]"

definition struct_pulse_value :: ctype where
  "struct_pulse_value = Struct [] [
    Mem ''timestamp_ns'' typedef___u64, Mem ''wallclock_ns'' typedef___u64, Mem ''seq'' typedef___u64]"

definition struct_absence_event :: ctype where
  "struct_absence_event = Struct [] [
    Mem ''now_ns'' typedef___u64, Mem ''last_pulse_ns'' typedef___u64,
    Mem ''last_wallclock_ns'' typedef___u64, Mem ''last_seq'' typedef___u64,
    Mem ''cpu'' typedef___u32, Mem ''flags'' typedef___u32, Mem ''comm'' (Array typedef___u8 16)]"

definition struct_timer_elem :: ctype where
  "struct_timer_elem = Struct [] [Mem ''t'' struct_bpf_timer]"

lemma info_struct_pulse_key [c_info]: "info struct_pulse_key = (4, 4)"
  by (simp add: struct_pulse_key_def c_info)

lemma info_struct_pulse_value [c_info]: "info struct_pulse_value = (24, 8)"
  by (simp add: struct_pulse_value_def c_info)

lemma info_struct_absence_event [c_info]: "info struct_absence_event = (56, 8)"
  by (simp add: struct_absence_event_def c_info)

lemma info_struct_timer_elem [c_info]: "info struct_timer_elem = (16, 8)"
  by (simp add: struct_timer_elem_def c_info)

text \<open>Values of the three structs the program reads and writes.\<close>

record pulse_key =
  host_id :: u32

record pulse_value =
  timestamp_ns :: u64
  wallclock_ns :: u64
  seq :: u64

record absence_event =
  now_ns :: u64
  last_pulse_ns :: u64
  last_wallclock_ns :: u64
  last_seq :: u64
  cpu :: u32
  flags :: u32
  comm :: bytes

text \<open>The maps, as their declarations in the .maps section describe them to the loader.\<close>

record map_decl =
  map_type :: string
  max_entries :: nat
  key_type :: "ctype option"
  value_type :: "ctype option"
  pinning :: string

definition pulse_map :: map_decl where
  "pulse_map = \<lparr>map_type = ''BPF_MAP_TYPE_HASH'', max_entries = 1, key_type = Some struct_pulse_key,
     value_type = Some struct_pulse_value, pinning = ''LIBBPF_PIN_BY_NAME''\<rparr>"

definition absence_ringbuf :: map_decl where
  "absence_ringbuf = \<lparr>map_type = ''BPF_MAP_TYPE_RINGBUF'', max_entries = 256 * 1024, key_type = None,
     value_type = None, pinning = ''LIBBPF_PIN_BY_NAME''\<rparr>"

definition timer_map :: map_decl where
  "timer_map = \<lparr>map_type = ''BPF_MAP_TYPE_ARRAY'', max_entries = 1, key_type = Some typedef___u32,
     value_type = Some struct_timer_elem, pinning = ''LIBBPF_PIN_BY_NAME''\<rparr>"

section \<open>Helpers of the kernel\<close>

text \<open>
  One field per helper the program calls, with the map or the timer it is applied to in the name.
  A lookup gives the value the pointer leads to (\<open>timer_map\<close> only whether there is one, the
  timer being opaque). A reservation gives the bytes the reserved record holds before the
  program writes it. Codes are the helper's \<open>long\<close>.
\<close>

record 'k helpers =
  lookup_pulse_map :: "pulse_key \<Rightarrow> 'k \<Rightarrow> pulse_value option"
  lookup_timer_map :: "u32 \<Rightarrow> 'k \<Rightarrow> bool"
  ktime_get_ns :: "'k \<Rightarrow> u64 \<times> 'k"
  ringbuf_reserve :: "nat \<Rightarrow> u64 \<Rightarrow> 'k \<Rightarrow> absence_event option \<times> 'k"
  ringbuf_submit :: "absence_event \<Rightarrow> u64 \<Rightarrow> 'k \<Rightarrow> 'k"
  get_smp_processor_id :: "'k \<Rightarrow> u32"
  get_current_comm :: "nat \<Rightarrow> 'k \<Rightarrow> bytes"
  timer_init :: "int \<Rightarrow> 'k \<Rightarrow> i64 \<times> 'k"
  timer_set_callback :: "string \<Rightarrow> 'k \<Rightarrow> i64 \<times> 'k"
  timer_start :: "u64 \<Rightarrow> u64 \<Rightarrow> 'k \<Rightarrow> i64 \<times> 'k"

section \<open>The program\<close>

text \<open>What \<open>emit_absence\<close> writes of the last pulse.\<close>

definition fill_pulse :: "pulse_value option \<Rightarrow> absence_event \<Rightarrow> absence_event" where
  "fill_pulse p evt = (case p of
     Some v \<Rightarrow> evt\<lparr>last_pulse_ns := timestamp_ns v, last_wallclock_ns := wallclock_ns v,
       last_seq := seq v, flags := 0\<rparr>
   | None \<Rightarrow> evt\<lparr>last_pulse_ns := 0, last_wallclock_ns := 0, last_seq := 0, flags := 1\<rparr>)"

definition emit_absence :: "'k helpers \<Rightarrow> u64 \<Rightarrow> pulse_value option \<Rightarrow> 'k \<Rightarrow> 'k" where
  "emit_absence H now p k =
     (case ringbuf_reserve H (csize struct_absence_event) 0 k of
        (None, k1) \<Rightarrow> k1
      | (Some evt, k1) \<Rightarrow>
          let evt = evt\<lparr>now_ns := now\<rparr>;
              evt = fill_pulse p evt;
              evt = evt\<lparr>cpu := get_smp_processor_id H k1\<rparr>;
              evt = evt\<lparr>comm := get_current_comm H (csize (Array typedef___u8 16)) k1\<rparr>
          in ringbuf_submit H evt 0 k1)"

definition absent :: "pulse_value option \<Rightarrow> u64 \<Rightarrow> bool" where
  "absent p now = (case p of None \<Rightarrow> True | Some v \<Rightarrow> PULSE_TIMEOUT_NS < now - timestamp_ns v)"

definition check_pulse_cb :: "'k helpers \<Rightarrow> 'k \<Rightarrow> int \<times> 'k" where
  "check_pulse_cb H k =
     (let p = lookup_pulse_map H \<lparr>host_id = 0\<rparr> k;
          (now, k) = ktime_get_ns H k;
          k = (if absent p now then emit_absence H now p k else k);
          (r, k) = timer_start H TIMER_PERIOD_NS 0 k
      in (0, k))"

text \<open>The codes are \<open>long\<close>, the program returns them cut to \<open>int\<close>.\<close>

definition int_of_long :: "i64 \<Rightarrow> 32 word" where
  "int_of_long r = ucast r"

definition start_timer :: "'k helpers \<Rightarrow> 'k \<Rightarrow> 32 word \<times> 'k" where
  "start_timer H k =
     (if \<not> lookup_timer_map H 0 k then (- 1, k)
      else let (ret, k) = timer_init H CLOCK_MONOTONIC k in
        if ret \<noteq> 0 \<and> ret \<noteq> - EBUSY then (int_of_long ret, k)
        else let (ret, k) = timer_set_callback H ''check_pulse_cb'' k in
          if ret \<noteq> 0 then (int_of_long ret, k)
          else let (ret, k) = timer_start H TIMER_PERIOD_NS 0 k in
            if ret \<noteq> 0 then (int_of_long ret, k)
            else (0, k))"

section \<open>What the helpers promise\<close>

text \<open>
  The state of the objects the program shares with the kernel: the entries of \<open>pulse_map\<close>, the
  records of \<open>absence_ringbuf\<close> that are submitted and not yet consumed, oldest first, the timer
  (initialised or not, its callback, whether it is armed and the delay it was last armed with), and
  the clock that \<open>bpf_ktime_get_ns\<close> reads.
\<close>

record timer_state =
  ready :: bool
  callback :: "string option"
  armed :: bool
  delay_ns :: u64

record 'k view =
  pulses :: "'k \<Rightarrow> pulse_key \<Rightarrow> pulse_value option"
  ring :: "'k \<Rightarrow> absence_event list"
  timer :: "'k \<Rightarrow> timer_state"
  clock :: "'k \<Rightarrow> u64"

definition maps_kept :: "'k view \<Rightarrow> 'k \<Rightarrow> 'k \<Rightarrow> bool" where
  "maps_kept V k k' = (pulses V k' = pulses V k \<and> ring V k' = ring V k)"

definition kept :: "'k view \<Rightarrow> 'k \<Rightarrow> 'k \<Rightarrow> bool" where
  "kept V k k' = (maps_kept V k k' \<and> timer V k' = timer V k)"

definition reads_ok :: "'k helpers \<Rightarrow> 'k view \<Rightarrow> bool" where
  "reads_ok H V \<longleftrightarrow>
     (\<forall>key k. lookup_pulse_map H key k = pulses V k key) \<and>
     (\<forall>k. fst (ktime_get_ns H k) = clock V k \<and> kept V k (snd (ktime_get_ns H k))) \<and>
     (\<forall>n k. length (get_current_comm H n k) = n)"

definition ring_ok :: "'k helpers \<Rightarrow> 'k view \<Rightarrow> bool" where
  "ring_ok H V \<longleftrightarrow>
     (\<forall>n f k. kept V k (snd (ringbuf_reserve H n f k))) \<and>
     (\<forall>e f k. ring V (ringbuf_submit H e f k) = ring V k @ [e] \<and>
        pulses V (ringbuf_submit H e f k) = pulses V k \<and> timer V (ringbuf_submit H e f k) = timer V k)"

definition init_ok :: "'k helpers \<Rightarrow> 'k view \<Rightarrow> bool" where
  "init_ok H V \<longleftrightarrow> (\<forall>c k. let (r, k') = timer_init H c k in
     maps_kept V k k' \<and>
     (if ready (timer V k) then r = - EBUSY \<and> timer V k' = timer V k
      else if r = 0 then timer V k' = \<lparr>ready = True, callback = None, armed = False, delay_ns = 0\<rparr>
      else r \<noteq> - EBUSY \<and> timer V k' = timer V k))"

definition callback_ok :: "'k helpers \<Rightarrow> 'k view \<Rightarrow> bool" where
  "callback_ok H V \<longleftrightarrow> (\<forall>c k. let (r, k') = timer_set_callback H c k in
     maps_kept V k k' \<and>
     timer V k' = (if r = 0 then (timer V k)\<lparr>callback := Some c\<rparr> else timer V k))"

definition start_ok :: "'k helpers \<Rightarrow> 'k view \<Rightarrow> bool" where
  "start_ok H V \<longleftrightarrow> (\<forall>ns k. let (r, k') = timer_start H ns 0 k in
     maps_kept V k k' \<and>
     timer V k' = (if r = 0 then (timer V k)\<lparr>armed := True, delay_ns := ns\<rparr> else timer V k) \<and>
     (ready (timer V k) \<and> callback (timer V k) \<noteq> None \<longrightarrow> r = 0))"

definition bpf_ok :: "'k helpers \<Rightarrow> 'k view \<Rightarrow> bool" where
  "bpf_ok H V \<longleftrightarrow> reads_ok H V \<and> ring_ok H V \<and> init_ok H V \<and> callback_ok H V \<and> start_ok H V"

section \<open>Effect of one callback\<close>

text \<open>The record that is submitted, and whether the buffer has room for it.\<close>

definition event_of :: "'k helpers \<Rightarrow> u64 \<Rightarrow> pulse_value option \<Rightarrow> 'k \<Rightarrow> absence_event" where
  "event_of H now p k =
     \<lparr>now_ns = now,
      last_pulse_ns = (case p of Some v \<Rightarrow> timestamp_ns v | None \<Rightarrow> 0),
      last_wallclock_ns = (case p of Some v \<Rightarrow> wallclock_ns v | None \<Rightarrow> 0),
      last_seq = (case p of Some v \<Rightarrow> seq v | None \<Rightarrow> 0),
      cpu = get_smp_processor_id H k,
      flags = (if p = None then 1 else 0),
      comm = get_current_comm H 16 k\<rparr>"

definition reserved :: "'k helpers \<Rightarrow> 'k \<Rightarrow> absence_event option \<times> 'k" where
  "reserved H k = ringbuf_reserve H 56 0 k"

lemma fill_event:
  "(fill_pulse p (evt\<lparr>now_ns := now\<rparr>))\<lparr>cpu := get_smp_processor_id H k, comm := get_current_comm H 16 k\<rparr> =
     event_of H now p k"
  by (cases evt; cases p) (simp_all add: fill_pulse_def event_of_def)

lemma emit_absence_event:
  "emit_absence H now p k =
     (case fst (reserved H k) of None \<Rightarrow> snd (reserved H k)
      | Some _ \<Rightarrow> ringbuf_submit H (event_of H now p (snd (reserved H k))) 0 (snd (reserved H k)))"
  by (simp add: emit_absence_def reserved_def fill_event csize_def info_struct_absence_event info_typedef___u8
      Let_def split: prod.split option.split)

lemma bpf_okD:
  assumes "bpf_ok H V"
  shows "lookup_pulse_map H key k = pulses V k key" "fst (ktime_get_ns H k) = clock V k"
    "kept V k (snd (ktime_get_ns H k))" "length (get_current_comm H n k) = n"
    "kept V k (snd (ringbuf_reserve H n f k))"
    "ring V (ringbuf_submit H e f k) = ring V k @ [e]"
    "pulses V (ringbuf_submit H e f k) = pulses V k" "timer V (ringbuf_submit H e f k) = timer V k"
  using assms by (simp_all add: bpf_ok_def reads_ok_def ring_ok_def)

lemma keptD: "kept V k k' \<Longrightarrow> pulses V k' = pulses V k" "kept V k k' \<Longrightarrow> ring V k' = ring V k"
  "kept V k k' \<Longrightarrow> timer V k' = timer V k"
  by (simp_all add: kept_def maps_kept_def)

lemma emit_absence_effect:
  assumes "bpf_ok H V"
  shows "ring V (emit_absence H now p k) = ring V k @
      (if fst (reserved H k) = None then [] else [event_of H now p (snd (reserved H k))])"
    "pulses V (emit_absence H now p k) = pulses V k" "timer V (emit_absence H now p k) = timer V k"
  using bpf_okD(5) [OF assms, of k 56 0] bpf_okD(6-8) [OF assms]
  by (auto simp: emit_absence_event reserved_def keptD split: option.split)

lemma timer_start_effect:
  assumes "bpf_ok H V" and "timer_start H ns 0 k = (r, k')"
  shows "ring V k' = ring V k" "pulses V k' = pulses V k"
    "timer V k' = (if r = 0 then (timer V k)\<lparr>armed := True, delay_ns := ns\<rparr> else timer V k)"
    "ready (timer V k) \<Longrightarrow> callback (timer V k) \<noteq> None \<Longrightarrow> r = 0"
proof -
  from assms(1) have "start_ok H V" by (simp add: bpf_ok_def)
  note * = spec [OF spec [OF this [unfolded start_ok_def Let_def], of ns], of k, unfolded assms(2) prod.case]
  from * show "ring V k' = ring V k" "pulses V k' = pulses V k"
    "timer V k' = (if r = 0 then (timer V k)\<lparr>armed := True, delay_ns := ns\<rparr> else timer V k)"
    "ready (timer V k) \<Longrightarrow> callback (timer V k) \<noteq> None \<Longrightarrow> r = 0"
    by (auto simp: maps_kept_def)
qed

text \<open>The pulse the callback looks up, and what it appends to the buffer.\<close>

definition agent_pulse :: "'k view \<Rightarrow> 'k \<Rightarrow> pulse_value option" where
  "agent_pulse V k = pulses V k \<lparr>host_id = 0\<rparr>"

definition appended :: "'k helpers \<Rightarrow> 'k view \<Rightarrow> 'k \<Rightarrow> absence_event list" where
  "appended H V k =
     (let k1 = snd (ktime_get_ns H k) in
      if absent (agent_pulse V k) (clock V k) \<and> fst (reserved H k1) \<noteq> None
      then [event_of H (clock V k) (agent_pulse V k) (snd (reserved H k1))] else [])"

lemma check_pulse_cb_effect:
  assumes "bpf_ok H V"
  shows "ring V (snd (check_pulse_cb H k)) = ring V k @ appended H V k"
    "pulses V (snd (check_pulse_cb H k)) = pulses V k"
    "fst (check_pulse_cb H k) = 0"
    "ready (timer V k) \<Longrightarrow> callback (timer V k) \<noteq> None \<Longrightarrow>
       timer V (snd (check_pulse_cb H k)) = (timer V k)\<lparr>armed := True, delay_ns := TIMER_PERIOD_NS\<rparr>"
proof -
  define k1 where "k1 = snd (ktime_get_ns H k)"
  have kt: "ktime_get_ns H k = (clock V k, k1)" using bpf_okD(2) [OF assms, of k] by (simp add: k1_def prod_eq_iff)
  have k1: "ring V k1 = ring V k" "pulses V k1 = pulses V k" "timer V k1 = timer V k"
    using keptD [OF bpf_okD(3) [OF assms, of k]] by (simp_all add: k1_def)
  define k2 where "k2 = (if absent (agent_pulse V k) (clock V k) then emit_absence H (clock V k) (agent_pulse V k) k1 else k1)"
  have k2: "ring V k2 = ring V k @ appended H V k" "pulses V k2 = pulses V k" "timer V k2 = timer V k"
    using emit_absence_effect [OF assms, of "clock V k" "agent_pulse V k" k1] k1
    by (simp_all add: k2_def appended_def k1_def)
  obtain r k3 where st: "timer_start H TIMER_PERIOD_NS 0 k2 = (r, k3)" by fastforce
  have cb: "check_pulse_cb H k = (0, k3)"
    unfolding check_pulse_cb_def bpf_okD(1) [OF assms] kt Let_def prod.case agent_pulse_def [symmetric]
      k2_def [symmetric] st by (rule refl)
  note t = timer_start_effect [OF assms st]
  show "ring V (snd (check_pulse_cb H k)) = ring V k @ appended H V k"
    "pulses V (snd (check_pulse_cb H k)) = pulses V k" "fst (check_pulse_cb H k) = 0"
    using t(1,2) k2 by (simp_all add: cb)
  show "timer V (snd (check_pulse_cb H k)) = (timer V k)\<lparr>armed := True, delay_ns := TIMER_PERIOD_NS\<rparr>"
    if "ready (timer V k)" "callback (timer V k) \<noteq> None"
    using t(3,4) that k2(3) by (simp add: cb)
qed

end
