(* ===== verification/Sentinel_System.thy ===== *)
theory Sentinel_System
  imports Sentinel
begin

text \<open>
  The sentinel over time. The first section says what \<open>start_timer\<close> does under the promises of
  the helpers, the second the steps of the whole system and what every run of them keeps: the
  timer stays armed whatever the agent does, and every record of the ring buffer stems from a
  firing. \<open>timed_run\<close> is the machine without steps of the agent, in which time passes only up to the
  moment the armed timer is due: there a silent agent is recorded within the timeout and one
  period. The properties at the end come with a small kernel on which their hypotheses hold.
\<close>

section \<open>Starting the timer\<close>

text \<open>The codes of the helpers are 0 or a negative errno.\<close>

definition errno :: "i64 \<Rightarrow> bool" where
  "errno r \<longleftrightarrow> -4095 \<le> sint r \<and> sint r \<le> 0"

definition errno_codes :: "'k helpers \<Rightarrow> bool" where
  "errno_codes H \<longleftrightarrow> (\<forall>c k. errno (fst (timer_init H c k))) \<and>
     (\<forall>c k. errno (fst (timer_set_callback H c k))) \<and> (\<forall>ns f k. errno (fst (timer_start H ns f k)))"

lemma int_of_long_word: "int_of_long r = word_of_int (sint r)"
  unfolding int_of_long_def by transfer (simp add: take_bit_signed_take_bit)

lemma sint_errno: "errno r \<Longrightarrow> sint (int_of_long r) = sint r"
  unfolding int_of_long_word sint_sbintrunc' errno_def by (rule signed_take_bit_int_eq_self) simp_all

lemma int_of_long_zero_iff:
  assumes "errno r"
  shows "int_of_long r = 0 \<longleftrightarrow> r = 0"
proof
  assume "int_of_long r = 0"
  with sint_errno [OF assms] have "sint r = 0" by simp
  then show "r = 0" by (simp only: signed_eq_0_iff)
qed (simp add: int_of_long_def)

definition running :: "'k view \<Rightarrow> 'k \<Rightarrow> bool" where
  "running V k \<longleftrightarrow> ready (timer V k) \<and> callback (timer V k) = Some ''check_pulse_cb'' \<and> armed (timer V k)"

lemma timer_init_effect:
  assumes "bpf_ok H V" and "timer_init H c k = (r, k')"
  shows "maps_kept V k k'"
    "if ready (timer V k) then r = - EBUSY \<and> timer V k' = timer V k
      else if r = 0 then timer V k' = \<lparr>ready = True, callback = None, armed = False, delay_ns = 0\<rparr>
      else r \<noteq> - EBUSY \<and> timer V k' = timer V k"
proof -
  from assms(1) have "init_ok H V" by (simp add: bpf_ok_def)
  note * = spec [OF spec [OF this [unfolded init_ok_def Let_def], of c], of k, unfolded assms(2) prod.case]
  from * show "maps_kept V k k'" by (rule conjunct1)
  from * show "if ready (timer V k) then r = - EBUSY \<and> timer V k' = timer V k
      else if r = 0 then timer V k' = \<lparr>ready = True, callback = None, armed = False, delay_ns = 0\<rparr>
      else r \<noteq> - EBUSY \<and> timer V k' = timer V k" by (rule conjunct2)
qed

lemma timer_set_callback_effect:
  assumes "bpf_ok H V" and "timer_set_callback H c k = (r, k')"
  shows "maps_kept V k k'" "timer V k' = (if r = 0 then (timer V k)\<lparr>callback := Some c\<rparr> else timer V k)"
proof -
  from assms(1) have "callback_ok H V" by (simp add: bpf_ok_def)
  note * = spec [OF spec [OF this [unfolded callback_ok_def Let_def], of c], of k, unfolded assms(2) prod.case]
  from * show "maps_kept V k k'" by (rule conjunct1)
  from * show "timer V k' = (if r = 0 then (timer V k)\<lparr>callback := Some c\<rparr> else timer V k)" by (rule conjunct2)
qed

lemma maps_kept_trans: "maps_kept V a b \<Longrightarrow> maps_kept V b c \<Longrightarrow> maps_kept V a c"
  by (simp add: maps_kept_def)

lemma maps_kept_refl [simp]: "maps_kept V a a"
  by (simp add: maps_kept_def)

lemma timer_start_maps: "bpf_ok H V \<Longrightarrow> timer_start H ns 0 k = (r, k') \<Longrightarrow> maps_kept V k k'"
  by (simp add: maps_kept_def timer_start_effect)

text \<open>What a start does, by the codes of the three helpers.\<close>

lemma start_timer_cases:
  assumes "bpf_ok H V"
  obtains (no_elem) "\<not> lookup_timer_map H 0 k" "start_timer H k = (- 1, k)"
  | (init) r k1 where "lookup_timer_map H 0 k" "timer_init H CLOCK_MONOTONIC k = (r, k1)" "r \<noteq> 0" "r \<noteq> - EBUSY"
      "start_timer H k = (int_of_long r, k1)"
  | (later) r k1 s k2 where "lookup_timer_map H 0 k" "timer_init H CLOCK_MONOTONIC k = (r, k1)" "r = 0 \<or> r = - EBUSY"
      "timer_set_callback H ''check_pulse_cb'' k1 = (s, k2)" "s \<noteq> 0" "start_timer H k = (int_of_long s, k2)"
  | (start) r k1 k2 u k3 where "lookup_timer_map H 0 k" "timer_init H CLOCK_MONOTONIC k = (r, k1)" "r = 0 \<or> r = - EBUSY"
      "timer_set_callback H ''check_pulse_cb'' k1 = (0, k2)" "timer_start H TIMER_PERIOD_NS 0 k2 = (u, k3)"
      "start_timer H k = (int_of_long u, k3)"
proof -
  obtain r k1 where i: "timer_init H CLOCK_MONOTONIC k = (r, k1)" by fastforce
  obtain s k2 where c: "timer_set_callback H ''check_pulse_cb'' k1 = (s, k2)" by fastforce
  obtain u k3 where u: "timer_start H TIMER_PERIOD_NS 0 k2 = (u, k3)" by fastforce
  have z: "int_of_long 0 = 0" by (simp add: int_of_long_def)
  show thesis
  proof (cases "lookup_timer_map H 0 k")
    case False
    then show thesis by (intro that(1)) (simp_all add: start_timer_def)
  next
    case l: True
    show thesis
    proof (cases "r \<noteq> 0 \<and> r \<noteq> - EBUSY")
      case True
      then show thesis by (intro that(2) [OF l i]) (simp_all add: start_timer_def l i)
    next
      case r: False
      then have st: "start_timer H k = (if s \<noteq> 0 then (int_of_long s, k2) else (int_of_long u, k3))"
        using r unfolding start_timer_def i c u Let_def prod.case by (auto simp: l i c u z)
      from r have "r = 0 \<or> r = - EBUSY" by blast
      then show thesis using that(3) [OF l i _ c] that(4) [OF l i _ _ u] c st by (cases "s = 0") simp_all
    qed
  qed
qed

lemma start_timer_maps:
  assumes "bpf_ok H V"
  shows "maps_kept V k (snd (start_timer H k))"
  using assms
proof (rule start_timer_cases [of H V k])
  fix r k1 k2 u k3
  assume h: "timer_init H CLOCK_MONOTONIC k = (r, k1)" "timer_set_callback H ''check_pulse_cb'' k1 = (0, k2)"
    "timer_start H TIMER_PERIOD_NS 0 k2 = (u, k3)" "start_timer H k = (int_of_long u, k3)"
  from timer_init_effect(1) [OF assms h(1)] timer_set_callback_effect(1) [OF assms h(2)]
    timer_start_maps [OF assms h(3)] h(4)
  show ?thesis by (simp add: maps_kept_def)
next
  fix r k1 s k2
  assume h: "timer_init H CLOCK_MONOTONIC k = (r, k1)" "timer_set_callback H ''check_pulse_cb'' k1 = (s, k2)"
    "start_timer H k = (int_of_long s, k2)"
  from timer_init_effect(1) [OF assms h(1)] timer_set_callback_effect(1) [OF assms h(2)] h(3)
  show ?thesis by (simp add: maps_kept_def)
qed (simp_all add: timer_init_effect(1) [OF assms])

lemma start_timer_running:
  assumes "bpf_ok H V" and "running V k"
  shows "running V (snd (start_timer H k))"
  using assms(1)
proof (rule start_timer_cases [of H V k])
  fix r k1 k2 u k3
  assume h: "timer_init H CLOCK_MONOTONIC k = (r, k1)" "timer_set_callback H ''check_pulse_cb'' k1 = (0, k2)"
    "timer_start H TIMER_PERIOD_NS 0 k2 = (u, k3)" "start_timer H k = (int_of_long u, k3)"
  with timer_init_effect(2) [OF assms(1) h(1)] timer_set_callback_effect(2) [OF assms(1) h(2)]
    timer_start_effect(3,4) [OF assms(1) h(3)] assms(2)
  show ?thesis by (simp add: running_def)
next
  fix r k1 s k2
  assume h: "timer_init H CLOCK_MONOTONIC k = (r, k1)" "timer_set_callback H ''check_pulse_cb'' k1 = (s, k2)"
    "start_timer H k = (int_of_long s, k2)"
  with timer_init_effect(2) [OF assms(1) h(1)] timer_set_callback_effect(2) [OF assms(1) h(2)] assms(2)
  show ?thesis by (simp add: running_def split: if_splits)
next
  fix r k1
  assume h: "timer_init H CLOCK_MONOTONIC k = (r, k1)" "start_timer H k = (int_of_long r, k1)"
  with timer_init_effect(2) [OF assms(1) h(1)] assms(2) show ?thesis by (simp add: running_def)
qed (simp add: assms)

text \<open>A start that returns 0 leaves the timer running, even from a timer that was never initialised.\<close>

lemma start_timer_zero:
  assumes "bpf_ok H V" and "errno_codes H" and "fst (start_timer H k) = 0"
  shows "running V (snd (start_timer H k))"
  using assms(1)
proof (rule start_timer_cases [of H V k])
  fix r k1 k2 u k3
  assume h: "timer_init H CLOCK_MONOTONIC k = (r, k1)" "r = 0 \<or> r = - EBUSY"
    "timer_set_callback H ''check_pulse_cb'' k1 = (0, k2)"
    "timer_start H TIMER_PERIOD_NS 0 k2 = (u, k3)" "start_timer H k = (int_of_long u, k3)"
  have "errno u" using assms(2) h(4) unfolding errno_codes_def by (metis fst_conv)
  with assms(3) h(5) have "u = 0" by (simp add: int_of_long_zero_iff)
  moreover have "ready (timer V k1)"
    using timer_init_effect(2) [OF assms(1) h(1)] h(2) by (auto split: if_splits simp: EBUSY_def)
  ultimately show ?thesis
    using timer_set_callback_effect(2) [OF assms(1) h(3)] timer_start_effect(3) [OF assms(1) h(4)] h(5)
    by (simp add: running_def)
next
  fix r k1 s k2
  assume h: "timer_set_callback H ''check_pulse_cb'' k1 = (s, k2)" "s \<noteq> 0" "start_timer H k = (int_of_long s, k2)"
  have "errno s" using assms(2) h(1) unfolding errno_codes_def by (metis fst_conv)
  with assms(3) h(2,3) show ?thesis by (simp add: int_of_long_zero_iff)
next
  fix r k1
  assume h: "timer_init H CLOCK_MONOTONIC k = (r, k1)" "r \<noteq> 0" "start_timer H k = (int_of_long r, k1)"
  have "errno r" using assms(2) h(1) unfolding errno_codes_def by (metis fst_conv)
  with assms(3) h(2,3) show ?thesis by (simp add: int_of_long_zero_iff)
qed (use assms(3) in simp)

section \<open>The system\<close>

text \<open>
  One step of the machine the program runs on. The timer fires when it is armed and its callback
  is the one the program installed: the kernel disarms it and runs the callback. The agent writes
  a pulse, consumes records from the front of the ring buffer, or runs \<open>start_timer\<close> (again).
  Otherwise time passes. Nothing obliges the agent to take a step.
\<close>

definition fired :: "'k view \<Rightarrow> 'k \<Rightarrow> 'k \<Rightarrow> bool" where
  "fired V k k1 \<longleftrightarrow> maps_kept V k k1 \<and> timer V k1 = (timer V k)\<lparr>armed := False\<rparr>"

inductive sentinel_step :: "'k helpers \<Rightarrow> 'k view \<Rightarrow> 'k \<Rightarrow> 'k \<Rightarrow> bool" for H V where
  fire: "armed (timer V k) \<Longrightarrow> callback (timer V k) = Some ''check_pulse_cb'' \<Longrightarrow> fired V k k1 \<Longrightarrow>
     sentinel_step H V k (snd (check_pulse_cb H k1))"
| pulse: "pulses V k' = (pulses V k)(\<lparr>host_id = 0\<rparr> \<mapsto> v) \<Longrightarrow> ring V k' = ring V k \<Longrightarrow> timer V k' = timer V k \<Longrightarrow>
     sentinel_step H V k k'"
| drain: "pulses V k' = pulses V k \<Longrightarrow> ring V k' = drop n (ring V k) \<Longrightarrow> timer V k' = timer V k \<Longrightarrow>
     sentinel_step H V k k'"
| start: "sentinel_step H V k (snd (start_timer H k))"
| pass: "kept V k k' \<Longrightarrow> sentinel_step H V k k'"

inductive_cases sentinel_stepE: "sentinel_step H V k k'"

inductive sentinel_run :: "'k helpers \<Rightarrow> 'k view \<Rightarrow> 'k \<Rightarrow> 'k \<Rightarrow> bool" for H V where
  stay: "sentinel_run H V k k"
| move: "sentinel_run H V k k' \<Longrightarrow> sentinel_step H V k' k'' \<Longrightarrow> sentinel_run H V k k''"

text \<open>A run keeps what every step keeps.\<close>

lemma sentinel_run_invariant:
  assumes "sentinel_run H V k k'" and "P k" and "\<And>a b. sentinel_step H V a b \<Longrightarrow> P a \<Longrightarrow> P b"
  shows "P k'"
  using assms by (induction rule: sentinel_run.induct) blast+

lemma callback_running:
  assumes "bpf_ok H V" and "ready (timer V k)" and "callback (timer V k) = Some ''check_pulse_cb''"
  shows "running V (snd (check_pulse_cb H k))"
  using check_pulse_cb_effect(4) [OF assms(1,2)] assms by (simp add: running_def)

lemma step_running:
  assumes "bpf_ok H V" and "sentinel_step H V k k'" and "running V k"
  shows "running V k'"
  using assms(2)
proof cases
  case (fire k1)
  then show ?thesis
    using callback_running [OF assms(1), of k1] assms(3) by (simp add: fired_def running_def)
next
  case start
  then show ?thesis using start_timer_running [OF assms(1,3)] by simp
qed (use assms(3) in \<open>simp_all add: running_def kept_def\<close>)

text \<open>
  The callback's own test, on a record: no pulse was there, or the 64-bit age of the one it carries
  exceeds the timeout. The properties below say what that means for the pulse.
\<close>

definition passes_test :: "absence_event \<Rightarrow> bool" where
  "passes_test e \<longleftrightarrow> length (comm e) = 16 \<and>
     (flags e = 1 \<and> last_pulse_ns e = 0 \<and> last_wallclock_ns e = 0 \<and> last_seq e = 0 \<or>
      flags e = 0 \<and> PULSE_TIMEOUT_NS < now_ns e - last_pulse_ns e)"

lemma event_of_passes: "bpf_ok H V \<Longrightarrow> absent p now \<Longrightarrow> passes_test (event_of H now p k)"
  by (cases p) (simp_all add: passes_test_def event_of_def absent_def bpf_okD(4))

lemma appended_passes: "bpf_ok H V \<Longrightarrow> e \<in> set (appended H V k) \<Longrightarrow> passes_test e"
  by (auto simp: appended_def Let_def event_of_passes split: if_splits)

lemma step_passes:
  assumes "bpf_ok H V" and "sentinel_step H V k k'" and "list_all passes_test (ring V k)"
  shows "list_all passes_test (ring V k')"
  using assms(2)
proof cases
  case (fire k1)
  with check_pulse_cb_effect(1) [OF assms(1), of k1] appended_passes [OF assms(1), of _ k1] assms(3)
  show ?thesis by (auto simp: fired_def maps_kept_def list_all_iff)
next
  case (drain n)
  with assms(3) show ?thesis by (auto simp: list_all_iff dest: in_set_dropD)
next
  case start
  with start_timer_maps [OF assms(1), of k] assms(3) show ?thesis by (simp add: maps_kept_def)
qed (use assms(3) in \<open>simp_all add: kept_def maps_kept_def\<close>)

text \<open>
  What one firing of the timer in the state \<open>k0\<close> may add to the buffer: a record with the clock it
  read, and the pulse of the agent member by member, or the flag 1 and zeroes when there is none.
  A pulse whose time stamp is not ahead of the clock is recorded only when it is older than
  120 s; one that is ahead of it (by less than \<open>2 ^ 64\<close> ns minus 120 s) is recorded too, since
  the age is a difference of 64 bits.
\<close>

definition recorded_at :: "'k view \<Rightarrow> 'k \<Rightarrow> u64 \<Rightarrow> absence_event \<Rightarrow> bool" where
  "recorded_at V k0 now e \<longleftrightarrow> now_ns e = now \<and> length (comm e) = 16 \<and>
     (case agent_pulse V k0 of
        None \<Rightarrow> flags e = 1 \<and> last_pulse_ns e = 0 \<and> last_wallclock_ns e = 0 \<and> last_seq e = 0
      | Some v \<Rightarrow> flags e = 0 \<and> last_pulse_ns e = timestamp_ns v \<and> last_wallclock_ns e = wallclock_ns v \<and>
          last_seq e = seq v \<and>
          (if timestamp_ns v \<le> now then unat (timestamp_ns v) + 120 * 10 ^ 9 < unat now
           else unat (timestamp_ns v) + 120 * 10 ^ 9 < 2 ^ 64 + unat now))"

section \<open>Detection\<close>

text \<open>
  Subtraction of time stamps is on 64 bits. A pulse from the future is absent unless it is almost
  \<open>2 ^ 64\<close> ns ahead.
\<close>

lemma timeout_value: "unat PULSE_TIMEOUT_NS = 120 * 10 ^ 9"
  by (simp add: PULSE_TIMEOUT_NS_def NSEC_PER_SEC_def)

lemma absent_past_iff:
  "timestamp_ns v \<le> now \<Longrightarrow> absent (Some v) now \<longleftrightarrow> unat (timestamp_ns v) + 120 * 10 ^ 9 < unat now"
  by (simp add: absent_def word_less_nat_alt timeout_value unat_sub) arith

lemma unat_sub_wrap: "now < t \<Longrightarrow> unat (now - t :: 64 word) = 2 ^ 64 + unat now - unat t"
  by (simp add: unat_sub_if_size word_size word_less_nat_alt not_le)

lemma unat_64: "unat (w :: 64 word) < 2 ^ 64"
proof -
  have "unat w < 2 ^ LENGTH(64)" by (rule unsigned_less)
  then show ?thesis by simp
qed

lemma absent_future_iff:
  "now < timestamp_ns v \<Longrightarrow>
   absent (Some v) now \<longleftrightarrow> unat (timestamp_ns v) - unat now < 2 ^ 64 - 120 * 10 ^ 9"
  using unat_64 [of "timestamp_ns v"] by (auto simp: absent_def word_less_nat_alt timeout_value unat_sub_wrap)

text \<open>The age as the callback computes it, on integers.\<close>

lemma absent_None: "absent None now"
  by (simp add: absent_def)

lemma absent_iff_age:
  "absent (Some v) now \<longleftrightarrow> 120 * 10 ^ 9 < (uint now - uint (timestamp_ns v)) mod 2 ^ 64"
  by (simp add: absent_def word_less_def uint_word_ariths timeout_value PULSE_TIMEOUT_NS_def NSEC_PER_SEC_def)

lemma appended_recorded:
  assumes "bpf_ok H V" and "pulses V k = pulses V k0" and "e \<in> set (appended H V k)"
  shows "recorded_at V k0 (clock V k) e"
proof -
  from assms(3) obtain k2 where e: "e = event_of H (clock V k) (agent_pulse V k) k2"
      and a: "absent (agent_pulse V k) (clock V k)"
    by (auto simp: appended_def Let_def split: if_splits)
  have p: "agent_pulse V k0 = agent_pulse V k" using assms(2) by (simp add: agent_pulse_def)
  show ?thesis
  proof (cases "agent_pulse V k")
    case None
    then show ?thesis by (simp add: recorded_at_def p e event_of_def bpf_okD(4) [OF assms(1)])
  next
    case (Some v)
    have "if timestamp_ns v \<le> clock V k then unat (timestamp_ns v) + 120 * 10 ^ 9 < unat (clock V k)
        else unat (timestamp_ns v) + 120 * 10 ^ 9 < 2 ^ 64 + unat (clock V k)"
    proof (cases "timestamp_ns v \<le> clock V k")
      case True
      with a Some show ?thesis by (simp add: absent_past_iff)
    next
      case False
      with a Some show ?thesis using unat_64 [of "clock V k"] by (auto simp: absent_future_iff)
    qed
    with Some show ?thesis by (simp add: recorded_at_def p e event_of_def bpf_okD(4) [OF assms(1)])
  qed
qed

lemma sentinel_run_origin:
  assumes "bpf_ok H V" and "sentinel_run H V k k'" and "e \<in> set (ring V k')"
  shows "e \<in> set (ring V k) \<or> (\<exists>k0 k1. sentinel_run H V k k0 \<and> armed (timer V k0) \<and>
      callback (timer V k0) = Some ''check_pulse_cb'' \<and> fired V k0 k1 \<and>
      sentinel_run H V (snd (check_pulse_cb H k1)) k' \<and> recorded_at V k0 (clock V k1) e)"
  using assms(2,3)
proof (induction rule: sentinel_run.induct)
  case (move k k' k'')
  have old: ?case if "e \<in> set (ring V k')"
    using move.IH [OF that] sentinel_run.move [OF _ move.hyps(2)] by blast
  from move.hyps(2) show ?case
  proof cases
    case (fire k1)
    have "set (ring V k'') = set (ring V k') \<union> set (appended H V k1)"
      using check_pulse_cb_effect(1) [OF assms(1), of k1] fire by (simp add: fired_def maps_kept_def)
    with move.prems consider "e \<in> set (ring V k')" | "e \<in> set (appended H V k1)" by blast
    then show ?thesis
    proof cases
      case 2
      with fire have "recorded_at V k' (clock V k1) e"
        using appended_recorded [OF assms(1)] by (simp add: fired_def maps_kept_def)
      with fire move.hyps(1) sentinel_run.stay [of H V k''] show ?thesis by blast
    qed (rule old)
  next
    case (drain n)
    with move.prems show ?thesis by (intro old) (auto dest: in_set_dropD)
  next
    case start
    with start_timer_maps [OF assms(1), of k'] move.prems show ?thesis by (intro old) (simp add: maps_kept_def)
  qed (rule old, use move.prems in \<open>simp add: kept_def maps_kept_def\<close>)+
qed simp

section \<open>A silent agent\<close>

text \<open>
  The machine while the agent takes no step. An armed timer is due at the latest at a time \<open>due\<close>
  of the monotone clock: time cannot pass beyond it before the timer has fired. A firing runs
  the callback, and when that arms the timer again with some delay, the timer is due that delay
  and \<open>slack\<close> after the clock of the firing; \<open>slack\<close> covers the lateness of the interrupt and
  the running time of the callback. A timer that is not armed does not hold time back.
\<close>

inductive timed_run :: "'k helpers \<Rightarrow> 'k view \<Rightarrow> nat \<Rightarrow> 'k \<times> nat \<Rightarrow> 'k \<times> nat \<Rightarrow> bool" for H V slack c where
  rest: "timed_run H V slack c c"
| wait: "timed_run H V slack c (k, due) \<Longrightarrow> kept V k k' \<Longrightarrow> clock V k \<le> clock V k' \<Longrightarrow>
     (armed (timer V k) \<longrightarrow> unat (clock V k') \<le> due) \<Longrightarrow> timed_run H V slack c (k', due)"
| fire_due: "timed_run H V slack c (k, due) \<Longrightarrow> armed (timer V k) \<Longrightarrow>
     callback (timer V k) = Some ''check_pulse_cb'' \<Longrightarrow> fired V k k1 \<Longrightarrow> clock V k1 = clock V k \<Longrightarrow>
     k2 = snd (check_pulse_cb H k1) \<Longrightarrow> clock V k1 \<le> clock V k2 \<Longrightarrow>
     due' = unat (clock V k1) + unat (delay_ns (timer V k2)) + slack \<Longrightarrow> unat (clock V k2) \<le> due' \<Longrightarrow>
     timed_run H V slack c (k2, due')"

text \<open>The first record of a silence: the pulse, at a time past the timeout but not later than \<open>limit\<close>.\<close>

definition reports :: "pulse_value \<Rightarrow> nat \<Rightarrow> absence_event \<Rightarrow> bool" where
  "reports v limit e \<longleftrightarrow> flags e = 0 \<and> last_pulse_ns e = timestamp_ns v \<and> last_wallclock_ns e = wallclock_ns v \<and>
     last_seq e = seq v \<and> unat (timestamp_ns v) + 120 * 10 ^ 9 < unat (now_ns e) \<and> unat (now_ns e) \<le> limit"

text \<open>Silence since the pulse \<open>v\<close>, with the buffer \<open>es\<close> at its start: nothing recorded yet, or the first record is there.\<close>

definition silent_since :: "'k view \<Rightarrow> pulse_value \<Rightarrow> nat \<Rightarrow> absence_event list \<Rightarrow> 'k \<Rightarrow> nat \<Rightarrow> bool" where
  "silent_since V v slack es k due \<longleftrightarrow> running V k \<and> agent_pulse V k = Some v \<and> timestamp_ns v \<le> clock V k \<and>
     (ring V k = es \<and> unat (clock V k) \<le> unat (timestamp_ns v) + 150 * 10 ^ 9 + slack \<and>
        due \<le> unat (timestamp_ns v) + 150 * 10 ^ 9 + slack \<or>
      (\<exists>e fs. ring V k = es @ e # fs \<and> reports v (unat (timestamp_ns v) + 150 * 10 ^ 9 + slack) e) \<and>
        unat (timestamp_ns v) + 120 * 10 ^ 9 < unat (clock V k))"

lemma wait_silent:
  assumes "silent_since V v slack es k due" and "kept V k k'" and "clock V k \<le> clock V k'"
    and "armed (timer V k) \<longrightarrow> unat (clock V k') \<le> due"
  shows "silent_since V v slack es k' due"
proof -
  have "unat (clock V k) \<le> unat (clock V k')" using assms(3) by (simp add: word_le_nat_alt)
  with assms keptD [OF assms(2)] show ?thesis
    unfolding silent_since_def running_def agent_pulse_def by auto
qed

lemma fire_silent:
  assumes "bpf_ok H V" and s: "silent_since V v slack es k due"
    and room: "\<And>x. ring V x = es \<Longrightarrow> fst (ringbuf_reserve H 56 0 x) \<noteq> None"
    and f: "fired V k k1" "clock V k1 = clock V k"
    and k2: "k2 = snd (check_pulse_cb H k1)" "clock V k1 \<le> clock V k2"
    and due': "due' = unat (clock V k1) + unat (delay_ns (timer V k2)) + slack" "unat (clock V k2) \<le> due'"
  shows "silent_since V v slack es k2 due'"
proof -
  let ?t = "unat (timestamp_ns v)" and ?c = "unat (clock V k)"
  have k1: "ring V k1 = ring V k" "pulses V k1 = pulses V k" "timer V k1 = (timer V k)\<lparr>armed := False\<rparr>"
    using f(1) by (simp_all add: fired_def maps_kept_def)
  from s have r: "running V k" "agent_pulse V k = Some v" "timestamp_ns v \<le> clock V k"
    by (simp_all add: silent_since_def)
  have p1: "agent_pulse V k1 = Some v" using r(2) k1(2) by (simp add: agent_pulse_def)
  note eff = check_pulse_cb_effect [OF assms(1), of k1, folded k2(1)]
  have t2: "timer V k2 = (timer V k1)\<lparr>armed := True, delay_ns := TIMER_PERIOD_NS\<rparr>"
    using r(1) k1(3) by (intro eff(4)) (simp_all add: running_def)
  have run2: "running V k2" using r(1) t2 k1(3) by (simp add: running_def)
  have p2: "agent_pulse V k2 = Some v" using p1 eff(2) by (simp add: agent_pulse_def)
  have c2: "?c \<le> unat (clock V k2)" using k2(2) f(2) by (simp add: word_le_nat_alt)
  have ts2: "timestamp_ns v \<le> clock V k2" using r(3) k2(2) f(2) by simp
  have d: "due' = ?c + 30 * 10 ^ 9 + slack"
    using due'(1) t2 f(2) by (simp add: TIMER_PERIOD_NS_def NSEC_PER_SEC_def)
  have iff: "absent (Some v) (clock V k) \<longleftrightarrow> ?t + 120 * 10 ^ 9 < ?c" using r(3) by (rule absent_past_iff)
  show ?thesis
  proof (cases "?t + 120 * 10 ^ 9 < ?c")
    case False
    then have "ring V k2 = ring V k" using eff(1) p1 iff f(2) k1(1) by (simp add: appended_def Let_def)
    with False s d due'(2) run2 p2 ts2 show ?thesis unfolding silent_since_def by auto
  next
    case late: True
    from s consider "ring V k = es" "?c \<le> ?t + 150 * 10 ^ 9 + slack"
      | e fs where "ring V k = es @ e # fs" "reports v (?t + 150 * 10 ^ 9 + slack) e"
      unfolding silent_since_def by blast
    then have "\<exists>e fs. ring V k2 = es @ e # fs \<and> reports v (?t + 150 * 10 ^ 9 + slack) e"
    proof cases
      case 1
      let ?k = "snd (ktime_get_ns H k1)"
      have "ring V ?k = es" using keptD(2) [OF bpf_okD(3) [OF assms(1), of k1]] k1(1) 1(1) by simp
      then have "fst (reserved H ?k) \<noteq> None" using room by (simp add: reserved_def)
      then have "ring V k2 = es @ [event_of H (clock V k) (Some v) (snd (reserved H ?k))]"
        using eff(1) p1 iff late f(2) k1(1) 1(1) by (simp add: appended_def Let_def)
      moreover have "reports v (?t + 150 * 10 ^ 9 + slack) (event_of H (clock V k) (Some v) (snd (reserved H ?k)))"
        using late 1(2) by (simp add: reports_def event_of_def)
      ultimately show ?thesis by blast
    next
      case (2 e fs)
      then show ?thesis using eff(1) k1(1) by fastforce
    qed
    with late c2 run2 p2 ts2 show ?thesis unfolding silent_since_def by simp
  qed
qed

lemma timed_run_silent:
  assumes "bpf_ok H V" and "timed_run H V slack c c'" and "silent_since V v slack es (fst c) (snd c)"
    and "\<And>x. ring V x = es \<Longrightarrow> fst (ringbuf_reserve H 56 0 x) \<noteq> None"
  shows "silent_since V v slack es (fst c') (snd c')"
  using assms(2)
proof (induction rule: timed_run.induct)
  case (wait k due k')
  from wait_silent [OF wait.IH [unfolded fst_conv snd_conv] wait.hyps(2-4)] show ?case by simp
next
  case (fire_due k due k1 k2 due')
  from fire_silent [OF assms(1) fire_due.IH [unfolded fst_conv snd_conv] assms(4) fire_due.hyps(4-9)]
  show ?case by simp
qed (rule assms(3))

lemma silent_agent_recorded:
  assumes "bpf_ok H V" and "timed_run H V slack (k, due) (k', due')"
    and "running V k" and "agent_pulse V k = Some v"
    and "timestamp_ns v \<le> clock V k" and "unat (clock V k) \<le> unat (timestamp_ns v) + 120 * 10 ^ 9"
    and "due \<le> unat (clock V k) + 30 * 10 ^ 9 + slack"
    and "\<And>x. ring V x = ring V k \<Longrightarrow> fst (ringbuf_reserve H 56 0 x) \<noteq> None"
  shows "unat (clock V k') \<le> unat (timestamp_ns v) + 120 * 10 ^ 9 \<Longrightarrow> ring V k' = ring V k"
    and "unat (timestamp_ns v) + 150 * 10 ^ 9 + slack < unat (clock V k') \<Longrightarrow>
      \<exists>e es. ring V k' = ring V k @ e # es \<and> reports v (unat (timestamp_ns v) + 150 * 10 ^ 9 + slack) e"
proof -
  have "silent_since V v slack (ring V k) k due" using assms(3-7) by (simp add: silent_since_def)
  then have "silent_since V v slack (ring V k) k' due'"
    using timed_run_silent [OF assms(1,2) _ assms(8), of v] by simp
  then show "unat (clock V k') \<le> unat (timestamp_ns v) + 120 * 10 ^ 9 \<Longrightarrow> ring V k' = ring V k"
    and "unat (timestamp_ns v) + 150 * 10 ^ 9 + slack < unat (clock V k') \<Longrightarrow>
      \<exists>e es. ring V k' = ring V k @ e # es \<and> reports v (unat (timestamp_ns v) + 150 * 10 ^ 9 + slack) e"
    unfolding silent_since_def by fastforce+
qed

section \<open>A small kernel\<close>

text \<open>
  A kernel with room for \<open>cap\<close> records, on which the hypotheses of the properties are checked. Its
  reservations hold left-over bytes.
\<close>

record demo =
  d_pulses :: "pulse_key \<Rightarrow> pulse_value option"
  d_ring :: "absence_event list"
  d_timer :: timer_state
  d_clock :: u64

definition left_over :: absence_event where
  "left_over = \<lparr>now_ns = 7, last_pulse_ns = 7, last_wallclock_ns = 7, last_seq = 7, cpu = 7, flags = 7,
     comm = replicate 16 7\<rparr>"

definition demo_helpers :: "nat \<Rightarrow> demo helpers" where
  "demo_helpers cap = \<lparr>
     lookup_pulse_map = (\<lambda>key k. d_pulses k key),
     lookup_timer_map = (\<lambda>i k. i = 0),
     ktime_get_ns = (\<lambda>k. (d_clock k, k)),
     ringbuf_reserve = (\<lambda>n f k. (if length (d_ring k) < cap then Some left_over else None, k)),
     ringbuf_submit = (\<lambda>e f k. k\<lparr>d_ring := d_ring k @ [e]\<rparr>),
     get_smp_processor_id = (\<lambda>k. 2),
     get_current_comm = (\<lambda>n k. replicate n 0),
     timer_init = (\<lambda>c k. if ready (d_timer k) then (- EBUSY, k)
       else (0, k\<lparr>d_timer := \<lparr>ready = True, callback = None, armed = False, delay_ns = 0\<rparr>\<rparr>)),
     timer_set_callback = (\<lambda>c k. if ready (d_timer k) then (0, k\<lparr>d_timer := (d_timer k)\<lparr>callback := Some c\<rparr>\<rparr>)
       else (- 22, k)),
     timer_start = (\<lambda>ns f k. if ready (d_timer k) \<and> callback (d_timer k) \<noteq> None
       then (0, k\<lparr>d_timer := (d_timer k)\<lparr>armed := True, delay_ns := ns\<rparr>\<rparr>) else (- 22, k))\<rparr>"

definition demo_view :: "demo view" where
  "demo_view = \<lparr>pulses = d_pulses, ring = d_ring, timer = d_timer, clock = d_clock\<rparr>"

lemmas demo_simps = demo_helpers_def demo_view_def EBUSY_def

lemma demo_ok: "bpf_ok (demo_helpers cap) demo_view"
  by (simp add: bpf_ok_def reads_ok_def ring_ok_def init_ok_def callback_ok_def start_ok_def kept_def maps_kept_def
      demo_simps Let_def)

lemma demo_errno: "errno_codes (demo_helpers cap)"
  by (simp add: errno_codes_def errno_def demo_simps)

definition demo_pulse :: pulse_value where
  "demo_pulse = \<lparr>timestamp_ns = 1000000000, wallclock_ns = 5, seq = 9\<rparr>"

definition demo_state :: "u64 \<Rightarrow> demo" where
  "demo_state t = \<lparr>d_pulses = [\<lparr>host_id = 0\<rparr> \<mapsto> demo_pulse], d_ring = [],
     d_timer = \<lparr>ready = True, callback = Some ''check_pulse_cb'', armed = True, delay_ns = TIMER_PERIOD_NS\<rparr>, d_clock = t\<rparr>"

lemma demo_facts:
  "agent_pulse demo_view (demo_state t) = Some demo_pulse" "clock demo_view (demo_state t) = t"
  "fst (reserved (demo_helpers 4) (snd (ktime_get_ns (demo_helpers 4) (demo_state t)))) = Some left_over"
  by (simp_all add: agent_pulse_def demo_state_def demo_view_def demo_helpers_def reserved_def)

lemma demo_run:
  "sentinel_run (demo_helpers 4) demo_view (demo_state t) (snd (check_pulse_cb (demo_helpers 4)
     ((demo_state t)\<lparr>d_timer := (d_timer (demo_state t))\<lparr>armed := False\<rparr>\<rparr>)))"
  by (rule move [OF stay fire]) (simp_all add: demo_state_def demo_view_def fired_def maps_kept_def)

text \<open>Silences of the small kernel: the timer fires at the time \<open>t\<close>, or time passes until \<open>t\<close>.\<close>

definition tick :: "u64 \<Rightarrow> demo \<Rightarrow> demo" where
  "tick t k = snd (check_pulse_cb (demo_helpers 4) (k\<lparr>d_clock := t, d_timer := (d_timer k)\<lparr>armed := False\<rparr>\<rparr>))"

definition until :: "u64 \<Rightarrow> demo \<Rightarrow> demo" where
  "until t k = k\<lparr>d_clock := t\<rparr>"

lemma period_value: "unat TIMER_PERIOD_NS = 30 * 10 ^ 9"
  by (simp add: TIMER_PERIOD_NS_def NSEC_PER_SEC_def)

lemma tick_clock: "d_clock (tick t k) = t"
  by (simp add: tick_def check_pulse_cb_def emit_absence_event reserved_def demo_simps Let_def split: option.split)

lemma tick_timer:
  "d_timer k = d_timer (demo_state 0) \<Longrightarrow> d_timer (tick t k) = d_timer (demo_state 0)"
  using check_pulse_cb_effect(4) [OF demo_ok, of "k\<lparr>d_clock := t, d_timer := (d_timer k)\<lparr>armed := False\<rparr>\<rparr>" 4]
  by (simp add: tick_def demo_view_def demo_state_def)

lemma demo_until:
  assumes "timed_run (demo_helpers 4) demo_view slack c (k, due)" and "d_clock k \<le> t" and "unat t \<le> due"
  shows "timed_run (demo_helpers 4) demo_view slack c (until t k, due)"
  by (rule wait [OF assms(1)]) (use assms(2,3) in \<open>simp_all add: until_def demo_view_def kept_def maps_kept_def\<close>)

lemma demo_tick:
  assumes "timed_run (demo_helpers 4) demo_view slack c (k, due)" and "d_clock k \<le> t" and "unat t \<le> due"
    and "d_timer k = d_timer (demo_state 0)"
  shows "timed_run (demo_helpers 4) demo_view slack c (tick t k, unat t + 30 * 10 ^ 9 + slack)"
proof -
  let ?k1 = "k\<lparr>d_clock := t, d_timer := (d_timer k)\<lparr>armed := False\<rparr>\<rparr>"
  have u: "armed (timer demo_view (until t k))" "callback (timer demo_view (until t k)) = Some ''check_pulse_cb''"
    "fired demo_view (until t k) ?k1" "clock demo_view ?k1 = clock demo_view (until t k)"
    using assms(4) by (simp_all add: until_def demo_state_def demo_view_def fired_def maps_kept_def)
  have t: "clock demo_view (tick t k) = t" "clock demo_view ?k1 = t"
    "delay_ns (timer demo_view (tick t k)) = TIMER_PERIOD_NS"
    using tick_timer [OF assms(4), of t] by (simp_all add: demo_view_def tick_clock, simp add: demo_state_def)
  show ?thesis
    by (rule fire_due [OF demo_until [OF assms(1-3)] u tick_def]) (simp_all add: t period_value)
qed

lemma demo_room:
  "ring demo_view x = ring demo_view (demo_state t) \<Longrightarrow> fst (ringbuf_reserve (demo_helpers 4) 56 0 x) \<noteq> None"
  by (simp add: demo_state_def demo_simps)

lemma demo_running: "running demo_view (demo_state t)"
  by (simp add: running_def demo_state_def demo_view_def)

section \<open>Properties\<close>

text \<open>
  C2: One run of the timer callback, on every branch. When there is no pulse of the agent, it
  appends to the ring buffer one record with the flag 1 and zeroes for the pulse; when there is
  one whose age, the difference of clock and time stamp on 64 bits, exceeds 120 s, one record with
  the flag 0 and the three members of the pulse; otherwise nothing. The record carries the clock,
  the CPU and the 16 bytes of the task name. Without room in the buffer nothing is appended.
  The callback leaves the pulse alone and returns 0.
\<close>

theorem check_pulse_cb_records:
  assumes "bpf_ok H V"
  shows "let k' = snd (check_pulse_cb H k); now = clock V k;
        room = (fst (ringbuf_reserve H 56 0 (snd (ktime_get_ns H k))) \<noteq> None);
        k2 = snd (ringbuf_reserve H 56 0 (snd (ktime_get_ns H k)))
      in fst (check_pulse_cb H k) = 0 \<and> pulses V k' = pulses V k \<and>
        (case pulses V k \<lparr>host_id = 0\<rparr> of
           None \<Rightarrow> ring V k' = ring V k @ (if room then
             [\<lparr>now_ns = now, last_pulse_ns = 0, last_wallclock_ns = 0, last_seq = 0,
               cpu = get_smp_processor_id H k2, flags = 1, comm = get_current_comm H 16 k2\<rparr>] else [])
         | Some v \<Rightarrow> ring V k' = ring V k @
             (if room \<and> 120 * 10 ^ 9 < (uint now - uint (timestamp_ns v)) mod 2 ^ 64 then
             [\<lparr>now_ns = now, last_pulse_ns = timestamp_ns v, last_wallclock_ns = wallclock_ns v, last_seq = seq v,
               cpu = get_smp_processor_id H k2, flags = 0, comm = get_current_comm H 16 k2\<rparr>] else []))"
proof (cases "pulses V k \<lparr>host_id = 0\<rparr>")
  case None
  then show ?thesis
    using check_pulse_cb_effect(1-3) [OF assms, of k]
    by (simp add: appended_def agent_pulse_def reserved_def event_of_def absent_def Let_def)
next
  case (Some v)
  then show ?thesis
    using check_pulse_cb_effect(1-3) [OF assms, of k]
    unfolding appended_def agent_pulse_def reserved_def Some absent_iff_age Let_def
    by (simp only: option.case event_of_def option.distinct if_False simp_thms conj_commute)
qed

theorem check_pulse_cb_records_witness:
  "bpf_ok (demo_helpers 4) demo_view \<and>
   map last_seq (ring demo_view (snd (check_pulse_cb (demo_helpers 4) (demo_state 200000000000)))) = [9] \<and>
   ring demo_view (snd (check_pulse_cb (demo_helpers 4) (demo_state 100000000000))) = [] \<and>
   map flags (ring demo_view (snd (check_pulse_cb (demo_helpers 4) ((demo_state 5)\<lparr>d_pulses := Map.empty\<rparr>)))) = [1]"
proof -
  note cb = check_pulse_cb_records [OF demo_ok, of 4, unfolded Let_def]
  have "map last_seq (ring demo_view (snd (check_pulse_cb (demo_helpers 4) (demo_state 200000000000)))) = [9]"
    using cb [of "demo_state 200000000000"] by (simp add: demo_state_def demo_pulse_def demo_simps)
  moreover have "ring demo_view (snd (check_pulse_cb (demo_helpers 4) (demo_state 100000000000))) = []"
    using cb [of "demo_state 100000000000"] by (simp add: demo_state_def demo_pulse_def demo_simps)
  moreover have "map flags (ring demo_view (snd (check_pulse_cb (demo_helpers 4) ((demo_state 5)\<lparr>d_pulses := Map.empty\<rparr>)))) = [1]"
    using cb [of "(demo_state 5)\<lparr>d_pulses := Map.empty\<rparr>"] by (simp add: demo_state_def demo_simps)
  ultimately show ?thesis using demo_ok by blast
qed

text \<open>
  C3: Once the timer runs with the program's callback it runs after every sequence of steps of the
  system: firing re-arms it, and neither a silent agent nor one that pulses, drains or starts the
  timer again (whatever the helpers return then) stops it.
\<close>

theorem timer_survives:
  assumes "bpf_ok H V" and "sentinel_run H V k k'" and "running V k"
  shows "running V k'"
  using assms(2,3) step_running [OF assms(1)] by (rule sentinel_run_invariant)

theorem timer_survives_witness:
  "running demo_view (snd (check_pulse_cb (demo_helpers 4)
     ((demo_state 5)\<lparr>d_timer := (d_timer (demo_state 5))\<lparr>armed := False\<rparr>\<rparr>)))"
  by (rule timer_survives [OF demo_ok demo_run]) (simp add: running_def demo_state_def demo_view_def)

text \<open>
  C5: Where every record in the ring buffer comes from. After any sequence of steps a record was
  there at the start, or it was recorded when the timer fired in a state of the sequence: it
  carries the clock of that firing and 16 bytes of task name, and, when the agent had no pulse
  in the map then, the flag 1 and zeroes, otherwise the flag 0 and the members of that pulse. In
  the second case the pulse was older than 120 s by the clock unless its time stamp was ahead of
  it, so the flag is 1 exactly when the pulse was missing, and nothing but an overdue or a
  future pulse is ever recorded.
\<close>

theorem absences_have_origin:
  assumes "bpf_ok H V" and "sentinel_run H V k k'" and "e \<in> set (ring V k')"
  shows "e \<in> set (ring V k) \<or> (\<exists>k0 k1. sentinel_run H V k k0 \<and> armed (timer V k0) \<and>
      callback (timer V k0) = Some ''check_pulse_cb'' \<and> fired V k0 k1 \<and>
      sentinel_run H V (snd (check_pulse_cb H k1)) k' \<and> recorded_at V k0 (clock V k1) e)"
  using assms by (rule sentinel_run_origin)

theorem absences_have_origin_witness:
  "\<exists>e k0 now. d_ring (snd (check_pulse_cb (demo_helpers 4)
      ((demo_state 200000000000)\<lparr>d_timer := (d_timer (demo_state 200000000000))\<lparr>armed := False\<rparr>\<rparr>))) = [e] \<and>
    recorded_at demo_view k0 now e"
proof -
  let ?k1 = "(demo_state 200000000000)\<lparr>d_timer := (d_timer (demo_state 200000000000))\<lparr>armed := False\<rparr>\<rparr>"
  let ?k' = "snd (check_pulse_cb (demo_helpers 4) ?k1)"
  have "length (ring demo_view ?k') = 1"
    unfolding check_pulse_cb_effect(1) [OF demo_ok]
    by (simp add: appended_def agent_pulse_def reserved_def absent_def demo_state_def demo_pulse_def demo_simps
        PULSE_TIMEOUT_NS_def NSEC_PER_SEC_def)
  then obtain e where e: "ring demo_view ?k' = [e]" by (auto simp: length_Suc_conv)
  have "e \<notin> set (ring demo_view (demo_state 200000000000))" by (simp add: demo_state_def demo_view_def)
  then obtain k0 now where "recorded_at demo_view k0 now e"
    using absences_have_origin [OF demo_ok demo_run [of 200000000000], of e] e by auto
  with e show ?thesis by (auto simp: demo_view_def)
qed

text \<open>
  C4: Silence is detected in time. Let the timer run, the last pulse be in the map and at most
  120 s old, and the timer be due within a period of 30 s and \<open>slack\<close>; let there be room for one
  record. However the timer fires and time passes from there while the agent does nothing: as
  long as the pulse is at most 120 s old nothing is recorded, and once it is older than 150 s and
  \<open>slack\<close>, the buffer has, right after what it held, a record of that pulse with the flag 0 that
  names a time more than 120 s and at most 150 s and \<open>slack\<close> after it.
\<close>

theorem silence_detected:
  assumes "bpf_ok H V" and "timed_run H V slack (k, due) (k', due')"
    and "running V k" and "agent_pulse V k = Some v"
    and "timestamp_ns v \<le> clock V k" and "unat (clock V k) \<le> unat (timestamp_ns v) + 120 * 10 ^ 9"
    and "due \<le> unat (clock V k) + 30 * 10 ^ 9 + slack"
    and "\<And>x. ring V x = ring V k \<Longrightarrow> fst (ringbuf_reserve H 56 0 x) \<noteq> None"
  shows "(unat (clock V k') \<le> unat (timestamp_ns v) + 120 * 10 ^ 9 \<longrightarrow> ring V k' = ring V k) \<and>
    (unat (timestamp_ns v) + 150 * 10 ^ 9 + slack < unat (clock V k') \<longrightarrow>
      (\<exists>e es. ring V k' = ring V k @ e # es \<and> flags e = 0 \<and> last_pulse_ns e = timestamp_ns v \<and>
        last_wallclock_ns e = wallclock_ns v \<and> last_seq e = seq v \<and>
        unat (timestamp_ns v) + 120 * 10 ^ 9 < unat (now_ns e) \<and>
        unat (now_ns e) \<le> unat (timestamp_ns v) + 150 * 10 ^ 9 + slack))"
  using silent_agent_recorded [OF assms] unfolding reports_def by blast

theorem silence_detected_witness:
  "\<exists>e es. ring demo_view (until 152000000000 (tick 130000000000 (demo_state 100000000000))) = e # es \<and>
     last_seq e = 9 \<and> unat (now_ns e) \<le> 151 * 10 ^ 9"
proof -
  let ?k = "demo_state 100000000000"
  let ?k' = "until 152000000000 (tick 130000000000 ?k)"
  have "timed_run (demo_helpers 4) demo_view 0 (?k, 130000000000) (tick 130000000000 ?k, 160000000000)"
    using demo_tick [OF rest, of ?k 130000000000 130000000000 0] by (simp add: demo_state_def)
  then have run: "timed_run (demo_helpers 4) demo_view 0 (?k, 130000000000) (?k', 160000000000)"
    by (rule demo_until) (simp_all add: tick_clock)
  have c: "clock demo_view ?k' = 152000000000" by (simp add: until_def demo_view_def)
  have "timestamp_ns demo_pulse \<le> clock demo_view ?k"
    "unat (clock demo_view ?k) \<le> unat (timestamp_ns demo_pulse) + 120 * 10 ^ 9"
    "130000000000 \<le> unat (clock demo_view ?k) + 30 * 10 ^ 9 + 0"
    by (simp_all add: demo_facts demo_pulse_def)
  then have "\<exists>e es. ring demo_view ?k' = ring demo_view ?k @ e # es \<and>
      flags e = 0 \<and> last_pulse_ns e = timestamp_ns demo_pulse \<and> last_wallclock_ns e = wallclock_ns demo_pulse \<and>
      last_seq e = seq demo_pulse \<and> unat (timestamp_ns demo_pulse) + 120 * 10 ^ 9 < unat (now_ns e) \<and>
      unat (now_ns e) \<le> unat (timestamp_ns demo_pulse) + 150 * 10 ^ 9 + 0"
    using silence_detected [OF demo_ok run demo_running demo_facts(1) _ _ _ demo_room] c
    by (simp add: demo_pulse_def)
  then show ?thesis by (fastforce simp: demo_pulse_def demo_state_def demo_view_def)
qed

text \<open>
  What a reserved record holds before the program writes it never reaches the ring buffer:
  with any other left-over bytes \<open>emit_absence\<close> ends in the same state.
\<close>

definition scrub :: "absence_event \<Rightarrow> 'k helpers \<Rightarrow> 'k helpers" where
  "scrub g H = H\<lparr>ringbuf_reserve := (\<lambda>n f k. (map_option (\<lambda>_. g) (fst (ringbuf_reserve H n f k)), snd (ringbuf_reserve H n f k)))\<rparr>"

theorem reserved_bytes_overwritten: "emit_absence (scrub g H) now p k = emit_absence H now p k"
  by (simp add: emit_absence_event scrub_def reserved_def event_of_def split: option.split)

text \<open>
  When the ring buffer is full the new event is dropped, not an old one: the buffer keeps its
  records, the absence is lost, and the timer is armed again.
\<close>

theorem full_ring_drops_new_event:
  assumes "bpf_ok H V" and "fst (reserved H (snd (ktime_get_ns H k))) = None"
    and "ready (timer V k)" and "callback (timer V k) \<noteq> None"
  shows "ring V (snd (check_pulse_cb H k)) = ring V k \<and> armed (timer V (snd (check_pulse_cb H k)))"
  using check_pulse_cb_effect(1,4) [OF assms(1), of k] assms(2-4) by (simp add: appended_def)

theorem full_ring_drops_new_event_witness:
  "ring demo_view (snd (check_pulse_cb (demo_helpers 0) (demo_state 200000000000))) = [] \<and>
   absent (agent_pulse demo_view (demo_state 200000000000)) (clock demo_view (demo_state 200000000000))"
  using full_ring_drops_new_event [OF demo_ok, of 0 "demo_state 200000000000"]
  by (simp add: reserved_def absent_def agent_pulse_def demo_state_def demo_pulse_def demo_view_def
      demo_helpers_def PULSE_TIMEOUT_NS_def NSEC_PER_SEC_def)

text \<open>
  C8: \<open>start_timer\<close> returns 0 only when the timer ends up initialised, with \<open>check_pulse_cb\<close> as its
  callback, and armed, also when it was initialised before (the helper answers -EBUSY); whatever
  it returns, the maps are untouched and a running timer goes on running. The cut of the codes
  from long to int loses nothing of an errno.
\<close>

theorem start_timer_outcome:
  assumes "bpf_ok H V" and "errno_codes H"
  shows "(fst (start_timer H k) = 0 \<or> running V k \<longrightarrow> running V (snd (start_timer H k))) \<and>
    maps_kept V k (snd (start_timer H k))"
  using start_timer_zero [OF assms] start_timer_running [OF assms(1)] start_timer_maps [OF assms(1)] by blast

theorem start_timer_outcome_witness:
  "running demo_view (snd (start_timer (demo_helpers 4) ((demo_state 0)\<lparr>d_timer := \<lparr>ready = False, callback = None, armed = False, delay_ns = 0\<rparr>\<rparr>)))"
  using start_timer_outcome [OF demo_ok demo_errno, of 4 "(demo_state 0)\<lparr>d_timer := \<lparr>ready = False, callback = None, armed = False, delay_ns = 0\<rparr>\<rparr>"]
  by (simp add: start_timer_def demo_helpers_def)

text \<open>
  The age of a pulse is a 64-bit difference: a pulse whose time stamp lies ahead of the clock
  the callback reads counts as absent, unless it is within the timeout of \<open>2 ^ 64\<close> ns ahead.
\<close>

theorem future_pulse_absent:
  assumes "now < timestamp_ns v"
  shows "absent (Some v) now \<longleftrightarrow> unat (timestamp_ns v) - unat now < 2 ^ 64 - 120 * 10 ^ 9"
  using assms by (rule absent_future_iff)

theorem future_pulse_absent_witness: "absent (Some demo_pulse) 999999999"
  using future_pulse_absent [of 999999999 demo_pulse] by (simp add: demo_pulse_def)

end
