(* ===== verification/Sentinel_Agent.thy ===== *)
theory Sentinel_Agent
  imports Sentinel_System
begin

text \<open>
  The agent's side of the sentinel, src/internal/sentinel/sentinel.go: the heartbeat \<open>Pulse\<close>, the
  decoder \<open>parseAbsence\<close> of the records the callback leaves, the drain loop, and the check \<open>Open\<close>
  makes of the run of \<open>start_timer\<close>. Times are nanoseconds since the epoch as integers; the
  monotonic clock, the wall clock and the results of the ring buffer reader are arguments.
\<close>

section \<open>Little-endian words\<close>

fun le_bytes :: "nat \<Rightarrow> 'a::len word \<Rightarrow> bytes" where
  "le_bytes 0 w = []"
| "le_bytes (Suc n) w = ucast w # le_bytes n (drop_bit 8 w)"

fun le_word :: "bytes \<Rightarrow> 'a::len word" where
  "le_word [] = 0"
| "le_word (b # bs) = ucast b OR push_bit 8 (le_word bs)"

lemma length_le_bytes [simp]: "length (le_bytes n w) = n"
  by (induction n w rule: le_bytes.induct) simp_all

lemma le_word_le_bytes: "le_word (le_bytes n w) = take_bit (8 * n) (w :: 'a::len word)"
proof (induction n arbitrary: w)
  case (Suc n)
  show ?case unfolding le_bytes.simps le_word.simps Suc.IH
    by (rule bit_word_eqI) (auto simp: bit_or_iff bit_push_bit_iff bit_take_bit_iff bit_drop_bit_eq bit_ucast_iff)
qed simp

lemma le_word_64 [simp]: "le_word (le_bytes 8 (w :: 64 word)) = w"
  by (simp add: le_word_le_bytes take_bit_word_eq_self)

lemma le_word_32 [simp]: "le_word (le_bytes 4 (w :: 32 word)) = w"
  by (simp add: le_word_le_bytes take_bit_word_eq_self)

section \<open>Records\<close>

text \<open>The bytes of a record in the memory of a little-endian kernel, member after member.\<close>

definition event_bytes :: "absence_event \<Rightarrow> bytes" where
  "event_bytes e = le_bytes 8 (now_ns e) @ le_bytes 8 (last_pulse_ns e) @ le_bytes 8 (last_wallclock_ns e) @
     le_bytes 8 (last_seq e) @ le_bytes 4 (cpu e) @ le_bytes 4 (flags e) @ comm e"

text \<open>
  The agent's view. \<open>AgentLastSeen\<close> is None for Go's zero time. \<open>GapNs\<close> is the 64-bit difference
  that \<open>GapSeconds\<close> is the floating-point quotient of (0 when there is none).
\<close>

record AbsenceEvent =
  DetectedAt :: int
  AgentLastSeen :: "int option"
  GapNs :: u64
  Cpu :: u32
  Flags :: u32
  Comm :: bytes
  NeverSawPulse :: bool
  LastSeq :: u64

datatype parse_error = Short_event nat | Size_mismatch nat nat

definition trimCString :: "bytes \<Rightarrow> bytes" where
  "trimCString b = takeWhile (\<lambda>c. c \<noteq> 0) b"

definition raw_event :: "bytes \<Rightarrow> absence_event" where
  "raw_event raw = \<lparr>now_ns = le_word (take 8 raw), last_pulse_ns = le_word (take 8 (drop 8 raw)),
     last_wallclock_ns = le_word (take 8 (drop 16 raw)), last_seq = le_word (take 8 (drop 24 raw)),
     cpu = le_word (take 4 (drop 32 raw)), flags = le_word (take 4 (drop 36 raw)), comm = take 16 (drop 40 raw)\<rparr>"

definition absence_of :: "int \<Rightarrow> u64 \<Rightarrow> absence_event \<Rightarrow> AbsenceEvent" where
  "absence_of now mon se =
     (let bootAnchor = now + sint (- mon); saw = flags se AND 1 = 0 \<and> 0 < last_wallclock_ns se in
      \<lparr>DetectedAt = bootAnchor + sint (now_ns se),
       AgentLastSeen = (if saw then Some (sint (last_wallclock_ns se)) else None),
       GapNs = (if saw then now_ns se - last_pulse_ns se else 0),
       Cpu = cpu se, Flags = flags se, Comm = trimCString (comm se), NeverSawPulse = (\<not> saw),
       LastSeq = last_seq se\<rparr>)"

definition parseAbsence :: "int \<Rightarrow> u64 \<Rightarrow> bytes \<Rightarrow> parse_error + AbsenceEvent" where
  "parseAbsence now mon raw =
     guard (length raw < 48) (Short_event (length raw)) (
     guard (length raw < 56) (Size_mismatch (length raw) 56) (
       Inr (absence_of now mon (raw_event raw))))"

section \<open>Heartbeat, drain and start\<close>

text \<open>The value a pulse writes under the key \<open>host_id = 0\<close>, and the sequence number it leaves.\<close>

definition Pulse :: "int \<Rightarrow> u64 \<Rightarrow> u64 \<Rightarrow> pulse_key \<times> pulse_value \<times> u64" where
  "Pulse now mon s =
     (let s = s + 1; nanos = word_of_int now in
      (\<lparr>host_id = 0\<rparr>, \<lparr>timestamp_ns = mon, wallclock_ns = nanos, seq = s\<rparr>, s))"

text \<open>What the reader returns: a sample (with the clocks at its decoding), or an error.\<close>

datatype read = Sample bytes int u64 | DeadlineExceeded | Reader_closed | Read_failed

text \<open>The loop over the results of the reader; None while it has not returned.\<close>

fun drain_loop :: "read list \<Rightarrow> AbsenceEvent list \<Rightarrow> (AbsenceEvent list \<times> read option) option" where
  "drain_loop [] out = None"
| "drain_loop (Sample raw now mon # rs) out =
     (case parseAbsence now mon raw of
        Inl _ \<Rightarrow> drain_loop rs out
      | Inr evt \<Rightarrow> drain_loop rs (out @ [evt]))"
| "drain_loop (DeadlineExceeded # rs) out = Some (out, None)"
| "drain_loop (Reader_closed # rs) out = Some (out, None)"
| "drain_loop (Read_failed # rs) out = Some (out, Some Read_failed)"

definition DrainAbsences :: "read list \<Rightarrow> (AbsenceEvent list \<times> read option) option" where
  "DrainAbsences rs = drain_loop rs []"

text \<open>
  \<open>Open\<close> runs \<open>start_timer\<close> and looks at the error of the run only; \<open>runProg\<close> gives the program's
  return code and, when the program could be run, no error.
\<close>

definition runProg :: "'k helpers \<Rightarrow> 'k \<Rightarrow> (32 word \<times> string option) \<times> 'k" where
  "runProg H k = (let (ret, k) = start_timer H k in ((ret, None), k))"

definition kick_timer :: "32 word \<times> string option \<Rightarrow> string + unit" where
  "kick_timer r = (case snd r of Some e \<Rightarrow> Inl (''start timer: '' @ e) | None \<Rightarrow> Inr ())"

section \<open>Lemmas\<close>

lemma length_event_bytes: "length (comm e) = 16 \<Longrightarrow> length (event_bytes e) = 56"
  by (simp add: event_bytes_def)

lemma raw_event_bytes: "length (comm e) = 16 \<Longrightarrow> raw_event (event_bytes e @ rest) = e"
  by (cases e) (simp add: raw_event_def event_bytes_def)

lemma parse_event_bytes:
  "length (comm e) = 16 \<Longrightarrow> parseAbsence now mon (event_bytes e @ rest) = Inr (absence_of now mon e)"
  by (simp add: parseAbsence_def guard_def length_event_bytes raw_event_bytes)

lemma parse_absence_fails: "length raw < 56 \<Longrightarrow> \<exists>e. parseAbsence now mon raw = Inl e"
  by (auto simp: parseAbsence_def guard_def)

lemma drain_samples:
  "list_all (\<lambda>e. length (comm e) = 16) es \<Longrightarrow>
   drain_loop (map (\<lambda>e. Sample (event_bytes e) now mon) es @ DeadlineExceeded # rs) out =
     Some (out @ map (absence_of now mon) es, None)"
  using parse_event_bytes [where rest = "[]"] by (induction es arbitrary: out) simp_all

lemma tested_absence:
  "passes_test e \<Longrightarrow> NeverSawPulse (absence_of now mon e) \<or> PULSE_TIMEOUT_NS < GapNs (absence_of now mon e)"
  by (auto simp: passes_test_def absence_of_def Let_def)

text \<open>The records decoded from the samples before the reader's first error.\<close>

fun is_sample :: "read \<Rightarrow> bool" where
  "is_sample (Sample raw now mon) = True"
| "is_sample r = False"

fun decoded :: "read \<Rightarrow> AbsenceEvent option" where
  "decoded (Sample raw now mon) = (case parseAbsence now mon raw of Inl _ \<Rightarrow> None | Inr evt \<Rightarrow> Some evt)"
| "decoded r = None"

lemma drain_loop_result:
  "drain_loop rs out = (case dropWhile is_sample rs of [] \<Rightarrow> None
     | r # _ \<Rightarrow> Some (out @ List.map_filter decoded (takeWhile is_sample rs), if r = Read_failed then Some r else None))"
proof (induction rs out rule: drain_loop.induct)
  case (2 raw now mon rs out)
  then show ?case by (cases "parseAbsence now mon raw") (simp_all add: map_filter_simps del: dropWhile_eq_Nil_conv split: list.split)
qed (simp_all add: map_filter_simps)

text \<open>What a run leaves in a ring buffer that was empty can be decoded.\<close>

lemma run_leaves_tested:
  assumes "bpf_ok H V" and "sentinel_run H V k k'" and "ring V k = []"
  shows "list_all passes_test (ring V k')"
  using assms(2) by (rule sentinel_run_invariant) (use assms(3) step_passes [OF assms(1)] in auto)

lemma tested_drained:
  assumes "list_all passes_test es"
  shows "DrainAbsences (map (\<lambda>e. Sample (event_bytes e) now mon) es @ [DeadlineExceeded]) = Some (map (absence_of now mon) es, None) \<and>
    list_all (\<lambda>a. NeverSawPulse a \<or> PULSE_TIMEOUT_NS < GapNs a) (map (absence_of now mon) es)"
proof -
  have "list_all (\<lambda>e. length (comm e) = 16) es"
    and "list_all (\<lambda>a. NeverSawPulse a \<or> PULSE_TIMEOUT_NS < GapNs a) (map (absence_of now mon) es)"
    using assms tested_absence by (auto simp: list_all_iff passes_test_def)
  then show ?thesis using drain_samples [of es now mon "[]" "[]"] by (simp add: DrainAbsences_def)
qed

section \<open>Properties\<close>

text \<open>
  C7: From the kernel to the agent: the records a run of the sentinel leaves in the ring buffer,
  starting from an empty one, come out of the drain one by one and in order, none skipped, and each
  of them says that no pulse was seen or that the gap exceeds the timeout.
\<close>

theorem drain_reports_absences:
  assumes "bpf_ok H V" and "sentinel_run H V k k'" and "ring V k = []"
  shows "DrainAbsences (map (\<lambda>e. Sample (event_bytes e) now mon) (ring V k') @ [DeadlineExceeded]) =
      Some (map (absence_of now mon) (ring V k'), None) \<and>
    list_all (\<lambda>a. NeverSawPulse a \<or> PULSE_TIMEOUT_NS < GapNs a) (map (absence_of now mon) (ring V k'))"
  by (rule tested_drained [OF run_leaves_tested [OF assms]])

theorem drain_reports_absences_witness:
  "let k' = snd (check_pulse_cb (demo_helpers 4)
     ((demo_state 200000000000)\<lparr>d_timer := (d_timer (demo_state 200000000000))\<lparr>armed := False\<rparr>\<rparr>)) in
   DrainAbsences (map (\<lambda>e. Sample (event_bytes e) 0 0) (ring demo_view k') @ [DeadlineExceeded]) =
     Some (map (absence_of 0 0) (ring demo_view k'), None)"
  using drain_reports_absences [OF demo_ok demo_run, of 200000000000 0 0]
  by (simp add: Let_def demo_state_def demo_view_def)

text \<open>
  The drain returns exactly when the reader returns an error at some point. It then returns the
  decoded records of the samples before it, in order, malformed ones left out, with an error only
  when the reader neither ran into the deadline nor was closed.
\<close>

theorem drain_returns:
  "(DrainAbsences rs = None \<longleftrightarrow> list_all is_sample rs) \<and>
   DrainAbsences rs = (case dropWhile is_sample rs of [] \<Rightarrow> None
     | r # _ \<Rightarrow> Some (List.map_filter decoded (takeWhile is_sample rs), if r = Read_failed then Some r else None))"
proof -
  have "list_all is_sample rs \<longleftrightarrow> dropWhile is_sample rs = []" by (simp add: list_all_iff)
  then show ?thesis
    unfolding DrainAbsences_def drain_loop_result by (cases "dropWhile is_sample rs") (simp_all del: dropWhile_eq_Nil_conv)
qed

text \<open>
  \<open>Open\<close> ignores the return code of \<open>start_timer\<close>: when the program returns -1 without touching the
  timer, or the code of a helper that failed, \<open>Open\<close> still reports success.
\<close>

theorem open_ignores_return_code:
  "kick_timer (fst (runProg H k)) = Inr () \<and> fst (fst (runProg H k)) = fst (start_timer H k) \<and>
   (lookup_timer_map H 0 k \<or> start_timer H k = (- 1, k))"
  by (simp add: kick_timer_def runProg_def start_timer_def split_beta Let_def)

end
