(* ===== verification/Sentinel_Abi.thy ===== *)
theory Sentinel_Abi
  imports Sentinel_System
begin

text \<open>
  Where sentinel.c and the header meet: the layout of the records user space decodes, the room the
  program gives the kernel's timer, the pages of the ring buffer, the map kinds and the helper
  numbers and signatures the program relies on.
\<close>

text \<open>
  The helpers the program calls, with the number of arguments of the call.
  \<open>bpf_timer_set_callback\<close> has one parameter more in the kernel, which the verifier fills in.
\<close>

definition helper_calls :: "(string \<times> nat) list" where
  "helper_calls = [(''map_lookup_elem'', 2), (''ktime_get_ns'', 0), (''get_smp_processor_id'', 0),
     (''get_current_comm'', 2), (''ringbuf_reserve'', 3), (''ringbuf_submit'', 2),
     (''timer_init'', 3), (''timer_set_callback'', 2), (''timer_start'', 3)]"

definition helper_id :: "string \<Rightarrow> int option" where
  "helper_id h = const_value (constants enum_bpf_func_id) (''BPF_FUNC_'' @ h)"

text \<open>Constants numbered one after the other from \<open>i\<close>.\<close>

fun counts_up :: "int \<Rightarrow> (string \<times> int) list \<Rightarrow> bool" where
  "counts_up i [] = True"
| "counts_up i (c # cs) = (snd c = i \<and> counts_up (i + 1) cs)"

text \<open>The kind of a declared map, by the header's constant.\<close>

definition map_kind :: "map_decl \<Rightarrow> int option" where
  "map_kind m = const_value (constants enum_bpf_map_type) (map_type m)"

text \<open>
  The record user space decodes is laid out as it assumes: 56 bytes, the members at the byte
  offsets 0, 8, 16, 24, 32, 36 and 40, no padding anywhere (so no byte of a submitted record is
  left unwritten); the pulse it writes has 24 bytes without padding.
\<close>

theorem absence_event_layout:
  "map (offset_of struct_absence_event)
      [''now_ns'', ''last_pulse_ns'', ''last_wallclock_ns'', ''last_seq'', ''cpu'', ''flags'', ''comm''] =
     map Some [0, 8, 16, 24, 32, 36, 40] \<and>
   csize struct_absence_event = 56 \<and> hole_free struct_absence_event \<and>
   csize struct_pulse_value = 24 \<and> hole_free struct_pulse_value"
proof (intro conjI)
  show "hole_free struct_absence_event" "hole_free struct_pulse_value"
    unfolding hole_free_struct [OF struct_absence_event_def info_struct_absence_event]
      hole_free_struct [OF struct_pulse_value_def info_struct_pulse_value] by (simp_all add: c_info)
qed (simp_all add: struct_absence_event_def struct_pulse_value_def csize_def c_info)

text \<open>
  In the kernel's ring buffer the position of the consumer, the positions of the producer and
  the data each start a 4096-byte page of their own, so that the consumer page can be mapped
  writable without exposing the producer's.
\<close>

theorem ringbuf_pages:
  "map (offset_of struct_bpf_ringbuf) [''consumer_pos'', ''producer_pos'', ''pending_pos'', ''data''] =
     map Some [4096, 8192, 8200, 12288] \<and> csize struct_bpf_ringbuf = 12288"
  by (simp add: struct_bpf_ringbuf_def offset_from_append offset_from_pads csize_def c_info)

text \<open>
  The declared maps are of kinds the kernel knows, a hash, a ring buffer and an array; the sizes
  of their keys and values are those the kernel allows; the ring buffer's size is a power of two
  and a multiple of the page size, also with 64 KiB pages; every map has at least one entry. The opaque timer in the array's element
  starts at its first byte, is as large as the \<open>struct bpf_timer_kern\<close> the kernel keeps there, and
  aligned as it.
\<close>

theorem declared_maps:
  "map map_kind [pulse_map, absence_ringbuf, timer_map] = map Some [1, 27, 2] \<and>
   map (map_option csize \<circ> key_type) [pulse_map, absence_ringbuf, timer_map] = [Some 4, None, Some 4] \<and>
   map (map_option csize \<circ> value_type) [pulse_map, absence_ringbuf, timer_map] = [Some 24, None, Some 16] \<and>
   max_entries absence_ringbuf = 2 ^ 18 \<and> 2 ^ 16 dvd max_entries absence_ringbuf \<and>
   list_all (\<lambda>m. 0 < max_entries m) [pulse_map, absence_ringbuf, timer_map] \<and>
   offset_of struct_timer_elem ''t'' = Some 0 \<and> csize struct_bpf_timer_kern \<le> csize struct_bpf_timer \<and>
   calign struct_bpf_timer_kern dvd calign struct_bpf_timer"
  by (simp add: map_kind_def [unfolded enum_bpf_map_type_def constants.simps] pulse_map_def absence_ringbuf_def
      timer_map_def csize_def c_info
      info_struct_pulse_key info_struct_pulse_value info_struct_timer_elem info_struct_bpf_timer
      info_struct_bpf_timer_kern calign_def struct_timer_elem_def)

text \<open>
  The helpers the program calls are the kernel's: the header numbers all helpers without gap
  or repetition, gives each call of the program its number, and the program passes as many
  arguments as the kernel's function takes.
\<close>

theorem helper_numbers:
  "counts_up 0 (constants enum_bpf_func_id) \<and> length (constants enum_bpf_func_id) = 177 \<and>
   map (helper_id \<circ> fst) helper_calls = map Some [1, 5, 8, 16, 131, 132, 169, 170, 171] \<and>
   map length [params typedef_btf_bpf_map_lookup_elem, params typedef_btf_bpf_get_current_comm,
     params typedef_btf_bpf_ringbuf_reserve, params typedef_btf_bpf_ringbuf_submit,
     params typedef_btf_bpf_timer_init, params typedef_btf_bpf_timer_start] =
     map (the \<circ> map_of helper_calls) [''map_lookup_elem'', ''get_current_comm'', ''ringbuf_reserve'',
       ''ringbuf_submit'', ''timer_init'', ''timer_start'']"
proof (intro conjI)
  show "counts_up 0 (constants enum_bpf_func_id)" "length (constants enum_bpf_func_id) = 177"
    by (simp_all add: enum_bpf_func_id_def)
  show "map (helper_id \<circ> fst) helper_calls = map Some [1, 5, 8, 16, 131, 132, 169, 170, 171]"
    by (simp add: helper_calls_def helper_id_def [unfolded enum_bpf_func_id_def constants.simps])
qed (simp add: helper_calls_def typedef_btf_bpf_map_lookup_elem_def typedef_btf_bpf_get_current_comm_def
    typedef_btf_bpf_ringbuf_reserve_def typedef_btf_bpf_ringbuf_submit_def typedef_btf_bpf_timer_init_def
    typedef_btf_bpf_timer_start_def)

text \<open>
  The records and contexts the BPF interface shares with programs and user space that follow
  have no implicit padding: no byte of them is outside every member, so copying one copies nothing
  unwritten.
\<close>

theorem interface_types_hole_free:
  "list_all hole_free [
     struct_user_pt_regs, struct_bpf_insn, struct_bpf_func_info, struct_bpf_line_info, struct_sock_filter,
     struct_bpf_perf_event_value, struct_bpf_perf_event_data, struct_perf_event_query_bpf, struct_bpf_btf_info,
     struct_bpf_spin_lock, struct_bpf_pidns_info, struct_bpf_lpm_trie_key, struct_bpf_flow_keys, struct_xdp_md,
     struct_sk_msg_md, struct_bpf_sock_ops, struct_bpf_cgroup_dev_ctx, struct_bpf_sysctl, struct_bpf_sockopt,
     struct_bpf_devmap_val, struct_bpf_cpumap_val, struct_bpf_stack_build_id, struct_bpf_tunnel_key,
     struct_bpf_xfrm_state, struct_bpf_tcp_sock, struct_bpf_sock_tuple, struct_bpf_xdp_sock,
     struct_bpf_fib_lookup, struct_bpf_redir_neigh]"
  by (simp add: c_info
      hole_free_struct [OF struct_user_pt_regs_def info_struct_user_pt_regs]
      hole_free_struct [OF struct_bpf_insn_def info_struct_bpf_insn]
      hole_free_struct [OF struct_bpf_func_info_def info_struct_bpf_func_info]
      hole_free_struct [OF struct_bpf_line_info_def info_struct_bpf_line_info]
      hole_free_struct [OF struct_sock_filter_def info_struct_sock_filter]
      hole_free_struct [OF struct_bpf_perf_event_value_def info_struct_bpf_perf_event_value]
      hole_free_struct [OF struct_bpf_perf_event_data_def info_struct_bpf_perf_event_data]
      hole_free_struct [OF struct_perf_event_query_bpf_def info_struct_perf_event_query_bpf]
      hole_free_struct [OF struct_bpf_btf_info_def info_struct_bpf_btf_info]
      hole_free_struct [OF struct_bpf_spin_lock_def info_struct_bpf_spin_lock]
      hole_free_struct [OF struct_bpf_pidns_info_def info_struct_bpf_pidns_info]
      hole_free_struct [OF struct_bpf_lpm_trie_key_def info_struct_bpf_lpm_trie_key]
      hole_free_struct [OF struct_bpf_flow_keys_def info_struct_bpf_flow_keys]
      hole_free_struct [OF struct_xdp_md_def info_struct_xdp_md]
      hole_free_struct [OF struct_sk_msg_md_def info_struct_sk_msg_md]
      hole_free_struct [OF struct_bpf_sock_ops_def info_struct_bpf_sock_ops]
      hole_free_struct [OF struct_bpf_cgroup_dev_ctx_def info_struct_bpf_cgroup_dev_ctx]
      hole_free_struct [OF struct_bpf_sysctl_def info_struct_bpf_sysctl]
      hole_free_struct [OF struct_bpf_sockopt_def info_struct_bpf_sockopt]
      hole_free_struct [OF struct_bpf_devmap_val_def info_struct_bpf_devmap_val]
      hole_free_struct [OF struct_bpf_cpumap_val_def info_struct_bpf_cpumap_val]
      hole_free_struct [OF struct_bpf_stack_build_id_def info_struct_bpf_stack_build_id]
      hole_free_struct [OF struct_bpf_tunnel_key_def info_struct_bpf_tunnel_key]
      hole_free_struct [OF struct_bpf_xfrm_state_def info_struct_bpf_xfrm_state]
      hole_free_struct [OF struct_bpf_tcp_sock_def info_struct_bpf_tcp_sock]
      hole_free_struct [OF struct_bpf_sock_tuple_def info_struct_bpf_sock_tuple]
      hole_free_struct [OF struct_bpf_xdp_sock_def info_struct_bpf_xdp_sock]
      hole_free_struct [OF struct_bpf_fib_lookup_def info_struct_bpf_fib_lookup]
      hole_free_struct [OF struct_bpf_redir_neigh_def info_struct_bpf_redir_neigh])

end
