(* ===== verification/Sentinel_Memory.thy ===== *)
theory Sentinel_Memory
  imports Sentinel_Agent Sentinel_Abi
begin

text \<open>
  \<open>emit_absence\<close> on memory: the assignments of the C function as stores of little-endian bytes at the
  offsets the layout gives the members, in the order of the source, into the 56 bytes the ring
  buffer reserved. The stores are shown to leave the bytes of the record that \<open>Sentinel\<close> submits
  and that the agent decodes.
\<close>

definition store :: "nat \<Rightarrow> bytes \<Rightarrow> bytes \<Rightarrow> bytes" where
  "store off v buf = take off buf @ v @ drop (off + length v) buf"

definition member_at :: "string \<Rightarrow> nat" where
  "member_at x = the (offset_of struct_absence_event x)"

definition emit_stores :: "u64 \<Rightarrow> pulse_value option \<Rightarrow> u32 \<Rightarrow> bytes \<Rightarrow> bytes \<Rightarrow> bytes" where
  "emit_stores now p cpu_id task buf =
     (let buf = store (member_at ''now_ns'') (le_bytes 8 now) buf;
          buf = (case p of
              Some v \<Rightarrow>
                (let buf = store (member_at ''last_pulse_ns'') (le_bytes 8 (timestamp_ns v)) buf;
                     buf = store (member_at ''last_wallclock_ns'') (le_bytes 8 (wallclock_ns v)) buf;
                     buf = store (member_at ''last_seq'') (le_bytes 8 (seq v)) buf
                 in store (member_at ''flags'') (le_bytes 4 (0 :: u32)) buf)
            | None \<Rightarrow>
                (let buf = store (member_at ''last_pulse_ns'') (le_bytes 8 (0 :: u64)) buf;
                     buf = store (member_at ''last_wallclock_ns'') (le_bytes 8 (0 :: u64)) buf;
                     buf = store (member_at ''last_seq'') (le_bytes 8 (0 :: u64)) buf
                 in store (member_at ''flags'') (le_bytes 4 (1 :: u32)) buf));
          buf = store (member_at ''cpu'') (le_bytes 4 cpu_id) buf
      in store (member_at ''comm'') task buf)"

lemma member_offsets:
  "member_at ''now_ns'' = 0" "member_at ''last_pulse_ns'' = 8" "member_at ''last_wallclock_ns'' = 16"
  "member_at ''last_seq'' = 24" "member_at ''cpu'' = 32" "member_at ''flags'' = 36" "member_at ''comm'' = 40"
  by (simp_all add: member_at_def struct_absence_event_def c_info)

text \<open>The reserved memory, cut at the members, and the stores one after the other.\<close>

lemma take_then_drop: "n + m = k \<Longrightarrow> take m (drop n xs) @ drop k xs = drop n xs"
  by (metis add.commute append_take_drop_id drop_drop)

lemma cut_56:
  assumes "length (buf :: bytes) = 56"
  obtains s0 s1 s2 s3 s4 s5 s6 where "buf = s0 @ s1 @ s2 @ s3 @ s4 @ s5 @ s6"
    "length s0 = 8" "length s1 = 8" "length s2 = 8" "length s3 = 8" "length s4 = 4" "length s5 = 4" "length s6 = 16"
proof
  let ?d = "\<lambda>n m. take m (drop n buf)"
  have "?d 36 4 @ drop 40 buf = drop 36 buf" "?d 32 4 @ drop 36 buf = drop 32 buf" "?d 24 8 @ drop 32 buf = drop 24 buf"
    "?d 16 8 @ drop 24 buf = drop 16 buf" "?d 8 8 @ drop 16 buf = drop 8 buf" "?d 0 8 @ drop 8 buf = drop 0 buf"
    by (intro take_then_drop; simp)+
  then show "buf = ?d 0 8 @ ?d 8 8 @ ?d 16 8 @ ?d 24 8 @ ?d 32 4 @ ?d 36 4 @ drop 40 buf"
    by (simp only: drop_0)
qed (use assms in simp_all)

lemma store_mid: "length a = off \<Longrightarrow> length v = length b \<Longrightarrow> store off v (a @ b @ c) = a @ v @ c"
  by (simp add: store_def)

lemma stores_in_order:
  fixes n t w s f c task :: bytes
  assumes buf: "length buf = 56"
    and len: "length n = 8" "length t = 8" "length w = 8" "length s = 8" "length c = 4" "length f = 4" "length task = 16"
  shows "store 40 task (store 32 c (store 36 f (store 24 s (store 16 w (store 8 t (store 0 n buf)))))) =
    n @ t @ w @ s @ c @ f @ task"
proof -
  obtain s0 s1 s2 s3 s4 s5 s6 where b: "buf = s0 @ s1 @ s2 @ s3 @ s4 @ s5 @ s6"
    and l: "length s0 = 8" "length s1 = 8" "length s2 = 8" "length s3 = 8" "length s4 = 4" "length s5 = 4" "length s6 = 16"
    using cut_56 [OF buf] by blast
  have "store 0 n buf = n @ s1 @ s2 @ s3 @ s4 @ s5 @ s6"
    using store_mid [of "[]" 0 n s0] len l b by simp
  moreover have "store 8 t (n @ s1 @ s2 @ s3 @ s4 @ s5 @ s6) = n @ t @ s2 @ s3 @ s4 @ s5 @ s6"
    using store_mid [of n 8 t s1] len l by simp
  moreover have "store 16 w (n @ t @ s2 @ s3 @ s4 @ s5 @ s6) = n @ t @ w @ s3 @ s4 @ s5 @ s6"
    using store_mid [of "n @ t" 16 w s2] len l by simp
  moreover have "store 24 s (n @ t @ w @ s3 @ s4 @ s5 @ s6) = n @ t @ w @ s @ s4 @ s5 @ s6"
    using store_mid [of "n @ t @ w" 24 s s3] len l by simp
  moreover have "store 36 f (n @ t @ w @ s @ s4 @ s5 @ s6) = n @ t @ w @ s @ s4 @ f @ s6"
    using store_mid [of "n @ t @ w @ s @ s4" 36 f s5] len l by simp
  moreover have "store 32 c (n @ t @ w @ s @ s4 @ f @ s6) = n @ t @ w @ s @ c @ f @ s6"
    using store_mid [of "n @ t @ w @ s" 32 c s4] len l by simp
  moreover have "store 40 task (n @ t @ w @ s @ c @ f @ s6) = n @ t @ w @ s @ c @ f @ task"
    using store_mid [of "n @ t @ w @ s @ c @ f" 40 task s6 "[]"] len l by simp
  ultimately show ?thesis by (simp only:)
qed

lemma emit_stores_bytes:
  assumes "length buf = 56" and "length task = 16"
  shows "emit_stores now p cpu_id task buf =
    event_bytes \<lparr>now_ns = now, last_pulse_ns = (case p of Some v \<Rightarrow> timestamp_ns v | None \<Rightarrow> 0),
      last_wallclock_ns = (case p of Some v \<Rightarrow> wallclock_ns v | None \<Rightarrow> 0),
      last_seq = (case p of Some v \<Rightarrow> seq v | None \<Rightarrow> 0), cpu = cpu_id,
      flags = (if p = None then 1 else 0), comm = task\<rparr>"
  using stores_in_order [OF assms(1) length_le_bytes length_le_bytes length_le_bytes length_le_bytes length_le_bytes
      length_le_bytes assms(2)]
  by (cases p) (simp_all only: emit_stores_def Let_def member_offsets event_bytes_def option.case absence_event.simps
      option.distinct if_True if_False simp_thms)

text \<open>
  C13: The stores of \<open>emit_absence\<close> turn any 56 reserved bytes into exactly the bytes of the event the
  program submits, and the agent decodes these, whatever follows them, to the members the kernel
  stored.
\<close>

theorem stores_decode:
  assumes "bpf_ok H V" and "length buf = 56"
  shows "emit_stores now p (get_smp_processor_id H k) (get_current_comm H 16 k) buf = event_bytes (event_of H now p k) \<and>
    raw_event (event_bytes (event_of H now p k) @ rest) = event_of H now p k \<and>
    parseAbsence t mon (event_bytes (event_of H now p k) @ rest) = Inr (absence_of t mon (event_of H now p k))"
proof -
  have "length (comm (event_of H now p k)) = 16" using bpf_okD(4) [OF assms(1), of 16 k] by (simp add: event_of_def)
  then show ?thesis
    using emit_stores_bytes [OF assms(2), of "get_current_comm H 16 k" now p "get_smp_processor_id H k"]
      raw_event_bytes parse_event_bytes bpf_okD(4) [OF assms(1), of 16 k]
    by (simp add: event_of_def)
qed

theorem stores_decode_witness:
  "raw_event (emit_stores 5 (Some demo_pulse) 2 (replicate 16 0) (replicate 56 7)) =
     \<lparr>now_ns = 5, last_pulse_ns = 1000000000, last_wallclock_ns = 5, last_seq = 9, cpu = 2, flags = 0,
       comm = replicate 16 0\<rparr>"
proof -
  have h: "get_smp_processor_id (demo_helpers 4) (demo_state 0) = 2" "get_current_comm (demo_helpers 4) 16 (demo_state 0) = replicate 16 0"
    by (simp_all only: demo_helpers_def helpers.simps)
  have s: "emit_stores 5 (Some demo_pulse) 2 (replicate 16 0) (replicate 56 7) =
      event_bytes (event_of (demo_helpers 4) 5 (Some demo_pulse) (demo_state 0))"
    using conjunct1 [OF stores_decode [OF demo_ok, of "replicate 56 7" 5 "Some demo_pulse" 4 "demo_state 0" "[]" 0 0]]
    unfolding h by simp
  have "raw_event (event_bytes (event_of (demo_helpers 4) 5 (Some demo_pulse) (demo_state 0)) @ []) =
      event_of (demo_helpers 4) 5 (Some demo_pulse) (demo_state 0)"
    using stores_decode [OF demo_ok, of "replicate 56 7" 5 "Some demo_pulse" 4 "demo_state 0" "[]" 0 0] by simp
  then show ?thesis unfolding s by (simp add: event_of_def h demo_pulse_def)
qed

end
