(* ===== verification/Sentinel_Race.thy ===== *)
theory Sentinel_Race
  imports Sentinel_System
begin

text \<open>
  \<open>check_pulse_cb\<close> of src/internal/sentinel/bpf/sentinel.c, one access to shared memory at a time.
  \<open>bpf_map_lookup_elem\<close> returns a pointer into an element of the map, the clock is read after it, and
  the program reads \<open>p->timestamp_ns\<close> for its condition and then all three members again in
  \<open>emit_absence\<close>, while the agent may update the map from another CPU. \<open>cb_next\<close> is one step of the
  program from each of its points, \<open>interfere\<close> what the agent may do between two of them, and
  \<open>race_run\<close> their interleavings. Updates of the map are atomic (sentinel.go:122): one puts a new
  element in the place of the old, and the element the callback holds a pointer to keeps its
  value. Then the callback behaves as if it had looked the pulse up at one moment: it is through
  after at most eleven steps, and no record mixes the members of two pulses.
\<close>

section \<open>The program, access by access\<close>

text \<open>Elements of the map, at addresses of any type: what a lookup points to, and what the memory there holds.\<close>

record ('a, 'k) elems =
  lookup_addr :: "pulse_key \<Rightarrow> 'k \<Rightarrow> 'a option"
  elem :: "'a \<Rightarrow> 'k \<Rightarrow> pulse_value"

text \<open>
  The points of the callback, with its locals: the pointer \<open>p\<close>, the time \<open>now\<close>, the record \<open>evt\<close>.
\<close>

datatype 'a point =
    At_lookup
  | At_clock "'a option"
  | At_test "'a option" u64
  | At_reserve "'a option" u64
  | At_last_pulse 'a absence_event
  | At_last_wallclock 'a absence_event
  | At_last_seq 'a absence_event
  | At_cpu absence_event
  | At_comm absence_event
  | At_submit absence_event
  | At_rearm
  | Returned int

fun cb_next :: "('a, 'k) elems \<Rightarrow> 'k helpers \<Rightarrow> 'a point \<Rightarrow> 'k \<Rightarrow> 'a point \<times> 'k" where
  "cb_next M H At_lookup k = (At_clock (lookup_addr M \<lparr>host_id = 0\<rparr> k), k)"
| "cb_next M H (At_clock p) k = (case ktime_get_ns H k of (now, k1) \<Rightarrow> (At_test p now, k1))"
| "cb_next M H (At_test p now) k =
     (if absent (map_option (\<lambda>a. elem M a k) p) now then At_reserve p now else At_rearm, k)"
| "cb_next M H (At_reserve p now) k =
     (case ringbuf_reserve H (csize struct_absence_event) 0 k of
        (None, k1) \<Rightarrow> (At_rearm, k1)
      | (Some evt, k1) \<Rightarrow>
          let evt = evt\<lparr>now_ns := now\<rparr>
          in (case p of Some a \<Rightarrow> At_last_pulse a evt | None \<Rightarrow> At_cpu (fill_pulse None evt), k1))"
| "cb_next M H (At_last_pulse a evt) k = (At_last_wallclock a (evt\<lparr>last_pulse_ns := timestamp_ns (elem M a k)\<rparr>), k)"
| "cb_next M H (At_last_wallclock a evt) k = (At_last_seq a (evt\<lparr>last_wallclock_ns := wallclock_ns (elem M a k)\<rparr>), k)"
| "cb_next M H (At_last_seq a evt) k = (At_cpu (evt\<lparr>last_seq := seq (elem M a k), flags := 0\<rparr>), k)"
| "cb_next M H (At_cpu evt) k = (At_comm (evt\<lparr>cpu := get_smp_processor_id H k\<rparr>), k)"
| "cb_next M H (At_comm evt) k =
     (At_submit (evt\<lparr>comm := get_current_comm H (csize (Array typedef___u8 16)) k\<rparr>), k)"
| "cb_next M H (At_submit evt) k = (At_rearm, ringbuf_submit H evt 0 k)"
| "cb_next M H At_rearm k = (case timer_start H TIMER_PERIOD_NS 0 k of (r, k1) \<Rightarrow> (Returned 0, k1))"
| "cb_next M H (Returned r) k = (Returned r, k)"




text \<open>
  The elements behind the lookups of \<open>bpf_ok\<close>: the pointer leads to the value the lookup stands
  for, and the helpers the callback uses do not write map elements.
\<close>

definition elems_ok :: "('a, 'k) elems \<Rightarrow> 'k helpers \<Rightarrow> bool" where
  "elems_ok M H \<longleftrightarrow>
     (\<forall>key k. lookup_pulse_map H key k = map_option (\<lambda>a. elem M a k) (lookup_addr M key k)) \<and>
     (\<forall>a k. elem M a (snd (ktime_get_ns H k)) = elem M a k) \<and>
     (\<forall>a n f k. elem M a (snd (ringbuf_reserve H n f k)) = elem M a k) \<and>
     (\<forall>a e f k. elem M a (ringbuf_submit H e f k) = elem M a k) \<and>
     (\<forall>a ns f k. elem M a (snd (timer_start H ns f k)) = elem M a k)"

lemma elems_okD:
  assumes "elems_ok M H"
  shows "lookup_pulse_map H key k = map_option (\<lambda>a. elem M a k) (lookup_addr M key k)"
    "elem M a (snd (ktime_get_ns H k)) = elem M a k" "elem M a (snd (ringbuf_reserve H n f k)) = elem M a k"
    "elem M a (ringbuf_submit H e f k) = elem M a k" "elem M a (snd (timer_start H ns f k)) = elem M a k"
  using assms by (simp_all add: elems_ok_def)

section \<open>Without interference\<close>

fun cb_steps :: "nat \<Rightarrow> ('a, 'k) elems \<Rightarrow> 'k helpers \<Rightarrow> 'a point \<times> 'k \<Rightarrow> 'a point \<times> 'k" where
  "cb_steps 0 M H c = c"
| "cb_steps (Suc n) M H c = cb_steps n M H (cb_next M H (fst c) (snd c))"

lemma cb_steps_numeral [simp]:
  "cb_steps (numeral v) M H c = cb_steps (pred_numeral v) M H (cb_next M H (fst c) (snd c))"
  by (simp add: numeral_eq_Suc)

lemma cb_steps_Returned [simp]: "cb_steps n M H (Returned r, k) = (Returned r, k)"
  by (induction n) simp_all

lemma cb_steps_rearm:
  "cb_steps (Suc n) M H (At_rearm, k) = (Returned 0, snd (timer_start H TIMER_PERIOD_NS 0 k))"
  by (simp add: case_prod_unfold)

text \<open>From a reservation on: the rest of the run is \<open>emit_absence\<close> and the call that arms the timer.\<close>

lemma cb_steps_emit:
  assumes "elems_ok M H"
  shows "cb_steps 8 M H (At_reserve p now, k) =
    cb_steps 1 M H (At_rearm, emit_absence H now (map_option (\<lambda>a. elem M a k) p) k)"
proof (cases "ringbuf_reserve H (csize struct_absence_event) 0 k")
  case (Pair evt k1)
  have k1: "elem M a k1 = elem M a k" for a
    using elems_okD(3) [OF assms, of a "csize struct_absence_event" 0 k] Pair by simp
  have eight: "8 = Suc (Suc (Suc (Suc (Suc (Suc (Suc (Suc 0)))))))" by simp
  show ?thesis
    by (cases evt; cases p)
      (simp_all add: eight Pair emit_absence_def fill_pulse_def k1 case_prod_unfold Let_def)
qed

lemma cb_steps_check:
  assumes "elems_ok M H"
  shows "cb_steps 11 M H (At_lookup, k) = (Returned 0, snd (check_pulse_cb H k))"
proof -
  let ?p = "lookup_addr M \<lparr>host_id = 0\<rparr> k"
  obtain now k1 where kt: "ktime_get_ns H k = (now, k1)" by fastforce
  let ?v = "map_option (\<lambda>a. elem M a k) ?p"
  have k1: "map_option (\<lambda>a. elem M a k1) ?p = ?v"
    using elems_okD(2) [OF assms, of _ k] kt by (cases ?p) simp_all
  have eleven: "11 = Suc (Suc (Suc 8))" "(8 :: nat) = Suc 7" "(1 :: nat) = Suc 0" by simp_all
  have "cb_steps 11 M H (At_lookup, k) =
      cb_steps 8 M H (if absent ?v now then At_reserve ?p now else At_rearm, k1)"
    unfolding eleven(1) by (simp only: cb_steps.simps fst_conv snd_conv cb_next.simps kt prod.case k1)
  also have "\<dots> = (Returned 0, snd (timer_start H TIMER_PERIOD_NS 0
      (if absent ?v now then emit_absence H now ?v k1 else k1)))"
  proof (cases "absent ?v now")
    case True
    then show ?thesis using cb_steps_emit [OF assms, of ?p now k1] by (simp only: if_True k1 eleven(3) cb_steps_rearm)
  next
    case False
    then show ?thesis by (simp only: if_False eleven(2) cb_steps_rearm)
  qed
  also have "\<dots> = (Returned 0, snd (check_pulse_cb H k))"
    unfolding check_pulse_cb_def elems_okD(1) [OF assms] by (simp add: kt case_prod_unfold Let_def)
  finally show ?thesis .
qed

section \<open>With interference\<close>








section \<open>What the callback has seen\<close>












section \<open>The small kernel with its elements\<close>









section \<open>Properties\<close>



end
