(* ===== verification/Vmlinux_Kern.thy ===== *)
theory Vmlinux_Kern
  imports Vmlinux_Net
begin

text \<open>
  Kernel objects of src/internal/sentinel/bpf/vmlinux.h that the BPF types point to. Locks, counters, trees, timers and the
  other small kernel types that the objects below contain.
\<close>

definition typedef___s8 :: ctype where
  "typedef___s8 = Scalar Tschar"

lemma info_typedef___s8 [c_info]: "info typedef___s8 = (1, 1)"
  by (simp add: typedef___s8_def c_info)

definition typedef_s8 :: ctype where
  "typedef_s8 = typedef___s8"

lemma info_typedef_s8 [c_info]: "info typedef_s8 = (1, 1)"
  by (simp add: typedef_s8_def c_info)

definition typedef_s16 :: ctype where
  "typedef_s16 = typedef___s16"

lemma info_typedef_s16 [c_info]: "info typedef_s16 = (2, 2)"
  by (simp add: typedef_s16_def c_info)

definition typedef___kernel_long_t :: ctype where
  "typedef___kernel_long_t = Scalar Tlong"

lemma info_typedef___kernel_long_t [c_info]: "info typedef___kernel_long_t = (8, 8)"
  by (simp add: typedef___kernel_long_t_def c_info)

definition typedef___kernel_pid_t :: ctype where
  "typedef___kernel_pid_t = Scalar Tint"

lemma info_typedef___kernel_pid_t [c_info]: "info typedef___kernel_pid_t = (4, 4)"
  by (simp add: typedef___kernel_pid_t_def c_info)

definition typedef___kernel_gid32_t :: ctype where
  "typedef___kernel_gid32_t = Scalar Tuint"

lemma info_typedef___kernel_gid32_t [c_info]: "info typedef___kernel_gid32_t = (4, 4)"
  by (simp add: typedef___kernel_gid32_t_def c_info)

definition typedef___kernel_time64_t :: ctype where
  "typedef___kernel_time64_t = Scalar Tllong"

lemma info_typedef___kernel_time64_t [c_info]: "info typedef___kernel_time64_t = (8, 8)"
  by (simp add: typedef___kernel_time64_t_def c_info)

definition typedef___kernel_clockid_t :: ctype where
  "typedef___kernel_clockid_t = Scalar Tint"

lemma info_typedef___kernel_clockid_t [c_info]: "info typedef___kernel_clockid_t = (4, 4)"
  by (simp add: typedef___kernel_clockid_t_def c_info)

definition typedef___le32 :: ctype where
  "typedef___le32 = typedef___u32"

lemma info_typedef___le32 [c_info]: "info typedef___le32 = (4, 4)"
  by (simp add: typedef___le32_def c_info)

definition typedef___kernel_dev_t :: ctype where
  "typedef___kernel_dev_t = typedef_u32"

lemma info_typedef___kernel_dev_t [c_info]: "info typedef___kernel_dev_t = (4, 4)"
  by (simp add: typedef___kernel_dev_t_def c_info)

definition typedef_dev_t :: ctype where
  "typedef_dev_t = typedef___kernel_dev_t"

lemma info_typedef_dev_t [c_info]: "info typedef_dev_t = (4, 4)"
  by (simp add: typedef_dev_t_def c_info)

definition typedef_pid_t :: ctype where
  "typedef_pid_t = typedef___kernel_pid_t"

lemma info_typedef_pid_t [c_info]: "info typedef_pid_t = (4, 4)"
  by (simp add: typedef_pid_t_def c_info)

definition typedef_clockid_t :: ctype where
  "typedef_clockid_t = typedef___kernel_clockid_t"

lemma info_typedef_clockid_t [c_info]: "info typedef_clockid_t = (4, 4)"
  by (simp add: typedef_clockid_t_def c_info)

definition typedef_gid_t :: ctype where
  "typedef_gid_t = typedef___kernel_gid32_t"

lemma info_typedef_gid_t [c_info]: "info typedef_gid_t = (4, 4)"
  by (simp add: typedef_gid_t_def c_info)

definition typedef_int32_t :: ctype where
  "typedef_int32_t = typedef_s32"

lemma info_typedef_int32_t [c_info]: "info typedef_int32_t = (4, 4)"
  by (simp add: typedef_int32_t_def c_info)

definition typedef_uint32_t :: ctype where
  "typedef_uint32_t = typedef_u32"

lemma info_typedef_uint32_t [c_info]: "info typedef_uint32_t = (4, 4)"
  by (simp add: typedef_uint32_t_def c_info)

definition typedef_sector_t :: ctype where
  "typedef_sector_t = typedef_u64"

lemma info_typedef_sector_t [c_info]: "info typedef_sector_t = (8, 8)"
  by (simp add: typedef_sector_t_def c_info)

definition typedef_blkcnt_t :: ctype where
  "typedef_blkcnt_t = typedef_u64"

lemma info_typedef_blkcnt_t [c_info]: "info typedef_blkcnt_t = (8, 8)"
  by (simp add: typedef_blkcnt_t_def c_info)

definition typedef_fmode_t :: ctype where
  "typedef_fmode_t = Scalar Tuint"

lemma info_typedef_fmode_t [c_info]: "info typedef_fmode_t = (4, 4)"
  by (simp add: typedef_fmode_t_def c_info)

definition typedef_phys_addr_t :: ctype where
  "typedef_phys_addr_t = typedef_u64"

lemma info_typedef_phys_addr_t [c_info]: "info typedef_phys_addr_t = (8, 8)"
  by (simp add: typedef_phys_addr_t_def c_info)

definition typedef_irq_hw_number_t :: ctype where
  "typedef_irq_hw_number_t = Scalar Tulong"

lemma info_typedef_irq_hw_number_t [c_info]: "info typedef_irq_hw_number_t = (8, 8)"
  by (simp add: typedef_irq_hw_number_t_def c_info)

definition struct_jump_entry :: ctype where
  "struct_jump_entry = Struct [] [
    Mem ''code'' typedef_s32, Mem ''target'' typedef_s32, Mem ''key'' (Scalar Tlong)]"

lemma info_struct_jump_entry [c_info]: "info struct_jump_entry = (16, 8)"
  by (simp add: struct_jump_entry_def c_info)

definition struct_static_key :: ctype where
  "struct_static_key = Struct [] [
    Mem ''enabled'' typedef_atomic_t,
    Anon (Union [] [
      Mem ''type'' (Scalar Tulong), Mem ''entries'' (Ptr ''struct jump_entry''),
      Mem ''next'' (Ptr ''struct static_key_mod'')])]"

lemma info_struct_static_key [c_info]: "info struct_static_key = (16, 8)"
  by (simp add: struct_static_key_def c_info)

definition struct_lockdep_map :: ctype where
  "struct_lockdep_map = Struct [] []"

lemma info_struct_lockdep_map [c_info]: "info struct_lockdep_map = (0, 1)"
  by (simp add: struct_lockdep_map_def c_info)

definition struct_ratelimit_state :: ctype where
  "struct_ratelimit_state = Struct [] [
    Mem ''lock'' typedef_raw_spinlock_t, Mem ''interval'' (Scalar Tint), Mem ''burst'' (Scalar Tint),
    Mem ''printed'' (Scalar Tint), Mem ''missed'' (Scalar Tint), Mem ''begin'' (Scalar Tulong),
    Mem ''flags'' (Scalar Tulong)]"

lemma info_struct_ratelimit_state [c_info]: "info struct_ratelimit_state = (40, 8)"
  by (simp add: struct_ratelimit_state_def c_info)

definition struct_static_call_key :: ctype where
  "struct_static_call_key = Struct [] [
    Mem ''func'' (Ptr ''void'')]"

lemma info_struct_static_call_key [c_info]: "info struct_static_call_key = (8, 8)"
  by (simp add: struct_static_call_key_def c_info)

definition typedef_time64_t :: ctype where
  "typedef_time64_t = typedef___s64"

lemma info_typedef_time64_t [c_info]: "info typedef_time64_t = (8, 8)"
  by (simp add: typedef_time64_t_def c_info)

definition struct_timespec64 :: ctype where
  "struct_timespec64 = Struct [] [
    Mem ''tv_sec'' typedef_time64_t, Mem ''tv_nsec'' (Scalar Tlong)]"

lemma info_struct_timespec64 [c_info]: "info struct_timespec64 = (16, 8)"
  by (simp add: struct_timespec64_def c_info)

definition struct_bug_entry :: ctype where
  "struct_bug_entry = Struct [] [
    Mem ''bug_addr_disp'' (Scalar Tint), Mem ''file_disp'' (Scalar Tint), Mem ''line'' (Scalar Tushort),
    Mem ''flags'' (Scalar Tushort)]"

lemma info_struct_bug_entry [c_info]: "info struct_bug_entry = (12, 4)"
  by (simp add: struct_bug_entry_def c_info)

definition struct_cpumask :: ctype where
  "struct_cpumask = Struct [] [
    Mem ''bits'' (Array (Scalar Tulong) 8)]"

lemma info_struct_cpumask [c_info]: "info struct_cpumask = (64, 8)"
  by (simp add: struct_cpumask_def c_info)

definition typedef_cpumask_t :: ctype where
  "typedef_cpumask_t = struct_cpumask"

lemma info_typedef_cpumask_t [c_info]: "info typedef_cpumask_t = (64, 8)"
  by (simp add: typedef_cpumask_t_def c_info)

definition typedef_cpumask_var_t :: ctype where
  "typedef_cpumask_var_t = Array struct_cpumask 1"

lemma info_typedef_cpumask_var_t [c_info]: "info typedef_cpumask_var_t = (64, 8)"
  by (simp add: typedef_cpumask_var_t_def c_info)

definition struct_llist_head :: ctype where
  "struct_llist_head = Struct [] [
    Mem ''first'' (Ptr ''struct llist_node'')]"

lemma info_struct_llist_head [c_info]: "info struct_llist_head = (8, 8)"
  by (simp add: struct_llist_head_def c_info)

definition typedef_smp_call_func_t :: ctype where
  "typedef_smp_call_func_t = FunPtr ''void'' [''void *'']"

lemma info_typedef_smp_call_func_t [c_info]: "info typedef_smp_call_func_t = (8, 8)"
  by (simp add: typedef_smp_call_func_t_def c_info)

definition struct___call_single_data :: ctype where
  "struct___call_single_data = Struct [] [
    Mem ''node'' struct___call_single_node, Mem ''func'' typedef_smp_call_func_t, Mem ''info'' (Ptr ''void'')]"

lemma info_struct___call_single_data [c_info]: "info struct___call_single_data = (32, 8)"
  by (simp add: struct___call_single_data_def c_info)

definition enum_timespec_type :: ctype where
  "enum_timespec_type = Enum [
    (''TT_NONE'', 0), (''TT_NATIVE'', 1), (''TT_COMPAT'', 2)]"

lemma info_enum_timespec_type [c_info]: "info enum_timespec_type = (4, 4)"
  by (simp add: enum_timespec_type_def c_info)

definition typedef_old_time32_t :: ctype where
  "typedef_old_time32_t = typedef_s32"

lemma info_typedef_old_time32_t [c_info]: "info typedef_old_time32_t = (4, 4)"
  by (simp add: typedef_old_time32_t_def c_info)

definition struct_old_timespec32 :: ctype where
  "struct_old_timespec32 = Struct [] [
    Mem ''tv_sec'' typedef_old_time32_t, Mem ''tv_nsec'' typedef_s32]"

lemma info_struct_old_timespec32 [c_info]: "info struct_old_timespec32 = (8, 4)"
  by (simp add: struct_old_timespec32_def c_info)

definition struct_load_weight :: ctype where
  "struct_load_weight = Struct [] [
    Mem ''weight'' (Scalar Tulong), Mem ''inv_weight'' typedef_u32]"

lemma info_struct_load_weight [c_info]: "info struct_load_weight = (16, 8)"
  by (simp add: struct_load_weight_def c_info)

definition struct_util_est :: ctype where
  "struct_util_est = Struct [] [
    Mem ''enqueued'' (Scalar Tuint), Mem ''ewma'' (Scalar Tuint)]"

lemma info_struct_util_est [c_info]: "info struct_util_est = (8, 4)"
  by (simp add: struct_util_est_def c_info)

definition union_rcu_special :: ctype where
  "union_rcu_special = Union [] [
    Mem ''b'' (Struct [] [
      Mem ''blocked'' typedef_u8, Mem ''need_qs'' typedef_u8, Mem ''exp_hint'' typedef_u8, Mem ''need_mb'' typedef_u8]),
    Mem ''s'' typedef_u32]"

lemma info_union_rcu_special [c_info]: "info union_rcu_special = (4, 4)"
  by (simp add: union_rcu_special_def c_info)

definition struct_plist_node :: ctype where
  "struct_plist_node = Struct [] [
    Mem ''prio'' (Scalar Tint), Mem ''prio_list'' struct_list_head, Mem ''node_list'' struct_list_head]"

lemma info_struct_plist_node [c_info]: "info struct_plist_node = (40, 8)"
  by (simp add: struct_plist_node_def c_info)

definition struct_prev_cputime :: ctype where
  "struct_prev_cputime = Struct [] [
    Mem ''utime'' typedef_u64, Mem ''stime'' typedef_u64, Mem ''lock'' typedef_raw_spinlock_t]"

lemma info_struct_prev_cputime [c_info]: "info struct_prev_cputime = (24, 8)"
  by (simp add: struct_prev_cputime_def c_info)

definition struct_rb_root_cached :: ctype where
  "struct_rb_root_cached = Struct [] [
    Mem ''rb_root'' struct_rb_root, Mem ''rb_leftmost'' (Ptr ''struct rb_node'')]"

lemma info_struct_rb_root_cached [c_info]: "info struct_rb_root_cached = (16, 8)"
  by (simp add: struct_rb_root_cached_def c_info)

definition struct_timerqueue_head :: ctype where
  "struct_timerqueue_head = Struct [] [
    Mem ''rb_root'' struct_rb_root_cached]"

lemma info_struct_timerqueue_head [c_info]: "info struct_timerqueue_head = (16, 8)"
  by (simp add: struct_timerqueue_head_def c_info)

definition typedef_sigset_t :: ctype where
  "typedef_sigset_t = Struct [] [
    Mem ''sig'' (Array (Scalar Tulong) 1)]"

lemma info_typedef_sigset_t [c_info]: "info typedef_sigset_t = (8, 8)"
  by (simp add: typedef_sigset_t_def c_info)

definition struct_wake_q_node :: ctype where
  "struct_wake_q_node = Struct [] [
    Mem ''next'' (Ptr ''struct wake_q_node'')]"

lemma info_struct_wake_q_node [c_info]: "info struct_wake_q_node = (8, 8)"
  by (simp add: struct_wake_q_node_def c_info)

definition typedef_nodemask_t :: ctype where
  "typedef_nodemask_t = Struct [] [
    Mem ''bits'' (Array (Scalar Tulong) 1)]"

lemma info_typedef_nodemask_t [c_info]: "info typedef_nodemask_t = (8, 8)"
  by (simp add: typedef_nodemask_t_def c_info)

definition struct_seqcount :: ctype where
  "struct_seqcount = Struct [] [
    Mem ''sequence'' (Scalar Tuint)]"

lemma info_struct_seqcount [c_info]: "info struct_seqcount = (4, 4)"
  by (simp add: struct_seqcount_def c_info)

definition typedef_seqcount_t :: ctype where
  "typedef_seqcount_t = struct_seqcount"

lemma info_typedef_seqcount_t [c_info]: "info typedef_seqcount_t = (4, 4)"
  by (simp add: typedef_seqcount_t_def c_info)

definition struct_seqcount_spinlock :: ctype where
  "struct_seqcount_spinlock = Struct [] [
    Mem ''seqcount'' typedef_seqcount_t]"

lemma info_struct_seqcount_spinlock [c_info]: "info struct_seqcount_spinlock = (4, 4)"
  by (simp add: struct_seqcount_spinlock_def c_info)

definition typedef_seqcount_spinlock_t :: ctype where
  "typedef_seqcount_spinlock_t = struct_seqcount_spinlock"

lemma info_typedef_seqcount_spinlock_t [c_info]: "info typedef_seqcount_spinlock_t = (4, 4)"
  by (simp add: typedef_seqcount_spinlock_t_def c_info)

definition struct_kmap_ctrl :: ctype where
  "struct_kmap_ctrl = Struct [] []"

lemma info_struct_kmap_ctrl [c_info]: "info struct_kmap_ctrl = (0, 1)"
  by (simp add: struct_kmap_ctrl_def c_info)

definition struct_debug_info :: ctype where
  "struct_debug_info = Struct [] [
    Mem ''suspended_step'' (Scalar Tint), Mem ''bps_disabled'' (Scalar Tint), Mem ''wps_disabled'' (Scalar Tint),
    Mem ''hbp_break'' (Array (Ptr ''struct perf_event'') 16), Mem ''hbp_watch'' (Array (Ptr ''struct perf_event'') 16)]"

lemma info_struct_debug_info [c_info]: "info struct_debug_info = (272, 8)"
  by (simp add: struct_debug_info_def c_info)

definition typedef_compat_long_t :: ctype where
  "typedef_compat_long_t = typedef_s32"

lemma info_typedef_compat_long_t [c_info]: "info typedef_compat_long_t = (4, 4)"
  by (simp add: typedef_compat_long_t_def c_info)

definition typedef_compat_uptr_t :: ctype where
  "typedef_compat_uptr_t = typedef_u32"

lemma info_typedef_compat_uptr_t [c_info]: "info typedef_compat_uptr_t = (4, 4)"
  by (simp add: typedef_compat_uptr_t_def c_info)

definition typedef_pteval_t :: ctype where
  "typedef_pteval_t = typedef_u64"

lemma info_typedef_pteval_t [c_info]: "info typedef_pteval_t = (8, 8)"
  by (simp add: typedef_pteval_t_def c_info)

definition typedef_pgprot_t :: ctype where
  "typedef_pgprot_t = Struct [] [
    Mem ''pgprot'' typedef_pteval_t]"

lemma info_typedef_pgprot_t [c_info]: "info typedef_pgprot_t = (8, 8)"
  by (simp add: typedef_pgprot_t_def c_info)

definition typedef_siphash_key_t :: ctype where
  "typedef_siphash_key_t = Struct [] [
    Mem ''key'' (Array typedef_u64 2)]"

lemma info_typedef_siphash_key_t [c_info]: "info typedef_siphash_key_t = (16, 8)"
  by (simp add: typedef_siphash_key_t_def c_info)

definition struct_rcuwait :: ctype where
  "struct_rcuwait = Struct [] [
    Mem ''task'' (Ptr ''struct task_struct'')]"

lemma info_struct_rcuwait [c_info]: "info struct_rcuwait = (8, 8)"
  by (simp add: struct_rcuwait_def c_info)

definition typedef_perf_overflow_handler_t :: ctype where
  "typedef_perf_overflow_handler_t = FunPtr ''void'' [''struct perf_event *'', ''struct perf_sample_data *'', ''struct pt_regs *'']"

lemma info_typedef_perf_overflow_handler_t [c_info]: "info typedef_perf_overflow_handler_t = (8, 8)"
  by (simp add: typedef_perf_overflow_handler_t_def c_info)

definition typedef_ftrace_func_t :: ctype where
  "typedef_ftrace_func_t = FunPtr ''void'' [''long unsigned int'', ''long unsigned int'', ''struct ftrace_ops *'', ''struct ftrace_regs *'']"

lemma info_typedef_ftrace_func_t [c_info]: "info typedef_ftrace_func_t = (8, 8)"
  by (simp add: typedef_ftrace_func_t_def c_info)

definition typedef_wait_queue_func_t :: ctype where
  "typedef_wait_queue_func_t = FunPtr ''int'' [''struct wait_queue_entry *'', ''unsigned int'', ''int'', ''void *'']"

lemma info_typedef_wait_queue_func_t [c_info]: "info typedef_wait_queue_func_t = (8, 8)"
  by (simp add: typedef_wait_queue_func_t_def c_info)

definition struct_xarray :: ctype where
  "struct_xarray = Struct [] [
    Mem ''xa_lock'' typedef_spinlock_t, Mem ''xa_flags'' typedef_gfp_t, Mem ''xa_head'' (Ptr ''void'')]"

lemma info_struct_xarray [c_info]: "info struct_xarray = (16, 8)"
  by (simp add: struct_xarray_def c_info)

definition struct_idr :: ctype where
  "struct_idr = Struct [] [
    Mem ''idr_rt'' struct_xarray, Mem ''idr_base'' (Scalar Tuint), Mem ''idr_next'' (Scalar Tuint)]"

lemma info_struct_idr [c_info]: "info struct_idr = (24, 8)"
  by (simp add: struct_idr_def c_info)

definition struct_uid_gid_extent :: ctype where
  "struct_uid_gid_extent = Struct [] [
    Mem ''first'' typedef_u32, Mem ''lower_first'' typedef_u32, Mem ''count'' typedef_u32]"

lemma info_struct_uid_gid_extent [c_info]: "info struct_uid_gid_extent = (12, 4)"
  by (simp add: struct_uid_gid_extent_def c_info)

definition struct_uid_gid_map :: ctype where
  "struct_uid_gid_map = Struct [] [
    Mem ''nr_extents'' typedef_u32,
    Anon (Union [] [
      Mem ''extent'' (Array struct_uid_gid_extent 5),
      Anon (Struct [] [
        Mem ''forward'' (Ptr ''struct uid_gid_extent''), Mem ''reverse'' (Ptr ''struct uid_gid_extent'')])])]"

lemma info_struct_uid_gid_map [c_info]: "info struct_uid_gid_map = (72, 8)"
  by (simp add: struct_uid_gid_map_def c_info)

definition typedef_kgid_t :: ctype where
  "typedef_kgid_t = Struct [] [
    Mem ''val'' typedef_gid_t]"

lemma info_typedef_kgid_t [c_info]: "info typedef_kgid_t = (4, 4)"
  by (simp add: typedef_kgid_t_def c_info)

definition struct_delayed_work :: ctype where
  "struct_delayed_work = Struct [] [
    Mem ''work'' struct_work_struct, Mem ''timer'' struct_timer_list, Mem ''wq'' (Ptr ''struct workqueue_struct''),
    Mem ''cpu'' (Scalar Tint)]"

lemma info_struct_delayed_work [c_info]: "info struct_delayed_work = (88, 8)"
  by (simp add: struct_delayed_work_def c_info)

definition struct_rcu_work :: ctype where
  "struct_rcu_work = Struct [] [
    Mem ''work'' struct_work_struct, Mem ''rcu'' struct_callback_head, Mem ''wq'' (Ptr ''struct workqueue_struct'')]"

lemma info_struct_rcu_work [c_info]: "info struct_rcu_work = (56, 8)"
  by (simp add: struct_rcu_work_def c_info)

definition typedef_rht_hashfn_t :: ctype where
  "typedef_rht_hashfn_t = FunPtr ''u32'' [''const void *'', ''u32'', ''u32'']"

lemma info_typedef_rht_hashfn_t [c_info]: "info typedef_rht_hashfn_t = (8, 8)"
  by (simp add: typedef_rht_hashfn_t_def c_info)

definition typedef_rht_obj_hashfn_t :: ctype where
  "typedef_rht_obj_hashfn_t = FunPtr ''u32'' [''const void *'', ''u32'', ''u32'']"

lemma info_typedef_rht_obj_hashfn_t [c_info]: "info typedef_rht_obj_hashfn_t = (8, 8)"
  by (simp add: typedef_rht_obj_hashfn_t_def c_info)

definition typedef_rht_obj_cmpfn_t :: ctype where
  "typedef_rht_obj_cmpfn_t = FunPtr ''int'' [''struct rhashtable_compare_arg *'', ''const void *'']"

lemma info_typedef_rht_obj_cmpfn_t [c_info]: "info typedef_rht_obj_cmpfn_t = (8, 8)"
  by (simp add: typedef_rht_obj_cmpfn_t_def c_info)

definition struct_rhashtable_params :: ctype where
  "struct_rhashtable_params = Struct [] [
    Mem ''nelem_hint'' typedef_u16, Mem ''key_len'' typedef_u16, Mem ''key_offset'' typedef_u16,
    Mem ''head_offset'' typedef_u16, Mem ''max_size'' (Scalar Tuint), Mem ''min_size'' typedef_u16,
    Mem ''automatic_shrinking'' typedef_bool, Mem ''hashfn'' typedef_rht_hashfn_t,
    Mem ''obj_hashfn'' typedef_rht_obj_hashfn_t, Mem ''obj_cmpfn'' typedef_rht_obj_cmpfn_t]"

lemma info_struct_rhashtable_params [c_info]: "info struct_rhashtable_params = (40, 8)"
  by (simp add: struct_rhashtable_params_def c_info)

definition struct_rhashtable :: ctype where
  "struct_rhashtable = Struct [] [
    Mem ''tbl'' (Ptr ''struct bucket_table''), Mem ''key_len'' (Scalar Tuint), Mem ''max_elems'' (Scalar Tuint),
    Mem ''p'' struct_rhashtable_params, Mem ''rhlist'' typedef_bool, Mem ''run_work'' struct_work_struct,
    Mem ''mutex'' struct_mutex, Mem ''lock'' typedef_spinlock_t, Mem ''nelems'' typedef_atomic_t]"

lemma info_struct_rhashtable [c_info]: "info struct_rhashtable = (136, 8)"
  by (simp add: struct_rhashtable_def c_info)

definition typedef_pgtable_t :: ctype where
  "typedef_pgtable_t = Ptr ''struct page''"

lemma info_typedef_pgtable_t [c_info]: "info typedef_pgtable_t = (8, 8)"
  by (simp add: typedef_pgtable_t_def c_info)

definition struct_seqcount_raw_spinlock :: ctype where
  "struct_seqcount_raw_spinlock = Struct [] [
    Mem ''seqcount'' typedef_seqcount_t]"

lemma info_struct_seqcount_raw_spinlock [c_info]: "info struct_seqcount_raw_spinlock = (4, 4)"
  by (simp add: struct_seqcount_raw_spinlock_def c_info)

definition typedef_seqcount_raw_spinlock_t :: ctype where
  "typedef_seqcount_raw_spinlock_t = struct_seqcount_raw_spinlock"

lemma info_typedef_seqcount_raw_spinlock_t [c_info]: "info typedef_seqcount_raw_spinlock_t = (4, 4)"
  by (simp add: typedef_seqcount_raw_spinlock_t_def c_info)

definition typedef_seqlock_t :: ctype where
  "typedef_seqlock_t = Struct [] [
    Mem ''seqcount'' typedef_seqcount_spinlock_t, Mem ''lock'' typedef_spinlock_t]"

lemma info_typedef_seqlock_t [c_info]: "info typedef_seqlock_t = (8, 4)"
  by (simp add: typedef_seqlock_t_def c_info)

definition struct_hrtimer_clock_base :: ctype where
  "struct_hrtimer_clock_base = Struct [] [
    Mem ''cpu_base'' (Ptr ''struct hrtimer_cpu_base''), Mem ''index'' (Scalar Tuint),
    Mem ''clockid'' typedef_clockid_t, Mem ''seq'' typedef_seqcount_raw_spinlock_t,
    Mem ''running'' (Ptr ''struct hrtimer''), Mem ''active'' struct_timerqueue_head,
    Mem ''get_time'' (FunPtr ''ktime_t'' [''void'']), Mem ''offset'' typedef_ktime_t]"

lemma info_struct_hrtimer_clock_base [c_info]: "info struct_hrtimer_clock_base = (64, 8)"
  by (simp add: struct_hrtimer_clock_base_def c_info)

definition typedef___sighandler_t :: ctype where
  "typedef___sighandler_t = Ptr ''__signalfn_t''"

lemma info_typedef___sighandler_t [c_info]: "info typedef___sighandler_t = (8, 8)"
  by (simp add: typedef___sighandler_t_def c_info)

definition typedef___sigrestore_t :: ctype where
  "typedef___sigrestore_t = Ptr ''__restorefn_t''"

lemma info_typedef___sigrestore_t [c_info]: "info typedef___sigrestore_t = (8, 8)"
  by (simp add: typedef___sigrestore_t_def c_info)

definition struct_pacct_struct :: ctype where
  "struct_pacct_struct = Struct [] [
    Mem ''ac_flag'' (Scalar Tint), Mem ''ac_exitcode'' (Scalar Tlong), Mem ''ac_mem'' (Scalar Tulong),
    Mem ''ac_utime'' typedef_u64, Mem ''ac_stime'' typedef_u64, Mem ''ac_minflt'' (Scalar Tulong),
    Mem ''ac_majflt'' (Scalar Tulong)]"

lemma info_struct_pacct_struct [c_info]: "info struct_pacct_struct = (56, 8)"
  by (simp add: struct_pacct_struct_def c_info)

definition typedef_mm_context_t :: ctype where
  "typedef_mm_context_t = Struct [] [
    Mem ''id'' typedef_atomic64_t, Mem ''sigpage'' (Ptr ''void''), Mem ''pinned'' typedef_refcount_t,
    Mem ''vdso'' (Ptr ''void''), Mem ''flags'' (Scalar Tulong)]"

lemma info_typedef_mm_context_t [c_info]: "info typedef_mm_context_t = (40, 8)"
  by (simp add: typedef_mm_context_t_def c_info)

definition struct_uprobes_state :: ctype where
  "struct_uprobes_state = Struct [] [
    Mem ''xol_area'' (Ptr ''struct xol_area'')]"

lemma info_struct_uprobes_state [c_info]: "info struct_uprobes_state = (8, 8)"
  by (simp add: struct_uprobes_state_def c_info)

definition typedef_key_serial_t :: ctype where
  "typedef_key_serial_t = typedef_int32_t"

lemma info_typedef_key_serial_t [c_info]: "info typedef_key_serial_t = (4, 4)"
  by (simp add: typedef_key_serial_t_def c_info)

definition typedef_key_perm_t :: ctype where
  "typedef_key_perm_t = typedef_uint32_t"

lemma info_typedef_key_perm_t [c_info]: "info typedef_key_perm_t = (4, 4)"
  by (simp add: typedef_key_perm_t_def c_info)

definition struct_reclaim_state :: ctype where
  "struct_reclaim_state = Struct [] [
    Mem ''reclaimed_slab'' (Scalar Tulong)]"

lemma info_struct_reclaim_state [c_info]: "info struct_reclaim_state = (8, 8)"
  by (simp add: struct_reclaim_state_def c_info)

definition struct_kref :: ctype where
  "struct_kref = Struct [] [
    Mem ''refcount'' typedef_refcount_t]"

lemma info_struct_kref [c_info]: "info struct_kref = (4, 4)"
  by (simp add: struct_kref_def c_info)

definition struct_mempolicy :: ctype where
  "struct_mempolicy = Struct [] [
    Mem ''refcnt'' typedef_atomic_t, Mem ''mode'' (Scalar Tushort), Mem ''flags'' (Scalar Tushort),
    Mem ''nodes'' typedef_nodemask_t,
    Mem ''w'' (Union [] [
      Mem ''cpuset_mems_allowed'' typedef_nodemask_t, Mem ''user_nodemask'' typedef_nodemask_t])]"

lemma info_struct_mempolicy [c_info]: "info struct_mempolicy = (24, 8)"
  by (simp add: struct_mempolicy_def c_info)

definition struct_deferred_split :: ctype where
  "struct_deferred_split = Struct [] [
    Mem ''split_queue_lock'' typedef_spinlock_t, Mem ''split_queue'' struct_list_head,
    Mem ''split_queue_len'' (Scalar Tulong)]"

lemma info_struct_deferred_split [c_info]: "info struct_deferred_split = (32, 8)"
  by (simp add: struct_deferred_split_def c_info)

definition enum_rpm_status :: ctype where
  "enum_rpm_status = Enum [
    (''RPM_ACTIVE'', 0), (''RPM_RESUMING'', 1), (''RPM_SUSPENDED'', 2), (''RPM_SUSPENDING'', 3)]"

lemma info_enum_rpm_status [c_info]: "info enum_rpm_status = (4, 4)"
  by (simp add: enum_rpm_status_def c_info)

definition struct_sbitmap :: ctype where
  "struct_sbitmap = Struct [] [
    Mem ''depth'' (Scalar Tuint), Mem ''shift'' (Scalar Tuint), Mem ''map_nr'' (Scalar Tuint),
    Mem ''round_robin'' typedef_bool, Mem ''map'' (Ptr ''struct sbitmap_word''),
    Mem ''alloc_hint'' (Ptr ''unsigned int'')]"

lemma info_struct_sbitmap [c_info]: "info struct_sbitmap = (32, 8)"
  by (simp add: struct_sbitmap_def c_info)

definition struct_sbitmap_queue :: ctype where
  "struct_sbitmap_queue = Struct [] [
    Mem ''sb'' struct_sbitmap, Mem ''wake_batch'' (Scalar Tuint), Mem ''wake_index'' typedef_atomic_t,
    Mem ''ws'' (Ptr ''struct sbq_wait_state''), Mem ''ws_active'' typedef_atomic_t,
    Mem ''min_shallow_depth'' (Scalar Tuint)]"

lemma info_struct_sbitmap_queue [c_info]: "info struct_sbitmap_queue = (56, 8)"
  by (simp add: struct_sbitmap_queue_def c_info)

definition struct_mempool_s :: ctype where
  "struct_mempool_s = Struct [] [
    Mem ''lock'' typedef_spinlock_t, Mem ''min_nr'' (Scalar Tint), Mem ''curr_nr'' (Scalar Tint),
    Mem ''elements'' (Ptr ''void *''), Mem ''pool_data'' (Ptr ''void''), Mem ''alloc'' (Ptr ''mempool_alloc_t''),
    Mem ''free'' (Ptr ''mempool_free_t''), Mem ''wait'' typedef_wait_queue_head_t]"

lemma info_struct_mempool_s [c_info]: "info struct_mempool_s = (72, 8)"
  by (simp add: struct_mempool_s_def c_info)

definition typedef_mempool_t :: ctype where
  "typedef_mempool_t = struct_mempool_s"

lemma info_typedef_mempool_t [c_info]: "info typedef_mempool_t = (72, 8)"
  by (simp add: typedef_mempool_t_def c_info)

definition struct_arch_probe_insn :: ctype where
  "struct_arch_probe_insn = Struct [] [
    Mem ''insn'' (Ptr ''probe_opcode_t''), Mem ''pstate_cc'' (Ptr ''pstate_check_t''),
    Mem ''handler'' (Ptr ''probes_handler_t''), Mem ''restore'' (Scalar Tulong)]"

lemma info_struct_arch_probe_insn [c_info]: "info struct_arch_probe_insn = (32, 8)"
  by (simp add: struct_arch_probe_insn_def c_info)

definition struct_return_instance :: ctype where
  "struct_return_instance = Struct [] [
    Mem ''uprobe'' (Ptr ''struct uprobe''), Mem ''func'' (Scalar Tulong), Mem ''stack'' (Scalar Tulong),
    Mem ''orig_ret_vaddr'' (Scalar Tulong), Mem ''chained'' typedef_bool,
    Mem ''next'' (Ptr ''struct return_instance'')]"

lemma info_struct_return_instance [c_info]: "info struct_return_instance = (48, 8)"
  by (simp add: struct_return_instance_def c_info)

definition typedef_errseq_t :: ctype where
  "typedef_errseq_t = typedef_u32"

lemma info_typedef_errseq_t [c_info]: "info typedef_errseq_t = (4, 4)"
  by (simp add: typedef_errseq_t_def c_info)

definition struct_pp_alloc_cache :: ctype where
  "struct_pp_alloc_cache = Struct [] [
    Mem ''count'' typedef_u32, Mem ''cache'' (Array (Ptr ''struct page'') 128)]"

lemma info_struct_pp_alloc_cache [c_info]: "info struct_pp_alloc_cache = (1032, 8)"
  by (simp add: struct_pp_alloc_cache_def c_info)

definition struct_ptr_ring :: ctype where
  "struct_ptr_ring = Struct [] [
    Mem ''producer'' (Scalar Tint), Mem ''producer_lock'' typedef_spinlock_t, Pad (Scalar Tlong) 64,
    Pad (Scalar Tlong) 64, Pad (Scalar Tlong) 64, Pad (Scalar Tlong) 64, Pad (Scalar Tlong) 64, Pad (Scalar Tlong) 64,
    Pad (Scalar Tlong) 64, Mem ''consumer_head'' (Scalar Tint), Mem ''consumer_tail'' (Scalar Tint),
    Mem ''consumer_lock'' typedef_spinlock_t, Pad (Scalar Tlong) 64, Pad (Scalar Tlong) 64, Pad (Scalar Tlong) 64,
    Pad (Scalar Tlong) 64, Pad (Scalar Tlong) 64, Pad (Scalar Tlong) 64, Mem ''size'' (Scalar Tint),
    Mem ''batch'' (Scalar Tint), Mem ''queue'' (Ptr ''void *''), Pad (Scalar Tlong) 64, Pad (Scalar Tlong) 64,
    Pad (Scalar Tlong) 64, Pad (Scalar Tlong) 64, Pad (Scalar Tlong) 64, Pad (Scalar Tlong) 64]"

lemma info_struct_ptr_ring [c_info]: "info struct_ptr_ring = (192, 8)"
  by (simp add: struct_ptr_ring_def c_info)

definition enum_memory_type :: ctype where
  "enum_memory_type = Enum [
    (''MEMORY_DEVICE_PRIVATE'', 1), (''MEMORY_DEVICE_FS_DAX'', 2), (''MEMORY_DEVICE_GENERIC'', 3),
    (''MEMORY_DEVICE_PCI_P2PDMA'', 4)]"

lemma info_enum_memory_type [c_info]: "info enum_memory_type = (4, 4)"
  by (simp add: enum_memory_type_def c_info)

definition struct_range :: ctype where
  "struct_range = Struct [] [
    Mem ''start'' typedef_u64, Mem ''end'' typedef_u64]"

lemma info_struct_range [c_info]: "info struct_range = (16, 8)"
  by (simp add: struct_range_def c_info)

definition enum_rw_hint :: ctype where
  "enum_rw_hint = Enum [
    (''WRITE_LIFE_NOT_SET'', 0), (''WRITE_LIFE_NONE'', 1), (''WRITE_LIFE_SHORT'', 2), (''WRITE_LIFE_MEDIUM'', 3),
    (''WRITE_LIFE_LONG'', 4), (''WRITE_LIFE_EXTREME'', 5)]"

lemma info_enum_rw_hint [c_info]: "info enum_rw_hint = (4, 4)"
  by (simp add: enum_rw_hint_def c_info)

definition struct_free_area :: ctype where
  "struct_free_area = Struct [] [
    Mem ''free_list'' (Array struct_list_head 6), Mem ''nr_free'' (Scalar Tulong)]"

lemma info_struct_free_area [c_info]: "info struct_free_area = (104, 8)"
  by (simp add: struct_free_area_def c_info)

definition struct_rcu_segcblist :: ctype where
  "struct_rcu_segcblist = Struct [] [
    Mem ''head'' (Ptr ''struct callback_head''), Mem ''tails'' (Array (Ptr ''struct callback_head *'') 4),
    Mem ''gp_seq'' (Array (Scalar Tulong) 4), Mem ''len'' (Scalar Tlong), Mem ''seglen'' (Array (Scalar Tlong) 4),
    Mem ''flags'' typedef_u8]"

lemma info_struct_rcu_segcblist [c_info]: "info struct_rcu_segcblist = (120, 8)"
  by (simp add: struct_rcu_segcblist_def c_info)

definition struct_srcu_data :: ctype where
  "struct_srcu_data = Struct [] [
    Mem ''srcu_lock_count'' (Array (Scalar Tulong) 2), Mem ''srcu_unlock_count'' (Array (Scalar Tulong) 2),
    Pad (Scalar Tlong) 64, Pad (Scalar Tlong) 64, Pad (Scalar Tlong) 64, Pad (Scalar Tlong) 64,
    Mem ''lock'' typedef_spinlock_t, Mem ''srcu_cblist'' struct_rcu_segcblist,
    Mem ''srcu_gp_seq_needed'' (Scalar Tulong), Mem ''srcu_gp_seq_needed_exp'' (Scalar Tulong),
    Mem ''srcu_cblist_invoking'' typedef_bool, Mem ''delay_work'' struct_timer_list, Mem ''work'' struct_work_struct,
    Mem ''srcu_barrier_head'' struct_callback_head, Mem ''mynode'' (Ptr ''struct srcu_node''),
    Mem ''grpmask'' (Scalar Tulong), Mem ''cpu'' (Scalar Tint), Mem ''ssp'' (Ptr ''struct srcu_struct''),
    Pad (Scalar Tlong) 64, Pad (Scalar Tlong) 64, Pad (Scalar Tlong) 64, Pad (Scalar Tlong) 64, Pad (Scalar Tlong) 64,
    Pad (Scalar Tlong) 64]"

lemma info_struct_srcu_data [c_info]: "info struct_srcu_data = (384, 8)"
  by (simp add: struct_srcu_data_def c_info)

definition struct_srcu_node :: ctype where
  "struct_srcu_node = Struct [] [
    Mem ''lock'' typedef_spinlock_t, Mem ''srcu_have_cbs'' (Array (Scalar Tulong) 4),
    Mem ''srcu_data_have_cbs'' (Array (Scalar Tulong) 4), Mem ''srcu_gp_seq_needed_exp'' (Scalar Tulong),
    Mem ''srcu_parent'' (Ptr ''struct srcu_node''), Mem ''grplo'' (Scalar Tint), Mem ''grphi'' (Scalar Tint)]"

lemma info_struct_srcu_node [c_info]: "info struct_srcu_node = (96, 8)"
  by (simp add: struct_srcu_node_def c_info)

definition struct_srcu_struct :: ctype where
  "struct_srcu_struct = Struct [] [
    Mem ''node'' (Array struct_srcu_node 33), Mem ''level'' (Array (Ptr ''struct srcu_node'') 3),
    Mem ''srcu_cb_mutex'' struct_mutex, Mem ''lock'' typedef_spinlock_t, Mem ''srcu_gp_mutex'' struct_mutex,
    Mem ''srcu_idx'' (Scalar Tuint), Mem ''srcu_gp_seq'' (Scalar Tulong), Mem ''srcu_gp_seq_needed'' (Scalar Tulong),
    Mem ''srcu_gp_seq_needed_exp'' (Scalar Tulong), Mem ''srcu_last_gp_end'' (Scalar Tulong),
    Mem ''sda'' (Ptr ''struct srcu_data''), Mem ''srcu_barrier_seq'' (Scalar Tulong),
    Mem ''srcu_barrier_mutex'' struct_mutex, Mem ''srcu_barrier_completion'' struct_completion,
    Mem ''srcu_barrier_cpu_cnt'' typedef_atomic_t, Mem ''work'' struct_delayed_work,
    Mem ''dep_map'' struct_lockdep_map]"

lemma info_struct_srcu_struct [c_info]: "info struct_srcu_struct = (3480, 8)"
  by (simp add: struct_srcu_struct_def c_info)

definition typedef_notifier_fn_t :: ctype where
  "typedef_notifier_fn_t = FunPtr ''int'' [''struct notifier_block *'', ''long unsigned int'', ''void *'']"

lemma info_typedef_notifier_fn_t [c_info]: "info typedef_notifier_fn_t = (8, 8)"
  by (simp add: typedef_notifier_fn_t_def c_info)

definition struct_notifier_block :: ctype where
  "struct_notifier_block = Struct [] [
    Mem ''notifier_call'' typedef_notifier_fn_t, Mem ''next'' (Ptr ''struct notifier_block''),
    Mem ''priority'' (Scalar Tint)]"

lemma info_struct_notifier_block [c_info]: "info struct_notifier_block = (24, 8)"
  by (simp add: struct_notifier_block_def c_info)

definition struct_raw_notifier_head :: ctype where
  "struct_raw_notifier_head = Struct [] [
    Mem ''head'' (Ptr ''struct notifier_block'')]"

lemma info_struct_raw_notifier_head [c_info]: "info struct_raw_notifier_head = (8, 8)"
  by (simp add: struct_raw_notifier_head_def c_info)

definition struct_hlist_bl_head :: ctype where
  "struct_hlist_bl_head = Struct [] [
    Mem ''first'' (Ptr ''struct hlist_bl_node'')]"

lemma info_struct_hlist_bl_head [c_info]: "info struct_hlist_bl_head = (8, 8)"
  by (simp add: struct_hlist_bl_head_def c_info)

definition struct_hlist_bl_node :: ctype where
  "struct_hlist_bl_node = Struct [] [
    Mem ''next'' (Ptr ''struct hlist_bl_node''), Mem ''pprev'' (Ptr ''struct hlist_bl_node *'')]"

lemma info_struct_hlist_bl_node [c_info]: "info struct_hlist_bl_node = (16, 8)"
  by (simp add: struct_hlist_bl_node_def c_info)

definition struct_lockref :: ctype where
  "struct_lockref = Struct [] [
    Anon (Union [] [
      Mem ''lock_count'' typedef___u64,
      Anon (Struct [] [
        Mem ''lock'' typedef_spinlock_t, Mem ''count'' (Scalar Tint)])])]"

lemma info_struct_lockref [c_info]: "info struct_lockref = (8, 8)"
  by (simp add: struct_lockref_def c_info)

definition typedef_qsize_t :: ctype where
  "typedef_qsize_t = Scalar Tllong"

lemma info_typedef_qsize_t [c_info]: "info typedef_qsize_t = (8, 8)"
  by (simp add: typedef_qsize_t_def c_info)

definition struct_rcu_sync :: ctype where
  "struct_rcu_sync = Struct [] [
    Mem ''gp_state'' (Scalar Tint), Mem ''gp_count'' (Scalar Tint), Mem ''gp_wait'' typedef_wait_queue_head_t,
    Mem ''cb_head'' struct_callback_head]"

lemma info_struct_rcu_sync [c_info]: "info struct_rcu_sync = (48, 8)"
  by (simp add: struct_rcu_sync_def c_info)

definition typedef_uuid_t :: ctype where
  "typedef_uuid_t = Struct [] [
    Mem ''b'' (Array typedef___u8 16)]"

lemma info_typedef_uuid_t [c_info]: "info typedef_uuid_t = (16, 1)"
  by (simp add: typedef_uuid_t_def c_info)

definition struct_shrinker :: ctype where
  "struct_shrinker = Struct [] [
    Mem ''count_objects'' (FunPtr ''long unsigned int'' [''struct shrinker *'', ''struct shrink_control *'']),
    Mem ''scan_objects'' (FunPtr ''long unsigned int'' [''struct shrinker *'', ''struct shrink_control *'']),
    Mem ''batch'' (Scalar Tlong), Mem ''seeks'' (Scalar Tint), Mem ''flags'' (Scalar Tuint),
    Mem ''list'' struct_list_head, Mem ''id'' (Scalar Tint), Mem ''nr_deferred'' (Ptr ''atomic_long_t'')]"

lemma info_struct_shrinker [c_info]: "info struct_shrinker = (64, 8)"
  by (simp add: struct_shrinker_def c_info)

definition enum_migrate_mode :: ctype where
  "enum_migrate_mode = Enum [
    (''MIGRATE_ASYNC'', 0), (''MIGRATE_SYNC_LIGHT'', 1), (''MIGRATE_SYNC'', 2), (''MIGRATE_SYNC_NO_COPY'', 3)]"

lemma info_enum_migrate_mode [c_info]: "info enum_migrate_mode = (4, 4)"
  by (simp add: enum_migrate_mode_def c_info)

definition struct_exception_table_entry :: ctype where
  "struct_exception_table_entry = Struct [] [
    Mem ''insn'' (Scalar Tint), Mem ''fixup'' (Scalar Tint)]"

lemma info_struct_exception_table_entry [c_info]: "info struct_exception_table_entry = (8, 4)"
  by (simp add: struct_exception_table_entry_def c_info)

definition typedef_request_key_actor_t :: ctype where
  "typedef_request_key_actor_t = FunPtr ''int'' [''struct key *'', ''void *'']"

lemma info_typedef_request_key_actor_t [c_info]: "info typedef_request_key_actor_t = (8, 8)"
  by (simp add: typedef_request_key_actor_t_def c_info)

definition typedef_key_restrict_link_func_t :: ctype where
  "typedef_key_restrict_link_func_t = FunPtr ''int'' [''struct key *'', ''const struct key_type *'', ''const union key_payload *'', ''struct key *'']"

lemma info_typedef_key_restrict_link_func_t [c_info]: "info typedef_key_restrict_link_func_t = (8, 8)"
  by (simp add: typedef_key_restrict_link_func_t_def c_info)

definition struct_delayed_call :: ctype where
  "struct_delayed_call = Struct [] [
    Mem ''fn'' (FunPtr ''void'' [''void *'']), Mem ''arg'' (Ptr ''void'')]"

lemma info_struct_delayed_call [c_info]: "info struct_delayed_call = (16, 8)"
  by (simp add: struct_delayed_call_def c_info)

definition struct_mod_tree_node :: ctype where
  "struct_mod_tree_node = Struct [] [
    Mem ''mod'' (Ptr ''struct module''), Mem ''node'' struct_latch_tree_node]"

lemma info_struct_mod_tree_node [c_info]: "info struct_mod_tree_node = (56, 8)"
  by (simp add: struct_mod_tree_node_def c_info)

definition struct_mod_plt_sec :: ctype where
  "struct_mod_plt_sec = Struct [] [
    Mem ''plt_shndx'' (Scalar Tint), Mem ''plt_num_entries'' (Scalar Tint), Mem ''plt_max_entries'' (Scalar Tint)]"

lemma info_struct_mod_plt_sec [c_info]: "info struct_mod_plt_sec = (12, 4)"
  by (simp add: struct_mod_plt_sec_def c_info)

definition struct_mod_arch_specific :: ctype where
  "struct_mod_arch_specific = Struct [] [
    Mem ''core'' struct_mod_plt_sec, Mem ''init'' struct_mod_plt_sec,
    Mem ''ftrace_trampolines'' (Ptr ''struct plt_entry'')]"

lemma info_struct_mod_arch_specific [c_info]: "info struct_mod_arch_specific = (32, 8)"
  by (simp add: struct_mod_arch_specific_def c_info)

definition struct_mod_kallsyms :: ctype where
  "struct_mod_kallsyms = Struct [] [
    Mem ''symtab'' (Ptr ''Elf64_Sym''), Mem ''num_symtab'' (Scalar Tuint), Mem ''strtab'' (Ptr ''char''),
    Mem ''typetab'' (Ptr ''char'')]"

lemma info_struct_mod_kallsyms [c_info]: "info struct_mod_kallsyms = (32, 8)"
  by (simp add: struct_mod_kallsyms_def c_info)

definition struct_fasync_struct :: ctype where
  "struct_fasync_struct = Struct [] [
    Mem ''fa_lock'' typedef_rwlock_t, Mem ''magic'' (Scalar Tint), Mem ''fa_fd'' (Scalar Tint),
    Mem ''fa_next'' (Ptr ''struct fasync_struct''), Mem ''fa_file'' (Ptr ''struct file''),
    Mem ''fa_rcu'' struct_callback_head]"

lemma info_struct_fasync_struct [c_info]: "info struct_fasync_struct = (48, 8)"
  by (simp add: struct_fasync_struct_def c_info)

definition struct_super_operations :: ctype where
  "struct_super_operations = Struct [] [
    Mem ''alloc_inode'' (FunPtr ''struct inode *'' [''struct super_block *'']),
    Mem ''destroy_inode'' (FunPtr ''void'' [''struct inode *'']),
    Mem ''free_inode'' (FunPtr ''void'' [''struct inode *'']),
    Mem ''dirty_inode'' (FunPtr ''void'' [''struct inode *'', ''int'']),
    Mem ''write_inode'' (FunPtr ''int'' [''struct inode *'', ''struct writeback_control *'']),
    Mem ''drop_inode'' (FunPtr ''int'' [''struct inode *'']),
    Mem ''evict_inode'' (FunPtr ''void'' [''struct inode *'']),
    Mem ''put_super'' (FunPtr ''void'' [''struct super_block *'']),
    Mem ''sync_fs'' (FunPtr ''int'' [''struct super_block *'', ''int'']),
    Mem ''freeze_super'' (FunPtr ''int'' [''struct super_block *'']),
    Mem ''freeze_fs'' (FunPtr ''int'' [''struct super_block *'']),
    Mem ''thaw_super'' (FunPtr ''int'' [''struct super_block *'']),
    Mem ''unfreeze_fs'' (FunPtr ''int'' [''struct super_block *'']),
    Mem ''statfs'' (FunPtr ''int'' [''struct dentry *'', ''struct kstatfs *'']),
    Mem ''remount_fs'' (FunPtr ''int'' [''struct super_block *'', ''int *'', ''char *'']),
    Mem ''umount_begin'' (FunPtr ''void'' [''struct super_block *'']),
    Mem ''show_options'' (FunPtr ''int'' [''struct seq_file *'', ''struct dentry *'']),
    Mem ''show_devname'' (FunPtr ''int'' [''struct seq_file *'', ''struct dentry *'']),
    Mem ''show_path'' (FunPtr ''int'' [''struct seq_file *'', ''struct dentry *'']),
    Mem ''show_stats'' (FunPtr ''int'' [''struct seq_file *'', ''struct dentry *'']),
    Mem ''quota_read'' (FunPtr ''ssize_t'' [''struct super_block *'', ''int'', ''char *'', ''size_t'', ''loff_t'']),
    Mem ''quota_write'' (FunPtr ''ssize_t'' [''struct super_block *'', ''int'', ''const char *'', ''size_t'', ''loff_t'']),
    Mem ''get_dquots'' (FunPtr ''struct dquot * *'' [''struct inode *'']),
    Mem ''nr_cached_objects'' (FunPtr ''long int'' [''struct super_block *'', ''struct shrink_control *'']),
    Mem ''free_cached_objects'' (FunPtr ''long int'' [''struct super_block *'', ''struct shrink_control *'']),
    Mem ''real_loop'' (FunPtr ''struct file *'' [''struct file *''])]"

lemma info_struct_super_operations [c_info]: "info struct_super_operations = (208, 8)"
  by (simp add: struct_super_operations_def c_info)

definition typedef_blk_status_t :: ctype where
  "typedef_blk_status_t = typedef_u8"

lemma info_typedef_blk_status_t [c_info]: "info typedef_blk_status_t = (1, 1)"
  by (simp add: typedef_blk_status_t_def c_info)

definition struct_bvec_iter :: ctype where
  "struct_bvec_iter = Struct [] [
    Mem ''bi_sector'' typedef_sector_t, Mem ''bi_size'' (Scalar Tuint), Mem ''bi_idx'' (Scalar Tuint),
    Mem ''bi_bvec_done'' (Scalar Tuint)]"

lemma info_struct_bvec_iter [c_info]: "info struct_bvec_iter = (24, 8)"
  by (simp add: struct_bvec_iter_def c_info)

definition struct_kparam_string :: ctype where
  "struct_kparam_string = Struct [] [
    Mem ''maxlen'' (Scalar Tuint), Mem ''string'' (Ptr ''char'')]"

lemma info_struct_kparam_string [c_info]: "info struct_kparam_string = (16, 8)"
  by (simp add: struct_kparam_string_def c_info)

definition struct_kparam_array :: ctype where
  "struct_kparam_array = Struct [] [
    Mem ''max'' (Scalar Tuint), Mem ''elemsize'' (Scalar Tuint), Mem ''num'' (Ptr ''unsigned int''),
    Mem ''ops'' (Ptr ''const struct kernel_param_ops''), Mem ''elem'' (Ptr ''void'')]"

lemma info_struct_kparam_array [c_info]: "info struct_kparam_array = (32, 8)"
  by (simp add: struct_kparam_array_def c_info)

definition struct_error_injection_entry :: ctype where
  "struct_error_injection_entry = Struct [] [
    Mem ''addr'' (Scalar Tulong), Mem ''etype'' (Scalar Tint)]"

lemma info_struct_error_injection_entry [c_info]: "info struct_error_injection_entry = (16, 8)"
  by (simp add: struct_error_injection_entry_def c_info)

definition struct_plt_entry :: ctype where
  "struct_plt_entry = Struct [] [
    Mem ''adrp'' typedef___le32, Mem ''add'' typedef___le32, Mem ''br'' typedef___le32]"

lemma info_struct_plt_entry [c_info]: "info struct_plt_entry = (12, 4)"
  by (simp add: struct_plt_entry_def c_info)

definition enum_probe_type :: ctype where
  "enum_probe_type = Enum [
    (''PROBE_DEFAULT_STRATEGY'', 0), (''PROBE_PREFER_ASYNCHRONOUS'', 1), (''PROBE_FORCE_SYNCHRONOUS'', 2)]"

lemma info_enum_probe_type [c_info]: "info enum_probe_type = (4, 4)"
  by (simp add: enum_probe_type_def c_info)

definition typedef_kernel_ulong_t :: ctype where
  "typedef_kernel_ulong_t = Scalar Tulong"

lemma info_typedef_kernel_ulong_t [c_info]: "info typedef_kernel_ulong_t = (8, 8)"
  by (simp add: typedef_kernel_ulong_t_def c_info)

definition typedef_phandle :: ctype where
  "typedef_phandle = typedef_u32"

lemma info_typedef_phandle [c_info]: "info typedef_phandle = (4, 4)"
  by (simp add: typedef_phandle_def c_info)

definition struct_new_utsname :: ctype where
  "struct_new_utsname = Struct [] [
    Mem ''sysname'' (Array (Scalar Tchar) 65), Mem ''nodename'' (Array (Scalar Tchar) 65),
    Mem ''release'' (Array (Scalar Tchar) 65), Mem ''version'' (Array (Scalar Tchar) 65),
    Mem ''machine'' (Array (Scalar Tchar) 65), Mem ''domainname'' (Array (Scalar Tchar) 65)]"

lemma info_struct_new_utsname [c_info]: "info struct_new_utsname = (390, 1)"
  by (simp add: struct_new_utsname_def c_info)

definition struct_local_ports :: ctype where
  "struct_local_ports = Struct [] [
    Mem ''lock'' typedef_seqlock_t, Mem ''range'' (Array (Scalar Tint) 2), Mem ''warned'' typedef_bool]"

lemma info_struct_local_ports [c_info]: "info struct_local_ports = (20, 4)"
  by (simp add: struct_local_ports_def c_info)

definition struct_cftype :: ctype where
  "struct_cftype = Struct [] [
    Mem ''name'' (Array (Scalar Tchar) 64), Mem ''private'' (Scalar Tulong), Mem ''max_write_len'' typedef_size_t,
    Mem ''flags'' (Scalar Tuint), Mem ''file_offset'' (Scalar Tuint), Mem ''ss'' (Ptr ''struct cgroup_subsys''),
    Mem ''node'' struct_list_head, Mem ''kf_ops'' (Ptr ''struct kernfs_ops''),
    Mem ''open'' (FunPtr ''int'' [''struct kernfs_open_file *'']),
    Mem ''release'' (FunPtr ''void'' [''struct kernfs_open_file *'']),
    Mem ''read_u64'' (FunPtr ''u64'' [''struct cgroup_subsys_state *'', ''struct cftype *'']),
    Mem ''read_s64'' (FunPtr ''s64'' [''struct cgroup_subsys_state *'', ''struct cftype *'']),
    Mem ''seq_show'' (FunPtr ''int'' [''struct seq_file *'', ''void *'']),
    Mem ''seq_start'' (FunPtr ''void *'' [''struct seq_file *'', ''loff_t *'']),
    Mem ''seq_next'' (FunPtr ''void *'' [''struct seq_file *'', ''void *'', ''loff_t *'']),
    Mem ''seq_stop'' (FunPtr ''void'' [''struct seq_file *'', ''void *'']),
    Mem ''write_u64'' (FunPtr ''int'' [''struct cgroup_subsys_state *'', ''struct cftype *'', ''u64'']),
    Mem ''write_s64'' (FunPtr ''int'' [''struct cgroup_subsys_state *'', ''struct cftype *'', ''s64'']),
    Mem ''write'' (FunPtr ''ssize_t'' [''struct kernfs_open_file *'', ''char *'', ''size_t'', ''loff_t'']),
    Mem ''poll'' (FunPtr ''__poll_t'' [''struct kernfs_open_file *'', ''struct poll_table_struct *''])]"

lemma info_struct_cftype [c_info]: "info struct_cftype = (216, 8)"
  by (simp add: struct_cftype_def c_info)

definition typedef_perf_copy_f :: ctype where
  "typedef_perf_copy_f = FunPtr ''long unsigned int'' [''void *'', ''const void *'', ''long unsigned int'', ''long unsigned int'']"

lemma info_typedef_perf_copy_f [c_info]: "info typedef_perf_copy_f = (8, 8)"
  by (simp add: typedef_perf_copy_f_def c_info)

definition typedef_trace_print_func :: ctype where
  "typedef_trace_print_func = FunPtr ''enum print_line_t'' [''struct trace_iterator *'', ''int'', ''struct trace_event *'']"

lemma info_typedef_trace_print_func [c_info]: "info typedef_trace_print_func = (8, 8)"
  by (simp add: typedef_trace_print_func_def c_info)

definition struct_sbitmap_word :: ctype where
  "struct_sbitmap_word = Struct [] [
    Mem ''depth'' (Scalar Tulong), Pad (Scalar Tlong) 64, Pad (Scalar Tlong) 64, Pad (Scalar Tlong) 64,
    Pad (Scalar Tlong) 64, Pad (Scalar Tlong) 64, Pad (Scalar Tlong) 64, Pad (Scalar Tlong) 64,
    Mem ''word'' (Scalar Tulong), Pad (Scalar Tlong) 64, Pad (Scalar Tlong) 64, Pad (Scalar Tlong) 64,
    Pad (Scalar Tlong) 64, Pad (Scalar Tlong) 64, Pad (Scalar Tlong) 64, Pad (Scalar Tlong) 64,
    Mem ''cleared'' (Scalar Tulong), Pad (Scalar Tlong) 64, Pad (Scalar Tlong) 64, Pad (Scalar Tlong) 64,
    Pad (Scalar Tlong) 64, Pad (Scalar Tlong) 64, Pad (Scalar Tlong) 64, Pad (Scalar Tlong) 64]"

lemma info_struct_sbitmap_word [c_info]: "info struct_sbitmap_word = (192, 8)"
  by (simp add: struct_sbitmap_word_def c_info)

definition typedef_req_flags_t :: ctype where
  "typedef_req_flags_t = typedef___u32"

lemma info_typedef_req_flags_t [c_info]: "info typedef_req_flags_t = (4, 4)"
  by (simp add: typedef_req_flags_t_def c_info)

definition enum_mq_rq_state :: ctype where
  "enum_mq_rq_state = Enum [
    (''MQ_RQ_IDLE'', 0), (''MQ_RQ_IN_FLIGHT'', 1), (''MQ_RQ_COMPLETE'', 2)]"

lemma info_enum_mq_rq_state [c_info]: "info enum_mq_rq_state = (4, 4)"
  by (simp add: enum_mq_rq_state_def c_info)

definition struct_shrinker_info :: ctype where
  "struct_shrinker_info = Struct [] [
    Mem ''rcu'' struct_callback_head, Mem ''nr_deferred'' (Ptr ''atomic_long_t''),
    Mem ''map'' (Ptr ''long unsigned int'')]"

lemma info_struct_shrinker_info [c_info]: "info struct_shrinker_info = (32, 8)"
  by (simp add: struct_shrinker_info_def c_info)

definition struct_ipstats_mib :: ctype where
  "struct_ipstats_mib = Struct [] [
    Mem ''mibs'' (Array typedef_u64 37), Mem ''syncp'' struct_u64_stats_sync]"

lemma info_struct_ipstats_mib [c_info]: "info struct_ipstats_mib = (296, 8)"
  by (simp add: struct_ipstats_mib_def c_info)

definition struct_icmp_mib :: ctype where
  "struct_icmp_mib = Struct [] [
    Mem ''mibs'' (Array (Scalar Tulong) 28)]"

lemma info_struct_icmp_mib [c_info]: "info struct_icmp_mib = (224, 8)"
  by (simp add: struct_icmp_mib_def c_info)

definition struct_icmpmsg_mib :: ctype where
  "struct_icmpmsg_mib = Struct [] [
    Mem ''mibs'' (Array typedef_atomic_long_t 512)]"

lemma info_struct_icmpmsg_mib [c_info]: "info struct_icmpmsg_mib = (4096, 8)"
  by (simp add: struct_icmpmsg_mib_def c_info)

definition struct_icmpv6_mib :: ctype where
  "struct_icmpv6_mib = Struct [] [
    Mem ''mibs'' (Array (Scalar Tulong) 6)]"

lemma info_struct_icmpv6_mib [c_info]: "info struct_icmpv6_mib = (48, 8)"
  by (simp add: struct_icmpv6_mib_def c_info)

definition struct_icmpv6msg_mib :: ctype where
  "struct_icmpv6msg_mib = Struct [] [
    Mem ''mibs'' (Array typedef_atomic_long_t 512)]"

lemma info_struct_icmpv6msg_mib [c_info]: "info struct_icmpv6msg_mib = (4096, 8)"
  by (simp add: struct_icmpv6msg_mib_def c_info)

definition struct_linux_mib :: ctype where
  "struct_linux_mib = Struct [] [
    Mem ''mibs'' (Array (Scalar Tulong) 126)]"

lemma info_struct_linux_mib [c_info]: "info struct_linux_mib = (1008, 8)"
  by (simp add: struct_linux_mib_def c_info)

definition struct_linux_tls_mib :: ctype where
  "struct_linux_tls_mib = Struct [] [
    Mem ''mibs'' (Array (Scalar Tulong) 11)]"

lemma info_struct_linux_tls_mib [c_info]: "info struct_linux_tls_mib = (88, 8)"
  by (simp add: struct_linux_tls_mib_def c_info)

definition struct_hlist_nulls_head :: ctype where
  "struct_hlist_nulls_head = Struct [] [
    Mem ''first'' (Ptr ''struct hlist_nulls_node'')]"

lemma info_struct_hlist_nulls_head [c_info]: "info struct_hlist_nulls_head = (8, 8)"
  by (simp add: struct_hlist_nulls_head_def c_info)

definition struct_ip_conntrack_stat :: ctype where
  "struct_ip_conntrack_stat = Struct [] [
    Mem ''found'' (Scalar Tuint), Mem ''invalid'' (Scalar Tuint), Mem ''insert'' (Scalar Tuint),
    Mem ''insert_failed'' (Scalar Tuint), Mem ''clash_resolve'' (Scalar Tuint), Mem ''drop'' (Scalar Tuint),
    Mem ''early_drop'' (Scalar Tuint), Mem ''error'' (Scalar Tuint), Mem ''expect_new'' (Scalar Tuint),
    Mem ''expect_create'' (Scalar Tuint), Mem ''expect_delete'' (Scalar Tuint), Mem ''search_restart'' (Scalar Tuint),
    Mem ''chaintoolong'' (Scalar Tuint)]"

lemma info_struct_ip_conntrack_stat [c_info]: "info struct_ip_conntrack_stat = (52, 4)"
  by (simp add: struct_ip_conntrack_stat_def c_info)

definition struct_ct_pcpu :: ctype where
  "struct_ct_pcpu = Struct [] [
    Mem ''lock'' typedef_spinlock_t, Mem ''unconfirmed'' struct_hlist_nulls_head,
    Mem ''dying'' struct_hlist_nulls_head]"

lemma info_struct_ct_pcpu [c_info]: "info struct_ct_pcpu = (24, 8)"
  by (simp add: struct_ct_pcpu_def c_info)

definition struct_pipe_buffer :: ctype where
  "struct_pipe_buffer = Struct [] [
    Mem ''page'' (Ptr ''struct page''), Mem ''offset'' (Scalar Tuint), Mem ''len'' (Scalar Tuint),
    Mem ''ops'' (Ptr ''const struct pipe_buf_operations''), Mem ''flags'' (Scalar Tuint),
    Mem ''private'' (Scalar Tulong)]"

lemma info_struct_pipe_buffer [c_info]: "info struct_pipe_buffer = (40, 8)"
  by (simp add: struct_pipe_buffer_def c_info)

definition typedef___be64 :: ctype where
  "typedef___be64 = typedef___u64"

lemma info_typedef___be64 [c_info]: "info typedef___be64 = (8, 8)"
  by (simp add: typedef___be64_def c_info)

definition typedef_slab_flags_t :: ctype where
  "typedef_slab_flags_t = Scalar Tuint"

lemma info_typedef_slab_flags_t [c_info]: "info typedef_slab_flags_t = (4, 4)"
  by (simp add: typedef_slab_flags_t_def c_info)

definition typedef_call_single_data_t :: ctype where
  "typedef_call_single_data_t = struct___call_single_data"

lemma info_typedef_call_single_data_t [c_info]: "info typedef_call_single_data_t = (32, 8)"
  by (simp add: typedef_call_single_data_t_def c_info)

definition typedef_tcflag_t :: ctype where
  "typedef_tcflag_t = Scalar Tuint"

lemma info_typedef_tcflag_t [c_info]: "info typedef_tcflag_t = (4, 4)"
  by (simp add: typedef_tcflag_t_def c_info)

definition typedef_cc_t :: ctype where
  "typedef_cc_t = Scalar Tuchar"

lemma info_typedef_cc_t [c_info]: "info typedef_cc_t = (1, 1)"
  by (simp add: typedef_cc_t_def c_info)

definition typedef_speed_t :: ctype where
  "typedef_speed_t = Scalar Tuint"

lemma info_typedef_speed_t [c_info]: "info typedef_speed_t = (4, 4)"
  by (simp add: typedef_speed_t_def c_info)

definition struct_ktermios :: ctype where
  "struct_ktermios = Struct [] [
    Mem ''c_iflag'' typedef_tcflag_t, Mem ''c_oflag'' typedef_tcflag_t, Mem ''c_cflag'' typedef_tcflag_t,
    Mem ''c_lflag'' typedef_tcflag_t, Mem ''c_line'' typedef_cc_t, Mem ''c_cc'' (Array typedef_cc_t 19),
    Mem ''c_ispeed'' typedef_speed_t, Mem ''c_ospeed'' typedef_speed_t]"

lemma info_struct_ktermios [c_info]: "info struct_ktermios = (44, 4)"
  by (simp add: struct_ktermios_def c_info)

definition struct_winsize :: ctype where
  "struct_winsize = Struct [] [
    Mem ''ws_row'' (Scalar Tushort), Mem ''ws_col'' (Scalar Tushort), Mem ''ws_xpixel'' (Scalar Tushort),
    Mem ''ws_ypixel'' (Scalar Tushort)]"

lemma info_struct_winsize [c_info]: "info struct_winsize = (8, 2)"
  by (simp add: struct_winsize_def c_info)

definition typedef___kernel_sa_family_t :: ctype where
  "typedef___kernel_sa_family_t = Scalar Tushort"

lemma info_typedef___kernel_sa_family_t [c_info]: "info typedef___kernel_sa_family_t = (2, 2)"
  by (simp add: typedef___kernel_sa_family_t_def c_info)

definition typedef_sa_family_t :: ctype where
  "typedef_sa_family_t = typedef___kernel_sa_family_t"

lemma info_typedef_sa_family_t [c_info]: "info typedef_sa_family_t = (2, 2)"
  by (simp add: typedef_sa_family_t_def c_info)

definition struct_prot_inuse :: ctype where
  "struct_prot_inuse = Struct [] [
    Mem ''val'' (Array (Scalar Tint) 64)]"

lemma info_struct_prot_inuse [c_info]: "info struct_prot_inuse = (256, 4)"
  by (simp add: struct_prot_inuse_def c_info)

definition struct_icmpv6_mib_device :: ctype where
  "struct_icmpv6_mib_device = Struct [] [
    Mem ''mibs'' (Array typedef_atomic_long_t 6)]"

lemma info_struct_icmpv6_mib_device [c_info]: "info struct_icmpv6_mib_device = (48, 8)"
  by (simp add: struct_icmpv6_mib_device_def c_info)

definition struct_icmpv6msg_mib_device :: ctype where
  "struct_icmpv6msg_mib_device = Struct [] [
    Mem ''mibs'' (Array typedef_atomic_long_t 512)]"

lemma info_struct_icmpv6msg_mib_device [c_info]: "info struct_icmpv6msg_mib_device = (4096, 8)"
  by (simp add: struct_icmpv6msg_mib_device_def c_info)

definition typedef_socket_state :: ctype where
  "typedef_socket_state = Enum [
    (''SS_FREE'', 0), (''SS_UNCONNECTED'', 1), (''SS_CONNECTING'', 2), (''SS_CONNECTED'', 3),
    (''SS_DISCONNECTING'', 4)]"

lemma info_typedef_socket_state [c_info]: "info typedef_socket_state = (4, 4)"
  by (simp add: typedef_socket_state_def c_info)

definition struct_dql :: ctype where
  "struct_dql = Struct [] [
    Mem ''num_queued'' (Scalar Tuint), Mem ''adj_limit'' (Scalar Tuint), Mem ''last_obj_cnt'' (Scalar Tuint),
    Pad (Scalar Tlong) 64, Pad (Scalar Tlong) 64, Pad (Scalar Tlong) 64, Pad (Scalar Tlong) 64, Pad (Scalar Tlong) 64,
    Pad (Scalar Tlong) 64, Mem ''limit'' (Scalar Tuint), Mem ''num_completed'' (Scalar Tuint),
    Mem ''prev_ovlimit'' (Scalar Tuint), Mem ''prev_num_queued'' (Scalar Tuint),
    Mem ''prev_last_obj_cnt'' (Scalar Tuint), Mem ''lowest_slack'' (Scalar Tuint),
    Mem ''slack_start_time'' (Scalar Tulong), Mem ''max_limit'' (Scalar Tuint), Mem ''min_limit'' (Scalar Tuint),
    Mem ''slack_hold_time'' (Scalar Tuint), Pad (Scalar Tlong) 64, Pad (Scalar Tlong) 64]"

lemma info_struct_dql [c_info]: "info struct_dql = (128, 8)"
  by (simp add: struct_dql_def c_info)

definition struct_nlattr :: ctype where
  "struct_nlattr = Struct [] [
    Mem ''nla_len'' typedef___u16, Mem ''nla_type'' typedef___u16]"

lemma info_struct_nlattr [c_info]: "info struct_nlattr = (4, 2)"
  by (simp add: struct_nlattr_def c_info)

definition struct_header_ops :: ctype where
  "struct_header_ops = Struct [] [
    Mem ''create'' (FunPtr ''int'' [''struct sk_buff *'', ''struct net_device *'', ''short unsigned int'', ''const void *'', ''const void *'', ''unsigned int'']),
    Mem ''parse'' (FunPtr ''int'' [''const struct sk_buff *'', ''unsigned char *'']),
    Mem ''cache'' (FunPtr ''int'' [''const struct neighbour *'', ''struct hh_cache *'', ''__be16'']),
    Mem ''cache_update'' (FunPtr ''void'' [''struct hh_cache *'', ''const struct net_device *'', ''const unsigned char *'']),
    Mem ''validate'' (FunPtr ''bool'' [''const char *'', ''unsigned int'']),
    Mem ''parse_protocol'' (FunPtr ''__be16'' [''const struct sk_buff *''])]"

lemma info_struct_header_ops [c_info]: "info struct_header_ops = (48, 8)"
  by (simp add: struct_header_ops_def c_info)

definition struct_rps_map :: ctype where
  "struct_rps_map = Struct [] [
    Mem ''len'' (Scalar Tuint), Mem ''rcu'' struct_callback_head, Mem ''cpus'' (Array typedef_u16 0)]"

lemma info_struct_rps_map [c_info]: "info struct_rps_map = (24, 8)"
  by (simp add: struct_rps_map_def c_info)

definition struct_xps_map :: ctype where
  "struct_xps_map = Struct [] [
    Mem ''len'' (Scalar Tuint), Mem ''alloc_len'' (Scalar Tuint), Mem ''rcu'' struct_callback_head,
    Mem ''queues'' (Array typedef_u16 0)]"

lemma info_struct_xps_map [c_info]: "info struct_xps_map = (24, 8)"
  by (simp add: struct_xps_map_def c_info)

definition struct_ndisc_ops :: ctype where
  "struct_ndisc_ops = Struct [] [
    Mem ''is_useropt'' (FunPtr ''int'' [''u8'']),
    Mem ''parse_options'' (FunPtr ''int'' [''const struct net_device *'', ''struct nd_opt_hdr *'', ''struct ndisc_options *'']),
    Mem ''update'' (FunPtr ''void'' [''const struct net_device *'', ''struct neighbour *'', ''u32'', ''u8'', ''const struct ndisc_options *'']),
    Mem ''opt_addr_space'' (FunPtr ''int'' [''const struct net_device *'', ''u8'', ''struct neighbour *'', ''u8 *'', ''u8 * *'']),
    Mem ''fill_addr_option'' (FunPtr ''void'' [''const struct net_device *'', ''struct sk_buff *'', ''u8'', ''const u8 *'']),
    Mem ''prefix_rcv_add_addr'' (FunPtr ''void'' [''struct net *'', ''struct net_device *'', ''const struct prefix_info *'', ''struct inet6_dev *'', ''struct in6_addr *'', ''int'', ''u32'', ''bool'', ''bool'', ''__u32'', ''u32'', ''bool''])]"

lemma info_struct_ndisc_ops [c_info]: "info struct_ndisc_ops = (48, 8)"
  by (simp add: struct_ndisc_ops_def c_info)

definition struct_flow_block :: ctype where
  "struct_flow_block = Struct [] [
    Mem ''cb_list'' struct_list_head]"

lemma info_struct_flow_block [c_info]: "info struct_flow_block = (16, 8)"
  by (simp add: struct_flow_block_def c_info)

definition struct_ifmcaddr6 :: ctype where
  "struct_ifmcaddr6 = Struct [] [
    Mem ''mca_addr'' struct_in6_addr, Mem ''idev'' (Ptr ''struct inet6_dev''),
    Mem ''next'' (Ptr ''struct ifmcaddr6''), Mem ''mca_sources'' (Ptr ''struct ip6_sf_list''),
    Mem ''mca_tomb'' (Ptr ''struct ip6_sf_list''), Mem ''mca_sfmode'' (Scalar Tuint),
    Mem ''mca_crcount'' (Scalar Tuchar), Mem ''mca_sfcount'' (Array (Scalar Tulong) 2),
    Mem ''mca_work'' struct_delayed_work, Mem ''mca_flags'' (Scalar Tuint), Mem ''mca_users'' (Scalar Tint),
    Mem ''mca_refcnt'' typedef_refcount_t, Mem ''mca_cstamp'' (Scalar Tulong), Mem ''mca_tstamp'' (Scalar Tulong),
    Mem ''rcu'' struct_callback_head]"

lemma info_struct_ifmcaddr6 [c_info]: "info struct_ifmcaddr6 = (208, 8)"
  by (simp add: struct_ifmcaddr6_def c_info)

definition struct_ifacaddr6 :: ctype where
  "struct_ifacaddr6 = Struct [] [
    Mem ''aca_addr'' struct_in6_addr, Mem ''aca_rt'' (Ptr ''struct fib6_info''),
    Mem ''aca_next'' (Ptr ''struct ifacaddr6''), Mem ''aca_addr_lst'' struct_hlist_node,
    Mem ''aca_users'' (Scalar Tint), Mem ''aca_refcnt'' typedef_refcount_t, Mem ''aca_cstamp'' (Scalar Tulong),
    Mem ''aca_tstamp'' (Scalar Tulong), Mem ''rcu'' struct_callback_head]"

lemma info_struct_ifacaddr6 [c_info]: "info struct_ifacaddr6 = (88, 8)"
  by (simp add: struct_ifacaddr6_def c_info)

definition typedef___le16 :: ctype where
  "typedef___le16 = typedef___u16"

lemma info_typedef___le16 [c_info]: "info typedef___le16 = (2, 2)"
  by (simp add: typedef___le16_def c_info)

definition struct_plist_head :: ctype where
  "struct_plist_head = Struct [] [
    Mem ''node_list'' struct_list_head]"

lemma info_struct_plist_head [c_info]: "info struct_plist_head = (16, 8)"
  by (simp add: struct_plist_head_def c_info)

definition enum_freq_qos_req_type :: ctype where
  "enum_freq_qos_req_type = Enum [
    (''FREQ_QOS_MIN'', 1), (''FREQ_QOS_MAX'', 2)]"

lemma info_enum_freq_qos_req_type [c_info]: "info enum_freq_qos_req_type = (4, 4)"
  by (simp add: enum_freq_qos_req_type_def c_info)

definition struct_timens_offsets :: ctype where
  "struct_timens_offsets = Struct [] [
    Mem ''monotonic'' struct_timespec64, Mem ''boottime'' struct_timespec64]"

lemma info_struct_timens_offsets [c_info]: "info struct_timens_offsets = (32, 8)"
  by (simp add: struct_timens_offsets_def c_info)

definition typedef___le64 :: ctype where
  "typedef___le64 = typedef___u64"

lemma info_typedef___le64 [c_info]: "info typedef___le64 = (8, 8)"
  by (simp add: typedef___le64_def c_info)

definition struct_arch_uprobe :: ctype where
  "struct_arch_uprobe = Struct [] [
    Anon (Union [] [
      Mem ''insn'' typedef___le32, Mem ''ixol'' typedef___le32]),
    Mem ''api'' struct_arch_probe_insn, Mem ''simulate'' typedef_bool]"

lemma info_struct_arch_uprobe [c_info]: "info struct_arch_uprobe = (48, 8)"
  by (simp add: struct_arch_uprobe_def c_info)

definition typedef_iommu_fault_handler_t :: ctype where
  "typedef_iommu_fault_handler_t = FunPtr ''int'' [''struct iommu_domain *'', ''struct device *'', ''long unsigned int'', ''int'', ''void *'']"

lemma info_typedef_iommu_fault_handler_t [c_info]: "info typedef_iommu_fault_handler_t = (8, 8)"
  by (simp add: typedef_iommu_fault_handler_t_def c_info)

definition typedef_iommu_dev_fault_handler_t :: ctype where
  "typedef_iommu_dev_fault_handler_t = FunPtr ''int'' [''struct iommu_fault *'', ''void *'']"

lemma info_typedef_iommu_dev_fault_handler_t [c_info]: "info typedef_iommu_dev_fault_handler_t = (8, 8)"
  by (simp add: typedef_iommu_dev_fault_handler_t_def c_info)

definition struct_fdtable :: ctype where
  "struct_fdtable = Struct [] [
    Mem ''max_fds'' (Scalar Tuint), Mem ''fd'' (Ptr ''struct file *''),
    Mem ''close_on_exec'' (Ptr ''long unsigned int''), Mem ''open_fds'' (Ptr ''long unsigned int''),
    Mem ''full_fds_bits'' (Ptr ''long unsigned int''), Mem ''rcu'' struct_callback_head]"

lemma info_struct_fdtable [c_info]: "info struct_fdtable = (56, 8)"
  by (simp add: struct_fdtable_def c_info)

definition struct_workqueue_struct :: ctype where
  "struct_workqueue_struct = Struct [] [
    Mem ''pwqs'' struct_list_head, Mem ''list'' struct_list_head, Mem ''mutex'' struct_mutex,
    Mem ''work_color'' (Scalar Tint), Mem ''flush_color'' (Scalar Tint), Mem ''nr_pwqs_to_flush'' typedef_atomic_t,
    Mem ''first_flusher'' (Ptr ''struct wq_flusher''), Mem ''flusher_queue'' struct_list_head,
    Mem ''flusher_overflow'' struct_list_head, Mem ''maydays'' struct_list_head,
    Mem ''rescuer'' (Ptr ''struct worker''), Mem ''nr_drainers'' (Scalar Tint),
    Mem ''saved_max_active'' (Scalar Tint), Mem ''unbound_attrs'' (Ptr ''struct workqueue_attrs''),
    Mem ''dfl_pwq'' (Ptr ''struct pool_workqueue''), Mem ''wq_dev'' (Ptr ''struct wq_device''),
    Mem ''name'' (Array (Scalar Tchar) 24), Mem ''rcu'' struct_callback_head, Pad (Scalar Tlong) 64,
    Pad (Scalar Tlong) 64, Pad (Scalar Tlong) 64, Pad (Scalar Tlong) 64, Pad (Scalar Tlong) 64,
    Mem ''flags'' (Scalar Tuint), Mem ''cpu_pwqs'' (Ptr ''struct pool_workqueue''),
    Mem ''numa_pwq_tbl'' (Array (Ptr ''struct pool_workqueue'') 0), Pad (Scalar Tlong) 64, Pad (Scalar Tlong) 64,
    Pad (Scalar Tlong) 64, Pad (Scalar Tlong) 64, Pad (Scalar Tlong) 64, Pad (Scalar Tlong) 64]"

lemma info_struct_workqueue_struct [c_info]: "info struct_workqueue_struct = (320, 8)"
  by (simp add: struct_workqueue_struct_def c_info)

definition struct_workqueue_attrs :: ctype where
  "struct_workqueue_attrs = Struct [] [
    Mem ''nice'' (Scalar Tint), Mem ''cpumask'' typedef_cpumask_var_t, Mem ''no_numa'' typedef_bool]"

lemma info_struct_workqueue_attrs [c_info]: "info struct_workqueue_attrs = (80, 8)"
  by (simp add: struct_workqueue_attrs_def c_info)

definition struct_worker :: ctype where
  "struct_worker = Struct [] [
    Anon (Union [] [
      Mem ''entry'' struct_list_head, Mem ''hentry'' struct_hlist_node]),
    Mem ''current_work'' (Ptr ''struct work_struct''), Mem ''current_func'' typedef_work_func_t,
    Mem ''current_pwq'' (Ptr ''struct pool_workqueue''), Mem ''current_color'' (Scalar Tuint),
    Mem ''scheduled'' struct_list_head, Mem ''task'' (Ptr ''struct task_struct''),
    Mem ''pool'' (Ptr ''struct worker_pool''), Mem ''node'' struct_list_head, Mem ''last_active'' (Scalar Tulong),
    Mem ''flags'' (Scalar Tuint), Mem ''id'' (Scalar Tint), Mem ''sleeping'' (Scalar Tint),
    Mem ''desc'' (Array (Scalar Tchar) 24), Mem ''rescue_wq'' (Ptr ''struct workqueue_struct''),
    Mem ''last_func'' typedef_work_func_t]"

lemma info_struct_worker [c_info]: "info struct_worker = (160, 8)"
  by (simp add: struct_worker_def c_info)

definition struct_pool_workqueue :: ctype where
  "struct_pool_workqueue = Struct [] [
    Mem ''pool'' (Ptr ''struct worker_pool''), Mem ''wq'' (Ptr ''struct workqueue_struct''),
    Mem ''work_color'' (Scalar Tint), Mem ''flush_color'' (Scalar Tint), Mem ''refcnt'' (Scalar Tint),
    Mem ''nr_in_flight'' (Array (Scalar Tint) 16), Mem ''nr_active'' (Scalar Tint), Mem ''max_active'' (Scalar Tint),
    Mem ''inactive_works'' struct_list_head, Mem ''pwqs_node'' struct_list_head, Mem ''mayday_node'' struct_list_head,
    Mem ''unbound_release_work'' struct_work_struct, Mem ''rcu'' struct_callback_head, Pad (Scalar Tlong) 64,
    Pad (Scalar Tlong) 64, Pad (Scalar Tlong) 64, Pad (Scalar Tlong) 64, Pad (Scalar Tlong) 64, Pad (Scalar Tlong) 64,
    Pad (Scalar Tlong) 64]"

lemma info_struct_pool_workqueue [c_info]: "info struct_pool_workqueue = (256, 8)"
  by (simp add: struct_pool_workqueue_def c_info)

definition struct_wq_flusher :: ctype where
  "struct_wq_flusher = Struct [] [
    Mem ''list'' struct_list_head, Mem ''flush_color'' (Scalar Tint), Mem ''done'' struct_completion]"

lemma info_struct_wq_flusher [c_info]: "info struct_wq_flusher = (56, 8)"
  by (simp add: struct_wq_flusher_def c_info)

definition struct_lsmblob :: ctype where
  "struct_lsmblob = Struct [] [
    Mem ''secid'' (Array typedef_u32 4)]"

lemma info_struct_lsmblob [c_info]: "info struct_lsmblob = (16, 4)"
  by (simp add: struct_lsmblob_def c_info)

definition typedef_cpu_stop_fn_t :: ctype where
  "typedef_cpu_stop_fn_t = FunPtr ''int'' [''void *'']"

lemma info_typedef_cpu_stop_fn_t [c_info]: "info typedef_cpu_stop_fn_t = (8, 8)"
  by (simp add: typedef_cpu_stop_fn_t_def c_info)

definition struct_ww_acquire_ctx :: ctype where
  "struct_ww_acquire_ctx = Struct [] [
    Mem ''task'' (Ptr ''struct task_struct''), Mem ''stamp'' (Scalar Tulong), Mem ''acquired'' (Scalar Tuint),
    Mem ''wounded'' (Scalar Tushort), Mem ''is_wait_die'' (Scalar Tushort)]"

lemma info_struct_ww_acquire_ctx [c_info]: "info struct_ww_acquire_ctx = (24, 8)"
  by (simp add: struct_ww_acquire_ctx_def c_info)

definition struct_hrtimer_sleeper :: ctype where
  "struct_hrtimer_sleeper = Struct [] [
    Mem ''timer'' struct_hrtimer, Mem ''task'' (Ptr ''struct task_struct'')]"

lemma info_struct_hrtimer_sleeper [c_info]: "info struct_hrtimer_sleeper = (72, 8)"
  by (simp add: struct_hrtimer_sleeper_def c_info)

definition typedef___kernel_fsid_t :: ctype where
  "typedef___kernel_fsid_t = Struct [] [
    Mem ''val'' (Array (Scalar Tint) 2)]"

lemma info_typedef___kernel_fsid_t [c_info]: "info typedef___kernel_fsid_t = (8, 4)"
  by (simp add: typedef___kernel_fsid_t_def c_info)

definition typedef___kernel_mqd_t :: ctype where
  "typedef___kernel_mqd_t = Scalar Tint"

lemma info_typedef___kernel_mqd_t [c_info]: "info typedef___kernel_mqd_t = (4, 4)"
  by (simp add: typedef___kernel_mqd_t_def c_info)

definition typedef_mqd_t :: ctype where
  "typedef_mqd_t = typedef___kernel_mqd_t"

lemma info_typedef_mqd_t [c_info]: "info typedef_mqd_t = (4, 4)"
  by (simp add: typedef_mqd_t_def c_info)

definition struct_mq_attr :: ctype where
  "struct_mq_attr = Struct [] [
    Mem ''mq_flags'' typedef___kernel_long_t, Mem ''mq_maxmsg'' typedef___kernel_long_t,
    Mem ''mq_msgsize'' typedef___kernel_long_t, Mem ''mq_curmsgs'' typedef___kernel_long_t,
    Mem ''__reserved'' (Array typedef___kernel_long_t 4)]"

lemma info_struct_mq_attr [c_info]: "info struct_mq_attr = (64, 8)"
  by (simp add: struct_mq_attr_def c_info)

definition struct_action_cache :: ctype where
  "struct_action_cache = Struct [] [
    Mem ''allow_native'' (Array (Scalar Tulong) 8), Mem ''allow_compat'' (Array (Scalar Tulong) 8)]"

lemma info_struct_action_cache [c_info]: "info struct_action_cache = (128, 8)"
  by (simp add: struct_action_cache_def c_info)

definition struct_prog_entry :: ctype where
  "struct_prog_entry = Struct [] [
    Mem ''target'' (Scalar Tint), Mem ''when_to_branch'' (Scalar Tint), Mem ''pred'' (Ptr ''struct filter_pred'')]"

lemma info_struct_prog_entry [c_info]: "info struct_prog_entry = (16, 8)"
  by (simp add: struct_prog_entry_def c_info)

definition struct_bucket_table :: ctype where
  "struct_bucket_table = Struct [] [
    Mem ''size'' (Scalar Tuint), Mem ''nest'' (Scalar Tuint), Mem ''hash_rnd'' typedef_u32,
    Mem ''walkers'' struct_list_head, Mem ''rcu'' struct_callback_head,
    Mem ''future_tbl'' (Ptr ''struct bucket_table''), Mem ''dep_map'' struct_lockdep_map, Pad (Scalar Tlong) 64,
    Mem ''buckets'' (Array (Ptr ''struct rhash_lock_head'') 0)]"

lemma info_struct_bucket_table [c_info]: "info struct_bucket_table = (64, 8)"
  by (simp add: struct_bucket_table_def c_info)

definition struct_bucket :: ctype where
  "struct_bucket = Struct [] [
    Mem ''head'' struct_hlist_nulls_head,
    Anon (Union [] [
      Mem ''raw_lock'' typedef_raw_spinlock_t, Mem ''lock'' typedef_spinlock_t])]"

lemma info_struct_bucket [c_info]: "info struct_bucket = (16, 8)"
  by (simp add: struct_bucket_def c_info)

definition struct_ip_ra_chain :: ctype where
  "struct_ip_ra_chain = Struct [] [
    Mem ''next'' (Ptr ''struct ip_ra_chain''), Mem ''sk'' (Ptr ''struct sock''),
    Anon (Union [] [
      Mem ''destructor'' (FunPtr ''void'' [''struct sock *'']), Mem ''saved_sk'' (Ptr ''struct sock'')]),
    Mem ''rcu'' struct_callback_head]"

lemma info_struct_ip_ra_chain [c_info]: "info struct_ip_ra_chain = (40, 8)"
  by (simp add: struct_ip_ra_chain_def c_info)

definition struct_in_addr :: ctype where
  "struct_in_addr = Struct [] [
    Mem ''s_addr'' typedef___be32]"

lemma info_struct_in_addr [c_info]: "info struct_in_addr = (4, 4)"
  by (simp add: struct_in_addr_def c_info)

definition struct_capture_control :: ctype where
  "struct_capture_control = Struct [] [
    Mem ''cc'' (Ptr ''struct compact_control''), Mem ''page'' (Ptr ''struct page'')]"

lemma info_struct_capture_control [c_info]: "info struct_capture_control = (16, 8)"
  by (simp add: struct_capture_control_def c_info)

definition struct_compact_control :: ctype where
  "struct_compact_control = Struct [] [
    Mem ''freepages'' struct_list_head, Mem ''migratepages'' struct_list_head, Mem ''nr_freepages'' (Scalar Tuint),
    Mem ''nr_migratepages'' (Scalar Tuint), Mem ''free_pfn'' (Scalar Tulong), Mem ''migrate_pfn'' (Scalar Tulong),
    Mem ''fast_start_pfn'' (Scalar Tulong), Mem ''zone'' (Ptr ''struct zone''),
    Mem ''total_migrate_scanned'' (Scalar Tulong), Mem ''total_free_scanned'' (Scalar Tulong),
    Mem ''fast_search_fail'' (Scalar Tushort), Mem ''search_order'' (Scalar Tshort), Mem ''gfp_mask'' typedef_gfp_t,
    Mem ''order'' (Scalar Tint), Mem ''migratetype'' (Scalar Tint), Mem ''alloc_flags'' (Scalar Tuint),
    Mem ''highest_zoneidx'' (Scalar Tint), Mem ''mode'' enum_migrate_mode, Mem ''ignore_skip_hint'' typedef_bool,
    Mem ''no_set_skip_hint'' typedef_bool, Mem ''ignore_block_suitable'' typedef_bool,
    Mem ''direct_compaction'' typedef_bool, Mem ''proactive_compaction'' typedef_bool,
    Mem ''whole_zone'' typedef_bool, Mem ''contended'' typedef_bool, Mem ''rescan'' typedef_bool,
    Mem ''alloc_contig'' typedef_bool]"

lemma info_struct_compact_control [c_info]: "info struct_compact_control = (128, 8)"
  by (simp add: struct_compact_control_def c_info)

definition struct_watch_list :: ctype where
  "struct_watch_list = Struct [] [
    Mem ''rcu'' struct_callback_head, Mem ''watchers'' struct_hlist_head,
    Mem ''release_watch'' (FunPtr ''void'' [''struct watch *'']), Mem ''lock'' typedef_spinlock_t]"

lemma info_struct_watch_list [c_info]: "info struct_watch_list = (40, 8)"
  by (simp add: struct_watch_list_def c_info)

definition struct_watch_queue :: ctype where
  "struct_watch_queue = Struct [] [
    Mem ''rcu'' struct_callback_head, Mem ''filter'' (Ptr ''struct watch_filter''),
    Mem ''pipe'' (Ptr ''struct pipe_inode_info''), Mem ''watches'' struct_hlist_head,
    Mem ''notes'' (Ptr ''struct page *''), Mem ''notes_bitmap'' (Ptr ''long unsigned int''),
    Mem ''usage'' struct_kref, Mem ''lock'' typedef_spinlock_t, Mem ''nr_notes'' (Scalar Tuint),
    Mem ''nr_pages'' (Scalar Tuint), Mem ''defunct'' typedef_bool]"

lemma info_struct_watch_queue [c_info]: "info struct_watch_queue = (80, 8)"
  by (simp add: struct_watch_queue_def c_info)

definition struct_reciprocal_value :: ctype where
  "struct_reciprocal_value = Struct [] [
    Mem ''m'' typedef_u32, Mem ''sh1'' typedef_u8, Mem ''sh2'' typedef_u8]"

lemma info_struct_reciprocal_value [c_info]: "info struct_reciprocal_value = (8, 4)"
  by (simp add: struct_reciprocal_value_def c_info)

definition typedef_local_lock_t :: ctype where
  "typedef_local_lock_t = Struct [] []"

lemma info_typedef_local_lock_t [c_info]: "info typedef_local_lock_t = (0, 1)"
  by (simp add: typedef_local_lock_t_def c_info)

definition struct_cma :: ctype where
  "struct_cma = Struct [] [
    Mem ''base_pfn'' (Scalar Tulong), Mem ''count'' (Scalar Tulong), Mem ''bitmap'' (Ptr ''long unsigned int''),
    Mem ''order_per_bit'' (Scalar Tuint), Mem ''lock'' typedef_spinlock_t, Mem ''name'' (Array (Scalar Tchar) 64),
    Mem ''nr_pages_succeeded'' typedef_atomic64_t, Mem ''nr_pages_failed'' typedef_atomic64_t,
    Mem ''cma_kobj'' (Ptr ''struct cma_kobject'')]"

lemma info_struct_cma [c_info]: "info struct_cma = (120, 8)"
  by (simp add: struct_cma_def c_info)

definition struct_saved :: ctype where
  "struct_saved = Struct [] [
    Mem ''link'' struct_path, Mem ''done'' struct_delayed_call, Mem ''name'' (Ptr ''const char''),
    Mem ''seq'' (Scalar Tuint)]"

lemma info_struct_saved [c_info]: "info struct_saved = (48, 8)"
  by (simp add: struct_saved_def c_info)

definition typedef_nlink_t :: ctype where
  "typedef_nlink_t = typedef_u32"

lemma info_typedef_nlink_t [c_info]: "info typedef_nlink_t = (4, 4)"
  by (simp add: typedef_nlink_t_def c_info)

definition typedef_proc_write_t :: ctype where
  "typedef_proc_write_t = FunPtr ''int'' [''struct file *'', ''char *'', ''size_t'']"

lemma info_typedef_proc_write_t [c_info]: "info typedef_proc_write_t = (8, 8)"
  by (simp add: typedef_proc_write_t_def c_info)

definition struct_eventfd_ctx :: ctype where
  "struct_eventfd_ctx = Struct [] [
    Mem ''kref'' struct_kref, Mem ''wqh'' typedef_wait_queue_head_t, Mem ''count'' typedef___u64,
    Mem ''flags'' (Scalar Tuint), Mem ''id'' (Scalar Tint)]"

lemma info_struct_eventfd_ctx [c_info]: "info struct_eventfd_ctx = (48, 8)"
  by (simp add: struct_eventfd_ctx_def c_info)

definition struct_userfaultfd_ctx :: ctype where
  "struct_userfaultfd_ctx = Struct [] [
    Mem ''fault_pending_wqh'' typedef_wait_queue_head_t, Mem ''fault_wqh'' typedef_wait_queue_head_t,
    Mem ''fd_wqh'' typedef_wait_queue_head_t, Mem ''event_wqh'' typedef_wait_queue_head_t,
    Mem ''refile_seq'' typedef_seqcount_spinlock_t, Mem ''refcount'' typedef_refcount_t, Mem ''flags'' (Scalar Tuint),
    Mem ''features'' (Scalar Tuint), Mem ''released'' typedef_bool, Mem ''mmap_changing'' typedef_atomic_t,
    Mem ''mm'' (Ptr ''struct mm_struct'')]"

lemma info_struct_userfaultfd_ctx [c_info]: "info struct_userfaultfd_ctx = (128, 8)"
  by (simp add: struct_userfaultfd_ctx_def c_info)

definition struct_kioctx_table :: ctype where
  "struct_kioctx_table = Struct [] [
    Mem ''rcu'' struct_callback_head, Mem ''nr'' (Scalar Tuint), Mem ''table'' (Array (Ptr ''struct kioctx'') 0)]"

lemma info_struct_kioctx_table [c_info]: "info struct_kioctx_table = (24, 8)"
  by (simp add: struct_kioctx_table_def c_info)

definition struct_merkle_tree_params :: ctype where
  "struct_merkle_tree_params = Struct [] [
    Mem ''hash_alg'' (Ptr ''struct fsverity_hash_alg''), Mem ''hashstate'' (Ptr ''const u8''),
    Mem ''digest_size'' (Scalar Tuint), Mem ''block_size'' (Scalar Tuint), Mem ''hashes_per_block'' (Scalar Tuint),
    Mem ''log_blocksize'' (Scalar Tuint), Mem ''log_arity'' (Scalar Tuint), Mem ''num_levels'' (Scalar Tuint),
    Mem ''tree_size'' typedef_u64, Mem ''level0_blocks'' (Scalar Tulong), Mem ''level_start'' (Array typedef_u64 8)]"

lemma info_struct_merkle_tree_params [c_info]: "info struct_merkle_tree_params = (120, 8)"
  by (simp add: struct_merkle_tree_params_def c_info)

definition struct_in6_pktinfo :: ctype where
  "struct_in6_pktinfo = Struct [] [
    Mem ''ipi6_addr'' struct_in6_addr, Mem ''ipi6_ifindex'' (Scalar Tint)]"

lemma info_struct_in6_pktinfo [c_info]: "info struct_in6_pktinfo = (20, 4)"
  by (simp add: struct_in6_pktinfo_def c_info)

definition typedef_xfrm_address_t :: ctype where
  "typedef_xfrm_address_t = Union [] [
    Mem ''a4'' typedef___be32, Mem ''a6'' (Array typedef___be32 4), Mem ''in6'' struct_in6_addr]"

lemma info_typedef_xfrm_address_t [c_info]: "info typedef_xfrm_address_t = (16, 4)"
  by (simp add: typedef_xfrm_address_t_def c_info)

definition struct_fnhe_hash_bucket :: ctype where
  "struct_fnhe_hash_bucket = Struct [] [
    Mem ''chain'' (Ptr ''struct fib_nh_exception'')]"

lemma info_struct_fnhe_hash_bucket [c_info]: "info struct_fnhe_hash_bucket = (8, 8)"
  by (simp add: struct_fnhe_hash_bucket_def c_info)

definition enum_rq_qos_id :: ctype where
  "enum_rq_qos_id = Enum [
    (''RQ_QOS_WBT'', 0), (''RQ_QOS_LATENCY'', 1), (''RQ_QOS_COST'', 2), (''RQ_QOS_IOPRIO'', 3)]"

lemma info_enum_rq_qos_id [c_info]: "info enum_rq_qos_id = (4, 4)"
  by (simp add: enum_rq_qos_id_def c_info)

definition struct_rq_qos :: ctype where
  "struct_rq_qos = Struct [] [
    Mem ''ops'' (Ptr ''struct rq_qos_ops''), Mem ''q'' (Ptr ''struct request_queue''), Mem ''id'' enum_rq_qos_id,
    Mem ''next'' (Ptr ''struct rq_qos''), Mem ''debugfs_dir'' (Ptr ''struct dentry'')]"

lemma info_struct_rq_qos [c_info]: "info struct_rq_qos = (40, 8)"
  by (simp add: struct_rq_qos_def c_info)

definition struct_throtl_service_queue :: ctype where
  "struct_throtl_service_queue = Struct [] [
    Mem ''parent_sq'' (Ptr ''struct throtl_service_queue''), Mem ''queued'' (Array struct_list_head 2),
    Mem ''nr_queued'' (Array (Scalar Tuint) 2), Mem ''pending_tree'' struct_rb_root_cached,
    Mem ''nr_pending'' (Scalar Tuint), Mem ''first_pending_disptime'' (Scalar Tulong),
    Mem ''pending_timer'' struct_timer_list]"

lemma info_struct_throtl_service_queue [c_info]: "info struct_throtl_service_queue = (120, 8)"
  by (simp add: struct_throtl_service_queue_def c_info)

definition struct_latency_bucket :: ctype where
  "struct_latency_bucket = Struct [] [
    Mem ''total_latency'' (Scalar Tulong), Mem ''samples'' (Scalar Tint)]"

lemma info_struct_latency_bucket [c_info]: "info struct_latency_bucket = (16, 8)"
  by (simp add: struct_latency_bucket_def c_info)

definition struct_avg_latency_bucket :: ctype where
  "struct_avg_latency_bucket = Struct [] [
    Mem ''latency'' (Scalar Tulong), Mem ''valid'' typedef_bool]"

lemma info_struct_avg_latency_bucket [c_info]: "info struct_avg_latency_bucket = (16, 8)"
  by (simp add: struct_avg_latency_bucket_def c_info)

definition struct_throtl_data :: ctype where
  "struct_throtl_data = Struct [] [
    Mem ''service_queue'' struct_throtl_service_queue, Mem ''queue'' (Ptr ''struct request_queue''),
    Mem ''nr_queued'' (Array (Scalar Tuint) 2), Mem ''throtl_slice'' (Scalar Tuint),
    Mem ''dispatch_work'' struct_work_struct, Mem ''limit_index'' (Scalar Tuint),
    Mem ''limit_valid'' (Array typedef_bool 2), Mem ''low_upgrade_time'' (Scalar Tulong),
    Mem ''low_downgrade_time'' (Scalar Tulong), Mem ''scale'' (Scalar Tuint),
    Mem ''tmp_buckets'' (Array struct_latency_bucket 18), Mem ''avg_buckets'' (Array struct_avg_latency_bucket 18),
    Mem ''latency_buckets'' (Array (Ptr ''struct latency_bucket'') 2), Mem ''last_calculate_time'' (Scalar Tulong),
    Mem ''filtered_latency'' (Scalar Tulong), Mem ''track_bio_latency'' typedef_bool]"

lemma info_struct_throtl_data [c_info]: "info struct_throtl_data = (824, 8)"
  by (simp add: struct_throtl_data_def c_info)

definition struct_phy_c45_device_ids :: ctype where
  "struct_phy_c45_device_ids = Struct [] [
    Mem ''devices_in_package'' typedef_u32, Mem ''mmds_present'' typedef_u32,
    Mem ''device_ids'' (Array typedef_u32 32)]"

lemma info_struct_phy_c45_device_ids [c_info]: "info struct_phy_c45_device_ids = (136, 4)"
  by (simp add: struct_phy_c45_device_ids_def c_info)

definition enum_phy_state :: ctype where
  "enum_phy_state = Enum [
    (''PHY_DOWN'', 0), (''PHY_READY'', 1), (''PHY_HALTED'', 2), (''PHY_UP'', 3), (''PHY_RUNNING'', 4),
    (''PHY_NOLINK'', 5), (''PHY_CABLETEST'', 6)]"

lemma info_enum_phy_state [c_info]: "info enum_phy_state = (4, 4)"
  by (simp add: enum_phy_state_def c_info)

definition typedef_phy_interface_t :: ctype where
  "typedef_phy_interface_t = Enum [
    (''PHY_INTERFACE_MODE_NA'', 0), (''PHY_INTERFACE_MODE_INTERNAL'', 1), (''PHY_INTERFACE_MODE_MII'', 2),
    (''PHY_INTERFACE_MODE_GMII'', 3), (''PHY_INTERFACE_MODE_SGMII'', 4), (''PHY_INTERFACE_MODE_TBI'', 5),
    (''PHY_INTERFACE_MODE_REVMII'', 6), (''PHY_INTERFACE_MODE_RMII'', 7), (''PHY_INTERFACE_MODE_REVRMII'', 8),
    (''PHY_INTERFACE_MODE_RGMII'', 9), (''PHY_INTERFACE_MODE_RGMII_ID'', 10), (''PHY_INTERFACE_MODE_RGMII_RXID'', 11),
    (''PHY_INTERFACE_MODE_RGMII_TXID'', 12), (''PHY_INTERFACE_MODE_RTBI'', 13), (''PHY_INTERFACE_MODE_SMII'', 14),
    (''PHY_INTERFACE_MODE_XGMII'', 15), (''PHY_INTERFACE_MODE_XLGMII'', 16), (''PHY_INTERFACE_MODE_MOCA'', 17),
    (''PHY_INTERFACE_MODE_QSGMII'', 18), (''PHY_INTERFACE_MODE_TRGMII'', 19), (''PHY_INTERFACE_MODE_100BASEX'', 20),
    (''PHY_INTERFACE_MODE_1000BASEX'', 21), (''PHY_INTERFACE_MODE_2500BASEX'', 22),
    (''PHY_INTERFACE_MODE_5GBASER'', 23), (''PHY_INTERFACE_MODE_RXAUI'', 24), (''PHY_INTERFACE_MODE_XAUI'', 25),
    (''PHY_INTERFACE_MODE_10GBASER'', 26), (''PHY_INTERFACE_MODE_25GBASER'', 27),
    (''PHY_INTERFACE_MODE_USXGMII'', 28), (''PHY_INTERFACE_MODE_10GKR'', 29), (''PHY_INTERFACE_MODE_MAX'', 30)]"

lemma info_typedef_phy_interface_t [c_info]: "info typedef_phy_interface_t = (4, 4)"
  by (simp add: typedef_phy_interface_t_def c_info)

definition struct_mii_timestamper :: ctype where
  "struct_mii_timestamper = Struct [] [
    Mem ''rxtstamp'' (FunPtr ''bool'' [''struct mii_timestamper *'', ''struct sk_buff *'', ''int'']),
    Mem ''txtstamp'' (FunPtr ''void'' [''struct mii_timestamper *'', ''struct sk_buff *'', ''int'']),
    Mem ''hwtstamp'' (FunPtr ''int'' [''struct mii_timestamper *'', ''struct ifreq *'']),
    Mem ''link_state'' (FunPtr ''void'' [''struct mii_timestamper *'', ''struct phy_device *'']),
    Mem ''ts_info'' (FunPtr ''int'' [''struct mii_timestamper *'', ''struct ethtool_ts_info *'']),
    Mem ''device'' (Ptr ''struct device'')]"

lemma info_struct_mii_timestamper [c_info]: "info struct_mii_timestamper = (48, 8)"
  by (simp add: struct_mii_timestamper_def c_info)

definition struct_phy_package_shared :: ctype where
  "struct_phy_package_shared = Struct [] [
    Mem ''addr'' (Scalar Tint), Mem ''refcnt'' typedef_refcount_t, Mem ''flags'' (Scalar Tulong),
    Mem ''priv_size'' typedef_size_t, Mem ''priv'' (Ptr ''void'')]"

lemma info_struct_phy_package_shared [c_info]: "info struct_phy_package_shared = (32, 8)"
  by (simp add: struct_phy_package_shared_def c_info)

definition typedef_u_char :: ctype where
  "typedef_u_char = Scalar Tuchar"

lemma info_typedef_u_char [c_info]: "info typedef_u_char = (1, 1)"
  by (simp add: typedef_u_char_def c_info)

definition enum_led_brightness :: ctype where
  "enum_led_brightness = Enum [
    (''LED_OFF'', 0), (''LED_ON'', 1), (''LED_HALF'', 127), (''LED_FULL'', 255)]"

lemma info_enum_led_brightness [c_info]: "info enum_led_brightness = (4, 4)"
  by (simp add: enum_led_brightness_def c_info)

definition struct_led_trigger :: ctype where
  "struct_led_trigger = Struct [] [
    Mem ''name'' (Ptr ''const char''), Mem ''activate'' (FunPtr ''int'' [''struct led_classdev *'']),
    Mem ''deactivate'' (FunPtr ''void'' [''struct led_classdev *'']), Mem ''brightness'' enum_led_brightness,
    Mem ''trigger_type'' (Ptr ''struct led_hw_trigger_type''), Mem ''leddev_list_lock'' typedef_spinlock_t,
    Mem ''led_cdevs'' struct_list_head, Mem ''next_trig'' struct_list_head,
    Mem ''groups'' (Ptr ''const struct attribute_group *'')]"

lemma info_struct_led_trigger [c_info]: "info struct_led_trigger = (88, 8)"
  by (simp add: struct_led_trigger_def c_info)

definition struct_reset_control :: ctype where
  "struct_reset_control = Struct [] [
    Mem ''rcdev'' (Ptr ''struct reset_controller_dev''), Mem ''list'' struct_list_head, Mem ''id'' (Scalar Tuint),
    Mem ''refcnt'' struct_kref, Mem ''acquired'' typedef_bool, Mem ''shared'' typedef_bool,
    Mem ''array'' typedef_bool, Mem ''deassert_count'' typedef_atomic_t, Mem ''triggered_count'' typedef_atomic_t]"

lemma info_struct_reset_control [c_info]: "info struct_reset_control = (48, 8)"
  by (simp add: struct_reset_control_def c_info)

definition struct_iopf_device_param :: ctype where
  "struct_iopf_device_param = Struct [] [
    Mem ''dev'' (Ptr ''struct device''), Mem ''queue'' (Ptr ''struct iopf_queue''),
    Mem ''queue_list'' struct_list_head, Mem ''partial'' struct_list_head]"

lemma info_struct_iopf_device_param [c_info]: "info struct_iopf_device_param = (48, 8)"
  by (simp add: struct_iopf_device_param_def c_info)

definition struct_phy_led_trigger :: ctype where
  "struct_phy_led_trigger = Struct [] [
    Mem ''trigger'' struct_led_trigger, Mem ''name'' (Array (Scalar Tchar) 76), Mem ''speed'' (Scalar Tuint)]"

lemma info_struct_phy_led_trigger [c_info]: "info struct_phy_led_trigger = (168, 8)"
  by (simp add: struct_phy_led_trigger_def c_info)

definition struct_sfp_upstream_ops :: ctype where
  "struct_sfp_upstream_ops = Struct [] [
    Mem ''attach'' (FunPtr ''void'' [''void *'', ''struct sfp_bus *'']),
    Mem ''detach'' (FunPtr ''void'' [''void *'', ''struct sfp_bus *'']),
    Mem ''module_insert'' (FunPtr ''int'' [''void *'', ''const struct sfp_eeprom_id *'']),
    Mem ''module_remove'' (FunPtr ''void'' [''void *'']), Mem ''module_start'' (FunPtr ''int'' [''void *'']),
    Mem ''module_stop'' (FunPtr ''void'' [''void *'']), Mem ''link_down'' (FunPtr ''void'' [''void *'']),
    Mem ''link_up'' (FunPtr ''void'' [''void *'']),
    Mem ''connect_phy'' (FunPtr ''int'' [''void *'', ''struct phy_device *'']),
    Mem ''disconnect_phy'' (FunPtr ''void'' [''void *''])]"

lemma info_struct_sfp_upstream_ops [c_info]: "info struct_sfp_upstream_ops = (80, 8)"
  by (simp add: struct_sfp_upstream_ops_def c_info)

definition struct_sfp_bus :: ctype where
  "struct_sfp_bus = Struct [] [
    Mem ''kref'' struct_kref, Mem ''node'' struct_list_head, Mem ''fwnode'' (Ptr ''struct fwnode_handle''),
    Mem ''socket_ops'' (Ptr ''const struct sfp_socket_ops''), Mem ''sfp_dev'' (Ptr ''struct device''),
    Mem ''sfp'' (Ptr ''struct sfp''), Mem ''sfp_quirk'' (Ptr ''const struct sfp_quirk''),
    Mem ''upstream_ops'' (Ptr ''const struct sfp_upstream_ops''), Mem ''upstream'' (Ptr ''void''),
    Mem ''phydev'' (Ptr ''struct phy_device''), Mem ''registered'' typedef_bool, Mem ''started'' typedef_bool]"

lemma info_struct_sfp_bus [c_info]: "info struct_sfp_bus = (96, 8)"
  by (simp add: struct_sfp_bus_def c_info)

definition struct_sfp_quirk :: ctype where
  "struct_sfp_quirk = Struct [] [
    Mem ''vendor'' (Ptr ''const char''), Mem ''part'' (Ptr ''const char''),
    Mem ''modes'' (FunPtr ''void'' [''const struct sfp_eeprom_id *'', ''long unsigned int *''])]"

lemma info_struct_sfp_quirk [c_info]: "info struct_sfp_quirk = (24, 8)"
  by (simp add: struct_sfp_quirk_def c_info)

definition struct_wpan_dev :: ctype where
  "struct_wpan_dev = Struct [] [
    Mem ''wpan_phy'' (Ptr ''struct wpan_phy''), Mem ''iftype'' (Scalar Tint), Mem ''list'' struct_list_head,
    Mem ''netdev'' (Ptr ''struct net_device''), Mem ''header_ops'' (Ptr ''const struct wpan_dev_header_ops''),
    Mem ''lowpan_dev'' (Ptr ''struct net_device''), Mem ''identifier'' typedef_u32, Mem ''pan_id'' typedef___le16,
    Mem ''short_addr'' typedef___le16, Mem ''extended_addr'' typedef___le64, Mem ''bsn'' typedef_atomic_t,
    Mem ''dsn'' typedef_atomic_t, Mem ''min_be'' typedef_u8, Mem ''max_be'' typedef_u8,
    Mem ''csma_retries'' typedef_u8, Mem ''frame_retries'' typedef_s8, Mem ''lbt'' typedef_bool,
    Mem ''promiscuous_mode'' typedef_bool, Mem ''ackreq'' typedef_bool]"

lemma info_struct_wpan_dev [c_info]: "info struct_wpan_dev = (88, 8)"
  by (simp add: struct_wpan_dev_def c_info)

definition struct_nh_grp_entry :: ctype where
  "struct_nh_grp_entry = Struct [] [
    Mem ''nh'' (Ptr ''struct nexthop''), Mem ''weight'' typedef_u8,
    Anon (Union [] [
      Mem ''hthr'' (Struct [] [
        Mem ''upper_bound'' typedef_atomic_t]),
      Mem ''res'' (Struct [] [
        Mem ''uw_nh_entry'' struct_list_head, Mem ''count_buckets'' typedef_u16, Mem ''wants_buckets'' typedef_u16])]),
    Mem ''nh_list'' struct_list_head, Mem ''nh_parent'' (Ptr ''struct nexthop'')]"

lemma info_struct_nh_grp_entry [c_info]: "info struct_nh_grp_entry = (64, 8)"
  by (simp add: struct_nh_grp_entry_def c_info)

definition struct_nh_group :: ctype where
  "struct_nh_group = Struct [] [
    Mem ''spare'' (Ptr ''struct nh_group''), Mem ''num_nh'' typedef_u16, Mem ''is_multipath'' typedef_bool,
    Mem ''hash_threshold'' typedef_bool, Mem ''resilient'' typedef_bool, Mem ''fdb_nh'' typedef_bool,
    Mem ''has_v4'' typedef_bool, Mem ''res_table'' (Ptr ''struct nh_res_table''),
    Mem ''nh_entries'' (Array struct_nh_grp_entry 0)]"

lemma info_struct_nh_group [c_info]: "info struct_nh_group = (24, 8)"
  by (simp add: struct_nh_group_def c_info)

definition enum_nl802154_cca_modes :: ctype where
  "enum_nl802154_cca_modes = Enum [
    (''__NL802154_CCA_INVALID'', 0), (''NL802154_CCA_ENERGY'', 1), (''NL802154_CCA_CARRIER'', 2),
    (''NL802154_CCA_ENERGY_CARRIER'', 3), (''NL802154_CCA_ALOHA'', 4), (''NL802154_CCA_UWB_SHR'', 5),
    (''NL802154_CCA_UWB_MULTIPLEXED'', 6), (''__NL802154_CCA_ATTR_AFTER_LAST'', 7), (''NL802154_CCA_ATTR_MAX'', 6)]"

lemma info_enum_nl802154_cca_modes [c_info]: "info enum_nl802154_cca_modes = (4, 4)"
  by (simp add: enum_nl802154_cca_modes_def c_info)

definition enum_nl802154_cca_opts :: ctype where
  "enum_nl802154_cca_opts = Enum [
    (''NL802154_CCA_OPT_ENERGY_CARRIER_AND'', 0), (''NL802154_CCA_OPT_ENERGY_CARRIER_OR'', 1),
    (''__NL802154_CCA_OPT_ATTR_AFTER_LAST'', 2), (''NL802154_CCA_OPT_ATTR_MAX'', 1)]"

lemma info_enum_nl802154_cca_opts [c_info]: "info enum_nl802154_cca_opts = (4, 4)"
  by (simp add: enum_nl802154_cca_opts_def c_info)

definition enum_nl802154_supported_bool_states :: ctype where
  "enum_nl802154_supported_bool_states = Enum [
    (''NL802154_SUPPORTED_BOOL_FALSE'', 0), (''NL802154_SUPPORTED_BOOL_TRUE'', 1),
    (''__NL802154_SUPPORTED_BOOL_INVALD'', 2), (''NL802154_SUPPORTED_BOOL_BOTH'', 3),
    (''__NL802154_SUPPORTED_BOOL_AFTER_LAST'', 4), (''NL802154_SUPPORTED_BOOL_MAX'', 3)]"

lemma info_enum_nl802154_supported_bool_states [c_info]: "info enum_nl802154_supported_bool_states = (4, 4)"
  by (simp add: enum_nl802154_supported_bool_states_def c_info)

definition struct_wpan_phy_supported :: ctype where
  "struct_wpan_phy_supported = Struct [] [
    Mem ''channels'' (Array typedef_u32 32), Mem ''cca_modes'' typedef_u32, Mem ''cca_opts'' typedef_u32,
    Mem ''iftypes'' typedef_u32, Mem ''lbt'' enum_nl802154_supported_bool_states, Mem ''min_minbe'' typedef_u8,
    Mem ''max_minbe'' typedef_u8, Mem ''min_maxbe'' typedef_u8, Mem ''max_maxbe'' typedef_u8,
    Mem ''min_csma_backoffs'' typedef_u8, Mem ''max_csma_backoffs'' typedef_u8, Mem ''min_frame_retries'' typedef_s8,
    Mem ''max_frame_retries'' typedef_s8, Mem ''tx_powers_size'' typedef_size_t,
    Mem ''cca_ed_levels_size'' typedef_size_t, Mem ''tx_powers'' (Ptr ''const s32''),
    Mem ''cca_ed_levels'' (Ptr ''const s32'')]"

lemma info_struct_wpan_phy_supported [c_info]: "info struct_wpan_phy_supported = (184, 8)"
  by (simp add: struct_wpan_phy_supported_def c_info)

definition struct_wpan_phy_cca :: ctype where
  "struct_wpan_phy_cca = Struct [] [
    Mem ''mode'' enum_nl802154_cca_modes, Mem ''opt'' enum_nl802154_cca_opts]"

lemma info_struct_wpan_phy_cca [c_info]: "info struct_wpan_phy_cca = (8, 4)"
  by (simp add: struct_wpan_phy_cca_def c_info)

definition enum_phylink_op_type :: ctype where
  "enum_phylink_op_type = Enum [
    (''PHYLINK_NETDEV'', 0), (''PHYLINK_DEV'', 1)]"

lemma info_enum_phylink_op_type [c_info]: "info enum_phylink_op_type = (4, 4)"
  by (simp add: enum_phylink_op_type_def c_info)

definition struct_phylink_config :: ctype where
  "struct_phylink_config = Struct [] [
    Mem ''dev'' (Ptr ''struct device''), Mem ''type'' enum_phylink_op_type, Mem ''pcs_poll'' typedef_bool,
    Mem ''poll_fixed_state'' typedef_bool, Mem ''mac_managed_pm'' typedef_bool, Mem ''ovr_an_inband'' typedef_bool,
    Mem ''get_fixed_state'' (FunPtr ''void'' [''struct phylink_config *'', ''struct phylink_link_state *''])]"

lemma info_struct_phylink_config [c_info]: "info struct_phylink_config = (24, 8)"
  by (simp add: struct_phylink_config_def c_info)

definition struct_ip_mreqn :: ctype where
  "struct_ip_mreqn = Struct [] [
    Mem ''imr_multiaddr'' struct_in_addr, Mem ''imr_address'' struct_in_addr, Mem ''imr_ifindex'' (Scalar Tint)]"

lemma info_struct_ip_mreqn [c_info]: "info struct_ip_mreqn = (12, 4)"
  by (simp add: struct_ip_mreqn_def c_info)

definition struct_ip_mc_list :: ctype where
  "struct_ip_mc_list = Struct [] [
    Mem ''interface'' (Ptr ''struct in_device''), Mem ''multiaddr'' typedef___be32, Mem ''sfmode'' (Scalar Tuint),
    Mem ''sources'' (Ptr ''struct ip_sf_list''), Mem ''tomb'' (Ptr ''struct ip_sf_list''),
    Mem ''sfcount'' (Array (Scalar Tulong) 2),
    Anon (Union [] [
      Mem ''next'' (Ptr ''struct ip_mc_list''), Mem ''next_rcu'' (Ptr ''struct ip_mc_list'')]),
    Mem ''next_hash'' (Ptr ''struct ip_mc_list''), Mem ''timer'' struct_timer_list, Mem ''users'' (Scalar Tint),
    Mem ''refcnt'' typedef_refcount_t, Mem ''lock'' typedef_spinlock_t, Mem ''tm_running'' (Scalar Tchar),
    Mem ''reporter'' (Scalar Tchar), Mem ''unsolicit_count'' (Scalar Tchar), Mem ''loaded'' (Scalar Tchar),
    Mem ''gsquery'' (Scalar Tuchar), Mem ''crcount'' (Scalar Tuchar), Mem ''rcu'' struct_callback_head]"

lemma info_struct_ip_mc_list [c_info]: "info struct_ip_mc_list = (144, 8)"
  by (simp add: struct_ip_mc_list_def c_info)

definition struct_uncached_list :: ctype where
  "struct_uncached_list = Struct [] [
    Mem ''lock'' typedef_spinlock_t, Mem ''head'' struct_list_head]"

lemma info_struct_uncached_list [c_info]: "info struct_uncached_list = (24, 8)"
  by (simp add: struct_uncached_list_def c_info)

definition struct_raw_hashinfo :: ctype where
  "struct_raw_hashinfo = Struct [] [
    Mem ''lock'' typedef_rwlock_t, Mem ''ht'' (Array struct_hlist_head 256)]"

lemma info_struct_raw_hashinfo [c_info]: "info struct_raw_hashinfo = (2056, 8)"
  by (simp add: struct_raw_hashinfo_def c_info)

definition enum_nl80211_iftype :: ctype where
  "enum_nl80211_iftype = Enum [
    (''NL80211_IFTYPE_UNSPECIFIED'', 0), (''NL80211_IFTYPE_ADHOC'', 1), (''NL80211_IFTYPE_STATION'', 2),
    (''NL80211_IFTYPE_AP'', 3), (''NL80211_IFTYPE_AP_VLAN'', 4), (''NL80211_IFTYPE_WDS'', 5),
    (''NL80211_IFTYPE_MONITOR'', 6), (''NL80211_IFTYPE_MESH_POINT'', 7), (''NL80211_IFTYPE_P2P_CLIENT'', 8),
    (''NL80211_IFTYPE_P2P_GO'', 9), (''NL80211_IFTYPE_P2P_DEVICE'', 10), (''NL80211_IFTYPE_OCB'', 11),
    (''NL80211_IFTYPE_NAN'', 12), (''NUM_NL80211_IFTYPES'', 13), (''NL80211_IFTYPE_MAX'', 12)]"

lemma info_enum_nl80211_iftype [c_info]: "info enum_nl80211_iftype = (4, 4)"
  by (simp add: enum_nl80211_iftype_def c_info)

definition enum_nl80211_chan_width :: ctype where
  "enum_nl80211_chan_width = Enum [
    (''NL80211_CHAN_WIDTH_20_NOHT'', 0), (''NL80211_CHAN_WIDTH_20'', 1), (''NL80211_CHAN_WIDTH_40'', 2),
    (''NL80211_CHAN_WIDTH_80'', 3), (''NL80211_CHAN_WIDTH_80P80'', 4), (''NL80211_CHAN_WIDTH_160'', 5),
    (''NL80211_CHAN_WIDTH_5'', 6), (''NL80211_CHAN_WIDTH_10'', 7), (''NL80211_CHAN_WIDTH_1'', 8),
    (''NL80211_CHAN_WIDTH_2'', 9), (''NL80211_CHAN_WIDTH_4'', 10), (''NL80211_CHAN_WIDTH_8'', 11),
    (''NL80211_CHAN_WIDTH_16'', 12)]"

lemma info_enum_nl80211_chan_width [c_info]: "info enum_nl80211_chan_width = (4, 4)"
  by (simp add: enum_nl80211_chan_width_def c_info)

definition enum_nl80211_auth_type :: ctype where
  "enum_nl80211_auth_type = Enum [
    (''NL80211_AUTHTYPE_OPEN_SYSTEM'', 0), (''NL80211_AUTHTYPE_SHARED_KEY'', 1), (''NL80211_AUTHTYPE_FT'', 2),
    (''NL80211_AUTHTYPE_NETWORK_EAP'', 3), (''NL80211_AUTHTYPE_SAE'', 4), (''NL80211_AUTHTYPE_FILS_SK'', 5),
    (''NL80211_AUTHTYPE_FILS_SK_PFS'', 6), (''NL80211_AUTHTYPE_FILS_PK'', 7), (''__NL80211_AUTHTYPE_NUM'', 8),
    (''NL80211_AUTHTYPE_MAX'', 7), (''NL80211_AUTHTYPE_AUTOMATIC'', 8)]"

lemma info_enum_nl80211_auth_type [c_info]: "info enum_nl80211_auth_type = (4, 4)"
  by (simp add: enum_nl80211_auth_type_def c_info)

definition enum_nl80211_mfp :: ctype where
  "enum_nl80211_mfp = Enum [
    (''NL80211_MFP_NO'', 0), (''NL80211_MFP_REQUIRED'', 1), (''NL80211_MFP_OPTIONAL'', 2)]"

lemma info_enum_nl80211_mfp [c_info]: "info enum_nl80211_mfp = (4, 4)"
  by (simp add: enum_nl80211_mfp_def c_info)

definition enum_nl80211_sae_pwe_mechanism :: ctype where
  "enum_nl80211_sae_pwe_mechanism = Enum [
    (''NL80211_SAE_PWE_UNSPECIFIED'', 0), (''NL80211_SAE_PWE_HUNT_AND_PECK'', 1),
    (''NL80211_SAE_PWE_HASH_TO_ELEMENT'', 2), (''NL80211_SAE_PWE_BOTH'', 3)]"

lemma info_enum_nl80211_sae_pwe_mechanism [c_info]: "info enum_nl80211_sae_pwe_mechanism = (4, 4)"
  by (simp add: enum_nl80211_sae_pwe_mechanism_def c_info)

definition enum_nl80211_bss_select_attr :: ctype where
  "enum_nl80211_bss_select_attr = Enum [
    (''__NL80211_BSS_SELECT_ATTR_INVALID'', 0), (''NL80211_BSS_SELECT_ATTR_RSSI'', 1),
    (''NL80211_BSS_SELECT_ATTR_BAND_PREF'', 2), (''NL80211_BSS_SELECT_ATTR_RSSI_ADJUST'', 3),
    (''__NL80211_BSS_SELECT_ATTR_AFTER_LAST'', 4), (''NL80211_BSS_SELECT_ATTR_MAX'', 3)]"

lemma info_enum_nl80211_bss_select_attr [c_info]: "info enum_nl80211_bss_select_attr = (4, 4)"
  by (simp add: enum_nl80211_bss_select_attr_def c_info)

definition enum_nl80211_band :: ctype where
  "enum_nl80211_band = Enum [
    (''NL80211_BAND_2GHZ'', 0), (''NL80211_BAND_5GHZ'', 1), (''NL80211_BAND_60GHZ'', 2), (''NL80211_BAND_6GHZ'', 3),
    (''NL80211_BAND_S1GHZ'', 4), (''NUM_NL80211_BANDS'', 5)]"

lemma info_enum_nl80211_band [c_info]: "info enum_nl80211_band = (4, 4)"
  by (simp add: enum_nl80211_band_def c_info)

definition enum_nl80211_dfs_state :: ctype where
  "enum_nl80211_dfs_state = Enum [
    (''NL80211_DFS_USABLE'', 0), (''NL80211_DFS_UNAVAILABLE'', 1), (''NL80211_DFS_AVAILABLE'', 2)]"

lemma info_enum_nl80211_dfs_state [c_info]: "info enum_nl80211_dfs_state = (4, 4)"
  by (simp add: enum_nl80211_dfs_state_def c_info)

end
