(* ===== verification/Vmlinux_Task.thy ===== *)
theory Vmlinux_Task
  imports Vmlinux_Map Vmlinux_Kern
begin

text \<open>
  Kernel objects of src/internal/sentinel/bpf/vmlinux.h that the BPF types point to. Tasks: scheduling entities, signals,
  credentials, memory descriptors and pages.
\<close>

definition struct_kernel_symbol :: ctype where
  "struct_kernel_symbol = Struct [] [
    Mem ''value_offset'' (Scalar Tint), Mem ''name_offset'' (Scalar Tint), Mem ''namespace_offset'' (Scalar Tint)]"

lemma info_struct_kernel_symbol [c_info]: "info struct_kernel_symbol = (12, 4)"
  by (simp add: struct_kernel_symbol_def c_info)

definition struct___kernel_timespec :: ctype where
  "struct___kernel_timespec = Struct [] [
    Mem ''tv_sec'' typedef___kernel_time64_t, Mem ''tv_nsec'' (Scalar Tllong)]"

lemma info_struct___kernel_timespec [c_info]: "info struct___kernel_timespec = (16, 8)"
  by (simp add: struct___kernel_timespec_def c_info)

definition struct_restart_block :: ctype where
  "struct_restart_block = Struct [] [
    Mem ''arch_data'' (Scalar Tulong), Mem ''fn'' (FunPtr ''long int'' [''struct restart_block *'']),
    Anon (Union [] [
      Mem ''futex'' (Struct [] [
        Mem ''uaddr'' (Ptr ''u32''), Mem ''val'' typedef_u32, Mem ''flags'' typedef_u32, Mem ''bitset'' typedef_u32,
        Mem ''time'' typedef_u64, Mem ''uaddr2'' (Ptr ''u32'')]),
      Mem ''nanosleep'' (Struct [] [
        Mem ''clockid'' typedef_clockid_t, Mem ''type'' enum_timespec_type,
        Anon (Union [] [
          Mem ''rmtp'' (Ptr ''struct __kernel_timespec''), Mem ''compat_rmtp'' (Ptr ''struct old_timespec32'')]),
        Mem ''expires'' typedef_u64]),
      Mem ''poll'' (Struct [] [
        Mem ''ufds'' (Ptr ''struct pollfd''), Mem ''nfds'' (Scalar Tint), Mem ''has_timeout'' (Scalar Tint),
        Mem ''tv_sec'' (Scalar Tulong), Mem ''tv_nsec'' (Scalar Tulong)])])]"

lemma info_struct_restart_block [c_info]: "info struct_restart_block = (56, 8)"
  by (simp add: struct_restart_block_def c_info)

definition struct_thread_info :: ctype where
  "struct_thread_info = Struct [] [
    Mem ''flags'' (Scalar Tulong), Mem ''ttbr0'' typedef_u64,
    Anon (Union [] [
      Mem ''preempt_count'' typedef_u64,
      Mem ''preempt'' (Struct [] [
        Mem ''count'' typedef_u32, Mem ''need_resched'' typedef_u32])])]"

lemma info_struct_thread_info [c_info]: "info struct_thread_info = (24, 8)"
  by (simp add: struct_thread_info_def c_info)

definition struct_sched_avg :: ctype where
  "struct_sched_avg = Struct [] [
    Mem ''last_update_time'' typedef_u64, Mem ''load_sum'' typedef_u64, Mem ''runnable_sum'' typedef_u64,
    Mem ''util_sum'' typedef_u32, Mem ''period_contrib'' typedef_u32, Mem ''load_avg'' (Scalar Tulong),
    Mem ''runnable_avg'' (Scalar Tulong), Mem ''util_avg'' (Scalar Tulong), Mem ''util_est'' struct_util_est]"

lemma info_struct_sched_avg [c_info]: "info struct_sched_avg = (64, 8)"
  by (simp add: struct_sched_avg_def c_info)

definition struct_sched_entity :: ctype where
  "struct_sched_entity = Struct [] [
    Mem ''load'' struct_load_weight, Mem ''run_node'' struct_rb_node, Mem ''group_node'' struct_list_head,
    Mem ''on_rq'' (Scalar Tuint), Mem ''exec_start'' typedef_u64, Mem ''sum_exec_runtime'' typedef_u64,
    Mem ''vruntime'' typedef_u64, Mem ''prev_sum_exec_runtime'' typedef_u64, Mem ''nr_migrations'' typedef_u64,
    Mem ''depth'' (Scalar Tint), Mem ''parent'' (Ptr ''struct sched_entity''), Mem ''cfs_rq'' (Ptr ''struct cfs_rq''),
    Mem ''my_q'' (Ptr ''struct cfs_rq''), Mem ''runnable_weight'' (Scalar Tulong), Pad (Scalar Tlong) 64,
    Pad (Scalar Tlong) 64, Pad (Scalar Tlong) 64, Pad (Scalar Tlong) 64, Pad (Scalar Tlong) 64, Pad (Scalar Tlong) 64,
    Mem ''avg'' struct_sched_avg]"

lemma info_struct_sched_entity [c_info]: "info struct_sched_entity = (256, 8)"
  by (simp add: struct_sched_entity_def c_info)

definition struct_sched_rt_entity :: ctype where
  "struct_sched_rt_entity = Struct [] [
    Mem ''run_list'' struct_list_head, Mem ''timeout'' (Scalar Tulong), Mem ''watchdog_stamp'' (Scalar Tulong),
    Mem ''time_slice'' (Scalar Tuint), Mem ''on_rq'' (Scalar Tushort), Mem ''on_list'' (Scalar Tushort),
    Mem ''back'' (Ptr ''struct sched_rt_entity'')]"

lemma info_struct_sched_rt_entity [c_info]: "info struct_sched_rt_entity = (48, 8)"
  by (simp add: struct_sched_rt_entity_def c_info)

definition struct_sched_dl_entity :: ctype where
  "struct_sched_dl_entity = Struct [] [
    Mem ''rb_node'' struct_rb_node, Mem ''dl_runtime'' typedef_u64, Mem ''dl_deadline'' typedef_u64,
    Mem ''dl_period'' typedef_u64, Mem ''dl_bw'' typedef_u64, Mem ''dl_density'' typedef_u64,
    Mem ''runtime'' typedef_s64, Mem ''deadline'' typedef_u64, Mem ''flags'' (Scalar Tuint),
    Bits ''dl_throttled'' (Scalar Tuint) 1, Bits ''dl_yielded'' (Scalar Tuint) 1,
    Bits ''dl_non_contending'' (Scalar Tuint) 1, Bits ''dl_overrun'' (Scalar Tuint) 1,
    Mem ''dl_timer'' struct_hrtimer, Mem ''inactive_timer'' struct_hrtimer,
    Mem ''pi_se'' (Ptr ''struct sched_dl_entity'')]"

lemma info_struct_sched_dl_entity [c_info]: "info struct_sched_dl_entity = (224, 8)"
  by (simp add: struct_sched_dl_entity_def c_info)

definition struct_uclamp_se :: ctype where
  "struct_uclamp_se = Struct [] [
    Bits ''value'' (Scalar Tuint) 11, Bits ''bucket_id'' (Scalar Tuint) 3, Bits ''active'' (Scalar Tuint) 1,
    Bits ''user_defined'' (Scalar Tuint) 1]"

lemma info_struct_uclamp_se [c_info]: "info struct_uclamp_se = (4, 4)"
  by (simp add: struct_uclamp_se_def c_info)

definition struct_sched_statistics :: ctype where
  "struct_sched_statistics = Struct [] [
    Mem ''wait_start'' typedef_u64, Mem ''wait_max'' typedef_u64, Mem ''wait_count'' typedef_u64,
    Mem ''wait_sum'' typedef_u64, Mem ''iowait_count'' typedef_u64, Mem ''iowait_sum'' typedef_u64,
    Mem ''sleep_start'' typedef_u64, Mem ''sleep_max'' typedef_u64, Mem ''sum_sleep_runtime'' typedef_s64,
    Mem ''block_start'' typedef_u64, Mem ''block_max'' typedef_u64, Mem ''exec_max'' typedef_u64,
    Mem ''slice_max'' typedef_u64, Mem ''nr_migrations_cold'' typedef_u64,
    Mem ''nr_failed_migrations_affine'' typedef_u64, Mem ''nr_failed_migrations_running'' typedef_u64,
    Mem ''nr_failed_migrations_hot'' typedef_u64, Mem ''nr_forced_migrations'' typedef_u64,
    Mem ''nr_wakeups'' typedef_u64, Mem ''nr_wakeups_sync'' typedef_u64, Mem ''nr_wakeups_migrate'' typedef_u64,
    Mem ''nr_wakeups_local'' typedef_u64, Mem ''nr_wakeups_remote'' typedef_u64,
    Mem ''nr_wakeups_affine'' typedef_u64, Mem ''nr_wakeups_affine_attempts'' typedef_u64,
    Mem ''nr_wakeups_passive'' typedef_u64, Mem ''nr_wakeups_idle'' typedef_u64, Pad (Scalar Tlong) 64,
    Pad (Scalar Tlong) 64, Pad (Scalar Tlong) 64, Pad (Scalar Tlong) 64, Pad (Scalar Tlong) 64]"

lemma info_struct_sched_statistics [c_info]: "info struct_sched_statistics = (256, 8)"
  by (simp add: struct_sched_statistics_def c_info)

definition struct_sched_info :: ctype where
  "struct_sched_info = Struct [] [
    Mem ''pcount'' (Scalar Tulong), Mem ''run_delay'' (Scalar Tullong), Mem ''last_arrival'' (Scalar Tullong),
    Mem ''last_queued'' (Scalar Tullong)]"

lemma info_struct_sched_info [c_info]: "info struct_sched_info = (32, 8)"
  by (simp add: struct_sched_info_def c_info)

definition struct_vmacache :: ctype where
  "struct_vmacache = Struct [] [
    Mem ''seqnum'' typedef_u64, Mem ''vmas'' (Array (Ptr ''struct vm_area_struct'') 4)]"

lemma info_struct_vmacache [c_info]: "info struct_vmacache = (40, 8)"
  by (simp add: struct_vmacache_def c_info)

definition struct_task_rss_stat :: ctype where
  "struct_task_rss_stat = Struct [] [
    Mem ''events'' (Scalar Tint), Mem ''count'' (Array (Scalar Tint) 4)]"

lemma info_struct_task_rss_stat [c_info]: "info struct_task_rss_stat = (20, 4)"
  by (simp add: struct_task_rss_stat_def c_info)

definition struct_posix_cputimer_base :: ctype where
  "struct_posix_cputimer_base = Struct [] [
    Mem ''nextevt'' typedef_u64, Mem ''tqhead'' struct_timerqueue_head]"

lemma info_struct_posix_cputimer_base [c_info]: "info struct_posix_cputimer_base = (24, 8)"
  by (simp add: struct_posix_cputimer_base_def c_info)

definition struct_posix_cputimers :: ctype where
  "struct_posix_cputimers = Struct [] [
    Mem ''bases'' (Array struct_posix_cputimer_base 3), Mem ''timers_active'' (Scalar Tuint),
    Mem ''expiry_active'' (Scalar Tuint)]"

lemma info_struct_posix_cputimers [c_info]: "info struct_posix_cputimers = (80, 8)"
  by (simp add: struct_posix_cputimers_def c_info)

definition struct_sysv_sem :: ctype where
  "struct_sysv_sem = Struct [] [
    Mem ''undo_list'' (Ptr ''struct sem_undo_list'')]"

lemma info_struct_sysv_sem [c_info]: "info struct_sysv_sem = (8, 8)"
  by (simp add: struct_sysv_sem_def c_info)

definition struct_sysv_shm :: ctype where
  "struct_sysv_shm = Struct [] [
    Mem ''shm_clist'' struct_list_head]"

lemma info_struct_sysv_shm [c_info]: "info struct_sysv_shm = (16, 8)"
  by (simp add: struct_sysv_shm_def c_info)

definition struct_sigpending :: ctype where
  "struct_sigpending = Struct [] [
    Mem ''list'' struct_list_head, Mem ''signal'' typedef_sigset_t]"

lemma info_struct_sigpending [c_info]: "info struct_sigpending = (24, 8)"
  by (simp add: struct_sigpending_def c_info)

definition struct_seccomp :: ctype where
  "struct_seccomp = Struct [] [
    Mem ''mode'' (Scalar Tint), Mem ''filter_count'' typedef_atomic_t, Mem ''filter'' (Ptr ''struct seccomp_filter'')]"

lemma info_struct_seccomp [c_info]: "info struct_seccomp = (16, 8)"
  by (simp add: struct_seccomp_def c_info)

definition struct_syscall_user_dispatch :: ctype where
  "struct_syscall_user_dispatch = Struct [] []"

lemma info_struct_syscall_user_dispatch [c_info]: "info struct_syscall_user_dispatch = (0, 1)"
  by (simp add: struct_syscall_user_dispatch_def c_info)

definition struct_task_io_accounting :: ctype where
  "struct_task_io_accounting = Struct [] [
    Mem ''rchar'' typedef_u64, Mem ''wchar'' typedef_u64, Mem ''syscr'' typedef_u64, Mem ''syscw'' typedef_u64,
    Mem ''read_bytes'' typedef_u64, Mem ''write_bytes'' typedef_u64, Mem ''cancelled_write_bytes'' typedef_u64]"

lemma info_struct_task_io_accounting [c_info]: "info struct_task_io_accounting = (56, 8)"
  by (simp add: struct_task_io_accounting_def c_info)

definition struct_tlbflush_unmap_batch :: ctype where
  "struct_tlbflush_unmap_batch = Struct [] []"

lemma info_struct_tlbflush_unmap_batch [c_info]: "info struct_tlbflush_unmap_batch = (0, 1)"
  by (simp add: struct_tlbflush_unmap_batch_def c_info)

definition struct_cpu_context :: ctype where
  "struct_cpu_context = Struct [] [
    Mem ''x19'' (Scalar Tulong), Mem ''x20'' (Scalar Tulong), Mem ''x21'' (Scalar Tulong),
    Mem ''x22'' (Scalar Tulong), Mem ''x23'' (Scalar Tulong), Mem ''x24'' (Scalar Tulong),
    Mem ''x25'' (Scalar Tulong), Mem ''x26'' (Scalar Tulong), Mem ''x27'' (Scalar Tulong),
    Mem ''x28'' (Scalar Tulong), Mem ''fp'' (Scalar Tulong), Mem ''sp'' (Scalar Tulong), Mem ''pc'' (Scalar Tulong)]"

lemma info_struct_cpu_context [c_info]: "info struct_cpu_context = (104, 8)"
  by (simp add: struct_cpu_context_def c_info)

definition struct_user_fpsimd_state :: ctype where
  "struct_user_fpsimd_state = Struct [] [
    Mem ''vregs'' (Array (Scalar Tuint128) 32), Mem ''fpsr'' typedef___u32, Mem ''fpcr'' typedef___u32,
    Mem ''__reserved'' (Array typedef___u32 2)]"

lemma info_struct_user_fpsimd_state [c_info]: "info struct_user_fpsimd_state = (528, 16)"
  by (simp add: struct_user_fpsimd_state_def c_info)

definition struct_ptrauth_key :: ctype where
  "struct_ptrauth_key = Struct [] [
    Mem ''lo'' (Scalar Tulong), Mem ''hi'' (Scalar Tulong)]"

lemma info_struct_ptrauth_key [c_info]: "info struct_ptrauth_key = (16, 8)"
  by (simp add: struct_ptrauth_key_def c_info)

definition struct_ptrauth_keys_user :: ctype where
  "struct_ptrauth_keys_user = Struct [] [
    Mem ''apia'' struct_ptrauth_key, Mem ''apib'' struct_ptrauth_key, Mem ''apda'' struct_ptrauth_key,
    Mem ''apdb'' struct_ptrauth_key, Mem ''apga'' struct_ptrauth_key]"

lemma info_struct_ptrauth_keys_user [c_info]: "info struct_ptrauth_keys_user = (80, 8)"
  by (simp add: struct_ptrauth_keys_user_def c_info)

definition struct_ptrauth_keys_kernel :: ctype where
  "struct_ptrauth_keys_kernel = Struct [] [
    Mem ''apia'' struct_ptrauth_key]"

lemma info_struct_ptrauth_keys_kernel [c_info]: "info struct_ptrauth_keys_kernel = (16, 8)"
  by (simp add: struct_ptrauth_keys_kernel_def c_info)

definition struct_thread_struct :: ctype where
  "struct_thread_struct = Struct [] [
    Mem ''cpu_context'' struct_cpu_context, Pad (Scalar Tlong) 64,
    Mem ''uw'' (Struct [] [
      Mem ''tp_value'' (Scalar Tulong), Mem ''tp2_value'' (Scalar Tulong),
      Mem ''fpsimd_state'' struct_user_fpsimd_state]),
    Mem ''fpsimd_cpu'' (Scalar Tuint), Mem ''sve_state'' (Ptr ''void''), Mem ''sve_vl'' (Scalar Tuint),
    Mem ''sve_vl_onexec'' (Scalar Tuint), Mem ''fault_address'' (Scalar Tulong), Mem ''fault_code'' (Scalar Tulong),
    Mem ''debug'' struct_debug_info, Mem ''keys_user'' struct_ptrauth_keys_user,
    Mem ''keys_kernel'' struct_ptrauth_keys_kernel, Mem ''mte_ctrl'' typedef_u64, Mem ''sctlr_user'' typedef_u64,
    Pad (Scalar Tlong) 64]"

lemma info_struct_thread_struct [c_info]: "info struct_thread_struct = (1088, 16)"
  by (simp add: struct_thread_struct_def c_info)

definition struct_task_struct :: ctype where
  "struct_task_struct = Struct [] [
    Mem ''thread_info'' struct_thread_info, Mem ''__state'' (Scalar Tuint), Mem ''stack'' (Ptr ''void''),
    Mem ''usage'' typedef_refcount_t, Mem ''flags'' (Scalar Tuint), Mem ''ptrace'' (Scalar Tuint),
    Mem ''on_cpu'' (Scalar Tint), Mem ''wake_entry'' struct___call_single_node, Mem ''cpu'' (Scalar Tuint),
    Mem ''wakee_flips'' (Scalar Tuint), Mem ''wakee_flip_decay_ts'' (Scalar Tulong),
    Mem ''last_wakee'' (Ptr ''struct task_struct''), Mem ''recent_used_cpu'' (Scalar Tint),
    Mem ''wake_cpu'' (Scalar Tint), Mem ''on_rq'' (Scalar Tint), Mem ''prio'' (Scalar Tint),
    Mem ''static_prio'' (Scalar Tint), Mem ''normal_prio'' (Scalar Tint), Mem ''rt_priority'' (Scalar Tuint),
    Mem ''sched_class'' (Ptr ''const struct sched_class''), Pad (Scalar Tlong) 64, Pad (Scalar Tlong) 64,
    Pad (Scalar Tlong) 64, Pad (Scalar Tlong) 64, Pad (Scalar Tlong) 64, Pad (Scalar Tlong) 64, Pad (Scalar Tlong) 64,
    Mem ''se'' struct_sched_entity, Mem ''rt'' struct_sched_rt_entity, Mem ''dl'' struct_sched_dl_entity,
    Mem ''core_node'' struct_rb_node, Mem ''core_cookie'' (Scalar Tulong), Mem ''core_occupation'' (Scalar Tuint),
    Mem ''sched_task_group'' (Ptr ''struct task_group''), Mem ''uclamp_req'' (Array struct_uclamp_se 2),
    Mem ''uclamp'' (Array struct_uclamp_se 2), Pad (Scalar Tlong) 64, Pad (Scalar Tlong) 64, Pad (Scalar Tlong) 64,
    Pad (Scalar Tlong) 64, Pad (Scalar Tlong) 64, Pad (Scalar Tlong) 64, Mem ''stats'' struct_sched_statistics,
    Mem ''preempt_notifiers'' struct_hlist_head, Mem ''btrace_seq'' (Scalar Tuint), Mem ''policy'' (Scalar Tuint),
    Mem ''nr_cpus_allowed'' (Scalar Tint), Mem ''cpus_ptr'' (Ptr ''const cpumask_t''),
    Mem ''user_cpus_ptr'' (Ptr ''cpumask_t''), Mem ''cpus_mask'' typedef_cpumask_t,
    Mem ''migration_pending'' (Ptr ''void''), Mem ''migration_disabled'' (Scalar Tushort),
    Mem ''migration_flags'' (Scalar Tushort), Mem ''trc_reader_nesting'' (Scalar Tint),
    Mem ''trc_ipi_to_cpu'' (Scalar Tint), Mem ''trc_reader_special'' union_rcu_special,
    Mem ''trc_reader_checked'' typedef_bool, Mem ''trc_holdout_list'' struct_list_head,
    Mem ''sched_info'' struct_sched_info, Mem ''tasks'' struct_list_head, Mem ''pushable_tasks'' struct_plist_node,
    Mem ''pushable_dl_tasks'' struct_rb_node, Mem ''mm'' (Ptr ''struct mm_struct''),
    Mem ''active_mm'' (Ptr ''struct mm_struct''), Mem ''vmacache'' struct_vmacache,
    Mem ''rss_stat'' struct_task_rss_stat, Mem ''exit_state'' (Scalar Tint), Mem ''exit_code'' (Scalar Tint),
    Mem ''exit_signal'' (Scalar Tint), Mem ''pdeath_signal'' (Scalar Tint), Mem ''jobctl'' (Scalar Tulong),
    Mem ''personality'' (Scalar Tuint), Bits ''sched_reset_on_fork'' (Scalar Tuint) 1,
    Bits ''sched_contributes_to_load'' (Scalar Tuint) 1, Bits ''sched_migrated'' (Scalar Tuint) 1,
    Bits ''sched_task_hot'' (Scalar Tuint) 1, Pad (Scalar Tlong) 28, Bits ''sched_remote_wakeup'' (Scalar Tuint) 1,
    Bits ''in_execve'' (Scalar Tuint) 1, Bits ''in_iowait'' (Scalar Tuint) 1, Bits ''in_user_fault'' (Scalar Tuint) 1,
    Bits ''no_cgroup_migration'' (Scalar Tuint) 1, Bits ''frozen'' (Scalar Tuint) 1,
    Bits ''use_memdelay'' (Scalar Tuint) 1, Bits ''in_memstall'' (Scalar Tuint) 1,
    Bits ''in_eventfd'' (Scalar Tuint) 1, Mem ''atomic_flags'' (Scalar Tulong),
    Mem ''restart_block'' struct_restart_block, Mem ''pid'' typedef_pid_t, Mem ''tgid'' typedef_pid_t,
    Mem ''stack_canary'' (Scalar Tulong), Mem ''real_parent'' (Ptr ''struct task_struct''),
    Mem ''parent'' (Ptr ''struct task_struct''), Mem ''children'' struct_list_head, Mem ''sibling'' struct_list_head,
    Mem ''group_leader'' (Ptr ''struct task_struct''), Mem ''ptraced'' struct_list_head,
    Mem ''ptrace_entry'' struct_list_head, Mem ''thread_pid'' (Ptr ''struct pid''),
    Mem ''pid_links'' (Array struct_hlist_node 4), Mem ''thread_group'' struct_list_head,
    Mem ''thread_node'' struct_list_head, Mem ''vfork_done'' (Ptr ''struct completion''),
    Mem ''set_child_tid'' (Ptr ''int''), Mem ''clear_child_tid'' (Ptr ''int''), Mem ''pf_io_worker'' (Ptr ''void''),
    Mem ''utime'' typedef_u64, Mem ''stime'' typedef_u64, Mem ''gtime'' typedef_u64,
    Mem ''prev_cputime'' struct_prev_cputime, Mem ''nvcsw'' (Scalar Tulong), Mem ''nivcsw'' (Scalar Tulong),
    Mem ''start_time'' typedef_u64, Mem ''start_boottime'' typedef_u64, Mem ''min_flt'' (Scalar Tulong),
    Mem ''maj_flt'' (Scalar Tulong), Mem ''posix_cputimers'' struct_posix_cputimers,
    Mem ''ptracer_cred'' (Ptr ''const struct cred''), Mem ''real_cred'' (Ptr ''const struct cred''),
    Mem ''cred'' (Ptr ''const struct cred''), Mem ''cached_requested_key'' (Ptr ''struct key''),
    Mem ''comm'' (Array (Scalar Tchar) 16), Mem ''nameidata'' (Ptr ''struct nameidata''),
    Mem ''sysvsem'' struct_sysv_sem, Mem ''sysvshm'' struct_sysv_shm, Mem ''last_switch_count'' (Scalar Tulong),
    Mem ''last_switch_time'' (Scalar Tulong), Mem ''fs'' (Ptr ''struct fs_struct''),
    Mem ''files'' (Ptr ''struct files_struct''), Mem ''io_uring'' (Ptr ''struct io_uring_task''),
    Mem ''nsproxy'' (Ptr ''struct nsproxy''), Mem ''signal'' (Ptr ''struct signal_struct''),
    Mem ''sighand'' (Ptr ''struct sighand_struct''), Mem ''blocked'' typedef_sigset_t,
    Mem ''real_blocked'' typedef_sigset_t, Mem ''saved_sigmask'' typedef_sigset_t, Mem ''pending'' struct_sigpending,
    Mem ''sas_ss_sp'' (Scalar Tulong), Mem ''sas_ss_size'' typedef_size_t, Mem ''sas_ss_flags'' (Scalar Tuint),
    Mem ''task_works'' (Ptr ''struct callback_head''), Mem ''audit_context'' (Ptr ''struct audit_context''),
    Mem ''loginuid'' typedef_kuid_t, Mem ''sessionid'' (Scalar Tuint), Mem ''seccomp'' struct_seccomp,
    Mem ''syscall_dispatch'' struct_syscall_user_dispatch, Mem ''parent_exec_id'' typedef_u64,
    Mem ''self_exec_id'' typedef_u64, Mem ''alloc_lock'' typedef_spinlock_t, Mem ''pi_lock'' typedef_raw_spinlock_t,
    Mem ''wake_q'' struct_wake_q_node, Mem ''pi_waiters'' struct_rb_root_cached,
    Mem ''pi_top_task'' (Ptr ''struct task_struct''), Mem ''pi_blocked_on'' (Ptr ''struct rt_mutex_waiter''),
    Mem ''in_ubsan'' (Scalar Tuint), Mem ''journal_info'' (Ptr ''void''), Mem ''bio_list'' (Ptr ''struct bio_list''),
    Mem ''plug'' (Ptr ''struct blk_plug''), Mem ''reclaim_state'' (Ptr ''struct reclaim_state''),
    Mem ''backing_dev_info'' (Ptr ''struct backing_dev_info''), Mem ''io_context'' (Ptr ''struct io_context''),
    Mem ''capture_control'' (Ptr ''struct capture_control''), Mem ''ptrace_message'' (Scalar Tulong),
    Mem ''last_siginfo'' (Ptr ''kernel_siginfo_t''), Mem ''ioac'' struct_task_io_accounting,
    Mem ''psi_flags'' (Scalar Tuint), Mem ''acct_rss_mem1'' typedef_u64, Mem ''acct_vm_mem1'' typedef_u64,
    Mem ''acct_timexpd'' typedef_u64, Mem ''mems_allowed'' typedef_nodemask_t,
    Mem ''mems_allowed_seq'' typedef_seqcount_spinlock_t, Mem ''cpuset_mem_spread_rotor'' (Scalar Tint),
    Mem ''cpuset_slab_spread_rotor'' (Scalar Tint), Mem ''cgroups'' (Ptr ''struct css_set''),
    Mem ''cg_list'' struct_list_head, Mem ''robust_list'' (Ptr ''struct robust_list_head''),
    Mem ''compat_robust_list'' (Ptr ''struct compat_robust_list_head''), Mem ''pi_state_list'' struct_list_head,
    Mem ''pi_state_cache'' (Ptr ''struct futex_pi_state''), Mem ''futex_exit_mutex'' struct_mutex,
    Mem ''futex_state'' (Scalar Tuint), Mem ''perf_event_ctxp'' (Array (Ptr ''struct perf_event_context'') 2),
    Mem ''perf_event_mutex'' struct_mutex, Mem ''perf_event_list'' struct_list_head,
    Mem ''mempolicy'' (Ptr ''struct mempolicy''), Mem ''il_prev'' (Scalar Tshort),
    Mem ''pref_node_fork'' (Scalar Tshort), Mem ''numa_scan_seq'' (Scalar Tint),
    Mem ''numa_scan_period'' (Scalar Tuint), Mem ''numa_scan_period_max'' (Scalar Tuint),
    Mem ''numa_preferred_nid'' (Scalar Tint), Mem ''numa_migrate_retry'' (Scalar Tulong),
    Mem ''node_stamp'' typedef_u64, Mem ''last_task_numa_placement'' typedef_u64,
    Mem ''last_sum_exec_runtime'' typedef_u64, Mem ''numa_work'' struct_callback_head,
    Mem ''numa_group'' (Ptr ''struct numa_group''), Mem ''numa_faults'' (Ptr ''long unsigned int''),
    Mem ''total_numa_faults'' (Scalar Tulong), Mem ''numa_faults_locality'' (Array (Scalar Tulong) 3),
    Mem ''numa_pages_migrated'' (Scalar Tulong), Mem ''rseq'' (Ptr ''struct rseq''), Mem ''rseq_sig'' typedef_u32,
    Mem ''rseq_event_mask'' (Scalar Tulong), Mem ''tlb_ubc'' struct_tlbflush_unmap_batch,
    Anon (Union [] [
      Mem ''rcu_users'' typedef_refcount_t, Mem ''rcu'' struct_callback_head]),
    Mem ''splice_pipe'' (Ptr ''struct pipe_inode_info''), Mem ''task_frag'' struct_page_frag,
    Mem ''delays'' (Ptr ''struct task_delay_info''), Mem ''nr_dirtied'' (Scalar Tint),
    Mem ''nr_dirtied_pause'' (Scalar Tint), Mem ''dirty_paused_when'' (Scalar Tulong),
    Mem ''timer_slack_ns'' typedef_u64, Mem ''default_timer_slack_ns'' typedef_u64,
    Mem ''curr_ret_stack'' (Scalar Tint), Mem ''curr_ret_depth'' (Scalar Tint),
    Mem ''ret_stack'' (Ptr ''struct ftrace_ret_stack''), Mem ''ftrace_timestamp'' (Scalar Tullong),
    Mem ''trace_overrun'' typedef_atomic_t, Mem ''tracing_graph_pause'' typedef_atomic_t,
    Mem ''trace'' (Scalar Tulong), Mem ''trace_recursion'' (Scalar Tulong),
    Mem ''memcg_in_oom'' (Ptr ''struct mem_cgroup''), Mem ''memcg_oom_gfp_mask'' typedef_gfp_t,
    Mem ''memcg_oom_order'' (Scalar Tint), Mem ''memcg_nr_pages_over_high'' (Scalar Tuint),
    Mem ''active_memcg'' (Ptr ''struct mem_cgroup''), Mem ''throttle_queue'' (Ptr ''struct request_queue''),
    Mem ''utask'' (Ptr ''struct uprobe_task''), Mem ''sequential_io'' (Scalar Tuint),
    Mem ''sequential_io_avg'' (Scalar Tuint), Mem ''kmap_ctrl'' struct_kmap_ctrl,
    Mem ''pagefault_disabled'' (Scalar Tint), Mem ''oom_reaper_list'' (Ptr ''struct task_struct''),
    Mem ''oom_reaper_timer'' struct_timer_list, Mem ''stack_vm_area'' (Ptr ''struct vm_struct''),
    Mem ''stack_refcount'' typedef_refcount_t, Mem ''security'' (Ptr ''void''),
    Mem ''bpf_storage'' (Ptr ''struct bpf_local_storage''), Mem ''bpf_ctx'' (Ptr ''struct bpf_run_ctx''),
    Mem ''kretprobe_instances'' struct_llist_head, Pad (Scalar Tlong) 64, Mem ''thread'' struct_thread_struct,
    Pad (Scalar Tlong) 64, Pad (Scalar Tlong) 64, Pad (Scalar Tlong) 64, Pad (Scalar Tlong) 64, Pad (Scalar Tlong) 64,
    Pad (Scalar Tlong) 64]"

lemma info_struct_task_struct [c_info]: "info struct_task_struct = (4224, 16)"
  by (simp add: struct_task_struct_def c_info)

definition struct_arch_hw_breakpoint_ctrl :: ctype where
  "struct_arch_hw_breakpoint_ctrl = Struct [] [
    Bits ''__reserved'' typedef_u32 19, Bits ''len'' typedef_u32 8, Bits ''type'' typedef_u32 2,
    Bits ''privilege'' typedef_u32 2, Bits ''enabled'' typedef_u32 1]"

lemma info_struct_arch_hw_breakpoint_ctrl [c_info]: "info struct_arch_hw_breakpoint_ctrl = (4, 4)"
  by (simp add: struct_arch_hw_breakpoint_ctrl_def c_info)

definition struct_arch_hw_breakpoint :: ctype where
  "struct_arch_hw_breakpoint = Struct [] [
    Mem ''address'' typedef_u64, Mem ''trigger'' typedef_u64, Mem ''ctrl'' struct_arch_hw_breakpoint_ctrl]"

lemma info_struct_arch_hw_breakpoint [c_info]: "info struct_arch_hw_breakpoint = (24, 8)"
  by (simp add: struct_arch_hw_breakpoint_def c_info)

definition struct_wait_queue_entry :: ctype where
  "struct_wait_queue_entry = Struct [] [
    Mem ''flags'' (Scalar Tuint), Mem ''private'' (Ptr ''void''), Mem ''func'' typedef_wait_queue_func_t,
    Mem ''entry'' struct_list_head]"

lemma info_struct_wait_queue_entry [c_info]: "info struct_wait_queue_entry = (40, 8)"
  by (simp add: struct_wait_queue_entry_def c_info)

definition typedef_wait_queue_entry_t :: ctype where
  "typedef_wait_queue_entry_t = struct_wait_queue_entry"

lemma info_typedef_wait_queue_entry_t [c_info]: "info typedef_wait_queue_entry_t = (40, 8)"
  by (simp add: typedef_wait_queue_entry_t_def c_info)

definition enum_pid_type :: ctype where
  "enum_pid_type = Enum [
    (''PIDTYPE_PID'', 0), (''PIDTYPE_TGID'', 1), (''PIDTYPE_PGID'', 2), (''PIDTYPE_SID'', 3), (''PIDTYPE_MAX'', 4)]"

lemma info_enum_pid_type [c_info]: "info enum_pid_type = (4, 4)"
  by (simp add: enum_pid_type_def c_info)

definition struct_upid :: ctype where
  "struct_upid = Struct [] [
    Mem ''nr'' (Scalar Tint), Mem ''ns'' (Ptr ''struct pid_namespace'')]"

lemma info_struct_upid [c_info]: "info struct_upid = (16, 8)"
  by (simp add: struct_upid_def c_info)

definition struct_pid :: ctype where
  "struct_pid = Struct [] [
    Mem ''count'' typedef_refcount_t, Mem ''level'' (Scalar Tuint), Mem ''lock'' typedef_spinlock_t,
    Mem ''tasks'' (Array struct_hlist_head 4), Mem ''inodes'' struct_hlist_head,
    Mem ''wait_pidfd'' typedef_wait_queue_head_t, Mem ''rcu'' struct_callback_head,
    Mem ''numbers'' (Array struct_upid 1)]"

lemma info_struct_pid [c_info]: "info struct_pid = (112, 8)"
  by (simp add: struct_pid_def c_info)

definition struct_rw_semaphore :: ctype where
  "struct_rw_semaphore = Struct [] [
    Mem ''count'' typedef_atomic_long_t, Mem ''owner'' typedef_atomic_long_t,
    Mem ''osq'' struct_optimistic_spin_queue, Mem ''wait_lock'' typedef_raw_spinlock_t,
    Mem ''wait_list'' struct_list_head]"

lemma info_struct_rw_semaphore [c_info]: "info struct_rw_semaphore = (40, 8)"
  by (simp add: struct_rw_semaphore_def c_info)

definition struct_page :: ctype where
  "struct_page = Struct [] [
    Mem ''flags'' (Scalar Tulong),
    Anon (Union [] [
      Anon (Struct [] [
        Mem ''lru'' struct_list_head, Mem ''mapping'' (Ptr ''struct address_space''), Mem ''index'' (Scalar Tulong),
        Mem ''private'' (Scalar Tulong)]),
      Anon (Struct [] [
        Mem ''pp_magic'' (Scalar Tulong), Mem ''pp'' (Ptr ''struct page_pool''),
        Mem ''_pp_mapping_pad'' (Scalar Tulong), Mem ''dma_addr'' (Scalar Tulong),
        Anon (Union [] [
          Mem ''dma_addr_upper'' (Scalar Tulong), Mem ''pp_frag_count'' typedef_atomic_long_t])]),
      Anon (Struct [] [
        Anon (Union [] [
          Mem ''slab_list'' struct_list_head,
          Anon (Struct [] [
            Mem ''next'' (Ptr ''struct page''), Mem ''pages'' (Scalar Tint), Mem ''pobjects'' (Scalar Tint)])]),
        Mem ''slab_cache'' (Ptr ''struct kmem_cache''), Mem ''freelist'' (Ptr ''void''),
        Anon (Union [] [
          Mem ''s_mem'' (Ptr ''void''), Mem ''counters'' (Scalar Tulong),
          Anon (Struct [] [
            Bits ''inuse'' (Scalar Tuint) 16, Bits ''objects'' (Scalar Tuint) 15, Bits ''frozen'' (Scalar Tuint) 1])])]),
      Anon (Struct [] [
        Mem ''compound_head'' (Scalar Tulong), Mem ''compound_dtor'' (Scalar Tuchar),
        Mem ''compound_order'' (Scalar Tuchar), Mem ''compound_mapcount'' typedef_atomic_t,
        Mem ''compound_nr'' (Scalar Tuint)]),
      Anon (Struct [] [
        Mem ''_compound_pad_1'' (Scalar Tulong), Mem ''hpage_pinned_refcount'' typedef_atomic_t,
        Mem ''deferred_list'' struct_list_head]),
      Anon (Struct [] [
        Mem ''_pt_pad_1'' (Scalar Tulong), Mem ''pmd_huge_pte'' typedef_pgtable_t, Mem ''_pt_pad_2'' (Scalar Tulong),
        Anon (Union [] [
          Mem ''pt_mm'' (Ptr ''struct mm_struct''), Mem ''pt_frag_refcount'' typedef_atomic_t]),
        Mem ''ptl'' typedef_spinlock_t]),
      Anon (Struct [] [
        Mem ''pgmap'' (Ptr ''struct dev_pagemap''), Mem ''zone_device_data'' (Ptr ''void'')]),
      Mem ''callback_head'' struct_callback_head]),
    Anon (Union [] [
      Mem ''_mapcount'' typedef_atomic_t, Mem ''page_type'' (Scalar Tuint), Mem ''active'' (Scalar Tuint),
      Mem ''units'' (Scalar Tint)]),
    Mem ''_refcount'' typedef_atomic_t, Mem ''memcg_data'' (Scalar Tulong)]"

lemma info_struct_page [c_info]: "info struct_page = (64, 8)"
  by (simp add: struct_page_def c_info)

definition struct_hrtimer_cpu_base :: ctype where
  "struct_hrtimer_cpu_base = Struct [] [
    Mem ''lock'' typedef_raw_spinlock_t, Mem ''cpu'' (Scalar Tuint), Mem ''active_bases'' (Scalar Tuint),
    Mem ''clock_was_set_seq'' (Scalar Tuint), Bits ''hres_active'' (Scalar Tuint) 1,
    Bits ''in_hrtirq'' (Scalar Tuint) 1, Bits ''hang_detected'' (Scalar Tuint) 1,
    Bits ''softirq_activated'' (Scalar Tuint) 1, Bits ''online'' (Scalar Tuint) 1, Mem ''nr_events'' (Scalar Tuint),
    Mem ''nr_retries'' (Scalar Tushort), Mem ''nr_hangs'' (Scalar Tushort), Mem ''max_hang_time'' (Scalar Tuint),
    Mem ''expires_next'' typedef_ktime_t, Mem ''next_timer'' (Ptr ''struct hrtimer''),
    Mem ''softirq_expires_next'' typedef_ktime_t, Mem ''softirq_next_timer'' (Ptr ''struct hrtimer''),
    Mem ''clock_base'' (Array struct_hrtimer_clock_base 8)]"

lemma info_struct_hrtimer_cpu_base [c_info]: "info struct_hrtimer_cpu_base = (576, 8)"
  by (simp add: struct_hrtimer_cpu_base_def c_info)

definition struct_rlimit :: ctype where
  "struct_rlimit = Struct [] [
    Mem ''rlim_cur'' typedef___kernel_ulong_t, Mem ''rlim_max'' typedef___kernel_ulong_t]"

lemma info_struct_rlimit [c_info]: "info struct_rlimit = (16, 8)"
  by (simp add: struct_rlimit_def c_info)

definition struct_task_cputime :: ctype where
  "struct_task_cputime = Struct [] [
    Mem ''stime'' typedef_u64, Mem ''utime'' typedef_u64, Mem ''sum_exec_runtime'' (Scalar Tullong)]"

lemma info_struct_task_cputime [c_info]: "info struct_task_cputime = (24, 8)"
  by (simp add: struct_task_cputime_def c_info)

definition struct_sigaction :: ctype where
  "struct_sigaction = Struct [] [
    Mem ''sa_handler'' typedef___sighandler_t, Mem ''sa_flags'' (Scalar Tulong),
    Mem ''sa_restorer'' typedef___sigrestore_t, Mem ''sa_mask'' typedef_sigset_t]"

lemma info_struct_sigaction [c_info]: "info struct_sigaction = (32, 8)"
  by (simp add: struct_sigaction_def c_info)

definition struct_k_sigaction :: ctype where
  "struct_k_sigaction = Struct [] [
    Mem ''sa'' struct_sigaction]"

lemma info_struct_k_sigaction [c_info]: "info struct_k_sigaction = (32, 8)"
  by (simp add: struct_k_sigaction_def c_info)

definition struct_vm_userfaultfd_ctx :: ctype where
  "struct_vm_userfaultfd_ctx = Struct [] [
    Mem ''ctx'' (Ptr ''struct userfaultfd_ctx'')]"

lemma info_struct_vm_userfaultfd_ctx [c_info]: "info struct_vm_userfaultfd_ctx = (8, 8)"
  by (simp add: struct_vm_userfaultfd_ctx_def c_info)

definition struct_vm_area_struct :: ctype where
  "struct_vm_area_struct = Struct [] [
    Mem ''vm_start'' (Scalar Tulong), Mem ''vm_end'' (Scalar Tulong), Mem ''vm_next'' (Ptr ''struct vm_area_struct''),
    Mem ''vm_prev'' (Ptr ''struct vm_area_struct''), Mem ''vm_rb'' struct_rb_node,
    Mem ''rb_subtree_gap'' (Scalar Tulong), Mem ''vm_mm'' (Ptr ''struct mm_struct''),
    Mem ''vm_page_prot'' typedef_pgprot_t, Mem ''vm_flags'' (Scalar Tulong),
    Mem ''shared'' (Struct [] [
      Mem ''rb'' struct_rb_node, Mem ''rb_subtree_last'' (Scalar Tulong)]),
    Mem ''anon_vma_chain'' struct_list_head, Mem ''anon_vma'' (Ptr ''struct anon_vma''),
    Mem ''vm_ops'' (Ptr ''const struct vm_operations_struct''), Mem ''vm_pgoff'' (Scalar Tulong),
    Mem ''vm_file'' (Ptr ''struct file''), Mem ''vm_prfile'' (Ptr ''struct file''),
    Mem ''vm_private_data'' (Ptr ''void''), Mem ''swap_readahead_info'' typedef_atomic_long_t,
    Mem ''vm_policy'' (Ptr ''struct mempolicy''), Mem ''vm_userfaultfd_ctx'' struct_vm_userfaultfd_ctx]"

lemma info_struct_vm_area_struct [c_info]: "info struct_vm_area_struct = (208, 8)"
  by (simp add: struct_vm_area_struct_def c_info)

definition struct_mm_rss_stat :: ctype where
  "struct_mm_rss_stat = Struct [] [
    Mem ''count'' (Array typedef_atomic_long_t 4)]"

lemma info_struct_mm_rss_stat [c_info]: "info struct_mm_rss_stat = (32, 8)"
  by (simp add: struct_mm_rss_stat_def c_info)

definition struct_cpu_itimer :: ctype where
  "struct_cpu_itimer = Struct [] [
    Mem ''expires'' typedef_u64, Mem ''incr'' typedef_u64]"

lemma info_struct_cpu_itimer [c_info]: "info struct_cpu_itimer = (16, 8)"
  by (simp add: struct_cpu_itimer_def c_info)

definition struct_task_cputime_atomic :: ctype where
  "struct_task_cputime_atomic = Struct [] [
    Mem ''utime'' typedef_atomic64_t, Mem ''stime'' typedef_atomic64_t, Mem ''sum_exec_runtime'' typedef_atomic64_t]"

lemma info_struct_task_cputime_atomic [c_info]: "info struct_task_cputime_atomic = (24, 8)"
  by (simp add: struct_task_cputime_atomic_def c_info)

definition struct_thread_group_cputimer :: ctype where
  "struct_thread_group_cputimer = Struct [] [
    Mem ''cputime_atomic'' struct_task_cputime_atomic]"

lemma info_struct_thread_group_cputimer [c_info]: "info struct_thread_group_cputimer = (24, 8)"
  by (simp add: struct_thread_group_cputimer_def c_info)

definition struct_signal_struct :: ctype where
  "struct_signal_struct = Struct [] [
    Mem ''sigcnt'' typedef_refcount_t, Mem ''live'' typedef_atomic_t, Mem ''nr_threads'' (Scalar Tint),
    Mem ''thread_head'' struct_list_head, Mem ''wait_chldexit'' typedef_wait_queue_head_t,
    Mem ''curr_target'' (Ptr ''struct task_struct''), Mem ''shared_pending'' struct_sigpending,
    Mem ''multiprocess'' struct_hlist_head, Mem ''group_exit_code'' (Scalar Tint), Mem ''notify_count'' (Scalar Tint),
    Mem ''group_exit_task'' (Ptr ''struct task_struct''), Mem ''group_stop_count'' (Scalar Tint),
    Mem ''flags'' (Scalar Tuint), Bits ''is_child_subreaper'' (Scalar Tuint) 1,
    Bits ''has_child_subreaper'' (Scalar Tuint) 1, Mem ''next_posix_timer_id'' (Scalar Tuint),
    Mem ''posix_timers'' struct_list_head, Mem ''real_timer'' struct_hrtimer, Mem ''it_real_incr'' typedef_ktime_t,
    Mem ''it'' (Array struct_cpu_itimer 2), Mem ''cputimer'' struct_thread_group_cputimer,
    Mem ''posix_cputimers'' struct_posix_cputimers, Mem ''pids'' (Array (Ptr ''struct pid'') 4),
    Mem ''tty_old_pgrp'' (Ptr ''struct pid''), Mem ''leader'' (Scalar Tint), Mem ''tty'' (Ptr ''struct tty_struct''),
    Mem ''autogroup'' (Ptr ''struct autogroup''), Mem ''stats_lock'' typedef_seqlock_t, Mem ''utime'' typedef_u64,
    Mem ''stime'' typedef_u64, Mem ''cutime'' typedef_u64, Mem ''cstime'' typedef_u64, Mem ''gtime'' typedef_u64,
    Mem ''cgtime'' typedef_u64, Mem ''prev_cputime'' struct_prev_cputime, Mem ''nvcsw'' (Scalar Tulong),
    Mem ''nivcsw'' (Scalar Tulong), Mem ''cnvcsw'' (Scalar Tulong), Mem ''cnivcsw'' (Scalar Tulong),
    Mem ''min_flt'' (Scalar Tulong), Mem ''maj_flt'' (Scalar Tulong), Mem ''cmin_flt'' (Scalar Tulong),
    Mem ''cmaj_flt'' (Scalar Tulong), Mem ''inblock'' (Scalar Tulong), Mem ''oublock'' (Scalar Tulong),
    Mem ''cinblock'' (Scalar Tulong), Mem ''coublock'' (Scalar Tulong), Mem ''maxrss'' (Scalar Tulong),
    Mem ''cmaxrss'' (Scalar Tulong), Mem ''ioac'' struct_task_io_accounting,
    Mem ''sum_sched_runtime'' (Scalar Tullong), Mem ''rlim'' (Array struct_rlimit 16),
    Mem ''pacct'' struct_pacct_struct, Mem ''stats'' (Ptr ''struct taskstats''), Mem ''audit_tty'' (Scalar Tuint),
    Mem ''tty_audit_buf'' (Ptr ''struct tty_audit_buf''), Mem ''oom_flag_origin'' typedef_bool,
    Mem ''oom_score_adj'' (Scalar Tshort), Mem ''oom_score_adj_min'' (Scalar Tshort),
    Mem ''oom_mm'' (Ptr ''struct mm_struct''), Mem ''cred_guard_mutex'' struct_mutex,
    Mem ''exec_update_lock'' struct_rw_semaphore]"

lemma info_struct_signal_struct [c_info]: "info struct_signal_struct = (1096, 8)"
  by (simp add: struct_signal_struct_def c_info)

definition struct_rseq :: ctype where
  "struct_rseq = Struct [] [
    Mem ''cpu_id_start'' typedef___u32, Mem ''cpu_id'' typedef___u32, Mem ''rseq_cs'' typedef___u64,
    Mem ''flags'' typedef___u32, Pad (Scalar Tlong) 64]"

lemma info_struct_rseq [c_info]: "info struct_rseq = (32, 8)"
  by (simp add: struct_rseq_def c_info)

definition struct_sched_class :: ctype where
  "struct_sched_class = Struct [] [
    Mem ''uclamp_enabled'' (Scalar Tint),
    Mem ''enqueue_task'' (FunPtr ''void'' [''struct rq *'', ''struct task_struct *'', ''int'']),
    Mem ''dequeue_task'' (FunPtr ''void'' [''struct rq *'', ''struct task_struct *'', ''int'']),
    Mem ''yield_task'' (FunPtr ''void'' [''struct rq *'']),
    Mem ''yield_to_task'' (FunPtr ''bool'' [''struct rq *'', ''struct task_struct *'']),
    Mem ''check_preempt_curr'' (FunPtr ''void'' [''struct rq *'', ''struct task_struct *'', ''int'']),
    Mem ''pick_next_task'' (FunPtr ''struct task_struct *'' [''struct rq *'']),
    Mem ''put_prev_task'' (FunPtr ''void'' [''struct rq *'', ''struct task_struct *'']),
    Mem ''set_next_task'' (FunPtr ''void'' [''struct rq *'', ''struct task_struct *'', ''bool'']),
    Mem ''balance'' (FunPtr ''int'' [''struct rq *'', ''struct task_struct *'', ''struct rq_flags *'']),
    Mem ''select_task_rq'' (FunPtr ''int'' [''struct task_struct *'', ''int'', ''int'']),
    Mem ''pick_task'' (FunPtr ''struct task_struct *'' [''struct rq *'']),
    Mem ''migrate_task_rq'' (FunPtr ''void'' [''struct task_struct *'', ''int'']),
    Mem ''task_woken'' (FunPtr ''void'' [''struct rq *'', ''struct task_struct *'']),
    Mem ''set_cpus_allowed'' (FunPtr ''void'' [''struct task_struct *'', ''const struct cpumask *'', ''u32'']),
    Mem ''rq_online'' (FunPtr ''void'' [''struct rq *'']), Mem ''rq_offline'' (FunPtr ''void'' [''struct rq *'']),
    Mem ''find_lock_rq'' (FunPtr ''struct rq *'' [''struct task_struct *'', ''struct rq *'']),
    Mem ''task_tick'' (FunPtr ''void'' [''struct rq *'', ''struct task_struct *'', ''int'']),
    Mem ''task_fork'' (FunPtr ''void'' [''struct task_struct *'']),
    Mem ''task_dead'' (FunPtr ''void'' [''struct task_struct *'']),
    Mem ''switched_from'' (FunPtr ''void'' [''struct rq *'', ''struct task_struct *'']),
    Mem ''switched_to'' (FunPtr ''void'' [''struct rq *'', ''struct task_struct *'']),
    Mem ''prio_changed'' (FunPtr ''void'' [''struct rq *'', ''struct task_struct *'', ''int'']),
    Mem ''get_rr_interval'' (FunPtr ''unsigned int'' [''struct rq *'', ''struct task_struct *'']),
    Mem ''update_curr'' (FunPtr ''void'' [''struct rq *'']),
    Mem ''task_change_group'' (FunPtr ''void'' [''struct task_struct *'', ''int''])]"

lemma info_struct_sched_class [c_info]: "info struct_sched_class = (216, 8)"
  by (simp add: struct_sched_class_def c_info)

definition struct_mm_struct :: ctype where
  "struct_mm_struct = Struct [] [
    Anon (Struct [] [
      Mem ''mmap'' (Ptr ''struct vm_area_struct''), Mem ''mm_rb'' struct_rb_root, Mem ''vmacache_seqnum'' typedef_u64,
      Mem ''get_unmapped_area'' (FunPtr ''long unsigned int'' [''struct file *'', ''long unsigned int'', ''long unsigned int'', ''long unsigned int'', ''long unsigned int'']),
      Mem ''mmap_base'' (Scalar Tulong), Mem ''mmap_legacy_base'' (Scalar Tulong), Mem ''task_size'' (Scalar Tulong),
      Mem ''highest_vm_end'' (Scalar Tulong), Mem ''pgd'' (Ptr ''pgd_t''), Mem ''membarrier_state'' typedef_atomic_t,
      Mem ''mm_users'' typedef_atomic_t, Mem ''mm_count'' typedef_atomic_t,
      Mem ''pgtables_bytes'' typedef_atomic_long_t, Mem ''map_count'' (Scalar Tint),
      Mem ''page_table_lock'' typedef_spinlock_t, Mem ''mmap_lock'' struct_rw_semaphore,
      Mem ''mmlist'' struct_list_head, Mem ''hiwater_rss'' (Scalar Tulong), Mem ''hiwater_vm'' (Scalar Tulong),
      Mem ''total_vm'' (Scalar Tulong), Mem ''locked_vm'' (Scalar Tulong), Mem ''pinned_vm'' typedef_atomic64_t,
      Mem ''data_vm'' (Scalar Tulong), Mem ''exec_vm'' (Scalar Tulong), Mem ''stack_vm'' (Scalar Tulong),
      Mem ''def_flags'' (Scalar Tulong), Mem ''write_protect_seq'' typedef_seqcount_t,
      Mem ''arg_lock'' typedef_spinlock_t, Mem ''start_code'' (Scalar Tulong), Mem ''end_code'' (Scalar Tulong),
      Mem ''start_data'' (Scalar Tulong), Mem ''end_data'' (Scalar Tulong), Mem ''start_brk'' (Scalar Tulong),
      Mem ''brk'' (Scalar Tulong), Mem ''start_stack'' (Scalar Tulong), Mem ''arg_start'' (Scalar Tulong),
      Mem ''arg_end'' (Scalar Tulong), Mem ''env_start'' (Scalar Tulong), Mem ''env_end'' (Scalar Tulong),
      Mem ''saved_auxv'' (Array (Scalar Tulong) 46), Mem ''rss_stat'' struct_mm_rss_stat,
      Mem ''binfmt'' (Ptr ''struct linux_binfmt''), Mem ''context'' typedef_mm_context_t,
      Mem ''flags'' (Scalar Tulong), Mem ''core_state'' (Ptr ''struct core_state''),
      Mem ''ioctx_lock'' typedef_spinlock_t, Mem ''ioctx_table'' (Ptr ''struct kioctx_table''),
      Mem ''owner'' (Ptr ''struct task_struct''), Mem ''user_ns'' (Ptr ''struct user_namespace''),
      Mem ''exe_file'' (Ptr ''struct file''),
      Mem ''notifier_subscriptions'' (Ptr ''struct mmu_notifier_subscriptions''),
      Mem ''numa_next_scan'' (Scalar Tulong), Mem ''numa_scan_offset'' (Scalar Tulong),
      Mem ''numa_scan_seq'' (Scalar Tint), Mem ''tlb_flush_pending'' typedef_atomic_t,
      Mem ''uprobes_state'' struct_uprobes_state, Mem ''hugetlb_usage'' typedef_atomic_long_t,
      Mem ''async_put_work'' struct_work_struct, Mem ''pasid'' typedef_u32]),
    Mem ''cpu_bitmap'' (Array (Scalar Tulong) 0)]"

lemma info_struct_mm_struct [c_info]: "info struct_mm_struct = (920, 8)"
  by (simp add: struct_mm_struct_def c_info)

definition struct_kernel_cap_struct :: ctype where
  "struct_kernel_cap_struct = Struct [] [
    Mem ''cap'' (Array typedef___u32 2)]"

lemma info_struct_kernel_cap_struct [c_info]: "info struct_kernel_cap_struct = (8, 4)"
  by (simp add: struct_kernel_cap_struct_def c_info)

definition typedef_kernel_cap_t :: ctype where
  "typedef_kernel_cap_t = struct_kernel_cap_struct"

lemma info_typedef_kernel_cap_t [c_info]: "info typedef_kernel_cap_t = (8, 4)"
  by (simp add: typedef_kernel_cap_t_def c_info)

definition struct_cred :: ctype where
  "struct_cred = Struct [] [
    Mem ''usage'' typedef_atomic_long_t, Mem ''uid'' typedef_kuid_t, Mem ''gid'' typedef_kgid_t,
    Mem ''suid'' typedef_kuid_t, Mem ''sgid'' typedef_kgid_t, Mem ''euid'' typedef_kuid_t,
    Mem ''egid'' typedef_kgid_t, Mem ''fsuid'' typedef_kuid_t, Mem ''fsgid'' typedef_kgid_t,
    Mem ''securebits'' (Scalar Tuint), Mem ''cap_inheritable'' typedef_kernel_cap_t,
    Mem ''cap_permitted'' typedef_kernel_cap_t, Mem ''cap_effective'' typedef_kernel_cap_t,
    Mem ''cap_bset'' typedef_kernel_cap_t, Mem ''cap_ambient'' typedef_kernel_cap_t,
    Mem ''jit_keyring'' (Scalar Tuchar), Mem ''session_keyring'' (Ptr ''struct key''),
    Mem ''process_keyring'' (Ptr ''struct key''), Mem ''thread_keyring'' (Ptr ''struct key''),
    Mem ''request_key_auth'' (Ptr ''struct key''), Mem ''security'' (Ptr ''void''),
    Mem ''user'' (Ptr ''struct user_struct''), Mem ''user_ns'' (Ptr ''struct user_namespace''),
    Mem ''ucounts'' (Ptr ''struct ucounts''), Mem ''group_info'' (Ptr ''struct group_info''),
    Anon (Union [] [
      Mem ''non_rcu'' (Scalar Tint), Mem ''rcu'' struct_callback_head])]"

lemma info_struct_cred [c_info]: "info struct_cred = (176, 8)"
  by (simp add: struct_cred_def c_info)

definition struct_nsproxy :: ctype where
  "struct_nsproxy = Struct [] [
    Mem ''count'' typedef_atomic_t, Mem ''uts_ns'' (Ptr ''struct uts_namespace''),
    Mem ''ipc_ns'' (Ptr ''struct ipc_namespace''), Mem ''mnt_ns'' (Ptr ''struct mnt_namespace''),
    Mem ''pid_ns_for_children'' (Ptr ''struct pid_namespace''), Mem ''net_ns'' (Ptr ''struct net''),
    Mem ''time_ns'' (Ptr ''struct time_namespace''), Mem ''time_ns_for_children'' (Ptr ''struct time_namespace''),
    Mem ''cgroup_ns'' (Ptr ''struct cgroup_namespace'')]"

lemma info_struct_nsproxy [c_info]: "info struct_nsproxy = (72, 8)"
  by (simp add: struct_nsproxy_def c_info)

definition struct_sighand_struct :: ctype where
  "struct_sighand_struct = Struct [] [
    Mem ''siglock'' typedef_spinlock_t, Mem ''count'' typedef_refcount_t,
    Mem ''signalfd_wqh'' typedef_wait_queue_head_t, Mem ''action'' (Array struct_k_sigaction 64)]"

lemma info_struct_sighand_struct [c_info]: "info struct_sighand_struct = (2080, 8)"
  by (simp add: struct_sighand_struct_def c_info)

definition struct_percpu_counter :: ctype where
  "struct_percpu_counter = Struct [] [
    Mem ''lock'' typedef_raw_spinlock_t, Mem ''count'' typedef_s64, Mem ''list'' struct_list_head,
    Mem ''counters'' (Ptr ''s32'')]"

lemma info_struct_percpu_counter [c_info]: "info struct_percpu_counter = (40, 8)"
  by (simp add: struct_percpu_counter_def c_info)

definition struct_fprop_local_percpu :: ctype where
  "struct_fprop_local_percpu = Struct [] [
    Mem ''events'' struct_percpu_counter, Mem ''period'' (Scalar Tuint), Mem ''lock'' typedef_raw_spinlock_t]"

lemma info_struct_fprop_local_percpu [c_info]: "info struct_fprop_local_percpu = (48, 8)"
  by (simp add: struct_fprop_local_percpu_def c_info)

definition struct_io_context :: ctype where
  "struct_io_context = Struct [] [
    Mem ''refcount'' typedef_atomic_long_t, Mem ''active_ref'' typedef_atomic_t, Mem ''nr_tasks'' typedef_atomic_t,
    Mem ''lock'' typedef_spinlock_t, Mem ''ioprio'' (Scalar Tushort), Mem ''icq_tree'' struct_xarray,
    Mem ''icq_hint'' (Ptr ''struct io_cq''), Mem ''icq_list'' struct_hlist_head,
    Mem ''release_work'' struct_work_struct]"

lemma info_struct_io_context [c_info]: "info struct_io_context = (88, 8)"
  by (simp add: struct_io_context_def c_info)

definition struct_compat_robust_list :: ctype where
  "struct_compat_robust_list = Struct [] [
    Mem ''next'' typedef_compat_uptr_t]"

lemma info_struct_compat_robust_list [c_info]: "info struct_compat_robust_list = (4, 4)"
  by (simp add: struct_compat_robust_list_def c_info)

definition struct_compat_robust_list_head :: ctype where
  "struct_compat_robust_list_head = Struct [] [
    Mem ''list'' struct_compat_robust_list, Mem ''futex_offset'' typedef_compat_long_t,
    Mem ''list_op_pending'' typedef_compat_uptr_t]"

lemma info_struct_compat_robust_list_head [c_info]: "info struct_compat_robust_list_head = (12, 4)"
  by (simp add: struct_compat_robust_list_head_def c_info)

definition struct_task_delay_info :: ctype where
  "struct_task_delay_info = Struct [] [
    Mem ''lock'' typedef_raw_spinlock_t, Mem ''flags'' (Scalar Tuint), Mem ''blkio_start'' typedef_u64,
    Mem ''blkio_delay'' typedef_u64, Mem ''swapin_delay'' typedef_u64, Mem ''blkio_count'' typedef_u32,
    Mem ''swapin_count'' typedef_u32, Mem ''freepages_start'' typedef_u64, Mem ''freepages_delay'' typedef_u64,
    Mem ''thrashing_start'' typedef_u64, Mem ''thrashing_delay'' typedef_u64, Mem ''freepages_count'' typedef_u32,
    Mem ''thrashing_count'' typedef_u32]"

lemma info_struct_task_delay_info [c_info]: "info struct_task_delay_info = (80, 8)"
  by (simp add: struct_task_delay_info_def c_info)

definition struct_fprop_global :: ctype where
  "struct_fprop_global = Struct [] [
    Mem ''events'' struct_percpu_counter, Mem ''period'' (Scalar Tuint), Mem ''sequence'' typedef_seqcount_t]"

lemma info_struct_fprop_global [c_info]: "info struct_fprop_global = (48, 8)"
  by (simp add: struct_fprop_global_def c_info)

definition enum_uprobe_task_state :: ctype where
  "enum_uprobe_task_state = Enum [
    (''UTASK_RUNNING'', 0), (''UTASK_SSTEP'', 1), (''UTASK_SSTEP_ACK'', 2), (''UTASK_SSTEP_TRAPPED'', 3)]"

lemma info_enum_uprobe_task_state [c_info]: "info enum_uprobe_task_state = (4, 4)"
  by (simp add: enum_uprobe_task_state_def c_info)

definition struct_arch_uprobe_task :: ctype where
  "struct_arch_uprobe_task = Struct [] []"

lemma info_struct_arch_uprobe_task [c_info]: "info struct_arch_uprobe_task = (0, 1)"
  by (simp add: struct_arch_uprobe_task_def c_info)

definition struct_uprobe_task :: ctype where
  "struct_uprobe_task = Struct [] [
    Mem ''state'' enum_uprobe_task_state,
    Anon (Union [] [
      Anon (Struct [] [
        Mem ''autask'' struct_arch_uprobe_task, Mem ''vaddr'' (Scalar Tulong)]),
      Anon (Struct [] [
        Mem ''dup_xol_work'' struct_callback_head, Mem ''dup_xol_addr'' (Scalar Tulong)])]),
    Mem ''active_uprobe'' (Ptr ''struct uprobe''), Mem ''xol_vaddr'' (Scalar Tulong),
    Mem ''return_instances'' (Ptr ''struct return_instance''), Mem ''depth'' (Scalar Tuint)]"

lemma info_struct_uprobe_task [c_info]: "info struct_uprobe_task = (64, 8)"
  by (simp add: struct_uprobe_task_def c_info)

definition struct_vm_struct :: ctype where
  "struct_vm_struct = Struct [] [
    Mem ''next'' (Ptr ''struct vm_struct''), Mem ''addr'' (Ptr ''void''), Mem ''size'' (Scalar Tulong),
    Mem ''flags'' (Scalar Tulong), Mem ''pages'' (Ptr ''struct page *''), Mem ''nr_pages'' (Scalar Tuint),
    Mem ''phys_addr'' typedef_phys_addr_t, Mem ''caller'' (Ptr ''const void'')]"

lemma info_struct_vm_struct [c_info]: "info struct_vm_struct = (64, 8)"
  by (simp add: struct_vm_struct_def c_info)

definition struct_vmem_altmap :: ctype where
  "struct_vmem_altmap = Struct [] [
    Mem ''base_pfn'' (Scalar Tulong), Mem ''end_pfn'' (Scalar Tulong), Mem ''reserve'' (Scalar Tulong),
    Mem ''free'' (Scalar Tulong), Mem ''align'' (Scalar Tulong), Mem ''alloc'' (Scalar Tulong)]"

lemma info_struct_vmem_altmap [c_info]: "info struct_vmem_altmap = (48, 8)"
  by (simp add: struct_vmem_altmap_def c_info)

definition struct_root :: ctype where
  "struct_root = Struct [] [
    Mem ''root'' (Ptr ''struct anon_vma''), Mem ''rwsem'' struct_rw_semaphore, Mem ''refcount'' typedef_atomic_t,
    Mem ''num_children'' (Scalar Tulong), Mem ''num_active_vmas'' (Scalar Tulong),
    Mem ''parent'' (Ptr ''struct anon_vma''), Mem ''rb_root'' struct_rb_root_cached]"

lemma info_struct_root [c_info]: "info struct_root = (96, 8)"
  by (simp add: struct_root_def c_info)

definition struct_vm_operations_struct :: ctype where
  "struct_vm_operations_struct = Struct [] [
    Mem ''open'' (FunPtr ''void'' [''struct vm_area_struct *'']),
    Mem ''close'' (FunPtr ''void'' [''struct vm_area_struct *'']),
    Mem ''may_split'' (FunPtr ''int'' [''struct vm_area_struct *'', ''long unsigned int'']),
    Mem ''mremap'' (FunPtr ''int'' [''struct vm_area_struct *'']),
    Mem ''mprotect'' (FunPtr ''int'' [''struct vm_area_struct *'', ''long unsigned int'', ''long unsigned int'', ''long unsigned int'']),
    Mem ''fault'' (FunPtr ''vm_fault_t'' [''struct vm_fault *'']),
    Mem ''huge_fault'' (FunPtr ''vm_fault_t'' [''struct vm_fault *'', ''enum page_entry_size'']),
    Mem ''map_pages'' (FunPtr ''vm_fault_t'' [''struct vm_fault *'', ''long unsigned int'', ''long unsigned int'']),
    Mem ''pagesize'' (FunPtr ''long unsigned int'' [''struct vm_area_struct *'']),
    Mem ''page_mkwrite'' (FunPtr ''vm_fault_t'' [''struct vm_fault *'']),
    Mem ''pfn_mkwrite'' (FunPtr ''vm_fault_t'' [''struct vm_fault *'']),
    Mem ''access'' (FunPtr ''int'' [''struct vm_area_struct *'', ''long unsigned int'', ''void *'', ''int'', ''int'']),
    Mem ''name'' (FunPtr ''const char *'' [''struct vm_area_struct *'']),
    Mem ''set_policy'' (FunPtr ''int'' [''struct vm_area_struct *'', ''struct mempolicy *'']),
    Mem ''get_policy'' (FunPtr ''struct mempolicy *'' [''struct vm_area_struct *'', ''long unsigned int'']),
    Mem ''find_special_page'' (FunPtr ''struct page *'' [''struct vm_area_struct *'', ''long unsigned int''])]"

lemma info_struct_vm_operations_struct [c_info]: "info struct_vm_operations_struct = (128, 8)"
  by (simp add: struct_vm_operations_struct_def c_info)

definition struct_core_thread :: ctype where
  "struct_core_thread = Struct [] [
    Mem ''task'' (Ptr ''struct task_struct''), Mem ''next'' (Ptr ''struct core_thread'')]"

lemma info_struct_core_thread [c_info]: "info struct_core_thread = (16, 8)"
  by (simp add: struct_core_thread_def c_info)

definition struct_core_state :: ctype where
  "struct_core_state = Struct [] [
    Mem ''nr_threads'' typedef_atomic_t, Mem ''dumper'' struct_core_thread, Mem ''startup'' struct_completion]"

lemma info_struct_core_state [c_info]: "info struct_core_state = (56, 8)"
  by (simp add: struct_core_state_def c_info)

definition struct_linux_binfmt :: ctype where
  "struct_linux_binfmt = Struct [] [
    Mem ''lh'' struct_list_head, Mem ''module'' (Ptr ''struct module''),
    Mem ''load_binary'' (FunPtr ''int'' [''struct linux_binprm *'']),
    Mem ''load_shlib'' (FunPtr ''int'' [''struct file *'']),
    Mem ''core_dump'' (FunPtr ''int'' [''struct coredump_params *'']), Mem ''min_coredump'' (Scalar Tulong)]"

lemma info_struct_linux_binfmt [c_info]: "info struct_linux_binfmt = (56, 8)"
  by (simp add: struct_linux_binfmt_def c_info)

definition struct_zone_padding :: ctype where
  "struct_zone_padding = Struct [] [
    Mem ''x'' (Array (Scalar Tchar) 0)]"

lemma info_struct_zone_padding [c_info]: "info struct_zone_padding = (0, 1)"
  by (simp add: struct_zone_padding_def c_info)

definition struct_lruvec :: ctype where
  "struct_lruvec = Struct [] [
    Mem ''lists'' (Array struct_list_head 5), Mem ''lru_lock'' typedef_spinlock_t, Mem ''anon_cost'' (Scalar Tulong),
    Mem ''file_cost'' (Scalar Tulong), Mem ''nonresident_age'' typedef_atomic_long_t,
    Mem ''refaults'' (Array (Scalar Tulong) 2), Mem ''flags'' (Scalar Tulong),
    Mem ''pgdat'' (Ptr ''struct pglist_data'')]"

lemma info_struct_lruvec [c_info]: "info struct_lruvec = (144, 8)"
  by (simp add: struct_lruvec_def c_info)

definition struct_zone :: ctype where
  "struct_zone = Struct [] [
    Mem ''_watermark'' (Array (Scalar Tulong) 3), Mem ''watermark_boost'' (Scalar Tulong),
    Mem ''nr_reserved_highatomic'' (Scalar Tulong), Mem ''lowmem_reserve'' (Array (Scalar Tlong) 5),
    Mem ''node'' (Scalar Tint), Mem ''zone_pgdat'' (Ptr ''struct pglist_data''),
    Mem ''per_cpu_pageset'' (Ptr ''struct per_cpu_pages''),
    Mem ''per_cpu_zonestats'' (Ptr ''struct per_cpu_zonestat''), Mem ''pageset_high'' (Scalar Tint),
    Mem ''pageset_batch'' (Scalar Tint), Mem ''zone_start_pfn'' (Scalar Tulong),
    Mem ''managed_pages'' typedef_atomic_long_t, Mem ''spanned_pages'' (Scalar Tulong),
    Mem ''present_pages'' (Scalar Tulong), Mem ''present_early_pages'' (Scalar Tulong),
    Mem ''cma_pages'' (Scalar Tulong), Mem ''name'' (Ptr ''const char''),
    Mem ''nr_isolate_pageblock'' (Scalar Tulong), Mem ''span_seqlock'' typedef_seqlock_t,
    Mem ''initialized'' (Scalar Tint), Pad (Scalar Tlong) 64, Pad (Scalar Tlong) 64, Pad (Scalar Tlong) 64,
    Pad (Scalar Tlong) 64, Pad (Scalar Tlong) 64, Pad (Scalar Tlong) 64, Pad (Scalar Tlong) 64,
    Mem ''_pad1_'' struct_zone_padding, Mem ''free_area'' (Array struct_free_area 13), Mem ''flags'' (Scalar Tulong),
    Mem ''lock'' typedef_spinlock_t, Pad (Scalar Tlong) 64, Pad (Scalar Tlong) 64, Pad (Scalar Tlong) 64,
    Pad (Scalar Tlong) 64, Pad (Scalar Tlong) 64, Mem ''_pad2_'' struct_zone_padding,
    Mem ''percpu_drift_mark'' (Scalar Tulong), Mem ''compact_cached_free_pfn'' (Scalar Tulong),
    Mem ''compact_cached_migrate_pfn'' (Array (Scalar Tulong) 2), Mem ''compact_init_migrate_pfn'' (Scalar Tulong),
    Mem ''compact_init_free_pfn'' (Scalar Tulong), Mem ''compact_considered'' (Scalar Tuint),
    Mem ''compact_defer_shift'' (Scalar Tuint), Mem ''compact_order_failed'' (Scalar Tint),
    Mem ''compact_blockskip_flush'' typedef_bool, Mem ''contiguous'' typedef_bool, Pad (Scalar Tlong) 0,
    Mem ''_pad3_'' struct_zone_padding, Mem ''vm_stat'' (Array typedef_atomic_long_t 11),
    Mem ''vm_numa_event'' (Array typedef_atomic_long_t 6), Pad (Scalar Tlong) 64, Pad (Scalar Tlong) 64,
    Pad (Scalar Tlong) 64, Pad (Scalar Tlong) 64, Pad (Scalar Tlong) 64, Pad (Scalar Tlong) 64, Pad (Scalar Tlong) 64]"

lemma info_struct_zone [c_info]: "info struct_zone = (1920, 8)"
  by (simp add: struct_zone_def c_info)

definition struct_zoneref :: ctype where
  "struct_zoneref = Struct [] [
    Mem ''zone'' (Ptr ''struct zone''), Mem ''zone_idx'' (Scalar Tint)]"

lemma info_struct_zoneref [c_info]: "info struct_zoneref = (16, 8)"
  by (simp add: struct_zoneref_def c_info)

definition struct_zonelist :: ctype where
  "struct_zonelist = Struct [] [
    Mem ''_zonerefs'' (Array struct_zoneref 321)]"

lemma info_struct_zonelist [c_info]: "info struct_zonelist = (5136, 8)"
  by (simp add: struct_zonelist_def c_info)

definition enum_zone_type :: ctype where
  "enum_zone_type = Enum [
    (''ZONE_DMA'', 0), (''ZONE_DMA32'', 1), (''ZONE_NORMAL'', 2), (''ZONE_MOVABLE'', 3), (''ZONE_DEVICE'', 4),
    (''__MAX_NR_ZONES'', 5)]"

lemma info_enum_zone_type [c_info]: "info enum_zone_type = (4, 4)"
  by (simp add: enum_zone_type_def c_info)

definition struct_pglist_data :: ctype where
  "struct_pglist_data = Struct [] [
    Mem ''node_zones'' (Array struct_zone 5), Mem ''node_zonelists'' (Array struct_zonelist 2),
    Mem ''nr_zones'' (Scalar Tint), Mem ''node_size_lock'' typedef_spinlock_t, Mem ''node_start_pfn'' (Scalar Tulong),
    Mem ''node_present_pages'' (Scalar Tulong), Mem ''node_spanned_pages'' (Scalar Tulong),
    Mem ''node_id'' (Scalar Tint), Mem ''kswapd_wait'' typedef_wait_queue_head_t,
    Mem ''pfmemalloc_wait'' typedef_wait_queue_head_t, Mem ''kswapd'' (Ptr ''struct task_struct''),
    Mem ''kswapd_order'' (Scalar Tint), Mem ''kswapd_highest_zoneidx'' enum_zone_type,
    Mem ''kswapd_failures'' (Scalar Tint), Mem ''kcompactd_max_order'' (Scalar Tint),
    Mem ''kcompactd_highest_zoneidx'' enum_zone_type, Mem ''kcompactd_wait'' typedef_wait_queue_head_t,
    Mem ''kcompactd'' (Ptr ''struct task_struct''), Mem ''proactive_compact_trigger'' typedef_bool,
    Mem ''totalreserve_pages'' (Scalar Tulong), Mem ''min_unmapped_pages'' (Scalar Tulong),
    Mem ''min_slab_pages'' (Scalar Tulong), Pad (Scalar Tlong) 64, Pad (Scalar Tlong) 64, Pad (Scalar Tlong) 64,
    Pad (Scalar Tlong) 64, Pad (Scalar Tlong) 64, Mem ''_pad1_'' struct_zone_padding,
    Mem ''deferred_split_queue'' struct_deferred_split, Mem ''__lruvec'' struct_lruvec, Mem ''flags'' (Scalar Tulong),
    Pad (Scalar Tlong) 64, Mem ''_pad2_'' struct_zone_padding,
    Mem ''per_cpu_nodestats'' (Ptr ''struct per_cpu_nodestat''), Mem ''vm_stat'' (Array typedef_atomic_long_t 39)]"

lemma info_struct_pglist_data [c_info]: "info struct_pglist_data = (20608, 8)"
  by (simp add: struct_pglist_data_def c_info)

definition struct_blocking_notifier_head :: ctype where
  "struct_blocking_notifier_head = Struct [] [
    Mem ''rwsem'' struct_rw_semaphore, Mem ''head'' (Ptr ''struct notifier_block'')]"

lemma info_struct_blocking_notifier_head [c_info]: "info struct_blocking_notifier_head = (48, 8)"
  by (simp add: struct_blocking_notifier_head_def c_info)

definition struct_mem_dqinfo :: ctype where
  "struct_mem_dqinfo = Struct [] [
    Mem ''dqi_format'' (Ptr ''struct quota_format_type''), Mem ''dqi_fmt_id'' (Scalar Tint),
    Mem ''dqi_dirty_list'' struct_list_head, Mem ''dqi_flags'' (Scalar Tulong), Mem ''dqi_bgrace'' (Scalar Tuint),
    Mem ''dqi_igrace'' (Scalar Tuint), Mem ''dqi_max_spc_limit'' typedef_qsize_t,
    Mem ''dqi_max_ino_limit'' typedef_qsize_t, Mem ''dqi_priv'' (Ptr ''void'')]"

lemma info_struct_mem_dqinfo [c_info]: "info struct_mem_dqinfo = (72, 8)"
  by (simp add: struct_mem_dqinfo_def c_info)

definition struct_percpu_rw_semaphore :: ctype where
  "struct_percpu_rw_semaphore = Struct [] [
    Mem ''rss'' struct_rcu_sync, Mem ''read_count'' (Ptr ''unsigned int''), Mem ''writer'' struct_rcuwait,
    Mem ''waiters'' typedef_wait_queue_head_t, Mem ''block'' typedef_atomic_t]"

lemma info_struct_percpu_rw_semaphore [c_info]: "info struct_percpu_rw_semaphore = (96, 8)"
  by (simp add: struct_percpu_rw_semaphore_def c_info)

definition struct_sb_writers :: ctype where
  "struct_sb_writers = Struct [] [
    Mem ''frozen'' (Scalar Tint), Mem ''wait_unfrozen'' typedef_wait_queue_head_t,
    Mem ''rw_sem'' (Array struct_percpu_rw_semaphore 3)]"

lemma info_struct_sb_writers [c_info]: "info struct_sb_writers = (320, 8)"
  by (simp add: struct_sb_writers_def c_info)

definition struct_list_lru :: ctype where
  "struct_list_lru = Struct [] [
    Mem ''node'' (Ptr ''struct list_lru_node''), Mem ''list'' struct_list_head, Mem ''shrinker_id'' (Scalar Tint),
    Mem ''memcg_aware'' typedef_bool]"

lemma info_struct_list_lru [c_info]: "info struct_list_lru = (32, 8)"
  by (simp add: struct_list_lru_def c_info)

definition struct_list_lru_one :: ctype where
  "struct_list_lru_one = Struct [] [
    Mem ''list'' struct_list_head, Mem ''nr_items'' (Scalar Tlong)]"

lemma info_struct_list_lru_one [c_info]: "info struct_list_lru_one = (24, 8)"
  by (simp add: struct_list_lru_one_def c_info)

definition struct_list_lru_node :: ctype where
  "struct_list_lru_node = Struct [] [
    Mem ''lock'' typedef_spinlock_t, Mem ''lru'' struct_list_lru_one,
    Mem ''memcg_lrus'' (Ptr ''struct list_lru_memcg''), Mem ''nr_items'' (Scalar Tlong), Pad (Scalar Tlong) 64,
    Pad (Scalar Tlong) 64]"

lemma info_struct_list_lru_node [c_info]: "info struct_list_lru_node = (64, 8)"
  by (simp add: struct_list_lru_node_def c_info)

definition struct_group_info :: ctype where
  "struct_group_info = Struct [] [
    Mem ''usage'' typedef_atomic_t, Mem ''ngroups'' (Scalar Tint), Mem ''gid'' (Array typedef_kgid_t 0)]"

lemma info_struct_group_info [c_info]: "info struct_group_info = (8, 4)"
  by (simp add: struct_group_info_def c_info)

definition struct_io_cq :: ctype where
  "struct_io_cq = Struct [] [
    Mem ''q'' (Ptr ''struct request_queue''), Mem ''ioc'' (Ptr ''struct io_context''),
    Anon (Union [] [
      Mem ''q_node'' struct_list_head, Mem ''__rcu_icq_cache'' (Ptr ''struct kmem_cache'')]),
    Anon (Union [] [
      Mem ''ioc_node'' struct_hlist_node, Mem ''__rcu_head'' struct_callback_head]),
    Mem ''flags'' (Scalar Tuint)]"

lemma info_struct_io_cq [c_info]: "info struct_io_cq = (56, 8)"
  by (simp add: struct_io_cq_def c_info)

definition struct_kernel_param_ops :: ctype where
  "struct_kernel_param_ops = Struct [] [
    Mem ''flags'' (Scalar Tuint), Mem ''set'' (FunPtr ''int'' [''const char *'', ''const struct kernel_param *'']),
    Mem ''get'' (FunPtr ''int'' [''char *'', ''const struct kernel_param *'']),
    Mem ''free'' (FunPtr ''void'' [''void *''])]"

lemma info_struct_kernel_param_ops [c_info]: "info struct_kernel_param_ops = (32, 8)"
  by (simp add: struct_kernel_param_ops_def c_info)

definition struct_kernel_param :: ctype where
  "struct_kernel_param = Struct [] [
    Mem ''name'' (Ptr ''const char''), Mem ''mod'' (Ptr ''struct module''),
    Mem ''ops'' (Ptr ''const struct kernel_param_ops''), Mem ''perm'' typedef_u16, Mem ''level'' typedef_s8,
    Mem ''flags'' typedef_u8,
    Anon (Union [] [
      Mem ''arg'' (Ptr ''void''), Mem ''str'' (Ptr ''const struct kparam_string''),
      Mem ''arr'' (Ptr ''const struct kparam_array'')])]"

lemma info_struct_kernel_param [c_info]: "info struct_kernel_param = (40, 8)"
  by (simp add: struct_kernel_param_def c_info)

definition struct_percpu_ref_data :: ctype where
  "struct_percpu_ref_data = Struct [] [
    Mem ''count'' typedef_atomic_long_t, Mem ''release'' (Ptr ''percpu_ref_func_t''),
    Mem ''confirm_switch'' (Ptr ''percpu_ref_func_t''), Bits ''force_atomic'' typedef_bool 1,
    Bits ''allow_reinit'' typedef_bool 1, Mem ''rcu'' struct_callback_head, Mem ''ref'' (Ptr ''struct percpu_ref'')]"

lemma info_struct_percpu_ref_data [c_info]: "info struct_percpu_ref_data = (56, 8)"
  by (simp add: struct_percpu_ref_data_def c_info)

definition struct_sbq_wait_state :: ctype where
  "struct_sbq_wait_state = Struct [] [
    Mem ''wait_cnt'' typedef_atomic_t, Mem ''wait'' typedef_wait_queue_head_t, Pad (Scalar Tlong) 64,
    Pad (Scalar Tlong) 64, Pad (Scalar Tlong) 64, Pad (Scalar Tlong) 64]"

lemma info_struct_sbq_wait_state [c_info]: "info struct_sbq_wait_state = (64, 8)"
  by (simp add: struct_sbq_wait_state_def c_info)

definition struct_lruvec_stats_percpu :: ctype where
  "struct_lruvec_stats_percpu = Struct [] [
    Mem ''state'' (Array (Scalar Tlong) 39), Mem ''state_prev'' (Array (Scalar Tlong) 39)]"

lemma info_struct_lruvec_stats_percpu [c_info]: "info struct_lruvec_stats_percpu = (624, 8)"
  by (simp add: struct_lruvec_stats_percpu_def c_info)

definition struct_lruvec_stats :: ctype where
  "struct_lruvec_stats = Struct [] [
    Mem ''state'' (Array (Scalar Tlong) 39), Mem ''state_pending'' (Array (Scalar Tlong) 39)]"

lemma info_struct_lruvec_stats [c_info]: "info struct_lruvec_stats = (624, 8)"
  by (simp add: struct_lruvec_stats_def c_info)

definition struct_ld_semaphore :: ctype where
  "struct_ld_semaphore = Struct [] [
    Mem ''count'' typedef_atomic_long_t, Mem ''wait_lock'' typedef_raw_spinlock_t,
    Mem ''wait_readers'' (Scalar Tuint), Mem ''read_wait'' struct_list_head, Mem ''write_wait'' struct_list_head]"

lemma info_struct_ld_semaphore [c_info]: "info struct_ld_semaphore = (48, 8)"
  by (simp add: struct_ld_semaphore_def c_info)

definition struct_tty_struct :: ctype where
  "struct_tty_struct = Struct [] [
    Mem ''magic'' (Scalar Tint), Mem ''kref'' struct_kref, Mem ''dev'' (Ptr ''struct device''),
    Mem ''driver'' (Ptr ''struct tty_driver''), Mem ''ops'' (Ptr ''const struct tty_operations''),
    Mem ''index'' (Scalar Tint), Mem ''ldisc_sem'' struct_ld_semaphore, Mem ''ldisc'' (Ptr ''struct tty_ldisc''),
    Mem ''atomic_write_lock'' struct_mutex, Mem ''legacy_mutex'' struct_mutex, Mem ''throttle_mutex'' struct_mutex,
    Mem ''termios_rwsem'' struct_rw_semaphore, Mem ''winsize_mutex'' struct_mutex, Mem ''termios'' struct_ktermios,
    Mem ''termios_locked'' struct_ktermios, Mem ''name'' (Array (Scalar Tchar) 64), Mem ''flags'' (Scalar Tulong),
    Mem ''count'' (Scalar Tint), Mem ''winsize'' struct_winsize,
    Mem ''flow'' (Struct [] [
      Mem ''lock'' typedef_spinlock_t, Mem ''stopped'' typedef_bool, Mem ''tco_stopped'' typedef_bool,
      Mem ''unused'' (Array (Scalar Tulong) 0)]),
    Mem ''ctrl'' (Struct [] [
      Mem ''lock'' typedef_spinlock_t, Mem ''pgrp'' (Ptr ''struct pid''), Mem ''session'' (Ptr ''struct pid''),
      Mem ''pktstatus'' (Scalar Tuchar), Mem ''packet'' typedef_bool, Mem ''unused'' (Array (Scalar Tulong) 0)]),
    Mem ''hw_stopped'' (Scalar Tint), Mem ''receive_room'' (Scalar Tuint), Mem ''flow_change'' (Scalar Tint),
    Mem ''link'' (Ptr ''struct tty_struct''), Mem ''fasync'' (Ptr ''struct fasync_struct''),
    Mem ''write_wait'' typedef_wait_queue_head_t, Mem ''read_wait'' typedef_wait_queue_head_t,
    Mem ''hangup_work'' struct_work_struct, Mem ''disc_data'' (Ptr ''void''), Mem ''driver_data'' (Ptr ''void''),
    Mem ''files_lock'' typedef_spinlock_t, Mem ''tty_files'' struct_list_head, Mem ''closing'' (Scalar Tint),
    Mem ''write_buf'' (Ptr ''unsigned char''), Mem ''write_cnt'' (Scalar Tint), Mem ''SAK_work'' struct_work_struct,
    Mem ''port'' (Ptr ''struct tty_port'')]"

lemma info_struct_tty_struct [c_info]: "info struct_tty_struct = (696, 8)"
  by (simp add: struct_tty_struct_def c_info)

definition struct_netprio_map :: ctype where
  "struct_netprio_map = Struct [] [
    Mem ''rcu'' struct_callback_head, Mem ''priomap_len'' typedef_u32, Mem ''priomap'' (Array typedef_u32 0)]"

lemma info_struct_netprio_map [c_info]: "info struct_netprio_map = (24, 8)"
  by (simp add: struct_netprio_map_def c_info)

definition struct_pcpu_lstats :: ctype where
  "struct_pcpu_lstats = Struct [] [
    Mem ''packets'' typedef_u64_stats_t, Mem ''bytes'' typedef_u64_stats_t, Mem ''syncp'' struct_u64_stats_sync]"

lemma info_struct_pcpu_lstats [c_info]: "info struct_pcpu_lstats = (16, 8)"
  by (simp add: struct_pcpu_lstats_def c_info)

definition struct_pcpu_sw_netstats :: ctype where
  "struct_pcpu_sw_netstats = Struct [] [
    Mem ''rx_packets'' typedef_u64, Mem ''rx_bytes'' typedef_u64, Mem ''tx_packets'' typedef_u64,
    Mem ''tx_bytes'' typedef_u64, Mem ''syncp'' struct_u64_stats_sync]"

lemma info_struct_pcpu_sw_netstats [c_info]: "info struct_pcpu_sw_netstats = (32, 8)"
  by (simp add: struct_pcpu_sw_netstats_def c_info)

definition struct_vm_special_mapping :: ctype where
  "struct_vm_special_mapping = Struct [] [
    Mem ''name'' (Ptr ''const char''), Mem ''pages'' (Ptr ''struct page *''),
    Mem ''fault'' (FunPtr ''vm_fault_t'' [''const struct vm_special_mapping *'', ''struct vm_area_struct *'', ''struct vm_fault *'']),
    Mem ''mremap'' (FunPtr ''int'' [''const struct vm_special_mapping *'', ''struct vm_area_struct *''])]"

lemma info_struct_vm_special_mapping [c_info]: "info struct_vm_special_mapping = (32, 8)"
  by (simp add: struct_vm_special_mapping_def c_info)

definition struct_io_tlb_mem :: ctype where
  "struct_io_tlb_mem = Struct [] [
    Mem ''start'' typedef_phys_addr_t, Mem ''end'' typedef_phys_addr_t, Mem ''nslabs'' (Scalar Tulong),
    Mem ''used'' (Scalar Tulong), Mem ''index'' (Scalar Tuint), Mem ''lock'' typedef_spinlock_t,
    Mem ''debugfs'' (Ptr ''struct dentry''), Mem ''late_alloc'' typedef_bool, Mem ''force_bounce'' typedef_bool,
    Mem ''for_alloc'' typedef_bool, Mem ''slots'' (Ptr ''struct io_tlb_slot'')]"

lemma info_struct_io_tlb_mem [c_info]: "info struct_io_tlb_mem = (64, 8)"
  by (simp add: struct_io_tlb_mem_def c_info)

definition struct_io_tlb_slot :: ctype where
  "struct_io_tlb_slot = Struct [] [
    Mem ''orig_addr'' typedef_phys_addr_t, Mem ''alloc_size'' typedef_size_t, Mem ''list'' (Scalar Tuint)]"

lemma info_struct_io_tlb_slot [c_info]: "info struct_io_tlb_slot = (24, 8)"
  by (simp add: struct_io_tlb_slot_def c_info)

definition struct_robust_list :: ctype where
  "struct_robust_list = Struct [] [
    Mem ''next'' (Ptr ''struct robust_list'')]"

lemma info_struct_robust_list [c_info]: "info struct_robust_list = (8, 8)"
  by (simp add: struct_robust_list_def c_info)

definition struct_robust_list_head :: ctype where
  "struct_robust_list_head = Struct [] [
    Mem ''list'' struct_robust_list, Mem ''futex_offset'' (Scalar Tlong),
    Mem ''list_op_pending'' (Ptr ''struct robust_list'')]"

lemma info_struct_robust_list_head [c_info]: "info struct_robust_list_head = (24, 8)"
  by (simp add: struct_robust_list_head_def c_info)

definition struct_cfs_rq :: ctype where
  "struct_cfs_rq = Struct [] [
    Mem ''load'' struct_load_weight, Mem ''nr_running'' (Scalar Tuint), Mem ''h_nr_running'' (Scalar Tuint),
    Mem ''idle_h_nr_running'' (Scalar Tuint), Mem ''exec_clock'' typedef_u64, Mem ''min_vruntime'' typedef_u64,
    Mem ''forceidle_seq'' (Scalar Tuint), Mem ''min_vruntime_fi'' typedef_u64,
    Mem ''tasks_timeline'' struct_rb_root_cached, Mem ''curr'' (Ptr ''struct sched_entity''),
    Mem ''next'' (Ptr ''struct sched_entity''), Mem ''last'' (Ptr ''struct sched_entity''),
    Mem ''skip'' (Ptr ''struct sched_entity''), Mem ''nr_spread_over'' (Scalar Tuint), Pad (Scalar Tlong) 64,
    Mem ''avg'' struct_sched_avg,
    Mem ''removed'' (Struct [] [
      Mem ''lock'' typedef_raw_spinlock_t, Mem ''nr'' (Scalar Tint), Mem ''load_avg'' (Scalar Tulong),
      Mem ''util_avg'' (Scalar Tulong), Mem ''runnable_avg'' (Scalar Tulong), Pad (Scalar Tlong) 64,
      Pad (Scalar Tlong) 64, Pad (Scalar Tlong) 64, Pad (Scalar Tlong) 64]),
    Mem ''last_update_tg_load_avg'' typedef_u64, Mem ''tg_load_avg_contrib'' (Scalar Tulong),
    Mem ''propagate'' (Scalar Tlong), Mem ''prop_runnable_sum'' (Scalar Tlong), Mem ''h_load'' (Scalar Tulong),
    Mem ''last_h_load_update'' typedef_u64, Mem ''h_load_next'' (Ptr ''struct sched_entity''),
    Mem ''rq'' (Ptr ''struct rq''), Mem ''on_list'' (Scalar Tint), Mem ''leaf_cfs_rq_list'' struct_list_head,
    Mem ''tg'' (Ptr ''struct task_group''), Mem ''idle'' (Scalar Tint), Mem ''runtime_enabled'' (Scalar Tint),
    Mem ''runtime_remaining'' typedef_s64, Mem ''throttled_clock'' typedef_u64,
    Mem ''throttled_clock_pelt'' typedef_u64, Mem ''throttled_clock_pelt_time'' typedef_u64,
    Mem ''throttled'' (Scalar Tint), Mem ''throttle_count'' (Scalar Tint), Mem ''throttled_list'' struct_list_head,
    Pad (Scalar Tlong) 64, Pad (Scalar Tlong) 64, Pad (Scalar Tlong) 64, Pad (Scalar Tlong) 64]"

lemma info_struct_cfs_rq [c_info]: "info struct_cfs_rq = (448, 8)"
  by (simp add: struct_cfs_rq_def c_info)

definition struct_cfs_bandwidth :: ctype where
  "struct_cfs_bandwidth = Struct [] [
    Mem ''lock'' typedef_raw_spinlock_t, Mem ''period'' typedef_ktime_t, Mem ''quota'' typedef_u64,
    Mem ''runtime'' typedef_u64, Mem ''burst'' typedef_u64, Mem ''hierarchical_quota'' typedef_s64,
    Mem ''idle'' typedef_u8, Mem ''period_active'' typedef_u8, Mem ''slack_started'' typedef_u8,
    Mem ''period_timer'' struct_hrtimer, Mem ''slack_timer'' struct_hrtimer,
    Mem ''throttled_cfs_rq'' struct_list_head, Mem ''nr_periods'' (Scalar Tint), Mem ''nr_throttled'' (Scalar Tint),
    Mem ''throttled_time'' typedef_u64]"

lemma info_struct_cfs_bandwidth [c_info]: "info struct_cfs_bandwidth = (216, 8)"
  by (simp add: struct_cfs_bandwidth_def c_info)

definition struct_autogroup :: ctype where
  "struct_autogroup = Struct [] [
    Mem ''kref'' struct_kref, Mem ''tg'' (Ptr ''struct task_group''), Mem ''lock'' struct_rw_semaphore,
    Mem ''id'' (Scalar Tulong), Mem ''nice'' (Scalar Tint)]"

lemma info_struct_autogroup [c_info]: "info struct_autogroup = (72, 8)"
  by (simp add: struct_autogroup_def c_info)

definition struct_uclamp_bucket :: ctype where
  "struct_uclamp_bucket = Struct [] [
    Bits ''value'' (Scalar Tulong) 11, Bits ''tasks'' (Scalar Tulong) 53]"

lemma info_struct_uclamp_bucket [c_info]: "info struct_uclamp_bucket = (8, 8)"
  by (simp add: struct_uclamp_bucket_def c_info)

definition struct_uclamp_rq :: ctype where
  "struct_uclamp_rq = Struct [] [
    Mem ''value'' (Scalar Tuint), Mem ''bucket'' (Array struct_uclamp_bucket 5)]"

lemma info_struct_uclamp_rq [c_info]: "info struct_uclamp_rq = (48, 8)"
  by (simp add: struct_uclamp_rq_def c_info)

definition struct_rt_prio_array :: ctype where
  "struct_rt_prio_array = Struct [] [
    Mem ''bitmap'' (Array (Scalar Tulong) 2), Mem ''queue'' (Array struct_list_head 100)]"

lemma info_struct_rt_prio_array [c_info]: "info struct_rt_prio_array = (1616, 8)"
  by (simp add: struct_rt_prio_array_def c_info)

definition struct_rt_rq :: ctype where
  "struct_rt_rq = Struct [] [
    Mem ''active'' struct_rt_prio_array, Mem ''rt_nr_running'' (Scalar Tuint), Mem ''rr_nr_running'' (Scalar Tuint),
    Mem ''highest_prio'' (Struct [] [
      Mem ''curr'' (Scalar Tint), Mem ''next'' (Scalar Tint)]),
    Mem ''rt_nr_migratory'' (Scalar Tuint), Mem ''rt_nr_total'' (Scalar Tuint), Mem ''overloaded'' (Scalar Tint),
    Mem ''pushable_tasks'' struct_plist_head, Mem ''rt_queued'' (Scalar Tint), Mem ''rt_throttled'' (Scalar Tint),
    Mem ''rt_time'' typedef_u64, Mem ''rt_runtime'' typedef_u64, Mem ''rt_runtime_lock'' typedef_raw_spinlock_t]"

lemma info_struct_rt_rq [c_info]: "info struct_rt_rq = (1696, 8)"
  by (simp add: struct_rt_rq_def c_info)

definition struct_dl_rq :: ctype where
  "struct_dl_rq = Struct [] [
    Mem ''root'' struct_rb_root_cached, Mem ''dl_nr_running'' (Scalar Tuint),
    Mem ''earliest_dl'' (Struct [] [
      Mem ''curr'' typedef_u64, Mem ''next'' typedef_u64]),
    Mem ''dl_nr_migratory'' (Scalar Tuint), Mem ''overloaded'' (Scalar Tint),
    Mem ''pushable_dl_tasks_root'' struct_rb_root_cached, Mem ''running_bw'' typedef_u64, Mem ''this_bw'' typedef_u64,
    Mem ''extra_bw'' typedef_u64, Mem ''bw_ratio'' typedef_u64]"

lemma info_struct_dl_rq [c_info]: "info struct_dl_rq = (96, 8)"
  by (simp add: struct_dl_rq_def c_info)

definition struct_cpu_stop_work :: ctype where
  "struct_cpu_stop_work = Struct [] [
    Mem ''list'' struct_list_head, Mem ''fn'' typedef_cpu_stop_fn_t, Mem ''caller'' (Scalar Tulong),
    Mem ''arg'' (Ptr ''void''), Mem ''done'' (Ptr ''struct cpu_stop_done'')]"

lemma info_struct_cpu_stop_work [c_info]: "info struct_cpu_stop_work = (48, 8)"
  by (simp add: struct_cpu_stop_work_def c_info)

definition struct_rq :: ctype where
  "struct_rq = Struct [] [
    Mem ''__lock'' typedef_raw_spinlock_t, Mem ''nr_running'' (Scalar Tuint), Mem ''nr_numa_running'' (Scalar Tuint),
    Mem ''nr_preferred_running'' (Scalar Tuint), Mem ''numa_migrate_on'' (Scalar Tuint),
    Mem ''last_blocked_load_update_tick'' (Scalar Tulong), Mem ''has_blocked_load'' (Scalar Tuint),
    Pad (Scalar Tlong) 64, Pad (Scalar Tlong) 64, Pad (Scalar Tlong) 64, Mem ''nohz_csd'' typedef_call_single_data_t,
    Mem ''nohz_tick_stopped'' (Scalar Tuint), Mem ''nohz_flags'' typedef_atomic_t,
    Mem ''ttwu_pending'' (Scalar Tuint), Mem ''nr_switches'' typedef_u64, Pad (Scalar Tlong) 64,
    Mem ''uclamp'' (Array struct_uclamp_rq 2), Mem ''uclamp_flags'' (Scalar Tuint), Pad (Scalar Tlong) 64,
    Pad (Scalar Tlong) 64, Pad (Scalar Tlong) 64, Mem ''cfs'' struct_cfs_rq, Mem ''rt'' struct_rt_rq,
    Mem ''dl'' struct_dl_rq, Mem ''leaf_cfs_rq_list'' struct_list_head,
    Mem ''tmp_alone_branch'' (Ptr ''struct list_head''), Mem ''nr_uninterruptible'' (Scalar Tuint),
    Mem ''curr'' (Ptr ''struct task_struct''), Mem ''idle'' (Ptr ''struct task_struct''),
    Mem ''stop'' (Ptr ''struct task_struct''), Mem ''next_balance'' (Scalar Tulong),
    Mem ''prev_mm'' (Ptr ''struct mm_struct''), Mem ''clock_update_flags'' (Scalar Tuint), Mem ''clock'' typedef_u64,
    Pad (Scalar Tlong) 64, Pad (Scalar Tlong) 64, Pad (Scalar Tlong) 64, Pad (Scalar Tlong) 64, Pad (Scalar Tlong) 64,
    Mem ''clock_task'' typedef_u64, Mem ''clock_pelt'' typedef_u64, Mem ''lost_idle_time'' (Scalar Tulong),
    Mem ''nr_iowait'' typedef_atomic_t, Mem ''last_seen_need_resched_ns'' typedef_u64,
    Mem ''ticks_without_resched'' (Scalar Tint), Mem ''membarrier_state'' (Scalar Tint),
    Mem ''rd'' (Ptr ''struct root_domain''), Mem ''sd'' (Ptr ''struct sched_domain''),
    Mem ''cpu_capacity'' (Scalar Tulong), Mem ''cpu_capacity_orig'' (Scalar Tulong),
    Mem ''cpu_capacity_inverted'' (Scalar Tulong), Mem ''balance_callback'' (Ptr ''struct callback_head''),
    Mem ''nohz_idle_balance'' (Scalar Tuchar), Mem ''idle_balance'' (Scalar Tuchar),
    Mem ''misfit_task_load'' (Scalar Tulong), Mem ''active_balance'' (Scalar Tint), Mem ''push_cpu'' (Scalar Tint),
    Mem ''active_balance_work'' struct_cpu_stop_work, Mem ''cpu'' (Scalar Tint), Mem ''online'' (Scalar Tint),
    Mem ''cfs_tasks'' struct_list_head, Mem ''avg_rt'' struct_sched_avg, Mem ''avg_dl'' struct_sched_avg,
    Mem ''avg_thermal'' struct_sched_avg, Mem ''idle_stamp'' typedef_u64, Mem ''avg_idle'' typedef_u64,
    Mem ''wake_stamp'' (Scalar Tulong), Mem ''wake_avg_idle'' typedef_u64, Mem ''max_idle_balance_cost'' typedef_u64,
    Mem ''hotplug_wait'' struct_rcuwait, Mem ''prev_steal_time'' typedef_u64,
    Mem ''calc_load_update'' (Scalar Tulong), Mem ''calc_load_active'' (Scalar Tlong), Pad (Scalar Tlong) 64,
    Pad (Scalar Tlong) 64, Pad (Scalar Tlong) 64, Mem ''hrtick_csd'' typedef_call_single_data_t,
    Mem ''hrtick_timer'' struct_hrtimer, Mem ''hrtick_time'' typedef_ktime_t, Mem ''rq_sched_info'' struct_sched_info,
    Mem ''rq_cpu_time'' (Scalar Tullong), Mem ''yld_count'' (Scalar Tuint), Mem ''sched_count'' (Scalar Tuint),
    Mem ''sched_goidle'' (Scalar Tuint), Mem ''ttwu_count'' (Scalar Tuint), Mem ''ttwu_local'' (Scalar Tuint),
    Mem ''idle_state'' (Ptr ''struct cpuidle_state''), Mem ''nr_pinned'' (Scalar Tuint),
    Mem ''push_busy'' (Scalar Tuint), Mem ''push_work'' struct_cpu_stop_work, Mem ''core'' (Ptr ''struct rq''),
    Mem ''core_pick'' (Ptr ''struct task_struct''), Mem ''core_enabled'' (Scalar Tuint),
    Mem ''core_sched_seq'' (Scalar Tuint), Mem ''core_tree'' struct_rb_root, Mem ''core_task_seq'' (Scalar Tuint),
    Mem ''core_pick_seq'' (Scalar Tuint), Mem ''core_cookie'' (Scalar Tulong), Mem ''core_forceidle'' (Scalar Tuchar),
    Mem ''core_forceidle_seq'' (Scalar Tuint)]"

lemma info_struct_rq [c_info]: "info struct_rq = (3392, 8)"
  by (simp add: struct_rq_def c_info)

definition struct_numa_group :: ctype where
  "struct_numa_group = Struct [] [
    Mem ''refcount'' typedef_refcount_t, Mem ''lock'' typedef_spinlock_t, Mem ''nr_tasks'' (Scalar Tint),
    Mem ''gid'' typedef_pid_t, Mem ''active_nodes'' (Scalar Tint), Mem ''rcu'' struct_callback_head,
    Mem ''total_faults'' (Scalar Tulong), Mem ''max_faults_cpu'' (Scalar Tulong),
    Mem ''faults_cpu'' (Ptr ''long unsigned int''), Mem ''faults'' (Array (Scalar Tulong) 0)]"

lemma info_struct_numa_group [c_info]: "info struct_numa_group = (64, 8)"
  by (simp add: struct_numa_group_def c_info)

definition struct_semaphore :: ctype where
  "struct_semaphore = Struct [] [
    Mem ''lock'' typedef_raw_spinlock_t, Mem ''count'' (Scalar Tuint), Mem ''wait_list'' struct_list_head]"

lemma info_struct_semaphore [c_info]: "info struct_semaphore = (24, 8)"
  by (simp add: struct_semaphore_def c_info)

definition struct_rt_mutex_base :: ctype where
  "struct_rt_mutex_base = Struct [] [
    Mem ''wait_lock'' typedef_raw_spinlock_t, Mem ''waiters'' struct_rb_root_cached,
    Mem ''owner'' (Ptr ''struct task_struct'')]"

lemma info_struct_rt_mutex_base [c_info]: "info struct_rt_mutex_base = (32, 8)"
  by (simp add: struct_rt_mutex_base_def c_info)

definition struct_rt_waiter_node :: ctype where
  "struct_rt_waiter_node = Struct [] [
    Mem ''entry'' struct_rb_node, Mem ''prio'' (Scalar Tint), Mem ''deadline'' typedef_u64]"

lemma info_struct_rt_waiter_node [c_info]: "info struct_rt_waiter_node = (40, 8)"
  by (simp add: struct_rt_waiter_node_def c_info)

definition struct_rt_mutex_waiter :: ctype where
  "struct_rt_mutex_waiter = Struct [] [
    Mem ''tree'' struct_rt_waiter_node, Mem ''pi_tree'' struct_rt_waiter_node,
    Mem ''task'' (Ptr ''struct task_struct''), Mem ''lock'' (Ptr ''struct rt_mutex_base''),
    Mem ''wake_state'' (Scalar Tuint), Mem ''ww_ctx'' (Ptr ''struct ww_acquire_ctx'')]"

lemma info_struct_rt_mutex_waiter [c_info]: "info struct_rt_mutex_waiter = (112, 8)"
  by (simp add: struct_rt_mutex_waiter_def c_info)

definition struct_audit_ntp_val :: ctype where
  "struct_audit_ntp_val = Struct [] [
    Mem ''oldval'' (Scalar Tllong), Mem ''newval'' (Scalar Tllong)]"

lemma info_struct_audit_ntp_val [c_info]: "info struct_audit_ntp_val = (16, 8)"
  by (simp add: struct_audit_ntp_val_def c_info)

definition struct_audit_ntp_data :: ctype where
  "struct_audit_ntp_data = Struct [] [
    Mem ''vals'' (Array struct_audit_ntp_val 6)]"

lemma info_struct_audit_ntp_data [c_info]: "info struct_audit_ntp_data = (96, 8)"
  by (simp add: struct_audit_ntp_data_def c_info)

definition union_futex_key :: ctype where
  "union_futex_key = Union [] [
    Mem ''shared'' (Struct [] [
      Mem ''i_seq'' typedef_u64, Mem ''pgoff'' (Scalar Tulong), Mem ''offset'' (Scalar Tuint)]),
    Mem ''private'' (Struct [] [
      Anon (Union [] [
        Mem ''mm'' (Ptr ''struct mm_struct''), Mem ''__tmp'' typedef_u64]),
      Mem ''address'' (Scalar Tulong), Mem ''offset'' (Scalar Tuint)]),
    Mem ''both'' (Struct [] [
      Mem ''ptr'' typedef_u64, Mem ''word'' (Scalar Tulong), Mem ''offset'' (Scalar Tuint)])]"

lemma info_union_futex_key [c_info]: "info union_futex_key = (24, 8)"
  by (simp add: union_futex_key_def c_info)

definition struct_futex_pi_state :: ctype where
  "struct_futex_pi_state = Struct [] [
    Mem ''list'' struct_list_head, Mem ''pi_mutex'' struct_rt_mutex_base, Mem ''owner'' (Ptr ''struct task_struct''),
    Mem ''refcount'' typedef_refcount_t, Mem ''key'' union_futex_key]"

lemma info_struct_futex_pi_state [c_info]: "info struct_futex_pi_state = (88, 8)"
  by (simp add: struct_futex_pi_state_def c_info)

definition enum_audit_state :: ctype where
  "enum_audit_state = Enum [
    (''AUDIT_STATE_DISABLED'', 0), (''AUDIT_STATE_BUILD'', 1), (''AUDIT_STATE_RECORD'', 2)]"

lemma info_enum_audit_state [c_info]: "info enum_audit_state = (4, 4)"
  by (simp add: enum_audit_state_def c_info)

definition struct_audit_cap_data :: ctype where
  "struct_audit_cap_data = Struct [] [
    Mem ''permitted'' typedef_kernel_cap_t, Mem ''inheritable'' typedef_kernel_cap_t,
    Anon (Union [] [
      Mem ''fE'' (Scalar Tuint), Mem ''effective'' typedef_kernel_cap_t]),
    Mem ''ambient'' typedef_kernel_cap_t, Mem ''rootid'' typedef_kuid_t]"

lemma info_struct_audit_cap_data [c_info]: "info struct_audit_cap_data = (36, 4)"
  by (simp add: struct_audit_cap_data_def c_info)

definition struct_audit_names :: ctype where
  "struct_audit_names = Struct [] [
    Mem ''list'' struct_list_head, Mem ''name'' (Ptr ''struct filename''), Mem ''name_len'' (Scalar Tint),
    Mem ''hidden'' typedef_bool, Mem ''ino'' (Scalar Tulong), Mem ''dev'' typedef_dev_t, Mem ''mode'' typedef_umode_t,
    Mem ''uid'' typedef_kuid_t, Mem ''gid'' typedef_kgid_t, Mem ''rdev'' typedef_dev_t, Mem ''oblob'' struct_lsmblob,
    Mem ''fcap'' struct_audit_cap_data, Mem ''fcap_ver'' (Scalar Tuint), Mem ''type'' (Scalar Tuchar),
    Mem ''should_free'' typedef_bool]"

lemma info_struct_audit_names [c_info]: "info struct_audit_names = (120, 8)"
  by (simp add: struct_audit_names_def c_info)

definition struct_audit_proctitle :: ctype where
  "struct_audit_proctitle = Struct [] [
    Mem ''len'' (Scalar Tint), Mem ''value'' (Ptr ''char'')]"

lemma info_struct_audit_proctitle [c_info]: "info struct_audit_proctitle = (16, 8)"
  by (simp add: struct_audit_proctitle_def c_info)

definition struct_audit_context :: ctype where
  "struct_audit_context = Struct [] [
    Mem ''dummy'' (Scalar Tint), Mem ''in_syscall'' (Scalar Tint), Mem ''state'' enum_audit_state,
    Mem ''current_state'' enum_audit_state, Mem ''serial'' (Scalar Tuint), Mem ''major'' (Scalar Tint),
    Mem ''ctime'' struct_timespec64, Mem ''argv'' (Array (Scalar Tulong) 4), Mem ''return_code'' (Scalar Tlong),
    Mem ''prio'' typedef_u64, Mem ''return_valid'' (Scalar Tint),
    Mem ''preallocated_names'' (Array struct_audit_names 5), Mem ''name_count'' (Scalar Tint),
    Mem ''names_list'' struct_list_head, Mem ''filterkey'' (Ptr ''char''), Mem ''pwd'' struct_path,
    Mem ''aux'' (Ptr ''struct audit_aux_data''), Mem ''aux_pids'' (Ptr ''struct audit_aux_data''),
    Mem ''sockaddr'' (Ptr ''struct __kernel_sockaddr_storage''), Mem ''sockaddr_len'' typedef_size_t,
    Mem ''pid'' typedef_pid_t, Mem ''ppid'' typedef_pid_t, Mem ''uid'' typedef_kuid_t, Mem ''euid'' typedef_kuid_t,
    Mem ''suid'' typedef_kuid_t, Mem ''fsuid'' typedef_kuid_t, Mem ''gid'' typedef_kgid_t,
    Mem ''egid'' typedef_kgid_t, Mem ''sgid'' typedef_kgid_t, Mem ''fsgid'' typedef_kgid_t,
    Mem ''personality'' (Scalar Tulong), Mem ''arch'' (Scalar Tint), Mem ''target_pid'' typedef_pid_t,
    Mem ''target_auid'' typedef_kuid_t, Mem ''target_uid'' typedef_kuid_t, Mem ''target_sessionid'' (Scalar Tuint),
    Mem ''target_lsm'' struct_lsmblob, Mem ''target_comm'' (Array (Scalar Tchar) 16),
    Mem ''trees'' (Ptr ''struct audit_tree_refs''), Mem ''first_trees'' (Ptr ''struct audit_tree_refs''),
    Mem ''killed_trees'' struct_list_head, Mem ''tree_count'' (Scalar Tint), Mem ''type'' (Scalar Tint),
    Anon (Union [] [
      Mem ''socketcall'' (Struct [] [
        Mem ''nargs'' (Scalar Tint), Mem ''args'' (Array (Scalar Tlong) 6)]),
      Mem ''ipc'' (Struct [] [
        Mem ''uid'' typedef_kuid_t, Mem ''gid'' typedef_kgid_t, Mem ''mode'' typedef_umode_t,
        Mem ''oblob'' struct_lsmblob, Mem ''has_perm'' (Scalar Tint), Mem ''perm_uid'' typedef_uid_t,
        Mem ''perm_gid'' typedef_gid_t, Mem ''perm_mode'' typedef_umode_t, Mem ''qbytes'' (Scalar Tulong)]),
      Mem ''mq_getsetattr'' (Struct [] [
        Mem ''mqdes'' typedef_mqd_t, Mem ''mqstat'' struct_mq_attr]),
      Mem ''mq_notify'' (Struct [] [
        Mem ''mqdes'' typedef_mqd_t, Mem ''sigev_signo'' (Scalar Tint)]),
      Mem ''mq_sendrecv'' (Struct [] [
        Mem ''mqdes'' typedef_mqd_t, Mem ''msg_len'' typedef_size_t, Mem ''msg_prio'' (Scalar Tuint),
        Mem ''abs_timeout'' struct_timespec64]),
      Mem ''mq_open'' (Struct [] [
        Mem ''oflag'' (Scalar Tint), Mem ''mode'' typedef_umode_t, Mem ''attr'' struct_mq_attr]),
      Mem ''capset'' (Struct [] [
        Mem ''pid'' typedef_pid_t, Mem ''cap'' struct_audit_cap_data]),
      Mem ''mmap'' (Struct [] [
        Mem ''fd'' (Scalar Tint), Mem ''flags'' (Scalar Tint)]),
      Mem ''execve'' (Struct [] [
        Mem ''argc'' (Scalar Tint)]),
      Mem ''module'' (Struct [] [
        Mem ''name'' (Ptr ''char'')]),
      Mem ''time'' (Struct [] [
        Mem ''ntp_data'' struct_audit_ntp_data, Mem ''tk_injoffset'' struct_timespec64])]),
    Mem ''fds'' (Array (Scalar Tint) 2), Mem ''proctitle'' struct_audit_proctitle]"

lemma info_struct_audit_context [c_info]: "info struct_audit_context = (1056, 8)"
  by (simp add: struct_audit_context_def c_info)

definition struct_audit_aux_data :: ctype where
  "struct_audit_aux_data = Struct [] [
    Mem ''next'' (Ptr ''struct audit_aux_data''), Mem ''type'' (Scalar Tint)]"

lemma info_struct_audit_aux_data [c_info]: "info struct_audit_aux_data = (16, 8)"
  by (simp add: struct_audit_aux_data_def c_info)

definition struct_audit_tree_refs :: ctype where
  "struct_audit_tree_refs = Struct [] [
    Mem ''next'' (Ptr ''struct audit_tree_refs''), Mem ''c'' (Array (Ptr ''struct audit_chunk'') 31)]"

lemma info_struct_audit_tree_refs [c_info]: "info struct_audit_tree_refs = (256, 8)"
  by (simp add: struct_audit_tree_refs_def c_info)

definition struct_seccomp_filter :: ctype where
  "struct_seccomp_filter = Struct [] [
    Mem ''refs'' typedef_refcount_t, Mem ''users'' typedef_refcount_t, Mem ''log'' typedef_bool,
    Mem ''cache'' struct_action_cache, Mem ''prev'' (Ptr ''struct seccomp_filter''),
    Mem ''prog'' (Ptr ''struct bpf_prog''), Mem ''notif'' (Ptr ''struct notification''),
    Mem ''notify_lock'' struct_mutex, Mem ''wqh'' typedef_wait_queue_head_t]"

lemma info_struct_seccomp_filter [c_info]: "info struct_seccomp_filter = (224, 8)"
  by (simp add: struct_seccomp_filter_def c_info)

definition struct_notification :: ctype where
  "struct_notification = Struct [] [
    Mem ''request'' struct_semaphore, Mem ''next_id'' typedef_u64, Mem ''notifications'' struct_list_head]"

lemma info_struct_notification [c_info]: "info struct_notification = (48, 8)"
  by (simp add: struct_notification_def c_info)

definition struct_pcpu_freelist_node :: ctype where
  "struct_pcpu_freelist_node = Struct [] [
    Mem ''next'' (Ptr ''struct pcpu_freelist_node'')]"

lemma info_struct_pcpu_freelist_node [c_info]: "info struct_pcpu_freelist_node = (8, 8)"
  by (simp add: struct_pcpu_freelist_node_def c_info)

definition struct_htab_elem :: ctype where
  "struct_htab_elem = Struct [] [
    Anon (Union [] [
      Mem ''hash_node'' struct_hlist_nulls_node,
      Anon (Struct [] [
        Mem ''padding'' (Ptr ''void''),
        Anon (Union [] [
          Mem ''htab'' (Ptr ''struct bpf_htab''), Mem ''fnode'' struct_pcpu_freelist_node,
          Mem ''batch_flink'' (Ptr ''struct htab_elem'')])])]),
    Anon (Union [] [
      Mem ''rcu'' struct_callback_head, Mem ''lru_node'' struct_bpf_lru_node]),
    Mem ''hash'' typedef_u32, Pad (Scalar Tlong) 0, Mem ''key'' (Array (Scalar Tchar) 0)]"

lemma info_struct_htab_elem [c_info]: "info struct_htab_elem = (48, 8)"
  by (simp add: struct_htab_elem_def c_info)

definition struct_stack_map_bucket :: ctype where
  "struct_stack_map_bucket = Struct [] [
    Mem ''fnode'' struct_pcpu_freelist_node, Mem ''hash'' typedef_u32, Mem ''nr'' typedef_u32,
    Mem ''data'' (Array typedef_u64 0)]"

lemma info_struct_stack_map_bucket [c_info]: "info struct_stack_map_bucket = (16, 8)"
  by (simp add: struct_stack_map_bucket_def c_info)

definition struct_uprobe :: ctype where
  "struct_uprobe = Struct [] [
    Mem ''rb_node'' struct_rb_node, Mem ''ref'' typedef_refcount_t, Mem ''register_rwsem'' struct_rw_semaphore,
    Mem ''consumer_rwsem'' struct_rw_semaphore, Mem ''pending_list'' struct_list_head,
    Mem ''consumers'' (Ptr ''struct uprobe_consumer''), Mem ''inode'' (Ptr ''struct inode''),
    Mem ''offset'' typedef_loff_t, Mem ''ref_ctr_offset'' typedef_loff_t, Mem ''flags'' (Scalar Tulong),
    Mem ''arch'' struct_arch_uprobe]"

lemma info_struct_uprobe [c_info]: "info struct_uprobe = (216, 8)"
  by (simp add: struct_uprobe_def c_info)

definition struct_xol_area :: ctype where
  "struct_xol_area = Struct [] [
    Mem ''wq'' typedef_wait_queue_head_t, Mem ''slot_count'' typedef_atomic_t,
    Mem ''bitmap'' (Ptr ''long unsigned int''), Mem ''xol_mapping'' struct_vm_special_mapping,
    Mem ''pages'' (Array (Ptr ''struct page'') 2), Mem ''vaddr'' (Scalar Tulong)]"

lemma info_struct_xol_area [c_info]: "info struct_xol_area = (96, 8)"
  by (simp add: struct_xol_area_def c_info)

definition struct_kmem_cache_order_objects :: ctype where
  "struct_kmem_cache_order_objects = Struct [] [
    Mem ''x'' (Scalar Tuint)]"

lemma info_struct_kmem_cache_order_objects [c_info]: "info struct_kmem_cache_order_objects = (4, 4)"
  by (simp add: struct_kmem_cache_order_objects_def c_info)

definition struct_kmem_cache_cpu :: ctype where
  "struct_kmem_cache_cpu = Struct [] [
    Mem ''freelist'' (Ptr ''void *''), Mem ''tid'' (Scalar Tulong), Mem ''page'' (Ptr ''struct page''),
    Mem ''partial'' (Ptr ''struct page''), Mem ''lock'' typedef_local_lock_t]"

lemma info_struct_kmem_cache_cpu [c_info]: "info struct_kmem_cache_cpu = (32, 8)"
  by (simp add: struct_kmem_cache_cpu_def c_info)

definition struct_kmem_cache_node :: ctype where
  "struct_kmem_cache_node = Struct [] [
    Mem ''list_lock'' typedef_spinlock_t, Mem ''nr_partial'' (Scalar Tulong), Mem ''partial'' struct_list_head,
    Mem ''nr_slabs'' typedef_atomic_long_t, Mem ''total_objects'' typedef_atomic_long_t, Mem ''full'' struct_list_head]"

lemma info_struct_kmem_cache_node [c_info]: "info struct_kmem_cache_node = (64, 8)"
  by (simp add: struct_kmem_cache_node_def c_info)

definition struct_mmu_notifier_subscriptions :: ctype where
  "struct_mmu_notifier_subscriptions = Struct [] [
    Mem ''list'' struct_hlist_head, Mem ''has_itree'' typedef_bool, Mem ''lock'' typedef_spinlock_t,
    Mem ''invalidate_seq'' (Scalar Tulong), Mem ''active_invalidate_ranges'' (Scalar Tulong),
    Mem ''itree'' struct_rb_root_cached, Mem ''wq'' typedef_wait_queue_head_t, Mem ''deferred_list'' struct_hlist_head]"

lemma info_struct_mmu_notifier_subscriptions [c_info]: "info struct_mmu_notifier_subscriptions = (80, 8)"
  by (simp add: struct_mmu_notifier_subscriptions_def c_info)

definition struct_sem_undo_list :: ctype where
  "struct_sem_undo_list = Struct [] [
    Mem ''refcnt'' typedef_refcount_t, Mem ''lock'' typedef_spinlock_t, Mem ''list_proc'' struct_list_head]"

lemma info_struct_sem_undo_list [c_info]: "info struct_sem_undo_list = (24, 8)"
  by (simp add: struct_sem_undo_list_def c_info)

definition struct_io_wq_work_list :: ctype where
  "struct_io_wq_work_list = Struct [] [
    Mem ''first'' (Ptr ''struct io_wq_work_node''), Mem ''last'' (Ptr ''struct io_wq_work_node'')]"

lemma info_struct_io_wq_work_list [c_info]: "info struct_io_wq_work_list = (16, 8)"
  by (simp add: struct_io_wq_work_list_def c_info)

definition struct_io_uring_task :: ctype where
  "struct_io_uring_task = Struct [] [
    Mem ''cached_refs'' (Scalar Tint), Mem ''xa'' struct_xarray, Mem ''wait'' struct_wait_queue_head,
    Mem ''last'' (Ptr ''const struct io_ring_ctx''), Mem ''io_wq'' (Ptr ''struct io_wq''),
    Mem ''inflight'' struct_percpu_counter, Mem ''inflight_tracked'' typedef_atomic_t,
    Mem ''in_idle'' typedef_atomic_t, Mem ''task_lock'' typedef_spinlock_t, Mem ''task_list'' struct_io_wq_work_list,
    Mem ''task_work'' struct_callback_head, Mem ''task_running'' typedef_bool]"

lemma info_struct_io_uring_task [c_info]: "info struct_io_uring_task = (160, 8)"
  by (simp add: struct_io_uring_task_def c_info)

definition struct_io_wq_work_node :: ctype where
  "struct_io_wq_work_node = Struct [] [
    Mem ''next'' (Ptr ''struct io_wq_work_node'')]"

lemma info_struct_io_wq_work_node [c_info]: "info struct_io_wq_work_node = (8, 8)"
  by (simp add: struct_io_wq_work_node_def c_info)

definition struct_io_submit_link :: ctype where
  "struct_io_submit_link = Struct [] [
    Mem ''head'' (Ptr ''struct io_kiocb''), Mem ''last'' (Ptr ''struct io_kiocb'')]"

lemma info_struct_io_submit_link [c_info]: "info struct_io_submit_link = (16, 8)"
  by (simp add: struct_io_submit_link_def c_info)

definition struct_io_restriction :: ctype where
  "struct_io_restriction = Struct [] [
    Mem ''register_op'' (Array (Scalar Tulong) 1), Mem ''sqe_op'' (Array (Scalar Tulong) 1),
    Mem ''sqe_flags_allowed'' typedef_u8, Mem ''sqe_flags_required'' typedef_u8, Mem ''registered'' typedef_bool]"

lemma info_struct_io_restriction [c_info]: "info struct_io_restriction = (24, 8)"
  by (simp add: struct_io_restriction_def c_info)

definition struct_io_wq :: ctype where
  "struct_io_wq = Struct [] [
    Mem ''state'' (Scalar Tulong), Mem ''free_work'' (Ptr ''free_work_fn''), Mem ''do_work'' (Ptr ''io_wq_work_fn''),
    Mem ''hash'' (Ptr ''struct io_wq_hash''), Mem ''worker_refs'' typedef_atomic_t,
    Mem ''worker_done'' struct_completion, Mem ''cpuhp_node'' struct_hlist_node,
    Mem ''task'' (Ptr ''struct task_struct''), Mem ''wqes'' (Array (Ptr ''struct io_wqe'') 0)]"

lemma info_struct_io_wq [c_info]: "info struct_io_wq = (96, 8)"
  by (simp add: struct_io_wq_def c_info)

definition struct_cpu_rmap :: ctype where
  "struct_cpu_rmap = Struct [] [
    Mem ''refcount'' struct_kref, Mem ''size'' typedef_u16, Mem ''used'' typedef_u16, Mem ''obj'' (Ptr ''void *''),
    Mem ''near'' (Array (Struct [] [
      Mem ''index'' typedef_u16, Mem ''dist'' typedef_u16]) 0)]"

lemma info_struct_cpu_rmap [c_info]: "info struct_cpu_rmap = (16, 8)"
  by (simp add: struct_cpu_rmap_def c_info)

definition struct_mdio_bus_stats :: ctype where
  "struct_mdio_bus_stats = Struct [] [
    Mem ''transfers'' typedef_u64_stats_t, Mem ''errors'' typedef_u64_stats_t, Mem ''writes'' typedef_u64_stats_t,
    Mem ''reads'' typedef_u64_stats_t, Mem ''syncp'' struct_u64_stats_sync]"

lemma info_struct_mdio_bus_stats [c_info]: "info struct_mdio_bus_stats = (32, 8)"
  by (simp add: struct_mdio_bus_stats_def c_info)

definition struct_gpio_desc :: ctype where
  "struct_gpio_desc = Struct [] [
    Mem ''gdev'' (Ptr ''struct gpio_device''), Mem ''flags'' (Scalar Tulong), Mem ''label'' (Ptr ''const char''),
    Mem ''name'' (Ptr ''const char''), Mem ''hog'' (Ptr ''struct device_node''),
    Mem ''debounce_period_us'' (Scalar Tuint)]"

lemma info_struct_gpio_desc [c_info]: "info struct_gpio_desc = (48, 8)"
  by (simp add: struct_gpio_desc_def c_info)

definition struct_tty_audit_buf :: ctype where
  "struct_tty_audit_buf = Struct [] [
    Mem ''mutex'' struct_mutex, Mem ''dev'' typedef_dev_t, Bits ''icanon'' (Scalar Tuint) 1,
    Mem ''valid'' typedef_size_t, Mem ''data'' (Ptr ''unsigned char'')]"

lemma info_struct_tty_audit_buf [c_info]: "info struct_tty_audit_buf = (56, 8)"
  by (simp add: struct_tty_audit_buf_def c_info)

end
