(* ===== verification/Vmlinux_Fs.thy ===== *)
theory Vmlinux_Fs
  imports Vmlinux_Task
begin

text \<open>
  Kernel objects of src/internal/sentinel/bpf/vmlinux.h that the BPF types point to. Files, directory entries, mounts,
  sysctl tables and name spaces.
\<close>

definition struct_file_system_type :: ctype where
  "struct_file_system_type = Struct [] [
    Mem ''name'' (Ptr ''const char''), Mem ''fs_flags'' (Scalar Tint),
    Mem ''init_fs_context'' (FunPtr ''int'' [''struct fs_context *'']),
    Mem ''parameters'' (Ptr ''const struct fs_parameter_spec''),
    Mem ''mount'' (FunPtr ''struct dentry *'' [''struct file_system_type *'', ''int'', ''const char *'', ''void *'']),
    Mem ''kill_sb'' (FunPtr ''void'' [''struct super_block *'']), Mem ''owner'' (Ptr ''struct module''),
    Mem ''next'' (Ptr ''struct file_system_type''), Mem ''fs_supers'' struct_hlist_head,
    Mem ''s_lock_key'' struct_lock_class_key, Mem ''s_umount_key'' struct_lock_class_key,
    Mem ''s_vfs_rename_key'' struct_lock_class_key, Mem ''s_writers_key'' (Array struct_lock_class_key 3),
    Mem ''i_lock_key'' struct_lock_class_key, Mem ''i_mutex_key'' struct_lock_class_key,
    Mem ''invalidate_lock_key'' struct_lock_class_key, Mem ''i_mutex_dir_key'' struct_lock_class_key]"

lemma info_struct_file_system_type [c_info]: "info struct_file_system_type = (72, 8)"
  by (simp add: struct_file_system_type_def c_info)

definition struct_file_operations :: ctype where
  "struct_file_operations = Struct [] [
    Mem ''owner'' (Ptr ''struct module''),
    Mem ''llseek'' (FunPtr ''loff_t'' [''struct file *'', ''loff_t'', ''int'']),
    Mem ''read'' (FunPtr ''ssize_t'' [''struct file *'', ''char *'', ''size_t'', ''loff_t *'']),
    Mem ''write'' (FunPtr ''ssize_t'' [''struct file *'', ''const char *'', ''size_t'', ''loff_t *'']),
    Mem ''read_iter'' (FunPtr ''ssize_t'' [''struct kiocb *'', ''struct iov_iter *'']),
    Mem ''write_iter'' (FunPtr ''ssize_t'' [''struct kiocb *'', ''struct iov_iter *'']),
    Mem ''iopoll'' (FunPtr ''int'' [''struct kiocb *'', ''bool'']),
    Mem ''iterate'' (FunPtr ''int'' [''struct file *'', ''struct dir_context *'']),
    Mem ''iterate_shared'' (FunPtr ''int'' [''struct file *'', ''struct dir_context *'']),
    Mem ''poll'' (FunPtr ''__poll_t'' [''struct file *'', ''struct poll_table_struct *'']),
    Mem ''unlocked_ioctl'' (FunPtr ''long int'' [''struct file *'', ''unsigned int'', ''long unsigned int'']),
    Mem ''compat_ioctl'' (FunPtr ''long int'' [''struct file *'', ''unsigned int'', ''long unsigned int'']),
    Mem ''mmap'' (FunPtr ''int'' [''struct file *'', ''struct vm_area_struct *'']),
    Mem ''mmap_supported_flags'' (Scalar Tulong),
    Mem ''open'' (FunPtr ''int'' [''struct inode *'', ''struct file *'']),
    Mem ''flush'' (FunPtr ''int'' [''struct file *'', ''fl_owner_t'']),
    Mem ''release'' (FunPtr ''int'' [''struct inode *'', ''struct file *'']),
    Mem ''fsync'' (FunPtr ''int'' [''struct file *'', ''loff_t'', ''loff_t'', ''int'']),
    Mem ''fasync'' (FunPtr ''int'' [''int'', ''struct file *'', ''int'']),
    Mem ''lock'' (FunPtr ''int'' [''struct file *'', ''int'', ''struct file_lock *'']),
    Mem ''sendpage'' (FunPtr ''ssize_t'' [''struct file *'', ''struct page *'', ''int'', ''size_t'', ''loff_t *'', ''int'']),
    Mem ''get_unmapped_area'' (FunPtr ''long unsigned int'' [''struct file *'', ''long unsigned int'', ''long unsigned int'', ''long unsigned int'', ''long unsigned int'']),
    Mem ''check_flags'' (FunPtr ''int'' [''int'']),
    Mem ''setfl'' (FunPtr ''int'' [''struct file *'', ''long unsigned int'']),
    Mem ''flock'' (FunPtr ''int'' [''struct file *'', ''int'', ''struct file_lock *'']),
    Mem ''splice_write'' (FunPtr ''ssize_t'' [''struct pipe_inode_info *'', ''struct file *'', ''loff_t *'', ''size_t'', ''unsigned int'']),
    Mem ''splice_read'' (FunPtr ''ssize_t'' [''struct file *'', ''loff_t *'', ''struct pipe_inode_info *'', ''size_t'', ''unsigned int'']),
    Mem ''setlease'' (FunPtr ''int'' [''struct file *'', ''long int'', ''struct file_lock * *'', ''void * *'']),
    Mem ''fallocate'' (FunPtr ''long int'' [''struct file *'', ''int'', ''loff_t'', ''loff_t'']),
    Mem ''show_fdinfo'' (FunPtr ''void'' [''struct seq_file *'', ''struct file *'']),
    Mem ''copy_file_range'' (FunPtr ''ssize_t'' [''struct file *'', ''loff_t'', ''struct file *'', ''loff_t'', ''size_t'', ''unsigned int'']),
    Mem ''remap_file_range'' (FunPtr ''loff_t'' [''struct file *'', ''loff_t'', ''struct file *'', ''loff_t'', ''loff_t'', ''unsigned int'']),
    Mem ''fadvise'' (FunPtr ''int'' [''struct file *'', ''loff_t'', ''loff_t'', ''int''])]"

lemma info_struct_file_operations [c_info]: "info struct_file_operations = (264, 8)"
  by (simp add: struct_file_operations_def c_info)

definition struct_pollfd :: ctype where
  "struct_pollfd = Struct [] [
    Mem ''fd'' (Scalar Tint), Mem ''events'' (Scalar Tshort), Mem ''revents'' (Scalar Tshort)]"

lemma info_struct_pollfd [c_info]: "info struct_pollfd = (8, 4)"
  by (simp add: struct_pollfd_def c_info)

definition struct_ns_common :: ctype where
  "struct_ns_common = Struct [] [
    Mem ''stashed'' typedef_atomic_long_t, Mem ''ops'' (Ptr ''const struct proc_ns_operations''),
    Mem ''inum'' (Scalar Tuint), Mem ''count'' typedef_refcount_t]"

lemma info_struct_ns_common [c_info]: "info struct_ns_common = (24, 8)"
  by (simp add: struct_ns_common_def c_info)

definition struct_pid_namespace :: ctype where
  "struct_pid_namespace = Struct [] [
    Mem ''idr'' struct_idr, Mem ''rcu'' struct_callback_head, Mem ''pid_allocated'' (Scalar Tuint),
    Mem ''child_reaper'' (Ptr ''struct task_struct''), Mem ''pid_cachep'' (Ptr ''struct kmem_cache''),
    Mem ''level'' (Scalar Tuint), Mem ''parent'' (Ptr ''struct pid_namespace''),
    Mem ''bacct'' (Ptr ''struct fs_pin''), Mem ''user_ns'' (Ptr ''struct user_namespace''),
    Mem ''ucounts'' (Ptr ''struct ucounts''), Mem ''reboot'' (Scalar Tint), Mem ''ns'' struct_ns_common]"

lemma info_struct_pid_namespace [c_info]: "info struct_pid_namespace = (136, 8)"
  by (simp add: struct_pid_namespace_def c_info)

definition struct_ctl_table_header :: ctype where
  "struct_ctl_table_header = Struct [] [
    Anon (Union [] [
      Anon (Struct [] [
        Mem ''ctl_table'' (Ptr ''struct ctl_table''), Mem ''used'' (Scalar Tint), Mem ''count'' (Scalar Tint),
        Mem ''nreg'' (Scalar Tint)]),
      Mem ''rcu'' struct_callback_head]),
    Mem ''unregistering'' (Ptr ''struct completion''), Mem ''ctl_table_arg'' (Ptr ''struct ctl_table''),
    Mem ''root'' (Ptr ''struct ctl_table_root''), Mem ''set'' (Ptr ''struct ctl_table_set''),
    Mem ''parent'' (Ptr ''struct ctl_dir''), Mem ''node'' (Ptr ''struct ctl_node''), Mem ''inodes'' struct_hlist_head]"

lemma info_struct_ctl_table_header [c_info]: "info struct_ctl_table_header = (80, 8)"
  by (simp add: struct_ctl_table_header_def c_info)

definition struct_ctl_dir :: ctype where
  "struct_ctl_dir = Struct [] [
    Mem ''header'' struct_ctl_table_header, Mem ''root'' struct_rb_root]"

lemma info_struct_ctl_dir [c_info]: "info struct_ctl_dir = (88, 8)"
  by (simp add: struct_ctl_dir_def c_info)

definition struct_ctl_table_set :: ctype where
  "struct_ctl_table_set = Struct [] [
    Mem ''is_seen'' (FunPtr ''int'' [''struct ctl_table_set *'']), Mem ''dir'' struct_ctl_dir]"

lemma info_struct_ctl_table_set [c_info]: "info struct_ctl_table_set = (96, 8)"
  by (simp add: struct_ctl_table_set_def c_info)

definition struct_user_namespace :: ctype where
  "struct_user_namespace = Struct [] [
    Mem ''uid_map'' struct_uid_gid_map, Mem ''gid_map'' struct_uid_gid_map, Mem ''projid_map'' struct_uid_gid_map,
    Mem ''parent'' (Ptr ''struct user_namespace''), Mem ''level'' (Scalar Tint), Mem ''owner'' typedef_kuid_t,
    Mem ''group'' typedef_kgid_t, Mem ''ns'' struct_ns_common, Mem ''flags'' (Scalar Tulong),
    Mem ''parent_could_setfcap'' typedef_bool, Mem ''keyring_name_list'' struct_list_head,
    Mem ''user_keyring_register'' (Ptr ''struct key''), Mem ''keyring_sem'' struct_rw_semaphore,
    Mem ''persistent_keyring_register'' (Ptr ''struct key''), Mem ''work'' struct_work_struct,
    Mem ''set'' struct_ctl_table_set, Mem ''sysctls'' (Ptr ''struct ctl_table_header''),
    Mem ''ucounts'' (Ptr ''struct ucounts''), Mem ''ucount_max'' (Array (Scalar Tlong) 16)]"

lemma info_struct_user_namespace [c_info]: "info struct_user_namespace = (624, 8)"
  by (simp add: struct_user_namespace_def c_info)

definition struct_ucounts :: ctype where
  "struct_ucounts = Struct [] [
    Mem ''node'' struct_hlist_node, Mem ''ns'' (Ptr ''struct user_namespace''), Mem ''uid'' typedef_kuid_t,
    Mem ''count'' typedef_atomic_t, Mem ''ucount'' (Array typedef_atomic_long_t 16)]"

lemma info_struct_ucounts [c_info]: "info struct_ucounts = (160, 8)"
  by (simp add: struct_ucounts_def c_info)

definition struct_keyring_index_key :: ctype where
  "struct_keyring_index_key = Struct [] [
    Mem ''hash'' (Scalar Tulong),
    Anon (Union [] [
      Anon (Struct [] [
        Mem ''desc_len'' typedef_u16, Mem ''desc'' (Array (Scalar Tchar) 6)]),
      Mem ''x'' (Scalar Tulong)]),
    Mem ''type'' (Ptr ''struct key_type''), Mem ''domain_tag'' (Ptr ''struct key_tag''),
    Mem ''description'' (Ptr ''const char'')]"

lemma info_struct_keyring_index_key [c_info]: "info struct_keyring_index_key = (40, 8)"
  by (simp add: struct_keyring_index_key_def c_info)

definition union_key_payload :: ctype where
  "union_key_payload = Union [] [
    Mem ''rcu_data0'' (Ptr ''void''), Mem ''data'' (Array (Ptr ''void'') 4)]"

lemma info_union_key_payload [c_info]: "info union_key_payload = (32, 8)"
  by (simp add: union_key_payload_def c_info)

definition struct_assoc_array :: ctype where
  "struct_assoc_array = Struct [] [
    Mem ''root'' (Ptr ''struct assoc_array_ptr''), Mem ''nr_leaves_on_tree'' (Scalar Tulong)]"

lemma info_struct_assoc_array [c_info]: "info struct_assoc_array = (16, 8)"
  by (simp add: struct_assoc_array_def c_info)

definition struct_key :: ctype where
  "struct_key = Struct [] [
    Mem ''usage'' typedef_refcount_t, Mem ''serial'' typedef_key_serial_t,
    Anon (Union [] [
      Mem ''graveyard_link'' struct_list_head, Mem ''serial_node'' struct_rb_node]),
    Mem ''watchers'' (Ptr ''struct watch_list''), Mem ''sem'' struct_rw_semaphore,
    Mem ''user'' (Ptr ''struct key_user''), Mem ''security'' (Ptr ''void''),
    Anon (Union [] [
      Mem ''expiry'' typedef_time64_t, Mem ''revoked_at'' typedef_time64_t]),
    Mem ''last_used_at'' typedef_time64_t, Mem ''uid'' typedef_kuid_t, Mem ''gid'' typedef_kgid_t,
    Mem ''perm'' typedef_key_perm_t, Mem ''quotalen'' (Scalar Tushort), Mem ''datalen'' (Scalar Tushort),
    Mem ''state'' (Scalar Tshort), Mem ''flags'' (Scalar Tulong),
    Anon (Union [] [
      Mem ''index_key'' struct_keyring_index_key,
      Anon (Struct [] [
        Mem ''hash'' (Scalar Tulong), Mem ''len_desc'' (Scalar Tulong), Mem ''type'' (Ptr ''struct key_type''),
        Mem ''domain_tag'' (Ptr ''struct key_tag''), Mem ''description'' (Ptr ''char'')])]),
    Anon (Union [] [
      Mem ''payload'' union_key_payload,
      Anon (Struct [] [
        Mem ''name_link'' struct_list_head, Mem ''keys'' struct_assoc_array])]),
    Mem ''restrict_link'' (Ptr ''struct key_restriction'')]"

lemma info_struct_key [c_info]: "info struct_key = (224, 8)"
  by (simp add: struct_key_def c_info)

definition struct_pipe_inode_info :: ctype where
  "struct_pipe_inode_info = Struct [] [
    Mem ''mutex'' struct_mutex, Mem ''rd_wait'' typedef_wait_queue_head_t, Mem ''wr_wait'' typedef_wait_queue_head_t,
    Mem ''head'' (Scalar Tuint), Mem ''tail'' (Scalar Tuint), Mem ''max_usage'' (Scalar Tuint),
    Mem ''ring_size'' (Scalar Tuint), Mem ''note_loss'' typedef_bool, Mem ''nr_accounted'' (Scalar Tuint),
    Mem ''readers'' (Scalar Tuint), Mem ''writers'' (Scalar Tuint), Mem ''files'' (Scalar Tuint),
    Mem ''r_counter'' (Scalar Tuint), Mem ''w_counter'' (Scalar Tuint), Mem ''poll_usage'' typedef_bool,
    Mem ''tmp_page'' (Ptr ''struct page''), Mem ''fasync_readers'' (Ptr ''struct fasync_struct''),
    Mem ''fasync_writers'' (Ptr ''struct fasync_struct''), Mem ''bufs'' (Ptr ''struct pipe_buffer''),
    Mem ''user'' (Ptr ''struct user_struct''), Mem ''watch_queue'' (Ptr ''struct watch_queue'')]"

lemma info_struct_pipe_inode_info [c_info]: "info struct_pipe_inode_info = (176, 8)"
  by (simp add: struct_pipe_inode_info_def c_info)

definition struct_address_space :: ctype where
  "struct_address_space = Struct [] [
    Mem ''host'' (Ptr ''struct inode''), Mem ''i_pages'' struct_xarray, Mem ''invalidate_lock'' struct_rw_semaphore,
    Mem ''gfp_mask'' typedef_gfp_t, Mem ''i_mmap_writable'' typedef_atomic_t, Mem ''i_mmap'' struct_rb_root_cached,
    Mem ''nrpages'' (Scalar Tulong), Mem ''writeback_index'' (Scalar Tulong),
    Mem ''a_ops'' (Ptr ''const struct address_space_operations''), Mem ''flags'' (Scalar Tulong),
    Mem ''i_mmap_rwsem'' struct_rw_semaphore, Mem ''wb_err'' typedef_errseq_t,
    Mem ''private_lock'' typedef_spinlock_t, Mem ''private_list'' struct_list_head,
    Mem ''private_data'' (Ptr ''void'')]"

lemma info_struct_address_space [c_info]: "info struct_address_space = (192, 8)"
  by (simp add: struct_address_space_def c_info)

definition struct_fown_struct :: ctype where
  "struct_fown_struct = Struct [] [
    Mem ''lock'' typedef_rwlock_t, Mem ''pid'' (Ptr ''struct pid''), Mem ''pid_type'' enum_pid_type,
    Mem ''uid'' typedef_kuid_t, Mem ''euid'' typedef_kuid_t, Mem ''signum'' (Scalar Tint)]"

lemma info_struct_fown_struct [c_info]: "info struct_fown_struct = (32, 8)"
  by (simp add: struct_fown_struct_def c_info)

definition struct_file_ra_state :: ctype where
  "struct_file_ra_state = Struct [] [
    Mem ''start'' (Scalar Tulong), Mem ''size'' (Scalar Tuint), Mem ''async_size'' (Scalar Tuint),
    Mem ''ra_pages'' (Scalar Tuint), Mem ''mmap_miss'' (Scalar Tuint), Mem ''prev_pos'' typedef_loff_t]"

lemma info_struct_file_ra_state [c_info]: "info struct_file_ra_state = (32, 8)"
  by (simp add: struct_file_ra_state_def c_info)

definition struct_file :: ctype where
  "struct_file = Struct [] [
    Mem ''f_u'' (Union [] [
      Mem ''fu_llist'' struct_llist_node, Mem ''fu_rcuhead'' struct_callback_head]),
    Mem ''f_path'' struct_path, Mem ''f_inode'' (Ptr ''struct inode''),
    Mem ''f_op'' (Ptr ''const struct file_operations''), Mem ''f_lock'' typedef_spinlock_t,
    Mem ''f_write_hint'' enum_rw_hint, Mem ''f_count'' typedef_atomic_long_t, Mem ''f_flags'' (Scalar Tuint),
    Mem ''f_mode'' typedef_fmode_t, Mem ''f_pos_lock'' struct_mutex, Mem ''f_pos'' typedef_loff_t,
    Mem ''f_owner'' struct_fown_struct, Mem ''f_cred'' (Ptr ''const struct cred''), Mem ''f_ra'' struct_file_ra_state,
    Mem ''f_version'' typedef_u64, Mem ''f_security'' (Ptr ''void''), Mem ''private_data'' (Ptr ''void''),
    Mem ''f_ep'' (Ptr ''struct hlist_head''), Mem ''f_mapping'' (Ptr ''struct address_space''),
    Mem ''f_wb_err'' typedef_errseq_t, Mem ''f_sb_err'' typedef_errseq_t]"

lemma info_struct_file [c_info]: "info struct_file = (232, 8)"
  by (simp add: struct_file_def c_info)

definition struct_ctl_table :: ctype where
  "struct_ctl_table = Struct [] [
    Mem ''procname'' (Ptr ''const char''), Mem ''data'' (Ptr ''void''), Mem ''maxlen'' (Scalar Tint),
    Mem ''mode'' typedef_umode_t, Mem ''child'' (Ptr ''struct ctl_table''),
    Mem ''proc_handler'' (Ptr ''proc_handler''), Mem ''poll'' (Ptr ''struct ctl_table_poll''),
    Mem ''extra1'' (Ptr ''void''), Mem ''extra2'' (Ptr ''void'')]"

lemma info_struct_ctl_table [c_info]: "info struct_ctl_table = (64, 8)"
  by (simp add: struct_ctl_table_def c_info)

definition struct_ctl_table_poll :: ctype where
  "struct_ctl_table_poll = Struct [] [
    Mem ''event'' typedef_atomic_t, Mem ''wait'' typedef_wait_queue_head_t]"

lemma info_struct_ctl_table_poll [c_info]: "info struct_ctl_table_poll = (32, 8)"
  by (simp add: struct_ctl_table_poll_def c_info)

definition struct_ctl_node :: ctype where
  "struct_ctl_node = Struct [] [
    Mem ''node'' struct_rb_node, Mem ''header'' (Ptr ''struct ctl_table_header'')]"

lemma info_struct_ctl_node [c_info]: "info struct_ctl_node = (32, 8)"
  by (simp add: struct_ctl_node_def c_info)

definition struct_ctl_table_root :: ctype where
  "struct_ctl_table_root = Struct [] [
    Mem ''default_set'' struct_ctl_table_set,
    Mem ''lookup'' (FunPtr ''struct ctl_table_set *'' [''struct ctl_table_root *'']),
    Mem ''set_ownership'' (FunPtr ''void'' [''struct ctl_table_header *'', ''struct ctl_table *'', ''kuid_t *'', ''kgid_t *'']),
    Mem ''permissions'' (FunPtr ''int'' [''struct ctl_table_header *'', ''struct ctl_table *''])]"

lemma info_struct_ctl_table_root [c_info]: "info struct_ctl_table_root = (120, 8)"
  by (simp add: struct_ctl_table_root_def c_info)

definition struct_qstr :: ctype where
  "struct_qstr = Struct [] [
    Anon (Union [] [
      Anon (Struct [] [
        Mem ''hash'' typedef_u32, Mem ''len'' typedef_u32]),
      Mem ''hash_len'' typedef_u64]),
    Mem ''name'' (Ptr ''const unsigned char'')]"

lemma info_struct_qstr [c_info]: "info struct_qstr = (16, 8)"
  by (simp add: struct_qstr_def c_info)

definition struct_dentry :: ctype where
  "struct_dentry = Struct [] [
    Mem ''d_flags'' (Scalar Tuint), Mem ''d_seq'' typedef_seqcount_spinlock_t, Mem ''d_hash'' struct_hlist_bl_node,
    Mem ''d_parent'' (Ptr ''struct dentry''), Mem ''d_name'' struct_qstr, Mem ''d_inode'' (Ptr ''struct inode''),
    Mem ''d_iname'' (Array (Scalar Tuchar) 32), Mem ''d_lockref'' struct_lockref,
    Mem ''d_op'' (Ptr ''const struct dentry_operations''), Mem ''d_sb'' (Ptr ''struct super_block''),
    Mem ''d_time'' (Scalar Tulong), Mem ''d_fsdata'' (Ptr ''void''),
    Anon (Union [] [
      Mem ''d_lru'' struct_list_head, Mem ''d_wait'' (Ptr ''wait_queue_head_t'')]),
    Mem ''d_child'' struct_list_head, Mem ''d_subdirs'' struct_list_head,
    Mem ''d_u'' (Union [] [
      Mem ''d_alias'' struct_hlist_node, Mem ''d_in_lookup_hash'' struct_hlist_bl_node,
      Mem ''d_rcu'' struct_callback_head])]"

lemma info_struct_dentry [c_info]: "info struct_dentry = (192, 8)"
  by (simp add: struct_dentry_def c_info)

definition struct_inode :: ctype where
  "struct_inode = Struct [] [
    Mem ''i_mode'' typedef_umode_t, Mem ''i_opflags'' (Scalar Tushort), Mem ''i_uid'' typedef_kuid_t,
    Mem ''i_gid'' typedef_kgid_t, Mem ''i_flags'' (Scalar Tuint), Mem ''i_acl'' (Ptr ''struct posix_acl''),
    Mem ''i_default_acl'' (Ptr ''struct posix_acl''), Mem ''i_op'' (Ptr ''const struct inode_operations''),
    Mem ''i_sb'' (Ptr ''struct super_block''), Mem ''i_mapping'' (Ptr ''struct address_space''),
    Mem ''i_security'' (Ptr ''void''), Mem ''i_ino'' (Scalar Tulong),
    Anon (Union [] [
      Mem ''i_nlink'' (Scalar Tuint), Mem ''__i_nlink'' (Scalar Tuint)]),
    Mem ''i_rdev'' typedef_dev_t, Mem ''i_size'' typedef_loff_t, Mem ''i_atime'' struct_timespec64,
    Mem ''i_mtime'' struct_timespec64, Mem ''i_ctime'' struct_timespec64, Mem ''i_lock'' typedef_spinlock_t,
    Mem ''i_bytes'' (Scalar Tushort), Mem ''i_blkbits'' typedef_u8, Mem ''i_write_hint'' typedef_u8,
    Mem ''i_blocks'' typedef_blkcnt_t, Mem ''i_state'' (Scalar Tulong), Mem ''i_rwsem'' struct_rw_semaphore,
    Mem ''dirtied_when'' (Scalar Tulong), Mem ''dirtied_time_when'' (Scalar Tulong), Mem ''i_hash'' struct_hlist_node,
    Mem ''i_io_list'' struct_list_head, Mem ''i_wb'' (Ptr ''struct bdi_writeback''),
    Mem ''i_wb_frn_winner'' (Scalar Tint), Mem ''i_wb_frn_avg_time'' typedef_u16,
    Mem ''i_wb_frn_history'' typedef_u16, Mem ''i_lru'' struct_list_head, Mem ''i_sb_list'' struct_list_head,
    Mem ''i_wb_list'' struct_list_head,
    Anon (Union [] [
      Mem ''i_dentry'' struct_hlist_head, Mem ''i_rcu'' struct_callback_head]),
    Mem ''i_version'' typedef_atomic64_t, Mem ''i_sequence'' typedef_atomic64_t, Mem ''i_count'' typedef_atomic_t,
    Mem ''i_dio_count'' typedef_atomic_t, Mem ''i_writecount'' typedef_atomic_t, Mem ''i_readcount'' typedef_atomic_t,
    Anon (Union [] [
      Mem ''i_fop'' (Ptr ''const struct file_operations''), Mem ''free_inode'' (FunPtr ''void'' [''struct inode *''])]),
    Mem ''i_flctx'' (Ptr ''struct file_lock_context''), Mem ''i_data'' struct_address_space,
    Mem ''i_devices'' struct_list_head,
    Anon (Union [] [
      Mem ''i_pipe'' (Ptr ''struct pipe_inode_info''), Mem ''i_cdev'' (Ptr ''struct cdev''),
      Mem ''i_link'' (Ptr ''char''), Mem ''i_dir_seq'' (Scalar Tuint)]),
    Mem ''i_generation'' typedef___u32, Mem ''i_fsnotify_mask'' typedef___u32,
    Mem ''i_fsnotify_marks'' (Ptr ''struct fsnotify_mark_connector''),
    Mem ''i_crypt_info'' (Ptr ''struct fscrypt_info''), Mem ''i_verity_info'' (Ptr ''struct fsverity_info''),
    Mem ''i_private'' (Ptr ''void'')]"

lemma info_struct_inode [c_info]: "info struct_inode = (632, 8)"
  by (simp add: struct_inode_def c_info)

definition struct_dentry_operations :: ctype where
  "struct_dentry_operations = Struct [] [
    Mem ''d_revalidate'' (FunPtr ''int'' [''struct dentry *'', ''unsigned int'']),
    Mem ''d_weak_revalidate'' (FunPtr ''int'' [''struct dentry *'', ''unsigned int'']),
    Mem ''d_hash'' (FunPtr ''int'' [''const struct dentry *'', ''struct qstr *'']),
    Mem ''d_compare'' (FunPtr ''int'' [''const struct dentry *'', ''unsigned int'', ''const char *'', ''const struct qstr *'']),
    Mem ''d_delete'' (FunPtr ''int'' [''const struct dentry *'']),
    Mem ''d_init'' (FunPtr ''int'' [''struct dentry *'']), Mem ''d_release'' (FunPtr ''void'' [''struct dentry *'']),
    Mem ''d_prune'' (FunPtr ''void'' [''struct dentry *'']),
    Mem ''d_iput'' (FunPtr ''void'' [''struct dentry *'', ''struct inode *'']),
    Mem ''d_dname'' (FunPtr ''char *'' [''struct dentry *'', ''char *'', ''int'']),
    Mem ''d_automount'' (FunPtr ''struct vfsmount *'' [''struct path *'']),
    Mem ''d_manage'' (FunPtr ''int'' [''const struct path *'', ''bool'']),
    Mem ''d_real'' (FunPtr ''struct dentry *'' [''struct dentry *'', ''const struct inode *'']),
    Pad (Scalar Tlong) 64, Pad (Scalar Tlong) 64, Pad (Scalar Tlong) 64]"

lemma info_struct_dentry_operations [c_info]: "info struct_dentry_operations = (128, 8)"
  by (simp add: struct_dentry_operations_def c_info)

definition struct_quota_info :: ctype where
  "struct_quota_info = Struct [] [
    Mem ''flags'' (Scalar Tuint), Mem ''dqio_sem'' struct_rw_semaphore,
    Mem ''files'' (Array (Ptr ''struct inode'') 3), Mem ''info'' (Array struct_mem_dqinfo 3),
    Mem ''ops'' (Array (Ptr ''const struct quota_format_ops'') 3)]"

lemma info_struct_quota_info [c_info]: "info struct_quota_info = (312, 8)"
  by (simp add: struct_quota_info_def c_info)

definition struct_super_block :: ctype where
  "struct_super_block = Struct [] [
    Mem ''s_list'' struct_list_head, Mem ''s_dev'' typedef_dev_t, Mem ''s_blocksize_bits'' (Scalar Tuchar),
    Mem ''s_blocksize'' (Scalar Tulong), Mem ''s_maxbytes'' typedef_loff_t,
    Mem ''s_type'' (Ptr ''struct file_system_type''), Mem ''s_op'' (Ptr ''const struct super_operations''),
    Mem ''dq_op'' (Ptr ''const struct dquot_operations''), Mem ''s_qcop'' (Ptr ''const struct quotactl_ops''),
    Mem ''s_export_op'' (Ptr ''const struct export_operations''), Mem ''s_flags'' (Scalar Tulong),
    Mem ''s_iflags'' (Scalar Tulong), Mem ''s_magic'' (Scalar Tulong), Mem ''s_root'' (Ptr ''struct dentry''),
    Mem ''s_umount'' struct_rw_semaphore, Mem ''s_count'' (Scalar Tint), Mem ''s_active'' typedef_atomic_t,
    Mem ''s_security'' (Ptr ''void''), Mem ''s_xattr'' (Ptr ''const struct xattr_handler *''),
    Mem ''s_cop'' (Ptr ''const struct fscrypt_operations''), Mem ''s_master_keys'' (Ptr ''struct fscrypt_keyring''),
    Mem ''s_vop'' (Ptr ''const struct fsverity_operations''), Mem ''s_encoding'' (Ptr ''struct unicode_map''),
    Mem ''s_encoding_flags'' typedef___u16, Mem ''s_roots'' struct_hlist_bl_head, Mem ''s_mounts'' struct_list_head,
    Mem ''s_bdev'' (Ptr ''struct block_device''), Mem ''s_bdi'' (Ptr ''struct backing_dev_info''),
    Mem ''s_mtd'' (Ptr ''struct mtd_info''), Mem ''s_instances'' struct_hlist_node,
    Mem ''s_quota_types'' (Scalar Tuint), Mem ''s_dquot'' struct_quota_info, Mem ''s_writers'' struct_sb_writers,
    Mem ''s_fs_info'' (Ptr ''void''), Mem ''s_time_gran'' typedef_u32, Mem ''s_time_min'' typedef_time64_t,
    Mem ''s_time_max'' typedef_time64_t, Mem ''s_fsnotify_mask'' typedef___u32,
    Mem ''s_fsnotify_marks'' (Ptr ''struct fsnotify_mark_connector''), Mem ''s_id'' (Array (Scalar Tchar) 32),
    Mem ''s_uuid'' typedef_uuid_t, Mem ''s_max_links'' (Scalar Tuint), Mem ''s_mode'' typedef_fmode_t,
    Mem ''s_vfs_rename_mutex'' struct_mutex, Mem ''s_subtype'' (Ptr ''const char''),
    Mem ''s_d_op'' (Ptr ''const struct dentry_operations''), Mem ''cleancache_poolid'' (Scalar Tint),
    Mem ''s_shrink'' struct_shrinker, Mem ''s_remove_count'' typedef_atomic_long_t,
    Mem ''s_fsnotify_connectors'' typedef_atomic_long_t, Mem ''s_readonly_remount'' (Scalar Tint),
    Mem ''s_wb_err'' typedef_errseq_t, Mem ''s_dio_done_wq'' (Ptr ''struct workqueue_struct''),
    Mem ''s_pins'' struct_hlist_head, Mem ''s_user_ns'' (Ptr ''struct user_namespace''),
    Mem ''s_dentry_lru'' struct_list_lru, Mem ''s_inode_lru'' struct_list_lru, Mem ''rcu'' struct_callback_head,
    Mem ''destroy_work'' struct_work_struct, Mem ''s_sync_lock'' struct_mutex, Mem ''s_stack_depth'' (Scalar Tint),
    Pad (Scalar Tlong) 0, Mem ''s_inode_list_lock'' typedef_spinlock_t, Mem ''s_inodes'' struct_list_head,
    Mem ''s_inode_wblist_lock'' typedef_spinlock_t, Mem ''s_inodes_wb'' struct_list_head, Pad (Scalar Tlong) 64,
    Pad (Scalar Tlong) 64]"

lemma info_struct_super_block [c_info]: "info struct_super_block = (1408, 8)"
  by (simp add: struct_super_block_def c_info)

definition struct_vfsmount :: ctype where
  "struct_vfsmount = Struct [] [
    Mem ''mnt_root'' (Ptr ''struct dentry''), Mem ''mnt_sb'' (Ptr ''struct super_block''),
    Mem ''mnt_flags'' (Scalar Tint), Mem ''mnt_userns'' (Ptr ''struct user_namespace'')]"

lemma info_struct_vfsmount [c_info]: "info struct_vfsmount = (32, 8)"
  by (simp add: struct_vfsmount_def c_info)

definition struct_key_tag :: ctype where
  "struct_key_tag = Struct [] [
    Mem ''rcu'' struct_callback_head, Mem ''usage'' typedef_refcount_t, Mem ''removed'' typedef_bool]"

lemma info_struct_key_tag [c_info]: "info struct_key_tag = (24, 8)"
  by (simp add: struct_key_tag_def c_info)

definition struct_key_type :: ctype where
  "struct_key_type = Struct [] [
    Mem ''name'' (Ptr ''const char''), Mem ''def_datalen'' typedef_size_t, Mem ''flags'' (Scalar Tuint),
    Mem ''vet_description'' (FunPtr ''int'' [''const char *'']),
    Mem ''preparse'' (FunPtr ''int'' [''struct key_preparsed_payload *'']),
    Mem ''free_preparse'' (FunPtr ''void'' [''struct key_preparsed_payload *'']),
    Mem ''instantiate'' (FunPtr ''int'' [''struct key *'', ''struct key_preparsed_payload *'']),
    Mem ''update'' (FunPtr ''int'' [''struct key *'', ''struct key_preparsed_payload *'']),
    Mem ''match_preparse'' (FunPtr ''int'' [''struct key_match_data *'']),
    Mem ''match_free'' (FunPtr ''void'' [''struct key_match_data *'']),
    Mem ''revoke'' (FunPtr ''void'' [''struct key *'']), Mem ''destroy'' (FunPtr ''void'' [''struct key *'']),
    Mem ''describe'' (FunPtr ''void'' [''const struct key *'', ''struct seq_file *'']),
    Mem ''read'' (FunPtr ''long int'' [''const struct key *'', ''char *'', ''size_t'']),
    Mem ''request_key'' typedef_request_key_actor_t,
    Mem ''lookup_restriction'' (FunPtr ''struct key_restriction *'' [''const char *'']),
    Mem ''asym_query'' (FunPtr ''int'' [''const struct kernel_pkey_params *'', ''struct kernel_pkey_query *'']),
    Mem ''asym_eds_op'' (FunPtr ''int'' [''struct kernel_pkey_params *'', ''const void *'', ''void *'']),
    Mem ''asym_verify_signature'' (FunPtr ''int'' [''struct kernel_pkey_params *'', ''const void *'', ''const void *'']),
    Mem ''link'' struct_list_head, Mem ''lock_class'' struct_lock_class_key]"

lemma info_struct_key_type [c_info]: "info struct_key_type = (168, 8)"
  by (simp add: struct_key_type_def c_info)

definition struct_key_restriction :: ctype where
  "struct_key_restriction = Struct [] [
    Mem ''check'' typedef_key_restrict_link_func_t, Mem ''key'' (Ptr ''struct key''),
    Mem ''keytype'' (Ptr ''struct key_type'')]"

lemma info_struct_key_restriction [c_info]: "info struct_key_restriction = (24, 8)"
  by (simp add: struct_key_restriction_def c_info)

definition struct_user_struct :: ctype where
  "struct_user_struct = Struct [] [
    Mem ''__count'' typedef_refcount_t, Mem ''epoll_watches'' struct_percpu_counter,
    Mem ''unix_inflight'' (Scalar Tulong), Mem ''pipe_bufs'' typedef_atomic_long_t,
    Mem ''uidhash_node'' struct_hlist_node, Mem ''uid'' typedef_kuid_t, Mem ''locked_vm'' typedef_atomic_long_t,
    Mem ''nr_watches'' typedef_atomic_t, Mem ''ratelimit'' struct_ratelimit_state]"

lemma info_struct_user_struct [c_info]: "info struct_user_struct = (144, 8)"
  by (simp add: struct_user_struct_def c_info)

definition struct_taskstats :: ctype where
  "struct_taskstats = Struct [] [
    Mem ''version'' typedef___u16, Mem ''ac_exitcode'' typedef___u32, Mem ''ac_flag'' typedef___u8,
    Mem ''ac_nice'' typedef___u8, Mem ''cpu_count'' typedef___u64, Mem ''cpu_delay_total'' typedef___u64,
    Mem ''blkio_count'' typedef___u64, Mem ''blkio_delay_total'' typedef___u64, Mem ''swapin_count'' typedef___u64,
    Mem ''swapin_delay_total'' typedef___u64, Mem ''cpu_run_real_total'' typedef___u64,
    Mem ''cpu_run_virtual_total'' typedef___u64, Mem ''ac_comm'' (Array (Scalar Tchar) 32),
    Mem ''ac_sched'' typedef___u8, Mem ''ac_pad'' (Array typedef___u8 3), Pad (Scalar Tlong) 0,
    Mem ''ac_uid'' typedef___u32, Mem ''ac_gid'' typedef___u32, Mem ''ac_pid'' typedef___u32,
    Mem ''ac_ppid'' typedef___u32, Mem ''ac_btime'' typedef___u32, Mem ''ac_etime'' typedef___u64,
    Mem ''ac_utime'' typedef___u64, Mem ''ac_stime'' typedef___u64, Mem ''ac_minflt'' typedef___u64,
    Mem ''ac_majflt'' typedef___u64, Mem ''coremem'' typedef___u64, Mem ''virtmem'' typedef___u64,
    Mem ''hiwater_rss'' typedef___u64, Mem ''hiwater_vm'' typedef___u64, Mem ''read_char'' typedef___u64,
    Mem ''write_char'' typedef___u64, Mem ''read_syscalls'' typedef___u64, Mem ''write_syscalls'' typedef___u64,
    Mem ''read_bytes'' typedef___u64, Mem ''write_bytes'' typedef___u64, Mem ''cancelled_write_bytes'' typedef___u64,
    Mem ''nvcsw'' typedef___u64, Mem ''nivcsw'' typedef___u64, Mem ''ac_utimescaled'' typedef___u64,
    Mem ''ac_stimescaled'' typedef___u64, Mem ''cpu_scaled_run_real_total'' typedef___u64,
    Mem ''freepages_count'' typedef___u64, Mem ''freepages_delay_total'' typedef___u64,
    Mem ''thrashing_count'' typedef___u64, Mem ''thrashing_delay_total'' typedef___u64,
    Mem ''ac_btime64'' typedef___u64]"

lemma info_struct_taskstats [c_info]: "info struct_taskstats = (352, 8)"
  by (simp add: struct_taskstats_def c_info)

definition struct_quota_format_type :: ctype where
  "struct_quota_format_type = Struct [] [
    Mem ''qf_fmt_id'' (Scalar Tint), Mem ''qf_ops'' (Ptr ''const struct quota_format_ops''),
    Mem ''qf_owner'' (Ptr ''struct module''), Mem ''qf_next'' (Ptr ''struct quota_format_type'')]"

lemma info_struct_quota_format_type [c_info]: "info struct_quota_format_type = (32, 8)"
  by (simp add: struct_quota_format_type_def c_info)

definition struct_quota_format_ops :: ctype where
  "struct_quota_format_ops = Struct [] [
    Mem ''check_quota_file'' (FunPtr ''int'' [''struct super_block *'', ''int'']),
    Mem ''read_file_info'' (FunPtr ''int'' [''struct super_block *'', ''int'']),
    Mem ''write_file_info'' (FunPtr ''int'' [''struct super_block *'', ''int'']),
    Mem ''free_file_info'' (FunPtr ''int'' [''struct super_block *'', ''int'']),
    Mem ''read_dqblk'' (FunPtr ''int'' [''struct dquot *'']),
    Mem ''commit_dqblk'' (FunPtr ''int'' [''struct dquot *'']),
    Mem ''release_dqblk'' (FunPtr ''int'' [''struct dquot *'']),
    Mem ''get_next_id'' (FunPtr ''int'' [''struct super_block *'', ''struct kqid *''])]"

lemma info_struct_quota_format_ops [c_info]: "info struct_quota_format_ops = (64, 8)"
  by (simp add: struct_quota_format_ops_def c_info)

definition struct_dquot_operations :: ctype where
  "struct_dquot_operations = Struct [] [
    Mem ''write_dquot'' (FunPtr ''int'' [''struct dquot *'']),
    Mem ''alloc_dquot'' (FunPtr ''struct dquot *'' [''struct super_block *'', ''int'']),
    Mem ''destroy_dquot'' (FunPtr ''void'' [''struct dquot *'']),
    Mem ''acquire_dquot'' (FunPtr ''int'' [''struct dquot *'']),
    Mem ''release_dquot'' (FunPtr ''int'' [''struct dquot *'']),
    Mem ''mark_dirty'' (FunPtr ''int'' [''struct dquot *'']),
    Mem ''write_info'' (FunPtr ''int'' [''struct super_block *'', ''int'']),
    Mem ''get_reserved_space'' (FunPtr ''qsize_t *'' [''struct inode *'']),
    Mem ''get_projid'' (FunPtr ''int'' [''struct inode *'', ''kprojid_t *'']),
    Mem ''get_inode_usage'' (FunPtr ''int'' [''struct inode *'', ''qsize_t *'']),
    Mem ''get_next_id'' (FunPtr ''int'' [''struct super_block *'', ''struct kqid *''])]"

lemma info_struct_dquot_operations [c_info]: "info struct_dquot_operations = (88, 8)"
  by (simp add: struct_dquot_operations_def c_info)

definition struct_quotactl_ops :: ctype where
  "struct_quotactl_ops = Struct [] [
    Mem ''quota_on'' (FunPtr ''int'' [''struct super_block *'', ''int'', ''int'', ''const struct path *'']),
    Mem ''quota_off'' (FunPtr ''int'' [''struct super_block *'', ''int'']),
    Mem ''quota_enable'' (FunPtr ''int'' [''struct super_block *'', ''unsigned int'']),
    Mem ''quota_disable'' (FunPtr ''int'' [''struct super_block *'', ''unsigned int'']),
    Mem ''quota_sync'' (FunPtr ''int'' [''struct super_block *'', ''int'']),
    Mem ''set_info'' (FunPtr ''int'' [''struct super_block *'', ''int'', ''struct qc_info *'']),
    Mem ''get_dqblk'' (FunPtr ''int'' [''struct super_block *'', ''struct kqid'', ''struct qc_dqblk *'']),
    Mem ''get_nextdqblk'' (FunPtr ''int'' [''struct super_block *'', ''struct kqid *'', ''struct qc_dqblk *'']),
    Mem ''set_dqblk'' (FunPtr ''int'' [''struct super_block *'', ''struct kqid'', ''struct qc_dqblk *'']),
    Mem ''get_state'' (FunPtr ''int'' [''struct super_block *'', ''struct qc_state *'']),
    Mem ''rm_xquota'' (FunPtr ''int'' [''struct super_block *'', ''unsigned int''])]"

lemma info_struct_quotactl_ops [c_info]: "info struct_quotactl_ops = (88, 8)"
  by (simp add: struct_quotactl_ops_def c_info)

definition struct_address_space_operations :: ctype where
  "struct_address_space_operations = Struct [] [
    Mem ''writepage'' (FunPtr ''int'' [''struct page *'', ''struct writeback_control *'']),
    Mem ''readpage'' (FunPtr ''int'' [''struct file *'', ''struct page *'']),
    Mem ''writepages'' (FunPtr ''int'' [''struct address_space *'', ''struct writeback_control *'']),
    Mem ''set_page_dirty'' (FunPtr ''int'' [''struct page *'']),
    Mem ''readpages'' (FunPtr ''int'' [''struct file *'', ''struct address_space *'', ''struct list_head *'', ''unsigned int'']),
    Mem ''readahead'' (FunPtr ''void'' [''struct readahead_control *'']),
    Mem ''write_begin'' (FunPtr ''int'' [''struct file *'', ''struct address_space *'', ''loff_t'', ''unsigned int'', ''unsigned int'', ''struct page * *'', ''void * *'']),
    Mem ''write_end'' (FunPtr ''int'' [''struct file *'', ''struct address_space *'', ''loff_t'', ''unsigned int'', ''unsigned int'', ''struct page *'', ''void *'']),
    Mem ''bmap'' (FunPtr ''sector_t'' [''struct address_space *'', ''sector_t'']),
    Mem ''invalidatepage'' (FunPtr ''void'' [''struct page *'', ''unsigned int'', ''unsigned int'']),
    Mem ''releasepage'' (FunPtr ''int'' [''struct page *'', ''gfp_t'']),
    Mem ''freepage'' (FunPtr ''void'' [''struct page *'']),
    Mem ''direct_IO'' (FunPtr ''ssize_t'' [''struct kiocb *'', ''struct iov_iter *'']),
    Mem ''migratepage'' (FunPtr ''int'' [''struct address_space *'', ''struct page *'', ''struct page *'', ''enum migrate_mode'']),
    Mem ''isolate_page'' (FunPtr ''bool'' [''struct page *'', ''isolate_mode_t'']),
    Mem ''putback_page'' (FunPtr ''void'' [''struct page *'']),
    Mem ''launder_page'' (FunPtr ''int'' [''struct page *'']),
    Mem ''is_partially_uptodate'' (FunPtr ''int'' [''struct page *'', ''long unsigned int'', ''long unsigned int'']),
    Mem ''is_dirty_writeback'' (FunPtr ''void'' [''struct page *'', ''bool *'', ''bool *'']),
    Mem ''error_remove_page'' (FunPtr ''int'' [''struct address_space *'', ''struct page *'']),
    Mem ''swap_activate'' (FunPtr ''int'' [''struct swap_info_struct *'', ''struct file *'', ''sector_t *'']),
    Mem ''swap_deactivate'' (FunPtr ''void'' [''struct file *''])]"

lemma info_struct_address_space_operations [c_info]: "info struct_address_space_operations = (176, 8)"
  by (simp add: struct_address_space_operations_def c_info)

definition struct_inode_operations :: ctype where
  "struct_inode_operations = Struct [] [
    Mem ''lookup'' (FunPtr ''struct dentry *'' [''struct inode *'', ''struct dentry *'', ''unsigned int'']),
    Mem ''get_link'' (FunPtr ''const char *'' [''struct dentry *'', ''struct inode *'', ''struct delayed_call *'']),
    Mem ''permission'' (FunPtr ''int'' [''struct user_namespace *'', ''struct inode *'', ''int'']),
    Mem ''get_acl'' (FunPtr ''struct posix_acl *'' [''struct inode *'', ''int'', ''bool'']),
    Mem ''readlink'' (FunPtr ''int'' [''struct dentry *'', ''char *'', ''int'']),
    Mem ''create'' (FunPtr ''int'' [''struct user_namespace *'', ''struct inode *'', ''struct dentry *'', ''umode_t'', ''bool'']),
    Mem ''link'' (FunPtr ''int'' [''struct dentry *'', ''struct inode *'', ''struct dentry *'']),
    Mem ''unlink'' (FunPtr ''int'' [''struct inode *'', ''struct dentry *'']),
    Mem ''symlink'' (FunPtr ''int'' [''struct user_namespace *'', ''struct inode *'', ''struct dentry *'', ''const char *'']),
    Mem ''mkdir'' (FunPtr ''int'' [''struct user_namespace *'', ''struct inode *'', ''struct dentry *'', ''umode_t'']),
    Mem ''rmdir'' (FunPtr ''int'' [''struct inode *'', ''struct dentry *'']),
    Mem ''mknod'' (FunPtr ''int'' [''struct user_namespace *'', ''struct inode *'', ''struct dentry *'', ''umode_t'', ''dev_t'']),
    Mem ''rename'' (FunPtr ''int'' [''struct user_namespace *'', ''struct inode *'', ''struct dentry *'', ''struct inode *'', ''struct dentry *'', ''unsigned int'']),
    Mem ''setattr'' (FunPtr ''int'' [''struct user_namespace *'', ''struct dentry *'', ''struct iattr *'']),
    Mem ''getattr'' (FunPtr ''int'' [''struct user_namespace *'', ''const struct path *'', ''struct kstat *'', ''u32'', ''unsigned int'']),
    Mem ''listxattr'' (FunPtr ''ssize_t'' [''struct dentry *'', ''char *'', ''size_t'']),
    Mem ''fiemap'' (FunPtr ''int'' [''struct inode *'', ''struct fiemap_extent_info *'', ''u64'', ''u64'']),
    Mem ''update_time'' (FunPtr ''int'' [''struct inode *'', ''struct timespec64 *'', ''int'']),
    Mem ''atomic_open'' (FunPtr ''int'' [''struct inode *'', ''struct dentry *'', ''struct file *'', ''unsigned int'', ''umode_t'']),
    Mem ''tmpfile'' (FunPtr ''int'' [''struct user_namespace *'', ''struct inode *'', ''struct dentry *'', ''umode_t'']),
    Mem ''set_acl'' (FunPtr ''int'' [''struct user_namespace *'', ''struct inode *'', ''struct posix_acl *'', ''int'']),
    Mem ''fileattr_set'' (FunPtr ''int'' [''struct user_namespace *'', ''struct dentry *'', ''struct fileattr *'']),
    Mem ''fileattr_get'' (FunPtr ''int'' [''struct dentry *'', ''struct fileattr *'']), Pad (Scalar Tlong) 64]"

lemma info_struct_inode_operations [c_info]: "info struct_inode_operations = (192, 8)"
  by (simp add: struct_inode_operations_def c_info)

definition struct_file_lock_context :: ctype where
  "struct_file_lock_context = Struct [] [
    Mem ''flc_lock'' typedef_spinlock_t, Mem ''flc_flock'' struct_list_head, Mem ''flc_posix'' struct_list_head,
    Mem ''flc_lease'' struct_list_head]"

lemma info_struct_file_lock_context [c_info]: "info struct_file_lock_context = (56, 8)"
  by (simp add: struct_file_lock_context_def c_info)

definition struct_export_operations :: ctype where
  "struct_export_operations = Struct [] [
    Mem ''encode_fh'' (FunPtr ''int'' [''struct inode *'', ''__u32 *'', ''int *'', ''struct inode *'']),
    Mem ''fh_to_dentry'' (FunPtr ''struct dentry *'' [''struct super_block *'', ''struct fid *'', ''int'', ''int'']),
    Mem ''fh_to_parent'' (FunPtr ''struct dentry *'' [''struct super_block *'', ''struct fid *'', ''int'', ''int'']),
    Mem ''get_name'' (FunPtr ''int'' [''struct dentry *'', ''char *'', ''struct dentry *'']),
    Mem ''get_parent'' (FunPtr ''struct dentry *'' [''struct dentry *'']),
    Mem ''commit_metadata'' (FunPtr ''int'' [''struct inode *'']),
    Mem ''get_uuid'' (FunPtr ''int'' [''struct super_block *'', ''u8 *'', ''u32 *'', ''u64 *'']),
    Mem ''map_blocks'' (FunPtr ''int'' [''struct inode *'', ''loff_t'', ''u64'', ''struct iomap *'', ''bool'', ''u32 *'']),
    Mem ''commit_blocks'' (FunPtr ''int'' [''struct inode *'', ''struct iomap *'', ''int'', ''struct iattr *'']),
    Mem ''fetch_iversion'' (FunPtr ''u64'' [''struct inode *'']), Mem ''flags'' (Scalar Tulong)]"

lemma info_struct_export_operations [c_info]: "info struct_export_operations = (88, 8)"
  by (simp add: struct_export_operations_def c_info)

definition struct_xattr_handler :: ctype where
  "struct_xattr_handler = Struct [] [
    Mem ''name'' (Ptr ''const char''), Mem ''prefix'' (Ptr ''const char''), Mem ''flags'' (Scalar Tint),
    Mem ''list'' (FunPtr ''bool'' [''struct dentry *'']),
    Mem ''get'' (FunPtr ''int'' [''const struct xattr_handler *'', ''struct dentry *'', ''struct inode *'', ''const char *'', ''void *'', ''size_t'']),
    Mem ''set'' (FunPtr ''int'' [''const struct xattr_handler *'', ''struct user_namespace *'', ''struct dentry *'', ''struct inode *'', ''const char *'', ''const void *'', ''size_t'', ''int''])]"

lemma info_struct_xattr_handler [c_info]: "info struct_xattr_handler = (48, 8)"
  by (simp add: struct_xattr_handler_def c_info)

definition struct_fscrypt_operations :: ctype where
  "struct_fscrypt_operations = Struct [] [
    Mem ''flags'' (Scalar Tuint), Mem ''key_prefix'' (Ptr ''const char''),
    Mem ''get_context'' (FunPtr ''int'' [''struct inode *'', ''void *'', ''size_t'']),
    Mem ''set_context'' (FunPtr ''int'' [''struct inode *'', ''const void *'', ''size_t'', ''void *'']),
    Mem ''get_dummy_policy'' (FunPtr ''const union fscrypt_policy *'' [''struct super_block *'']),
    Mem ''empty_dir'' (FunPtr ''bool'' [''struct inode *'']), Mem ''max_namelen'' (Scalar Tuint),
    Mem ''has_stable_inodes'' (FunPtr ''bool'' [''struct super_block *'']),
    Mem ''get_ino_and_lblk_bits'' (FunPtr ''void'' [''struct super_block *'', ''int *'', ''int *'']),
    Mem ''get_num_devices'' (FunPtr ''int'' [''struct super_block *'']),
    Mem ''get_devices'' (FunPtr ''void'' [''struct super_block *'', ''struct request_queue * *''])]"

lemma info_struct_fscrypt_operations [c_info]: "info struct_fscrypt_operations = (88, 8)"
  by (simp add: struct_fscrypt_operations_def c_info)

definition struct_fsverity_operations :: ctype where
  "struct_fsverity_operations = Struct [] [
    Mem ''begin_enable_verity'' (FunPtr ''int'' [''struct file *'']),
    Mem ''end_enable_verity'' (FunPtr ''int'' [''struct file *'', ''const void *'', ''size_t'', ''u64'']),
    Mem ''get_verity_descriptor'' (FunPtr ''int'' [''struct inode *'', ''void *'', ''size_t'']),
    Mem ''read_merkle_tree_page'' (FunPtr ''struct page *'' [''struct inode *'', ''long unsigned int'', ''long unsigned int'']),
    Mem ''write_merkle_tree_block'' (FunPtr ''int'' [''struct inode *'', ''const void *'', ''u64'', ''int''])]"

lemma info_struct_fsverity_operations [c_info]: "info struct_fsverity_operations = (40, 8)"
  by (simp add: struct_fsverity_operations_def c_info)

definition struct_seq_file :: ctype where
  "struct_seq_file = Struct [] [
    Mem ''buf'' (Ptr ''char''), Mem ''size'' typedef_size_t, Mem ''from'' typedef_size_t,
    Mem ''count'' typedef_size_t, Mem ''pad_until'' typedef_size_t, Mem ''index'' typedef_loff_t,
    Mem ''read_pos'' typedef_loff_t, Mem ''lock'' struct_mutex, Mem ''op'' (Ptr ''const struct seq_operations''),
    Mem ''poll_event'' (Scalar Tint), Mem ''file'' (Ptr ''const struct file''), Mem ''private'' (Ptr ''void'')]"

lemma info_struct_seq_file [c_info]: "info struct_seq_file = (120, 8)"
  by (simp add: struct_seq_file_def c_info)

definition struct_filename :: ctype where
  "struct_filename = Struct [] [
    Mem ''name'' (Ptr ''const char''), Mem ''uptr'' (Ptr ''const char''), Mem ''refcnt'' (Scalar Tint),
    Mem ''aname'' (Ptr ''struct audit_names''), Mem ''iname'' (Array (Scalar Tchar) 0)]"

lemma info_struct_filename [c_info]: "info struct_filename = (32, 8)"
  by (simp add: struct_filename_def c_info)

definition struct_seq_operations :: ctype where
  "struct_seq_operations = Struct [] [
    Mem ''start'' (FunPtr ''void *'' [''struct seq_file *'', ''loff_t *'']),
    Mem ''stop'' (FunPtr ''void'' [''struct seq_file *'', ''void *'']),
    Mem ''next'' (FunPtr ''void *'' [''struct seq_file *'', ''void *'', ''loff_t *'']),
    Mem ''show'' (FunPtr ''int'' [''struct seq_file *'', ''void *''])]"

lemma info_struct_seq_operations [c_info]: "info struct_seq_operations = (32, 8)"
  by (simp add: struct_seq_operations_def c_info)

definition struct_uts_namespace :: ctype where
  "struct_uts_namespace = Struct [] [
    Mem ''name'' struct_new_utsname, Mem ''user_ns'' (Ptr ''struct user_namespace''),
    Mem ''ucounts'' (Ptr ''struct ucounts''), Mem ''ns'' struct_ns_common]"

lemma info_struct_uts_namespace [c_info]: "info struct_uts_namespace = (432, 8)"
  by (simp add: struct_uts_namespace_def c_info)

definition struct_proc_ns_operations :: ctype where
  "struct_proc_ns_operations = Struct [] [
    Mem ''name'' (Ptr ''const char''), Mem ''real_ns_name'' (Ptr ''const char''), Mem ''type'' (Scalar Tint),
    Mem ''get'' (FunPtr ''struct ns_common *'' [''struct task_struct *'']),
    Mem ''put'' (FunPtr ''void'' [''struct ns_common *'']),
    Mem ''install'' (FunPtr ''int'' [''struct nsset *'', ''struct ns_common *'']),
    Mem ''owner'' (FunPtr ''struct user_namespace *'' [''struct ns_common *'']),
    Mem ''get_parent'' (FunPtr ''struct ns_common *'' [''struct ns_common *''])]"

lemma info_struct_proc_ns_operations [c_info]: "info struct_proc_ns_operations = (64, 8)"
  by (simp add: struct_proc_ns_operations_def c_info)

definition struct_fs_struct :: ctype where
  "struct_fs_struct = Struct [] [
    Mem ''users'' (Scalar Tint), Mem ''lock'' typedef_spinlock_t, Mem ''seq'' typedef_seqcount_spinlock_t,
    Mem ''umask'' (Scalar Tint), Mem ''in_exec'' (Scalar Tint), Mem ''root'' struct_path, Mem ''pwd'' struct_path]"

lemma info_struct_fs_struct [c_info]: "info struct_fs_struct = (56, 8)"
  by (simp add: struct_fs_struct_def c_info)

definition struct_posix_acl_entry :: ctype where
  "struct_posix_acl_entry = Struct [] [
    Mem ''e_tag'' (Scalar Tshort), Mem ''e_perm'' (Scalar Tushort),
    Anon (Union [] [
      Mem ''e_uid'' typedef_kuid_t, Mem ''e_gid'' typedef_kgid_t])]"

lemma info_struct_posix_acl_entry [c_info]: "info struct_posix_acl_entry = (8, 4)"
  by (simp add: struct_posix_acl_entry_def c_info)

definition struct_posix_acl :: ctype where
  "struct_posix_acl = Struct [] [
    Mem ''a_refcount'' typedef_refcount_t, Mem ''a_rcu'' struct_callback_head, Mem ''a_count'' (Scalar Tuint),
    Mem ''a_entries'' (Array struct_posix_acl_entry 0)]"

lemma info_struct_posix_acl [c_info]: "info struct_posix_acl = (32, 8)"
  by (simp add: struct_posix_acl_def c_info)

definition struct_time_namespace :: ctype where
  "struct_time_namespace = Struct [] [
    Mem ''user_ns'' (Ptr ''struct user_namespace''), Mem ''ucounts'' (Ptr ''struct ucounts''),
    Mem ''ns'' struct_ns_common, Mem ''offsets'' struct_timens_offsets, Mem ''vvar_page'' (Ptr ''struct page''),
    Mem ''frozen_offsets'' typedef_bool]"

lemma info_struct_time_namespace [c_info]: "info struct_time_namespace = (88, 8)"
  by (simp add: struct_time_namespace_def c_info)

definition struct_files_struct :: ctype where
  "struct_files_struct = Struct [] [
    Mem ''count'' typedef_atomic_t, Mem ''resize_in_progress'' typedef_bool,
    Mem ''resize_wait'' typedef_wait_queue_head_t, Mem ''fdt'' (Ptr ''struct fdtable''), Mem ''fdtab'' struct_fdtable,
    Pad (Scalar Tlong) 64, Pad (Scalar Tlong) 64, Pad (Scalar Tlong) 64, Pad (Scalar Tlong) 64,
    Mem ''file_lock'' typedef_spinlock_t, Mem ''next_fd'' (Scalar Tuint),
    Mem ''close_on_exec_init'' (Array (Scalar Tulong) 1), Mem ''open_fds_init'' (Array (Scalar Tulong) 1),
    Mem ''full_fds_bits_init'' (Array (Scalar Tulong) 1), Mem ''fd_array'' (Array (Ptr ''struct file'') 64),
    Pad (Scalar Tlong) 64, Pad (Scalar Tlong) 64, Pad (Scalar Tlong) 64, Pad (Scalar Tlong) 64]"

lemma info_struct_files_struct [c_info]: "info struct_files_struct = (704, 8)"
  by (simp add: struct_files_struct_def c_info)

definition struct_ipc_ids :: ctype where
  "struct_ipc_ids = Struct [] [
    Mem ''in_use'' (Scalar Tint), Mem ''seq'' (Scalar Tushort), Mem ''rwsem'' struct_rw_semaphore,
    Mem ''ipcs_idr'' struct_idr, Mem ''max_idx'' (Scalar Tint), Mem ''last_idx'' (Scalar Tint),
    Mem ''next_id'' (Scalar Tint), Mem ''key_ht'' struct_rhashtable]"

lemma info_struct_ipc_ids [c_info]: "info struct_ipc_ids = (224, 8)"
  by (simp add: struct_ipc_ids_def c_info)

definition struct_ipc_namespace :: ctype where
  "struct_ipc_namespace = Struct [] [
    Mem ''ids'' (Array struct_ipc_ids 3), Mem ''sem_ctls'' (Array (Scalar Tint) 4), Mem ''used_sems'' (Scalar Tint),
    Mem ''msg_ctlmax'' (Scalar Tuint), Mem ''msg_ctlmnb'' (Scalar Tuint), Mem ''msg_ctlmni'' (Scalar Tuint),
    Mem ''percpu_msg_bytes'' struct_percpu_counter, Mem ''percpu_msg_hdrs'' struct_percpu_counter,
    Mem ''shm_ctlmax'' typedef_size_t, Mem ''shm_ctlall'' typedef_size_t, Mem ''shm_tot'' (Scalar Tulong),
    Mem ''shm_ctlmni'' (Scalar Tint), Mem ''shm_rmid_forced'' (Scalar Tint), Mem ''ipcns_nb'' struct_notifier_block,
    Mem ''mq_mnt'' (Ptr ''struct vfsmount''), Mem ''mq_queues_count'' (Scalar Tuint),
    Mem ''mq_queues_max'' (Scalar Tuint), Mem ''mq_msg_max'' (Scalar Tuint), Mem ''mq_msgsize_max'' (Scalar Tuint),
    Mem ''mq_msg_default'' (Scalar Tuint), Mem ''mq_msgsize_default'' (Scalar Tuint),
    Mem ''mq_set'' struct_ctl_table_set, Mem ''mq_sysctls'' (Ptr ''struct ctl_table_header''),
    Mem ''ipc_set'' struct_ctl_table_set, Mem ''ipc_sysctls'' (Ptr ''struct ctl_table_header''),
    Mem ''user_ns'' (Ptr ''struct user_namespace''), Mem ''ucounts'' (Ptr ''struct ucounts''),
    Mem ''mnt_llist'' struct_llist_node, Mem ''ns'' struct_ns_common]"

lemma info_struct_ipc_namespace [c_info]: "info struct_ipc_namespace = (1128, 8)"
  by (simp add: struct_ipc_namespace_def c_info)

definition struct_proc_ops :: ctype where
  "struct_proc_ops = Struct [] [
    Mem ''proc_flags'' (Scalar Tuint), Mem ''proc_open'' (FunPtr ''int'' [''struct inode *'', ''struct file *'']),
    Mem ''proc_read'' (FunPtr ''ssize_t'' [''struct file *'', ''char *'', ''size_t'', ''loff_t *'']),
    Mem ''proc_read_iter'' (FunPtr ''ssize_t'' [''struct kiocb *'', ''struct iov_iter *'']),
    Mem ''proc_write'' (FunPtr ''ssize_t'' [''struct file *'', ''const char *'', ''size_t'', ''loff_t *'']),
    Mem ''proc_lseek'' (FunPtr ''loff_t'' [''struct file *'', ''loff_t'', ''int'']),
    Mem ''proc_release'' (FunPtr ''int'' [''struct inode *'', ''struct file *'']),
    Mem ''proc_poll'' (FunPtr ''__poll_t'' [''struct file *'', ''struct poll_table_struct *'']),
    Mem ''proc_ioctl'' (FunPtr ''long int'' [''struct file *'', ''unsigned int'', ''long unsigned int'']),
    Mem ''proc_compat_ioctl'' (FunPtr ''long int'' [''struct file *'', ''unsigned int'', ''long unsigned int'']),
    Mem ''proc_mmap'' (FunPtr ''int'' [''struct file *'', ''struct vm_area_struct *'']),
    Mem ''proc_get_unmapped_area'' (FunPtr ''long unsigned int'' [''struct file *'', ''long unsigned int'', ''long unsigned int'', ''long unsigned int'', ''long unsigned int''])]"

lemma info_struct_proc_ops [c_info]: "info struct_proc_ops = (96, 8)"
  by (simp add: struct_proc_ops_def c_info)

definition struct_fs_pin :: ctype where
  "struct_fs_pin = Struct [] [
    Mem ''wait'' typedef_wait_queue_head_t, Mem ''done'' (Scalar Tint), Mem ''s_list'' struct_hlist_node,
    Mem ''m_list'' struct_hlist_node, Mem ''kill'' (FunPtr ''void'' [''struct fs_pin *''])]"

lemma info_struct_fs_pin [c_info]: "info struct_fs_pin = (72, 8)"
  by (simp add: struct_fs_pin_def c_info)

definition struct_fsnotify_mark_connector :: ctype where
  "struct_fsnotify_mark_connector = Struct [] [
    Mem ''lock'' typedef_spinlock_t, Mem ''type'' (Scalar Tushort), Mem ''flags'' (Scalar Tushort),
    Mem ''fsid'' typedef___kernel_fsid_t,
    Anon (Union [] [
      Mem ''obj'' (Ptr ''fsnotify_connp_t''), Mem ''destroy_next'' (Ptr ''struct fsnotify_mark_connector'')]),
    Mem ''list'' struct_hlist_head]"

lemma info_struct_fsnotify_mark_connector [c_info]: "info struct_fsnotify_mark_connector = (32, 8)"
  by (simp add: struct_fsnotify_mark_connector_def c_info)

definition struct_static_key_mod :: ctype where
  "struct_static_key_mod = Struct [] [
    Mem ''next'' (Ptr ''struct static_key_mod''), Mem ''entries'' (Ptr ''struct jump_entry''),
    Mem ''mod'' (Ptr ''struct module'')]"

lemma info_struct_static_key_mod [c_info]: "info struct_static_key_mod = (24, 8)"
  by (simp add: struct_static_key_mod_def c_info)

definition struct_simple_xattrs :: ctype where
  "struct_simple_xattrs = Struct [] [
    Mem ''head'' struct_list_head, Mem ''lock'' typedef_spinlock_t]"

lemma info_struct_simple_xattrs [c_info]: "info struct_simple_xattrs = (24, 8)"
  by (simp add: struct_simple_xattrs_def c_info)

definition struct_fscrypt_policy_v1 :: ctype where
  "struct_fscrypt_policy_v1 = Struct [] [
    Mem ''version'' typedef___u8, Mem ''contents_encryption_mode'' typedef___u8,
    Mem ''filenames_encryption_mode'' typedef___u8, Mem ''flags'' typedef___u8,
    Mem ''master_key_descriptor'' (Array typedef___u8 8)]"

lemma info_struct_fscrypt_policy_v1 [c_info]: "info struct_fscrypt_policy_v1 = (12, 1)"
  by (simp add: struct_fscrypt_policy_v1_def c_info)

definition struct_fscrypt_policy_v2 :: ctype where
  "struct_fscrypt_policy_v2 = Struct [] [
    Mem ''version'' typedef___u8, Mem ''contents_encryption_mode'' typedef___u8,
    Mem ''filenames_encryption_mode'' typedef___u8, Mem ''flags'' typedef___u8,
    Mem ''__reserved'' (Array typedef___u8 4), Mem ''master_key_identifier'' (Array typedef___u8 16)]"

lemma info_struct_fscrypt_policy_v2 [c_info]: "info struct_fscrypt_policy_v2 = (24, 1)"
  by (simp add: struct_fscrypt_policy_v2_def c_info)

definition union_fscrypt_policy :: ctype where
  "union_fscrypt_policy = Union [] [
    Mem ''version'' typedef_u8, Mem ''v1'' struct_fscrypt_policy_v1, Mem ''v2'' struct_fscrypt_policy_v2]"

lemma info_union_fscrypt_policy [c_info]: "info union_fscrypt_policy = (24, 1)"
  by (simp add: union_fscrypt_policy_def c_info)

definition struct_mnt_namespace :: ctype where
  "struct_mnt_namespace = Struct [] [
    Mem ''ns'' struct_ns_common, Mem ''root'' (Ptr ''struct mount''), Mem ''list'' struct_list_head,
    Mem ''ns_lock'' typedef_spinlock_t, Mem ''user_ns'' (Ptr ''struct user_namespace''),
    Mem ''ucounts'' (Ptr ''struct ucounts''), Mem ''seq'' typedef_u64, Mem ''poll'' typedef_wait_queue_head_t,
    Mem ''event'' typedef_u64, Mem ''mounts'' (Scalar Tuint), Mem ''pending_mounts'' (Scalar Tuint)]"

lemma info_struct_mnt_namespace [c_info]: "info struct_mnt_namespace = (120, 8)"
  by (simp add: struct_mnt_namespace_def c_info)

definition struct_nameidata :: ctype where
  "struct_nameidata = Struct [] [
    Mem ''path'' struct_path, Mem ''last'' struct_qstr, Mem ''root'' struct_path,
    Mem ''inode'' (Ptr ''struct inode''), Mem ''flags'' (Scalar Tuint), Mem ''state'' (Scalar Tuint),
    Mem ''seq'' (Scalar Tuint), Mem ''m_seq'' (Scalar Tuint), Mem ''r_seq'' (Scalar Tuint),
    Mem ''last_type'' (Scalar Tint), Mem ''depth'' (Scalar Tuint), Mem ''total_link_count'' (Scalar Tint),
    Mem ''stack'' (Ptr ''struct saved''), Mem ''internal'' (Array struct_saved 2),
    Mem ''name'' (Ptr ''struct filename''), Mem ''saved'' (Ptr ''struct nameidata''), Mem ''root_seq'' (Scalar Tuint),
    Mem ''dfd'' (Scalar Tint), Mem ''dir_uid'' typedef_kuid_t, Mem ''dir_mode'' typedef_umode_t]"

lemma info_struct_nameidata [c_info]: "info struct_nameidata = (224, 8)"
  by (simp add: struct_nameidata_def c_info)

definition struct_unicode_map :: ctype where
  "struct_unicode_map = Struct [] [
    Mem ''charset'' (Ptr ''const char''), Mem ''version'' (Scalar Tint)]"

lemma info_struct_unicode_map [c_info]: "info struct_unicode_map = (16, 8)"
  by (simp add: struct_unicode_map_def c_info)

definition struct_proc_dir_entry :: ctype where
  "struct_proc_dir_entry = Struct [] [
    Mem ''in_use'' typedef_atomic_t, Mem ''refcnt'' typedef_refcount_t, Mem ''pde_openers'' struct_list_head,
    Mem ''pde_unload_lock'' typedef_spinlock_t, Mem ''pde_unload_completion'' (Ptr ''struct completion''),
    Mem ''proc_iops'' (Ptr ''const struct inode_operations''),
    Anon (Union [] [
      Mem ''proc_ops'' (Ptr ''const struct proc_ops''), Mem ''proc_dir_ops'' (Ptr ''const struct file_operations'')]),
    Mem ''proc_dops'' (Ptr ''const struct dentry_operations''),
    Anon (Union [] [
      Mem ''seq_ops'' (Ptr ''const struct seq_operations''),
      Mem ''single_show'' (FunPtr ''int'' [''struct seq_file *'', ''void *''])]),
    Mem ''write'' typedef_proc_write_t, Mem ''data'' (Ptr ''void''), Mem ''state_size'' (Scalar Tuint),
    Mem ''low_ino'' (Scalar Tuint), Mem ''nlink'' typedef_nlink_t, Mem ''uid'' typedef_kuid_t,
    Mem ''gid'' typedef_kgid_t, Mem ''size'' typedef_loff_t, Mem ''parent'' (Ptr ''struct proc_dir_entry''),
    Mem ''subdir'' struct_rb_root, Mem ''subdir_node'' struct_rb_node, Mem ''name'' (Ptr ''char''),
    Mem ''mode'' typedef_umode_t, Mem ''flags'' typedef_u8, Mem ''namelen'' typedef_u8,
    Mem ''inline_name'' (Array (Scalar Tchar) 0)]"

lemma info_struct_proc_dir_entry [c_info]: "info struct_proc_dir_entry = (176, 8)"
  by (simp add: struct_proc_dir_entry_def c_info)

definition struct_fscrypt_prepared_key :: ctype where
  "struct_fscrypt_prepared_key = Struct [] [
    Mem ''tfm'' (Ptr ''struct crypto_skcipher''), Mem ''blk_key'' (Ptr ''struct fscrypt_blk_crypto_key'')]"

lemma info_struct_fscrypt_prepared_key [c_info]: "info struct_fscrypt_prepared_key = (16, 8)"
  by (simp add: struct_fscrypt_prepared_key_def c_info)

definition struct_fscrypt_info :: ctype where
  "struct_fscrypt_info = Struct [] [
    Mem ''ci_enc_key'' struct_fscrypt_prepared_key, Mem ''ci_owns_key'' typedef_bool,
    Mem ''ci_inlinecrypt'' typedef_bool, Mem ''ci_mode'' (Ptr ''struct fscrypt_mode''),
    Mem ''ci_inode'' (Ptr ''struct inode''), Mem ''ci_master_key'' (Ptr ''struct fscrypt_master_key''),
    Mem ''ci_master_key_link'' struct_list_head, Mem ''ci_direct_key'' (Ptr ''struct fscrypt_direct_key''),
    Mem ''ci_dirhash_key'' typedef_siphash_key_t, Mem ''ci_dirhash_key_initialized'' typedef_bool,
    Mem ''ci_policy'' union_fscrypt_policy, Mem ''ci_nonce'' (Array typedef_u8 16), Mem ''ci_hashed_ino'' typedef_u32]"

lemma info_struct_fscrypt_info [c_info]: "info struct_fscrypt_info = (136, 8)"
  by (simp add: struct_fscrypt_info_def c_info)

definition struct_fscrypt_keyring :: ctype where
  "struct_fscrypt_keyring = Struct [] [
    Mem ''lock'' typedef_spinlock_t, Mem ''key_hashtable'' (Array struct_hlist_head 128)]"

lemma info_struct_fscrypt_keyring [c_info]: "info struct_fscrypt_keyring = (1032, 8)"
  by (simp add: struct_fscrypt_keyring_def c_info)

definition struct_fsverity_info :: ctype where
  "struct_fsverity_info = Struct [] [
    Mem ''tree_params'' struct_merkle_tree_params, Mem ''root_hash'' (Array typedef_u8 64),
    Mem ''file_digest'' (Array typedef_u8 64), Mem ''inode'' (Ptr ''const struct inode'')]"

lemma info_struct_fsverity_info [c_info]: "info struct_fsverity_info = (256, 8)"
  by (simp add: struct_fsverity_info_def c_info)

definition struct_key_user :: ctype where
  "struct_key_user = Struct [] [
    Mem ''node'' struct_rb_node, Mem ''cons_lock'' struct_mutex, Mem ''lock'' typedef_spinlock_t,
    Mem ''usage'' typedef_refcount_t, Mem ''nkeys'' typedef_atomic_t, Mem ''nikeys'' typedef_atomic_t,
    Mem ''uid'' typedef_kuid_t, Mem ''qnkeys'' (Scalar Tint), Mem ''qnbytes'' (Scalar Tint)]"

lemma info_struct_key_user [c_info]: "info struct_key_user = (88, 8)"
  by (simp add: struct_key_user_def c_info)

definition struct_io_file_table :: ctype where
  "struct_io_file_table = Struct [] [
    Mem ''files'' (Ptr ''struct io_fixed_file'')]"

lemma info_struct_io_file_table [c_info]: "info struct_io_file_table = (8, 8)"
  by (simp add: struct_io_file_table_def c_info)

definition struct_netpoll_info :: ctype where
  "struct_netpoll_info = Struct [] [
    Mem ''refcnt'' typedef_refcount_t, Mem ''dev_lock'' struct_semaphore, Mem ''txq'' struct_sk_buff_head,
    Mem ''tx_work'' struct_delayed_work, Mem ''netpoll'' (Ptr ''struct netpoll''), Mem ''rcu'' struct_callback_head]"

lemma info_struct_netpoll_info [c_info]: "info struct_netpoll_info = (168, 8)"
  by (simp add: struct_netpoll_info_def c_info)

definition enum_nl80211_key_mode :: ctype where
  "enum_nl80211_key_mode = Enum [
    (''NL80211_KEY_RX_TX'', 0), (''NL80211_KEY_NO_TX'', 1), (''NL80211_KEY_SET_TX'', 2)]"

lemma info_enum_nl80211_key_mode [c_info]: "info enum_nl80211_key_mode = (4, 4)"
  by (simp add: enum_nl80211_key_mode_def c_info)

definition struct_key_params :: ctype where
  "struct_key_params = Struct [] [
    Mem ''key'' (Ptr ''const u8''), Mem ''seq'' (Ptr ''const u8''), Mem ''key_len'' (Scalar Tint),
    Mem ''seq_len'' (Scalar Tint), Mem ''vlan_id'' typedef_u16, Mem ''cipher'' typedef_u32,
    Mem ''mode'' enum_nl80211_key_mode]"

lemma info_struct_key_params [c_info]: "info struct_key_params = (40, 8)"
  by (simp add: struct_key_params_def c_info)

end
