(* ===== verification/Vmlinux_Dev.thy ===== *)
theory Vmlinux_Dev
  imports Vmlinux_Fs
begin

text \<open>
  Kernel objects of src/internal/sentinel/bpf/vmlinux.h that the BPF types point to. Devices, drivers, modules and their power
  management.
\<close>

definition struct_kobject :: ctype where
  "struct_kobject = Struct [] [
    Mem ''name'' (Ptr ''const char''), Mem ''entry'' struct_list_head, Mem ''parent'' (Ptr ''struct kobject''),
    Mem ''kset'' (Ptr ''struct kset''), Mem ''ktype'' (Ptr ''struct kobj_type''),
    Mem ''sd'' (Ptr ''struct kernfs_node''), Mem ''kref'' struct_kref, Bits ''state_initialized'' (Scalar Tuint) 1,
    Bits ''state_in_sysfs'' (Scalar Tuint) 1, Bits ''state_add_uevent_sent'' (Scalar Tuint) 1,
    Bits ''state_remove_uevent_sent'' (Scalar Tuint) 1, Bits ''uevent_suppress'' (Scalar Tuint) 1]"

lemma info_struct_kobject [c_info]: "info struct_kobject = (64, 8)"
  by (simp add: struct_kobject_def c_info)

definition enum_dma_data_direction :: ctype where
  "enum_dma_data_direction = Enum [
    (''DMA_BIDIRECTIONAL'', 0), (''DMA_TO_DEVICE'', 1), (''DMA_FROM_DEVICE'', 2), (''DMA_NONE'', 3)]"

lemma info_enum_dma_data_direction [c_info]: "info enum_dma_data_direction = (4, 4)"
  by (simp add: enum_dma_data_direction_def c_info)

definition struct_dev_pagemap :: ctype where
  "struct_dev_pagemap = Struct [] [
    Mem ''altmap'' struct_vmem_altmap, Mem ''ref'' struct_percpu_ref, Mem ''done'' struct_completion,
    Mem ''type'' enum_memory_type, Mem ''flags'' (Scalar Tuint), Mem ''ops'' (Ptr ''const struct dev_pagemap_ops''),
    Mem ''owner'' (Ptr ''void''), Mem ''nr_range'' (Scalar Tint),
    Anon (Union [] [
      Mem ''range'' struct_range, Mem ''ranges'' (Array struct_range 0)])]"

lemma info_struct_dev_pagemap [c_info]: "info struct_dev_pagemap = (144, 8)"
  by (simp add: struct_dev_pagemap_def c_info)

definition enum_module_state :: ctype where
  "enum_module_state = Enum [
    (''MODULE_STATE_LIVE'', 0), (''MODULE_STATE_COMING'', 1), (''MODULE_STATE_GOING'', 2),
    (''MODULE_STATE_UNFORMED'', 3)]"

lemma info_enum_module_state [c_info]: "info enum_module_state = (4, 4)"
  by (simp add: enum_module_state_def c_info)

definition struct_module_kobject :: ctype where
  "struct_module_kobject = Struct [] [
    Mem ''kobj'' struct_kobject, Mem ''mod'' (Ptr ''struct module''), Mem ''drivers_dir'' (Ptr ''struct kobject''),
    Mem ''mp'' (Ptr ''struct module_param_attrs''), Mem ''kobj_completion'' (Ptr ''struct completion'')]"

lemma info_struct_module_kobject [c_info]: "info struct_module_kobject = (96, 8)"
  by (simp add: struct_module_kobject_def c_info)

definition struct_module_layout :: ctype where
  "struct_module_layout = Struct [] [
    Mem ''base'' (Ptr ''void''), Mem ''size'' (Scalar Tuint), Mem ''text_size'' (Scalar Tuint),
    Mem ''ro_size'' (Scalar Tuint), Mem ''ro_after_init_size'' (Scalar Tuint), Mem ''mtn'' struct_mod_tree_node]"

lemma info_struct_module_layout [c_info]: "info struct_module_layout = (80, 8)"
  by (simp add: struct_module_layout_def c_info)

definition struct_module :: ctype where
  "struct_module = Struct [] [
    Mem ''state'' enum_module_state, Mem ''list'' struct_list_head, Mem ''name'' (Array (Scalar Tchar) 56),
    Mem ''mkobj'' struct_module_kobject, Mem ''modinfo_attrs'' (Ptr ''struct module_attribute''),
    Mem ''version'' (Ptr ''const char''), Mem ''srcversion'' (Ptr ''const char''),
    Mem ''holders_dir'' (Ptr ''struct kobject''), Mem ''syms'' (Ptr ''const struct kernel_symbol''),
    Mem ''crcs'' (Ptr ''const s32''), Mem ''num_syms'' (Scalar Tuint), Mem ''param_lock'' struct_mutex,
    Mem ''kp'' (Ptr ''struct kernel_param''), Mem ''num_kp'' (Scalar Tuint), Mem ''num_gpl_syms'' (Scalar Tuint),
    Mem ''gpl_syms'' (Ptr ''const struct kernel_symbol''), Mem ''gpl_crcs'' (Ptr ''const s32''),
    Mem ''using_gplonly_symbols'' typedef_bool, Mem ''sig_ok'' typedef_bool,
    Mem ''async_probe_requested'' typedef_bool, Mem ''num_exentries'' (Scalar Tuint),
    Mem ''extable'' (Ptr ''struct exception_table_entry''), Mem ''init'' (FunPtr ''int'' [''void'']),
    Mem ''core_layout'' struct_module_layout, Mem ''init_layout'' struct_module_layout,
    Mem ''arch'' struct_mod_arch_specific, Mem ''taints'' (Scalar Tulong), Mem ''num_bugs'' (Scalar Tuint),
    Mem ''bug_list'' struct_list_head, Mem ''bug_table'' (Ptr ''struct bug_entry''),
    Mem ''kallsyms'' (Ptr ''struct mod_kallsyms''), Mem ''core_kallsyms'' struct_mod_kallsyms,
    Mem ''sect_attrs'' (Ptr ''struct module_sect_attrs''), Mem ''notes_attrs'' (Ptr ''struct module_notes_attrs''),
    Mem ''args'' (Ptr ''char''), Mem ''percpu'' (Ptr ''void''), Mem ''percpu_size'' (Scalar Tuint),
    Mem ''noinstr_text_start'' (Ptr ''void''), Mem ''noinstr_text_size'' (Scalar Tuint),
    Mem ''num_tracepoints'' (Scalar Tuint), Mem ''tracepoints_ptrs'' (Ptr ''tracepoint_ptr_t''),
    Mem ''num_srcu_structs'' (Scalar Tuint), Mem ''srcu_struct_ptrs'' (Ptr ''struct srcu_struct *''),
    Mem ''num_bpf_raw_events'' (Scalar Tuint), Mem ''bpf_raw_events'' (Ptr ''struct bpf_raw_event_map''),
    Mem ''btf_data_size'' (Scalar Tuint), Mem ''btf_data'' (Ptr ''void''),
    Mem ''jump_entries'' (Ptr ''struct jump_entry''), Mem ''num_jump_entries'' (Scalar Tuint),
    Mem ''num_trace_bprintk_fmt'' (Scalar Tuint), Mem ''trace_bprintk_fmt_start'' (Ptr ''const char *''),
    Mem ''trace_events'' (Ptr ''struct trace_event_call *''), Mem ''num_trace_events'' (Scalar Tuint),
    Mem ''trace_evals'' (Ptr ''struct trace_eval_map *''), Mem ''num_trace_evals'' (Scalar Tuint),
    Mem ''num_ftrace_callsites'' (Scalar Tuint), Mem ''ftrace_callsites'' (Ptr ''long unsigned int''),
    Mem ''kprobes_text_start'' (Ptr ''void''), Mem ''kprobes_text_size'' (Scalar Tuint),
    Mem ''kprobe_blacklist'' (Ptr ''long unsigned int''), Mem ''num_kprobe_blacklist'' (Scalar Tuint),
    Mem ''source_list'' struct_list_head, Mem ''target_list'' struct_list_head,
    Mem ''exit'' (FunPtr ''void'' [''void'']), Mem ''refcnt'' typedef_atomic_t,
    Mem ''ei_funcs'' (Ptr ''struct error_injection_entry''), Mem ''num_ei_funcs'' (Scalar Tuint),
    Pad (Scalar Tlong) 64, Pad (Scalar Tlong) 64, Pad (Scalar Tlong) 64, Pad (Scalar Tlong) 64]"

lemma info_struct_module [c_info]: "info struct_module = (896, 8)"
  by (simp add: struct_module_def c_info)

definition struct_cdev :: ctype where
  "struct_cdev = Struct [] [
    Mem ''kobj'' struct_kobject, Mem ''owner'' (Ptr ''struct module''),
    Mem ''ops'' (Ptr ''const struct file_operations''), Mem ''list'' struct_list_head, Mem ''dev'' typedef_dev_t,
    Mem ''count'' (Scalar Tuint)]"

lemma info_struct_cdev [c_info]: "info struct_cdev = (104, 8)"
  by (simp add: struct_cdev_def c_info)

definition enum_dl_dev_state :: ctype where
  "enum_dl_dev_state = Enum [
    (''DL_DEV_NO_DRIVER'', 0), (''DL_DEV_PROBING'', 1), (''DL_DEV_DRIVER_BOUND'', 2), (''DL_DEV_UNBINDING'', 3)]"

lemma info_enum_dl_dev_state [c_info]: "info enum_dl_dev_state = (4, 4)"
  by (simp add: enum_dl_dev_state_def c_info)

definition struct_dev_links_info :: ctype where
  "struct_dev_links_info = Struct [] [
    Mem ''suppliers'' struct_list_head, Mem ''consumers'' struct_list_head, Mem ''defer_sync'' struct_list_head,
    Mem ''status'' enum_dl_dev_state]"

lemma info_struct_dev_links_info [c_info]: "info struct_dev_links_info = (56, 8)"
  by (simp add: struct_dev_links_info_def c_info)

definition struct_pm_message :: ctype where
  "struct_pm_message = Struct [] [
    Mem ''event'' (Scalar Tint)]"

lemma info_struct_pm_message [c_info]: "info struct_pm_message = (4, 4)"
  by (simp add: struct_pm_message_def c_info)

definition typedef_pm_message_t :: ctype where
  "typedef_pm_message_t = struct_pm_message"

lemma info_typedef_pm_message_t [c_info]: "info typedef_pm_message_t = (4, 4)"
  by (simp add: typedef_pm_message_t_def c_info)

definition struct_dev_archdata :: ctype where
  "struct_dev_archdata = Struct [] []"

lemma info_struct_dev_archdata [c_info]: "info struct_dev_archdata = (0, 1)"
  by (simp add: struct_dev_archdata_def c_info)

definition enum_device_removable :: ctype where
  "enum_device_removable = Enum [
    (''DEVICE_REMOVABLE_NOT_SUPPORTED'', 0), (''DEVICE_REMOVABLE_UNKNOWN'', 1), (''DEVICE_FIXED'', 2),
    (''DEVICE_REMOVABLE'', 3)]"

lemma info_enum_device_removable [c_info]: "info enum_device_removable = (4, 4)"
  by (simp add: enum_device_removable_def c_info)

definition struct_kernfs_elem_dir :: ctype where
  "struct_kernfs_elem_dir = Struct [] [
    Mem ''subdirs'' (Scalar Tulong), Mem ''children'' struct_rb_root, Mem ''root'' (Ptr ''struct kernfs_root''),
    Mem ''rev'' (Scalar Tulong)]"

lemma info_struct_kernfs_elem_dir [c_info]: "info struct_kernfs_elem_dir = (32, 8)"
  by (simp add: struct_kernfs_elem_dir_def c_info)

definition struct_kernfs_root :: ctype where
  "struct_kernfs_root = Struct [] [
    Mem ''kn'' (Ptr ''struct kernfs_node''), Mem ''flags'' (Scalar Tuint), Mem ''ino_idr'' struct_idr,
    Mem ''last_id_lowbits'' typedef_u32, Mem ''id_highbits'' typedef_u32,
    Mem ''syscall_ops'' (Ptr ''struct kernfs_syscall_ops''), Mem ''supers'' struct_list_head,
    Mem ''deactivate_waitq'' typedef_wait_queue_head_t]"

lemma info_struct_kernfs_root [c_info]: "info struct_kernfs_root = (96, 8)"
  by (simp add: struct_kernfs_root_def c_info)

definition struct_kernfs_elem_symlink :: ctype where
  "struct_kernfs_elem_symlink = Struct [] [
    Mem ''target_kn'' (Ptr ''struct kernfs_node'')]"

lemma info_struct_kernfs_elem_symlink [c_info]: "info struct_kernfs_elem_symlink = (8, 8)"
  by (simp add: struct_kernfs_elem_symlink_def c_info)

definition struct_kernfs_elem_attr :: ctype where
  "struct_kernfs_elem_attr = Struct [] [
    Mem ''ops'' (Ptr ''const struct kernfs_ops''), Mem ''open'' (Ptr ''struct kernfs_open_node''),
    Mem ''size'' typedef_loff_t, Mem ''notify_next'' (Ptr ''struct kernfs_node'')]"

lemma info_struct_kernfs_elem_attr [c_info]: "info struct_kernfs_elem_attr = (32, 8)"
  by (simp add: struct_kernfs_elem_attr_def c_info)

definition struct_kernfs_node :: ctype where
  "struct_kernfs_node = Struct [] [
    Mem ''count'' typedef_atomic_t, Mem ''active'' typedef_atomic_t, Mem ''parent'' (Ptr ''struct kernfs_node''),
    Mem ''name'' (Ptr ''const char''), Mem ''rb'' struct_rb_node, Mem ''ns'' (Ptr ''const void''),
    Mem ''hash'' (Scalar Tuint),
    Anon (Union [] [
      Mem ''dir'' struct_kernfs_elem_dir, Mem ''symlink'' struct_kernfs_elem_symlink,
      Mem ''attr'' struct_kernfs_elem_attr]),
    Mem ''priv'' (Ptr ''void''), Mem ''id'' typedef_u64, Mem ''flags'' (Scalar Tushort), Mem ''mode'' typedef_umode_t,
    Mem ''iattr'' (Ptr ''struct kernfs_iattrs'')]"

lemma info_struct_kernfs_node [c_info]: "info struct_kernfs_node = (128, 8)"
  by (simp add: struct_kernfs_node_def c_info)

definition struct_kernfs_ops :: ctype where
  "struct_kernfs_ops = Struct [] [
    Mem ''open'' (FunPtr ''int'' [''struct kernfs_open_file *'']),
    Mem ''release'' (FunPtr ''void'' [''struct kernfs_open_file *'']),
    Mem ''seq_show'' (FunPtr ''int'' [''struct seq_file *'', ''void *'']),
    Mem ''seq_start'' (FunPtr ''void *'' [''struct seq_file *'', ''loff_t *'']),
    Mem ''seq_next'' (FunPtr ''void *'' [''struct seq_file *'', ''void *'', ''loff_t *'']),
    Mem ''seq_stop'' (FunPtr ''void'' [''struct seq_file *'', ''void *'']),
    Mem ''read'' (FunPtr ''ssize_t'' [''struct kernfs_open_file *'', ''char *'', ''size_t'', ''loff_t'']),
    Mem ''atomic_write_len'' typedef_size_t, Mem ''prealloc'' typedef_bool,
    Mem ''write'' (FunPtr ''ssize_t'' [''struct kernfs_open_file *'', ''char *'', ''size_t'', ''loff_t'']),
    Mem ''poll'' (FunPtr ''__poll_t'' [''struct kernfs_open_file *'', ''struct poll_table_struct *'']),
    Mem ''mmap'' (FunPtr ''int'' [''struct kernfs_open_file *'', ''struct vm_area_struct *''])]"

lemma info_struct_kernfs_ops [c_info]: "info struct_kernfs_ops = (96, 8)"
  by (simp add: struct_kernfs_ops_def c_info)

definition enum_kobj_ns_type :: ctype where
  "enum_kobj_ns_type = Enum [
    (''KOBJ_NS_TYPE_NONE'', 0), (''KOBJ_NS_TYPE_NET'', 1), (''KOBJ_NS_TYPES'', 2)]"

lemma info_enum_kobj_ns_type [c_info]: "info enum_kobj_ns_type = (4, 4)"
  by (simp add: enum_kobj_ns_type_def c_info)

definition struct_kobj_ns_type_operations :: ctype where
  "struct_kobj_ns_type_operations = Struct [] [
    Mem ''type'' enum_kobj_ns_type, Mem ''current_may_mount'' (FunPtr ''bool'' [''void'']),
    Mem ''grab_current_ns'' (FunPtr ''void *'' [''void'']),
    Mem ''netlink_ns'' (FunPtr ''const void *'' [''struct sock *'']),
    Mem ''initial_ns'' (FunPtr ''const void *'' [''void'']), Mem ''drop_ns'' (FunPtr ''void'' [''void *''])]"

lemma info_struct_kobj_ns_type_operations [c_info]: "info struct_kobj_ns_type_operations = (48, 8)"
  by (simp add: struct_kobj_ns_type_operations_def c_info)

definition struct_attribute :: ctype where
  "struct_attribute = Struct [] [
    Mem ''name'' (Ptr ''const char''), Mem ''mode'' typedef_umode_t]"

lemma info_struct_attribute [c_info]: "info struct_attribute = (16, 8)"
  by (simp add: struct_attribute_def c_info)

definition struct_attribute_group :: ctype where
  "struct_attribute_group = Struct [] [
    Mem ''name'' (Ptr ''const char''),
    Mem ''is_visible'' (FunPtr ''umode_t'' [''struct kobject *'', ''struct attribute *'', ''int'']),
    Mem ''is_bin_visible'' (FunPtr ''umode_t'' [''struct kobject *'', ''struct bin_attribute *'', ''int'']),
    Mem ''attrs'' (Ptr ''struct attribute *''), Mem ''bin_attrs'' (Ptr ''struct bin_attribute *'')]"

lemma info_struct_attribute_group [c_info]: "info struct_attribute_group = (40, 8)"
  by (simp add: struct_attribute_group_def c_info)

definition struct_bin_attribute :: ctype where
  "struct_bin_attribute = Struct [] [
    Mem ''attr'' struct_attribute, Mem ''size'' typedef_size_t, Mem ''private'' (Ptr ''void''),
    Mem ''f_mapping'' (FunPtr ''struct address_space *'' [''void'']),
    Mem ''read'' (FunPtr ''ssize_t'' [''struct file *'', ''struct kobject *'', ''struct bin_attribute *'', ''char *'', ''loff_t'', ''size_t'']),
    Mem ''write'' (FunPtr ''ssize_t'' [''struct file *'', ''struct kobject *'', ''struct bin_attribute *'', ''char *'', ''loff_t'', ''size_t'']),
    Mem ''mmap'' (FunPtr ''int'' [''struct file *'', ''struct kobject *'', ''struct bin_attribute *'', ''struct vm_area_struct *''])]"

lemma info_struct_bin_attribute [c_info]: "info struct_bin_attribute = (64, 8)"
  by (simp add: struct_bin_attribute_def c_info)

definition struct_sysfs_ops :: ctype where
  "struct_sysfs_ops = Struct [] [
    Mem ''show'' (FunPtr ''ssize_t'' [''struct kobject *'', ''struct attribute *'', ''char *'']),
    Mem ''store'' (FunPtr ''ssize_t'' [''struct kobject *'', ''struct attribute *'', ''const char *'', ''size_t''])]"

lemma info_struct_sysfs_ops [c_info]: "info struct_sysfs_ops = (16, 8)"
  by (simp add: struct_sysfs_ops_def c_info)

definition struct_kset :: ctype where
  "struct_kset = Struct [] [
    Mem ''list'' struct_list_head, Mem ''list_lock'' typedef_spinlock_t, Mem ''kobj'' struct_kobject,
    Mem ''uevent_ops'' (Ptr ''const struct kset_uevent_ops'')]"

lemma info_struct_kset [c_info]: "info struct_kset = (96, 8)"
  by (simp add: struct_kset_def c_info)

definition struct_kobj_type :: ctype where
  "struct_kobj_type = Struct [] [
    Mem ''release'' (FunPtr ''void'' [''struct kobject *'']), Mem ''sysfs_ops'' (Ptr ''const struct sysfs_ops''),
    Mem ''default_attrs'' (Ptr ''struct attribute *''),
    Mem ''default_groups'' (Ptr ''const struct attribute_group *''),
    Mem ''child_ns_type'' (FunPtr ''const struct kobj_ns_type_operations *'' [''struct kobject *'']),
    Mem ''namespace'' (FunPtr ''const void *'' [''struct kobject *'']),
    Mem ''get_ownership'' (FunPtr ''void'' [''struct kobject *'', ''kuid_t *'', ''kgid_t *''])]"

lemma info_struct_kobj_type [c_info]: "info struct_kobj_type = (56, 8)"
  by (simp add: struct_kobj_type_def c_info)

definition struct_module_attribute :: ctype where
  "struct_module_attribute = Struct [] [
    Mem ''attr'' struct_attribute,
    Mem ''show'' (FunPtr ''ssize_t'' [''struct module_attribute *'', ''struct module_kobject *'', ''char *'']),
    Mem ''store'' (FunPtr ''ssize_t'' [''struct module_attribute *'', ''struct module_kobject *'', ''const char *'', ''size_t'']),
    Mem ''setup'' (FunPtr ''void'' [''struct module *'', ''const char *'']),
    Mem ''test'' (FunPtr ''int'' [''struct module *'']), Mem ''free'' (FunPtr ''void'' [''struct module *''])]"

lemma info_struct_module_attribute [c_info]: "info struct_module_attribute = (56, 8)"
  by (simp add: struct_module_attribute_def c_info)

definition struct_dev_pm_ops :: ctype where
  "struct_dev_pm_ops = Struct [] [
    Mem ''prepare'' (FunPtr ''int'' [''struct device *'']), Mem ''complete'' (FunPtr ''void'' [''struct device *'']),
    Mem ''suspend'' (FunPtr ''int'' [''struct device *'']), Mem ''resume'' (FunPtr ''int'' [''struct device *'']),
    Mem ''freeze'' (FunPtr ''int'' [''struct device *'']), Mem ''thaw'' (FunPtr ''int'' [''struct device *'']),
    Mem ''poweroff'' (FunPtr ''int'' [''struct device *'']), Mem ''restore'' (FunPtr ''int'' [''struct device *'']),
    Mem ''suspend_late'' (FunPtr ''int'' [''struct device *'']),
    Mem ''resume_early'' (FunPtr ''int'' [''struct device *'']),
    Mem ''freeze_late'' (FunPtr ''int'' [''struct device *'']),
    Mem ''thaw_early'' (FunPtr ''int'' [''struct device *'']),
    Mem ''poweroff_late'' (FunPtr ''int'' [''struct device *'']),
    Mem ''restore_early'' (FunPtr ''int'' [''struct device *'']),
    Mem ''suspend_noirq'' (FunPtr ''int'' [''struct device *'']),
    Mem ''resume_noirq'' (FunPtr ''int'' [''struct device *'']),
    Mem ''freeze_noirq'' (FunPtr ''int'' [''struct device *'']),
    Mem ''thaw_noirq'' (FunPtr ''int'' [''struct device *'']),
    Mem ''poweroff_noirq'' (FunPtr ''int'' [''struct device *'']),
    Mem ''restore_noirq'' (FunPtr ''int'' [''struct device *'']),
    Mem ''runtime_suspend'' (FunPtr ''int'' [''struct device *'']),
    Mem ''runtime_resume'' (FunPtr ''int'' [''struct device *'']),
    Mem ''runtime_idle'' (FunPtr ''int'' [''struct device *''])]"

lemma info_struct_dev_pm_ops [c_info]: "info struct_dev_pm_ops = (184, 8)"
  by (simp add: struct_dev_pm_ops_def c_info)

definition struct_pm_subsys_data :: ctype where
  "struct_pm_subsys_data = Struct [] [
    Mem ''lock'' typedef_spinlock_t, Mem ''refcount'' (Scalar Tuint), Mem ''clock_op_might_sleep'' (Scalar Tuint),
    Mem ''clock_mutex'' struct_mutex, Mem ''clock_list'' struct_list_head,
    Mem ''domain_data'' (Ptr ''struct pm_domain_data'')]"

lemma info_struct_pm_subsys_data [c_info]: "info struct_pm_subsys_data = (72, 8)"
  by (simp add: struct_pm_subsys_data_def c_info)

definition struct_wakeup_source :: ctype where
  "struct_wakeup_source = Struct [] [
    Mem ''name'' (Ptr ''const char''), Mem ''id'' (Scalar Tint), Mem ''entry'' struct_list_head,
    Mem ''lock'' typedef_spinlock_t, Mem ''wakeirq'' (Ptr ''struct wake_irq''), Mem ''timer'' struct_timer_list,
    Mem ''timer_expires'' (Scalar Tulong), Mem ''total_time'' typedef_ktime_t, Mem ''max_time'' typedef_ktime_t,
    Mem ''last_time'' typedef_ktime_t, Mem ''start_prevent_time'' typedef_ktime_t,
    Mem ''prevent_sleep_time'' typedef_ktime_t, Mem ''event_count'' (Scalar Tulong),
    Mem ''active_count'' (Scalar Tulong), Mem ''relax_count'' (Scalar Tulong), Mem ''expire_count'' (Scalar Tulong),
    Mem ''wakeup_count'' (Scalar Tulong), Mem ''dev'' (Ptr ''struct device''), Bits ''active'' typedef_bool 1,
    Bits ''autosleep_enabled'' typedef_bool 1]"

lemma info_struct_wakeup_source [c_info]: "info struct_wakeup_source = (192, 8)"
  by (simp add: struct_wakeup_source_def c_info)

definition struct_dev_pm_domain :: ctype where
  "struct_dev_pm_domain = Struct [] [
    Mem ''ops'' struct_dev_pm_ops, Mem ''start'' (FunPtr ''int'' [''struct device *'']),
    Mem ''detach'' (FunPtr ''void'' [''struct device *'', ''bool'']),
    Mem ''activate'' (FunPtr ''int'' [''struct device *'']), Mem ''sync'' (FunPtr ''void'' [''struct device *'']),
    Mem ''dismiss'' (FunPtr ''void'' [''struct device *''])]"

lemma info_struct_dev_pm_domain [c_info]: "info struct_dev_pm_domain = (224, 8)"
  by (simp add: struct_dev_pm_domain_def c_info)

definition struct_bus_type :: ctype where
  "struct_bus_type = Struct [] [
    Mem ''name'' (Ptr ''const char''), Mem ''dev_name'' (Ptr ''const char''),
    Mem ''dev_root'' (Ptr ''struct device''), Mem ''bus_groups'' (Ptr ''const struct attribute_group *''),
    Mem ''dev_groups'' (Ptr ''const struct attribute_group *''),
    Mem ''drv_groups'' (Ptr ''const struct attribute_group *''),
    Mem ''match'' (FunPtr ''int'' [''struct device *'', ''struct device_driver *'']),
    Mem ''uevent'' (FunPtr ''int'' [''struct device *'', ''struct kobj_uevent_env *'']),
    Mem ''probe'' (FunPtr ''int'' [''struct device *'']), Mem ''sync_state'' (FunPtr ''void'' [''struct device *'']),
    Mem ''remove'' (FunPtr ''void'' [''struct device *'']), Mem ''shutdown'' (FunPtr ''void'' [''struct device *'']),
    Mem ''online'' (FunPtr ''int'' [''struct device *'']), Mem ''offline'' (FunPtr ''int'' [''struct device *'']),
    Mem ''suspend'' (FunPtr ''int'' [''struct device *'', ''pm_message_t'']),
    Mem ''resume'' (FunPtr ''int'' [''struct device *'']), Mem ''num_vf'' (FunPtr ''int'' [''struct device *'']),
    Mem ''dma_configure'' (FunPtr ''int'' [''struct device *'']), Mem ''pm'' (Ptr ''const struct dev_pm_ops''),
    Mem ''iommu_ops'' (Ptr ''const struct iommu_ops''), Mem ''p'' (Ptr ''struct subsys_private''),
    Mem ''lock_key'' struct_lock_class_key, Mem ''need_parent_lock'' typedef_bool]"

lemma info_struct_bus_type [c_info]: "info struct_bus_type = (176, 8)"
  by (simp add: struct_bus_type_def c_info)

definition struct_device_driver :: ctype where
  "struct_device_driver = Struct [] [
    Mem ''name'' (Ptr ''const char''), Mem ''bus'' (Ptr ''struct bus_type''), Mem ''owner'' (Ptr ''struct module''),
    Mem ''mod_name'' (Ptr ''const char''), Mem ''suppress_bind_attrs'' typedef_bool,
    Mem ''probe_type'' enum_probe_type, Mem ''of_match_table'' (Ptr ''const struct of_device_id''),
    Mem ''acpi_match_table'' (Ptr ''const struct acpi_device_id''),
    Mem ''probe'' (FunPtr ''int'' [''struct device *'']), Mem ''sync_state'' (FunPtr ''void'' [''struct device *'']),
    Mem ''remove'' (FunPtr ''int'' [''struct device *'']), Mem ''shutdown'' (FunPtr ''void'' [''struct device *'']),
    Mem ''suspend'' (FunPtr ''int'' [''struct device *'', ''pm_message_t'']),
    Mem ''resume'' (FunPtr ''int'' [''struct device *'']), Mem ''groups'' (Ptr ''const struct attribute_group *''),
    Mem ''dev_groups'' (Ptr ''const struct attribute_group *''), Mem ''pm'' (Ptr ''const struct dev_pm_ops''),
    Mem ''coredump'' (FunPtr ''void'' [''struct device *'']), Mem ''p'' (Ptr ''struct driver_private'')]"

lemma info_struct_device_driver [c_info]: "info struct_device_driver = (144, 8)"
  by (simp add: struct_device_driver_def c_info)

definition struct_iommu_ops :: ctype where
  "struct_iommu_ops = Struct [] [
    Mem ''capable'' (FunPtr ''bool'' [''enum iommu_cap'']),
    Mem ''domain_alloc'' (FunPtr ''struct iommu_domain *'' [''unsigned int'']),
    Mem ''domain_free'' (FunPtr ''void'' [''struct iommu_domain *'']),
    Mem ''attach_dev'' (FunPtr ''int'' [''struct iommu_domain *'', ''struct device *'']),
    Mem ''detach_dev'' (FunPtr ''void'' [''struct iommu_domain *'', ''struct device *'']),
    Mem ''map'' (FunPtr ''int'' [''struct iommu_domain *'', ''long unsigned int'', ''phys_addr_t'', ''size_t'', ''int'', ''gfp_t'']),
    Mem ''map_pages'' (FunPtr ''int'' [''struct iommu_domain *'', ''long unsigned int'', ''phys_addr_t'', ''size_t'', ''size_t'', ''int'', ''gfp_t'', ''size_t *'']),
    Mem ''unmap'' (FunPtr ''size_t'' [''struct iommu_domain *'', ''long unsigned int'', ''size_t'', ''struct iommu_iotlb_gather *'']),
    Mem ''unmap_pages'' (FunPtr ''size_t'' [''struct iommu_domain *'', ''long unsigned int'', ''size_t'', ''size_t'', ''struct iommu_iotlb_gather *'']),
    Mem ''flush_iotlb_all'' (FunPtr ''void'' [''struct iommu_domain *'']),
    Mem ''iotlb_sync_map'' (FunPtr ''void'' [''struct iommu_domain *'', ''long unsigned int'', ''size_t'']),
    Mem ''iotlb_sync'' (FunPtr ''void'' [''struct iommu_domain *'', ''struct iommu_iotlb_gather *'']),
    Mem ''iova_to_phys'' (FunPtr ''phys_addr_t'' [''struct iommu_domain *'', ''dma_addr_t'']),
    Mem ''probe_device'' (FunPtr ''struct iommu_device *'' [''struct device *'']),
    Mem ''release_device'' (FunPtr ''void'' [''struct device *'']),
    Mem ''probe_finalize'' (FunPtr ''void'' [''struct device *'']),
    Mem ''device_group'' (FunPtr ''struct iommu_group *'' [''struct device *'']),
    Mem ''enable_nesting'' (FunPtr ''int'' [''struct iommu_domain *'']),
    Mem ''set_pgtable_quirks'' (FunPtr ''int'' [''struct iommu_domain *'', ''long unsigned int'']),
    Mem ''get_resv_regions'' (FunPtr ''void'' [''struct device *'', ''struct list_head *'']),
    Mem ''put_resv_regions'' (FunPtr ''void'' [''struct device *'', ''struct list_head *'']),
    Mem ''apply_resv_region'' (FunPtr ''void'' [''struct device *'', ''struct iommu_domain *'', ''struct iommu_resv_region *'']),
    Mem ''of_xlate'' (FunPtr ''int'' [''struct device *'', ''struct of_phandle_args *'']),
    Mem ''is_attach_deferred'' (FunPtr ''bool'' [''struct iommu_domain *'', ''struct device *'']),
    Mem ''dev_has_feat'' (FunPtr ''bool'' [''struct device *'', ''enum iommu_dev_features'']),
    Mem ''dev_feat_enabled'' (FunPtr ''bool'' [''struct device *'', ''enum iommu_dev_features'']),
    Mem ''dev_enable_feat'' (FunPtr ''int'' [''struct device *'', ''enum iommu_dev_features'']),
    Mem ''dev_disable_feat'' (FunPtr ''int'' [''struct device *'', ''enum iommu_dev_features'']),
    Mem ''aux_attach_dev'' (FunPtr ''int'' [''struct iommu_domain *'', ''struct device *'']),
    Mem ''aux_detach_dev'' (FunPtr ''void'' [''struct iommu_domain *'', ''struct device *'']),
    Mem ''aux_get_pasid'' (FunPtr ''int'' [''struct iommu_domain *'', ''struct device *'']),
    Mem ''sva_bind'' (FunPtr ''struct iommu_sva *'' [''struct device *'', ''struct mm_struct *'', ''void *'']),
    Mem ''sva_unbind'' (FunPtr ''void'' [''struct iommu_sva *'']),
    Mem ''sva_get_pasid'' (FunPtr ''u32'' [''struct iommu_sva *'']),
    Mem ''page_response'' (FunPtr ''int'' [''struct device *'', ''struct iommu_fault_event *'', ''struct iommu_page_response *'']),
    Mem ''cache_invalidate'' (FunPtr ''int'' [''struct iommu_domain *'', ''struct device *'', ''struct iommu_cache_invalidate_info *'']),
    Mem ''sva_bind_gpasid'' (FunPtr ''int'' [''struct iommu_domain *'', ''struct device *'', ''struct iommu_gpasid_bind_data *'']),
    Mem ''sva_unbind_gpasid'' (FunPtr ''int'' [''struct device *'', ''u32'']),
    Mem ''def_domain_type'' (FunPtr ''int'' [''struct device *'']), Mem ''pgsize_bitmap'' (Scalar Tulong),
    Mem ''owner'' (Ptr ''struct module'')]"

lemma info_struct_iommu_ops [c_info]: "info struct_iommu_ops = (328, 8)"
  by (simp add: struct_iommu_ops_def c_info)

definition struct_device_type :: ctype where
  "struct_device_type = Struct [] [
    Mem ''name'' (Ptr ''const char''), Mem ''groups'' (Ptr ''const struct attribute_group *''),
    Mem ''uevent'' (FunPtr ''int'' [''struct device *'', ''struct kobj_uevent_env *'']),
    Mem ''devnode'' (FunPtr ''char *'' [''struct device *'', ''umode_t *'', ''kuid_t *'', ''kgid_t *'']),
    Mem ''release'' (FunPtr ''void'' [''struct device *'']), Mem ''pm'' (Ptr ''const struct dev_pm_ops'')]"

lemma info_struct_device_type [c_info]: "info struct_device_type = (48, 8)"
  by (simp add: struct_device_type_def c_info)

definition struct_class :: ctype where
  "struct_class = Struct [] [
    Mem ''name'' (Ptr ''const char''), Mem ''owner'' (Ptr ''struct module''),
    Mem ''class_groups'' (Ptr ''const struct attribute_group *''),
    Mem ''dev_groups'' (Ptr ''const struct attribute_group *''), Mem ''dev_kobj'' (Ptr ''struct kobject''),
    Mem ''dev_uevent'' (FunPtr ''int'' [''struct device *'', ''struct kobj_uevent_env *'']),
    Mem ''devnode'' (FunPtr ''char *'' [''struct device *'', ''umode_t *'']),
    Mem ''class_release'' (FunPtr ''void'' [''struct class *'']),
    Mem ''dev_release'' (FunPtr ''void'' [''struct device *'']),
    Mem ''shutdown_pre'' (FunPtr ''int'' [''struct device *'']),
    Mem ''ns_type'' (Ptr ''const struct kobj_ns_type_operations''),
    Mem ''namespace'' (FunPtr ''const void *'' [''struct device *'']),
    Mem ''get_ownership'' (FunPtr ''void'' [''struct device *'', ''kuid_t *'', ''kgid_t *'']),
    Mem ''pm'' (Ptr ''const struct dev_pm_ops''), Mem ''p'' (Ptr ''struct subsys_private'')]"

lemma info_struct_class [c_info]: "info struct_class = (120, 8)"
  by (simp add: struct_class_def c_info)

definition struct_of_device_id :: ctype where
  "struct_of_device_id = Struct [] [
    Mem ''name'' (Array (Scalar Tchar) 32), Mem ''type'' (Array (Scalar Tchar) 32),
    Mem ''compatible'' (Array (Scalar Tchar) 128), Mem ''data'' (Ptr ''const void'')]"

lemma info_struct_of_device_id [c_info]: "info struct_of_device_id = (200, 8)"
  by (simp add: struct_of_device_id_def c_info)

definition struct_acpi_device_id :: ctype where
  "struct_acpi_device_id = Struct [] [
    Mem ''id'' (Array typedef___u8 9), Mem ''driver_data'' typedef_kernel_ulong_t, Mem ''cls'' typedef___u32,
    Mem ''cls_msk'' typedef___u32]"

lemma info_struct_acpi_device_id [c_info]: "info struct_acpi_device_id = (32, 8)"
  by (simp add: struct_acpi_device_id_def c_info)

definition struct_device_dma_parameters :: ctype where
  "struct_device_dma_parameters = Struct [] [
    Mem ''max_segment_size'' (Scalar Tuint), Mem ''min_align_mask'' (Scalar Tuint),
    Mem ''segment_boundary_mask'' (Scalar Tulong)]"

lemma info_struct_device_dma_parameters [c_info]: "info struct_device_dma_parameters = (16, 8)"
  by (simp add: struct_device_dma_parameters_def c_info)

definition enum_irq_domain_bus_token :: ctype where
  "enum_irq_domain_bus_token = Enum [
    (''DOMAIN_BUS_ANY'', 0), (''DOMAIN_BUS_WIRED'', 1), (''DOMAIN_BUS_GENERIC_MSI'', 2), (''DOMAIN_BUS_PCI_MSI'', 3),
    (''DOMAIN_BUS_PLATFORM_MSI'', 4), (''DOMAIN_BUS_NEXUS'', 5), (''DOMAIN_BUS_IPI'', 6),
    (''DOMAIN_BUS_FSL_MC_MSI'', 7), (''DOMAIN_BUS_TI_SCI_INTA_MSI'', 8), (''DOMAIN_BUS_WAKEUP'', 9),
    (''DOMAIN_BUS_VMD_MSI'', 10)]"

lemma info_enum_irq_domain_bus_token [c_info]: "info enum_irq_domain_bus_token = (4, 4)"
  by (simp add: enum_irq_domain_bus_token_def c_info)

definition struct_irq_domain :: ctype where
  "struct_irq_domain = Struct [] [
    Mem ''link'' struct_list_head, Mem ''name'' (Ptr ''const char''),
    Mem ''ops'' (Ptr ''const struct irq_domain_ops''), Mem ''host_data'' (Ptr ''void''), Mem ''flags'' (Scalar Tuint),
    Mem ''mapcount'' (Scalar Tuint), Mem ''fwnode'' (Ptr ''struct fwnode_handle''),
    Mem ''bus_token'' enum_irq_domain_bus_token, Mem ''gc'' (Ptr ''struct irq_domain_chip_generic''),
    Mem ''dev'' (Ptr ''struct device''), Mem ''parent'' (Ptr ''struct irq_domain''),
    Mem ''hwirq_max'' typedef_irq_hw_number_t, Mem ''revmap_size'' (Scalar Tuint), Mem ''revmap_tree'' struct_xarray,
    Mem ''revmap_mutex'' struct_mutex, Mem ''revmap'' (Array (Ptr ''struct irq_data'') 0)]"

lemma info_struct_irq_domain [c_info]: "info struct_irq_domain = (152, 8)"
  by (simp add: struct_irq_domain_def c_info)

definition struct_dma_map_ops :: ctype where
  "struct_dma_map_ops = Struct [] [
    Mem ''alloc'' (FunPtr ''void *'' [''struct device *'', ''size_t'', ''dma_addr_t *'', ''gfp_t'', ''long unsigned int'']),
    Mem ''free'' (FunPtr ''void'' [''struct device *'', ''size_t'', ''void *'', ''dma_addr_t'', ''long unsigned int'']),
    Mem ''alloc_pages'' (FunPtr ''struct page *'' [''struct device *'', ''size_t'', ''dma_addr_t *'', ''enum dma_data_direction'', ''gfp_t'']),
    Mem ''free_pages'' (FunPtr ''void'' [''struct device *'', ''size_t'', ''struct page *'', ''dma_addr_t'', ''enum dma_data_direction'']),
    Mem ''alloc_noncontiguous'' (FunPtr ''struct sg_table *'' [''struct device *'', ''size_t'', ''enum dma_data_direction'', ''gfp_t'', ''long unsigned int'']),
    Mem ''free_noncontiguous'' (FunPtr ''void'' [''struct device *'', ''size_t'', ''struct sg_table *'', ''enum dma_data_direction'']),
    Mem ''mmap'' (FunPtr ''int'' [''struct device *'', ''struct vm_area_struct *'', ''void *'', ''dma_addr_t'', ''size_t'', ''long unsigned int'']),
    Mem ''get_sgtable'' (FunPtr ''int'' [''struct device *'', ''struct sg_table *'', ''void *'', ''dma_addr_t'', ''size_t'', ''long unsigned int'']),
    Mem ''map_page'' (FunPtr ''dma_addr_t'' [''struct device *'', ''struct page *'', ''long unsigned int'', ''size_t'', ''enum dma_data_direction'', ''long unsigned int'']),
    Mem ''unmap_page'' (FunPtr ''void'' [''struct device *'', ''dma_addr_t'', ''size_t'', ''enum dma_data_direction'', ''long unsigned int'']),
    Mem ''map_sg'' (FunPtr ''int'' [''struct device *'', ''struct scatterlist *'', ''int'', ''enum dma_data_direction'', ''long unsigned int'']),
    Mem ''unmap_sg'' (FunPtr ''void'' [''struct device *'', ''struct scatterlist *'', ''int'', ''enum dma_data_direction'', ''long unsigned int'']),
    Mem ''map_resource'' (FunPtr ''dma_addr_t'' [''struct device *'', ''phys_addr_t'', ''size_t'', ''enum dma_data_direction'', ''long unsigned int'']),
    Mem ''unmap_resource'' (FunPtr ''void'' [''struct device *'', ''dma_addr_t'', ''size_t'', ''enum dma_data_direction'', ''long unsigned int'']),
    Mem ''sync_single_for_cpu'' (FunPtr ''void'' [''struct device *'', ''dma_addr_t'', ''size_t'', ''enum dma_data_direction'']),
    Mem ''sync_single_for_device'' (FunPtr ''void'' [''struct device *'', ''dma_addr_t'', ''size_t'', ''enum dma_data_direction'']),
    Mem ''sync_sg_for_cpu'' (FunPtr ''void'' [''struct device *'', ''struct scatterlist *'', ''int'', ''enum dma_data_direction'']),
    Mem ''sync_sg_for_device'' (FunPtr ''void'' [''struct device *'', ''struct scatterlist *'', ''int'', ''enum dma_data_direction'']),
    Mem ''cache_sync'' (FunPtr ''void'' [''struct device *'', ''void *'', ''size_t'', ''enum dma_data_direction'']),
    Mem ''dma_supported'' (FunPtr ''int'' [''struct device *'', ''u64'']),
    Mem ''get_required_mask'' (FunPtr ''u64'' [''struct device *'']),
    Mem ''max_mapping_size'' (FunPtr ''size_t'' [''struct device *'']),
    Mem ''opt_mapping_size'' (FunPtr ''size_t'' [''void'']),
    Mem ''get_merge_boundary'' (FunPtr ''long unsigned int'' [''struct device *''])]"

lemma info_struct_dma_map_ops [c_info]: "info struct_dma_map_ops = (192, 8)"
  by (simp add: struct_dma_map_ops_def c_info)

definition struct_bus_dma_region :: ctype where
  "struct_bus_dma_region = Struct [] [
    Mem ''cpu_start'' typedef_phys_addr_t, Mem ''dma_start'' typedef_dma_addr_t, Mem ''size'' typedef_u64,
    Mem ''offset'' typedef_u64]"

lemma info_struct_bus_dma_region [c_info]: "info struct_bus_dma_region = (32, 8)"
  by (simp add: struct_bus_dma_region_def c_info)

definition struct_fwnode_handle :: ctype where
  "struct_fwnode_handle = Struct [] [
    Mem ''secondary'' (Ptr ''struct fwnode_handle''), Mem ''ops'' (Ptr ''const struct fwnode_operations''),
    Mem ''dev'' (Ptr ''struct device''), Mem ''suppliers'' struct_list_head, Mem ''consumers'' struct_list_head,
    Mem ''flags'' typedef_u8]"

lemma info_struct_fwnode_handle [c_info]: "info struct_fwnode_handle = (64, 8)"
  by (simp add: struct_fwnode_handle_def c_info)

definition struct_device_node :: ctype where
  "struct_device_node = Struct [] [
    Mem ''name'' (Ptr ''const char''), Mem ''phandle'' typedef_phandle, Mem ''full_name'' (Ptr ''const char''),
    Mem ''fwnode'' struct_fwnode_handle, Mem ''properties'' (Ptr ''struct property''),
    Mem ''deadprops'' (Ptr ''struct property''), Mem ''parent'' (Ptr ''struct device_node''),
    Mem ''child'' (Ptr ''struct device_node''), Mem ''sibling'' (Ptr ''struct device_node''),
    Mem ''kobj'' struct_kobject, Mem ''_flags'' (Scalar Tulong), Mem ''data'' (Ptr ''void'')]"

lemma info_struct_device_node [c_info]: "info struct_device_node = (208, 8)"
  by (simp add: struct_device_node_def c_info)

definition struct_dev_pagemap_ops :: ctype where
  "struct_dev_pagemap_ops = Struct [] [
    Mem ''page_free'' (FunPtr ''void'' [''struct page *'']),
    Mem ''migrate_to_ram'' (FunPtr ''vm_fault_t'' [''struct vm_fault *''])]"

lemma info_struct_dev_pagemap_ops [c_info]: "info struct_dev_pagemap_ops = (16, 8)"
  by (simp add: struct_dev_pagemap_ops_def c_info)

definition struct_irq_data :: ctype where
  "struct_irq_data = Struct [] [
    Mem ''mask'' typedef_u32, Mem ''irq'' (Scalar Tuint), Mem ''hwirq'' (Scalar Tulong),
    Mem ''common'' (Ptr ''struct irq_common_data''), Mem ''chip'' (Ptr ''struct irq_chip''),
    Mem ''domain'' (Ptr ''struct irq_domain''), Mem ''parent_data'' (Ptr ''struct irq_data''),
    Mem ''chip_data'' (Ptr ''void'')]"

lemma info_struct_irq_data [c_info]: "info struct_irq_data = (56, 8)"
  by (simp add: struct_irq_data_def c_info)

definition struct_fwnode_operations :: ctype where
  "struct_fwnode_operations = Struct [] [
    Mem ''get'' (FunPtr ''struct fwnode_handle *'' [''struct fwnode_handle *'']),
    Mem ''put'' (FunPtr ''void'' [''struct fwnode_handle *'']),
    Mem ''device_is_available'' (FunPtr ''bool'' [''const struct fwnode_handle *'']),
    Mem ''device_get_match_data'' (FunPtr ''const void *'' [''const struct fwnode_handle *'', ''const struct device *'']),
    Mem ''property_present'' (FunPtr ''bool'' [''const struct fwnode_handle *'', ''const char *'']),
    Mem ''property_read_int_array'' (FunPtr ''int'' [''const struct fwnode_handle *'', ''const char *'', ''unsigned int'', ''void *'', ''size_t'']),
    Mem ''property_read_string_array'' (FunPtr ''int'' [''const struct fwnode_handle *'', ''const char *'', ''const char * *'', ''size_t'']),
    Mem ''get_name'' (FunPtr ''const char *'' [''const struct fwnode_handle *'']),
    Mem ''get_name_prefix'' (FunPtr ''const char *'' [''const struct fwnode_handle *'']),
    Mem ''get_parent'' (FunPtr ''struct fwnode_handle *'' [''const struct fwnode_handle *'']),
    Mem ''get_next_child_node'' (FunPtr ''struct fwnode_handle *'' [''const struct fwnode_handle *'', ''struct fwnode_handle *'']),
    Mem ''get_named_child_node'' (FunPtr ''struct fwnode_handle *'' [''const struct fwnode_handle *'', ''const char *'']),
    Mem ''get_reference_args'' (FunPtr ''int'' [''const struct fwnode_handle *'', ''const char *'', ''const char *'', ''unsigned int'', ''unsigned int'', ''struct fwnode_reference_args *'']),
    Mem ''graph_get_next_endpoint'' (FunPtr ''struct fwnode_handle *'' [''const struct fwnode_handle *'', ''struct fwnode_handle *'']),
    Mem ''graph_get_remote_endpoint'' (FunPtr ''struct fwnode_handle *'' [''const struct fwnode_handle *'']),
    Mem ''graph_get_port_parent'' (FunPtr ''struct fwnode_handle *'' [''struct fwnode_handle *'']),
    Mem ''graph_parse_endpoint'' (FunPtr ''int'' [''const struct fwnode_handle *'', ''struct fwnode_endpoint *'']),
    Mem ''add_links'' (FunPtr ''int'' [''struct fwnode_handle *''])]"

lemma info_struct_fwnode_operations [c_info]: "info struct_fwnode_operations = (144, 8)"
  by (simp add: struct_fwnode_operations_def c_info)

definition enum_irq_gc_flags :: ctype where
  "enum_irq_gc_flags = Enum [
    (''IRQ_GC_INIT_MASK_CACHE'', 1), (''IRQ_GC_INIT_NESTED_LOCK'', 2), (''IRQ_GC_MASK_CACHE_PER_TYPE'', 4),
    (''IRQ_GC_NO_MASK'', 8), (''IRQ_GC_BE_IO'', 16)]"

lemma info_enum_irq_gc_flags [c_info]: "info enum_irq_gc_flags = (4, 4)"
  by (simp add: enum_irq_gc_flags_def c_info)

definition struct_irq_domain_chip_generic :: ctype where
  "struct_irq_domain_chip_generic = Struct [] [
    Mem ''irqs_per_chip'' (Scalar Tuint), Mem ''num_chips'' (Scalar Tuint), Mem ''irq_flags_to_clear'' (Scalar Tuint),
    Mem ''irq_flags_to_set'' (Scalar Tuint), Mem ''gc_flags'' enum_irq_gc_flags,
    Mem ''gc'' (Array (Ptr ''struct irq_chip_generic'') 0)]"

lemma info_struct_irq_domain_chip_generic [c_info]: "info struct_irq_domain_chip_generic = (24, 8)"
  by (simp add: struct_irq_domain_chip_generic_def c_info)

definition struct_property :: ctype where
  "struct_property = Struct [] [
    Mem ''name'' (Ptr ''char''), Mem ''length'' (Scalar Tint), Mem ''value'' (Ptr ''void''),
    Mem ''next'' (Ptr ''struct property''), Mem ''_flags'' (Scalar Tulong), Mem ''attr'' struct_bin_attribute]"

lemma info_struct_property [c_info]: "info struct_property = (104, 8)"
  by (simp add: struct_property_def c_info)

definition struct_irq_domain_ops :: ctype where
  "struct_irq_domain_ops = Struct [] [
    Mem ''match'' (FunPtr ''int'' [''struct irq_domain *'', ''struct device_node *'', ''enum irq_domain_bus_token'']),
    Mem ''select'' (FunPtr ''int'' [''struct irq_domain *'', ''struct irq_fwspec *'', ''enum irq_domain_bus_token'']),
    Mem ''map'' (FunPtr ''int'' [''struct irq_domain *'', ''unsigned int'', ''irq_hw_number_t'']),
    Mem ''unmap'' (FunPtr ''void'' [''struct irq_domain *'', ''unsigned int'']),
    Mem ''xlate'' (FunPtr ''int'' [''struct irq_domain *'', ''struct device_node *'', ''const u32 *'', ''unsigned int'', ''long unsigned int *'', ''unsigned int *'']),
    Mem ''alloc'' (FunPtr ''int'' [''struct irq_domain *'', ''unsigned int'', ''unsigned int'', ''void *'']),
    Mem ''free'' (FunPtr ''void'' [''struct irq_domain *'', ''unsigned int'', ''unsigned int'']),
    Mem ''activate'' (FunPtr ''int'' [''struct irq_domain *'', ''struct irq_data *'', ''bool'']),
    Mem ''deactivate'' (FunPtr ''void'' [''struct irq_domain *'', ''struct irq_data *'']),
    Mem ''translate'' (FunPtr ''int'' [''struct irq_domain *'', ''struct irq_fwspec *'', ''long unsigned int *'', ''unsigned int *''])]"

lemma info_struct_irq_domain_ops [c_info]: "info struct_irq_domain_ops = (80, 8)"
  by (simp add: struct_irq_domain_ops_def c_info)

definition struct_elevator_queue :: ctype where
  "struct_elevator_queue = Struct [] [
    Mem ''type'' (Ptr ''struct elevator_type''), Mem ''elevator_data'' (Ptr ''void''), Mem ''kobj'' struct_kobject,
    Mem ''sysfs_lock'' struct_mutex, Bits ''registered'' (Scalar Tuint) 1, Mem ''hash'' (Array struct_hlist_head 64)]"

lemma info_struct_elevator_queue [c_info]: "info struct_elevator_queue = (632, 8)"
  by (simp add: struct_elevator_queue_def c_info)

definition struct_rps_dev_flow :: ctype where
  "struct_rps_dev_flow = Struct [] [
    Mem ''cpu'' typedef_u16, Mem ''filter'' typedef_u16, Mem ''last_qtail'' (Scalar Tuint)]"

lemma info_struct_rps_dev_flow [c_info]: "info struct_rps_dev_flow = (8, 4)"
  by (simp add: struct_rps_dev_flow_def c_info)

definition struct_rps_dev_flow_table :: ctype where
  "struct_rps_dev_flow_table = Struct [] [
    Mem ''mask'' (Scalar Tuint), Mem ''rcu'' struct_callback_head, Mem ''flows'' (Array struct_rps_dev_flow 0)]"

lemma info_struct_rps_dev_flow_table [c_info]: "info struct_rps_dev_flow_table = (24, 8)"
  by (simp add: struct_rps_dev_flow_table_def c_info)

definition struct_xps_dev_maps :: ctype where
  "struct_xps_dev_maps = Struct [] [
    Mem ''rcu'' struct_callback_head, Mem ''nr_ids'' (Scalar Tuint), Mem ''num_tc'' typedef_s16,
    Mem ''attr_map'' (Array (Ptr ''struct xps_map'') 0)]"

lemma info_struct_xps_dev_maps [c_info]: "info struct_xps_dev_maps = (24, 8)"
  by (simp add: struct_xps_dev_maps_def c_info)

definition struct_dev_ifalias :: ctype where
  "struct_dev_ifalias = Struct [] [
    Mem ''rcuhead'' struct_callback_head, Mem ''ifalias'' (Array (Scalar Tchar) 0)]"

lemma info_struct_dev_ifalias [c_info]: "info struct_dev_ifalias = (16, 8)"
  by (simp add: struct_dev_ifalias_def c_info)

definition struct_l3mdev_ops :: ctype where
  "struct_l3mdev_ops = Struct [] [
    Mem ''l3mdev_fib_table'' (FunPtr ''u32'' [''const struct net_device *'']),
    Mem ''l3mdev_l3_rcv'' (FunPtr ''struct sk_buff *'' [''struct net_device *'', ''struct sk_buff *'', ''u16'']),
    Mem ''l3mdev_l3_out'' (FunPtr ''struct sk_buff *'' [''struct net_device *'', ''struct sock *'', ''struct sk_buff *'', ''u16'']),
    Mem ''l3mdev_link_scope_lookup'' (FunPtr ''struct dst_entry *'' [''const struct net_device *'', ''struct flowi6 *''])]"

lemma info_struct_l3mdev_ops [c_info]: "info struct_l3mdev_ops = (32, 8)"
  by (simp add: struct_l3mdev_ops_def c_info)

definition struct_tlsdev_ops :: ctype where
  "struct_tlsdev_ops = Struct [] [
    Mem ''tls_dev_add'' (FunPtr ''int'' [''struct net_device *'', ''struct sock *'', ''enum tls_offload_ctx_dir'', ''struct tls_crypto_info *'', ''u32'']),
    Mem ''tls_dev_del'' (FunPtr ''void'' [''struct net_device *'', ''struct tls_context *'', ''enum tls_offload_ctx_dir'']),
    Mem ''tls_dev_resync'' (FunPtr ''int'' [''struct net_device *'', ''struct sock *'', ''u32'', ''u8 *'', ''enum tls_offload_ctx_dir''])]"

lemma info_struct_tlsdev_ops [c_info]: "info struct_tlsdev_ops = (24, 8)"
  by (simp add: struct_tlsdev_ops_def c_info)

definition enum_pm_qos_type :: ctype where
  "enum_pm_qos_type = Enum [
    (''PM_QOS_UNITIALIZED'', 0), (''PM_QOS_MAX'', 1), (''PM_QOS_MIN'', 2)]"

lemma info_enum_pm_qos_type [c_info]: "info enum_pm_qos_type = (4, 4)"
  by (simp add: enum_pm_qos_type_def c_info)

definition struct_pm_qos_constraints :: ctype where
  "struct_pm_qos_constraints = Struct [] [
    Mem ''list'' struct_plist_head, Mem ''target_value'' typedef_s32, Mem ''default_value'' typedef_s32,
    Mem ''no_constraint_value'' typedef_s32, Mem ''type'' enum_pm_qos_type,
    Mem ''notifiers'' (Ptr ''struct blocking_notifier_head'')]"

lemma info_struct_pm_qos_constraints [c_info]: "info struct_pm_qos_constraints = (40, 8)"
  by (simp add: struct_pm_qos_constraints_def c_info)

definition struct_freq_constraints :: ctype where
  "struct_freq_constraints = Struct [] [
    Mem ''min_freq'' struct_pm_qos_constraints, Mem ''min_freq_notifiers'' struct_blocking_notifier_head,
    Mem ''max_freq'' struct_pm_qos_constraints, Mem ''max_freq_notifiers'' struct_blocking_notifier_head]"

lemma info_struct_freq_constraints [c_info]: "info struct_freq_constraints = (176, 8)"
  by (simp add: struct_freq_constraints_def c_info)

definition struct_pm_qos_flags :: ctype where
  "struct_pm_qos_flags = Struct [] [
    Mem ''list'' struct_list_head, Mem ''effective_flags'' typedef_s32]"

lemma info_struct_pm_qos_flags [c_info]: "info struct_pm_qos_flags = (24, 8)"
  by (simp add: struct_pm_qos_flags_def c_info)

definition struct_dev_pm_qos :: ctype where
  "struct_dev_pm_qos = Struct [] [
    Mem ''resume_latency'' struct_pm_qos_constraints, Mem ''latency_tolerance'' struct_pm_qos_constraints,
    Mem ''freq'' struct_freq_constraints, Mem ''flags'' struct_pm_qos_flags,
    Mem ''resume_latency_req'' (Ptr ''struct dev_pm_qos_request''),
    Mem ''latency_tolerance_req'' (Ptr ''struct dev_pm_qos_request''),
    Mem ''flags_req'' (Ptr ''struct dev_pm_qos_request'')]"

lemma info_struct_dev_pm_qos [c_info]: "info struct_dev_pm_qos = (304, 8)"
  by (simp add: struct_dev_pm_qos_def c_info)

definition enum_dev_pm_qos_req_type :: ctype where
  "enum_dev_pm_qos_req_type = Enum [
    (''DEV_PM_QOS_RESUME_LATENCY'', 1), (''DEV_PM_QOS_LATENCY_TOLERANCE'', 2), (''DEV_PM_QOS_MIN_FREQUENCY'', 3),
    (''DEV_PM_QOS_MAX_FREQUENCY'', 4), (''DEV_PM_QOS_FLAGS'', 5)]"

lemma info_enum_dev_pm_qos_req_type [c_info]: "info enum_dev_pm_qos_req_type = (4, 4)"
  by (simp add: enum_dev_pm_qos_req_type_def c_info)

definition struct_dev_iommu :: ctype where
  "struct_dev_iommu = Struct [] [
    Mem ''lock'' struct_mutex, Mem ''fault_param'' (Ptr ''struct iommu_fault_param''),
    Mem ''iopf_param'' (Ptr ''struct iopf_device_param''), Mem ''fwspec'' (Ptr ''struct iommu_fwspec''),
    Mem ''iommu_dev'' (Ptr ''struct iommu_device''), Mem ''priv'' (Ptr ''void'')]"

lemma info_struct_dev_iommu [c_info]: "info struct_dev_iommu = (72, 8)"
  by (simp add: struct_dev_iommu_def c_info)

definition struct_iommu_domain_geometry :: ctype where
  "struct_iommu_domain_geometry = Struct [] [
    Mem ''aperture_start'' typedef_dma_addr_t, Mem ''aperture_end'' typedef_dma_addr_t,
    Mem ''force_aperture'' typedef_bool]"

lemma info_struct_iommu_domain_geometry [c_info]: "info struct_iommu_domain_geometry = (24, 8)"
  by (simp add: struct_iommu_domain_geometry_def c_info)

definition struct_iommu_domain :: ctype where
  "struct_iommu_domain = Struct [] [
    Mem ''type'' (Scalar Tuint), Mem ''ops'' (Ptr ''const struct iommu_ops''), Mem ''pgsize_bitmap'' (Scalar Tulong),
    Mem ''handler'' typedef_iommu_fault_handler_t, Mem ''handler_token'' (Ptr ''void''),
    Mem ''geometry'' struct_iommu_domain_geometry, Mem ''iova_cookie'' (Ptr ''struct iommu_dma_cookie'')]"

lemma info_struct_iommu_domain [c_info]: "info struct_iommu_domain = (72, 8)"
  by (simp add: struct_iommu_domain_def c_info)

definition struct_iommu_device :: ctype where
  "struct_iommu_device = Struct [] [
    Mem ''list'' struct_list_head, Mem ''ops'' (Ptr ''const struct iommu_ops''),
    Mem ''fwnode'' (Ptr ''struct fwnode_handle''), Mem ''dev'' (Ptr ''struct device'')]"

lemma info_struct_iommu_device [c_info]: "info struct_iommu_device = (40, 8)"
  by (simp add: struct_iommu_device_def c_info)

definition struct_iommu_fault_param :: ctype where
  "struct_iommu_fault_param = Struct [] [
    Mem ''handler'' typedef_iommu_dev_fault_handler_t, Mem ''data'' (Ptr ''void''), Mem ''faults'' struct_list_head,
    Mem ''lock'' struct_mutex]"

lemma info_struct_iommu_fault_param [c_info]: "info struct_iommu_fault_param = (64, 8)"
  by (simp add: struct_iommu_fault_param_def c_info)

definition struct_iommu_fwspec :: ctype where
  "struct_iommu_fwspec = Struct [] [
    Mem ''ops'' (Ptr ''const struct iommu_ops''), Mem ''iommu_fwnode'' (Ptr ''struct fwnode_handle''),
    Mem ''flags'' typedef_u32, Mem ''num_ids'' (Scalar Tuint), Mem ''ids'' (Array typedef_u32 0)]"

lemma info_struct_iommu_fwspec [c_info]: "info struct_iommu_fwspec = (24, 8)"
  by (simp add: struct_iommu_fwspec_def c_info)

definition struct_param_attribute :: ctype where
  "struct_param_attribute = Struct [] [
    Mem ''mattr'' struct_module_attribute, Mem ''param'' (Ptr ''const struct kernel_param'')]"

lemma info_struct_param_attribute [c_info]: "info struct_param_attribute = (64, 8)"
  by (simp add: struct_param_attribute_def c_info)

definition struct_module_param_attrs :: ctype where
  "struct_module_param_attrs = Struct [] [
    Mem ''num'' (Scalar Tuint), Mem ''grp'' struct_attribute_group, Mem ''attrs'' (Array struct_param_attribute 0)]"

lemma info_struct_module_param_attrs [c_info]: "info struct_module_param_attrs = (48, 8)"
  by (simp add: struct_module_param_attrs_def c_info)

definition struct_dma_coherent_mem :: ctype where
  "struct_dma_coherent_mem = Struct [] [
    Mem ''virt_base'' (Ptr ''void''), Mem ''device_base'' typedef_dma_addr_t, Mem ''pfn_base'' (Scalar Tulong),
    Mem ''size'' (Scalar Tint), Mem ''bitmap'' (Ptr ''long unsigned int''), Mem ''spinlock'' typedef_spinlock_t,
    Mem ''use_dev_dma_pfn_offset'' typedef_bool]"

lemma info_struct_dma_coherent_mem [c_info]: "info struct_dma_coherent_mem = (48, 8)"
  by (simp add: struct_dma_coherent_mem_def c_info)

definition struct_module_sect_attr :: ctype where
  "struct_module_sect_attr = Struct [] [
    Mem ''battr'' struct_bin_attribute, Mem ''address'' (Scalar Tulong)]"

lemma info_struct_module_sect_attr [c_info]: "info struct_module_sect_attr = (72, 8)"
  by (simp add: struct_module_sect_attr_def c_info)

definition struct_module_sect_attrs :: ctype where
  "struct_module_sect_attrs = Struct [] [
    Mem ''grp'' struct_attribute_group, Mem ''nsections'' (Scalar Tuint),
    Mem ''attrs'' (Array struct_module_sect_attr 0)]"

lemma info_struct_module_sect_attrs [c_info]: "info struct_module_sect_attrs = (48, 8)"
  by (simp add: struct_module_sect_attrs_def c_info)

definition struct_module_notes_attrs :: ctype where
  "struct_module_notes_attrs = Struct [] [
    Mem ''dir'' (Ptr ''struct kobject''), Mem ''notes'' (Scalar Tuint), Mem ''attrs'' (Array struct_bin_attribute 0)]"

lemma info_struct_module_notes_attrs [c_info]: "info struct_module_notes_attrs = (16, 8)"
  by (simp add: struct_module_notes_attrs_def c_info)

definition struct_kmem_cache :: ctype where
  "struct_kmem_cache = Struct [] [
    Mem ''cpu_slab'' (Ptr ''struct kmem_cache_cpu''), Mem ''flags'' typedef_slab_flags_t,
    Mem ''min_partial'' (Scalar Tulong), Mem ''size'' (Scalar Tuint), Mem ''object_size'' (Scalar Tuint),
    Mem ''reciprocal_size'' struct_reciprocal_value, Mem ''offset'' (Scalar Tuint),
    Mem ''cpu_partial'' (Scalar Tuint), Mem ''oo'' struct_kmem_cache_order_objects,
    Mem ''max'' struct_kmem_cache_order_objects, Mem ''min'' struct_kmem_cache_order_objects,
    Mem ''allocflags'' typedef_gfp_t, Mem ''refcount'' (Scalar Tint), Mem ''ctor'' (FunPtr ''void'' [''void *'']),
    Mem ''inuse'' (Scalar Tuint), Mem ''align'' (Scalar Tuint), Mem ''red_left_pad'' (Scalar Tuint),
    Mem ''name'' (Ptr ''const char''), Mem ''list'' struct_list_head, Mem ''kobj'' struct_kobject,
    Mem ''random'' (Scalar Tulong), Mem ''remote_node_defrag_ratio'' (Scalar Tuint),
    Mem ''random_seq'' (Ptr ''unsigned int''), Mem ''useroffset'' (Scalar Tuint), Mem ''usersize'' (Scalar Tuint),
    Mem ''node'' (Array (Ptr ''struct kmem_cache_node'') 64)]"

lemma info_struct_kmem_cache [c_info]: "info struct_kmem_cache = (728, 8)"
  by (simp add: struct_kmem_cache_def c_info)

definition struct_cma_kobject :: ctype where
  "struct_cma_kobject = Struct [] [
    Mem ''kobj'' struct_kobject, Mem ''cma'' (Ptr ''struct cma'')]"

lemma info_struct_cma_kobject [c_info]: "info struct_cma_kobject = (72, 8)"
  by (simp add: struct_cma_kobject_def c_info)

definition struct_kernfs_iattrs :: ctype where
  "struct_kernfs_iattrs = Struct [] [
    Mem ''ia_uid'' typedef_kuid_t, Mem ''ia_gid'' typedef_kgid_t, Mem ''ia_atime'' struct_timespec64,
    Mem ''ia_mtime'' struct_timespec64, Mem ''ia_ctime'' struct_timespec64, Mem ''xattrs'' struct_simple_xattrs,
    Mem ''nr_user_xattrs'' typedef_atomic_t, Mem ''user_xattr_size'' typedef_atomic_t]"

lemma info_struct_kernfs_iattrs [c_info]: "info struct_kernfs_iattrs = (88, 8)"
  by (simp add: struct_kernfs_iattrs_def c_info)

definition struct_kernfs_open_node :: ctype where
  "struct_kernfs_open_node = Struct [] [
    Mem ''refcnt'' typedef_atomic_t, Mem ''event'' typedef_atomic_t, Mem ''poll'' typedef_wait_queue_head_t,
    Mem ''files'' struct_list_head]"

lemma info_struct_kernfs_open_node [c_info]: "info struct_kernfs_open_node = (48, 8)"
  by (simp add: struct_kernfs_open_node_def c_info)

definition struct_klist :: ctype where
  "struct_klist = Struct [] [
    Mem ''k_lock'' typedef_spinlock_t, Mem ''k_list'' struct_list_head,
    Mem ''get'' (FunPtr ''void'' [''struct klist_node *'']), Mem ''put'' (FunPtr ''void'' [''struct klist_node *''])]"

lemma info_struct_klist [c_info]: "info struct_klist = (40, 8)"
  by (simp add: struct_klist_def c_info)

definition struct_klist_node :: ctype where
  "struct_klist_node = Struct [] [
    Mem ''n_klist'' (Ptr ''void''), Mem ''n_node'' struct_list_head, Mem ''n_ref'' struct_kref]"

lemma info_struct_klist_node [c_info]: "info struct_klist_node = (32, 8)"
  by (simp add: struct_klist_node_def c_info)

definition struct_mdio_driver_common :: ctype where
  "struct_mdio_driver_common = Struct [] [
    Mem ''driver'' struct_device_driver, Mem ''flags'' (Scalar Tint)]"

lemma info_struct_mdio_driver_common [c_info]: "info struct_mdio_driver_common = (152, 8)"
  by (simp add: struct_mdio_driver_common_def c_info)

definition struct_phy_driver :: ctype where
  "struct_phy_driver = Struct [] [
    Mem ''mdiodrv'' struct_mdio_driver_common, Mem ''phy_id'' typedef_u32, Mem ''name'' (Ptr ''char''),
    Mem ''phy_id_mask'' typedef_u32, Mem ''features'' (Ptr ''const long unsigned int''), Mem ''flags'' typedef_u32,
    Mem ''driver_data'' (Ptr ''const void''), Mem ''soft_reset'' (FunPtr ''int'' [''struct phy_device *'']),
    Mem ''config_init'' (FunPtr ''int'' [''struct phy_device *'']),
    Mem ''probe'' (FunPtr ''int'' [''struct phy_device *'']),
    Mem ''get_features'' (FunPtr ''int'' [''struct phy_device *'']),
    Mem ''suspend'' (FunPtr ''int'' [''struct phy_device *'']),
    Mem ''resume'' (FunPtr ''int'' [''struct phy_device *'']),
    Mem ''config_aneg'' (FunPtr ''int'' [''struct phy_device *'']),
    Mem ''aneg_done'' (FunPtr ''int'' [''struct phy_device *'']),
    Mem ''read_status'' (FunPtr ''int'' [''struct phy_device *'']),
    Mem ''config_intr'' (FunPtr ''int'' [''struct phy_device *'']),
    Mem ''handle_interrupt'' (FunPtr ''irqreturn_t'' [''struct phy_device *'']),
    Mem ''remove'' (FunPtr ''void'' [''struct phy_device *'']),
    Mem ''match_phy_device'' (FunPtr ''int'' [''struct phy_device *'']),
    Mem ''set_wol'' (FunPtr ''int'' [''struct phy_device *'', ''struct ethtool_wolinfo *'']),
    Mem ''get_wol'' (FunPtr ''void'' [''struct phy_device *'', ''struct ethtool_wolinfo *'']),
    Mem ''link_change_notify'' (FunPtr ''void'' [''struct phy_device *'']),
    Mem ''read_mmd'' (FunPtr ''int'' [''struct phy_device *'', ''int'', ''u16'']),
    Mem ''write_mmd'' (FunPtr ''int'' [''struct phy_device *'', ''int'', ''u16'', ''u16'']),
    Mem ''read_page'' (FunPtr ''int'' [''struct phy_device *'']),
    Mem ''write_page'' (FunPtr ''int'' [''struct phy_device *'', ''int'']),
    Mem ''module_info'' (FunPtr ''int'' [''struct phy_device *'', ''struct ethtool_modinfo *'']),
    Mem ''module_eeprom'' (FunPtr ''int'' [''struct phy_device *'', ''struct ethtool_eeprom *'', ''u8 *'']),
    Mem ''cable_test_start'' (FunPtr ''int'' [''struct phy_device *'']),
    Mem ''cable_test_tdr_start'' (FunPtr ''int'' [''struct phy_device *'', ''const struct phy_tdr_config *'']),
    Mem ''cable_test_get_status'' (FunPtr ''int'' [''struct phy_device *'', ''bool *'']),
    Mem ''get_sset_count'' (FunPtr ''int'' [''struct phy_device *'']),
    Mem ''get_strings'' (FunPtr ''void'' [''struct phy_device *'', ''u8 *'']),
    Mem ''get_stats'' (FunPtr ''void'' [''struct phy_device *'', ''struct ethtool_stats *'', ''u64 *'']),
    Mem ''get_tunable'' (FunPtr ''int'' [''struct phy_device *'', ''struct ethtool_tunable *'', ''void *'']),
    Mem ''set_tunable'' (FunPtr ''int'' [''struct phy_device *'', ''struct ethtool_tunable *'', ''const void *'']),
    Mem ''set_loopback'' (FunPtr ''int'' [''struct phy_device *'', ''bool'']),
    Mem ''get_sqi'' (FunPtr ''int'' [''struct phy_device *'']),
    Mem ''get_sqi_max'' (FunPtr ''int'' [''struct phy_device *''])]"

lemma info_struct_phy_driver [c_info]: "info struct_phy_driver = (464, 8)"
  by (simp add: struct_phy_driver_def c_info)

definition struct_dev_pin_info :: ctype where
  "struct_dev_pin_info = Struct [] [
    Mem ''p'' (Ptr ''struct pinctrl''), Mem ''default_state'' (Ptr ''struct pinctrl_state''),
    Mem ''init_state'' (Ptr ''struct pinctrl_state''), Mem ''sleep_state'' (Ptr ''struct pinctrl_state''),
    Mem ''idle_state'' (Ptr ''struct pinctrl_state'')]"

lemma info_struct_dev_pin_info [c_info]: "info struct_dev_pin_info = (40, 8)"
  by (simp add: struct_dev_pin_info_def c_info)

definition struct_pinctrl :: ctype where
  "struct_pinctrl = Struct [] [
    Mem ''node'' struct_list_head, Mem ''dev'' (Ptr ''struct device''), Mem ''states'' struct_list_head,
    Mem ''state'' (Ptr ''struct pinctrl_state''), Mem ''dt_maps'' struct_list_head, Mem ''users'' struct_kref]"

lemma info_struct_pinctrl [c_info]: "info struct_pinctrl = (72, 8)"
  by (simp add: struct_pinctrl_def c_info)

definition struct_pinctrl_state :: ctype where
  "struct_pinctrl_state = Struct [] [
    Mem ''node'' struct_list_head, Mem ''name'' (Ptr ''const char''), Mem ''settings'' struct_list_head]"

lemma info_struct_pinctrl_state [c_info]: "info struct_pinctrl_state = (40, 8)"
  by (simp add: struct_pinctrl_state_def c_info)

definition struct_pm_domain_data :: ctype where
  "struct_pm_domain_data = Struct [] [
    Mem ''list_node'' struct_list_head, Mem ''dev'' (Ptr ''struct device'')]"

lemma info_struct_pm_domain_data [c_info]: "info struct_pm_domain_data = (24, 8)"
  by (simp add: struct_pm_domain_data_def c_info)

definition struct_iommu_group :: ctype where
  "struct_iommu_group = Struct [] [
    Mem ''kobj'' struct_kobject, Mem ''devices_kobj'' (Ptr ''struct kobject''), Mem ''devices'' struct_list_head,
    Mem ''mutex'' struct_mutex, Mem ''notifier'' struct_blocking_notifier_head, Mem ''iommu_data'' (Ptr ''void''),
    Mem ''iommu_data_release'' (FunPtr ''void'' [''void *'']), Mem ''name'' (Ptr ''char''), Mem ''id'' (Scalar Tint),
    Mem ''default_domain'' (Ptr ''struct iommu_domain''), Mem ''domain'' (Ptr ''struct iommu_domain''),
    Mem ''entry'' struct_list_head]"

lemma info_struct_iommu_group [c_info]: "info struct_iommu_group = (232, 8)"
  by (simp add: struct_iommu_group_def c_info)

definition struct_wake_irq :: ctype where
  "struct_wake_irq = Struct [] [
    Mem ''dev'' (Ptr ''struct device''), Mem ''status'' (Scalar Tuint), Mem ''irq'' (Scalar Tint),
    Mem ''name'' (Ptr ''const char'')]"

lemma info_struct_wake_irq [c_info]: "info struct_wake_irq = (24, 8)"
  by (simp add: struct_wake_irq_def c_info)

definition struct_subsys_private :: ctype where
  "struct_subsys_private = Struct [] [
    Mem ''subsys'' struct_kset, Mem ''devices_kset'' (Ptr ''struct kset''), Mem ''interfaces'' struct_list_head,
    Mem ''mutex'' struct_mutex, Mem ''drivers_kset'' (Ptr ''struct kset''), Mem ''klist_devices'' struct_klist,
    Mem ''klist_drivers'' struct_klist, Mem ''bus_notifier'' struct_blocking_notifier_head,
    Bits ''drivers_autoprobe'' (Scalar Tuint) 1, Mem ''bus'' (Ptr ''struct bus_type''), Mem ''glue_dirs'' struct_kset,
    Mem ''class'' (Ptr ''struct class'')]"

lemma info_struct_subsys_private [c_info]: "info struct_subsys_private = (408, 8)"
  by (simp add: struct_subsys_private_def c_info)

definition struct_driver_private :: ctype where
  "struct_driver_private = Struct [] [
    Mem ''kobj'' struct_kobject, Mem ''klist_devices'' struct_klist, Mem ''knode_bus'' struct_klist_node,
    Mem ''mkobj'' (Ptr ''struct module_kobject''), Mem ''driver'' (Ptr ''struct device_driver'')]"

lemma info_struct_driver_private [c_info]: "info struct_driver_private = (152, 8)"
  by (simp add: struct_driver_private_def c_info)

definition struct_device_private :: ctype where
  "struct_device_private = Struct [] [
    Mem ''klist_children'' struct_klist, Mem ''knode_parent'' struct_klist_node,
    Mem ''knode_driver'' struct_klist_node, Mem ''knode_bus'' struct_klist_node,
    Mem ''knode_class'' struct_klist_node, Mem ''deferred_probe'' struct_list_head,
    Mem ''async_driver'' (Ptr ''struct device_driver''), Mem ''deferred_probe_reason'' (Ptr ''char''),
    Mem ''device'' (Ptr ''struct device''), Bits ''dead'' typedef_u8 1]"

lemma info_struct_device_private [c_info]: "info struct_device_private = (216, 8)"
  by (simp add: struct_device_private_def c_info)

definition struct_wpan_dev_header_ops :: ctype where
  "struct_wpan_dev_header_ops = Struct [] [
    Mem ''create'' (FunPtr ''int'' [''struct sk_buff *'', ''struct net_device *'', ''const struct ieee802154_addr *'', ''const struct ieee802154_addr *'', ''unsigned int''])]"

lemma info_struct_wpan_dev_header_ops [c_info]: "info struct_wpan_dev_header_ops = (8, 8)"
  by (simp add: struct_wpan_dev_header_ops_def c_info)

end
