(* ===== verification/Vmlinux_Trace.thy ===== *)
theory Vmlinux_Trace
  imports Vmlinux_Ctx Vmlinux_Dev
begin

text \<open>
  Kernel objects of src/internal/sentinel/bpf/vmlinux.h that the BPF types point to. Control groups, memory accounting, perf
  events and tracing.
\<close>

definition enum_perf_event_state :: ctype where
  "enum_perf_event_state = Enum [
    (''PERF_EVENT_STATE_DEAD'', 4294967292), (''PERF_EVENT_STATE_EXIT'', 4294967293),
    (''PERF_EVENT_STATE_ERROR'', 4294967294), (''PERF_EVENT_STATE_OFF'', 4294967295),
    (''PERF_EVENT_STATE_INACTIVE'', 0), (''PERF_EVENT_STATE_ACTIVE'', 1)]"

lemma info_enum_perf_event_state [c_info]: "info enum_perf_event_state = (4, 4)"
  by (simp add: enum_perf_event_state_def c_info)

definition struct_perf_event_attr :: ctype where
  "struct_perf_event_attr = Struct [] [
    Mem ''type'' typedef___u32, Mem ''size'' typedef___u32, Mem ''config'' typedef___u64,
    Anon (Union [] [
      Mem ''sample_period'' typedef___u64, Mem ''sample_freq'' typedef___u64]),
    Mem ''sample_type'' typedef___u64, Mem ''read_format'' typedef___u64, Bits ''disabled'' typedef___u64 1,
    Bits ''inherit'' typedef___u64 1, Bits ''pinned'' typedef___u64 1, Bits ''exclusive'' typedef___u64 1,
    Bits ''exclude_user'' typedef___u64 1, Bits ''exclude_kernel'' typedef___u64 1,
    Bits ''exclude_hv'' typedef___u64 1, Bits ''exclude_idle'' typedef___u64 1, Bits ''mmap'' typedef___u64 1,
    Bits ''comm'' typedef___u64 1, Bits ''freq'' typedef___u64 1, Bits ''inherit_stat'' typedef___u64 1,
    Bits ''enable_on_exec'' typedef___u64 1, Bits ''task'' typedef___u64 1, Bits ''watermark'' typedef___u64 1,
    Bits ''precise_ip'' typedef___u64 2, Bits ''mmap_data'' typedef___u64 1, Bits ''sample_id_all'' typedef___u64 1,
    Bits ''exclude_host'' typedef___u64 1, Bits ''exclude_guest'' typedef___u64 1,
    Bits ''exclude_callchain_kernel'' typedef___u64 1, Bits ''exclude_callchain_user'' typedef___u64 1,
    Bits ''mmap2'' typedef___u64 1, Bits ''comm_exec'' typedef___u64 1, Bits ''use_clockid'' typedef___u64 1,
    Bits ''context_switch'' typedef___u64 1, Bits ''write_backward'' typedef___u64 1,
    Bits ''namespaces'' typedef___u64 1, Bits ''ksymbol'' typedef___u64 1, Bits ''bpf_event'' typedef___u64 1,
    Bits ''aux_output'' typedef___u64 1, Bits ''cgroup'' typedef___u64 1, Bits ''text_poke'' typedef___u64 1,
    Bits ''build_id'' typedef___u64 1, Bits ''inherit_thread'' typedef___u64 1,
    Bits ''remove_on_exec'' typedef___u64 1, Bits ''sigtrap'' typedef___u64 1, Bits ''__reserved_1'' typedef___u64 26,
    Anon (Union [] [
      Mem ''wakeup_events'' typedef___u32, Mem ''wakeup_watermark'' typedef___u32]),
    Mem ''bp_type'' typedef___u32,
    Anon (Union [] [
      Mem ''bp_addr'' typedef___u64, Mem ''kprobe_func'' typedef___u64, Mem ''uprobe_path'' typedef___u64,
      Mem ''config1'' typedef___u64]),
    Anon (Union [] [
      Mem ''bp_len'' typedef___u64, Mem ''kprobe_addr'' typedef___u64, Mem ''probe_offset'' typedef___u64,
      Mem ''config2'' typedef___u64]),
    Mem ''branch_sample_type'' typedef___u64, Mem ''sample_regs_user'' typedef___u64,
    Mem ''sample_stack_user'' typedef___u32, Mem ''clockid'' typedef___s32, Mem ''sample_regs_intr'' typedef___u64,
    Mem ''aux_watermark'' typedef___u32, Mem ''sample_max_stack'' typedef___u16, Mem ''__reserved_2'' typedef___u16,
    Mem ''aux_sample_size'' typedef___u32, Mem ''__reserved_3'' typedef___u32, Mem ''sig_data'' typedef___u64]"

lemma info_struct_perf_event_attr [c_info]: "info struct_perf_event_attr = (128, 8)"
  by (simp add: struct_perf_event_attr_def c_info)

definition struct_hw_perf_event_extra :: ctype where
  "struct_hw_perf_event_extra = Struct [] [
    Mem ''config'' typedef_u64, Mem ''reg'' (Scalar Tuint), Mem ''alloc'' (Scalar Tint), Mem ''idx'' (Scalar Tint)]"

lemma info_struct_hw_perf_event_extra [c_info]: "info struct_hw_perf_event_extra = (24, 8)"
  by (simp add: struct_hw_perf_event_extra_def c_info)

definition struct_hw_perf_event :: ctype where
  "struct_hw_perf_event = Struct [] [
    Anon (Union [] [
      Anon (Struct [] [
        Mem ''config'' typedef_u64, Mem ''last_tag'' typedef_u64, Mem ''config_base'' (Scalar Tulong),
        Mem ''event_base'' (Scalar Tulong), Mem ''event_base_rdpmc'' (Scalar Tint), Mem ''idx'' (Scalar Tint),
        Mem ''last_cpu'' (Scalar Tint), Mem ''flags'' (Scalar Tint), Mem ''extra_reg'' struct_hw_perf_event_extra,
        Mem ''branch_reg'' struct_hw_perf_event_extra]),
      Anon (Struct [] [
        Mem ''hrtimer'' struct_hrtimer]),
      Anon (Struct [] [
        Mem ''tp_list'' struct_list_head]),
      Anon (Struct [] [
        Mem ''pwr_acc'' typedef_u64, Mem ''ptsc'' typedef_u64]),
      Anon (Struct [] [
        Mem ''info'' struct_arch_hw_breakpoint, Mem ''bp_list'' struct_list_head]),
      Anon (Struct [] [
        Mem ''iommu_bank'' typedef_u8, Mem ''iommu_cntr'' typedef_u8, Mem ''padding'' typedef_u16,
        Mem ''conf'' typedef_u64, Mem ''conf1'' typedef_u64])]),
    Mem ''target'' (Ptr ''struct task_struct''), Mem ''addr_filters'' (Ptr ''void''),
    Mem ''addr_filters_gen'' (Scalar Tulong), Mem ''state'' (Scalar Tint), Mem ''prev_count'' typedef_local64_t,
    Mem ''sample_period'' typedef_u64,
    Anon (Union [] [
      Anon (Struct [] [
        Mem ''last_period'' typedef_u64, Mem ''period_left'' typedef_local64_t]),
      Anon (Struct [] [
        Mem ''saved_metric'' typedef_u64, Mem ''saved_slots'' typedef_u64])]),
    Mem ''interrupts_seq'' typedef_u64, Mem ''interrupts'' typedef_u64, Mem ''freq_time_stamp'' typedef_u64,
    Mem ''freq_count_stamp'' typedef_u64]"

lemma info_struct_hw_perf_event [c_info]: "info struct_hw_perf_event = (192, 8)"
  by (simp add: struct_hw_perf_event_def c_info)

definition struct_perf_addr_filters_head :: ctype where
  "struct_perf_addr_filters_head = Struct [] [
    Mem ''list'' struct_list_head, Mem ''lock'' typedef_raw_spinlock_t, Mem ''nr_file_filters'' (Scalar Tuint)]"

lemma info_struct_perf_addr_filters_head [c_info]: "info struct_perf_addr_filters_head = (24, 8)"
  by (simp add: struct_perf_addr_filters_head_def c_info)

definition struct_ftrace_ops_hash :: ctype where
  "struct_ftrace_ops_hash = Struct [] [
    Mem ''notrace_hash'' (Ptr ''struct ftrace_hash''), Mem ''filter_hash'' (Ptr ''struct ftrace_hash''),
    Mem ''regex_lock'' struct_mutex]"

lemma info_struct_ftrace_ops_hash [c_info]: "info struct_ftrace_ops_hash = (48, 8)"
  by (simp add: struct_ftrace_ops_hash_def c_info)

definition struct_ftrace_ops :: ctype where
  "struct_ftrace_ops = Struct [] [
    Mem ''func'' typedef_ftrace_func_t, Mem ''next'' (Ptr ''struct ftrace_ops''), Mem ''flags'' (Scalar Tulong),
    Mem ''private'' (Ptr ''void''), Mem ''saved_func'' typedef_ftrace_func_t,
    Mem ''local_hash'' struct_ftrace_ops_hash, Mem ''func_hash'' (Ptr ''struct ftrace_ops_hash''),
    Mem ''old_hash'' struct_ftrace_ops_hash, Mem ''trampoline'' (Scalar Tulong),
    Mem ''trampoline_size'' (Scalar Tulong), Mem ''list'' struct_list_head]"

lemma info_struct_ftrace_ops [c_info]: "info struct_ftrace_ops = (176, 8)"
  by (simp add: struct_ftrace_ops_def c_info)

definition struct_perf_event :: ctype where
  "struct_perf_event = Struct [] [
    Mem ''event_entry'' struct_list_head, Mem ''sibling_list'' struct_list_head, Mem ''active_list'' struct_list_head,
    Mem ''group_node'' struct_rb_node, Mem ''group_index'' typedef_u64, Mem ''migrate_entry'' struct_list_head,
    Mem ''hlist_entry'' struct_hlist_node, Mem ''active_entry'' struct_list_head, Mem ''nr_siblings'' (Scalar Tint),
    Mem ''event_caps'' (Scalar Tint), Mem ''group_caps'' (Scalar Tint), Mem ''group_generation'' (Scalar Tuint),
    Mem ''group_leader'' (Ptr ''struct perf_event''), Mem ''pmu'' (Ptr ''struct pmu''),
    Mem ''pmu_private'' (Ptr ''void''), Mem ''state'' enum_perf_event_state, Mem ''attach_state'' (Scalar Tuint),
    Mem ''count'' typedef_local64_t, Mem ''child_count'' typedef_atomic64_t, Mem ''total_time_enabled'' typedef_u64,
    Mem ''total_time_running'' typedef_u64, Mem ''tstamp'' typedef_u64, Mem ''attr'' struct_perf_event_attr,
    Mem ''header_size'' typedef_u16, Mem ''id_header_size'' typedef_u16, Mem ''read_size'' typedef_u16,
    Mem ''hw'' struct_hw_perf_event, Mem ''ctx'' (Ptr ''struct perf_event_context''),
    Mem ''refcount'' typedef_atomic_long_t, Mem ''child_total_time_enabled'' typedef_atomic64_t,
    Mem ''child_total_time_running'' typedef_atomic64_t, Mem ''child_mutex'' struct_mutex,
    Mem ''child_list'' struct_list_head, Mem ''parent'' (Ptr ''struct perf_event''), Mem ''oncpu'' (Scalar Tint),
    Mem ''cpu'' (Scalar Tint), Mem ''owner_entry'' struct_list_head, Mem ''owner'' (Ptr ''struct task_struct''),
    Mem ''mmap_mutex'' struct_mutex, Mem ''mmap_count'' typedef_atomic_t, Mem ''rb'' (Ptr ''struct perf_buffer''),
    Mem ''rb_entry'' struct_list_head, Mem ''rcu_batches'' (Scalar Tulong), Mem ''rcu_pending'' (Scalar Tint),
    Mem ''waitq'' typedef_wait_queue_head_t, Mem ''fasync'' (Ptr ''struct fasync_struct''),
    Mem ''pending_wakeup'' (Scalar Tuint), Mem ''pending_kill'' (Scalar Tuint),
    Mem ''pending_disable'' (Scalar Tuint), Mem ''pending_sigtrap'' (Scalar Tuint),
    Mem ''pending_addr'' (Scalar Tulong), Mem ''pending_irq'' struct_irq_work,
    Mem ''pending_task'' struct_callback_head, Mem ''pending_work'' (Scalar Tuint),
    Mem ''pending_work_wait'' struct_rcuwait, Mem ''event_limit'' typedef_atomic_t,
    Mem ''addr_filters'' struct_perf_addr_filters_head,
    Mem ''addr_filter_ranges'' (Ptr ''struct perf_addr_filter_range''), Mem ''addr_filters_gen'' (Scalar Tulong),
    Mem ''aux_event'' (Ptr ''struct perf_event''), Mem ''destroy'' (FunPtr ''void'' [''struct perf_event *'']),
    Mem ''callback_head'' struct_callback_head, Mem ''ns'' (Ptr ''struct pid_namespace''), Mem ''id'' typedef_u64,
    Mem ''lost_samples'' typedef_atomic64_t, Mem ''clock'' (FunPtr ''u64'' [''void'']),
    Mem ''overflow_handler'' typedef_perf_overflow_handler_t, Mem ''overflow_handler_context'' (Ptr ''void''),
    Mem ''orig_overflow_handler'' typedef_perf_overflow_handler_t, Mem ''prog'' (Ptr ''struct bpf_prog''),
    Mem ''bpf_cookie'' typedef_u64, Mem ''tp_event'' (Ptr ''struct trace_event_call''),
    Mem ''filter'' (Ptr ''struct event_filter''), Mem ''ftrace_ops'' struct_ftrace_ops,
    Mem ''cgrp'' (Ptr ''struct perf_cgroup''), Mem ''security'' (Ptr ''void''), Mem ''sb_list'' struct_list_head]"

lemma info_struct_perf_event [c_info]: "info struct_perf_event = (1232, 8)"
  by (simp add: struct_perf_event_def c_info)

definition struct_bio_list :: ctype where
  "struct_bio_list = Struct [] [
    Mem ''head'' (Ptr ''struct bio''), Mem ''tail'' (Ptr ''struct bio'')]"

lemma info_struct_bio_list [c_info]: "info struct_bio_list = (16, 8)"
  by (simp add: struct_bio_list_def c_info)

definition struct_blk_plug :: ctype where
  "struct_blk_plug = Struct [] [
    Mem ''mq_list'' struct_list_head, Mem ''cb_list'' struct_list_head, Mem ''rq_count'' (Scalar Tushort),
    Mem ''multiple_queues'' typedef_bool, Mem ''nowait'' typedef_bool]"

lemma info_struct_blk_plug [c_info]: "info struct_blk_plug = (40, 8)"
  by (simp add: struct_blk_plug_def c_info)

definition enum_wb_reason :: ctype where
  "enum_wb_reason = Enum [
    (''WB_REASON_BACKGROUND'', 0), (''WB_REASON_VMSCAN'', 1), (''WB_REASON_SYNC'', 2), (''WB_REASON_PERIODIC'', 3),
    (''WB_REASON_LAPTOP_TIMER'', 4), (''WB_REASON_FS_FREE_SPACE'', 5), (''WB_REASON_FORKER_THREAD'', 6),
    (''WB_REASON_FOREIGN_FLUSH'', 7), (''WB_REASON_MAX'', 8)]"

lemma info_enum_wb_reason [c_info]: "info enum_wb_reason = (4, 4)"
  by (simp add: enum_wb_reason_def c_info)

definition struct_bdi_writeback :: ctype where
  "struct_bdi_writeback = Struct [] [
    Mem ''bdi'' (Ptr ''struct backing_dev_info''), Mem ''state'' (Scalar Tulong),
    Mem ''last_old_flush'' (Scalar Tulong), Mem ''b_dirty'' struct_list_head, Mem ''b_io'' struct_list_head,
    Mem ''b_more_io'' struct_list_head, Mem ''b_dirty_time'' struct_list_head, Mem ''list_lock'' typedef_spinlock_t,
    Mem ''writeback_inodes'' typedef_atomic_t, Mem ''stat'' (Array struct_percpu_counter 4),
    Mem ''congested'' (Scalar Tulong), Mem ''bw_time_stamp'' (Scalar Tulong), Mem ''dirtied_stamp'' (Scalar Tulong),
    Mem ''written_stamp'' (Scalar Tulong), Mem ''write_bandwidth'' (Scalar Tulong),
    Mem ''avg_write_bandwidth'' (Scalar Tulong), Mem ''dirty_ratelimit'' (Scalar Tulong),
    Mem ''balanced_dirty_ratelimit'' (Scalar Tulong), Mem ''completions'' struct_fprop_local_percpu,
    Mem ''dirty_exceeded'' (Scalar Tint), Mem ''start_all_reason'' enum_wb_reason,
    Mem ''work_lock'' typedef_spinlock_t, Mem ''work_list'' struct_list_head, Mem ''dwork'' struct_delayed_work,
    Mem ''bw_dwork'' struct_delayed_work, Mem ''dirty_sleep'' (Scalar Tulong), Mem ''bdi_node'' struct_list_head,
    Mem ''refcnt'' struct_percpu_ref, Mem ''memcg_completions'' struct_fprop_local_percpu,
    Mem ''memcg_css'' (Ptr ''struct cgroup_subsys_state''), Mem ''blkcg_css'' (Ptr ''struct cgroup_subsys_state''),
    Mem ''memcg_node'' struct_list_head, Mem ''blkcg_node'' struct_list_head, Mem ''b_attached'' struct_list_head,
    Mem ''offline_node'' struct_list_head,
    Anon (Union [] [
      Mem ''release_work'' struct_work_struct, Mem ''rcu'' struct_callback_head])]"

lemma info_struct_bdi_writeback [c_info]: "info struct_bdi_writeback = (776, 8)"
  by (simp add: struct_bdi_writeback_def c_info)

definition struct_backing_dev_info :: ctype where
  "struct_backing_dev_info = Struct [] [
    Mem ''id'' typedef_u64, Mem ''rb_node'' struct_rb_node, Mem ''bdi_list'' struct_list_head,
    Mem ''ra_pages'' (Scalar Tulong), Mem ''io_pages'' (Scalar Tulong), Mem ''refcnt'' struct_kref,
    Mem ''capabilities'' (Scalar Tuint), Mem ''min_ratio'' (Scalar Tuint), Mem ''max_ratio'' (Scalar Tuint),
    Mem ''max_prop_frac'' (Scalar Tuint), Mem ''tot_write_bandwidth'' typedef_atomic_long_t,
    Mem ''wb'' struct_bdi_writeback, Mem ''wb_list'' struct_list_head, Mem ''cgwb_tree'' struct_xarray,
    Mem ''cgwb_release_mutex'' struct_mutex, Mem ''wb_switch_rwsem'' struct_rw_semaphore,
    Mem ''wb_waitq'' typedef_wait_queue_head_t, Mem ''dev'' (Ptr ''struct device''),
    Mem ''dev_name'' (Array (Scalar Tchar) 64), Mem ''owner'' (Ptr ''struct device''),
    Mem ''laptop_mode_wb_timer'' struct_timer_list, Mem ''debug_dir'' (Ptr ''struct dentry'')]"

lemma info_struct_backing_dev_info [c_info]: "info struct_backing_dev_info = (1128, 8)"
  by (simp add: struct_backing_dev_info_def c_info)

definition struct_css_set :: ctype where
  "struct_css_set = Struct [] [
    Mem ''subsys'' (Array (Ptr ''struct cgroup_subsys_state'') 14), Mem ''refcount'' typedef_refcount_t,
    Mem ''dom_cset'' (Ptr ''struct css_set''), Mem ''dfl_cgrp'' (Ptr ''struct cgroup''),
    Mem ''nr_tasks'' (Scalar Tint), Mem ''tasks'' struct_list_head, Mem ''mg_tasks'' struct_list_head,
    Mem ''dying_tasks'' struct_list_head, Mem ''task_iters'' struct_list_head,
    Mem ''e_cset_node'' (Array struct_list_head 14), Mem ''threaded_csets'' struct_list_head,
    Mem ''threaded_csets_node'' struct_list_head, Mem ''hlist'' struct_hlist_node,
    Mem ''cgrp_links'' struct_list_head, Mem ''mg_src_preload_node'' struct_list_head,
    Mem ''mg_dst_preload_node'' struct_list_head, Mem ''mg_node'' struct_list_head,
    Mem ''mg_src_cgrp'' (Ptr ''struct cgroup''), Mem ''mg_dst_cgrp'' (Ptr ''struct cgroup''),
    Mem ''mg_dst_cset'' (Ptr ''struct css_set''), Mem ''dead'' typedef_bool,
    Mem ''callback_head'' struct_callback_head]"

lemma info_struct_css_set [c_info]: "info struct_css_set = (592, 8)"
  by (simp add: struct_css_set_def c_info)

definition struct_perf_event_groups :: ctype where
  "struct_perf_event_groups = Struct [] [
    Mem ''tree'' struct_rb_root, Mem ''index'' typedef_u64]"

lemma info_struct_perf_event_groups [c_info]: "info struct_perf_event_groups = (16, 8)"
  by (simp add: struct_perf_event_groups_def c_info)

definition struct_perf_event_context :: ctype where
  "struct_perf_event_context = Struct [] [
    Mem ''pmu'' (Ptr ''struct pmu''), Mem ''lock'' typedef_raw_spinlock_t, Mem ''mutex'' struct_mutex,
    Mem ''active_ctx_list'' struct_list_head, Mem ''pinned_groups'' struct_perf_event_groups,
    Mem ''flexible_groups'' struct_perf_event_groups, Mem ''event_list'' struct_list_head,
    Mem ''pinned_active'' struct_list_head, Mem ''flexible_active'' struct_list_head, Mem ''nr_events'' (Scalar Tint),
    Mem ''nr_active'' (Scalar Tint), Mem ''is_active'' (Scalar Tint), Mem ''nr_stat'' (Scalar Tint),
    Mem ''nr_freq'' (Scalar Tint), Mem ''rotate_disable'' (Scalar Tint), Mem ''rotate_necessary'' (Scalar Tint),
    Mem ''refcount'' typedef_refcount_t, Mem ''task'' (Ptr ''struct task_struct''), Mem ''time'' typedef_u64,
    Mem ''timestamp'' typedef_u64, Mem ''timeoffset'' typedef_u64,
    Mem ''parent_ctx'' (Ptr ''struct perf_event_context''), Mem ''parent_gen'' typedef_u64,
    Mem ''generation'' typedef_u64, Mem ''pin_count'' (Scalar Tint), Mem ''nr_cgroups'' (Scalar Tint),
    Mem ''task_ctx_data'' (Ptr ''void''), Mem ''callback_head'' struct_callback_head,
    Mem ''nr_pending'' typedef_local_t]"

lemma info_struct_perf_event_context [c_info]: "info struct_perf_event_context = (272, 8)"
  by (simp add: struct_perf_event_context_def c_info)

definition struct_ftrace_ret_stack :: ctype where
  "struct_ftrace_ret_stack = Struct [] [
    Mem ''ret'' (Scalar Tulong), Mem ''func'' (Scalar Tulong), Mem ''calltime'' (Scalar Tullong),
    Mem ''subtime'' (Scalar Tullong), Mem ''fp'' (Scalar Tulong)]"

lemma info_struct_ftrace_ret_stack [c_info]: "info struct_ftrace_ret_stack = (40, 8)"
  by (simp add: struct_ftrace_ret_stack_def c_info)

definition struct_cgroup_subsys_state :: ctype where
  "struct_cgroup_subsys_state = Struct [] [
    Mem ''cgroup'' (Ptr ''struct cgroup''), Mem ''ss'' (Ptr ''struct cgroup_subsys''),
    Mem ''refcnt'' struct_percpu_ref, Mem ''sibling'' struct_list_head, Mem ''children'' struct_list_head,
    Mem ''rstat_css_node'' struct_list_head, Mem ''id'' (Scalar Tint), Mem ''flags'' (Scalar Tuint),
    Mem ''serial_nr'' typedef_u64, Mem ''online_cnt'' typedef_atomic_t, Mem ''destroy_work'' struct_work_struct,
    Mem ''destroy_rwork'' struct_rcu_work, Mem ''parent'' (Ptr ''struct cgroup_subsys_state'')]"

lemma info_struct_cgroup_subsys_state [c_info]: "info struct_cgroup_subsys_state = (200, 8)"
  by (simp add: struct_cgroup_subsys_state_def c_info)

definition struct_mem_cgroup_id :: ctype where
  "struct_mem_cgroup_id = Struct [] [
    Mem ''id'' (Scalar Tint), Mem ''ref'' typedef_refcount_t]"

lemma info_struct_mem_cgroup_id [c_info]: "info struct_mem_cgroup_id = (8, 4)"
  by (simp add: struct_mem_cgroup_id_def c_info)

definition struct_page_counter :: ctype where
  "struct_page_counter = Struct [] [
    Mem ''usage'' typedef_atomic_long_t, Mem ''min'' (Scalar Tulong), Mem ''low'' (Scalar Tulong),
    Mem ''high'' (Scalar Tulong), Mem ''max'' (Scalar Tulong), Mem ''emin'' (Scalar Tulong),
    Mem ''min_usage'' typedef_atomic_long_t, Mem ''children_min_usage'' typedef_atomic_long_t,
    Mem ''elow'' (Scalar Tulong), Mem ''low_usage'' typedef_atomic_long_t,
    Mem ''children_low_usage'' typedef_atomic_long_t, Mem ''watermark'' (Scalar Tulong),
    Mem ''failcnt'' (Scalar Tulong), Mem ''parent'' (Ptr ''struct page_counter'')]"

lemma info_struct_page_counter [c_info]: "info struct_page_counter = (112, 8)"
  by (simp add: struct_page_counter_def c_info)

definition struct_vmpressure :: ctype where
  "struct_vmpressure = Struct [] [
    Mem ''scanned'' (Scalar Tulong), Mem ''reclaimed'' (Scalar Tulong), Mem ''tree_scanned'' (Scalar Tulong),
    Mem ''tree_reclaimed'' (Scalar Tulong), Mem ''sr_lock'' typedef_spinlock_t, Mem ''events'' struct_list_head,
    Mem ''events_lock'' struct_mutex, Mem ''work'' struct_work_struct]"

lemma info_struct_vmpressure [c_info]: "info struct_vmpressure = (120, 8)"
  by (simp add: struct_vmpressure_def c_info)

definition struct_cgroup_file :: ctype where
  "struct_cgroup_file = Struct [] [
    Mem ''kn'' (Ptr ''struct kernfs_node''), Mem ''notified_at'' (Scalar Tulong),
    Mem ''notify_timer'' struct_timer_list]"

lemma info_struct_cgroup_file [c_info]: "info struct_cgroup_file = (56, 8)"
  by (simp add: struct_cgroup_file_def c_info)

definition struct_mem_cgroup_thresholds :: ctype where
  "struct_mem_cgroup_thresholds = Struct [] [
    Mem ''primary'' (Ptr ''struct mem_cgroup_threshold_ary''), Mem ''spare'' (Ptr ''struct mem_cgroup_threshold_ary'')]"

lemma info_struct_mem_cgroup_thresholds [c_info]: "info struct_mem_cgroup_thresholds = (16, 8)"
  by (simp add: struct_mem_cgroup_thresholds_def c_info)

definition struct_memcg_padding :: ctype where
  "struct_memcg_padding = Struct [] [
    Mem ''x'' (Array (Scalar Tchar) 0)]"

lemma info_struct_memcg_padding [c_info]: "info struct_memcg_padding = (0, 1)"
  by (simp add: struct_memcg_padding_def c_info)

definition struct_memcg_vmstats :: ctype where
  "struct_memcg_vmstats = Struct [] [
    Mem ''state'' (Array (Scalar Tlong) 42), Mem ''events'' (Array (Scalar Tulong) 99),
    Mem ''state_pending'' (Array (Scalar Tlong) 42), Mem ''events_pending'' (Array (Scalar Tulong) 99)]"

lemma info_struct_memcg_vmstats [c_info]: "info struct_memcg_vmstats = (2256, 8)"
  by (simp add: struct_memcg_vmstats_def c_info)

definition enum_memcg_kmem_state :: ctype where
  "enum_memcg_kmem_state = Enum [
    (''KMEM_NONE'', 0), (''KMEM_ALLOCATED'', 1), (''KMEM_ONLINE'', 2)]"

lemma info_enum_memcg_kmem_state [c_info]: "info enum_memcg_kmem_state = (4, 4)"
  by (simp add: enum_memcg_kmem_state_def c_info)

definition struct_wb_domain :: ctype where
  "struct_wb_domain = Struct [] [
    Mem ''lock'' typedef_spinlock_t, Mem ''completions'' struct_fprop_global, Mem ''period_timer'' struct_timer_list,
    Mem ''period_time'' (Scalar Tulong), Mem ''dirty_limit_tstamp'' (Scalar Tulong),
    Mem ''dirty_limit'' (Scalar Tulong)]"

lemma info_struct_wb_domain [c_info]: "info struct_wb_domain = (120, 8)"
  by (simp add: struct_wb_domain_def c_info)

definition struct_wb_completion :: ctype where
  "struct_wb_completion = Struct [] [
    Mem ''cnt'' typedef_atomic_t, Mem ''waitq'' (Ptr ''wait_queue_head_t'')]"

lemma info_struct_wb_completion [c_info]: "info struct_wb_completion = (16, 8)"
  by (simp add: struct_wb_completion_def c_info)

definition struct_memcg_cgwb_frn :: ctype where
  "struct_memcg_cgwb_frn = Struct [] [
    Mem ''bdi_id'' typedef_u64, Mem ''memcg_id'' (Scalar Tint), Mem ''at'' typedef_u64,
    Mem ''done'' struct_wb_completion]"

lemma info_struct_memcg_cgwb_frn [c_info]: "info struct_memcg_cgwb_frn = (40, 8)"
  by (simp add: struct_memcg_cgwb_frn_def c_info)

definition struct_mem_cgroup :: ctype where
  "struct_mem_cgroup = Struct [] [
    Mem ''css'' struct_cgroup_subsys_state, Mem ''id'' struct_mem_cgroup_id, Mem ''memory'' struct_page_counter,
    Anon (Union [] [
      Mem ''swap'' struct_page_counter, Mem ''memsw'' struct_page_counter]),
    Mem ''kmem'' struct_page_counter, Mem ''tcpmem'' struct_page_counter, Mem ''high_work'' struct_work_struct,
    Mem ''soft_limit'' (Scalar Tulong), Mem ''vmpressure'' struct_vmpressure, Mem ''oom_group'' typedef_bool,
    Mem ''oom_lock'' typedef_bool, Mem ''under_oom'' (Scalar Tint), Mem ''swappiness'' (Scalar Tint),
    Mem ''oom_kill_disable'' (Scalar Tint), Mem ''events_file'' struct_cgroup_file,
    Mem ''events_local_file'' struct_cgroup_file, Mem ''swap_events_file'' struct_cgroup_file,
    Mem ''thresholds_lock'' struct_mutex, Mem ''thresholds'' struct_mem_cgroup_thresholds,
    Mem ''memsw_thresholds'' struct_mem_cgroup_thresholds, Mem ''oom_notify'' struct_list_head,
    Mem ''move_charge_at_immigrate'' (Scalar Tulong), Mem ''move_lock'' typedef_spinlock_t,
    Mem ''move_lock_flags'' (Scalar Tulong), Pad (Scalar Tlong) 64, Pad (Scalar Tlong) 64, Pad (Scalar Tlong) 64,
    Pad (Scalar Tlong) 64, Pad (Scalar Tlong) 64, Pad (Scalar Tlong) 64, Mem ''_pad1_'' struct_memcg_padding,
    Mem ''vmstats'' struct_memcg_vmstats, Mem ''memory_events'' (Array typedef_atomic_long_t 8),
    Mem ''memory_events_local'' (Array typedef_atomic_long_t 8), Mem ''socket_pressure'' (Scalar Tulong),
    Mem ''tcpmem_active'' typedef_bool, Mem ''tcpmem_pressure'' (Scalar Tint), Mem ''kmemcg_id'' (Scalar Tint),
    Mem ''kmem_state'' enum_memcg_kmem_state, Mem ''objcg'' (Ptr ''struct obj_cgroup''),
    Mem ''objcg_list'' struct_list_head, Mem ''_pad2_'' struct_memcg_padding, Mem ''moving_account'' typedef_atomic_t,
    Mem ''move_lock_task'' (Ptr ''struct task_struct''), Mem ''vmstats_percpu'' (Ptr ''struct memcg_vmstats_percpu''),
    Mem ''cgwb_list'' struct_list_head, Mem ''cgwb_domain'' struct_wb_domain,
    Mem ''cgwb_frn'' (Array struct_memcg_cgwb_frn 4), Mem ''event_list'' struct_list_head,
    Mem ''event_list_lock'' typedef_spinlock_t, Mem ''deferred_split_queue'' struct_deferred_split,
    Mem ''nodeinfo'' (Array (Ptr ''struct mem_cgroup_per_node'') 0), Pad (Scalar Tlong) 64]"

lemma info_struct_mem_cgroup [c_info]: "info struct_mem_cgroup = (3968, 8)"
  by (simp add: struct_mem_cgroup_def c_info)

definition struct_blk_integrity :: ctype where
  "struct_blk_integrity = Struct [] [
    Mem ''profile'' (Ptr ''const struct blk_integrity_profile''), Mem ''flags'' (Scalar Tuchar),
    Mem ''tuple_size'' (Scalar Tuchar), Mem ''interval_exp'' (Scalar Tuchar), Mem ''tag_size'' (Scalar Tuchar)]"

lemma info_struct_blk_integrity [c_info]: "info struct_blk_integrity = (16, 8)"
  by (simp add: struct_blk_integrity_def c_info)

definition struct_blk_rq_stat :: ctype where
  "struct_blk_rq_stat = Struct [] [
    Mem ''mean'' typedef_u64, Mem ''min'' typedef_u64, Mem ''max'' typedef_u64, Mem ''nr_samples'' typedef_u32,
    Mem ''batch'' typedef_u64]"

lemma info_struct_blk_rq_stat [c_info]: "info struct_blk_rq_stat = (40, 8)"
  by (simp add: struct_blk_rq_stat_def c_info)

definition enum_blk_bounce :: ctype where
  "enum_blk_bounce = Enum [
    (''BLK_BOUNCE_NONE'', 0), (''BLK_BOUNCE_HIGH'', 1)]"

lemma info_enum_blk_bounce [c_info]: "info enum_blk_bounce = (4, 4)"
  by (simp add: enum_blk_bounce_def c_info)

definition enum_blk_zoned_model :: ctype where
  "enum_blk_zoned_model = Enum [
    (''BLK_ZONED_NONE'', 0), (''BLK_ZONED_HA'', 1), (''BLK_ZONED_HM'', 2)]"

lemma info_enum_blk_zoned_model [c_info]: "info enum_blk_zoned_model = (4, 4)"
  by (simp add: enum_blk_zoned_model_def c_info)

definition struct_queue_limits :: ctype where
  "struct_queue_limits = Struct [] [
    Mem ''bounce'' enum_blk_bounce, Mem ''seg_boundary_mask'' (Scalar Tulong),
    Mem ''virt_boundary_mask'' (Scalar Tulong), Mem ''max_hw_sectors'' (Scalar Tuint),
    Mem ''max_dev_sectors'' (Scalar Tuint), Mem ''chunk_sectors'' (Scalar Tuint), Mem ''max_sectors'' (Scalar Tuint),
    Mem ''max_segment_size'' (Scalar Tuint), Mem ''physical_block_size'' (Scalar Tuint),
    Mem ''logical_block_size'' (Scalar Tuint), Mem ''alignment_offset'' (Scalar Tuint), Mem ''io_min'' (Scalar Tuint),
    Mem ''io_opt'' (Scalar Tuint), Mem ''max_discard_sectors'' (Scalar Tuint),
    Mem ''max_hw_discard_sectors'' (Scalar Tuint), Mem ''max_write_same_sectors'' (Scalar Tuint),
    Mem ''max_write_zeroes_sectors'' (Scalar Tuint), Mem ''max_zone_append_sectors'' (Scalar Tuint),
    Mem ''discard_granularity'' (Scalar Tuint), Mem ''discard_alignment'' (Scalar Tuint),
    Mem ''zone_write_granularity'' (Scalar Tuint), Mem ''max_segments'' (Scalar Tushort),
    Mem ''max_integrity_segments'' (Scalar Tushort), Mem ''max_discard_segments'' (Scalar Tushort),
    Mem ''misaligned'' (Scalar Tuchar), Mem ''discard_misaligned'' (Scalar Tuchar),
    Mem ''raid_partial_stripes_expensive'' (Scalar Tuchar), Mem ''zoned'' enum_blk_zoned_model]"

lemma info_struct_queue_limits [c_info]: "info struct_queue_limits = (112, 8)"
  by (simp add: struct_queue_limits_def c_info)

definition struct_bio_set :: ctype where
  "struct_bio_set = Struct [] [
    Mem ''bio_slab'' (Ptr ''struct kmem_cache''), Mem ''front_pad'' (Scalar Tuint),
    Mem ''cache'' (Ptr ''struct bio_alloc_cache''), Mem ''bio_pool'' typedef_mempool_t,
    Mem ''bvec_pool'' typedef_mempool_t, Mem ''bio_integrity_pool'' typedef_mempool_t,
    Mem ''bvec_integrity_pool'' typedef_mempool_t, Mem ''back_pad'' (Scalar Tuint),
    Mem ''rescue_lock'' typedef_spinlock_t, Mem ''rescue_list'' struct_bio_list,
    Mem ''rescue_work'' struct_work_struct, Mem ''rescue_workqueue'' (Ptr ''struct workqueue_struct''),
    Mem ''cpuhp_dead'' struct_hlist_node]"

lemma info_struct_bio_set [c_info]: "info struct_bio_set = (392, 8)"
  by (simp add: struct_bio_set_def c_info)

definition struct_cgroup_base_stat :: ctype where
  "struct_cgroup_base_stat = Struct [] [
    Mem ''cputime'' struct_task_cputime]"

lemma info_struct_cgroup_base_stat [c_info]: "info struct_cgroup_base_stat = (24, 8)"
  by (simp add: struct_cgroup_base_stat_def c_info)

definition struct_psi_group :: ctype where
  "struct_psi_group = Struct [] [
    Mem ''avgs_lock'' struct_mutex, Mem ''pcpu'' (Ptr ''struct psi_group_cpu''),
    Mem ''avg_total'' (Array typedef_u64 6), Mem ''avg_last_update'' typedef_u64, Mem ''avg_next_update'' typedef_u64,
    Mem ''avgs_work'' struct_delayed_work, Mem ''total'' (Array typedef_u64 12),
    Mem ''avg'' (Array (Scalar Tulong) 18), Mem ''poll_task'' (Ptr ''struct task_struct''),
    Mem ''poll_timer'' struct_timer_list, Mem ''poll_wait'' typedef_wait_queue_head_t,
    Mem ''poll_wakeup'' typedef_atomic_t, Mem ''trigger_lock'' struct_mutex, Mem ''triggers'' struct_list_head,
    Mem ''nr_triggers'' (Array typedef_u32 6), Mem ''poll_states'' typedef_u32, Mem ''poll_min_period'' typedef_u64,
    Mem ''polling_total'' (Array typedef_u64 6), Mem ''polling_next_update'' typedef_u64,
    Mem ''polling_until'' typedef_u64]"

lemma info_struct_psi_group [c_info]: "info struct_psi_group = (664, 8)"
  by (simp add: struct_psi_group_def c_info)

definition struct_cgroup_freezer_state :: ctype where
  "struct_cgroup_freezer_state = Struct [] [
    Mem ''freeze'' typedef_bool, Mem ''e_freeze'' (Scalar Tint), Mem ''nr_frozen_descendants'' (Scalar Tint),
    Mem ''nr_frozen_tasks'' (Scalar Tint)]"

lemma info_struct_cgroup_freezer_state [c_info]: "info struct_cgroup_freezer_state = (16, 4)"
  by (simp add: struct_cgroup_freezer_state_def c_info)

definition struct_cgroup :: ctype where
  "struct_cgroup = Struct [] [
    Mem ''self'' struct_cgroup_subsys_state, Mem ''flags'' (Scalar Tulong), Mem ''level'' (Scalar Tint),
    Mem ''max_depth'' (Scalar Tint), Mem ''nr_descendants'' (Scalar Tint), Mem ''nr_dying_descendants'' (Scalar Tint),
    Mem ''max_descendants'' (Scalar Tint), Mem ''nr_populated_csets'' (Scalar Tint),
    Mem ''nr_populated_domain_children'' (Scalar Tint), Mem ''nr_populated_threaded_children'' (Scalar Tint),
    Mem ''nr_threaded_children'' (Scalar Tint), Mem ''kill_seq'' (Scalar Tuint),
    Mem ''kn'' (Ptr ''struct kernfs_node''), Mem ''procs_file'' struct_cgroup_file,
    Mem ''events_file'' struct_cgroup_file, Mem ''subtree_control'' typedef_u16, Mem ''subtree_ss_mask'' typedef_u16,
    Mem ''old_subtree_control'' typedef_u16, Mem ''old_subtree_ss_mask'' typedef_u16,
    Mem ''subsys'' (Array (Ptr ''struct cgroup_subsys_state'') 14), Mem ''root'' (Ptr ''struct cgroup_root''),
    Mem ''cset_links'' struct_list_head, Mem ''e_csets'' (Array struct_list_head 14),
    Mem ''dom_cgrp'' (Ptr ''struct cgroup''), Mem ''old_dom_cgrp'' (Ptr ''struct cgroup''),
    Mem ''rstat_cpu'' (Ptr ''struct cgroup_rstat_cpu''), Mem ''rstat_css_list'' struct_list_head,
    Mem ''last_bstat'' struct_cgroup_base_stat, Mem ''bstat'' struct_cgroup_base_stat,
    Mem ''prev_cputime'' struct_prev_cputime, Mem ''pidlists'' struct_list_head, Mem ''pidlist_mutex'' struct_mutex,
    Mem ''offline_waitq'' typedef_wait_queue_head_t, Mem ''release_agent_work'' struct_work_struct,
    Mem ''psi'' struct_psi_group, Mem ''bpf'' struct_cgroup_bpf, Mem ''congestion_count'' typedef_atomic_t,
    Mem ''freezer'' struct_cgroup_freezer_state, Mem ''ancestor_ids'' (Array typedef_u64 0)]"

lemma info_struct_cgroup [c_info]: "info struct_cgroup = (2360, 8)"
  by (simp add: struct_cgroup_def c_info)

definition enum_rpm_request :: ctype where
  "enum_rpm_request = Enum [
    (''RPM_REQ_NONE'', 0), (''RPM_REQ_IDLE'', 1), (''RPM_REQ_SUSPEND'', 2), (''RPM_REQ_AUTOSUSPEND'', 3),
    (''RPM_REQ_RESUME'', 4)]"

lemma info_enum_rpm_request [c_info]: "info enum_rpm_request = (4, 4)"
  by (simp add: enum_rpm_request_def c_info)

definition struct_dev_pm_info :: ctype where
  "struct_dev_pm_info = Struct [] [
    Mem ''power_state'' typedef_pm_message_t, Bits ''can_wakeup'' (Scalar Tuint) 1,
    Bits ''async_suspend'' (Scalar Tuint) 1, Bits ''in_dpm_list'' typedef_bool 1, Bits ''is_prepared'' typedef_bool 1,
    Bits ''is_suspended'' typedef_bool 1, Bits ''is_noirq_suspended'' typedef_bool 1,
    Bits ''is_late_suspended'' typedef_bool 1, Bits ''no_pm'' typedef_bool 1, Bits ''early_init'' typedef_bool 1,
    Bits ''direct_complete'' typedef_bool 1, Mem ''driver_flags'' typedef_u32, Mem ''lock'' typedef_spinlock_t,
    Mem ''entry'' struct_list_head, Mem ''completion'' struct_completion,
    Mem ''wakeup'' (Ptr ''struct wakeup_source''), Bits ''wakeup_path'' typedef_bool 1,
    Bits ''syscore'' typedef_bool 1, Bits ''no_pm_callbacks'' typedef_bool 1, Bits ''must_resume'' (Scalar Tuint) 1,
    Bits ''may_skip_resume'' (Scalar Tuint) 1, Mem ''suspend_timer'' struct_hrtimer,
    Mem ''timer_expires'' typedef_u64, Mem ''work'' struct_work_struct, Mem ''wait_queue'' typedef_wait_queue_head_t,
    Mem ''wakeirq'' (Ptr ''struct wake_irq''), Mem ''usage_count'' typedef_atomic_t,
    Mem ''child_count'' typedef_atomic_t, Bits ''disable_depth'' (Scalar Tuint) 3,
    Bits ''idle_notification'' (Scalar Tuint) 1, Bits ''request_pending'' (Scalar Tuint) 1,
    Bits ''deferred_resume'' (Scalar Tuint) 1, Bits ''needs_force_resume'' (Scalar Tuint) 1,
    Bits ''runtime_auto'' (Scalar Tuint) 1, Bits ''ignore_children'' typedef_bool 1,
    Bits ''no_callbacks'' (Scalar Tuint) 1, Bits ''irq_safe'' (Scalar Tuint) 1,
    Bits ''use_autosuspend'' (Scalar Tuint) 1, Bits ''timer_autosuspends'' (Scalar Tuint) 1,
    Bits ''memalloc_noio'' (Scalar Tuint) 1, Mem ''links_count'' (Scalar Tuint), Mem ''request'' enum_rpm_request,
    Mem ''runtime_status'' enum_rpm_status, Mem ''runtime_error'' (Scalar Tint),
    Mem ''autosuspend_delay'' (Scalar Tint), Mem ''last_busy'' typedef_u64, Mem ''active_time'' typedef_u64,
    Mem ''suspended_time'' typedef_u64, Mem ''accounting_timestamp'' typedef_u64,
    Mem ''subsys_data'' (Ptr ''struct pm_subsys_data''),
    Mem ''set_latency_tolerance'' (FunPtr ''void'' [''struct device *'', ''s32'']),
    Mem ''qos'' (Ptr ''struct dev_pm_qos'')]"

lemma info_struct_dev_pm_info [c_info]: "info struct_dev_pm_info = (304, 8)"
  by (simp add: struct_dev_pm_info_def c_info)

definition struct_device :: ctype where
  "struct_device = Struct [] [
    Mem ''kobj'' struct_kobject, Mem ''parent'' (Ptr ''struct device''), Mem ''p'' (Ptr ''struct device_private''),
    Mem ''init_name'' (Ptr ''const char''), Mem ''type'' (Ptr ''const struct device_type''),
    Mem ''bus'' (Ptr ''struct bus_type''), Mem ''driver'' (Ptr ''struct device_driver''),
    Mem ''platform_data'' (Ptr ''void''), Mem ''driver_data'' (Ptr ''void''), Mem ''mutex'' struct_mutex,
    Mem ''links'' struct_dev_links_info, Mem ''power'' struct_dev_pm_info,
    Mem ''pm_domain'' (Ptr ''struct dev_pm_domain''), Mem ''em_pd'' (Ptr ''struct em_perf_domain''),
    Mem ''msi_domain'' (Ptr ''struct irq_domain''), Mem ''pins'' (Ptr ''struct dev_pin_info''),
    Mem ''msi_lock'' typedef_raw_spinlock_t, Mem ''msi_list'' struct_list_head,
    Mem ''dma_ops'' (Ptr ''const struct dma_map_ops''), Mem ''dma_mask'' (Ptr ''u64''),
    Mem ''coherent_dma_mask'' typedef_u64, Mem ''bus_dma_limit'' typedef_u64,
    Mem ''dma_range_map'' (Ptr ''const struct bus_dma_region''),
    Mem ''dma_parms'' (Ptr ''struct device_dma_parameters''), Mem ''dma_pools'' struct_list_head,
    Mem ''dma_mem'' (Ptr ''struct dma_coherent_mem''), Mem ''cma_area'' (Ptr ''struct cma''),
    Mem ''dma_io_tlb_mem'' (Ptr ''struct io_tlb_mem''), Mem ''archdata'' struct_dev_archdata,
    Mem ''of_node'' (Ptr ''struct device_node''), Mem ''fwnode'' (Ptr ''struct fwnode_handle''),
    Mem ''numa_node'' (Scalar Tint), Mem ''devt'' typedef_dev_t, Mem ''id'' typedef_u32,
    Mem ''devres_lock'' typedef_spinlock_t, Mem ''devres_head'' struct_list_head,
    Mem ''class'' (Ptr ''struct class''), Mem ''groups'' (Ptr ''const struct attribute_group *''),
    Mem ''release'' (FunPtr ''void'' [''struct device *'']), Mem ''iommu_group'' (Ptr ''struct iommu_group''),
    Mem ''iommu'' (Ptr ''struct dev_iommu''), Mem ''removable'' enum_device_removable,
    Bits ''offline_disabled'' typedef_bool 1, Bits ''offline'' typedef_bool 1, Bits ''of_node_reused'' typedef_bool 1,
    Bits ''state_synced'' typedef_bool 1, Bits ''can_match'' typedef_bool 1, Bits ''dma_coherent'' typedef_bool 1]"

lemma info_struct_device [c_info]: "info struct_device = (760, 8)"
  by (simp add: struct_device_def c_info)

definition struct_block_device :: ctype where
  "struct_block_device = Struct [] [
    Mem ''bd_start_sect'' typedef_sector_t, Mem ''bd_stats'' (Ptr ''struct disk_stats''),
    Mem ''bd_stamp'' (Scalar Tulong), Mem ''bd_read_only'' typedef_bool, Mem ''bd_dev'' typedef_dev_t,
    Mem ''bd_openers'' (Scalar Tint), Mem ''bd_inode'' (Ptr ''struct inode''),
    Mem ''bd_super'' (Ptr ''struct super_block''), Mem ''bd_claiming'' (Ptr ''void''),
    Mem ''bd_device'' struct_device, Mem ''bd_holder'' (Ptr ''void''), Mem ''bd_holders'' (Scalar Tint),
    Mem ''bd_write_holder'' typedef_bool, Mem ''bd_holder_dir'' (Ptr ''struct kobject''),
    Mem ''bd_partno'' typedef_u8, Mem ''bd_size_lock'' typedef_spinlock_t, Mem ''bd_disk'' (Ptr ''struct gendisk''),
    Mem ''bd_fsfreeze_count'' (Scalar Tint), Mem ''bd_fsfreeze_mutex'' struct_mutex,
    Mem ''bd_fsfreeze_sb'' (Ptr ''struct super_block''), Mem ''bd_meta_info'' (Ptr ''struct partition_meta_info'')]"

lemma info_struct_block_device [c_info]: "info struct_block_device = (920, 8)"
  by (simp add: struct_block_device_def c_info)

definition struct_bio_issue :: ctype where
  "struct_bio_issue = Struct [] [
    Mem ''value'' typedef_u64]"

lemma info_struct_bio_issue [c_info]: "info struct_bio_issue = (8, 8)"
  by (simp add: struct_bio_issue_def c_info)

definition struct_bio_vec :: ctype where
  "struct_bio_vec = Struct [] [
    Mem ''bv_page'' (Ptr ''struct page''), Mem ''bv_len'' (Scalar Tuint), Mem ''bv_offset'' (Scalar Tuint)]"

lemma info_struct_bio_vec [c_info]: "info struct_bio_vec = (16, 8)"
  by (simp add: struct_bio_vec_def c_info)

definition struct_bio :: ctype where
  "struct_bio = Struct [] [
    Mem ''bi_next'' (Ptr ''struct bio''), Mem ''bi_bdev'' (Ptr ''struct block_device''),
    Mem ''bi_opf'' (Scalar Tuint), Mem ''bi_flags'' (Scalar Tushort), Mem ''bi_ioprio'' (Scalar Tushort),
    Mem ''bi_write_hint'' (Scalar Tushort), Mem ''bi_status'' typedef_blk_status_t,
    Mem ''__bi_remaining'' typedef_atomic_t, Mem ''bi_iter'' struct_bvec_iter,
    Mem ''bi_end_io'' (Ptr ''bio_end_io_t''), Mem ''bi_private'' (Ptr ''void''),
    Mem ''bi_blkg'' (Ptr ''struct blkcg_gq''), Mem ''bi_issue'' struct_bio_issue, Mem ''bi_iocost_cost'' typedef_u64,
    Mem ''bi_crypt_context'' (Ptr ''struct bio_crypt_ctx''),
    Anon (Union [] [
      Mem ''bi_integrity'' (Ptr ''struct bio_integrity_payload'')]),
    Mem ''bi_vcnt'' (Scalar Tushort), Mem ''bi_max_vecs'' (Scalar Tushort), Mem ''__bi_cnt'' typedef_atomic_t,
    Mem ''bi_io_vec'' (Ptr ''struct bio_vec''), Mem ''bi_pool'' (Ptr ''struct bio_set''),
    Mem ''bi_inline_vecs'' (Array struct_bio_vec 0)]"

lemma info_struct_bio [c_info]: "info struct_bio = (136, 8)"
  by (simp add: struct_bio_def c_info)

definition struct_kset_uevent_ops :: ctype where
  "struct_kset_uevent_ops = Struct [] [
    Mem ''filter'' (FunPtr ''int'' [''struct kset *'', ''struct kobject *'']),
    Mem ''name'' (FunPtr ''const char *'' [''struct kset *'', ''struct kobject *'']),
    Mem ''uevent'' (FunPtr ''int'' [''struct kset *'', ''struct kobject *'', ''struct kobj_uevent_env *''])]"

lemma info_struct_kset_uevent_ops [c_info]: "info struct_kset_uevent_ops = (24, 8)"
  by (simp add: struct_kset_uevent_ops_def c_info)

definition struct_tracepoint_func :: ctype where
  "struct_tracepoint_func = Struct [] [
    Mem ''func'' (Ptr ''void''), Mem ''data'' (Ptr ''void''), Mem ''prio'' (Scalar Tint)]"

lemma info_struct_tracepoint_func [c_info]: "info struct_tracepoint_func = (24, 8)"
  by (simp add: struct_tracepoint_func_def c_info)

definition struct_tracepoint :: ctype where
  "struct_tracepoint = Struct [] [
    Mem ''name'' (Ptr ''const char''), Mem ''key'' struct_static_key,
    Mem ''static_call_key'' (Ptr ''struct static_call_key''), Mem ''static_call_tramp'' (Ptr ''void''),
    Mem ''iterator'' (Ptr ''void''), Mem ''regfunc'' (FunPtr ''int'' [''void'']),
    Mem ''unregfunc'' (FunPtr ''void'' [''void'']), Mem ''funcs'' (Ptr ''struct tracepoint_func'')]"

lemma info_struct_tracepoint [c_info]: "info struct_tracepoint = (72, 8)"
  by (simp add: struct_tracepoint_def c_info)

definition struct_trace_event :: ctype where
  "struct_trace_event = Struct [] [
    Mem ''node'' struct_hlist_node, Mem ''list'' struct_list_head, Mem ''type'' (Scalar Tint),
    Mem ''funcs'' (Ptr ''struct trace_event_functions'')]"

lemma info_struct_trace_event [c_info]: "info struct_trace_event = (48, 8)"
  by (simp add: struct_trace_event_def c_info)

definition struct_trace_event_call :: ctype where
  "struct_trace_event_call = Struct [] [
    Mem ''list'' struct_list_head, Mem ''class'' (Ptr ''struct trace_event_class''),
    Anon (Union [] [
      Mem ''name'' (Ptr ''const char''), Mem ''tp'' (Ptr ''struct tracepoint'')]),
    Mem ''event'' struct_trace_event, Mem ''print_fmt'' (Ptr ''char''), Mem ''filter'' (Ptr ''struct event_filter''),
    Anon (Union [] [
      Mem ''module'' (Ptr ''void''), Mem ''refcnt'' typedef_atomic_t]),
    Mem ''data'' (Ptr ''void''), Mem ''flags'' (Scalar Tint), Mem ''perf_refcount'' (Scalar Tint),
    Mem ''perf_events'' (Ptr ''struct hlist_head''), Mem ''prog_array'' (Ptr ''struct bpf_prog_array''),
    Mem ''perf_perm'' (FunPtr ''int'' [''struct trace_event_call *'', ''struct perf_event *''])]"

lemma info_struct_trace_event_call [c_info]: "info struct_trace_event_call = (144, 8)"
  by (simp add: struct_trace_event_call_def c_info)

definition struct_trace_eval_map :: ctype where
  "struct_trace_eval_map = Struct [] [
    Mem ''system'' (Ptr ''const char''), Mem ''eval_string'' (Ptr ''const char''), Mem ''eval_value'' (Scalar Tulong)]"

lemma info_struct_trace_eval_map [c_info]: "info struct_trace_eval_map = (24, 8)"
  by (simp add: struct_trace_eval_map_def c_info)

definition struct_em_perf_state :: ctype where
  "struct_em_perf_state = Struct [] [
    Mem ''frequency'' (Scalar Tulong), Mem ''power'' (Scalar Tulong), Mem ''cost'' (Scalar Tulong)]"

lemma info_struct_em_perf_state [c_info]: "info struct_em_perf_state = (24, 8)"
  by (simp add: struct_em_perf_state_def c_info)

definition struct_em_perf_domain :: ctype where
  "struct_em_perf_domain = Struct [] [
    Mem ''table'' (Ptr ''struct em_perf_state''), Mem ''nr_perf_states'' (Scalar Tint),
    Mem ''milliwatts'' (Scalar Tint), Mem ''cpus'' (Array (Scalar Tulong) 0)]"

lemma info_struct_em_perf_domain [c_info]: "info struct_em_perf_domain = (16, 8)"
  by (simp add: struct_em_perf_domain_def c_info)

definition struct_perf_branch_entry :: ctype where
  "struct_perf_branch_entry = Struct [] [
    Mem ''from'' typedef___u64, Mem ''to'' typedef___u64, Bits ''mispred'' typedef___u64 1,
    Bits ''predicted'' typedef___u64 1, Bits ''in_tx'' typedef___u64 1, Bits ''abort'' typedef___u64 1,
    Bits ''cycles'' typedef___u64 16, Bits ''type'' typedef___u64 4, Bits ''reserved'' typedef___u64 40]"

lemma info_struct_perf_branch_entry [c_info]: "info struct_perf_branch_entry = (24, 8)"
  by (simp add: struct_perf_branch_entry_def c_info)

definition struct_cgroup_namespace :: ctype where
  "struct_cgroup_namespace = Struct [] [
    Mem ''ns'' struct_ns_common, Mem ''user_ns'' (Ptr ''struct user_namespace''),
    Mem ''ucounts'' (Ptr ''struct ucounts''), Mem ''root_cset'' (Ptr ''struct css_set'')]"

lemma info_struct_cgroup_namespace [c_info]: "info struct_cgroup_namespace = (48, 8)"
  by (simp add: struct_cgroup_namespace_def c_info)

definition struct_btf_header :: ctype where
  "struct_btf_header = Struct [] [
    Mem ''magic'' typedef___u16, Mem ''version'' typedef___u8, Mem ''flags'' typedef___u8,
    Mem ''hdr_len'' typedef___u32, Mem ''type_off'' typedef___u32, Mem ''type_len'' typedef___u32,
    Mem ''str_off'' typedef___u32, Mem ''str_len'' typedef___u32]"

lemma info_struct_btf_header [c_info]: "info struct_btf_header = (24, 4)"
  by (simp add: struct_btf_header_def c_info)

definition struct_btf :: ctype where
  "struct_btf = Struct [] [
    Mem ''data'' (Ptr ''void''), Mem ''types'' (Ptr ''struct btf_type *''), Mem ''resolved_ids'' (Ptr ''u32''),
    Mem ''resolved_sizes'' (Ptr ''u32''), Mem ''strings'' (Ptr ''const char''), Mem ''nohdr_data'' (Ptr ''void''),
    Mem ''hdr'' struct_btf_header, Mem ''nr_types'' typedef_u32, Mem ''types_size'' typedef_u32,
    Mem ''data_size'' typedef_u32, Mem ''refcnt'' typedef_refcount_t, Mem ''id'' typedef_u32,
    Mem ''rcu'' struct_callback_head, Mem ''base_btf'' (Ptr ''struct btf''), Mem ''start_id'' typedef_u32,
    Mem ''start_str_off'' typedef_u32, Mem ''name'' (Array (Scalar Tchar) 56), Mem ''kernel_btf'' typedef_bool]"

lemma info_struct_btf [c_info]: "info struct_btf = (192, 8)"
  by (simp add: struct_btf_def c_info)

definition struct_btf_type :: ctype where
  "struct_btf_type = Struct [] [
    Mem ''name_off'' typedef___u32, Mem ''info'' typedef___u32,
    Anon (Union [] [
      Mem ''size'' typedef___u32, Mem ''type'' typedef___u32])]"

lemma info_struct_btf_type [c_info]: "info struct_btf_type = (12, 4)"
  by (simp add: struct_btf_type_def c_info)

definition struct_psi_group_cpu :: ctype where
  "struct_psi_group_cpu = Struct [] [
    Mem ''seq'' typedef_seqcount_t, Mem ''tasks'' (Array (Scalar Tuint) 5), Mem ''state_mask'' typedef_u32,
    Mem ''times'' (Array typedef_u32 7), Mem ''state_start'' typedef_u64, Mem ''times_prev'' (Array typedef_u32 14),
    Pad (Scalar Tlong) 64]"

lemma info_struct_psi_group_cpu [c_info]: "info struct_psi_group_cpu = (128, 8)"
  by (simp add: struct_psi_group_cpu_def c_info)

definition struct_cgroup_subsys :: ctype where
  "struct_cgroup_subsys = Struct [] [
    Mem ''css_alloc'' (FunPtr ''struct cgroup_subsys_state *'' [''struct cgroup_subsys_state *'']),
    Mem ''css_online'' (FunPtr ''int'' [''struct cgroup_subsys_state *'']),
    Mem ''css_offline'' (FunPtr ''void'' [''struct cgroup_subsys_state *'']),
    Mem ''css_released'' (FunPtr ''void'' [''struct cgroup_subsys_state *'']),
    Mem ''css_free'' (FunPtr ''void'' [''struct cgroup_subsys_state *'']),
    Mem ''css_reset'' (FunPtr ''void'' [''struct cgroup_subsys_state *'']),
    Mem ''css_rstat_flush'' (FunPtr ''void'' [''struct cgroup_subsys_state *'', ''int'']),
    Mem ''css_extra_stat_show'' (FunPtr ''int'' [''struct seq_file *'', ''struct cgroup_subsys_state *'']),
    Mem ''can_attach'' (FunPtr ''int'' [''struct cgroup_taskset *'']),
    Mem ''cancel_attach'' (FunPtr ''void'' [''struct cgroup_taskset *'']),
    Mem ''attach'' (FunPtr ''void'' [''struct cgroup_taskset *'']), Mem ''post_attach'' (FunPtr ''void'' [''void'']),
    Mem ''can_fork'' (FunPtr ''int'' [''struct task_struct *'', ''struct css_set *'']),
    Mem ''cancel_fork'' (FunPtr ''void'' [''struct task_struct *'', ''struct css_set *'']),
    Mem ''fork'' (FunPtr ''void'' [''struct task_struct *'']),
    Mem ''exit'' (FunPtr ''void'' [''struct task_struct *'']),
    Mem ''release'' (FunPtr ''void'' [''struct task_struct *'']),
    Mem ''bind'' (FunPtr ''void'' [''struct cgroup_subsys_state *'']), Bits ''early_init'' typedef_bool 1,
    Bits ''implicit_on_dfl'' typedef_bool 1, Bits ''threaded'' typedef_bool 1, Mem ''id'' (Scalar Tint),
    Mem ''name'' (Ptr ''const char''), Mem ''legacy_name'' (Ptr ''const char''),
    Mem ''root'' (Ptr ''struct cgroup_root''), Mem ''css_idr'' struct_idr, Mem ''cfts'' struct_list_head,
    Mem ''dfl_cftypes'' (Ptr ''struct cftype''), Mem ''legacy_cftypes'' (Ptr ''struct cftype''),
    Mem ''depends_on'' (Scalar Tuint)]"

lemma info_struct_cgroup_subsys [c_info]: "info struct_cgroup_subsys = (240, 8)"
  by (simp add: struct_cgroup_subsys_def c_info)

definition struct_cgroup_rstat_cpu :: ctype where
  "struct_cgroup_rstat_cpu = Struct [] [
    Mem ''bsync'' struct_u64_stats_sync, Mem ''bstat'' struct_cgroup_base_stat,
    Mem ''last_bstat'' struct_cgroup_base_stat, Mem ''updated_children'' (Ptr ''struct cgroup''),
    Mem ''updated_next'' (Ptr ''struct cgroup'')]"

lemma info_struct_cgroup_rstat_cpu [c_info]: "info struct_cgroup_rstat_cpu = (64, 8)"
  by (simp add: struct_cgroup_rstat_cpu_def c_info)

definition struct_cgroup_root :: ctype where
  "struct_cgroup_root = Struct [] [
    Mem ''kf_root'' (Ptr ''struct kernfs_root''), Mem ''subsys_mask'' (Scalar Tuint),
    Mem ''hierarchy_id'' (Scalar Tint), Mem ''root_list'' struct_list_head, Mem ''rcu'' struct_callback_head,
    Mem ''cgrp'' struct_cgroup, Mem ''cgrp_ancestor_id_storage'' typedef_u64, Mem ''nr_cgrps'' typedef_atomic_t,
    Mem ''flags'' (Scalar Tuint), Mem ''release_agent_path'' (Array (Scalar Tchar) 4096),
    Mem ''name'' (Array (Scalar Tchar) 64)]"

lemma info_struct_cgroup_root [c_info]: "info struct_cgroup_root = (6584, 8)"
  by (simp add: struct_cgroup_root_def c_info)

definition struct_perf_callchain_entry :: ctype where
  "struct_perf_callchain_entry = Struct [] [
    Mem ''nr'' typedef___u64, Mem ''ip'' (Array typedef___u64 0)]"

lemma info_struct_perf_callchain_entry [c_info]: "info struct_perf_callchain_entry = (8, 8)"
  by (simp add: struct_perf_callchain_entry_def c_info)

definition struct_perf_raw_frag :: ctype where
  "struct_perf_raw_frag = Struct [Packed] [
    Anon (Union [] [
      Mem ''next'' (Ptr ''struct perf_raw_frag''), Mem ''pad'' (Scalar Tulong)]),
    Mem ''copy'' typedef_perf_copy_f, Mem ''data'' (Ptr ''void''), Mem ''size'' typedef_u32]"

lemma info_struct_perf_raw_frag [c_info]: "info struct_perf_raw_frag = (28, 1)"
  by (simp add: struct_perf_raw_frag_def c_info)

definition struct_perf_raw_record :: ctype where
  "struct_perf_raw_record = Struct [] [
    Mem ''frag'' struct_perf_raw_frag, Mem ''size'' typedef_u32]"

lemma info_struct_perf_raw_record [c_info]: "info struct_perf_raw_record = (32, 4)"
  by (simp add: struct_perf_raw_record_def c_info)

definition struct_perf_branch_stack :: ctype where
  "struct_perf_branch_stack = Struct [] [
    Mem ''nr'' typedef___u64, Mem ''hw_idx'' typedef___u64, Mem ''entries'' (Array struct_perf_branch_entry 0)]"

lemma info_struct_perf_branch_stack [c_info]: "info struct_perf_branch_stack = (16, 8)"
  by (simp add: struct_perf_branch_stack_def c_info)

definition struct_pmu :: ctype where
  "struct_pmu = Struct [] [
    Mem ''entry'' struct_list_head, Mem ''module'' (Ptr ''struct module''), Mem ''dev'' (Ptr ''struct device''),
    Mem ''attr_groups'' (Ptr ''const struct attribute_group *''),
    Mem ''attr_update'' (Ptr ''const struct attribute_group *''), Mem ''name'' (Ptr ''const char''),
    Mem ''type'' (Scalar Tint), Mem ''capabilities'' (Scalar Tint), Mem ''pmu_disable_count'' (Ptr ''int''),
    Mem ''pmu_cpu_context'' (Ptr ''struct perf_cpu_context''), Mem ''exclusive_cnt'' typedef_atomic_t,
    Mem ''task_ctx_nr'' (Scalar Tint), Mem ''hrtimer_interval_ms'' (Scalar Tint),
    Mem ''nr_addr_filters'' (Scalar Tuint), Mem ''pmu_enable'' (FunPtr ''void'' [''struct pmu *'']),
    Mem ''pmu_disable'' (FunPtr ''void'' [''struct pmu *'']),
    Mem ''event_init'' (FunPtr ''int'' [''struct perf_event *'']),
    Mem ''event_mapped'' (FunPtr ''void'' [''struct perf_event *'', ''struct mm_struct *'']),
    Mem ''event_unmapped'' (FunPtr ''void'' [''struct perf_event *'', ''struct mm_struct *'']),
    Mem ''add'' (FunPtr ''int'' [''struct perf_event *'', ''int'']),
    Mem ''del'' (FunPtr ''void'' [''struct perf_event *'', ''int'']),
    Mem ''start'' (FunPtr ''void'' [''struct perf_event *'', ''int'']),
    Mem ''stop'' (FunPtr ''void'' [''struct perf_event *'', ''int'']),
    Mem ''read'' (FunPtr ''void'' [''struct perf_event *'']),
    Mem ''start_txn'' (FunPtr ''void'' [''struct pmu *'', ''unsigned int'']),
    Mem ''commit_txn'' (FunPtr ''int'' [''struct pmu *'']), Mem ''cancel_txn'' (FunPtr ''void'' [''struct pmu *'']),
    Mem ''event_idx'' (FunPtr ''int'' [''struct perf_event *'']),
    Mem ''sched_task'' (FunPtr ''void'' [''struct perf_event_context *'', ''bool'']),
    Mem ''task_ctx_cache'' (Ptr ''struct kmem_cache''),
    Mem ''swap_task_ctx'' (FunPtr ''void'' [''struct perf_event_context *'', ''struct perf_event_context *'']),
    Mem ''setup_aux'' (FunPtr ''void *'' [''struct perf_event *'', ''void * *'', ''int'', ''bool'']),
    Mem ''free_aux'' (FunPtr ''void'' [''void *'']),
    Mem ''snapshot_aux'' (FunPtr ''long int'' [''struct perf_event *'', ''struct perf_output_handle *'', ''long unsigned int'']),
    Mem ''addr_filters_validate'' (FunPtr ''int'' [''struct list_head *'']),
    Mem ''addr_filters_sync'' (FunPtr ''void'' [''struct perf_event *'']),
    Mem ''aux_output_match'' (FunPtr ''int'' [''struct perf_event *'']),
    Mem ''filter_match'' (FunPtr ''int'' [''struct perf_event *'']),
    Mem ''check_period'' (FunPtr ''int'' [''struct perf_event *'', ''u64''])]"

lemma info_struct_pmu [c_info]: "info struct_pmu = (296, 8)"
  by (simp add: struct_pmu_def c_info)

definition struct_perf_cpu_context :: ctype where
  "struct_perf_cpu_context = Struct [] [
    Mem ''ctx'' struct_perf_event_context, Mem ''task_ctx'' (Ptr ''struct perf_event_context''),
    Mem ''active_oncpu'' (Scalar Tint), Mem ''exclusive'' (Scalar Tint), Mem ''hrtimer_lock'' typedef_raw_spinlock_t,
    Mem ''hrtimer'' struct_hrtimer, Mem ''hrtimer_interval'' typedef_ktime_t, Mem ''hrtimer_active'' (Scalar Tuint),
    Mem ''cgrp'' (Ptr ''struct perf_cgroup''), Mem ''cgrp_cpuctx_entry'' struct_list_head,
    Mem ''sched_cb_entry'' struct_list_head, Mem ''sched_cb_usage'' (Scalar Tint), Mem ''online'' (Scalar Tint),
    Mem ''heap_size'' (Scalar Tint), Mem ''heap'' (Ptr ''struct perf_event *''),
    Mem ''heap_default'' (Array (Ptr ''struct perf_event'') 2)]"

lemma info_struct_perf_cpu_context [c_info]: "info struct_perf_cpu_context = (456, 8)"
  by (simp add: struct_perf_cpu_context_def c_info)

definition struct_perf_addr_filter_range :: ctype where
  "struct_perf_addr_filter_range = Struct [] [
    Mem ''start'' (Scalar Tulong), Mem ''size'' (Scalar Tulong)]"

lemma info_struct_perf_addr_filter_range [c_info]: "info struct_perf_addr_filter_range = (16, 8)"
  by (simp add: struct_perf_addr_filter_range_def c_info)

definition struct_perf_cgroup :: ctype where
  "struct_perf_cgroup = Struct [] [
    Mem ''css'' struct_cgroup_subsys_state, Mem ''info'' (Ptr ''struct perf_cgroup_info'')]"

lemma info_struct_perf_cgroup [c_info]: "info struct_perf_cgroup = (208, 8)"
  by (simp add: struct_perf_cgroup_def c_info)

definition struct_perf_cgroup_info :: ctype where
  "struct_perf_cgroup_info = Struct [] [
    Mem ''time'' typedef_u64, Mem ''timestamp'' typedef_u64, Mem ''timeoffset'' typedef_u64,
    Mem ''active'' (Scalar Tint)]"

lemma info_struct_perf_cgroup_info [c_info]: "info struct_perf_cgroup_info = (32, 8)"
  by (simp add: struct_perf_cgroup_info_def c_info)

definition struct_trace_event_functions :: ctype where
  "struct_trace_event_functions = Struct [] [
    Mem ''trace'' typedef_trace_print_func, Mem ''raw'' typedef_trace_print_func,
    Mem ''hex'' typedef_trace_print_func, Mem ''binary'' typedef_trace_print_func]"

lemma info_struct_trace_event_functions [c_info]: "info struct_trace_event_functions = (32, 8)"
  by (simp add: struct_trace_event_functions_def c_info)

definition struct_trace_event_class :: ctype where
  "struct_trace_event_class = Struct [] [
    Mem ''system'' (Ptr ''const char''), Mem ''probe'' (Ptr ''void''), Mem ''perf_probe'' (Ptr ''void''),
    Mem ''reg'' (FunPtr ''int'' [''struct trace_event_call *'', ''enum trace_reg'', ''void *'']),
    Mem ''fields_array'' (Ptr ''struct trace_event_fields''),
    Mem ''get_fields'' (FunPtr ''struct list_head *'' [''struct trace_event_call *'']),
    Mem ''fields'' struct_list_head, Mem ''raw_init'' (FunPtr ''int'' [''struct trace_event_call *''])]"

lemma info_struct_trace_event_class [c_info]: "info struct_trace_event_class = (72, 8)"
  by (simp add: struct_trace_event_class_def c_info)

definition struct_gendisk :: ctype where
  "struct_gendisk = Struct [] [
    Mem ''major'' (Scalar Tint), Mem ''first_minor'' (Scalar Tint), Mem ''minors'' (Scalar Tint),
    Mem ''disk_name'' (Array (Scalar Tchar) 32), Mem ''events'' (Scalar Tushort),
    Mem ''event_flags'' (Scalar Tushort), Mem ''part_tbl'' struct_xarray, Mem ''part0'' (Ptr ''struct block_device''),
    Mem ''fops'' (Ptr ''const struct block_device_operations''), Mem ''queue'' (Ptr ''struct request_queue''),
    Mem ''private_data'' (Ptr ''void''), Mem ''flags'' (Scalar Tint), Mem ''state'' (Scalar Tulong),
    Mem ''open_mutex'' struct_mutex, Mem ''open_partitions'' (Scalar Tuint),
    Mem ''bdi'' (Ptr ''struct backing_dev_info''), Mem ''slave_dir'' (Ptr ''struct kobject''),
    Mem ''slave_bdevs'' struct_list_head, Mem ''random'' (Ptr ''struct timer_rand_state''),
    Mem ''sync_io'' typedef_atomic_t, Mem ''ev'' (Ptr ''struct disk_events''),
    Mem ''cdi'' (Ptr ''struct cdrom_device_info''), Mem ''node_id'' (Scalar Tint),
    Mem ''bb'' (Ptr ''struct badblocks''), Mem ''lockdep_map'' struct_lockdep_map, Mem ''diskseq'' typedef_u64]"

lemma info_struct_gendisk [c_info]: "info struct_gendisk = (240, 8)"
  by (simp add: struct_gendisk_def c_info)

definition struct_blkg_iostat :: ctype where
  "struct_blkg_iostat = Struct [] [
    Mem ''bytes'' (Array typedef_u64 3), Mem ''ios'' (Array typedef_u64 3)]"

lemma info_struct_blkg_iostat [c_info]: "info struct_blkg_iostat = (48, 8)"
  by (simp add: struct_blkg_iostat_def c_info)

definition struct_blkg_iostat_set :: ctype where
  "struct_blkg_iostat_set = Struct [] [
    Mem ''sync'' struct_u64_stats_sync, Mem ''cur'' struct_blkg_iostat, Mem ''last'' struct_blkg_iostat]"

lemma info_struct_blkg_iostat_set [c_info]: "info struct_blkg_iostat_set = (96, 8)"
  by (simp add: struct_blkg_iostat_set_def c_info)

definition struct_blkcg_gq :: ctype where
  "struct_blkcg_gq = Struct [] [
    Mem ''q'' (Ptr ''struct request_queue''), Mem ''q_node'' struct_list_head, Mem ''blkcg_node'' struct_hlist_node,
    Mem ''blkcg'' (Ptr ''struct blkcg''), Mem ''parent'' (Ptr ''struct blkcg_gq''), Mem ''refcnt'' struct_percpu_ref,
    Mem ''online'' typedef_bool, Mem ''iostat_cpu'' (Ptr ''struct blkg_iostat_set''),
    Mem ''iostat'' struct_blkg_iostat_set, Mem ''pd'' (Array (Ptr ''struct blkg_policy_data'') 6),
    Mem ''async_bio_lock'' typedef_spinlock_t, Mem ''async_bios'' struct_bio_list,
    Mem ''async_bio_work'' struct_work_struct, Mem ''use_delay'' typedef_atomic_t,
    Mem ''delay_nsec'' typedef_atomic64_t, Mem ''delay_start'' typedef_atomic64_t, Mem ''last_delay'' typedef_u64,
    Mem ''last_use'' (Scalar Tint), Mem ''callback_head'' struct_callback_head]"

lemma info_struct_blkcg_gq [c_info]: "info struct_blkcg_gq = (344, 8)"
  by (simp add: struct_blkcg_gq_def c_info)

definition struct_blk_integrity_profile :: ctype where
  "struct_blk_integrity_profile = Struct [] [
    Mem ''generate_fn'' (Ptr ''integrity_processing_fn''), Mem ''verify_fn'' (Ptr ''integrity_processing_fn''),
    Mem ''prepare_fn'' (Ptr ''integrity_prepare_fn''), Mem ''complete_fn'' (Ptr ''integrity_complete_fn''),
    Mem ''name'' (Ptr ''const char'')]"

lemma info_struct_blk_integrity_profile [c_info]: "info struct_blk_integrity_profile = (40, 8)"
  by (simp add: struct_blk_integrity_profile_def c_info)

definition struct_request :: ctype where
  "struct_request = Struct [] [
    Mem ''q'' (Ptr ''struct request_queue''), Mem ''mq_ctx'' (Ptr ''struct blk_mq_ctx''),
    Mem ''mq_hctx'' (Ptr ''struct blk_mq_hw_ctx''), Mem ''cmd_flags'' (Scalar Tuint),
    Mem ''rq_flags'' typedef_req_flags_t, Mem ''tag'' (Scalar Tint), Mem ''internal_tag'' (Scalar Tint),
    Mem ''__data_len'' (Scalar Tuint), Mem ''__sector'' typedef_sector_t, Mem ''bio'' (Ptr ''struct bio''),
    Mem ''biotail'' (Ptr ''struct bio''), Mem ''queuelist'' struct_list_head,
    Anon (Union [] [
      Mem ''hash'' struct_hlist_node, Mem ''ipi_list'' struct_llist_node]),
    Anon (Union [] [
      Mem ''rb_node'' struct_rb_node, Mem ''special_vec'' struct_bio_vec, Mem ''completion_data'' (Ptr ''void''),
      Mem ''error_count'' (Scalar Tint)]),
    Anon (Union [] [
      Mem ''elv'' (Struct [] [
        Mem ''icq'' (Ptr ''struct io_cq''), Mem ''priv'' (Array (Ptr ''void'') 2)]),
      Mem ''flush'' (Struct [] [
        Mem ''seq'' (Scalar Tuint), Mem ''list'' struct_list_head, Mem ''saved_end_io'' (Ptr ''rq_end_io_fn'')])]),
    Mem ''rq_disk'' (Ptr ''struct gendisk''), Mem ''part'' (Ptr ''struct block_device''),
    Mem ''alloc_time_ns'' typedef_u64, Mem ''start_time_ns'' typedef_u64, Mem ''io_start_time_ns'' typedef_u64,
    Mem ''wbt_flags'' (Scalar Tushort), Mem ''stats_sectors'' (Scalar Tushort),
    Mem ''nr_phys_segments'' (Scalar Tushort), Mem ''nr_integrity_segments'' (Scalar Tushort),
    Mem ''crypt_ctx'' (Ptr ''struct bio_crypt_ctx''), Mem ''crypt_keyslot'' (Ptr ''struct blk_ksm_keyslot''),
    Mem ''write_hint'' (Scalar Tushort), Mem ''ioprio'' (Scalar Tushort), Mem ''state'' enum_mq_rq_state,
    Mem ''ref'' typedef_refcount_t, Mem ''timeout'' (Scalar Tuint), Mem ''deadline'' (Scalar Tulong),
    Anon (Union [] [
      Mem ''csd'' struct___call_single_data, Mem ''fifo_time'' typedef_u64]),
    Mem ''end_io'' (Ptr ''rq_end_io_fn''), Mem ''end_io_data'' (Ptr ''void'')]"

lemma info_struct_request [c_info]: "info struct_request = (296, 8)"
  by (simp add: struct_request_def c_info)

definition struct_blk_mq_hw_ctx :: ctype where
  "struct_blk_mq_hw_ctx = Struct [] [
    Anon (Struct [] [
      Mem ''lock'' typedef_spinlock_t, Mem ''dispatch'' struct_list_head, Mem ''state'' (Scalar Tulong),
      Pad (Scalar Tlong) 64, Pad (Scalar Tlong) 64, Pad (Scalar Tlong) 64, Pad (Scalar Tlong) 64]),
    Mem ''run_work'' struct_delayed_work, Mem ''cpumask'' typedef_cpumask_var_t, Mem ''next_cpu'' (Scalar Tint),
    Mem ''next_cpu_batch'' (Scalar Tint), Mem ''flags'' (Scalar Tulong), Mem ''sched_data'' (Ptr ''void''),
    Mem ''queue'' (Ptr ''struct request_queue''), Mem ''fq'' (Ptr ''struct blk_flush_queue''),
    Mem ''driver_data'' (Ptr ''void''), Mem ''ctx_map'' struct_sbitmap,
    Mem ''dispatch_from'' (Ptr ''struct blk_mq_ctx''), Mem ''dispatch_busy'' (Scalar Tuint),
    Mem ''type'' (Scalar Tushort), Mem ''nr_ctx'' (Scalar Tushort), Mem ''ctxs'' (Ptr ''struct blk_mq_ctx *''),
    Mem ''dispatch_wait_lock'' typedef_spinlock_t, Mem ''dispatch_wait'' typedef_wait_queue_entry_t,
    Mem ''wait_index'' typedef_atomic_t, Mem ''tags'' (Ptr ''struct blk_mq_tags''),
    Mem ''sched_tags'' (Ptr ''struct blk_mq_tags''), Mem ''queued'' (Scalar Tulong), Mem ''run'' (Scalar Tulong),
    Mem ''dispatched'' (Array (Scalar Tulong) 7), Mem ''numa_node'' (Scalar Tuint), Mem ''queue_num'' (Scalar Tuint),
    Mem ''nr_active'' typedef_atomic_t, Mem ''cpuhp_online'' struct_hlist_node, Mem ''cpuhp_dead'' struct_hlist_node,
    Mem ''kobj'' struct_kobject, Mem ''poll_considered'' (Scalar Tulong), Mem ''poll_invoked'' (Scalar Tulong),
    Mem ''poll_success'' (Scalar Tulong), Mem ''debugfs_dir'' (Ptr ''struct dentry''),
    Mem ''sched_debugfs_dir'' (Ptr ''struct dentry''), Mem ''hctx_list'' struct_list_head,
    Mem ''srcu'' (Array struct_srcu_struct 0), Pad (Scalar Tlong) 64]"

lemma info_struct_blk_mq_hw_ctx [c_info]: "info struct_blk_mq_hw_ctx = (640, 8)"
  by (simp add: struct_blk_mq_hw_ctx_def c_info)

definition struct_blk_mq_ops :: ctype where
  "struct_blk_mq_ops = Struct [] [
    Mem ''queue_rq'' (FunPtr ''blk_status_t'' [''struct blk_mq_hw_ctx *'', ''const struct blk_mq_queue_data *'']),
    Mem ''commit_rqs'' (FunPtr ''void'' [''struct blk_mq_hw_ctx *'']),
    Mem ''get_budget'' (FunPtr ''int'' [''struct request_queue *'']),
    Mem ''put_budget'' (FunPtr ''void'' [''struct request_queue *'', ''int'']),
    Mem ''set_rq_budget_token'' (FunPtr ''void'' [''struct request *'', ''int'']),
    Mem ''get_rq_budget_token'' (FunPtr ''int'' [''struct request *'']),
    Mem ''timeout'' (FunPtr ''enum blk_eh_timer_return'' [''struct request *'', ''bool'']),
    Mem ''poll'' (FunPtr ''int'' [''struct blk_mq_hw_ctx *'']),
    Mem ''complete'' (FunPtr ''void'' [''struct request *'']),
    Mem ''init_hctx'' (FunPtr ''int'' [''struct blk_mq_hw_ctx *'', ''void *'', ''unsigned int'']),
    Mem ''exit_hctx'' (FunPtr ''void'' [''struct blk_mq_hw_ctx *'', ''unsigned int'']),
    Mem ''init_request'' (FunPtr ''int'' [''struct blk_mq_tag_set *'', ''struct request *'', ''unsigned int'', ''unsigned int'']),
    Mem ''exit_request'' (FunPtr ''void'' [''struct blk_mq_tag_set *'', ''struct request *'', ''unsigned int'']),
    Mem ''initialize_rq_fn'' (FunPtr ''void'' [''struct request *'']),
    Mem ''cleanup_rq'' (FunPtr ''void'' [''struct request *'']),
    Mem ''busy'' (FunPtr ''bool'' [''struct request_queue *'']),
    Mem ''map_queues'' (FunPtr ''int'' [''struct blk_mq_tag_set *'']),
    Mem ''show_rq'' (FunPtr ''void'' [''struct seq_file *'', ''struct request *''])]"

lemma info_struct_blk_mq_ops [c_info]: "info struct_blk_mq_ops = (144, 8)"
  by (simp add: struct_blk_mq_ops_def c_info)

definition struct_blk_mq_queue_map :: ctype where
  "struct_blk_mq_queue_map = Struct [] [
    Mem ''mq_map'' (Ptr ''unsigned int''), Mem ''nr_queues'' (Scalar Tuint), Mem ''queue_offset'' (Scalar Tuint)]"

lemma info_struct_blk_mq_queue_map [c_info]: "info struct_blk_mq_queue_map = (16, 8)"
  by (simp add: struct_blk_mq_queue_map_def c_info)

definition struct_blk_mq_tag_set :: ctype where
  "struct_blk_mq_tag_set = Struct [] [
    Mem ''map'' (Array struct_blk_mq_queue_map 3), Mem ''nr_maps'' (Scalar Tuint),
    Mem ''ops'' (Ptr ''const struct blk_mq_ops''), Mem ''nr_hw_queues'' (Scalar Tuint),
    Mem ''queue_depth'' (Scalar Tuint), Mem ''reserved_tags'' (Scalar Tuint), Mem ''cmd_size'' (Scalar Tuint),
    Mem ''numa_node'' (Scalar Tint), Mem ''timeout'' (Scalar Tuint), Mem ''flags'' (Scalar Tuint),
    Mem ''driver_data'' (Ptr ''void''), Mem ''active_queues_shared_sbitmap'' typedef_atomic_t,
    Mem ''__bitmap_tags'' struct_sbitmap_queue, Mem ''__breserved_tags'' struct_sbitmap_queue,
    Mem ''tags'' (Ptr ''struct blk_mq_tags *''), Mem ''tag_list_lock'' struct_mutex, Mem ''tag_list'' struct_list_head]"

lemma info_struct_blk_mq_tag_set [c_info]: "info struct_blk_mq_tag_set = (280, 8)"
  by (simp add: struct_blk_mq_tag_set_def c_info)

definition struct_memcg_vmstats_percpu :: ctype where
  "struct_memcg_vmstats_percpu = Struct [] [
    Mem ''state'' (Array (Scalar Tlong) 42), Mem ''events'' (Array (Scalar Tulong) 99),
    Mem ''state_prev'' (Array (Scalar Tlong) 42), Mem ''events_prev'' (Array (Scalar Tulong) 99),
    Mem ''nr_page_events'' (Scalar Tulong), Mem ''targets'' (Array (Scalar Tulong) 2)]"

lemma info_struct_memcg_vmstats_percpu [c_info]: "info struct_memcg_vmstats_percpu = (2280, 8)"
  by (simp add: struct_memcg_vmstats_percpu_def c_info)

definition struct_mem_cgroup_reclaim_iter :: ctype where
  "struct_mem_cgroup_reclaim_iter = Struct [] [
    Mem ''position'' (Ptr ''struct mem_cgroup''), Mem ''generation'' (Scalar Tuint)]"

lemma info_struct_mem_cgroup_reclaim_iter [c_info]: "info struct_mem_cgroup_reclaim_iter = (16, 8)"
  by (simp add: struct_mem_cgroup_reclaim_iter_def c_info)

definition struct_mem_cgroup_per_node :: ctype where
  "struct_mem_cgroup_per_node = Struct [] [
    Mem ''lruvec'' struct_lruvec, Mem ''lruvec_stats_percpu'' (Ptr ''struct lruvec_stats_percpu''),
    Mem ''lruvec_stats'' struct_lruvec_stats, Mem ''lru_zone_size'' (Array (Scalar Tulong) 25),
    Mem ''iter'' struct_mem_cgroup_reclaim_iter, Mem ''shrinker_info'' (Ptr ''struct shrinker_info''),
    Mem ''tree_node'' struct_rb_node, Mem ''usage_in_excess'' (Scalar Tulong), Mem ''on_tree'' typedef_bool,
    Mem ''memcg'' (Ptr ''struct mem_cgroup'')]"

lemma info_struct_mem_cgroup_per_node [c_info]: "info struct_mem_cgroup_per_node = (1048, 8)"
  by (simp add: struct_mem_cgroup_per_node_def c_info)

definition struct_mem_cgroup_threshold :: ctype where
  "struct_mem_cgroup_threshold = Struct [] [
    Mem ''eventfd'' (Ptr ''struct eventfd_ctx''), Mem ''threshold'' (Scalar Tulong)]"

lemma info_struct_mem_cgroup_threshold [c_info]: "info struct_mem_cgroup_threshold = (16, 8)"
  by (simp add: struct_mem_cgroup_threshold_def c_info)

definition struct_mem_cgroup_threshold_ary :: ctype where
  "struct_mem_cgroup_threshold_ary = Struct [] [
    Mem ''current_threshold'' (Scalar Tint), Mem ''size'' (Scalar Tuint),
    Mem ''entries'' (Array struct_mem_cgroup_threshold 0)]"

lemma info_struct_mem_cgroup_threshold_ary [c_info]: "info struct_mem_cgroup_threshold_ary = (8, 8)"
  by (simp add: struct_mem_cgroup_threshold_ary_def c_info)

definition struct_obj_cgroup :: ctype where
  "struct_obj_cgroup = Struct [] [
    Mem ''refcnt'' struct_percpu_ref, Mem ''memcg'' (Ptr ''struct mem_cgroup''),
    Mem ''nr_charged_bytes'' typedef_atomic_t,
    Anon (Union [] [
      Mem ''list'' struct_list_head, Mem ''rcu'' struct_callback_head])]"

lemma info_struct_obj_cgroup [c_info]: "info struct_obj_cgroup = (48, 8)"
  by (simp add: struct_obj_cgroup_def c_info)

definition struct_pm_qos_flags_request :: ctype where
  "struct_pm_qos_flags_request = Struct [] [
    Mem ''node'' struct_list_head, Mem ''flags'' typedef_s32]"

lemma info_struct_pm_qos_flags_request [c_info]: "info struct_pm_qos_flags_request = (24, 8)"
  by (simp add: struct_pm_qos_flags_request_def c_info)

definition struct_freq_qos_request :: ctype where
  "struct_freq_qos_request = Struct [] [
    Mem ''type'' enum_freq_qos_req_type, Mem ''pnode'' struct_plist_node,
    Mem ''qos'' (Ptr ''struct freq_constraints'')]"

lemma info_struct_freq_qos_request [c_info]: "info struct_freq_qos_request = (56, 8)"
  by (simp add: struct_freq_qos_request_def c_info)

definition struct_dev_pm_qos_request :: ctype where
  "struct_dev_pm_qos_request = Struct [] [
    Mem ''type'' enum_dev_pm_qos_req_type,
    Mem ''data'' (Union [] [
      Mem ''pnode'' struct_plist_node, Mem ''flr'' struct_pm_qos_flags_request, Mem ''freq'' struct_freq_qos_request]),
    Mem ''dev'' (Ptr ''struct device'')]"

lemma info_struct_dev_pm_qos_request [c_info]: "info struct_dev_pm_qos_request = (72, 8)"
  by (simp add: struct_dev_pm_qos_request_def c_info)

definition struct_perf_event_mmap_page :: ctype where
  "struct_perf_event_mmap_page = Struct [] [
    Mem ''version'' typedef___u32, Mem ''compat_version'' typedef___u32, Mem ''lock'' typedef___u32,
    Mem ''index'' typedef___u32, Mem ''offset'' typedef___s64, Mem ''time_enabled'' typedef___u64,
    Mem ''time_running'' typedef___u64,
    Anon (Union [] [
      Mem ''capabilities'' typedef___u64,
      Anon (Struct [] [
        Bits ''cap_bit0'' typedef___u64 1, Bits ''cap_bit0_is_deprecated'' typedef___u64 1,
        Bits ''cap_user_rdpmc'' typedef___u64 1, Bits ''cap_user_time'' typedef___u64 1,
        Bits ''cap_user_time_zero'' typedef___u64 1, Bits ''cap_user_time_short'' typedef___u64 1,
        Bits ''cap_____res'' typedef___u64 58])]),
    Mem ''pmc_width'' typedef___u16, Mem ''time_shift'' typedef___u16, Mem ''time_mult'' typedef___u32,
    Mem ''time_offset'' typedef___u64, Mem ''time_zero'' typedef___u64, Mem ''size'' typedef___u32,
    Mem ''__reserved_1'' typedef___u32, Mem ''time_cycles'' typedef___u64, Mem ''time_mask'' typedef___u64,
    Mem ''__reserved'' (Array typedef___u8 928), Mem ''data_head'' typedef___u64, Mem ''data_tail'' typedef___u64,
    Mem ''data_offset'' typedef___u64, Mem ''data_size'' typedef___u64, Mem ''aux_head'' typedef___u64,
    Mem ''aux_tail'' typedef___u64, Mem ''aux_offset'' typedef___u64, Mem ''aux_size'' typedef___u64]"

lemma info_struct_perf_event_mmap_page [c_info]: "info struct_perf_event_mmap_page = (1088, 8)"
  by (simp add: struct_perf_event_mmap_page_def c_info)

definition struct_wq_device :: ctype where
  "struct_wq_device = Struct [] [
    Mem ''wq'' (Ptr ''struct workqueue_struct''), Mem ''dev'' struct_device]"

lemma info_struct_wq_device [c_info]: "info struct_wq_device = (768, 8)"
  by (simp add: struct_wq_device_def c_info)

definition struct_task_group :: ctype where
  "struct_task_group = Struct [] [
    Mem ''css'' struct_cgroup_subsys_state, Mem ''se'' (Ptr ''struct sched_entity *''),
    Mem ''cfs_rq'' (Ptr ''struct cfs_rq *''), Mem ''shares'' (Scalar Tulong), Mem ''idle'' (Scalar Tint),
    Pad (Scalar Tlong) 64, Pad (Scalar Tlong) 64, Pad (Scalar Tlong) 64, Mem ''load_avg'' typedef_atomic_long_t,
    Mem ''rcu'' struct_callback_head, Mem ''list'' struct_list_head, Mem ''parent'' (Ptr ''struct task_group''),
    Mem ''siblings'' struct_list_head, Mem ''children'' struct_list_head,
    Mem ''autogroup'' (Ptr ''struct autogroup''), Mem ''cfs_bandwidth'' struct_cfs_bandwidth,
    Mem ''uclamp_pct'' (Array (Scalar Tuint) 2), Mem ''uclamp_req'' (Array struct_uclamp_se 2),
    Mem ''uclamp'' (Array struct_uclamp_se 2), Pad (Scalar Tlong) 64, Pad (Scalar Tlong) 64, Pad (Scalar Tlong) 64,
    Pad (Scalar Tlong) 64, Pad (Scalar Tlong) 64, Pad (Scalar Tlong) 64, Pad (Scalar Tlong) 64]"

lemma info_struct_task_group [c_info]: "info struct_task_group = (640, 8)"
  by (simp add: struct_task_group_def c_info)

definition struct_ftrace_hash :: ctype where
  "struct_ftrace_hash = Struct [] [
    Mem ''size_bits'' (Scalar Tulong), Mem ''buckets'' (Ptr ''struct hlist_head''), Mem ''count'' (Scalar Tulong),
    Mem ''flags'' (Scalar Tulong), Mem ''rcu'' struct_callback_head]"

lemma info_struct_ftrace_hash [c_info]: "info struct_ftrace_hash = (48, 8)"
  by (simp add: struct_ftrace_hash_def c_info)

definition struct_event_filter :: ctype where
  "struct_event_filter = Struct [] [
    Mem ''prog'' (Ptr ''struct prog_entry''), Mem ''filter_string'' (Ptr ''char'')]"

lemma info_struct_event_filter [c_info]: "info struct_event_filter = (16, 8)"
  by (simp add: struct_event_filter_def c_info)

definition struct_blk_mq_ctx :: ctype where
  "struct_blk_mq_ctx = Struct [] [
    Anon (Struct [] [
      Mem ''lock'' typedef_spinlock_t, Mem ''rq_lists'' (Array struct_list_head 3), Pad (Scalar Tlong) 64]),
    Mem ''cpu'' (Scalar Tuint), Mem ''index_hw'' (Array (Scalar Tushort) 3),
    Mem ''hctxs'' (Array (Ptr ''struct blk_mq_hw_ctx'') 3), Mem ''rq_dispatched'' (Array (Scalar Tulong) 2),
    Mem ''rq_merged'' (Scalar Tulong), Mem ''rq_completed'' (Array (Scalar Tulong) 2),
    Mem ''queue'' (Ptr ''struct request_queue''), Mem ''ctxs'' (Ptr ''struct blk_mq_ctxs''),
    Mem ''kobj'' struct_kobject, Pad (Scalar Tlong) 64, Pad (Scalar Tlong) 64, Pad (Scalar Tlong) 64,
    Pad (Scalar Tlong) 64]"

lemma info_struct_blk_mq_ctx [c_info]: "info struct_blk_mq_ctx = (256, 8)"
  by (simp add: struct_blk_mq_ctx_def c_info)

definition struct_blk_stat_callback :: ctype where
  "struct_blk_stat_callback = Struct [] [
    Mem ''list'' struct_list_head, Mem ''timer'' struct_timer_list, Mem ''cpu_stat'' (Ptr ''struct blk_rq_stat''),
    Mem ''bucket_fn'' (FunPtr ''int'' [''const struct request *'']), Mem ''buckets'' (Scalar Tuint),
    Mem ''stat'' (Ptr ''struct blk_rq_stat''), Mem ''timer_fn'' (FunPtr ''void'' [''struct blk_stat_callback *'']),
    Mem ''data'' (Ptr ''void''), Mem ''rcu'' struct_callback_head]"

lemma info_struct_blk_stat_callback [c_info]: "info struct_blk_stat_callback = (120, 8)"
  by (simp add: struct_blk_stat_callback_def c_info)

definition struct_blk_trace :: ctype where
  "struct_blk_trace = Struct [] [
    Mem ''trace_state'' (Scalar Tint), Mem ''rchan'' (Ptr ''struct rchan''),
    Mem ''sequence'' (Ptr ''long unsigned int''), Mem ''msg_data'' (Ptr ''unsigned char''),
    Mem ''act_mask'' typedef_u16, Mem ''start_lba'' typedef_u64, Mem ''end_lba'' typedef_u64, Mem ''pid'' typedef_u32,
    Mem ''dev'' typedef_u32, Mem ''dir'' (Ptr ''struct dentry''), Mem ''running_list'' struct_list_head,
    Mem ''dropped'' typedef_atomic_t]"

lemma info_struct_blk_trace [c_info]: "info struct_blk_trace = (96, 8)"
  by (simp add: struct_blk_trace_def c_info)

definition struct_blk_flush_queue :: ctype where
  "struct_blk_flush_queue = Struct [] [
    Bits ''flush_pending_idx'' (Scalar Tuint) 1, Bits ''flush_running_idx'' (Scalar Tuint) 1,
    Mem ''rq_status'' typedef_blk_status_t, Mem ''flush_pending_since'' (Scalar Tulong),
    Mem ''flush_queue'' (Array struct_list_head 2), Mem ''flush_data_in_flight'' struct_list_head,
    Mem ''flush_rq'' (Ptr ''struct request''), Mem ''mq_flush_lock'' typedef_spinlock_t]"

lemma info_struct_blk_flush_queue [c_info]: "info struct_blk_flush_queue = (80, 8)"
  by (simp add: struct_blk_flush_queue_def c_info)

definition struct_perf_buffer :: ctype where
  "struct_perf_buffer = Struct [] [
    Mem ''refcount'' typedef_refcount_t, Mem ''callback_head'' struct_callback_head, Mem ''nr_pages'' (Scalar Tint),
    Mem ''overwrite'' (Scalar Tint), Mem ''paused'' (Scalar Tint), Mem ''poll'' typedef_atomic_t,
    Mem ''head'' typedef_local_t, Mem ''nest'' (Scalar Tuint), Mem ''events'' typedef_local_t,
    Mem ''wakeup'' typedef_local_t, Mem ''lost'' typedef_local_t, Mem ''watermark'' (Scalar Tlong),
    Mem ''aux_watermark'' (Scalar Tlong), Mem ''event_lock'' typedef_spinlock_t, Mem ''event_list'' struct_list_head,
    Mem ''mmap_count'' typedef_atomic_t, Mem ''mmap_locked'' (Scalar Tulong),
    Mem ''mmap_user'' (Ptr ''struct user_struct''), Mem ''aux_mutex'' struct_mutex, Mem ''aux_head'' (Scalar Tlong),
    Mem ''aux_nest'' (Scalar Tuint), Mem ''aux_wakeup'' (Scalar Tlong), Mem ''aux_pgoff'' (Scalar Tulong),
    Mem ''aux_nr_pages'' (Scalar Tint), Mem ''aux_overwrite'' (Scalar Tint), Mem ''aux_mmap_count'' typedef_atomic_t,
    Mem ''aux_mmap_locked'' (Scalar Tulong), Mem ''free_aux'' (FunPtr ''void'' [''void *'']),
    Mem ''aux_refcount'' typedef_refcount_t, Mem ''aux_in_sampling'' (Scalar Tint),
    Mem ''aux_pages'' (Ptr ''void *''), Mem ''aux_priv'' (Ptr ''void''),
    Mem ''user_page'' (Ptr ''struct perf_event_mmap_page''), Mem ''data_pages'' (Array (Ptr ''void'') 0)]"

lemma info_struct_perf_buffer [c_info]: "info struct_perf_buffer = (272, 8)"
  by (simp add: struct_perf_buffer_def c_info)

definition struct_bio_alloc_cache :: ctype where
  "struct_bio_alloc_cache = Struct [] [
    Mem ''free_list'' struct_bio_list, Mem ''nr'' (Scalar Tuint)]"

lemma info_struct_bio_alloc_cache [c_info]: "info struct_bio_alloc_cache = (24, 8)"
  by (simp add: struct_bio_alloc_cache_def c_info)

definition struct_blk_queue_stats :: ctype where
  "struct_blk_queue_stats = Struct [] [
    Mem ''callbacks'' struct_list_head, Mem ''lock'' typedef_spinlock_t, Mem ''enable_accounting'' typedef_bool]"

lemma info_struct_blk_queue_stats [c_info]: "info struct_blk_queue_stats = (24, 8)"
  by (simp add: struct_blk_queue_stats_def c_info)

definition struct_blk_ksm_ll_ops :: ctype where
  "struct_blk_ksm_ll_ops = Struct [] [
    Mem ''keyslot_program'' (FunPtr ''int'' [''struct blk_keyslot_manager *'', ''const struct blk_crypto_key *'', ''unsigned int'']),
    Mem ''keyslot_evict'' (FunPtr ''int'' [''struct blk_keyslot_manager *'', ''const struct blk_crypto_key *'', ''unsigned int''])]"

lemma info_struct_blk_ksm_ll_ops [c_info]: "info struct_blk_ksm_ll_ops = (16, 8)"
  by (simp add: struct_blk_ksm_ll_ops_def c_info)

definition struct_blk_keyslot_manager :: ctype where
  "struct_blk_keyslot_manager = Struct [] [
    Mem ''ksm_ll_ops'' struct_blk_ksm_ll_ops, Mem ''max_dun_bytes_supported'' (Scalar Tuint),
    Mem ''crypto_modes_supported'' (Array (Scalar Tuint) 4), Mem ''dev'' (Ptr ''struct device''),
    Mem ''num_slots'' (Scalar Tuint), Mem ''lock'' struct_rw_semaphore,
    Mem ''idle_slots_wait_queue'' typedef_wait_queue_head_t, Mem ''idle_slots'' struct_list_head,
    Mem ''idle_slots_lock'' typedef_spinlock_t, Mem ''slot_hashtable'' (Ptr ''struct hlist_head''),
    Mem ''log_slot_ht_size'' (Scalar Tuint), Mem ''slots'' (Ptr ''struct blk_ksm_keyslot'')]"

lemma info_struct_blk_keyslot_manager [c_info]: "info struct_blk_keyslot_manager = (168, 8)"
  by (simp add: struct_blk_keyslot_manager_def c_info)

definition struct_io_submit_state :: ctype where
  "struct_io_submit_state = Struct [] [
    Mem ''plug'' struct_blk_plug, Mem ''link'' struct_io_submit_link, Mem ''reqs'' (Array (Ptr ''void'') 32),
    Mem ''free_reqs'' (Scalar Tuint), Mem ''plug_started'' typedef_bool,
    Mem ''compl_reqs'' (Array (Ptr ''struct io_kiocb'') 32), Mem ''compl_nr'' (Scalar Tuint),
    Mem ''free_list'' struct_list_head, Mem ''ios_left'' (Scalar Tuint)]"

lemma info_struct_io_submit_state [c_info]: "info struct_io_submit_state = (608, 8)"
  by (simp add: struct_io_submit_state_def c_info)

definition struct_io_ring_ctx :: ctype where
  "struct_io_ring_ctx = Struct [] [
    Anon (Struct [] [
      Mem ''refs'' struct_percpu_ref, Mem ''rings'' (Ptr ''struct io_rings''), Mem ''flags'' (Scalar Tuint),
      Bits ''compat'' (Scalar Tuint) 1, Bits ''drain_next'' (Scalar Tuint) 1, Bits ''eventfd_async'' (Scalar Tuint) 1,
      Bits ''restricted'' (Scalar Tuint) 1, Bits ''off_timeout_used'' (Scalar Tuint) 1,
      Bits ''drain_active'' (Scalar Tuint) 1, Pad (Scalar Tlong) 64, Pad (Scalar Tlong) 64, Pad (Scalar Tlong) 64,
      Pad (Scalar Tlong) 64]),
    Anon (Struct [] [
      Mem ''uring_lock'' struct_mutex, Mem ''sq_array'' (Ptr ''u32''), Mem ''sq_sqes'' (Ptr ''struct io_uring_sqe''),
      Mem ''cached_sq_head'' (Scalar Tuint), Mem ''sq_entries'' (Scalar Tuint), Mem ''defer_list'' struct_list_head,
      Mem ''rsrc_node'' (Ptr ''struct io_rsrc_node''), Mem ''file_table'' struct_io_file_table,
      Mem ''nr_user_files'' (Scalar Tuint), Mem ''nr_user_bufs'' (Scalar Tuint),
      Mem ''user_bufs'' (Ptr ''struct io_mapped_ubuf *''), Mem ''submit_state'' struct_io_submit_state,
      Mem ''timeout_list'' struct_list_head, Mem ''ltimeout_list'' struct_list_head,
      Mem ''cq_overflow_list'' struct_list_head, Mem ''io_buffers'' struct_xarray,
      Mem ''personalities'' struct_xarray, Mem ''pers_next'' typedef_u32, Mem ''sq_thread_idle'' (Scalar Tuint),
      Pad (Scalar Tlong) 64, Pad (Scalar Tlong) 64, Pad (Scalar Tlong) 64, Pad (Scalar Tlong) 64]),
    Mem ''locked_free_list'' struct_list_head, Mem ''locked_free_nr'' (Scalar Tuint),
    Mem ''sq_creds'' (Ptr ''const struct cred''), Mem ''sq_data'' (Ptr ''struct io_sq_data''),
    Mem ''sqo_sq_wait'' struct_wait_queue_head, Mem ''sqd_list'' struct_list_head,
    Mem ''check_cq_overflow'' (Scalar Tulong), Pad (Scalar Tlong) 64, Pad (Scalar Tlong) 64, Pad (Scalar Tlong) 64,
    Pad (Scalar Tlong) 64, Pad (Scalar Tlong) 64,
    Anon (Struct [] [
      Mem ''cached_cq_tail'' (Scalar Tuint), Mem ''cq_entries'' (Scalar Tuint),
      Mem ''cq_ev_fd'' (Ptr ''struct eventfd_ctx''), Mem ''poll_wait'' struct_wait_queue_head,
      Mem ''cq_wait'' struct_wait_queue_head, Mem ''cq_extra'' (Scalar Tuint), Mem ''cq_timeouts'' typedef_atomic_t,
      Mem ''cq_last_tm_flush'' (Scalar Tuint), Pad (Scalar Tlong) 64, Pad (Scalar Tlong) 64, Pad (Scalar Tlong) 64,
      Pad (Scalar Tlong) 64, Pad (Scalar Tlong) 64, Pad (Scalar Tlong) 64]),
    Anon (Struct [] [
      Mem ''completion_lock'' typedef_spinlock_t, Mem ''timeout_lock'' typedef_spinlock_t,
      Mem ''iopoll_list'' struct_list_head, Mem ''cancel_hash'' (Ptr ''struct hlist_head''),
      Mem ''cancel_hash_bits'' (Scalar Tuint), Mem ''poll_multi_queue'' typedef_bool, Pad (Scalar Tlong) 64,
      Pad (Scalar Tlong) 64, Pad (Scalar Tlong) 64]),
    Mem ''restrictions'' struct_io_restriction,
    Anon (Struct [] [
      Mem ''rsrc_backup_node'' (Ptr ''struct io_rsrc_node''), Mem ''dummy_ubuf'' (Ptr ''struct io_mapped_ubuf''),
      Mem ''file_data'' (Ptr ''struct io_rsrc_data''), Mem ''buf_data'' (Ptr ''struct io_rsrc_data''),
      Mem ''rsrc_put_work'' struct_delayed_work, Mem ''rsrc_put_llist'' struct_llist_head,
      Mem ''rsrc_ref_list'' struct_list_head, Mem ''rsrc_ref_lock'' typedef_spinlock_t]),
    Anon (Struct [] [
      Mem ''hash_map'' (Ptr ''struct io_wq_hash''), Mem ''user'' (Ptr ''struct user_struct''),
      Mem ''mm_account'' (Ptr ''struct mm_struct''), Mem ''fallback_llist'' struct_llist_head,
      Mem ''fallback_work'' struct_delayed_work, Mem ''exit_work'' struct_work_struct,
      Mem ''tctx_list'' struct_list_head, Mem ''ref_comp'' struct_completion,
      Mem ''iowq_limits'' (Array typedef_u32 2), Mem ''iowq_limits_set'' typedef_bool]),
    Pad (Scalar Tlong) 64, Pad (Scalar Tlong) 64, Pad (Scalar Tlong) 64, Pad (Scalar Tlong) 64, Pad (Scalar Tlong) 64,
    Pad (Scalar Tlong) 64, Pad (Scalar Tlong) 64]"

lemma info_struct_io_ring_ctx [c_info]: "info struct_io_ring_ctx = (1664, 8)"
  by (simp add: struct_io_ring_ctx_def c_info)

definition struct_mdio_device :: ctype where
  "struct_mdio_device = Struct [] [
    Mem ''dev'' struct_device, Mem ''bus'' (Ptr ''struct mii_bus''), Mem ''modalias'' (Array (Scalar Tchar) 32),
    Mem ''bus_match'' (FunPtr ''int'' [''struct device *'', ''struct device_driver *'']),
    Mem ''device_free'' (FunPtr ''void'' [''struct mdio_device *'']),
    Mem ''device_remove'' (FunPtr ''void'' [''struct mdio_device *'']), Mem ''addr'' (Scalar Tint),
    Mem ''flags'' (Scalar Tint), Mem ''reset_gpio'' (Ptr ''struct gpio_desc''),
    Mem ''reset_ctrl'' (Ptr ''struct reset_control''), Mem ''reset_assert_delay'' (Scalar Tuint),
    Mem ''reset_deassert_delay'' (Scalar Tuint)]"

lemma info_struct_mdio_device [c_info]: "info struct_mdio_device = (856, 8)"
  by (simp add: struct_mdio_device_def c_info)

definition struct_phy_device :: ctype where
  "struct_phy_device = Struct [] [
    Mem ''mdio'' struct_mdio_device, Mem ''drv'' (Ptr ''struct phy_driver''), Mem ''phy_id'' typedef_u32,
    Mem ''c45_ids'' struct_phy_c45_device_ids, Bits ''is_c45'' (Scalar Tuint) 1,
    Bits ''is_internal'' (Scalar Tuint) 1, Bits ''is_pseudo_fixed_link'' (Scalar Tuint) 1,
    Bits ''is_gigabit_capable'' (Scalar Tuint) 1, Bits ''has_fixups'' (Scalar Tuint) 1,
    Bits ''suspended'' (Scalar Tuint) 1, Bits ''suspended_by_mdio_bus'' (Scalar Tuint) 1,
    Bits ''sysfs_links'' (Scalar Tuint) 1, Bits ''loopback_enabled'' (Scalar Tuint) 1,
    Bits ''downshifted_rate'' (Scalar Tuint) 1, Bits ''is_on_sfp_module'' (Scalar Tuint) 1,
    Bits ''mac_managed_pm'' (Scalar Tuint) 1, Bits ''autoneg'' (Scalar Tuint) 1, Bits ''link'' (Scalar Tuint) 1,
    Bits ''autoneg_complete'' (Scalar Tuint) 1, Bits ''interrupts'' (Scalar Tuint) 1,
    Bits ''irq_suspended'' (Scalar Tuint) 1, Bits ''irq_rerun'' (Scalar Tuint) 1, Mem ''state'' enum_phy_state,
    Mem ''dev_flags'' typedef_u32, Mem ''interface'' typedef_phy_interface_t, Mem ''speed'' (Scalar Tint),
    Mem ''duplex'' (Scalar Tint), Mem ''port'' (Scalar Tint), Mem ''pause'' (Scalar Tint),
    Mem ''asym_pause'' (Scalar Tint), Mem ''master_slave_get'' typedef_u8, Mem ''master_slave_set'' typedef_u8,
    Mem ''master_slave_state'' typedef_u8, Mem ''supported'' (Array (Scalar Tulong) 2),
    Mem ''advertising'' (Array (Scalar Tulong) 2), Mem ''lp_advertising'' (Array (Scalar Tulong) 2),
    Mem ''adv_old'' (Array (Scalar Tulong) 2), Mem ''eee_broken_modes'' typedef_u32,
    Mem ''phy_led_triggers'' (Ptr ''struct phy_led_trigger''), Mem ''phy_num_led_triggers'' (Scalar Tuint),
    Mem ''last_triggered'' (Ptr ''struct phy_led_trigger''),
    Mem ''led_link_trigger'' (Ptr ''struct phy_led_trigger''), Mem ''irq'' (Scalar Tint), Mem ''priv'' (Ptr ''void''),
    Mem ''shared'' (Ptr ''struct phy_package_shared''), Mem ''skb'' (Ptr ''struct sk_buff''),
    Mem ''ehdr'' (Ptr ''void''), Mem ''nest'' (Ptr ''struct nlattr''), Mem ''state_queue'' struct_delayed_work,
    Mem ''lock'' struct_mutex, Mem ''sfp_bus_attached'' typedef_bool, Mem ''sfp_bus'' (Ptr ''struct sfp_bus''),
    Mem ''phylink'' (Ptr ''struct phylink''), Mem ''attached_dev'' (Ptr ''struct net_device''),
    Mem ''mii_ts'' (Ptr ''struct mii_timestamper''), Mem ''mdix'' typedef_u8, Mem ''mdix_ctrl'' typedef_u8,
    Mem ''phy_link_change'' (FunPtr ''void'' [''struct phy_device *'', ''bool'']),
    Mem ''adjust_link'' (FunPtr ''void'' [''struct net_device *'']),
    Mem ''macsec_ops'' (Ptr ''const struct macsec_ops'')]"

lemma info_struct_phy_device [c_info]: "info struct_phy_device = (1392, 8)"
  by (simp add: struct_phy_device_def c_info)

definition struct_mii_bus :: ctype where
  "struct_mii_bus = Struct [] [
    Mem ''owner'' (Ptr ''struct module''), Mem ''name'' (Ptr ''const char''), Mem ''id'' (Array (Scalar Tchar) 61),
    Mem ''priv'' (Ptr ''void''), Mem ''read'' (FunPtr ''int'' [''struct mii_bus *'', ''int'', ''int'']),
    Mem ''write'' (FunPtr ''int'' [''struct mii_bus *'', ''int'', ''int'', ''u16'']),
    Mem ''reset'' (FunPtr ''int'' [''struct mii_bus *'']), Mem ''stats'' (Array struct_mdio_bus_stats 32),
    Mem ''mdio_lock'' struct_mutex, Mem ''parent'' (Ptr ''struct device''),
    Mem ''state'' (Enum [
      (''MDIOBUS_ALLOCATED'', 1), (''MDIOBUS_REGISTERED'', 2), (''MDIOBUS_UNREGISTERED'', 3),
      (''MDIOBUS_RELEASED'', 4)]),
    Mem ''dev'' struct_device, Mem ''mdio_map'' (Array (Ptr ''struct mdio_device'') 32), Mem ''phy_mask'' typedef_u32,
    Mem ''phy_ignore_ta_mask'' typedef_u32, Mem ''irq'' (Array (Scalar Tint) 32),
    Mem ''reset_delay_us'' (Scalar Tint), Mem ''reset_post_delay_us'' (Scalar Tint),
    Mem ''reset_gpiod'' (Ptr ''struct gpio_desc''),
    Mem ''probe_capabilities'' (Enum [
      (''MDIOBUS_NO_CAP'', 0), (''MDIOBUS_C22'', 1), (''MDIOBUS_C45'', 2), (''MDIOBUS_C22_C45'', 3)]),
    Mem ''shared_lock'' struct_mutex, Mem ''shared'' (Array (Ptr ''struct phy_package_shared'') 32)]"

lemma info_struct_mii_bus [c_info]: "info struct_mii_bus = (2648, 8)"
  by (simp add: struct_mii_bus_def c_info)

definition struct_wpan_phy :: ctype where
  "struct_wpan_phy = Struct [] [
    Mem ''privid'' (Ptr ''const void''), Mem ''flags'' typedef_u32, Mem ''current_channel'' typedef_u8,
    Mem ''current_page'' typedef_u8, Mem ''supported'' struct_wpan_phy_supported, Mem ''transmit_power'' typedef_s32,
    Mem ''cca'' struct_wpan_phy_cca, Mem ''perm_extended_addr'' typedef___le64, Mem ''cca_ed_level'' typedef_s32,
    Mem ''symbol_duration'' typedef_u8, Mem ''lifs_period'' typedef_u16, Mem ''sifs_period'' typedef_u16,
    Mem ''dev'' struct_device, Mem ''_net'' typedef_possible_net_t, Pad (Scalar Tlong) 64, Pad (Scalar Tlong) 64,
    Mem ''priv'' (Array (Scalar Tchar) 0)]"

lemma info_struct_wpan_phy [c_info]: "info struct_wpan_phy = (1024, 8)"
  by (simp add: struct_wpan_phy_def c_info)

end
