(* ===== verification/Vmlinux_Netns.thy ===== *)
theory Vmlinux_Netns
  imports Vmlinux_Trace
begin

text \<open>
  Kernel objects of src/internal/sentinel/bpf/vmlinux.h that the BPF types point to. Network devices, routes, neighbours and
  the network name space.
\<close>

definition struct_page_pool_params :: ctype where
  "struct_page_pool_params = Struct [] [
    Mem ''flags'' (Scalar Tuint), Mem ''order'' (Scalar Tuint), Mem ''pool_size'' (Scalar Tuint),
    Mem ''nid'' (Scalar Tint), Mem ''dev'' (Ptr ''struct device''), Mem ''dma_dir'' enum_dma_data_direction,
    Mem ''max_len'' (Scalar Tuint), Mem ''offset'' (Scalar Tuint)]"

lemma info_struct_page_pool_params [c_info]: "info struct_page_pool_params = (40, 8)"
  by (simp add: struct_page_pool_params_def c_info)

definition struct_page_pool :: ctype where
  "struct_page_pool = Struct [] [
    Mem ''p'' struct_page_pool_params, Mem ''release_dw'' struct_delayed_work,
    Mem ''disconnect'' (FunPtr ''void'' [''void *'']), Mem ''defer_start'' (Scalar Tulong),
    Mem ''defer_warn'' (Scalar Tulong), Mem ''pages_state_hold_cnt'' typedef_u32, Mem ''frag_offset'' (Scalar Tuint),
    Mem ''frag_page'' (Ptr ''struct page''), Mem ''frag_users'' (Scalar Tlong), Pad (Scalar Tlong) 64,
    Pad (Scalar Tlong) 64, Mem ''alloc'' struct_pp_alloc_cache, Pad (Scalar Tlong) 64, Pad (Scalar Tlong) 64,
    Pad (Scalar Tlong) 64, Pad (Scalar Tlong) 64, Pad (Scalar Tlong) 64, Pad (Scalar Tlong) 64, Pad (Scalar Tlong) 64,
    Mem ''ring'' struct_ptr_ring, Mem ''pages_state_release_cnt'' typedef_atomic_t,
    Mem ''user_cnt'' typedef_refcount_t, Mem ''destroy_cnt'' typedef_u64, Pad (Scalar Tlong) 64,
    Pad (Scalar Tlong) 64, Pad (Scalar Tlong) 64, Pad (Scalar Tlong) 64, Pad (Scalar Tlong) 64, Pad (Scalar Tlong) 64]"

lemma info_struct_page_pool [c_info]: "info struct_page_pool = (1536, 8)"
  by (simp add: struct_page_pool_def c_info)

definition struct_netns_core :: ctype where
  "struct_netns_core = Struct [] [
    Mem ''sysctl_hdr'' (Ptr ''struct ctl_table_header''), Mem ''sysctl_somaxconn'' (Scalar Tint),
    Mem ''sock_inuse'' (Ptr ''int''), Mem ''prot_inuse'' (Ptr ''struct prot_inuse'')]"

lemma info_struct_netns_core [c_info]: "info struct_netns_core = (32, 8)"
  by (simp add: struct_netns_core_def c_info)

definition struct_netns_mib :: ctype where
  "struct_netns_mib = Struct [] [
    Mem ''ip_statistics'' (Ptr ''struct ipstats_mib''), Mem ''ipv6_statistics'' (Ptr ''struct ipstats_mib''),
    Mem ''tcp_statistics'' (Ptr ''struct tcp_mib''), Mem ''net_statistics'' (Ptr ''struct linux_mib''),
    Mem ''udp_statistics'' (Ptr ''struct udp_mib''), Mem ''udp_stats_in6'' (Ptr ''struct udp_mib''),
    Mem ''xfrm_statistics'' (Ptr ''struct linux_xfrm_mib''), Mem ''tls_statistics'' (Ptr ''struct linux_tls_mib''),
    Mem ''mptcp_statistics'' (Ptr ''struct mptcp_mib''), Mem ''udplite_statistics'' (Ptr ''struct udp_mib''),
    Mem ''udplite_stats_in6'' (Ptr ''struct udp_mib''), Mem ''icmp_statistics'' (Ptr ''struct icmp_mib''),
    Mem ''icmpmsg_statistics'' (Ptr ''struct icmpmsg_mib''), Mem ''icmpv6_statistics'' (Ptr ''struct icmpv6_mib''),
    Mem ''icmpv6msg_statistics'' (Ptr ''struct icmpv6msg_mib''),
    Mem ''proc_net_devsnmp6'' (Ptr ''struct proc_dir_entry'')]"

lemma info_struct_netns_mib [c_info]: "info struct_netns_mib = (128, 8)"
  by (simp add: struct_netns_mib_def c_info)

definition struct_netns_packet :: ctype where
  "struct_netns_packet = Struct [] [
    Mem ''sklist_lock'' struct_mutex, Mem ''sklist'' struct_hlist_head]"

lemma info_struct_netns_packet [c_info]: "info struct_netns_packet = (40, 8)"
  by (simp add: struct_netns_packet_def c_info)

definition struct_netns_unix :: ctype where
  "struct_netns_unix = Struct [] [
    Mem ''sysctl_max_dgram_qlen'' (Scalar Tint), Mem ''ctl'' (Ptr ''struct ctl_table_header'')]"

lemma info_struct_netns_unix [c_info]: "info struct_netns_unix = (16, 8)"
  by (simp add: struct_netns_unix_def c_info)

definition struct_netns_nexthop :: ctype where
  "struct_netns_nexthop = Struct [] [
    Mem ''rb_root'' struct_rb_root, Mem ''devhash'' (Ptr ''struct hlist_head''), Mem ''seq'' (Scalar Tuint),
    Mem ''last_id_allocated'' typedef_u32, Mem ''notifier_chain'' struct_blocking_notifier_head]"

lemma info_struct_netns_nexthop [c_info]: "info struct_netns_nexthop = (72, 8)"
  by (simp add: struct_netns_nexthop_def c_info)

definition struct_ping_group_range :: ctype where
  "struct_ping_group_range = Struct [] [
    Mem ''lock'' typedef_seqlock_t, Mem ''range'' (Array typedef_kgid_t 2)]"

lemma info_struct_ping_group_range [c_info]: "info struct_ping_group_range = (16, 4)"
  by (simp add: struct_ping_group_range_def c_info)

definition struct_dst_ops :: ctype where
  "struct_dst_ops = Struct [] [
    Mem ''family'' (Scalar Tushort), Mem ''gc_thresh'' (Scalar Tuint),
    Mem ''gc'' (FunPtr ''void'' [''struct dst_ops *'']),
    Mem ''check'' (FunPtr ''struct dst_entry *'' [''struct dst_entry *'', ''__u32'']),
    Mem ''default_advmss'' (FunPtr ''unsigned int'' [''const struct dst_entry *'']),
    Mem ''mtu'' (FunPtr ''unsigned int'' [''const struct dst_entry *'']),
    Mem ''cow_metrics'' (FunPtr ''u32 *'' [''struct dst_entry *'', ''long unsigned int'']),
    Mem ''destroy'' (FunPtr ''void'' [''struct dst_entry *'']),
    Mem ''ifdown'' (FunPtr ''void'' [''struct dst_entry *'', ''struct net_device *'', ''int'']),
    Mem ''negative_advice'' (FunPtr ''void'' [''struct sock *'', ''struct dst_entry *'']),
    Mem ''link_failure'' (FunPtr ''void'' [''struct sk_buff *'']),
    Mem ''update_pmtu'' (FunPtr ''void'' [''struct dst_entry *'', ''struct sock *'', ''struct sk_buff *'', ''u32'', ''bool'']),
    Mem ''redirect'' (FunPtr ''void'' [''struct dst_entry *'', ''struct sock *'', ''struct sk_buff *'']),
    Mem ''local_out'' (FunPtr ''int'' [''struct net *'', ''struct sock *'', ''struct sk_buff *'']),
    Mem ''neigh_lookup'' (FunPtr ''struct neighbour *'' [''const struct dst_entry *'', ''struct sk_buff *'', ''const void *'']),
    Mem ''confirm_neigh'' (FunPtr ''void'' [''const struct dst_entry *'', ''const void *'']),
    Mem ''kmem_cachep'' (Ptr ''struct kmem_cache''), Mem ''pcpuc_entries'' struct_percpu_counter,
    Pad (Scalar Tlong) 64, Pad (Scalar Tlong) 64, Pad (Scalar Tlong) 64]"

lemma info_struct_dst_ops [c_info]: "info struct_dst_ops = (192, 8)"
  by (simp add: struct_dst_ops_def c_info)

definition struct_netns_sysctl_ipv6 :: ctype where
  "struct_netns_sysctl_ipv6 = Struct [] [
    Mem ''hdr'' (Ptr ''struct ctl_table_header''), Mem ''route_hdr'' (Ptr ''struct ctl_table_header''),
    Mem ''icmp_hdr'' (Ptr ''struct ctl_table_header''), Mem ''frags_hdr'' (Ptr ''struct ctl_table_header''),
    Mem ''xfrm6_hdr'' (Ptr ''struct ctl_table_header''), Mem ''flush_delay'' (Scalar Tint),
    Mem ''ip6_rt_max_size'' (Scalar Tint), Mem ''ip6_rt_gc_min_interval'' (Scalar Tint),
    Mem ''ip6_rt_gc_timeout'' (Scalar Tint), Mem ''ip6_rt_gc_interval'' (Scalar Tint),
    Mem ''ip6_rt_gc_elasticity'' (Scalar Tint), Mem ''ip6_rt_mtu_expires'' (Scalar Tint),
    Mem ''ip6_rt_min_advmss'' (Scalar Tint), Mem ''multipath_hash_fields'' typedef_u32,
    Mem ''multipath_hash_policy'' typedef_u8, Mem ''bindv6only'' typedef_u8, Mem ''flowlabel_consistency'' typedef_u8,
    Mem ''auto_flowlabels'' typedef_u8, Mem ''icmpv6_time'' (Scalar Tint), Mem ''icmpv6_echo_ignore_all'' typedef_u8,
    Mem ''icmpv6_echo_ignore_multicast'' typedef_u8, Mem ''icmpv6_echo_ignore_anycast'' typedef_u8,
    Mem ''icmpv6_ratemask'' (Array (Scalar Tulong) 4), Mem ''icmpv6_ratemask_ptr'' (Ptr ''long unsigned int''),
    Mem ''anycast_src_echo_reply'' typedef_u8, Mem ''ip_nonlocal_bind'' typedef_u8, Mem ''fwmark_reflect'' typedef_u8,
    Mem ''flowlabel_state_ranges'' typedef_u8, Mem ''idgen_retries'' (Scalar Tint), Mem ''idgen_delay'' (Scalar Tint),
    Mem ''flowlabel_reflect'' (Scalar Tint), Mem ''max_dst_opts_cnt'' (Scalar Tint),
    Mem ''max_hbh_opts_cnt'' (Scalar Tint), Mem ''max_dst_opts_len'' (Scalar Tint),
    Mem ''max_hbh_opts_len'' (Scalar Tint), Mem ''seg6_flowlabel'' (Scalar Tint), Mem ''ioam6_id'' typedef_u32,
    Mem ''ioam6_id_wide'' typedef_u64, Mem ''skip_notify_on_dev_down'' (Scalar Tint),
    Mem ''fib_notify_on_flag_change'' typedef_u8]"

lemma info_struct_netns_sysctl_ipv6 [c_info]: "info struct_netns_sysctl_ipv6 = (184, 8)"
  by (simp add: struct_netns_sysctl_ipv6_def c_info)

definition struct_netns_ipv6 :: ctype where
  "struct_netns_ipv6 = Struct [] [
    Mem ''ip6_dst_ops'' struct_dst_ops, Mem ''sysctl'' struct_netns_sysctl_ipv6,
    Mem ''devconf_all'' (Ptr ''struct ipv6_devconf''), Mem ''devconf_dflt'' (Ptr ''struct ipv6_devconf''),
    Mem ''peers'' (Ptr ''struct inet_peer_base''), Mem ''fqdir'' (Ptr ''struct fqdir''),
    Mem ''fib6_null_entry'' (Ptr ''struct fib6_info''), Mem ''ip6_null_entry'' (Ptr ''struct rt6_info''),
    Mem ''rt6_stats'' (Ptr ''struct rt6_statistics''), Mem ''ip6_fib_timer'' struct_timer_list,
    Mem ''fib_table_hash'' (Ptr ''struct hlist_head''), Mem ''fib6_main_tbl'' (Ptr ''struct fib6_table''),
    Mem ''fib6_walkers'' struct_list_head, Mem ''fib6_walker_lock'' typedef_rwlock_t,
    Mem ''fib6_gc_lock'' typedef_spinlock_t, Mem ''ip6_rt_gc_expire'' typedef_atomic_t,
    Mem ''ip6_rt_last_gc'' (Scalar Tulong), Mem ''flowlabel_has_excl'' (Scalar Tuchar),
    Mem ''fib6_has_custom_rules'' typedef_bool, Mem ''fib6_rules_require_fldissect'' (Scalar Tuint),
    Mem ''fib6_routes_require_src'' (Scalar Tuint), Mem ''ip6_prohibit_entry'' (Ptr ''struct rt6_info''),
    Mem ''ip6_blk_hole_entry'' (Ptr ''struct rt6_info''), Mem ''fib6_local_tbl'' (Ptr ''struct fib6_table''),
    Mem ''fib6_rules_ops'' (Ptr ''struct fib_rules_ops''), Mem ''icmp_sk'' (Ptr ''struct sock *''),
    Mem ''ndisc_sk'' (Ptr ''struct sock''), Mem ''tcp_sk'' (Ptr ''struct sock''),
    Mem ''igmp_sk'' (Ptr ''struct sock''), Mem ''mc_autojoin_sk'' (Ptr ''struct sock''),
    Mem ''mr6_tables'' struct_list_head, Mem ''mr6_rules_ops'' (Ptr ''struct fib_rules_ops''),
    Mem ''dev_addr_genid'' typedef_atomic_t, Mem ''fib6_sernum'' typedef_atomic_t,
    Mem ''seg6_data'' (Ptr ''struct seg6_pernet_data''), Mem ''notifier_ops'' (Ptr ''struct fib_notifier_ops''),
    Mem ''ip6mr_notifier_ops'' (Ptr ''struct fib_notifier_ops''), Mem ''ipmr_seq'' (Scalar Tuint),
    Mem ''ip6addrlbl_table'' (Struct [] [
      Mem ''head'' struct_hlist_head, Mem ''lock'' typedef_spinlock_t, Mem ''seq'' typedef_u32]),
    Mem ''ioam6_data'' (Ptr ''struct ioam6_pernet_data'')]"

lemma info_struct_netns_ipv6 [c_info]: "info struct_netns_ipv6 = (704, 8)"
  by (simp add: struct_netns_ipv6_def c_info)

definition struct_netns_sysctl_lowpan :: ctype where
  "struct_netns_sysctl_lowpan = Struct [] [
    Mem ''frags_hdr'' (Ptr ''struct ctl_table_header'')]"

lemma info_struct_netns_sysctl_lowpan [c_info]: "info struct_netns_sysctl_lowpan = (8, 8)"
  by (simp add: struct_netns_sysctl_lowpan_def c_info)

definition struct_netns_ieee802154_lowpan :: ctype where
  "struct_netns_ieee802154_lowpan = Struct [] [
    Mem ''sysctl'' struct_netns_sysctl_lowpan, Mem ''fqdir'' (Ptr ''struct fqdir'')]"

lemma info_struct_netns_ieee802154_lowpan [c_info]: "info struct_netns_ieee802154_lowpan = (16, 8)"
  by (simp add: struct_netns_ieee802154_lowpan_def c_info)

definition struct_netns_sctp :: ctype where
  "struct_netns_sctp = Struct [] [
    Mem ''sctp_statistics'' (Ptr ''struct sctp_mib''), Mem ''proc_net_sctp'' (Ptr ''struct proc_dir_entry''),
    Mem ''sysctl_header'' (Ptr ''struct ctl_table_header''), Mem ''ctl_sock'' (Ptr ''struct sock''),
    Mem ''udp4_sock'' (Ptr ''struct sock''), Mem ''udp6_sock'' (Ptr ''struct sock''), Mem ''udp_port'' (Scalar Tint),
    Mem ''encap_port'' (Scalar Tint), Mem ''local_addr_list'' struct_list_head, Mem ''addr_waitq'' struct_list_head,
    Mem ''addr_wq_timer'' struct_timer_list, Mem ''auto_asconf_splist'' struct_list_head,
    Mem ''addr_wq_lock'' typedef_spinlock_t, Mem ''local_addr_lock'' typedef_spinlock_t,
    Mem ''rto_initial'' (Scalar Tuint), Mem ''rto_min'' (Scalar Tuint), Mem ''rto_max'' (Scalar Tuint),
    Mem ''rto_alpha'' (Scalar Tint), Mem ''rto_beta'' (Scalar Tint), Mem ''max_burst'' (Scalar Tint),
    Mem ''cookie_preserve_enable'' (Scalar Tint), Mem ''sctp_hmac_alg'' (Ptr ''char''),
    Mem ''valid_cookie_life'' (Scalar Tuint), Mem ''sack_timeout'' (Scalar Tuint), Mem ''hb_interval'' (Scalar Tuint),
    Mem ''probe_interval'' (Scalar Tuint), Mem ''max_retrans_association'' (Scalar Tint),
    Mem ''max_retrans_path'' (Scalar Tint), Mem ''max_retrans_init'' (Scalar Tint), Mem ''pf_retrans'' (Scalar Tint),
    Mem ''ps_retrans'' (Scalar Tint), Mem ''pf_enable'' (Scalar Tint), Mem ''pf_expose'' (Scalar Tint),
    Mem ''sndbuf_policy'' (Scalar Tint), Mem ''rcvbuf_policy'' (Scalar Tint),
    Mem ''default_auto_asconf'' (Scalar Tint), Mem ''addip_enable'' (Scalar Tint), Mem ''addip_noauth'' (Scalar Tint),
    Mem ''prsctp_enable'' (Scalar Tint), Mem ''reconf_enable'' (Scalar Tint), Mem ''auth_enable'' (Scalar Tint),
    Mem ''intl_enable'' (Scalar Tint), Mem ''ecn_enable'' (Scalar Tint), Mem ''scope_policy'' (Scalar Tint),
    Mem ''rwnd_upd_shift'' (Scalar Tint), Mem ''max_autoclose'' (Scalar Tulong)]"

lemma info_struct_netns_sctp [c_info]: "info struct_netns_sctp = (296, 8)"
  by (simp add: struct_netns_sctp_def c_info)

definition struct_netns_nf :: ctype where
  "struct_netns_nf = Struct [] [
    Mem ''proc_netfilter'' (Ptr ''struct proc_dir_entry''),
    Mem ''nf_loggers'' (Array (Ptr ''const struct nf_logger'') 13),
    Mem ''nf_log_dir_header'' (Ptr ''struct ctl_table_header''),
    Mem ''hooks_ipv4'' (Array (Ptr ''struct nf_hook_entries'') 5),
    Mem ''hooks_ipv6'' (Array (Ptr ''struct nf_hook_entries'') 5),
    Mem ''hooks_arp'' (Array (Ptr ''struct nf_hook_entries'') 3),
    Mem ''hooks_bridge'' (Array (Ptr ''struct nf_hook_entries'') 5), Mem ''defrag_ipv4_users'' (Scalar Tuint),
    Mem ''defrag_ipv6_users'' (Scalar Tuint)]"

lemma info_struct_netns_nf [c_info]: "info struct_netns_nf = (272, 8)"
  by (simp add: struct_netns_nf_def c_info)

definition struct_nf_generic_net :: ctype where
  "struct_nf_generic_net = Struct [] [
    Mem ''timeout'' (Scalar Tuint)]"

lemma info_struct_nf_generic_net [c_info]: "info struct_nf_generic_net = (4, 4)"
  by (simp add: struct_nf_generic_net_def c_info)

definition struct_nf_icmp_net :: ctype where
  "struct_nf_icmp_net = Struct [] [
    Mem ''timeout'' (Scalar Tuint)]"

lemma info_struct_nf_icmp_net [c_info]: "info struct_nf_icmp_net = (4, 4)"
  by (simp add: struct_nf_icmp_net_def c_info)

definition struct_nf_dccp_net :: ctype where
  "struct_nf_dccp_net = Struct [] [
    Mem ''dccp_loose'' typedef_u8, Mem ''dccp_timeout'' (Array (Scalar Tuint) 10)]"

lemma info_struct_nf_dccp_net [c_info]: "info struct_nf_dccp_net = (44, 4)"
  by (simp add: struct_nf_dccp_net_def c_info)

definition struct_nf_sctp_net :: ctype where
  "struct_nf_sctp_net = Struct [] [
    Mem ''timeouts'' (Array (Scalar Tuint) 10)]"

lemma info_struct_nf_sctp_net [c_info]: "info struct_nf_sctp_net = (40, 4)"
  by (simp add: struct_nf_sctp_net_def c_info)

definition struct_nf_gre_net :: ctype where
  "struct_nf_gre_net = Struct [] [
    Mem ''keymap_list'' struct_list_head, Mem ''timeouts'' (Array (Scalar Tuint) 2)]"

lemma info_struct_nf_gre_net [c_info]: "info struct_nf_gre_net = (24, 8)"
  by (simp add: struct_nf_gre_net_def c_info)

definition struct_netns_nftables :: ctype where
  "struct_netns_nftables = Struct [] [
    Mem ''gencursor'' typedef_u8]"

lemma info_struct_netns_nftables [c_info]: "info struct_netns_nftables = (1, 1)"
  by (simp add: struct_netns_nftables_def c_info)

definition struct_netns_ft :: ctype where
  "struct_netns_ft = Struct [] [
    Mem ''stat'' (Ptr ''struct nf_flow_table_stat'')]"

lemma info_struct_netns_ft [c_info]: "info struct_netns_ft = (8, 8)"
  by (simp add: struct_netns_ft_def c_info)

definition struct_xfrm_policy_hash :: ctype where
  "struct_xfrm_policy_hash = Struct [] [
    Mem ''table'' (Ptr ''struct hlist_head''), Mem ''hmask'' (Scalar Tuint), Mem ''dbits4'' typedef_u8,
    Mem ''sbits4'' typedef_u8, Mem ''dbits6'' typedef_u8, Mem ''sbits6'' typedef_u8]"

lemma info_struct_xfrm_policy_hash [c_info]: "info struct_xfrm_policy_hash = (16, 8)"
  by (simp add: struct_xfrm_policy_hash_def c_info)

definition struct_xfrm_policy_hthresh :: ctype where
  "struct_xfrm_policy_hthresh = Struct [] [
    Mem ''work'' struct_work_struct, Mem ''lock'' typedef_seqlock_t, Mem ''lbits4'' typedef_u8,
    Mem ''rbits4'' typedef_u8, Mem ''lbits6'' typedef_u8, Mem ''rbits6'' typedef_u8]"

lemma info_struct_xfrm_policy_hthresh [c_info]: "info struct_xfrm_policy_hthresh = (48, 8)"
  by (simp add: struct_xfrm_policy_hthresh_def c_info)

definition struct_netns_xfrm :: ctype where
  "struct_netns_xfrm = Struct [] [
    Mem ''state_all'' struct_list_head, Mem ''state_bydst'' (Ptr ''struct hlist_head''),
    Mem ''state_bysrc'' (Ptr ''struct hlist_head''), Mem ''state_byspi'' (Ptr ''struct hlist_head''),
    Mem ''state_byseq'' (Ptr ''struct hlist_head''), Mem ''state_hmask'' (Scalar Tuint),
    Mem ''state_num'' (Scalar Tuint), Mem ''state_hash_work'' struct_work_struct, Mem ''policy_all'' struct_list_head,
    Mem ''policy_byidx'' (Ptr ''struct hlist_head''), Mem ''policy_idx_hmask'' (Scalar Tuint),
    Mem ''idx_generator'' (Scalar Tuint), Mem ''policy_inexact'' (Array struct_hlist_head 3),
    Mem ''policy_bydst'' (Array struct_xfrm_policy_hash 3), Mem ''policy_count'' (Array (Scalar Tuint) 6),
    Mem ''policy_hash_work'' struct_work_struct, Mem ''policy_hthresh'' struct_xfrm_policy_hthresh,
    Mem ''inexact_bins'' struct_list_head, Mem ''nlsk'' (Ptr ''struct sock''),
    Mem ''nlsk_stash'' (Ptr ''struct sock''), Mem ''sysctl_aevent_etime'' typedef_u32,
    Mem ''sysctl_aevent_rseqth'' typedef_u32, Mem ''sysctl_larval_drop'' (Scalar Tint),
    Mem ''sysctl_acq_expires'' typedef_u32, Mem ''policy_default'' (Array typedef_u8 3),
    Mem ''sysctl_hdr'' (Ptr ''struct ctl_table_header''), Pad (Scalar Tlong) 64, Pad (Scalar Tlong) 64,
    Pad (Scalar Tlong) 64, Mem ''xfrm4_dst_ops'' struct_dst_ops, Mem ''xfrm6_dst_ops'' struct_dst_ops,
    Mem ''xfrm_state_lock'' typedef_spinlock_t, Mem ''xfrm_state_hash_generation'' typedef_seqcount_spinlock_t,
    Mem ''xfrm_policy_hash_generation'' typedef_seqcount_spinlock_t, Mem ''xfrm_policy_lock'' typedef_spinlock_t,
    Mem ''xfrm_cfg_mutex'' struct_mutex, Pad (Scalar Tlong) 64, Pad (Scalar Tlong) 64]"

lemma info_struct_netns_xfrm [c_info]: "info struct_netns_xfrm = (832, 8)"
  by (simp add: struct_netns_xfrm_def c_info)

definition struct_netns_mpls :: ctype where
  "struct_netns_mpls = Struct [] [
    Mem ''ip_ttl_propagate'' (Scalar Tint), Mem ''default_ttl'' (Scalar Tint), Mem ''platform_labels'' typedef_size_t,
    Mem ''platform_label'' (Ptr ''struct mpls_route *''), Mem ''ctl'' (Ptr ''struct ctl_table_header'')]"

lemma info_struct_netns_mpls [c_info]: "info struct_netns_mpls = (32, 8)"
  by (simp add: struct_netns_mpls_def c_info)

definition struct_netns_can :: ctype where
  "struct_netns_can = Struct [] [
    Mem ''proc_dir'' (Ptr ''struct proc_dir_entry''), Mem ''pde_stats'' (Ptr ''struct proc_dir_entry''),
    Mem ''pde_reset_stats'' (Ptr ''struct proc_dir_entry''), Mem ''pde_rcvlist_all'' (Ptr ''struct proc_dir_entry''),
    Mem ''pde_rcvlist_fil'' (Ptr ''struct proc_dir_entry''), Mem ''pde_rcvlist_inv'' (Ptr ''struct proc_dir_entry''),
    Mem ''pde_rcvlist_sff'' (Ptr ''struct proc_dir_entry''), Mem ''pde_rcvlist_eff'' (Ptr ''struct proc_dir_entry''),
    Mem ''pde_rcvlist_err'' (Ptr ''struct proc_dir_entry''), Mem ''bcmproc_dir'' (Ptr ''struct proc_dir_entry''),
    Mem ''rx_alldev_list'' (Ptr ''struct can_dev_rcv_lists''), Mem ''rcvlists_lock'' typedef_spinlock_t,
    Mem ''stattimer'' struct_timer_list, Mem ''pkg_stats'' (Ptr ''struct can_pkg_stats''),
    Mem ''rcv_lists_stats'' (Ptr ''struct can_rcv_lists_stats''), Mem ''cgw_list'' struct_hlist_head]"

lemma info_struct_netns_can [c_info]: "info struct_netns_can = (160, 8)"
  by (simp add: struct_netns_can_def c_info)

definition struct_netns_mctp :: ctype where
  "struct_netns_mctp = Struct [] [
    Mem ''routes'' struct_list_head, Mem ''bind_lock'' struct_mutex, Mem ''binds'' struct_hlist_head,
    Mem ''keys_lock'' typedef_spinlock_t, Mem ''keys'' struct_hlist_head, Mem ''default_net'' (Scalar Tuint),
    Mem ''neigh_lock'' struct_mutex, Mem ''neighbours'' struct_list_head]"

lemma info_struct_netns_mctp [c_info]: "info struct_netns_mctp = (128, 8)"
  by (simp add: struct_netns_mctp_def c_info)

definition struct_netns_smc :: ctype where
  "struct_netns_smc = Struct [] [
    Mem ''smc_stats'' (Ptr ''struct smc_stats''), Mem ''mutex_fback_rsn'' struct_mutex,
    Mem ''fback_rsn'' (Ptr ''struct smc_stats_rsn'')]"

lemma info_struct_netns_smc [c_info]: "info struct_netns_smc = (48, 8)"
  by (simp add: struct_netns_smc_def c_info)

definition struct_linux_xfrm_mib :: ctype where
  "struct_linux_xfrm_mib = Struct [] [
    Mem ''mibs'' (Array (Scalar Tulong) 29)]"

lemma info_struct_linux_xfrm_mib [c_info]: "info struct_linux_xfrm_mib = (232, 8)"
  by (simp add: struct_linux_xfrm_mib_def c_info)

definition struct_fqdir :: ctype where
  "struct_fqdir = Struct [] [
    Mem ''high_thresh'' (Scalar Tlong), Mem ''low_thresh'' (Scalar Tlong), Mem ''timeout'' (Scalar Tint),
    Mem ''max_dist'' (Scalar Tint), Mem ''f'' (Ptr ''struct inet_frags''), Mem ''net'' (Ptr ''struct net''),
    Mem ''dead'' typedef_bool, Pad (Scalar Tlong) 64, Pad (Scalar Tlong) 64, Mem ''rhashtable'' struct_rhashtable,
    Pad (Scalar Tlong) 64, Pad (Scalar Tlong) 64, Pad (Scalar Tlong) 64, Pad (Scalar Tlong) 64, Pad (Scalar Tlong) 64,
    Pad (Scalar Tlong) 64, Pad (Scalar Tlong) 64, Mem ''mem'' typedef_atomic_long_t,
    Mem ''destroy_work'' struct_work_struct, Mem ''free_list'' struct_llist_node, Pad (Scalar Tlong) 64,
    Pad (Scalar Tlong) 64]"

lemma info_struct_fqdir [c_info]: "info struct_fqdir = (320, 8)"
  by (simp add: struct_fqdir_def c_info)

definition struct_dst_entry :: ctype where
  "struct_dst_entry = Struct [] [
    Mem ''dev'' (Ptr ''struct net_device''), Mem ''ops'' (Ptr ''struct dst_ops''), Mem ''_metrics'' (Scalar Tulong),
    Mem ''expires'' (Scalar Tulong), Mem ''xfrm'' (Ptr ''struct xfrm_state''),
    Mem ''input'' (FunPtr ''int'' [''struct sk_buff *'']),
    Mem ''output'' (FunPtr ''int'' [''struct net *'', ''struct sock *'', ''struct sk_buff *'']),
    Mem ''flags'' (Scalar Tushort), Mem ''obsolete'' (Scalar Tshort), Mem ''header_len'' (Scalar Tushort),
    Mem ''trailer_len'' (Scalar Tushort), Mem ''__refcnt'' typedef_atomic_t, Mem ''__use'' (Scalar Tint),
    Mem ''lastuse'' (Scalar Tulong), Mem ''lwtstate'' (Ptr ''struct lwtunnel_state''),
    Mem ''callback_head'' struct_callback_head, Mem ''error'' (Scalar Tshort), Mem ''__pad'' (Scalar Tshort),
    Mem ''tclassid'' typedef___u32]"

lemma info_struct_dst_entry [c_info]: "info struct_dst_entry = (112, 8)"
  by (simp add: struct_dst_entry_def c_info)

definition enum_nf_log_type :: ctype where
  "enum_nf_log_type = Enum [
    (''NF_LOG_TYPE_LOG'', 0), (''NF_LOG_TYPE_ULOG'', 1), (''NF_LOG_TYPE_MAX'', 2)]"

lemma info_enum_nf_log_type [c_info]: "info enum_nf_log_type = (4, 4)"
  by (simp add: enum_nf_log_type_def c_info)

definition struct_nf_logger :: ctype where
  "struct_nf_logger = Struct [] [
    Mem ''name'' (Ptr ''char''), Mem ''type'' enum_nf_log_type, Mem ''logfn'' (Ptr ''nf_logfn''),
    Mem ''me'' (Ptr ''struct module'')]"

lemma info_struct_nf_logger [c_info]: "info struct_nf_logger = (32, 8)"
  by (simp add: struct_nf_logger_def c_info)

definition struct_nf_flow_table_stat :: ctype where
  "struct_nf_flow_table_stat = Struct [] [
    Mem ''count_wq_add'' (Scalar Tuint), Mem ''count_wq_del'' (Scalar Tuint), Mem ''count_wq_stats'' (Scalar Tuint)]"

lemma info_struct_nf_flow_table_stat [c_info]: "info struct_nf_flow_table_stat = (12, 4)"
  by (simp add: struct_nf_flow_table_stat_def c_info)

definition struct_skb_ext :: ctype where
  "struct_skb_ext = Struct [] [
    Mem ''refcnt'' typedef_refcount_t, Mem ''offset'' (Array typedef_u8 4), Mem ''chunks'' typedef_u8,
    Pad (Scalar Tlong) 0, Mem ''data'' (Array (Scalar Tchar) 0)]"

lemma info_struct_skb_ext [c_info]: "info struct_skb_ext = (16, 4)"
  by (simp add: struct_skb_ext_def c_info)

definition struct_net_device_stats :: ctype where
  "struct_net_device_stats = Struct [] [
    Anon (Union [] [
      Mem ''rx_packets'' (Scalar Tulong), Mem ''__rx_packets'' typedef_atomic_long_t]),
    Anon (Union [] [
      Mem ''tx_packets'' (Scalar Tulong), Mem ''__tx_packets'' typedef_atomic_long_t]),
    Anon (Union [] [
      Mem ''rx_bytes'' (Scalar Tulong), Mem ''__rx_bytes'' typedef_atomic_long_t]),
    Anon (Union [] [
      Mem ''tx_bytes'' (Scalar Tulong), Mem ''__tx_bytes'' typedef_atomic_long_t]),
    Anon (Union [] [
      Mem ''rx_errors'' (Scalar Tulong), Mem ''__rx_errors'' typedef_atomic_long_t]),
    Anon (Union [] [
      Mem ''tx_errors'' (Scalar Tulong), Mem ''__tx_errors'' typedef_atomic_long_t]),
    Anon (Union [] [
      Mem ''rx_dropped'' (Scalar Tulong), Mem ''__rx_dropped'' typedef_atomic_long_t]),
    Anon (Union [] [
      Mem ''tx_dropped'' (Scalar Tulong), Mem ''__tx_dropped'' typedef_atomic_long_t]),
    Anon (Union [] [
      Mem ''multicast'' (Scalar Tulong), Mem ''__multicast'' typedef_atomic_long_t]),
    Anon (Union [] [
      Mem ''collisions'' (Scalar Tulong), Mem ''__collisions'' typedef_atomic_long_t]),
    Anon (Union [] [
      Mem ''rx_length_errors'' (Scalar Tulong), Mem ''__rx_length_errors'' typedef_atomic_long_t]),
    Anon (Union [] [
      Mem ''rx_over_errors'' (Scalar Tulong), Mem ''__rx_over_errors'' typedef_atomic_long_t]),
    Anon (Union [] [
      Mem ''rx_crc_errors'' (Scalar Tulong), Mem ''__rx_crc_errors'' typedef_atomic_long_t]),
    Anon (Union [] [
      Mem ''rx_frame_errors'' (Scalar Tulong), Mem ''__rx_frame_errors'' typedef_atomic_long_t]),
    Anon (Union [] [
      Mem ''rx_fifo_errors'' (Scalar Tulong), Mem ''__rx_fifo_errors'' typedef_atomic_long_t]),
    Anon (Union [] [
      Mem ''rx_missed_errors'' (Scalar Tulong), Mem ''__rx_missed_errors'' typedef_atomic_long_t]),
    Anon (Union [] [
      Mem ''tx_aborted_errors'' (Scalar Tulong), Mem ''__tx_aborted_errors'' typedef_atomic_long_t]),
    Anon (Union [] [
      Mem ''tx_carrier_errors'' (Scalar Tulong), Mem ''__tx_carrier_errors'' typedef_atomic_long_t]),
    Anon (Union [] [
      Mem ''tx_fifo_errors'' (Scalar Tulong), Mem ''__tx_fifo_errors'' typedef_atomic_long_t]),
    Anon (Union [] [
      Mem ''tx_heartbeat_errors'' (Scalar Tulong), Mem ''__tx_heartbeat_errors'' typedef_atomic_long_t]),
    Anon (Union [] [
      Mem ''tx_window_errors'' (Scalar Tulong), Mem ''__tx_window_errors'' typedef_atomic_long_t]),
    Anon (Union [] [
      Mem ''rx_compressed'' (Scalar Tulong), Mem ''__rx_compressed'' typedef_atomic_long_t]),
    Anon (Union [] [
      Mem ''tx_compressed'' (Scalar Tulong), Mem ''__tx_compressed'' typedef_atomic_long_t])]"

lemma info_struct_net_device_stats [c_info]: "info struct_net_device_stats = (184, 8)"
  by (simp add: struct_net_device_stats_def c_info)

definition struct_netdev_hw_addr_list :: ctype where
  "struct_netdev_hw_addr_list = Struct [] [
    Mem ''list'' struct_list_head, Mem ''count'' (Scalar Tint), Mem ''tree'' struct_rb_root]"

lemma info_struct_netdev_hw_addr_list [c_info]: "info struct_netdev_hw_addr_list = (32, 8)"
  by (simp add: struct_netdev_hw_addr_list_def c_info)

definition enum_netdev_ml_priv_type :: ctype where
  "enum_netdev_ml_priv_type = Enum [
    (''ML_PRIV_NONE'', 0), (''ML_PRIV_CAN'', 1)]"

lemma info_enum_netdev_ml_priv_type [c_info]: "info enum_netdev_ml_priv_type = (4, 4)"
  by (simp add: enum_netdev_ml_priv_type_def c_info)

definition struct_netdev_tc_txq :: ctype where
  "struct_netdev_tc_txq = Struct [] [
    Mem ''count'' typedef_u16, Mem ''offset'' typedef_u16]"

lemma info_struct_netdev_tc_txq [c_info]: "info struct_netdev_tc_txq = (4, 2)"
  by (simp add: struct_netdev_tc_txq_def c_info)

definition struct_net_device :: ctype where
  "struct_net_device = Struct [] [
    Mem ''name'' (Array (Scalar Tchar) 16), Mem ''name_node'' (Ptr ''struct netdev_name_node''),
    Mem ''ifalias'' (Ptr ''struct dev_ifalias''), Mem ''mem_end'' (Scalar Tulong), Mem ''mem_start'' (Scalar Tulong),
    Mem ''base_addr'' (Scalar Tulong), Mem ''state'' (Scalar Tulong), Mem ''dev_list'' struct_list_head,
    Mem ''napi_list'' struct_list_head, Mem ''unreg_list'' struct_list_head, Mem ''close_list'' struct_list_head,
    Mem ''ptype_all'' struct_list_head, Mem ''ptype_specific'' struct_list_head,
    Mem ''adj_list'' (Struct [] [
      Mem ''upper'' struct_list_head, Mem ''lower'' struct_list_head]),
    Mem ''flags'' (Scalar Tuint), Mem ''priv_flags'' (Scalar Tuint),
    Mem ''netdev_ops'' (Ptr ''const struct net_device_ops''), Mem ''ifindex'' (Scalar Tint),
    Mem ''gflags'' (Scalar Tushort), Mem ''hard_header_len'' (Scalar Tushort), Mem ''mtu'' (Scalar Tuint),
    Mem ''needed_headroom'' (Scalar Tushort), Mem ''needed_tailroom'' (Scalar Tushort),
    Mem ''features'' typedef_netdev_features_t, Mem ''hw_features'' typedef_netdev_features_t,
    Mem ''wanted_features'' typedef_netdev_features_t, Mem ''vlan_features'' typedef_netdev_features_t,
    Mem ''hw_enc_features'' typedef_netdev_features_t, Mem ''mpls_features'' typedef_netdev_features_t,
    Mem ''gso_partial_features'' typedef_netdev_features_t, Mem ''min_mtu'' (Scalar Tuint),
    Mem ''max_mtu'' (Scalar Tuint), Mem ''type'' (Scalar Tushort), Mem ''min_header_len'' (Scalar Tuchar),
    Mem ''name_assign_type'' (Scalar Tuchar), Mem ''group'' (Scalar Tint), Mem ''stats'' struct_net_device_stats,
    Mem ''rx_dropped'' typedef_atomic_long_t, Mem ''tx_dropped'' typedef_atomic_long_t,
    Mem ''rx_nohandler'' typedef_atomic_long_t, Mem ''carrier_up_count'' typedef_atomic_t,
    Mem ''carrier_down_count'' typedef_atomic_t, Mem ''wireless_handlers'' (Ptr ''const struct iw_handler_def''),
    Mem ''wireless_data'' (Ptr ''struct iw_public_data''), Mem ''ethtool_ops'' (Ptr ''const struct ethtool_ops''),
    Mem ''l3mdev_ops'' (Ptr ''const struct l3mdev_ops''), Mem ''ndisc_ops'' (Ptr ''const struct ndisc_ops''),
    Mem ''xfrmdev_ops'' (Ptr ''const struct xfrmdev_ops''), Mem ''tlsdev_ops'' (Ptr ''const struct tlsdev_ops''),
    Mem ''header_ops'' (Ptr ''const struct header_ops''), Mem ''operstate'' (Scalar Tuchar),
    Mem ''link_mode'' (Scalar Tuchar), Mem ''if_port'' (Scalar Tuchar), Mem ''dma'' (Scalar Tuchar),
    Mem ''perm_addr'' (Array (Scalar Tuchar) 32), Mem ''addr_assign_type'' (Scalar Tuchar),
    Mem ''addr_len'' (Scalar Tuchar), Mem ''upper_level'' (Scalar Tuchar), Mem ''lower_level'' (Scalar Tuchar),
    Mem ''neigh_priv_len'' (Scalar Tushort), Mem ''dev_id'' (Scalar Tushort), Mem ''dev_port'' (Scalar Tushort),
    Mem ''padded'' (Scalar Tushort), Mem ''addr_list_lock'' typedef_spinlock_t, Mem ''irq'' (Scalar Tint),
    Mem ''uc'' struct_netdev_hw_addr_list, Mem ''mc'' struct_netdev_hw_addr_list,
    Mem ''dev_addrs'' struct_netdev_hw_addr_list, Mem ''queues_kset'' (Ptr ''struct kset''),
    Mem ''promiscuity'' (Scalar Tuint), Mem ''allmulti'' (Scalar Tuint), Mem ''uc_promisc'' typedef_bool,
    Mem ''vlan_info'' (Ptr ''struct vlan_info''), Mem ''dsa_ptr'' (Ptr ''struct dsa_port''),
    Mem ''tipc_ptr'' (Ptr ''struct tipc_bearer''), Mem ''atalk_ptr'' (Ptr ''void''),
    Mem ''ip_ptr'' (Ptr ''struct in_device''), Mem ''ip6_ptr'' (Ptr ''struct inet6_dev''),
    Mem ''ax25_ptr'' (Ptr ''void''), Mem ''ieee80211_ptr'' (Ptr ''struct wireless_dev''),
    Mem ''ieee802154_ptr'' (Ptr ''struct wpan_dev''), Mem ''mpls_ptr'' (Ptr ''struct mpls_dev''),
    Mem ''mctp_ptr'' (Ptr ''struct mctp_dev''), Mem ''dev_addr'' (Ptr ''unsigned char''),
    Mem ''_rx'' (Ptr ''struct netdev_rx_queue''), Mem ''num_rx_queues'' (Scalar Tuint),
    Mem ''real_num_rx_queues'' (Scalar Tuint), Mem ''xdp_prog'' (Ptr ''struct bpf_prog''),
    Mem ''gro_flush_timeout'' (Scalar Tulong), Mem ''napi_defer_hard_irqs'' (Scalar Tint),
    Mem ''rx_handler'' (Ptr ''rx_handler_func_t''), Mem ''rx_handler_data'' (Ptr ''void''),
    Mem ''miniq_ingress'' (Ptr ''struct mini_Qdisc''), Mem ''ingress_queue'' (Ptr ''struct netdev_queue''),
    Mem ''nf_hooks_ingress'' (Ptr ''struct nf_hook_entries''), Mem ''broadcast'' (Array (Scalar Tuchar) 32),
    Mem ''rx_cpu_rmap'' (Ptr ''struct cpu_rmap''), Mem ''index_hlist'' struct_hlist_node, Pad (Scalar Tlong) 64,
    Pad (Scalar Tlong) 64, Pad (Scalar Tlong) 64, Pad (Scalar Tlong) 64, Pad (Scalar Tlong) 64,
    Mem ''_tx'' (Ptr ''struct netdev_queue''), Mem ''num_tx_queues'' (Scalar Tuint),
    Mem ''real_num_tx_queues'' (Scalar Tuint), Mem ''qdisc'' (Ptr ''struct Qdisc''),
    Mem ''tx_queue_len'' (Scalar Tuint), Mem ''tx_global_lock'' typedef_spinlock_t,
    Mem ''xdp_bulkq'' (Ptr ''struct xdp_dev_bulk_queue''), Mem ''xps_maps'' (Array (Ptr ''struct xps_dev_maps'') 2),
    Mem ''miniq_egress'' (Ptr ''struct mini_Qdisc''), Mem ''qdisc_hash'' (Array struct_hlist_head 16),
    Mem ''watchdog_timer'' struct_timer_list, Mem ''watchdog_timeo'' (Scalar Tint),
    Mem ''proto_down_reason'' typedef_u32, Mem ''todo_list'' struct_list_head, Mem ''pcpu_refcnt'' (Ptr ''int''),
    Mem ''link_watch_list'' struct_list_head,
    Bits ''reg_state'' (Enum [
      (''NETREG_UNINITIALIZED'', 0), (''NETREG_REGISTERED'', 1), (''NETREG_UNREGISTERING'', 2),
      (''NETREG_UNREGISTERED'', 3), (''NETREG_RELEASED'', 4), (''NETREG_DUMMY'', 5)]) 8,
    Mem ''dismantle'' typedef_bool,
    Bits ''rtnl_link_state'' (Enum [
      (''RTNL_LINK_INITIALIZED'', 0), (''RTNL_LINK_INITIALIZING'', 1)]) 16,
    Mem ''needs_free_netdev'' typedef_bool, Mem ''priv_destructor'' (FunPtr ''void'' [''struct net_device *'']),
    Mem ''npinfo'' (Ptr ''struct netpoll_info''), Mem ''nd_net'' typedef_possible_net_t,
    Mem ''ml_priv'' (Ptr ''void''), Mem ''ml_priv_type'' enum_netdev_ml_priv_type,
    Anon (Union [] [
      Mem ''lstats'' (Ptr ''struct pcpu_lstats''), Mem ''tstats'' (Ptr ''struct pcpu_sw_netstats''),
      Mem ''dstats'' (Ptr ''struct pcpu_dstats'')]),
    Mem ''garp_port'' (Ptr ''struct garp_port''), Mem ''mrp_port'' (Ptr ''struct mrp_port''),
    Mem ''dev'' struct_device, Mem ''sysfs_groups'' (Array (Ptr ''const struct attribute_group'') 4),
    Mem ''sysfs_rx_queue_group'' (Ptr ''const struct attribute_group''),
    Mem ''rtnl_link_ops'' (Ptr ''const struct rtnl_link_ops''), Mem ''gso_max_size'' (Scalar Tuint),
    Mem ''gso_max_segs'' typedef_u16, Mem ''dcbnl_ops'' (Ptr ''const struct dcbnl_rtnl_ops''),
    Mem ''num_tc'' typedef_s16, Mem ''tc_to_txq'' (Array struct_netdev_tc_txq 16),
    Mem ''prio_tc_map'' (Array typedef_u8 16), Mem ''fcoe_ddp_xid'' (Scalar Tuint),
    Mem ''priomap'' (Ptr ''struct netprio_map''), Mem ''phydev'' (Ptr ''struct phy_device''),
    Mem ''sfp_bus'' (Ptr ''struct sfp_bus''), Mem ''qdisc_tx_busylock'' (Ptr ''struct lock_class_key''),
    Mem ''qdisc_running_key'' (Ptr ''struct lock_class_key''), Mem ''proto_down'' typedef_bool,
    Bits ''wol_enabled'' (Scalar Tuint) 1, Bits ''threaded'' (Scalar Tuint) 1,
    Mem ''net_notifier_list'' struct_list_head, Mem ''macsec_ops'' (Ptr ''const struct macsec_ops''),
    Mem ''udp_tunnel_nic_info'' (Ptr ''const struct udp_tunnel_nic_info''),
    Mem ''udp_tunnel_nic'' (Ptr ''struct udp_tunnel_nic''), Mem ''xdp_state'' (Array struct_bpf_xdp_entity 3),
    Pad (Scalar Tlong) 64]"

lemma info_struct_net_device [c_info]: "info struct_net_device = (2432, 8)"
  by (simp add: struct_net_device_def c_info)

definition struct_flowi_tunnel :: ctype where
  "struct_flowi_tunnel = Struct [] [
    Mem ''tun_id'' typedef___be64]"

lemma info_struct_flowi_tunnel [c_info]: "info struct_flowi_tunnel = (8, 8)"
  by (simp add: struct_flowi_tunnel_def c_info)

definition struct_flowi_common :: ctype where
  "struct_flowi_common = Struct [] [
    Mem ''flowic_oif'' (Scalar Tint), Mem ''flowic_iif'' (Scalar Tint), Mem ''flowic_l3mdev'' (Scalar Tint),
    Mem ''flowic_mark'' typedef___u32, Mem ''flowic_tos'' typedef___u8, Mem ''flowic_scope'' typedef___u8,
    Mem ''flowic_proto'' typedef___u8, Mem ''flowic_flags'' typedef___u8, Mem ''flowic_secid'' typedef___u32,
    Mem ''flowic_uid'' typedef_kuid_t, Mem ''flowic_multipath_hash'' typedef___u32,
    Mem ''flowic_tun_key'' struct_flowi_tunnel]"

lemma info_struct_flowi_common [c_info]: "info struct_flowi_common = (40, 8)"
  by (simp add: struct_flowi_common_def c_info)

definition union_flowi_uli :: ctype where
  "union_flowi_uli = Union [] [
    Mem ''ports'' (Struct [] [
      Mem ''dport'' typedef___be16, Mem ''sport'' typedef___be16]),
    Mem ''icmpt'' (Struct [] [
      Mem ''type'' typedef___u8, Mem ''code'' typedef___u8]),
    Mem ''gre_key'' typedef___be32,
    Mem ''mht'' (Struct [] [
      Mem ''type'' typedef___u8])]"

lemma info_union_flowi_uli [c_info]: "info union_flowi_uli = (4, 4)"
  by (simp add: union_flowi_uli_def c_info)

definition struct_flowi4 :: ctype where
  "struct_flowi4 = Struct [] [
    Mem ''__fl_common'' struct_flowi_common, Mem ''saddr'' typedef___be32, Mem ''daddr'' typedef___be32,
    Mem ''uli'' union_flowi_uli]"

lemma info_struct_flowi4 [c_info]: "info struct_flowi4 = (56, 8)"
  by (simp add: struct_flowi4_def c_info)

definition struct_flowi6 :: ctype where
  "struct_flowi6 = Struct [] [
    Mem ''__fl_common'' struct_flowi_common, Mem ''daddr'' struct_in6_addr, Mem ''saddr'' struct_in6_addr,
    Mem ''flowlabel'' typedef___be32, Mem ''uli'' union_flowi_uli, Mem ''mp_hash'' typedef___u32]"

lemma info_struct_flowi6 [c_info]: "info struct_flowi6 = (88, 8)"
  by (simp add: struct_flowi6_def c_info)

definition struct_flowi :: ctype where
  "struct_flowi = Struct [] [
    Mem ''u'' (Union [] [
      Mem ''__fl_common'' struct_flowi_common, Mem ''ip4'' struct_flowi4, Mem ''ip6'' struct_flowi6])]"

lemma info_struct_flowi [c_info]: "info struct_flowi = (88, 8)"
  by (simp add: struct_flowi_def c_info)

definition struct_fib_rules_ops :: ctype where
  "struct_fib_rules_ops = Struct [] [
    Mem ''family'' (Scalar Tint), Mem ''list'' struct_list_head, Mem ''rule_size'' (Scalar Tint),
    Mem ''addr_size'' (Scalar Tint), Mem ''unresolved_rules'' (Scalar Tint), Mem ''nr_goto_rules'' (Scalar Tint),
    Mem ''fib_rules_seq'' (Scalar Tuint),
    Mem ''action'' (FunPtr ''int'' [''struct fib_rule *'', ''struct flowi *'', ''int'', ''struct fib_lookup_arg *'']),
    Mem ''suppress'' (FunPtr ''bool'' [''struct fib_rule *'', ''int'', ''struct fib_lookup_arg *'']),
    Mem ''match'' (FunPtr ''int'' [''struct fib_rule *'', ''struct flowi *'', ''int'']),
    Mem ''configure'' (FunPtr ''int'' [''struct fib_rule *'', ''struct sk_buff *'', ''struct fib_rule_hdr *'', ''struct nlattr * *'', ''struct netlink_ext_ack *'']),
    Mem ''delete'' (FunPtr ''int'' [''struct fib_rule *'']),
    Mem ''compare'' (FunPtr ''int'' [''struct fib_rule *'', ''struct fib_rule_hdr *'', ''struct nlattr * *'']),
    Mem ''fill'' (FunPtr ''int'' [''struct fib_rule *'', ''struct sk_buff *'', ''struct fib_rule_hdr *'']),
    Mem ''nlmsg_payload'' (FunPtr ''size_t'' [''struct fib_rule *'']),
    Mem ''flush_cache'' (FunPtr ''void'' [''struct fib_rules_ops *'']), Mem ''nlgroup'' (Scalar Tint),
    Mem ''policy'' (Ptr ''const struct nla_policy''), Mem ''rules_list'' struct_list_head,
    Mem ''owner'' (Ptr ''struct module''), Mem ''fro_net'' (Ptr ''struct net''), Mem ''rcu'' struct_callback_head]"

lemma info_struct_fib_rules_ops [c_info]: "info struct_fib_rules_ops = (184, 8)"
  by (simp add: struct_fib_rules_ops_def c_info)

definition struct_fib_notifier_ops :: ctype where
  "struct_fib_notifier_ops = Struct [] [
    Mem ''family'' (Scalar Tint), Mem ''list'' struct_list_head,
    Mem ''fib_seq_read'' (FunPtr ''unsigned int'' [''struct net *'']),
    Mem ''fib_dump'' (FunPtr ''int'' [''struct net *'', ''struct notifier_block *'', ''struct netlink_ext_ack *'']),
    Mem ''owner'' (Ptr ''struct module''), Mem ''rcu'' struct_callback_head]"

lemma info_struct_fib_notifier_ops [c_info]: "info struct_fib_notifier_ops = (64, 8)"
  by (simp add: struct_fib_notifier_ops_def c_info)

definition struct_dcbnl_rtnl_ops :: ctype where
  "struct_dcbnl_rtnl_ops = Struct [] [
    Mem ''ieee_getets'' (FunPtr ''int'' [''struct net_device *'', ''struct ieee_ets *'']),
    Mem ''ieee_setets'' (FunPtr ''int'' [''struct net_device *'', ''struct ieee_ets *'']),
    Mem ''ieee_getmaxrate'' (FunPtr ''int'' [''struct net_device *'', ''struct ieee_maxrate *'']),
    Mem ''ieee_setmaxrate'' (FunPtr ''int'' [''struct net_device *'', ''struct ieee_maxrate *'']),
    Mem ''ieee_getqcn'' (FunPtr ''int'' [''struct net_device *'', ''struct ieee_qcn *'']),
    Mem ''ieee_setqcn'' (FunPtr ''int'' [''struct net_device *'', ''struct ieee_qcn *'']),
    Mem ''ieee_getqcnstats'' (FunPtr ''int'' [''struct net_device *'', ''struct ieee_qcn_stats *'']),
    Mem ''ieee_getpfc'' (FunPtr ''int'' [''struct net_device *'', ''struct ieee_pfc *'']),
    Mem ''ieee_setpfc'' (FunPtr ''int'' [''struct net_device *'', ''struct ieee_pfc *'']),
    Mem ''ieee_getapp'' (FunPtr ''int'' [''struct net_device *'', ''struct dcb_app *'']),
    Mem ''ieee_setapp'' (FunPtr ''int'' [''struct net_device *'', ''struct dcb_app *'']),
    Mem ''ieee_delapp'' (FunPtr ''int'' [''struct net_device *'', ''struct dcb_app *'']),
    Mem ''ieee_peer_getets'' (FunPtr ''int'' [''struct net_device *'', ''struct ieee_ets *'']),
    Mem ''ieee_peer_getpfc'' (FunPtr ''int'' [''struct net_device *'', ''struct ieee_pfc *'']),
    Mem ''getstate'' (FunPtr ''u8'' [''struct net_device *'']),
    Mem ''setstate'' (FunPtr ''u8'' [''struct net_device *'', ''u8'']),
    Mem ''getpermhwaddr'' (FunPtr ''void'' [''struct net_device *'', ''u8 *'']),
    Mem ''setpgtccfgtx'' (FunPtr ''void'' [''struct net_device *'', ''int'', ''u8'', ''u8'', ''u8'', ''u8'']),
    Mem ''setpgbwgcfgtx'' (FunPtr ''void'' [''struct net_device *'', ''int'', ''u8'']),
    Mem ''setpgtccfgrx'' (FunPtr ''void'' [''struct net_device *'', ''int'', ''u8'', ''u8'', ''u8'', ''u8'']),
    Mem ''setpgbwgcfgrx'' (FunPtr ''void'' [''struct net_device *'', ''int'', ''u8'']),
    Mem ''getpgtccfgtx'' (FunPtr ''void'' [''struct net_device *'', ''int'', ''u8 *'', ''u8 *'', ''u8 *'', ''u8 *'']),
    Mem ''getpgbwgcfgtx'' (FunPtr ''void'' [''struct net_device *'', ''int'', ''u8 *'']),
    Mem ''getpgtccfgrx'' (FunPtr ''void'' [''struct net_device *'', ''int'', ''u8 *'', ''u8 *'', ''u8 *'', ''u8 *'']),
    Mem ''getpgbwgcfgrx'' (FunPtr ''void'' [''struct net_device *'', ''int'', ''u8 *'']),
    Mem ''setpfccfg'' (FunPtr ''void'' [''struct net_device *'', ''int'', ''u8'']),
    Mem ''getpfccfg'' (FunPtr ''void'' [''struct net_device *'', ''int'', ''u8 *'']),
    Mem ''setall'' (FunPtr ''u8'' [''struct net_device *'']),
    Mem ''getcap'' (FunPtr ''u8'' [''struct net_device *'', ''int'', ''u8 *'']),
    Mem ''getnumtcs'' (FunPtr ''int'' [''struct net_device *'', ''int'', ''u8 *'']),
    Mem ''setnumtcs'' (FunPtr ''int'' [''struct net_device *'', ''int'', ''u8'']),
    Mem ''getpfcstate'' (FunPtr ''u8'' [''struct net_device *'']),
    Mem ''setpfcstate'' (FunPtr ''void'' [''struct net_device *'', ''u8'']),
    Mem ''getbcncfg'' (FunPtr ''void'' [''struct net_device *'', ''int'', ''u32 *'']),
    Mem ''setbcncfg'' (FunPtr ''void'' [''struct net_device *'', ''int'', ''u32'']),
    Mem ''getbcnrp'' (FunPtr ''void'' [''struct net_device *'', ''int'', ''u8 *'']),
    Mem ''setbcnrp'' (FunPtr ''void'' [''struct net_device *'', ''int'', ''u8'']),
    Mem ''setapp'' (FunPtr ''int'' [''struct net_device *'', ''u8'', ''u16'', ''u8'']),
    Mem ''getapp'' (FunPtr ''int'' [''struct net_device *'', ''u8'', ''u16'']),
    Mem ''getfeatcfg'' (FunPtr ''u8'' [''struct net_device *'', ''int'', ''u8 *'']),
    Mem ''setfeatcfg'' (FunPtr ''u8'' [''struct net_device *'', ''int'', ''u8'']),
    Mem ''getdcbx'' (FunPtr ''u8'' [''struct net_device *'']),
    Mem ''setdcbx'' (FunPtr ''u8'' [''struct net_device *'', ''u8'']),
    Mem ''peer_getappinfo'' (FunPtr ''int'' [''struct net_device *'', ''struct dcb_peer_app_info *'', ''u16 *'']),
    Mem ''peer_getapptable'' (FunPtr ''int'' [''struct net_device *'', ''struct dcb_app *'']),
    Mem ''cee_peer_getpg'' (FunPtr ''int'' [''struct net_device *'', ''struct cee_pg *'']),
    Mem ''cee_peer_getpfc'' (FunPtr ''int'' [''struct net_device *'', ''struct cee_pfc *'']),
    Mem ''dcbnl_getbuffer'' (FunPtr ''int'' [''struct net_device *'', ''struct dcbnl_buffer *'']),
    Mem ''dcbnl_setbuffer'' (FunPtr ''int'' [''struct net_device *'', ''struct dcbnl_buffer *''])]"

lemma info_struct_dcbnl_rtnl_ops [c_info]: "info struct_dcbnl_rtnl_ops = (392, 8)"
  by (simp add: struct_dcbnl_rtnl_ops_def c_info)

definition struct_nla_policy :: ctype where
  "struct_nla_policy = Struct [] [
    Mem ''type'' typedef_u8, Mem ''validation_type'' typedef_u8, Mem ''len'' typedef_u16,
    Anon (Union [] [
      Mem ''bitfield32_valid'' typedef_u32, Mem ''mask'' typedef_u32, Mem ''reject_message'' (Ptr ''const char''),
      Mem ''nested_policy'' (Ptr ''const struct nla_policy''),
      Mem ''range'' (Ptr ''struct netlink_range_validation''),
      Mem ''range_signed'' (Ptr ''struct netlink_range_validation_signed''),
      Anon (Struct [] [
        Mem ''min'' typedef_s16, Mem ''max'' typedef_s16]),
      Mem ''validate'' (FunPtr ''int'' [''const struct nlattr *'', ''struct netlink_ext_ack *'']),
      Mem ''strict_start_type'' typedef_u16])]"

lemma info_struct_nla_policy [c_info]: "info struct_nla_policy = (16, 8)"
  by (simp add: struct_nla_policy_def c_info)

definition struct_tc_sizespec :: ctype where
  "struct_tc_sizespec = Struct [] [
    Mem ''cell_log'' (Scalar Tuchar), Mem ''size_log'' (Scalar Tuchar), Mem ''cell_align'' (Scalar Tshort),
    Mem ''overhead'' (Scalar Tint), Mem ''linklayer'' (Scalar Tuint), Mem ''mpu'' (Scalar Tuint),
    Mem ''mtu'' (Scalar Tuint), Mem ''tsize'' (Scalar Tuint)]"

lemma info_struct_tc_sizespec [c_info]: "info struct_tc_sizespec = (24, 4)"
  by (simp add: struct_tc_sizespec_def c_info)

definition struct_netdev_queue :: ctype where
  "struct_netdev_queue = Struct [] [
    Mem ''dev'' (Ptr ''struct net_device''), Mem ''qdisc'' (Ptr ''struct Qdisc''),
    Mem ''qdisc_sleeping'' (Ptr ''struct Qdisc''), Mem ''kobj'' struct_kobject, Mem ''numa_node'' (Scalar Tint),
    Mem ''tx_maxrate'' (Scalar Tulong), Mem ''trans_timeout'' (Scalar Tulong),
    Mem ''sb_dev'' (Ptr ''struct net_device''), Mem ''pool'' (Ptr ''struct xsk_buff_pool''),
    Mem ''_xmit_lock'' typedef_spinlock_t, Mem ''xmit_lock_owner'' (Scalar Tint), Mem ''trans_start'' (Scalar Tulong),
    Mem ''state'' (Scalar Tulong), Pad (Scalar Tlong) 64, Pad (Scalar Tlong) 64, Pad (Scalar Tlong) 64,
    Pad (Scalar Tlong) 64, Pad (Scalar Tlong) 64, Mem ''dql'' struct_dql]"

lemma info_struct_netdev_queue [c_info]: "info struct_netdev_queue = (320, 8)"
  by (simp add: struct_netdev_queue_def c_info)

definition struct_qdisc_skb_head :: ctype where
  "struct_qdisc_skb_head = Struct [] [
    Mem ''head'' (Ptr ''struct sk_buff''), Mem ''tail'' (Ptr ''struct sk_buff''), Mem ''qlen'' typedef___u32,
    Mem ''lock'' typedef_spinlock_t]"

lemma info_struct_qdisc_skb_head [c_info]: "info struct_qdisc_skb_head = (24, 8)"
  by (simp add: struct_qdisc_skb_head_def c_info)

definition struct_gnet_stats_basic_packed :: ctype where
  "struct_gnet_stats_basic_packed = Struct [] [
    Mem ''bytes'' typedef___u64, Mem ''packets'' typedef___u64]"

lemma info_struct_gnet_stats_basic_packed [c_info]: "info struct_gnet_stats_basic_packed = (16, 8)"
  by (simp add: struct_gnet_stats_basic_packed_def c_info)

definition struct_gnet_stats_queue :: ctype where
  "struct_gnet_stats_queue = Struct [] [
    Mem ''qlen'' typedef___u32, Mem ''backlog'' typedef___u32, Mem ''drops'' typedef___u32,
    Mem ''requeues'' typedef___u32, Mem ''overlimits'' typedef___u32]"

lemma info_struct_gnet_stats_queue [c_info]: "info struct_gnet_stats_queue = (20, 4)"
  by (simp add: struct_gnet_stats_queue_def c_info)

definition struct_Qdisc :: ctype where
  "struct_Qdisc = Struct [] [
    Mem ''enqueue'' (FunPtr ''int'' [''struct sk_buff *'', ''struct Qdisc *'', ''struct sk_buff * *'']),
    Mem ''dequeue'' (FunPtr ''struct sk_buff *'' [''struct Qdisc *'']), Mem ''flags'' (Scalar Tuint),
    Mem ''limit'' typedef_u32, Mem ''ops'' (Ptr ''const struct Qdisc_ops''),
    Mem ''stab'' (Ptr ''struct qdisc_size_table''), Mem ''hash'' struct_hlist_node, Mem ''handle'' typedef_u32,
    Mem ''parent'' typedef_u32, Mem ''dev_queue'' (Ptr ''struct netdev_queue''),
    Mem ''rate_est'' (Ptr ''struct net_rate_estimator''), Mem ''cpu_bstats'' (Ptr ''struct gnet_stats_basic_cpu''),
    Mem ''cpu_qstats'' (Ptr ''struct gnet_stats_queue''), Mem ''pad'' (Scalar Tint),
    Mem ''refcnt'' typedef_refcount_t, Pad (Scalar Tlong) 64, Pad (Scalar Tlong) 64, Pad (Scalar Tlong) 64,
    Mem ''gso_skb'' struct_sk_buff_head, Mem ''q'' struct_qdisc_skb_head,
    Mem ''bstats'' struct_gnet_stats_basic_packed, Mem ''running'' typedef_seqcount_t,
    Mem ''qstats'' struct_gnet_stats_queue, Mem ''state'' (Scalar Tulong), Mem ''next_sched'' (Ptr ''struct Qdisc''),
    Mem ''skb_bad_txq'' struct_sk_buff_head, Mem ''busylock'' typedef_spinlock_t, Mem ''seqlock'' typedef_spinlock_t,
    Mem ''rcu'' struct_callback_head, Pad (Scalar Tlong) 64, Pad (Scalar Tlong) 64, Pad (Scalar Tlong) 64,
    Pad (Scalar Tlong) 64, Pad (Scalar Tlong) 64, Mem ''privdata'' (Array (Scalar Tlong) 0)]"

lemma info_struct_Qdisc [c_info]: "info struct_Qdisc = (320, 8)"
  by (simp add: struct_Qdisc_def c_info)

definition struct_netdev_phys_item_id :: ctype where
  "struct_netdev_phys_item_id = Struct [] [
    Mem ''id'' (Array (Scalar Tuchar) 32), Mem ''id_len'' (Scalar Tuchar)]"

lemma info_struct_netdev_phys_item_id [c_info]: "info struct_netdev_phys_item_id = (33, 1)"
  by (simp add: struct_netdev_phys_item_id_def c_info)

definition struct_xfrmdev_ops :: ctype where
  "struct_xfrmdev_ops = Struct [] [
    Mem ''xdo_dev_state_add'' (FunPtr ''int'' [''struct xfrm_state *'']),
    Mem ''xdo_dev_state_delete'' (FunPtr ''void'' [''struct xfrm_state *'']),
    Mem ''xdo_dev_state_free'' (FunPtr ''void'' [''struct xfrm_state *'']),
    Mem ''xdo_dev_offload_ok'' (FunPtr ''bool'' [''struct sk_buff *'', ''struct xfrm_state *'']),
    Mem ''xdo_dev_state_advance_esn'' (FunPtr ''void'' [''struct xfrm_state *''])]"

lemma info_struct_xfrmdev_ops [c_info]: "info struct_xfrmdev_ops = (40, 8)"
  by (simp add: struct_xfrmdev_ops_def c_info)

definition struct_netdev_name_node :: ctype where
  "struct_netdev_name_node = Struct [] [
    Mem ''hlist'' struct_hlist_node, Mem ''list'' struct_list_head, Mem ''dev'' (Ptr ''struct net_device''),
    Mem ''name'' (Ptr ''const char'')]"

lemma info_struct_netdev_name_node [c_info]: "info struct_netdev_name_node = (48, 8)"
  by (simp add: struct_netdev_name_node_def c_info)

definition struct_net_device_ops :: ctype where
  "struct_net_device_ops = Struct [] [
    Mem ''ndo_init'' (FunPtr ''int'' [''struct net_device *'']),
    Mem ''ndo_uninit'' (FunPtr ''void'' [''struct net_device *'']),
    Mem ''ndo_open'' (FunPtr ''int'' [''struct net_device *'']),
    Mem ''ndo_stop'' (FunPtr ''int'' [''struct net_device *'']),
    Mem ''ndo_start_xmit'' (FunPtr ''netdev_tx_t'' [''struct sk_buff *'', ''struct net_device *'']),
    Mem ''ndo_features_check'' (FunPtr ''netdev_features_t'' [''struct sk_buff *'', ''struct net_device *'', ''netdev_features_t'']),
    Mem ''ndo_select_queue'' (FunPtr ''u16'' [''struct net_device *'', ''struct sk_buff *'', ''struct net_device *'']),
    Mem ''ndo_change_rx_flags'' (FunPtr ''void'' [''struct net_device *'', ''int'']),
    Mem ''ndo_set_rx_mode'' (FunPtr ''void'' [''struct net_device *'']),
    Mem ''ndo_set_mac_address'' (FunPtr ''int'' [''struct net_device *'', ''void *'']),
    Mem ''ndo_validate_addr'' (FunPtr ''int'' [''struct net_device *'']),
    Mem ''ndo_do_ioctl'' (FunPtr ''int'' [''struct net_device *'', ''struct ifreq *'', ''int'']),
    Mem ''ndo_eth_ioctl'' (FunPtr ''int'' [''struct net_device *'', ''struct ifreq *'', ''int'']),
    Mem ''ndo_siocbond'' (FunPtr ''int'' [''struct net_device *'', ''struct ifreq *'', ''int'']),
    Mem ''ndo_siocwandev'' (FunPtr ''int'' [''struct net_device *'', ''struct if_settings *'']),
    Mem ''ndo_siocdevprivate'' (FunPtr ''int'' [''struct net_device *'', ''struct ifreq *'', ''void *'', ''int'']),
    Mem ''ndo_set_config'' (FunPtr ''int'' [''struct net_device *'', ''struct ifmap *'']),
    Mem ''ndo_change_mtu'' (FunPtr ''int'' [''struct net_device *'', ''int'']),
    Mem ''ndo_neigh_setup'' (FunPtr ''int'' [''struct net_device *'', ''struct neigh_parms *'']),
    Mem ''ndo_tx_timeout'' (FunPtr ''void'' [''struct net_device *'', ''unsigned int'']),
    Mem ''ndo_get_stats64'' (FunPtr ''void'' [''struct net_device *'', ''struct rtnl_link_stats64 *'']),
    Mem ''ndo_has_offload_stats'' (FunPtr ''bool'' [''const struct net_device *'', ''int'']),
    Mem ''ndo_get_offload_stats'' (FunPtr ''int'' [''int'', ''const struct net_device *'', ''void *'']),
    Mem ''ndo_get_stats'' (FunPtr ''struct net_device_stats *'' [''struct net_device *'']),
    Mem ''ndo_vlan_rx_add_vid'' (FunPtr ''int'' [''struct net_device *'', ''__be16'', ''u16'']),
    Mem ''ndo_vlan_rx_kill_vid'' (FunPtr ''int'' [''struct net_device *'', ''__be16'', ''u16'']),
    Mem ''ndo_poll_controller'' (FunPtr ''void'' [''struct net_device *'']),
    Mem ''ndo_netpoll_setup'' (FunPtr ''int'' [''struct net_device *'', ''struct netpoll_info *'']),
    Mem ''ndo_netpoll_cleanup'' (FunPtr ''void'' [''struct net_device *'']),
    Mem ''ndo_set_vf_mac'' (FunPtr ''int'' [''struct net_device *'', ''int'', ''u8 *'']),
    Mem ''ndo_set_vf_vlan'' (FunPtr ''int'' [''struct net_device *'', ''int'', ''u16'', ''u8'', ''__be16'']),
    Mem ''ndo_set_vf_rate'' (FunPtr ''int'' [''struct net_device *'', ''int'', ''int'', ''int'']),
    Mem ''ndo_set_vf_spoofchk'' (FunPtr ''int'' [''struct net_device *'', ''int'', ''bool'']),
    Mem ''ndo_set_vf_trust'' (FunPtr ''int'' [''struct net_device *'', ''int'', ''bool'']),
    Mem ''ndo_get_vf_config'' (FunPtr ''int'' [''struct net_device *'', ''int'', ''struct ifla_vf_info *'']),
    Mem ''ndo_set_vf_link_state'' (FunPtr ''int'' [''struct net_device *'', ''int'', ''int'']),
    Mem ''ndo_get_vf_stats'' (FunPtr ''int'' [''struct net_device *'', ''int'', ''struct ifla_vf_stats *'']),
    Mem ''ndo_set_vf_port'' (FunPtr ''int'' [''struct net_device *'', ''int'', ''struct nlattr * *'']),
    Mem ''ndo_get_vf_port'' (FunPtr ''int'' [''struct net_device *'', ''int'', ''struct sk_buff *'']),
    Mem ''ndo_get_vf_guid'' (FunPtr ''int'' [''struct net_device *'', ''int'', ''struct ifla_vf_guid *'', ''struct ifla_vf_guid *'']),
    Mem ''ndo_set_vf_guid'' (FunPtr ''int'' [''struct net_device *'', ''int'', ''u64'', ''int'']),
    Mem ''ndo_set_vf_rss_query_en'' (FunPtr ''int'' [''struct net_device *'', ''int'', ''bool'']),
    Mem ''ndo_setup_tc'' (FunPtr ''int'' [''struct net_device *'', ''enum tc_setup_type'', ''void *'']),
    Mem ''ndo_fcoe_enable'' (FunPtr ''int'' [''struct net_device *'']),
    Mem ''ndo_fcoe_disable'' (FunPtr ''int'' [''struct net_device *'']),
    Mem ''ndo_fcoe_ddp_setup'' (FunPtr ''int'' [''struct net_device *'', ''u16'', ''struct scatterlist *'', ''unsigned int'']),
    Mem ''ndo_fcoe_ddp_done'' (FunPtr ''int'' [''struct net_device *'', ''u16'']),
    Mem ''ndo_fcoe_ddp_target'' (FunPtr ''int'' [''struct net_device *'', ''u16'', ''struct scatterlist *'', ''unsigned int'']),
    Mem ''ndo_fcoe_get_hbainfo'' (FunPtr ''int'' [''struct net_device *'', ''struct netdev_fcoe_hbainfo *'']),
    Mem ''ndo_fcoe_get_wwn'' (FunPtr ''int'' [''struct net_device *'', ''u64 *'', ''int'']),
    Mem ''ndo_rx_flow_steer'' (FunPtr ''int'' [''struct net_device *'', ''const struct sk_buff *'', ''u16'', ''u32'']),
    Mem ''ndo_add_slave'' (FunPtr ''int'' [''struct net_device *'', ''struct net_device *'', ''struct netlink_ext_ack *'']),
    Mem ''ndo_del_slave'' (FunPtr ''int'' [''struct net_device *'', ''struct net_device *'']),
    Mem ''ndo_get_xmit_slave'' (FunPtr ''struct net_device *'' [''struct net_device *'', ''struct sk_buff *'', ''bool'']),
    Mem ''ndo_sk_get_lower_dev'' (FunPtr ''struct net_device *'' [''struct net_device *'', ''struct sock *'']),
    Mem ''ndo_fix_features'' (FunPtr ''netdev_features_t'' [''struct net_device *'', ''netdev_features_t'']),
    Mem ''ndo_set_features'' (FunPtr ''int'' [''struct net_device *'', ''netdev_features_t'']),
    Mem ''ndo_neigh_construct'' (FunPtr ''int'' [''struct net_device *'', ''struct neighbour *'']),
    Mem ''ndo_neigh_destroy'' (FunPtr ''void'' [''struct net_device *'', ''struct neighbour *'']),
    Mem ''ndo_fdb_add'' (FunPtr ''int'' [''struct ndmsg *'', ''struct nlattr * *'', ''struct net_device *'', ''const unsigned char *'', ''u16'', ''u16'', ''struct netlink_ext_ack *'']),
    Mem ''ndo_fdb_del'' (FunPtr ''int'' [''struct ndmsg *'', ''struct nlattr * *'', ''struct net_device *'', ''const unsigned char *'', ''u16'']),
    Mem ''ndo_fdb_dump'' (FunPtr ''int'' [''struct sk_buff *'', ''struct netlink_callback *'', ''struct net_device *'', ''struct net_device *'', ''int *'']),
    Mem ''ndo_fdb_get'' (FunPtr ''int'' [''struct sk_buff *'', ''struct nlattr * *'', ''struct net_device *'', ''const unsigned char *'', ''u16'', ''u32'', ''u32'', ''struct netlink_ext_ack *'']),
    Mem ''ndo_bridge_setlink'' (FunPtr ''int'' [''struct net_device *'', ''struct nlmsghdr *'', ''u16'', ''struct netlink_ext_ack *'']),
    Mem ''ndo_bridge_getlink'' (FunPtr ''int'' [''struct sk_buff *'', ''u32'', ''u32'', ''struct net_device *'', ''u32'', ''int'']),
    Mem ''ndo_bridge_dellink'' (FunPtr ''int'' [''struct net_device *'', ''struct nlmsghdr *'', ''u16'']),
    Mem ''ndo_change_carrier'' (FunPtr ''int'' [''struct net_device *'', ''bool'']),
    Mem ''ndo_get_phys_port_id'' (FunPtr ''int'' [''struct net_device *'', ''struct netdev_phys_item_id *'']),
    Mem ''ndo_get_port_parent_id'' (FunPtr ''int'' [''struct net_device *'', ''struct netdev_phys_item_id *'']),
    Mem ''ndo_get_phys_port_name'' (FunPtr ''int'' [''struct net_device *'', ''char *'', ''size_t'']),
    Mem ''ndo_dfwd_add_station'' (FunPtr ''void *'' [''struct net_device *'', ''struct net_device *'']),
    Mem ''ndo_dfwd_del_station'' (FunPtr ''void'' [''struct net_device *'', ''void *'']),
    Mem ''ndo_set_tx_maxrate'' (FunPtr ''int'' [''struct net_device *'', ''int'', ''u32'']),
    Mem ''ndo_get_iflink'' (FunPtr ''int'' [''const struct net_device *'']),
    Mem ''ndo_change_proto_down'' (FunPtr ''int'' [''struct net_device *'', ''bool'']),
    Mem ''ndo_fill_metadata_dst'' (FunPtr ''int'' [''struct net_device *'', ''struct sk_buff *'']),
    Mem ''ndo_set_rx_headroom'' (FunPtr ''void'' [''struct net_device *'', ''int'']),
    Mem ''ndo_bpf'' (FunPtr ''int'' [''struct net_device *'', ''struct netdev_bpf *'']),
    Mem ''ndo_xdp_xmit'' (FunPtr ''int'' [''struct net_device *'', ''int'', ''struct xdp_frame * *'', ''u32'']),
    Mem ''ndo_xdp_get_xmit_slave'' (FunPtr ''struct net_device *'' [''struct net_device *'', ''struct xdp_buff *'']),
    Mem ''ndo_xsk_wakeup'' (FunPtr ''int'' [''struct net_device *'', ''u32'', ''u32'']),
    Mem ''ndo_get_devlink_port'' (FunPtr ''struct devlink_port *'' [''struct net_device *'']),
    Mem ''ndo_tunnel_ctl'' (FunPtr ''int'' [''struct net_device *'', ''struct ip_tunnel_parm *'', ''int'']),
    Mem ''ndo_get_peer_dev'' (FunPtr ''struct net_device *'' [''struct net_device *'']),
    Mem ''ndo_fill_forward_path'' (FunPtr ''int'' [''struct net_device_path_ctx *'', ''struct net_device_path *''])]"

lemma info_struct_net_device_ops [c_info]: "info struct_net_device_ops = (680, 8)"
  by (simp add: struct_net_device_ops_def c_info)

definition struct_neigh_parms :: ctype where
  "struct_neigh_parms = Struct [] [
    Mem ''net'' typedef_possible_net_t, Mem ''dev'' (Ptr ''struct net_device''), Mem ''list'' struct_list_head,
    Mem ''neigh_setup'' (FunPtr ''int'' [''struct neighbour *'']), Mem ''tbl'' (Ptr ''struct neigh_table''),
    Mem ''sysctl_table'' (Ptr ''void''), Mem ''dead'' (Scalar Tint), Mem ''refcnt'' typedef_refcount_t,
    Mem ''callback_head'' struct_callback_head, Mem ''reachable_time'' (Scalar Tint),
    Mem ''data'' (Array (Scalar Tint) 13), Mem ''data_state'' (Array (Scalar Tulong) 1)]"

lemma info_struct_neigh_parms [c_info]: "info struct_neigh_parms = (144, 8)"
  by (simp add: struct_neigh_parms_def c_info)

definition struct_iw_handler_def :: ctype where
  "struct_iw_handler_def = Struct [] [
    Mem ''standard'' (Ptr ''const iw_handler''), Mem ''num_standard'' typedef___u16,
    Mem ''num_private'' typedef___u16, Mem ''num_private_args'' typedef___u16,
    Mem ''private'' (Ptr ''const iw_handler''), Mem ''private_args'' (Ptr ''const struct iw_priv_args''),
    Mem ''get_wireless_stats'' (FunPtr ''struct iw_statistics *'' [''struct net_device *''])]"

lemma info_struct_iw_handler_def [c_info]: "info struct_iw_handler_def = (40, 8)"
  by (simp add: struct_iw_handler_def_def c_info)

definition struct_ethtool_ops :: ctype where
  "struct_ethtool_ops = Struct [] [
    Bits ''cap_link_lanes_supported'' typedef_u32 1, Mem ''supported_coalesce_params'' typedef_u32,
    Mem ''get_drvinfo'' (FunPtr ''void'' [''struct net_device *'', ''struct ethtool_drvinfo *'']),
    Mem ''get_regs_len'' (FunPtr ''int'' [''struct net_device *'']),
    Mem ''get_regs'' (FunPtr ''void'' [''struct net_device *'', ''struct ethtool_regs *'', ''void *'']),
    Mem ''get_wol'' (FunPtr ''void'' [''struct net_device *'', ''struct ethtool_wolinfo *'']),
    Mem ''set_wol'' (FunPtr ''int'' [''struct net_device *'', ''struct ethtool_wolinfo *'']),
    Mem ''get_msglevel'' (FunPtr ''u32'' [''struct net_device *'']),
    Mem ''set_msglevel'' (FunPtr ''void'' [''struct net_device *'', ''u32'']),
    Mem ''nway_reset'' (FunPtr ''int'' [''struct net_device *'']),
    Mem ''get_link'' (FunPtr ''u32'' [''struct net_device *'']),
    Mem ''get_link_ext_state'' (FunPtr ''int'' [''struct net_device *'', ''struct ethtool_link_ext_state_info *'']),
    Mem ''get_eeprom_len'' (FunPtr ''int'' [''struct net_device *'']),
    Mem ''get_eeprom'' (FunPtr ''int'' [''struct net_device *'', ''struct ethtool_eeprom *'', ''u8 *'']),
    Mem ''set_eeprom'' (FunPtr ''int'' [''struct net_device *'', ''struct ethtool_eeprom *'', ''u8 *'']),
    Mem ''get_coalesce'' (FunPtr ''int'' [''struct net_device *'', ''struct ethtool_coalesce *'', ''struct kernel_ethtool_coalesce *'', ''struct netlink_ext_ack *'']),
    Mem ''set_coalesce'' (FunPtr ''int'' [''struct net_device *'', ''struct ethtool_coalesce *'', ''struct kernel_ethtool_coalesce *'', ''struct netlink_ext_ack *'']),
    Mem ''get_ringparam'' (FunPtr ''void'' [''struct net_device *'', ''struct ethtool_ringparam *'']),
    Mem ''set_ringparam'' (FunPtr ''int'' [''struct net_device *'', ''struct ethtool_ringparam *'']),
    Mem ''get_pause_stats'' (FunPtr ''void'' [''struct net_device *'', ''struct ethtool_pause_stats *'']),
    Mem ''get_pauseparam'' (FunPtr ''void'' [''struct net_device *'', ''struct ethtool_pauseparam *'']),
    Mem ''set_pauseparam'' (FunPtr ''int'' [''struct net_device *'', ''struct ethtool_pauseparam *'']),
    Mem ''self_test'' (FunPtr ''void'' [''struct net_device *'', ''struct ethtool_test *'', ''u64 *'']),
    Mem ''get_strings'' (FunPtr ''void'' [''struct net_device *'', ''u32'', ''u8 *'']),
    Mem ''set_phys_id'' (FunPtr ''int'' [''struct net_device *'', ''enum ethtool_phys_id_state'']),
    Mem ''get_ethtool_stats'' (FunPtr ''void'' [''struct net_device *'', ''struct ethtool_stats *'', ''u64 *'']),
    Mem ''begin'' (FunPtr ''int'' [''struct net_device *'']),
    Mem ''complete'' (FunPtr ''void'' [''struct net_device *'']),
    Mem ''get_priv_flags'' (FunPtr ''u32'' [''struct net_device *'']),
    Mem ''set_priv_flags'' (FunPtr ''int'' [''struct net_device *'', ''u32'']),
    Mem ''get_sset_count'' (FunPtr ''int'' [''struct net_device *'', ''int'']),
    Mem ''get_rxnfc'' (FunPtr ''int'' [''struct net_device *'', ''struct ethtool_rxnfc *'', ''u32 *'']),
    Mem ''set_rxnfc'' (FunPtr ''int'' [''struct net_device *'', ''struct ethtool_rxnfc *'']),
    Mem ''flash_device'' (FunPtr ''int'' [''struct net_device *'', ''struct ethtool_flash *'']),
    Mem ''reset'' (FunPtr ''int'' [''struct net_device *'', ''u32 *'']),
    Mem ''get_rxfh_key_size'' (FunPtr ''u32'' [''struct net_device *'']),
    Mem ''get_rxfh_indir_size'' (FunPtr ''u32'' [''struct net_device *'']),
    Mem ''get_rxfh'' (FunPtr ''int'' [''struct net_device *'', ''u32 *'', ''u8 *'', ''u8 *'']),
    Mem ''set_rxfh'' (FunPtr ''int'' [''struct net_device *'', ''const u32 *'', ''const u8 *'', ''const u8'']),
    Mem ''get_rxfh_context'' (FunPtr ''int'' [''struct net_device *'', ''u32 *'', ''u8 *'', ''u8 *'', ''u32'']),
    Mem ''set_rxfh_context'' (FunPtr ''int'' [''struct net_device *'', ''const u32 *'', ''const u8 *'', ''const u8'', ''u32 *'', ''bool'']),
    Mem ''get_channels'' (FunPtr ''void'' [''struct net_device *'', ''struct ethtool_channels *'']),
    Mem ''set_channels'' (FunPtr ''int'' [''struct net_device *'', ''struct ethtool_channels *'']),
    Mem ''get_dump_flag'' (FunPtr ''int'' [''struct net_device *'', ''struct ethtool_dump *'']),
    Mem ''get_dump_data'' (FunPtr ''int'' [''struct net_device *'', ''struct ethtool_dump *'', ''void *'']),
    Mem ''set_dump'' (FunPtr ''int'' [''struct net_device *'', ''struct ethtool_dump *'']),
    Mem ''get_ts_info'' (FunPtr ''int'' [''struct net_device *'', ''struct ethtool_ts_info *'']),
    Mem ''get_module_info'' (FunPtr ''int'' [''struct net_device *'', ''struct ethtool_modinfo *'']),
    Mem ''get_module_eeprom'' (FunPtr ''int'' [''struct net_device *'', ''struct ethtool_eeprom *'', ''u8 *'']),
    Mem ''get_eee'' (FunPtr ''int'' [''struct net_device *'', ''struct ethtool_eee *'']),
    Mem ''set_eee'' (FunPtr ''int'' [''struct net_device *'', ''struct ethtool_eee *'']),
    Mem ''get_tunable'' (FunPtr ''int'' [''struct net_device *'', ''const struct ethtool_tunable *'', ''void *'']),
    Mem ''set_tunable'' (FunPtr ''int'' [''struct net_device *'', ''const struct ethtool_tunable *'', ''const void *'']),
    Mem ''get_per_queue_coalesce'' (FunPtr ''int'' [''struct net_device *'', ''u32'', ''struct ethtool_coalesce *'']),
    Mem ''set_per_queue_coalesce'' (FunPtr ''int'' [''struct net_device *'', ''u32'', ''struct ethtool_coalesce *'']),
    Mem ''get_link_ksettings'' (FunPtr ''int'' [''struct net_device *'', ''struct ethtool_link_ksettings *'']),
    Mem ''set_link_ksettings'' (FunPtr ''int'' [''struct net_device *'', ''const struct ethtool_link_ksettings *'']),
    Mem ''get_fec_stats'' (FunPtr ''void'' [''struct net_device *'', ''struct ethtool_fec_stats *'']),
    Mem ''get_fecparam'' (FunPtr ''int'' [''struct net_device *'', ''struct ethtool_fecparam *'']),
    Mem ''set_fecparam'' (FunPtr ''int'' [''struct net_device *'', ''struct ethtool_fecparam *'']),
    Mem ''get_ethtool_phy_stats'' (FunPtr ''void'' [''struct net_device *'', ''struct ethtool_stats *'', ''u64 *'']),
    Mem ''get_phy_tunable'' (FunPtr ''int'' [''struct net_device *'', ''const struct ethtool_tunable *'', ''void *'']),
    Mem ''set_phy_tunable'' (FunPtr ''int'' [''struct net_device *'', ''const struct ethtool_tunable *'', ''const void *'']),
    Mem ''get_module_eeprom_by_page'' (FunPtr ''int'' [''struct net_device *'', ''const struct ethtool_module_eeprom *'', ''struct netlink_ext_ack *'']),
    Mem ''get_eth_phy_stats'' (FunPtr ''void'' [''struct net_device *'', ''struct ethtool_eth_phy_stats *'']),
    Mem ''get_eth_mac_stats'' (FunPtr ''void'' [''struct net_device *'', ''struct ethtool_eth_mac_stats *'']),
    Mem ''get_eth_ctrl_stats'' (FunPtr ''void'' [''struct net_device *'', ''struct ethtool_eth_ctrl_stats *'']),
    Mem ''get_rmon_stats'' (FunPtr ''void'' [''struct net_device *'', ''struct ethtool_rmon_stats *'', ''const struct ethtool_rmon_hist_range * *''])]"

lemma info_struct_ethtool_ops [c_info]: "info struct_ethtool_ops = (536, 8)"
  by (simp add: struct_ethtool_ops_def c_info)

definition struct_mini_Qdisc :: ctype where
  "struct_mini_Qdisc = Struct [] [
    Mem ''filter_list'' (Ptr ''struct tcf_proto''), Mem ''block'' (Ptr ''struct tcf_block''),
    Mem ''cpu_bstats'' (Ptr ''struct gnet_stats_basic_cpu''), Mem ''cpu_qstats'' (Ptr ''struct gnet_stats_queue''),
    Mem ''rcu'' struct_callback_head]"

lemma info_struct_mini_Qdisc [c_info]: "info struct_mini_Qdisc = (48, 8)"
  by (simp add: struct_mini_Qdisc_def c_info)

definition struct_rtnl_link_ops :: ctype where
  "struct_rtnl_link_ops = Struct [] [
    Mem ''list'' struct_list_head, Mem ''kind'' (Ptr ''const char''), Mem ''priv_size'' typedef_size_t,
    Mem ''alloc'' (FunPtr ''struct net_device *'' [''struct nlattr * *'', ''const char *'', ''unsigned char'', ''unsigned int'', ''unsigned int'']),
    Mem ''setup'' (FunPtr ''void'' [''struct net_device *'']), Mem ''netns_refund'' typedef_bool,
    Mem ''maxtype'' (Scalar Tuint), Mem ''policy'' (Ptr ''const struct nla_policy''),
    Mem ''validate'' (FunPtr ''int'' [''struct nlattr * *'', ''struct nlattr * *'', ''struct netlink_ext_ack *'']),
    Mem ''newlink'' (FunPtr ''int'' [''struct net *'', ''struct net_device *'', ''struct nlattr * *'', ''struct nlattr * *'', ''struct netlink_ext_ack *'']),
    Mem ''changelink'' (FunPtr ''int'' [''struct net_device *'', ''struct nlattr * *'', ''struct nlattr * *'', ''struct netlink_ext_ack *'']),
    Mem ''dellink'' (FunPtr ''void'' [''struct net_device *'', ''struct list_head *'']),
    Mem ''get_size'' (FunPtr ''size_t'' [''const struct net_device *'']),
    Mem ''fill_info'' (FunPtr ''int'' [''struct sk_buff *'', ''const struct net_device *'']),
    Mem ''get_xstats_size'' (FunPtr ''size_t'' [''const struct net_device *'']),
    Mem ''fill_xstats'' (FunPtr ''int'' [''struct sk_buff *'', ''const struct net_device *'']),
    Mem ''get_num_tx_queues'' (FunPtr ''unsigned int'' [''void'']),
    Mem ''get_num_rx_queues'' (FunPtr ''unsigned int'' [''void'']), Mem ''slave_maxtype'' (Scalar Tuint),
    Mem ''slave_policy'' (Ptr ''const struct nla_policy''),
    Mem ''slave_changelink'' (FunPtr ''int'' [''struct net_device *'', ''struct net_device *'', ''struct nlattr * *'', ''struct nlattr * *'', ''struct netlink_ext_ack *'']),
    Mem ''get_slave_size'' (FunPtr ''size_t'' [''const struct net_device *'', ''const struct net_device *'']),
    Mem ''fill_slave_info'' (FunPtr ''int'' [''struct sk_buff *'', ''const struct net_device *'', ''const struct net_device *'']),
    Mem ''get_link_net'' (FunPtr ''struct net *'' [''const struct net_device *'']),
    Mem ''get_linkxstats_size'' (FunPtr ''size_t'' [''const struct net_device *'', ''int'']),
    Mem ''fill_linkxstats'' (FunPtr ''int'' [''struct sk_buff *'', ''const struct net_device *'', ''int *'', ''int''])]"

lemma info_struct_rtnl_link_ops [c_info]: "info struct_rtnl_link_ops = (208, 8)"
  by (simp add: struct_rtnl_link_ops_def c_info)

definition struct_gnet_stats_basic_cpu :: ctype where
  "struct_gnet_stats_basic_cpu = Struct [] [
    Mem ''bstats'' struct_gnet_stats_basic_packed, Mem ''syncp'' struct_u64_stats_sync]"

lemma info_struct_gnet_stats_basic_cpu [c_info]: "info struct_gnet_stats_basic_cpu = (16, 8)"
  by (simp add: struct_gnet_stats_basic_cpu_def c_info)

definition struct_qdisc_size_table :: ctype where
  "struct_qdisc_size_table = Struct [] [
    Mem ''rcu'' struct_callback_head, Mem ''list'' struct_list_head, Mem ''szopts'' struct_tc_sizespec,
    Mem ''refcnt'' (Scalar Tint), Mem ''data'' (Array typedef_u16 0)]"

lemma info_struct_qdisc_size_table [c_info]: "info struct_qdisc_size_table = (64, 8)"
  by (simp add: struct_qdisc_size_table_def c_info)

definition struct_Qdisc_ops :: ctype where
  "struct_Qdisc_ops = Struct [] [
    Mem ''next'' (Ptr ''struct Qdisc_ops''), Mem ''cl_ops'' (Ptr ''const struct Qdisc_class_ops''),
    Mem ''id'' (Array (Scalar Tchar) 16), Mem ''priv_size'' (Scalar Tint), Mem ''static_flags'' (Scalar Tuint),
    Mem ''enqueue'' (FunPtr ''int'' [''struct sk_buff *'', ''struct Qdisc *'', ''struct sk_buff * *'']),
    Mem ''dequeue'' (FunPtr ''struct sk_buff *'' [''struct Qdisc *'']),
    Mem ''peek'' (FunPtr ''struct sk_buff *'' [''struct Qdisc *'']),
    Mem ''init'' (FunPtr ''int'' [''struct Qdisc *'', ''struct nlattr *'', ''struct netlink_ext_ack *'']),
    Mem ''reset'' (FunPtr ''void'' [''struct Qdisc *'']), Mem ''destroy'' (FunPtr ''void'' [''struct Qdisc *'']),
    Mem ''change'' (FunPtr ''int'' [''struct Qdisc *'', ''struct nlattr *'', ''struct netlink_ext_ack *'']),
    Mem ''attach'' (FunPtr ''void'' [''struct Qdisc *'']),
    Mem ''change_tx_queue_len'' (FunPtr ''int'' [''struct Qdisc *'', ''unsigned int'']),
    Mem ''change_real_num_tx'' (FunPtr ''void'' [''struct Qdisc *'', ''unsigned int'']),
    Mem ''dump'' (FunPtr ''int'' [''struct Qdisc *'', ''struct sk_buff *'']),
    Mem ''dump_stats'' (FunPtr ''int'' [''struct Qdisc *'', ''struct gnet_dump *'']),
    Mem ''ingress_block_set'' (FunPtr ''void'' [''struct Qdisc *'', ''u32'']),
    Mem ''egress_block_set'' (FunPtr ''void'' [''struct Qdisc *'', ''u32'']),
    Mem ''ingress_block_get'' (FunPtr ''u32'' [''struct Qdisc *'']),
    Mem ''egress_block_get'' (FunPtr ''u32'' [''struct Qdisc *'']), Mem ''owner'' (Ptr ''struct module'')]"

lemma info_struct_Qdisc_ops [c_info]: "info struct_Qdisc_ops = (176, 8)"
  by (simp add: struct_Qdisc_ops_def c_info)

definition struct_tcf_block :: ctype where
  "struct_tcf_block = Struct [] [
    Mem ''lock'' struct_mutex, Mem ''chain_list'' struct_list_head, Mem ''index'' typedef_u32,
    Mem ''classid'' typedef_u32, Mem ''refcnt'' typedef_refcount_t, Mem ''net'' (Ptr ''struct net''),
    Mem ''q'' (Ptr ''struct Qdisc''), Mem ''cb_lock'' struct_rw_semaphore, Mem ''flow_block'' struct_flow_block,
    Mem ''owner_list'' struct_list_head, Mem ''keep_dst'' typedef_bool, Mem ''offloadcnt'' typedef_atomic_t,
    Mem ''nooffloaddevcnt'' (Scalar Tuint), Mem ''lockeddevcnt'' (Scalar Tuint),
    Mem ''chain0'' (Struct [] [
      Mem ''chain'' (Ptr ''struct tcf_chain''), Mem ''filter_chain_list'' struct_list_head]),
    Mem ''rcu'' struct_callback_head, Mem ''proto_destroy_ht'' (Array struct_hlist_head 128),
    Mem ''proto_destroy_lock'' struct_mutex]"

lemma info_struct_tcf_block [c_info]: "info struct_tcf_block = (1264, 8)"
  by (simp add: struct_tcf_block_def c_info)

definition struct_dst_metrics :: ctype where
  "struct_dst_metrics = Struct [] [
    Mem ''metrics'' (Array typedef_u32 17), Mem ''refcnt'' typedef_refcount_t]"

lemma info_struct_dst_metrics [c_info]: "info struct_dst_metrics = (72, 4)"
  by (simp add: struct_dst_metrics_def c_info)

definition struct_net_generic :: ctype where
  "struct_net_generic = Struct [] [
    Anon (Union [] [
      Mem ''s'' (Struct [] [
        Mem ''len'' (Scalar Tuint), Mem ''rcu'' struct_callback_head]),
      Mem ''ptr'' (Array (Ptr ''void'') 0)])]"

lemma info_struct_net_generic [c_info]: "info struct_net_generic = (24, 8)"
  by (simp add: struct_net_generic_def c_info)

definition struct_fib_table :: ctype where
  "struct_fib_table = Struct [] [
    Mem ''tb_hlist'' struct_hlist_node, Mem ''tb_id'' typedef_u32, Mem ''tb_num_default'' (Scalar Tint),
    Mem ''rcu'' struct_callback_head, Mem ''tb_data'' (Ptr ''long unsigned int''),
    Mem ''__data'' (Array (Scalar Tulong) 0)]"

lemma info_struct_fib_table [c_info]: "info struct_fib_table = (48, 8)"
  by (simp add: struct_fib_table_def c_info)

definition struct_lwtunnel_state :: ctype where
  "struct_lwtunnel_state = Struct [] [
    Mem ''type'' typedef___u16, Mem ''flags'' typedef___u16, Mem ''headroom'' typedef___u16,
    Mem ''refcnt'' typedef_atomic_t,
    Mem ''orig_output'' (FunPtr ''int'' [''struct net *'', ''struct sock *'', ''struct sk_buff *'']),
    Mem ''orig_input'' (FunPtr ''int'' [''struct sk_buff *'']), Mem ''rcu'' struct_callback_head,
    Mem ''data'' (Array typedef___u8 0)]"

lemma info_struct_lwtunnel_state [c_info]: "info struct_lwtunnel_state = (48, 8)"
  by (simp add: struct_lwtunnel_state_def c_info)

definition struct_xfrm_sec_ctx :: ctype where
  "struct_xfrm_sec_ctx = Struct [] [
    Mem ''ctx_doi'' typedef___u8, Mem ''ctx_alg'' typedef___u8, Mem ''ctx_len'' typedef___u16,
    Mem ''ctx_sid'' typedef___u32, Mem ''ctx_str'' (Array (Scalar Tchar) 0)]"

lemma info_struct_xfrm_sec_ctx [c_info]: "info struct_xfrm_sec_ctx = (8, 4)"
  by (simp add: struct_xfrm_sec_ctx_def c_info)

definition struct_nf_hook_entry :: ctype where
  "struct_nf_hook_entry = Struct [] [
    Mem ''hook'' (Ptr ''nf_hookfn''), Mem ''priv'' (Ptr ''void'')]"

lemma info_struct_nf_hook_entry [c_info]: "info struct_nf_hook_entry = (16, 8)"
  by (simp add: struct_nf_hook_entry_def c_info)

definition struct_nf_hook_entries :: ctype where
  "struct_nf_hook_entries = Struct [] [
    Mem ''num_hook_entries'' typedef_u16, Mem ''hooks'' (Array struct_nf_hook_entry 0)]"

lemma info_struct_nf_hook_entries [c_info]: "info struct_nf_hook_entries = (8, 8)"
  by (simp add: struct_nf_hook_entries_def c_info)

definition struct_rt6key :: ctype where
  "struct_rt6key = Struct [] [
    Mem ''addr'' struct_in6_addr, Mem ''plen'' (Scalar Tint)]"

lemma info_struct_rt6key [c_info]: "info struct_rt6key = (20, 4)"
  by (simp add: struct_rt6key_def c_info)

definition struct_fib_nh_common :: ctype where
  "struct_fib_nh_common = Struct [] [
    Mem ''nhc_dev'' (Ptr ''struct net_device''), Mem ''nhc_oif'' (Scalar Tint), Mem ''nhc_scope'' (Scalar Tuchar),
    Mem ''nhc_family'' typedef_u8, Mem ''nhc_gw_family'' typedef_u8, Mem ''nhc_flags'' (Scalar Tuchar),
    Mem ''nhc_lwtstate'' (Ptr ''struct lwtunnel_state''),
    Mem ''nhc_gw'' (Union [] [
      Mem ''ipv4'' typedef___be32, Mem ''ipv6'' struct_in6_addr]),
    Mem ''nhc_weight'' (Scalar Tint), Mem ''nhc_upper_bound'' typedef_atomic_t,
    Mem ''nhc_pcpu_rth_output'' (Ptr ''struct rtable *''), Mem ''nhc_rth_input'' (Ptr ''struct rtable''),
    Mem ''nhc_exceptions'' (Ptr ''struct fnhe_hash_bucket'')]"

lemma info_struct_fib_nh_common [c_info]: "info struct_fib_nh_common = (72, 8)"
  by (simp add: struct_fib_nh_common_def c_info)

definition struct_fib6_nh :: ctype where
  "struct_fib6_nh = Struct [] [
    Mem ''nh_common'' struct_fib_nh_common, Mem ''last_probe'' (Scalar Tulong),
    Mem ''rt6i_pcpu'' (Ptr ''struct rt6_info *''), Mem ''rt6i_exception_bucket'' (Ptr ''struct rt6_exception_bucket'')]"

lemma info_struct_fib6_nh [c_info]: "info struct_fib6_nh = (96, 8)"
  by (simp add: struct_fib6_nh_def c_info)

definition struct_fib6_info :: ctype where
  "struct_fib6_info = Struct [] [
    Mem ''fib6_table'' (Ptr ''struct fib6_table''), Mem ''fib6_next'' (Ptr ''struct fib6_info''),
    Mem ''fib6_node'' (Ptr ''struct fib6_node''),
    Anon (Union [] [
      Mem ''fib6_siblings'' struct_list_head, Mem ''nh_list'' struct_list_head]),
    Mem ''fib6_nsiblings'' (Scalar Tuint), Mem ''fib6_ref'' typedef_refcount_t, Mem ''expires'' (Scalar Tulong),
    Mem ''fib6_metrics'' (Ptr ''struct dst_metrics''), Mem ''fib6_dst'' struct_rt6key, Mem ''fib6_flags'' typedef_u32,
    Mem ''fib6_src'' struct_rt6key, Mem ''fib6_prefsrc'' struct_rt6key, Mem ''fib6_metric'' typedef_u32,
    Mem ''fib6_protocol'' typedef_u8, Mem ''fib6_type'' typedef_u8, Mem ''offload'' typedef_u8,
    Mem ''trap'' typedef_u8, Mem ''offload_failed'' typedef_u8, Bits ''should_flush'' typedef_u8 1,
    Bits ''dst_nocount'' typedef_u8 1, Bits ''dst_nopolicy'' typedef_u8 1, Bits ''fib6_destroying'' typedef_u8 1,
    Bits ''unused'' typedef_u8 4, Mem ''rcu'' struct_callback_head, Mem ''nh'' (Ptr ''struct nexthop''),
    Mem ''fib6_nh'' (Array struct_fib6_nh 0)]"

lemma info_struct_fib6_info [c_info]: "info struct_fib6_info = (168, 8)"
  by (simp add: struct_fib6_info_def c_info)

definition struct_rt6_info :: ctype where
  "struct_rt6_info = Struct [] [
    Mem ''dst'' struct_dst_entry, Mem ''from'' (Ptr ''struct fib6_info''), Mem ''sernum'' (Scalar Tint),
    Mem ''rt6i_dst'' struct_rt6key, Mem ''rt6i_src'' struct_rt6key, Mem ''rt6i_gateway'' struct_in6_addr,
    Mem ''rt6i_idev'' (Ptr ''struct inet6_dev''), Mem ''rt6i_flags'' typedef_u32,
    Mem ''rt6i_uncached'' struct_list_head, Mem ''rt6i_uncached_list'' (Ptr ''struct uncached_list''),
    Mem ''rt6i_nfheader_len'' (Scalar Tushort)]"

lemma info_struct_rt6_info [c_info]: "info struct_rt6_info = (232, 8)"
  by (simp add: struct_rt6_info_def c_info)

definition struct_rt6_statistics :: ctype where
  "struct_rt6_statistics = Struct [] [
    Mem ''fib_nodes'' typedef___u32, Mem ''fib_route_nodes'' typedef___u32, Mem ''fib_rt_entries'' typedef___u32,
    Mem ''fib_rt_cache'' typedef___u32, Mem ''fib_discarded_routes'' typedef___u32,
    Mem ''fib_rt_alloc'' typedef_atomic_t, Mem ''fib_rt_uncache'' typedef_atomic_t]"

lemma info_struct_rt6_statistics [c_info]: "info struct_rt6_statistics = (28, 4)"
  by (simp add: struct_rt6_statistics_def c_info)

definition struct_fib6_node :: ctype where
  "struct_fib6_node = Struct [] [
    Mem ''parent'' (Ptr ''struct fib6_node''), Mem ''left'' (Ptr ''struct fib6_node''),
    Mem ''right'' (Ptr ''struct fib6_node''), Mem ''subtree'' (Ptr ''struct fib6_node''),
    Mem ''leaf'' (Ptr ''struct fib6_info''), Mem ''fn_bit'' typedef___u16, Mem ''fn_flags'' typedef___u16,
    Mem ''fn_sernum'' (Scalar Tint), Mem ''rr_ptr'' (Ptr ''struct fib6_info''), Mem ''rcu'' struct_callback_head]"

lemma info_struct_fib6_node [c_info]: "info struct_fib6_node = (72, 8)"
  by (simp add: struct_fib6_node_def c_info)

definition struct_xfrm_id :: ctype where
  "struct_xfrm_id = Struct [] [
    Mem ''daddr'' typedef_xfrm_address_t, Mem ''spi'' typedef___be32, Mem ''proto'' typedef___u8]"

lemma info_struct_xfrm_id [c_info]: "info struct_xfrm_id = (24, 4)"
  by (simp add: struct_xfrm_id_def c_info)

definition struct_xfrm_selector :: ctype where
  "struct_xfrm_selector = Struct [] [
    Mem ''daddr'' typedef_xfrm_address_t, Mem ''saddr'' typedef_xfrm_address_t, Mem ''dport'' typedef___be16,
    Mem ''dport_mask'' typedef___be16, Mem ''sport'' typedef___be16, Mem ''sport_mask'' typedef___be16,
    Mem ''family'' typedef___u16, Mem ''prefixlen_d'' typedef___u8, Mem ''prefixlen_s'' typedef___u8,
    Mem ''proto'' typedef___u8, Mem ''ifindex'' (Scalar Tint), Mem ''user'' typedef___kernel_uid32_t]"

lemma info_struct_xfrm_selector [c_info]: "info struct_xfrm_selector = (56, 4)"
  by (simp add: struct_xfrm_selector_def c_info)

definition struct_xfrm_lifetime_cfg :: ctype where
  "struct_xfrm_lifetime_cfg = Struct [] [
    Mem ''soft_byte_limit'' typedef___u64, Mem ''hard_byte_limit'' typedef___u64,
    Mem ''soft_packet_limit'' typedef___u64, Mem ''hard_packet_limit'' typedef___u64,
    Mem ''soft_add_expires_seconds'' typedef___u64, Mem ''hard_add_expires_seconds'' typedef___u64,
    Mem ''soft_use_expires_seconds'' typedef___u64, Mem ''hard_use_expires_seconds'' typedef___u64]"

lemma info_struct_xfrm_lifetime_cfg [c_info]: "info struct_xfrm_lifetime_cfg = (64, 8)"
  by (simp add: struct_xfrm_lifetime_cfg_def c_info)

definition struct_xfrm_lifetime_cur :: ctype where
  "struct_xfrm_lifetime_cur = Struct [] [
    Mem ''bytes'' typedef___u64, Mem ''packets'' typedef___u64, Mem ''add_time'' typedef___u64,
    Mem ''use_time'' typedef___u64]"

lemma info_struct_xfrm_lifetime_cur [c_info]: "info struct_xfrm_lifetime_cur = (32, 8)"
  by (simp add: struct_xfrm_lifetime_cur_def c_info)

definition struct_xfrm_replay_state :: ctype where
  "struct_xfrm_replay_state = Struct [] [
    Mem ''oseq'' typedef___u32, Mem ''seq'' typedef___u32, Mem ''bitmap'' typedef___u32]"

lemma info_struct_xfrm_replay_state [c_info]: "info struct_xfrm_replay_state = (12, 4)"
  by (simp add: struct_xfrm_replay_state_def c_info)

definition struct_xfrm_replay_state_esn :: ctype where
  "struct_xfrm_replay_state_esn = Struct [] [
    Mem ''bmp_len'' (Scalar Tuint), Mem ''oseq'' typedef___u32, Mem ''seq'' typedef___u32,
    Mem ''oseq_hi'' typedef___u32, Mem ''seq_hi'' typedef___u32, Mem ''replay_window'' typedef___u32,
    Mem ''bmp'' (Array typedef___u32 0)]"

lemma info_struct_xfrm_replay_state_esn [c_info]: "info struct_xfrm_replay_state_esn = (24, 4)"
  by (simp add: struct_xfrm_replay_state_esn_def c_info)

definition struct_xfrm_algo :: ctype where
  "struct_xfrm_algo = Struct [] [
    Mem ''alg_name'' (Array (Scalar Tchar) 64), Mem ''alg_key_len'' (Scalar Tuint),
    Mem ''alg_key'' (Array (Scalar Tchar) 0)]"

lemma info_struct_xfrm_algo [c_info]: "info struct_xfrm_algo = (68, 4)"
  by (simp add: struct_xfrm_algo_def c_info)

definition struct_xfrm_algo_auth :: ctype where
  "struct_xfrm_algo_auth = Struct [] [
    Mem ''alg_name'' (Array (Scalar Tchar) 64), Mem ''alg_key_len'' (Scalar Tuint),
    Mem ''alg_trunc_len'' (Scalar Tuint), Mem ''alg_key'' (Array (Scalar Tchar) 0)]"

lemma info_struct_xfrm_algo_auth [c_info]: "info struct_xfrm_algo_auth = (72, 4)"
  by (simp add: struct_xfrm_algo_auth_def c_info)

definition struct_xfrm_algo_aead :: ctype where
  "struct_xfrm_algo_aead = Struct [] [
    Mem ''alg_name'' (Array (Scalar Tchar) 64), Mem ''alg_key_len'' (Scalar Tuint),
    Mem ''alg_icv_len'' (Scalar Tuint), Mem ''alg_key'' (Array (Scalar Tchar) 0)]"

lemma info_struct_xfrm_algo_aead [c_info]: "info struct_xfrm_algo_aead = (72, 4)"
  by (simp add: struct_xfrm_algo_aead_def c_info)

definition struct_xfrm_stats :: ctype where
  "struct_xfrm_stats = Struct [] [
    Mem ''replay_window'' typedef___u32, Mem ''replay'' typedef___u32, Mem ''integrity_failed'' typedef___u32]"

lemma info_struct_xfrm_stats [c_info]: "info struct_xfrm_stats = (12, 4)"
  by (simp add: struct_xfrm_stats_def c_info)

definition struct_xfrm_encap_tmpl :: ctype where
  "struct_xfrm_encap_tmpl = Struct [] [
    Mem ''encap_type'' typedef___u16, Mem ''encap_sport'' typedef___be16, Mem ''encap_dport'' typedef___be16,
    Mem ''encap_oa'' typedef_xfrm_address_t]"

lemma info_struct_xfrm_encap_tmpl [c_info]: "info struct_xfrm_encap_tmpl = (24, 4)"
  by (simp add: struct_xfrm_encap_tmpl_def c_info)

definition struct_xfrm_mark :: ctype where
  "struct_xfrm_mark = Struct [] [
    Mem ''v'' typedef___u32, Mem ''m'' typedef___u32]"

lemma info_struct_xfrm_mark [c_info]: "info struct_xfrm_mark = (8, 4)"
  by (simp add: struct_xfrm_mark_def c_info)

definition struct_xfrm_address_filter :: ctype where
  "struct_xfrm_address_filter = Struct [] [
    Mem ''saddr'' typedef_xfrm_address_t, Mem ''daddr'' typedef_xfrm_address_t, Mem ''family'' typedef___u16,
    Mem ''splen'' typedef___u8, Mem ''dplen'' typedef___u8]"

lemma info_struct_xfrm_address_filter [c_info]: "info struct_xfrm_address_filter = (36, 4)"
  by (simp add: struct_xfrm_address_filter_def c_info)

definition struct_xfrm_state_walk :: ctype where
  "struct_xfrm_state_walk = Struct [] [
    Mem ''all'' struct_list_head, Mem ''state'' typedef_u8, Mem ''dying'' typedef_u8, Mem ''proto'' typedef_u8,
    Mem ''seq'' typedef_u32, Mem ''filter'' (Ptr ''struct xfrm_address_filter'')]"

lemma info_struct_xfrm_state_walk [c_info]: "info struct_xfrm_state_walk = (32, 8)"
  by (simp add: struct_xfrm_state_walk_def c_info)

definition enum_xfrm_replay_mode :: ctype where
  "enum_xfrm_replay_mode = Enum [
    (''XFRM_REPLAY_MODE_LEGACY'', 0), (''XFRM_REPLAY_MODE_BMP'', 1), (''XFRM_REPLAY_MODE_ESN'', 2)]"

lemma info_enum_xfrm_replay_mode [c_info]: "info enum_xfrm_replay_mode = (4, 4)"
  by (simp add: enum_xfrm_replay_mode_def c_info)

definition struct_xfrm_dev_offload :: ctype where
  "struct_xfrm_dev_offload = Struct [] [
    Mem ''dev'' (Ptr ''struct net_device''), Mem ''real_dev'' (Ptr ''struct net_device''),
    Mem ''offload_handle'' (Scalar Tulong), Mem ''num_exthdrs'' (Scalar Tuint), Mem ''flags'' typedef_u8,
    Bits ''dir'' typedef_u8 2]"

lemma info_struct_xfrm_dev_offload [c_info]: "info struct_xfrm_dev_offload = (32, 8)"
  by (simp add: struct_xfrm_dev_offload_def c_info)

definition struct_xfrm_mode :: ctype where
  "struct_xfrm_mode = Struct [] [
    Mem ''encap'' typedef_u8, Mem ''family'' typedef_u8, Mem ''flags'' typedef_u8]"

lemma info_struct_xfrm_mode [c_info]: "info struct_xfrm_mode = (3, 1)"
  by (simp add: struct_xfrm_mode_def c_info)

definition struct_xfrm_state :: ctype where
  "struct_xfrm_state = Struct [] [
    Mem ''xs_net'' typedef_possible_net_t,
    Anon (Union [] [
      Mem ''gclist'' struct_hlist_node, Mem ''bydst'' struct_hlist_node]),
    Mem ''bysrc'' struct_hlist_node, Mem ''byspi'' struct_hlist_node, Mem ''byseq'' struct_hlist_node,
    Mem ''refcnt'' typedef_refcount_t, Mem ''lock'' typedef_spinlock_t, Mem ''id'' struct_xfrm_id,
    Mem ''sel'' struct_xfrm_selector, Mem ''mark'' struct_xfrm_mark, Mem ''if_id'' typedef_u32,
    Mem ''tfcpad'' typedef_u32, Mem ''genid'' typedef_u32, Mem ''km'' struct_xfrm_state_walk,
    Mem ''props'' (Struct [] [
      Mem ''reqid'' typedef_u32, Mem ''mode'' typedef_u8, Mem ''replay_window'' typedef_u8, Mem ''aalgo'' typedef_u8,
      Mem ''ealgo'' typedef_u8, Mem ''calgo'' typedef_u8, Mem ''flags'' typedef_u8, Mem ''family'' typedef_u16,
      Mem ''saddr'' typedef_xfrm_address_t, Mem ''header_len'' (Scalar Tint), Mem ''trailer_len'' (Scalar Tint),
      Mem ''extra_flags'' typedef_u32, Mem ''smark'' struct_xfrm_mark]),
    Mem ''lft'' struct_xfrm_lifetime_cfg, Mem ''aalg'' (Ptr ''struct xfrm_algo_auth''),
    Mem ''ealg'' (Ptr ''struct xfrm_algo''), Mem ''calg'' (Ptr ''struct xfrm_algo''),
    Mem ''aead'' (Ptr ''struct xfrm_algo_aead''), Mem ''geniv'' (Ptr ''const char''),
    Mem ''new_mapping_sport'' typedef___be16, Mem ''new_mapping'' typedef_u32, Mem ''mapping_maxage'' typedef_u32,
    Mem ''encap'' (Ptr ''struct xfrm_encap_tmpl''), Mem ''encap_sk'' (Ptr ''struct sock''),
    Mem ''coaddr'' (Ptr ''xfrm_address_t''), Mem ''tunnel'' (Ptr ''struct xfrm_state''),
    Mem ''tunnel_users'' typedef_atomic_t, Mem ''replay'' struct_xfrm_replay_state,
    Mem ''replay_esn'' (Ptr ''struct xfrm_replay_state_esn''), Mem ''preplay'' struct_xfrm_replay_state,
    Mem ''preplay_esn'' (Ptr ''struct xfrm_replay_state_esn''), Mem ''repl_mode'' enum_xfrm_replay_mode,
    Mem ''xflags'' typedef_u32, Mem ''replay_maxage'' typedef_u32, Mem ''replay_maxdiff'' typedef_u32,
    Mem ''rtimer'' struct_timer_list, Mem ''stats'' struct_xfrm_stats, Mem ''curlft'' struct_xfrm_lifetime_cur,
    Mem ''mtimer'' struct_hrtimer, Mem ''xso'' struct_xfrm_dev_offload, Mem ''saved_tmo'' (Scalar Tlong),
    Mem ''lastused'' typedef_time64_t, Mem ''xfrag'' struct_page_frag, Mem ''type'' (Ptr ''const struct xfrm_type''),
    Mem ''inner_mode'' struct_xfrm_mode, Mem ''inner_mode_iaf'' struct_xfrm_mode, Mem ''outer_mode'' struct_xfrm_mode,
    Mem ''type_offload'' (Ptr ''const struct xfrm_type_offload''), Mem ''security'' (Ptr ''struct xfrm_sec_ctx''),
    Mem ''data'' (Ptr ''void'')]"

lemma info_struct_xfrm_state [c_info]: "info struct_xfrm_state = (744, 8)"
  by (simp add: struct_xfrm_state_def c_info)

definition struct_xfrm_policy_walk_entry :: ctype where
  "struct_xfrm_policy_walk_entry = Struct [] [
    Mem ''all'' struct_list_head, Mem ''dead'' typedef_u8]"

lemma info_struct_xfrm_policy_walk_entry [c_info]: "info struct_xfrm_policy_walk_entry = (24, 8)"
  by (simp add: struct_xfrm_policy_walk_entry_def c_info)

definition struct_xfrm_policy_queue :: ctype where
  "struct_xfrm_policy_queue = Struct [] [
    Mem ''hold_queue'' struct_sk_buff_head, Mem ''hold_timer'' struct_timer_list, Mem ''timeout'' (Scalar Tulong)]"

lemma info_struct_xfrm_policy_queue [c_info]: "info struct_xfrm_policy_queue = (72, 8)"
  by (simp add: struct_xfrm_policy_queue_def c_info)

definition struct_xfrm_tmpl :: ctype where
  "struct_xfrm_tmpl = Struct [] [
    Mem ''id'' struct_xfrm_id, Mem ''saddr'' typedef_xfrm_address_t, Mem ''encap_family'' (Scalar Tushort),
    Mem ''reqid'' typedef_u32, Mem ''mode'' typedef_u8, Mem ''share'' typedef_u8, Mem ''optional'' typedef_u8,
    Mem ''allalgs'' typedef_u8, Mem ''aalgos'' typedef_u32, Mem ''ealgos'' typedef_u32, Mem ''calgos'' typedef_u32]"

lemma info_struct_xfrm_tmpl [c_info]: "info struct_xfrm_tmpl = (64, 4)"
  by (simp add: struct_xfrm_tmpl_def c_info)

definition struct_xfrm_policy :: ctype where
  "struct_xfrm_policy = Struct [] [
    Mem ''xp_net'' typedef_possible_net_t, Mem ''bydst'' struct_hlist_node, Mem ''byidx'' struct_hlist_node,
    Mem ''lock'' typedef_rwlock_t, Mem ''refcnt'' typedef_refcount_t, Mem ''pos'' typedef_u32,
    Mem ''timer'' struct_timer_list, Mem ''genid'' typedef_atomic_t, Mem ''priority'' typedef_u32,
    Mem ''index'' typedef_u32, Mem ''if_id'' typedef_u32, Mem ''mark'' struct_xfrm_mark,
    Mem ''selector'' struct_xfrm_selector, Mem ''lft'' struct_xfrm_lifetime_cfg,
    Mem ''curlft'' struct_xfrm_lifetime_cur, Mem ''walk'' struct_xfrm_policy_walk_entry,
    Mem ''polq'' struct_xfrm_policy_queue, Mem ''bydst_reinsert'' typedef_bool, Mem ''type'' typedef_u8,
    Mem ''action'' typedef_u8, Mem ''flags'' typedef_u8, Mem ''xfrm_nr'' typedef_u8, Mem ''family'' typedef_u16,
    Mem ''security'' (Ptr ''struct xfrm_sec_ctx''), Mem ''xfrm_vec'' (Array struct_xfrm_tmpl 6),
    Mem ''bydst_inexact_list'' struct_hlist_node, Mem ''rcu'' struct_callback_head]"

lemma info_struct_xfrm_policy [c_info]: "info struct_xfrm_policy = (800, 8)"
  by (simp add: struct_xfrm_policy_def c_info)

definition struct_fib_nh_exception :: ctype where
  "struct_fib_nh_exception = Struct [] [
    Mem ''fnhe_next'' (Ptr ''struct fib_nh_exception''), Mem ''fnhe_genid'' (Scalar Tint),
    Mem ''fnhe_daddr'' typedef___be32, Mem ''fnhe_pmtu'' typedef_u32, Mem ''fnhe_mtu_locked'' typedef_bool,
    Mem ''fnhe_gw'' typedef___be32, Mem ''fnhe_expires'' (Scalar Tulong),
    Mem ''fnhe_rth_input'' (Ptr ''struct rtable''), Mem ''fnhe_rth_output'' (Ptr ''struct rtable''),
    Mem ''fnhe_stamp'' (Scalar Tulong), Mem ''rcu'' struct_callback_head]"

lemma info_struct_fib_nh_exception [c_info]: "info struct_fib_nh_exception = (80, 8)"
  by (simp add: struct_fib_nh_exception_def c_info)

definition struct_rtable :: ctype where
  "struct_rtable = Struct [] [
    Mem ''dst'' struct_dst_entry, Mem ''rt_genid'' (Scalar Tint), Mem ''rt_flags'' (Scalar Tuint),
    Mem ''rt_type'' typedef___u16, Mem ''rt_is_input'' typedef___u8, Mem ''rt_uses_gateway'' typedef___u8,
    Mem ''rt_iif'' (Scalar Tint), Mem ''rt_gw_family'' typedef_u8,
    Anon (Union [] [
      Mem ''rt_gw4'' typedef___be32, Mem ''rt_gw6'' struct_in6_addr]),
    Bits ''rt_mtu_locked'' typedef_u32 1, Bits ''rt_pmtu'' typedef_u32 31, Mem ''rt_uncached'' struct_list_head,
    Mem ''rt_uncached_list'' (Ptr ''struct uncached_list'')]"

lemma info_struct_rtable [c_info]: "info struct_rtable = (176, 8)"
  by (simp add: struct_rtable_def c_info)

definition struct_rt6_exception_bucket :: ctype where
  "struct_rt6_exception_bucket = Struct [] [
    Mem ''chain'' struct_hlist_head, Mem ''depth'' (Scalar Tint)]"

lemma info_struct_rt6_exception_bucket [c_info]: "info struct_rt6_exception_bucket = (16, 8)"
  by (simp add: struct_rt6_exception_bucket_def c_info)

definition struct_xfrm_type :: ctype where
  "struct_xfrm_type = Struct [] [
    Mem ''owner'' (Ptr ''struct module''), Mem ''proto'' typedef_u8, Mem ''flags'' typedef_u8,
    Mem ''init_state'' (FunPtr ''int'' [''struct xfrm_state *'']),
    Mem ''destructor'' (FunPtr ''void'' [''struct xfrm_state *'']),
    Mem ''input'' (FunPtr ''int'' [''struct xfrm_state *'', ''struct sk_buff *'']),
    Mem ''output'' (FunPtr ''int'' [''struct xfrm_state *'', ''struct sk_buff *'']),
    Mem ''reject'' (FunPtr ''int'' [''struct xfrm_state *'', ''struct sk_buff *'', ''const struct flowi *''])]"

lemma info_struct_xfrm_type [c_info]: "info struct_xfrm_type = (56, 8)"
  by (simp add: struct_xfrm_type_def c_info)

definition struct_xfrm_type_offload :: ctype where
  "struct_xfrm_type_offload = Struct [] [
    Mem ''owner'' (Ptr ''struct module''), Mem ''proto'' typedef_u8,
    Mem ''encap'' (FunPtr ''void'' [''struct xfrm_state *'', ''struct sk_buff *'']),
    Mem ''input_tail'' (FunPtr ''int'' [''struct xfrm_state *'', ''struct sk_buff *'']),
    Mem ''xmit'' (FunPtr ''int'' [''struct xfrm_state *'', ''struct sk_buff *'', ''netdev_features_t''])]"

lemma info_struct_xfrm_type_offload [c_info]: "info struct_xfrm_type_offload = (40, 8)"
  by (simp add: struct_xfrm_type_offload_def c_info)

definition struct_fib_nh :: ctype where
  "struct_fib_nh = Struct [] [
    Mem ''nh_common'' struct_fib_nh_common, Mem ''nh_hash'' struct_hlist_node,
    Mem ''nh_parent'' (Ptr ''struct fib_info''), Mem ''nh_tclassid'' typedef___u32, Mem ''nh_saddr'' typedef___be32,
    Mem ''nh_saddr_genid'' (Scalar Tint)]"

lemma info_struct_fib_nh [c_info]: "info struct_fib_nh = (112, 8)"
  by (simp add: struct_fib_nh_def c_info)

definition struct_nexthop :: ctype where
  "struct_nexthop = Struct [] [
    Mem ''rb_node'' struct_rb_node, Mem ''fi_list'' struct_list_head, Mem ''f6i_list'' struct_list_head,
    Mem ''fdb_list'' struct_list_head, Mem ''grp_list'' struct_list_head, Mem ''net'' (Ptr ''struct net''),
    Mem ''id'' typedef_u32, Mem ''protocol'' typedef_u8, Mem ''nh_flags'' typedef_u8, Mem ''is_group'' typedef_bool,
    Mem ''refcnt'' typedef_refcount_t, Mem ''rcu'' struct_callback_head,
    Anon (Union [] [
      Mem ''nh_info'' (Ptr ''struct nh_info''), Mem ''nh_grp'' (Ptr ''struct nh_group'')])]"

lemma info_struct_nexthop [c_info]: "info struct_nexthop = (136, 8)"
  by (simp add: struct_nexthop_def c_info)

definition struct_nh_info :: ctype where
  "struct_nh_info = Struct [] [
    Mem ''dev_hash'' struct_hlist_node, Mem ''nh_parent'' (Ptr ''struct nexthop''), Mem ''family'' typedef_u8,
    Mem ''reject_nh'' typedef_bool, Mem ''fdb_nh'' typedef_bool,
    Anon (Union [] [
      Mem ''fib_nhc'' struct_fib_nh_common, Mem ''fib_nh'' struct_fib_nh, Mem ''fib6_nh'' struct_fib6_nh])]"

lemma info_struct_nh_info [c_info]: "info struct_nh_info = (144, 8)"
  by (simp add: struct_nh_info_def c_info)

definition enum_devlink_port_type :: ctype where
  "enum_devlink_port_type = Enum [
    (''DEVLINK_PORT_TYPE_NOTSET'', 0), (''DEVLINK_PORT_TYPE_AUTO'', 1), (''DEVLINK_PORT_TYPE_ETH'', 2),
    (''DEVLINK_PORT_TYPE_IB'', 3)]"

lemma info_enum_devlink_port_type [c_info]: "info enum_devlink_port_type = (4, 4)"
  by (simp add: enum_devlink_port_type_def c_info)

definition enum_devlink_port_flavour :: ctype where
  "enum_devlink_port_flavour = Enum [
    (''DEVLINK_PORT_FLAVOUR_PHYSICAL'', 0), (''DEVLINK_PORT_FLAVOUR_CPU'', 1), (''DEVLINK_PORT_FLAVOUR_DSA'', 2),
    (''DEVLINK_PORT_FLAVOUR_PCI_PF'', 3), (''DEVLINK_PORT_FLAVOUR_PCI_VF'', 4), (''DEVLINK_PORT_FLAVOUR_VIRTUAL'', 5),
    (''DEVLINK_PORT_FLAVOUR_UNUSED'', 6), (''DEVLINK_PORT_FLAVOUR_PCI_SF'', 7)]"

lemma info_enum_devlink_port_flavour [c_info]: "info enum_devlink_port_flavour = (4, 4)"
  by (simp add: enum_devlink_port_flavour_def c_info)

definition struct_devlink_port_phys_attrs :: ctype where
  "struct_devlink_port_phys_attrs = Struct [] [
    Mem ''port_number'' typedef_u32, Mem ''split_subport_number'' typedef_u32]"

lemma info_struct_devlink_port_phys_attrs [c_info]: "info struct_devlink_port_phys_attrs = (8, 4)"
  by (simp add: struct_devlink_port_phys_attrs_def c_info)

definition struct_devlink_port_pci_pf_attrs :: ctype where
  "struct_devlink_port_pci_pf_attrs = Struct [] [
    Mem ''controller'' typedef_u32, Mem ''pf'' typedef_u16, Bits ''external'' typedef_u8 1]"

lemma info_struct_devlink_port_pci_pf_attrs [c_info]: "info struct_devlink_port_pci_pf_attrs = (8, 4)"
  by (simp add: struct_devlink_port_pci_pf_attrs_def c_info)

definition struct_devlink_port_pci_vf_attrs :: ctype where
  "struct_devlink_port_pci_vf_attrs = Struct [] [
    Mem ''controller'' typedef_u32, Mem ''pf'' typedef_u16, Mem ''vf'' typedef_u16, Bits ''external'' typedef_u8 1]"

lemma info_struct_devlink_port_pci_vf_attrs [c_info]: "info struct_devlink_port_pci_vf_attrs = (12, 4)"
  by (simp add: struct_devlink_port_pci_vf_attrs_def c_info)

definition struct_devlink_port_pci_sf_attrs :: ctype where
  "struct_devlink_port_pci_sf_attrs = Struct [] [
    Mem ''controller'' typedef_u32, Mem ''sf'' typedef_u32, Mem ''pf'' typedef_u16, Bits ''external'' typedef_u8 1]"

lemma info_struct_devlink_port_pci_sf_attrs [c_info]: "info struct_devlink_port_pci_sf_attrs = (12, 4)"
  by (simp add: struct_devlink_port_pci_sf_attrs_def c_info)

definition struct_devlink_port_attrs :: ctype where
  "struct_devlink_port_attrs = Struct [] [
    Bits ''split'' typedef_u8 1, Bits ''splittable'' typedef_u8 1, Mem ''lanes'' typedef_u32,
    Mem ''flavour'' enum_devlink_port_flavour, Mem ''switch_id'' struct_netdev_phys_item_id,
    Anon (Union [] [
      Mem ''phys'' struct_devlink_port_phys_attrs, Mem ''pci_pf'' struct_devlink_port_pci_pf_attrs,
      Mem ''pci_vf'' struct_devlink_port_pci_vf_attrs, Mem ''pci_sf'' struct_devlink_port_pci_sf_attrs])]"

lemma info_struct_devlink_port_attrs [c_info]: "info struct_devlink_port_attrs = (60, 4)"
  by (simp add: struct_devlink_port_attrs_def c_info)

definition struct_devlink_port :: ctype where
  "struct_devlink_port = Struct [] [
    Mem ''list'' struct_list_head, Mem ''param_list'' struct_list_head, Mem ''region_list'' struct_list_head,
    Mem ''devlink'' (Ptr ''struct devlink''), Mem ''index'' (Scalar Tuint), Mem ''type_lock'' typedef_spinlock_t,
    Mem ''type'' enum_devlink_port_type, Mem ''desired_type'' enum_devlink_port_type, Mem ''type_dev'' (Ptr ''void''),
    Mem ''attrs'' struct_devlink_port_attrs, Bits ''attrs_set'' typedef_u8 1, Bits ''switch_port'' typedef_u8 1,
    Mem ''type_warn_dw'' struct_delayed_work, Mem ''reporter_list'' struct_list_head,
    Mem ''reporters_lock'' struct_mutex, Mem ''devlink_rate'' (Ptr ''struct devlink_rate'')]"

lemma info_struct_devlink_port [c_info]: "info struct_devlink_port = (288, 8)"
  by (simp add: struct_devlink_port_def c_info)

definition struct_dsa_port :: ctype where
  "struct_dsa_port = Struct [] [
    Anon (Union [] [
      Mem ''master'' (Ptr ''struct net_device''), Mem ''slave'' (Ptr ''struct net_device'')]),
    Mem ''tag_ops'' (Ptr ''const struct dsa_device_ops''), Mem ''dst'' (Ptr ''struct dsa_switch_tree''),
    Mem ''rcv'' (FunPtr ''struct sk_buff *'' [''struct sk_buff *'', ''struct net_device *'']),
    Mem ''type'' (Enum [
      (''DSA_PORT_TYPE_UNUSED'', 0), (''DSA_PORT_TYPE_CPU'', 1), (''DSA_PORT_TYPE_DSA'', 2),
      (''DSA_PORT_TYPE_USER'', 3)]),
    Mem ''ds'' (Ptr ''struct dsa_switch''), Mem ''index'' (Scalar Tuint), Mem ''name'' (Ptr ''const char''),
    Mem ''cpu_dp'' (Ptr ''struct dsa_port''), Mem ''mac'' (Array typedef_u8 6),
    Mem ''dn'' (Ptr ''struct device_node''), Mem ''ageing_time'' (Scalar Tuint), Mem ''vlan_filtering'' typedef_bool,
    Mem ''learning'' typedef_bool, Mem ''stp_state'' typedef_u8, Mem ''bridge_dev'' (Ptr ''struct net_device''),
    Mem ''bridge_num'' (Scalar Tint), Mem ''devlink_port'' struct_devlink_port,
    Mem ''devlink_port_setup'' typedef_bool, Mem ''pl'' (Ptr ''struct phylink''),
    Mem ''pl_config'' struct_phylink_config, Mem ''lag_dev'' (Ptr ''struct net_device''),
    Mem ''lag_tx_enabled'' typedef_bool, Mem ''hsr_dev'' (Ptr ''struct net_device''), Mem ''list'' struct_list_head,
    Mem ''priv'' (Ptr ''void''), Mem ''orig_ethtool_ops'' (Ptr ''const struct ethtool_ops''),
    Mem ''netdev_ops'' (Ptr ''const struct dsa_netdevice_ops''), Mem ''fdbs'' struct_list_head,
    Mem ''mdbs'' struct_list_head, Mem ''setup'' typedef_bool]"

lemma info_struct_dsa_port [c_info]: "info struct_dsa_port = (544, 8)"
  by (simp add: struct_dsa_port_def c_info)

definition enum_devlink_rate_type :: ctype where
  "enum_devlink_rate_type = Enum [
    (''DEVLINK_RATE_TYPE_LEAF'', 0), (''DEVLINK_RATE_TYPE_NODE'', 1)]"

lemma info_enum_devlink_rate_type [c_info]: "info enum_devlink_rate_type = (4, 4)"
  by (simp add: enum_devlink_rate_type_def c_info)

definition struct_devlink_dev_stats :: ctype where
  "struct_devlink_dev_stats = Struct [] [
    Mem ''reload_stats'' (Array typedef_u32 6), Mem ''remote_reload_stats'' (Array typedef_u32 6)]"

lemma info_struct_devlink_dev_stats [c_info]: "info struct_devlink_dev_stats = (48, 4)"
  by (simp add: struct_devlink_dev_stats_def c_info)

definition struct_devlink :: ctype where
  "struct_devlink = Struct [] [
    Mem ''index'' typedef_u32, Mem ''port_list'' struct_list_head, Mem ''rate_list'' struct_list_head,
    Mem ''sb_list'' struct_list_head, Mem ''dpipe_table_list'' struct_list_head,
    Mem ''resource_list'' struct_list_head, Mem ''param_list'' struct_list_head, Mem ''region_list'' struct_list_head,
    Mem ''reporter_list'' struct_list_head, Mem ''reporters_lock'' struct_mutex,
    Mem ''dpipe_headers'' (Ptr ''struct devlink_dpipe_headers''), Mem ''trap_list'' struct_list_head,
    Mem ''trap_group_list'' struct_list_head, Mem ''trap_policer_list'' struct_list_head,
    Mem ''ops'' (Ptr ''const struct devlink_ops''), Mem ''snapshot_ids'' struct_xarray,
    Mem ''stats'' struct_devlink_dev_stats, Mem ''dev'' (Ptr ''struct device''), Mem ''_net'' typedef_possible_net_t,
    Mem ''lock'' struct_mutex, Bits ''reload_failed'' typedef_u8 1, Bits ''reload_enabled'' typedef_u8 1,
    Mem ''refcount'' typedef_refcount_t, Mem ''comp'' struct_completion, Mem ''priv'' (Array (Scalar Tchar) 0)]"

lemma info_struct_devlink [c_info]: "info struct_devlink = (384, 8)"
  by (simp add: struct_devlink_def c_info)

definition struct_devlink_rate :: ctype where
  "struct_devlink_rate = Struct [] [
    Mem ''list'' struct_list_head, Mem ''type'' enum_devlink_rate_type, Mem ''devlink'' (Ptr ''struct devlink''),
    Mem ''priv'' (Ptr ''void''), Mem ''tx_share'' typedef_u64, Mem ''tx_max'' typedef_u64,
    Mem ''parent'' (Ptr ''struct devlink_rate''),
    Anon (Union [] [
      Mem ''devlink_port'' (Ptr ''struct devlink_port''),
      Anon (Struct [] [
        Mem ''name'' (Ptr ''char''), Mem ''refcnt'' typedef_refcount_t])])]"

lemma info_struct_devlink_rate [c_info]: "info struct_devlink_rate = (80, 8)"
  by (simp add: struct_devlink_rate_def c_info)

definition enum_dsa_tag_protocol :: ctype where
  "enum_dsa_tag_protocol = Enum [
    (''DSA_TAG_PROTO_NONE'', 0), (''DSA_TAG_PROTO_BRCM'', 1), (''DSA_TAG_PROTO_BRCM_LEGACY'', 22),
    (''DSA_TAG_PROTO_BRCM_PREPEND'', 2), (''DSA_TAG_PROTO_DSA'', 3), (''DSA_TAG_PROTO_EDSA'', 4),
    (''DSA_TAG_PROTO_GSWIP'', 5), (''DSA_TAG_PROTO_KSZ9477'', 6), (''DSA_TAG_PROTO_KSZ9893'', 7),
    (''DSA_TAG_PROTO_LAN9303'', 8), (''DSA_TAG_PROTO_MTK'', 9), (''DSA_TAG_PROTO_QCA'', 10),
    (''DSA_TAG_PROTO_TRAILER'', 11), (''DSA_TAG_PROTO_8021Q'', 12), (''DSA_TAG_PROTO_SJA1105'', 13),
    (''DSA_TAG_PROTO_KSZ8795'', 14), (''DSA_TAG_PROTO_OCELOT'', 15), (''DSA_TAG_PROTO_AR9331'', 16),
    (''DSA_TAG_PROTO_RTL4_A'', 17), (''DSA_TAG_PROTO_HELLCREEK'', 18), (''DSA_TAG_PROTO_XRS700X'', 19),
    (''DSA_TAG_PROTO_OCELOT_8021Q'', 20), (''DSA_TAG_PROTO_SEVILLE'', 21), (''DSA_TAG_PROTO_SJA1110'', 23)]"

lemma info_enum_dsa_tag_protocol [c_info]: "info enum_dsa_tag_protocol = (4, 4)"
  by (simp add: enum_dsa_tag_protocol_def c_info)

definition struct_dsa_device_ops :: ctype where
  "struct_dsa_device_ops = Struct [] [
    Mem ''xmit'' (FunPtr ''struct sk_buff *'' [''struct sk_buff *'', ''struct net_device *'']),
    Mem ''rcv'' (FunPtr ''struct sk_buff *'' [''struct sk_buff *'', ''struct net_device *'']),
    Mem ''flow_dissect'' (FunPtr ''void'' [''const struct sk_buff *'', ''__be16 *'', ''int *'']),
    Mem ''needed_headroom'' (Scalar Tuint), Mem ''needed_tailroom'' (Scalar Tuint), Mem ''name'' (Ptr ''const char''),
    Mem ''proto'' enum_dsa_tag_protocol, Mem ''promisc_on_master'' typedef_bool]"

lemma info_struct_dsa_device_ops [c_info]: "info struct_dsa_device_ops = (48, 8)"
  by (simp add: struct_dsa_device_ops_def c_info)

definition struct_dsa_netdevice_ops :: ctype where
  "struct_dsa_netdevice_ops = Struct [] [
    Mem ''ndo_eth_ioctl'' (FunPtr ''int'' [''struct net_device *'', ''struct ifreq *'', ''int''])]"

lemma info_struct_dsa_netdevice_ops [c_info]: "info struct_dsa_netdevice_ops = (8, 8)"
  by (simp add: struct_dsa_netdevice_ops_def c_info)

definition struct_dsa_switch_tree :: ctype where
  "struct_dsa_switch_tree = Struct [] [
    Mem ''list'' struct_list_head, Mem ''nh'' struct_raw_notifier_head, Mem ''index'' (Scalar Tuint),
    Mem ''refcount'' struct_kref, Mem ''setup'' typedef_bool, Mem ''tag_ops'' (Ptr ''const struct dsa_device_ops''),
    Mem ''default_proto'' enum_dsa_tag_protocol, Mem ''pd'' (Ptr ''struct dsa_platform_data''),
    Mem ''ports'' struct_list_head, Mem ''rtable'' struct_list_head, Mem ''lags'' (Ptr ''struct net_device *''),
    Mem ''lags_len'' (Scalar Tuint), Mem ''last_switch'' (Scalar Tuint)]"

lemma info_struct_dsa_switch_tree [c_info]: "info struct_dsa_switch_tree = (112, 8)"
  by (simp add: struct_dsa_switch_tree_def c_info)

definition struct_dsa_switch :: ctype where
  "struct_dsa_switch = Struct [] [
    Mem ''setup'' typedef_bool, Mem ''dev'' (Ptr ''struct device''), Mem ''dst'' (Ptr ''struct dsa_switch_tree''),
    Mem ''index'' (Scalar Tuint), Mem ''nb'' struct_notifier_block, Mem ''priv'' (Ptr ''void''),
    Mem ''cd'' (Ptr ''struct dsa_chip_data''), Mem ''ops'' (Ptr ''const struct dsa_switch_ops''),
    Mem ''phys_mii_mask'' typedef_u32, Mem ''slave_mii_bus'' (Ptr ''struct mii_bus''),
    Mem ''ageing_time_min'' (Scalar Tuint), Mem ''ageing_time_max'' (Scalar Tuint),
    Mem ''tag_8021q_ctx'' (Ptr ''struct dsa_8021q_context''), Mem ''devlink'' (Ptr ''struct devlink''),
    Mem ''num_tx_queues'' (Scalar Tuint), Mem ''vlan_filtering_is_global'' typedef_bool,
    Mem ''needs_standalone_vlan_filtering'' typedef_bool, Mem ''configure_vlan_while_not_filtering'' typedef_bool,
    Mem ''untag_bridge_pvid'' typedef_bool, Mem ''assisted_learning_on_cpu_port'' typedef_bool,
    Mem ''vlan_filtering'' typedef_bool, Mem ''pcs_poll'' typedef_bool, Mem ''mtu_enforcement_ingress'' typedef_bool,
    Mem ''num_lag_ids'' (Scalar Tuint), Mem ''num_fwd_offloading_bridges'' (Scalar Tuint),
    Mem ''num_ports'' typedef_size_t]"

lemma info_struct_dsa_switch [c_info]: "info struct_dsa_switch = (152, 8)"
  by (simp add: struct_dsa_switch_def c_info)

definition struct_iw_public_data :: ctype where
  "struct_iw_public_data = Struct [] [
    Mem ''spy_data'' (Ptr ''struct iw_spy_data''), Mem ''libipw'' (Ptr ''struct libipw_device'')]"

lemma info_struct_iw_public_data [c_info]: "info struct_iw_public_data = (16, 8)"
  by (simp add: struct_iw_public_data_def c_info)

definition struct_iw_quality :: ctype where
  "struct_iw_quality = Struct [] [
    Mem ''qual'' typedef___u8, Mem ''level'' typedef___u8, Mem ''noise'' typedef___u8, Mem ''updated'' typedef___u8]"

lemma info_struct_iw_quality [c_info]: "info struct_iw_quality = (4, 1)"
  by (simp add: struct_iw_quality_def c_info)

definition struct_iw_priv_args :: ctype where
  "struct_iw_priv_args = Struct [] [
    Mem ''cmd'' typedef___u32, Mem ''set_args'' typedef___u16, Mem ''get_args'' typedef___u16,
    Mem ''name'' (Array (Scalar Tchar) 16)]"

lemma info_struct_iw_priv_args [c_info]: "info struct_iw_priv_args = (24, 4)"
  by (simp add: struct_iw_priv_args_def c_info)

definition struct_iw_spy_data :: ctype where
  "struct_iw_spy_data = Struct [] [
    Mem ''spy_number'' (Scalar Tint), Mem ''spy_address'' (Array typedef_u_char 48),
    Mem ''spy_stat'' (Array struct_iw_quality 8), Mem ''spy_thr_low'' struct_iw_quality,
    Mem ''spy_thr_high'' struct_iw_quality, Mem ''spy_thr_under'' (Array typedef_u_char 8)]"

lemma info_struct_iw_spy_data [c_info]: "info struct_iw_spy_data = (100, 4)"
  by (simp add: struct_iw_spy_data_def c_info)

definition struct_net_rate_estimator :: ctype where
  "struct_net_rate_estimator = Struct [] [
    Mem ''bstats'' (Ptr ''struct gnet_stats_basic_packed''), Mem ''stats_lock'' (Ptr ''spinlock_t''),
    Mem ''running'' (Ptr ''seqcount_t''), Mem ''cpu_bstats'' (Ptr ''struct gnet_stats_basic_cpu''),
    Mem ''ewma_log'' typedef_u8, Mem ''intvl_log'' typedef_u8, Mem ''seq'' typedef_seqcount_t,
    Mem ''last_packets'' typedef_u64, Mem ''last_bytes'' typedef_u64, Mem ''avpps'' typedef_u64,
    Mem ''avbps'' typedef_u64, Mem ''next_jiffies'' (Scalar Tulong), Mem ''timer'' struct_timer_list,
    Mem ''rcu'' struct_callback_head]"

lemma info_struct_net_rate_estimator [c_info]: "info struct_net_rate_estimator = (136, 8)"
  by (simp add: struct_net_rate_estimator_def c_info)

definition struct_nf_ct_event_notifier :: ctype where
  "struct_nf_ct_event_notifier = Struct [] [
    Mem ''ct_event'' (FunPtr ''int'' [''unsigned int'', ''const struct nf_ct_event *'']),
    Mem ''exp_event'' (FunPtr ''int'' [''unsigned int'', ''const struct nf_exp_event *''])]"

lemma info_struct_nf_ct_event_notifier [c_info]: "info struct_nf_ct_event_notifier = (16, 8)"
  by (simp add: struct_nf_ct_event_notifier_def c_info)

definition struct_ipv4_devconf :: ctype where
  "struct_ipv4_devconf = Struct [] [
    Mem ''sysctl'' (Ptr ''void''), Mem ''data'' (Array (Scalar Tint) 32), Mem ''state'' (Array (Scalar Tulong) 1)]"

lemma info_struct_ipv4_devconf [c_info]: "info struct_ipv4_devconf = (144, 8)"
  by (simp add: struct_ipv4_devconf_def c_info)

definition struct_in_device :: ctype where
  "struct_in_device = Struct [] [
    Mem ''dev'' (Ptr ''struct net_device''), Mem ''refcnt'' typedef_refcount_t, Mem ''dead'' (Scalar Tint),
    Mem ''ifa_list'' (Ptr ''struct in_ifaddr''), Mem ''mc_list'' (Ptr ''struct ip_mc_list''),
    Mem ''mc_hash'' (Ptr ''struct ip_mc_list *''), Mem ''mc_count'' (Scalar Tint),
    Mem ''mc_tomb_lock'' typedef_spinlock_t, Mem ''mc_tomb'' (Ptr ''struct ip_mc_list''),
    Mem ''mr_v1_seen'' (Scalar Tulong), Mem ''mr_v2_seen'' (Scalar Tulong), Mem ''mr_maxdelay'' (Scalar Tulong),
    Mem ''mr_qi'' (Scalar Tulong), Mem ''mr_qri'' (Scalar Tulong), Mem ''mr_qrv'' (Scalar Tuchar),
    Mem ''mr_gq_running'' (Scalar Tuchar), Mem ''mr_ifc_count'' typedef_u32, Mem ''mr_gq_timer'' struct_timer_list,
    Mem ''mr_ifc_timer'' struct_timer_list, Mem ''arp_parms'' (Ptr ''struct neigh_parms''),
    Mem ''cnf'' struct_ipv4_devconf, Mem ''callback_head'' struct_callback_head]"

lemma info_struct_in_device [c_info]: "info struct_in_device = (352, 8)"
  by (simp add: struct_in_device_def c_info)

definition struct_in_ifaddr :: ctype where
  "struct_in_ifaddr = Struct [] [
    Mem ''hash'' struct_hlist_node, Mem ''ifa_next'' (Ptr ''struct in_ifaddr''),
    Mem ''ifa_dev'' (Ptr ''struct in_device''), Mem ''callback_head'' struct_callback_head,
    Mem ''ifa_local'' typedef___be32, Mem ''ifa_address'' typedef___be32, Mem ''ifa_mask'' typedef___be32,
    Mem ''ifa_rt_priority'' typedef___u32, Mem ''ifa_broadcast'' typedef___be32, Mem ''ifa_scope'' (Scalar Tuchar),
    Mem ''ifa_prefixlen'' (Scalar Tuchar), Mem ''ifa_flags'' typedef___u32,
    Mem ''ifa_label'' (Array (Scalar Tchar) 16), Mem ''ifa_valid_lft'' typedef___u32,
    Mem ''ifa_preferred_lft'' typedef___u32, Mem ''ifa_cstamp'' (Scalar Tulong), Mem ''ifa_tstamp'' (Scalar Tulong)]"

lemma info_struct_in_ifaddr [c_info]: "info struct_in_ifaddr = (120, 8)"
  by (simp add: struct_in_ifaddr_def c_info)

definition struct_seg6_pernet_data :: ctype where
  "struct_seg6_pernet_data = Struct [] [
    Mem ''lock'' struct_mutex, Mem ''tun_src'' (Ptr ''struct in6_addr''), Mem ''hmac_infos'' struct_rhashtable]"

lemma info_struct_seg6_pernet_data [c_info]: "info struct_seg6_pernet_data = (176, 8)"
  by (simp add: struct_seg6_pernet_data_def c_info)

definition struct_ioam6_pernet_data :: ctype where
  "struct_ioam6_pernet_data = Struct [] [
    Mem ''lock'' struct_mutex, Mem ''namespaces'' struct_rhashtable, Mem ''schemas'' struct_rhashtable]"

lemma info_struct_ioam6_pernet_data [c_info]: "info struct_ioam6_pernet_data = (304, 8)"
  by (simp add: struct_ioam6_pernet_data_def c_info)

definition struct_vlan_group :: ctype where
  "struct_vlan_group = Struct [] [
    Mem ''nr_vlan_devs'' (Scalar Tuint), Mem ''hlist'' struct_hlist_node,
    Mem ''vlan_devices_arrays'' (Array (Ptr ''struct net_device *'') 16)]"

lemma info_struct_vlan_group [c_info]: "info struct_vlan_group = (152, 8)"
  by (simp add: struct_vlan_group_def c_info)

definition struct_vlan_info :: ctype where
  "struct_vlan_info = Struct [] [
    Mem ''real_dev'' (Ptr ''struct net_device''), Mem ''grp'' struct_vlan_group, Mem ''vid_list'' struct_list_head,
    Mem ''nr_vids'' (Scalar Tuint), Mem ''rcu'' struct_callback_head]"

lemma info_struct_vlan_info [c_info]: "info struct_vlan_info = (200, 8)"
  by (simp add: struct_vlan_info_def c_info)

definition enum_ieee80211_bss_type :: ctype where
  "enum_ieee80211_bss_type = Enum [
    (''IEEE80211_BSS_TYPE_ESS'', 0), (''IEEE80211_BSS_TYPE_PBSS'', 1), (''IEEE80211_BSS_TYPE_IBSS'', 2),
    (''IEEE80211_BSS_TYPE_MBSS'', 3), (''IEEE80211_BSS_TYPE_ANY'', 4)]"

lemma info_enum_ieee80211_bss_type [c_info]: "info enum_ieee80211_bss_type = (4, 4)"
  by (simp add: enum_ieee80211_bss_type_def c_info)

definition enum_ieee80211_edmg_bw_config :: ctype where
  "enum_ieee80211_edmg_bw_config = Enum [
    (''IEEE80211_EDMG_BW_CONFIG_4'', 4), (''IEEE80211_EDMG_BW_CONFIG_5'', 5), (''IEEE80211_EDMG_BW_CONFIG_6'', 6),
    (''IEEE80211_EDMG_BW_CONFIG_7'', 7), (''IEEE80211_EDMG_BW_CONFIG_8'', 8), (''IEEE80211_EDMG_BW_CONFIG_9'', 9),
    (''IEEE80211_EDMG_BW_CONFIG_10'', 10), (''IEEE80211_EDMG_BW_CONFIG_11'', 11),
    (''IEEE80211_EDMG_BW_CONFIG_12'', 12), (''IEEE80211_EDMG_BW_CONFIG_13'', 13),
    (''IEEE80211_EDMG_BW_CONFIG_14'', 14), (''IEEE80211_EDMG_BW_CONFIG_15'', 15)]"

lemma info_enum_ieee80211_edmg_bw_config [c_info]: "info enum_ieee80211_edmg_bw_config = (4, 4)"
  by (simp add: enum_ieee80211_edmg_bw_config_def c_info)

definition struct_ieee80211_edmg :: ctype where
  "struct_ieee80211_edmg = Struct [] [
    Mem ''channels'' typedef_u8, Mem ''bw_config'' enum_ieee80211_edmg_bw_config]"

lemma info_struct_ieee80211_edmg [c_info]: "info struct_ieee80211_edmg = (8, 4)"
  by (simp add: struct_ieee80211_edmg_def c_info)

definition struct_cfg80211_chan_def :: ctype where
  "struct_cfg80211_chan_def = Struct [] [
    Mem ''chan'' (Ptr ''struct ieee80211_channel''), Mem ''width'' enum_nl80211_chan_width,
    Mem ''center_freq1'' typedef_u32, Mem ''center_freq2'' typedef_u32, Mem ''edmg'' struct_ieee80211_edmg,
    Mem ''freq1_offset'' typedef_u16]"

lemma info_struct_cfg80211_chan_def [c_info]: "info struct_cfg80211_chan_def = (32, 8)"
  by (simp add: struct_cfg80211_chan_def_def c_info)

definition struct_ieee80211_mcs_info :: ctype where
  "struct_ieee80211_mcs_info = Struct [] [
    Mem ''rx_mask'' (Array typedef_u8 10), Mem ''rx_highest'' typedef___le16, Mem ''tx_params'' typedef_u8,
    Mem ''reserved'' (Array typedef_u8 3)]"

lemma info_struct_ieee80211_mcs_info [c_info]: "info struct_ieee80211_mcs_info = (16, 2)"
  by (simp add: struct_ieee80211_mcs_info_def c_info)

definition struct_ieee80211_ht_cap :: ctype where
  "struct_ieee80211_ht_cap = Struct [Packed] [
    Mem ''cap_info'' typedef___le16, Mem ''ampdu_params_info'' typedef_u8, Mem ''mcs'' struct_ieee80211_mcs_info,
    Mem ''extended_ht_cap_info'' typedef___le16, Mem ''tx_BF_cap_info'' typedef___le32,
    Mem ''antenna_selection_info'' typedef_u8]"

lemma info_struct_ieee80211_ht_cap [c_info]: "info struct_ieee80211_ht_cap = (26, 1)"
  by (simp add: struct_ieee80211_ht_cap_def c_info)

definition struct_cfg80211_ibss_params :: ctype where
  "struct_cfg80211_ibss_params = Struct [] [
    Mem ''ssid'' (Ptr ''const u8''), Mem ''bssid'' (Ptr ''const u8''), Mem ''chandef'' struct_cfg80211_chan_def,
    Mem ''ie'' (Ptr ''const u8''), Mem ''ssid_len'' typedef_u8, Mem ''ie_len'' typedef_u8,
    Mem ''beacon_interval'' typedef_u16, Mem ''basic_rates'' typedef_u32, Mem ''channel_fixed'' typedef_bool,
    Mem ''privacy'' typedef_bool, Mem ''control_port'' typedef_bool, Mem ''control_port_over_nl80211'' typedef_bool,
    Mem ''userspace_handles_dfs'' typedef_bool, Mem ''mcast_rate'' (Array (Scalar Tint) 5),
    Mem ''ht_capa'' struct_ieee80211_ht_cap, Mem ''ht_capa_mask'' struct_ieee80211_ht_cap,
    Mem ''wep_keys'' (Ptr ''struct key_params''), Mem ''wep_tx_key'' (Scalar Tint)]"

lemma info_struct_cfg80211_ibss_params [c_info]: "info struct_cfg80211_ibss_params = (160, 8)"
  by (simp add: struct_cfg80211_ibss_params_def c_info)

definition struct_cfg80211_crypto_settings :: ctype where
  "struct_cfg80211_crypto_settings = Struct [] [
    Mem ''wpa_versions'' typedef_u32, Mem ''cipher_group'' typedef_u32, Mem ''n_ciphers_pairwise'' (Scalar Tint),
    Mem ''ciphers_pairwise'' (Array typedef_u32 5), Mem ''n_akm_suites'' (Scalar Tint),
    Mem ''akm_suites'' (Array typedef_u32 2), Mem ''control_port'' typedef_bool,
    Mem ''control_port_ethertype'' typedef___be16, Mem ''control_port_no_encrypt'' typedef_bool,
    Mem ''control_port_over_nl80211'' typedef_bool, Mem ''control_port_no_preauth'' typedef_bool,
    Mem ''wep_keys'' (Ptr ''struct key_params''), Mem ''wep_tx_key'' (Scalar Tint), Mem ''psk'' (Ptr ''const u8''),
    Mem ''sae_pwd'' (Ptr ''const u8''), Mem ''sae_pwd_len'' typedef_u8, Mem ''sae_pwe'' enum_nl80211_sae_pwe_mechanism]"

lemma info_struct_cfg80211_crypto_settings [c_info]: "info struct_cfg80211_crypto_settings = (96, 8)"
  by (simp add: struct_cfg80211_crypto_settings_def c_info)

definition struct_ieee80211_vht_mcs_info :: ctype where
  "struct_ieee80211_vht_mcs_info = Struct [] [
    Mem ''rx_mcs_map'' typedef___le16, Mem ''rx_highest'' typedef___le16, Mem ''tx_mcs_map'' typedef___le16,
    Mem ''tx_highest'' typedef___le16]"

lemma info_struct_ieee80211_vht_mcs_info [c_info]: "info struct_ieee80211_vht_mcs_info = (8, 2)"
  by (simp add: struct_ieee80211_vht_mcs_info_def c_info)

definition struct_ieee80211_vht_cap :: ctype where
  "struct_ieee80211_vht_cap = Struct [] [
    Mem ''vht_cap_info'' typedef___le32, Mem ''supp_mcs'' struct_ieee80211_vht_mcs_info]"

lemma info_struct_ieee80211_vht_cap [c_info]: "info struct_ieee80211_vht_cap = (12, 4)"
  by (simp add: struct_ieee80211_vht_cap_def c_info)

definition struct_cfg80211_bss_select_adjust :: ctype where
  "struct_cfg80211_bss_select_adjust = Struct [] [
    Mem ''band'' enum_nl80211_band, Mem ''delta'' typedef_s8]"

lemma info_struct_cfg80211_bss_select_adjust [c_info]: "info struct_cfg80211_bss_select_adjust = (8, 4)"
  by (simp add: struct_cfg80211_bss_select_adjust_def c_info)

definition struct_cfg80211_bss_selection :: ctype where
  "struct_cfg80211_bss_selection = Struct [] [
    Mem ''behaviour'' enum_nl80211_bss_select_attr,
    Mem ''param'' (Union [] [
      Mem ''band_pref'' enum_nl80211_band, Mem ''adjust'' struct_cfg80211_bss_select_adjust])]"

lemma info_struct_cfg80211_bss_selection [c_info]: "info struct_cfg80211_bss_selection = (12, 4)"
  by (simp add: struct_cfg80211_bss_selection_def c_info)

definition struct_cfg80211_connect_params :: ctype where
  "struct_cfg80211_connect_params = Struct [] [
    Mem ''channel'' (Ptr ''struct ieee80211_channel''), Mem ''channel_hint'' (Ptr ''struct ieee80211_channel''),
    Mem ''bssid'' (Ptr ''const u8''), Mem ''bssid_hint'' (Ptr ''const u8''), Mem ''ssid'' (Ptr ''const u8''),
    Mem ''ssid_len'' typedef_size_t, Mem ''auth_type'' enum_nl80211_auth_type, Mem ''ie'' (Ptr ''const u8''),
    Mem ''ie_len'' typedef_size_t, Mem ''privacy'' typedef_bool, Mem ''mfp'' enum_nl80211_mfp,
    Mem ''crypto'' struct_cfg80211_crypto_settings, Mem ''key'' (Ptr ''const u8''), Mem ''key_len'' typedef_u8,
    Mem ''key_idx'' typedef_u8, Mem ''flags'' typedef_u32, Mem ''bg_scan_period'' (Scalar Tint),
    Mem ''ht_capa'' struct_ieee80211_ht_cap, Mem ''ht_capa_mask'' struct_ieee80211_ht_cap,
    Mem ''vht_capa'' struct_ieee80211_vht_cap, Mem ''vht_capa_mask'' struct_ieee80211_vht_cap,
    Mem ''pbss'' typedef_bool, Mem ''bss_select'' struct_cfg80211_bss_selection,
    Mem ''prev_bssid'' (Ptr ''const u8''), Mem ''fils_erp_username'' (Ptr ''const u8''),
    Mem ''fils_erp_username_len'' typedef_size_t, Mem ''fils_erp_realm'' (Ptr ''const u8''),
    Mem ''fils_erp_realm_len'' typedef_size_t, Mem ''fils_erp_next_seq_num'' typedef_u16,
    Mem ''fils_erp_rrk'' (Ptr ''const u8''), Mem ''fils_erp_rrk_len'' typedef_size_t, Mem ''want_1x'' typedef_bool,
    Mem ''edmg'' struct_ieee80211_edmg]"

lemma info_struct_cfg80211_connect_params [c_info]: "info struct_cfg80211_connect_params = (368, 8)"
  by (simp add: struct_cfg80211_connect_params_def c_info)

definition struct_wireless_dev :: ctype where
  "struct_wireless_dev = Struct [] [
    Mem ''wiphy'' (Ptr ''struct wiphy''), Mem ''iftype'' enum_nl80211_iftype, Mem ''list'' struct_list_head,
    Mem ''netdev'' (Ptr ''struct net_device''), Mem ''identifier'' typedef_u32,
    Mem ''mgmt_registrations'' struct_list_head, Bits ''mgmt_registrations_need_update'' typedef_u8 1,
    Mem ''mtx'' struct_mutex, Mem ''use_4addr'' typedef_bool, Mem ''is_running'' typedef_bool,
    Mem ''registered'' typedef_bool, Mem ''registering'' typedef_bool, Mem ''address'' (Array typedef_u8 6),
    Mem ''ssid'' (Array typedef_u8 32), Mem ''ssid_len'' typedef_u8, Mem ''mesh_id_len'' typedef_u8,
    Mem ''mesh_id_up_len'' typedef_u8, Mem ''conn'' (Ptr ''struct cfg80211_conn''),
    Mem ''connect_keys'' (Ptr ''struct cfg80211_cached_keys''), Mem ''conn_bss_type'' enum_ieee80211_bss_type,
    Mem ''conn_owner_nlportid'' typedef_u32, Mem ''disconnect_wk'' struct_work_struct,
    Mem ''disconnect_bssid'' (Array typedef_u8 6), Mem ''event_list'' struct_list_head,
    Mem ''event_lock'' typedef_spinlock_t, Mem ''current_bss'' (Ptr ''struct cfg80211_internal_bss''),
    Mem ''preset_chandef'' struct_cfg80211_chan_def, Mem ''chandef'' struct_cfg80211_chan_def,
    Mem ''ibss_fixed'' typedef_bool, Mem ''ibss_dfs_possible'' typedef_bool, Mem ''ps'' typedef_bool,
    Mem ''ps_timeout'' (Scalar Tint), Mem ''beacon_interval'' (Scalar Tint),
    Mem ''ap_unexpected_nlportid'' typedef_u32, Mem ''owner_nlportid'' typedef_u32,
    Mem ''nl_owner_dead'' typedef_bool, Mem ''cac_started'' typedef_bool, Mem ''cac_start_time'' (Scalar Tulong),
    Mem ''cac_time_ms'' (Scalar Tuint),
    Mem ''wext'' (Struct [] [
      Mem ''ibss'' struct_cfg80211_ibss_params, Mem ''connect'' struct_cfg80211_connect_params,
      Mem ''keys'' (Ptr ''struct cfg80211_cached_keys''), Mem ''ie'' (Ptr ''const u8''),
      Mem ''ie_len'' typedef_size_t, Mem ''bssid'' (Array typedef_u8 6), Mem ''prev_bssid'' (Array typedef_u8 6),
      Mem ''ssid'' (Array typedef_u8 32), Mem ''default_key'' typedef_s8, Mem ''default_mgmt_key'' typedef_s8,
      Mem ''prev_bssid_valid'' typedef_bool]),
    Mem ''cqm_config'' (Ptr ''struct cfg80211_cqm_config''), Mem ''pmsr_list'' struct_list_head,
    Mem ''pmsr_lock'' typedef_spinlock_t, Mem ''pmsr_free_wk'' struct_work_struct,
    Mem ''unprot_beacon_reported'' (Scalar Tulong)]"

lemma info_struct_wireless_dev [c_info]: "info struct_wireless_dev = (1024, 8)"
  by (simp add: struct_wireless_dev_def c_info)

definition struct_ieee80211_channel :: ctype where
  "struct_ieee80211_channel = Struct [] [
    Mem ''band'' enum_nl80211_band, Mem ''center_freq'' typedef_u32, Mem ''freq_offset'' typedef_u16,
    Mem ''hw_value'' typedef_u16, Mem ''flags'' typedef_u32, Mem ''max_antenna_gain'' (Scalar Tint),
    Mem ''max_power'' (Scalar Tint), Mem ''max_reg_power'' (Scalar Tint), Mem ''beacon_found'' typedef_bool,
    Mem ''orig_flags'' typedef_u32, Mem ''orig_mag'' (Scalar Tint), Mem ''orig_mpwr'' (Scalar Tint),
    Mem ''dfs_state'' enum_nl80211_dfs_state, Mem ''dfs_state_entered'' (Scalar Tulong),
    Mem ''dfs_cac_ms'' (Scalar Tuint)]"

lemma info_struct_ieee80211_channel [c_info]: "info struct_ieee80211_channel = (64, 8)"
  by (simp add: struct_ieee80211_channel_def c_info)

definition enum_cfg80211_signal_type :: ctype where
  "enum_cfg80211_signal_type = Enum [
    (''CFG80211_SIGNAL_TYPE_NONE'', 0), (''CFG80211_SIGNAL_TYPE_MBM'', 1), (''CFG80211_SIGNAL_TYPE_UNSPEC'', 2)]"

lemma info_enum_cfg80211_signal_type [c_info]: "info enum_cfg80211_signal_type = (4, 4)"
  by (simp add: enum_cfg80211_signal_type_def c_info)

definition struct_wiphy :: ctype where
  "struct_wiphy = Struct [] [
    Mem ''mtx'' struct_mutex, Mem ''perm_addr'' (Array typedef_u8 6), Mem ''addr_mask'' (Array typedef_u8 6),
    Mem ''addresses'' (Ptr ''struct mac_address___2''),
    Mem ''mgmt_stypes'' (Ptr ''const struct ieee80211_txrx_stypes''),
    Mem ''iface_combinations'' (Ptr ''const struct ieee80211_iface_combination''),
    Mem ''n_iface_combinations'' (Scalar Tint), Mem ''software_iftypes'' typedef_u16, Mem ''n_addresses'' typedef_u16,
    Mem ''interface_modes'' typedef_u16, Mem ''max_acl_mac_addrs'' typedef_u16, Mem ''flags'' typedef_u32,
    Mem ''regulatory_flags'' typedef_u32, Mem ''features'' typedef_u32, Mem ''ext_features'' (Array typedef_u8 8),
    Mem ''ap_sme_capa'' typedef_u32, Mem ''signal_type'' enum_cfg80211_signal_type,
    Mem ''bss_priv_size'' (Scalar Tint), Mem ''max_scan_ssids'' typedef_u8, Mem ''max_sched_scan_reqs'' typedef_u8,
    Mem ''max_sched_scan_ssids'' typedef_u8, Mem ''max_match_sets'' typedef_u8, Mem ''max_scan_ie_len'' typedef_u16,
    Mem ''max_sched_scan_ie_len'' typedef_u16, Mem ''max_sched_scan_plans'' typedef_u32,
    Mem ''max_sched_scan_plan_interval'' typedef_u32, Mem ''max_sched_scan_plan_iterations'' typedef_u32,
    Mem ''n_cipher_suites'' (Scalar Tint), Mem ''cipher_suites'' (Ptr ''const u32''),
    Mem ''n_akm_suites'' (Scalar Tint), Mem ''akm_suites'' (Ptr ''const u32''),
    Mem ''iftype_akm_suites'' (Ptr ''const struct wiphy_iftype_akm_suites''),
    Mem ''num_iftype_akm_suites'' (Scalar Tuint), Mem ''retry_short'' typedef_u8, Mem ''retry_long'' typedef_u8,
    Mem ''frag_threshold'' typedef_u32, Mem ''rts_threshold'' typedef_u32, Mem ''coverage_class'' typedef_u8,
    Mem ''fw_version'' (Array (Scalar Tchar) 32), Mem ''hw_version'' typedef_u32,
    Mem ''wowlan'' (Ptr ''const struct wiphy_wowlan_support''),
    Mem ''wowlan_config'' (Ptr ''struct cfg80211_wowlan''), Mem ''max_remain_on_channel_duration'' typedef_u16,
    Mem ''max_num_pmkids'' typedef_u8, Mem ''available_antennas_tx'' typedef_u32,
    Mem ''available_antennas_rx'' typedef_u32, Mem ''probe_resp_offload'' typedef_u32,
    Mem ''extended_capabilities'' (Ptr ''const u8''), Mem ''extended_capabilities_mask'' (Ptr ''const u8''),
    Mem ''extended_capabilities_len'' typedef_u8,
    Mem ''iftype_ext_capab'' (Ptr ''const struct wiphy_iftype_ext_capab''),
    Mem ''num_iftype_ext_capab'' (Scalar Tuint), Mem ''privid'' (Ptr ''const void''),
    Mem ''bands'' (Array (Ptr ''struct ieee80211_supported_band'') 5),
    Mem ''reg_notifier'' (FunPtr ''void'' [''struct wiphy *'', ''struct regulatory_request *'']),
    Mem ''regd'' (Ptr ''const struct ieee80211_regdomain''), Mem ''dev'' struct_device,
    Mem ''registered'' typedef_bool, Mem ''debugfsdir'' (Ptr ''struct dentry''),
    Mem ''ht_capa_mod_mask'' (Ptr ''const struct ieee80211_ht_cap''),
    Mem ''vht_capa_mod_mask'' (Ptr ''const struct ieee80211_vht_cap''), Mem ''wdev_list'' struct_list_head,
    Mem ''_net'' typedef_possible_net_t, Mem ''wext'' (Ptr ''const struct iw_handler_def''),
    Mem ''coalesce'' (Ptr ''const struct wiphy_coalesce_support''),
    Mem ''vendor_commands'' (Ptr ''const struct wiphy_vendor_command''),
    Mem ''vendor_events'' (Ptr ''const struct nl80211_vendor_cmd_info''), Mem ''n_vendor_commands'' (Scalar Tint),
    Mem ''n_vendor_events'' (Scalar Tint), Mem ''max_ap_assoc_sta'' typedef_u16,
    Mem ''max_num_csa_counters'' typedef_u8, Mem ''bss_select_support'' typedef_u32,
    Mem ''nan_supported_bands'' typedef_u8, Mem ''txq_limit'' typedef_u32, Mem ''txq_memory_limit'' typedef_u32,
    Mem ''txq_quantum'' typedef_u32, Mem ''tx_queue_len'' (Scalar Tulong), Bits ''support_mbssid'' typedef_u8 1,
    Bits ''support_only_he_mbssid'' typedef_u8 1, Mem ''pmsr_capa'' (Ptr ''const struct cfg80211_pmsr_capabilities''),
    Mem ''tid_config_support'' (Struct [] [
      Mem ''peer'' typedef_u64, Mem ''vif'' typedef_u64, Mem ''max_retry'' typedef_u8]),
    Mem ''max_data_retry_count'' typedef_u8, Mem ''sar_capa'' (Ptr ''const struct cfg80211_sar_capa''),
    Mem ''rfkill'' (Ptr ''struct rfkill''), Pad (Scalar Tlong) 64, Pad (Scalar Tlong) 64, Pad (Scalar Tlong) 64,
    Mem ''priv'' (Array (Scalar Tchar) 0)]"

lemma info_struct_wiphy [c_info]: "info struct_wiphy = (1344, 8)"
  by (simp add: struct_wiphy_def c_info)

end
