(* ===== verification/Vmlinux_Sock.thy ===== *)
theory Vmlinux_Sock
  imports Vmlinux_Netns
begin

text \<open>
  Kernel objects of src/internal/sentinel/bpf/vmlinux.h that the BPF types point to. Sockets and protocols.
\<close>

definition struct_request_queue :: ctype where
  "struct_request_queue = Struct [] [
    Mem ''last_merge'' (Ptr ''struct request''), Mem ''elevator'' (Ptr ''struct elevator_queue''),
    Mem ''q_usage_counter'' struct_percpu_ref, Mem ''stats'' (Ptr ''struct blk_queue_stats''),
    Mem ''rq_qos'' (Ptr ''struct rq_qos''), Mem ''mq_ops'' (Ptr ''const struct blk_mq_ops''),
    Mem ''queue_ctx'' (Ptr ''struct blk_mq_ctx''), Mem ''queue_depth'' (Scalar Tuint),
    Mem ''queue_hw_ctx'' (Ptr ''struct blk_mq_hw_ctx *''), Mem ''nr_hw_queues'' (Scalar Tuint),
    Mem ''queuedata'' (Ptr ''void''), Mem ''queue_flags'' (Scalar Tulong), Mem ''pm_only'' typedef_atomic_t,
    Mem ''id'' (Scalar Tint), Mem ''queue_lock'' typedef_spinlock_t, Mem ''disk'' (Ptr ''struct gendisk''),
    Mem ''kobj'' struct_kobject, Mem ''mq_kobj'' (Ptr ''struct kobject''), Mem ''integrity'' struct_blk_integrity,
    Mem ''dev'' (Ptr ''struct device''), Mem ''rpm_status'' enum_rpm_status, Mem ''nr_requests'' (Scalar Tulong),
    Mem ''dma_pad_mask'' (Scalar Tuint), Mem ''dma_alignment'' (Scalar Tuint),
    Mem ''ksm'' (Ptr ''struct blk_keyslot_manager''), Mem ''rq_timeout'' (Scalar Tuint),
    Mem ''poll_nsec'' (Scalar Tint), Mem ''poll_cb'' (Ptr ''struct blk_stat_callback''),
    Mem ''poll_stat'' (Array struct_blk_rq_stat 16), Mem ''timeout'' struct_timer_list,
    Mem ''timeout_work'' struct_work_struct, Mem ''nr_active_requests_shared_sbitmap'' typedef_atomic_t,
    Mem ''sched_bitmap_tags'' struct_sbitmap_queue, Mem ''sched_breserved_tags'' struct_sbitmap_queue,
    Mem ''icq_list'' struct_list_head, Mem ''blkcg_pols'' (Array (Scalar Tulong) 1),
    Mem ''root_blkg'' (Ptr ''struct blkcg_gq''), Mem ''blkg_list'' struct_list_head,
    Mem ''limits'' struct_queue_limits, Mem ''required_elevator_features'' (Scalar Tuint),
    Mem ''nr_zones'' (Scalar Tuint), Mem ''conv_zones_bitmap'' (Ptr ''long unsigned int''),
    Mem ''seq_zones_wlock'' (Ptr ''long unsigned int''), Mem ''max_open_zones'' (Scalar Tuint),
    Mem ''max_active_zones'' (Scalar Tuint), Mem ''node'' (Scalar Tint), Mem ''debugfs_mutex'' struct_mutex,
    Mem ''blk_trace'' (Ptr ''struct blk_trace''), Mem ''fq'' (Ptr ''struct blk_flush_queue''),
    Mem ''requeue_list'' struct_list_head, Mem ''requeue_lock'' typedef_spinlock_t,
    Mem ''requeue_work'' struct_delayed_work, Mem ''sysfs_lock'' struct_mutex, Mem ''sysfs_dir_lock'' struct_mutex,
    Mem ''unused_hctx_list'' struct_list_head, Mem ''unused_hctx_lock'' typedef_spinlock_t,
    Mem ''mq_freeze_depth'' (Scalar Tint), Mem ''td'' (Ptr ''struct throtl_data''),
    Mem ''callback_head'' struct_callback_head, Mem ''mq_freeze_wq'' typedef_wait_queue_head_t,
    Mem ''mq_freeze_lock'' struct_mutex, Mem ''tag_set'' (Ptr ''struct blk_mq_tag_set''),
    Mem ''tag_set_list'' struct_list_head, Mem ''bio_split'' struct_bio_set,
    Mem ''debugfs_dir'' (Ptr ''struct dentry''), Mem ''sched_debugfs_dir'' (Ptr ''struct dentry''),
    Mem ''rqos_debugfs_dir'' (Ptr ''struct dentry''), Mem ''mq_sysfs_init_done'' typedef_bool,
    Mem ''cmd_size'' typedef_size_t, Mem ''write_hints'' (Array typedef_u64 5)]"

lemma info_struct_request_queue [c_info]: "info struct_request_queue = (2128, 8)"
  by (simp add: struct_request_queue_def c_info)

definition struct_inet_timewait_death_row :: ctype where
  "struct_inet_timewait_death_row = Struct [] [
    Mem ''tw_count'' typedef_atomic_t, Mem ''tw_pad'' (Array (Scalar Tchar) 60),
    Mem ''hashinfo'' (Ptr ''struct inet_hashinfo''), Mem ''sysctl_max_tw_buckets'' (Scalar Tint)]"

lemma info_struct_inet_timewait_death_row [c_info]: "info struct_inet_timewait_death_row = (80, 8)"
  by (simp add: struct_inet_timewait_death_row_def c_info)

definition struct_netns_ipv4 :: ctype where
  "struct_netns_ipv4 = Struct [] [
    Mem ''tcp_death_row'' struct_inet_timewait_death_row, Mem ''forw_hdr'' (Ptr ''struct ctl_table_header''),
    Mem ''frags_hdr'' (Ptr ''struct ctl_table_header''), Mem ''ipv4_hdr'' (Ptr ''struct ctl_table_header''),
    Mem ''route_hdr'' (Ptr ''struct ctl_table_header''), Mem ''xfrm4_hdr'' (Ptr ''struct ctl_table_header''),
    Mem ''devconf_all'' (Ptr ''struct ipv4_devconf''), Mem ''devconf_dflt'' (Ptr ''struct ipv4_devconf''),
    Mem ''ra_chain'' (Ptr ''struct ip_ra_chain''), Mem ''ra_mutex'' struct_mutex,
    Mem ''rules_ops'' (Ptr ''struct fib_rules_ops''), Mem ''fib_main'' (Ptr ''struct fib_table''),
    Mem ''fib_default'' (Ptr ''struct fib_table''), Mem ''fib_rules_require_fldissect'' (Scalar Tuint),
    Mem ''fib_has_custom_rules'' typedef_bool, Mem ''fib_has_custom_local_routes'' typedef_bool,
    Mem ''fib_offload_disabled'' typedef_bool, Mem ''fib_num_tclassid_users'' typedef_atomic_t,
    Mem ''fib_table_hash'' (Ptr ''struct hlist_head''), Mem ''fibnl'' (Ptr ''struct sock''),
    Mem ''icmp_sk'' (Ptr ''struct sock *''), Mem ''mc_autojoin_sk'' (Ptr ''struct sock''),
    Mem ''peers'' (Ptr ''struct inet_peer_base''), Mem ''fqdir'' (Ptr ''struct fqdir''),
    Mem ''sysctl_icmp_echo_ignore_all'' typedef_u8, Mem ''sysctl_icmp_echo_enable_probe'' typedef_u8,
    Mem ''sysctl_icmp_echo_ignore_broadcasts'' typedef_u8,
    Mem ''sysctl_icmp_ignore_bogus_error_responses'' typedef_u8,
    Mem ''sysctl_icmp_errors_use_inbound_ifaddr'' typedef_u8, Mem ''sysctl_icmp_ratelimit'' (Scalar Tint),
    Mem ''sysctl_icmp_ratemask'' (Scalar Tint), Mem ''ip_rt_min_pmtu'' typedef_u32,
    Mem ''ip_rt_mtu_expires'' (Scalar Tint), Mem ''ip_local_ports'' struct_local_ports,
    Mem ''sysctl_tcp_ecn'' typedef_u8, Mem ''sysctl_tcp_ecn_fallback'' typedef_u8,
    Mem ''sysctl_ip_default_ttl'' typedef_u8, Mem ''sysctl_ip_no_pmtu_disc'' typedef_u8,
    Mem ''sysctl_ip_fwd_use_pmtu'' typedef_u8, Mem ''sysctl_ip_fwd_update_priority'' typedef_u8,
    Mem ''sysctl_ip_nonlocal_bind'' typedef_u8, Mem ''sysctl_ip_autobind_reuse'' typedef_u8,
    Mem ''sysctl_ip_dynaddr'' typedef_u8, Mem ''sysctl_ip_early_demux'' typedef_u8,
    Mem ''sysctl_raw_l3mdev_accept'' typedef_u8, Mem ''sysctl_tcp_early_demux'' typedef_u8,
    Mem ''sysctl_udp_early_demux'' typedef_u8, Mem ''sysctl_nexthop_compat_mode'' typedef_u8,
    Mem ''sysctl_fwmark_reflect'' typedef_u8, Mem ''sysctl_tcp_fwmark_accept'' typedef_u8,
    Mem ''sysctl_tcp_l3mdev_accept'' typedef_u8, Mem ''sysctl_tcp_mtu_probing'' typedef_u8,
    Mem ''sysctl_tcp_mtu_probe_floor'' (Scalar Tint), Mem ''sysctl_tcp_base_mss'' (Scalar Tint),
    Mem ''sysctl_tcp_min_snd_mss'' (Scalar Tint), Mem ''sysctl_tcp_probe_threshold'' (Scalar Tint),
    Mem ''sysctl_tcp_probe_interval'' typedef_u32, Mem ''sysctl_tcp_keepalive_time'' (Scalar Tint),
    Mem ''sysctl_tcp_keepalive_intvl'' (Scalar Tint), Mem ''sysctl_tcp_keepalive_probes'' typedef_u8,
    Mem ''sysctl_tcp_syn_retries'' typedef_u8, Mem ''sysctl_tcp_synack_retries'' typedef_u8,
    Mem ''sysctl_tcp_syncookies'' typedef_u8, Mem ''sysctl_tcp_migrate_req'' typedef_u8,
    Mem ''sysctl_tcp_reordering'' (Scalar Tint), Mem ''sysctl_tcp_retries1'' typedef_u8,
    Mem ''sysctl_tcp_retries2'' typedef_u8, Mem ''sysctl_tcp_orphan_retries'' typedef_u8,
    Mem ''sysctl_tcp_tw_reuse'' typedef_u8, Mem ''sysctl_tcp_fin_timeout'' (Scalar Tint),
    Mem ''sysctl_tcp_notsent_lowat'' (Scalar Tuint), Mem ''sysctl_tcp_sack'' typedef_u8,
    Mem ''sysctl_tcp_window_scaling'' typedef_u8, Mem ''sysctl_tcp_timestamps'' typedef_u8,
    Mem ''sysctl_tcp_early_retrans'' typedef_u8, Mem ''sysctl_tcp_recovery'' typedef_u8,
    Mem ''sysctl_tcp_thin_linear_timeouts'' typedef_u8, Mem ''sysctl_tcp_slow_start_after_idle'' typedef_u8,
    Mem ''sysctl_tcp_retrans_collapse'' typedef_u8, Mem ''sysctl_tcp_stdurg'' typedef_u8,
    Mem ''sysctl_tcp_rfc1337'' typedef_u8, Mem ''sysctl_tcp_abort_on_overflow'' typedef_u8,
    Mem ''sysctl_tcp_fack'' typedef_u8, Mem ''sysctl_tcp_max_reordering'' (Scalar Tint),
    Mem ''sysctl_tcp_adv_win_scale'' (Scalar Tint), Mem ''sysctl_tcp_dsack'' typedef_u8,
    Mem ''sysctl_tcp_app_win'' typedef_u8, Mem ''sysctl_tcp_frto'' typedef_u8,
    Mem ''sysctl_tcp_nometrics_save'' typedef_u8, Mem ''sysctl_tcp_no_ssthresh_metrics_save'' typedef_u8,
    Mem ''sysctl_tcp_moderate_rcvbuf'' typedef_u8, Mem ''sysctl_tcp_tso_win_divisor'' typedef_u8,
    Mem ''sysctl_tcp_workaround_signed_windows'' typedef_u8, Mem ''sysctl_tcp_limit_output_bytes'' (Scalar Tint),
    Mem ''sysctl_tcp_challenge_ack_limit'' (Scalar Tint), Mem ''sysctl_tcp_min_rtt_wlen'' (Scalar Tint),
    Mem ''sysctl_tcp_min_tso_segs'' typedef_u8, Mem ''sysctl_tcp_autocorking'' typedef_u8,
    Mem ''sysctl_tcp_reflect_tos'' typedef_u8, Mem ''sysctl_tcp_comp_sack_nr'' typedef_u8,
    Mem ''sysctl_tcp_invalid_ratelimit'' (Scalar Tint), Mem ''sysctl_tcp_pacing_ss_ratio'' (Scalar Tint),
    Mem ''sysctl_tcp_pacing_ca_ratio'' (Scalar Tint), Mem ''sysctl_tcp_wmem'' (Array (Scalar Tint) 3),
    Mem ''sysctl_tcp_rmem'' (Array (Scalar Tint) 3), Mem ''sysctl_tcp_comp_sack_delay_ns'' (Scalar Tulong),
    Mem ''sysctl_tcp_comp_sack_slack_ns'' (Scalar Tulong), Mem ''sysctl_max_syn_backlog'' (Scalar Tint),
    Mem ''sysctl_tcp_fastopen'' (Scalar Tint),
    Mem ''tcp_congestion_control'' (Ptr ''const struct tcp_congestion_ops''),
    Mem ''tcp_fastopen_ctx'' (Ptr ''struct tcp_fastopen_context''),
    Mem ''sysctl_tcp_fastopen_blackhole_timeout'' (Scalar Tuint), Mem ''tfo_active_disable_times'' typedef_atomic_t,
    Mem ''tfo_active_disable_stamp'' (Scalar Tulong), Mem ''sysctl_udp_wmem_min'' (Scalar Tint),
    Mem ''sysctl_udp_rmem_min'' (Scalar Tint), Mem ''sysctl_fib_notify_on_flag_change'' typedef_u8,
    Mem ''sysctl_udp_l3mdev_accept'' typedef_u8, Mem ''sysctl_igmp_llm_reports'' typedef_u8,
    Mem ''sysctl_igmp_max_memberships'' (Scalar Tint), Mem ''sysctl_igmp_max_msf'' (Scalar Tint),
    Mem ''sysctl_igmp_qrv'' (Scalar Tint), Mem ''ping_group_range'' struct_ping_group_range,
    Mem ''dev_addr_genid'' typedef_atomic_t, Mem ''sysctl_local_reserved_ports'' (Ptr ''long unsigned int''),
    Mem ''sysctl_ip_prot_sock'' (Scalar Tint), Mem ''mr_tables'' struct_list_head,
    Mem ''mr_rules_ops'' (Ptr ''struct fib_rules_ops''), Mem ''sysctl_fib_multipath_hash_fields'' typedef_u32,
    Mem ''sysctl_fib_multipath_use_neigh'' typedef_u8, Mem ''sysctl_fib_multipath_hash_policy'' typedef_u8,
    Mem ''notifier_ops'' (Ptr ''struct fib_notifier_ops''), Mem ''fib_seq'' (Scalar Tuint),
    Mem ''ipmr_notifier_ops'' (Ptr ''struct fib_notifier_ops''), Mem ''ipmr_seq'' (Scalar Tuint),
    Mem ''rt_genid'' typedef_atomic_t, Mem ''ip_id_key'' typedef_siphash_key_t, Pad (Scalar Tlong) 64,
    Pad (Scalar Tlong) 64, Pad (Scalar Tlong) 64, Pad (Scalar Tlong) 64, Pad (Scalar Tlong) 64]"

lemma info_struct_netns_ipv4 [c_info]: "info struct_netns_ipv4 = (704, 8)"
  by (simp add: struct_netns_ipv4_def c_info)

definition struct_nf_tcp_net :: ctype where
  "struct_nf_tcp_net = Struct [] [
    Mem ''timeouts'' (Array (Scalar Tuint) 14), Mem ''tcp_loose'' typedef_u8, Mem ''tcp_be_liberal'' typedef_u8,
    Mem ''tcp_max_retrans'' typedef_u8, Mem ''tcp_ignore_invalid_rst'' typedef_u8,
    Mem ''offload_timeout'' (Scalar Tuint)]"

lemma info_struct_nf_tcp_net [c_info]: "info struct_nf_tcp_net = (64, 4)"
  by (simp add: struct_nf_tcp_net_def c_info)

definition struct_nf_udp_net :: ctype where
  "struct_nf_udp_net = Struct [] [
    Mem ''timeouts'' (Array (Scalar Tuint) 2), Mem ''offload_timeout'' (Scalar Tuint)]"

lemma info_struct_nf_udp_net [c_info]: "info struct_nf_udp_net = (12, 4)"
  by (simp add: struct_nf_udp_net_def c_info)

definition struct_nf_ip_net :: ctype where
  "struct_nf_ip_net = Struct [] [
    Mem ''generic'' struct_nf_generic_net, Mem ''tcp'' struct_nf_tcp_net, Mem ''udp'' struct_nf_udp_net,
    Mem ''icmp'' struct_nf_icmp_net, Mem ''icmpv6'' struct_nf_icmp_net, Mem ''dccp'' struct_nf_dccp_net,
    Mem ''sctp'' struct_nf_sctp_net, Mem ''gre'' struct_nf_gre_net]"

lemma info_struct_nf_ip_net [c_info]: "info struct_nf_ip_net = (200, 8)"
  by (simp add: struct_nf_ip_net_def c_info)

definition struct_netns_ct :: ctype where
  "struct_netns_ct = Struct [] [
    Mem ''ecache_dwork_pending'' typedef_bool, Mem ''sysctl_log_invalid'' typedef_u8,
    Mem ''sysctl_events'' typedef_u8, Mem ''sysctl_acct'' typedef_u8, Mem ''sysctl_auto_assign_helper'' typedef_u8,
    Mem ''sysctl_tstamp'' typedef_u8, Mem ''sysctl_checksum'' typedef_u8, Mem ''pcpu_lists'' (Ptr ''struct ct_pcpu''),
    Mem ''stat'' (Ptr ''struct ip_conntrack_stat''),
    Mem ''nf_conntrack_event_cb'' (Ptr ''struct nf_ct_event_notifier''), Mem ''nf_ct_proto'' struct_nf_ip_net,
    Mem ''labels_used'' (Scalar Tuint)]"

lemma info_struct_netns_ct [c_info]: "info struct_netns_ct = (240, 8)"
  by (simp add: struct_netns_ct_def c_info)

definition struct_netns_xdp :: ctype where
  "struct_netns_xdp = Struct [] [
    Mem ''lock'' struct_mutex, Mem ''list'' struct_hlist_head]"

lemma info_struct_netns_xdp [c_info]: "info struct_netns_xdp = (40, 8)"
  by (simp add: struct_netns_xdp_def c_info)

definition struct_net :: ctype where
  "struct_net = Struct [] [
    Mem ''passive'' typedef_refcount_t, Mem ''rules_mod_lock'' typedef_spinlock_t,
    Mem ''dev_unreg_count'' (Scalar Tuint), Mem ''dev_base_seq'' (Scalar Tuint), Mem ''ifindex'' (Scalar Tint),
    Mem ''nsid_lock'' typedef_spinlock_t, Mem ''fnhe_genid'' typedef_atomic_t, Mem ''list'' struct_list_head,
    Mem ''exit_list'' struct_list_head, Mem ''defer_free_list'' struct_llist_node,
    Mem ''cleanup_list'' struct_llist_node, Mem ''key_domain'' (Ptr ''struct key_tag''),
    Mem ''user_ns'' (Ptr ''struct user_namespace''), Mem ''ucounts'' (Ptr ''struct ucounts''),
    Mem ''netns_ids'' struct_idr, Mem ''ns'' struct_ns_common, Mem ''dev_base_head'' struct_list_head,
    Mem ''proc_net'' (Ptr ''struct proc_dir_entry''), Mem ''proc_net_stat'' (Ptr ''struct proc_dir_entry''),
    Mem ''sysctls'' struct_ctl_table_set, Mem ''rtnl'' (Ptr ''struct sock''), Mem ''genl_sock'' (Ptr ''struct sock''),
    Mem ''uevent_sock'' (Ptr ''struct uevent_sock''), Mem ''dev_name_head'' (Ptr ''struct hlist_head''),
    Mem ''dev_index_head'' (Ptr ''struct hlist_head''), Mem ''netdev_chain'' struct_raw_notifier_head,
    Mem ''hash_mix'' typedef_u32, Mem ''loopback_dev'' (Ptr ''struct net_device''),
    Mem ''rules_ops'' struct_list_head, Mem ''core'' struct_netns_core, Mem ''mib'' struct_netns_mib,
    Mem ''packet'' struct_netns_packet, Mem ''unx'' struct_netns_unix, Mem ''nexthop'' struct_netns_nexthop,
    Pad (Scalar Tlong) 64, Pad (Scalar Tlong) 64, Pad (Scalar Tlong) 64, Pad (Scalar Tlong) 64, Pad (Scalar Tlong) 64,
    Pad (Scalar Tlong) 64, Pad (Scalar Tlong) 64, Mem ''ipv4'' struct_netns_ipv4, Mem ''ipv6'' struct_netns_ipv6,
    Mem ''ieee802154_lowpan'' struct_netns_ieee802154_lowpan, Mem ''sctp'' struct_netns_sctp,
    Mem ''nf'' struct_netns_nf, Mem ''ct'' struct_netns_ct, Mem ''nft'' struct_netns_nftables,
    Mem ''ft'' struct_netns_ft, Mem ''wext_nlevents'' struct_sk_buff_head, Mem ''gen'' (Ptr ''struct net_generic''),
    Mem ''bpf'' struct_netns_bpf, Pad (Scalar Tlong) 64, Pad (Scalar Tlong) 64, Pad (Scalar Tlong) 64,
    Mem ''xfrm'' struct_netns_xfrm, Mem ''net_cookie'' typedef_u64, Mem ''ipvs'' (Ptr ''struct netns_ipvs''),
    Mem ''mpls'' struct_netns_mpls, Mem ''can'' struct_netns_can, Mem ''xdp'' struct_netns_xdp,
    Mem ''mctp'' struct_netns_mctp, Mem ''crypto_nlsk'' (Ptr ''struct sock''),
    Mem ''diag_nlsk'' (Ptr ''struct sock''), Mem ''smc'' struct_netns_smc, Pad (Scalar Tlong) 64]"

lemma info_struct_net [c_info]: "info struct_net = (4352, 8)"
  by (simp add: struct_net_def c_info)

definition struct_tcp_mib :: ctype where
  "struct_tcp_mib = Struct [] [
    Mem ''mibs'' (Array (Scalar Tulong) 16)]"

lemma info_struct_tcp_mib [c_info]: "info struct_tcp_mib = (128, 8)"
  by (simp add: struct_tcp_mib_def c_info)

definition struct_udp_mib :: ctype where
  "struct_udp_mib = Struct [] [
    Mem ''mibs'' (Array (Scalar Tulong) 10)]"

lemma info_struct_udp_mib [c_info]: "info struct_udp_mib = (80, 8)"
  by (simp add: struct_udp_mib_def c_info)

definition struct_inet_frags :: ctype where
  "struct_inet_frags = Struct [] [
    Mem ''qsize'' (Scalar Tuint),
    Mem ''constructor'' (FunPtr ''void'' [''struct inet_frag_queue *'', ''const void *'']),
    Mem ''destructor'' (FunPtr ''void'' [''struct inet_frag_queue *'']),
    Mem ''frag_expire'' (FunPtr ''void'' [''struct timer_list *'']), Mem ''frags_cachep'' (Ptr ''struct kmem_cache''),
    Mem ''frags_cache_name'' (Ptr ''const char''), Mem ''rhash_params'' struct_rhashtable_params,
    Mem ''refcnt'' typedef_refcount_t, Mem ''completion'' struct_completion]"

lemma info_struct_inet_frags [c_info]: "info struct_inet_frags = (128, 8)"
  by (simp add: struct_inet_frags_def c_info)

definition struct___kernel_sockaddr_storage :: ctype where
  "struct___kernel_sockaddr_storage = Struct [] [
    Anon (Union [] [
      Anon (Struct [] [
        Mem ''ss_family'' typedef___kernel_sa_family_t, Mem ''__data'' (Array (Scalar Tchar) 126)]),
      Mem ''__align'' (Ptr ''void'')])]"

lemma info_struct___kernel_sockaddr_storage [c_info]: "info struct___kernel_sockaddr_storage = (128, 8)"
  by (simp add: struct___kernel_sockaddr_storage_def c_info)

definition struct_sockaddr :: ctype where
  "struct_sockaddr = Struct [] [
    Mem ''sa_family'' typedef_sa_family_t,
    Anon (Union [] [
      Mem ''sa_data_min'' (Array (Scalar Tchar) 14),
      Anon (Struct [] [
        Mem ''__empty_sa_data'' (Struct [] []), Mem ''sa_data'' (Array (Scalar Tchar) 0)])])]"

lemma info_struct_sockaddr [c_info]: "info struct_sockaddr = (16, 2)"
  by (simp add: struct_sockaddr_def c_info)

definition struct_ipv6_stable_secret :: ctype where
  "struct_ipv6_stable_secret = Struct [] [
    Mem ''initialized'' typedef_bool, Mem ''secret'' struct_in6_addr]"

lemma info_struct_ipv6_stable_secret [c_info]: "info struct_ipv6_stable_secret = (20, 4)"
  by (simp add: struct_ipv6_stable_secret_def c_info)

definition struct_ipv6_devconf :: ctype where
  "struct_ipv6_devconf = Struct [] [
    Mem ''forwarding'' typedef___s32, Mem ''hop_limit'' typedef___s32, Mem ''mtu6'' typedef___s32,
    Mem ''accept_ra'' typedef___s32, Mem ''accept_redirects'' typedef___s32, Mem ''autoconf'' typedef___s32,
    Mem ''dad_transmits'' typedef___s32, Mem ''rtr_solicits'' typedef___s32,
    Mem ''rtr_solicit_interval'' typedef___s32, Mem ''rtr_solicit_max_interval'' typedef___s32,
    Mem ''rtr_solicit_delay'' typedef___s32, Mem ''force_mld_version'' typedef___s32,
    Mem ''mldv1_unsolicited_report_interval'' typedef___s32, Mem ''mldv2_unsolicited_report_interval'' typedef___s32,
    Mem ''use_tempaddr'' typedef___s32, Mem ''temp_valid_lft'' typedef___s32, Mem ''temp_prefered_lft'' typedef___s32,
    Mem ''regen_max_retry'' typedef___s32, Mem ''max_desync_factor'' typedef___s32,
    Mem ''max_addresses'' typedef___s32, Mem ''accept_ra_defrtr'' typedef___s32,
    Mem ''ra_defrtr_metric'' typedef___u32, Mem ''accept_ra_min_hop_limit'' typedef___s32,
    Mem ''accept_ra_min_lft'' typedef___s32, Mem ''accept_ra_pinfo'' typedef___s32,
    Mem ''ignore_routes_with_linkdown'' typedef___s32, Mem ''accept_ra_rtr_pref'' typedef___s32,
    Mem ''rtr_probe_interval'' typedef___s32, Mem ''accept_ra_rt_info_min_plen'' typedef___s32,
    Mem ''accept_ra_rt_info_max_plen'' typedef___s32, Mem ''proxy_ndp'' typedef___s32,
    Mem ''accept_source_route'' typedef___s32, Mem ''accept_ra_from_local'' typedef___s32,
    Mem ''mc_forwarding'' typedef_atomic_t, Mem ''disable_ipv6'' typedef___s32,
    Mem ''drop_unicast_in_l2_multicast'' typedef___s32, Mem ''accept_dad'' typedef___s32,
    Mem ''force_tllao'' typedef___s32, Mem ''ndisc_notify'' typedef___s32, Mem ''suppress_frag_ndisc'' typedef___s32,
    Mem ''accept_ra_mtu'' typedef___s32, Mem ''drop_unsolicited_na'' typedef___s32,
    Mem ''stable_secret'' struct_ipv6_stable_secret, Mem ''use_oif_addrs_only'' typedef___s32,
    Mem ''keep_addr_on_down'' typedef___s32, Mem ''seg6_enabled'' typedef___s32,
    Mem ''seg6_require_hmac'' typedef___s32, Mem ''enhanced_dad'' typedef___u32, Mem ''addr_gen_mode'' typedef___u32,
    Mem ''disable_policy'' typedef___s32, Mem ''ndisc_tclass'' typedef___s32, Mem ''rpl_seg_enabled'' typedef___s32,
    Mem ''ioam6_id'' typedef___u32, Mem ''ioam6_id_wide'' typedef___u32, Mem ''ioam6_enabled'' typedef___u8,
    Mem ''sysctl_header'' (Ptr ''struct ctl_table_header'')]"

lemma info_struct_ipv6_devconf [c_info]: "info struct_ipv6_devconf = (248, 8)"
  by (simp add: struct_ipv6_devconf_def c_info)

definition struct_socket_wq :: ctype where
  "struct_socket_wq = Struct [] [
    Mem ''wait'' typedef_wait_queue_head_t, Mem ''fasync_list'' (Ptr ''struct fasync_struct''),
    Mem ''flags'' (Scalar Tulong), Mem ''rcu'' struct_callback_head, Pad (Scalar Tlong) 64]"

lemma info_struct_socket_wq [c_info]: "info struct_socket_wq = (64, 8)"
  by (simp add: struct_socket_wq_def c_info)

definition struct_socket :: ctype where
  "struct_socket = Struct [] [
    Mem ''state'' typedef_socket_state, Mem ''type'' (Scalar Tshort), Mem ''flags'' (Scalar Tulong),
    Mem ''file'' (Ptr ''struct file''), Mem ''sk'' (Ptr ''struct sock''),
    Mem ''ops'' (Ptr ''const struct proto_ops''), Pad (Scalar Tlong) 64, Pad (Scalar Tlong) 64, Pad (Scalar Tlong) 64,
    Mem ''wq'' struct_socket_wq]"

lemma info_struct_socket [c_info]: "info struct_socket = (128, 8)"
  by (simp add: struct_socket_def c_info)

definition struct_proto_ops :: ctype where
  "struct_proto_ops = Struct [] [
    Mem ''family'' (Scalar Tint), Mem ''owner'' (Ptr ''struct module''),
    Mem ''release'' (FunPtr ''int'' [''struct socket *'']),
    Mem ''bind'' (FunPtr ''int'' [''struct socket *'', ''struct sockaddr *'', ''int'']),
    Mem ''connect'' (FunPtr ''int'' [''struct socket *'', ''struct sockaddr *'', ''int'', ''int'']),
    Mem ''socketpair'' (FunPtr ''int'' [''struct socket *'', ''struct socket *'']),
    Mem ''accept'' (FunPtr ''int'' [''struct socket *'', ''struct socket *'', ''int'', ''bool'']),
    Mem ''getname'' (FunPtr ''int'' [''struct socket *'', ''struct sockaddr *'', ''int'']),
    Mem ''poll'' (FunPtr ''__poll_t'' [''struct file *'', ''struct socket *'', ''struct poll_table_struct *'']),
    Mem ''ioctl'' (FunPtr ''int'' [''struct socket *'', ''unsigned int'', ''long unsigned int'']),
    Mem ''compat_ioctl'' (FunPtr ''int'' [''struct socket *'', ''unsigned int'', ''long unsigned int'']),
    Mem ''gettstamp'' (FunPtr ''int'' [''struct socket *'', ''void *'', ''bool'', ''bool'']),
    Mem ''listen'' (FunPtr ''int'' [''struct socket *'', ''int'']),
    Mem ''shutdown'' (FunPtr ''int'' [''struct socket *'', ''int'']),
    Mem ''setsockopt'' (FunPtr ''int'' [''struct socket *'', ''int'', ''int'', ''sockptr_t'', ''unsigned int'']),
    Mem ''getsockopt'' (FunPtr ''int'' [''struct socket *'', ''int'', ''int'', ''char *'', ''int *'']),
    Mem ''show_fdinfo'' (FunPtr ''void'' [''struct seq_file *'', ''struct socket *'']),
    Mem ''sendmsg'' (FunPtr ''int'' [''struct socket *'', ''struct msghdr *'', ''size_t'']),
    Mem ''recvmsg'' (FunPtr ''int'' [''struct socket *'', ''struct msghdr *'', ''size_t'', ''int'']),
    Mem ''mmap'' (FunPtr ''int'' [''struct file *'', ''struct socket *'', ''struct vm_area_struct *'']),
    Mem ''sendpage'' (FunPtr ''ssize_t'' [''struct socket *'', ''struct page *'', ''int'', ''size_t'', ''int'']),
    Mem ''splice_read'' (FunPtr ''ssize_t'' [''struct socket *'', ''loff_t *'', ''struct pipe_inode_info *'', ''size_t'', ''unsigned int'']),
    Mem ''set_peek_off'' (FunPtr ''int'' [''struct sock *'', ''int'']),
    Mem ''peek_len'' (FunPtr ''int'' [''struct socket *'']),
    Mem ''read_sock'' (FunPtr ''int'' [''struct sock *'', ''read_descriptor_t *'', ''sk_read_actor_t'']),
    Mem ''sendpage_locked'' (FunPtr ''int'' [''struct sock *'', ''struct page *'', ''int'', ''size_t'', ''int'']),
    Mem ''sendmsg_locked'' (FunPtr ''int'' [''struct sock *'', ''struct msghdr *'', ''size_t'']),
    Mem ''set_rcvlowat'' (FunPtr ''int'' [''struct sock *'', ''int''])]"

lemma info_struct_proto_ops [c_info]: "info struct_proto_ops = (224, 8)"
  by (simp add: struct_proto_ops_def c_info)

definition struct_xdp_mem_info :: ctype where
  "struct_xdp_mem_info = Struct [] [
    Mem ''type'' typedef_u32, Mem ''id'' typedef_u32]"

lemma info_struct_xdp_mem_info [c_info]: "info struct_xdp_mem_info = (8, 4)"
  by (simp add: struct_xdp_mem_info_def c_info)

definition struct_xdp_rxq_info :: ctype where
  "struct_xdp_rxq_info = Struct [] [
    Mem ''dev'' (Ptr ''struct net_device''), Mem ''queue_index'' typedef_u32, Mem ''reg_state'' typedef_u32,
    Mem ''mem'' struct_xdp_mem_info, Mem ''napi_id'' (Scalar Tuint), Pad (Scalar Tlong) 64, Pad (Scalar Tlong) 64,
    Pad (Scalar Tlong) 64, Pad (Scalar Tlong) 64]"

lemma info_struct_xdp_rxq_info [c_info]: "info struct_xdp_rxq_info = (64, 8)"
  by (simp add: struct_xdp_rxq_info_def c_info)

definition struct_xdp_txq_info :: ctype where
  "struct_xdp_txq_info = Struct [] [
    Mem ''dev'' (Ptr ''struct net_device'')]"

lemma info_struct_xdp_txq_info [c_info]: "info struct_xdp_txq_info = (8, 8)"
  by (simp add: struct_xdp_txq_info_def c_info)

definition struct_xdp_frame :: ctype where
  "struct_xdp_frame = Struct [] [
    Mem ''data'' (Ptr ''void''), Mem ''len'' typedef_u16, Mem ''headroom'' typedef_u16,
    Bits ''metasize'' typedef_u32 8, Bits ''frame_sz'' typedef_u32 24, Mem ''mem'' struct_xdp_mem_info,
    Mem ''dev_rx'' (Ptr ''struct net_device'')]"

lemma info_struct_xdp_frame [c_info]: "info struct_xdp_frame = (32, 8)"
  by (simp add: struct_xdp_frame_def c_info)

definition struct_nlmsghdr :: ctype where
  "struct_nlmsghdr = Struct [] [
    Mem ''nlmsg_len'' typedef___u32, Mem ''nlmsg_type'' typedef___u16, Mem ''nlmsg_flags'' typedef___u16,
    Mem ''nlmsg_seq'' typedef___u32, Mem ''nlmsg_pid'' typedef___u32]"

lemma info_struct_nlmsghdr [c_info]: "info struct_nlmsghdr = (16, 4)"
  by (simp add: struct_nlmsghdr_def c_info)

definition struct_netlink_ext_ack :: ctype where
  "struct_netlink_ext_ack = Struct [] [
    Mem ''_msg'' (Ptr ''const char''), Mem ''bad_attr'' (Ptr ''const struct nlattr''),
    Mem ''policy'' (Ptr ''const struct nla_policy''), Mem ''cookie'' (Array typedef_u8 20),
    Mem ''cookie_len'' typedef_u8]"

lemma info_struct_netlink_ext_ack [c_info]: "info struct_netlink_ext_ack = (48, 8)"
  by (simp add: struct_netlink_ext_ack_def c_info)

definition struct_netlink_callback :: ctype where
  "struct_netlink_callback = Struct [] [
    Mem ''skb'' (Ptr ''struct sk_buff''), Mem ''nlh'' (Ptr ''const struct nlmsghdr''),
    Mem ''dump'' (FunPtr ''int'' [''struct sk_buff *'', ''struct netlink_callback *'']),
    Mem ''done'' (FunPtr ''int'' [''struct netlink_callback *'']), Mem ''data'' (Ptr ''void''),
    Mem ''module'' (Ptr ''struct module''), Mem ''extack'' (Ptr ''struct netlink_ext_ack''),
    Mem ''family'' typedef_u16, Mem ''answer_flags'' typedef_u16, Mem ''min_dump_alloc'' typedef_u32,
    Mem ''prev_seq'' (Scalar Tuint), Mem ''seq'' (Scalar Tuint), Mem ''strict_check'' typedef_bool,
    Anon (Union [] [
      Mem ''ctx'' (Array typedef_u8 48), Mem ''args'' (Array (Scalar Tlong) 6)])]"

lemma info_struct_netlink_callback [c_info]: "info struct_netlink_callback = (128, 8)"
  by (simp add: struct_netlink_callback_def c_info)

definition struct_netdev_rx_queue :: ctype where
  "struct_netdev_rx_queue = Struct [] [
    Mem ''xdp_rxq'' struct_xdp_rxq_info, Mem ''rps_map'' (Ptr ''struct rps_map''),
    Mem ''rps_flow_table'' (Ptr ''struct rps_dev_flow_table''), Mem ''kobj'' struct_kobject,
    Mem ''dev'' (Ptr ''struct net_device''), Mem ''pool'' (Ptr ''struct xsk_buff_pool''), Pad (Scalar Tlong) 64,
    Pad (Scalar Tlong) 64, Pad (Scalar Tlong) 64, Pad (Scalar Tlong) 64]"

lemma info_struct_netdev_rx_queue [c_info]: "info struct_netdev_rx_queue = (192, 8)"
  by (simp add: struct_netdev_rx_queue_def c_info)

definition struct_ipv6_devstat :: ctype where
  "struct_ipv6_devstat = Struct [] [
    Mem ''proc_dir_entry'' (Ptr ''struct proc_dir_entry''), Mem ''ipv6'' (Ptr ''struct ipstats_mib''),
    Mem ''icmpv6dev'' (Ptr ''struct icmpv6_mib_device''), Mem ''icmpv6msgdev'' (Ptr ''struct icmpv6msg_mib_device'')]"

lemma info_struct_ipv6_devstat [c_info]: "info struct_ipv6_devstat = (32, 8)"
  by (simp add: struct_ipv6_devstat_def c_info)

definition struct_inet6_dev :: ctype where
  "struct_inet6_dev = Struct [] [
    Mem ''dev'' (Ptr ''struct net_device''), Mem ''addr_list'' struct_list_head,
    Mem ''mc_list'' (Ptr ''struct ifmcaddr6''), Mem ''mc_tomb'' (Ptr ''struct ifmcaddr6''),
    Mem ''mc_qrv'' (Scalar Tuchar), Mem ''mc_gq_running'' (Scalar Tuchar), Mem ''mc_ifc_count'' (Scalar Tuchar),
    Mem ''mc_dad_count'' (Scalar Tuchar), Mem ''mc_v1_seen'' (Scalar Tulong), Mem ''mc_qi'' (Scalar Tulong),
    Mem ''mc_qri'' (Scalar Tulong), Mem ''mc_maxdelay'' (Scalar Tulong), Mem ''mc_gq_work'' struct_delayed_work,
    Mem ''mc_ifc_work'' struct_delayed_work, Mem ''mc_dad_work'' struct_delayed_work,
    Mem ''mc_query_work'' struct_delayed_work, Mem ''mc_report_work'' struct_delayed_work,
    Mem ''mc_query_queue'' struct_sk_buff_head, Mem ''mc_report_queue'' struct_sk_buff_head,
    Mem ''mc_query_lock'' typedef_spinlock_t, Mem ''mc_report_lock'' typedef_spinlock_t, Mem ''mc_lock'' struct_mutex,
    Mem ''ac_list'' (Ptr ''struct ifacaddr6''), Mem ''lock'' typedef_rwlock_t, Mem ''refcnt'' typedef_refcount_t,
    Mem ''if_flags'' typedef___u32, Mem ''dead'' (Scalar Tint), Mem ''desync_factor'' typedef_u32,
    Mem ''tempaddr_list'' struct_list_head, Mem ''token'' struct_in6_addr,
    Mem ''nd_parms'' (Ptr ''struct neigh_parms''), Mem ''cnf'' struct_ipv6_devconf, Mem ''stats'' struct_ipv6_devstat,
    Mem ''rs_timer'' struct_timer_list, Mem ''rs_interval'' typedef___s32, Mem ''rs_probes'' typedef___u8,
    Mem ''tstamp'' (Scalar Tulong), Mem ''rcu'' struct_callback_head, Mem ''ra_mtu'' (Scalar Tuint)]"

lemma info_struct_inet6_dev [c_info]: "info struct_inet6_dev = (1040, 8)"
  by (simp add: struct_inet6_dev_def c_info)

definition struct_udp_tunnel_nic_table_info :: ctype where
  "struct_udp_tunnel_nic_table_info = Struct [] [
    Mem ''n_entries'' (Scalar Tuint), Mem ''tunnel_types'' (Scalar Tuint)]"

lemma info_struct_udp_tunnel_nic_table_info [c_info]: "info struct_udp_tunnel_nic_table_info = (8, 4)"
  by (simp add: struct_udp_tunnel_nic_table_info_def c_info)

definition struct_udp_tunnel_nic_info :: ctype where
  "struct_udp_tunnel_nic_info = Struct [] [
    Mem ''set_port'' (FunPtr ''int'' [''struct net_device *'', ''unsigned int'', ''unsigned int'', ''struct udp_tunnel_info *'']),
    Mem ''unset_port'' (FunPtr ''int'' [''struct net_device *'', ''unsigned int'', ''unsigned int'', ''struct udp_tunnel_info *'']),
    Mem ''sync_table'' (FunPtr ''int'' [''struct net_device *'', ''unsigned int'']),
    Mem ''shared'' (Ptr ''struct udp_tunnel_nic_shared''), Mem ''flags'' (Scalar Tuint),
    Mem ''tables'' (Array struct_udp_tunnel_nic_table_info 4)]"

lemma info_struct_udp_tunnel_nic_info [c_info]: "info struct_udp_tunnel_nic_info = (72, 8)"
  by (simp add: struct_udp_tunnel_nic_info_def c_info)

definition struct_netlink_range_validation :: ctype where
  "struct_netlink_range_validation = Struct [] [
    Mem ''min'' typedef_u64, Mem ''max'' typedef_u64]"

lemma info_struct_netlink_range_validation [c_info]: "info struct_netlink_range_validation = (16, 8)"
  by (simp add: struct_netlink_range_validation_def c_info)

definition struct_netlink_range_validation_signed :: ctype where
  "struct_netlink_range_validation_signed = Struct [] [
    Mem ''min'' typedef_s64, Mem ''max'' typedef_s64]"

lemma info_struct_netlink_range_validation_signed [c_info]: "info struct_netlink_range_validation_signed = (16, 8)"
  by (simp add: struct_netlink_range_validation_signed_def c_info)

definition struct_tcf_proto :: ctype where
  "struct_tcf_proto = Struct [] [
    Mem ''next'' (Ptr ''struct tcf_proto''), Mem ''root'' (Ptr ''void''),
    Mem ''classify'' (FunPtr ''int'' [''struct sk_buff *'', ''const struct tcf_proto *'', ''struct tcf_result *'']),
    Mem ''protocol'' typedef___be16, Mem ''prio'' typedef_u32, Mem ''data'' (Ptr ''void''),
    Mem ''ops'' (Ptr ''const struct tcf_proto_ops''), Mem ''chain'' (Ptr ''struct tcf_chain''),
    Mem ''lock'' typedef_spinlock_t, Mem ''deleting'' typedef_bool, Mem ''refcnt'' typedef_refcount_t,
    Mem ''rcu'' struct_callback_head, Mem ''destroy_ht_node'' struct_hlist_node]"

lemma info_struct_tcf_proto [c_info]: "info struct_tcf_proto = (104, 8)"
  by (simp add: struct_tcf_proto_def c_info)

definition struct_sock_fprog_kern :: ctype where
  "struct_sock_fprog_kern = Struct [] [
    Mem ''len'' typedef_u16, Mem ''filter'' (Ptr ''struct sock_filter'')]"

lemma info_struct_sock_fprog_kern [c_info]: "info struct_sock_fprog_kern = (16, 8)"
  by (simp add: struct_sock_fprog_kern_def c_info)

definition struct_sk_filter :: ctype where
  "struct_sk_filter = Struct [] [
    Mem ''refcnt'' typedef_refcount_t, Mem ''rcu'' struct_callback_head, Mem ''prog'' (Ptr ''struct bpf_prog'')]"

lemma info_struct_sk_filter [c_info]: "info struct_sk_filter = (32, 8)"
  by (simp add: struct_sk_filter_def c_info)

definition struct_proto :: ctype where
  "struct_proto = Struct [] [
    Mem ''close'' (FunPtr ''void'' [''struct sock *'', ''long int'']),
    Mem ''pre_connect'' (FunPtr ''int'' [''struct sock *'', ''struct sockaddr *'', ''int'']),
    Mem ''connect'' (FunPtr ''int'' [''struct sock *'', ''struct sockaddr *'', ''int'']),
    Mem ''disconnect'' (FunPtr ''int'' [''struct sock *'', ''int'']),
    Mem ''accept'' (FunPtr ''struct sock *'' [''struct sock *'', ''int'', ''int *'', ''bool'']),
    Mem ''ioctl'' (FunPtr ''int'' [''struct sock *'', ''int'', ''long unsigned int'']),
    Mem ''init'' (FunPtr ''int'' [''struct sock *'']), Mem ''destroy'' (FunPtr ''void'' [''struct sock *'']),
    Mem ''shutdown'' (FunPtr ''void'' [''struct sock *'', ''int'']),
    Mem ''setsockopt'' (FunPtr ''int'' [''struct sock *'', ''int'', ''int'', ''sockptr_t'', ''unsigned int'']),
    Mem ''getsockopt'' (FunPtr ''int'' [''struct sock *'', ''int'', ''int'', ''char *'', ''int *'']),
    Mem ''keepalive'' (FunPtr ''void'' [''struct sock *'', ''int'']),
    Mem ''compat_ioctl'' (FunPtr ''int'' [''struct sock *'', ''unsigned int'', ''long unsigned int'']),
    Mem ''sendmsg'' (FunPtr ''int'' [''struct sock *'', ''struct msghdr *'', ''size_t'']),
    Mem ''recvmsg'' (FunPtr ''int'' [''struct sock *'', ''struct msghdr *'', ''size_t'', ''int'', ''int'', ''int *'']),
    Mem ''sendpage'' (FunPtr ''int'' [''struct sock *'', ''struct page *'', ''int'', ''size_t'', ''int'']),
    Mem ''bind'' (FunPtr ''int'' [''struct sock *'', ''struct sockaddr *'', ''int'']),
    Mem ''bind_add'' (FunPtr ''int'' [''struct sock *'', ''struct sockaddr *'', ''int'']),
    Mem ''backlog_rcv'' (FunPtr ''int'' [''struct sock *'', ''struct sk_buff *'']),
    Mem ''bpf_bypass_getsockopt'' (FunPtr ''bool'' [''int'', ''int'']),
    Mem ''release_cb'' (FunPtr ''void'' [''struct sock *'']), Mem ''hash'' (FunPtr ''int'' [''struct sock *'']),
    Mem ''unhash'' (FunPtr ''void'' [''struct sock *'']), Mem ''rehash'' (FunPtr ''void'' [''struct sock *'']),
    Mem ''get_port'' (FunPtr ''int'' [''struct sock *'', ''short unsigned int'']),
    Mem ''psock_update_sk_prot'' (FunPtr ''int'' [''struct sock *'', ''struct sk_psock *'', ''bool'']),
    Mem ''inuse_idx'' (Scalar Tuint), Mem ''stream_memory_free'' (FunPtr ''bool'' [''const struct sock *'', ''int'']),
    Mem ''sock_is_readable'' (FunPtr ''bool'' [''struct sock *'']),
    Mem ''enter_memory_pressure'' (FunPtr ''void'' [''struct sock *'']),
    Mem ''leave_memory_pressure'' (FunPtr ''void'' [''struct sock *'']),
    Mem ''memory_allocated'' (Ptr ''atomic_long_t''), Mem ''sockets_allocated'' (Ptr ''struct percpu_counter''),
    Mem ''memory_pressure'' (Ptr ''long unsigned int''), Mem ''sysctl_mem'' (Ptr ''long int''),
    Mem ''sysctl_wmem'' (Ptr ''int''), Mem ''sysctl_rmem'' (Ptr ''int''), Mem ''sysctl_wmem_offset'' typedef_u32,
    Mem ''sysctl_rmem_offset'' typedef_u32, Mem ''max_header'' (Scalar Tint), Mem ''no_autobind'' typedef_bool,
    Mem ''slab'' (Ptr ''struct kmem_cache''), Mem ''obj_size'' (Scalar Tuint),
    Mem ''slab_flags'' typedef_slab_flags_t, Mem ''useroffset'' (Scalar Tuint), Mem ''usersize'' (Scalar Tuint),
    Mem ''orphan_count'' (Ptr ''unsigned int''), Mem ''rsk_prot'' (Ptr ''struct request_sock_ops''),
    Mem ''twsk_prot'' (Ptr ''struct timewait_sock_ops''),
    Mem ''h'' (Union [] [
      Mem ''hashinfo'' (Ptr ''struct inet_hashinfo''), Mem ''udp_table'' (Ptr ''struct udp_table''),
      Mem ''raw_hash'' (Ptr ''struct raw_hashinfo''), Mem ''smc_hash'' (Ptr ''struct smc_hashinfo'')]),
    Mem ''owner'' (Ptr ''struct module''), Mem ''name'' (Array (Scalar Tchar) 32), Mem ''node'' struct_list_head,
    Mem ''diag_destroy'' (FunPtr ''int'' [''struct sock *'', ''int''])]"

lemma info_struct_proto [c_info]: "info struct_proto = (432, 8)"
  by (simp add: struct_proto_def c_info)

definition struct_request_sock_ops :: ctype where
  "struct_request_sock_ops = Struct [] [
    Mem ''family'' (Scalar Tint), Mem ''obj_size'' (Scalar Tuint), Mem ''slab'' (Ptr ''struct kmem_cache''),
    Mem ''slab_name'' (Ptr ''char''),
    Mem ''rtx_syn_ack'' (FunPtr ''int'' [''const struct sock *'', ''struct request_sock *'']),
    Mem ''send_ack'' (FunPtr ''void'' [''const struct sock *'', ''struct sk_buff *'', ''struct request_sock *'']),
    Mem ''send_reset'' (FunPtr ''void'' [''const struct sock *'', ''struct sk_buff *'']),
    Mem ''destructor'' (FunPtr ''void'' [''struct request_sock *'']),
    Mem ''syn_ack_timeout'' (FunPtr ''void'' [''const struct request_sock *''])]"

lemma info_struct_request_sock_ops [c_info]: "info struct_request_sock_ops = (64, 8)"
  by (simp add: struct_request_sock_ops_def c_info)

definition struct_timewait_sock_ops :: ctype where
  "struct_timewait_sock_ops = Struct [] [
    Mem ''twsk_slab'' (Ptr ''struct kmem_cache''), Mem ''twsk_slab_name'' (Ptr ''char''),
    Mem ''twsk_obj_size'' (Scalar Tuint),
    Mem ''twsk_unique'' (FunPtr ''int'' [''struct sock *'', ''struct sock *'', ''void *'']),
    Mem ''twsk_destructor'' (FunPtr ''void'' [''struct sock *''])]"

lemma info_struct_timewait_sock_ops [c_info]: "info struct_timewait_sock_ops = (40, 8)"
  by (simp add: struct_timewait_sock_ops_def c_info)

definition struct_inet_hashinfo :: ctype where
  "struct_inet_hashinfo = Struct [] [
    Mem ''ehash'' (Ptr ''struct inet_ehash_bucket''), Mem ''ehash_locks'' (Ptr ''spinlock_t''),
    Mem ''ehash_mask'' (Scalar Tuint), Mem ''ehash_locks_mask'' (Scalar Tuint),
    Mem ''bind_bucket_cachep'' (Ptr ''struct kmem_cache''), Mem ''bhash'' (Ptr ''struct inet_bind_hashbucket''),
    Mem ''bhash_size'' (Scalar Tuint), Mem ''lhash2_mask'' (Scalar Tuint),
    Mem ''lhash2'' (Ptr ''struct inet_listen_hashbucket'')]"

lemma info_struct_inet_hashinfo [c_info]: "info struct_inet_hashinfo = (56, 8)"
  by (simp add: struct_inet_hashinfo_def c_info)

definition struct_inet_peer_base :: ctype where
  "struct_inet_peer_base = Struct [] [
    Mem ''rb_root'' struct_rb_root, Mem ''lock'' typedef_seqlock_t, Mem ''total'' (Scalar Tint)]"

lemma info_struct_inet_peer_base [c_info]: "info struct_inet_peer_base = (24, 8)"
  by (simp add: struct_inet_peer_base_def c_info)

definition struct_tcp_fastopen_context :: ctype where
  "struct_tcp_fastopen_context = Struct [] [
    Mem ''key'' (Array typedef_siphash_key_t 2), Mem ''num'' (Scalar Tint), Mem ''rcu'' struct_callback_head]"

lemma info_struct_tcp_fastopen_context [c_info]: "info struct_tcp_fastopen_context = (56, 8)"
  by (simp add: struct_tcp_fastopen_context_def c_info)

definition struct_sock_reuseport :: ctype where
  "struct_sock_reuseport = Struct [] [
    Mem ''rcu'' struct_callback_head, Mem ''max_socks'' typedef_u16, Mem ''num_socks'' typedef_u16,
    Mem ''num_closed_socks'' typedef_u16, Mem ''incoming_cpu'' typedef_u16, Mem ''synq_overflow_ts'' (Scalar Tuint),
    Mem ''reuseport_id'' (Scalar Tuint), Bits ''bind_inany'' (Scalar Tuint) 1, Bits ''has_conns'' (Scalar Tuint) 1,
    Mem ''prog'' (Ptr ''struct bpf_prog''), Mem ''socks'' (Array (Ptr ''struct sock'') 0)]"

lemma info_struct_sock_reuseport [c_info]: "info struct_sock_reuseport = (48, 8)"
  by (simp add: struct_sock_reuseport_def c_info)

definition struct_inet_ehash_bucket :: ctype where
  "struct_inet_ehash_bucket = Struct [] [
    Mem ''chain'' struct_hlist_nulls_head]"

lemma info_struct_inet_ehash_bucket [c_info]: "info struct_inet_ehash_bucket = (8, 8)"
  by (simp add: struct_inet_ehash_bucket_def c_info)

definition struct_inet_bind_hashbucket :: ctype where
  "struct_inet_bind_hashbucket = Struct [] [
    Mem ''lock'' typedef_spinlock_t, Mem ''chain'' struct_hlist_head]"

lemma info_struct_inet_bind_hashbucket [c_info]: "info struct_inet_bind_hashbucket = (16, 8)"
  by (simp add: struct_inet_bind_hashbucket_def c_info)

definition struct_inet_listen_hashbucket :: ctype where
  "struct_inet_listen_hashbucket = Struct [] [
    Mem ''lock'' typedef_spinlock_t, Mem ''nulls_head'' struct_hlist_nulls_head]"

lemma info_struct_inet_listen_hashbucket [c_info]: "info struct_inet_listen_hashbucket = (16, 8)"
  by (simp add: struct_inet_listen_hashbucket_def c_info)

definition struct_xdp_dev_bulk_queue :: ctype where
  "struct_xdp_dev_bulk_queue = Struct [] [
    Mem ''q'' (Array (Ptr ''struct xdp_frame'') 16), Mem ''flush_node'' struct_list_head,
    Mem ''dev'' (Ptr ''struct net_device''), Mem ''dev_rx'' (Ptr ''struct net_device''),
    Mem ''xdp_prog'' (Ptr ''struct bpf_prog''), Mem ''count'' (Scalar Tuint)]"

lemma info_struct_xdp_dev_bulk_queue [c_info]: "info struct_xdp_dev_bulk_queue = (176, 8)"
  by (simp add: struct_xdp_dev_bulk_queue_def c_info)

definition struct_xdp_bulk_queue :: ctype where
  "struct_xdp_bulk_queue = Struct [] [
    Mem ''q'' (Array (Ptr ''void'') 8), Mem ''flush_node'' struct_list_head,
    Mem ''obj'' (Ptr ''struct bpf_cpu_map_entry''), Mem ''count'' (Scalar Tuint)]"

lemma info_struct_xdp_bulk_queue [c_info]: "info struct_xdp_bulk_queue = (96, 8)"
  by (simp add: struct_xdp_bulk_queue_def c_info)

definition struct_ip_options :: ctype where
  "struct_ip_options = Struct [] [
    Mem ''faddr'' typedef___be32, Mem ''nexthop'' typedef___be32, Mem ''optlen'' (Scalar Tuchar),
    Mem ''srr'' (Scalar Tuchar), Mem ''rr'' (Scalar Tuchar), Mem ''ts'' (Scalar Tuchar),
    Bits ''is_strictroute'' (Scalar Tuchar) 1, Bits ''srr_is_hit'' (Scalar Tuchar) 1,
    Bits ''is_changed'' (Scalar Tuchar) 1, Bits ''rr_needaddr'' (Scalar Tuchar) 1,
    Bits ''ts_needtime'' (Scalar Tuchar) 1, Bits ''ts_needaddr'' (Scalar Tuchar) 1,
    Mem ''router_alert'' (Scalar Tuchar), Mem ''cipso'' (Scalar Tuchar), Mem ''__pad2'' (Scalar Tuchar),
    Mem ''__data'' (Array (Scalar Tuchar) 0)]"

lemma info_struct_ip_options [c_info]: "info struct_ip_options = (16, 4)"
  by (simp add: struct_ip_options_def c_info)

definition struct_ip_options_rcu :: ctype where
  "struct_ip_options_rcu = Struct [] [
    Mem ''rcu'' struct_callback_head, Mem ''opt'' struct_ip_options]"

lemma info_struct_ip_options_rcu [c_info]: "info struct_ip_options_rcu = (32, 8)"
  by (simp add: struct_ip_options_rcu_def c_info)

definition struct_ipv6_txoptions :: ctype where
  "struct_ipv6_txoptions = Struct [] [
    Mem ''refcnt'' typedef_refcount_t, Mem ''tot_len'' (Scalar Tint), Mem ''opt_flen'' typedef___u16,
    Mem ''opt_nflen'' typedef___u16, Mem ''hopopt'' (Ptr ''struct ipv6_opt_hdr''),
    Mem ''dst0opt'' (Ptr ''struct ipv6_opt_hdr''), Mem ''srcrt'' (Ptr ''struct ipv6_rt_hdr''),
    Mem ''dst1opt'' (Ptr ''struct ipv6_opt_hdr''), Mem ''rcu'' struct_callback_head]"

lemma info_struct_ipv6_txoptions [c_info]: "info struct_ipv6_txoptions = (64, 8)"
  by (simp add: struct_ipv6_txoptions_def c_info)

definition struct_inet_cork :: ctype where
  "struct_inet_cork = Struct [] [
    Mem ''flags'' (Scalar Tuint), Mem ''addr'' typedef___be32, Mem ''opt'' (Ptr ''struct ip_options''),
    Mem ''fragsize'' (Scalar Tuint), Mem ''length'' (Scalar Tint), Mem ''dst'' (Ptr ''struct dst_entry''),
    Mem ''tx_flags'' typedef_u8, Mem ''ttl'' typedef___u8, Mem ''tos'' typedef___s16, Mem ''priority'' (Scalar Tchar),
    Mem ''gso_size'' typedef___u16, Mem ''transmit_time'' typedef_u64, Mem ''mark'' typedef_u32]"

lemma info_struct_inet_cork [c_info]: "info struct_inet_cork = (56, 8)"
  by (simp add: struct_inet_cork_def c_info)

definition struct_inet_cork_full :: ctype where
  "struct_inet_cork_full = Struct [] [
    Mem ''base'' struct_inet_cork, Mem ''fl'' struct_flowi]"

lemma info_struct_inet_cork_full [c_info]: "info struct_inet_cork_full = (144, 8)"
  by (simp add: struct_inet_cork_full_def c_info)

definition struct_inet_sock :: ctype where
  "struct_inet_sock = Struct [] [
    Mem ''sk'' struct_sock, Mem ''pinet6'' (Ptr ''struct ipv6_pinfo''), Mem ''inet_saddr'' typedef___be32,
    Mem ''uc_ttl'' typedef___s16, Mem ''cmsg_flags'' typedef___u16, Mem ''inet_opt'' (Ptr ''struct ip_options_rcu''),
    Mem ''inet_sport'' typedef___be16, Mem ''inet_id'' typedef___u16, Mem ''tos'' typedef___u8,
    Mem ''min_ttl'' typedef___u8, Mem ''mc_ttl'' typedef___u8, Mem ''pmtudisc'' typedef___u8,
    Bits ''recverr'' typedef___u8 1, Bits ''is_icsk'' typedef___u8 1, Bits ''freebind'' typedef___u8 1,
    Bits ''hdrincl'' typedef___u8 1, Bits ''mc_loop'' typedef___u8 1, Bits ''transparent'' typedef___u8 1,
    Bits ''mc_all'' typedef___u8 1, Bits ''nodefrag'' typedef___u8 1, Bits ''bind_address_no_port'' typedef___u8 1,
    Bits ''recverr_rfc4884'' typedef___u8 1, Bits ''defer_connect'' typedef___u8 1, Mem ''rcv_tos'' typedef___u8,
    Mem ''convert_csum'' typedef___u8, Mem ''uc_index'' (Scalar Tint), Mem ''mc_index'' (Scalar Tint),
    Mem ''mc_addr'' typedef___be32, Mem ''mc_list'' (Ptr ''struct ip_mc_socklist''),
    Mem ''cork'' struct_inet_cork_full]"

lemma info_struct_inet_sock [c_info]: "info struct_inet_sock = (1000, 8)"
  by (simp add: struct_inet_sock_def c_info)

definition struct_inet6_cork :: ctype where
  "struct_inet6_cork = Struct [] [
    Mem ''opt'' (Ptr ''struct ipv6_txoptions''), Mem ''hop_limit'' typedef_u8, Mem ''tclass'' typedef_u8]"

lemma info_struct_inet6_cork [c_info]: "info struct_inet6_cork = (16, 8)"
  by (simp add: struct_inet6_cork_def c_info)

definition struct_ipv6_pinfo :: ctype where
  "struct_ipv6_pinfo = Struct [] [
    Mem ''saddr'' struct_in6_addr, Mem ''sticky_pktinfo'' struct_in6_pktinfo,
    Mem ''daddr_cache'' (Ptr ''const struct in6_addr''), Mem ''saddr_cache'' (Ptr ''const struct in6_addr''),
    Mem ''flow_label'' typedef___be32, Mem ''frag_size'' typedef___u32, Bits ''__unused_1'' typedef___u16 7,
    Bits ''hop_limit'' typedef___s16 9, Bits ''mc_loop'' typedef___u16 1, Bits ''__unused_2'' typedef___u16 6,
    Bits ''mcast_hops'' typedef___s16 9, Mem ''ucast_oif'' (Scalar Tint), Mem ''mcast_oif'' (Scalar Tint),
    Mem ''rxopt'' (Union [] [
      Mem ''bits'' (Struct [] [
        Bits ''srcrt'' typedef___u16 1, Bits ''osrcrt'' typedef___u16 1, Bits ''rxinfo'' typedef___u16 1,
        Bits ''rxoinfo'' typedef___u16 1, Bits ''rxhlim'' typedef___u16 1, Bits ''rxohlim'' typedef___u16 1,
        Bits ''hopopts'' typedef___u16 1, Bits ''ohopopts'' typedef___u16 1, Bits ''dstopts'' typedef___u16 1,
        Bits ''odstopts'' typedef___u16 1, Bits ''rxflow'' typedef___u16 1, Bits ''rxtclass'' typedef___u16 1,
        Bits ''rxpmtu'' typedef___u16 1, Bits ''rxorigdstaddr'' typedef___u16 1, Bits ''recvfragsize'' typedef___u16 1]),
      Mem ''all'' typedef___u16]),
    Bits ''recverr'' typedef___u16 1, Bits ''sndflow'' typedef___u16 1, Bits ''repflow'' typedef___u16 1,
    Bits ''pmtudisc'' typedef___u16 3, Bits ''padding'' typedef___u16 1, Bits ''srcprefs'' typedef___u16 3,
    Bits ''dontfrag'' typedef___u16 1, Bits ''autoflowlabel'' typedef___u16 1,
    Bits ''autoflowlabel_set'' typedef___u16 1, Bits ''mc_all'' typedef___u16 1,
    Bits ''recverr_rfc4884'' typedef___u16 1, Bits ''rtalert_isolate'' typedef___u16 1,
    Mem ''min_hopcount'' typedef___u8, Mem ''tclass'' typedef___u8, Mem ''rcv_flowinfo'' typedef___be32,
    Mem ''dst_cookie'' typedef___u32, Mem ''ipv6_mc_list'' (Ptr ''struct ipv6_mc_socklist''),
    Mem ''ipv6_ac_list'' (Ptr ''struct ipv6_ac_socklist''), Mem ''ipv6_fl_list'' (Ptr ''struct ipv6_fl_socklist''),
    Mem ''opt'' (Ptr ''struct ipv6_txoptions''), Mem ''pktoptions'' (Ptr ''struct sk_buff''),
    Mem ''rxpmtu'' (Ptr ''struct sk_buff''), Mem ''cork'' struct_inet6_cork]"

lemma info_struct_ipv6_pinfo [c_info]: "info struct_ipv6_pinfo = (160, 8)"
  by (simp add: struct_ipv6_pinfo_def c_info)

definition struct_ipv6_mc_socklist :: ctype where
  "struct_ipv6_mc_socklist = Struct [] [
    Mem ''addr'' struct_in6_addr, Mem ''ifindex'' (Scalar Tint), Mem ''sfmode'' (Scalar Tuint),
    Mem ''next'' (Ptr ''struct ipv6_mc_socklist''), Mem ''sflist'' (Ptr ''struct ip6_sf_socklist''),
    Mem ''rcu'' struct_callback_head]"

lemma info_struct_ipv6_mc_socklist [c_info]: "info struct_ipv6_mc_socklist = (56, 8)"
  by (simp add: struct_ipv6_mc_socklist_def c_info)

definition struct_ipv6_ac_socklist :: ctype where
  "struct_ipv6_ac_socklist = Struct [] [
    Mem ''acl_addr'' struct_in6_addr, Mem ''acl_ifindex'' (Scalar Tint),
    Mem ''acl_next'' (Ptr ''struct ipv6_ac_socklist'')]"

lemma info_struct_ipv6_ac_socklist [c_info]: "info struct_ipv6_ac_socklist = (32, 8)"
  by (simp add: struct_ipv6_ac_socklist_def c_info)

definition struct_ipv6_fl_socklist :: ctype where
  "struct_ipv6_fl_socklist = Struct [] [
    Mem ''next'' (Ptr ''struct ipv6_fl_socklist''), Mem ''fl'' (Ptr ''struct ip6_flowlabel''),
    Mem ''rcu'' struct_callback_head]"

lemma info_struct_ipv6_fl_socklist [c_info]: "info struct_ipv6_fl_socklist = (32, 8)"
  by (simp add: struct_ipv6_fl_socklist_def c_info)

definition struct_fib6_table :: ctype where
  "struct_fib6_table = Struct [] [
    Mem ''tb6_hlist'' struct_hlist_node, Mem ''tb6_id'' typedef_u32, Mem ''tb6_lock'' typedef_spinlock_t,
    Mem ''tb6_root'' struct_fib6_node, Mem ''tb6_peers'' struct_inet_peer_base, Mem ''flags'' (Scalar Tuint),
    Mem ''fib_seq'' (Scalar Tuint)]"

lemma info_struct_fib6_table [c_info]: "info struct_fib6_table = (128, 8)"
  by (simp add: struct_fib6_table_def c_info)

definition struct_udp_table :: ctype where
  "struct_udp_table = Struct [] [
    Mem ''hash'' (Ptr ''struct udp_hslot''), Mem ''hash2'' (Ptr ''struct udp_hslot''), Mem ''mask'' (Scalar Tuint),
    Mem ''log'' (Scalar Tuint)]"

lemma info_struct_udp_table [c_info]: "info struct_udp_table = (24, 8)"
  by (simp add: struct_udp_table_def c_info)

definition struct_udp_hslot :: ctype where
  "struct_udp_hslot = Struct [] [
    Mem ''head'' struct_hlist_head, Mem ''count'' (Scalar Tint), Mem ''lock'' typedef_spinlock_t]"

lemma info_struct_udp_hslot [c_info]: "info struct_udp_hslot = (16, 8)"
  by (simp add: struct_udp_hslot_def c_info)

definition struct_sockaddr_un :: ctype where
  "struct_sockaddr_un = Struct [] [
    Mem ''sun_family'' typedef___kernel_sa_family_t, Mem ''sun_path'' (Array (Scalar Tchar) 108)]"

lemma info_struct_sockaddr_un [c_info]: "info struct_sockaddr_un = (110, 2)"
  by (simp add: struct_sockaddr_un_def c_info)

definition struct_unix_address :: ctype where
  "struct_unix_address = Struct [] [
    Mem ''refcnt'' typedef_refcount_t, Mem ''len'' (Scalar Tint), Mem ''hash'' (Scalar Tuint),
    Mem ''name'' (Array struct_sockaddr_un 0)]"

lemma info_struct_unix_address [c_info]: "info struct_unix_address = (12, 4)"
  by (simp add: struct_unix_address_def c_info)

definition struct_scm_stat :: ctype where
  "struct_scm_stat = Struct [] [
    Mem ''nr_fds'' typedef_atomic_t]"

lemma info_struct_scm_stat [c_info]: "info struct_scm_stat = (4, 4)"
  by (simp add: struct_scm_stat_def c_info)

definition struct_unix_sock :: ctype where
  "struct_unix_sock = Struct [] [
    Mem ''sk'' struct_sock, Mem ''addr'' (Ptr ''struct unix_address''), Mem ''path'' struct_path,
    Mem ''iolock'' struct_mutex, Mem ''bindlock'' struct_mutex, Mem ''peer'' (Ptr ''struct sock''),
    Mem ''link'' struct_list_head, Mem ''inflight'' (Scalar Tulong), Mem ''lock'' typedef_spinlock_t,
    Mem ''gc_flags'' (Scalar Tulong), Pad (Scalar Tlong) 64, Pad (Scalar Tlong) 64, Pad (Scalar Tlong) 64,
    Mem ''peer_wq'' struct_socket_wq, Mem ''peer_wake'' typedef_wait_queue_entry_t, Mem ''scm_stat'' struct_scm_stat,
    Mem ''oob_skb'' (Ptr ''struct sk_buff''), Pad (Scalar Tlong) 64]"

lemma info_struct_unix_sock [c_info]: "info struct_unix_sock = (1088, 8)"
  by (simp add: struct_unix_sock_def c_info)

definition struct_uevent_sock :: ctype where
  "struct_uevent_sock = Struct [] [
    Mem ''list'' struct_list_head, Mem ''sk'' (Ptr ''struct sock'')]"

lemma info_struct_uevent_sock [c_info]: "info struct_uevent_sock = (24, 8)"
  by (simp add: struct_uevent_sock_def c_info)

definition struct_sfp_socket_ops :: ctype where
  "struct_sfp_socket_ops = Struct [] [
    Mem ''attach'' (FunPtr ''void'' [''struct sfp *'']), Mem ''detach'' (FunPtr ''void'' [''struct sfp *'']),
    Mem ''start'' (FunPtr ''void'' [''struct sfp *'']), Mem ''stop'' (FunPtr ''void'' [''struct sfp *'']),
    Mem ''module_info'' (FunPtr ''int'' [''struct sfp *'', ''struct ethtool_modinfo *'']),
    Mem ''module_eeprom'' (FunPtr ''int'' [''struct sfp *'', ''struct ethtool_eeprom *'', ''u8 *'']),
    Mem ''module_eeprom_by_page'' (FunPtr ''int'' [''struct sfp *'', ''const struct ethtool_module_eeprom *'', ''struct netlink_ext_ack *''])]"

lemma info_struct_sfp_socket_ops [c_info]: "info struct_sfp_socket_ops = (56, 8)"
  by (simp add: struct_sfp_socket_ops_def c_info)

definition union_inet_addr :: ctype where
  "union_inet_addr = Union [] [
    Mem ''all'' (Array typedef___u32 4), Mem ''ip'' typedef___be32, Mem ''ip6'' (Array typedef___be32 4),
    Mem ''in'' struct_in_addr, Mem ''in6'' struct_in6_addr]"

lemma info_union_inet_addr [c_info]: "info union_inet_addr = (16, 4)"
  by (simp add: union_inet_addr_def c_info)

definition struct_netpoll :: ctype where
  "struct_netpoll = Struct [] [
    Mem ''dev'' (Ptr ''struct net_device''), Mem ''dev_name'' (Array (Scalar Tchar) 16),
    Mem ''name'' (Ptr ''const char''), Mem ''local_ip'' union_inet_addr, Mem ''remote_ip'' union_inet_addr,
    Mem ''ipv6'' typedef_bool, Mem ''local_port'' typedef_u16, Mem ''remote_port'' typedef_u16,
    Mem ''remote_mac'' (Array typedef_u8 6)]"

lemma info_struct_netpoll [c_info]: "info struct_netpoll = (80, 8)"
  by (simp add: struct_netpoll_def c_info)

definition struct_udp_tunnel_nic_shared :: ctype where
  "struct_udp_tunnel_nic_shared = Struct [] [
    Mem ''udp_tunnel_nic_info'' (Ptr ''struct udp_tunnel_nic''), Mem ''devices'' struct_list_head]"

lemma info_struct_udp_tunnel_nic_shared [c_info]: "info struct_udp_tunnel_nic_shared = (24, 8)"
  by (simp add: struct_udp_tunnel_nic_shared_def c_info)

definition struct_udp_sock :: ctype where
  "struct_udp_sock = Struct [] [
    Mem ''inet'' struct_inet_sock, Mem ''pending'' (Scalar Tint), Mem ''corkflag'' (Scalar Tuint),
    Mem ''encap_type'' typedef___u8, Bits ''no_check6_tx'' (Scalar Tuchar) 1, Bits ''no_check6_rx'' (Scalar Tuchar) 1,
    Bits ''encap_enabled'' (Scalar Tuchar) 1, Bits ''gro_enabled'' (Scalar Tuchar) 1,
    Bits ''accept_udp_l4'' (Scalar Tuchar) 1, Bits ''accept_udp_fraglist'' (Scalar Tuchar) 1,
    Mem ''len'' typedef___u16, Mem ''gso_size'' typedef___u16, Mem ''pcslen'' typedef___u16,
    Mem ''pcrlen'' typedef___u16, Mem ''pcflag'' typedef___u8, Mem ''unused'' (Array typedef___u8 3),
    Mem ''encap_rcv'' (FunPtr ''int'' [''struct sock *'', ''struct sk_buff *'']),
    Mem ''encap_err_rcv'' (FunPtr ''void'' [''struct sock *'', ''struct sk_buff *'', ''unsigned int'']),
    Mem ''encap_err_lookup'' (FunPtr ''int'' [''struct sock *'', ''struct sk_buff *'']),
    Mem ''encap_destroy'' (FunPtr ''void'' [''struct sock *'']),
    Mem ''gro_receive'' (FunPtr ''struct sk_buff *'' [''struct sock *'', ''struct list_head *'', ''struct sk_buff *'']),
    Mem ''gro_complete'' (FunPtr ''int'' [''struct sock *'', ''struct sk_buff *'', ''int'']), Pad (Scalar Tlong) 64,
    Pad (Scalar Tlong) 64, Mem ''reader_queue'' struct_sk_buff_head, Mem ''forward_deficit'' (Scalar Tint),
    Pad (Scalar Tlong) 64, Pad (Scalar Tlong) 64, Pad (Scalar Tlong) 64, Pad (Scalar Tlong) 64]"

lemma info_struct_udp_sock [c_info]: "info struct_udp_sock = (1152, 8)"
  by (simp add: struct_udp_sock_def c_info)

definition struct_xdp_umem :: ctype where
  "struct_xdp_umem = Struct [] [
    Mem ''addrs'' (Ptr ''void''), Mem ''size'' typedef_u64, Mem ''headroom'' typedef_u32,
    Mem ''chunk_size'' typedef_u32, Mem ''chunks'' typedef_u32, Mem ''npgs'' typedef_u32,
    Mem ''user'' (Ptr ''struct user_struct''), Mem ''users'' typedef_refcount_t, Mem ''flags'' typedef_u8,
    Mem ''zc'' typedef_bool, Mem ''pgs'' (Ptr ''struct page *''), Mem ''id'' (Scalar Tint),
    Mem ''xsk_dma_list'' struct_list_head, Mem ''work'' struct_work_struct]"

lemma info_struct_xdp_umem [c_info]: "info struct_xdp_umem = (112, 8)"
  by (simp add: struct_xdp_umem_def c_info)

definition struct_ipv6_sr_hdr :: ctype where
  "struct_ipv6_sr_hdr = Struct [] [
    Mem ''nexthdr'' typedef___u8, Mem ''hdrlen'' typedef___u8, Mem ''type'' typedef___u8,
    Mem ''segments_left'' typedef___u8, Mem ''first_segment'' typedef___u8, Mem ''flags'' typedef___u8,
    Mem ''tag'' typedef___u16, Mem ''segments'' (Array struct_in6_addr 0)]"

lemma info_struct_ipv6_sr_hdr [c_info]: "info struct_ipv6_sr_hdr = (8, 4)"
  by (simp add: struct_ipv6_sr_hdr_def c_info)

definition struct_xsk_buff_pool :: ctype where
  "struct_xsk_buff_pool = Struct [] [
    Mem ''dev'' (Ptr ''struct device''), Mem ''netdev'' (Ptr ''struct net_device''),
    Mem ''xsk_tx_list'' struct_list_head, Mem ''xsk_tx_list_lock'' typedef_spinlock_t,
    Mem ''users'' typedef_refcount_t, Mem ''umem'' (Ptr ''struct xdp_umem''), Mem ''work'' struct_work_struct,
    Mem ''free_list'' struct_list_head, Mem ''heads_cnt'' typedef_u32, Mem ''queue_id'' typedef_u16,
    Pad (Scalar Tlong) 64, Pad (Scalar Tlong) 64, Pad (Scalar Tlong) 64, Mem ''fq'' (Ptr ''struct xsk_queue''),
    Mem ''cq'' (Ptr ''struct xsk_queue''), Mem ''dma_pages'' (Ptr ''dma_addr_t''),
    Mem ''heads'' (Ptr ''struct xdp_buff_xsk''), Mem ''tx_descs'' (Ptr ''struct xdp_desc''),
    Mem ''chunk_mask'' typedef_u64, Mem ''addrs_cnt'' typedef_u64, Mem ''free_list_cnt'' typedef_u32,
    Mem ''dma_pages_cnt'' typedef_u32, Mem ''free_heads_cnt'' typedef_u32, Mem ''headroom'' typedef_u32,
    Mem ''chunk_size'' typedef_u32, Mem ''frame_len'' typedef_u32, Mem ''cached_need_wakeup'' typedef_u8,
    Mem ''uses_need_wakeup'' typedef_bool, Mem ''dma_need_sync'' typedef_bool, Mem ''unaligned'' typedef_bool,
    Mem ''addrs'' (Ptr ''void''), Mem ''cq_lock'' typedef_spinlock_t,
    Mem ''free_heads'' (Array (Ptr ''struct xdp_buff_xsk'') 0), Pad (Scalar Tlong) 64, Pad (Scalar Tlong) 64,
    Pad (Scalar Tlong) 64]"

lemma info_struct_xsk_buff_pool [c_info]: "info struct_xsk_buff_pool = (256, 8)"
  by (simp add: struct_xsk_buff_pool_def c_info)

definition struct_xdp_desc :: ctype where
  "struct_xdp_desc = Struct [] [
    Mem ''addr'' typedef___u64, Mem ''len'' typedef___u32, Mem ''options'' typedef___u32]"

lemma info_struct_xdp_desc [c_info]: "info struct_xdp_desc = (16, 8)"
  by (simp add: struct_xdp_desc_def c_info)

definition struct_xdp_buff_xsk :: ctype where
  "struct_xdp_buff_xsk = Struct [] [
    Mem ''xdp'' struct_xdp_buff, Mem ''dma'' typedef_dma_addr_t, Mem ''frame_dma'' typedef_dma_addr_t,
    Mem ''pool'' (Ptr ''struct xsk_buff_pool''), Mem ''unaligned'' typedef_bool, Mem ''orig_addr'' typedef_u64,
    Mem ''free_list_node'' struct_list_head]"

lemma info_struct_xdp_buff_xsk [c_info]: "info struct_xdp_buff_xsk = (112, 8)"
  by (simp add: struct_xdp_buff_xsk_def c_info)

definition struct_netlink_sock :: ctype where
  "struct_netlink_sock = Struct [] [
    Mem ''sk'' struct_sock, Mem ''portid'' typedef_u32, Mem ''dst_portid'' typedef_u32, Mem ''dst_group'' typedef_u32,
    Mem ''flags'' typedef_u32, Mem ''subscriptions'' typedef_u32, Mem ''ngroups'' typedef_u32,
    Mem ''groups'' (Ptr ''long unsigned int''), Mem ''state'' (Scalar Tulong), Mem ''max_recvmsg_len'' typedef_size_t,
    Mem ''wait'' typedef_wait_queue_head_t, Mem ''bound'' typedef_bool, Mem ''cb_running'' typedef_bool,
    Mem ''dump_done_errno'' (Scalar Tint), Mem ''cb'' struct_netlink_callback,
    Mem ''cb_mutex'' (Ptr ''struct mutex''), Mem ''cb_def_mutex'' struct_mutex,
    Mem ''netlink_rcv'' (FunPtr ''void'' [''struct sk_buff *'']),
    Mem ''netlink_bind'' (FunPtr ''int'' [''struct net *'', ''int'']),
    Mem ''netlink_unbind'' (FunPtr ''void'' [''struct net *'', ''int'']), Mem ''module'' (Ptr ''struct module''),
    Mem ''node'' struct_rhash_head, Mem ''rcu'' struct_callback_head]"

lemma info_struct_netlink_sock [c_info]: "info struct_netlink_sock = (1104, 8)"
  by (simp add: struct_netlink_sock_def c_info)

definition struct_ip_sf_socklist :: ctype where
  "struct_ip_sf_socklist = Struct [] [
    Mem ''sl_max'' (Scalar Tuint), Mem ''sl_count'' (Scalar Tuint), Mem ''rcu'' struct_callback_head,
    Mem ''sl_addr'' (Array typedef___be32 0)]"

lemma info_struct_ip_sf_socklist [c_info]: "info struct_ip_sf_socklist = (24, 8)"
  by (simp add: struct_ip_sf_socklist_def c_info)

definition struct_ip_mc_socklist :: ctype where
  "struct_ip_mc_socklist = Struct [] [
    Mem ''next_rcu'' (Ptr ''struct ip_mc_socklist''), Mem ''multi'' struct_ip_mreqn, Mem ''sfmode'' (Scalar Tuint),
    Mem ''sflist'' (Ptr ''struct ip_sf_socklist''), Mem ''rcu'' struct_callback_head]"

lemma info_struct_ip_mc_socklist [c_info]: "info struct_ip_mc_socklist = (48, 8)"
  by (simp add: struct_ip_mc_socklist_def c_info)

definition struct_xsk_queue :: ctype where
  "struct_xsk_queue = Struct [] [
    Mem ''ring_mask'' typedef_u32, Mem ''nentries'' typedef_u32, Mem ''cached_prod'' typedef_u32,
    Mem ''cached_cons'' typedef_u32, Mem ''ring'' (Ptr ''struct xdp_ring''), Mem ''invalid_descs'' typedef_u64,
    Mem ''queue_empty_descs'' typedef_u64]"

lemma info_struct_xsk_queue [c_info]: "info struct_xsk_queue = (40, 8)"
  by (simp add: struct_xsk_queue_def c_info)

definition struct_xdp_ring :: ctype where
  "struct_xdp_ring = Struct [] [
    Mem ''producer'' typedef_u32, Pad (Scalar Tlong) 64, Pad (Scalar Tlong) 64, Pad (Scalar Tlong) 64,
    Pad (Scalar Tlong) 64, Pad (Scalar Tlong) 64, Pad (Scalar Tlong) 64, Pad (Scalar Tlong) 64,
    Mem ''pad1'' typedef_u32, Pad (Scalar Tlong) 64, Pad (Scalar Tlong) 64, Pad (Scalar Tlong) 64,
    Pad (Scalar Tlong) 64, Pad (Scalar Tlong) 64, Pad (Scalar Tlong) 64, Pad (Scalar Tlong) 64,
    Mem ''consumer'' typedef_u32, Pad (Scalar Tlong) 64, Pad (Scalar Tlong) 64, Pad (Scalar Tlong) 64,
    Pad (Scalar Tlong) 64, Pad (Scalar Tlong) 64, Pad (Scalar Tlong) 64, Pad (Scalar Tlong) 64,
    Mem ''pad2'' typedef_u32, Mem ''flags'' typedef_u32, Pad (Scalar Tlong) 64, Pad (Scalar Tlong) 64,
    Pad (Scalar Tlong) 64, Pad (Scalar Tlong) 64, Pad (Scalar Tlong) 64, Pad (Scalar Tlong) 64, Pad (Scalar Tlong) 64,
    Mem ''pad3'' typedef_u32, Pad (Scalar Tlong) 64, Pad (Scalar Tlong) 64, Pad (Scalar Tlong) 64,
    Pad (Scalar Tlong) 64, Pad (Scalar Tlong) 64, Pad (Scalar Tlong) 64, Pad (Scalar Tlong) 64]"

lemma info_struct_xdp_ring [c_info]: "info struct_xdp_ring = (320, 4)"
  by (simp add: struct_xdp_ring_def c_info)

definition struct_mptcp_mib :: ctype where
  "struct_mptcp_mib = Struct [] [
    Mem ''mibs'' (Array (Scalar Tulong) 48)]"

lemma info_struct_mptcp_mib [c_info]: "info struct_mptcp_mib = (384, 8)"
  by (simp add: struct_mptcp_mib_def c_info)

end
