(* ===== verification/Sentinel_Objects.thy ===== *)
theory Sentinel_Objects
  imports Sentinel_Abi Vmlinux_Sock
begin

text \<open>
  The kernel objects behind the helpers of the sentinel: the task whose command name a record
  carries, and the high-resolution timer behind the opaque \<open>struct bpf_timer\<close> of the timer map.
\<close>

text \<open>
  The command name of a record has the size of the one the kernel keeps in the task, so that the
  helper copies it whole; and both sizes are the 16 the program passes.
\<close>

theorem task_comm_fits:
  "map_option csize (member_type struct_task_struct ''comm'') = Some 16 \<and>
   map_option csize (member_type struct_absence_event ''comm'') = Some 16"
  by (simp add: struct_task_struct_def struct_absence_event_def csize_def c_info)

text \<open>
  From the element of the timer map to the kernel's timer: the opaque timer is a pointer to a
  \<open>struct bpf_hrtimer\<close> with the callback and the map it belongs to; the timer proper is its first member, so both
  have the same address; and the eight clock bases of a CPU, one of which the timer is queued on,
  take 64 bytes each, from byte 64 of the CPU's base on.
\<close>

theorem timer_objects:
  "member_type struct_bpf_timer_kern ''timer'' = Some (Ptr ''struct bpf_hrtimer'') \<and>
   offset_of struct_bpf_timer_kern ''timer'' = Some 0 \<and>
   member_type struct_bpf_hrtimer ''timer'' = Some struct_hrtimer \<and> offset_of struct_bpf_hrtimer ''timer'' = Some 0 \<and>
   member_type struct_hrtimer ''base'' = Some (Ptr ''struct hrtimer_clock_base'') \<and>
   member_type struct_hrtimer_cpu_base ''clock_base'' = Some (Array struct_hrtimer_clock_base 8) \<and>
   offset_of struct_hrtimer_cpu_base ''clock_base'' = Some 64 \<and> csize struct_hrtimer_clock_base = 64"
  by (simp add: struct_bpf_timer_kern_def struct_bpf_hrtimer_def struct_hrtimer_def
      struct_hrtimer_cpu_base_def csize_def calign_def c_info)

end
