(* ===== verification/Float64.thy ===== *)
theory Float64
  imports Complex_Main
begin

text \<open>
  The type float64 of Go: finite values are rational numbers, and every operation rounds its exact
  result to the nearest number with a significand of 53 bits, ties to even, with gradual
  underflow below \<open>2\<close> to the power -1022 and overflow to an infinity. Zeros have no sign (the program
  divides only by values it has tested to be positive or not zero, and by lengths). Go permits a
  compiler to fuse a multiplication with the addition that follows it; every operation is rounded
  here, as on amd64.
\<close>

section \<open>Rounding\<close>

text \<open>The number of bits of a positive integer, and the exponent of the leading bit of a positive number.\<close>

function blen :: "int \<Rightarrow> nat" where
  "blen n = (if n \<le> 0 then 0 else Suc (blen (n div 2)))"
  by auto
termination by (relation "measure nat") auto

declare blen.simps [simp del]

lemma blen_bounds: "0 < n \<Longrightarrow> 2 ^ (blen n - 1) \<le> n \<and> n < 2 ^ blen n \<and> 0 < blen n"
proof (induction n rule: blen.induct)
  case (1 n)
  show ?case
  proof (cases "n div 2 \<le> 0")
    case True
    with "1.prems" have "n = 1" by simp
    then show ?thesis by (simp add: blen.simps)
  next
    case False
    with "1.prems" "1.IH" have IH: "2 ^ (blen (n div 2) - 1) \<le> n div 2" "n div 2 < 2 ^ blen (n div 2)" "0 < blen (n div 2)"
      by simp_all
    then obtain k where k: "blen (n div 2) = Suc k" using gr0_implies_Suc by blast
    have "blen n = Suc (Suc k)" using "1.prems" k by (simp add: blen.simps [of n])
    moreover have "2 * (n div 2) \<le> n" "n < 2 * (n div 2) + 2" by presburger+
    ultimately show ?thesis using IH(1,2) unfolding k by simp
  qed
qed

definition lead :: "rat \<Rightarrow> int" where
  "lead x = (case quotient_of x of (p, q) \<Rightarrow>
     let d = int (blen p) - int (blen q) in if 2 powi d \<le> x then d else d - 1)"

definition half_even :: "rat \<Rightarrow> int" where
  "half_even x = (let f = \<lfloor>x\<rfloor>; r = x - of_int f in
     if r < 1 / 2 then f else if 1 / 2 < r then f + 1 else if even f then f else f + 1)"

text \<open>The weight of the last bit of the significand.\<close>

definition ulp_exp :: "rat \<Rightarrow> int" where
  "ulp_exp x = max (lead \<bar>x\<bar> - 52) (- 1074)"

definition rnd :: "rat \<Rightarrow> rat" where
  "rnd x = (if x = 0 then 0 else of_int (half_even (x / 2 powi ulp_exp x)) * 2 powi ulp_exp x)"

lemma powi_le_exp: "(2 :: rat) powi m \<le> 2 powi n \<Longrightarrow> m \<le> n"
  using power_int_strict_increasing [of n m "2 :: rat"] by (cases "m \<le> n") simp_all

lemma lead_bounds:
  assumes "0 < x"
  shows "2 powi lead x \<le> x" and "x < 2 powi (lead x + 1)"
proof -
  obtain p q where pq: "quotient_of x = (p, q)" by (cases "quotient_of x")
  have q: "0 < q" and x: "x = of_int p / of_int q"
    using quotient_of_denom_pos [OF pq] quotient_of_div [OF pq] by simp_all
  have p: "0 < p" using assms q x by (simp add: zero_less_divide_iff)
  define a b where "a = blen p - 1" and "b = blen q - 1"
  have ab: "blen p = Suc a" "blen q = Suc b" using blen_bounds [OF p] blen_bounds [OF q] by (simp_all add: a_def b_def)
  have "2 ^ a \<le> p" "p < 2 ^ (a + 1)" "2 ^ b \<le> q" "q < 2 ^ (b + 1)"
    using blen_bounds [OF p] blen_bounds [OF q] ab by simp_all
  then have r: "2 ^ a \<le> (of_int p :: rat)" "(of_int p :: rat) < 2 ^ (a + 1)"
      "2 ^ b \<le> (of_int q :: rat)" "(of_int q :: rat) < 2 ^ (b + 1)"
    unfolding of_int_le_iff [symmetric, where 'a = rat] of_int_less_iff [symmetric, where 'a = rat] by simp_all
  define d where "d = int (blen p) - int (blen q)"
  have d: "d = int a - int b" by (simp add: d_def ab)
  have pw: "(2 :: rat) powi d = 2 ^ a / 2 ^ b" by (simp add: d power_int_diff)
  have up: "x < 2 powi (d + 1)"
  proof -
    have "x < 2 ^ (a + 1) / 2 ^ b" unfolding x using r p q by (intro frac_less) simp_all
    then show ?thesis by (simp add: power_int_add pw mult.commute)
  qed
  have lo: "2 powi (d - 1) \<le> x"
  proof -
    have "2 ^ a / 2 ^ (b + 1) \<le> x" unfolding x using r p q by (intro frac_le) simp_all
    then show ?thesis by (simp add: power_int_diff pw)
  qed
  have l: "lead x = (if 2 powi d \<le> x then d else d - 1)" by (simp add: lead_def pq d_def)
  show "2 powi lead x \<le> x" using lo by (simp add: l)
  show "x < 2 powi (lead x + 1)" using up by (simp add: l)
qed

lemma lead_mono:
  assumes "0 < x" and "x \<le> y"
  shows "lead x \<le> lead y"
proof (rule ccontr)
  assume "\<not> lead x \<le> lead y"
  then have "(2 :: rat) powi (lead y + 1) \<le> 2 powi lead x" by (intro power_int_increasing) simp_all
  with lead_bounds(1) [OF assms(1)] lead_bounds(2) [of y] assms show False by simp
qed

text \<open>Rounding to an integer.\<close>

lemma half_even_of_int [simp]: "half_even (of_int n) = n"
  by (simp add: half_even_def)

lemma half_even_cases:
  "half_even x = \<lfloor>x\<rfloor> \<or> half_even x = \<lfloor>x\<rfloor> + 1"
  by (simp add: half_even_def Let_def)

lemma half_even_mono:
  assumes "x \<le> y"
  shows "half_even x \<le> half_even y"
proof (cases "\<lfloor>x\<rfloor> = \<lfloor>y\<rfloor>")
  case True
  then show ?thesis using assms by (auto simp: half_even_def Let_def)
next
  case False
  then have "\<lfloor>x\<rfloor> + 1 \<le> \<lfloor>y\<rfloor>" using floor_mono [OF assms] by simp
  with half_even_cases [of x] half_even_cases [of y] show ?thesis by auto
qed

lemma half_even_ge: "of_int n \<le> x \<Longrightarrow> n \<le> half_even x"
  using half_even_mono [of "of_int n" x] by simp

lemma half_even_le: "x \<le> of_int n \<Longrightarrow> half_even x \<le> n"
  using half_even_mono [of x "of_int n"] by simp

lemma half_even_minus: "half_even (- x) = - half_even x"
proof -
  define f r where "f = \<lfloor>x\<rfloor>" and "r = x - of_int f"
  have r: "0 \<le> r" "r < 1" using floor_correct [of x] by (simp_all add: r_def f_def)
  have x: "x = of_int f + r" by (simp add: r_def)
  have e: "half_even x = (if r < 1 / 2 then f else if 1 / 2 < r then f + 1 else if even f then f else f + 1)"
    by (simp add: half_even_def Let_def f_def r_def)
  show ?thesis
  proof (cases "r = 0")
    case True
    then have "x = of_int f" by (simp add: x)
    then show ?thesis using half_even_of_int [of "- f"] half_even_of_int [of f] by simp
  next
    case False
    have "\<lfloor>- x\<rfloor> = - f - 1" using r False by (intro floor_unique) (simp_all add: x)
    then have "half_even (- x) = (if 1 / 2 < r then - f - 1 else if r < 1 / 2 then - f
        else if even (- f - 1) then - f - 1 else - f)"
      by (simp add: half_even_def Let_def x)
    then show ?thesis by (simp add: e)
  qed
qed

lemma half_even_error: "\<bar>of_int (half_even x) - x\<bar> \<le> 1 / 2"
proof -
  have "0 \<le> x - of_int \<lfloor>x\<rfloor>" "x - of_int \<lfloor>x\<rfloor> < 1" using floor_correct [of x] by simp_all
  then show ?thesis by (auto simp: half_even_def Let_def abs_le_iff)
qed

section \<open>Laws of rounding\<close>

lemma rnd_0 [simp]: "rnd 0 = 0"
  by (simp add: rnd_def)

lemma rnd_minus: "rnd (- x) = - rnd x"
  by (simp add: rnd_def ulp_exp_def half_even_minus)

lemma rnd_nonneg:
  assumes "0 \<le> x"
  shows "0 \<le> rnd x"
proof -
  have "0 \<le> x / 2 powi ulp_exp x" using assms by simp
  then have "0 \<le> half_even (x / 2 powi ulp_exp x)" using half_even_ge [of 0] by simp
  then show ?thesis by (simp add: rnd_def)
qed

text \<open>A value with at most 53 significant bits above the smallest exponent is its own rounding.\<close>

definition representable :: "rat \<Rightarrow> bool" where
  "representable x \<longleftrightarrow> (\<exists>m e. x = of_int m * 2 powi e \<and> \<bar>m\<bar> \<le> 2 ^ 53 \<and> - 1074 \<le> e)"

lemma powi_nat: "0 \<le> d \<Longrightarrow> (2 :: rat) powi d = of_int (2 ^ nat d)"
  by (simp add: power_int_def)

lemma rnd_representable:
  assumes "representable x"
  shows "rnd x = x"
proof (cases "x = 0")
  case False
  obtain m e where x: "x = of_int m * 2 powi e" and m: "\<bar>m\<bar> \<le> 2 ^ 53" and e: "- 1074 \<le> e"
    using assms by (auto simp: representable_def)
  define k where "k = ulp_exp x"
  have "\<exists>n. x / 2 powi k = of_int n"
  proof (cases "k \<le> e")
    case True
    have "x / 2 powi k = of_int m * 2 powi (e - k)" by (simp add: x power_int_diff)
    also have "\<dots> = of_int (m * 2 ^ nat (e - k))" using True powi_nat [of "e - k"] by simp
    finally show ?thesis by blast
  next
    case k: False
    have ax: "0 < \<bar>x\<bar>" using False by simp
    have lead: "k = lead \<bar>x\<bar> - 52" using k e by (auto simp: k_def ulp_exp_def max_def split: if_splits)
    have "\<bar>x\<bar> = of_int \<bar>m\<bar> * 2 powi e" by (simp add: x abs_mult)
    also have "\<dots> \<le> of_int (2 ^ 53) * 2 powi e" using m by (intro mult_right_mono) (simp_all only: of_int_le_iff, simp)
    also have "\<dots> = 2 powi (e + 53)" by (simp add: power_int_add)
    finally have up: "\<bar>x\<bar> \<le> 2 powi (e + 53)" .
    have "(2 :: rat) powi lead \<bar>x\<bar> \<le> 2 powi (e + 53)" using lead_bounds(1) [OF ax] up by simp
    then have "lead \<bar>x\<bar> \<le> e + 53" by (rule powi_le_exp)
    with k lead have l: "lead \<bar>x\<bar> = e + 53" "k = e + 1" by simp_all
    then have "\<bar>x\<bar> = 2 powi (e + 53)" using up lead_bounds(1) [OF ax] by simp
    then have "\<bar>x\<bar> = 2 ^ 52 * 2 powi k" by (simp add: l(2) power_int_add)
    then have "x = 2 ^ 52 * 2 powi k \<or> x = - (2 ^ 52 * 2 powi k)" by (simp add: abs_if split: if_splits)
    then have "x / 2 powi k = of_int (2 ^ 52) \<or> x / 2 powi k = of_int (- (2 ^ 52))" by auto
    then show ?thesis by blast
  qed
  then obtain n where n: "x / 2 powi k = of_int n" by blast
  then have "of_int n * 2 powi k = x" by (simp add: field_simps)
  then show ?thesis using False by (simp add: rnd_def k_def [symmetric] n)
qed simp

lemma representable_of_int: "\<bar>n\<bar> \<le> 2 ^ 53 \<Longrightarrow> representable (of_int n)"
  unfolding representable_def by (intro exI [of _ n] exI [of _ 0]) simp

lemma rnd_of_int: "\<bar>n\<bar> \<le> 2 ^ 53 \<Longrightarrow> rnd (of_int n) = of_int n"
  by (intro rnd_representable representable_of_int)

text \<open>Rounding keeps the order, within a binade and across binades.\<close>

lemma rnd_mono_pos:
  assumes x: "0 < x" and xy: "x \<le> y"
  shows "rnd x \<le> rnd y"
proof -
  define j k where "j = ulp_exp x" and "k = ulp_exp y"
  have y: "0 < y" using x xy by simp
  have jk: "j \<le> k" using lead_mono [OF x xy] x y by (simp add: j_def k_def ulp_exp_def max_def)
  have rx: "rnd x = of_int (half_even (x / 2 powi j)) * 2 powi j" using x by (simp add: rnd_def j_def)
  have ry: "rnd y = of_int (half_even (y / 2 powi k)) * 2 powi k" using y by (simp add: rnd_def k_def)
  show ?thesis
  proof (cases "j = k")
    case True
    have "x / 2 powi k \<le> y / 2 powi k" using xy by (simp add: divide_right_mono)
    then show ?thesis unfolding rx ry True by (intro mult_right_mono) (simp_all add: half_even_mono)
  next
    case False
    then have j1: "j + 1 \<le> k" using jk by simp
    have lx: "lead x \<le> j + 52" using x by (simp add: j_def ulp_exp_def)
    have ly: "k + 52 = lead y" using j1 y x by (auto simp: j_def k_def ulp_exp_def max_def split: if_splits)
    have "x < 2 powi (lead x + 1)" by (rule lead_bounds(2) [OF x])
    also have "\<dots> \<le> 2 powi (j + 53)" using lx by (intro power_int_increasing) simp_all
    finally have "x / 2 powi j \<le> of_int (2 ^ 53)" by (simp add: power_int_add field_simps)
    then have hx: "half_even (x / 2 powi j) \<le> 2 ^ 53" by (rule half_even_le)
    have "2 powi (k + 52) \<le> y" using lead_bounds(1) [OF y] ly by simp
    then have "of_int (2 ^ 52) \<le> y / 2 powi k" by (simp add: power_int_add field_simps)
    then have hy: "2 ^ 52 \<le> half_even (y / 2 powi k)" by (rule half_even_ge)
    have "rnd x \<le> of_int (2 ^ 53) * 2 powi j"
      unfolding rx using hx by (intro mult_right_mono) (simp_all only: of_int_le_iff, simp)
    also have "\<dots> = 2 ^ 52 * 2 powi (j + 1)" by (simp add: power_int_add)
    also have "\<dots> \<le> 2 ^ 52 * 2 powi k" using j1 by (intro mult_left_mono power_int_increasing) simp_all
    also have "\<dots> = of_int (2 ^ 52) * 2 powi k" by simp
    also have "\<dots> \<le> rnd y"
      unfolding ry using hy by (intro mult_right_mono) (simp_all only: of_int_le_iff, simp)
    finally show ?thesis .
  qed
qed

lemma rnd_mono:
  assumes "x \<le> y"
  shows "rnd x \<le> rnd y"
proof (cases "0 < x")
  case True
  then show ?thesis using assms by (rule rnd_mono_pos)
next
  case x: False
  show ?thesis
  proof (cases "0 < - y")
    case True
    then have "rnd (- y) \<le> rnd (- x)" using assms by (intro rnd_mono_pos) simp_all
    then show ?thesis by (simp add: rnd_minus)
  next
    case False
    have "rnd x \<le> 0" using rnd_nonneg [of "- x"] x by (simp add: rnd_minus)
    also have "0 \<le> rnd y" using False by (intro rnd_nonneg) simp
    finally show ?thesis .
  qed
qed

lemma rnd_le: "x \<le> y \<Longrightarrow> representable y \<Longrightarrow> rnd x \<le> y"
  using rnd_mono [of x y] by (simp add: rnd_representable)

lemma rnd_ge: "y \<le> x \<Longrightarrow> representable y \<Longrightarrow> y \<le> rnd x"
  using rnd_mono [of y x] by (simp add: rnd_representable)

text \<open>The result of a rounding is representable.\<close>

lemma representable_0 [simp]: "representable 0"
  using representable_of_int [of 0] by simp

lemma representable_minus [simp]: "representable (- x) \<longleftrightarrow> representable x"
proof -
  have "representable (- x)" if rx: "representable x" for x
  proof -
    obtain m e where "x = of_int m * 2 powi e" "\<bar>m\<bar> \<le> 2 ^ 53" "- 1074 \<le> e"
      using rx unfolding representable_def by blast
    then show ?thesis unfolding representable_def by (intro exI [of _ "- m"] exI [of _ e]) simp
  qed
  from this [of x] this [of "- x"] show ?thesis by auto
qed

lemma representable_rnd: "representable (rnd x)"
proof (cases "x = 0")
  case False
  define k where "k = ulp_exp x"
  have ax: "0 < \<bar>x\<bar>" using False by simp
  have "\<bar>x\<bar> < 2 powi (lead \<bar>x\<bar> + 1)" by (rule lead_bounds(2) [OF ax])
  also have "\<dots> \<le> 2 powi (k + 53)" by (intro power_int_increasing) (simp_all add: k_def ulp_exp_def)
  finally have "\<bar>x\<bar> < 2 ^ 53 * 2 powi k" by (simp add: power_int_add)
  then have b: "x / 2 powi k \<le> of_int (2 ^ 53)" "of_int (- (2 ^ 53)) \<le> x / 2 powi k"
    by (simp_all add: field_simps)
  have "\<bar>half_even (x / 2 powi k)\<bar> \<le> 2 ^ 53"
    using half_even_le [OF b(1)] half_even_ge [OF b(2)] by simp
  then show ?thesis using False unfolding representable_def
    by (intro exI [of _ "half_even (x / 2 powi k)"] exI [of _ k]) (simp add: rnd_def k_def ulp_exp_def)
qed simp

section \<open>Values and operations\<close>

datatype f64 = Fin rat | PInf | NInf | NaN

text \<open>Rounding with overflow.\<close>

definition norm64 :: "rat \<Rightarrow> f64" where
  "norm64 x = (let r = rnd x in if 2 ^ 1024 \<le> r then PInf else if r \<le> - (2 ^ 1024) then NInf else Fin r)"

fun fneg :: "f64 \<Rightarrow> f64" where
  "fneg (Fin a) = Fin (- a)"
| "fneg PInf = NInf"
| "fneg NInf = PInf"
| "fneg NaN = NaN"

fun fadd :: "f64 \<Rightarrow> f64 \<Rightarrow> f64" where
  "fadd (Fin a) (Fin b) = norm64 (a + b)"
| "fadd NaN y = NaN"
| "fadd x NaN = NaN"
| "fadd PInf NInf = NaN"
| "fadd NInf PInf = NaN"
| "fadd PInf y = PInf"
| "fadd NInf y = NInf"
| "fadd x y = y"

definition fsub :: "f64 \<Rightarrow> f64 \<Rightarrow> f64" where
  "fsub x y = fadd x (fneg y)"

definition inf_of_sign :: "rat \<Rightarrow> f64" where
  "inf_of_sign s = (if s = 0 then NaN else if 0 < s then PInf else NInf)"

text \<open>The sign of a value, with 0 for a zero.\<close>

fun sign_of :: "f64 \<Rightarrow> rat" where
  "sign_of (Fin a) = sgn a"
| "sign_of PInf = 1"
| "sign_of NInf = - 1"
| "sign_of NaN = 0"

fun fmul :: "f64 \<Rightarrow> f64 \<Rightarrow> f64" where
  "fmul (Fin a) (Fin b) = norm64 (a * b)"
| "fmul NaN y = NaN"
| "fmul x NaN = NaN"
| "fmul x y = inf_of_sign (sign_of x * sign_of y)"

fun fdiv :: "f64 \<Rightarrow> f64 \<Rightarrow> f64" where
  "fdiv (Fin a) (Fin b) = (if b = 0 then inf_of_sign a else norm64 (a / b))"
| "fdiv NaN y = NaN"
| "fdiv x NaN = NaN"
| "fdiv (Fin a) y = Fin 0"
| "fdiv x (Fin b) = (if b < 0 then fneg x else x)"
| "fdiv x y = NaN"

text \<open>\<open><\<close>, \<open><=\<close> and \<open>==\<close> of the language: false on NaN.\<close>

fun flt :: "f64 \<Rightarrow> f64 \<Rightarrow> bool" where
  "flt (Fin a) (Fin b) = (a < b)"
| "flt NaN y = False"
| "flt x NaN = False"
| "flt PInf y = False"
| "flt x NInf = False"
| "flt x y = True"

definition feq :: "f64 \<Rightarrow> f64 \<Rightarrow> bool" where
  "feq x y = (x = y \<and> x \<noteq> NaN)"

definition fle :: "f64 \<Rightarrow> f64 \<Rightarrow> bool" where
  "fle x y = (flt x y \<or> feq x y)"

definition fabs :: "f64 \<Rightarrow> f64" where
  "fabs x = (case x of Fin a \<Rightarrow> Fin \<bar>a\<bar> | NInf \<Rightarrow> PInf | y \<Rightarrow> y)" \<comment> \<open>\<open>math.Abs\<close>\<close>

definition fmax :: "f64 \<Rightarrow> f64 \<Rightarrow> f64" where
  "fmax x y = (if x = PInf \<or> y = PInf then PInf else if x = NaN \<or> y = NaN then NaN
     else if flt y x then x else y)" \<comment> \<open>\<open>math.Max\<close>\<close>

definition f_of_int :: "int \<Rightarrow> f64" where
  "f_of_int n = norm64 (of_int n)"

text \<open>
  \<open>int(x)\<close> truncates; for what does not fit an int the language leaves the result to the
  implementation, and amd64 gives the smallest one.
\<close>

definition int_of_f :: "f64 \<Rightarrow> int" where
  "int_of_f x = (case x of
       Fin a \<Rightarrow> (let n = (if 0 \<le> a then \<lfloor>a\<rfloor> else \<lceil>a\<rceil>) in if - (2 ^ 63) \<le> n \<and> n < 2 ^ 63 then n else - (2 ^ 63))
     | _ \<Rightarrow> - (2 ^ 63))"

text \<open>A constant of the program.\<close>

definition lit :: "rat \<Rightarrow> f64" where
  "lit r = norm64 r"

text \<open>\<open>math.Sqrt\<close> rounds the square root correctly.\<close>

function isqrt :: "int \<Rightarrow> int" where
  "isqrt n = (if n \<le> 0 then 0 else let r = 2 * isqrt (n div 4) in if (r + 1) ^ 2 \<le> n then r + 1 else r)"
  by auto
termination by (relation "measure nat") auto

declare isqrt.simps [simp del]

definition sqrt_rat :: "rat \<Rightarrow> rat" where
  "sqrt_rat x = (if x \<le> 0 then 0 else
     let k = lead x div 2 - 52; y = x / (2 powi k) ^ 2; n = isqrt \<lfloor>y\<rfloor> in
     of_int (if (of_int n + 1 / 2) ^ 2 < y then n + 1 else n) * 2 powi k)"

definition fsqrt :: "f64 \<Rightarrow> f64" where
  "fsqrt x = (case x of Fin a \<Rightarrow> if a < 0 then NaN else Fin (sqrt_rat a) | PInf \<Rightarrow> PInf | _ \<Rightarrow> NaN)"

subsection \<open>The order of \<open>sort.Float64s\<close>\<close>

text \<open>NaN comes first; sorting is the library's on this order.\<close>

fun rank64 :: "f64 \<Rightarrow> nat \<times> rat" where
  "rank64 NaN = (0, 0)"
| "rank64 NInf = (1, 0)"
| "rank64 (Fin a) = (2, a)"
| "rank64 PInf = (3, 0)"

lemma rank64_inject: "rank64 x = rank64 y \<longleftrightarrow> x = y"
  by (cases x; cases y) simp_all

instantiation f64 :: linorder
begin

definition less_eq_f64 :: "f64 \<Rightarrow> f64 \<Rightarrow> bool" where
  "x \<le> y \<longleftrightarrow> fst (rank64 x) < fst (rank64 y) \<or> fst (rank64 x) = fst (rank64 y) \<and> snd (rank64 x) \<le> snd (rank64 y)"

definition less_f64 :: "f64 \<Rightarrow> f64 \<Rightarrow> bool" where
  "x < y \<longleftrightarrow> x \<le> y \<and> x \<noteq> (y :: f64)"

instance
proof
  fix x y z :: f64
  show "x < y \<longleftrightarrow> x \<le> y \<and> \<not> y \<le> x" "x \<le> x" "x \<le> y \<or> y \<le> x"
    by (auto simp: less_f64_def less_eq_f64_def prod_eq_iff simp flip: rank64_inject)
  show "x \<le> y \<Longrightarrow> y \<le> z \<Longrightarrow> x \<le> z" "x \<le> y \<Longrightarrow> y \<le> x \<Longrightarrow> x = y"
    by (auto simp: less_eq_f64_def prod_eq_iff simp flip: rank64_inject)
qed

end

lemma le_f64_Fin [simp]: "Fin a \<le> Fin b \<longleftrightarrow> a \<le> b"
  by (simp add: less_eq_f64_def)

section \<open>Finite results\<close>

lemma representable_pow2: "representable (2 ^ k)"
  unfolding representable_def by (intro exI [of _ 1] exI [of _ "int k"]) simp

lemma representable_half_pow: "k \<le> 1074 \<Longrightarrow> representable (1 / 2 ^ k)"
  unfolding representable_def by (intro exI [of _ 1] exI [of _ "- int k"]) (simp add: power_int_minus_divide)

lemma representable_dyadic: "\<bar>n\<bar> \<le> 2 ^ 53 \<Longrightarrow> k \<le> 1074 \<Longrightarrow> representable (of_int n / 2 ^ k)"
  unfolding representable_def by (intro exI [of _ n] exI [of _ "- int k"]) (simp add: power_int_minus_divide)

lemma rnd_abs_le: "\<bar>x\<bar> \<le> 2 ^ k \<Longrightarrow> \<bar>rnd x\<bar> \<le> 2 ^ k"
  using rnd_le [of x "2 ^ k"] rnd_ge [of "- (2 ^ k)" x] representable_pow2 [of k]
  by (simp add: abs_le_iff)

lemma norm64_fin: "\<bar>x\<bar> \<le> 2 ^ 1023 \<Longrightarrow> norm64 x = Fin (rnd x)"
proof -
  assume "\<bar>x\<bar> \<le> 2 ^ 1023"
  then have "\<bar>rnd x\<bar> \<le> 2 ^ 1023" by (rule rnd_abs_le)
  moreover have "(2 :: rat) ^ 1023 < 2 ^ 1024" by (rule power_strict_increasing) simp_all
  ultimately have "rnd x < 2 ^ 1024" "- (2 ^ 1024) < rnd x" by linarith+
  then show ?thesis by (simp add: norm64_def not_le Let_def del: power_numeral)
qed

lemma norm64_bounded:
  assumes "\<bar>x\<bar> \<le> 2 ^ k" and "k \<le> 1023"
  shows "norm64 x = Fin (rnd x)"
proof -
  have "(2 :: rat) ^ k \<le> 2 ^ 1023" using assms(2) by (rule power_increasing) simp
  with assms(1) show ?thesis by (intro norm64_fin) simp
qed

lemma norm64_0 [simp]: "norm64 0 = Fin 0"
  using norm64_bounded [of 0 0] by simp

lemma norm64_exact: "representable x \<Longrightarrow> \<bar>x\<bar> \<le> 2 ^ k \<Longrightarrow> k \<le> 1023 \<Longrightarrow> norm64 x = Fin x"
  by (simp add: norm64_bounded rnd_representable)

lemma norm64_of_int: "\<bar>n\<bar> \<le> 2 ^ 53 \<Longrightarrow> norm64 (of_int n) = Fin (of_int n)"
proof -
  assume n: "\<bar>n\<bar> \<le> 2 ^ 53"
  then have "\<bar>of_int n :: rat\<bar> \<le> of_int (2 ^ 53)" unfolding of_int_abs [symmetric] of_int_le_iff .
  then show ?thesis using n by (intro norm64_exact [of _ 53] representable_of_int) simp_all
qed

lemma f_of_int_exact: "\<bar>n\<bar> \<le> 2 ^ 53 \<Longrightarrow> f_of_int n = Fin (of_int n)"
  by (simp add: f_of_int_def norm64_of_int del: of_int_numeral)

lemma lit_int: "\<bar>n\<bar> \<le> 2 ^ 53 \<Longrightarrow> lit (of_int n) = Fin (of_int n)"
  by (simp add: lit_def norm64_of_int)

lemma lit_dyadic: "\<bar>n\<bar> \<le> 2 ^ 53 \<Longrightarrow> k \<le> 1074 \<Longrightarrow> lit (of_int n / 2 ^ k) = Fin (of_int n / 2 ^ k)"
proof -
  assume n: "\<bar>n\<bar> \<le> 2 ^ 53" and k: "k \<le> 1074"
  have "\<bar>of_int n / 2 ^ k :: rat\<bar> \<le> \<bar>of_int n\<bar>" by (simp add: abs_divide divide_le_eq mult_le_cancel_left1)
  also have "\<dots> \<le> of_int (2 ^ 53)" using n unfolding of_int_abs [symmetric] of_int_le_iff .
  finally show ?thesis using n k unfolding lit_def by (intro norm64_exact [of _ 53] representable_dyadic) simp_all
qed

text \<open>Differences and comparisons of finite values.\<close>

lemma fsub_Fin: "fsub (Fin a) (Fin b) = norm64 (a - b)"
  by (simp add: fsub_def)

lemma fle_Fin [simp]: "fle (Fin a) (Fin b) \<longleftrightarrow> a \<le> b"
  by (auto simp: fle_def feq_def)

lemma feq_Fin [simp]: "feq (Fin a) (Fin b) \<longleftrightarrow> a = b"
  by (simp add: feq_def)

lemma rnd_pos: "1 / 2 ^ k \<le> x \<Longrightarrow> k \<le> 1074 \<Longrightarrow> 1 / 2 ^ k \<le> rnd x"
  by (rule rnd_ge [OF _ representable_half_pow])

text \<open>A rounding is checked by its distance to the rounded value.\<close>

lemma rnd_nearest:
  assumes "2 ^ 52 \<le> m" and "m < 2 ^ 53" and "- 1074 \<le> k" and "\<bar>x - of_int m * 2 powi k\<bar> < 2 powi k / 2"
    and "2 ^ 52 * 2 powi k \<le> x"
  shows "rnd x = of_int m * 2 powi k"
proof -
  have p: "0 < (2 :: rat) powi k" by simp
  have x: "0 < x" by (rule less_le_trans [OF _ assms(5)]) simp
  have "of_int m \<le> (of_int (2 ^ 53 - 1) :: rat)" using assms(2) unfolding of_int_le_iff by simp
  then have "of_int m * 2 powi k \<le> (of_int (2 ^ 53 - 1) :: rat) * 2 powi k" by (intro mult_right_mono) simp_all
  moreover have "x < of_int m * 2 powi k + 2 powi k / 2" using assms(4) by linarith
  moreover have "(of_int (2 ^ 53 - 1) + 1) * 2 powi k = of_int (2 ^ 53 - 1) * (2 :: rat) powi k + 2 powi k"
    by (simp add: distrib_right)
  ultimately have "x < (of_int (2 ^ 53 - 1) + 1) * 2 powi k" using p by linarith
  then have up: "x < 2 powi (k + 53)" by (simp add: power_int_add)
  have lo: "2 powi (k + 52) \<le> x" using assms(5) by (simp add: power_int_add)
  have "k + 52 < lead x + 1"
    using lo lead_bounds(2) [OF x] power_int_increasing [of "lead x + 1" "k + 52" "2 :: rat"] by (cases "k + 52 < lead x + 1") simp_all
  moreover have "lead x < k + 53"
    using up lead_bounds(1) [OF x] power_int_increasing [of "k + 53" "lead x" "2 :: rat"] by (cases "lead x < k + 53") simp_all
  ultimately have l: "lead x = k + 52" by simp
  then have e: "ulp_exp x = k" using assms(3) x by (simp add: ulp_exp_def)
  have "\<bar>x / 2 powi k - of_int m\<bar> < 1 / 2"
  proof -
    have "x / 2 powi k - of_int m = (x - of_int m * 2 powi k) / 2 powi k" using p by (simp add: field_simps)
    then show ?thesis using assms(4) p by (simp add: abs_divide field_simps)
  qed
  then have "\<bar>of_int (half_even (x / 2 powi k)) - of_int m :: rat\<bar> < 1"
    using half_even_error [of "x / 2 powi k"] by linarith
  then have "\<bar>half_even (x / 2 powi k) - m\<bar> < 1"
    unfolding of_int_diff [symmetric] of_int_abs [symmetric] by (simp only: of_int_less_1_iff)
  then have "half_even (x / 2 powi k) = m" by simp
  then show ?thesis using x by (simp add: rnd_def e)
qed

end
