(* ===== verification/Puf_Stats.thy ===== *)
theory Puf_Stats
  imports Float64 Puf_Ring
begin

text \<open>
  The statistics of a measurement: \<open>types.go\<close> and the summaries of \<open>fingerprint.go\<close> in internal/puf,
  \<open>grandMedian\<close> and \<open>percentile\<close> of quantize.go. A matrix holds the samples by core, loop and trial;
  an index out of range panics in Go, so what reads a matrix is an option, \<open>None\<close> for the panic.
\<close>

record matrix =
  mx_NumCores :: nat
  mx_NumLoops :: nat
  mx_NumTrials :: nat
  mx_Samples :: "puf_sample list list list"
  mx_DurationNs :: i64

record core_stats =
  cs_Core :: int
  cs_Loop :: loop_kind
  cs_Median :: f64
  cs_MAD :: f64
  cs_CV :: f64
  cs_Min :: f64
  cs_Max :: f64
  cs_NumSamples :: int

record puf_stats =
  st_PerCoreLoop :: "core_stats list"
  st_NumCores :: int
  st_NumLoops :: int
  st_NumTrials :: int
  st_Arch :: bytes
  st_DurationMs :: f64

record baseline =
  bl_PerCoreLoop :: "core_stats list"
  bl_NumCores :: int
  bl_NumLoops :: int
  bl_NumTrials :: int
  bl_Arch :: bytes
  bl_CreatedAt :: int

definition ItersPerSec :: "puf_sample \<Rightarrow> f64" where
  "ItersPerSec s = (if ps_ElapsedNs s = 0 then Fin 0
     else fdiv (fmul (f_of_int (uint (ps_Iterations s))) (lit (10 ^ 9))) (f_of_int (uint (ps_ElapsedNs s))))"

definition medianMAD :: "f64 list \<Rightarrow> f64 \<times> f64" where
  "medianMAD xs = (if xs = [] then (Fin 0, Fin 0) else
     let cp = sort xs;
         median = cp ! (length cp div 2);
         dev = map (\<lambda>v. let d = fsub v median in if flt d (Fin 0) then fneg d else d) cp;
         dev = sort dev
     in (median, dev ! (length dev div 2)))"

text \<open>Welford's loop: \<open>i\<close>, the mean and the sum of squares.\<close>

fun welford :: "nat \<Rightarrow> f64 \<Rightarrow> f64 \<Rightarrow> f64 list \<Rightarrow> f64 \<times> f64" where
  "welford i mean m2 [] = (mean, m2)"
| "welford i mean m2 (x # xs) =
     (let delta = fsub x mean;
          mean' = fadd mean (fdiv delta (f_of_int (int i + 1)))
      in welford (i + 1) mean' (fadd m2 (fmul delta (fsub x mean'))) xs)"

definition cvOf :: "f64 list \<Rightarrow> f64" where
  "cvOf xs = (if length xs < 2 then Fin 0 else
     case welford 0 (Fin 0) (Fin 0) xs of (mean, m2) \<Rightarrow>
       if feq mean (Fin 0) then Fin 0 else
       let variance = fdiv m2 (f_of_int (int (length xs) - 1));
           variance = (if flt variance (Fin 0) then Fin 0 else variance)
       in fdiv (fsqrt variance) mean)"

fun min_max_loop :: "f64 \<Rightarrow> f64 \<Rightarrow> f64 list \<Rightarrow> f64 \<times> f64" where
  "min_max_loop mn mx [] = (mn, mx)"
| "min_max_loop mn mx (x # xs) =
     min_max_loop (if flt x mn then x else mn) (if flt mx x then x else mx) xs"

definition minMax :: "f64 list \<Rightarrow> f64 \<times> f64" where
  "minMax xs = (case xs of [] \<Rightarrow> (Fin 0, Fin 0) | x # rest \<Rightarrow> min_max_loop x x rest)"

definition grandMedian :: "f64 list \<Rightarrow> f64" where
  "grandMedian xs = (if xs = [] then Fin 0 else sort xs ! (length xs div 2))"

definition percentile :: "f64 list \<Rightarrow> f64 \<Rightarrow> f64" where
  "percentile xs p = (if xs = [] then Fin 0 else
     let cp = sort xs in
     if fle p (Fin 0) then cp ! 0
     else if fle (Fin 1) p then cp ! (length cp - 1)
     else cp ! nat (int_of_f (fmul p (f_of_int (int (length cp) - 1)))))"

section \<open>Summaries of a matrix\<close>

definition cell :: "matrix \<Rightarrow> nat \<Rightarrow> nat \<Rightarrow> puf_sample list" where
  "cell m c l = mx_Samples m ! c ! l"

text \<open>Every sample that a loop over cores, loops and trials reads is there.\<close>

definition in_range :: "matrix \<Rightarrow> bool" where
  "in_range m \<longleftrightarrow> list_all (\<lambda>c. list_all (\<lambda>l. mx_NumTrials m = 0 \<or>
     c < length (mx_Samples m) \<and> l < length (mx_Samples m ! c) \<and> mx_NumTrials m \<le> length (cell m c l))
     [0..<mx_NumLoops m]) [0..<mx_NumCores m]"

text \<open>Every cell is there and has a first sample.\<close>

definition has_cells :: "matrix \<Rightarrow> bool" where
  "has_cells m \<longleftrightarrow> list_all (\<lambda>c. list_all (\<lambda>l.
     c < length (mx_Samples m) \<and> l < length (mx_Samples m ! c) \<and> cell m c l \<noteq> [])
     [0..<mx_NumLoops m]) [0..<mx_NumCores m]"

definition summarise_cell :: "puf_sample list \<Rightarrow> core_stats" where
  "summarise_cell col =
     (let rates = map ItersPerSec col; (med, mad) = medianMAD rates; (mn, mx) = minMax rates
      in \<lparr>cs_Core = sint (ps_Core (hd col)), cs_Loop = ps_Loop (hd col), cs_Median = med, cs_MAD = mad,
          cs_CV = cvOf rates, cs_Min = mn, cs_Max = mx, cs_NumSamples = int (length rates)\<rparr>)"

definition Summarise :: "bytes \<Rightarrow> matrix \<Rightarrow> puf_stats option" where
  "Summarise arch m =
     (if has_cells m
      then Some \<lparr>st_PerCoreLoop = concat (map (\<lambda>c. map (\<lambda>l. summarise_cell (cell m c l)) [0..<mx_NumLoops m]) [0..<mx_NumCores m]),
        st_NumCores = int (mx_NumCores m), st_NumLoops = int (mx_NumLoops m), st_NumTrials = int (mx_NumTrials m),
        st_Arch = arch, st_DurationMs = fdiv (f_of_int (sint (mx_DurationNs m))) (lit (10 ^ 6))\<rparr>
      else None)"

definition NewBaseline :: "bytes \<Rightarrow> int \<Rightarrow> matrix \<Rightarrow> baseline option" where
  "NewBaseline arch now m = map_option (\<lambda>stats.
     \<lparr>bl_PerCoreLoop = st_PerCoreLoop stats, bl_NumCores = int (mx_NumCores m), bl_NumLoops = int (mx_NumLoops m),
      bl_NumTrials = int (mx_NumTrials m), bl_Arch = arch, bl_CreatedAt = now\<rparr>) (Summarise arch m)"

section \<open>What the summaries are\<close>

text \<open>The median, the percentiles and the bounds are values of the sample.\<close>

lemma nth_sort_mem: "k < length xs \<Longrightarrow> sort xs ! k \<in> set (xs :: 'a :: linorder list)"
  using nth_mem [of k "sort xs"] by simp

lemma median_mem: "xs \<noteq> [] \<Longrightarrow> fst (medianMAD xs) \<in> set xs"
  by (simp add: medianMAD_def Let_def nth_sort_mem)

lemma grandMedian_mem: "xs \<noteq> [] \<Longrightarrow> grandMedian xs \<in> set xs"
  by (simp add: grandMedian_def nth_sort_mem)

lemma min_max_loop_bounds:
  assumes "\<forall>x \<in> set xs. x \<noteq> NaN" and "mn \<noteq> NaN" and "mx \<noteq> NaN"
  shows "let (a, b) = min_max_loop mn mx xs in a \<in> insert mn (set xs) \<and> b \<in> insert mx (set xs) \<and>
    a \<le> mn \<and> mx \<le> b \<and> (\<forall>x \<in> set xs. a \<le> x \<and> x \<le> b)"
  using assms
proof (induction xs arbitrary: mn mx)
  case (Cons x xs)
  have lt: "flt x y \<longleftrightarrow> x < y" if "x \<noteq> NaN" "y \<noteq> NaN" for x y
    using that by (cases x; cases y) (auto simp: less_f64_def less_eq_f64_def)
  let ?mn = "if flt x mn then x else mn" and ?mx = "if flt mx x then x else mx"
  have n: "?mn \<noteq> NaN" "?mx \<noteq> NaN" "x \<noteq> NaN" using Cons.prems by auto
  have o: "?mn \<le> mn" "?mn \<le> x" "mx \<le> ?mx" "x \<le> ?mx" using Cons.prems lt by (auto simp: not_less)
  obtain a b where ab: "min_max_loop ?mn ?mx xs = (a, b)" by (cases "min_max_loop ?mn ?mx xs")
  have "a \<in> insert ?mn (set xs)" "b \<in> insert ?mx (set xs)" "a \<le> ?mn" "?mx \<le> b" "\<forall>x \<in> set xs. a \<le> x \<and> x \<le> b"
    using Cons.IH [of ?mn ?mx] Cons.prems n ab by auto
  with o show ?case by (auto simp: ab split: if_splits intro: order_trans)
qed simp

lemma minMax_bounds:
  assumes "xs \<noteq> []" and "NaN \<notin> set xs" and "x \<in> set xs"
  shows "fst (minMax xs) \<le> x \<and> x \<le> snd (minMax xs)"
proof -
  obtain y ys where xs: "xs = y # ys" using assms(1) by (cases xs) auto
  have "\<forall>x \<in> set ys. x \<noteq> NaN" "y \<noteq> NaN" using assms(2) xs by auto
  from min_max_loop_bounds [OF this(1) this(2) this(2)] assms(3) xs show ?thesis
    by (auto simp: minMax_def split: prod.splits)
qed

section \<open>Rates are finite\<close>

definition bounded_rate :: "f64 \<Rightarrow> bool" where
  "bounded_rate x \<longleftrightarrow> (\<exists>r. x = Fin r \<and> 0 \<le> r \<and> r \<le> 2 ^ 100 \<and> (r = 0 \<or> 1 / 2 ^ 40 \<le> r))"

lemma f_of_word:
  obtains r where "f_of_int (uint (w :: u64)) = Fin r" "0 \<le> r" "r \<le> 2 ^ 64" "w \<noteq> 0 \<Longrightarrow> 1 \<le> r"
proof
  let ?r = "rnd (of_int (uint w))"
  have u: "0 \<le> uint w" "uint w < 2 ^ 64" using uint_lt2p [of w] by simp_all
  then have "of_int (uint w) \<le> (of_int (2 ^ 64) :: rat)" unfolding of_int_le_iff by simp
  then have b: "of_int (uint w) \<le> (2 ^ 64 :: rat)" by simp
  have nn: "(0 :: rat) \<le> of_int (uint w)" using u(1) by (simp only: of_int_0_le_iff)
  show "f_of_int (uint w) = Fin ?r"
  proof -
    have "\<bar>of_int (uint w) :: rat\<bar> \<le> 2 ^ 64" using b nn by (simp only: abs_of_nonneg)
    then show ?thesis unfolding f_of_int_def by (rule norm64_bounded) simp
  qed
  show "0 \<le> ?r" by (rule rnd_nonneg [OF nn])
  show "?r \<le> 2 ^ 64" by (rule rnd_le [OF b representable_pow2])
  show "1 \<le> ?r" if "w \<noteq> 0"
  proof -
    have "uint w \<noteq> 0" using that by (simp add: uint_0_iff)
    then have "1 \<le> uint w" using u(1) by linarith
    then have "of_int 1 \<le> (of_int (uint w) :: rat)" unfolding of_int_le_iff .
    from rnd_ge [OF this representable_of_int] show ?thesis by simp
  qed
qed

lemma rates_bounded: "bounded_rate (ItersPerSec s)"
proof (cases "ps_ElapsedNs s = 0")
  case True
  then show ?thesis by (simp add: ItersPerSec_def bounded_rate_def)
next
  case False
  obtain e where e: "f_of_int (uint (ps_ElapsedNs s)) = Fin e" "1 \<le> e" "e \<le> 2 ^ 64"
    using f_of_word [of "ps_ElapsedNs s"] False by metis
  obtain i where i: "f_of_int (uint (ps_Iterations s)) = Fin i" "0 \<le> i" "i \<le> 2 ^ 64" "ps_Iterations s \<noteq> 0 \<Longrightarrow> 1 \<le> i"
    using f_of_word [of "ps_Iterations s"] by metis
  have l: "lit (10 ^ 9) = Fin (10 ^ 9)" using lit_int [of "10 ^ 9"] by simp
  define p where "p = i * 10 ^ 9"
  have "p \<le> 2 ^ 64 * 2 ^ 30" unfolding p_def using i by (intro mult_mono) simp_all
  then have p: "0 \<le> p" "p \<le> 2 ^ 94" using i by (simp_all add: p_def flip: power_add)
  have n: "norm64 p = Fin (rnd p)" using p by (intro norm64_bounded [of _ 94]) simp_all
  have rp: "0 \<le> rnd p" "rnd p \<le> 2 ^ 94" using p rnd_nonneg rnd_le [OF p(2) representable_pow2] by simp_all
  define q where "q = rnd p / e"
  have q: "0 \<le> q" "q \<le> 2 ^ 94" using rp e(2) mult_left_mono [of 1 e "2 ^ 94"] by (simp_all add: q_def divide_le_eq)
  have r: "ItersPerSec s = Fin (rnd q)"
    using False e i l n q unfolding ItersPerSec_def l e(1) i(1) fmul.simps p_def [symmetric] n fdiv.simps q_def [symmetric]
    by (simp add: norm64_bounded [of q 94])
  have "rnd q \<le> 2 ^ 94" by (rule rnd_le [OF q(2) representable_pow2])
  moreover have "(2 :: rat) ^ 94 \<le> 2 ^ 100" by (rule power_increasing) simp_all
  moreover have "rnd q = 0 \<or> 1 / 2 ^ 40 \<le> rnd q"
  proof (cases "ps_Iterations s = 0")
    case True
    then have "i = 0" using i(1) by (simp add: f_of_int_def)
    then show ?thesis by (simp add: q_def p_def)
  next
    case False
    then have "of_int (10 ^ 9) \<le> p" using i(4) by (simp add: p_def)
    then have "of_int (10 ^ 9) \<le> rnd p" using representable_of_int [of "10 ^ 9"] by (intro rnd_ge) simp_all
    then have "10 ^ 9 / 2 ^ 64 \<le> q" unfolding q_def using e by (intro frac_le) simp_all
    then have "1 / 2 ^ 40 \<le> q" by simp
    then show ?thesis by (intro disjI2 rnd_pos) simp_all
  qed
  ultimately show ?thesis using r rnd_nonneg [OF q(1)] by (auto simp: bounded_rate_def)
qed

text \<open>So are median and deviation; the median of a cell is never negative.\<close>

lemma medianMAD_bounded:
  assumes "xs \<noteq> []" and "\<forall>x \<in> set xs. bounded_rate x"
  obtains a d where "medianMAD xs = (Fin a, Fin d)" "0 \<le> d" "bounded_rate (Fin a)"
proof -
  obtain a where a: "fst (medianMAD xs) = Fin a" "bounded_rate (Fin a)"
    using median_mem [OF assms(1)] assms(2) by (metis bounded_rate_def)
  have m: "sort xs ! (length xs div 2) = Fin a" using a(1) assms(1) by (simp add: medianMAD_def Let_def)
  let ?dev = "map (\<lambda>v. let d = fsub v (Fin a) in if flt d (Fin 0) then fneg d else d) (sort xs)"
  have dev: "\<exists>d. x = Fin d \<and> 0 \<le> d" if "x \<in> set ?dev" for x
  proof -
    from that obtain v where v: "v \<in> set xs" "x = (let d = fsub v (Fin a) in if flt d (Fin 0) then fneg d else d)" by auto
    then obtain r where r: "v = Fin r" "0 \<le> r" "r \<le> 2 ^ 100" using assms(2) by (metis bounded_rate_def)
    have "0 \<le> a" "a \<le> 2 ^ 100" using a(2) by (auto simp: bounded_rate_def)
    then have "\<bar>r - a\<bar> \<le> 2 ^ 100" using r by (simp add: abs_le_iff)
    then have "fsub v (Fin a) = Fin (rnd (r - a))" unfolding r(1) fsub_Fin by (rule norm64_bounded) simp
    then show ?thesis by (auto simp: v(2) Let_def)
  qed
  have "sort ?dev ! (length ?dev div 2) \<in> set ?dev" using assms(1) by (intro nth_sort_mem) simp
  then obtain d where "sort ?dev ! (length ?dev div 2) = Fin d" "0 \<le> d" using dev by blast
  then have "medianMAD xs = (Fin a, Fin d)" "0 \<le> d"
    using assms(1) m by (simp_all add: medianMAD_def Let_def cong: if_cong)
  with a(2) that show ?thesis by blast
qed

end
