(* ===== verification/Quantise.thy ===== *)
theory Quantise
  imports Puf_Stats Fuzzy Hex
begin

text \<open>
  The quantisers of internal/puf (\<open>quantize.go\<close>, \<open>quantize_v2.go\<close>, \<open>quantize_v3.go\<close>): a matrix of timings
  becomes a packed vector of bits. The bits are listed in the order they are appended and packed
  by the \<open>bitBuilder\<close> of \<open>Hamming\<close>. \<open>math.Log2\<close> and \<open>math.Log10\<close>, whose last bits the library does not
  fix, and SHA3 are parameters. \<open>None\<close> is the panic on a matrix smaller than it claims.
\<close>

section \<open>Values of a cell\<close>

definition trial_rates :: "matrix \<Rightarrow> nat \<Rightarrow> nat \<Rightarrow> f64 list" where
  "trial_rates m c l = map (\<lambda>t. ItersPerSec (cell m c l ! t)) [0..<mx_NumTrials m]"

definition cell_median :: "matrix \<Rightarrow> nat \<Rightarrow> nat \<Rightarrow> f64" where
  "cell_median m c l = fst (medianMAD (trial_rates m c l))"

definition cell_cv :: "matrix \<Rightarrow> nat \<Rightarrow> nat \<Rightarrow> f64" where
  "cell_cv m c l = cvOf (trial_rates m c l)"

definition pairs_of :: "nat \<Rightarrow> (nat \<times> nat) list" where
  "pairs_of n = concat (map (\<lambda>a. map (Pair a) [a + 1..<n]) [0..<n])"

section \<open>The first quantiser\<close>

definition pair_sign_bits :: "matrix \<Rightarrow> bool list" where
  "pair_sign_bits m = concat (map (\<lambda>l. map (\<lambda>(a, b). flt (cell_median m b l) (cell_median m a l))
     (pairs_of (mx_NumCores m))) [0..<mx_NumLoops m])"

definition core_median_bits :: "matrix \<Rightarrow> bool list" where
  "core_median_bits m = concat (map (\<lambda>l.
     let gm = grandMedian (map (\<lambda>c. cell_median m c l) [0..<mx_NumCores m])
     in map (\<lambda>c. flt gm (cell_median m c l)) [0..<mx_NumCores m]) [0..<mx_NumLoops m])"

definition cv_quartile_bits :: "matrix \<Rightarrow> bool list" where
  "cv_quartile_bits m = concat (map (\<lambda>l.
     let col = map (\<lambda>c. cell_cv m c l) [0..<mx_NumCores m];
         gm = grandMedian col; p75 = percentile col (lit (3 / 4))
     in concat (map (\<lambda>c. [flt gm (cell_cv m c l), flt p75 (cell_cv m c l)]) [0..<mx_NumCores m])) [0..<mx_NumLoops m])"

definition pair_gap :: "matrix \<Rightarrow> nat \<Rightarrow> nat \<times> nat \<Rightarrow> f64" where
  "pair_gap m l ab = (case ab of (a, b) \<Rightarrow>
     let g = fsub (cell_median m a l) (cell_median m b l) in if flt g (Fin 0) then fneg g else g)"

definition pair_magnitude_bits :: "matrix \<Rightarrow> bool list" where
  "pair_magnitude_bits m = concat (map (\<lambda>l.
     let medGap = grandMedian (map (pair_gap m l) (pairs_of (mx_NumCores m)))
     in map (\<lambda>ab. flt medGap (pair_gap m l ab)) (pairs_of (mx_NumCores m))) [0..<mx_NumLoops m])"

definition v1_bits :: "matrix \<Rightarrow> bool list" where
  "v1_bits m = pair_sign_bits m @ core_median_bits m @ cv_quartile_bits m @ pair_magnitude_bits m"

text \<open>Packing: the builder, and the digest over its bytes, the length and the version.\<close>

definition build :: "bool list \<Rightarrow> bitBuilder" where
  "build bs = foldl appendBit empty_builder bs"

definition text_of :: "bytes \<Rightarrow> string" where
  "text_of b = map (\<lambda>w. char_of (unat w)) b"

definition fingerprint_of :: "hash \<Rightarrow> int \<Rightarrow> bytes \<Rightarrow> matrix \<Rightarrow> bool list \<Rightarrow> fingerprint" where
  "fingerprint_of sha3 now tag m bs =
     (let b = build bs in
      \<lparr>fp_Bits = bb_bytes b, fp_Length = int (bb_length b), fp_Cores = int (mx_NumCores m), fp_Loops = int (mx_NumLoops m),
       fp_Trials = int (mx_NumTrials m), fp_Digest = text_of (hex_encode (sha3 (bb_bytes b @ of_nat (bb_length b) # tag))),
       fp_MeasuredAt = now\<rparr>)"

definition Quantize :: "hash \<Rightarrow> int \<Rightarrow> matrix \<Rightarrow> fingerprint option" where
  "Quantize sha3 now m = (if in_range m then Some (fingerprint_of sha3 now [] m (v1_bits m)) else None)"

section \<open>Buckets and Gray codes\<close>

text \<open>The last case of every switch is the default; a comparison with NaN is false.\<close>

fun bucket_from :: "byte \<Rightarrow> f64 list \<Rightarrow> f64 \<Rightarrow> byte" where
  "bucket_from i [] z = i"
| "bucket_from i (b # bs) z = (if fle z b then i else bucket_from (i + 1) bs z)"

fun baseline_cell :: "core_stats list \<Rightarrow> int \<Rightarrow> nat \<Rightarrow> f64 \<times> f64" where
  "baseline_cell [] core loop = (Fin 0, Fin 0)"
| "baseline_cell (cs # rest) core loop =
     (if cs_Core cs = core \<and> unat (kind_code (cs_Loop cs)) = loop then (cs_Median cs, cs_MAD cs)
      else baseline_cell rest core loop)"

definition residual :: "f64 list \<Rightarrow> f64 \<Rightarrow> baseline option \<Rightarrow> nat \<Rightarrow> nat \<Rightarrow> byte" where
  "residual bounds current bl core loop = (case bl of
       None \<Rightarrow> 4
     | Some b \<Rightarrow>
         (case baseline_cell (bl_PerCoreLoop b) (int core) loop of (bMed, bMAD) \<Rightarrow>
            if feq bMed (Fin 0) then 4
            else let floor = fmul bMed (lit (2 / 1000));
                     bMAD = (if flt bMAD floor then floor else bMAD);
                     z = fdiv (fsub current bMed) bMAD
                 in bucket_from 0 bounds z))"

definition residualBucket :: "f64 \<Rightarrow> baseline option \<Rightarrow> nat \<Rightarrow> nat \<Rightarrow> byte" where
  "residualBucket = residual (map lit [- 2, - 1, - (1 / 2), 0, 1 / 2, 1, 2])"

definition residualBucketWide :: "f64 \<Rightarrow> baseline option \<Rightarrow> nat \<Rightarrow> nat \<Rightarrow> byte" where
  "residualBucketWide = residual (map lit [- 5, - 2, - (1 / 2), 0, 1 / 2, 2, 5])"

definition safeRatio :: "f64 \<Rightarrow> f64 \<Rightarrow> f64" where
  "safeRatio a b = (if feq b (Fin 0) then Fin 1 else fdiv a b)"

definition ratioBucket :: "f64 \<Rightarrow> byte" where
  "ratioBucket r = bucket_from 0 (map lit [7 / 10, 85 / 100, 95 / 100, 105 / 100, 118 / 100, 14 / 10, 17 / 10]) r"

definition crossCoreBucket :: "f64 \<Rightarrow> byte" where
  "crossCoreBucket r = bucket_from 0
     (map lit [1001 / 1000, 1003 / 1000, 1007 / 1000, 1015 / 1000, 103 / 100, 106 / 100, 112 / 100]) r"

definition magnitudeBucket :: "(f64 \<Rightarrow> f64) \<Rightarrow> f64 \<Rightarrow> byte" where
  "magnitudeBucket log2 x = (if fle x (Fin 0) then 0 else bucket_from 0 (map lit [24, 25, 26, 27, 28, 29, 30]) (log2 x))"

definition cvMagnitudeBucket :: "(f64 \<Rightarrow> f64) \<Rightarrow> f64 \<Rightarrow> byte" where
  "cvMagnitudeBucket log10 cv = (if fle cv (Fin 0) then 0
     else bucket_from 0 (map lit [- 4, - (7 / 2), - 3, - (5 / 2), - 2, - (3 / 2), - 1]) (log10 cv))"

definition gray3 :: "byte \<Rightarrow> bool list" where
  "gray3 level = (let gray = level XOR drop_bit 1 level in [gray AND 1 \<noteq> 0, gray AND 2 \<noteq> 0, gray AND 4 \<noteq> 0])"

section \<open>The second quantiser\<close>

definition residual_bits :: "matrix \<Rightarrow> baseline option \<Rightarrow> bool list" where
  "residual_bits m bl = concat (map (\<lambda>c. concat (map (\<lambda>l. gray3 (residualBucket (cell_median m c l) bl c l))
     [0..<mx_NumLoops m])) [0..<mx_NumCores m])"

definition numWindows :: nat where "numWindows = 4"

definition window_bits :: "matrix \<Rightarrow> nat \<Rightarrow> nat \<Rightarrow> bool list" where
  "window_bits m c l =
     (let rs = trial_rates m c l in
      if length rs < numWindows then replicate numWindows False
      else let win = length rs div numWindows
        in map (\<lambda>w. let lo = w * win; hi = (if w = numWindows - 1 then length rs else lo + win)
             in flt (cell_median m c l) (fst (medianMAD (take (hi - lo) (drop lo rs))))) [0..<numWindows])"

definition temporal_bits :: "matrix \<Rightarrow> bool list" where
  "temporal_bits m = concat (map (\<lambda>c. concat (map (window_bits m c) [0..<mx_NumLoops m])) [0..<mx_NumCores m])"

definition loop_ratio_bits :: "matrix \<Rightarrow> (nat \<times> nat) list \<Rightarrow> bool list" where
  "loop_ratio_bits m lps = concat (map (\<lambda>(la, lb). concat (map (\<lambda>c.
     gray3 (ratioBucket (safeRatio (cell_median m c la) (cell_median m c lb)))) [0..<mx_NumCores m])) lps)"

definition v2_bits :: "matrix \<Rightarrow> baseline option \<Rightarrow> bool list" where
  "v2_bits m bl = v1_bits m @ residual_bits m bl @ temporal_bits m @ loop_ratio_bits m [(0, 1), (0, 2), (1, 2)]"

definition QuantizeV2 :: "hash \<Rightarrow> int \<Rightarrow> matrix \<Rightarrow> baseline option \<Rightarrow> fingerprint option" where
  "QuantizeV2 sha3 now m bl =
     (if in_range m \<and> (3 \<le> mx_NumLoops m \<or> mx_NumCores m = 0)
      then Some (fingerprint_of sha3 now [2] m (v2_bits m bl)) else None)"

section \<open>The third quantiser\<close>

definition residual_wide_bits :: "matrix \<Rightarrow> baseline option \<Rightarrow> bool list" where
  "residual_wide_bits m bl = concat (map (\<lambda>c. concat (map (\<lambda>l. gray3 (residualBucketWide (cell_median m c l) bl c l))
     [0..<mx_NumLoops m])) [0..<mx_NumCores m])"

definition core_ratio_bits :: "matrix \<Rightarrow> bool list" where
  "core_ratio_bits m = concat (map (\<lambda>l. concat (map (\<lambda>(a, b).
     let x = cell_median m a l; y = cell_median m b l; (x, y) = (if flt x y then (y, x) else (x, y))
     in gray3 (crossCoreBucket (safeRatio x y))) (pairs_of (mx_NumCores m)))) [0..<mx_NumLoops m])"

definition magnitude_bits :: "(f64 \<Rightarrow> f64) \<Rightarrow> matrix \<Rightarrow> bool list" where
  "magnitude_bits log2 m = concat (map (\<lambda>c. concat (map (\<lambda>l. gray3 (magnitudeBucket log2 (cell_median m c l)))
     [0..<mx_NumLoops m])) [0..<mx_NumCores m])"

definition cv_magnitude_bits :: "(f64 \<Rightarrow> f64) \<Rightarrow> matrix \<Rightarrow> bool list" where
  "cv_magnitude_bits log10 m = concat (map (\<lambda>c. concat (map (\<lambda>l. gray3 (cvMagnitudeBucket log10 (cell_cv m c l)))
     [0..<mx_NumLoops m])) [0..<mx_NumCores m])"

definition v3_bits :: "(f64 \<Rightarrow> f64) \<Rightarrow> (f64 \<Rightarrow> f64) \<Rightarrow> matrix \<Rightarrow> baseline option \<Rightarrow> bool list" where
  "v3_bits log2 log10 m bl = residual_wide_bits m bl @ loop_ratio_bits m (pairs_of (mx_NumLoops m)) @
     core_ratio_bits m @ magnitude_bits log2 m @ cv_magnitude_bits log10 m"

definition QuantizeV3 :: "(f64 \<Rightarrow> f64) \<Rightarrow> (f64 \<Rightarrow> f64) \<Rightarrow> hash \<Rightarrow> int \<Rightarrow> matrix \<Rightarrow> baseline option \<Rightarrow> fingerprint option" where
  "QuantizeV3 log2 log10 sha3 now m bl =
     (if in_range m then Some (fingerprint_of sha3 now [3] m (v3_bits log2 log10 m bl)) else None)"

section \<open>Selection of reliable bits\<close>

definition flip_count :: "fingerprint list \<Rightarrow> nat \<Rightarrow> nat" where
  "flip_count fps b = length (filter (\<lambda>fp. bitOf (fp_Bits (hd fps)) b \<noteq> bitOf (fp_Bits fp) b) (tl fps))"

definition SelectReliableBits :: "fingerprint list \<Rightarrow> f64 \<Rightarrow> int list" where
  "SelectReliableBits fps maxBER =
     (if length fps < 2 \<or> \<not> list_all (\<lambda>fp. fp_Length fp = fp_Length (hd fps)) fps then []
      else let denom = f_of_int (int (length fps) - 1)
        in sort (map int (filter (\<lambda>b. fle (fdiv (f_of_int (int (flip_count fps b))) denom) maxBER)
             [0..<nat (fp_Length (hd fps))])))"

section \<open>Packed vectors read back\<close>

lemma builds_foldl: "builds b vs \<Longrightarrow> builds (foldl appendBit b ws) (vs @ ws)"
proof (induction ws arbitrary: b vs)
  case (Cons w ws)
  from Cons.IH [OF builds_appendBit [OF Cons.prems, of w]] show ?case by simp
qed simp

lemma builds_build: "builds (build bs) bs"
  using builds_foldl [OF builds_empty, of bs] by (simp add: build_def)

lemma fingerprint_length [simp]: "fp_Length (fingerprint_of H now tag m bs) = int (length bs)"
  using builds_build [of bs] by (simp add: fingerprint_of_def builds_def Let_def)

lemma fingerprint_bits: "bits (fp_Bits (fingerprint_of H now tag m bs)) (length bs) = bs"
  using builds_bits [OF builds_build [of bs]] by (simp add: fingerprint_of_def Let_def)

lemma fingerprint_bitOf:
  "bitOf (fp_Bits (fingerprint_of H now tag m bs)) i \<noteq> 0 \<longleftrightarrow> i < length bs \<and> bs ! i"
  using builds_build [of bs] by (simp add: fingerprint_of_def Let_def bitOf_iff builds_def)

text \<open>
  The bytes under the digest determine the bits: two vectors with the same packed bytes differ in
  length by less than eight, which the length byte shows even where it wraps.
\<close>

lemma packed_determine:
  assumes "bb_bytes (build bs) @ of_nat (bb_length (build bs)) # tag = bb_bytes (build bs') @ of_nat (bb_length (build bs')) # tag"
  shows "bs = bs'"
proof -
  let ?n = "length bs" and ?n' = "length bs'"
  have l: "bb_length (build bs) = ?n" "bb_length (build bs') = ?n'"
    and lb: "length (bb_bytes (build bs)) = (?n + 7) div 8" "length (bb_bytes (build bs')) = (?n' + 7) div 8"
    using builds_build [of bs] builds_build [of bs'] by (simp_all add: builds_def)
  have "length (bb_bytes (build bs)) = length (bb_bytes (build bs'))"
    using arg_cong [OF assms, of length] by simp
  then have same: "bb_bytes (build bs) = bb_bytes (build bs')" and w: "(of_nat ?n :: byte) = of_nat ?n'"
    and d: "(?n + 7) div 8 = (?n' + 7) div 8"
    using assms l lb by simp_all
  have "?n mod 256 = ?n' mod 256" using w by (simp add: word_of_nat_eq_iff take_bit_eq_mod)
  then have "int ?n mod 256 = int ?n' mod 256" by (metis of_nat_mod of_nat_numeral)
  then have "256 dvd int ?n - int ?n'" by (simp add: mod_eq_dvd_iff)
  then obtain k where k: "int ?n - int ?n' = 256 * k" by (rule dvdE)
  have "?n + 7 < 8 * ((?n + 7) div 8) + 8" "8 * ((?n + 7) div 8) \<le> ?n + 7"
    "?n' + 7 < 8 * ((?n' + 7) div 8) + 8" "8 * ((?n' + 7) div 8) \<le> ?n' + 7" by presburger+
  with d have "?n < ?n' + 8" "?n' < ?n + 8" by linarith+
  with k have n: "?n = ?n'" by presburger
  have "bs = bits (bb_bytes (build bs)) ?n" by (simp only: builds_bits [OF builds_build])
  also have "\<dots> = bits (bb_bytes (build bs')) ?n'" by (simp only: same n)
  also have "\<dots> = bs'" by (simp only: builds_bits [OF builds_build])
  finally show ?thesis .
qed

section \<open>Lengths\<close>

lemma length_concat_const: "(\<And>x. x \<in> set xs \<Longrightarrow> length (f x) = k) \<Longrightarrow> length (concat (map f xs)) = k * length xs"
  by (induction xs) simp_all

lemma length_gray3 [simp]: "length (gray3 x) = 3"
  by (simp add: gray3_def Let_def)

lemma length_pairs_of: "2 * length (pairs_of n) = n * (n - 1)"
proof -
  have "2 * length (concat (map (\<lambda>a. map (Pair a) [a + 1..<n]) [k..<n])) = (n - k) * (n - k - 1)" if "k \<le> n" for k
    using that
  proof (induction "n - k" arbitrary: k)
    case (Suc d)
    then have k: "k < n" "d = n - Suc k" by simp_all
    define q where "q = length (concat (map (\<lambda>a. map (Pair a) [a + 1..<n]) [Suc k..<n]))"
    have "2 * q = d * (d - 1)" using Suc.hyps(1) [of "Suc k"] k by (simp add: q_def)
    moreover have "length (concat (map (\<lambda>a. map (Pair a) [a + 1..<n]) [k..<n])) = d + q"
      unfolding upt_conv_Cons [OF k(1)] q_def by (simp add: k(2))
    moreover have "n - k = Suc d" using Suc.hyps(2) by simp
    moreover have "2 * d + d * (d - 1) = Suc d * d" by (cases d) simp_all
    ultimately show ?case by (simp only: add_mult_distrib2 diff_Suc_1)
  qed simp
  from this [of 0] show ?thesis by (simp add: pairs_of_def)
qed

lemma length_windows [simp]: "length (window_bits m c l) = 4"
  by (simp add: window_bits_def Let_def numWindows_def)

text \<open>The number of bits of each quantiser.\<close>

lemma v1_length: "length (v1_bits m) = mx_NumLoops m * (2 * length (pairs_of (mx_NumCores m)) + 3 * mx_NumCores m)"
proof -
  let ?C = "mx_NumCores m" and ?L = "mx_NumLoops m"
  have "length (pair_sign_bits m) = length (pairs_of ?C) * ?L"
    unfolding pair_sign_bits_def by (subst length_concat_const [where k = "length (pairs_of ?C)"]) simp_all
  moreover have "length (core_median_bits m) = ?C * ?L"
    unfolding core_median_bits_def by (subst length_concat_const [where k = ?C]) (simp_all add: Let_def)
  moreover have "length (cv_quartile_bits m) = 2 * ?C * ?L"
    unfolding cv_quartile_bits_def Let_def
    by (subst length_concat_const [where k = "2 * ?C"]) (simp_all add: length_concat_const [where k = 2])
  moreover have "length (pair_magnitude_bits m) = length (pairs_of ?C) * ?L"
    unfolding pair_magnitude_bits_def by (subst length_concat_const [where k = "length (pairs_of ?C)"]) (simp_all add: Let_def)
  ultimately show ?thesis by (simp add: v1_bits_def algebra_simps)
qed

lemma v3_length:
  "length (v3_bits log2 log10 m bl) =
     9 * mx_NumCores m * mx_NumLoops m + 3 * (length (pairs_of (mx_NumLoops m)) * mx_NumCores m +
       length (pairs_of (mx_NumCores m)) * mx_NumLoops m)"
proof -
  let ?C = "mx_NumCores m" and ?L = "mx_NumLoops m"
  have cells: "length (concat (map (\<lambda>c. concat (map (\<lambda>l. gray3 (f c l)) [0..<?L])) [0..<?C])) = 3 * ?L * ?C" for f
    by (subst length_concat_const [where k = "3 * ?L"]) (simp_all add: length_concat_const [where k = 3])
  have "length (loop_ratio_bits m (pairs_of ?L)) = 3 * ?C * length (pairs_of ?L)"
    unfolding loop_ratio_bits_def
    by (subst length_concat_const [where k = "3 * ?C"]) (auto simp: length_concat_const [where k = 3])
  moreover have "length (core_ratio_bits m) = 3 * length (pairs_of ?C) * ?L"
    unfolding core_ratio_bits_def Let_def
    by (subst length_concat_const [where k = "3 * length (pairs_of ?C)"])
      (auto simp: length_concat_const [where k = 3] list_all_iff split: prod.splits)
  ultimately show ?thesis
    by (simp add: v3_bits_def residual_wide_bits_def magnitude_bits_def cv_magnitude_bits_def cells algebra_simps)
qed

section \<open>Gray codes\<close>

text \<open>Neighbouring buckets differ in one bit, different buckets in at least one.\<close>

lemma gray3_table:
  "map gray3 [0, 1, 2, 3, 4, 5, 6, 7] = [[False, False, False], [True, False, False], [True, True, False], [False, True, False],
     [False, True, True], [True, True, True], [True, False, True], [False, False, True]]"
  by code_simp

end
