(* ===== verification/Enrolment.thy ===== *)
theory Enrolment
  imports Quantise
begin

text \<open>
  The enrolment of the silicon-bound key: \<open>EnrollKey\<close> and \<open>ProveKey\<close> of internal/puf/keylife.go on the
  measurements they take. What each calibration cycle meets in the outside world is a record:
  whether the context has ended, the matrix or the failure of the measurement, and whether the
  context ends during the pause. Of the key state the time and the agent's version are left out, of
  \<open>EnrollKey\<close> the message to the control plane, which repeats these values.
\<close>

record calibration_env =
  ce_ctx_ended :: "nat \<Rightarrow> bool"
  ce_measure :: "nat \<Rightarrow> matrix option"
  ce_wait_ended :: "nat \<Rightarrow> bool"

record enroll_options =
  eo_CalibrationCycles :: int
  eo_MaxBER :: f64

record key_state =
  ks_Version :: byte
  ks_Helper :: helper_data
  ks_Baseline :: baseline
  ks_DerivedPub :: bytes
  ks_CalibrationCycles :: int
  ks_MaxBER :: f64
  ks_ReliablePool :: int

datatype enroll_key_error =
    Ek_few_cycles int
  | Ek_context
  | Ek_measure nat
  | Ek_no_baseline
  | Ek_few_reliable nat
  | Ek_enroll fuzzy_error
  | Ek_derive fuzzy_error
  | Ek_panic \<comment> \<open>an index out of range in the quantiser or the summary\<close>

definition DefaultCalibrationCycles :: int where "DefaultCalibrationCycles = 40"
definition DefaultMaxBER :: f64 where "DefaultMaxBER = lit (2 / 100)"

text \<open>The options without the pause and the number of trials, which only the measurement uses.\<close>

definition with_defaults :: "enroll_options option \<Rightarrow> enroll_options" where
  "with_defaults opts = (let o' = (case opts of None \<Rightarrow> \<lparr>eo_CalibrationCycles = 0, eo_MaxBER = Fin 0\<rparr> | Some o' \<Rightarrow> o') in
     \<lparr>eo_CalibrationCycles = (if eo_CalibrationCycles o' \<le> 0 then DefaultCalibrationCycles else eo_CalibrationCycles o'),
      eo_MaxBER = (if fle (eo_MaxBER o') (Fin 0) then DefaultMaxBER else eo_MaxBER o')\<rparr>)"

text \<open>The parameters of the quantiser: the two logarithms, SHA3, the architecture and a clock.\<close>

record quant_env =
  qe_log2 :: "f64 \<Rightarrow> f64"
  qe_log10 :: "f64 \<Rightarrow> f64"
  qe_sha3 :: hash
  qe_arch :: bytes
  qe_now :: int

definition quantise3 :: "quant_env \<Rightarrow> matrix \<Rightarrow> baseline option \<Rightarrow> fingerprint option" where
  "quantise3 Q m bl = QuantizeV3 (qe_log2 Q) (qe_log10 Q) (qe_sha3 Q) (qe_now Q) m bl"

text \<open>\<open>n\<close> cycles are left, \<open>i\<close> are done; the first one is quantised without a baseline and becomes it.\<close>

fun calibration_loop :: "quant_env \<Rightarrow> calibration_env \<Rightarrow> nat \<Rightarrow> nat \<Rightarrow> baseline option \<Rightarrow> fingerprint list
    \<Rightarrow> enroll_key_error + baseline option \<times> fingerprint list" where
  "calibration_loop Q W 0 i bl fps = Inr (bl, fps)"
| "calibration_loop Q W (Suc n) i bl fps =
     guard (ce_ctx_ended W i) Ek_context
       (case ce_measure W i of
          None \<Rightarrow> Inl (Ek_measure i)
        | Some m \<Rightarrow>
            (case quantise3 Q m bl of
               None \<Rightarrow> Inl Ek_panic
             | Some fp \<Rightarrow>
                 (let bl' = (if i = 0 then NewBaseline (qe_arch Q) (qe_now Q) m else bl) in
                  guard (i = 0 \<and> bl' = None) Ek_panic
                    (guard (n \<noteq> 0 \<and> ce_wait_ended W i) Ek_context
                      (calibration_loop Q W n (i + 1) bl' (fps @ [fp]))))))"

definition EnrollKey :: "kdf \<Rightarrow> ed25519 \<Rightarrow> rng \<Rightarrow> quant_env \<Rightarrow> calibration_env \<Rightarrow> enroll_options option
    \<Rightarrow> enroll_key_error + key_state" where
  "EnrollKey F E rng Q W opts =
     (let opt = with_defaults opts in
      guard (eo_CalibrationCycles opt < 8) (Ek_few_cycles (eo_CalibrationCycles opt))
        (bind_r (calibration_loop Q W (nat (eo_CalibrationCycles opt)) 0 None []) (\<lambda>(bl, fps).
          case bl of
            None \<Rightarrow> Inl Ek_no_baseline
          | Some b \<Rightarrow>
              let indices = SelectReliableBits fps (eo_MaxBER opt) in
              guard (int (length indices) < HelperBits) (Ek_few_reliable (length indices))
                (bind_r (wrap_err Ek_enroll (Enroll F rng (qe_now Q) (hd fps) indices)) (\<lambda>(K, hd).
                  bind_r (wrap_err Ek_derive (DeriveEd25519 F E K)) (\<lambda>(priv, pub).
                    Inr \<lparr>ks_Version = FuzzyKeyVersion, ks_Helper = hd, ks_Baseline = b, ks_DerivedPub = pub,
                      ks_CalibrationCycles = eo_CalibrationCycles opt, ks_MaxBER = eo_MaxBER opt,
                      ks_ReliablePool = int (length indices)\<rparr>))))))"

text \<open>\<open>ProveKey\<close> from the fresh matrix on.\<close>

definition prove_measured :: "kdf \<Rightarrow> ed25519 \<Rightarrow> rng \<Rightarrow> quant_env \<Rightarrow> i64 \<Rightarrow> bytes \<Rightarrow> key_state \<Rightarrow> matrix \<Rightarrow> prove_error + puf_key_proof" where
  "prove_measured F E rng Q now hostID st m =
     ProveKey F E rng now hostID (Some (ks_Helper st, ks_DerivedPub st)) (quantise3 Q m (Some (ks_Baseline st)))"

section \<open>Which bits are reliable\<close>

definition agrees_everywhere :: "fingerprint list \<Rightarrow> nat \<Rightarrow> bool" where
  "agrees_everywhere fps b \<longleftrightarrow> list_all (\<lambda>fp. bitOf (fp_Bits fp) b = bitOf (fp_Bits (hd fps)) b) fps"

lemma flip_count_0: "fps \<noteq> [] \<Longrightarrow> flip_count fps b = 0 \<longleftrightarrow> agrees_everywhere fps b"
  by (cases fps) (auto simp: flip_count_def agrees_everywhere_def filter_empty_conv list_all_iff)

text \<open>A rate of one in at most 49 exceeds 2 percent after rounding, too.\<close>

lemma rate_exceeds:
  assumes "1 \<le> n" and "n \<le> 49" and "k \<le> n"
  shows "fle (fdiv (f_of_int (int k)) (f_of_int (int n))) (lit (2 / 100)) \<longleftrightarrow> k = 0"
proof -
  have f: "f_of_int (int j) = Fin (of_nat j)" if "j \<le> 49" for j
    using f_of_int_exact [of "int j"] that by simp
  have "representable (of_int 330 / 2 ^ 14)" "representable (of_int 331 / 2 ^ 14)"
    by (rule representable_dyadic; simp)+
  then have r: "representable (330 / 2 ^ 14)" "representable (331 / 2 ^ 14)" by simp_all
  have l: "lit (2 / 100) = Fin (rnd (2 / 100))" unfolding lit_def by (rule norm64_bounded [of _ 0]) simp_all
  have l0: "0 \<le> rnd (2 / 100)" by (rule rnd_nonneg) simp
  have l1: "rnd (2 / 100) \<le> 330 / 2 ^ 14" by (rule rnd_le [OF _ r(1)]) simp
  show ?thesis
  proof (cases "k = 0")
    case True
    then show ?thesis using assms l l0 f [of n] f [of 0] by simp
  next
    case False
    define q where "q = of_nat k / (of_nat n :: rat)"
    have "1 / 49 \<le> q" unfolding q_def using assms False by (intro frac_le) simp_all
    then have "331 / 2 ^ 14 \<le> q" by simp
    then have big: "331 / 2 ^ 14 \<le> rnd q" by (rule rnd_ge [OF _ r(2)])
    have "0 \<le> q" "q \<le> 1" using assms by (simp_all add: q_def divide_le_eq)
    then have "norm64 q = Fin (rnd q)" by (intro norm64_bounded [of _ 0]) simp_all
    then have "fdiv (f_of_int (int k)) (f_of_int (int n)) = Fin (rnd q)"
      using assms f [of k] f [of n] by (simp add: q_def)
    then show ?thesis using False l l1 big by simp
  qed
qed

lemma reliable_iff_stable:
  assumes "2 \<le> length fps" and "length fps \<le> 50" and "list_all (\<lambda>fp. fp_Length fp = fp_Length (hd fps)) fps"
  shows "SelectReliableBits fps DefaultMaxBER = map int (filter (agrees_everywhere fps) [0..<nat (fp_Length (hd fps))])"
proof -
  let ?n = "length fps - 1"
  have ne: "fps \<noteq> []" using assms(1) by auto
  have n: "1 \<le> ?n" "?n \<le> 49" "int (length fps) - 1 = int ?n" using assms(1,2) by auto
  have c: "flip_count fps b \<le> ?n" for b
    using length_filter_le [of _ "tl fps"] by (simp add: flip_count_def)
  have "fle (fdiv (f_of_int (int (flip_count fps b))) (f_of_int (int (length fps) - 1))) DefaultMaxBER \<longleftrightarrow>
      agrees_everywhere fps b" for b
    unfolding DefaultMaxBER_def n(3) rate_exceeds [OF n(1,2) c] by (rule flip_count_0 [OF ne])
  moreover have "sorted (map int (filter P [0..<k]))" for P k
    by (intro sorted_map_mono sorted_wrt_filter) (simp_all add: mono_on_def)
  ultimately show ?thesis using assms(1,3) by (simp add: SelectReliableBits_def Let_def sorted_sort_id)
qed

section \<open>From enrolment to proof\<close>

lemma calibration_steps:
  assumes "calibration_loop Q W n i bl fps = Inr (bl', fps')"
  shows "\<exists>new. fps' = fps @ new \<and> length new = n \<and> (i \<noteq> 0 \<longrightarrow> bl' = bl) \<and>
    (n \<noteq> 0 \<longrightarrow> (\<exists>m. ce_measure W i = Some m \<and> quantise3 Q m bl = Some (hd new) \<and>
      (i = 0 \<longrightarrow> bl' = NewBaseline (qe_arch Q) (qe_now Q) m)))"
  using assms
proof (induction n arbitrary: i bl fps)
  case (Suc n)
  obtain m fp where m: "ce_measure W i = Some m" "quantise3 Q m bl = Some fp"
    using Suc.prems by (auto split: option.splits)
  let ?bl = "if i = 0 then NewBaseline (qe_arch Q) (qe_now Q) m else bl"
  have go: "calibration_loop Q W n (i + 1) ?bl (fps @ [fp]) = Inr (bl', fps')"
    using Suc.prems m by (simp add: Let_def split: if_splits)
  from Suc.IH [OF go] obtain new where
    "fps' = (fps @ [fp]) @ new" "length new = n" "bl' = ?bl" by auto
  then show ?case using m by (intro exI [of _ "fp # new"]) auto
qed simp

text \<open>Every private key that the derivation gives signs for its public half.\<close>

definition derives_keys :: "kdf \<Rightarrow> ed25519 \<Rightarrow> bool" where
  "derives_keys F E \<longleftrightarrow> (\<forall>K priv pub. DeriveEd25519 F E K = Inr (priv, pub) \<longrightarrow> ed_key E priv)"

lemma block_flips_take:
  "b < 32 \<Longrightarrow> 224 \<le> length idxs \<Longrightarrow> block_flips x y (take 224 idxs) b = block_flips x y idxs b"
  unfolding block_flips_def by (intro arg_cong [where f = length] filter_cong) auto

lemma enrolled_state:
  assumes "EnrollKey F E rng Q W opts = Inr st"
  shows "\<exists>m0 fp0 K priv idxs. ce_measure W 0 = Some m0 \<and> quantise3 Q m0 None = Some fp0 \<and>
    NewBaseline (qe_arch Q) (qe_now Q) m0 = Some (ks_Baseline st) \<and>
    Enroll F rng (qe_now Q) fp0 idxs = Inr (K, ks_Helper st) \<and> DeriveEd25519 F E K = Inr (priv, ks_DerivedPub st)"
proof -
  define opt where "opt = with_defaults opts"
  let ?n = "nat (eo_CalibrationCycles opt)"
  have n: "\<not> eo_CalibrationCycles opt < 8" using assms by (auto simp: EnrollKey_def Let_def opt_def)
  obtain bl fps where c: "calibration_loop Q W ?n 0 None [] = Inr (Some bl, fps)"
    using assms n by (cases "calibration_loop Q W ?n 0 None []")
      (auto simp: EnrollKey_def Let_def opt_def bind_r_def split: option.splits sum.splits)
  obtain K priv where r: "Enroll F rng (qe_now Q) (hd fps) (SelectReliableBits fps (eo_MaxBER opt)) = Inr (K, ks_Helper st)"
      "DeriveEd25519 F E K = Inr (priv, ks_DerivedPub st)" "ks_Baseline st = bl"
    using assms n c unfolding opt_def [symmetric]
    by (auto simp: EnrollKey_def Let_def opt_def [symmetric] bind_r_def wrap_err_def split: option.splits sum.splits if_splits)
  from calibration_steps [OF c] n obtain m where m: "ce_measure W 0 = Some m" "quantise3 Q m None = Some (hd fps)"
    "NewBaseline (qe_arch Q) (qe_now Q) m = Some bl" by auto
  show ?thesis by (intro exI conjI) (use m r in simp_all)
qed

lemma enrolled_proves:
  assumes enr: "EnrollKey F E rng Q W opts = Inr st" and keys: "derives_keys F E" and m0: "ce_measure W 0 = Some m0"
    and fp0: "quantise3 Q m0 None = Some fp0" and fp: "quantise3 Q m (Some (ks_Baseline st)) = Some fp" and len: "fp_Length fp \<noteq> 0"
    and rad: "list_all (\<lambda>b. block_flips (fp_Bits fp0) (fp_Bits fp) (hd_Indices (ks_Helper st)) b \<le> 1) [0..<32]"
    and rng': "rng' 0 = Some f"
  shows "\<exists>pr. prove_measured F E rng' Q now hostID st m = Inr pr \<and> pk_Nonce pr = fill 16 f \<and>
    ed_verify E (ks_DerivedPub st) (ProofMessage hostID (pk_Nonce pr) now) (pk_Signature pr)"
proof -
  from enrolled_state [OF enr] obtain m' fp' K priv idxs where "ce_measure W 0 = Some m'" "quantise3 Q m' None = Some fp'"
    and e': "Enroll F rng (qe_now Q) fp' idxs = Inr (K, ks_Helper st)"
    and d: "DeriveEd25519 F E K = Inr (priv, ks_DerivedPub st)"
    by blast
  then have e: "Enroll F rng (qe_now Q) fp0 idxs = Inr (K, ks_Helper st)" using m0 fp0 by simp
  have i: "224 \<le> length idxs" "hd_Indices (ks_Helper st) = take 224 idxs"
    by (rule Enroll_Inr [OF e], simp)+
  have k: "ed_key E priv" using keys d unfolding derives_keys_def by blast
  have r: "list_all (\<lambda>b. block_flips (fp_Bits fp0) (fp_Bits fp) idxs b \<le> 1) [0..<32]"
    using rad unfolding i(2) list_all_iff set_upt by (simp add: block_flips_take [OF _ i(1)])
  show ?thesis unfolding prove_measured_def fp by (rule prove_enrolled [where rng' = rng' and f = f, OF e d k len r rng'])
qed


section \<open>An enrolment that succeeds\<close>

text \<open>
  Every cycle measures the same matrix, all of whose timings are zero: the rates are zero, so the
  baseline changes no bit, and every bit of the fingerprint is reliable.
\<close>

definition idle_matrix :: matrix where
  "idle_matrix = \<lparr>mx_NumCores = 8, mx_NumLoops = 3, mx_NumTrials = 1,
     mx_Samples = replicate 8 (replicate 3 [\<lparr>ps_Core = 0, ps_Loop = LoopBranch, ps_Trial = 0, ps_Iterations = 0, ps_ElapsedNs = 0\<rparr>]),
     mx_DurationNs = 0\<rparr>"

definition idle_quant :: quant_env where
  "idle_quant = \<lparr>qe_log2 = (\<lambda>x. x), qe_log10 = (\<lambda>x. x), qe_sha3 = demo_hash, qe_arch = [], qe_now = 0\<rparr>"

definition idle_calibration :: calibration_env where
  "idle_calibration = \<lparr>ce_ctx_ended = (\<lambda>_. False), ce_measure = (\<lambda>_. Some idle_matrix), ce_wait_ended = (\<lambda>_. False)\<rparr>"

lemma calibration_constant:
  assumes "\<And>i. ce_measure W i = Some m" "\<And>i. \<not> ce_ctx_ended W i" "\<And>i. \<not> ce_wait_ended W i"
    and b: "NewBaseline (qe_arch Q) (qe_now Q) m = Some b"
    and q: "quantise3 Q m None = Some fp" "quantise3 Q m (Some b) = Some fp"
  shows "calibration_loop Q W (Suc n) 0 None [] = Inr (Some b, replicate (Suc n) fp)"
proof -
  have "calibration_loop Q W n (Suc i) (Some b) fps = Inr (Some b, fps @ replicate n fp)" for i fps
    using assms by (induction n arbitrary: i fps) simp_all
  then show ?thesis using assms by simp
qed


lemma idle_in_range: "in_range idle_matrix"
  by (simp add: in_range_def cell_def idle_matrix_def list_all_iff)

definition idle_baseline :: baseline where
  "idle_baseline = the (NewBaseline [] 0 idle_matrix)"

lemma idle_baseline: "NewBaseline [] 0 idle_matrix = Some idle_baseline" "\<forall>cs \<in> set (bl_PerCoreLoop idle_baseline). cs_Median cs = Fin 0"
proof -
  have cells: "cell idle_matrix c l \<noteq> []" "cs_Median (summarise_cell (cell idle_matrix c l)) = Fin 0" if "c < 8" "l < 3" for c l
    using that by (simp_all add: cell_def idle_matrix_def summarise_cell_def Let_def ItersPerSec_def medianMAD_def split: prod.splits)
  then have s: "Summarise [] idle_matrix = Some s \<Longrightarrow> \<forall>cs \<in> set (st_PerCoreLoop s). cs_Median cs = Fin 0" for s
    by (auto simp: Summarise_def idle_matrix_def split: if_splits)
  have "Summarise [] idle_matrix \<noteq> None"
    by (simp add: Summarise_def) (simp add: has_cells_def cell_def idle_matrix_def list_all_iff)
  then obtain s where "Summarise [] idle_matrix = Some s" by blast
  with s show "NewBaseline [] 0 idle_matrix = Some idle_baseline" "\<forall>cs \<in> set (bl_PerCoreLoop idle_baseline). cs_Median cs = Fin 0"
    by (simp_all add: NewBaseline_def idle_baseline_def)
qed

lemma baseline_cell_zero:
  "\<forall>cs \<in> set rows. cs_Median cs = Fin 0 \<Longrightarrow> fst (baseline_cell rows c l) = Fin 0"
  by (induction rows) auto

lemma idle_bits: "v3_bits f g m (Some idle_baseline) = v3_bits f g m None"
proof -
  have "residualBucketWide x (Some idle_baseline) c l = residualBucketWide x None c l" for x c l
    using baseline_cell_zero [OF idle_baseline(2), of "int c" l]
    by (cases "baseline_cell (bl_PerCoreLoop idle_baseline) (int c) l") (simp add: residualBucketWide_def residual_def)
  then show ?thesis by (simp add: v3_bits_def residual_wide_bits_def)
qed

lemma idle_length: "length (v3_bits f g idle_matrix bl) = 540"
proof -
  have "length (pairs_of 3) = 3" "length (pairs_of 8) = 28" using length_pairs_of [of 3] length_pairs_of [of 8] by simp_all
  then show ?thesis by (simp add: v3_length idle_matrix_def)
qed


definition idle_fp :: fingerprint where
  "idle_fp = the (quantise3 idle_quant idle_matrix None)"

lemma idle_quantise:
  "quantise3 idle_quant idle_matrix None = Some idle_fp" "quantise3 idle_quant idle_matrix (Some idle_baseline) = Some idle_fp"
  by (simp_all add: quantise3_def QuantizeV3_def idle_in_range idle_fp_def idle_bits)

lemma idle_fp_length: "fp_Length idle_fp = 540"
  by (simp add: idle_fp_def quantise3_def QuantizeV3_def idle_in_range idle_length)

lemma idle_enrols:
  "\<exists>st. EnrollKey demo_kdf demo_ed demo_rng idle_quant idle_calibration None = Inr st \<and> ks_Baseline st = idle_baseline"
proof -
  define fps where "fps = replicate (Suc 39) idle_fp"
  have w: "with_defaults None = \<lparr>eo_CalibrationCycles = 40, eo_MaxBER = DefaultMaxBER\<rparr>"
    by (simp add: with_defaults_def DefaultCalibrationCycles_def Let_def)
  have "calibration_loop idle_quant idle_calibration (Suc 39) 0 None [] = Inr (Some idle_baseline, fps)"
    unfolding fps_def by (rule calibration_constant [where m = idle_matrix])
      (simp_all add: idle_calibration_def idle_quantise, simp add: idle_quant_def idle_baseline(1))
  moreover have "Suc 39 = 40" by simp
  ultimately have c: "calibration_loop idle_quant idle_calibration 40 0 None [] = Inr (Some idle_baseline, fps)" by (simp only:)
  have h: "hd fps = idle_fp" by (simp add: fps_def)
  have now: "qe_now idle_quant = 0" by (simp add: idle_quant_def)
  have "agrees_everywhere fps b" for b by (simp add: agrees_everywhere_def fps_def list_all_iff)
  moreover have "list_all (\<lambda>fp. fp_Length fp = fp_Length (hd fps)) fps" by (simp add: fps_def list_all_iff)
  ultimately have s: "SelectReliableBits fps DefaultMaxBER = map int [0..<540]"
    by (subst reliable_iff_stable) (simp_all add: h idle_fp_length, simp_all add: fps_def)
  let ?idxs = "map int [0..<540]"
  have r: "demo_rng 0 = Some (\<lambda>j. of_nat (3 * j))" by (simp add: demo_rng_def)
  have i: "224 \<le> length ?idxs" "list_all (\<lambda>x. 0 \<le> x) (take 224 ?idxs)"
    by (simp_all add: list_all_iff take_map del: upt_rec_numeral)
  obtain hp where e: "Enroll demo_kdf demo_rng 0 idle_fp ?idxs = Inr (fill 16 (\<lambda>j. of_nat (3 * j)), hp)"
    using Enroll_succeeds [where rng = demo_rng and fp = idle_fp and F = demo_kdf and now = 0, OF i _ r] by (metis idle_fp_length zero_neq_numeral)
  have k: "fill 16 (\<lambda>j. of_nat (3 * j) :: byte) \<noteq> []" by (simp add: fill_def)
  obtain priv pub where d: "DeriveEd25519 demo_kdf demo_ed (fill 16 (\<lambda>j. of_nat (3 * j))) = Inr (priv, pub)"
    using k by (auto simp: DeriveEd25519_def Let_def)
  show ?thesis
    unfolding EnrollKey_def w Let_def enroll_options.simps
    using d by (simp add: c s h e now HelperBits_def SecretBits_def del: upt_rec_numeral)
qed


lemma demo_derives: "derives_keys demo_kdf demo_ed"
  unfolding derives_keys_def by (auto simp: DeriveEd25519_def Let_def intro!: demo_ed_key)

section \<open>A baseline compared with its own matrix\<close>

text \<open>
  The comment of \<open>quantize_v2.go\<close> has the calibration matrix, compared with its own baseline, fall
  into bucket 4 everywhere. The residual is zero, and the switch puts zero into bucket 3.
\<close>

lemma own_residual:
  assumes "0 < a" "a \<le> 2 ^ 100" "1 / 2 ^ 40 \<le> a" "0 \<le> d"
    and "baseline_cell (bl_PerCoreLoop b) (int c) l = (Fin a, Fin d)"
  shows "residual bounds (Fin a) (Some b) c l = bucket_from 0 bounds (Fin 0)"
proof -
  have l: "lit (2 / 1000) = Fin (rnd (2 / 1000))" unfolding lit_def by (rule norm64_bounded [of _ 0]) simp_all
  have l1: "rnd (2 / 1000) \<le> 1" by (rule rnd_le [OF _ representable_pow2 [of 0, simplified]]) simp
  have l0: "1 / 2 ^ 10 \<le> rnd (2 / 1000)"
    by (rule rnd_pos) simp_all
  define p where "p = a * rnd (2 / 1000)"
  have "p \<le> 2 ^ 100 * 1" unfolding p_def using assms l0 l1 by (intro mult_mono) simp_all
  then have p2: "p \<le> 2 ^ 100" by simp
  have "1 / 2 ^ 40 * (1 / 2 ^ 10) \<le> p" unfolding p_def using assms l0 by (intro mult_mono) simp_all
  then have p1: "1 / 2 ^ 50 \<le> p" by simp
  have np: "norm64 p = Fin (rnd p)" using p1 p2 by (intro norm64_bounded [of _ 100]) simp_all
  have rp: "1 / 2 ^ 50 \<le> rnd p" using p1 by (rule rnd_pos) simp_all
  define e where "e = (if d < rnd p then rnd p else d)"
  have "0 < rnd p" by (rule less_le_trans [OF _ rp]) simp
  then have e: "0 < e" by (simp add: e_def)
  have "residual bounds (Fin a) (Some b) c l = bucket_from 0 bounds (fdiv (fsub (Fin a) (Fin a)) (Fin e))"
    unfolding residual_def option.case assms(5) prod.case Let_def l fmul.simps p_def [symmetric] np e_def
    using assms(1) by simp
  also have "fdiv (fsub (Fin a) (Fin a)) (Fin e) = Fin 0"
    using e norm64_of_int [of 0] by (simp add: fsub_Fin)
  finally show ?thesis .
qed

lemma zero_buckets:
  "bucket_from 0 (map lit [- 5, - 2, - (1 / 2), 0, 1 / 2, 2, 5]) (Fin 0) = 3"
  "bucket_from 0 (map lit [- 2, - 1, - (1 / 2), 0, 1 / 2, 1, 2]) (Fin 0) = 3"
  using lit_int [of "- 5"] lit_int [of "- 2"] lit_int [of "- 1"] lit_dyadic [of "- 1" 1] lit_int [of 0]
    lit_dyadic [of 1 1] lit_int [of 1] lit_int [of 2] lit_int [of 5]
  by simp_all

text \<open>A matrix as \<open>Measure\<close> fills it: every cell has its trials, labelled with its core and loop.\<close>

definition labelled :: "matrix \<Rightarrow> bool" where
  "labelled m \<longleftrightarrow> 0 < mx_NumTrials m \<and> list_all (\<lambda>c. list_all (\<lambda>l. length (cell m c l) = mx_NumTrials m \<and>
     sint (ps_Core (hd (cell m c l))) = int c \<and> unat (kind_code (ps_Loop (hd (cell m c l)))) = l) [0..<mx_NumLoops m]) [0..<mx_NumCores m]"

lemma baseline_cell_unique:
  assumes "x \<in> set rows" and "cs_Core x = c" and "unat (kind_code (cs_Loop x)) = l"
    and "\<And>y. y \<in> set rows \<Longrightarrow> cs_Core y = c \<Longrightarrow> unat (kind_code (cs_Loop y)) = l \<Longrightarrow> y = x"
  shows "baseline_cell rows c l = (cs_Median x, cs_MAD x)"
proof -
  have "\<exists>y \<in> set rows. cs_Core y = c \<and> unat (kind_code (cs_Loop y)) = l" using assms(1-3) by blast
  then have "\<exists>y \<in> set rows. cs_Core y = c \<and> unat (kind_code (cs_Loop y)) = l \<and> baseline_cell rows c l = (cs_Median y, cs_MAD y)"
  proof (induction rows)
    case (Cons y rows)
    then show ?case by (cases "cs_Core y = c \<and> unat (kind_code (cs_Loop y)) = l") auto
  qed simp
  with assms(4) show ?thesis by blast
qed

lemma own_cell:
  assumes "NewBaseline arch now m = Some b" and "labelled m" and "c < mx_NumCores m" and "l < mx_NumLoops m"
  shows "baseline_cell (bl_PerCoreLoop b) (int c) l = medianMAD (trial_rates m c l)"
proof -
  let ?x = "summarise_cell (cell m c l)"
  have rows: "bl_PerCoreLoop b = concat (map (\<lambda>c. map (\<lambda>l. summarise_cell (cell m c l)) [0..<mx_NumLoops m]) [0..<mx_NumCores m])"
    using assms(1) by (auto simp: NewBaseline_def Summarise_def split: if_splits)
  have lab: "cs_Core (summarise_cell (cell m i j)) = int i" "unat (kind_code (cs_Loop (summarise_cell (cell m i j)))) = j"
    if "i < mx_NumCores m" "j < mx_NumLoops m" for i j
    using that assms(2) by (auto simp: labelled_def list_all_iff summarise_cell_def Let_def split: prod.splits)
  have "baseline_cell (bl_PerCoreLoop b) (int c) l = (cs_Median ?x, cs_MAD ?x)"
    unfolding rows
  proof (rule baseline_cell_unique)
    show "?x \<in> set (concat (map (\<lambda>c. map (\<lambda>l. summarise_cell (cell m c l)) [0..<mx_NumLoops m]) [0..<mx_NumCores m]))"
      using assms(3,4) by (auto intro!: bexI [of _ c] imageI)
  qed (use assms(3,4) lab in auto)
  also have "map ItersPerSec (cell m c l) = trial_rates m c l"
    using assms by (intro nth_equalityI) (auto simp: trial_rates_def labelled_def list_all_iff)
  then have "(cs_Median ?x, cs_MAD ?x) = medianMAD (trial_rates m c l)"
    by (simp add: summarise_cell_def Let_def split: prod.splits)
  finally show ?thesis .
qed

lemma own_bucket:
  assumes "NewBaseline arch now m = Some b" and "labelled m" and "c < mx_NumCores m" and "l < mx_NumLoops m"
    and "cell_median m c l \<noteq> Fin 0"
  shows "residual bounds (cell_median m c l) (Some b) c l = bucket_from 0 bounds (Fin 0)"
proof -
  have "trial_rates m c l \<noteq> []" "\<forall>x \<in> set (trial_rates m c l). bounded_rate x"
    using assms(2) by (auto simp: trial_rates_def labelled_def rates_bounded)
  from medianMAD_bounded [OF this] obtain a d where
    md: "medianMAD (trial_rates m c l) = (Fin a, Fin d)" "0 \<le> d" "bounded_rate (Fin a)" .
  then have a: "cell_median m c l = Fin a" by (simp add: cell_median_def)
  then have "0 < a" "a \<le> 2 ^ 100" "1 / 2 ^ 40 \<le> a" using md(3) assms(5) by (auto simp: bounded_rate_def)
  then show ?thesis unfolding a using own_cell [OF assms(1-4)] md by (intro own_residual) simp_all
qed

definition unit_matrix :: matrix where
  "unit_matrix = \<lparr>mx_NumCores = 1, mx_NumLoops = 1, mx_NumTrials = 1,
     mx_Samples = [[[\<lparr>ps_Core = 0, ps_Loop = LoopIntMix, ps_Trial = 0, ps_Iterations = 1, ps_ElapsedNs = 1\<rparr>]]],
     mx_DurationNs = 0\<rparr>"

lemma unit_matrix: "labelled unit_matrix" "in_range unit_matrix" "cell_median unit_matrix 0 0 \<noteq> Fin 0"
  "\<exists>b. NewBaseline [] 0 unit_matrix = Some b"
proof -
  have c: "cell unit_matrix 0 0 = [\<lparr>ps_Core = 0, ps_Loop = LoopIntMix, ps_Trial = 0, ps_Iterations = 1, ps_ElapsedNs = 1\<rparr>]"
    by (simp add: cell_def unit_matrix_def)
  have n: "mx_NumCores unit_matrix = 1" "mx_NumLoops unit_matrix = 1" "mx_NumTrials unit_matrix = 1"
    by (simp_all add: unit_matrix_def)
  show "labelled unit_matrix" by (simp add: labelled_def n c)
  show r: "in_range unit_matrix" by (simp add: in_range_def cell_def unit_matrix_def)
  show "\<exists>b. NewBaseline [] 0 unit_matrix = Some b" by (simp add: NewBaseline_def Summarise_def has_cells_def n c) (simp add: unit_matrix_def)
  have "lit (10 ^ 9) = Fin (10 ^ 9)" "norm64 (10 ^ 9) = Fin (10 ^ 9)" "f_of_int 1 = Fin 1"
    using lit_int [of "10 ^ 9"] norm64_of_int [of "10 ^ 9"] f_of_int_exact [of 1] by simp_all
  then show "cell_median unit_matrix 0 0 \<noteq> Fin 0"
    by (simp add: cell_median_def trial_rates_def n c ItersPerSec_def medianMAD_def Let_def)
qed

section \<open>Properties\<close>

text \<open>
  C29: Once a host is enrolled, a proof of possession made from a fresh measurement verifies under
  the public key enrolled, as long as the fresh fingerprint, quantised against the stored baseline,
  flips at most one of the seven selected bits of every block of the first calibration fingerprint.
\<close>
theorem enrol_then_prove:
  assumes "EnrollKey F E rng Q W opts = Inr st" and "derives_keys F E" and "ce_measure W 0 = Some m0"
    and "quantise3 Q m0 None = Some fp0" and "quantise3 Q m (Some (ks_Baseline st)) = Some fp" and "fp_Length fp \<noteq> 0"
    and "list_all (\<lambda>b. block_flips (fp_Bits fp0) (fp_Bits fp) (hd_Indices (ks_Helper st)) b \<le> 1) [0..<32]"
    and "rng' 0 = Some f"
  shows "\<exists>pr. prove_measured F E rng' Q now hostID st m = Inr pr \<and> pk_Nonce pr = fill 16 f \<and>
    ed_verify E (ks_DerivedPub st) (ProofMessage hostID (pk_Nonce pr) now) (pk_Signature pr)"
  using assms by (rule enrolled_proves)

theorem enrol_then_prove_witness:
  "\<exists>st pr. EnrollKey demo_kdf demo_ed demo_rng idle_quant idle_calibration None = Inr st \<and>
    prove_measured demo_kdf demo_ed demo_rng idle_quant 7 (str ''host'') st idle_matrix = Inr pr \<and>
    ed_verify demo_ed (ks_DerivedPub st) (ProofMessage (str ''host'') (pk_Nonce pr) 7) (pk_Signature pr)"
proof -
  obtain st where st: "EnrollKey demo_kdf demo_ed demo_rng idle_quant idle_calibration None = Inr st"
    and b: "ks_Baseline st = idle_baseline" using idle_enrols by blast
  have m: "ce_measure idle_calibration 0 = Some idle_matrix" by (simp add: idle_calibration_def)
  have r: "demo_rng 0 = Some (\<lambda>j. of_nat (3 * j))" by (simp add: demo_rng_def)
  have l: "fp_Length idle_fp \<noteq> 0" by (simp add: idle_fp_length)
  have f: "list_all (\<lambda>b. block_flips (fp_Bits idle_fp) (fp_Bits idle_fp) (hd_Indices (ks_Helper st)) b \<le> 1) [0..<32]"
    by (simp add: block_flips_def list_all_iff del: upt_rec_numeral)
  from enrol_then_prove [where rng' = demo_rng and f = "\<lambda>j. of_nat (3 * j)",
      OF st demo_derives m idle_quantise(1) idle_quantise(2) [folded b] l f r] st
  show ?thesis by blast
qed

text \<open>
  With the default bound and at most fifty cycles, the bits selected for the key are exactly
  those that no calibration fingerprint disagreed on: one flip in at most forty-nine exceeds two
  percent, in floating point, too.
\<close>
theorem default_selects_stable:
  assumes "2 \<le> length fps" and "length fps \<le> 50" and "list_all (\<lambda>fp. fp_Length fp = fp_Length (hd fps)) fps"
  shows "SelectReliableBits fps DefaultMaxBER = map int (filter (agrees_everywhere fps) [0..<nat (fp_Length (hd fps))])"
  using assms by (rule reliable_iff_stable)

theorem default_selects_stable_witness:
  "SelectReliableBits [idle_fp, idle_fp] DefaultMaxBER = map int (filter (agrees_everywhere [idle_fp, idle_fp]) [0..<nat (fp_Length idle_fp)])"
  using default_selects_stable [of "[idle_fp, idle_fp]"] by simp

text \<open>
  C38: A matrix compared with the baseline made from it falls into bucket 3 wherever its median is
  not zero, not into bucket 4, the one without a baseline, as the comment on the buckets has it:
  so the first fingerprint of a calibration, which has no baseline, and a later one of the very
  same timings differ.
\<close>
theorem own_baseline_bucket:
  assumes "NewBaseline arch now m = Some b" and "labelled m" and "c < mx_NumCores m" and "l < mx_NumLoops m"
    and "cell_median m c l \<noteq> Fin 0"
  shows "residualBucketWide (cell_median m c l) (Some b) c l = 3 \<and> residualBucketWide (cell_median m c l) None c l = 4 \<and>
    residualBucket (cell_median m c l) (Some b) c l = 3 \<and> residualBucket (cell_median m c l) None c l = 4"
  unfolding residualBucketWide_def residualBucket_def own_bucket [OF assms] zero_buckets by (simp add: residual_def)

theorem own_baseline_bucket_witness:
  "\<exists>b. NewBaseline [] 0 unit_matrix = Some b \<and> residualBucketWide (cell_median unit_matrix 0 0) (Some b) 0 0 = 3"
proof -
  obtain b where b: "NewBaseline [] 0 unit_matrix = Some b" using unit_matrix(4) by blast
  moreover have "residualBucketWide (cell_median unit_matrix 0 0) (Some b) 0 0 = 3"
    using own_baseline_bucket [OF b unit_matrix(1) _ _ unit_matrix(3)] by (simp add: unit_matrix_def)
  ultimately show ?thesis by blast
qed

end
