(* ===== verification/Cusum.thy ===== *)
theory Cusum
  imports Float64 Fuzzy
begin

text \<open>
  The drift detector of internal/puf/cusum.go: two-sided cumulative sums over the number of bits
  that differ from the enrolment and over every bit. \<open>None\<close> for the receiver is the nil pointer;
  \<open>Cu_panic\<close> is an index out of range, which a detector made by \<open>Calibrate\<close> does not meet.
\<close>

record cusum =
  cu_Mu :: f64
  cu_Sigma :: f64
  cu_K :: f64
  cu_H :: f64
  cu_PerBitBER :: "f64 list"
  cu_SPlusAgg :: f64
  cu_SMinusAgg :: f64
  cu_SPlusBits :: "f64 list"
  cu_SMinusBits :: "f64 list"
  cu_Observations :: int

datatype drift_level = OK | BROAD_DRIFT | TARGETED_DRIFT | CRITICAL

record drift_verdict =
  dv_HammingDistance :: int
  dv_AggregatePlus :: f64
  dv_AggregateMinus :: f64
  dv_MaxPerBitPlus :: f64
  dv_MaxPerBitMinus :: f64
  dv_ArgmaxPlus :: nat
  dv_ArgmaxMinus :: nat
  dv_DriftingBitCount :: nat
  dv_AggregateFired :: bool
  dv_PerBitFired :: bool
  dv_Level :: drift_level

datatype cusum_error =
    Cu_few_cycles nat
  | Cu_empty_vector
  | Cu_cycle_length nat
  | Cu_nil_receiver
  | Cu_observe_length nat
  | Cu_empty_fingerprint
  | Cu_fingerprint_length
  | Cu_index int
  | Cu_panic

section \<open>Calibration\<close>

definition mean_of :: "f64 list \<Rightarrow> f64" where
  "mean_of xs = (if xs = [] then Fin 0 else fdiv (foldl fadd (Fin 0) xs) (f_of_int (int (length xs))))"

definition stddev_of :: "f64 list \<Rightarrow> f64 \<Rightarrow> f64" where
  "stddev_of xs mu = (if length xs < 2 then Fin 0 else
     fsqrt (fdiv (foldl (\<lambda>s x. let d = fsub x mu in fadd s (fmul d d)) (Fin 0) xs) (f_of_int (int (length xs) - 1))))"

definition count_true :: "bool list \<Rightarrow> f64" where
  "count_true bs = foldl (\<lambda>h b. if b then fadd h (Fin 1) else h) (Fin 0) bs"

definition add_flips :: "f64 list \<Rightarrow> bool list \<Rightarrow> f64 list" where
  "add_flips ber row = map2 (\<lambda>p b. if b then fadd p (Fin 1) else p) ber row"

fun row_check :: "nat \<Rightarrow> nat \<Rightarrow> bool list list \<Rightarrow> cusum_error option" where
  "row_check n i [] = None"
| "row_check n i (row # rows) = (if length row \<noteq> n then Some (Cu_cycle_length i) else row_check n (i + 1) rows)"

definition Calibrate :: "bool list list \<Rightarrow> cusum_error + cusum" where
  "Calibrate rows =
     guard (length rows < 8) (Cu_few_cycles (length rows))
       (let n = length (hd rows) in
        guard (n = 0) Cu_empty_vector
          (case row_check n 0 rows of
             Some e \<Rightarrow> Inl e
           | None \<Rightarrow>
               let ber = foldl add_flips (replicate n (Fin 0)) rows;
                   hamming = map count_true rows;
                   ber = map (\<lambda>p. fdiv p (f_of_int (int (length rows)))) ber;
                   mu = mean_of hamming;
                   sigma = stddev_of hamming mu;
                   sigma = (if flt sigma (lit (1 / 2)) then lit (1 / 2) else sigma)
               in Inr \<lparr>cu_Mu = mu, cu_Sigma = sigma, cu_K = fmul (lit (1 / 2)) sigma, cu_H = fmul (lit 5) sigma,
                    cu_PerBitBER = ber, cu_SPlusAgg = Fin 0, cu_SMinusAgg = Fin 0, cu_SPlusBits = replicate n (Fin 0),
                    cu_SMinusBits = replicate n (Fin 0), cu_Observations = 0\<rparr>))"

section \<open>Observation\<close>

definition perBitAlternativeBER :: f64 where "perBitAlternativeBER = lit (5 / 100)"
definition perBitAlarmThreshold :: f64 where "perBitAlarmThreshold = lit (3 / 2)"

definition bit_slack :: "f64 \<Rightarrow> f64" where
  "bit_slack p = (let p0 = (if flt p (lit (1 / 1000)) then lit (1 / 1000) else p);
                      k = fdiv (fsub perBitAlternativeBER p0) (lit 2)
                  in if flt k (lit (1 / 100)) then lit (1 / 100) else k)"

text \<open>The sums of one bit.\<close>

definition bit_step :: "f64 \<Rightarrow> bool \<Rightarrow> f64 \<times> f64 \<Rightarrow> f64 \<times> f64" where
  "bit_step p b s = (let d = fsub (if b then Fin 1 else Fin 0) p; k = bit_slack p
     in (fmax (Fin 0) (fsub (fadd (fst s) d) k), fmax (Fin 0) (fsub (fsub (snd s) d) k)))"

definition bit_sums :: "cusum \<Rightarrow> bool list \<Rightarrow> (f64 \<times> f64) list" where
  "bit_sums c ds = map2 (\<lambda>(p, b) s. bit_step p b s) (zip (cu_PerBitBER c) ds) (zip (cu_SPlusBits c) (cu_SMinusBits c))"

definition drifting :: "f64 \<times> f64 \<Rightarrow> bool" where
  "drifting s \<longleftrightarrow> flt perBitAlarmThreshold (fst s) \<or> flt perBitAlarmThreshold (snd s)"

text \<open>The largest sum and its first position.\<close>

fun argmax_loop :: "nat \<Rightarrow> f64 \<Rightarrow> nat \<Rightarrow> f64 list \<Rightarrow> f64 \<times> nat" where
  "argmax_loop i mx am [] = (mx, am)"
| "argmax_loop i mx am (x # xs) = (if flt mx x then argmax_loop (i + 1) x i xs else argmax_loop (i + 1) mx am xs)"

definition Observe :: "cusum option \<Rightarrow> bool list \<Rightarrow> cusum_error + cusum \<times> drift_verdict" where
  "Observe c ds = (case c of
       None \<Rightarrow> Inl Cu_nil_receiver
     | Some c \<Rightarrow>
         guard (length ds \<noteq> length (cu_PerBitBER c)) (Cu_observe_length (length ds))
           (guard (length (cu_SPlusBits c) < length ds \<or> length (cu_SMinusBits c) < length ds) Cu_panic
             (let h = count_true ds;
                  delta = fsub h (cu_Mu c);
                  sp = fmax (Fin 0) (fsub (fadd (cu_SPlusAgg c) delta) (cu_K c));
                  sm = fmax (Fin 0) (fsub (fsub (cu_SMinusAgg c) delta) (cu_K c));
                  ss = bit_sums c ds;
                  n = length (filter drifting ss);
                  (maxP, argP) = argmax_loop 0 (Fin 0) 0 (map fst ss);
                  (maxM, argM) = argmax_loop 0 (Fin 0) 0 (map snd ss);
                  c' = c\<lparr>cu_SPlusAgg := sp, cu_SMinusAgg := sm,
                    cu_SPlusBits := map fst ss @ drop (length ds) (cu_SPlusBits c),
                    cu_SMinusBits := map snd ss @ drop (length ds) (cu_SMinusBits c),
                    cu_Observations := cu_Observations c + 1\<rparr>;
                  agg = flt (cu_H c) sp \<or> flt (cu_H c) sm;
                  anybit = n > 0
              in Inr (c', \<lparr>dv_HammingDistance = int_of_f h, dv_AggregatePlus = sp, dv_AggregateMinus = sm,
                   dv_MaxPerBitPlus = maxP, dv_MaxPerBitMinus = maxM, dv_ArgmaxPlus = argP, dv_ArgmaxMinus = argM,
                   dv_DriftingBitCount = n, dv_AggregateFired = agg, dv_PerBitFired = anybit,
                   dv_Level = (if agg \<and> anybit then CRITICAL else if agg then BROAD_DRIFT
                     else if anybit then TARGETED_DRIFT else OK)\<rparr>))))"

text \<open>\<open>Reset\<close>: the loop over the first slice zeroes both.\<close>

definition Reset :: "cusum option \<Rightarrow> cusum_error + cusum option" where
  "Reset c = (case c of
       None \<Rightarrow> Inr None
     | Some c \<Rightarrow>
         guard (length (cu_SMinusBits c) < length (cu_SPlusBits c)) Cu_panic
           (Inr (Some (c\<lparr>cu_SPlusAgg := Fin 0, cu_SMinusAgg := Fin 0, cu_Observations := 0,
              cu_SPlusBits := replicate (length (cu_SPlusBits c)) (Fin 0),
              cu_SMinusBits := replicate (length (cu_SPlusBits c)) (Fin 0) @ drop (length (cu_SPlusBits c)) (cu_SMinusBits c)\<rparr>))))"

fun delta_loop :: "fingerprint \<Rightarrow> fingerprint \<Rightarrow> int list \<Rightarrow> cusum_error + bool list" where
  "delta_loop a b [] = Inr []"
| "delta_loop a b (idx # rest) =
     guard (idx < 0 \<or> fp_Length a \<le> idx) (Cu_index idx)
       (bind_r (delta_loop a b rest) (\<lambda>bs. Inr ((bitOf (fp_Bits a) (nat idx) \<noteq> bitOf (fp_Bits b) (nat idx)) # bs)))"

definition ComputeBitDelta :: "fingerprint \<Rightarrow> fingerprint \<Rightarrow> int list \<Rightarrow> cusum_error + bool list" where
  "ComputeBitDelta enrolFP freshFP indices =
     guard (fp_Length enrolFP = 0 \<or> fp_Length freshFP = 0) Cu_empty_fingerprint
       (guard (fp_Length enrolFP \<noteq> fp_Length freshFP) Cu_fingerprint_length
         (delta_loop enrolFP freshFP indices))"

section \<open>The state of the detector\<close>

text \<open>A calibrated detector: one expected rate and two sums per bit.\<close>

definition cusum_ok :: "cusum \<Rightarrow> bool" where
  "cusum_ok c \<longleftrightarrow> length (cu_SPlusBits c) = length (cu_PerBitBER c) \<and> length (cu_SMinusBits c) = length (cu_PerBitBER c)"

definition fresh_cusum :: "cusum \<Rightarrow> bool" where
  "fresh_cusum c \<longleftrightarrow> cu_SPlusAgg c = Fin 0 \<and> cu_SMinusAgg c = Fin 0 \<and> cu_Observations c = 0 \<and>
     cu_SPlusBits c = replicate (length (cu_PerBitBER c)) (Fin 0) \<and> cu_SMinusBits c = replicate (length (cu_PerBitBER c)) (Fin 0)"

text \<open>The part that no observation changes.\<close>

definition calibration_params :: "cusum \<Rightarrow> f64 \<times> f64 \<times> f64 \<times> f64 \<times> f64 list" where
  "calibration_params c = (cu_Mu c, cu_Sigma c, cu_K c, cu_H c, cu_PerBitBER c)"

lemma row_check_None: "row_check n i rows = None \<longleftrightarrow> (\<forall>row \<in> set rows. length row = n)"
  by (induction rows arbitrary: i) auto

lemma length_add_flips: "(\<forall>row \<in> set rows. length row = length ber) \<Longrightarrow> length (foldl add_flips ber rows) = length ber"
  by (induction rows arbitrary: ber) (simp_all add: add_flips_def)

lemma Calibrate_fresh:
  assumes "Calibrate rows = Inr c"
  shows "fresh_cusum c" and "length (cu_PerBitBER c) = length (hd rows)"
proof -
  from assms have "\<forall>row \<in> set rows. length row = length (hd rows)"
    by (auto simp: Calibrate_def Let_def row_check_None split: option.splits)
  then have l: "length (foldl add_flips (replicate (length (hd rows)) (Fin 0)) rows) = length (hd rows)"
    by (subst length_add_flips) simp_all
  show "fresh_cusum c" "length (cu_PerBitBER c) = length (hd rows)"
    using assms l by (auto simp: Calibrate_def fresh_cusum_def Let_def split: option.splits)
qed

lemma length_bit_sums: "cusum_ok c \<Longrightarrow> length ds = length (cu_PerBitBER c) \<Longrightarrow> length (bit_sums c ds) = length ds"
  by (simp add: bit_sums_def cusum_ok_def)

lemma Observe_Inr:
  assumes "Observe (Some c) ds = Inr (c', v)"
  shows "length ds = length (cu_PerBitBER c)" and "calibration_params c' = calibration_params c"
    and "cu_SPlusBits c' = map fst (bit_sums c ds) @ drop (length ds) (cu_SPlusBits c)"
    and "cu_SMinusBits c' = map snd (bit_sums c ds) @ drop (length ds) (cu_SMinusBits c)"
    and "dv_DriftingBitCount v = length (filter drifting (bit_sums c ds))"
    and "dv_PerBitFired v = (dv_DriftingBitCount v > 0)"
    and "dv_Level v \<in> {TARGETED_DRIFT, CRITICAL} \<longleftrightarrow> dv_PerBitFired v"
  using assms by (auto simp: Observe_def Let_def calibration_params_def split: prod.splits if_splits)

lemma Observe_ok: "cusum_ok c \<Longrightarrow> Observe (Some c) ds = Inr (c', v) \<Longrightarrow> cusum_ok c'"
  using Observe_Inr [of c ds c' v] length_bit_sums [of c ds] by (auto simp: cusum_ok_def calibration_params_def)

lemma Observe_returns:
  assumes "cusum_ok c" "length ds = length (cu_PerBitBER c)"
  shows "\<exists>c' v. Observe (Some c) ds = Inr (c', v)"
  using assms by (simp add: Observe_def cusum_ok_def Let_def split: prod.split)

text \<open>A run of observations: the last state and the verdicts.\<close>

fun observe_all :: "cusum \<Rightarrow> bool list list \<Rightarrow> cusum_error + cusum \<times> drift_verdict list" where
  "observe_all c [] = Inr (c, [])"
| "observe_all c (ds # rest) =
     bind_r (Observe (Some c) ds) (\<lambda>(c', v). bind_r (observe_all c' rest) (\<lambda>(c'', vs). Inr (c'', v # vs)))"

lemma observe_all_keeps:
  "observe_all c rows = Inr (c', vs) \<Longrightarrow> cusum_ok c \<Longrightarrow> cusum_ok c' \<and> calibration_params c' = calibration_params c \<and> length vs = length rows"
proof (induction rows arbitrary: c c' vs)
  case (Cons ds rest)
  then obtain c1 v vs' where o: "Observe (Some c) ds = Inr (c1, v)" "observe_all c1 rest = Inr (c', vs')" "vs = v # vs'"
    by auto
  from Cons.IH [OF o(2) Observe_ok [OF Cons.prems(2) o(1)]] Observe_Inr(2) [OF o(1)] o(3) show ?case by simp
qed simp

lemma observe_all_returns:
  "cusum_ok c \<Longrightarrow> \<forall>row \<in> set rows. length row = length (cu_PerBitBER c) \<Longrightarrow> \<exists>c' vs. observe_all c rows = Inr (c', vs)"
proof (induction rows arbitrary: c)
  case (Cons ds rest)
  obtain c1 v where o: "Observe (Some c) ds = Inr (c1, v)" using Observe_returns [of c ds] Cons.prems by auto
  have "cu_PerBitBER c1 = cu_PerBitBER c" using Observe_Inr(2) [OF o] by (simp add: calibration_params_def)
  then obtain c2 vs where "observe_all c1 rest = Inr (c2, vs)" using Cons.IH [OF Observe_ok [OF Cons.prems(1) o]] Cons.prems(2) by auto
  with o show ?case by simp
qed simp

lemma fresh_ok: "fresh_cusum c \<Longrightarrow> cusum_ok c"
  by (simp add: fresh_cusum_def cusum_ok_def)

lemma fresh_unique: "fresh_cusum c \<Longrightarrow> fresh_cusum c' \<Longrightarrow> calibration_params c = calibration_params c' \<Longrightarrow> c = (c' :: cusum)"
  by (cases c; cases c') (simp add: fresh_cusum_def calibration_params_def)

lemma Reset_fresh:
  assumes "cusum_ok c"
  obtains c' where "Reset (Some c) = Inr (Some c')" "fresh_cusum c'" "calibration_params c' = calibration_params c"
  using assms by (auto simp: Reset_def cusum_ok_def fresh_cusum_def calibration_params_def)

section \<open>The sum of one bit\<close>

lemma fmax_Fin [simp]: "fmax (Fin a) (Fin b) = Fin (max a b)"
  by (simp add: fmax_def max_def)

lemma small_consts:
  obtains a b c where "lit (5 / 100) = Fin a" "204 / 4096 \<le> a" "a \<le> 205 / 4096"
    and "lit (1 / 1000) = Fin b" "4 / 4096 \<le> b" "b \<le> 8 / 4096" and "lit (1 / 100) = Fin c" "0 \<le> c" "c \<le> 82 / 8192"
proof -
  have n: "norm64 x = Fin (rnd x)" if "\<bar>x\<bar> \<le> 1" for x
    using that by (intro norm64_bounded [of _ 0]) simp_all
  have l: "of_int k / 2 ^ 13 \<le> rnd x" if "of_int k / 2 ^ 13 \<le> x" "\<bar>k\<bar> \<le> 2 ^ 53" for x k
    using that by (intro rnd_ge representable_dyadic) simp_all
  have u: "rnd x \<le> of_int k / 2 ^ 13" if "x \<le> of_int k / 2 ^ 13" "\<bar>k\<bar> \<le> 2 ^ 53" for x k
    using that by (intro rnd_le representable_dyadic) simp_all
  show ?thesis
    by (rule that [of "rnd (5 / 100)" "rnd (1 / 1000)" "rnd (1 / 100)"])
      (use l [of 408 "5 / 100"] u [of "5 / 100" 410] l [of 8 "1 / 1000"] u [of "1 / 1000" 16]
        l [of 0 "1 / 100"] u [of "1 / 100" 82] in \<open>simp_all add: lit_def n\<close>)
qed

lemma slack_bounds:
  assumes "0 \<le> p" "p \<le> 1"
  obtains k where "bit_slack (Fin p) = Fin k" "0 \<le> k" "k \<le> 1" "p = 0 \<Longrightarrow> k \<le> 201 / 8192"
proof -
  obtain a b c where c: "lit (5 / 100) = Fin a" "204 / 4096 \<le> a" "a \<le> 205 / 4096"
    and "lit (1 / 1000) = Fin b" "4 / 4096 \<le> b" "b \<le> 8 / 4096" and "lit (1 / 100) = Fin c" "0 \<le> c" "c \<le> 82 / 8192"
    by (rule small_consts)
  note c = this
  have two: "lit 2 = Fin 2" using lit_int [of 2] by simp
  define p0 where "p0 = max p b"
  have p0: "0 \<le> p0" "p0 \<le> 1" "p = 0 \<Longrightarrow> p0 = b" "(if p < b then b else p) = p0" using assms c by (auto simp: p0_def)
  define q where "q = rnd (a - p0)"
  have "\<bar>a - p0\<bar> \<le> 2 ^ 0" using p0 c by (simp add: abs_le_iff)
  then have q: "norm64 (a - p0) = Fin q" "\<bar>q\<bar> \<le> 1"
    using rnd_abs_le [of "a - p0" 0] by (simp_all add: q_def norm64_bounded [of _ 0])
  have q0: "p = 0 \<Longrightarrow> q \<le> 201 / 2 ^ 12"
    unfolding q_def using c p0 representable_dyadic [of 201 12] by (intro rnd_le) simp_all
  define r where "r = rnd (q / 2)"
  have "\<bar>q / 2\<bar> \<le> 2 ^ 0" using q(2) by (simp add: abs_le_iff)
  then have r: "norm64 (q / 2) = Fin r" "\<bar>r\<bar> \<le> 1"
    using rnd_abs_le [of "q / 2" 0] by (simp_all add: r_def norm64_bounded [of _ 0])
  have r0: "p = 0 \<Longrightarrow> r \<le> 201 / 2 ^ 13"
    unfolding r_def using q0 representable_dyadic [of 201 13] by (intro rnd_le) simp_all
  have s: "bit_slack (Fin p) = Fin (if r < c then c else r)"
    unfolding bit_slack_def perBitAlternativeBER_def c(1) c(4) c(7) two Let_def flt.simps if_distrib [of Fin, symmetric] p0(4)
    using q(1) r(1) by (simp add: fsub_Fin)
  show ?thesis by (rule that [OF s]) (use r r0 c in auto)
qed

lemma step_upper:
  assumes p: "0 \<le> p" "p \<le> 1" and s: "fst s = Fin a" "0 \<le> a" "a \<le> of_nat n" and n: "n < 2 ^ 52"
  obtains a' where "fst (bit_step (Fin p) b s) = Fin a'" "0 \<le> a'" "a' \<le> of_nat (n + of_bool b)"
proof -
  define o' where "o' = (of_bool b :: rat)"
  define d where "d = rnd (o' - p)"
  have "\<bar>o' - p\<bar> \<le> 2 ^ 0" using p by (simp add: o'_def abs_le_iff)
  then have d: "norm64 (o' - p) = Fin d" "\<bar>d\<bar> \<le> 1"
    using rnd_abs_le [of "o' - p" 0] by (simp_all add: d_def norm64_bounded [of _ 0])
  have d1: "d \<le> o'" unfolding d_def o'_def using p representable_of_int [of 0] representable_of_int [of 1] by (intro rnd_le) auto
  have nb: "(of_nat n :: rat) \<le> 2 ^ 52" using n by (simp add: of_nat_le_numeral_power_cancel_iff)
  have rn: "representable (of_nat (n + of_bool b))" using n representable_of_int [of "int (n + of_bool b)"] by auto
  define t where "t = rnd (a + d)"
  have "\<bar>a + d\<bar> \<le> 2 ^ 53" using s nb d(2) by (simp add: abs_le_iff)
  then have t: "norm64 (a + d) = Fin t" "\<bar>t\<bar> \<le> 2 ^ 53"
    using rnd_abs_le [of "a + d" 53] by (simp_all add: t_def norm64_bounded [of _ 53])
  have t1: "t \<le> of_nat (n + of_bool b)"
    unfolding t_def using d1 s by (intro rnd_le rn) (simp add: o'_def)
  obtain k where k: "bit_slack (Fin p) = Fin k" "0 \<le> k" "k \<le> 1" using slack_bounds [OF p] by metis
  define r where "r = rnd (t - k)"
  have "\<bar>t - k\<bar> \<le> 2 ^ 54" using t(2) k by (simp add: abs_le_iff)
  then have r: "norm64 (t - k) = Fin r" by (simp add: r_def norm64_bounded [of _ 54])
  have r1: "r \<le> of_nat (n + of_bool b)" unfolding r_def using t1 k(2) by (intro rnd_le rn) simp
  have e: "(if b then Fin 1 else Fin 0) = Fin o'" by (simp add: o'_def)
  have "fst (bit_step (Fin p) b s) = Fin (max 0 r)"
    unfolding bit_step_def e Let_def by (simp add: s(1) fsub_Fin d(1) t(1) k(1) r)
  then show ?thesis by (rule that) (use r1 in auto)
qed

lemma step_lower:
  assumes s: "fst s = Fin a" "0 \<le> a" "a \<le> 2 ^ 52" and x: "of_int x / 2 ^ 13 \<le> a" "\<bar>x\<bar> \<le> 2 ^ 20"
  obtains a' where "fst (bit_step (Fin 0) b s) = Fin a'" "of_int (x + (if b then 8192 else 0) - 201) / 2 ^ 13 \<le> a'"
proof -
  define o' where "o' = (of_bool b :: rat)"
  have d: "norm64 (o' - 0) = Fin o'" using norm64_of_int [of 0] norm64_of_int [of 1] by (simp add: o'_def)
  define t where "t = rnd (a + o')"
  have ab: "\<bar>a + o'\<bar> \<le> 2 ^ 53" using s by (simp add: abs_le_iff o'_def)
  then have t: "norm64 (a + o') = Fin t" "\<bar>t\<bar> \<le> 2 ^ 53"
    using rnd_abs_le [of "a + o'" 53] by (simp_all add: t_def norm64_bounded [of _ 53])
  have t1: "of_int (x + (if b then 8192 else 0)) / 2 ^ 13 \<le> t"
    unfolding t_def using x by (intro rnd_ge representable_dyadic) (auto simp: o'_def field_simps)
  obtain k where k: "bit_slack (Fin 0) = Fin k" "0 \<le> k" "k \<le> 1" "k \<le> 201 / 8192" using slack_bounds [of 0] by auto
  define r where "r = rnd (t - k)"
  have "\<bar>t - k\<bar> \<le> 2 ^ 54" using t(2) k by (simp add: abs_le_iff)
  then have r: "norm64 (t - k) = Fin r" by (simp add: r_def norm64_bounded [of _ 54])
  have r1: "of_int (x + (if b then 8192 else 0) - 201) / 2 ^ 13 \<le> r"
    unfolding r_def using x t1 k(4) by (intro rnd_ge representable_dyadic) (auto simp: field_simps)
  have e: "(if b then Fin 1 else Fin 0) = Fin o'" by (simp add: o'_def)
  have "fst (bit_step (Fin 0) b s) = Fin (max 0 r)"
    unfolding bit_step_def e Let_def using d by (simp add: s(1) fsub_Fin t(1) k(1) r)
  then show ?thesis by (rule that) (use r1 in auto)
qed

section \<open>The sums of a run\<close>

definition bit_run :: "f64 \<Rightarrow> bool list \<Rightarrow> f64 \<times> f64 \<Rightarrow> f64 \<times> f64" where
  "bit_run p bs s = foldl (\<lambda>s b. bit_step p b s) s bs"

lemma bit_run_simps [simp]:
  "bit_run p [] s = s" "bit_run p (b # bs) s = bit_run p bs (bit_step p b s)" "bit_run p (bs @ cs) s = bit_run p cs (bit_run p bs s)"
  by (simp_all add: bit_run_def)

definition sums_of :: "cusum \<Rightarrow> nat \<Rightarrow> f64 \<times> f64" where
  "sums_of c i = (cu_SPlusBits c ! i, cu_SMinusBits c ! i)"

definition column :: "nat \<Rightarrow> bool list list \<Rightarrow> bool list" where
  "column i rows = map (\<lambda>row. row ! i) rows"

definition flip_total :: "nat \<Rightarrow> bool list list \<Rightarrow> nat" where
  "flip_total i rows = length (filter (\<lambda>row. row ! i) rows)"

lemma Observe_sums:
  assumes "Observe (Some c) ds = Inr (c', v)" and "cusum_ok c"
  shows "i < length ds \<Longrightarrow> sums_of c' i = bit_step (cu_PerBitBER c ! i) (ds ! i) (sums_of c i)"
    and "dv_PerBitFired v \<longleftrightarrow> (\<exists>i < length ds. drifting (sums_of c' i))"
proof -
  note o = Observe_Inr [OF assms(1)]
  have l: "length (bit_sums c ds) = length ds" using length_bit_sums [OF assms(2) o(1)] .
  have s: "sums_of c' i = bit_sums c ds ! i" if "i < length ds" for i
    using that l by (simp add: sums_of_def o(3,4) nth_append)
  have "bit_sums c ds ! i = bit_step (cu_PerBitBER c ! i) (ds ! i) (sums_of c i)" if "i < length ds" for i
    using that assms(2) o(1) by (simp add: bit_sums_def cusum_ok_def sums_of_def)
  with s show "i < length ds \<Longrightarrow> sums_of c' i = bit_step (cu_PerBitBER c ! i) (ds ! i) (sums_of c i)" by simp
  have "dv_PerBitFired v \<longleftrightarrow> (\<exists>s \<in> set (bit_sums c ds). drifting s)"
    by (simp add: o(5,6) filter_empty_conv)
  also have "\<dots> \<longleftrightarrow> (\<exists>i < length ds. drifting (sums_of c' i))"
    using l s by (metis in_set_conv_nth)
  finally show "dv_PerBitFired v \<longleftrightarrow> (\<exists>i < length ds. drifting (sums_of c' i))" .
qed

lemma observe_all_sums:
  assumes "observe_all c rows = Inr (c', vs)" and "cusum_ok c" and "i < length (cu_PerBitBER c)"
  shows "sums_of c' i = bit_run (cu_PerBitBER c ! i) (column i rows) (sums_of c i) \<and>
    (rows \<noteq> [] \<and> drifting (sums_of c' i) \<longrightarrow> dv_PerBitFired (last vs))"
  using assms
proof (induction rows arbitrary: c vs)
  case (Cons ds rest)
  then obtain c1 v vs' where o: "Observe (Some c) ds = Inr (c1, v)" "observe_all c1 rest = Inr (c', vs')" "vs = v # vs'"
    by auto
  have b: "cu_PerBitBER c1 = cu_PerBitBER c" "i < length ds" using Observe_Inr(1,2) [OF o(1)] Cons.prems(3) by (simp_all add: calibration_params_def)
  note ok = Observe_ok [OF Cons.prems(2) o(1)]
  have s: "sums_of c1 i = bit_step (cu_PerBitBER c ! i) (ds ! i) (sums_of c i)"
    by (rule Observe_sums(1) [OF o(1) Cons.prems(2) b(2)])
  have f: "drifting (sums_of c1 i) \<Longrightarrow> dv_PerBitFired v"
    using Observe_sums(2) [OF o(1) Cons.prems(2)] b(2) by blast
  show ?case
  proof (cases "rest = []")
    case True
    then show ?thesis using o s f by (simp add: column_def)
  next
    case False
    have "vs' \<noteq> []" using observe_all_keeps [OF o(2) ok] False by auto
    then show ?thesis using Cons.IH [OF o(2) ok] Cons.prems(3) b(1) s False o(3) by (simp add: column_def)
  qed
qed (simp add: column_def)

lemma run_upper:
  assumes "0 \<le> p" "p \<le> 1" and "fst s = Fin a" "0 \<le> a" "a \<le> of_nat n" and "n + length bs < 2 ^ 52"
  shows "\<exists>a'. fst (bit_run (Fin p) bs s) = Fin a' \<and> 0 \<le> a' \<and> a' \<le> of_nat (n + length (filter id bs))"
  using assms(3-6)
proof (induction bs arbitrary: n a s)
  case (Cons b bs)
  obtain a' where "fst (bit_step (Fin p) b s) = Fin a'" "0 \<le> a'" "a' \<le> of_nat (n + of_bool b)"
    using step_upper [OF assms(1,2) Cons.prems(1-3)] Cons.prems(4) by auto
  moreover have "n + of_bool b + length bs < 2 ^ 52" using Cons.prems(4) by (cases b) simp_all
  ultimately have "\<exists>a''. fst (bit_run (Fin p) bs (bit_step (Fin p) b s)) = Fin a'' \<and> 0 \<le> a'' \<and>
      a'' \<le> of_nat (n + of_bool b + length (filter id bs))" by (rule Cons.IH)
  moreover have "n + of_bool b + length (filter id bs) = n + length (filter id (b # bs))" by simp
  ultimately show ?case by (simp only: bit_run_simps)
qed simp

lemma run_clean:
  assumes "fst s = Fin a" "0 \<le> a" "a \<le> of_nat n" "n + k < 2 ^ 52" and "of_int x / 2 ^ 13 \<le> a" "\<bar>x\<bar> + 201 * int k \<le> 2 ^ 20"
  shows "\<exists>a'. fst (bit_run (Fin 0) (replicate k False) s) = Fin a' \<and> 0 \<le> a' \<and> a' \<le> of_nat n \<and>
    of_int (x - 201 * int k) / 2 ^ 13 \<le> a'"
  using assms
proof (induction k arbitrary: a s x)
  case (Suc k)
  obtain a' where a': "fst (bit_step (Fin 0) False s) = Fin a'" "0 \<le> a'" "a' \<le> of_nat (n + of_bool False)"
    using step_upper [where p = 0 and b = False, OF _ _ Suc.prems(1-3)] Suc.prems(4) by auto
  have "(of_nat n :: rat) \<le> of_nat (2 ^ 52)" using Suc.prems(4) by (simp only: of_nat_le_iff)
  then have "a \<le> 2 ^ 52" using Suc.prems(3) by simp
  with step_lower [where b = False, OF Suc.prems(1,2) _ Suc.prems(5)] Suc.prems(6) a'(1)
  have l: "of_int (x - 201) / 2 ^ 13 \<le> a'" by auto
  have "\<bar>x - 201\<bar> + 201 * int k \<le> 2 ^ 20" using Suc.prems(6) by simp
  with Suc.IH [OF a'(1,2) _ _ l] a'(3) Suc.prems(4) show ?case by (simp add: algebra_simps)
qed auto


lemma fresh_sums: "fresh_cusum c \<Longrightarrow> i < length (cu_PerBitBER c) \<Longrightarrow> sums_of c i = (Fin 0, Fin 0)"
  by (simp add: fresh_cusum_def sums_of_def)


lemma column_append: "column i (xs @ ys) = column i xs @ column i ys" "column i (x # xs) = x ! i # column i xs"
  by (simp_all add: column_def)

lemma two_flips:
  assumes fr: "fresh_cusum c" and n: "i < length (cu_PerBitBER c)" and p: "cu_PerBitBER c ! i = Fin 0"
    and run: "observe_all c (pre @ x # mid @ [y]) = Inr (c', vs)" and xy: "x ! i" "y ! i"
    and mid: "flip_total i mid = 0" "length mid \<le> 18" and len: "length pre < 2 ^ 51"
  shows "flt perBitAlarmThreshold (cu_SPlusBits c' ! i) \<and> dv_PerBitFired (last vs)"
proof -
  let ?s0 = "(Fin 0, Fin 0) :: f64 \<times> f64"
  let ?N = "length pre"
  obtain a0 where a0: "fst (bit_run (Fin 0) (column i pre) ?s0) = Fin a0" "0 \<le> a0" "a0 \<le> of_nat (0 + length (filter id (column i pre)))"
    using run_upper [of 0 ?s0 0 0 "column i pre"] len by (auto simp: column_def)
  have "length (filter id (column i pre)) \<le> ?N" using length_filter_le [of id "column i pre"] by (simp add: column_def)
  then have "(of_nat (0 + length (filter id (column i pre))) :: rat) \<le> of_nat ?N" by (simp only: of_nat_le_iff add_0)
  with a0(3) have aN: "a0 \<le> of_nat ?N" by (rule order_trans)
  have N: "(of_nat ?N :: rat) \<le> of_nat (2 ^ 51)" using len by (simp only: of_nat_le_iff)
  define s1 where "s1 = bit_step (Fin 0) True (bit_run (Fin 0) (column i pre) ?s0)"
  obtain a1 where a1: "fst s1 = Fin a1" "0 \<le> a1" "a1 \<le> of_nat (?N + of_bool True)"
    unfolding s1_def using step_upper [where p = 0 and b = True, OF _ _ a0(1,2) aN] len by auto
  have "a0 \<le> 2 ^ 52" using aN N by simp
  then obtain a1' where "fst s1 = Fin a1'" "of_int (0 + (if True then 8192 else 0) - 201) / 2 ^ 13 \<le> a1'"
    unfolding s1_def using step_lower [where b = True and x = 0, OF a0(1,2)] a0(2) by (metis abs_zero divide_eq_0_iff of_int_0 zero_le_power zero_le_numeral)
  then have l1: "of_int 7991 / 2 ^ 13 \<le> a1" using a1(1) by simp
  define s2 where "s2 = bit_run (Fin 0) (column i mid) s1"
  have "column i mid = replicate (length mid) False"
    using mid(1) by (intro replicate_eqI) (auto simp: column_def flip_total_def filter_empty_conv)
  then have s2: "s2 = bit_run (Fin 0) (replicate (length mid) False) s1" by (simp add: s2_def)
  have "?N + of_bool True + length mid < 2 ^ 52" "\<bar>7991\<bar> + 201 * int (length mid) \<le> 2 ^ 20" using len mid(2) by simp_all
  from run_clean [OF a1 this(1) l1 this(2)] obtain a2 where
    a2: "fst s2 = Fin a2" "0 \<le> a2" "a2 \<le> of_nat (?N + of_bool True)" "of_int (7991 - 201 * int (length mid)) / 2 ^ 13 \<le> a2"
    unfolding s2 by auto
  have "(of_nat (?N + of_bool True) :: rat) \<le> of_nat (2 ^ 52)" using len by (simp only: of_nat_le_iff) simp
  then have "a2 \<le> 2 ^ 52" using a2(3) by simp
  moreover have "\<bar>7991 - 201 * int (length mid)\<bar> \<le> 2 ^ 20" using mid(2) by simp
  ultimately obtain a3 where a3: "fst (bit_step (Fin 0) True s2) = Fin a3"
      "of_int (7991 - 201 * int (length mid) + (if True then 8192 else 0) - 201) / 2 ^ 13 \<le> a3"
    using step_lower [where b = True, OF a2(1,2) _ a2(4)] by metis
  have "(of_int 12289 :: rat) \<le> of_int (7991 - 201 * int (length mid) + (if True then 8192 else 0) - 201)"
    unfolding of_int_le_iff using mid(2) by simp
  then have "of_int 12289 / 2 ^ 13 \<le> a3" using a3(2) by (simp add: divide_right_mono)
  then have big: "3 / 2 < a3" by simp
  have th: "perBitAlarmThreshold = Fin (3 / 2)" using lit_dyadic [of 3 1] by (simp add: perBitAlarmThreshold_def)
  have up: "flt perBitAlarmThreshold (fst (bit_step (Fin 0) True s2))" unfolding a3(1) th using big by simp
  then have "drifting (bit_step (Fin 0) True s2)" by (simp add: drifting_def)
  moreover have s: "sums_of c' i = bit_step (Fin 0) True s2"
    using observe_all_sums [OF run fresh_ok [OF fr] n] fresh_sums [OF fr n] p xy
    by (simp add: column_append s1_def s2_def) (simp add: column_def)
  moreover have "cu_SPlusBits c' ! i = fst (sums_of c' i)" by (simp add: sums_of_def)
  ultimately show ?thesis using observe_all_sums [OF run fresh_ok [OF fr] n] up by simp
qed

text \<open>The rates of a calibration are the flips over the cycles.\<close>

lemma add_flips_counts:
  assumes "\<forall>row \<in> set rows. length row = n" and "length ber = n"
    and "\<forall>i < n. ber ! i = Fin (of_nat (f i))" and "\<forall>i < n. f i + length rows < 2 ^ 52" and "i < n"
  shows "foldl add_flips ber rows ! i = Fin (of_nat (f i + flip_total i rows))"
  using assms
proof (induction rows arbitrary: ber f)
  case (Cons row rows)
  let ?f = "\<lambda>j. f j + of_bool (row ! j)"
  have "add_flips ber row ! j = Fin (of_nat (?f j))" if "j < n" for j
  proof -
    have "norm64 (of_int (int (f j + 1))) = Fin (of_int (int (f j + 1)))"
      using Cons.prems(4) that by (intro norm64_of_int) auto
    then have "norm64 (of_nat (f j) + 1) = Fin (of_nat (f j) + 1)" by (simp add: add.commute)
    then show ?thesis using that Cons.prems by (simp add: add_flips_def add.commute)
  qed
  moreover have "length (add_flips ber row) = n" using Cons.prems by (simp add: add_flips_def)
  moreover have "\<forall>j < n. ?f j + length rows < 2 ^ 52" using Cons.prems(4) by (auto simp: of_bool_def)
  ultimately have "foldl add_flips (add_flips ber row) rows ! i = Fin (of_nat (?f i + flip_total i rows))"
    using Cons.prems by (intro Cons.IH) auto
  then show ?case by (simp add: flip_total_def add.assoc)
qed (simp add: flip_total_def)

lemma Calibrate_rate:
  assumes "Calibrate rows = Inr c" and "i < length (hd rows)" and "length rows < 2 ^ 52"
  shows "\<exists>p. cu_PerBitBER c ! i = Fin p \<and> 0 \<le> p \<and> p \<le> 1 \<and> (flip_total i rows = 0 \<longrightarrow> p = 0)"
proof -
  let ?n = "length (hd rows)" and ?k = "flip_total i rows" and ?N = "length rows"
  have rows: "\<forall>row \<in> set rows. length row = ?n" and pos: "0 < ?N"
    using assms(1) by (auto simp: Calibrate_def Let_def row_check_None split: option.splits)
  have b: "foldl add_flips (replicate ?n (Fin 0)) rows ! i = Fin (of_nat (0 + ?k))"
    using assms(2,3) by (intro add_flips_counts [OF rows, where f = "\<lambda>_. 0"]) simp_all
  have l: "length (foldl add_flips (replicate ?n (Fin 0)) rows) = ?n" using rows by (subst length_add_flips) simp_all
  have c: "cu_PerBitBER c ! i = fdiv (Fin (of_nat ?k)) (f_of_int (int ?N))"
    using assms(1,2) b l by (auto simp: Calibrate_def Let_def split: option.splits)
  have N: "f_of_int (int ?N) = Fin (of_nat ?N)" using f_of_int_exact [of "int ?N"] assms(3) by simp
  have "?k \<le> ?N" by (simp add: flip_total_def)
  then have q: "(of_nat ?k / of_nat ?N :: rat) \<le> 1" "0 \<le> (of_nat ?k / of_nat ?N :: rat)" using pos by simp_all
  have r: "rnd (of_nat ?k / of_nat ?N) \<le> 1" "0 \<le> rnd (of_nat ?k / of_nat ?N)"
    using rnd_le [OF q(1)] representable_of_int [of 1] rnd_nonneg [OF q(2)] by simp_all
  have "\<bar>of_nat ?k / of_nat ?N :: rat\<bar> \<le> 2 ^ 0" using q by simp
  then have "fdiv (Fin (of_nat ?k)) (Fin (of_nat ?N)) = Fin (rnd (of_nat ?k / of_nat ?N))"
    using pos by (simp add: norm64_bounded [of _ 0])
  with r c N show ?thesis by auto
qed

section \<open>Properties\<close>

definition quiet_rows :: "bool list list" where
  "quiet_rows = replicate 8 [False]"

lemma quiet: "\<exists>c. Calibrate quiet_rows = Inr c"
  by (simp add: Calibrate_def quiet_rows_def Let_def row_check_None split: option.split)

text \<open>
  C32: Whatever has been observed since the calibration, \<open>Reset\<close> gives back the calibrated detector:
  no observation changes its parameters, and the sums and the count start from zero again.
\<close>
theorem reset_restores_calibration:
  assumes "Calibrate rows0 = Inr c" and "observe_all c rows = Inr (c', vs)"
  shows "Reset (Some c') = Inr (Some c)"
proof -
  note f = Calibrate_fresh(1) [OF assms(1)]
  have k: "cusum_ok c'" "calibration_params c' = calibration_params c" using observe_all_keeps [OF assms(2) fresh_ok [OF f]] by simp_all
  obtain c'' where "Reset (Some c') = Inr (Some c'')" "fresh_cusum c''" "calibration_params c'' = calibration_params c'" by (rule Reset_fresh [OF k(1)])
  then show ?thesis using fresh_unique [OF _ f] k(2) by simp
qed

theorem reset_restores_calibration_witness:
  "\<exists>c c' vs. Calibrate quiet_rows = Inr c \<and> observe_all c [[True], [True]] = Inr (c', vs) \<and> Reset (Some c') = Inr (Some c)"
proof -
  obtain c where c: "Calibrate quiet_rows = Inr c" using quiet by blast
  have "length (cu_PerBitBER c) = 1" using Calibrate_fresh(2) [OF c] by (simp add: quiet_rows_def)
  then obtain c' vs where o: "observe_all c [[True], [True]] = Inr (c', vs)"
    using observe_all_returns [OF fresh_ok [OF Calibrate_fresh(1) [OF c]], of "[[True], [True]]"] by auto
  show ?thesis using c o reset_restores_calibration [OF c o] by blast
qed



text \<open>
  C33: A bit that never flipped in the calibration raises the alarm at the latest when it has flipped
  twice with at most eighteen clean cycles in between.
\<close>
theorem second_flip_alarms:
  assumes "Calibrate rows0 = Inr c" and "length rows0 < 2 ^ 52" and "i < length (hd rows0)" and "flip_total i rows0 = 0"
    and "observe_all c (pre @ x # mid @ [y]) = Inr (c', vs)" and "x ! i" and "y ! i" and "flip_total i mid = 0"
    and "length mid \<le> 18" and "length pre < 2 ^ 51"
  shows "dv_PerBitFired (last vs)"
proof -
  have p: "cu_PerBitBER c ! i = Fin 0" using Calibrate_rate [OF assms(1,3,2)] assms(4) by auto
  have n: "i < length (cu_PerBitBER c)" using Calibrate_fresh(2) [OF assms(1)] assms(3) by simp
  show ?thesis using two_flips [OF Calibrate_fresh(1) [OF assms(1)] n p assms(5-10)] by simp
qed

theorem second_flip_alarms_witness:
  "\<exists>c c' vs. Calibrate quiet_rows = Inr c \<and> observe_all c [[True], [False], [True]] = Inr (c', vs) \<and> dv_PerBitFired (last vs)"
proof -
  obtain c where c: "Calibrate quiet_rows = Inr c" using quiet by blast
  have "length (cu_PerBitBER c) = 1" using Calibrate_fresh(2) [OF c] by (simp add: quiet_rows_def)
  then obtain c' vs where o: "observe_all c ([] @ [True] # [[False]] @ [[True]]) = Inr (c', vs)"
    using observe_all_returns [OF fresh_ok [OF Calibrate_fresh(1) [OF c]], of "[] @ [True] # [[False]] @ [[True]]"] by auto
  have "dv_PerBitFired (last vs)"
    by (rule second_flip_alarms [where i = 0, OF c _ _ _ o]) (simp_all add: quiet_rows_def flip_total_def)
  then show ?thesis using c o by auto
qed

end
