(* ===== verification/Baseline.thy ===== *)
theory Baseline
  imports Puf_Stats
begin

text \<open>
  \<open>CompareToBaseline\<close> of internal/puf/baseline.go: the drift of every cell of a measurement against
  the enrolled baseline and the verdict over the largest and the mean. The baseline's cells go into a
  map in which a later cell of the same core and loop replaces an earlier one.
\<close>

record cell_drift =
  cd_Core :: int
  cd_Loop :: loop_kind
  cd_BaselineMedian :: f64
  cd_CurrentMedian :: f64
  cd_BaselineMAD :: f64
  cd_Ratio :: f64
  cd_Z :: f64

datatype puf_verdict = PASS | DRIFT | TAMPER

record report =
  rp_Cells :: "cell_drift list"
  rp_MaxAbsZ :: f64
  rp_MeanAbsZ :: f64
  rp_MaxAbsRatio :: f64
  rp_Verdict :: puf_verdict

datatype compare_error =
    Cb_geometry
  | Cb_cell_count nat nat
  | Cb_missing int loop_kind

definition PassMaxZ :: f64 where "PassMaxZ = lit 5"
definition PassMeanZ :: f64 where "PassMeanZ = lit (3 / 2)"
definition DriftMaxRatio :: f64 where "DriftMaxRatio = lit (5 / 100)"
definition TamperMaxZ :: f64 where "TamperMaxZ = lit 40"
definition TamperMaxRatio :: f64 where "TamperMaxRatio = lit (15 / 100)"
definition madFloorRatio :: f64 where "madFloorRatio = lit (2 / 1000)"

definition classify :: "f64 \<Rightarrow> f64 \<Rightarrow> f64 \<Rightarrow> puf_verdict" where
  "classify maxAbsZ meanAbsZ maxAbsRatio =
     (if fle TamperMaxZ maxAbsZ \<or> fle TamperMaxRatio maxAbsRatio then TAMPER
      else if fle maxAbsZ PassMaxZ \<and> fle meanAbsZ PassMeanZ \<and> fle maxAbsRatio DriftMaxRatio then PASS
      else DRIFT)"

definition base_map :: "core_stats list \<Rightarrow> int \<times> loop_kind \<rightharpoonup> core_stats" where
  "base_map cells = foldl (\<lambda>m cs. m((cs_Core cs, cs_Loop cs) \<mapsto> cs)) (\<lambda>_. None) cells"

definition cell_drift_of :: "core_stats \<Rightarrow> core_stats \<Rightarrow> cell_drift" where
  "cell_drift_of cur b =
     (let floor = fmul (cs_Median b) madFloorRatio;
          effMAD = (if flt (cs_MAD b) floor then floor else cs_MAD b);
          z = (if flt (Fin 0) effMAD then fdiv (fsub (cs_Median cur) (cs_Median b)) effMAD else Fin 0);
          ratio = (if flt (Fin 0) (cs_Median b) then fdiv (fsub (cs_Median cur) (cs_Median b)) (cs_Median b) else Fin 0)
      in \<lparr>cd_Core = cs_Core cur, cd_Loop = cs_Loop cur, cd_BaselineMedian = cs_Median b, cd_CurrentMedian = cs_Median cur,
          cd_BaselineMAD = cs_MAD b, cd_Ratio = ratio, cd_Z = z\<rparr>)"

text \<open>The largest absolute value so far is replaced by a larger one; NaN is not larger.\<close>

definition raise :: "f64 \<Rightarrow> f64 \<Rightarrow> f64" where
  "raise mx x = (if flt mx (fabs x) then fabs x else mx)"

fun compare_loop :: "(int \<times> loop_kind \<rightharpoonup> core_stats) \<Rightarrow> core_stats list \<Rightarrow> cell_drift list \<Rightarrow> f64 \<Rightarrow> f64 \<Rightarrow> f64
    \<Rightarrow> compare_error + cell_drift list \<times> f64 \<times> f64 \<times> f64" where
  "compare_loop base [] cells s mz mr = Inr (cells, s, mz, mr)"
| "compare_loop base (cur # rest) cells s mz mr =
     (case base (cs_Core cur, cs_Loop cur) of
        None \<Rightarrow> Inl (Cb_missing (cs_Core cur) (cs_Loop cur))
      | Some b \<Rightarrow>
          let d = cell_drift_of cur b in
          compare_loop base rest (cells @ [d]) (fadd s (fabs (cd_Z d))) (raise mz (cd_Z d)) (raise mr (cd_Ratio d)))"

definition CompareToBaseline :: "puf_stats \<Rightarrow> baseline \<Rightarrow> compare_error + report" where
  "CompareToBaseline current baseline =
     guard (st_NumCores current \<noteq> bl_NumCores baseline \<or> st_NumLoops current \<noteq> bl_NumLoops baseline) Cb_geometry
       (guard (length (st_PerCoreLoop current) \<noteq> length (bl_PerCoreLoop baseline))
          (Cb_cell_count (length (bl_PerCoreLoop baseline)) (length (st_PerCoreLoop current)))
          (bind_r (compare_loop (base_map (bl_PerCoreLoop baseline)) (st_PerCoreLoop current) [] (Fin 0) (Fin 0) (Fin 0))
             (\<lambda>(cells, sumAbsZ, maxAbsZ, maxAbsRatio).
                let meanAbsZ = fdiv sumAbsZ (f_of_int (int (length cells)))
                in Inr \<lparr>rp_Cells = cells, rp_MaxAbsZ = maxAbsZ, rp_MeanAbsZ = meanAbsZ, rp_MaxAbsRatio = maxAbsRatio,
                     rp_Verdict = classify maxAbsZ meanAbsZ maxAbsRatio\<rparr>)))"

section \<open>Comparisons\<close>

lemma fle_NaN [simp]: "fle NaN x = False" "fle x NaN = False"
  by (cases x; simp add: fle_def feq_def)+

lemma fle_cases: "fle x y \<longleftrightarrow> x \<noteq> NaN \<and> y \<noteq> NaN \<and> x \<le> y"
  by (cases x; cases y) (auto simp: fle_def feq_def less_eq_f64_def)

lemma flt_cases: "flt x y \<longleftrightarrow> x \<noteq> NaN \<and> y \<noteq> NaN \<and> x < y"
  by (cases x; cases y) (auto simp: less_f64_def less_eq_f64_def)

lemma fabs_NaN [simp]: "fabs x = NaN \<longleftrightarrow> x = NaN"
  by (cases x) (simp_all add: fabs_def)

lemma raise_not_NaN: "mx \<noteq> NaN \<Longrightarrow> raise mx x \<noteq> NaN"
  by (auto simp: raise_def flt_cases)

text \<open>The maximum reaches a bound that it did not have iff some value does.\<close>

lemma raise_reaches: "mx \<noteq> NaN \<Longrightarrow> fle t (raise mx x) \<longleftrightarrow> fle t mx \<or> fle t (fabs x)"
  by (auto simp: raise_def flt_cases fle_cases)

lemma raises_reach:
  "mx \<noteq> NaN \<Longrightarrow> fle t (foldl raise mx xs) \<longleftrightarrow> fle t mx \<or> (\<exists>x \<in> set xs. fle t (fabs x))"
  by (induction xs arbitrary: mx) (auto simp: raise_reaches raise_not_NaN)

lemma raises_exceed:
  "mx \<noteq> NaN \<Longrightarrow> flt t (foldl raise mx xs) \<longleftrightarrow> flt t mx \<or> (\<exists>x \<in> set xs. flt t (fabs x))"
proof (induction xs arbitrary: mx)
  case (Cons x xs)
  have "flt t (raise mx x) \<longleftrightarrow> flt t mx \<or> flt t (fabs x)"
    using Cons.prems by (auto simp: raise_def flt_cases)
  with Cons.IH [OF raise_not_NaN [OF Cons.prems]] show ?case by auto
qed simp

section \<open>The report\<close>

lemma compare_loop_Inr:
  assumes "compare_loop base curs cells s mz mr = Inr (cells', s', mz', mr')"
  shows "\<exists>ds. cells' = cells @ ds \<and> s' = foldl (\<lambda>s d. fadd s (fabs (cd_Z d))) s ds \<and> mz' = foldl raise mz (map cd_Z ds) \<and> mr' = foldl raise mr (map cd_Ratio ds) \<and>
    list_all2 (\<lambda>cur d. \<exists>b. base (cs_Core cur, cs_Loop cur) = Some b \<and> d = cell_drift_of cur b) curs ds"
  using assms
proof (induction curs arbitrary: cells s mz mr)
  case (Cons cur rest)
  obtain b where b: "base (cs_Core cur, cs_Loop cur) = Some b" using Cons.prems by (auto split: option.splits)
  let ?d = "cell_drift_of cur b"
  have "compare_loop base rest (cells @ [?d]) (fadd s (fabs (cd_Z ?d))) (raise mz (cd_Z ?d)) (raise mr (cd_Ratio ?d)) =
      Inr (cells', s', mz', mr')"
    using Cons.prems b by (simp add: Let_def)
  from Cons.IH [OF this] obtain ds where "cells' = (cells @ [?d]) @ ds"
    "s' = foldl (\<lambda>s d. fadd s (fabs (cd_Z d))) (fadd s (fabs (cd_Z ?d))) ds" "mz' = foldl raise (raise mz (cd_Z ?d)) (map cd_Z ds)"
    "mr' = foldl raise (raise mr (cd_Ratio ?d)) (map cd_Ratio ds)"
    "list_all2 (\<lambda>cur d. \<exists>b. base (cs_Core cur, cs_Loop cur) = Some b \<and> d = cell_drift_of cur b) rest ds"
    by blast
  then show ?case using b by (intro exI [of _ "?d # ds"]) simp
qed simp

lemma report_cells:
  assumes "CompareToBaseline current baseline = Inr r"
  shows "list_all2 (\<lambda>cur d. \<exists>b. base_map (bl_PerCoreLoop baseline) (cs_Core cur, cs_Loop cur) = Some b \<and> d = cell_drift_of cur b)
      (st_PerCoreLoop current) (rp_Cells r)"
    and "rp_MaxAbsZ r = foldl raise (Fin 0) (map cd_Z (rp_Cells r))"
    and "rp_MaxAbsRatio r = foldl raise (Fin 0) (map cd_Ratio (rp_Cells r))"
    and "rp_Verdict r = classify (rp_MaxAbsZ r) (rp_MeanAbsZ r) (rp_MaxAbsRatio r)"
    and "rp_MeanAbsZ r = fdiv (foldl (\<lambda>s d. fadd s (fabs (cd_Z d))) (Fin 0) (rp_Cells r)) (f_of_int (int (length (rp_Cells r))))"
    and "st_NumCores current = bl_NumCores baseline" "st_NumLoops current = bl_NumLoops baseline"
    and "length (st_PerCoreLoop current) = length (bl_PerCoreLoop baseline)"
  using assms by (auto simp: CompareToBaseline_def Let_def dest: compare_loop_Inr)

lemma thresholds:
  obtains d t where "PassMaxZ = Fin 5" "PassMeanZ = Fin (3 / 2)" "TamperMaxZ = Fin 40" "DriftMaxRatio = Fin d" "TamperMaxRatio = Fin t"
    "0 < d" "d < t"
proof -
  have n: "norm64 x = Fin (rnd x)" if "\<bar>x\<bar> \<le> 1" for x
    using that by (intro norm64_bounded [of _ 0]) simp_all
  have "rnd (5 / 100) \<le> of_int 1 / 2 ^ 4" by (rule rnd_le [OF _ representable_dyadic]) simp_all
  moreover have "of_int 1 / 2 ^ 3 \<le> rnd (15 / 100)" by (rule rnd_ge [OF _ representable_dyadic]) simp_all
  moreover have "1 / 2 ^ 5 \<le> rnd (5 / 100)" by (rule rnd_pos) simp_all
  ultimately show ?thesis
    using lit_int [of 5] lit_dyadic [of 3 1] lit_int [of 40]
    by (intro that [of "rnd (5 / 100)" "rnd (15 / 100)"])
      (simp_all add: PassMaxZ_def PassMeanZ_def TamperMaxZ_def DriftMaxRatio_def TamperMaxRatio_def lit_def n)
qed

lemma verdict_tamper:
  assumes "CompareToBaseline current baseline = Inr r"
  shows "rp_Verdict r = TAMPER \<longleftrightarrow> (\<exists>d \<in> set (rp_Cells r). fle TamperMaxZ (fabs (cd_Z d)) \<or> fle TamperMaxRatio (fabs (cd_Ratio d)))"
proof -
  obtain d t where c: "TamperMaxZ = Fin 40" "TamperMaxRatio = Fin t" and "0 < d" "d < t" by (rule thresholds)
  then have "\<not> fle TamperMaxZ (Fin 0)" "\<not> fle TamperMaxRatio (Fin 0)" unfolding c by simp_all
  then show ?thesis
    using report_cells(2-4) [OF assms] raises_reach [of "Fin 0" TamperMaxZ "map cd_Z (rp_Cells r)"]
      raises_reach [of "Fin 0" TamperMaxRatio "map cd_Ratio (rp_Cells r)"]
    by (auto simp: classify_def)
qed

lemma raises_not_NaN: "mx \<noteq> NaN \<Longrightarrow> foldl raise mx xs \<noteq> NaN"
  by (induction xs arbitrary: mx) (simp_all add: raise_not_NaN)

lemma raises_within:
  "t \<noteq> NaN \<Longrightarrow> \<not> flt t (Fin 0) \<Longrightarrow> fle (foldl raise (Fin 0) xs) t \<longleftrightarrow> (\<forall>x \<in> set xs. \<not> flt t (fabs x))"
  using raises_exceed [of "Fin 0" t xs] raises_not_NaN [of "Fin 0" xs]
  by (auto simp: fle_cases flt_cases not_less)

lemma raises_attained: "foldl raise mx xs = mx \<or> (\<exists>x \<in> set xs. foldl raise mx xs = fabs x)"
proof (induction xs arbitrary: mx)
  case (Cons x xs)
  show ?case using Cons.IH [of "raise mx x"] by (auto simp: raise_def)
qed simp

lemma raises_largest: "x \<in> set xs \<Longrightarrow> \<not> flt (foldl raise (Fin 0) xs) (fabs x)"
  using raises_exceed [of "Fin 0" "foldl raise (Fin 0) xs" xs] by (auto simp: flt_cases)

lemma verdict_pass:
  assumes "CompareToBaseline current baseline = Inr r"
  shows "rp_Verdict r = PASS \<longleftrightarrow> rp_Verdict r \<noteq> TAMPER \<and> fle (rp_MeanAbsZ r) PassMeanZ \<and>
    (\<forall>d \<in> set (rp_Cells r). \<not> flt PassMaxZ (fabs (cd_Z d)) \<and> \<not> flt DriftMaxRatio (fabs (cd_Ratio d)))"
proof -
  obtain d t where c: "PassMaxZ = Fin 5" "DriftMaxRatio = Fin d" and "0 < d" by (rule thresholds)
  then have "PassMaxZ \<noteq> NaN" "\<not> flt PassMaxZ (Fin 0)" "DriftMaxRatio \<noteq> NaN" "\<not> flt DriftMaxRatio (Fin 0)"
    unfolding c by simp_all
  then have within: "fle (rp_MaxAbsZ r) PassMaxZ \<longleftrightarrow> (\<forall>x \<in> set (rp_Cells r). \<not> flt PassMaxZ (fabs (cd_Z x)))"
    "fle (rp_MaxAbsRatio r) DriftMaxRatio \<longleftrightarrow> (\<forall>x \<in> set (rp_Cells r). \<not> flt DriftMaxRatio (fabs (cd_Ratio x)))"
    using report_cells(2,3) [OF assms] raises_within [of PassMaxZ "map cd_Z (rp_Cells r)"]
      raises_within [of DriftMaxRatio "map cd_Ratio (rp_Cells r)"]
    by auto
  show ?thesis unfolding report_cells(4) [OF assms] classify_def within by auto
qed

section \<open>Equal medians\<close>

definition cell_key :: "core_stats \<Rightarrow> int \<times> loop_kind" where
  "cell_key cs = (cs_Core cs, cs_Loop cs)"

lemma base_map_snoc: "base_map (cells @ [x]) = (base_map cells)(cell_key x \<mapsto> x)"
  by (simp add: base_map_def cell_key_def)

lemma base_map_Some: "base_map cells k = Some b \<Longrightarrow> b \<in> set cells \<and> cell_key b = k"
  by (induction cells rule: rev_induct) (auto simp: base_map_snoc base_map_def [of "[]"] split: if_splits)

lemma base_map_last:
  "base_map cells (c, l) = Some b \<Longrightarrow> \<exists>bs. filter (\<lambda>x. cs_Core x = c \<and> cs_Loop x = l) cells = bs @ [b]"
  by (induction cells rule: rev_induct) (auto simp: base_map_snoc base_map_def [of "[]"] cell_key_def split: if_splits)

lemma base_map_key: "x \<in> set cells \<Longrightarrow> base_map cells (cell_key x) \<noteq> None"
  by (induction cells rule: rev_induct) (auto simp: base_map_snoc)

lemma base_map_distinct:
  assumes "distinct (map cell_key cells)" and "x \<in> set cells"
  shows "base_map cells (cs_Core x, cs_Loop x) = Some x"
proof -
  obtain b where b: "base_map cells (cell_key x) = Some b" using base_map_key [OF assms(2)] by blast
  from base_map_Some [OF b] have "b = x" using assms by (auto simp: distinct_map dest: inj_onD)
  with b show ?thesis by (simp add: cell_key_def)
qed

lemma fdiv_zero: "flt (Fin 0) y \<Longrightarrow> fdiv (Fin 0) y = Fin 0"
  by (cases y) simp_all

lemma same_median:
  assumes "cs_Median cur = Fin a" and "cs_Median b = Fin a"
  shows "cd_Z (cell_drift_of cur b) = Fin 0" and "cd_Ratio (cell_drift_of cur b) = Fin 0"
proof -
  have "fsub (Fin a) (Fin a) = Fin 0" by (simp add: fsub_Fin)
  then show "cd_Z (cell_drift_of cur b) = Fin 0" "cd_Ratio (cell_drift_of cur b) = Fin 0"
    using fdiv_zero by (simp_all add: cell_drift_of_def Let_def assms)
qed

lemma compare_loop_same:
  assumes "\<forall>cur \<in> set curs. \<exists>b a. base (cs_Core cur, cs_Loop cur) = Some b \<and> cs_Median cur = Fin a \<and> cs_Median b = Fin a"
  shows "\<exists>ds. length ds = length curs \<and> compare_loop base curs cells (Fin 0) (Fin 0) (Fin 0) = Inr (cells @ ds, Fin 0, Fin 0, Fin 0)"
  using assms
proof (induction curs arbitrary: cells)
  case (Cons cur rest)
  then obtain b a where b: "base (cs_Core cur, cs_Loop cur) = Some b" "cs_Median cur = Fin a" "cs_Median b = Fin a" by auto
  obtain ds where "length ds = length rest"
    "compare_loop base rest (cells @ [cell_drift_of cur b]) (Fin 0) (Fin 0) (Fin 0) =
      Inr ((cells @ [cell_drift_of cur b]) @ ds, Fin 0, Fin 0, Fin 0)" using Cons by fastforce
  then show ?case using b same_median [OF b(2,3)]
    by (intro exI [of _ "cell_drift_of cur b # ds"]) (simp add: Let_def raise_def fabs_def)
qed simp

lemma same_medians_pass:
  assumes "st_NumCores s = bl_NumCores b" and "st_NumLoops s = bl_NumLoops b"
    and n: "length (st_PerCoreLoop s) = length (bl_PerCoreLoop b)" "st_PerCoreLoop s \<noteq> []" "length (st_PerCoreLoop s) \<le> 2 ^ 53"
    and "\<forall>cur \<in> set (st_PerCoreLoop s). \<exists>x a. base_map (bl_PerCoreLoop b) (cs_Core cur, cs_Loop cur) = Some x \<and>
      cs_Median cur = Fin a \<and> cs_Median x = Fin a"
  shows "\<exists>r. CompareToBaseline s b = Inr r \<and> rp_Verdict r = PASS"
proof -
  obtain ds where ds: "length ds = length (st_PerCoreLoop s)"
    "compare_loop (base_map (bl_PerCoreLoop b)) (st_PerCoreLoop s) [] (Fin 0) (Fin 0) (Fin 0) = Inr (ds, Fin 0, Fin 0, Fin 0)"
    using compare_loop_same [OF assms(6), of "[]"] by auto
  have "int (length ds) \<le> int (2 ^ 53)" using n(3) ds(1) by (simp only: of_nat_le_iff)
  then have "f_of_int (int (length ds)) = Fin (of_nat (length ds))" using f_of_int_exact [of "int (length ds)"] by simp
  then have m: "fdiv (Fin 0) (f_of_int (int (length ds))) = Fin 0" using ds(1) n(2) by simp
  obtain d t where c: "PassMaxZ = Fin 5" "PassMeanZ = Fin (3 / 2)" "TamperMaxZ = Fin 40" "DriftMaxRatio = Fin d" "TamperMaxRatio = Fin t"
    and "0 < d" "d < t" by (rule thresholds)
  then have "classify (Fin 0) (Fin 0) (Fin 0) = PASS" unfolding classify_def c by simp
  then show ?thesis using assms(1,2) n(1) ds(2) m by (simp add: CompareToBaseline_def Let_def)
qed

lemma summary_medians:
  assumes "Summarise arch m = Some s" and "cur \<in> set (st_PerCoreLoop s)"
  shows "\<exists>a. cs_Median cur = Fin a"
proof -
  have "\<exists>col. col \<noteq> [] \<and> cur = summarise_cell col"
  proof -
    obtain c l where "c < mx_NumCores m" "l < mx_NumLoops m" "cur = summarise_cell (cell m c l)" "has_cells m"
      using assms by (auto simp: Summarise_def split: if_splits)
    then show ?thesis by (intro exI [of _ "cell m c l"]) (simp add: has_cells_def list_all_iff)
  qed
  then obtain col where "col \<noteq> []" "cur = summarise_cell col" by blast
  moreover have "map ItersPerSec col \<noteq> []" "\<forall>x \<in> set (map ItersPerSec col). bounded_rate x"
    using \<open>col \<noteq> []\<close> by (simp_all add: rates_bounded)
  from medianMAD_bounded [OF this] obtain a d where "medianMAD (map ItersPerSec col) = (Fin a, Fin d)" .
  ultimately show ?thesis by (simp add: summarise_cell_def Let_def split: prod.splits)
qed

section \<open>Properties\<close>

definition demo_cell :: "int \<Rightarrow> core_stats" where
  "demo_cell c = \<lparr>cs_Core = c, cs_Loop = LoopIntMix, cs_Median = Fin 1, cs_MAD = Fin 0, cs_CV = Fin 0,
     cs_Min = Fin 1, cs_Max = Fin 1, cs_NumSamples = 1\<rparr>"

definition demo_baseline :: baseline where
  "demo_baseline = \<lparr>bl_PerCoreLoop = [demo_cell 0, demo_cell 1], bl_NumCores = 2, bl_NumLoops = 1, bl_NumTrials = 1,
     bl_Arch = [], bl_CreatedAt = 0\<rparr>"

definition demo_stats :: "core_stats list \<Rightarrow> puf_stats" where
  "demo_stats cells = \<lparr>st_PerCoreLoop = cells, st_NumCores = 2, st_NumLoops = 1, st_NumTrials = 1, st_Arch = [], st_DurationMs = Fin 0\<rparr>"

text \<open>
  C31: A report is what the documented policy says of the measurement and the baseline. Their
  numbers of cores, loops and cells agree, and the report has one cell for each cell of the
  measurement, in order: its \<open>z\<close> is the difference of the medians, of that cell and of the last one
  of the baseline with the same core and loop, divided by the larger of the baseline's deviation and 0.002
  times its median (0 when neither is positive), its ratio the difference divided by the
  baseline's median. The mean is the sum of the absolute \<open>z\<close> divided by the number of cells, and the
  maxima are the largest absolute \<open>z\<close> and ratio. The verdict is \<open>TAMPER\<close> exactly when some absolute
  \<open>z\<close> is at least 40 or some absolute ratio at least 0.15; otherwise \<open>PASS\<close> exactly when no absolute
  \<open>z\<close> exceeds 5, no absolute ratio 0.05, and the mean is at most 1.5; otherwise \<open>DRIFT\<close>.
\<close>
theorem compare_verdict:
  assumes "CompareToBaseline current baseline = Inr r"
  shows "st_NumCores current = bl_NumCores baseline \<and> st_NumLoops current = bl_NumLoops baseline \<and>
    length (st_PerCoreLoop current) = length (bl_PerCoreLoop baseline) \<and>
    list_all2 (\<lambda>cur d. \<exists>bs b. filter (\<lambda>x. cs_Core x = cs_Core cur \<and> cs_Loop x = cs_Loop cur) (bl_PerCoreLoop baseline) = bs @ [b] \<and>
        (let diff = fsub (cs_Median cur) (cs_Median b);
             least = fmul (cs_Median b) (lit (2 / 1000));
             mad = (if flt (cs_MAD b) least then least else cs_MAD b)
         in d = \<lparr>cd_Core = cs_Core cur, cd_Loop = cs_Loop cur, cd_BaselineMedian = cs_Median b,
              cd_CurrentMedian = cs_Median cur, cd_BaselineMAD = cs_MAD b,
              cd_Ratio = (if flt (Fin 0) (cs_Median b) then fdiv diff (cs_Median b) else Fin 0),
              cd_Z = (if flt (Fin 0) mad then fdiv diff mad else Fin 0)\<rparr>))
      (st_PerCoreLoop current) (rp_Cells r) \<and>
    rp_MeanAbsZ r = fdiv (foldl (\<lambda>s d. fadd s (fabs (cd_Z d))) (Fin 0) (rp_Cells r)) (f_of_int (int (length (rp_Cells r)))) \<and>
    (rp_MaxAbsZ r = Fin 0 \<or> (\<exists>d \<in> set (rp_Cells r). rp_MaxAbsZ r = fabs (cd_Z d))) \<and>
    (\<forall>d \<in> set (rp_Cells r). \<not> flt (rp_MaxAbsZ r) (fabs (cd_Z d))) \<and>
    (rp_MaxAbsRatio r = Fin 0 \<or> (\<exists>d \<in> set (rp_Cells r). rp_MaxAbsRatio r = fabs (cd_Ratio d))) \<and>
    (\<forall>d \<in> set (rp_Cells r). \<not> flt (rp_MaxAbsRatio r) (fabs (cd_Ratio d))) \<and>
    rp_Verdict r =
      (if \<exists>d \<in> set (rp_Cells r). fle (lit 40) (fabs (cd_Z d)) \<or> fle (lit (15 / 100)) (fabs (cd_Ratio d)) then TAMPER
       else if (\<forall>d \<in> set (rp_Cells r). \<not> flt (lit 5) (fabs (cd_Z d)) \<and> \<not> flt (lit (5 / 100)) (fabs (cd_Ratio d))) \<and>
         fle (rp_MeanAbsZ r) (lit (3 / 2)) then PASS
       else DRIFT)"
proof (intro conjI report_cells(5-8) [OF assms])
  show "list_all2 (\<lambda>cur d. \<exists>bs b. filter (\<lambda>x. cs_Core x = cs_Core cur \<and> cs_Loop x = cs_Loop cur) (bl_PerCoreLoop baseline) = bs @ [b] \<and>
        (let diff = fsub (cs_Median cur) (cs_Median b);
             least = fmul (cs_Median b) (lit (2 / 1000));
             mad = (if flt (cs_MAD b) least then least else cs_MAD b)
         in d = \<lparr>cd_Core = cs_Core cur, cd_Loop = cs_Loop cur, cd_BaselineMedian = cs_Median b,
              cd_CurrentMedian = cs_Median cur, cd_BaselineMAD = cs_MAD b,
              cd_Ratio = (if flt (Fin 0) (cs_Median b) then fdiv diff (cs_Median b) else Fin 0),
              cd_Z = (if flt (Fin 0) mad then fdiv diff mad else Fin 0)\<rparr>))
      (st_PerCoreLoop current) (rp_Cells r)" (is "list_all2 ?P _ _")
  proof (rule list_all2_mono [OF report_cells(1) [OF assms]])
    fix cur d
    assume "\<exists>b. base_map (bl_PerCoreLoop baseline) (cs_Core cur, cs_Loop cur) = Some b \<and> d = cell_drift_of cur b"
    then obtain b bs where "d = cell_drift_of cur b"
      "filter (\<lambda>x. cs_Core x = cs_Core cur \<and> cs_Loop x = cs_Loop cur) (bl_PerCoreLoop baseline) = bs @ [b]"
      using base_map_last by blast
    then show "?P cur d"
      by (intro exI [of _ bs] exI [of _ b]) (simp add: cell_drift_of_def Let_def madFloorRatio_def)
  qed
  show "rp_MaxAbsZ r = Fin 0 \<or> (\<exists>d \<in> set (rp_Cells r). rp_MaxAbsZ r = fabs (cd_Z d))"
    "rp_MaxAbsRatio r = Fin 0 \<or> (\<exists>d \<in> set (rp_Cells r). rp_MaxAbsRatio r = fabs (cd_Ratio d))"
    using report_cells(2,3) [OF assms] raises_attained [of "Fin 0" "map cd_Z (rp_Cells r)"]
      raises_attained [of "Fin 0" "map cd_Ratio (rp_Cells r)"] by auto
  show "\<forall>d \<in> set (rp_Cells r). \<not> flt (rp_MaxAbsZ r) (fabs (cd_Z d))"
    "\<forall>d \<in> set (rp_Cells r). \<not> flt (rp_MaxAbsRatio r) (fabs (cd_Ratio d))"
    using report_cells(2,3) [OF assms] raises_largest by auto
  show "rp_Verdict r =
      (if \<exists>d \<in> set (rp_Cells r). fle (lit 40) (fabs (cd_Z d)) \<or> fle (lit (15 / 100)) (fabs (cd_Ratio d)) then TAMPER
       else if (\<forall>d \<in> set (rp_Cells r). \<not> flt (lit 5) (fabs (cd_Z d)) \<and> \<not> flt (lit (5 / 100)) (fabs (cd_Ratio d))) \<and>
         fle (rp_MeanAbsZ r) (lit (3 / 2)) then PASS
       else DRIFT)"
    using verdict_tamper [OF assms] verdict_pass [OF assms]
    unfolding PassMaxZ_def PassMeanZ_def DriftMaxRatio_def TamperMaxZ_def TamperMaxRatio_def
    by (cases "rp_Verdict r") auto
qed

text \<open>
  A matrix compared with the baseline made from it passes, whatever its timings.
\<close>
theorem own_baseline_passes:
  assumes "Summarise arch m = Some s" and "NewBaseline arch' now m = Some b" and "distinct (map cell_key (st_PerCoreLoop s))"
    and "st_PerCoreLoop s \<noteq> []" and "length (st_PerCoreLoop s) \<le> 2 ^ 53"
  shows "\<exists>r. CompareToBaseline s b = Inr r \<and> rp_Verdict r = PASS"
proof (rule same_medians_pass)
  have b: "bl_PerCoreLoop b = st_PerCoreLoop s" "bl_NumCores b = st_NumCores s" "bl_NumLoops b = st_NumLoops s"
    using assms(1,2) by (auto simp: NewBaseline_def Summarise_def split: if_splits)
  then show "st_NumCores s = bl_NumCores b" "st_NumLoops s = bl_NumLoops b" "length (st_PerCoreLoop s) = length (bl_PerCoreLoop b)"
    by simp_all
  show "\<forall>cur \<in> set (st_PerCoreLoop s). \<exists>x a. base_map (bl_PerCoreLoop b) (cs_Core cur, cs_Loop cur) = Some x \<and>
      cs_Median cur = Fin a \<and> cs_Median x = Fin a"
    using base_map_distinct [OF assms(3)] summary_medians [OF assms(1)] unfolding b by blast
qed (use assms(4,5) in simp_all)

theorem own_baseline_passes_witness:
  "let m = \<lparr>mx_NumCores = 1, mx_NumLoops = 1, mx_NumTrials = 1,
      mx_Samples = [[[\<lparr>ps_Core = 0, ps_Loop = LoopIntMix, ps_Trial = 0, ps_Iterations = 1, ps_ElapsedNs = 1\<rparr>]]], mx_DurationNs = 0\<rparr>
   in \<exists>s b r. Summarise [] m = Some s \<and> NewBaseline [] 0 m = Some b \<and> CompareToBaseline s b = Inr r \<and> rp_Verdict r = PASS"
proof -
  define m where "m = \<lparr>mx_NumCores = 1, mx_NumLoops = 1, mx_NumTrials = 1,
      mx_Samples = [[[\<lparr>ps_Core = 0, ps_Loop = LoopIntMix, ps_Trial = 0, ps_Iterations = 1, ps_ElapsedNs = 1\<rparr>]]], mx_DurationNs = 0\<rparr>"
  have r: "has_cells m" by (simp add: m_def cell_def has_cells_def)
  then obtain s where s: "Summarise [] m = Some s" "length (st_PerCoreLoop s) = 1"
    by (simp add: Summarise_def r) (simp add: m_def)
  obtain b where b: "NewBaseline [] 0 m = Some b" using s(1) by (simp add: NewBaseline_def)
  obtain x where x: "st_PerCoreLoop s = [x]" using s(2) by (cases "st_PerCoreLoop s") auto
  obtain r where "CompareToBaseline s b = Inr r" "rp_Verdict r = PASS"
    using own_baseline_passes [OF s(1) b] x by auto
  then show ?thesis using s(1) b unfolding Let_def m_def [symmetric] by blast
qed

text \<open>
  The guard on the geometry counts the cells and does not look which they are: a measurement
  that reports one cell of the baseline as often as the baseline has cells passes, although every
  other core is missing from it.
\<close>
theorem repeated_cell_passes:
  assumes "distinct (map cell_key (bl_PerCoreLoop b))" and "x \<in> set (bl_PerCoreLoop b)" and "cs_Median x = Fin a"
    and "length (bl_PerCoreLoop b) \<le> 2 ^ 53" and "st_NumCores s = bl_NumCores b" and "st_NumLoops s = bl_NumLoops b"
    and "st_PerCoreLoop s = replicate (length (bl_PerCoreLoop b)) x"
  shows "\<exists>r. CompareToBaseline s b = Inr r \<and> rp_Verdict r = PASS"
proof (rule same_medians_pass [OF assms(5,6)])
  show "\<forall>cur \<in> set (st_PerCoreLoop s). \<exists>x a. base_map (bl_PerCoreLoop b) (cs_Core cur, cs_Loop cur) = Some x \<and>
      cs_Median cur = Fin a \<and> cs_Median x = Fin a"
    using base_map_distinct [OF assms(1,2)] assms(3,7) by auto
qed (use assms(2,4,7) in auto)

theorem repeated_cell_passes_witness:
  "\<exists>r. CompareToBaseline (demo_stats [demo_cell 0, demo_cell 0]) demo_baseline = Inr r \<and> rp_Verdict r = PASS"
  by (rule repeated_cell_passes [where x = "demo_cell 0" and a = 1])
    (simp_all add: demo_baseline_def demo_stats_def demo_cell_def cell_key_def)

theorem compare_verdict_witness:
  "\<exists>r. CompareToBaseline (demo_stats [demo_cell 0, demo_cell 1]) demo_baseline = Inr r \<and>
     list_all2 (\<lambda>cur d. cd_BaselineMedian d = cs_Median cur) [demo_cell 0, demo_cell 1] (rp_Cells r)"
proof -
  have "\<exists>r. CompareToBaseline (demo_stats [demo_cell 0, demo_cell 1]) demo_baseline = Inr r \<and> rp_Verdict r = PASS"
  proof (rule same_medians_pass)
    have d: "distinct (map cell_key (bl_PerCoreLoop demo_baseline))" by (simp add: demo_baseline_def demo_cell_def cell_key_def)
    show "\<forall>cur \<in> set (st_PerCoreLoop (demo_stats [demo_cell 0, demo_cell 1])). \<exists>x a.
        base_map (bl_PerCoreLoop demo_baseline) (cs_Core cur, cs_Loop cur) = Some x \<and> cs_Median cur = Fin a \<and> cs_Median x = Fin a"
    proof
      fix cur assume "cur \<in> set (st_PerCoreLoop (demo_stats [demo_cell 0, demo_cell 1]))"
      then have "cur \<in> set (bl_PerCoreLoop demo_baseline)" "cs_Median cur = Fin 1"
        by (auto simp: demo_stats_def demo_baseline_def demo_cell_def)
      with base_map_distinct [OF d] show "\<exists>x a. base_map (bl_PerCoreLoop demo_baseline) (cs_Core cur, cs_Loop cur) = Some x \<and>
          cs_Median cur = Fin a \<and> cs_Median x = Fin a" by blast
    qed
  qed (simp_all add: demo_stats_def demo_baseline_def)
  then obtain r where r: "CompareToBaseline (demo_stats [demo_cell 0, demo_cell 1]) demo_baseline = Inr r" by blast
  have "length (rp_Cells r) = 2"
    using list_all2_lengthD [OF report_cells(1) [OF r]] by (simp add: demo_stats_def)
  then obtain d e where cells: "rp_Cells r = [d, e]" by (auto simp: numeral_2_eq_2 length_Suc_conv)
  have "cd_BaselineMedian d = Fin 1 \<and> cd_BaselineMedian e = Fin 1"
    using compare_verdict [OF r] unfolding cells
    by (auto simp: demo_stats_def demo_baseline_def demo_cell_def Let_def)
  then show ?thesis using r cells by (auto simp: demo_cell_def)
qed

end
