(* ===== verification/Compare_Bits.thy ===== *)
theory Compare_Bits
  imports Baseline Quantise
begin

text \<open>
  The control plane's side of internal/puf/compare.go: two packed fingerprints are compared by their
  Hamming distance, and \<open>DigestHex\<close> recomputes the digest of one. An error return carries the verdict
  \<open>ERROR\<close> and zeros, so it is the error alone. The theory shows that the verdict is a test on
  integers, and which digests the recomputation agrees with.
\<close>

datatype bits_error =
    Cw_empty
  | Cw_length int int
  | Cw_cells int int int int
  | Cw_distance distance_error

definition DefaultPassRatio :: f64 where "DefaultPassRatio = lit (15 / 100)"
definition DefaultDriftRatio :: f64 where "DefaultDriftRatio = lit (30 / 100)"

definition CompareWith :: "fingerprint \<Rightarrow> fingerprint \<Rightarrow> f64 \<Rightarrow> f64 \<Rightarrow> bits_error + puf_verdict \<times> nat \<times> f64" where
  "CompareWith enrolled attested passRatio driftRatio =
     guard (fp_Length enrolled = 0 \<or> fp_Length attested = 0) Cw_empty (
     guard (fp_Length enrolled \<noteq> fp_Length attested) (Cw_length (fp_Length enrolled) (fp_Length attested)) (
     guard (fp_Cores enrolled \<noteq> fp_Cores attested \<or> fp_Loops enrolled \<noteq> fp_Loops attested)
       (Cw_cells (fp_Cores enrolled) (fp_Loops enrolled) (fp_Cores attested) (fp_Loops attested)) (
     case HammingDistance (fp_Bits enrolled) (fp_Bits attested) (fp_Length enrolled) of
       Inl e \<Rightarrow> Inl (Cw_distance e)
     | Inr d \<Rightarrow>
         let ratio = fdiv (f_of_int (int d)) (f_of_int (fp_Length enrolled)) in
         Inr (if fle ratio passRatio then PASS else if fle ratio driftRatio then DRIFT else TAMPER, d, ratio))))"

definition Compare :: "fingerprint \<Rightarrow> fingerprint \<Rightarrow> bits_error + puf_verdict \<times> nat \<times> f64" where
  "Compare enrolled attested = CompareWith enrolled attested DefaultPassRatio DefaultDriftRatio"

definition DigestHex :: "hash \<Rightarrow> bytes \<Rightarrow> int \<Rightarrow> string" where
  "DigestHex sha3 b n = text_of (hex_encode (sha3 (b @ [word_of_int n])))"

section \<open>The ratio as a test on integers\<close>

text \<open>Rounding keeps two numbers of the unit interval apart that leave room for two multiples of
  \<open>2\<^sup>-\<^sup>5\<^sup>0\<close> between them.\<close>

lemma rnd_less:
  assumes "0 \<le> x" and "x + 2 / 2 ^ 50 \<le> y" and "y \<le> 1"
  shows "rnd x < rnd y"
proof -
  define k where "k = \<lceil>x * 2 ^ 50\<rceil>"
  have k: "x \<le> of_int k / 2 ^ 50" "of_int (k + 1) / 2 ^ 50 \<le> y" "0 \<le> k" "k + 1 \<le> 2 ^ 50"
  proof -
    show lo: "x \<le> of_int k / 2 ^ 50" using le_of_int_ceiling [of "x * 2 ^ 50"] by (simp add: k_def field_simps)
    have "of_int k < x * 2 ^ 50 + 1" unfolding k_def by linarith
    then have up: "of_int (k + 1) < x * 2 ^ 50 + 2" by simp
    also have "\<dots> \<le> y * 2 ^ 50" using assms(2) by (simp add: field_simps)
    finally have y: "of_int (k + 1) < y * 2 ^ 50" .
    then show "of_int (k + 1) / 2 ^ 50 \<le> y" by (simp add: field_simps)
    show "0 \<le> k" using assms(1) by (simp add: k_def)
    have "y * 2 ^ 50 \<le> 2 ^ 50" using assms(3) by simp
    then have "of_int (k + 1) < (2 ^ 50 :: rat)" using y by linarith
    then have "of_int (k + 1) < (of_int (2 ^ 50) :: rat)" by simp
    then show "k + 1 \<le> 2 ^ 50" unfolding of_int_less_iff by simp
  qed
  have "rnd x \<le> of_int k / 2 ^ 50" using k by (intro rnd_le representable_dyadic) simp_all
  also have "\<dots> < of_int (k + 1) / 2 ^ 50" by (simp add: divide_strict_right_mono)
  also have "\<dots> \<le> rnd y" using k by (intro rnd_ge representable_dyadic) simp_all
  finally show ?thesis .
qed

lemma ratio_at_most:
  fixes d n :: int
  assumes "0 \<le> d" and "d \<le> n" and "0 < n" and "n \<le> 2 ^ 32" and "0 \<le> p" and "p \<le> 100"
  shows "fle (fdiv (f_of_int d) (f_of_int n)) (lit (of_int p / 100)) \<longleftrightarrow> 100 * d \<le> p * n"
proof -
  define x p' :: rat where "x = of_int d / of_int n" and "p' = of_int p / 100"
  have n: "(0 :: rat) < of_int n" "(of_int n :: rat) \<le> of_int (2 ^ 32)"
    unfolding of_int_le_iff of_int_0_less_iff by (rule assms(3), rule assms(4))
  have x: "0 \<le> x" "x \<le> 1" using assms(1-3) by (simp_all add: x_def)
  have p: "0 \<le> p'" "p' \<le> 1" using assms(5,6) by (simp_all add: p'_def)
  have f: "norm64 a = Fin (rnd a)" if "0 \<le> a" "a \<le> 1" for a
  proof (rule norm64_fin)
    have "(1 :: rat) \<le> 2 ^ 1023" by (rule one_le_power) simp
    then show "\<bar>a\<bar> \<le> 2 ^ 1023" using that by linarith
  qed
  have small: "\<bar>d\<bar> \<le> 2 ^ 53" "\<bar>n\<bar> \<le> 2 ^ 53" using assms(1-4) by simp_all
  note f_of = f_of_int_exact [OF small(1)] f_of_int_exact [OF small(2)]
  have lhs: "fle (fdiv (f_of_int d) (f_of_int n)) (lit p') \<longleftrightarrow> rnd x \<le> rnd p'"
    unfolding f_of lit_def using n(1) f [OF x] f [OF p] by (simp add: x_def)
  have "x \<le> p' \<longleftrightarrow> (of_int (100 * d) :: rat) \<le> of_int (p * n)"
    using n(1) by (simp add: x_def p'_def field_simps)
  then have cross: "x \<le> p' \<longleftrightarrow> 100 * d \<le> p * n" unfolding of_int_le_iff .
  have "rnd p' < rnd x" if "\<not> 100 * d \<le> p * n"
  proof (rule rnd_less [OF p(1) _ x(2)])
    from that have "(of_int (p * n + 1) :: rat) \<le> of_int (100 * d)" unfolding of_int_le_iff by simp
    then have "(of_int (p * n + 1) :: rat) / (100 * of_int n) \<le> of_int (100 * d) / (100 * of_int n)"
      using n(1) by (simp only: divide_right_mono mult_nonneg_nonneg zero_le_numeral less_imp_le)
    then have "p' + 1 / (100 * of_int n) \<le> x" using n(1) by (simp add: x_def p'_def add_divide_distrib)
    moreover have "(2 :: rat) / 2 ^ 50 \<le> 1 / (100 * of_int n)"
      using n by (simp add: divide_le_eq le_divide_eq mult.commute)
    ultimately show "p' + 2 / 2 ^ 50 \<le> x" by linarith
  qed
  then have "rnd x \<le> rnd p' \<longleftrightarrow> 100 * d \<le> p * n" using cross rnd_mono by (metis not_le)
  then show ?thesis using lhs by (simp only: p'_def)
qed

section \<open>Properties\<close>

lemma diffs_le: "length (diffs a b n) \<le> n"
  unfolding diffs_def using length_filter_le [of _ "[0..<n]"] by simp

text \<open>
  The defaults pass exactly a measurement with at most 15 of 100 bits changed and warn up to 30 of
  100, for fingerprints of the same shape: the float comparison does not blur the limits.
\<close>

theorem default_verdict_counts:
  assumes "0 < fp_Length e" and "fp_Length e \<le> 2 ^ 32" and "fp_Length a = fp_Length e"
    and "fp_Cores a = fp_Cores e" and "fp_Loops a = fp_Loops e"
    and "(nat (fp_Length e) + 7) div 8 \<le> length (fp_Bits e)" and "(nat (fp_Length e) + 7) div 8 \<le> length (fp_Bits a)"
  shows "let d = length (diffs (fp_Bits e) (fp_Bits a) (nat (fp_Length e))) in
    \<exists>r. Compare e a = Inr (if 100 * int d \<le> 15 * fp_Length e then PASS
      else if 100 * int d \<le> 30 * fp_Length e then DRIFT else TAMPER, d, r)"
proof -
  define d where "d = length (diffs (fp_Bits e) (fp_Bits a) (nat (fp_Length e)))"
  have h: "HammingDistance (fp_Bits e) (fp_Bits a) (fp_Length e) = Inr d"
    unfolding HammingDistance_iff using assms by (simp add: d_def)
  have "int d \<le> fp_Length e" using diffs_le [of "fp_Bits e" "fp_Bits a" "nat (fp_Length e)"] assms(1) by (simp add: d_def)
  note at_most = ratio_at_most [OF _ this assms(1,2), simplified]
  have "fle (fdiv (f_of_int (int d)) (f_of_int (fp_Length e))) (lit (15 / 100)) \<longleftrightarrow> 100 * int d \<le> 15 * fp_Length e"
    "fle (fdiv (f_of_int (int d)) (f_of_int (fp_Length e))) (lit (30 / 100)) \<longleftrightarrow> 100 * int d \<le> 30 * fp_Length e"
    using at_most [of 15] at_most [of 30] by simp_all
  then have "\<exists>r. Compare e a = Inr (if 100 * int d \<le> 15 * fp_Length e then PASS
      else if 100 * int d \<le> 30 * fp_Length e then DRIFT else TAMPER, d, r)"
    using assms(1,3-5) by (simp only: Compare_def CompareWith_def DefaultPassRatio_def DefaultDriftRatio_def h)
      (simp add: guard_def Let_def)
  then show ?thesis unfolding d_def Let_def .
qed

text \<open>
  \<open>DigestHex\<close> recomputes the digest of the first quantiser, whatever the length, but for the other
  two it hashes a message without their version byte, which is never the message of the fingerprint.
\<close>

theorem digest_hex_first_version:
  "let f = fingerprint_of sha3 now [] m bs in DigestHex sha3 (fp_Bits f) (fp_Length f) = fp_Digest f"
  using builds_build [of bs] by (simp add: DigestHex_def fingerprint_of_def Let_def)

theorem digest_hex_other_versions:
  "let f = fingerprint_of sha3 now [v] m bs; msg = fp_Bits f @ [word_of_int (fp_Length f)] in
   fp_Digest f = text_of (hex_encode (sha3 (msg @ [v]))) \<and> DigestHex sha3 (fp_Bits f) (fp_Length f) = text_of (hex_encode (sha3 msg))"
  using builds_build [of bs] by (simp add: DigestHex_def fingerprint_of_def Let_def)

end
