(* ===== verification/Histogram.thy ===== *)
theory Histogram
  imports Prelude Float64
begin

text \<open>
  The digest of an epoch (internal/histogram/epoch.go) and the two-character genotype of the
  sculpture (internal/sculpture/builder.go). \<open>math.Log1p\<close> is a parameter.
\<close>

section \<open>Samples and quantiles\<close>

record sample_epoch =
  ep_Syscall :: string
  ep_samples :: "int list" \<comment> \<open>of 64 bits\<close>

record hdr =
  hh_Syscall :: string
  hh_TotalCount :: nat
  hh_P50Ns :: f64
  hh_P90Ns :: f64
  hh_P99Ns :: f64
  hh_P999Ns :: f64
  hh_MeanNs :: f64
  hh_StddevNs :: f64

definition NewEpoch :: "string \<Rightarrow> sample_epoch" where
  "NewEpoch name = \<lparr>ep_Syscall = name, ep_samples = []\<rparr>"

definition Add :: "sample_epoch \<Rightarrow> int \<Rightarrow> sample_epoch" where
  "Add e ns = (if ns \<le> 0 then e else e\<lparr>ep_samples := ep_samples e @ [ns]\<rparr>)"

definition AddAll :: "sample_epoch \<Rightarrow> int list \<Rightarrow> sample_epoch" where
  "AddAll e ns = e\<lparr>ep_samples := ep_samples e @ ns\<rparr>"

definition quantile_idx :: "nat \<Rightarrow> f64 \<Rightarrow> int" where
  "quantile_idx n q = (let idx = int_of_f (fmul q (f_of_int (int n))) in if int n \<le> idx then int n - 1 else idx)"

definition quantile :: "int list \<Rightarrow> f64 \<Rightarrow> f64" where
  "quantile xs q = (if xs = [] then Fin 0 else f_of_int (xs ! nat (quantile_idx (length xs) q)))"

definition mean_ns :: "int list \<Rightarrow> f64" where
  "mean_ns v = fdiv (foldl (\<lambda>s x. fadd s (f_of_int x)) (Fin 0) v) (f_of_int (int (length v)))"

text \<open>Newton's iteration from the argument itself: \<open>n\<close> rounds are left.\<close>

definition newton_step :: "f64 \<Rightarrow> f64 \<Rightarrow> f64" where
  "newton_step x z = fsub z (fdiv (fsub (fmul z z) x) (fmul (Fin 2) z))"

definition sqrt_ns :: "f64 \<Rightarrow> f64" where
  "sqrt_ns x = (if fle x (Fin 0) then Fin 0 else (newton_step x ^^ 16) x)"

definition stddev_ns :: "int list \<Rightarrow> f64 \<Rightarrow> f64" where
  "stddev_ns v m = sqrt_ns (fdiv (foldl (\<lambda>s x. let d = fsub (f_of_int x) m in fadd s (fmul d d)) (Fin 0) v)
     (f_of_int (int (length v))))"

text \<open>\<open>Digest\<close> sorts the samples of the epoch in place.\<close>

definition Digest :: "sample_epoch \<Rightarrow> hdr \<times> sample_epoch" where
  "Digest e = (let h = \<lparr>hh_Syscall = ep_Syscall e, hh_TotalCount = length (ep_samples e), hh_P50Ns = Fin 0, hh_P90Ns = Fin 0,
       hh_P99Ns = Fin 0, hh_P999Ns = Fin 0, hh_MeanNs = Fin 0, hh_StddevNs = Fin 0\<rparr>
     in if ep_samples e = [] then (h, e)
        else let s = sort (ep_samples e); m = mean_ns s
          in (h\<lparr>hh_P50Ns := quantile s (lit (1 / 2)), hh_P90Ns := quantile s (lit (9 / 10)), hh_P99Ns := quantile s (lit (99 / 100)),
                hh_P999Ns := quantile s (lit (999 / 1000)), hh_MeanNs := m, hh_StddevNs := stddev_ns s m\<rparr>,
              e\<lparr>ep_samples := s\<rparr>))"

section \<open>The sculpture\<close>

definition BuildVertices :: "(f64 \<Rightarrow> f64) \<Rightarrow> hdr list \<Rightarrow> f64 list" where
  "BuildVertices log1p hists =
     concat (map (\<lambda>h. [log1p (hh_P50Ns h), log1p (hh_P90Ns h), log1p (hh_P99Ns h)]) (take 8 hists)) @
     replicate (3 * (8 - length hists)) (Fin 0)"

definition clamp01 :: "f64 \<Rightarrow> f64" where
  "clamp01 x = (if flt x (Fin 0) then Fin 0 else if flt (Fin 1) x then Fin 1 else x)"

text \<open>The index of \<open>n\<close> characters; a rune is 32 bits.\<close>

definition scaled :: "int \<Rightarrow> f64 \<Rightarrow> int" where
  "scaled n x = (let i = int_of_f (fmul (clamp01 x) (f_of_int n)) in if n \<le> i then n - 1 else i)"

definition Genotype :: "f64 list \<Rightarrow> 32 word list" where
  "Genotype v = (if v = [] then [65, 48] else
     let avg = fdiv (foldl fadd (Fin 0) v) (f_of_int (int (length v)));
         letterIdx = scaled 26 (fdiv (fsub avg (Fin 6)) (Fin 10));
         p99 = map (\<lambda>j. v ! j) (filter (\<lambda>j. j mod 3 = 2) [0..<length v]);
         vars = foldl (\<lambda>s x. let d = fsub x avg in fadd s (fmul d d)) (Fin 0) p99;
         vars = fdiv vars (f_of_int (int (length v div 3)));
         digit = scaled 10 (fdiv vars (Fin 30))
     in [word_of_int (65 + letterIdx), word_of_int (48 + digit)])"

section \<open>Relative error\<close>

lemma rnd_relative:
  assumes "1 \<le> 2 ^ 100 * x"
  shows "rnd x \<le> x * (1 + 1 / 2 ^ 52)" and "x * (1 - 1 / 2 ^ 52) \<le> rnd x"
proof -
  have "0 < 2 ^ 100 * x" by (rule less_le_trans [OF _ assms]) simp
  then have x: "0 < x" by (simp add: zero_less_mult_iff)
  let ?k = "ulp_exp x"
  have "1 / 2 ^ 100 \<le> x" using assms by (simp add: field_simps)
  then have "- 101 \<le> lead x"
    using lead_bounds(2) [OF x] power_int_increasing [of "lead x + 1" "- 100" "2 :: rat"]
    by (cases "- 101 \<le> lead x") (auto simp: power_int_minus_divide)
  then have k: "?k = lead x - 52" using x by (simp add: ulp_exp_def)
  have p: "0 < (2 :: rat) powi ?k" by simp
  have "\<bar>of_int (half_even (x / 2 powi ?k)) - x / 2 powi ?k\<bar> \<le> 1 / 2" by (rule half_even_error)
  moreover have "rnd x - x = (of_int (half_even (x / 2 powi ?k)) - x / 2 powi ?k) * 2 powi ?k"
    using x p by (simp add: rnd_def left_diff_distrib)
  ultimately have "\<bar>rnd x - x\<bar> \<le> 1 / 2 * 2 powi ?k" using p by (simp add: abs_mult mult_right_mono)
  also have "\<dots> \<le> 2 powi ?k" using p by simp
  also have "\<dots> = 2 powi lead x / 2 ^ 52" by (simp add: k power_int_diff)
  also have "\<dots> \<le> x / 2 ^ 52" using lead_bounds(1) [OF x] by (simp add: divide_right_mono)
  finally have "rnd x - x \<le> x / 2 ^ 52" "- (rnd x - x) \<le> x / 2 ^ 52" unfolding abs_le_iff by simp_all
  then show "rnd x \<le> x * (1 + 1 / 2 ^ 52)" "x * (1 - 1 / 2 ^ 52) \<le> rnd x" by (simp_all add: algebra_simps)
qed


text \<open>A round of the iteration at most halves the value, up to rounding.\<close>

lemma newton_step_half:
  assumes z: "1 \<le> z" "z \<le> 2 ^ k" and x: "1 \<le> x" "x \<le> z * 2 ^ 30" and k: "40 \<le> k" "k \<le> 505"
  obtains z' where "newton_step (Fin x) (Fin z) = Fin z'" "z * (1 / 2 - 1 / 2 ^ 48) \<le> z'" "z' \<le> 2 ^ (k + 1)"
proof -
  define u where "u = (1 / 2 ^ 52 :: rat)"
  have u: "0 < u" "u \<le> 1 / 2 ^ 52" by (simp_all add: u_def)
  define a where "a = rnd (z * z)"
  have "z * z \<le> 2 ^ k * 2 ^ k" using z by (intro mult_mono) simp_all
  then have zz: "1 \<le> z * z" "z * z \<le> 2 ^ (2 * k)" using z mult_mono [of 1 z 1 z] by (simp_all add: mult_2 power_add)
  then have a: "norm64 (z * z) = Fin a" "a \<le> 2 ^ (2 * k)"
    using k(2) rnd_le [OF zz(2) representable_pow2] by (simp_all add: a_def norm64_bounded [of _ "2 * k"])
  have "1 \<le> 2 ^ 100 * (z * z)" using zz(1) by simp
  from rnd_relative [OF this] have a1: "a \<le> z * z * (1 + u)" "1 / 2 \<le> a"
    using zz(1) by (simp_all add: a_def u_def)
  define b where "b = rnd (a - x)"
  have x2: "x \<le> 2 ^ (2 * k)"
  proof -
    have "z * 2 ^ 30 \<le> 2 ^ k * 2 ^ 30" using z(2) by (rule mult_right_mono) simp
    with x(2) have "x \<le> 2 ^ k * 2 ^ 30" by (rule order_trans)
    also have "\<dots> \<le> 2 ^ (2 * k)" unfolding power_add [symmetric] using k by (intro power_increasing) simp_all
    finally show ?thesis .
  qed
  then have b: "norm64 (a - x) = Fin b" using a a1 x k by (simp add: b_def norm64_bounded [of _ "2 * k"] abs_le_iff)
  have b1: "b \<le> a" unfolding b_def a_def by (rule rnd_le [OF _ representable_rnd]) (use x in simp)
  have "rnd (- x) \<le> b" unfolding b_def using a1(2) by (intro rnd_mono) simp
  moreover have "rnd x \<le> x * (1 + 1 / 2 ^ 52)" by (rule rnd_relative) (use x in simp)
  then have "rnd x \<le> 2 * x" using x by (simp add: algebra_simps)
  ultimately have b2: "- (2 * x) \<le> b" by (simp add: rnd_minus)
  define d where "d = rnd (2 * z)"
  have z2: "2 * z \<le> 2 ^ (k + 1)" using z by simp
  have d: "norm64 (2 * z) = Fin d" unfolding d_def using z z2 k by (intro norm64_bounded [of _ "k + 1"]) simp_all
  have d1: "2 * z * (1 - u) \<le> d" unfolding d_def u_def by (rule rnd_relative) (use z in simp)
  have "2 * 1 * (1 / 2) \<le> 2 * z * (1 - u)" using z u by (intro mult_mono) simp_all
  with d1 have dpos: "1 \<le> d" by simp
  define q where "q = rnd (b / d)"
  have bd1: "b / d \<le> z / 2 * (1 + 1 / 2 ^ 50)"
  proof -
    have "b \<le> z * z * (1 + u)" using a1 b1 by simp
    also have "\<dots> \<le> z * z * ((1 + 1 / 2 ^ 50) * (1 - u))" using z by (intro mult_left_mono) (simp_all add: u_def)
    also have "\<dots> = z / 2 * (1 + 1 / 2 ^ 50) * (2 * z * (1 - u))" by simp
    also have "\<dots> \<le> z / 2 * (1 + 1 / 2 ^ 50) * d" using d1 z by (intro mult_left_mono) simp_all
    finally show ?thesis using dpos by (simp add: divide_le_eq)
  qed
  have bd2: "- (2 ^ 31) \<le> b / d"
  proof -
    have "2 * x \<le> z * 2 ^ 31" using x by simp
    also have "\<dots> = 2 ^ 31 * (z * 1)" by simp
    also have "\<dots> \<le> 2 ^ 31 * (z * (2 * (1 - u)))" using z u by (intro mult_left_mono) simp_all
    also have "\<dots> \<le> 2 ^ 31 * d" using d1 by (intro mult_left_mono) (simp_all add: algebra_simps)
    finally have "- (2 ^ 31) * d \<le> b" using b2 by simp
    then show ?thesis using dpos by (simp add: le_divide_eq)
  qed
  have p31: "(2 :: rat) ^ 31 \<le> 2 ^ k" using k by (intro power_increasing) simp_all
  have "z / 2 * (1 + 1 / 2 ^ 50) \<le> z" using z by simp
  then have "b / d \<le> 2 ^ k" using bd1 z(2) by (meson order_trans)
  moreover have "- (b / d) \<le> 2 ^ k" using bd2 p31 by linarith
  ultimately have "\<bar>b / d\<bar> \<le> 2 ^ k" by (rule abs_leI)
  then have q: "norm64 (b / d) = Fin q" using k by (simp add: q_def norm64_bounded [of _ k])
  have q2: "- (2 ^ 31) \<le> q"
    unfolding q_def using bd2 representable_pow2 [of 31] by (intro rnd_ge) simp_all
  have q1: "q \<le> z / 2 * (1 + 1 / 2 ^ 49)"
  proof -
    let ?m = "z / 2 * (1 + 1 / 2 ^ 50)"
    have "q \<le> rnd ?m" unfolding q_def by (rule rnd_mono [OF bd1])
    also have "rnd ?m \<le> ?m * (1 + 1 / 2 ^ 52)" by (rule rnd_relative) (use z in simp)
    also have "\<dots> \<le> z / 2 * (1 + 1 / 2 ^ 49)" using z by (simp add: algebra_simps)
    finally show ?thesis .
  qed
  define r where "r = rnd (z - q)"
  have zq: "z / 2 * (1 - 1 / 2 ^ 49) \<le> z - q" using q1 by (simp add: algebra_simps)
  have zq2: "z - q \<le> 2 ^ (k + 1)" using q2 z p31 by simp
  have "0 \<le> z / 2 * (1 - 1 / 2 ^ 49)" using z by simp
  with zq zq2 k have r: "norm64 (z - q) = Fin r" by (simp add: r_def norm64_bounded [of _ "k + 1"])
  have r1: "z * (1 / 2 - 1 / 2 ^ 48) \<le> r"
  proof -
    let ?m = "z / 2 * (1 - 1 / 2 ^ 49)"
    have "z * (1 / 2 - 1 / 2 ^ 48) \<le> ?m * (1 - 1 / 2 ^ 52)" using z by (simp add: algebra_simps)
    also have "\<dots> \<le> rnd ?m" by (rule rnd_relative) (use z in simp)
    also have "\<dots> \<le> r" unfolding r_def by (rule rnd_mono [OF zq])
    finally show ?thesis .
  qed
  have r2: "r \<le> 2 ^ (k + 1)" unfolding r_def by (rule rnd_le [OF zq2 representable_pow2])
  have "newton_step (Fin x) (Fin z) = Fin r"
    unfolding newton_step_def fmul.simps a(1) d fsub_Fin b using dpos q r by (simp add: fsub_Fin)
  then show ?thesis using r1 r2 by (rule that)
qed


text \<open>Sixteen rounds from \<open>x\<close> end no lower than \<open>x / 2 ^ 17\<close>.\<close>

lemma newton_rounds:
  assumes "2 ^ 36 \<le> x" "x \<le> 2 ^ k" "40 \<le> k" "k \<le> 480" and "n \<le> 16"
  shows "\<exists>z. (newton_step (Fin x) ^^ n) (Fin x) = Fin z \<and> x * (1 / 2 - 1 / 2 ^ 48) ^ n \<le> z \<and> z \<le> 2 ^ (k + n)"
  using assms(5)
proof (induction n)
  case (Suc n)
  then obtain z where z: "(newton_step (Fin x) ^^ n) (Fin x) = Fin z" "x * (1 / 2 - 1 / 2 ^ 48) ^ n \<le> z" "z \<le> 2 ^ (k + n)"
    by auto
  have "(1 / 4 :: rat) ^ 15 \<le> (1 / 4) ^ n" using Suc.prems by (intro power_decreasing) simp_all
  also have "\<dots> \<le> (1 / 2 - 1 / 2 ^ 48 :: rat) ^ n" by (rule power_mono) simp_all
  finally have c: "1 / 2 ^ 30 \<le> (1 / 2 - 1 / 2 ^ 48 :: rat) ^ n" by (simp add: power_divide)
  have "x * (1 / 2 ^ 30) \<le> z"
    by (rule order_trans [OF _ z(2)]) (use c assms(1) in \<open>intro mult_left_mono; simp\<close>)
  then have x: "x \<le> z * 2 ^ 30" "1 \<le> z" using assms(1) by (simp_all add: field_simps)
  obtain z' where z': "newton_step (Fin x) (Fin z) = Fin z'" "z * (1 / 2 - 1 / 2 ^ 48) \<le> z'" "z' \<le> 2 ^ (k + n + 1)"
    using newton_step_half [OF x(2) z(3) _ x(1)] assms Suc.prems by auto
  have "x * (1 / 2 - 1 / 2 ^ 48) ^ n * (1 / 2 - 1 / 2 ^ 48) \<le> z * (1 / 2 - 1 / 2 ^ 48)"
    using z(2) by (rule mult_right_mono) simp
  then have "x * (1 / 2 - 1 / 2 ^ 48) ^ Suc n \<le> z'" using z'(2) by (simp add: mult.assoc mult.commute)
  then show ?case using z(1) z' by simp
qed (use assms in simp)

lemma sqrt_ns_large:
  assumes "2 ^ 36 \<le> x" "x \<le> 2 ^ 480"
  shows "\<exists>z. sqrt_ns (Fin x) = Fin z \<and> x / 2 ^ 17 \<le> z"
proof -
  obtain z where z: "(newton_step (Fin x) ^^ 16) (Fin x) = Fin z" "x * (1 / 2 - 1 / 2 ^ 48) ^ 16 \<le> z"
    using newton_rounds [OF assms(1,2), of 16] by auto
  have "1 / 2 ^ 17 \<le> (1 / 2 - 1 / 2 ^ 48 :: rat) ^ 16" by (simp add: power_divide)
  then have "x * (1 / 2 ^ 17) \<le> x * (1 / 2 - 1 / 2 ^ 48) ^ 16" using assms(1) by (intro mult_left_mono) simp_all
  then have "x / 2 ^ 17 \<le> z" using z(2) by simp
  moreover have "\<not> fle (Fin x) (Fin 0)" using assms(1) by simp
  ultimately show ?thesis using z(1) by (simp only: sqrt_ns_def if_False) simp
qed

section \<open>Order of the quantiles\<close>

lemma idx_bounded:
  assumes "0 \<le> a" "a \<le> 1" and "0 < n" "n \<le> 2 ^ 53"
  shows "quantile_idx n (Fin a) = min (int n - 1) \<lfloor>rnd (a * of_nat n)\<rfloor>" and "0 \<le> \<lfloor>rnd (a * of_nat n)\<rfloor>"
proof -
  have "int n \<le> int (2 ^ 53)" using assms(4) by (simp only: of_nat_le_iff)
  then have f: "f_of_int (int n) = Fin (of_nat n)" using f_of_int_exact [of "int n"] by simp
  have n53: "(of_nat n :: rat) \<le> of_nat (2 ^ 53)" using assms(4) by (simp only: of_nat_le_iff)
  have p: "0 \<le> a * of_nat n" "a * of_nat n \<le> of_nat n"
    using assms mult_right_mono [of a 1 "of_nat n"] by simp_all
  then have b: "\<bar>a * of_nat n\<bar> \<le> 2 ^ 53" using n53 by simp
  have r: "0 \<le> rnd (a * of_nat n)" "rnd (a * of_nat n) \<le> 2 ^ 53"
    using rnd_nonneg [OF p(1)] rnd_abs_le [OF b] by simp_all
  then have "\<lfloor>rnd (a * of_nat n)\<rfloor> \<le> \<lfloor>2 ^ 53 :: rat\<rfloor>" by (intro floor_mono)
  then have fl: "0 \<le> \<lfloor>rnd (a * of_nat n)\<rfloor>" "\<lfloor>rnd (a * of_nat n)\<rfloor> \<le> 2 ^ 53" using r(1) by simp_all
  then show "0 \<le> \<lfloor>rnd (a * of_nat n)\<rfloor>" by simp
  have "norm64 (a * of_nat n) = Fin (rnd (a * of_nat n))" by (rule norm64_bounded [OF b]) simp
  then have "int_of_f (fmul (Fin a) (f_of_int (int n))) = \<lfloor>rnd (a * of_nat n)\<rfloor>"
    using r(1) fl by (simp add: f int_of_f_def Let_def)
  then show "quantile_idx n (Fin a) = min (int n - 1) \<lfloor>rnd (a * of_nat n)\<rfloor>"
    using fl by (simp add: quantile_idx_def Let_def min_def)
qed

lemma f_of_int_mono: "m \<le> n \<Longrightarrow> \<bar>m\<bar> \<le> 2 ^ 63 \<Longrightarrow> \<bar>n\<bar> \<le> 2 ^ 63 \<Longrightarrow> fle (f_of_int m) (f_of_int n)"
proof -
  assume m: "m \<le> n" "\<bar>m\<bar> \<le> 2 ^ 63" "\<bar>n\<bar> \<le> 2 ^ 63"
  have f: "f_of_int i = Fin (rnd (of_int i))" if "\<bar>i\<bar> \<le> 2 ^ 63" for i
  proof -
    have "\<bar>of_int i :: rat\<bar> \<le> of_int (2 ^ 63)" using that unfolding of_int_abs [symmetric] of_int_le_iff .
    then have "\<bar>of_int i :: rat\<bar> \<le> 2 ^ 63" by simp
    then show ?thesis unfolding f_of_int_def by (rule norm64_bounded) simp
  qed
  have "rnd (of_int m) \<le> rnd (of_int n)" using m(1) by (intro rnd_mono) simp
  then show ?thesis using m(2,3) by (simp add: f)
qed

lemma quantile_mono:
  assumes "0 \<le> a" "a \<le> b" "b \<le> 1" and "sorted xs" "\<forall>x \<in> set xs. \<bar>x\<bar> \<le> 2 ^ 63" "length xs \<le> 2 ^ 53"
  shows "fle (quantile xs (Fin a)) (quantile xs (Fin b))"
proof (cases "xs = []")
  case False
  then have n: "0 < length xs" by simp
  define i j where "i = nat (quantile_idx (length xs) (Fin a))" and "j = nat (quantile_idx (length xs) (Fin b))"
  have ab: "0 \<le> a" "a \<le> 1" "0 \<le> b" using assms by simp_all
  note ia = idx_bounded [OF ab(1,2) n assms(6)] and jb = idx_bounded [OF ab(3) assms(3) n assms(6)]
  have "\<lfloor>rnd (a * of_nat (length xs))\<rfloor> \<le> \<lfloor>rnd (b * of_nat (length xs))\<rfloor>"
    using assms(2) by (intro floor_mono rnd_mono mult_right_mono) simp_all
  then have ij: "i \<le> j" unfolding i_def j_def ia(1) jb(1) by (intro nat_mono) auto
  have "j \<le> nat (int (length xs) - 1)" unfolding j_def jb(1) by (intro nat_mono) simp
  then have jl: "j < length xs" using n by linarith
  then have "xs ! i \<le> xs ! j" using sorted_nth_mono [OF assms(4) ij jl] by simp
  then have "fle (f_of_int (xs ! i)) (f_of_int (xs ! j))"
    using ij jl assms(5) by (intro f_of_int_mono) auto
  then show ?thesis using False by (simp add: quantile_def i_def j_def)
qed (simp add: quantile_def)

lemma quantile_lits:
  obtains b c d where "lit (1 / 2) = Fin (1 / 2)" "lit (9 / 10) = Fin b" "lit (99 / 100) = Fin c" "lit (999 / 1000) = Fin d"
    "1 / 2 \<le> b" "b \<le> c" "c \<le> d" "d \<le> 1"
proof -
  have n: "norm64 x = Fin (rnd x)" if "\<bar>x\<bar> \<le> 1" for x
    using that by (intro norm64_bounded [of _ 0]) simp_all
  have "1 / 2 ^ 1 \<le> rnd (9 / 10)" by (rule rnd_pos) simp_all
  moreover have "rnd (9 / 10) \<le> rnd (99 / 100)" "rnd (99 / 100) \<le> rnd (999 / 1000)" by (rule rnd_mono; simp)+
  moreover have "rnd (999 / 1000) \<le> of_int 1" by (rule rnd_le [OF _ representable_of_int]) simp_all
  ultimately show ?thesis using lit_dyadic [of 1 1]
    by (intro that [of "rnd (9 / 10)" "rnd (99 / 100)" "rnd (999 / 1000)"]) (simp_all add: lit_def n)
qed

lemma digest_ordered:
  assumes "\<forall>x \<in> set (ep_samples e). \<bar>x\<bar> \<le> 2 ^ 63" and "length (ep_samples e) \<le> 2 ^ 53"
  shows "fle (hh_P50Ns (fst (Digest e))) (hh_P90Ns (fst (Digest e)))" and "fle (hh_P90Ns (fst (Digest e))) (hh_P99Ns (fst (Digest e)))"
    and "fle (hh_P99Ns (fst (Digest e))) (hh_P999Ns (fst (Digest e)))"
proof -
  obtain b c d where l: "lit (1 / 2) = Fin (1 / 2)" "lit (9 / 10) = Fin b" "lit (99 / 100) = Fin c" "lit (999 / 1000) = Fin d"
    and o: "1 / 2 \<le> b" "b \<le> c" "c \<le> d" "d \<le> 1" by (rule quantile_lits)
  have q: "fle (quantile (sort (ep_samples e)) (Fin x)) (quantile (sort (ep_samples e)) (Fin y))" if "0 \<le> x" "x \<le> y" "y \<le> 1" for x y
    by (rule quantile_mono [OF that]) (use assms in simp_all)
  show "fle (hh_P50Ns (fst (Digest e))) (hh_P90Ns (fst (Digest e)))" "fle (hh_P90Ns (fst (Digest e))) (hh_P99Ns (fst (Digest e)))"
    "fle (hh_P99Ns (fst (Digest e))) (hh_P999Ns (fst (Digest e)))"
    using q [of "1 / 2" b] q [of b c] q [of c d] o by (simp_all add: Digest_def Let_def l)
qed

section \<open>The characters of the genotype\<close>

lemma scaled_range:
  assumes "0 < n" "n \<le> 2 ^ 30"
  shows "0 \<le> scaled n (Fin x) \<and> scaled n (Fin x) < n"
proof -
  define y where "y = (if x < 0 then 0 else if 1 < x then 1 else x)"
  have y: "clamp01 (Fin x) = Fin y" "0 \<le> y" "y \<le> 1"
    by (simp_all add: clamp01_def y_def cong: if_cong)
  have f: "f_of_int n = Fin (of_int n)" using f_of_int_exact [of n] assms by simp
  have n0: "(0 :: rat) \<le> of_int n" using assms by simp
  have "(of_int n :: rat) \<le> of_int (2 ^ 30)" using assms(2) by (simp only: of_int_le_iff)
  then have n30: "(of_int n :: rat) \<le> 2 ^ 30" by simp
  have p: "0 \<le> y * of_int n" "y * of_int n \<le> of_int n" using y n0 mult_right_mono [OF y(3) n0] by simp_all
  then have b: "\<bar>y * of_int n\<bar> \<le> 2 ^ 30" using n30 by simp
  have r: "0 \<le> rnd (y * of_int n)" using rnd_nonneg [OF p(1)] .
  have "norm64 (y * of_int n) = Fin (rnd (y * of_int n))" by (rule norm64_bounded [OF b]) simp
  moreover have "rnd (y * of_int n) \<le> 2 ^ 30" using rnd_abs_le [OF b] by simp
  then have "\<lfloor>rnd (y * of_int n)\<rfloor> \<le> \<lfloor>2 ^ 30 :: rat\<rfloor>" by (intro floor_mono)
  moreover have "0 \<le> \<lfloor>rnd (y * of_int n)\<rfloor>" using r by simp
  ultimately have "0 \<le> int_of_f (fmul (clamp01 (Fin x)) (f_of_int n))" using r by (simp add: y(1) f int_of_f_def Let_def)
  then show ?thesis using assms by (simp add: scaled_def Let_def)
qed

text \<open>Sums of bounded values stay finite.\<close>

lemma sum_bounded:
  assumes "\<forall>x \<in> set xs. \<exists>r. f x = Fin r \<and> \<bar>r\<bar> \<le> of_int B" and "int (n + length xs) * B \<le> 2 ^ 53" and "0 \<le> B"
    and "\<bar>a\<bar> \<le> of_int (int n * B)"
  shows "\<exists>b. foldl (\<lambda>s x. fadd s (f x)) (Fin a) xs = Fin b \<and> \<bar>b\<bar> \<le> of_int (int (n + length xs) * B)"
  using assms
proof (induction xs arbitrary: n a)
  case (Cons x xs)
  obtain r where r: "f x = Fin r" "\<bar>r\<bar> \<le> of_int B" using Cons.prems(1) by auto
  let ?m = "int (Suc n) * B"
  have ar: "\<bar>a + r\<bar> \<le> of_int ?m" using Cons.prems(4) r(2) by (simp add: algebra_simps)
  have "?m \<le> int (n + length (x # xs)) * B" using Cons.prems(3) by (intro mult_right_mono) simp_all
  then have m: "?m \<le> 2 ^ 53" "0 \<le> ?m" using Cons.prems(2,3) by simp_all
  have "(of_int ?m :: rat) \<le> of_int (2 ^ 53)" using m(1) by (simp only: of_int_le_iff)
  then have "\<bar>a + r\<bar> \<le> 2 ^ 53" using ar by (simp del: of_int_mult)
  then have n: "norm64 (a + r) = Fin (rnd (a + r))" by (rule norm64_bounded) simp
  have i: "- of_int ?m \<le> a + r" "a + r \<le> of_int ?m" using ar unfolding abs_le_iff by linarith+
  have rep: "representable (of_int ?m)" "representable (of_int (- ?m))"
    using m by (simp_all only: representable_of_int abs_minus abs_of_nonneg)
  have "rnd (a + r) \<le> of_int ?m" by (rule rnd_le [OF i(2) rep(1)])
  moreover have "of_int (- ?m) \<le> rnd (a + r)" by (rule rnd_ge [OF _ rep(2)]) (use i(1) in simp)
  ultimately have b: "\<bar>rnd (a + r)\<bar> \<le> of_int ?m" by (intro abs_leI) linarith+
  have "int (Suc n + length xs) * B \<le> 2 ^ 53" using Cons.prems(2) by simp
  from Cons.IH [OF _ this Cons.prems(3) b] Cons.prems(1) n r(1) show ?case by simp
qed simp

lemma mean_bounded:
  assumes "\<bar>b\<bar> \<le> of_int (int n * B)" and "0 < n" "n \<le> 2 ^ 50" "0 \<le> B" "B \<le> 2 ^ 53"
  shows "\<exists>c. fdiv (Fin b) (f_of_int (int n)) = Fin c \<and> \<bar>c\<bar> \<le> of_int B"
proof -
  have "int n \<le> int (2 ^ 50)" using assms(3) by (simp only: of_nat_le_iff)
  then have f: "f_of_int (int n) = Fin (of_nat n)" using f_of_int_exact [of "int n"] by simp
  have q: "\<bar>b / of_nat n\<bar> \<le> of_int B" using assms(1,2) by (simp add: abs_divide divide_le_eq mult.commute)
  have "(of_int B :: rat) \<le> of_int (2 ^ 53)" using assms(5) by (simp only: of_int_le_iff)
  then have "\<bar>b / of_nat n\<bar> \<le> 2 ^ 53" using q by simp
  then have n: "norm64 (b / of_nat n) = Fin (rnd (b / of_nat n))" by (rule norm64_bounded) simp
  have i: "- of_int B \<le> b / of_nat n" "b / of_nat n \<le> of_int B" using q unfolding abs_le_iff by linarith+
  have rep: "representable (of_int B)" "representable (of_int (- B))"
    using assms(4,5) by (simp_all only: representable_of_int abs_minus abs_of_nonneg)
  have "rnd (b / of_nat n) \<le> of_int B" by (rule rnd_le [OF i(2) rep(1)])
  moreover have "of_int (- B) \<le> rnd (b / of_nat n)" by (rule rnd_ge [OF _ rep(2)]) (use i(1) in simp)
  ultimately have "\<bar>rnd (b / of_nat n)\<bar> \<le> of_int B" by (intro abs_leI) linarith+
  then show ?thesis using f assms(2) n by simp
qed

lemma square_bounded:
  assumes "\<bar>x\<bar> \<le> 2 ^ 10" "\<bar>c\<bar> \<le> 2 ^ 10"
  shows "\<exists>r. (let d = fsub (Fin x) (Fin c) in fmul d d) = Fin r \<and> \<bar>r\<bar> \<le> of_int (2 ^ 22)"
proof -
  have xc: "\<bar>x - c\<bar> \<le> 2 ^ 11" using assms abs_triangle_ineq4 [of x c] by simp
  define d where "d = rnd (x - c)"
  have d: "norm64 (x - c) = Fin d" "\<bar>d\<bar> \<le> 2 ^ 11"
    using xc rnd_abs_le [OF xc] by (simp_all add: d_def norm64_bounded [of _ 11])
  have "\<bar>d * d\<bar> \<le> 2 ^ 11 * 2 ^ 11" unfolding abs_mult using d(2) by (intro mult_mono) simp_all
  then have dd: "\<bar>d * d\<bar> \<le> 2 ^ 22" by simp
  have "norm64 (d * d) = Fin (rnd (d * d))" by (rule norm64_bounded [OF dd]) simp
  then show ?thesis using rnd_abs_le [OF dd] by (simp add: fsub_Fin d(1) Let_def)
qed

lemma genotype_chars:
  assumes "\<forall>x \<in> set v. \<exists>r. x = Fin r \<and> \<bar>r\<bar> \<le> 2 ^ 10" and "3 \<le> length v" "length v \<le> 2 ^ 20"
  shows "\<exists>l d. Genotype v = [word_of_int (65 + l), word_of_int (48 + d)] \<and> 0 \<le> l \<and> l < 26 \<and> 0 \<le> d \<and> d < 10"
proof -
  let ?n = "length v"
  have nz: "int ?n \<le> 2 ^ 20" using assms(3) by simp
  have n0: "0 < ?n" "?n \<le> 2 ^ 50" using assms(2,3) by auto
  have "\<exists>b. foldl (\<lambda>s x. fadd s (id x)) (Fin 0) v = Fin b \<and> \<bar>b\<bar> \<le> of_int (int (0 + ?n) * 2 ^ 10)"
    by (rule sum_bounded) (use assms(1) nz in simp_all)
  then obtain b where b: "foldl fadd (Fin 0) v = Fin b" "\<bar>b\<bar> \<le> of_int (int ?n * 2 ^ 10)" by auto
  obtain c where c: "fdiv (Fin b) (f_of_int (int ?n)) = Fin c" "\<bar>c\<bar> \<le> of_int (2 ^ 10)"
    using mean_bounded [OF b(2) n0] by auto
  define p99 where "p99 = map (\<lambda>j. v ! j) (filter (\<lambda>j. j mod 3 = 2) [0..<?n])"
  have sub: "set p99 \<subseteq> set v" by (auto simp: p99_def)
  have lp: "length p99 \<le> ?n" using length_filter_le [of _ "[0..<?n]"] by (simp add: p99_def)
  then have lp2: "int (length p99) \<le> 2 ^ 20" using nz by simp
  have "\<exists>r. (let d = fsub x (Fin c) in fmul d d) = Fin r \<and> \<bar>r\<bar> \<le> of_int (2 ^ 22)" if "x \<in> set p99" for x
  proof -
    from sub that have "x \<in> set v" by (rule subsetD)
    then obtain y where y: "x = Fin y" "\<bar>y\<bar> \<le> 2 ^ 10" using bspec [OF assms(1)] by metis
    show ?thesis unfolding y(1) by (rule square_bounded) (use y(2) c(2) in simp_all)
  qed
  then have f: "\<forall>x \<in> set p99. \<exists>r. (let d = fsub x (Fin c) in fmul d d) = Fin r \<and> \<bar>r\<bar> \<le> of_int (2 ^ 22)" by blast
  have l: "int (0 + length p99) * 2 ^ 22 \<le> 2 ^ 53" using lp2 by simp
  have "\<exists>s. foldl (\<lambda>s x. fadd s (let d = fsub x (Fin c) in fmul d d)) (Fin 0) p99 = Fin s \<and> \<bar>s\<bar> \<le> of_int (int (0 + length p99) * 2 ^ 22)"
    by (rule sum_bounded [OF f l]) simp_all
  then obtain s where s: "foldl (\<lambda>s x. fadd s (let d = fsub x (Fin c) in fmul d d)) (Fin 0) p99 = Fin s"
    "\<bar>s\<bar> \<le> of_int (int (length p99) * 2 ^ 22)" unfolding add_0 by blast
  have n3: "0 < ?n div 3" "?n div 3 \<le> 2 ^ 50" using assms(2,3) by auto
  have "int (length p99) * 2 ^ 22 \<le> int (?n div 3) * 2 ^ 42"
  proof -
    have "int (length p99) * 2 ^ 22 \<le> 2 ^ 20 * 2 ^ 22" using lp2 by (intro mult_right_mono) simp_all
    also have "\<dots> \<le> int (?n div 3) * 2 ^ 42" using n3(1) by simp
    finally show ?thesis .
  qed
  then have "(of_int (int (length p99) * 2 ^ 22) :: rat) \<le> of_int (int (?n div 3) * 2 ^ 42)" by (simp only: of_int_le_iff)
  with s(2) have "\<bar>s\<bar> \<le> of_int (int (?n div 3) * 2 ^ 42)" by (rule order_trans)
  from mean_bounded [OF this n3] obtain e where e: "fdiv (Fin s) (f_of_int (int (?n div 3))) = Fin e" "\<bar>e\<bar> \<le> of_int (2 ^ 42)" by auto
  have q: "\<exists>y. fdiv (Fin x) (Fin k) = Fin y" if "\<bar>x\<bar> \<le> 2 ^ 50" "1 \<le> k" for x k
  proof -
    have "\<bar>x / k\<bar> \<le> \<bar>x\<bar>" using that(2) mult_left_mono [of 1 "\<bar>k\<bar>" "\<bar>x\<bar>"] by (simp add: abs_divide divide_le_eq)
    then have "\<bar>x / k\<bar> \<le> 2 ^ 50" using that(1) by simp
    then show ?thesis using that(2) norm64_bounded [of "x / k" 50] by simp
  qed
  have c6: "\<bar>c - 6\<bar> \<le> 2 ^ 11" using c(2) abs_triangle_ineq4 [of c 6] by simp
  have "fsub (Fin c) (Fin 6) = Fin (rnd (c - 6))" unfolding fsub_Fin by (rule norm64_bounded [OF c6]) simp
  moreover have "\<bar>rnd (c - 6)\<bar> \<le> 2 ^ 50" using rnd_abs_le [OF c6] by simp
  then obtain y1 where y1: "fdiv (Fin (rnd (c - 6))) (Fin 10) = Fin y1" using q [of "rnd (c - 6)" 10] by auto
  moreover obtain y2 where "fdiv (Fin e) (Fin 30) = Fin y2" using q [of e 30] e(2) by auto
  ultimately have "Genotype v = [word_of_int (65 + scaled 26 (Fin y1)), word_of_int (48 + scaled 10 (Fin y2))]"
    unfolding Genotype_def b(1) c(1) Let_def p99_def [symmetric] s(1) [unfolded Let_def] e(1) using assms(2) by auto
  moreover have "0 \<le> scaled 26 (Fin y1) \<and> scaled 26 (Fin y1) < 26" "0 \<le> scaled 10 (Fin y2) \<and> scaled 10 (Fin y2) < 10"
    by (rule scaled_range; simp)+
  ultimately show ?thesis by blast
qed

lemma vertices_length: "length (BuildVertices log1p hs) = 24"
  by (simp add: BuildVertices_def length_concat comp_def sum_list_triv)


section \<open>Properties\<close>

text \<open>
  The quantiles of a digest are in order, in floating point, too: the median is at most the 90th,
  that at most the 99th and that at most the 99.9th percentile.
\<close>
theorem digest_quantiles_ordered:
  assumes "\<forall>x \<in> set (ep_samples e). \<bar>x\<bar> \<le> 2 ^ 63" and "length (ep_samples e) \<le> 2 ^ 53"
  shows "fle (hh_P50Ns (fst (Digest e))) (hh_P90Ns (fst (Digest e))) \<and> fle (hh_P90Ns (fst (Digest e))) (hh_P99Ns (fst (Digest e))) \<and>
    fle (hh_P99Ns (fst (Digest e))) (hh_P999Ns (fst (Digest e)))"
  using digest_ordered [OF assms] by simp

theorem digest_quantiles_ordered_witness:
  "fle (hh_P50Ns (fst (Digest (AddAll (NewEpoch ''read'') [5, 3, 9])))) (hh_P90Ns (fst (Digest (AddAll (NewEpoch ''read'') [5, 3, 9]))))"
  using digest_quantiles_ordered [of "AddAll (NewEpoch ''read'') [5, 3, 9]"] by (simp add: AddAll_def NewEpoch_def)

text \<open>
  C39: Sixteen rounds of Newton's iteration from the argument are too few: from a variance of
  \<open>2 ^ 36\<close> square nanoseconds on (a deviation of 0.26 ms) the square root comes out at least twice
  too large.
\<close>
theorem sqrt_twice_too_large:
  assumes "2 ^ 36 \<le> x" and "x \<le> 2 ^ 480"
  shows "\<exists>z. sqrt_ns (Fin x) = Fin z \<and> 4 * x \<le> z * z"
proof -
  obtain z where z: "sqrt_ns (Fin x) = Fin z" "x / 2 ^ 17 \<le> z" using sqrt_ns_large [OF assms] by auto
  have "4 * x \<le> x / 2 ^ 17 * (x / 2 ^ 17)" using assms(1) by (simp add: field_simps)
  also have "\<dots> \<le> z * z" using z(2) assms(1) by (intro mult_mono) simp_all
  finally show ?thesis using z(1) by blast
qed

theorem sqrt_twice_too_large_witness:
  "\<exists>z. sqrt_ns (Fin (2 ^ 40)) = Fin z \<and> 2 ^ 21 * 2 ^ 21 \<le> z * z"
  using sqrt_twice_too_large [of "2 ^ 40"] by simp

text \<open>
  C36: The genotype of a sculpture is a letter of A to Z and a digit, whatever the histograms, if the
  logarithms are below 1024, as those of finite non-negative values are.
\<close>
theorem genotype_letter_digit:
  assumes "\<forall>h \<in> set hists. \<forall>x \<in> {hh_P50Ns h, hh_P90Ns h, hh_P99Ns h}. \<exists>r. log1p x = Fin r \<and> \<bar>r\<bar> \<le> 2 ^ 10"
  shows "\<exists>l d. Genotype (BuildVertices log1p hists) = [word_of_int (65 + l), word_of_int (48 + d)] \<and> 0 \<le> l \<and> l < 26 \<and> 0 \<le> d \<and> d < 10"
proof (rule genotype_chars)
  have "set (take 8 hists) \<subseteq> set hists" by (rule set_take_subset)
  then show "\<forall>x \<in> set (BuildVertices log1p hists). \<exists>r. x = Fin r \<and> \<bar>r\<bar> \<le> 2 ^ 10"
    using assms by (auto simp: BuildVertices_def)
qed (simp_all add: vertices_length)

theorem genotype_letter_digit_witness:
  "\<exists>l d. Genotype (BuildVertices (\<lambda>_. Fin 8) [fst (Digest (NewEpoch ''read''))]) = [word_of_int (65 + l), word_of_int (48 + d)] \<and> l < 26 \<and> d < 10"
  using genotype_letter_digit [of "[fst (Digest (NewEpoch ''read''))]" "\<lambda>_. Fin 8"] by auto

end
