(* ===== verification/Verifier.thy ===== *)
theory Verifier
  imports Daq
begin

text \<open>
  The HTTP service cmd/daq-verifier: \<open>/execute\<close> runs a quorum round and returns its ticket as JSON,
  \<open>/verify\<close> checks such a ticket again. The decoder of JSON is a parameter (bytes to the request,
  \<open>None\<close> for an error); what the round meets (network, witnesses, order of the answers, time-outs) is a record.
  \<open>R_panic\<close> is an index out of range, which the server recovers by dropping the connection.
\<close>

section \<open>Wire shapes\<close>

record witness_spec =
  ws_Index :: int
  ws_Label :: bytes
  ws_URL :: bytes
  ws_PubkeyHex :: bytes
  ws_AuthToken :: bytes

record execute_request =
  xr_Roster :: "witness_spec list"
  xr_Threshold :: int
  xr_Mode :: bytes
  xr_OpID :: bytes
  xr_OpPayloadHex :: bytes
  xr_ServerPubHex :: bytes
  xr_ServerPrivHex :: bytes
  xr_DrandChain :: bytes

record witness_sig_json =
  sj_WitnessIndex :: int
  sj_PubkeyHex :: bytes
  sj_SignatureHex :: bytes

record ticket_json =
  tj_OpID :: bytes
  tj_OpHashHex :: bytes
  tj_AgentPubkeyHex :: bytes
  tj_AgentSigHex :: bytes
  tj_DrandChain :: bytes
  tj_DrandRound :: u64
  tj_DrandSigHex :: bytes
  tj_RequestedAtMs :: i64
  tj_Mode :: bytes
  tj_Threshold :: int
  tj_RosterSize :: int
  tj_Witnesses :: "witness_sig_json list"
  tj_AggSignatureHex :: bytes
  tj_AggMaskHex :: bytes
  tj_CreatedAtMs :: i64

record verify_request =
  vr_Roster :: "witness_spec list"
  vr_Ticket :: ticket_json

datatype roster_input_error =
    Ro_empty
  | Ro_index nat int
  | Ro_pubkey int
  | Ro_unmarshal int bls_error

datatype json_error =
    J_op_hash
  | J_agent_pubkey
  | J_agent_signature
  | J_drand_signature
  | J_mode bytes
  | J_witness_pubkey nat
  | J_witness_signature nat
  | J_agg_signature
  | J_agg_mask

datatype reason =
    Re_roster roster_input_error
  | Re_threshold
  | Re_server_pubkey
  | Re_server_privkey
  | Re_key_pair
  | Re_op_payload
  | Re_mode bytes
  | Re_build client_error
  | Re_quorum client_error
  | Re_self_verify ticket_error
  | Re_ticket json_error
  | Re_verify ticket_error

datatype reply =
    R_http nat
  | R_execute_error reason
  | R_execute ticket_json u64 "int list"
  | R_verify "reason option"
  | R_panic

section \<open>Roster and participants\<close>

fun spec_loop :: "('s, 'p, 'm) kyber \<Rightarrow> nat \<Rightarrow> witness_spec list \<Rightarrow> roster_input_error + ('p roster_entry list \<times> 'p option list)" where
  "spec_loop K i [] = Inr ([], [])"
| "spec_loop K i (ws # rest) =
     guard (ws_Index ws \<noteq> int i) (Ro_index i (ws_Index ws))
       (case hex_decode (ws_PubkeyHex ws) of
          None \<Rightarrow> Inl (Ro_pubkey (ws_Index ws))
        | Some raw \<Rightarrow>
            guard (length raw \<noteq> PubkeySize) (Ro_pubkey (ws_Index ws))
              (bind_r (wrap_err (Ro_unmarshal (ws_Index ws)) (UnmarshalPublicKey K raw)) (\<lambda>pub.
               bind_r (spec_loop K (i + 1) rest) (\<lambda>(es, ps).
                 Inr (\<lparr>re_Index = ws_Index ws, re_Label = ws_Label ws, re_URL = ws_URL ws, re_Pubkey = pub,
                        re_AuthToken = ws_AuthToken ws\<rparr> # es, pub # ps)))))"

definition parseRoster :: "('s, 'p, 'm) kyber \<Rightarrow> witness_spec list \<Rightarrow> roster_input_error + ('p roster_entry list \<times> 'p option list)" where
  "parseRoster K specs = guard (specs = []) Ro_empty (spec_loop K 0 (sort_key ws_Index specs))"

text \<open>\<open>None\<close>: the mask is shorter than the roster.\<close>

fun mask_indices :: "bytes \<Rightarrow> nat list \<Rightarrow> int list option" where
  "mask_indices mask' [] = Some []"
| "mask_indices mask' (i # is) =
     (if i div 8 < length mask'
      then map_option (\<lambda>out. if (mask' ! (i div 8)) AND push_bit (i mod 8) 1 \<noteq> 0 then int i # out else out) (mask_indices mask' is)
      else None)"

definition collectParticipants :: "ticket \<Rightarrow> int list option" where
  "collectParticipants t =
     (if tk_Mode t = ModeParallel \<and> tk_AggMask t \<noteq> [] then mask_indices (tk_AggMask t) [0..<nat (tk_RosterSize t)]
      else Some (map wsig_WitnessIndex (tk_Witnesses t)))"

section \<open>Tickets on the wire\<close>

definition ticketToJSON :: "ticket \<Rightarrow> ticket_json" where
  "ticketToJSON t = (let r = tk_Request t in
     \<lparr>tj_OpID = rq_OpID r, tj_OpHashHex = hex_encode (rq_OpHash r), tj_AgentPubkeyHex = hex_encode (rq_AgentPubkey r),
      tj_AgentSigHex = hex_encode (rq_AgentSignature r), tj_DrandChain = rq_DrandChain r, tj_DrandRound = rq_DrandRound r,
      tj_DrandSigHex = hex_encode (rq_DrandSignature r), tj_RequestedAtMs = rq_RequestedAtMs r,
      tj_Mode = (case Mode_String (tk_Mode t) of Some s \<Rightarrow> s | None \<Rightarrow> str ''mode''),
      tj_Threshold = tk_Threshold t, tj_RosterSize = tk_RosterSize t,
      tj_Witnesses = map (\<lambda>w. \<lparr>sj_WitnessIndex = wsig_WitnessIndex w, sj_PubkeyHex = hex_encode (wsig_Pubkey w),
        sj_SignatureHex = hex_encode (wsig_Signature w)\<rparr>) (tk_Witnesses t),
      tj_AggSignatureHex = (if tk_AggSignature t \<noteq> [] then hex_encode (tk_AggSignature t) else []),
      tj_AggMaskHex = (if tk_AggMask t \<noteq> [] then hex_encode (tk_AggMask t) else []),
      tj_CreatedAtMs = tk_CreatedAtMs t\<rparr>)"

definition unhex :: "'e \<Rightarrow> bytes \<Rightarrow> 'e + bytes" where
  "unhex e s = (case hex_decode s of None \<Rightarrow> Inl e | Some b \<Rightarrow> Inr b)"

fun witnesses_from :: "nat \<Rightarrow> witness_sig_json list \<Rightarrow> json_error + witness_signature list" where
  "witnesses_from i [] = Inr []"
| "witnesses_from i (w # rest) =
     bind_r (unhex (J_witness_pubkey i) (sj_PubkeyHex w)) (\<lambda>pub.
     bind_r (unhex (J_witness_signature i) (sj_SignatureHex w)) (\<lambda>sig.
     bind_r (witnesses_from (i + 1) rest) (\<lambda>ws.
       Inr (\<lparr>wsig_WitnessIndex = sj_WitnessIndex w, wsig_Pubkey = pub, wsig_Signature = sig\<rparr> # ws))))"

definition ticketFromJSON :: "ticket_json \<Rightarrow> json_error + ticket" where
  "ticketFromJSON j =
     bind_r (unhex J_op_hash (tj_OpHashHex j)) (\<lambda>opHash.
     bind_r (unhex J_agent_pubkey (tj_AgentPubkeyHex j)) (\<lambda>agentPub.
     bind_r (unhex J_agent_signature (tj_AgentSigHex j)) (\<lambda>agentSig.
     bind_r (unhex J_drand_signature (tj_DrandSigHex j)) (\<lambda>drandSig.
     bind_r (if tj_Mode j = str ''parallel'' then Inr ModeParallel
             else if tj_Mode j = str ''sequential'' then Inr ModeSequential else Inl (J_mode (tj_Mode j))) (\<lambda>mode.
     bind_r (witnesses_from 0 (tj_Witnesses j)) (\<lambda>ws.
     bind_r (if tj_AggSignatureHex j \<noteq> [] then unhex J_agg_signature (tj_AggSignatureHex j) else Inr []) (\<lambda>aggSig.
     bind_r (if tj_AggMaskHex j \<noteq> [] then unhex J_agg_mask (tj_AggMaskHex j) else Inr []) (\<lambda>aggMask.
       Inr \<lparr>tk_Request = \<lparr>rq_OpID = tj_OpID j, rq_OpHash = opHash, rq_AgentPubkey = agentPub, rq_AgentSignature = agentSig,
              rq_DrandChain = tj_DrandChain j, rq_DrandRound = tj_DrandRound j, rq_DrandSignature = drandSig,
              rq_RequestedAtMs = tj_RequestedAtMs j\<rparr>,
            tk_Mode = mode, tk_Threshold = tj_Threshold j, tk_RosterSize = tj_RosterSize j, tk_Witnesses = ws,
            tk_AggSignature = aggSig, tk_AggMask = aggMask, tk_CreatedAtMs = tj_CreatedAtMs j\<rparr>))))))))"

section \<open>The handlers\<close>

text \<open>
  What a request to \<open>/execute\<close> meets: the drand network, the witnesses, their order of arrival and the
  cancelled ones, and the two clock readings that enter the ticket.
\<close>

record 'p round_env =
  rn_network :: network
  rn_http :: http
  rn_arrivals :: "'p roster_entry list \<Rightarrow> 'p roster_entry list"
  rn_cancelled :: "'p roster_entry \<Rightarrow> bool"
  rn_requested :: i64
  rn_created :: i64

definition execute_round :: "('s, 'p, 'm) kyber \<Rightarrow> ed25519 \<Rightarrow> hash \<Rightarrow> 'p round_env \<Rightarrow> execute_request \<Rightarrow> reason + ticket \<times> request" where
  "execute_round K E H N req =
     bind_r (wrap_err Re_roster (parseRoster K (xr_Roster req))) (\<lambda>(entries, pubs).
     guard (xr_Threshold req < 1 \<or> int (length entries) < xr_Threshold req) Re_threshold (
     bind_r (unhex Re_server_pubkey (xr_ServerPubHex req)) (\<lambda>serverPub.
     guard (length serverPub \<noteq> 32) Re_server_pubkey (
     bind_r (unhex Re_server_privkey (xr_ServerPrivHex req)) (\<lambda>serverSeed.
     guard (length serverSeed \<noteq> 32) Re_server_privkey (
     let serverPriv = ed_new_key E serverSeed in
     guard (take 32 (ed_public E serverPriv) \<noteq> serverPub) Re_key_pair (
     bind_r (unhex Re_op_payload (xr_OpPayloadHex req)) (\<lambda>opPayload.
     bind_r (if xr_Mode req = [] \<or> xr_Mode req = str ''parallel'' then Inr ModeParallel
             else if xr_Mode req = str ''sequential'' then Inr ModeSequential else Inl (Re_mode (xr_Mode req))) (\<lambda>mode.
     let chain = (if xr_DrandChain req = [] then DefaultDrandChain else xr_DrandChain req);
         (drand, built) = BuildRequest E H (rn_network N) (NewDrandClient chain []) serverPub serverPriv
           (xr_OpID req) opPayload (rn_requested N)
     in bind_r (wrap_err Re_build built) (\<lambda>daqReq.
        bind_r (wrap_err Re_quorum (RequestQuorum K H (rn_http N) (rn_created N) (rn_arrivals N entries) (rn_cancelled N)
            \<lparr>cc_Roster = entries, cc_Threshold = xr_Threshold req, cc_Mode = mode\<rparr> (Some daqReq))) (\<lambda>ticket.
        bind_r (wrap_err Re_self_verify (VerifyTicket K E H (Some ticket) pubs)) (\<lambda>_.
          Inr (ticket, daqReq)))))))))))))"

definition handleExecute :: "('s, 'p, 'm) kyber \<Rightarrow> ed25519 \<Rightarrow> hash \<Rightarrow> (bytes \<Rightarrow> execute_request option) \<Rightarrow> 'p round_env \<Rightarrow> bool
    \<Rightarrow> bytes option \<Rightarrow> reply" where
  "handleExecute K E H json N post body =
     (if \<not> post then R_http 405
      else case body of None \<Rightarrow> R_http 400
        | Some b \<Rightarrow>
            (case json (take (64 * 1024) b) of None \<Rightarrow> R_http 400
             | Some req \<Rightarrow>
                 (case execute_round K E H N req of
                    Inl e \<Rightarrow> R_execute_error e
                  | Inr (ticket, daqReq) \<Rightarrow>
                      (case collectParticipants ticket of
                         None \<Rightarrow> R_panic
                       | Some ps \<Rightarrow> R_execute (ticketToJSON ticket) (rq_DrandRound daqReq) ps))))"

definition verify_stored :: "('s, 'p, 'm) kyber \<Rightarrow> ed25519 \<Rightarrow> hash \<Rightarrow> verify_request \<Rightarrow> reason option" where
  "verify_stored K E H req =
     (case parseRoster K (vr_Roster req) of
        Inl e \<Rightarrow> Some (Re_roster e)
      | Inr (_, pubs) \<Rightarrow>
          (case ticketFromJSON (vr_Ticket req) of
             Inl e \<Rightarrow> Some (Re_ticket e)
           | Inr ticket \<Rightarrow>
               (case VerifyTicket K E H (Some ticket) pubs of
                  Inl e \<Rightarrow> Some (Re_verify e)
                | Inr _ \<Rightarrow> None)))"

definition handleVerify :: "('s, 'p, 'm) kyber \<Rightarrow> ed25519 \<Rightarrow> hash \<Rightarrow> (bytes \<Rightarrow> verify_request option) \<Rightarrow> bool \<Rightarrow> bytes option \<Rightarrow> reply" where
  "handleVerify K E H json post body =
     (if \<not> post then R_http 405
      else case body of None \<Rightarrow> R_http 400
        | Some b \<Rightarrow>
            (case json (take (128 * 1024) b) of None \<Rightarrow> R_http 400
             | Some req \<Rightarrow> R_verify (verify_stored K E H req)))"

section \<open>Round trip of the ticket\<close>

lemma unhex_encode [simp]: "unhex e (hex_encode b) = Inr b"
  by (simp add: unhex_def)

lemma hex_encode_nil [simp]: "hex_encode b = [] \<longleftrightarrow> b = []"
  by (cases b) (simp_all add: hex_encode_def)

lemma witnesses_round_trip:
  "witnesses_from i (map (\<lambda>w. \<lparr>sj_WitnessIndex = wsig_WitnessIndex w, sj_PubkeyHex = hex_encode (wsig_Pubkey w),
     sj_SignatureHex = hex_encode (wsig_Signature w)\<rparr>) ws) = Inr ws"
  by (induction ws arbitrary: i) simp_all

lemma mode_strings: "str ''sequential'' \<noteq> str ''parallel''"
  by code_simp

lemma ticket_round_trip:
  assumes "tk_Mode t = ModeParallel \<or> tk_Mode t = ModeSequential"
  shows "ticketFromJSON (ticketToJSON t) = Inr t"
  using assms mode_strings
  by (auto simp: ticketFromJSON_def ticketToJSON_def Let_def witnesses_round_trip Mode_String_def ModeParallel_def ModeSequential_def)

lemma verified_mode: "VerifyTicket K E H (Some t) ps = Inr u \<Longrightarrow> tk_Mode t = ModeParallel \<or> tk_Mode t = ModeSequential"
  by (auto simp: VerifyTicket_def split: if_splits)

lemma executed_verifies:
  assumes "execute_round K E H N req = Inr (t, r)"
  shows "verify_stored K E H \<lparr>vr_Roster = xr_Roster req, vr_Ticket = ticketToJSON t\<rparr> = None"
proof -
  obtain es ps where p: "parseRoster K (xr_Roster req) = Inr (es, ps)" and v: "VerifyTicket K E H (Some t) ps = Inr ()"
    using assms by (auto simp: execute_round_def Let_def split_beta)
  show ?thesis using p v ticket_round_trip [OF verified_mode [OF v]] by (simp add: verify_stored_def)
qed

section \<open>A round with one witness\<close>

definition solo_spec :: witness_spec where
  "solo_spec = \<lparr>ws_Index = 0, ws_Label = [], ws_URL = [], ws_PubkeyHex = hex_encode (replicate 96 7), ws_AuthToken = []\<rparr>"

definition solo_entry :: "bytes roster_entry" where
  "solo_entry = \<lparr>re_Index = 0, re_Label = [], re_URL = [], re_Pubkey = Some (replicate 96 7), re_AuthToken = []\<rparr>"

definition solo_body :: request where
  "solo_body = \<lparr>rq_OpID = [1], rq_OpHash = HashOperationPayload demo_hash [2], rq_AgentPubkey = pad32 [9], rq_AgentSignature = [],
     rq_DrandChain = DefaultDrandChain, rq_DrandRound = 1, rq_DrandSignature = replicate 48 0, rq_RequestedAtMs = 0\<rparr>"

definition solo_message :: bytes where
  "solo_message = (case CanonicalRequestBytes (Some solo_body) of Inr m \<Rightarrow> m | Inl _ \<Rightarrow> [])"

definition solo_request :: request where
  "solo_request = solo_body\<lparr>rq_AgentSignature := pad32 [9] @ demo_hash solo_message\<rparr>"

definition solo_input :: bytes where
  "solo_input = demo_hash (witness_preimage solo_request ModeSequential 0 [])"

definition solo_env :: "bytes round_env" where
  "solo_env = \<lparr>rn_network = \<lparr>net_info = (\<lambda>_ _. Info_reply 3 0 []), net_round = (\<lambda>_ _ _. Round_reply 1 [] (hex_encode (replicate 48 0)))\<rparr>,
     rn_http = (\<lambda>_ _ _. Some (hex_encode (demo_tag solo_input))), rn_arrivals = (\<lambda>es. es), rn_cancelled = (\<lambda>_. False),
     rn_requested = 0, rn_created = 0\<rparr>"

definition solo_execute :: execute_request where
  "solo_execute = \<lparr>xr_Roster = [solo_spec], xr_Threshold = 1, xr_Mode = str ''sequential'', xr_OpID = [1],
     xr_OpPayloadHex = hex_encode [2], xr_ServerPubHex = hex_encode (pad32 [9]), xr_ServerPrivHex = hex_encode (pad32 [9]),
     xr_DrandChain = []\<rparr>"

definition solo_ticket :: ticket where
  "solo_ticket = \<lparr>tk_Request = solo_request, tk_Mode = ModeSequential, tk_Threshold = 1, tk_RosterSize = 1,
     tk_Witnesses = [signed_by demo_kyber solo_entry (demo_tag solo_input)], tk_AggSignature = [], tk_AggMask = [], tk_CreatedAtMs = 0\<rparr>"

lemma solo_roster: "parseRoster demo_kyber [solo_spec] = Inr ([solo_entry], [Some (replicate 96 7)])"
  by (simp add: parseRoster_def solo_spec_def solo_entry_def PubkeySize_def UnmarshalPublicKey_def demo_kyber_def)

lemma solo_hash_length: "length (HashOperationPayload demo_hash [2]) = 32"
  by (simp add: HashOperationPayload_def)

lemma solo_chain_length: "length DefaultDrandChain = 64"
  by (simp add: DefaultDrandChain_def)

lemma solo_canonical: "CanonicalRequestBytes (Some solo_body) = Inr solo_message"
    "CanonicalRequestBytes (Some solo_request) = Inr solo_message"
  by (simp_all add: solo_message_def solo_request_def CanonicalRequestBytes_def solo_body_def solo_hash_length solo_chain_length)

lemma solo_signed: "VerifyAgentSignature demo_ed solo_request = Inr ()"
  using solo_canonical(2) by (simp add: VerifyAgentSignature_def) (simp add: solo_request_def solo_body_def)

lemma solo_input: "WitnessInput demo_hash (Some solo_request) ModeSequential 0 [] = Inr solo_input"
  by (simp add: WitnessInput_def solo_input_def) (simp add: solo_request_def solo_body_def solo_hash_length)

lemma pad32_id [simp]: "length m = 32 \<Longrightarrow> pad32 m = m"
  by (simp add: pad32_def)

lemma solo_build:
  "BuildRequest demo_ed demo_hash (rn_network solo_env) (NewDrandClient DefaultDrandChain []) (pad32 [9]) (pad32 (pad32 [9]) @ pad32 (pad32 [9])) [1] [2] 0 =
     (drand', r) \<Longrightarrow> r = Inr solo_request"
  using solo_canonical(1)
  by (auto simp: BuildRequest_def FetchLatest_def fetch_def Info_def NewDrandClient_def DefaultDrandEndpoints_def solo_env_def Let_def
      solo_body_def solo_request_def)


lemma solo_quorum:
  "RequestQuorum demo_kyber demo_hash (rn_http solo_env) (rn_created solo_env) (rn_arrivals solo_env [solo_entry]) (rn_cancelled solo_env)
     \<lparr>cc_Roster = [solo_entry], cc_Threshold = 1, cc_Mode = ModeSequential\<rparr> (Some solo_request) = Inr solo_ticket"
proof -
  have m: "ModeSequential \<noteq> ModeParallel" by (simp add: ModeSequential_def ModeParallel_def)
  have e: "re_Pubkey solo_entry = Some (replicate 96 7)" "re_Index solo_entry = 0" by (simp_all add: solo_entry_def)
  have s: "sortedRoster [solo_entry] = [solo_entry]" by (simp add: sortedRoster_def)
  have w: "postWitness (rn_http solo_env) solo_entry solo_request ModeSequential 0 [] = Some (demo_tag solo_input)"
    by (simp add: postWitness_def postSignURL_def solo_env_def SignatureSize_def)
  have "requestSequential demo_kyber demo_hash (rn_http solo_env) 0 \<lparr>cc_Roster = [solo_entry], cc_Threshold = 1, cc_Mode = ModeSequential\<rparr>
      solo_request = Inr solo_ticket"
    by (simp add: requestSequential_def s w solo_input demo_verified e solo_ticket_def Let_def)
  then show ?thesis using m e by (simp add: RequestQuorum_def withDefaults_def solo_env_def guard_def)
qed

lemma solo_verifies: "VerifyTicket demo_kyber demo_ed demo_hash (Some solo_ticket) [Some (replicate 96 7)] = Inr ()"
proof -
  have m: "ModeSequential \<noteq> ModeParallel" by (simp add: ModeSequential_def ModeParallel_def)
  have w: "signed_by demo_kyber solo_entry sig =
      \<lparr>wsig_WitnessIndex = 0, wsig_Pubkey = marshal_or_nil demo_kyber (Some (replicate 96 7)), wsig_Signature = sig\<rparr>" for sig
    by (simp add: signed_by_def solo_entry_def)
  show ?thesis using m by (simp add: VerifyTicket_def solo_ticket_def solo_signed w solo_input demo_verified Let_def)
qed

lemma solo_round: "execute_round demo_kyber demo_ed demo_hash solo_env solo_execute = Inr (solo_ticket, solo_request)"
proof -
  obtain c r where b: "BuildRequest demo_ed demo_hash (rn_network solo_env) (NewDrandClient DefaultDrandChain []) (pad32 [9])
      (pad32 (pad32 [9]) @ pad32 (pad32 [9])) [1] [2] 0 = (c, r)" by (metis surj_pair)
  note b = b [unfolded solo_build [OF b]]
  have f: "xr_Roster solo_execute = [solo_spec]" "xr_Threshold solo_execute = 1" "xr_Mode solo_execute = str ''sequential''"
    "xr_OpID solo_execute = [1]" "xr_OpPayloadHex solo_execute = hex_encode [2]" "xr_ServerPubHex solo_execute = hex_encode (pad32 [9])"
    "xr_ServerPrivHex solo_execute = hex_encode (pad32 [9])" "xr_DrandChain solo_execute = []" "rn_requested solo_env = 0"
    by (simp_all add: solo_execute_def solo_env_def)
  have m: "str ''sequential'' \<noteq> []" by code_simp
  show ?thesis
    using mode_strings m b by (simp add: execute_round_def f solo_roster solo_quorum solo_verifies Let_def)
qed

section \<open>Properties\<close>

text \<open>
  A ticket written as JSON is read back unchanged, if its mode is one of the two.
\<close>
theorem ticket_json_round_trip:
  assumes "tk_Mode t = ModeParallel \<or> tk_Mode t = ModeSequential"
  shows "ticketFromJSON (ticketToJSON t) = Inr t"
  using assms by (rule ticket_round_trip)

theorem ticket_json_round_trip_witness:
  "ticketFromJSON (ticketToJSON solo_ticket) = Inr solo_ticket"
  by (rule ticket_json_round_trip) (simp add: solo_ticket_def)

text \<open>
  C21: What \<open>/execute\<close> answers with success, \<open>/verify\<close> accepts: the ticket of the answer, sent back
  with the same roster, verifies.
\<close>
theorem executed_ticket_verifies:
  assumes "handleExecute K E H json N True (Some body) = R_execute j r ps" and "json (take (64 * 1024) body) = Some req"
    and "json' (take (128 * 1024) body') = Some \<lparr>vr_Roster = xr_Roster req, vr_Ticket = j\<rparr>"
  shows "handleVerify K E H json' True (Some body') = R_verify None"
proof -
  obtain t rq where e: "execute_round K E H N req = Inr (t, rq)" "j = ticketToJSON t"
    using assms(1,2) by (auto simp: handleExecute_def split: sum.splits option.splits)
  then show ?thesis using executed_verifies [OF e(1)] assms(3) by (simp add: handleVerify_def)
qed

theorem executed_ticket_verifies_witness:
  "\<exists>j r ps. handleExecute demo_kyber demo_ed demo_hash (\<lambda>_. Some solo_execute) solo_env True (Some []) = R_execute j r ps \<and>
    handleVerify demo_kyber demo_ed demo_hash (\<lambda>_. Some \<lparr>vr_Roster = [solo_spec], vr_Ticket = j\<rparr>) True (Some []) = R_verify None"
proof -
  have "collectParticipants solo_ticket = Some [0]"
    by (simp add: collectParticipants_def solo_ticket_def signed_by_def solo_entry_def)
  then have x: "handleExecute demo_kyber demo_ed demo_hash (\<lambda>_. Some solo_execute) solo_env True (Some []) =
      R_execute (ticketToJSON solo_ticket) (rq_DrandRound solo_request) [0]"
    by (simp add: handleExecute_def solo_round)
  have r: "xr_Roster solo_execute = [solo_spec]" by (simp add: solo_execute_def)
  show ?thesis
    using x executed_ticket_verifies [where json' = "\<lambda>_. Some \<lparr>vr_Roster = [solo_spec], vr_Ticket = ticketToJSON solo_ticket\<rparr>" and body' = "[]", OF x refl]
    by (auto simp: r)
qed

end
