(* ===== verification/Agent_Loop.thy ===== *)
theory Agent_Loop
  imports License Sentinel_Agent
begin

text \<open>
  The loop of \<open>run\<close> in cmd/963causal-agent/main.go after the enrolment: frames, pulses, attestations,
  proofs of possession and heartbeats, one handler at a time. An event is the channel \<open>select\<close> takes,
  what its handler meets, and the time in nanoseconds at which the handler is done; the log is left out.
\<close>

section \<open>Events and state\<close>

datatype ship_outcome = Ship_sign_failed | Ship_post_failed | Shipped

datatype channel =
    Ctx_done
  | Frame_tick ship_outcome
  | Pulse_tick bool \<comment> \<open>whether the map update succeeds\<close>
  | Puf_tick bool "bool option" bool bool \<comment> \<open>supported, enrolled (\<open>None\<close>: error), measured, posted\<close>
  | Key_tick bool bool \<comment> \<open>proved, posted\<close>
  | Heartbeat_tick "bool option" \<comment> \<open>\<open>None\<close>: error, else \<open>LicenseValid\<close>\<close>

type_synonym event = "channel \<times> int"

datatype exit_reason = Shutdown | Grace_expired | License_revoked

record loop_config =
  lp_GracePeriodSec :: int
  lp_sentinel :: bool \<comment> \<open>\<open>sent != nil\<close>\<close>
  lp_pufKey :: bool \<comment> \<open>\<open>pufKey != nil\<close>\<close>

record loop_state =
  lp_sequence :: u64
  lp_lastContact :: int
  lp_frames :: "u64 list" \<comment> \<open>sequence numbers of the frames built, in order\<close>
  lp_beats :: "u64 list" \<comment> \<open>sequence numbers of the heartbeats sent\<close>
  lp_pulses :: "int list" \<comment> \<open>times of the pulses written\<close>

text \<open>\<open>ship\<close>: the number is taken before the frame is built and is not given back on failure.\<close>

definition ship :: "ship_outcome \<Rightarrow> loop_state \<Rightarrow> bool \<times> loop_state" where
  "ship o' s = (let n = lp_sequence s + 1 in (o' = Shipped, s\<lparr>lp_sequence := n, lp_frames := lp_frames s @ [n]\<rparr>))"

definition loop_step :: "loop_config \<Rightarrow> event \<Rightarrow> loop_state \<Rightarrow> exit_reason option \<times> loop_state" where
  "loop_step c e s = (case e of (ch, now) \<Rightarrow>
     (case ch of
        Ctx_done \<Rightarrow> (Some Shutdown, s)
      | Frame_tick o' \<Rightarrow>
          (case ship o' s of (ok, s') \<Rightarrow> (None, if ok then s'\<lparr>lp_lastContact := now\<rparr> else s'))
      | Pulse_tick ok \<Rightarrow> (None, if lp_sentinel c \<and> ok then s\<lparr>lp_pulses := lp_pulses s @ [now]\<rparr> else s)
      | Puf_tick supported enrolled measured posted \<Rightarrow>
          (None, if \<not> supported then s
             else if enrolled \<noteq> Some True then s
             else if \<not> measured then s
             else if \<not> posted then s
             else s\<lparr>lp_lastContact := now\<rparr>)
      | Key_tick proved posted \<Rightarrow>
          (None, if \<not> lp_pufKey c then s
             else if \<not> proved then s
             else if \<not> posted then s
             else s\<lparr>lp_lastContact := now\<rparr>)
      | Heartbeat_tick resp \<Rightarrow>
          (let s' = s\<lparr>lp_beats := lp_beats s @ [lp_sequence s]\<rparr> in
           case resp of
             None \<Rightarrow> (if now - lp_lastContact s > lp_GracePeriodSec c * 1000000000 then (Some Grace_expired, s') else (None, s'))
           | Some valid \<Rightarrow>
               (let s'' = s'\<lparr>lp_lastContact := now\<rparr> in if \<not> valid then (Some License_revoked, s'') else (None, s'')))))"

text \<open>\<open>None\<close>: the loop is still running after the events; the rest of the events is not reached else.\<close>

fun main_loop :: "loop_config \<Rightarrow> event list \<Rightarrow> loop_state \<Rightarrow> exit_reason option \<times> loop_state" where
  "main_loop c [] s = (None, s)"
| "main_loop c (e # es) s = (case loop_step c e s of (None, s') \<Rightarrow> main_loop c es s' | (Some r, s') \<Rightarrow> (Some r, s'))"

section \<open>How long a failing delivery takes\<close>

text \<open>
  The time of \<open>n\<close> failed attempts of \<open>retryPost\<close> from attempt \<open>i\<close> on, from the time each request takes
  (at most the client's 20 seconds) and the draws of the jitter; after the last attempt there is no wait.
\<close>

fun retry_time :: "(nat \<Rightarrow> int) \<Rightarrow> (nat \<Rightarrow> int) \<Rightarrow> nat \<Rightarrow> nat \<Rightarrow> int" where
  "retry_time req draw 0 i = 0"
| "retry_time req draw (Suc n) i = req i + (if n = 0 then 0 else backoffDuration (int i) (draw i) + retry_time req draw n (i + 1))"

definition ClientTimeout :: int where "ClientTimeout = 20 * 1000000000"

text \<open>Three attempts that each run into the time-out last at least 65 s, whatever the jitter.\<close>

lemma stalled_delivery:
  assumes "\<forall>i. 0 \<le> draw i"
  shows "65 * 1000000000 \<le> retry_time (\<lambda>_. ClientTimeout) draw 3 0"
proof -
  have "1500000000 + draw 0 \<le> backoffDuration 0 (draw 0)" "3500000000 + draw 1 \<le> backoffDuration 1 (draw 1)"
    by (simp_all add: backoffDuration_def push_bit_eq_mult)
  with spec [OF assms, of 0] spec [OF assms, of 1] show ?thesis
    by (simp add: numeral_3_eq_3 ClientTimeout_def)
qed

text \<open>Frames whose deliveries fail so, one right after the other from the time \<open>t\<close> on, with the draws of each.\<close>

fun stalled_frames :: "int \<Rightarrow> (nat \<Rightarrow> int) list \<Rightarrow> event list" where
  "stalled_frames t [] = []"
| "stalled_frames t (d # ds) = (let t' = t + retry_time (\<lambda>_. ClientTimeout) d 3 0
     in (Frame_tick Ship_post_failed, t') # stalled_frames t' ds)"

lemma stalled_frames_end:
  "ds \<noteq> [] \<Longrightarrow> list_all (\<lambda>d. \<forall>i. 0 \<le> d i) ds \<Longrightarrow>
   t + 65 * 1000000000 * int (length ds) \<le> snd (last (stalled_frames t ds))"
proof (induction ds arbitrary: t)
  case (Cons d ds)
  let ?t = "t + retry_time (\<lambda>_. ClientTimeout) d 3 0"
  have d: "t + 65 * 1000000000 \<le> ?t" using stalled_delivery [of d] Cons.prems(2) by simp
  show ?case
  proof (cases ds)
    case Nil
    with d show ?thesis by (simp add: Let_def)
  next
    case (Cons d' ds')
    then have "?t + 65 * 1000000000 * int (length ds) \<le> snd (last (stalled_frames ?t ds))"
      using Cons.IH Cons.prems(2) by simp
    moreover have "last (stalled_frames t (d # ds)) = last (stalled_frames ?t ds)"
      using Cons by (simp add: Let_def)
    ultimately show ?thesis using d by (simp add: algebra_simps)
  qed
qed simp

lemma stalled_loop:
  "fst (main_loop c (stalled_frames t ds) s) = None \<and> lp_pulses (snd (main_loop c (stalled_frames t ds) s)) = lp_pulses s"
  by (induction ds arbitrary: t s) (simp_all add: loop_step_def ship_def Let_def)

section \<open>The contacts of a run\<close>

text \<open>Whether an event is a successful exchange with the control plane, and the times of those of a run.\<close>

fun is_contact :: "loop_config \<Rightarrow> channel \<Rightarrow> bool" where
  "is_contact c Ctx_done = False"
| "is_contact c (Frame_tick o') = (o' = Shipped)"
| "is_contact c (Pulse_tick ok) = False"
| "is_contact c (Puf_tick supported enrolled measured posted) = (supported \<and> enrolled = Some True \<and> measured \<and> posted)"
| "is_contact c (Key_tick proved posted) = (lp_pufKey c \<and> proved \<and> posted)"
| "is_contact c (Heartbeat_tick resp) = (resp \<noteq> None)"

definition contacts :: "loop_config \<Rightarrow> event list \<Rightarrow> int list" where
  "contacts c es = map snd (filter (\<lambda>e. is_contact c (fst e)) es)"

definition last_contact :: "loop_config \<Rightarrow> int \<Rightarrow> event list \<Rightarrow> int" where
  "last_contact c t0 es = last (t0 # contacts c es)"

lemma last_contact_simps [simp]:
  "last_contact c t0 [] = t0"
  "last_contact c t0 ((ch, t) # es) = last_contact c (if is_contact c ch then t else t0) es"
  by (simp_all add: last_contact_def contacts_def)

text \<open>What ends the loop: the reason of an event whose last contact was at \<open>t\<close>.\<close>

fun ends :: "loop_config \<Rightarrow> int \<Rightarrow> event \<Rightarrow> exit_reason option" where
  "ends c t (Ctx_done, now) = Some Shutdown"
| "ends c t (Heartbeat_tick None, now) = (if lp_GracePeriodSec c * 1000000000 < now - t then Some Grace_expired else None)"
| "ends c t (Heartbeat_tick (Some False), now) = Some License_revoked"
| "ends c t (ch, now) = None"

lemma loop_step_ends: "fst (loop_step c e s) = ends c (lp_lastContact s) e"
  by (cases "(c, lp_lastContact s, e)" rule: ends.cases) (simp_all add: loop_step_def ship_def Let_def)

lemma loop_step_contact:
  "fst (loop_step c (ch, t) s) = None \<Longrightarrow> lp_lastContact (snd (loop_step c (ch, t) s)) = (if is_contact c ch then t else lp_lastContact s)"
  by (cases ch) (auto simp: loop_step_def ship_def Let_def split: option.splits if_splits)

lemma main_loop_running:
  "fst (main_loop c es s) = None \<Longrightarrow> lp_lastContact (snd (main_loop c es s)) = last_contact c (lp_lastContact s) es"
proof (induction es arbitrary: s)
  case (Cons e es)
  obtain ch t where e: "e = (ch, t)" by (cases e)
  obtain s' where s': "loop_step c e s = (None, s')" using Cons.prems by (cases "loop_step c e s") (auto split: option.splits)
  from loop_step_contact [of c ch t s] Cons.IH [of s'] Cons.prems show ?case by (auto simp: e s' [unfolded e])
qed simp

lemma main_loop_append: "fst (main_loop c es s) = None \<Longrightarrow> main_loop c (es @ fs) s = main_loop c fs (snd (main_loop c es s))"
  by (induction es arbitrary: s) (auto split: prod.splits option.splits)

lemma main_loop_prefix: "fst (main_loop c (es @ fs) s) = None \<Longrightarrow> fst (main_loop c es s) = None"
  by (induction es arbitrary: s) (auto split: prod.splits option.splits)

lemma snoc_split:
  "es @ [e] = pre @ x # post \<longleftrightarrow> pre = es \<and> x = e \<and> post = [] \<or> (\<exists>post'. post = post' @ [e] \<and> es = pre @ x # post')"
  by (cases post rule: rev_cases) auto

lemma forall_snoc:
  "(\<forall>pre x post. es @ [e] = pre @ x # post \<longrightarrow> P pre x) \<longleftrightarrow> P es e \<and> (\<forall>pre x post. es = pre @ x # post \<longrightarrow> P pre x)"
proof (intro iffI conjI allI impI)
  assume a: "\<forall>pre x post. es @ [e] = pre @ x # post \<longrightarrow> P pre x"
  then show "P es e" by (auto simp: snoc_split)
  fix pre x post assume "es = pre @ x # post"
  then have "es @ [e] = pre @ x # (post @ [e])" by simp
  with a show "P pre x" by blast
next
  fix pre x post
  assume "P es e \<and> (\<forall>pre x post. es = pre @ x # post \<longrightarrow> P pre x)" and "es @ [e] = pre @ x # post"
  then show "P pre x" unfolding snoc_split by blast
qed

text \<open>The loop runs exactly as long as no event ends it.\<close>

lemma main_loop_runs_iff:
  "fst (main_loop c es s) = None \<longleftrightarrow> (\<forall>pre e post. es = pre @ e # post \<longrightarrow> ends c (last_contact c (lp_lastContact s) pre) e = None)"
proof (induction es rule: rev_induct)
  case (snoc e es)
  show ?case
  proof (cases "fst (main_loop c es s) = None")
    case True
    have l: "fst (main_loop c (es @ [e]) s) = ends c (last_contact c (lp_lastContact s) es) e"
      using main_loop_append [OF True, of "[e]"] loop_step_ends [of c e "snd (main_loop c es s)"] main_loop_running [OF True]
      by (auto split: prod.splits option.splits)
    have "\<forall>pre e post. es = pre @ e # post \<longrightarrow> ends c (last_contact c (lp_lastContact s) pre) e = None"
      using snoc.IH True by (rule iffD1)
    then show ?thesis unfolding l forall_snoc by simp
  next
    case False
    then have "fst (main_loop c (es @ [e]) s) \<noteq> None" by (rule contrapos_nn) (rule main_loop_prefix)
    moreover have "\<not> (\<forall>pre e post. es = pre @ e # post \<longrightarrow> ends c (last_contact c (lp_lastContact s) pre) e = None)"
      using False snoc.IH by simp
    ultimately show ?thesis unfolding forall_snoc by (simp only: simp_thms)
  qed
qed simp

section \<open>The numbers of the frames\<close>

definition numbered :: "loop_state \<Rightarrow> bool" where
  "numbered s \<longleftrightarrow> lp_frames s = map (\<lambda>i. of_nat (Suc i)) [0..<length (lp_frames s)] \<and>
     lp_sequence s = of_nat (length (lp_frames s))"

lemma loop_step_numbered: "numbered s \<Longrightarrow> numbered (snd (loop_step c e s))"
proof -
  assume n: "numbered s"
  obtain ch t where e: "e = (ch, t)" by (cases e)
  show ?thesis
  proof (cases ch)
    case (Frame_tick o')
    have "length (lp_frames s @ [x]) = Suc (length (lp_frames s))" for x by simp
    then show ?thesis using n
      by (simp add: numbered_def loop_step_def e Frame_tick ship_def Let_def)
  qed (use n in \<open>auto simp: numbered_def loop_step_def e Let_def split: option.split\<close>)
qed

lemma main_loop_numbered: "numbered s \<Longrightarrow> numbered (snd (main_loop c es s))"
proof (induction es arbitrary: s)
  case (Cons e es)
  obtain r s' where s': "loop_step c e s = (r, s')" by (cases "loop_step c e s")
  then have "numbered s'" using loop_step_numbered [OF Cons.prems, of c e] by simp
  then show ?case using Cons.IH [of s'] s' by (cases r) simp_all
qed simp

section \<open>Properties\<close>

definition started :: "int \<Rightarrow> loop_state" where
  "started t0 = \<lparr>lp_sequence = 0, lp_lastContact = t0, lp_frames = [], lp_beats = [], lp_pulses = []\<rparr>"

definition demo_loop :: loop_config where
  "demo_loop = \<lparr>lp_GracePeriodSec = 10, lp_sentinel = True, lp_pufKey = False\<rparr>"

text \<open>
  C12: The loop goes on exactly as long as it is not asked to stop, no heartbeat reports the license
  invalid, and no heartbeat fails later than the grace period after the last successful exchange of any
  kind; a failing heartbeat after that ends it. Nothing else does: without heartbeats the agent
  outlives every grace period, and after the grace period it does not enrol again but returns.
\<close>
theorem loop_runs_within_grace:
  "fst (main_loop c es s) = None \<longleftrightarrow>
     (\<forall>pre e post. es = pre @ e # post \<longrightarrow> ends c (last_contact c (lp_lastContact s) pre) e = None)"
  by (rule main_loop_runs_iff)

theorem loop_runs_within_grace_witness:
  "fst (main_loop demo_loop [(Frame_tick Shipped, 5000000000), (Heartbeat_tick None, 16000000000)] (started 0)) = Some Grace_expired \<and>
   fst (main_loop demo_loop [(Frame_tick Shipped, 5000000000), (Heartbeat_tick None, 15000000000)] (started 0)) = None"
proof -
  have "fst (main_loop demo_loop [(Frame_tick Shipped, 5000000000), (Heartbeat_tick None, 15000000000)] (started 0)) = None"
    unfolding loop_runs_within_grace by (auto simp: Cons_eq_append_conv demo_loop_def)
  then show ?thesis by (simp add: loop_step_def ship_def Let_def demo_loop_def started_def)
qed

text \<open>
  The frames of a run carry the numbers 1, 2, 3, ... without a gap or a repetition, whether they
  were delivered or not, and the counter is the number of frames.
\<close>
theorem frames_numbered:
  assumes "main_loop c es (started t0) = (r, s)"
  shows "lp_frames s = map (\<lambda>i. of_nat (Suc i)) [0..<length (lp_frames s)] \<and> lp_sequence s = of_nat (length (lp_frames s))"
  using main_loop_numbered [of "started t0" c es] assms by (simp add: numbered_def started_def)

theorem frames_numbered_witness:
  "lp_frames (snd (main_loop demo_loop [(Frame_tick Ship_post_failed, 1), (Frame_tick Shipped, 2)] (started 0))) = [1, 2]"
  using frames_numbered [of demo_loop "[(Frame_tick Ship_post_failed, 1), (Frame_tick Shipped, 2)]" 0]
  by (simp add: loop_step_def ship_def Let_def started_def)

text \<open>
  C14: An agent that is alive is reported absent. Let it write a pulse and then deliver three or more
  frames to a control plane that does not answer, every request running into the time-out, whatever the
  jitter. The loop runs on with that pulse as its last one, and when the kernel's clock has moved on by as
  much as the loop's, the kernel, whose timer runs and fires with a delay of less than 45 s, has
  recorded the pulse as an absence.
\<close>
theorem stalled_agent_reported:
  assumes "bpf_ok H V" and "timed_run H V slack (k, due) (k', due')" and "running V k"
    and "agent_pulse V k = Some v" and "clock V k = timestamp_ns v"
    and "due \<le> unat (clock V k) + 30 * 10 ^ 9 + slack" and "slack < 45 * 10 ^ 9"
    and "\<And>x. ring V x = ring V k \<Longrightarrow> fst (ringbuf_reserve H 56 0 x) \<noteq> None"
    and "3 \<le> length ds" and "list_all (\<lambda>d. \<forall>i. 0 \<le> d i) ds"
    and "int (unat (clock V k')) - int (unat (clock V k)) = snd (last (stalled_frames t0 ds)) - t0"
  shows "let out = main_loop (c\<lparr>lp_sentinel := True\<rparr>) ((Pulse_tick True, t0) # stalled_frames t0 ds) s
    in fst out = None \<and> last (lp_pulses (snd out)) = t0 \<and>
      (\<exists>e es. ring V k' = ring V k @ e # es \<and> flags e = 0 \<and> last_pulse_ns e = timestamp_ns v \<and> last_seq e = seq v)"
proof -
  have "t0 + 65 * 1000000000 * int (length ds) \<le> snd (last (stalled_frames t0 ds))"
    using stalled_frames_end [of ds t0] assms(9,10) by fastforce
  moreover have "65 * 1000000000 * 3 \<le> 65 * 1000000000 * int (length ds)" using assms(9) by simp
  ultimately have "int (unat (timestamp_ns v)) + 195000000000 \<le> int (unat (clock V k'))"
    using assms(11) unfolding assms(5) by linarith
  then have "unat (timestamp_ns v) + 195000000000 \<le> unat (clock V k')" by linarith
  then have "unat (timestamp_ns v) + 150 * 10 ^ 9 + slack < unat (clock V k')" using assms(7) by simp
  then have "\<exists>e es. ring V k' = ring V k @ e # es \<and> reports v (unat (timestamp_ns v) + 150 * 10 ^ 9 + slack) e"
    by (intro silent_agent_recorded(2) [OF assms(1-4) _ _ assms(6,8)]) (simp_all add: assms(5))
  then have "\<exists>e es. ring V k' = ring V k @ e # es \<and> flags e = 0 \<and> last_pulse_ns e = timestamp_ns v \<and> last_seq e = seq v"
    unfolding reports_def by blast
  then show ?thesis
    using stalled_loop [of "c\<lparr>lp_sentinel := True\<rparr>" t0 ds] by (simp add: Let_def loop_step_def)
qed

theorem stalled_agent_reported_witness:
  "\<exists>e es. ring demo_view (until 196000000000 (tick 139000000000 (tick 70000000000 (demo_state 1000000000)))) = e # es \<and>
     last_seq e = 9"
proof -
  let ?k = "demo_state 1000000000"
  let ?k1 = "tick 70000000000 ?k"
  let ?k2 = "tick 139000000000 ?k1"
  let ?k' = "until 196000000000 ?k2"
  let ?T = "timed_run (demo_helpers 4) demo_view 40000000000 (?k, 71000000000)"
  let ?d = "\<lambda>_ :: nat. 0 :: int"
  have "?T (?k1, 140000000000)"
    using demo_tick [OF rest, of ?k 70000000000 71000000000 40000000000] by (simp add: demo_state_def)
  then have "?T (?k2, 209000000000)"
    using demo_tick [of 40000000000 "(?k, 71000000000)" ?k1 140000000000 139000000000] tick_timer [of ?k 70000000000]
    by (simp add: tick_clock demo_state_def)
  then have run: "?T (?k', 209000000000)" by (rule demo_until) (simp_all add: tick_clock)
  have c: "clock demo_view ?k' = 196000000000" by (simp add: until_def demo_view_def)
  have d: "retry_time (\<lambda>_. ClientTimeout) ?d 3 0 = 65000000000"
    by (simp add: numeral_3_eq_3 backoffDuration_def ClientTimeout_def push_bit_eq_mult)
  have "snd (last (stalled_frames 0 [?d, ?d, ?d])) = 195000000000"
    by (simp only: stalled_frames.simps Let_def d last.simps) simp
  then have "\<exists>e es. ring demo_view ?k' = ring demo_view ?k @ e # es \<and> flags e = 0 \<and>
      last_pulse_ns e = timestamp_ns demo_pulse \<and> last_seq e = seq demo_pulse"
    using stalled_agent_reported [OF demo_ok run demo_running demo_facts(1) _ _ _ demo_room, where ds = "[?d, ?d, ?d]" and ?t0.0 = 0]
    by (simp add: c demo_facts demo_pulse_def Let_def)
  then show ?thesis by (fastforce simp: demo_pulse_def demo_state_def demo_view_def)
qed

end
