(* ===== verification/Control_Plane.thy ===== *)
theory Control_Plane
  imports License
begin

text \<open>
  The requests of internal/license/handshake.go: \<open>post\<close> and what the client builds on it. The HTTP
  client is a function from requests to what comes back; a message is given by what its encoder
  returns (\<open>None\<close> for an error), a decoder is an argument.
\<close>

record http_request =
  hq_URL :: bytes
  hq_Headers :: "(bytes \<times> bytes) list"
  hq_Body :: bytes

datatype http_answer =
    Not_built
  | Not_sent
  | Body_unreadable
  | Answer int bytes

record license_client =
  cl_baseURL :: bytes
  cl_http :: "http_request \<Rightarrow> http_answer"

datatype post_error =
    Po_request
  | Po_send bytes
  | Po_read
  | Po_status bytes int bytes
  | Po_marshal
  | Po_unmarshal
  | Po_refused

definition truncate_body :: "bytes \<Rightarrow> nat \<Rightarrow> bytes" where
  "truncate_body b n = (if length b \<le> n then b else take n b @ [0xE2, 0x80, 0xA6])"

definition post_request :: "license_client \<Rightarrow> bytes \<Rightarrow> bytes \<Rightarrow> bytes \<Rightarrow> http_request" where
  "post_request c path body token =
     \<lparr>hq_URL = cl_baseURL c @ path,
      hq_Headers = [(str ''Content-Type'', str ''application/x-protobuf''), (str ''User-Agent'', str ''963causal-agent/0.1 go'')] @
        (if token \<noteq> [] then [(str ''Authorization'', str ''Bearer '' @ token)] else []),
      hq_Body = body\<rparr>"

definition post :: "license_client \<Rightarrow> bytes \<Rightarrow> bytes \<Rightarrow> bytes \<Rightarrow> post_error + bytes" where
  "post c path body token = (case cl_http c (post_request c path body token) of
       Not_built \<Rightarrow> Inl Po_request
     | Not_sent \<Rightarrow> Inl (Po_send path)
     | Body_unreadable \<Rightarrow> Inl Po_read
     | Answer status b \<Rightarrow>
         guard (status < 200 \<or> 300 \<le> status) (Po_status path status (truncate_body b 512)) (Inr b))"

section \<open>Messages without a reply\<close>

definition post_message :: "license_client \<Rightarrow> bytes \<Rightarrow> bytes \<Rightarrow> bytes option \<Rightarrow> post_error + unit" where
  "post_message c path token m = (case m of
       None \<Rightarrow> Inl Po_marshal
     | Some body \<Rightarrow> bind_r (post c path body token) (\<lambda>_. Inr ()))"

definition PostFrame :: "license_client \<Rightarrow> bytes \<Rightarrow> bytes option \<Rightarrow> post_error + unit" where
  "PostFrame c = post_message c (str ''/api/agent/frame'')"

definition PostAbsenceReport :: "license_client \<Rightarrow> bytes \<Rightarrow> bytes option \<Rightarrow> post_error + unit" where
  "PostAbsenceReport c = post_message c (str ''/api/agent/absence'')"

definition PostPufEnrollment :: "license_client \<Rightarrow> bytes \<Rightarrow> bytes option \<Rightarrow> post_error + unit" where
  "PostPufEnrollment c = post_message c (str ''/api/agent/puf/enroll'')"

definition PostPufAttestation :: "license_client \<Rightarrow> bytes \<Rightarrow> bytes option \<Rightarrow> post_error + unit" where
  "PostPufAttestation c = post_message c (str ''/api/agent/puf/attest'')"

definition PostPufKeyEnrollment :: "license_client \<Rightarrow> bytes \<Rightarrow> bytes option \<Rightarrow> post_error + unit" where
  "PostPufKeyEnrollment c = post_message c (str ''/api/agent/puf/key/enroll'')"

definition PostPufKeyProof :: "license_client \<Rightarrow> bytes \<Rightarrow> bytes option \<Rightarrow> post_error + unit" where
  "PostPufKeyProof c = post_message c (str ''/api/agent/puf/key/proof'')"

section \<open>Requests with a reply\<close>

record enroll_response =
  er_HostId :: bytes
  er_AgentToken :: bytes
  er_ServerX25519Pub :: bytes
  er_EncryptedPayload :: bytes
  er_PayloadNonce :: bytes
  er_HeartbeatIntervalSec :: u32
  er_FrameEpochSec :: u32
  er_GracePeriodSec :: u32
  er_CausalId :: bytes

definition Enroll_client :: "(bytes \<Rightarrow> enroll_response option) \<Rightarrow> license_client \<Rightarrow> bytes option \<Rightarrow> post_error + enroll_response" where
  "Enroll_client unmarshal c m = (case m of
       None \<Rightarrow> Inl Po_marshal
     | Some body \<Rightarrow>
         bind_r (post c (str ''/api/agent/enroll'') body []) (\<lambda>r.
           case unmarshal r of
             None \<Rightarrow> Inl Po_unmarshal
           | Some resp \<Rightarrow> guard (er_HostId resp = []) Po_refused (Inr resp)))"

text \<open>Of the reply to a heartbeat the agent reads one field.\<close>

definition Heartbeat :: "(bytes \<Rightarrow> bool option) \<Rightarrow> license_client \<Rightarrow> bytes \<Rightarrow> bytes option \<Rightarrow> post_error + bool" where
  "Heartbeat unmarshal c token m = (case m of
       None \<Rightarrow> Inl Po_marshal
     | Some body \<Rightarrow>
         bind_r (post c (str ''/api/agent/heartbeat'') body token) (\<lambda>r.
           case unmarshal r of None \<Rightarrow> Inl Po_unmarshal | Some valid \<Rightarrow> Inr valid))"

text \<open>
  The retried requests: \<open>net i\<close> is the client as the network lets it act at attempt \<open>i\<close>, the context
  is that of \<open>retry_env\<close>, whose errors are of the same type.
\<close>

definition RetryEnroll :: "(bytes \<Rightarrow> enroll_response option) \<Rightarrow> (nat \<Rightarrow> post_error option) \<Rightarrow> (nat \<Rightarrow> post_error option)
    \<Rightarrow> (nat \<Rightarrow> license_client) \<Rightarrow> bytes option \<Rightarrow> int \<Rightarrow> nat \<times> (post_error retry_error + enroll_response)" where
  "RetryEnroll unmarshal ctx wait net m maxAttempts =
     retryPost \<lparr>rt_ctx_err = ctx, rt_request = (\<lambda>i. Enroll_client unmarshal (net i) m), rt_wait = wait\<rparr> maxAttempts"

text \<open>The encoder fails before the first attempt.\<close>

datatype retried_error = Re_marshal | Re_retry "post_error retry_error"

definition post_retried :: "(nat \<Rightarrow> post_error option) \<Rightarrow> (nat \<Rightarrow> post_error option) \<Rightarrow> (nat \<Rightarrow> license_client)
    \<Rightarrow> bytes \<Rightarrow> bytes \<Rightarrow> bytes option \<Rightarrow> int \<Rightarrow> retried_error + unit" where
  "post_retried ctx wait net path token m maxAttempts = (case m of
       None \<Rightarrow> Inl Re_marshal
     | Some body \<Rightarrow>
         bind_r (wrap_err Re_retry (snd (retryPost
           \<lparr>rt_ctx_err = ctx, rt_request = (\<lambda>i. post (net i) path body token), rt_wait = wait\<rparr> maxAttempts))) (\<lambda>_. Inr ()))"

definition PostFrameRetry :: "(nat \<Rightarrow> post_error option) \<Rightarrow> (nat \<Rightarrow> post_error option) \<Rightarrow> (nat \<Rightarrow> license_client)
    \<Rightarrow> bytes \<Rightarrow> bytes option \<Rightarrow> int \<Rightarrow> retried_error + unit" where
  "PostFrameRetry ctx wait net = post_retried ctx wait net (str ''/api/agent/frame'')"

definition PostPufAttestationRetry :: "(nat \<Rightarrow> post_error option) \<Rightarrow> (nat \<Rightarrow> post_error option) \<Rightarrow> (nat \<Rightarrow> license_client)
    \<Rightarrow> bytes \<Rightarrow> bytes option \<Rightarrow> int \<Rightarrow> retried_error + unit" where
  "PostPufAttestationRetry ctx wait net = post_retried ctx wait net (str ''/api/agent/puf/attest'')"

definition PostPufKeyProofRetry :: "(nat \<Rightarrow> post_error option) \<Rightarrow> (nat \<Rightarrow> post_error option) \<Rightarrow> (nat \<Rightarrow> license_client)
    \<Rightarrow> bytes \<Rightarrow> bytes option \<Rightarrow> int \<Rightarrow> retried_error + unit" where
  "PostPufKeyProofRetry ctx wait net = post_retried ctx wait net (str ''/api/agent/puf/key/proof'')"

record signed_frame =
  sf_FrameBlob :: bytes
  sf_Signature :: bytes

definition SignFrame :: "ed25519 \<Rightarrow> bytes \<Rightarrow> bytes option \<Rightarrow> signed_frame option" where
  "SignFrame E priv frame = map_option (\<lambda>blob. \<lparr>sf_FrameBlob = blob, sf_Signature = ed_sign E priv blob\<rparr>) frame"

section \<open>What comes back\<close>

lemma post_success_iff:
  "post c path body token = Inr b \<longleftrightarrow>
     (\<exists>status. cl_http c (post_request c path body token) = Answer status b \<and> 200 \<le> status \<and> status < 300)"
  by (auto simp: post_def guard_def split: http_answer.split)

lemma post_message_success_iff:
  "post_message c path token m = Inr () \<longleftrightarrow> (\<exists>body b. m = Some body \<and> post c path body token = Inr b)"
  by (cases m) (auto simp: post_message_def bind_r_def split: sum.split)

text \<open>Only the enrolment goes without the agent's token; nothing else than the token distinguishes agents.\<close>

lemma authorised_iff:
  "(str ''Authorization'', v) \<in> set (hq_Headers (post_request c path body token)) \<longleftrightarrow> token \<noteq> [] \<and> v = str ''Bearer '' @ token"
proof -
  have "str ''Authorization'' \<noteq> str ''Content-Type''" "str ''Authorization'' \<noteq> str ''User-Agent''" by code_simp+
  then show ?thesis by (auto simp: post_request_def)
qed

text \<open>An enrolment that succeeds names the host: every later frame carries a host id.\<close>

theorem enrolled_has_host:
  assumes "RetryEnroll unmarshal ctx wait net m maxAttempts = (n, Inr resp)"
  shows "er_HostId resp \<noteq> [] \<and> (\<exists>i body b. m = Some body \<and> unmarshal b = Some resp \<and>
    post (net i) (str ''/api/agent/enroll'') body [] = Inr b)"
proof -
  let ?W = "\<lparr>rt_ctx_err = ctx, rt_request = (\<lambda>i. Enroll_client unmarshal (net i) m), rt_wait = wait\<rparr>"
  have "\<exists>i. rt_request W i = Inr b" if "snd (retry_loop W k j l) = Inr b" for W :: "(post_error, enroll_response) retry_env" and k j l b
    using that by (induction W k j l rule: retry_loop.induct) (auto split: option.splits sum.splits if_splits)
  from this [of ?W "nat maxAttempts" 0 None resp] assms obtain i where "Enroll_client unmarshal (net i) m = Inr resp"
    by (auto simp: RetryEnroll_def retryPost_def)
  then show ?thesis
    by (auto simp: Enroll_client_def bind_r_def guard_def split: option.splits sum.splits if_splits)
qed

end
