(* ===== verification/Identity.thy ===== *)
theory Identity
  imports Crypto Hex
begin

text \<open>
  The durable host key (internal/identity/keystore.go), the public Causal ID (causalid.go) and the
  configuration file (internal/config/config.go). Base64, JSON and YAML are parameters; a file is
  missing, unreadable or its bytes. Locking pages and the directories are left out.
\<close>

section \<open>The key store\<close>

record host_key =
  hk_EdPublic :: bytes
  hk_EdPrivate :: bytes

record persisted =
  pe_Version :: int
  pe_EdPriv :: bytes
  pe_EdPub :: bytes

record key_codecs =
  co_b64_encode :: "bytes \<Rightarrow> bytes"
  co_b64_decode :: "bytes \<Rightarrow> bytes option"
  co_marshal :: "persisted \<Rightarrow> bytes"
  co_unmarshal :: "bytes \<Rightarrow> persisted option"

datatype key_file = Missing | Unreadable | Content bytes

datatype keystore_error =
    Ks_mkdir
  | Ks_read
  | Ks_parse
  | Ks_private_length
  | Ks_public_length
  | Ks_generate
  | Ks_write

text \<open>What the outside gives: whether the directory can be made, the seed of a new key, the failing step of the write.\<close>

record keystore_env =
  ke_mkdir :: bool
  ke_seed :: "bytes option"
  ke_write :: bool \<comment> \<open>temporary file created, chmod, write, close and rename all succeed\<close>

text \<open>\<open>generate\<close> returns the content of the file as it leaves it.\<close>

definition generate_key :: "ed25519 \<Rightarrow> key_codecs \<Rightarrow> keystore_env \<Rightarrow> key_file \<Rightarrow> key_file \<times> (keystore_error + host_key)" where
  "generate_key E C W f =
     (case ke_seed W of
        None \<Rightarrow> (f, Inl Ks_generate)
      | Some seed \<Rightarrow>
          let priv = ed_new_key E seed; pub = ed_public E priv;
              p = \<lparr>pe_Version = 1, pe_EdPriv = co_b64_encode C priv, pe_EdPub = co_b64_encode C pub\<rparr>
          in if \<not> ke_write W then (f, Inl Ks_write)
             else (Content (co_marshal C p), Inr \<lparr>hk_EdPublic = pub, hk_EdPrivate = priv\<rparr>))"

definition LoadOrCreate :: "ed25519 \<Rightarrow> key_codecs \<Rightarrow> keystore_env \<Rightarrow> key_file \<Rightarrow> key_file \<times> (keystore_error + host_key)" where
  "LoadOrCreate E C W f =
     (if \<not> ke_mkdir W then (f, Inl Ks_mkdir)
      else case f of
        Missing \<Rightarrow> generate_key E C W f
      | Unreadable \<Rightarrow> (f, Inl Ks_read)
      | Content b \<Rightarrow>
          (f, case co_unmarshal C b of
                None \<Rightarrow> Inl Ks_parse
              | Some p \<Rightarrow>
                  (case co_b64_decode C (pe_EdPriv p) of
                     None \<Rightarrow> Inl Ks_private_length
                   | Some priv \<Rightarrow>
                       guard (length priv \<noteq> 64) Ks_private_length
                         (case co_b64_decode C (pe_EdPub p) of
                            None \<Rightarrow> Inl Ks_public_length
                          | Some pub \<Rightarrow>
                              guard (length pub \<noteq> 32) Ks_public_length
                                (Inr \<lparr>hk_EdPublic = pub, hk_EdPrivate = priv\<rparr>)))))"

definition Zero_key :: "host_key \<Rightarrow> host_key" where
  "Zero_key hk = hk\<lparr>hk_EdPrivate := replicate (length (hk_EdPrivate hk)) 0\<rparr>"

section \<open>The session key pair\<close>

record ecdh_key =
  ec_Private :: bytes
  ec_Public :: bytes

text \<open>RFC 7748's clamping of the scalar; the multiplication is a parameter.\<close>

definition clamp :: "bytes \<Rightarrow> bytes" where
  "clamp k = (let k = k[0 := k ! 0 AND 248]; k = k[31 := k ! 31 AND 127] in k[31 := k ! 31 OR 64])"

definition NewECDH :: "(bytes \<Rightarrow> bytes option) \<Rightarrow> bytes option \<Rightarrow> ecdh_key option" where
  "NewECDH basemul rnd = (case rnd of
       None \<Rightarrow> None
     | Some r \<Rightarrow> (case basemul (clamp r) of None \<Rightarrow> None | Some pub \<Rightarrow> Some \<lparr>ec_Private = clamp r, ec_Public = take 32 pub\<rparr>))"

definition SharedSecret :: "(bytes \<Rightarrow> bytes \<Rightarrow> bytes option) \<Rightarrow> ecdh_key \<Rightarrow> bytes \<Rightarrow> bytes option" where
  "SharedSecret mul k serverPub = (if length serverPub \<noteq> 32 then None else mul (ec_Private k) serverPub)"

definition Zero_ecdh :: "ecdh_key \<Rightarrow> ecdh_key" where
  "Zero_ecdh k = k\<lparr>ec_Private := replicate (length (ec_Private k)) 0\<rparr>"

section \<open>The Causal ID\<close>

text \<open>\<open>strings.ToUpper\<close> on the hex digits.\<close>

definition upper_char :: "byte \<Rightarrow> byte" where
  "upper_char c = (if 97 \<le> unat c \<and> unat c \<le> 122 then c - 32 else c)"

definition to_upper :: "bytes \<Rightarrow> bytes" where
  "to_upper s = map upper_char s"

definition CausalIDFromEd25519Pub :: "hash \<Rightarrow> bytes \<Rightarrow> bytes" where
  "CausalIDFromEd25519Pub sha256 pub =
     (if length pub \<noteq> 32 then []
      else let u = to_upper (hex_encode (take 8 (sha256 pub))) in str ''CID-963-'' @ take 8 u @ str ''-'' @ drop 8 u)"

section \<open>The configuration\<close>

record config =
  cf_ControlPlaneURL :: bytes
  cf_LicenseKey :: bytes
  cf_KeystorePath :: bytes
  cf_EncryptedPayloadPath :: bytes
  cf_InsecureSkipTLSVerify :: bool
  cf_LogLevel :: bytes

datatype config_error = Cf_read | Cf_parse | Cf_control_plane | Cf_license

definition DefaultConfig :: config where
  "DefaultConfig = \<lparr>cf_ControlPlaneURL = [], cf_LicenseKey = [], cf_KeystorePath = str ''/var/lib/963causal/host.key'',
     cf_EncryptedPayloadPath = str ''/usr/lib/963causal/payload.enc'', cf_InsecureSkipTLSVerify = False, cf_LogLevel = str ''info''\<rparr>"

definition DefaultPath :: bytes where "DefaultPath = str ''/etc/963causal/agent.yaml''"

text \<open>The decoder overwrites the fields of the defaults that the file sets.\<close>

definition Load_config :: "(config \<Rightarrow> bytes \<Rightarrow> config option) \<Rightarrow> (bytes \<Rightarrow> bytes option) \<Rightarrow> bytes \<Rightarrow> config_error + config" where
  "Load_config yaml readFile path =
     (case readFile (if path = [] then DefaultPath else path) of
        None \<Rightarrow> Inl Cf_read
      | Some b \<Rightarrow>
          (case yaml DefaultConfig b of
             None \<Rightarrow> Inl Cf_parse
           | Some cfg \<Rightarrow>
               guard (cf_ControlPlaneURL cfg = []) Cf_control_plane
                 (guard (cf_LicenseKey cfg = []) Cf_license (Inr cfg))))"

section \<open>Properties of the pieces\<close>

text \<open>What the program relies on of the two encodings and of the keys.\<close>

definition key_codecs_ok :: "key_codecs \<Rightarrow> bool" where
  "key_codecs_ok C \<longleftrightarrow> (\<forall>b. co_b64_decode C (co_b64_encode C b) = Some b) \<and>
     (\<forall>priv pub. length priv = 64 \<longrightarrow> length pub = 32 \<longrightarrow>
       (let p = \<lparr>pe_Version = 1, pe_EdPriv = co_b64_encode C priv, pe_EdPub = co_b64_encode C pub\<rparr>
        in co_unmarshal C (co_marshal C p) = Some p))"

lemma generated_loads:
  assumes "key_codecs_ok C" and "ke_seed W = Some seed" and "ed_key E (ed_new_key E seed)"
    and "LoadOrCreate E C W Missing = (f, Inr hk)" and "ke_mkdir W'"
  shows "LoadOrCreate E C W' f = (f, Inr hk)"
proof -
  have l: "length (ed_new_key E seed) = 64" "length (ed_public E (ed_new_key E seed)) = 32"
    using ed_keyD [OF assms(3)] by simp_all
  have d: "co_b64_decode C (co_b64_encode C b) = Some b"
    "length priv = 64 \<Longrightarrow> length pub = 32 \<Longrightarrow>
     co_unmarshal C (co_marshal C \<lparr>pe_Version = 1, pe_EdPriv = co_b64_encode C priv, pe_EdPub = co_b64_encode C pub\<rparr>) =
       Some \<lparr>pe_Version = 1, pe_EdPriv = co_b64_encode C priv, pe_EdPub = co_b64_encode C pub\<rparr>" for b priv pub
    using assms(1) by (simp_all add: key_codecs_ok_def Let_def)
  have f: "f = Content (co_marshal C \<lparr>pe_Version = 1, pe_EdPriv = co_b64_encode C (ed_new_key E seed),
      pe_EdPub = co_b64_encode C (ed_public E (ed_new_key E seed))\<rparr>)"
    and hk: "hk = \<lparr>hk_EdPublic = ed_public E (ed_new_key E seed), hk_EdPrivate = ed_new_key E seed\<rparr>"
    using assms(2,4) by (auto simp: LoadOrCreate_def generate_key_def Let_def split: if_splits)
  show ?thesis by (simp add: LoadOrCreate_def assms(5) f hk d l)
qed

text \<open>Upper case decodes as lower case does.\<close>

lemma hex_value_upper:
  "unat n < 16 \<Longrightarrow> hex_value (upper_char (hex_digit n)) = Some n"
proof -
  define k where "k = unat n"
  assume "unat n < 16"
  then have k: "n = of_nat k" "k < 16" by (simp_all add: k_def)
  have u: "[0..<16] = [0, 1, 2, 3, 4, 5, 6, 7, 8, 9, 10, 11, 12, 13, 14, 15::nat]" by code_simp
  have "list_all (\<lambda>k. hex_value (upper_char (hex_digit (of_nat k))) = Some (of_nat k)) [0..<16]"
    unfolding u list.pred_inject by (simp add: hex_digit_def hex_value_def upper_char_def)
  moreover have "k \<in> set [0..<16]" using k(2) by (simp only: set_upt atLeastLessThan_iff zero_le simp_thms)
  ultimately show ?thesis unfolding k(1) list_all_iff by (rule bspec)
qed

lemma upper_hex_round_trip: "hex_decode (to_upper (hex_encode b)) = Some b"
  by (induction b) (simp_all add: hex_encode_def to_upper_def hex_value_upper nibbles)

lemma causal_id_bytes:
  assumes "length pub = 32" and "8 \<le> length (sha256 pub)"
  shows "length (CausalIDFromEd25519Pub sha256 pub) = 25"
    and "hex_decode (take 8 (drop 8 (CausalIDFromEd25519Pub sha256 pub)) @ drop 17 (CausalIDFromEd25519Pub sha256 pub)) =
      Some (take 8 (sha256 pub))"
proof -
  define u where "u = to_upper (hex_encode (take 8 (sha256 pub)))"
  have l: "length u = 16" using assms(2) by (simp add: u_def to_upper_def)
  have s: "length (str ''CID-963-'') = 8" "length (str ''-'') = 1" by (simp_all add: str_def)
  have i: "CausalIDFromEd25519Pub sha256 pub = str ''CID-963-'' @ take 8 u @ str ''-'' @ drop 8 u"
    using assms(1) by (simp add: CausalIDFromEd25519Pub_def u_def Let_def)
  show "length (CausalIDFromEd25519Pub sha256 pub) = 25" by (simp add: i l s)
  have "take 8 (drop 8 (CausalIDFromEd25519Pub sha256 pub)) = take 8 u" "drop 17 (CausalIDFromEd25519Pub sha256 pub) = drop 8 u"
    by (simp_all add: i l s)
  then have "take 8 (drop 8 (CausalIDFromEd25519Pub sha256 pub)) @ drop 17 (CausalIDFromEd25519Pub sha256 pub) = u"
    by (simp only: append_take_drop_id)
  then show "hex_decode (take 8 (drop 8 (CausalIDFromEd25519Pub sha256 pub)) @ drop 17 (CausalIDFromEd25519Pub sha256 pub)) =
      Some (take 8 (sha256 pub))" by (simp only: u_def upper_hex_round_trip)
qed

lemma clamp_bits:
  assumes "length k = 32"
  shows "length (clamp k) = 32" and "clamp (clamp k) = clamp k"
proof -
  have w: "(x AND 127 OR 64) AND 127 OR 64 = x AND 127 OR 64" "(x AND 248) AND 248 = x AND 248" for x :: byte
    by (rule bit_word_eqI; auto simp: bit_and_iff bit_or_iff)+
  show "length (clamp k) = 32" using assms by (simp add: clamp_def Let_def)
  show "clamp (clamp k) = clamp k" using assms w
    by (intro nth_equalityI) (simp_all add: clamp_def Let_def nth_list_update)
qed

section \<open>Properties\<close>

definition demo_key_codecs :: key_codecs where
  "demo_key_codecs = \<lparr>co_b64_encode = (\<lambda>b. b), co_b64_decode = Some, co_marshal = (\<lambda>p. pe_EdPriv p @ pe_EdPub p),
     co_unmarshal = (\<lambda>b. Some \<lparr>pe_Version = 1, pe_EdPriv = take 64 b, pe_EdPub = drop 64 b\<rparr>)\<rparr>"

lemma demo_key_codecs_ok: "key_codecs_ok demo_key_codecs"
  by (simp add: key_codecs_ok_def demo_key_codecs_def)

text \<open>
  The key generated at the first start is the one every later start loads, whatever else happens in
  between, and the load leaves the file alone.
\<close>
theorem generated_key_reloads:
  assumes "key_codecs_ok C" and "ke_seed W = Some seed" and "ed_key E (ed_new_key E seed)"
    and "LoadOrCreate E C W Missing = (f, Inr hk)" and "ke_mkdir W'"
  shows "LoadOrCreate E C W' f = (f, Inr hk)"
  using assms by (rule generated_loads)

theorem generated_key_reloads_witness:
  "\<exists>f hk. LoadOrCreate demo_ed demo_key_codecs \<lparr>ke_mkdir = True, ke_seed = Some [1], ke_write = True\<rparr> Missing = (f, Inr hk) \<and>
    LoadOrCreate demo_ed demo_key_codecs \<lparr>ke_mkdir = True, ke_seed = None, ke_write = False\<rparr> f = (f, Inr hk)"
proof -
  have k: "ed_key demo_ed (ed_new_key demo_ed [1])" by (rule demo_ed_key) simp
  obtain f hk where l: "LoadOrCreate demo_ed demo_key_codecs \<lparr>ke_mkdir = True, ke_seed = Some [1], ke_write = True\<rparr> Missing = (f, Inr hk)"
    by (simp add: LoadOrCreate_def generate_key_def Let_def)
  show ?thesis using l generated_key_reloads [where W' = "\<lparr>ke_mkdir = True, ke_seed = None, ke_write = False\<rparr>", OF demo_key_codecs_ok _ k l]
    by auto
qed

text \<open>
  The stored public key is not compared with the private one: a file whose two halves belong to
  different keys loads, and the agent goes by a Causal ID its signatures do not belong to.
\<close>
theorem mismatched_halves_load:
  assumes "key_codecs_ok C" and "length priv = 64" and "length pub = 32" and "ke_mkdir W"
  shows "let p = \<lparr>pe_Version = 1, pe_EdPriv = co_b64_encode C priv, pe_EdPub = co_b64_encode C pub\<rparr>
    in snd (LoadOrCreate E C W (Content (co_marshal C p))) = Inr \<lparr>hk_EdPublic = pub, hk_EdPrivate = priv\<rparr>"
  using assms by (simp add: key_codecs_ok_def LoadOrCreate_def Let_def)

theorem mismatched_halves_load_witness:
  "snd (LoadOrCreate demo_ed demo_key_codecs \<lparr>ke_mkdir = True, ke_seed = None, ke_write = True\<rparr>
      (Content (co_marshal demo_key_codecs \<lparr>pe_Version = 1, pe_EdPriv = replicate 64 1, pe_EdPub = replicate 32 2\<rparr>))) =
    Inr \<lparr>hk_EdPublic = replicate 32 2, hk_EdPrivate = replicate 64 1\<rparr>"
  using mismatched_halves_load [OF demo_key_codecs_ok, of "replicate 64 1" "replicate 32 2" "\<lparr>ke_mkdir = True, ke_seed = None, ke_write = True\<rparr>" demo_ed]
  by (simp add: Let_def) (simp add: demo_key_codecs_def)

text \<open>
  The Causal ID has 25 characters, and its sixteen digits, in upper case, are the first eight
  bytes of the hash of the key.
\<close>
theorem causal_id_reads_hash:
  assumes "length pub = 32" and "8 \<le> length (sha256 pub)"
  shows "length (CausalIDFromEd25519Pub sha256 pub) = 25 \<and>
    hex_decode (take 8 (drop 8 (CausalIDFromEd25519Pub sha256 pub)) @ drop 17 (CausalIDFromEd25519Pub sha256 pub)) = Some (take 8 (sha256 pub))"
  using causal_id_bytes [where ?sha256.0 = sha256, OF assms] by simp

theorem causal_id_reads_hash_witness:
  "length (CausalIDFromEd25519Pub demo_hash (replicate 32 1)) = 25"
  using causal_id_reads_hash [of "replicate 32 1" demo_hash] by simp

end
