(* ===== verification/Agent_Start.thy ===== *)
theory Agent_Start
  imports Agent_Loop Control_Plane Identity Session Enrolment Histogram
begin

text \<open>
  The start of \<open>run\<close> in cmd/963causal-agent/main.go and what leads to its loop: enrolment, the report of
  the absences the kernel recorded, the two enrolments of the silicon, the session key and the probe
  configuration, the first frame. What the start meets outside is a record of outcomes; the result
  holds what it did outside (\<open>effects\<close>) beside the error or the state the loop begins with. Log
  lines are left out, and of the frame what does not come from digests.
\<close>

section \<open>Absence reports and frames\<close>

record absence_pb =
  ab_DetectedAtMs :: int
  ab_AgentLastSeenMs :: int
  ab_GapSeconds :: f64
  ab_Cpu :: u32
  ab_Flags :: u32
  ab_Comm :: bytes
  ab_LastSeq :: u64

record absence_report =
  ar_HostId :: bytes
  ar_ReportBatchId :: bytes
  ar_DrainedAtMs :: int
  ar_Events :: "absence_pb list"

text \<open>\<open>UnixMilli\<close> rounds down; the gap in seconds is the quotient that \<open>parseAbsence\<close> takes.\<close>

definition UnixMilli :: "int \<Rightarrow> int" where
  "UnixMilli ns = ns div 1000000"

definition absence_to_pb :: "AbsenceEvent \<Rightarrow> absence_pb" where
  "absence_to_pb e =
     \<lparr>ab_DetectedAtMs = UnixMilli (DetectedAt e),
      ab_AgentLastSeenMs = (case AgentLastSeen e of Some t \<Rightarrow> (if \<not> NeverSawPulse e then UnixMilli t else 0) | None \<Rightarrow> 0),
      ab_GapSeconds = fdiv (f_of_int (uint (GapNs e))) (lit (10 ^ 9)),
      ab_Cpu = Cpu e, ab_Flags = Flags e, ab_Comm = Comm e, ab_LastSeq = LastSeq e\<rparr>"

definition randomBatchID :: "bytes \<Rightarrow> bytes" where
  "randomBatchID b = str ''abs_'' @ hex_encode b"

definition buildAbsenceReport :: "bytes \<Rightarrow> bytes \<Rightarrow> int \<Rightarrow> AbsenceEvent list \<Rightarrow> absence_report" where
  "buildAbsenceReport batch hostID now events =
     \<lparr>ar_HostId = hostID, ar_ReportBatchId = randomBatchID batch, ar_DrainedAtMs = UnixMilli now, ar_Events = map absence_to_pb events\<rparr>"

record remote_probe_config =
  pc_EpochSec :: u32
  pc_SyscallProbes :: "string list"

record frame_digests =
  fm_HostId :: bytes
  fm_Sequence :: u64
  fm_SyscallHist :: "hdr list"
  fm_Vertices :: "f64 list"
  fm_Genotype :: "32 word list"

text \<open>\<open>latencies\<close> is \<open>probe.SyscallLatency\<close> with 256 samples.\<close>

definition buildFrame :: "(f64 \<Rightarrow> f64) \<Rightarrow> (string \<Rightarrow> int list) \<Rightarrow> bytes \<Rightarrow> u64 \<Rightarrow> remote_probe_config \<Rightarrow> frame_digests" where
  "buildFrame log1p latencies hostID n pc =
     (let hists = map (\<lambda>sc. fst (Digest (AddAll (NewEpoch sc) (latencies sc)))) (pc_SyscallProbes pc);
          vertices = BuildVertices log1p hists
      in \<lparr>fm_HostId = hostID, fm_Sequence = n, fm_SyscallHist = hists, fm_Vertices = vertices, fm_Genotype = Genotype vertices\<rparr>)"

section \<open>What the start meets and does\<close>

record start_env =
  sv_random :: "bytes option" \<comment> \<open>of \<open>NewECDH\<close>\<close>
  sv_enrolled :: "post_error retry_error + enroll_response"
  sv_open :: bool
  sv_reader :: "read list option" \<comment> \<open>\<open>None\<close>: the reader cannot be opened\<close>
  sv_batch :: bytes
  sv_now :: int
  sv_report :: "post_error + unit"
  sv_pulse :: bool
  sv_puf_supported :: bool
  sv_puf_enrolled :: "bool option"
  sv_puf_measured :: bool
  sv_puf_posted :: "post_error + unit"
  sv_puf_marked :: bool
  sv_key_supported :: bool
  sv_key_loaded :: "key_state option option" \<comment> \<open>\<open>None\<close>: error; \<open>Some None\<close>: no file\<close>
  sv_key_enrolled :: "enroll_key_error + key_state"
  sv_key_posted :: "post_error + unit"
  sv_key_saved :: bool

record effects =
  ef_report :: "absence_report option" \<comment> \<open>the report the control plane took\<close>
  ef_pulsed :: bool
  ef_marked :: bool
  ef_saved :: "key_state option"

datatype start_error =
    St_ecdh
  | St_enroll "post_error retry_error"
  | St_shared
  | St_decrypt session_error
  | St_config

record session_state =
  ss_HostId :: bytes
  ss_AgentToken :: bytes
  ss_CausalID :: bytes
  ss_sentinel :: bool
  ss_pufKey :: "key_state option"
  ss_sessionKey :: bytes
  ss_probeCfg :: remote_probe_config
  ss_epoch :: int
  ss_heartbeat :: int
  ss_grace :: int

text \<open>The sentinel: whether it is open, the report taken, the pulse; \<open>None\<close> while the drain blocks.\<close>

definition drained :: "start_env \<Rightarrow> (AbsenceEvent list \<times> bool) option" where
  "drained W = (case sv_reader W of None \<Rightarrow> Some ([], True)
     | Some rs \<Rightarrow> map_option (\<lambda>(events, err). (events, err \<noteq> None)) (DrainAbsences rs))"

definition sentinel_stage :: "start_env \<Rightarrow> bytes \<Rightarrow> (bool \<times> absence_report option \<times> bool) option" where
  "sentinel_stage W hostID =
     (if \<not> sv_open W then Some (False, None, False)
      else (case drained W of
         None \<Rightarrow> None
       | Some (events, failed) \<Rightarrow>
           Some (True,
             if failed then None
             else if events \<noteq> [] then
               (case sv_report W of Inl _ \<Rightarrow> None
                | Inr _ \<Rightarrow> Some (buildAbsenceReport (sv_batch W) hostID (sv_now W) events))
             else None,
             sv_pulse W)))"

text \<open>Whether the marker file is written.\<close>

definition puf_stage :: "start_env \<Rightarrow> bool" where
  "puf_stage W =
     (if \<not> sv_puf_supported W then False
      else case sv_puf_enrolled W of
        None \<Rightarrow> False
      | Some True \<Rightarrow> False
      | Some False \<Rightarrow>
          (if \<not> sv_puf_measured W then False
           else case sv_puf_posted W of Inl _ \<Rightarrow> False | Inr _ \<Rightarrow> sv_puf_marked W))"

text \<open>The key state the loop proves with, and the one that is written to the file.\<close>

definition key_stage :: "start_env \<Rightarrow> key_state option \<times> key_state option" where
  "key_stage W =
     (if \<not> sv_key_supported W then (None, None)
      else case sv_key_loaded W of
        None \<Rightarrow> (None, None)
      | Some (Some state) \<Rightarrow> (Some state, None)
      | Some None \<Rightarrow>
          (case sv_key_enrolled W of
             Inl _ \<Rightarrow> (None, None)
           | Inr new \<Rightarrow>
               (case sv_key_posted W of
                  Inl _ \<Rightarrow> (None, None)
                | Inr _ \<Rightarrow> if \<not> sv_key_saved W then (None, None) else (Some new, Some new))))"

section \<open>The start\<close>

record start_params =
  sp_basemul :: "bytes \<Rightarrow> bytes option"
  sp_mul :: "bytes \<Rightarrow> bytes \<Rightarrow> bytes option"
  sp_kdf :: kdf
  sp_aead :: aead
  sp_sha256 :: hash
  sp_unmarshal :: "bytes \<Rightarrow> remote_probe_config option"

definition session_stage :: "start_params \<Rightarrow> bytes \<Rightarrow> ecdh_key \<Rightarrow> enroll_response \<Rightarrow> start_error + bytes \<times> remote_probe_config" where
  "session_stage P licenseKey ecdh resp =
     (case SharedSecret (sp_mul P) ecdh (er_ServerX25519Pub resp) of
        None \<Rightarrow> Inl St_shared
      | Some shared \<Rightarrow>
          let sessionKey = DeriveSessionKey (sp_kdf P) shared (er_HostId resp) licenseKey in
          bind_r (wrap_err St_decrypt (Decrypt (sp_aead P) sessionKey (er_PayloadNonce resp) (er_EncryptedPayload resp))) (\<lambda>plain.
            case sp_unmarshal P plain of None \<Rightarrow> Inl St_config | Some probeCfg \<Rightarrow> Inr (sessionKey, probeCfg)))"

text \<open>An interval of the server in nanoseconds; its seconds are unsigned.\<close>

definition interval :: "u32 \<Rightarrow> int \<Rightarrow> int" where
  "interval sec dflt = (let d = uint sec * 1000000000 in if d \<le> 0 then dflt else d)"

definition no_effects :: effects where
  "no_effects = \<lparr>ef_report = None, ef_pulsed = False, ef_marked = False, ef_saved = None\<rparr>"

definition run_start :: "start_params \<Rightarrow> config \<Rightarrow> host_key \<Rightarrow> start_env \<Rightarrow> (effects \<times> (start_error + session_state)) option" where
  "run_start P cfg hk W =
     (case NewECDH (sp_basemul P) (sv_random W) of
        None \<Rightarrow> Some (no_effects, Inl St_ecdh)
      | Some ecdh \<Rightarrow>
          (case sv_enrolled W of
             Inl e \<Rightarrow> Some (no_effects, Inl (St_enroll e))
           | Inr resp \<Rightarrow>
               let localCID = CausalIDFromEd25519Pub (sp_sha256 P) (hk_EdPublic hk);
                   cid = (if er_CausalId resp = [] then localCID else er_CausalId resp)
               in (case sentinel_stage W (er_HostId resp) of
                  None \<Rightarrow> None
                | Some (sent, rep, pulsed) \<Rightarrow>
                    let (pufKey, saved) = key_stage W in
                    Some (\<lparr>ef_report = rep, ef_pulsed = pulsed, ef_marked = puf_stage W, ef_saved = saved\<rparr>,
                      bind_r (session_stage P (cf_LicenseKey cfg) ecdh resp) (\<lambda>(sessionKey, probeCfg).
                        Inr \<lparr>ss_HostId = er_HostId resp, ss_AgentToken = er_AgentToken resp, ss_CausalID = cid, ss_sentinel = sent,
                          ss_pufKey = pufKey, ss_sessionKey = sessionKey, ss_probeCfg = probeCfg,
                          ss_epoch = interval (pc_EpochSec probeCfg) (10 * 1000000000),
                          ss_heartbeat = interval (er_HeartbeatIntervalSec resp) (60 * 1000000000),
                          ss_grace = uint (er_GracePeriodSec resp)\<rparr>)))))"

text \<open>
  The first frame, then the loop, whose first contact is its own beginning at \<open>t0\<close>; with \<open>once\<close> the
  program ends before it without an error, as at a shutdown. The first proof between them leaves no
  trace in the state.
\<close>

definition run_loop :: "session_state \<Rightarrow> bool \<Rightarrow> ship_outcome \<Rightarrow> int \<Rightarrow> event list \<Rightarrow> exit_reason option \<times> loop_state" where
  "run_loop ss once first t0 es =
     (let s = snd (ship first \<lparr>lp_sequence = 0, lp_lastContact = t0, lp_frames = [], lp_beats = [], lp_pulses = []\<rparr>) in
      if once then (Some Shutdown, s)
      else main_loop \<lparr>lp_GracePeriodSec = ss_grace ss, lp_sentinel = ss_sentinel ss, lp_pufKey = ss_pufKey ss \<noteq> None\<rparr> es s)"

section \<open>Lemmas\<close>

lemma run_start_Some:
  "run_start P cfg hk W = Some (eff, Inr ss) \<longleftrightarrow>
     (\<exists>ecdh resp sent rep pulsed key pc.
        NewECDH (sp_basemul P) (sv_random W) = Some ecdh \<and> sv_enrolled W = Inr resp \<and>
        sentinel_stage W (er_HostId resp) = Some (sent, rep, pulsed) \<and>
        session_stage P (cf_LicenseKey cfg) ecdh resp = Inr (key, pc) \<and>
        eff = \<lparr>ef_report = rep, ef_pulsed = pulsed, ef_marked = puf_stage W, ef_saved = snd (key_stage W)\<rparr> \<and>
        ss = \<lparr>ss_HostId = er_HostId resp, ss_AgentToken = er_AgentToken resp,
          ss_CausalID = (if er_CausalId resp = [] then CausalIDFromEd25519Pub (sp_sha256 P) (hk_EdPublic hk) else er_CausalId resp),
          ss_sentinel = sent, ss_pufKey = fst (key_stage W), ss_sessionKey = key, ss_probeCfg = pc,
          ss_epoch = interval (pc_EpochSec pc) (10 * 1000000000),
          ss_heartbeat = interval (er_HeartbeatIntervalSec resp) (60 * 1000000000), ss_grace = uint (er_GracePeriodSec resp)\<rparr>)"
  by (auto simp: run_start_def Let_def bind_r_def split_beta split: option.splits sum.splits)

lemma session_stage_Inr:
  "session_stage P lic ecdh resp = Inr (key, pc) \<longleftrightarrow>
     (\<exists>shared plain. SharedSecret (sp_mul P) ecdh (er_ServerX25519Pub resp) = Some shared \<and>
        key = DeriveSessionKey (sp_kdf P) shared (er_HostId resp) lic \<and>
        Decrypt (sp_aead P) key (er_PayloadNonce resp) (er_EncryptedPayload resp) = Inr plain \<and> sp_unmarshal P plain = Some pc)"
  by (auto simp: session_stage_def Let_def bind_r_def wrap_err_def split: option.splits sum.splits)

text \<open>Of the sentinel's outcomes only those that the stage reads matter to the rest.\<close>

lemma run_start_cong:
  assumes "\<And>h. sentinel_stage W h = sentinel_stage W' h" and "sv_random W' = sv_random W" and "sv_enrolled W' = sv_enrolled W"
    and "puf_stage W' = puf_stage W" and "key_stage W' = key_stage W"
  shows "run_start P cfg hk W' = run_start P cfg hk W"
  unfolding run_start_def assms by (rule refl)

text \<open>A frame has eight digests' places for vertices, whatever the probes.\<close>

lemma length_vertices: "length (BuildVertices log1p hists) = 24"
proof -
  have "length (concat (map (\<lambda>h. [log1p (hh_P50Ns h), log1p (hh_P90Ns h), log1p (hh_P99Ns h)]) xs)) = 3 * length xs" for xs :: "hdr list"
    by (induction xs) simp_all
  then show ?thesis by (simp add: BuildVertices_def)
qed

text \<open>A start in which only the sentinel and the enrolment work, for the witnesses.\<close>

definition demo_params :: start_params where
  "demo_params = \<lparr>sp_basemul = Some, sp_mul = (\<lambda>_ _. None), sp_kdf = (\<lambda>_ _ _ n. replicate n 0), sp_aead = demo_aead,
     sp_sha256 = demo_hash, sp_unmarshal = (\<lambda>_. None)\<rparr>"

definition demo_start :: "read list \<Rightarrow> post_error + unit \<Rightarrow> start_env" where
  "demo_start rs posted = \<lparr>sv_random = Some (replicate 32 0), sv_enrolled = Inr \<lparr>er_HostId = [104], er_AgentToken = [], er_ServerX25519Pub = [],
     er_EncryptedPayload = [], er_PayloadNonce = [], er_HeartbeatIntervalSec = 0, er_FrameEpochSec = 0, er_GracePeriodSec = 0,
     er_CausalId = []\<rparr>, sv_open = True, sv_reader = Some rs, sv_batch = [], sv_now = 0, sv_report = posted, sv_pulse = True,
     sv_puf_supported = False, sv_puf_enrolled = None, sv_puf_measured = False, sv_puf_posted = Inr (), sv_puf_marked = False,
     sv_key_supported = False, sv_key_loaded = None, sv_key_enrolled = Inl Ek_context, sv_key_posted = Inr (), sv_key_saved = False\<rparr>"

definition demo_records :: "absence_event list" where
  "demo_records = ring demo_view (snd (check_pulse_cb (demo_helpers 4)
     ((demo_state 200000000000)\<lparr>d_timer := (d_timer (demo_state 200000000000))\<lparr>armed := False\<rparr>\<rparr>)))"

lemma demo_records_seq: "map last_seq demo_records = [9]"
  unfolding demo_records_def check_pulse_cb_effect(1) [OF demo_ok]
  by (simp add: appended_def agent_pulse_def event_of_def reserved_def absent_def
      demo_state_def demo_pulse_def demo_simps PULSE_TIMEOUT_NS_def NSEC_PER_SEC_def)

section \<open>Properties\<close>

text \<open>
  The start is best effort in everything but the session: it comes to the loop exactly when the key
  pair is made, the host is enrolled, the drain returns and the probe configuration opens under the
  session key. Whether the sentinel loads, the absences are taken or the silicon is enrolled decides
  nothing.
\<close>

theorem start_reaches_loop_iff:
  "(\<exists>eff ss. run_start P cfg hk W = Some (eff, Inr ss)) \<longleftrightarrow>
     (\<exists>ecdh resp pc shared plain. NewECDH (sp_basemul P) (sv_random W) = Some ecdh \<and> sv_enrolled W = Inr resp \<and>
        (sv_open W \<longrightarrow> drained W \<noteq> None) \<and> SharedSecret (sp_mul P) ecdh (er_ServerX25519Pub resp) = Some shared \<and>
        Decrypt (sp_aead P) (DeriveSessionKey (sp_kdf P) shared (er_HostId resp) (cf_LicenseKey cfg))
          (er_PayloadNonce resp) (er_EncryptedPayload resp) = Inr plain \<and> sp_unmarshal P plain = Some pc)"
proof -
  have stage: "(\<exists>sent rep pulsed. sentinel_stage W h = Some (sent, rep, pulsed)) \<longleftrightarrow> (sv_open W \<longrightarrow> drained W \<noteq> None)" for h
    by (auto simp: sentinel_stage_def split: option.splits)
  have "(\<exists>eff ss. run_start P cfg hk W = Some (eff, Inr ss)) \<longleftrightarrow>
      (\<exists>ecdh resp. NewECDH (sp_basemul P) (sv_random W) = Some ecdh \<and> sv_enrolled W = Inr resp \<and>
        (\<exists>sent rep pulsed. sentinel_stage W (er_HostId resp) = Some (sent, rep, pulsed)) \<and>
        (\<exists>key pc. session_stage P (cf_LicenseKey cfg) ecdh resp = Inr (key, pc)))"
    unfolding run_start_Some by (auto split del: if_split)
  then show ?thesis unfolding stage session_stage_Inr by simp
qed

text \<open>
  C9: What the kernel recorded while the agent was away reaches the control plane at its next start: if
  the host is enrolled and the upload succeeds, the report the control plane takes lists every record
  the sentinel left in the ring buffer, in order and none twice, with its sequence number, and no
  event of it claims to have seen the agent within the time-out.
\<close>

theorem absences_reach_control_plane:
  assumes "bpf_ok H V" and "sentinel_run H V k k'" and "ring V k = []" and "ring V k' \<noteq> []"
    and "NewECDH (sp_basemul P) (sv_random W) \<noteq> None" and "sv_enrolled W = Inr resp" and "sv_open W"
    and "sv_reader W = Some (map (\<lambda>e. Sample (event_bytes e) now mon) (ring V k') @ [DeadlineExceeded])"
    and "sv_report W = Inr ()"
  shows "\<exists>eff out rep. run_start P cfg hk W = Some (eff, out) \<and> ef_report eff = Some rep \<and> ar_HostId rep = er_HostId resp \<and>
    map ab_LastSeq (ar_Events rep) = map last_seq (ring V k') \<and> map ab_Cpu (ar_Events rep) = map cpu (ring V k') \<and>
    ar_Events rep = map (absence_to_pb \<circ> absence_of now mon) (ring V k') \<and>
    list_all (\<lambda>e. NeverSawPulse (absence_of now mon e) \<or> PULSE_TIMEOUT_NS < GapNs (absence_of now mon e)) (ring V k')"
proof -
  note g = tested_drained [OF run_leaves_tested [OF assms(1-3)], of now mon]
  let ?rep = "buildAbsenceReport (sv_batch W) (er_HostId resp) (sv_now W) (map (absence_of now mon) (ring V k'))"
  have "drained W = Some (map (absence_of now mon) (ring V k'), False)"
    using g by (simp add: drained_def assms(8))
  then have "sentinel_stage W (er_HostId resp) = Some (True, Some ?rep, sv_pulse W)"
    by (simp add: sentinel_stage_def assms)
  then obtain eff out where "run_start P cfg hk W = Some (eff, out)" and "ef_report eff = Some ?rep"
    using assms(5) by (auto simp: run_start_def assms(6) Let_def split_beta)
  moreover have "map ab_LastSeq (ar_Events ?rep) = map last_seq (ring V k')" "map ab_Cpu (ar_Events ?rep) = map cpu (ring V k')"
    by (simp_all add: buildAbsenceReport_def absence_to_pb_def absence_of_def Let_def)
  ultimately show ?thesis using g by (auto simp: buildAbsenceReport_def list_all_iff)
qed

theorem absences_reach_control_plane_witness:
  "\<exists>eff out rep. run_start demo_params DefaultConfig \<lparr>hk_EdPublic = [], hk_EdPrivate = []\<rparr>
     (demo_start (map (\<lambda>e. Sample (event_bytes e) 0 0) demo_records @ [DeadlineExceeded]) (Inr ())) = Some (eff, out) \<and>
   ef_report eff = Some rep \<and> map ab_LastSeq (ar_Events rep) = [9]"
proof -
  let ?W = "demo_start (map (\<lambda>e. Sample (event_bytes e) 0 0) demo_records @ [DeadlineExceeded]) (Inr ())"
  have "demo_records \<noteq> []" "NewECDH (sp_basemul demo_params) (sv_random ?W) \<noteq> None" "ring demo_view (demo_state 200000000000) = []"
    using demo_records_seq by (auto simp: NewECDH_def demo_params_def demo_start_def demo_view_def demo_state_def)
  from absences_reach_control_plane [OF demo_ok demo_run this(3), folded demo_records_def, OF this(1,2), where resp = "projr (sv_enrolled ?W)"
      and cfg = DefaultConfig and hk = "\<lparr>hk_EdPublic = [], hk_EdPrivate = []\<rparr>" and now = 0 and mon = 0]
  show ?thesis unfolding demo_records_seq by (auto simp: demo_start_def)
qed

text \<open>
  C11: Absences that are drained and not taken are gone. If the upload fails, or the reader fails after
  some records, the start goes on exactly as if the kernel had recorded nothing: the records have left
  the ring buffer, and nothing of them is kept for another attempt.
\<close>

theorem unreported_absences_lost:
  assumes "sv_reader W = Some (map (\<lambda>(raw, now, mon). Sample raw now mon) samples @ e # rest)"
    and "sv_report W = Inl err \<and> (e = DeadlineExceeded \<or> e = Reader_closed) \<or> e = Read_failed"
  shows "run_start P cfg hk W = run_start P cfg hk (W\<lparr>sv_reader := Some [DeadlineExceeded]\<rparr>)"
proof (rule run_start_cong)
  have "is_sample ((\<lambda>(raw, now, mon). Sample raw now mon) x)" for x by (cases x) simp
  then have "dropWhile is_sample (map (\<lambda>(raw, now, mon). Sample raw now mon) samples @ e # rest) = e # rest"
    using assms(2) by (subst dropWhile_append2) (auto simp del: split_paired_Ex)
  then have d: "\<exists>events. drained W = Some (events, e = Read_failed)"
    by (auto simp: drained_def assms(1) DrainAbsences_def drain_loop_result)
  have d': "drained (W\<lparr>sv_reader := Some [DeadlineExceeded]\<rparr>) = Some ([], False)"
    by (simp add: drained_def DrainAbsences_def)
  show "sentinel_stage (W\<lparr>sv_reader := Some [DeadlineExceeded]\<rparr>) h = sentinel_stage W h" for h
    using d d' assms(2) by (auto simp: sentinel_stage_def)
qed (simp_all add: puf_stage_def key_stage_def cong: option.case_cong sum.case_cong bool.case_cong if_cong)

theorem unreported_absences_lost_witness:
  "run_start demo_params DefaultConfig \<lparr>hk_EdPublic = [], hk_EdPrivate = []\<rparr>
     (demo_start [Sample (event_bytes left_over) 0 0, DeadlineExceeded] (Inl Po_read)) =
   run_start demo_params DefaultConfig \<lparr>hk_EdPublic = [], hk_EdPrivate = []\<rparr> (demo_start [DeadlineExceeded] (Inl Po_read))"
  using unreported_absences_lost [of "demo_start [Sample (event_bytes left_over) 0 0, DeadlineExceeded] (Inl Po_read)"
      "[(event_bytes left_over, 0, 0)]" DeadlineExceeded "[]" Po_read]
  by (simp add: demo_start_def)

text \<open>The frames of a whole run are numbered from one, the first one before the loop included.\<close>

theorem run_frames_numbered:
  assumes "run_loop ss once first t0 es = (r, s)"
  shows "lp_frames s = map (\<lambda>i. of_nat (Suc i)) [0..<length (lp_frames s)]"
proof -
  let ?s = "snd (ship first \<lparr>lp_sequence = 0, lp_lastContact = t0, lp_frames = [], lp_beats = [], lp_pulses = []\<rparr>)"
  have n: "numbered ?s" by (simp add: numbered_def ship_def Let_def)
  have "numbered s"
  proof (cases once)
    case True
    then show ?thesis using n assms by (auto simp: run_loop_def Let_def)
  next
    case False
    then show ?thesis using main_loop_numbered [OF n] assms by (auto simp: run_loop_def Let_def)
      (metis snd_conv)
  qed
  then show ?thesis by (simp add: numbered_def)
qed

text \<open>A key the agent proves with was loaded, or was enrolled, taken by the control plane and saved.\<close>

lemma proof_key_saved:
  assumes "run_start P cfg hk W = Some (eff, Inr ss)" and "ss_pufKey ss = Some st"
  shows "sv_key_loaded W = Some (Some st) \<or> sv_key_posted W = Inr () \<and> ef_saved eff = Some st"
  using assms by (auto simp: run_start_Some key_stage_def split: if_splits option.splits sum.splits)

end
