(* ===== verification/Spec2Isabelle.thy ===== *)
theory Spec2Isabelle
  imports Envelope Fuzzy Puf_Ring Roster_Chain Daq Ear Rebirth Teb License Lbs Session Probe_Witness Sentinel_Memory Sentinel_Race
    Sentinel_Objects Enrolment Cusum Compare_Bits Histogram Verifier Agent_Start
begin

text \<open>
  Verification library for the host agent.

  The program. A host agent attests the machine it runs on. Its parts that carry logic of their own,
  and the theories that model them:

  \<^item> The kernel sentinel (src/internal/sentinel/bpf/sentinel.c with the kernel types of vmlinux.h
    beside it) is a BPF program that outlives the agent: a kernel timer runs \<open>check_pulse_cb\<close>
    every 30 s, which looks up the agent's last heartbeat in \<open>pulse_map\<close> and records an
    \<open>absence_event\<close> in \<open>absence_ringbuf\<close> when it is missing or older than 120 s.
    src/internal/sentinel/sentinel.go loads and starts it, writes the heartbeats and drains the
    records after a restart. \<open>Sentinel\<close> is the C program, function by function;
    \<open>Sentinel_System\<close> the step relation of program, kernel and agent with its invariants;
    \<open>Sentinel_Agent\<close> the agent's side; \<open>Sentinel_Abi\<close> the facts that join the program to the
    header's types; \<open>Sentinel_Memory\<close> the assignments of \<open>emit_absence\<close> as stores into memory;
    \<open>Sentinel_Race\<close> the callback access by access, among atomic updates of the map by the
    agent; \<open>Sentinel_Objects\<close> the kernel objects behind the timer and the
    command name of a record.
  \<^item> \<open>C_Layout\<close> is the language of C types and the layout the compiler gives them;
    \<open>Vmlinux_Enums\<close>, \<open>Vmlinux_Helpers\<close>, \<open>Vmlinux_Base\<close>, \<open>Vmlinux_Uapi\<close>, \<open>Vmlinux_Net\<close>,
    \<open>Vmlinux_Prog\<close>, \<open>Vmlinux_Map\<close> and \<open>Vmlinux_Ctx\<close> hold the types of vmlinux.h that belong
    to the BPF subsystem (a name with bpf, or an enumeration with a BPF constant) and whatever
    they contain by value, one definition per declaration: \<open>struct_x\<close>, \<open>union_x\<close>,
    \<open>enum_x\<close> (an anonymous one by its first constant) and \<open>typedef_x\<close>. \<open>Vmlinux_Kern\<close>,
    \<open>Vmlinux_Task\<close>, \<open>Vmlinux_Fs\<close>, \<open>Vmlinux_Dev\<close>, \<open>Vmlinux_Trace\<close>, \<open>Vmlinux_Netns\<close> and
    \<open>Vmlinux_Sock\<close> hold the kernel objects these point to, three pointers deep, with what
    they contain by value.
  \<^item> The quorum protocol (src/internal/daq): an agent has k of n witnesses sign an operation together
    with a fresh drand beacon. \<open>Protocol\<close> is protocol.go, \<open>Bls\<close> bls.go, \<open>Drand\<close> drand.go and
    drand_verify.go (with \<open>Hex\<close> for encoding/hex), \<open>Witness\<close> the handler of witness.go,
    \<open>Client\<close> client.go, \<open>Daq\<close> the properties across them, \<open>Roster_Chain\<close> roster_chain.go.
    \<open>Verifier\<close> is the service src/cmd/daq-verifier, which runs a round and checks stored tickets.
  \<^item> The quorum envelope (src/internal/qee): \<open>GF256\<close>, \<open>Lagrange\<close> and \<open>Shamir\<close> are shamir.go,
    \<open>Envelope\<close> is envelope.go.
  \<^item> The silicon-bound key (src/internal/puf): \<open>Hamming\<close> is hamming.go and the bit packing,
    \<open>Fuzzy\<close> is fuzzy.go and the key proof of keylife.go, \<open>Puf_Ring\<close> the pointer chase of ring.go.
    \<open>Float64\<close> is the arithmetic of the language's doubles; over it \<open>Puf_Stats\<close> is the summaries of
    types.go and fingerprint.go, \<open>Quantise\<close> the three quantisers and the choice of reliable bits,
    \<open>Enrolment\<close> the enrolment of the key (keylife.go), \<open>Baseline\<close> baseline.go, \<open>Compare_Bits\<close>
    compare.go and \<open>Cusum\<close> the drift detector of cusum.go.
  \<^item> The sealed blobs (src/internal/teb): \<open>Teb\<close> is the sampling of the timing and the key derivation,
    sealing and opening.
  \<^item> The rebirth protocol (src/internal/rebirth): \<open>Rebirth\<close> is phoenix.go, from the operators'
    request over the witnesses' attestations to the lineage a successor presents.
  \<^item> The certificate of the silicon key (src/internal/siliconcert) is \<open>Silicon_Cert\<close>; the signed
    evidence that carries it (src/internal/earpack) is \<open>Ear\<close>; of the client of the control plane
    (src/internal/license) \<open>License\<close> is the retry loop and \<open>Control_Plane\<close> the requests.
  \<^item> \<open>Lbs\<close> is the distributed signing of src/internal/lbs, \<open>Session\<close> the session key of
    src/internal/payload, \<open>Probe_Witness\<close> the beacon a frame carries (src/internal/probe/witness.go).
  \<^item> \<open>Agent_Start\<close> is the start and \<open>Agent_Loop\<close> the loop of the agent itself (\<open>run\<close> of
    src/cmd/963causal-agent), which drives all of these; \<open>Identity\<close> is the host key, the Causal ID and the configuration (src/internal/identity,
    src/internal/config), \<open>Histogram\<close> the digests of a frame and their genotype
    (src/internal/histogram, src/internal/sculpture).

  \<open>Prelude\<close> has the shared vocabulary (bytes, big-endian writers, guards, errors as sums, the
  locales \<open>prefix_code\<close>, \<open>prefix_pair\<close> and \<open>distinct_loop\<close>) and \<open>Crypto\<close> the primitives of
  third-party packages as records of functions with their documented laws.

  Conventions. Machine integers are words, Go's int and C's constants are int where they cannot
  wrap. Doubles are rationals rounded half to even after every operation, not fused, with the
  infinities, one NaN and one zero; NaN sorts first. Logarithms are parameters. Errors are \<open>Inl\<close> values with a constructor per error return. Code outside the
  repository is a parameter: the BPF helpers and the kernel (\<open>helpers\<close>, \<open>view\<close>, \<open>bpf_ok\<close>),
  kyber (\<open>kyber\<close>, \<open>kyber_ok\<close>), Ed25519, AEAD, NaCl boxes, hashes, HTTP, JSON, YAML, clocks, randomness. Every
  law that a property assumes is met by an instance its witness uses. The codecs of documents are
  assumed to be faithful for valid UTF-8 only, as encoding/json and cbor are; an allocation of samples succeeds
  up to a capacity that is a parameter, and panics beyond. Loops are structural
  recursions or bounded by a list, so no fuel is needed, but for two that need not end: the drain
  loop returns None while the reader still blocks, and the sampling loop of \<open>Teb\<close>, whose guard
  can wrap around, is a partial function whose value None means that it does not return; where
  each returns is shown.

  What is shown. Of the sentinel: the exact effect of the callback on every branch; the timer survives
  every sequence of steps and every record stems from a firing at which the pulse was missing, too
  old or ahead of the clock (by induction on the step relation); in every timed run without steps
  of the agent the silence is recorded within timeout, period and delay, and not before; no unwritten byte reaches the buffer; the codes of
  \<open>start_timer\<close>; record layout, timer storage, ring buffer pages, map kinds and helper numbers
  against the header; and that what the kernel records is what the agent reports. Of the
  protocol: when collected tickets verify, what a witness signs and how near the round of its beacon is
  to the one due, what the encodings determine, the freshness window. Of the roster chain: acceptance against its specification and quorum of
  every transition. Of envelope and key: reconstruction from any k shares, integrity of opened
  envelopes, correction of one flipped bit per block. Of the callback among concurrent updates: it
  is through after at most eleven accesses and records what one look at the map and the clock gives. Of rebirth: an accepted
  lineage is exactly one whose every record carries both quorums, none before its cool-down unless
  that wraps, honest parties complete a
  rebirth, and where the checks are weaker than the protocol's text says. Of blobs and evidence:
  sealed blobs open again, a window is sampled completely or the allocation panics, documents with
  valid texts (\<open>Utf8\<close>) return their certificate. Of the distributed key: any quorum
  of an enrolment signs, and so does whoever holds its seed. Of the timing statistics: an enrolled
  host proves possession from a fresh measurement; a report against a baseline is determined cell by cell, and its verdict is the documented policy; a calibrated detector resets to its calibration, ignores one flip of a bit and
  reports the second; the limits of the bit comparison are exact; and where the residual buckets,
  the square root and the comparison of cells go wrong. Of the service: what it executes it
  verifies. Of the agent: the absences of a run of
  the kernel program reach the control plane at the next start, or are lost when that upload fails;
  its loop runs as long as some exchange succeeded within the grace period,
  its frames are numbered without gaps, and three deliveries to a control plane that does not
  answer make the kernel record an absence of a living agent.

  Layout rules. Sizes and alignments are those of clang for the target bpf (LP64, natural
  alignment of scalars, bit-fields within the unit of their type, unnamed ones not raising the
  alignment). The flexible arrays of the header are arrays of length 0. \<open>info_x\<close> gives size and
  alignment of every type; the laws of \<open>C_Layout\<close> hold for all of them.

  Not modelled. The kernel types more than three pointers away from every BPF type; loading and
  pinning of BPF objects; the schedule of a measurement and the pinning of threads; reading of
  hardware identifiers and cycle counters; files beyond their content; of a frame what does not come
  from digests; the command of the witness and the smoke-test programs; generated code.
\<close>

end
